(* ===== verification/Amvp_Prelude.thy ===== *)
theory Amvp_Prelude
  imports Main "HOL-Library.Word"
begin

text \<open>
  The prelude of the development: the library's result codes and log levels
  (\<^verbatim>\<open>include/amvp/amvp.h\<close>), the shape of a C call (a returned result code together with
  the state after the call, or undefined behaviour), the allocator and callback types,
  32-bit wrap-around, the C remainder, and the generic lemmas on lists that the
  components share.
\<close>

section \<open>Collections of facts\<close>

named_theorems outcome_simps \<open>rewriting a call into its branches\<close>
named_theorems api_defs \<open>the definitions of the public operations\<close>
named_theorems cap_inv \<open>what every registry operation keeps\<close>

section \<open>Result codes and log levels\<close>

datatype AMVP_RESULT =
    AMVP_SUCCESS | AMVP_MALLOC_FAIL | AMVP_NO_CTX | AMVP_TRANSPORT_FAIL
  | AMVP_PROTOCOL_RSP_ERR | AMVP_NO_DATA | AMVP_UNSUPPORTED_OP | AMVP_CLEANUP_FAIL
  | AMVP_KAT_DOWNLOAD_RETRY | AMVP_RETRY_OPERATION | AMVP_INVALID_ARG | AMVP_MISSING_ARG
  | AMVP_CRYPTO_MODULE_FAIL | AMVP_NO_CAP | AMVP_MALFORMED_JSON | AMVP_JSON_ERR
  | AMVP_TC_MISSING_DATA | AMVP_TC_INVALID_DATA | AMVP_DATA_TOO_LARGE
  | AMVP_CONVERT_DATA_ERR | AMVP_DUP_CIPHER | AMVP_TOTP_FAIL | AMVP_CTX_NOT_EMPTY
  | AMVP_JWT_MISSING | AMVP_JWT_EXPIRED | AMVP_JWT_INVALID | AMVP_INTERNAL_ERR

datatype AMVP_LOG_LVL =
    AMVP_LOG_LVL_NONE | AMVP_LOG_LVL_ERR | AMVP_LOG_LVL_WARN | AMVP_LOG_LVL_STATUS
  | AMVP_LOG_LVL_INFO | AMVP_LOG_LVL_VERBOSE | AMVP_LOG_LVL_DEBUG | AMVP_LOG_LVL_MAX

text \<open>Log levels are compared with \<^verbatim>\<open>>=\<close> in the code; their order is the order of the enum.\<close>

primrec log_lvl_code :: "AMVP_LOG_LVL \<Rightarrow> nat" where
  "log_lvl_code AMVP_LOG_LVL_NONE = 0"
| "log_lvl_code AMVP_LOG_LVL_ERR = 1"
| "log_lvl_code AMVP_LOG_LVL_WARN = 2"
| "log_lvl_code AMVP_LOG_LVL_STATUS = 3"
| "log_lvl_code AMVP_LOG_LVL_INFO = 4"
| "log_lvl_code AMVP_LOG_LVL_VERBOSE = 5"
| "log_lvl_code AMVP_LOG_LVL_DEBUG = 6"
| "log_lvl_code AMVP_LOG_LVL_MAX = 7"

lemma log_lvl_code_inject: "log_lvl_code a = log_lvl_code b \<longleftrightarrow> a = b"
  by (cases a; cases b) simp_all

instantiation AMVP_LOG_LVL :: linorder
begin

definition less_eq_AMVP_LOG_LVL :: "AMVP_LOG_LVL \<Rightarrow> AMVP_LOG_LVL \<Rightarrow> bool" where
  "less_eq_AMVP_LOG_LVL a b \<longleftrightarrow> log_lvl_code a \<le> log_lvl_code b"

definition less_AMVP_LOG_LVL :: "AMVP_LOG_LVL \<Rightarrow> AMVP_LOG_LVL \<Rightarrow> bool" where
  "less_AMVP_LOG_LVL a b \<longleftrightarrow> log_lvl_code a < log_lvl_code b"

instance
  by standard (auto simp: less_eq_AMVP_LOG_LVL_def less_AMVP_LOG_LVL_def log_lvl_code_inject)

end

section \<open>C calls\<close>

text \<open>
  A call either returns a result code and leaves a state, or runs into undefined
  behaviour of C: a null pointer is dereferenced, a member of a union is used that is not
  the one last stored, an integer is divided by zero, memory is used that lies outside an
  object, was freed or never initialised, or a floating-point number is converted to an
  integer type that cannot hold it.
\<close>

datatype ub = Null_Deref | Bad_Union | Div_Zero | Out_Of_Bounds | Freed_Memory | Uninitialised | Bad_Conversion

datatype 'a outcome = Ret AMVP_RESULT 'a | UB ub

primrec map_outcome_state :: "('a \<Rightarrow> 'b) \<Rightarrow> 'a outcome \<Rightarrow> 'b outcome" where
  "map_outcome_state f (Ret rv s) = Ret rv (f s)"
| "map_outcome_state f (UB u) = UB u"

text \<open>The first lines of nearly every public function: a null context is \<^const>\<open>AMVP_NO_CTX\<close>.\<close>

definition with_ctx :: "'c option \<Rightarrow> ('c \<Rightarrow> 'c outcome) \<Rightarrow> 'c option outcome" where
  "with_ctx octx f =
     (case octx of None \<Rightarrow> Ret AMVP_NO_CTX None | Some ctx \<Rightarrow> map_outcome_state Some (f ctx))"

lemma with_ctx_None [simp]: "with_ctx None f = Ret AMVP_NO_CTX None"
  by (simp add: with_ctx_def)

lemma with_ctx_Some [simp]: "with_ctx (Some ctx) f = map_outcome_state Some (f ctx)"
  by (simp add: with_ctx_def)

lemma map_outcome_state_Ret_iff [simp]:
  "map_outcome_state f r = Ret rv s \<longleftrightarrow> (\<exists>t. r = Ret rv t \<and> s = f t)"
  by (cases r) auto

lemma map_outcome_state_UB_iff [simp]: "map_outcome_state f r = UB u \<longleftrightarrow> r = UB u"
  by (cases r) auto

text \<open>
  \<open>calloc\<close> may fail. A call that allocates takes a function that says, for the n-th
  allocation of that call, whether it succeeds. Crypto callbacks are only stored and
  compared with null, so a callback is an opaque number.
\<close>

type_synonym alloc = "nat \<Rightarrow> bool"
type_synonym callback = "nat option"

abbreviation alloc_ok :: alloc where
  "alloc_ok \<equiv> (\<lambda>_. True)"

section \<open>Machine integers\<close>

text \<open>Reduction to the range of a 32-bit \<^verbatim>\<open>int\<close>, and the range itself.\<close>

definition wrap32 :: "int \<Rightarrow> int" where
  "wrap32 x = (x + 2147483648) mod 4294967296 - 2147483648"

definition is_int32 :: "int \<Rightarrow> bool" where
  "is_int32 x \<longleftrightarrow> - 2147483648 \<le> x \<and> x \<le> 2147483647"

lemma wrap32_id: "is_int32 x \<Longrightarrow> wrap32 x = x"
  by (simp add: wrap32_def is_int32_def)

lemma wrap32_range: "is_int32 (wrap32 x)"
proof -
  have "0 \<le> (x + 2147483648) mod 4294967296" and "(x + 2147483648) mod 4294967296 < 4294967296"
    by simp_all
  then show ?thesis unfolding wrap32_def is_int32_def by linarith
qed

lemma wrap32_eq_0D: "wrap32 x = 0 \<Longrightarrow> 4294967296 dvd x"
proof -
  assume "wrap32 x = 0"
  then have "(x + 2147483648) mod 4294967296 = 2147483648" by (simp add: wrap32_def)
  then have "x + 2147483648 = 4294967296 * ((x + 2147483648) div 4294967296) + 2147483648"
    by (metis mult_div_mod_eq)
  then show ?thesis by (metis add_right_cancel dvd_triv_left)
qed

text \<open>C's remainder: the sign follows the dividend.\<close>

definition c_rem :: "int \<Rightarrow> int \<Rightarrow> int" where
  "c_rem a b = sgn a * (\<bar>a\<bar> mod \<bar>b\<bar>)"

lemma c_rem_eq_0_iff: "c_rem a b = 0 \<longleftrightarrow> b dvd a"
  by (auto simp: c_rem_def sgn_if dvd_eq_mod_eq_0 [symmetric])

section \<open>Lists\<close>

text \<open>Changing the first element that satisfies a predicate: a write through a found pointer.\<close>

primrec update_first :: "('a \<Rightarrow> bool) \<Rightarrow> ('a \<Rightarrow> 'a) \<Rightarrow> 'a list \<Rightarrow> 'a list" where
  "update_first p f [] = []"
| "update_first p f (x # xs) = (if p x then f x # xs else x # update_first p f xs)"

lemma length_update_first [simp]: "length (update_first p f xs) = length xs"
  by (induction xs) auto

lemma update_first_none: "find p xs = None \<Longrightarrow> update_first p f xs = xs"
  by (induction xs) (auto split: if_splits)

lemma map_update_first:
  "(\<And>x. g (f x) = g x) \<Longrightarrow> map g (update_first p f xs) = map g xs"
  by (induction xs) auto

lemma find_update_first:
  "(\<And>x. p x \<Longrightarrow> p (f x)) \<Longrightarrow> find p (update_first p f xs) = map_option f (find p xs)"
  by (induction xs) auto

lemma find_update_first_other:
  assumes "\<And>x. p x \<Longrightarrow> \<not> q x" and "\<And>x. p x \<Longrightarrow> \<not> q (f x)"
  shows "find q (update_first p f xs) = find q xs"
  by (induction xs) (auto dest: assms)

lemma set_update_first:
  "find p xs = Some x \<Longrightarrow> y \<in> set (update_first p f xs) \<Longrightarrow> y = f x \<or> y \<in> set xs"
  by (induction xs) (auto split: if_splits)

lemma find_update_first_Some:
  "find p xs = Some x \<Longrightarrow> p (f x) \<Longrightarrow> find p (update_first p f xs) = Some (f x)"
  by (induction xs) (auto split: if_splits)

lemma find_update_first_at:
  "find p xs = Some x \<Longrightarrow> \<not> q x \<Longrightarrow> \<not> q (f x) \<Longrightarrow> find q (update_first p f xs) = find q xs"
  by (induction xs) (auto split: if_splits)

lemma map_update_first_at:
  "find p xs = Some x \<Longrightarrow> g (f x) = g x \<Longrightarrow> map g (update_first p f xs) = map g xs"
  by (induction xs) (auto split: if_splits)

lemma find_append [simp]:
  "find p (xs @ ys) = (case find p xs of None \<Rightarrow> find p ys | Some x \<Rightarrow> Some x)"
  by (induction xs) auto

lemma find_Some_in: "find p xs = Some x \<Longrightarrow> x \<in> set xs \<and> p x"
  by (induction xs) (auto split: if_splits)

end
