(* ===== verification/Safe_C.thy ===== *)
theory Safe_C
  imports Amvp_Prelude
begin

text \<open>
  The bounded string and memory functions of \<^verbatim>\<open>safe_c_stub/src/safe_str_stub.c\<close> and
  \<^verbatim>\<open>safe_c_stub/src/safe_mem_stub.c\<close>, which the library uses for every comparison, copy
  and length. A string that is only read is a list of characters without its terminator
  (\<^const>\<open>None\<close> is a null pointer); memory that is written is a list of bytes whose length is
  the size of the object, so a write past the end is visible as \<^const>\<open>Out_Of_Bounds\<close>.
\<close>

datatype errno_t = EOK | ESNULLP | ESZEROL | ESLEMAX | ESNOSPC | ESOVRLP | EINVAL

abbreviation (input) NUL :: char where "NUL \<equiv> CHR 0x00"

definition RSIZE_MAX_STR :: nat where
  "RSIZE_MAX_STR = (2 ^ 64 - 1) div 2"

definition c_string :: "string \<Rightarrow> bool" where
  "c_string s \<longleftrightarrow> NUL \<notin> set s"

section \<open>Comparison and length\<close>

definition char_code :: "char \<Rightarrow> int" where
  "char_code c = of_char c"

lemma char_code_inject [simp]: "char_code a = char_code b \<longleftrightarrow> a = b"
  by (simp add: char_code_def)

lemma char_code_eq_0 [simp]: "char_code c = 0 \<longleftrightarrow> c = NUL"
proof -
  have "char_code NUL = 0" by (simp add: char_code_def)
  then show ?thesis by (metis char_code_inject)
qed

text \<open>\<^verbatim>\<open>strcmp\<close>: the difference of the first bytes that differ, the terminator being 0.\<close>

fun strcmp :: "string \<Rightarrow> string \<Rightarrow> int" where
  "strcmp [] [] = 0"
| "strcmp [] (d # ds) = - char_code d"
| "strcmp (c # cs) [] = char_code c"
| "strcmp (c # cs) (d # ds) = (if c = d then strcmp cs ds else char_code c - char_code d)"

lemma strcmp_refl [simp]: "strcmp s s = 0"
  by (induction s) auto

lemma strcmp_eq_0: "c_string s \<Longrightarrow> c_string t \<Longrightarrow> strcmp s t = 0 \<longleftrightarrow> s = t"
  by (induction s t rule: strcmp.induct) (auto simp: c_string_def)

definition strncmp :: "string \<Rightarrow> string \<Rightarrow> nat \<Rightarrow> int" where
  "strncmp s t n = strcmp (take n s) (take n t)"

definition strnlen :: "string \<Rightarrow> nat \<Rightarrow> nat" where
  "strnlen s n = min (length s) n"

text \<open>The comparison result goes through a pointer, which is left alone on an error.\<close>

definition strcmp_s :: "string option \<Rightarrow> nat \<Rightarrow> string option \<Rightarrow> int \<Rightarrow> errno_t \<times> int" where
  "strcmp_s dest dmax src indicator =
     (case (src, dest) of
        (Some s, Some d) \<Rightarrow>
          if dmax = 0 \<or> dmax > RSIZE_MAX_STR then (ESZEROL, indicator) else (EOK, strcmp d s)
      | _ \<Rightarrow> (ESNULLP, indicator))"

definition strncmp_s ::
  "string option \<Rightarrow> nat \<Rightarrow> string option \<Rightarrow> nat \<Rightarrow> int \<Rightarrow> errno_t \<times> int" where
  "strncmp_s dest dmax src smax indicator =
     (case (src, dest) of
        (Some s, Some d) \<Rightarrow>
          if dmax = 0 then (ESZEROL, indicator)
          else if smax > RSIZE_MAX_STR \<or> smax > strnlen d dmax \<or> smax = 0 then (EINVAL, indicator)
          else (EOK, strncmp d s smax)
      | _ \<Rightarrow> (ESNULLP, indicator))"

definition strnlen_s :: "string option \<Rightarrow> nat \<Rightarrow> nat" where
  "strnlen_s s smax =
     (case s of None \<Rightarrow> 0 | Some t \<Rightarrow> if smax = 0 then 0 else strnlen t smax)"

lemma strnlen_s_le: "strnlen_s s n \<le> n"
  by (cases s) (auto simp: strnlen_s_def strnlen_def)

lemma strnlen_s_Some [simp]: "strnlen_s (Some t) n = min (length t) n"
  by (simp add: strnlen_s_def strnlen_def)

lemma strnlen_s_None [simp]: "strnlen_s None n = 0"
  by (simp add: strnlen_s_def)

text \<open>The idiom of every table lookup: compare, and test the indicator.\<close>

lemma strcmp_s_indicator:
  "0 < dmax \<Longrightarrow> dmax \<le> RSIZE_MAX_STR \<Longrightarrow> snd (strcmp_s (Some d) dmax (Some s) i) = strcmp d s"
  by (simp add: strcmp_s_def)

fun strisdigit_loop :: "string \<Rightarrow> bool" where
  "strisdigit_loop [] = True"
| "strisdigit_loop (c # cs) =
     (if char_code c < char_code (CHR ''0'') \<or> char_code c > char_code (CHR ''9'') then False
      else strisdigit_loop cs)"

definition strisdigit_s :: "string option \<Rightarrow> nat \<Rightarrow> bool" where
  "strisdigit_s dest dmax =
     (case dest of None \<Rightarrow> False
      | Some s \<Rightarrow>
          if dmax = 0 then False
          else if dmax > RSIZE_MAX_STR then False
          else if s = [] then False
          else strisdigit_loop s)"

text \<open>\<open>scan2\<close>: is the character among the first \<open>smax\<close> characters of \<open>src\<close>?\<close>

fun scan2 :: "char \<Rightarrow> string \<Rightarrow> nat \<Rightarrow> bool" where
  "scan2 c [] smax = False"
| "scan2 c (d # ds) 0 = False"
| "scan2 c (d # ds) (Suc smax) = (if c = d then True else scan2 c ds smax)"

fun strcspn_loop :: "string \<Rightarrow> nat \<Rightarrow> string \<Rightarrow> nat \<Rightarrow> nat" where
  "strcspn_loop [] dmax src slen = 0"
| "strcspn_loop (c # cs) 0 src slen = 0"
| "strcspn_loop (c # cs) (Suc dmax) src slen =
     (if scan2 c src slen then 0 else Suc (strcspn_loop cs dmax src slen))"

fun strspn_loop :: "string \<Rightarrow> nat \<Rightarrow> string \<Rightarrow> nat \<Rightarrow> nat" where
  "strspn_loop [] dmax src slen = 0"
| "strspn_loop (c # cs) 0 src slen = 0"
| "strspn_loop (c # cs) (Suc dmax) src slen =
     (if scan2 c src slen then Suc (strspn_loop cs dmax src slen) else 0)"

definition span_guard :: "string option \<Rightarrow> nat \<Rightarrow> string option \<Rightarrow> nat \<Rightarrow> errno_t" where
  "span_guard dest dmax src slen =
     (if dest = None then ESNULLP
      else if src = None then ESNULLP
      else if dmax = 0 then ESZEROL
      else if dmax > RSIZE_MAX_STR then ESLEMAX
      else if slen = 0 then ESZEROL
      else if slen > RSIZE_MAX_STR then ESLEMAX
      else EOK)"

definition strcspn_s :: "string option \<Rightarrow> nat \<Rightarrow> string option \<Rightarrow> nat \<Rightarrow> errno_t \<times> nat" where
  "strcspn_s dest dmax src slen =
     (if span_guard dest dmax src slen \<noteq> EOK then (span_guard dest dmax src slen, 0)
      else (EOK, strcspn_loop (the dest) dmax (the src) slen))"

definition strspn_s :: "string option \<Rightarrow> nat \<Rightarrow> string option \<Rightarrow> nat \<Rightarrow> errno_t \<times> nat" where
  "strspn_s dest dmax src slen =
     (if span_guard dest dmax src slen \<noteq> EOK then (span_guard dest dmax src slen, 0)
      else (EOK, strspn_loop (the dest) dmax (the src) slen))"

lemma scan2_iff: "scan2 c src smax \<longleftrightarrow> c \<in> set (take smax src)"
  by (induction c src smax rule: scan2.induct) auto

lemma strcspn_loop_eq:
  "strcspn_loop s n src m = length (takeWhile (\<lambda>c. c \<notin> set (take m src)) (take n s))"
  by (induction s n src m rule: strcspn_loop.induct) (auto simp: scan2_iff)

lemma strspn_loop_eq:
  "strspn_loop s n src m = length (takeWhile (\<lambda>c. c \<in> set (take m src)) (take n s))"
  by (induction s n src m rule: strspn_loop.induct) (auto simp: scan2_iff)

section \<open>Writing into a buffer\<close>

text \<open>Storing bytes at an offset of an object.\<close>

definition put_bytes :: "nat \<Rightarrow> 'b list \<Rightarrow> 'b list \<Rightarrow> ub + 'b list" where
  "put_bytes i bs buf =
     (if i + length bs \<le> length buf
      then Inr (take i buf @ bs @ drop (i + length bs) buf)
      else Inl Out_Of_Bounds)"

lemma put_bytes_length: "put_bytes i bs buf = Inr buf' \<Longrightarrow> length buf' = length buf"
  by (auto simp: put_bytes_def split: if_splits)

text \<open>The string a buffer holds: the bytes before the first terminator, if there is one.\<close>

definition cstr :: "char list \<Rightarrow> string" where
  "cstr buf = takeWhile (\<lambda>c. c \<noteq> NUL) buf"

lemma cstr_append_NUL: "c_string s \<Longrightarrow> cstr (s @ NUL # rest) = s"
  unfolding cstr_def c_string_def by (induction s) auto

definition strcpy_s ::
  "char list option \<Rightarrow> nat \<Rightarrow> string option \<Rightarrow> ub + (errno_t \<times> char list option)" where
  "strcpy_s dest dmax src =
     (case (src, dest) of
        (Some s, Some buf) \<Rightarrow>
          if dmax = 0 then Inr (ESZEROL, Some buf)
          else if strnlen s dmax \<ge> dmax then Inr (ESNOSPC, Some buf)
          else (case put_bytes 0 (s @ replicate (dmax - length s) NUL) buf of
                  Inl u \<Rightarrow> Inl u
                | Inr buf' \<Rightarrow> Inr (EOK, Some buf'))
      | _ \<Rightarrow> Inr (ESNULLP, dest))"

text \<open>
  \<^verbatim>\<open>strncat(dest, src, n)\<close> appends at most \<open>n\<close> characters and a terminator after the
  string \<open>dest\<close> holds; \<^verbatim>\<open>strcat_s\<close> passes the whole of \<open>dmax\<close> as \<open>n\<close>.
\<close>

definition strncat :: "char list \<Rightarrow> string \<Rightarrow> nat \<Rightarrow> ub + char list" where
  "strncat buf s n =
     (if NUL \<notin> set buf then Inl Out_Of_Bounds
      else put_bytes (length (cstr buf)) (take n s @ [NUL]) buf)"

definition strcat_s ::
  "char list option \<Rightarrow> nat \<Rightarrow> string option \<Rightarrow> ub + (errno_t \<times> char list option)" where
  "strcat_s dest dmax src =
     (case (src, dest) of
        (Some s, Some buf) \<Rightarrow>
          if dmax = 0 then Inr (ESZEROL, Some buf)
          else (case strncat buf s dmax of Inl u \<Rightarrow> Inl u | Inr buf' \<Rightarrow> Inr (EOK, Some buf'))
      | _ \<Rightarrow> Inr (ESNULLP, dest))"

definition strncat_s ::
  "char list option \<Rightarrow> nat \<Rightarrow> string option \<Rightarrow> nat \<Rightarrow> ub + (errno_t \<times> char list option)" where
  "strncat_s dest dmax src slen =
     (case (src, dest) of
        (Some s, Some buf) \<Rightarrow>
          if dmax = 0 then Inr (ESZEROL, Some buf)
          else (case strncat buf s slen of Inl u \<Rightarrow> Inl u | Inr buf' \<Rightarrow> Inr (EOK, Some buf'))
      | _ \<Rightarrow> Inr (ESNULLP, dest))"

section \<open>Bounded copy inside one memory\<close>

text \<open>
  \<^verbatim>\<open>strncpy_s\<close> compares addresses to detect overlap, so source and destination are offsets
  into one memory. The loop stores the byte first and tests it after, as the code does.
  \<open>down\<close> says that the destination lies below the source: then the destination must not
  run into the source, otherwise the source must not run into the destination.
\<close>

fun strncpy_loop ::
  "char list \<Rightarrow> bool \<Rightarrow> nat \<Rightarrow> nat \<Rightarrow> nat \<Rightarrow> nat \<Rightarrow> nat \<Rightarrow> nat \<Rightarrow> ub + (errno_t \<times> char list)" where
  "strncpy_loop mem down orig bumper dest 0 src slen = Inr (ESNOSPC, mem[orig := NUL])"
| "strncpy_loop mem down orig bumper dest (Suc dmax) src slen =
     (if (if down then dest = bumper else src = bumper) then Inr (ESOVRLP, mem[orig := NUL])
      else if dest \<ge> length mem then Inl Out_Of_Bounds
      else if slen = 0 then Inr (EOK, mem[dest := NUL])
      else if src \<ge> length mem then Inl Out_Of_Bounds
      else let m = mem[dest := mem ! src] in
        if m ! dest = NUL then Inr (EOK, m)
        else strncpy_loop m down orig bumper (Suc dest) dmax (Suc src) (slen - 1))"

text \<open>
  A source length above the maximum empties the destination and then copies all the same:
  the code returns from every other range check, but not from this one.
\<close>

definition strncpy_s ::
  "char list \<Rightarrow> nat option \<Rightarrow> nat \<Rightarrow> nat option \<Rightarrow> nat \<Rightarrow> ub + (errno_t \<times> char list)" where
  "strncpy_s mem dest dmax src slen =
     (case dest of None \<Rightarrow> Inr (ESNULLP, mem)
      | Some d \<Rightarrow>
        if dmax = 0 then Inr (ESZEROL, mem)
        else if dmax > RSIZE_MAX_STR then Inr (ESLEMAX, mem)
        else if d \<ge> length mem then Inl Out_Of_Bounds
        else (case src of None \<Rightarrow> Inr (ESNULLP, mem[d := NUL])
          | Some s \<Rightarrow>
            let m = (if slen > RSIZE_MAX_STR then mem[d := NUL] else mem) in
            if d < s then strncpy_loop m True d s d dmax s slen
            else strncpy_loop m False d d d dmax s slen))"

section \<open>Memory\<close>

definition memcpy_s ::
  "'b list option \<Rightarrow> nat \<Rightarrow> 'b list option \<Rightarrow> nat \<Rightarrow> ub + (errno_t \<times> 'b list option)" where
  "memcpy_s dest dmax src slen =
     (case (src, dest) of
        (Some s, Some buf) \<Rightarrow>
          if slen > dmax then Inr (ESLEMAX, Some buf)
          else if slen > length s then Inl Out_Of_Bounds
          else (case put_bytes 0 (take slen s) buf of
                  Inl u \<Rightarrow> Inl u | Inr buf' \<Rightarrow> Inr (EOK, Some buf'))
      | _ \<Rightarrow> Inr (ESNULLP, dest))"

definition memzero_s :: "char list option \<Rightarrow> nat \<Rightarrow> ub + (errno_t \<times> char list option)" where
  "memzero_s dest dmax =
     (case dest of None \<Rightarrow> Inr (ESNULLP, None)
      | Some buf \<Rightarrow> (case put_bytes 0 (replicate dmax NUL) buf of
                      Inl u \<Rightarrow> Inl u | Inr buf' \<Rightarrow> Inr (EOK, Some buf')))"

definition memcmp_s ::
  "char list option \<Rightarrow> nat \<Rightarrow> char list option \<Rightarrow> nat \<Rightarrow> int \<Rightarrow> ub + (errno_t \<times> int)" where
  "memcmp_s dest dmax src slen diff =
     (case (src, dest) of
        (Some s, Some d) \<Rightarrow>
          if dmax = 0 then Inr (ESZEROL, diff)
          else if slen = 0 then Inr (ESZEROL, diff)
          else if slen > dmax then Inr (ESLEMAX, diff)
          else if slen > length d \<or> slen > length s then Inl Out_Of_Bounds
          else Inr (EOK, strcmp (take slen d) (take slen s))
      | _ \<Rightarrow> Inr (ESNULLP, diff))"

end
