(* ===== verification/Amvp_Enums.thy ===== *)
theory Amvp_Enums
  imports Amvp_Prelude
begin

text \<open>
  The enumerations of \<^verbatim>\<open>include/amvp/amvp.h\<close> whose numeric values the code relies on
  (ciphers index \<^verbatim>\<open>alg_tbl\<close>, hash algorithms are bit flags, option values travel through
  \<^verbatim>\<open>int\<close> parameters), the master algorithm table \<^verbatim>\<open>alg_tbl\<close> of \<^verbatim>\<open>src/amvp.c\<close> and the
  functions that map a cipher to its sub-type. A cipher is an unsigned enum in C, here a
  \<^typ>\<open>nat\<close>; enumerators are numerals, so the default branch of every switch is reachable.
\<close>

type_synonym AMVP_CIPHER = nat

section \<open>Enumerators\<close>

subsection \<open>The ciphers\<close>

abbreviation (input) AMVP_CIPHER_START :: AMVP_CIPHER where "AMVP_CIPHER_START \<equiv> 0"
abbreviation (input) AMVP_AES_GCM :: AMVP_CIPHER where "AMVP_AES_GCM \<equiv> 1"
abbreviation (input) AMVP_AES_GCM_SIV :: AMVP_CIPHER where "AMVP_AES_GCM_SIV \<equiv> 2"
abbreviation (input) AMVP_AES_CCM :: AMVP_CIPHER where "AMVP_AES_CCM \<equiv> 3"
abbreviation (input) AMVP_AES_ECB :: AMVP_CIPHER where "AMVP_AES_ECB \<equiv> 4"
abbreviation (input) AMVP_AES_CBC :: AMVP_CIPHER where "AMVP_AES_CBC \<equiv> 5"
abbreviation (input) AMVP_AES_CBC_CS1 :: AMVP_CIPHER where "AMVP_AES_CBC_CS1 \<equiv> 6"
abbreviation (input) AMVP_AES_CBC_CS2 :: AMVP_CIPHER where "AMVP_AES_CBC_CS2 \<equiv> 7"
abbreviation (input) AMVP_AES_CBC_CS3 :: AMVP_CIPHER where "AMVP_AES_CBC_CS3 \<equiv> 8"
abbreviation (input) AMVP_AES_CFB1 :: AMVP_CIPHER where "AMVP_AES_CFB1 \<equiv> 9"
abbreviation (input) AMVP_AES_CFB8 :: AMVP_CIPHER where "AMVP_AES_CFB8 \<equiv> 10"
abbreviation (input) AMVP_AES_CFB128 :: AMVP_CIPHER where "AMVP_AES_CFB128 \<equiv> 11"
abbreviation (input) AMVP_AES_OFB :: AMVP_CIPHER where "AMVP_AES_OFB \<equiv> 12"
abbreviation (input) AMVP_AES_CTR :: AMVP_CIPHER where "AMVP_AES_CTR \<equiv> 13"
abbreviation (input) AMVP_AES_XTS :: AMVP_CIPHER where "AMVP_AES_XTS \<equiv> 14"
abbreviation (input) AMVP_AES_KW :: AMVP_CIPHER where "AMVP_AES_KW \<equiv> 15"
abbreviation (input) AMVP_AES_KWP :: AMVP_CIPHER where "AMVP_AES_KWP \<equiv> 16"
abbreviation (input) AMVP_AES_GMAC :: AMVP_CIPHER where "AMVP_AES_GMAC \<equiv> 17"
abbreviation (input) AMVP_AES_XPN :: AMVP_CIPHER where "AMVP_AES_XPN \<equiv> 18"
abbreviation (input) AMVP_TDES_ECB :: AMVP_CIPHER where "AMVP_TDES_ECB \<equiv> 19"
abbreviation (input) AMVP_TDES_CBC :: AMVP_CIPHER where "AMVP_TDES_CBC \<equiv> 20"
abbreviation (input) AMVP_TDES_CBCI :: AMVP_CIPHER where "AMVP_TDES_CBCI \<equiv> 21"
abbreviation (input) AMVP_TDES_OFB :: AMVP_CIPHER where "AMVP_TDES_OFB \<equiv> 22"
abbreviation (input) AMVP_TDES_OFBI :: AMVP_CIPHER where "AMVP_TDES_OFBI \<equiv> 23"
abbreviation (input) AMVP_TDES_CFB1 :: AMVP_CIPHER where "AMVP_TDES_CFB1 \<equiv> 24"
abbreviation (input) AMVP_TDES_CFB8 :: AMVP_CIPHER where "AMVP_TDES_CFB8 \<equiv> 25"
abbreviation (input) AMVP_TDES_CFB64 :: AMVP_CIPHER where "AMVP_TDES_CFB64 \<equiv> 26"
abbreviation (input) AMVP_TDES_CFBP1 :: AMVP_CIPHER where "AMVP_TDES_CFBP1 \<equiv> 27"
abbreviation (input) AMVP_TDES_CFBP8 :: AMVP_CIPHER where "AMVP_TDES_CFBP8 \<equiv> 28"
abbreviation (input) AMVP_TDES_CFBP64 :: AMVP_CIPHER where "AMVP_TDES_CFBP64 \<equiv> 29"
abbreviation (input) AMVP_TDES_CTR :: AMVP_CIPHER where "AMVP_TDES_CTR \<equiv> 30"
abbreviation (input) AMVP_TDES_KW :: AMVP_CIPHER where "AMVP_TDES_KW \<equiv> 31"
abbreviation (input) AMVP_HASH_SHA1 :: AMVP_CIPHER where "AMVP_HASH_SHA1 \<equiv> 32"
abbreviation (input) AMVP_HASH_SHA224 :: AMVP_CIPHER where "AMVP_HASH_SHA224 \<equiv> 33"
abbreviation (input) AMVP_HASH_SHA256 :: AMVP_CIPHER where "AMVP_HASH_SHA256 \<equiv> 34"
abbreviation (input) AMVP_HASH_SHA384 :: AMVP_CIPHER where "AMVP_HASH_SHA384 \<equiv> 35"
abbreviation (input) AMVP_HASH_SHA512 :: AMVP_CIPHER where "AMVP_HASH_SHA512 \<equiv> 36"
abbreviation (input) AMVP_HASH_SHA512_224 :: AMVP_CIPHER where "AMVP_HASH_SHA512_224 \<equiv> 37"
abbreviation (input) AMVP_HASH_SHA512_256 :: AMVP_CIPHER where "AMVP_HASH_SHA512_256 \<equiv> 38"
abbreviation (input) AMVP_HASH_SHA3_224 :: AMVP_CIPHER where "AMVP_HASH_SHA3_224 \<equiv> 39"
abbreviation (input) AMVP_HASH_SHA3_256 :: AMVP_CIPHER where "AMVP_HASH_SHA3_256 \<equiv> 40"
abbreviation (input) AMVP_HASH_SHA3_384 :: AMVP_CIPHER where "AMVP_HASH_SHA3_384 \<equiv> 41"
abbreviation (input) AMVP_HASH_SHA3_512 :: AMVP_CIPHER where "AMVP_HASH_SHA3_512 \<equiv> 42"
abbreviation (input) AMVP_HASH_SHAKE_128 :: AMVP_CIPHER where "AMVP_HASH_SHAKE_128 \<equiv> 43"
abbreviation (input) AMVP_HASH_SHAKE_256 :: AMVP_CIPHER where "AMVP_HASH_SHAKE_256 \<equiv> 44"
abbreviation (input) AMVP_HASHDRBG :: AMVP_CIPHER where "AMVP_HASHDRBG \<equiv> 45"
abbreviation (input) AMVP_HMACDRBG :: AMVP_CIPHER where "AMVP_HMACDRBG \<equiv> 46"
abbreviation (input) AMVP_CTRDRBG :: AMVP_CIPHER where "AMVP_CTRDRBG \<equiv> 47"
abbreviation (input) AMVP_HMAC_SHA1 :: AMVP_CIPHER where "AMVP_HMAC_SHA1 \<equiv> 48"
abbreviation (input) AMVP_HMAC_SHA2_224 :: AMVP_CIPHER where "AMVP_HMAC_SHA2_224 \<equiv> 49"
abbreviation (input) AMVP_HMAC_SHA2_256 :: AMVP_CIPHER where "AMVP_HMAC_SHA2_256 \<equiv> 50"
abbreviation (input) AMVP_HMAC_SHA2_384 :: AMVP_CIPHER where "AMVP_HMAC_SHA2_384 \<equiv> 51"
abbreviation (input) AMVP_HMAC_SHA2_512 :: AMVP_CIPHER where "AMVP_HMAC_SHA2_512 \<equiv> 52"
abbreviation (input) AMVP_HMAC_SHA2_512_224 :: AMVP_CIPHER where "AMVP_HMAC_SHA2_512_224 \<equiv> 53"
abbreviation (input) AMVP_HMAC_SHA2_512_256 :: AMVP_CIPHER where "AMVP_HMAC_SHA2_512_256 \<equiv> 54"
abbreviation (input) AMVP_HMAC_SHA3_224 :: AMVP_CIPHER where "AMVP_HMAC_SHA3_224 \<equiv> 55"
abbreviation (input) AMVP_HMAC_SHA3_256 :: AMVP_CIPHER where "AMVP_HMAC_SHA3_256 \<equiv> 56"
abbreviation (input) AMVP_HMAC_SHA3_384 :: AMVP_CIPHER where "AMVP_HMAC_SHA3_384 \<equiv> 57"
abbreviation (input) AMVP_HMAC_SHA3_512 :: AMVP_CIPHER where "AMVP_HMAC_SHA3_512 \<equiv> 58"
abbreviation (input) AMVP_CMAC_AES :: AMVP_CIPHER where "AMVP_CMAC_AES \<equiv> 59"
abbreviation (input) AMVP_CMAC_TDES :: AMVP_CIPHER where "AMVP_CMAC_TDES \<equiv> 60"
abbreviation (input) AMVP_KMAC_128 :: AMVP_CIPHER where "AMVP_KMAC_128 \<equiv> 61"
abbreviation (input) AMVP_KMAC_256 :: AMVP_CIPHER where "AMVP_KMAC_256 \<equiv> 62"
abbreviation (input) AMVP_DSA_KEYGEN :: AMVP_CIPHER where "AMVP_DSA_KEYGEN \<equiv> 63"
abbreviation (input) AMVP_DSA_PQGGEN :: AMVP_CIPHER where "AMVP_DSA_PQGGEN \<equiv> 64"
abbreviation (input) AMVP_DSA_PQGVER :: AMVP_CIPHER where "AMVP_DSA_PQGVER \<equiv> 65"
abbreviation (input) AMVP_DSA_SIGGEN :: AMVP_CIPHER where "AMVP_DSA_SIGGEN \<equiv> 66"
abbreviation (input) AMVP_DSA_SIGVER :: AMVP_CIPHER where "AMVP_DSA_SIGVER \<equiv> 67"
abbreviation (input) AMVP_RSA_KEYGEN :: AMVP_CIPHER where "AMVP_RSA_KEYGEN \<equiv> 68"
abbreviation (input) AMVP_RSA_SIGGEN :: AMVP_CIPHER where "AMVP_RSA_SIGGEN \<equiv> 69"
abbreviation (input) AMVP_RSA_SIGVER :: AMVP_CIPHER where "AMVP_RSA_SIGVER \<equiv> 70"
abbreviation (input) AMVP_RSA_DECPRIM :: AMVP_CIPHER where "AMVP_RSA_DECPRIM \<equiv> 71"
abbreviation (input) AMVP_RSA_SIGPRIM :: AMVP_CIPHER where "AMVP_RSA_SIGPRIM \<equiv> 72"
abbreviation (input) AMVP_ECDSA_KEYGEN :: AMVP_CIPHER where "AMVP_ECDSA_KEYGEN \<equiv> 73"
abbreviation (input) AMVP_ECDSA_KEYVER :: AMVP_CIPHER where "AMVP_ECDSA_KEYVER \<equiv> 74"
abbreviation (input) AMVP_ECDSA_SIGGEN :: AMVP_CIPHER where "AMVP_ECDSA_SIGGEN \<equiv> 75"
abbreviation (input) AMVP_ECDSA_SIGVER :: AMVP_CIPHER where "AMVP_ECDSA_SIGVER \<equiv> 76"
abbreviation (input) AMVP_KDF135_SNMP :: AMVP_CIPHER where "AMVP_KDF135_SNMP \<equiv> 77"
abbreviation (input) AMVP_KDF135_SSH :: AMVP_CIPHER where "AMVP_KDF135_SSH \<equiv> 78"
abbreviation (input) AMVP_KDF135_SRTP :: AMVP_CIPHER where "AMVP_KDF135_SRTP \<equiv> 79"
abbreviation (input) AMVP_KDF135_IKEV2 :: AMVP_CIPHER where "AMVP_KDF135_IKEV2 \<equiv> 80"
abbreviation (input) AMVP_KDF135_IKEV1 :: AMVP_CIPHER where "AMVP_KDF135_IKEV1 \<equiv> 81"
abbreviation (input) AMVP_KDF135_X942 :: AMVP_CIPHER where "AMVP_KDF135_X942 \<equiv> 82"
abbreviation (input) AMVP_KDF135_X963 :: AMVP_CIPHER where "AMVP_KDF135_X963 \<equiv> 83"
abbreviation (input) AMVP_KDF108 :: AMVP_CIPHER where "AMVP_KDF108 \<equiv> 84"
abbreviation (input) AMVP_PBKDF :: AMVP_CIPHER where "AMVP_PBKDF \<equiv> 85"
abbreviation (input) AMVP_KDF_TLS12 :: AMVP_CIPHER where "AMVP_KDF_TLS12 \<equiv> 86"
abbreviation (input) AMVP_KDF_TLS13 :: AMVP_CIPHER where "AMVP_KDF_TLS13 \<equiv> 87"
abbreviation (input) AMVP_KAS_ECC_CDH :: AMVP_CIPHER where "AMVP_KAS_ECC_CDH \<equiv> 88"
abbreviation (input) AMVP_KAS_ECC_COMP :: AMVP_CIPHER where "AMVP_KAS_ECC_COMP \<equiv> 89"
abbreviation (input) AMVP_KAS_ECC_NOCOMP :: AMVP_CIPHER where "AMVP_KAS_ECC_NOCOMP \<equiv> 90"
abbreviation (input) AMVP_KAS_ECC_SSC :: AMVP_CIPHER where "AMVP_KAS_ECC_SSC \<equiv> 91"
abbreviation (input) AMVP_KAS_FFC_COMP :: AMVP_CIPHER where "AMVP_KAS_FFC_COMP \<equiv> 92"
abbreviation (input) AMVP_KAS_FFC_NOCOMP :: AMVP_CIPHER where "AMVP_KAS_FFC_NOCOMP \<equiv> 93"
abbreviation (input) AMVP_KAS_FFC_SSC :: AMVP_CIPHER where "AMVP_KAS_FFC_SSC \<equiv> 94"
abbreviation (input) AMVP_KAS_IFC_SSC :: AMVP_CIPHER where "AMVP_KAS_IFC_SSC \<equiv> 95"
abbreviation (input) AMVP_KDA_ONESTEP :: AMVP_CIPHER where "AMVP_KDA_ONESTEP \<equiv> 96"
abbreviation (input) AMVP_KDA_TWOSTEP :: AMVP_CIPHER where "AMVP_KDA_TWOSTEP \<equiv> 97"
abbreviation (input) AMVP_KDA_HKDF :: AMVP_CIPHER where "AMVP_KDA_HKDF \<equiv> 98"
abbreviation (input) AMVP_KTS_IFC :: AMVP_CIPHER where "AMVP_KTS_IFC \<equiv> 99"
abbreviation (input) AMVP_SAFE_PRIMES_KEYGEN :: AMVP_CIPHER where "AMVP_SAFE_PRIMES_KEYGEN \<equiv> 100"
abbreviation (input) AMVP_SAFE_PRIMES_KEYVER :: AMVP_CIPHER where "AMVP_SAFE_PRIMES_KEYVER \<equiv> 101"
abbreviation (input) AMVP_CIPHER_END :: AMVP_CIPHER where "AMVP_CIPHER_END \<equiv> 102"

subsection \<open>Sub-type identifiers: AES\<close>

abbreviation (input) AMVP_SUB_AES_GCM :: AMVP_CIPHER where "AMVP_SUB_AES_GCM \<equiv> 1"
abbreviation (input) AMVP_SUB_AES_GCM_SIV :: AMVP_CIPHER where "AMVP_SUB_AES_GCM_SIV \<equiv> 2"
abbreviation (input) AMVP_SUB_AES_CCM :: AMVP_CIPHER where "AMVP_SUB_AES_CCM \<equiv> 3"
abbreviation (input) AMVP_SUB_AES_ECB :: AMVP_CIPHER where "AMVP_SUB_AES_ECB \<equiv> 4"
abbreviation (input) AMVP_SUB_AES_CBC :: AMVP_CIPHER where "AMVP_SUB_AES_CBC \<equiv> 5"
abbreviation (input) AMVP_SUB_AES_CBC_CS1 :: AMVP_CIPHER where "AMVP_SUB_AES_CBC_CS1 \<equiv> 6"
abbreviation (input) AMVP_SUB_AES_CBC_CS2 :: AMVP_CIPHER where "AMVP_SUB_AES_CBC_CS2 \<equiv> 7"
abbreviation (input) AMVP_SUB_AES_CBC_CS3 :: AMVP_CIPHER where "AMVP_SUB_AES_CBC_CS3 \<equiv> 8"
abbreviation (input) AMVP_SUB_AES_CFB1 :: AMVP_CIPHER where "AMVP_SUB_AES_CFB1 \<equiv> 9"
abbreviation (input) AMVP_SUB_AES_CFB8 :: AMVP_CIPHER where "AMVP_SUB_AES_CFB8 \<equiv> 10"
abbreviation (input) AMVP_SUB_AES_CFB128 :: AMVP_CIPHER where "AMVP_SUB_AES_CFB128 \<equiv> 11"
abbreviation (input) AMVP_SUB_AES_OFB :: AMVP_CIPHER where "AMVP_SUB_AES_OFB \<equiv> 12"
abbreviation (input) AMVP_SUB_AES_CTR :: AMVP_CIPHER where "AMVP_SUB_AES_CTR \<equiv> 13"
abbreviation (input) AMVP_SUB_AES_XTS :: AMVP_CIPHER where "AMVP_SUB_AES_XTS \<equiv> 14"
abbreviation (input) AMVP_SUB_AES_XPN :: AMVP_CIPHER where "AMVP_SUB_AES_XPN \<equiv> 15"
abbreviation (input) AMVP_SUB_AES_KW :: AMVP_CIPHER where "AMVP_SUB_AES_KW \<equiv> 16"
abbreviation (input) AMVP_SUB_AES_KWP :: AMVP_CIPHER where "AMVP_SUB_AES_KWP \<equiv> 17"
abbreviation (input) AMVP_SUB_AES_GMAC :: AMVP_CIPHER where "AMVP_SUB_AES_GMAC \<equiv> 18"

subsection \<open>Sub-type identifiers: TDES\<close>

abbreviation (input) AMVP_SUB_TDES_ECB :: AMVP_CIPHER where "AMVP_SUB_TDES_ECB \<equiv> 19"
abbreviation (input) AMVP_SUB_TDES_CBC :: AMVP_CIPHER where "AMVP_SUB_TDES_CBC \<equiv> 20"
abbreviation (input) AMVP_SUB_TDES_CBCI :: AMVP_CIPHER where "AMVP_SUB_TDES_CBCI \<equiv> 21"
abbreviation (input) AMVP_SUB_TDES_OFB :: AMVP_CIPHER where "AMVP_SUB_TDES_OFB \<equiv> 22"
abbreviation (input) AMVP_SUB_TDES_OFBI :: AMVP_CIPHER where "AMVP_SUB_TDES_OFBI \<equiv> 23"
abbreviation (input) AMVP_SUB_TDES_CFB1 :: AMVP_CIPHER where "AMVP_SUB_TDES_CFB1 \<equiv> 24"
abbreviation (input) AMVP_SUB_TDES_CFB8 :: AMVP_CIPHER where "AMVP_SUB_TDES_CFB8 \<equiv> 25"
abbreviation (input) AMVP_SUB_TDES_CFB64 :: AMVP_CIPHER where "AMVP_SUB_TDES_CFB64 \<equiv> 26"
abbreviation (input) AMVP_SUB_TDES_CFBP1 :: AMVP_CIPHER where "AMVP_SUB_TDES_CFBP1 \<equiv> 27"
abbreviation (input) AMVP_SUB_TDES_CFBP8 :: AMVP_CIPHER where "AMVP_SUB_TDES_CFBP8 \<equiv> 28"
abbreviation (input) AMVP_SUB_TDES_CFBP64 :: AMVP_CIPHER where "AMVP_SUB_TDES_CFBP64 \<equiv> 29"
abbreviation (input) AMVP_SUB_TDES_CTR :: AMVP_CIPHER where "AMVP_SUB_TDES_CTR \<equiv> 30"
abbreviation (input) AMVP_SUB_TDES_KW :: AMVP_CIPHER where "AMVP_SUB_TDES_KW \<equiv> 31"

subsection \<open>Sub-type identifiers: CMAC\<close>

abbreviation (input) AMVP_SUB_CMAC_AES :: AMVP_CIPHER where "AMVP_SUB_CMAC_AES \<equiv> 59"
abbreviation (input) AMVP_SUB_CMAC_TDES :: AMVP_CIPHER where "AMVP_SUB_CMAC_TDES \<equiv> 60"

subsection \<open>Sub-type identifiers: KMAC\<close>

abbreviation (input) AMVP_SUB_KMAC_128 :: AMVP_CIPHER where "AMVP_SUB_KMAC_128 \<equiv> 61"
abbreviation (input) AMVP_SUB_KMAC_256 :: AMVP_CIPHER where "AMVP_SUB_KMAC_256 \<equiv> 62"

subsection \<open>Sub-type identifiers: HMAC\<close>

abbreviation (input) AMVP_SUB_HMAC_SHA1 :: AMVP_CIPHER where "AMVP_SUB_HMAC_SHA1 \<equiv> 48"
abbreviation (input) AMVP_SUB_HMAC_SHA2_224 :: AMVP_CIPHER where "AMVP_SUB_HMAC_SHA2_224 \<equiv> 49"
abbreviation (input) AMVP_SUB_HMAC_SHA2_256 :: AMVP_CIPHER where "AMVP_SUB_HMAC_SHA2_256 \<equiv> 50"
abbreviation (input) AMVP_SUB_HMAC_SHA2_384 :: AMVP_CIPHER where "AMVP_SUB_HMAC_SHA2_384 \<equiv> 51"
abbreviation (input) AMVP_SUB_HMAC_SHA2_512 :: AMVP_CIPHER where "AMVP_SUB_HMAC_SHA2_512 \<equiv> 52"
abbreviation (input) AMVP_SUB_HMAC_SHA2_512_224 :: AMVP_CIPHER where "AMVP_SUB_HMAC_SHA2_512_224 \<equiv> 53"
abbreviation (input) AMVP_SUB_HMAC_SHA2_512_256 :: AMVP_CIPHER where "AMVP_SUB_HMAC_SHA2_512_256 \<equiv> 54"
abbreviation (input) AMVP_SUB_HMAC_SHA3_224 :: AMVP_CIPHER where "AMVP_SUB_HMAC_SHA3_224 \<equiv> 55"
abbreviation (input) AMVP_SUB_HMAC_SHA3_256 :: AMVP_CIPHER where "AMVP_SUB_HMAC_SHA3_256 \<equiv> 56"
abbreviation (input) AMVP_SUB_HMAC_SHA3_384 :: AMVP_CIPHER where "AMVP_SUB_HMAC_SHA3_384 \<equiv> 57"
abbreviation (input) AMVP_SUB_HMAC_SHA3_512 :: AMVP_CIPHER where "AMVP_SUB_HMAC_SHA3_512 \<equiv> 58"

subsection \<open>Sub-type identifiers: hash\<close>

abbreviation (input) AMVP_SUB_HASH_SHA1 :: AMVP_CIPHER where "AMVP_SUB_HASH_SHA1 \<equiv> 32"
abbreviation (input) AMVP_SUB_HASH_SHA2_224 :: AMVP_CIPHER where "AMVP_SUB_HASH_SHA2_224 \<equiv> 33"
abbreviation (input) AMVP_SUB_HASH_SHA2_256 :: AMVP_CIPHER where "AMVP_SUB_HASH_SHA2_256 \<equiv> 34"
abbreviation (input) AMVP_SUB_HASH_SHA2_384 :: AMVP_CIPHER where "AMVP_SUB_HASH_SHA2_384 \<equiv> 35"
abbreviation (input) AMVP_SUB_HASH_SHA2_512 :: AMVP_CIPHER where "AMVP_SUB_HASH_SHA2_512 \<equiv> 36"
abbreviation (input) AMVP_SUB_HASH_SHA2_512_224 :: AMVP_CIPHER where "AMVP_SUB_HASH_SHA2_512_224 \<equiv> 37"
abbreviation (input) AMVP_SUB_HASH_SHA2_512_256 :: AMVP_CIPHER where "AMVP_SUB_HASH_SHA2_512_256 \<equiv> 38"
abbreviation (input) AMVP_SUB_HASH_SHA3_224 :: AMVP_CIPHER where "AMVP_SUB_HASH_SHA3_224 \<equiv> 39"
abbreviation (input) AMVP_SUB_HASH_SHA3_256 :: AMVP_CIPHER where "AMVP_SUB_HASH_SHA3_256 \<equiv> 40"
abbreviation (input) AMVP_SUB_HASH_SHA3_384 :: AMVP_CIPHER where "AMVP_SUB_HASH_SHA3_384 \<equiv> 41"
abbreviation (input) AMVP_SUB_HASH_SHA3_512 :: AMVP_CIPHER where "AMVP_SUB_HASH_SHA3_512 \<equiv> 42"
abbreviation (input) AMVP_SUB_HASH_SHAKE_128 :: AMVP_CIPHER where "AMVP_SUB_HASH_SHAKE_128 \<equiv> 43"
abbreviation (input) AMVP_SUB_HASH_SHAKE_256 :: AMVP_CIPHER where "AMVP_SUB_HASH_SHAKE_256 \<equiv> 44"

subsection \<open>Sub-type identifiers: DSA\<close>

abbreviation (input) AMVP_SUB_DSA_KEYGEN :: AMVP_CIPHER where "AMVP_SUB_DSA_KEYGEN \<equiv> 63"
abbreviation (input) AMVP_SUB_DSA_PQGGEN :: AMVP_CIPHER where "AMVP_SUB_DSA_PQGGEN \<equiv> 64"
abbreviation (input) AMVP_SUB_DSA_PQGVER :: AMVP_CIPHER where "AMVP_SUB_DSA_PQGVER \<equiv> 65"
abbreviation (input) AMVP_SUB_DSA_SIGGEN :: AMVP_CIPHER where "AMVP_SUB_DSA_SIGGEN \<equiv> 66"
abbreviation (input) AMVP_SUB_DSA_SIGVER :: AMVP_CIPHER where "AMVP_SUB_DSA_SIGVER \<equiv> 67"

subsection \<open>Sub-type identifiers: RSA\<close>

abbreviation (input) AMVP_SUB_RSA_KEYGEN :: AMVP_CIPHER where "AMVP_SUB_RSA_KEYGEN \<equiv> 68"
abbreviation (input) AMVP_SUB_RSA_SIGGEN :: AMVP_CIPHER where "AMVP_SUB_RSA_SIGGEN \<equiv> 69"
abbreviation (input) AMVP_SUB_RSA_SIGVER :: AMVP_CIPHER where "AMVP_SUB_RSA_SIGVER \<equiv> 70"
abbreviation (input) AMVP_SUB_RSA_DECPRIM :: AMVP_CIPHER where "AMVP_SUB_RSA_DECPRIM \<equiv> 71"
abbreviation (input) AMVP_SUB_RSA_SIGPRIM :: AMVP_CIPHER where "AMVP_SUB_RSA_SIGPRIM \<equiv> 72"

subsection \<open>Sub-type identifiers: ECDSA\<close>

abbreviation (input) AMVP_SUB_ECDSA_KEYGEN :: AMVP_CIPHER where "AMVP_SUB_ECDSA_KEYGEN \<equiv> 73"
abbreviation (input) AMVP_SUB_ECDSA_KEYVER :: AMVP_CIPHER where "AMVP_SUB_ECDSA_KEYVER \<equiv> 74"
abbreviation (input) AMVP_SUB_ECDSA_SIGGEN :: AMVP_CIPHER where "AMVP_SUB_ECDSA_SIGGEN \<equiv> 75"
abbreviation (input) AMVP_SUB_ECDSA_SIGVER :: AMVP_CIPHER where "AMVP_SUB_ECDSA_SIGVER \<equiv> 76"

subsection \<open>Sub-type identifiers: DRBG\<close>

abbreviation (input) AMVP_SUB_DRBG_HASH :: AMVP_CIPHER where "AMVP_SUB_DRBG_HASH \<equiv> 45"
abbreviation (input) AMVP_SUB_DRBG_HMAC :: AMVP_CIPHER where "AMVP_SUB_DRBG_HMAC \<equiv> 46"
abbreviation (input) AMVP_SUB_DRBG_CTR :: AMVP_CIPHER where "AMVP_SUB_DRBG_CTR \<equiv> 47"

subsection \<open>Sub-type identifiers: KAS\<close>

abbreviation (input) AMVP_SUB_KAS_ECC_CDH :: AMVP_CIPHER where "AMVP_SUB_KAS_ECC_CDH \<equiv> 88"
abbreviation (input) AMVP_SUB_KAS_ECC_COMP :: AMVP_CIPHER where "AMVP_SUB_KAS_ECC_COMP \<equiv> 89"
abbreviation (input) AMVP_SUB_KAS_ECC_NOCOMP :: AMVP_CIPHER where "AMVP_SUB_KAS_ECC_NOCOMP \<equiv> 90"
abbreviation (input) AMVP_SUB_KAS_ECC_SSC :: AMVP_CIPHER where "AMVP_SUB_KAS_ECC_SSC \<equiv> 91"
abbreviation (input) AMVP_SUB_KAS_FFC_COMP :: AMVP_CIPHER where "AMVP_SUB_KAS_FFC_COMP \<equiv> 92"
abbreviation (input) AMVP_SUB_KAS_FFC_SSC :: AMVP_CIPHER where "AMVP_SUB_KAS_FFC_SSC \<equiv> 93"
abbreviation (input) AMVP_SUB_KAS_FFC_NOCOMP :: AMVP_CIPHER where "AMVP_SUB_KAS_FFC_NOCOMP \<equiv> 94"
abbreviation (input) AMVP_SUB_KAS_IFC_SSC :: AMVP_CIPHER where "AMVP_SUB_KAS_IFC_SSC \<equiv> 95"
abbreviation (input) AMVP_SUB_KTS_IFC :: AMVP_CIPHER where "AMVP_SUB_KTS_IFC \<equiv> 96"
abbreviation (input) AMVP_SUB_KDA_ONESTEP :: AMVP_CIPHER where "AMVP_SUB_KDA_ONESTEP \<equiv> 97"
abbreviation (input) AMVP_SUB_KDA_TWOSTEP :: AMVP_CIPHER where "AMVP_SUB_KDA_TWOSTEP \<equiv> 98"
abbreviation (input) AMVP_SUB_KDA_HKDF :: AMVP_CIPHER where "AMVP_SUB_KDA_HKDF \<equiv> 99"
abbreviation (input) AMVP_SUB_SAFE_PRIMES_KEYGEN :: AMVP_CIPHER where "AMVP_SUB_SAFE_PRIMES_KEYGEN \<equiv> 100"
abbreviation (input) AMVP_SUB_SAFE_PRIMES_KEYVER :: AMVP_CIPHER where "AMVP_SUB_SAFE_PRIMES_KEYVER \<equiv> 101"

subsection \<open>Sub-type identifiers: KDF\<close>

abbreviation (input) AMVP_SUB_KDF_SNMP :: AMVP_CIPHER where "AMVP_SUB_KDF_SNMP \<equiv> 77"
abbreviation (input) AMVP_SUB_KDF_SSH :: AMVP_CIPHER where "AMVP_SUB_KDF_SSH \<equiv> 78"
abbreviation (input) AMVP_SUB_KDF_SRTP :: AMVP_CIPHER where "AMVP_SUB_KDF_SRTP \<equiv> 79"
abbreviation (input) AMVP_SUB_KDF_IKEV2 :: AMVP_CIPHER where "AMVP_SUB_KDF_IKEV2 \<equiv> 80"
abbreviation (input) AMVP_SUB_KDF_IKEV1 :: AMVP_CIPHER where "AMVP_SUB_KDF_IKEV1 \<equiv> 81"
abbreviation (input) AMVP_SUB_KDF_X942 :: AMVP_CIPHER where "AMVP_SUB_KDF_X942 \<equiv> 82"
abbreviation (input) AMVP_SUB_KDF_X963 :: AMVP_CIPHER where "AMVP_SUB_KDF_X963 \<equiv> 83"
abbreviation (input) AMVP_SUB_KDF_108 :: AMVP_CIPHER where "AMVP_SUB_KDF_108 \<equiv> 84"
abbreviation (input) AMVP_SUB_KDF_PBKDF :: AMVP_CIPHER where "AMVP_SUB_KDF_PBKDF \<equiv> 85"
abbreviation (input) AMVP_SUB_KDF_TLS12 :: AMVP_CIPHER where "AMVP_SUB_KDF_TLS12 \<equiv> 86"
abbreviation (input) AMVP_SUB_KDF_TLS13 :: AMVP_CIPHER where "AMVP_SUB_KDF_TLS13 \<equiv> 87"

subsection \<open>Prerequisite algorithms\<close>

abbreviation (input) AMVP_PREREQ_AES :: int where "AMVP_PREREQ_AES \<equiv> 1"
abbreviation (input) AMVP_PREREQ_CCM :: int where "AMVP_PREREQ_CCM \<equiv> 2"
abbreviation (input) AMVP_PREREQ_CMAC :: int where "AMVP_PREREQ_CMAC \<equiv> 3"
abbreviation (input) AMVP_PREREQ_DRBG :: int where "AMVP_PREREQ_DRBG \<equiv> 4"
abbreviation (input) AMVP_PREREQ_DSA :: int where "AMVP_PREREQ_DSA \<equiv> 5"
abbreviation (input) AMVP_PREREQ_ECDSA :: int where "AMVP_PREREQ_ECDSA \<equiv> 6"
abbreviation (input) AMVP_PREREQ_HMAC :: int where "AMVP_PREREQ_HMAC \<equiv> 7"
abbreviation (input) AMVP_PREREQ_KAS :: int where "AMVP_PREREQ_KAS \<equiv> 8"
abbreviation (input) AMVP_PREREQ_RSA :: int where "AMVP_PREREQ_RSA \<equiv> 9"
abbreviation (input) AMVP_PREREQ_RSADP :: int where "AMVP_PREREQ_RSADP \<equiv> 10"
abbreviation (input) AMVP_PREREQ_SAFE_PRIMES :: int where "AMVP_PREREQ_SAFE_PRIMES \<equiv> 11"
abbreviation (input) AMVP_PREREQ_SHA :: int where "AMVP_PREREQ_SHA \<equiv> 12"
abbreviation (input) AMVP_PREREQ_TDES :: int where "AMVP_PREREQ_TDES \<equiv> 13"
abbreviation (input) AMVP_PREREQ_KMAC :: int where "AMVP_PREREQ_KMAC \<equiv> 14"

subsection \<open>Hash algorithm flags\<close>

abbreviation (input) AMVP_NO_SHA :: int where "AMVP_NO_SHA \<equiv> 0"
abbreviation (input) AMVP_SHA1 :: int where "AMVP_SHA1 \<equiv> 1"
abbreviation (input) AMVP_SHA224 :: int where "AMVP_SHA224 \<equiv> 2"
abbreviation (input) AMVP_SHA256 :: int where "AMVP_SHA256 \<equiv> 4"
abbreviation (input) AMVP_SHA384 :: int where "AMVP_SHA384 \<equiv> 8"
abbreviation (input) AMVP_SHA512 :: int where "AMVP_SHA512 \<equiv> 16"
abbreviation (input) AMVP_SHA512_224 :: int where "AMVP_SHA512_224 \<equiv> 32"
abbreviation (input) AMVP_SHA512_256 :: int where "AMVP_SHA512_256 \<equiv> 64"
abbreviation (input) AMVP_SHA3_224 :: int where "AMVP_SHA3_224 \<equiv> 128"
abbreviation (input) AMVP_SHA3_256 :: int where "AMVP_SHA3_256 \<equiv> 256"
abbreviation (input) AMVP_SHA3_384 :: int where "AMVP_SHA3_384 \<equiv> 512"
abbreviation (input) AMVP_SHA3_512 :: int where "AMVP_SHA3_512 \<equiv> 1024"
abbreviation (input) AMVP_HASH_ALG_MAX :: int where "AMVP_HASH_ALG_MAX \<equiv> 2048"

subsection \<open>DRBG modes\<close>

abbreviation (input) AMVP_DRBG_SHA_1 :: int where "AMVP_DRBG_SHA_1 \<equiv> 1"
abbreviation (input) AMVP_DRBG_SHA_224 :: int where "AMVP_DRBG_SHA_224 \<equiv> 2"
abbreviation (input) AMVP_DRBG_SHA_256 :: int where "AMVP_DRBG_SHA_256 \<equiv> 3"
abbreviation (input) AMVP_DRBG_SHA_384 :: int where "AMVP_DRBG_SHA_384 \<equiv> 4"
abbreviation (input) AMVP_DRBG_SHA_512 :: int where "AMVP_DRBG_SHA_512 \<equiv> 5"
abbreviation (input) AMVP_DRBG_SHA_512_224 :: int where "AMVP_DRBG_SHA_512_224 \<equiv> 6"
abbreviation (input) AMVP_DRBG_SHA_512_256 :: int where "AMVP_DRBG_SHA_512_256 \<equiv> 7"
abbreviation (input) AMVP_DRBG_TDES :: int where "AMVP_DRBG_TDES \<equiv> 8"
abbreviation (input) AMVP_DRBG_AES_128 :: int where "AMVP_DRBG_AES_128 \<equiv> 9"
abbreviation (input) AMVP_DRBG_AES_192 :: int where "AMVP_DRBG_AES_192 \<equiv> 10"
abbreviation (input) AMVP_DRBG_AES_256 :: int where "AMVP_DRBG_AES_256 \<equiv> 11"

subsection \<open>Elliptic curves\<close>

abbreviation (input) AMVP_EC_CURVE_START :: int where "AMVP_EC_CURVE_START \<equiv> 0"
abbreviation (input) AMVP_EC_CURVE_P192 :: int where "AMVP_EC_CURVE_P192 \<equiv> 1"
abbreviation (input) AMVP_EC_CURVE_P224 :: int where "AMVP_EC_CURVE_P224 \<equiv> 2"
abbreviation (input) AMVP_EC_CURVE_P256 :: int where "AMVP_EC_CURVE_P256 \<equiv> 3"
abbreviation (input) AMVP_EC_CURVE_P384 :: int where "AMVP_EC_CURVE_P384 \<equiv> 4"
abbreviation (input) AMVP_EC_CURVE_P521 :: int where "AMVP_EC_CURVE_P521 \<equiv> 5"
abbreviation (input) AMVP_EC_CURVE_B163 :: int where "AMVP_EC_CURVE_B163 \<equiv> 6"
abbreviation (input) AMVP_EC_CURVE_B233 :: int where "AMVP_EC_CURVE_B233 \<equiv> 7"
abbreviation (input) AMVP_EC_CURVE_B283 :: int where "AMVP_EC_CURVE_B283 \<equiv> 8"
abbreviation (input) AMVP_EC_CURVE_B409 :: int where "AMVP_EC_CURVE_B409 \<equiv> 9"
abbreviation (input) AMVP_EC_CURVE_B571 :: int where "AMVP_EC_CURVE_B571 \<equiv> 10"
abbreviation (input) AMVP_EC_CURVE_K163 :: int where "AMVP_EC_CURVE_K163 \<equiv> 11"
abbreviation (input) AMVP_EC_CURVE_K233 :: int where "AMVP_EC_CURVE_K233 \<equiv> 12"
abbreviation (input) AMVP_EC_CURVE_K283 :: int where "AMVP_EC_CURVE_K283 \<equiv> 13"
abbreviation (input) AMVP_EC_CURVE_K409 :: int where "AMVP_EC_CURVE_K409 \<equiv> 14"
abbreviation (input) AMVP_EC_CURVE_K571 :: int where "AMVP_EC_CURVE_K571 \<equiv> 15"
abbreviation (input) AMVP_EC_CURVE_END :: int where "AMVP_EC_CURVE_END \<equiv> 16"

subsection \<open>Revisions\<close>

abbreviation (input) AMVP_REVISION_DEFAULT :: int where "AMVP_REVISION_DEFAULT \<equiv> 0"
abbreviation (input) AMVP_REVISION_SP800_56CR1 :: int where "AMVP_REVISION_SP800_56CR1 \<equiv> 1"
abbreviation (input) AMVP_REVISION_SP800_56AR3 :: int where "AMVP_REVISION_SP800_56AR3 \<equiv> 2"
abbreviation (input) AMVP_REVISION_MAX :: int where "AMVP_REVISION_MAX \<equiv> 3"

subsection \<open>Conformances\<close>

abbreviation (input) AMVP_CONFORMANCE_DEFAULT :: int where "AMVP_CONFORMANCE_DEFAULT \<equiv> 0"
abbreviation (input) AMVP_CONFORMANCE_RFC3686 :: int where "AMVP_CONFORMANCE_RFC3686 \<equiv> 1"
abbreviation (input) AMVP_CONFORMANCE_MAX :: int where "AMVP_CONFORMANCE_MAX \<equiv> 2"

section \<open>The algorithm table\<close>

datatype kat_handler =
    amvp_aes_kat_handler
  | amvp_des_kat_handler
  | amvp_hash_kat_handler
  | amvp_drbg_kat_handler
  | amvp_hmac_kat_handler
  | amvp_cmac_kat_handler
  | amvp_kmac_kat_handler
  | amvp_dsa_kat_handler
  | amvp_rsa_keygen_kat_handler
  | amvp_rsa_siggen_kat_handler
  | amvp_rsa_sigver_kat_handler
  | amvp_rsa_decprim_kat_handler
  | amvp_rsa_sigprim_kat_handler
  | amvp_ecdsa_keygen_kat_handler
  | amvp_ecdsa_keyver_kat_handler
  | amvp_ecdsa_siggen_kat_handler
  | amvp_ecdsa_sigver_kat_handler
  | amvp_kdf135_snmp_kat_handler
  | amvp_kdf135_ssh_kat_handler
  | amvp_kdf135_srtp_kat_handler
  | amvp_kdf135_ikev2_kat_handler
  | amvp_kdf135_ikev1_kat_handler
  | amvp_kdf135_x942_kat_handler
  | amvp_kdf135_x963_kat_handler
  | amvp_kdf108_kat_handler
  | amvp_pbkdf_kat_handler
  | amvp_kdf_tls12_kat_handler
  | amvp_kdf_tls13_kat_handler
  | amvp_kas_ecc_kat_handler
  | amvp_kas_ecc_ssc_kat_handler
  | amvp_kas_ffc_kat_handler
  | amvp_kas_ffc_ssc_kat_handler
  | amvp_kas_ifc_ssc_kat_handler
  | amvp_kda_onestep_kat_handler
  | amvp_kda_twostep_kat_handler
  | amvp_kda_hkdf_kat_handler
  | amvp_kts_ifc_kat_handler
  | amvp_safe_primes_kat_handler

record AMVP_ALG_HANDLER =
  alg_cipher :: AMVP_CIPHER
  alg_handler :: kat_handler
  alg_name :: string
  alg_mode :: "string option"
  alg_revision :: string
  alg_sub :: AMVP_CIPHER

definition alg_row ::
  "AMVP_CIPHER \<Rightarrow> kat_handler \<Rightarrow> string \<Rightarrow> string option \<Rightarrow> string \<Rightarrow> AMVP_CIPHER \<Rightarrow> AMVP_ALG_HANDLER" where
  "alg_row c h n m r s =
     \<lparr>alg_cipher = c, alg_handler = h, alg_name = n, alg_mode = m, alg_revision = r, alg_sub = s\<rparr>"

definition alg_tbl :: "AMVP_ALG_HANDLER list" where
  "alg_tbl =
   [alg_row AMVP_AES_GCM amvp_aes_kat_handler ''AMVP-AES-GCM'' None ''1.0'' AMVP_SUB_AES_GCM,
    alg_row AMVP_AES_GCM_SIV amvp_aes_kat_handler ''AMVP-AES-GCM-SIV'' None ''1.0'' AMVP_SUB_AES_GCM_SIV,
    alg_row AMVP_AES_CCM amvp_aes_kat_handler ''AMVP-AES-CCM'' None ''1.0'' AMVP_SUB_AES_CCM,
    alg_row AMVP_AES_ECB amvp_aes_kat_handler ''AMVP-AES-ECB'' None ''1.0'' AMVP_SUB_AES_ECB,
    alg_row AMVP_AES_CBC amvp_aes_kat_handler ''AMVP-AES-CBC'' None ''1.0'' AMVP_SUB_AES_CBC,
    alg_row AMVP_AES_CBC_CS1 amvp_aes_kat_handler ''AMVP-AES-CBC-CS1'' None ''1.0'' AMVP_SUB_AES_CBC_CS1,
    alg_row AMVP_AES_CBC_CS2 amvp_aes_kat_handler ''AMVP-AES-CBC-CS2'' None ''1.0'' AMVP_SUB_AES_CBC_CS2,
    alg_row AMVP_AES_CBC_CS3 amvp_aes_kat_handler ''AMVP-AES-CBC-CS3'' None ''1.0'' AMVP_SUB_AES_CBC_CS3,
    alg_row AMVP_AES_CFB1 amvp_aes_kat_handler ''AMVP-AES-CFB1'' None ''1.0'' AMVP_SUB_AES_CFB1,
    alg_row AMVP_AES_CFB8 amvp_aes_kat_handler ''AMVP-AES-CFB8'' None ''1.0'' AMVP_SUB_AES_CFB8,
    alg_row AMVP_AES_CFB128 amvp_aes_kat_handler ''AMVP-AES-CFB128'' None ''1.0'' AMVP_SUB_AES_CFB128,
    alg_row AMVP_AES_OFB amvp_aes_kat_handler ''AMVP-AES-OFB'' None ''1.0'' AMVP_SUB_AES_OFB,
    alg_row AMVP_AES_CTR amvp_aes_kat_handler ''AMVP-AES-CTR'' None ''1.0'' AMVP_SUB_AES_CTR,
    alg_row AMVP_AES_XTS amvp_aes_kat_handler ''AMVP-AES-XTS'' None ''2.0'' AMVP_SUB_AES_XTS,
    alg_row AMVP_AES_KW amvp_aes_kat_handler ''AMVP-AES-KW'' None ''1.0'' AMVP_SUB_AES_KW,
    alg_row AMVP_AES_KWP amvp_aes_kat_handler ''AMVP-AES-KWP'' None ''1.0'' AMVP_SUB_AES_KWP,
    alg_row AMVP_AES_GMAC amvp_aes_kat_handler ''AMVP-AES-GMAC'' None ''1.0'' AMVP_SUB_AES_GMAC,
    alg_row AMVP_AES_XPN amvp_aes_kat_handler ''AMVP-AES-XPN'' None ''1.0'' AMVP_SUB_AES_XPN,
    alg_row AMVP_TDES_ECB amvp_des_kat_handler ''AMVP-TDES-ECB'' None ''1.0'' AMVP_SUB_TDES_ECB,
    alg_row AMVP_TDES_CBC amvp_des_kat_handler ''AMVP-TDES-CBC'' None ''1.0'' AMVP_SUB_TDES_CBC,
    alg_row AMVP_TDES_CBCI amvp_des_kat_handler ''AMVP-TDES-CBCI'' None ''1.0'' AMVP_SUB_TDES_CBCI,
    alg_row AMVP_TDES_OFB amvp_des_kat_handler ''AMVP-TDES-OFB'' None ''1.0'' AMVP_SUB_TDES_OFB,
    alg_row AMVP_TDES_OFBI amvp_des_kat_handler ''AMVP-TDES-OFBI'' None ''1.0'' AMVP_SUB_TDES_OFBI,
    alg_row AMVP_TDES_CFB1 amvp_des_kat_handler ''AMVP-TDES-CFB1'' None ''1.0'' AMVP_SUB_TDES_CFB1,
    alg_row AMVP_TDES_CFB8 amvp_des_kat_handler ''AMVP-TDES-CFB8'' None ''1.0'' AMVP_SUB_TDES_CFB8,
    alg_row AMVP_TDES_CFB64 amvp_des_kat_handler ''AMVP-TDES-CFB64'' None ''1.0'' AMVP_SUB_TDES_CFB64,
    alg_row AMVP_TDES_CFBP1 amvp_des_kat_handler ''AMVP-TDES-CFBP1'' None ''1.0'' AMVP_SUB_TDES_CFBP1,
    alg_row AMVP_TDES_CFBP8 amvp_des_kat_handler ''AMVP-TDES-CFBP8'' None ''1.0'' AMVP_SUB_TDES_CFBP8,
    alg_row AMVP_TDES_CFBP64 amvp_des_kat_handler ''AMVP-TDES-CFBP64'' None ''1.0'' AMVP_SUB_TDES_CFBP64,
    alg_row AMVP_TDES_CTR amvp_des_kat_handler ''AMVP-TDES-CTR'' None ''1.0'' AMVP_SUB_TDES_CTR,
    alg_row AMVP_TDES_KW amvp_des_kat_handler ''AMVP-TDES-KW'' None ''1.0'' AMVP_SUB_TDES_KW,
    alg_row AMVP_HASH_SHA1 amvp_hash_kat_handler ''SHA-1'' None ''1.0'' AMVP_SUB_HASH_SHA1,
    alg_row AMVP_HASH_SHA224 amvp_hash_kat_handler ''SHA2-224'' None ''1.0'' AMVP_SUB_HASH_SHA2_224,
    alg_row AMVP_HASH_SHA256 amvp_hash_kat_handler ''SHA2-256'' None ''1.0'' AMVP_SUB_HASH_SHA2_256,
    alg_row AMVP_HASH_SHA384 amvp_hash_kat_handler ''SHA2-384'' None ''1.0'' AMVP_SUB_HASH_SHA2_384,
    alg_row AMVP_HASH_SHA512 amvp_hash_kat_handler ''SHA2-512'' None ''1.0'' AMVP_SUB_HASH_SHA2_512,
    alg_row AMVP_HASH_SHA512_224 amvp_hash_kat_handler ''SHA2-512/224'' None ''1.0'' AMVP_SUB_HASH_SHA2_512_224,
    alg_row AMVP_HASH_SHA512_256 amvp_hash_kat_handler ''SHA2-512/256'' None ''1.0'' AMVP_SUB_HASH_SHA2_512_256,
    alg_row AMVP_HASH_SHA3_224 amvp_hash_kat_handler ''SHA3-224'' None ''2.0'' AMVP_SUB_HASH_SHA3_224,
    alg_row AMVP_HASH_SHA3_256 amvp_hash_kat_handler ''SHA3-256'' None ''2.0'' AMVP_SUB_HASH_SHA3_256,
    alg_row AMVP_HASH_SHA3_384 amvp_hash_kat_handler ''SHA3-384'' None ''2.0'' AMVP_SUB_HASH_SHA3_384,
    alg_row AMVP_HASH_SHA3_512 amvp_hash_kat_handler ''SHA3-512'' None ''2.0'' AMVP_SUB_HASH_SHA3_512,
    alg_row AMVP_HASH_SHAKE_128 amvp_hash_kat_handler ''SHAKE-128'' None ''1.0'' AMVP_SUB_HASH_SHAKE_128,
    alg_row AMVP_HASH_SHAKE_256 amvp_hash_kat_handler ''SHAKE-256'' None ''1.0'' AMVP_SUB_HASH_SHAKE_256,
    alg_row AMVP_HASHDRBG amvp_drbg_kat_handler ''hashDRBG'' None ''1.0'' AMVP_SUB_DRBG_HASH,
    alg_row AMVP_HMACDRBG amvp_drbg_kat_handler ''hmacDRBG'' None ''1.0'' AMVP_SUB_DRBG_HMAC,
    alg_row AMVP_CTRDRBG amvp_drbg_kat_handler ''ctrDRBG'' None ''1.0'' AMVP_SUB_DRBG_CTR,
    alg_row AMVP_HMAC_SHA1 amvp_hmac_kat_handler ''HMAC-SHA-1'' None ''1.0'' AMVP_SUB_HMAC_SHA1,
    alg_row AMVP_HMAC_SHA2_224 amvp_hmac_kat_handler ''HMAC-SHA2-224'' None ''1.0'' AMVP_SUB_HMAC_SHA2_224,
    alg_row AMVP_HMAC_SHA2_256 amvp_hmac_kat_handler ''HMAC-SHA2-256'' None ''1.0'' AMVP_SUB_HMAC_SHA2_256,
    alg_row AMVP_HMAC_SHA2_384 amvp_hmac_kat_handler ''HMAC-SHA2-384'' None ''1.0'' AMVP_SUB_HMAC_SHA2_384,
    alg_row AMVP_HMAC_SHA2_512 amvp_hmac_kat_handler ''HMAC-SHA2-512'' None ''1.0'' AMVP_SUB_HMAC_SHA2_512,
    alg_row AMVP_HMAC_SHA2_512_224 amvp_hmac_kat_handler ''HMAC-SHA2-512/224'' None ''1.0'' AMVP_SUB_HMAC_SHA2_512_224,
    alg_row AMVP_HMAC_SHA2_512_256 amvp_hmac_kat_handler ''HMAC-SHA2-512/256'' None ''1.0'' AMVP_SUB_HMAC_SHA2_512_256,
    alg_row AMVP_HMAC_SHA3_224 amvp_hmac_kat_handler ''HMAC-SHA3-224'' None ''1.0'' AMVP_SUB_HMAC_SHA3_224,
    alg_row AMVP_HMAC_SHA3_256 amvp_hmac_kat_handler ''HMAC-SHA3-256'' None ''1.0'' AMVP_SUB_HMAC_SHA3_256,
    alg_row AMVP_HMAC_SHA3_384 amvp_hmac_kat_handler ''HMAC-SHA3-384'' None ''1.0'' AMVP_SUB_HMAC_SHA3_384,
    alg_row AMVP_HMAC_SHA3_512 amvp_hmac_kat_handler ''HMAC-SHA3-512'' None ''1.0'' AMVP_SUB_HMAC_SHA3_512,
    alg_row AMVP_CMAC_AES amvp_cmac_kat_handler ''CMAC-AES'' None ''1.0'' AMVP_SUB_CMAC_AES,
    alg_row AMVP_CMAC_TDES amvp_cmac_kat_handler ''CMAC-TDES'' None ''1.0'' AMVP_SUB_CMAC_TDES,
    alg_row AMVP_KMAC_128 amvp_kmac_kat_handler ''KMAC-128'' None ''1.0'' AMVP_SUB_KMAC_128,
    alg_row AMVP_KMAC_256 amvp_kmac_kat_handler ''KMAC-256'' None ''1.0'' AMVP_SUB_KMAC_256,
    alg_row AMVP_DSA_KEYGEN amvp_dsa_kat_handler ''DSA'' (Some ''keyGen'') ''1.0'' AMVP_SUB_DSA_KEYGEN,
    alg_row AMVP_DSA_PQGGEN amvp_dsa_kat_handler ''DSA'' (Some ''pqgGen'') ''1.0'' AMVP_SUB_DSA_PQGGEN,
    alg_row AMVP_DSA_PQGVER amvp_dsa_kat_handler ''DSA'' (Some ''pqgVer'') ''1.0'' AMVP_SUB_DSA_PQGVER,
    alg_row AMVP_DSA_SIGGEN amvp_dsa_kat_handler ''DSA'' (Some ''sigGen'') ''1.0'' AMVP_SUB_DSA_SIGGEN,
    alg_row AMVP_DSA_SIGVER amvp_dsa_kat_handler ''DSA'' (Some ''sigVer'') ''1.0'' AMVP_SUB_DSA_SIGVER,
    alg_row AMVP_RSA_KEYGEN amvp_rsa_keygen_kat_handler ''RSA'' (Some ''keyGen'') ''FIPS186-4'' AMVP_SUB_RSA_KEYGEN,
    alg_row AMVP_RSA_SIGGEN amvp_rsa_siggen_kat_handler ''RSA'' (Some ''sigGen'') ''FIPS186-4'' AMVP_SUB_RSA_SIGGEN,
    alg_row AMVP_RSA_SIGVER amvp_rsa_sigver_kat_handler ''RSA'' (Some ''sigVer'') ''FIPS186-4'' AMVP_SUB_RSA_SIGVER,
    alg_row AMVP_RSA_DECPRIM amvp_rsa_decprim_kat_handler ''RSA'' (Some ''decryptionPrimitive'') ''1.0'' AMVP_SUB_RSA_DECPRIM,
    alg_row AMVP_RSA_SIGPRIM amvp_rsa_sigprim_kat_handler ''RSA'' (Some ''signaturePrimitive'') ''1.0'' AMVP_SUB_RSA_SIGPRIM,
    alg_row AMVP_ECDSA_KEYGEN amvp_ecdsa_keygen_kat_handler ''ECDSA'' (Some ''keyGen'') ''1.0'' AMVP_SUB_ECDSA_KEYGEN,
    alg_row AMVP_ECDSA_KEYVER amvp_ecdsa_keyver_kat_handler ''ECDSA'' (Some ''keyVer'') ''1.0'' AMVP_SUB_ECDSA_KEYVER,
    alg_row AMVP_ECDSA_SIGGEN amvp_ecdsa_siggen_kat_handler ''ECDSA'' (Some ''sigGen'') ''1.0'' AMVP_SUB_ECDSA_SIGGEN,
    alg_row AMVP_ECDSA_SIGVER amvp_ecdsa_sigver_kat_handler ''ECDSA'' (Some ''sigVer'') ''1.0'' AMVP_SUB_ECDSA_SIGVER,
    alg_row AMVP_KDF135_SNMP amvp_kdf135_snmp_kat_handler ''kdf-components'' (Some ''snmp'') ''1.0'' AMVP_SUB_KDF_SNMP,
    alg_row AMVP_KDF135_SSH amvp_kdf135_ssh_kat_handler ''kdf-components'' (Some ''ssh'') ''1.0'' AMVP_SUB_KDF_SSH,
    alg_row AMVP_KDF135_SRTP amvp_kdf135_srtp_kat_handler ''kdf-components'' (Some ''srtp'') ''1.0'' AMVP_SUB_KDF_SRTP,
    alg_row AMVP_KDF135_IKEV2 amvp_kdf135_ikev2_kat_handler ''kdf-components'' (Some ''ikev2'') ''1.0'' AMVP_SUB_KDF_IKEV2,
    alg_row AMVP_KDF135_IKEV1 amvp_kdf135_ikev1_kat_handler ''kdf-components'' (Some ''ikev1'') ''1.0'' AMVP_SUB_KDF_IKEV1,
    alg_row AMVP_KDF135_X942 amvp_kdf135_x942_kat_handler ''kdf-components'' (Some ''ansix9.42'') ''1.0'' AMVP_SUB_KDF_X942,
    alg_row AMVP_KDF135_X963 amvp_kdf135_x963_kat_handler ''kdf-components'' (Some ''ansix9.63'') ''1.0'' AMVP_SUB_KDF_X963,
    alg_row AMVP_KDF108 amvp_kdf108_kat_handler ''KDF'' None ''1.0'' AMVP_SUB_KDF_108,
    alg_row AMVP_PBKDF amvp_pbkdf_kat_handler ''PBKDF'' None ''1.0'' AMVP_SUB_KDF_PBKDF,
    alg_row AMVP_KDF_TLS12 amvp_kdf_tls12_kat_handler ''TLS-v1.2'' (Some ''KDF'') ''RFC7627'' AMVP_SUB_KDF_TLS12,
    alg_row AMVP_KDF_TLS13 amvp_kdf_tls13_kat_handler ''TLS-v1.3'' (Some ''KDF'') ''RFC8446'' AMVP_SUB_KDF_TLS13,
    alg_row AMVP_KAS_ECC_CDH amvp_kas_ecc_kat_handler ''KAS-ECC'' (Some ''CDH-Component'') ''1.0'' AMVP_SUB_KAS_ECC_CDH,
    alg_row AMVP_KAS_ECC_COMP amvp_kas_ecc_kat_handler ''KAS-ECC'' (Some ''Component'') ''1.0'' AMVP_SUB_KAS_ECC_COMP,
    alg_row AMVP_KAS_ECC_NOCOMP amvp_kas_ecc_kat_handler ''KAS-ECC'' (Some '''') ''1.0'' AMVP_SUB_KAS_ECC_NOCOMP,
    alg_row AMVP_KAS_ECC_SSC amvp_kas_ecc_ssc_kat_handler ''KAS-ECC-SSC'' (Some ''Component'') ''Sp800-56Ar3'' AMVP_SUB_KAS_ECC_SSC,
    alg_row AMVP_KAS_FFC_COMP amvp_kas_ffc_kat_handler ''KAS-FFC'' (Some ''Component'') ''1.0'' AMVP_SUB_KAS_FFC_COMP,
    alg_row AMVP_KAS_FFC_NOCOMP amvp_kas_ffc_kat_handler ''KAS-FFC'' (Some '''') ''1.0'' AMVP_SUB_KAS_FFC_NOCOMP,
    alg_row AMVP_KAS_FFC_SSC amvp_kas_ffc_ssc_kat_handler ''KAS-FFC-SSC'' (Some ''Component'') ''Sp800-56Ar3'' AMVP_SUB_KAS_FFC_SSC,
    alg_row AMVP_KAS_IFC_SSC amvp_kas_ifc_ssc_kat_handler ''KAS-IFC-SSC'' (Some '''') ''Sp800-56Br2'' AMVP_SUB_KAS_IFC_SSC,
    alg_row AMVP_KDA_ONESTEP amvp_kda_onestep_kat_handler ''KDA'' (Some ''OneStep'') ''Sp800-56Cr2'' AMVP_SUB_KDA_ONESTEP,
    alg_row AMVP_KDA_TWOSTEP amvp_kda_twostep_kat_handler ''KDA'' (Some ''TwoStep'') ''Sp800-56Cr2'' AMVP_SUB_KDA_TWOSTEP,
    alg_row AMVP_KDA_HKDF amvp_kda_hkdf_kat_handler ''KDA'' (Some ''HKDF'') ''Sp800-56Cr2'' AMVP_SUB_KDA_HKDF,
    alg_row AMVP_KTS_IFC amvp_kts_ifc_kat_handler ''KTS-IFC'' (Some '''') ''Sp800-56Br2'' AMVP_SUB_KTS_IFC,
    alg_row AMVP_SAFE_PRIMES_KEYGEN amvp_safe_primes_kat_handler ''safePrimes'' (Some ''keyGen'') ''1.0'' AMVP_SUB_SAFE_PRIMES_KEYGEN,
    alg_row AMVP_SAFE_PRIMES_KEYVER amvp_safe_primes_kat_handler ''safePrimes'' (Some ''keyVer'') ''1.0'' AMVP_SUB_SAFE_PRIMES_KEYVER]"

text \<open>
  \<^verbatim>\<open>AMVP_ALG_MAX\<close> and \<^verbatim>\<open>AMVP_CAP_MAX\<close> are macros without parentheses: the second expands to
  \<^verbatim>\<open>AMVP_CIPHER_END - 1 * 2\<close>.
\<close>

definition AMVP_ALG_MAX :: nat where
  "AMVP_ALG_MAX = AMVP_CIPHER_END - 1"

definition AMVP_CAP_MAX :: nat where
  "AMVP_CAP_MAX = AMVP_CIPHER_END - 1 * 2"

lemma alg_tbl_length: "length alg_tbl = AMVP_ALG_MAX"
  by (simp add: alg_tbl_def AMVP_ALG_MAX_def)

lemma alg_tbl_ciphers: "map alg_cipher alg_tbl = [1..<102]"
  by (simp add: alg_tbl_def alg_row_def upt_rec)

lemma alg_tbl_nth_cipher:
  assumes "1 \<le> c" and "c < AMVP_CIPHER_END"
  shows "alg_cipher (alg_tbl ! (c - 1)) = c"
proof -
  have "alg_cipher (alg_tbl ! (c - 1)) = map alg_cipher alg_tbl ! (c - 1)"
    using assms by (simp add: alg_tbl_length AMVP_ALG_MAX_def)
  with assms show ?thesis by (simp add: alg_tbl_ciphers)
qed

section \<open>From a cipher to its sub-type\<close>

text \<open>
  The twelve getters read the same bytes of the table row through differently named
  members of a union of enums. Zero stands for a cipher outside the enum.
\<close>

definition cipher_sub :: "AMVP_CIPHER \<Rightarrow> AMVP_CIPHER" where
  "cipher_sub cipher =
     (if cipher = AMVP_CIPHER_START \<or> cipher \<ge> AMVP_CIPHER_END then 0
      else alg_sub (alg_tbl ! (cipher - 1)))"

definition amvp_get_cmac_alg :: "AMVP_CIPHER \<Rightarrow> AMVP_CIPHER" where
  "amvp_get_cmac_alg cipher = cipher_sub cipher"

definition amvp_get_hash_alg :: "AMVP_CIPHER \<Rightarrow> AMVP_CIPHER" where
  "amvp_get_hash_alg cipher = cipher_sub cipher"

definition amvp_get_aes_alg :: "AMVP_CIPHER \<Rightarrow> AMVP_CIPHER" where
  "amvp_get_aes_alg cipher = cipher_sub cipher"

definition amvp_get_tdes_alg :: "AMVP_CIPHER \<Rightarrow> AMVP_CIPHER" where
  "amvp_get_tdes_alg cipher = cipher_sub cipher"

definition amvp_get_hmac_alg :: "AMVP_CIPHER \<Rightarrow> AMVP_CIPHER" where
  "amvp_get_hmac_alg cipher = cipher_sub cipher"

definition amvp_get_kmac_alg :: "AMVP_CIPHER \<Rightarrow> AMVP_CIPHER" where
  "amvp_get_kmac_alg cipher = cipher_sub cipher"

definition amvp_get_rsa_alg :: "AMVP_CIPHER \<Rightarrow> AMVP_CIPHER" where
  "amvp_get_rsa_alg cipher = cipher_sub cipher"

definition amvp_get_dsa_alg :: "AMVP_CIPHER \<Rightarrow> AMVP_CIPHER" where
  "amvp_get_dsa_alg cipher = cipher_sub cipher"

definition amvp_get_ecdsa_alg :: "AMVP_CIPHER \<Rightarrow> AMVP_CIPHER" where
  "amvp_get_ecdsa_alg cipher = cipher_sub cipher"

definition amvp_get_kdf_alg :: "AMVP_CIPHER \<Rightarrow> AMVP_CIPHER" where
  "amvp_get_kdf_alg cipher = cipher_sub cipher"

definition amvp_get_drbg_alg :: "AMVP_CIPHER \<Rightarrow> AMVP_CIPHER" where
  "amvp_get_drbg_alg cipher = cipher_sub cipher"

definition amvp_get_kas_alg :: "AMVP_CIPHER \<Rightarrow> AMVP_CIPHER" where
  "amvp_get_kas_alg cipher = cipher_sub cipher"

text \<open>
  The sub-type column of the table. Outside two groups it repeats the cipher: AES-KW,
  -KWP, -GMAC and -XPN (15 to 18) and the key-agreement block from 93 on are permuted.
\<close>

lemma alg_tbl_subs:
  "map alg_sub alg_tbl = [1..<15] @ [16, 17, 18, 15] @ [19..<93] @ [94, 93, 95, 97, 98, 99, 96, 100, 101]"
  by (simp add: alg_tbl_def alg_row_def upt_rec)

lemma alg_tbl_sub_nth: "c < 101 \<Longrightarrow> alg_sub (alg_tbl ! c) = map alg_sub alg_tbl ! c"
  by (simp add: alg_tbl_length AMVP_ALG_MAX_def)

lemma cipher_sub_low: "1 \<le> c \<Longrightarrow> c < 15 \<Longrightarrow> cipher_sub c = c"
  by (simp add: cipher_sub_def alg_tbl_sub_nth alg_tbl_subs nth_append)

lemma cipher_sub_mid: "19 \<le> c \<Longrightarrow> c < 93 \<Longrightarrow> cipher_sub c = c"
  by (auto simp: cipher_sub_def alg_tbl_sub_nth alg_tbl_subs nth_append simp del: upt_rec_numeral)

lemma cipher_sub_aes_tail: "15 \<le> c \<Longrightarrow> c < 19 \<Longrightarrow> cipher_sub c = (if c = 18 then 15 else c + 1)"
proof -
  assume "15 \<le> c" "c < 19"
  then have "c = 15 \<or> c = 16 \<or> c = 17 \<or> c = 18" by arith
  then show ?thesis
    by (auto simp: cipher_sub_def alg_tbl_sub_nth alg_tbl_subs nth_append)
qed

lemma cipher_sub_high: "93 \<le> c \<Longrightarrow> c \<le> 101 \<Longrightarrow> 93 \<le> cipher_sub c \<and> cipher_sub c \<le> 101"
proof -
  assume "93 \<le> c" "c \<le> 101"
  then have "c = 93 \<or> c = 94 \<or> c = 95 \<or> c = 96 \<or> c = 97 \<or> c = 98 \<or> c = 99 \<or> c = 100 \<or> c = 101"
    by arith
  then show ?thesis
    by (elim disjE) (simp_all add: cipher_sub_def alg_tbl_sub_nth alg_tbl_subs nth_append)
qed

lemma cipher_sub_out: "c = 0 \<or> 102 \<le> c \<Longrightarrow> cipher_sub c = 0"
  by (auto simp: cipher_sub_def)

text \<open>
  Within the block that holds the hash, DRBG, HMAC, CMAC and KMAC ciphers the sub-type is
  the cipher, and no other cipher has a sub-type in the block.
\<close>

lemma cipher_sub_block:
  assumes "19 \<le> lo" and "hi < 93"
  shows "lo \<le> cipher_sub c \<and> cipher_sub c \<le> hi \<longleftrightarrow> lo \<le> c \<and> c \<le> hi"
proof -
  consider "c = 0 \<or> 102 \<le> c" | "1 \<le> c" "c < 15" | "15 \<le> c" "c < 19"
    | "19 \<le> c" "c < 93" | "93 \<le> c" "c \<le> 101" by linarith
  then show ?thesis
    using assms
    by cases (use cipher_sub_high [of c] in
        \<open>auto simp: cipher_sub_out cipher_sub_low cipher_sub_aes_tail cipher_sub_mid\<close>)
qed

end
