(* ===== verification/Lookup_Tables.thy ===== *)
theory Lookup_Tables
  imports Safe_C Amvp_Enums
begin

text \<open>
  The lookups of \<^verbatim>\<open>src/amvp_util.c\<close>: the master algorithm table by cipher, by name and by
  name and mode, and the smaller tables that pair an enumerator with the string the
  protocol uses for it (hash algorithms, DRBG modes, EC curves, auxiliary functions,
  revisions, RSA modes and prime tests), the table of error strings, and the small
  validity checks that stand beside them.

  Two interfaces carry the proofs: \<open>name_column\<close> for a table searched by name with
  \<^const>\<open>strcmp_s\<close>, and \<open>id_table\<close>, which extends it, for a table that is searched in
  both directions.
\<close>

section \<open>Searching a table\<close>

text \<open>
  One loop of the code: compare each name with \<^const>\<open>strcmp_s\<close>, whose result goes to a
  variable that starts at \<open>ind\<close> and that an error of \<^const>\<open>strcmp_s\<close> leaves alone.
\<close>

fun find_by_name ::
  "(string \<Rightarrow> nat) \<Rightarrow> int \<Rightarrow> ('i \<times> string) list \<Rightarrow> string option \<Rightarrow> 'i option" where
  "find_by_name dmax ind [] s = None"
| "find_by_name dmax ind ((i, n) # rest) s =
     (if snd (strcmp_s (Some n) (dmax n) s ind) = 0 then Some i
      else find_by_name dmax ind rest s)"

fun find_by_id :: "('i \<times> string) list \<Rightarrow> 'i \<Rightarrow> string option" where
  "find_by_id [] k = None"
| "find_by_id ((i, n) # rest) k = (if k = i then Some n else find_by_id rest k)"

lemma find_by_id_map_of: "find_by_id tbl = map_of tbl"
proof (rule ext)
  fix k show "find_by_id tbl k = map_of tbl k"
    by (induction tbl k rule: find_by_id.induct) auto
qed

locale name_column =
  fixes dmax :: "string \<Rightarrow> nat" and tbl :: "('i \<times> string) list"
  assumes names_ok: "(i, n) \<in> set tbl \<Longrightarrow> c_string n \<and> 0 < dmax n \<and> dmax n \<le> RSIZE_MAX_STR"
begin

lemma find_name_eq:
  assumes "c_string s"
  shows "find_by_name dmax ind tbl (Some s) = map_of (map (\<lambda>(i, n). (n, i)) tbl) s"
proof -
  have "(\<forall>(i, n) \<in> set t. c_string n \<and> 0 < dmax n \<and> dmax n \<le> RSIZE_MAX_STR) \<Longrightarrow>
      find_by_name dmax ind t (Some s) = map_of (map (\<lambda>(i, n). (n, i)) t) s" for t
    by (induction t) (use assms in \<open>auto simp: strcmp_s_indicator strcmp_eq_0\<close>)
  with names_ok show ?thesis by blast
qed

text \<open>A null name: the indicator keeps its initial value, so 0 makes the first row match.\<close>

lemma find_name_null:
  "find_by_name dmax ind tbl None = (if ind = 0 then map_option fst (if tbl = [] then None else Some (hd tbl)) else None)"
proof -
  have "find_by_name dmax ind t None =
      (if ind = 0 then map_option fst (if t = [] then None else Some (hd t)) else None)" for t :: "('i \<times> string) list"
    by (induction t) (auto simp: strcmp_s_def)
  then show ?thesis .
qed

end

locale id_table = name_column +
  assumes distinct_ids: "distinct (map fst tbl)"
    and distinct_names: "distinct (map snd tbl)"
begin

lemma name_iff_id:
  assumes "c_string s"
  shows "find_by_name dmax ind tbl (Some s) = Some i \<longleftrightarrow> find_by_id tbl i = Some s"
proof -
  have "distinct (map fst (map (\<lambda>(i, n). (n, i)) tbl))"
    using distinct_names by (simp add: comp_def case_prod_beta)
  then show ?thesis
    using assms distinct_ids by (auto simp: find_name_eq find_by_id_map_of)
qed

lemma id_c_string: "find_by_id tbl i = Some s \<Longrightarrow> c_string s"
  by (auto simp: find_by_id_map_of dest: map_of_SomeD names_ok)

end

lemma name_columnI:
  "list_all (\<lambda>(i, n). c_string n \<and> 0 < dmax n \<and> dmax n \<le> 26) tbl \<Longrightarrow> name_column dmax tbl"
  by (fastforce simp: name_column_def list_all_iff RSIZE_MAX_STR_def)

lemma id_tableI:
  "list_all (\<lambda>(i, n). c_string n \<and> 0 < dmax n \<and> dmax n \<le> 26) tbl \<Longrightarrow>
   distinct (map fst tbl) \<Longrightarrow> distinct (map snd tbl) \<Longrightarrow> id_table dmax tbl"
  by (simp add: id_table_def id_table_axioms_def name_columnI)

section \<open>The master algorithm table\<close>

definition AMVP_ALG_NAME_MAX :: nat where "AMVP_ALG_NAME_MAX = 18"
definition AMVP_ALG_MODE_MAX :: nat where "AMVP_ALG_MODE_MAX = 26"

definition amvp_lookup_cipher_name :: "AMVP_CIPHER \<Rightarrow> string option" where
  "amvp_lookup_cipher_name alg = map_option alg_name (find (\<lambda>r. alg_cipher r = alg) alg_tbl)"

definition amvp_lookup_cipher_revision :: "AMVP_CIPHER \<Rightarrow> string option" where
  "amvp_lookup_cipher_revision alg = map_option alg_revision (find (\<lambda>r. alg_cipher r = alg) alg_tbl)"

definition amvp_lookup_cipher_index :: "string option \<Rightarrow> AMVP_CIPHER" where
  "amvp_lookup_cipher_index algorithm =
     (case algorithm of None \<Rightarrow> 0
      | Some _ \<Rightarrow>
        (case find_by_name (\<lambda>_. AMVP_ALG_NAME_MAX) 1 (map (\<lambda>r. (alg_cipher r, alg_name r)) alg_tbl) algorithm of
           None \<Rightarrow> 0 | Some c \<Rightarrow> c))"

fun cipher_w_mode_loop :: "AMVP_ALG_HANDLER list \<Rightarrow> string \<Rightarrow> string \<Rightarrow> AMVP_CIPHER" where
  "cipher_w_mode_loop [] algorithm mode = 0"
| "cipher_w_mode_loop (r # rest) algorithm mode =
     (if alg_mode r = None then cipher_w_mode_loop rest algorithm mode
      else
        let diff = snd (strcmp_s (Some (alg_name r)) AMVP_ALG_NAME_MAX (Some algorithm) 0) in
        if diff = 0 \<and> snd (strcmp_s (alg_mode r) AMVP_ALG_MODE_MAX (Some mode) diff) = 0
        then alg_cipher r
        else cipher_w_mode_loop rest algorithm mode)"

definition amvp_lookup_cipher_w_mode_index :: "string option \<Rightarrow> string option \<Rightarrow> AMVP_CIPHER" where
  "amvp_lookup_cipher_w_mode_index algorithm mode =
     (case (algorithm, mode) of
        (Some a, Some m) \<Rightarrow> cipher_w_mode_loop alg_tbl a m
      | _ \<Rightarrow> 0)"

definition amvp_lookup_cipher_mode_str :: "AMVP_CIPHER \<Rightarrow> string option" where
  "amvp_lookup_cipher_mode_str cipher =
     (case find (\<lambda>r. alg_cipher r = cipher) alg_tbl of
        None \<Rightarrow> None
      | Some r \<Rightarrow>
          if alg_mode r = None \<or> strnlen_s (alg_mode r) AMVP_ALG_MODE_MAX < 1 then None
          else alg_mode r)"

lemma map_of_is_SomeI2:
  "(k, v) \<in> set xs \<Longrightarrow> (\<And>w. (k, w) \<in> set xs \<Longrightarrow> w = v) \<Longrightarrow> map_of xs k = Some v"
  by (metis map_of_SomeD weak_map_of_SomeI)

lemma alg_tbl_find:
  assumes "1 \<le> c" and "c < AMVP_CIPHER_END"
  shows "find (\<lambda>r. alg_cipher r = c) alg_tbl = Some (alg_tbl ! (c - 1))"
proof -
  have len: "length alg_tbl = 101" by (simp add: alg_tbl_length AMVP_ALG_MAX_def)
  have row: "alg_cipher (alg_tbl ! j) = j + 1" if "j < 101" for j
    using alg_tbl_nth_cipher [of "j + 1"] that by simp
  have "\<forall>j < c - 1. alg_cipher (alg_tbl ! j) \<noteq> c"
    using assms by (intro allI impI) (simp add: row)
  with assms len row [of "c - 1"] show ?thesis
    unfolding find_Some_iff by (intro exI [of _ "c - 1"]) simp
qed

lemma alg_tbl_find_out: "c = 0 \<or> 102 \<le> c \<Longrightarrow> find (\<lambda>r. alg_cipher r = c) alg_tbl = None"
proof -
  assume c: "c = 0 \<or> 102 \<le> c"
  have "c \<notin> set (map alg_cipher alg_tbl)" using c by (simp only: alg_tbl_ciphers set_upt) auto
  then show ?thesis by (auto simp: find_None_iff)
qed

text \<open>
  Facts of the table: names and modes are C strings within their limits, a pair of name
  and mode occurs once, and a name without a mode is not shared with any other row.
\<close>

definition key_of :: "AMVP_ALG_HANDLER \<Rightarrow> string \<times> string option" where
  "key_of r = (alg_name r, alg_mode r)"

lemma alg_tbl_strings:
  "list_all (\<lambda>r. c_string (alg_name r) \<and> length (alg_name r) \<le> AMVP_ALG_NAME_MAX \<and>
      (case alg_mode r of None \<Rightarrow> True | Some m \<Rightarrow> c_string m \<and> length m \<le> AMVP_ALG_MODE_MAX)) alg_tbl"
  by code_simp

lemma alg_tbl_keys_distinct: "distinct (map key_of alg_tbl)"
  by code_simp

lemma alg_tbl_plain_names:
  "list_all (\<lambda>r. list_all (\<lambda>q. alg_name q \<noteq> alg_name r) (filter (\<lambda>q. alg_mode q \<noteq> None) alg_tbl))
     (filter (\<lambda>r. alg_mode r = None) alg_tbl)"
  by code_simp

lemma cipher_w_mode_loop_eq:
  assumes "c_string a" and "c_string m"
    and "list_all (\<lambda>r. c_string (alg_name r) \<and> (case alg_mode r of None \<Rightarrow> True | Some k \<Rightarrow> c_string k)) rows"
  shows "cipher_w_mode_loop rows a m =
    (case find (\<lambda>r. key_of r = (a, Some m)) rows of None \<Rightarrow> 0 | Some r \<Rightarrow> alg_cipher r)"
  using assms(3)
proof (induction rows)
  case (Cons r rows)
  then show ?case
    using assms(1,2)
    by (cases "alg_mode r")
      (auto simp: key_of_def strcmp_s_indicator strcmp_eq_0 AMVP_ALG_NAME_MAX_def
        AMVP_ALG_MODE_MAX_def RSIZE_MAX_STR_def Let_def)
qed simp

interpretation alg_names: name_column "\<lambda>_. AMVP_ALG_NAME_MAX" "map (\<lambda>r. (alg_cipher r, alg_name r)) alg_tbl"
  using alg_tbl_strings
  by (intro name_columnI) (auto simp: list_all_iff AMVP_ALG_NAME_MAX_def)

lemma find_distinct_key:
  "distinct (map f xs) \<Longrightarrow> x \<in> set xs \<Longrightarrow> find (\<lambda>y. f y = f x) xs = Some x"
  by (induction xs) auto

lemma alg_row_in: "1 \<le> c \<Longrightarrow> c < AMVP_CIPHER_END \<Longrightarrow> alg_tbl ! (c - 1) \<in> set alg_tbl"
  by (simp add: alg_tbl_length AMVP_ALG_MAX_def)

lemma alg_row_strings:
  assumes "r \<in> set alg_tbl"
  shows "c_string (alg_name r)" and "alg_mode r = Some m \<Longrightarrow> c_string m"
  using assms alg_tbl_strings by (auto simp: list_all_iff split: option.splits)

lemma w_mode_index_row:
  assumes r: "r \<in> set alg_tbl" and m: "alg_mode r = Some m"
  shows "amvp_lookup_cipher_w_mode_index (Some (alg_name r)) (Some m) = alg_cipher r"
proof -
  have "list_all (\<lambda>r. c_string (alg_name r) \<and> (case alg_mode r of None \<Rightarrow> True | Some k \<Rightarrow> c_string k)) alg_tbl"
    using alg_tbl_strings by (auto simp: list_all_iff split: option.splits)
  moreover have "find (\<lambda>q. key_of q = (alg_name r, Some m)) alg_tbl = Some r"
    using find_distinct_key [OF alg_tbl_keys_distinct r] m by (simp add: key_of_def)
  ultimately show ?thesis
    using alg_row_strings [OF r] m
    by (simp add: amvp_lookup_cipher_w_mode_index_def cipher_w_mode_loop_eq)
qed

lemma index_row:
  assumes r: "r \<in> set alg_tbl" and m: "alg_mode r = None"
  shows "amvp_lookup_cipher_index (Some (alg_name r)) = alg_cipher r"
proof -
  have "map_of (map (\<lambda>r. (alg_name r, alg_cipher r)) alg_tbl) (alg_name r) = Some (alg_cipher r)"
  proof (rule map_of_is_SomeI2)
    show "(alg_name r, alg_cipher r) \<in> set (map (\<lambda>r. (alg_name r, alg_cipher r)) alg_tbl)"
      using r by simp
  next
    fix v assume "(alg_name r, v) \<in> set (map (\<lambda>r. (alg_name r, alg_cipher r)) alg_tbl)"
    then obtain q where q: "q \<in> set alg_tbl" "alg_name q = alg_name r" "v = alg_cipher q" by auto
    then have "alg_mode q = None" using alg_tbl_plain_names r m by (auto simp: list_all_iff)
    then have "key_of q = key_of r" using q m by (simp add: key_of_def)
    then have "q = r" using alg_tbl_keys_distinct q r by (metis inj_onD distinct_map)
    then show "v = alg_cipher r" using q by simp
  qed
  then show ?thesis
    using alg_row_strings [OF r]
    by (simp add: amvp_lookup_cipher_index_def alg_names.find_name_eq comp_def)
qed

section \<open>Enumerators and their protocol strings\<close>

definition DRBG_MODE_NAME_MAX :: nat where "DRBG_MODE_NAME_MAX = 12"
definition HASH_ALG_NAME_MAX :: nat where "HASH_ALG_NAME_MAX = 12"
definition EC_CURVE_NAME_MAX :: nat where "EC_CURVE_NAME_MAX = 5"

definition alt_revision_tbl :: "(int \<times> string) list" where
  "alt_revision_tbl =
    [(AMVP_REVISION_SP800_56AR3, ''Sp800-56Ar3''),
     (AMVP_REVISION_SP800_56CR1, ''Sp800-56Cr1'')]"

definition amvp_lookup_alt_revision_string :: "int \<Rightarrow> string option" where
  "amvp_lookup_alt_revision_string r = find_by_id alt_revision_tbl r"

definition amvp_lookup_rsa_randpq_name :: "int \<Rightarrow> string option" where
  "amvp_lookup_rsa_randpq_name value =
     (if value = 1 then Some ''B.3.2''
      else if value = 2 then Some ''B.3.3''
      else if value = 3 then Some ''B.3.4''
      else if value = 4 then Some ''B.3.5''
      else if value = 5 then Some ''B.3.6''
      else None)"

text \<open>The index is found by one comparison after the other, all into the same variable.\<close>

definition amvp_lookup_rsa_randpq_index :: "string option \<Rightarrow> int" where
  "amvp_lookup_rsa_randpq_index value =
     (if value = None then 0
      else let diff = snd (strcmp_s (Some ''B.3.2'') 5 value 0) in
      if diff = 0 then 1
      else let diff = snd (strcmp_s (Some ''B.3.3'') 5 value diff) in
      if diff = 0 then 2
      else let diff = snd (strcmp_s (Some ''B.3.4'') 5 value diff) in
      if diff = 0 then 3
      else let diff = snd (strcmp_s (Some ''B.3.5'') 5 value diff) in
      if diff = 0 then 4
      else let diff = snd (strcmp_s (Some ''B.3.6'') 5 value diff) in
      if diff = 0 then 5
      else 0)"

definition drbg_mode_tbl :: "(int \<times> string) list" where
  "drbg_mode_tbl =
    [(AMVP_DRBG_SHA_1, ''SHA-1''),
     (AMVP_DRBG_SHA_224, ''SHA2-224''),
     (AMVP_DRBG_SHA_256, ''SHA2-256''),
     (AMVP_DRBG_SHA_384, ''SHA2-384''),
     (AMVP_DRBG_SHA_512, ''SHA2-512''),
     (AMVP_DRBG_SHA_512_224, ''SHA2-512/224''),
     (AMVP_DRBG_SHA_512_256, ''SHA2-512/256''),
     (AMVP_DRBG_TDES, ''TDES''),
     (AMVP_DRBG_AES_128, ''AES-128''),
     (AMVP_DRBG_AES_192, ''AES-192''),
     (AMVP_DRBG_AES_256, ''AES-256'')]"

text \<open>There is no test for a null name here, and the comparison result starts at 0.\<close>

definition amvp_lookup_drbg_mode_index :: "string option \<Rightarrow> int" where
  "amvp_lookup_drbg_mode_index mode =
     (case find_by_name (\<lambda>_. DRBG_MODE_NAME_MAX) 0 drbg_mode_tbl mode of None \<Rightarrow> 0 | Some m \<Rightarrow> m)"

definition is_valid_tf_param :: "int \<Rightarrow> AMVP_RESULT" where
  "is_valid_tf_param value = (if value = 0 \<or> value = 1 then AMVP_SUCCESS else AMVP_INVALID_ARG)"

definition hash_alg_tbl :: "(int \<times> string) list" where
  "hash_alg_tbl =
    [(AMVP_SHA1, ''SHA-1''),
     (AMVP_SHA224, ''SHA2-224''),
     (AMVP_SHA256, ''SHA2-256''),
     (AMVP_SHA384, ''SHA2-384''),
     (AMVP_SHA512, ''SHA2-512''),
     (AMVP_SHA512_224, ''SHA2-512/224''),
     (AMVP_SHA512_256, ''SHA2-512/256''),
     (AMVP_SHA3_224, ''SHA3-224''),
     (AMVP_SHA3_256, ''SHA3-256''),
     (AMVP_SHA3_384, ''SHA3-384''),
     (AMVP_SHA3_512, ''SHA3-512'')]"

definition amvp_lookup_hash_alg :: "string option \<Rightarrow> int" where
  "amvp_lookup_hash_alg name =
     (case name of None \<Rightarrow> 0
      | Some _ \<Rightarrow>
        (case find_by_name (\<lambda>_. HASH_ALG_NAME_MAX) 0 hash_alg_tbl name of None \<Rightarrow> 0 | Some i \<Rightarrow> i))"

definition amvp_lookup_hash_alg_name :: "int \<Rightarrow> string option" where
  "amvp_lookup_hash_alg_name i = (if i = 0 then None else find_by_id hash_alg_tbl i)"

definition amvp_lookup_rsa_prime_test_name :: "int \<Rightarrow> string option" where
  "amvp_lookup_rsa_prime_test_name type =
     (if type = 1 then Some ''tblC2'' else if type = 2 then Some ''tblC3'' else None)"

definition is_valid_prime_test :: "string option \<Rightarrow> AMVP_RESULT" where
  "is_valid_prime_test value =
     (if value = None then AMVP_INVALID_ARG
      else let diff = snd (strcmp_s (Some ''tblC2'') 5 value 0) in
      if diff = 0 then AMVP_SUCCESS
      else let diff = snd (strcmp_s (Some ''tblC3'') 5 value diff) in
      if diff = 0 then AMVP_SUCCESS
      else AMVP_INVALID_ARG)"

definition is_valid_rsa_mod :: "int \<Rightarrow> AMVP_RESULT" where
  "is_valid_rsa_mod value =
     (if value \<noteq> 2048 \<and> value \<noteq> 3072 \<and> value \<noteq> 4096 then AMVP_INVALID_ARG else AMVP_SUCCESS)"

definition ec_curve_tbl :: "(int \<times> string) list" where
  "ec_curve_tbl =
    [(AMVP_EC_CURVE_P224, ''P-224''), (AMVP_EC_CURVE_P256, ''P-256''),
     (AMVP_EC_CURVE_P384, ''P-384''), (AMVP_EC_CURVE_P521, ''P-521''),
     (AMVP_EC_CURVE_B233, ''B-233''), (AMVP_EC_CURVE_B283, ''B-283''),
     (AMVP_EC_CURVE_B409, ''B-409''), (AMVP_EC_CURVE_B571, ''B-571''),
     (AMVP_EC_CURVE_K233, ''K-233''), (AMVP_EC_CURVE_K283, ''K-283''),
     (AMVP_EC_CURVE_K409, ''K-409''), (AMVP_EC_CURVE_K571, ''K-571'')]"

definition ec_curve_depr_tbl :: "(int \<times> string) list" where
  "ec_curve_depr_tbl =
    [(AMVP_EC_CURVE_P192, ''P-192''), (AMVP_EC_CURVE_B163, ''B-163''), (AMVP_EC_CURVE_K163, ''K-163'')]"

definition amvp_lookup_ec_curve_name :: "AMVP_CIPHER \<Rightarrow> int \<Rightarrow> string option" where
  "amvp_lookup_ec_curve_name cipher curve =
     (case find_by_id ec_curve_tbl curve of
        Some n \<Rightarrow> Some n
      | None \<Rightarrow>
          if cipher = AMVP_ECDSA_KEYVER \<or> cipher = AMVP_ECDSA_SIGVER
          then find_by_id ec_curve_depr_tbl curve
          else None)"

definition amvp_lookup_ec_curve :: "AMVP_CIPHER \<Rightarrow> string option \<Rightarrow> int" where
  "amvp_lookup_ec_curve cipher name =
     (case find_by_name (\<lambda>_. EC_CURVE_NAME_MAX) 0 ec_curve_tbl name of
        Some i \<Rightarrow> i
      | None \<Rightarrow>
          if cipher = AMVP_ECDSA_KEYVER \<or> cipher = AMVP_ECDSA_SIGVER
          then (case find_by_name (\<lambda>_. EC_CURVE_NAME_MAX) 0 ec_curve_depr_tbl name of
                  Some i \<Rightarrow> i | None \<Rightarrow> 0)
          else 0)"

definition amvp_aux_function_tbl :: "(AMVP_CIPHER \<times> string) list" where
  "amvp_aux_function_tbl =
    [(AMVP_HASH_SHA224, ''SHA2-224''), (AMVP_HASH_SHA256, ''SHA2-256''),
     (AMVP_HASH_SHA384, ''SHA2-384''), (AMVP_HASH_SHA512, ''SHA2-512''),
     (AMVP_HASH_SHA512_224, ''SHA2-512/224''), (AMVP_HASH_SHA512_256, ''SHA2-512/256''),
     (AMVP_HASH_SHA3_224, ''SHA3-224''), (AMVP_HASH_SHA3_256, ''SHA3-256''),
     (AMVP_HASH_SHA3_384, ''SHA3-384''), (AMVP_HASH_SHA3_512, ''SHA3-512''),
     (AMVP_HMAC_SHA2_224, ''HMAC-SHA2-224''), (AMVP_HMAC_SHA2_256, ''HMAC-SHA2-256''),
     (AMVP_HMAC_SHA2_384, ''HMAC-SHA2-384''), (AMVP_HMAC_SHA2_512, ''HMAC-SHA2-512''),
     (AMVP_HMAC_SHA2_512_224, ''HMAC-SHA2-512/224''), (AMVP_HMAC_SHA2_512_256, ''HMAC-SHA2-512/256''),
     (AMVP_HMAC_SHA3_224, ''HMAC-SHA3-224''), (AMVP_HMAC_SHA3_256, ''HMAC-SHA3-256''),
     (AMVP_HMAC_SHA3_384, ''HMAC-SHA3-384''), (AMVP_HMAC_SHA3_512, ''HMAC-SHA3-512''),
     (AMVP_KMAC_128, ''KMAC-128''), (AMVP_KMAC_256, ''KMAC-256'')]"

definition amvp_lookup_aux_function_alg_str :: "AMVP_CIPHER \<Rightarrow> string option" where
  "amvp_lookup_aux_function_alg_str alg = find_by_id amvp_aux_function_tbl alg"

definition amvp_lookup_aux_function_alg_tbl :: "string option \<Rightarrow> AMVP_CIPHER" where
  "amvp_lookup_aux_function_alg_tbl str =
     (case find_by_name (\<lambda>n. strnlen_s (Some n) AMVP_ALG_NAME_MAX) 1 amvp_aux_function_tbl str of
        None \<Rightarrow> 0 | Some c \<Rightarrow> c)"

text \<open>
  The error strings: the array has one slot for every code but success, 26 in all, and 24
  initialisers; the last two slots are zero, which is the code of success and a null string.
\<close>

definition error_desc_tbl :: "(AMVP_RESULT \<times> string option) list" where
  "error_desc_tbl =
    [(AMVP_MALLOC_FAIL, Some ''Error allocating memory''),
     (AMVP_NO_CTX, Some ''No valid context found''),
     (AMVP_TRANSPORT_FAIL, Some ''Error using transport library''),
     (AMVP_NO_DATA, Some ''Trying to use data but none was found''),
     (AMVP_UNSUPPORTED_OP, Some ''Unsupported operation''),
     (AMVP_CLEANUP_FAIL, Some ''Error cleaning up AMVP context''),
     (AMVP_KAT_DOWNLOAD_RETRY, Some ''Error, need to retry''),
     (AMVP_INVALID_ARG, Some ''Invalid argument''),
     (AMVP_MISSING_ARG, Some ''Missing a required argument''),
     (AMVP_CRYPTO_MODULE_FAIL, Some ''Error from crypto module processing a vector set''),
     (AMVP_NO_CAP, Some ''No matching capability found''),
     (AMVP_MALFORMED_JSON, Some ''Unable to process JSON''),
     (AMVP_JSON_ERR, Some ''Error using JSON library''),
     (AMVP_TC_MISSING_DATA, Some ''Provided test case is missing required data''),
     (AMVP_TC_INVALID_DATA, Some ''Provided test case has invalid data''),
     (AMVP_DATA_TOO_LARGE, Some ''Data too large''),
     (AMVP_CONVERT_DATA_ERR, Some ''Failed converting data between hex/binary''),
     (AMVP_DUP_CIPHER, Some ''Duplicate cipher, may have already registered''),
     (AMVP_TOTP_FAIL, Some ''Failed to base64 decode TOTP seed''),
     (AMVP_CTX_NOT_EMPTY, Some ''ctx already initialized''),
     (AMVP_JWT_MISSING, Some ''Error using JWT''),
     (AMVP_JWT_EXPIRED, Some ''Provided JWT has expired''),
     (AMVP_JWT_INVALID, Some ''Proivded JWT is not valid''),
     (AMVP_INTERNAL_ERR, Some ''Unexpected error occured internally'')]
    @ replicate 2 (AMVP_SUCCESS, None)"

definition amvp_lookup_error_string :: "AMVP_RESULT \<Rightarrow> string option" where
  "amvp_lookup_error_string rv =
     (case map_of error_desc_tbl rv of Some desc \<Rightarrow> desc | None \<Rightarrow> Some ''Unknown error'')"

section \<open>What the tables promise\<close>

interpretation drbg_modes: id_table "\<lambda>_. DRBG_MODE_NAME_MAX" drbg_mode_tbl
  by (rule id_tableI) code_simp+

interpretation hash_algs: id_table "\<lambda>_. HASH_ALG_NAME_MAX" hash_alg_tbl
  by (rule id_tableI) code_simp+

interpretation ec_curves: id_table "\<lambda>_. EC_CURVE_NAME_MAX" ec_curve_tbl
  by (rule id_tableI) code_simp+

interpretation ec_depr_curves: id_table "\<lambda>_. EC_CURVE_NAME_MAX" ec_curve_depr_tbl
  by (rule id_tableI) code_simp+

interpretation aux_functions: id_table "\<lambda>n. strnlen_s (Some n) AMVP_ALG_NAME_MAX" amvp_aux_function_tbl
  by (rule id_tableI) code_simp+

lemma w_mode_index_iff:
  assumes "c_string a" and "c_string m" and "c \<noteq> 0"
  shows "amvp_lookup_cipher_w_mode_index (Some a) (Some m) = c \<longleftrightarrow>
    (\<exists>r \<in> set alg_tbl. alg_cipher r = c \<and> alg_name r = a \<and> alg_mode r = Some m)"
proof -
  have strs: "list_all (\<lambda>r. c_string (alg_name r) \<and> (case alg_mode r of None \<Rightarrow> True | Some k \<Rightarrow> c_string k)) alg_tbl"
    using alg_tbl_strings by (auto simp: list_all_iff split: option.splits)
  show ?thesis
  proof
    assume "amvp_lookup_cipher_w_mode_index (Some a) (Some m) = c"
    then show "\<exists>r \<in> set alg_tbl. alg_cipher r = c \<and> alg_name r = a \<and> alg_mode r = Some m"
      using assms strs
      by (auto simp: amvp_lookup_cipher_w_mode_index_def cipher_w_mode_loop_eq key_of_def
          split: option.splits dest!: find_Some_in)
  next
    assume "\<exists>r \<in> set alg_tbl. alg_cipher r = c \<and> alg_name r = a \<and> alg_mode r = Some m"
    then show "amvp_lookup_cipher_w_mode_index (Some a) (Some m) = c"
      using w_mode_index_row by blast
  qed
qed

lemma find_by_id_split:
  "find_by_id (xs @ ys) k = (case find_by_id xs k of None \<Rightarrow> find_by_id ys k | Some n \<Rightarrow> Some n)"
  by (induction xs k rule: find_by_id.induct) auto

lemma find_by_name_split:
  "find_by_name d i (xs @ ys) s =
     (case find_by_name d i xs s of None \<Rightarrow> find_by_name d i ys s | Some n \<Rightarrow> Some n)"
  by (induction d i xs s rule: find_by_name.induct) auto

text \<open>The two ECDSA verification modes search both curve tables, one after the other.\<close>

interpretation all_curves: id_table "\<lambda>_. EC_CURVE_NAME_MAX" "ec_curve_tbl @ ec_curve_depr_tbl"
  by (rule id_tableI) code_simp+

section \<open>Properties\<close>

text \<open>
  C35: every cipher of the enumeration can be found again from the name and the mode string
  that the library reports for it: with a mode string by the search for name and mode,
  without one by the search for the name alone or for the name and the empty mode.
\<close>

theorem lookup_cipher_roundtrip:
  assumes "AMVP_CIPHER_START < c" and "c < AMVP_CIPHER_END"
  shows "\<exists>n. amvp_lookup_cipher_name c = Some n \<and>
    (case amvp_lookup_cipher_mode_str c of
       Some m \<Rightarrow> amvp_lookup_cipher_w_mode_index (Some n) (Some m) = c
     | None \<Rightarrow> amvp_lookup_cipher_index (Some n) = c \<or>
               amvp_lookup_cipher_w_mode_index (Some n) (Some []) = c)"
proof -
  let ?r = "alg_tbl ! (c - 1)"
  have r: "?r \<in> set alg_tbl" and c: "alg_cipher ?r = c" and f: "find (\<lambda>r. alg_cipher r = c) alg_tbl = Some ?r"
    using assms alg_row_in [of c] alg_tbl_nth_cipher [of c] alg_tbl_find [of c] by simp_all
  show ?thesis
  proof (cases "alg_mode ?r")
    case None
    with index_row [OF r] c f show ?thesis
      by (simp add: amvp_lookup_cipher_name_def amvp_lookup_cipher_mode_str_def)
  next
    case (Some m)
    with w_mode_index_row [OF r Some] c f show ?thesis
      by (cases m) (auto simp: amvp_lookup_cipher_name_def amvp_lookup_cipher_mode_str_def AMVP_ALG_MODE_MAX_def)
  qed
qed

theorem lookup_cipher_roundtrip_witness:
  "\<exists>n. amvp_lookup_cipher_name AMVP_RSA_SIGGEN = Some n \<and>
    (case amvp_lookup_cipher_mode_str AMVP_RSA_SIGGEN of
       Some m \<Rightarrow> amvp_lookup_cipher_w_mode_index (Some n) (Some m) = AMVP_RSA_SIGGEN
     | None \<Rightarrow> amvp_lookup_cipher_index (Some n) = AMVP_RSA_SIGGEN \<or>
               amvp_lookup_cipher_w_mode_index (Some n) (Some []) = AMVP_RSA_SIGGEN)"
  by (rule lookup_cipher_roundtrip) simp_all

text \<open>
  The search for name and mode is exact. It reports a cipher exactly when the row of
  that cipher carries the given name and the given mode; a name or mode that is not in the
  table gives 0.
\<close>

theorem lookup_w_mode_exact:
  assumes "c_string a" and "c_string m" and "AMVP_CIPHER_START < c"
  shows "amvp_lookup_cipher_w_mode_index (Some a) (Some m) = c \<longleftrightarrow>
    c < AMVP_CIPHER_END \<and> alg_name (alg_tbl ! (c - 1)) = a \<and> alg_mode (alg_tbl ! (c - 1)) = Some m"
proof -
  have "(\<exists>r \<in> set alg_tbl. alg_cipher r = c \<and> P r) \<longleftrightarrow> c < 102 \<and> P (alg_tbl ! (c - 1))" for P
  proof
    assume "\<exists>r \<in> set alg_tbl. alg_cipher r = c \<and> P r"
    then obtain i where i: "i < 101" "alg_cipher (alg_tbl ! i) = c" "P (alg_tbl ! i)"
      by (auto simp: in_set_conv_nth alg_tbl_length AMVP_ALG_MAX_def)
    with alg_tbl_nth_cipher [of "i + 1"] have "c = i + 1" by simp
    with i show "c < 102 \<and> P (alg_tbl ! (c - 1))" by simp
  next
    assume "c < 102 \<and> P (alg_tbl ! (c - 1))"
    then show "\<exists>r \<in> set alg_tbl. alg_cipher r = c \<and> P r"
      using assms alg_row_in [of c] alg_tbl_nth_cipher [of c] by (intro bexI) auto
  qed
  with w_mode_index_iff [of a m c] assms show ?thesis by simp
qed

theorem lookup_w_mode_exact_witness:
  "amvp_lookup_cipher_w_mode_index (Some ''RSA'') (Some ''sigVer'') = AMVP_RSA_SIGVER \<longleftrightarrow>
    AMVP_RSA_SIGVER < AMVP_CIPHER_END \<and> alg_name (alg_tbl ! (AMVP_RSA_SIGVER - 1)) = ''RSA'' \<and>
    alg_mode (alg_tbl ! (AMVP_RSA_SIGVER - 1)) = Some ''sigVer''"
  by (rule lookup_w_mode_exact) (simp_all add: c_string_def)

text \<open>
  For hash algorithms the search by name and the search by identifier are inverse to
  each other: a name is found with a non-zero identifier exactly when the identifier is
  found with that name.
\<close>

theorem lookup_hash_alg_inverse:
  assumes "c_string n" and "i \<noteq> 0"
  shows "amvp_lookup_hash_alg (Some n) = i \<longleftrightarrow> amvp_lookup_hash_alg_name i = Some n"
  using assms hash_algs.name_iff_id [of n 0 i]
  by (auto simp: amvp_lookup_hash_alg_def amvp_lookup_hash_alg_name_def split: option.splits)

theorem lookup_hash_alg_inverse_witness:
  "amvp_lookup_hash_alg (Some ''SHA3-384'') = AMVP_SHA3_384 \<longleftrightarrow>
   amvp_lookup_hash_alg_name AMVP_SHA3_384 = Some ''SHA3-384''"
  by (rule lookup_hash_alg_inverse) (simp_all add: c_string_def)

text \<open>
  For every cipher, the search for a curve by name and the search by identifier are
  inverse to each other, the deprecated curves of ECDSA key and signature verification
  included.
\<close>

theorem lookup_ec_curve_inverse:
  assumes "c_string n" and "i \<noteq> 0"
  shows "amvp_lookup_ec_curve c (Some n) = i \<longleftrightarrow> amvp_lookup_ec_curve_name c i = Some n"
proof (cases "c = AMVP_ECDSA_KEYVER \<or> c = AMVP_ECDSA_SIGVER")
  case True
  then have "amvp_lookup_ec_curve c (Some n) =
      (case find_by_name (\<lambda>_. EC_CURVE_NAME_MAX) 0 (ec_curve_tbl @ ec_curve_depr_tbl) (Some n) of None \<Rightarrow> 0 | Some i \<Rightarrow> i)"
    by (auto simp: amvp_lookup_ec_curve_def find_by_name_split split: option.splits)
  moreover have "amvp_lookup_ec_curve_name c i = find_by_id (ec_curve_tbl @ ec_curve_depr_tbl) i"
    using True by (auto simp: amvp_lookup_ec_curve_name_def find_by_id_split split: option.splits)
  ultimately show ?thesis
    using assms all_curves.name_iff_id [of n 0 i] by (auto split: option.splits)
next
  case False
  then show ?thesis
    using assms ec_curves.name_iff_id [of n 0 i]
    by (auto simp: amvp_lookup_ec_curve_def amvp_lookup_ec_curve_name_def split: option.splits)
qed

theorem lookup_ec_curve_inverse_witness:
  "amvp_lookup_ec_curve AMVP_ECDSA_SIGVER (Some ''K-163'') = AMVP_EC_CURVE_K163 \<longleftrightarrow>
   amvp_lookup_ec_curve_name AMVP_ECDSA_SIGVER AMVP_EC_CURVE_K163 = Some ''K-163''"
  by (rule lookup_ec_curve_inverse) (simp_all add: c_string_def)

text \<open>
  The lookup of an error string gives no string exactly for the success code, and the
  text for an unknown error exactly for the protocol response error and the retry code,
  which the table leaves out.
\<close>

theorem lookup_error_string_cases:
  "(amvp_lookup_error_string rv = None \<longleftrightarrow> rv = AMVP_SUCCESS) \<and>
   (amvp_lookup_error_string rv = Some ''Unknown error'' \<longleftrightarrow>
      rv = AMVP_PROTOCOL_RSP_ERR \<or> rv = AMVP_RETRY_OPERATION)"
  by (cases rv) (simp_all add: amvp_lookup_error_string_def error_desc_tbl_def numeral_2_eq_2)

text \<open>
  A null name is not rejected by the search for a DRBG mode nor by the search for a
  curve: both report the first row of their table instead of 0.
\<close>

theorem lookup_null_name_first_row:
  "amvp_lookup_drbg_mode_index None = AMVP_DRBG_SHA_1 \<and>
   amvp_lookup_ec_curve c None = AMVP_EC_CURVE_P224 \<and>
   amvp_lookup_hash_alg None = AMVP_NO_SHA \<and> amvp_lookup_aux_function_alg_tbl None = 0"
  by (simp add: amvp_lookup_drbg_mode_index_def amvp_lookup_ec_curve_def amvp_lookup_hash_alg_def
      amvp_lookup_aux_function_alg_tbl_def strcmp_s_def drbg_mode_tbl_def ec_curve_tbl_def
      amvp_aux_function_tbl_def)

end
