(* ===== verification/Hex_Codec.thy ===== *)
theory Hex_Codec
  imports Safe_C
begin

unbundle bit_operations_syntax

text \<open>
  The conversions between byte arrays and hexadecimal strings of \<^verbatim>\<open>src/amvp_util.c\<close>. Every
  value that the library takes from a vector set or puts into a response passes through
  them. Destinations are buffers of their real size next to the size the caller claims.
\<close>

definition AMVP_HEXSTR_MAX :: nat where "AMVP_HEXSTR_MAX = 262144"

definition hex_chars :: string where "hex_chars = ''0123456789ABCDEF''"

definition hex_char :: "8 word \<Rightarrow> char" where
  "hex_char nibble = hex_chars ! unat nibble"

fun bin_to_hex_loop :: "nat \<Rightarrow> 8 word list \<Rightarrow> nat \<Rightarrow> char list \<Rightarrow> ub + char list" where
  "bin_to_hex_loop 0 src j dest = put_bytes j [NUL] dest"
| "bin_to_hex_loop (Suc n) [] j dest = Inl Out_Of_Bounds"
| "bin_to_hex_loop (Suc n) (b # src) j dest =
     (case put_bytes j [hex_char (drop_bit 4 b), hex_char (b AND 0x0f)] dest of
        Inl u \<Rightarrow> Inl u
      | Inr dest' \<Rightarrow> bin_to_hex_loop n src (j + 2) dest')"

definition amvp_bin_to_hexstr ::
  "8 word list option \<Rightarrow> int \<Rightarrow> char list option \<Rightarrow> int \<Rightarrow> char list option outcome" where
  "amvp_bin_to_hexstr src src_len dest dest_max =
     (case (src, dest) of
        (Some bs, Some buf) \<Rightarrow>
          if wrap32 (src_len * 2) > dest_max then Ret AMVP_CONVERT_DATA_ERR dest
          else (case bin_to_hex_loop (nat src_len) bs 0 buf of
                  Inl u \<Rightarrow> UB u
                | Inr buf' \<Rightarrow> Ret AMVP_SUCCESS (Some buf'))
      | _ \<Rightarrow> Ret AMVP_CONVERT_DATA_ERR dest)"

definition amvp_char_to_int :: "char \<Rightarrow> int" where
  "amvp_char_to_int ch =
     (if char_code (CHR ''0'') \<le> char_code ch \<and> char_code ch \<le> char_code (CHR ''9'')
      then char_code ch - char_code (CHR ''0'')
      else if char_code (CHR ''A'') \<le> char_code ch \<and> char_code ch \<le> char_code (CHR ''F'')
      then char_code ch - char_code (CHR ''A'') + 10
      else if char_code (CHR ''a'') \<le> char_code ch \<and> char_code ch \<le> char_code (CHR ''f'')
      then char_code ch - char_code (CHR ''a'') + 10
      else 0)"

definition hex_byte :: "char \<Rightarrow> char \<Rightarrow> 8 word" where
  "hex_byte a b = word_of_int (push_bit 4 (amvp_char_to_int a) + amvp_char_to_int b)"

text \<open>The loop runs to the end of the string, whatever the length test before it measured.\<close>

fun hex_to_bin_loop :: "string \<Rightarrow> nat \<Rightarrow> 8 word list \<Rightarrow> ub + (nat \<times> 8 word list)" where
  "hex_to_bin_loop (a # b # src) k dest =
     (case put_bytes k [hex_byte a b] dest of
        Inl u \<Rightarrow> Inl u
      | Inr dest' \<Rightarrow> hex_to_bin_loop src (k + 1) dest')"
| "hex_to_bin_loop src k dest = Inr (k, dest)"

text \<open>
  The state is the destination and the variable behind \<^verbatim>\<open>converted_len\<close>, whose pointer may be null.
\<close>

definition amvp_hexstr_to_bin ::
  "string option \<Rightarrow> 8 word list option \<Rightarrow> int \<Rightarrow> int option \<Rightarrow> (8 word list option \<times> int option) outcome" where
  "amvp_hexstr_to_bin src dest dest_max converted_len =
     (case (src, dest) of
        (Some s, Some buf) \<Rightarrow>
          let src_len = strnlen_s src AMVP_HEXSTR_MAX in
          if int src_len > wrap32 (2 * dest_max) then Ret AMVP_DATA_TOO_LARGE (dest, converted_len)
          else if odd src_len then Ret AMVP_UNSUPPORTED_OP (dest, converted_len)
          else (case hex_to_bin_loop s 0 buf of
                  Inl u \<Rightarrow> UB u
                | Inr (n, buf') \<Rightarrow>
                    Ret AMVP_SUCCESS (Some buf', map_option (\<lambda>_. int n) converted_len))
      | _ \<Rightarrow> Ret AMVP_INVALID_ARG (dest, converted_len))"

section \<open>Nibbles\<close>

definition hex_of :: "8 word list \<Rightarrow> string" where
  "hex_of bs = concat (map (\<lambda>b. [hex_char (drop_bit 4 b), hex_char (b AND 0x0f)]) bs)"

lemma length_hex_of [simp]: "length (hex_of bs) = 2 * length bs"
  by (induction bs) (simp_all add: hex_of_def)

lemma hi_nibble: "unat (drop_bit 4 (b :: 8 word)) = unat b div 16"
  using unsigned_less [of b, where ?'a = nat]
  by (simp only: unsigned_drop_bit_eq) (simp add: drop_bit_eq_div take_bit_eq_mod)

lemma lo_nibble: "unat ((b :: 8 word) AND 0x0f) = unat b mod 16"
proof -
  have "b AND 0x0f = take_bit 4 b" by (simp add: take_bit_eq_mask mask_eq_exp_minus_1)
  then show ?thesis by (simp only: unsigned_take_bit_eq) (simp add: take_bit_eq_mod)
qed

lemma hi_nibble_less: "unat (b :: 8 word) div 16 < 16"
  using unsigned_less [of b, where ?'a = nat] by simp

lemma hex_digit_value:
  assumes "n < 16"
  shows "amvp_char_to_int (hex_chars ! n) = int n \<and> hex_chars ! n \<noteq> NUL"
proof -
  have "\<forall>n \<in> set [0..<16]. amvp_char_to_int (hex_chars ! n) = int n \<and> hex_chars ! n \<noteq> NUL"
    by (simp add: upt_rec hex_chars_def amvp_char_to_int_def char_code_def)
  with assms show ?thesis by simp
qed

lemma hex_pair_value:
  "hex_byte (hex_char (drop_bit 4 b)) (hex_char (b AND 0x0f)) = b"
proof -
  have "int (unat b div 16) * 16 + int (unat b mod 16) = uint b"
    by (metis div_mult_mod_eq of_nat_add of_nat_mult of_nat_numeral uint_nat)
  then show ?thesis
    using hex_digit_value [OF hi_nibble_less [of b]] hex_digit_value [of "unat b mod 16"]
    by (simp add: hex_byte_def hex_char_def hi_nibble lo_nibble push_bit_eq_mult del: of_int_add)
qed

lemma hex_of_c_string: "c_string (hex_of bs)"
proof (induction bs)
  case (Cons b bs)
  then show ?case
    using hex_digit_value [OF hi_nibble_less [of b]] hex_digit_value [of "unat b mod 16"]
    by (auto simp: hex_of_def c_string_def hex_char_def hi_nibble lo_nibble)
qed (simp add: hex_of_def c_string_def)

section \<open>The two loops\<close>

lemma bin_to_hex_loop_eq:
  assumes "length bs = n" and "j + 2 * n < length dest"
  shows "bin_to_hex_loop n bs j dest =
    Inr (take j dest @ hex_of bs @ NUL # drop (j + 2 * n + 1) dest)"
  using assms
proof (induction n bs j dest rule: bin_to_hex_loop.induct)
  case (1 src j dest)
  then show ?case by (simp add: put_bytes_def hex_of_def)
next
  case (3 n b src j dest)
  then show ?case
    by (simp add: put_bytes_def hex_of_def min_def eval_nat_numeral add_ac)
qed simp

lemma bin_to_hex_loop_overflow:
  assumes "j + 2 * n \<ge> length dest"
  shows "bin_to_hex_loop n bs j dest = Inl Out_Of_Bounds"
  using assms
proof (induction n bs j dest rule: bin_to_hex_loop.induct)
  case (3 n b src j dest)
  then show ?case
    by (cases "j + 2 \<le> length dest") (auto simp: put_bytes_def)
qed (auto simp: put_bytes_def)

lemma hex_to_bin_loop_eq:
  assumes "k + length bs \<le> length dest"
  shows "hex_to_bin_loop (hex_of bs) k dest = Inr (k + length bs, take k dest @ bs @ drop (k + length bs) dest)"
  using assms
proof (induction bs arbitrary: k dest)
  case (Cons b bs)
  have "hex_of (b # bs) = hex_char (drop_bit 4 b) # hex_char (b AND 0x0f) # hex_of bs"
    by (simp add: hex_of_def)
  with Cons show ?case
    by (simp add: put_bytes_def hex_pair_value min_def add_ac)
qed (simp add: hex_of_def)

lemma hex_to_bin_loop_safe:
  "k + length s div 2 \<le> length dest \<Longrightarrow>
    \<exists>dest'. hex_to_bin_loop s k dest = Inr (k + length s div 2, dest') \<and> length dest' = length dest"
proof (induction s k dest rule: hex_to_bin_loop.induct)
  case (1 a b src k dest)
  then have "Suc (length dest - Suc 0) = length dest" by auto
  with 1 show ?case by (auto simp: put_bytes_def)
qed auto

lemma hex_to_bin_loop_overflow:
  "k + length s div 2 > length dest \<Longrightarrow> k \<le> length dest \<Longrightarrow> hex_to_bin_loop s k dest = Inl Out_Of_Bounds"
proof (induction s k dest rule: hex_to_bin_loop.induct)
  case (1 a b src k dest)
  then show ?case by (cases "k + 1 \<le> length dest") (auto simp: put_bytes_def)
qed auto

section \<open>Properties\<close>

text \<open>
  C36: converting bytes to a hexadecimal string and back gives the bytes. When the buffer
  has room for the digits and the terminator, the first conversion succeeds and leaves the
  hexadecimal string of the bytes in it; the second conversion of that string succeeds,
  reports their number and stores them at the front of its buffer, whose rest is untouched.
\<close>

theorem hex_roundtrip:
  assumes "2 * length bs < length buf" and "2 * length bs \<le> AMVP_HEXSTR_MAX"
    and "int (2 * length bs) \<le> dest_max"
    and "length bs \<le> length out" and "int (length bs) \<le> out_max" and "out_max < 2 ^ 30"
  shows "\<exists>buf'. amvp_bin_to_hexstr (Some bs) (int (length bs)) (Some buf) dest_max = Ret AMVP_SUCCESS (Some buf') \<and>
    length buf' = length buf \<and> cstr buf' = hex_of bs \<and>
    amvp_hexstr_to_bin (Some (cstr buf')) (Some out) out_max (Some k) =
      Ret AMVP_SUCCESS (Some (bs @ drop (length bs) out), Some (int (length bs)))"
proof -
  let ?buf' = "hex_of bs @ NUL # drop (2 * length bs + 1) buf"
  have w: "wrap32 (int (length bs) * 2) = int (length bs) * 2" "wrap32 (2 * out_max) = 2 * out_max"
    using assms by (auto intro!: wrap32_id simp: is_int32_def AMVP_HEXSTR_MAX_def)
  have "amvp_bin_to_hexstr (Some bs) (int (length bs)) (Some buf) dest_max = Ret AMVP_SUCCESS (Some ?buf')"
    using assms w by (simp add: amvp_bin_to_hexstr_def bin_to_hex_loop_eq)
  moreover have c: "cstr ?buf' = hex_of bs" by (rule cstr_append_NUL [OF hex_of_c_string])
  moreover have "amvp_hexstr_to_bin (Some (hex_of bs)) (Some out) out_max (Some k) =
      Ret AMVP_SUCCESS (Some (bs @ drop (length bs) out), Some (int (length bs)))"
    using assms w by (simp add: amvp_hexstr_to_bin_def Let_def hex_to_bin_loop_eq min_def)
  ultimately show ?thesis using assms by (intro exI [of _ ?buf']) (auto simp: min_def)
qed

theorem hex_roundtrip_witness:
  "\<exists>buf'. amvp_bin_to_hexstr (Some [0xA5, 0x0F]) (int (length [0xA5, 0x0F :: 8 word])) (Some (replicate 5 CHR ''x'')) 4 = Ret AMVP_SUCCESS (Some buf') \<and>
    length buf' = length (replicate 5 CHR ''x'') \<and> cstr buf' = hex_of [0xA5, 0x0F] \<and>
    amvp_hexstr_to_bin (Some (cstr buf')) (Some [1, 2, 3]) 3 (Some 0) =
      Ret AMVP_SUCCESS (Some ([0xA5, 0x0F] @ drop (length [0xA5, 0x0F :: 8 word]) [1, 2, 3]), Some (int (length [0xA5, 0x0F :: 8 word])))"
  by (rule hex_roundtrip) (simp_all add: AMVP_HEXSTR_MAX_def)

text \<open>
  C37: decoding stays inside its buffer for every string that fits the library's limit: with
  a destination at least as large as the size the caller gives, the call returns, reporting
  data too large, an odd number of digits, or success with half the number of digits
  converted, also for a string with characters that are no digits.
\<close>

theorem hexstr_to_bin_safe:
  assumes "length s \<le> AMVP_HEXSTR_MAX" and "0 \<le> dest_max" and "dest_max < 2 ^ 30"
    and "nat dest_max \<le> length buf"
  shows "\<exists>d. length d = length buf \<and>
    amvp_hexstr_to_bin (Some s) (Some buf) dest_max (Some k) =
      (if int (length s) > 2 * dest_max then Ret AMVP_DATA_TOO_LARGE (Some buf, Some k)
       else if odd (length s) then Ret AMVP_UNSUPPORTED_OP (Some buf, Some k)
       else Ret AMVP_SUCCESS (Some d, Some (int (length s div 2))))"
proof -
  have w: "wrap32 (2 * dest_max) = 2 * dest_max"
    using assms by (intro wrap32_id) (auto simp: is_int32_def)
  have "\<exists>d. hex_to_bin_loop s 0 buf = Inr (length s div 2, d) \<and> length d = length buf" if "int (length s) \<le> 2 * dest_max"
    using hex_to_bin_loop_safe [of 0 s buf] assms that by auto
  then show ?thesis
    using assms w by (cases "int (length s) \<le> 2 * dest_max") (auto simp: amvp_hexstr_to_bin_def Let_def min_def)
qed

theorem hexstr_to_bin_safe_witness:
  "\<exists>d. length d = length [7 :: 8 word, 7, 7] \<and>
    amvp_hexstr_to_bin (Some ''zz0A'') (Some [7, 7, 7]) 2 (Some 9) =
      (if int (length ''zz0A'') > 2 * 2 then Ret AMVP_DATA_TOO_LARGE (Some [7, 7, 7], Some 9)
       else if odd (length ''zz0A'') then Ret AMVP_UNSUPPORTED_OP (Some [7, 7, 7], Some 9)
       else Ret AMVP_SUCCESS (Some d, Some (int (length ''zz0A'' div 2))))"
  by (rule hexstr_to_bin_safe) (simp_all add: AMVP_HEXSTR_MAX_def)

text \<open>
  C38: the size checks of the two conversions miss one case each. Encoding into a buffer of
  exactly the size the check accepts, two characters for every byte, writes the terminator
  one past its end. A string longer than the limit passes the check of the decoder with the
  length cut to the limit, and the loop then runs past the end of the destination.
\<close>

theorem hex_size_checks_incomplete:
  assumes "2 * length bs \<le> AMVP_HEXSTR_MAX" and "length buf = 2 * length bs"
    and "AMVP_HEXSTR_MAX + 1 < length s" and "length out = AMVP_HEXSTR_MAX div 2"
  shows "amvp_bin_to_hexstr (Some bs) (int (length bs)) (Some buf) (int (length buf)) = UB Out_Of_Bounds \<and>
    amvp_hexstr_to_bin (Some s) (Some out) (int (length out)) k = UB Out_Of_Bounds"
proof -
  have w: "wrap32 (int (length bs) * 2) = int (length bs) * 2" "wrap32 (2 * int (length out)) = 2 * int (length out)"
    using assms by (auto intro!: wrap32_id simp: is_int32_def AMVP_HEXSTR_MAX_def)
  have "hex_to_bin_loop s 0 out = Inl Out_Of_Bounds"
    using assms by (intro hex_to_bin_loop_overflow) (auto simp: AMVP_HEXSTR_MAX_def)
  then show ?thesis
    using assms w
    by (simp add: amvp_bin_to_hexstr_def amvp_hexstr_to_bin_def bin_to_hex_loop_overflow Let_def AMVP_HEXSTR_MAX_def)
qed

theorem hex_size_checks_incomplete_witness:
  "amvp_bin_to_hexstr (Some [0xFF]) (int (length [0xFF :: 8 word])) (Some (replicate 2 NUL)) (int (length (replicate 2 NUL))) = UB Out_Of_Bounds \<and>
    amvp_hexstr_to_bin (Some (replicate 262146 CHR ''A'')) (Some (replicate 131072 0)) (int (length (replicate 131072 (0 :: 8 word)))) None = UB Out_Of_Bounds"
  by (rule hex_size_checks_incomplete) (simp_all add: AMVP_HEXSTR_MAX_def)

end
