(* ===== verification/Util_Lists.thy ===== *)
theory Util_Lists
  imports Safe_C
begin

text \<open>
  The linked lists of \<^verbatim>\<open>src/amvp_util.c\<close>: lists of integers (\<^verbatim>\<open>AMVP_SL_LIST\<close>,
  \<^verbatim>\<open>AMVP_PARAM_LIST\<close>), of references to static strings (\<^verbatim>\<open>AMVP_NAME_LIST\<close>), of copied
  strings (\<^verbatim>\<open>AMVP_STRING_LIST\<close>) and of key/value pairs (\<^verbatim>\<open>AMVP_KV_LIST\<close>). A list is the
  list of its nodes, empty for a null head; a pointer to a head is an option. The interface
  \<open>append_list\<close> states what the four append operations have in common.
\<close>

text \<open>The longest address the library stores.\<close>

abbreviation (input) AMVP_ATTR_URL_MAX :: nat where "AMVP_ATTR_URL_MAX \<equiv> 2083"

section \<open>Integers\<close>

text \<open>The walk to the last node, and the allocation of its successor.\<close>

fun append_walk :: "alloc \<Rightarrow> 'a list \<Rightarrow> 'a \<Rightarrow> AMVP_RESULT \<times> 'a list" where
  "append_walk ok [] x = (AMVP_UNSUPPORTED_OP, [])"
| "append_walk ok [c] x = (if ok 0 then (AMVP_SUCCESS, [c, x]) else (AMVP_MALLOC_FAIL, [c]))"
| "append_walk ok (c # d # rest) x = (let (rv, l) = append_walk ok (d # rest) x in (rv, c # l))"

definition amvp_append_sl_list ::
  "alloc \<Rightarrow> int list option \<Rightarrow> int \<Rightarrow> AMVP_RESULT \<times> int list option" where
  "amvp_append_sl_list ok list len =
     (case list of None \<Rightarrow> (AMVP_NO_DATA, None)
      | Some [] \<Rightarrow> if ok 0 then (AMVP_SUCCESS, Some [len]) else (AMVP_MALLOC_FAIL, Some [])
      | Some l \<Rightarrow> (let (rv, l') = append_walk ok l len in (rv, Some l')))"

definition amvp_append_param_list ::
  "alloc \<Rightarrow> int list option \<Rightarrow> int \<Rightarrow> AMVP_RESULT \<times> int list option" where
  "amvp_append_param_list ok list param =
     (case list of None \<Rightarrow> (AMVP_NO_DATA, None)
      | Some [] \<Rightarrow> if ok 0 then (AMVP_SUCCESS, Some [param]) else (AMVP_MALLOC_FAIL, Some [])
      | Some l \<Rightarrow> (let (rv, l') = append_walk ok l param in (rv, Some l')))"

fun amvp_lookup_param_list :: "int list \<Rightarrow> int \<Rightarrow> bool" where
  "amvp_lookup_param_list [] v = False"
| "amvp_lookup_param_list (p # list) v = (if v = p then True else amvp_lookup_param_list list v)"

section \<open>References to static strings\<close>

text \<open>
  A node holds a reference or null. The first node whose reference is null takes the new
  one; past the last node a fresh node, whose reference is null, is linked first.
\<close>

fun name_walk :: "alloc \<Rightarrow> 'p option list \<Rightarrow> 'p option \<Rightarrow> AMVP_RESULT \<times> 'p option list" where
  "name_walk ok [] s = (AMVP_UNSUPPORTED_OP, [])"
| "name_walk ok (None # rest) s = (AMVP_SUCCESS, s # rest)"
| "name_walk ok [Some p] s =
     (if ok 0 then (AMVP_SUCCESS, [Some p, s]) else (AMVP_MALLOC_FAIL, [Some p]))"
| "name_walk ok (Some p # q # rest) s =
     (let (rv, l) = name_walk ok (q # rest) s in (rv, Some p # l))"

definition amvp_append_name_list ::
  "alloc \<Rightarrow> 'p option list option \<Rightarrow> 'p option \<Rightarrow> AMVP_RESULT \<times> 'p option list option" where
  "amvp_append_name_list ok list s =
     (case list of None \<Rightarrow> (AMVP_NO_DATA, None)
      | Some [] \<Rightarrow>
          if ok 0 then (let (rv, l') = name_walk ok [None] s in (rv, Some l'))
          else (AMVP_MALLOC_FAIL, Some [])
      | Some l \<Rightarrow> (let (rv, l') = name_walk ok l s in (rv, Some l')))"

fun amvp_is_in_name_list :: "'p option list \<Rightarrow> 'p option \<Rightarrow> bool" where
  "amvp_is_in_name_list [] s = False"
| "amvp_is_in_name_list (c # list) s =
     (if c \<noteq> None \<and> c = s then True else amvp_is_in_name_list list s)"

section \<open>Copied strings\<close>

definition AMVP_STRING_LIST_MAX_LEN :: nat where "AMVP_STRING_LIST_MAX_LEN = 256"

text \<open>
  What \<^verbatim>\<open>strncpy_s(word, len + 1, string, len)\<close> leaves in the fresh, zeroed word: the first
  \<open>len\<close> characters, and nothing for a null string.
\<close>

definition copied_word :: "string option \<Rightarrow> string" where
  "copied_word s =
     (let len = strnlen_s s AMVP_STRING_LIST_MAX_LEN in case s of None \<Rightarrow> [] | Some t \<Rightarrow> take len t)"

definition amvp_append_str_list ::
  "alloc \<Rightarrow> string list option \<Rightarrow> string option \<Rightarrow> AMVP_RESULT \<times> string list option" where
  "amvp_append_str_list ok list s =
     (case list of None \<Rightarrow> (AMVP_NO_DATA, None)
      | Some l \<Rightarrow>
          if \<not> ok 0 then (AMVP_MALLOC_FAIL, Some l)
          else if \<not> ok 1 then (AMVP_MALLOC_FAIL, Some l)
          else (AMVP_SUCCESS, Some (l @ [copied_word s])))"

text \<open>The comparison result starts at 1 and is carried from node to node.\<close>

primrec lookup_str_walk :: "string list \<Rightarrow> string \<Rightarrow> int \<Rightarrow> bool" where
  "lookup_str_walk [] s diff = False"
| "lookup_str_walk (t # rest) s diff =
     (let len1 = strnlen_s (Some t) AMVP_STRING_LIST_MAX_LEN;
          len2 = strnlen_s (Some s) AMVP_STRING_LIST_MAX_LEN;
          minlen = (if len1 < len2 then len1 else len2);
          diff' = snd (strncmp_s (Some t) len1 (Some s) minlen diff)
      in if diff' = 0 then True else lookup_str_walk rest s diff')"

definition amvp_lookup_str_list :: "string list option \<Rightarrow> string option \<Rightarrow> bool" where
  "amvp_lookup_str_list list s =
     (case (list, s) of
        (Some l, Some t) \<Rightarrow> if l = [] then False else lookup_str_walk l t 1
      | _ \<Rightarrow> False)"

definition amvp_free_str_list :: "string list option \<Rightarrow> string list option" where
  "amvp_free_str_list list = map_option (\<lambda>_. []) list"

definition string_fits :: "string option \<Rightarrow> nat \<Rightarrow> bool" where
  "string_fits s max_allowed = (\<not> strnlen_s s ((max_allowed + 1) mod 2 ^ 32) > max_allowed)"

section \<open>Key/value pairs\<close>

record AMVP_KV =
  kv_key :: "string option"
  kv_value :: "string option"

definition AMVP_UTIL_KV_STR_MAX :: nat where "AMVP_UTIL_KV_STR_MAX = 256"

text \<open>
  The node is linked before its two strings are allocated: a failure there leaves a node
  without its value, or without both.
\<close>

definition amvp_kv_list_append ::
  "alloc \<Rightarrow> AMVP_KV list option \<Rightarrow> string option \<Rightarrow> string option \<Rightarrow> AMVP_RESULT \<times> AMVP_KV list option" where
  "amvp_kv_list_append ok kv_list key value =
     (case kv_list of None \<Rightarrow> (AMVP_INVALID_ARG, None)
      | Some l \<Rightarrow>
        if key = None \<or> value = None then (AMVP_INVALID_ARG, kv_list)
        else if \<not> string_fits key AMVP_UTIL_KV_STR_MAX then (AMVP_INVALID_ARG, kv_list)
        else if \<not> string_fits value AMVP_UTIL_KV_STR_MAX then (AMVP_INVALID_ARG, kv_list)
        else if \<not> ok 0 then (AMVP_MALLOC_FAIL, kv_list)
        else if \<not> ok 1 then (AMVP_MALLOC_FAIL, Some (l @ [\<lparr>kv_key = None, kv_value = None\<rparr>]))
        else if \<not> ok 2 then (AMVP_MALLOC_FAIL, Some (l @ [\<lparr>kv_key = Some [], kv_value = None\<rparr>]))
        else (AMVP_SUCCESS, Some (l @ [\<lparr>kv_key = key, kv_value = value\<rparr>])))"

section \<open>What the append operations promise\<close>

lemma append_walk_eq:
  "l \<noteq> [] \<Longrightarrow> append_walk ok l x = (if ok 0 then (AMVP_SUCCESS, l @ [x]) else (AMVP_MALLOC_FAIL, l))"
  by (induction ok l x rule: append_walk.induct) auto

lemma amvp_append_sl_list_Some [simp]:
  "amvp_append_sl_list ok (Some l) x =
     (if ok 0 then (AMVP_SUCCESS, Some (l @ [x])) else (AMVP_MALLOC_FAIL, Some l))"
  by (auto simp: amvp_append_sl_list_def append_walk_eq split: list.splits)

lemma amvp_append_param_list_Some [simp]:
  "amvp_append_param_list ok (Some l) x =
     (if ok 0 then (AMVP_SUCCESS, Some (l @ [x])) else (AMVP_MALLOC_FAIL, Some l))"
  by (auto simp: amvp_append_param_list_def append_walk_eq split: list.splits)

lemma name_walk_eq:
  "None \<notin> set l \<Longrightarrow> l \<noteq> [] \<Longrightarrow>
   name_walk ok l s = (if ok 0 then (AMVP_SUCCESS, l @ [s]) else (AMVP_MALLOC_FAIL, l))"
  by (induction ok l s rule: name_walk.induct) auto

lemma amvp_append_name_list_Some:
  "None \<notin> set l \<Longrightarrow> amvp_append_name_list ok (Some l) s =
     (if ok 0 then (AMVP_SUCCESS, Some (l @ [s])) else (AMVP_MALLOC_FAIL, Some l))"
  by (auto simp: amvp_append_name_list_def name_walk_eq split: list.splits)

locale append_list =
  fixes append_op :: "alloc \<Rightarrow> 'e list option \<Rightarrow> 'x \<Rightarrow> AMVP_RESULT \<times> 'e list option"
    and stored :: "'x \<Rightarrow> 'e" and accepts :: "'x \<Rightarrow> bool" and node_ok :: "'e \<Rightarrow> bool"
  assumes append_ok: "accepts x \<Longrightarrow> list_all node_ok l \<Longrightarrow>
      append_op alloc_ok (Some l) x = (AMVP_SUCCESS, Some (l @ [stored x]))"
    and append_success: "append_op ok (Some l) x = (AMVP_SUCCESS, l') \<Longrightarrow> list_all node_ok l \<Longrightarrow>
      l' = Some (l @ [stored x])"
    and append_keeps: "append_op ok (Some l) x = (rv, l') \<Longrightarrow> list_all node_ok l \<Longrightarrow>
      \<exists>t. l' = Some (l @ t)"
    and append_null: "fst (append_op ok None x) \<noteq> AMVP_SUCCESS \<and> snd (append_op ok None x) = None"
    and stored_ok: "accepts x \<Longrightarrow> node_ok (stored x)"
begin

text \<open>A series of appends on a list builds the list of what was stored, in order.\<close>

lemma append_series:
  "list_all accepts xs \<Longrightarrow> list_all node_ok l \<Longrightarrow>
   fold (\<lambda>x l. snd (append_op alloc_ok l x)) xs (Some l) = Some (l @ map stored xs)"
  by (induction xs arbitrary: l) (auto simp: append_ok stored_ok)

lemma append_mono:
  "append_op ok (Some l) x = (rv, Some l') \<Longrightarrow> list_all node_ok l \<Longrightarrow> set l \<subseteq> set l'"
  by (drule append_keeps) auto

end

interpretation sl_list: append_list amvp_append_sl_list "\<lambda>v. v" "\<lambda>_. True" "\<lambda>_. True"
  by unfold_locales (auto simp: amvp_append_sl_list_def append_walk_eq split: if_splits list.splits)

interpretation param_list: append_list amvp_append_param_list "\<lambda>v. v" "\<lambda>_. True" "\<lambda>_. True"
  by unfold_locales (auto simp: amvp_append_param_list_def append_walk_eq split: if_splits list.splits)

lemma none_free: "list_all (\<lambda>c. c \<noteq> None) l \<longleftrightarrow> None \<notin> set l"
  unfolding list_all_iff by metis

interpretation name_list: append_list "\<lambda>ok l p. amvp_append_name_list ok l (Some p)" Some "\<lambda>_. True" "\<lambda>c. c \<noteq> None"
  by unfold_locales
    (auto simp: none_free amvp_append_name_list_Some amvp_append_name_list_def [of _ None]
      simp del: not_None_eq split: if_splits)

interpretation str_list: append_list amvp_append_str_list copied_word "\<lambda>_. True" "\<lambda>_. True"
  by unfold_locales (auto simp: amvp_append_str_list_def split: if_splits)

interpretation kv_list: append_list "\<lambda>ok l (k, v). amvp_kv_list_append ok l (Some k) (Some v)"
    "\<lambda>(k, v). \<lparr>kv_key = Some k, kv_value = Some v\<rparr>"
    "\<lambda>(k, v). string_fits (Some k) AMVP_UTIL_KV_STR_MAX \<and> string_fits (Some v) AMVP_UTIL_KV_STR_MAX"
    "\<lambda>_. True"
  by unfold_locales (auto simp: amvp_kv_list_append_def split: if_splits)

lemma string_fits_iff: "m < 2 ^ 32 - 1 \<Longrightarrow> string_fits (Some s) m \<longleftrightarrow> length s \<le> m"
  by (auto simp: string_fits_def min_def)

lemma amvp_lookup_param_list_iff: "amvp_lookup_param_list l v \<longleftrightarrow> v \<in> set l"
  by (induction l v rule: amvp_lookup_param_list.induct) auto

lemma amvp_is_in_name_list_iff: "amvp_is_in_name_list l s \<longleftrightarrow> s \<noteq> None \<and> s \<in> set l"
  by (induction l s rule: amvp_is_in_name_list.induct) auto

text \<open>
  The search in a string list compares as many characters as the shorter string has: two
  strings match when one begins with the other.
\<close>

definition str_match :: "string \<Rightarrow> string \<Rightarrow> bool" where
  "str_match t s \<longleftrightarrow> t \<noteq> [] \<and> s \<noteq> [] \<and>
     (let n = min (min (length t) (length s)) AMVP_STRING_LIST_MAX_LEN in take n t = take n s)"

lemma c_string_take: "c_string s \<Longrightarrow> c_string (take n s)"
  by (auto simp: c_string_def dest: in_set_takeD)

lemma lookup_str_walk_eq:
  "c_string s \<Longrightarrow> list_all c_string l \<Longrightarrow> diff \<noteq> 0 \<Longrightarrow>
   lookup_str_walk l s diff \<longleftrightarrow> (\<exists>t \<in> set l. str_match t s)"
proof (induction l arbitrary: diff)
  case (Cons t rest)
  let ?n = "min (min (length t) (length s)) AMVP_STRING_LIST_MAX_LEN"
  let ?d = "if t = [] \<or> s = [] then diff else strncmp t s ?n"
  have d: "snd (strncmp_s (Some t) (min (length t) AMVP_STRING_LIST_MAX_LEN) (Some s) ?n diff) = ?d"
    by (cases t; cases s) (auto simp: strncmp_s_def strnlen_def AMVP_STRING_LIST_MAX_LEN_def RSIZE_MAX_STR_def min_def)
  have "?d = 0 \<longleftrightarrow> str_match t s"
    using Cons by (auto simp: str_match_def strncmp_def strcmp_eq_0 c_string_take Let_def)
  moreover have n: "(if min (length t) AMVP_STRING_LIST_MAX_LEN < min (length s) AMVP_STRING_LIST_MAX_LEN
      then min (length t) AMVP_STRING_LIST_MAX_LEN else min (length s) AMVP_STRING_LIST_MAX_LEN) = ?n"
    by (simp add: min_def)
  ultimately show ?case
    using Cons by (simp add: d n Let_def del: if_split cong: if_cong)
qed simp

lemma str_match_self: "t \<noteq> [] \<Longrightarrow> str_match t t"
  by (simp add: str_match_def Let_def)

section \<open>Properties\<close>

text \<open>
  Appending a series of integers to a list, with memory available, succeeds and leaves
  the old entries followed by the new ones in order; afterwards exactly those values are
  found in the list.
\<close>

theorem param_list_series:
  "fold (\<lambda>v l. snd (amvp_append_param_list alloc_ok l v)) vs (Some l) = Some (l @ vs) \<and>
   (amvp_lookup_param_list (l @ vs) v \<longleftrightarrow> v \<in> set l \<union> set vs)"
  using param_list.append_series [of vs l] by (simp add: amvp_lookup_param_list_iff list_all_iff)

text \<open>
  A reference appended to a list of static names is found in it afterwards, every
  reference found before is still found, and no other one is; when memory runs out the
  list is as it was.
\<close>

theorem name_list_append_lookup:
  assumes "None \<notin> set l"
  shows "\<exists>l'. amvp_append_name_list ok (Some l) (Some p) = ((if ok 0 then AMVP_SUCCESS else AMVP_MALLOC_FAIL), Some l') \<and>
    None \<notin> set l' \<and>
    (\<forall>q. amvp_is_in_name_list l' q = (amvp_is_in_name_list l q \<or> (ok 0 \<and> q = Some p)))"
  using assms by (auto simp: amvp_append_name_list_Some amvp_is_in_name_list_iff)

theorem name_list_append_lookup_witness:
  "\<exists>l'. amvp_append_name_list alloc_ok (Some [Some (1 :: nat)]) (Some 2) = ((if alloc_ok 0 then AMVP_SUCCESS else AMVP_MALLOC_FAIL), Some l') \<and>
    None \<notin> set l' \<and>
    (\<forall>q. amvp_is_in_name_list l' q = (amvp_is_in_name_list [Some 1] q \<or> (alloc_ok 0 \<and> q = Some 2)))"
  by (rule name_list_append_lookup) simp

text \<open>
  A non-empty string that was appended to a list of copied strings is found in it. The converse
  fails: the search stops comparing at the end of the shorter string, so it reports a string
  as present exactly when some entry and the string agree up to the shorter length.
\<close>

theorem str_list_lookup:
  assumes "c_string s" and "list_all c_string l" and "length s \<le> AMVP_STRING_LIST_MAX_LEN" and "s \<noteq> []"
  shows "(amvp_lookup_str_list (Some l) (Some s) \<longleftrightarrow> (\<exists>t \<in> set l. str_match t s)) \<and>
    (\<exists>l'. amvp_append_str_list alloc_ok (Some l) (Some s) = (AMVP_SUCCESS, Some l') \<and>
          amvp_lookup_str_list (Some l') (Some s))"
proof -
  have look: "amvp_lookup_str_list (Some k) (Some s) \<longleftrightarrow> (\<exists>t \<in> set k. str_match t s)" if "list_all c_string k" for k
    using that assms(1) by (auto simp: amvp_lookup_str_list_def lookup_str_walk_eq)
  have "copied_word (Some s) = s" using assms(3) by (simp add: copied_word_def Let_def)
  then have "amvp_append_str_list alloc_ok (Some l) (Some s) = (AMVP_SUCCESS, Some (l @ [s]))"
    by (simp add: str_list.append_ok list_all_iff)
  with look [of l] look [of "l @ [s]"] assms show ?thesis by (auto simp: str_match_self)
qed

theorem str_list_lookup_witness:
  "(amvp_lookup_str_list (Some [''/amvp/v1/vectorSets/12'']) (Some ''/amvp/v1/vectorSets/123'') \<longleftrightarrow>
      (\<exists>t \<in> set [''/amvp/v1/vectorSets/12'']. str_match t ''/amvp/v1/vectorSets/123'')) \<and>
    (\<exists>l'. amvp_append_str_list alloc_ok (Some [''/amvp/v1/vectorSets/12'']) (Some ''/amvp/v1/vectorSets/123'') = (AMVP_SUCCESS, Some l') \<and>
          amvp_lookup_str_list (Some l') (Some ''/amvp/v1/vectorSets/123''))"
  by (rule str_list_lookup) (simp_all add: c_string_def AMVP_STRING_LIST_MAX_LEN_def)

text \<open>
  Appending a pair to a key/value list is refused for a missing or too long string and
  leaves the list alone then; otherwise the pair becomes the last entry, or memory ran out,
  and then all old entries are still there, possibly followed by one incomplete entry.
\<close>

theorem kv_list_append_cases:
  "\<exists>rv l'. amvp_kv_list_append ok (Some l) key value = (rv, Some l') \<and>
     (rv = AMVP_INVALID_ARG \<and> l' = l \<and>
        (key = None \<or> value = None \<or> 256 < length (the key) \<or> 256 < length (the value)) \<or>
      rv = AMVP_SUCCESS \<and> l' = l @ [\<lparr>kv_key = key, kv_value = value\<rparr>] \<and>
        key \<noteq> None \<and> value \<noteq> None \<and> length (the key) \<le> 256 \<and> length (the value) \<le> 256 \<or>
      rv = AMVP_MALLOC_FAIL \<and> \<not> (ok 0 \<and> ok 1 \<and> ok 2) \<and>
        (l' = l \<or> (\<exists>k. l' = l @ [\<lparr>kv_key = k, kv_value = None\<rparr>])))"
  by (cases key; cases "value")
    (auto simp: amvp_kv_list_append_def string_fits_iff AMVP_UTIL_KV_STR_MAX_def)

end
