(* ===== verification/Cap_Registry.thy ===== *)
theory Cap_Registry
  imports Amvp_Enums Util_Lists
begin

text \<open>
  The registry of capabilities of \<^verbatim>\<open>src/amvp_capabilities.c\<close>: the list of entries of a
  context, one for each enabled cipher, with the union of family-specific settings, the
  operations that find, create and change entries, and the prerequisites of an entry.

  Only the members of the union for symmetric ciphers, hashes, MACs and DRBGs have their
  fields here; the other kinds of entry are created the way the code creates them, with
  their kind as their only content. A context is a record that later theories may extend.
\<close>

section \<open>Data\<close>

datatype AMVP_CAP_TYPE =
    AMVP_SYM_TYPE | AMVP_HASH_TYPE | AMVP_DRBG_TYPE | AMVP_HMAC_TYPE | AMVP_CMAC_TYPE | AMVP_KMAC_TYPE
  | AMVP_RSA_KEYGEN_TYPE | AMVP_RSA_SIGGEN_TYPE | AMVP_RSA_SIGVER_TYPE | AMVP_RSA_PRIM_TYPE
  | AMVP_ECDSA_KEYGEN_TYPE | AMVP_ECDSA_KEYVER_TYPE | AMVP_ECDSA_SIGGEN_TYPE | AMVP_ECDSA_SIGVER_TYPE
  | AMVP_DSA_TYPE
  | AMVP_KDF135_SNMP_TYPE | AMVP_KDF135_SSH_TYPE | AMVP_KDF135_SRTP_TYPE | AMVP_KDF135_IKEV2_TYPE
  | AMVP_KDF135_IKEV1_TYPE | AMVP_KDF135_X942_TYPE | AMVP_KDF135_X963_TYPE | AMVP_KDF135_TPM_TYPE
  | AMVP_KDF108_TYPE | AMVP_PBKDF_TYPE | AMVP_KDF_TLS12_TYPE | AMVP_KDF_TLS13_TYPE
  | AMVP_KAS_ECC_CDH_TYPE | AMVP_KAS_ECC_COMP_TYPE | AMVP_KAS_ECC_NOCOMP_TYPE | AMVP_KAS_ECC_SSC_TYPE
  | AMVP_KAS_FFC_COMP_TYPE | AMVP_KAS_FFC_SSC_TYPE | AMVP_KAS_FFC_NOCOMP_TYPE | AMVP_KAS_IFC_TYPE
  | AMVP_KDA_ONESTEP_TYPE | AMVP_KDA_TWOSTEP_TYPE | AMVP_KDA_HKDF_TYPE | AMVP_KTS_IFC_TYPE
  | AMVP_SAFE_PRIMES_KEYGEN_TYPE | AMVP_SAFE_PRIMES_KEYVER_TYPE

record AMVP_JSON_DOMAIN_OBJ =
  dom_min :: int
  dom_max :: int
  dom_increment :: int
  dom_values :: "int list"

record AMVP_PREREQ_ALG_VAL =
  prereq_alg :: int
  prereq_val :: string

record AMVP_SYM_CIPHER_CAP =
  sym_conformance :: int
  sym_direction :: int
  sym_keying_option :: int
  sym_ivgen_source :: int
  sym_ivgen_mode :: int
  sym_salt_source :: int
  sym_perform_ctr_tests :: int
  sym_ctr_incr :: int
  sym_ctr_ovrflw :: int
  sym_dulen_matches_paylen :: int
  sym_keylen :: "int list"
  sym_ptlen :: "int list"
  sym_tweak :: "int list"
  sym_ivlen :: "int list"
  sym_aadlen :: "int list"
  sym_taglen :: "int list"
  sym_payload_len :: AMVP_JSON_DOMAIN_OBJ
  sym_iv_len :: AMVP_JSON_DOMAIN_OBJ
  sym_aad_len :: AMVP_JSON_DOMAIN_OBJ
  sym_tweak_len :: AMVP_JSON_DOMAIN_OBJ
  sym_du_len :: AMVP_JSON_DOMAIN_OBJ
  sym_kw_mode :: int

record AMVP_HASH_CAP =
  hash_in_bit :: int
  hash_in_empty :: int
  hash_out_bit :: int
  hash_out_len :: AMVP_JSON_DOMAIN_OBJ
  hash_msg_length :: AMVP_JSON_DOMAIN_OBJ

record AMVP_HMAC_CAP =
  hmac_key_len :: AMVP_JSON_DOMAIN_OBJ
  hmac_mac_len :: AMVP_JSON_DOMAIN_OBJ

record AMVP_CMAC_CAP =
  cmac_mac_len :: AMVP_JSON_DOMAIN_OBJ
  cmac_msg_len :: AMVP_JSON_DOMAIN_OBJ
  cmac_direction_gen :: int
  cmac_direction_ver :: int
  cmac_key_len :: "int list"
  cmac_keying_option :: "int list"

record AMVP_KMAC_CAP =
  kmac_mac_len :: AMVP_JSON_DOMAIN_OBJ
  kmac_msg_len :: AMVP_JSON_DOMAIN_OBJ
  kmac_key_len :: AMVP_JSON_DOMAIN_OBJ
  kmac_xof :: int
  kmac_hex_customization :: int

record AMVP_DRBG_CAP_GROUP =
  der_func_enabled :: int
  entropy_input_len :: int
  entropy_len_max :: int
  entropy_len_min :: int
  entropy_len_step :: int
  nonce_len :: int
  nonce_len_max :: int
  nonce_len_min :: int
  nonce_len_step :: int
  perso_string_len :: int
  perso_len_max :: int
  perso_len_min :: int
  perso_len_step :: int
  additional_input_len :: int
  additional_in_len_max :: int
  additional_in_len_min :: int
  additional_in_len_step :: int
  returned_bits_len :: int

record AMVP_DRBG_MODE_ENTRY =
  drbg_mode :: int
  drbg_groups :: "(int \<times> AMVP_DRBG_CAP_GROUP) list"

record AMVP_DRBG_CAP =
  drbg_cipher :: AMVP_CIPHER
  drbg_pred_resist_enabled :: int
  drbg_reseed_implemented :: int
  drbg_cap_mode :: "AMVP_DRBG_MODE_ENTRY list"

text \<open>The union: the constructor is the member that was last stored.\<close>

datatype cap_union =
    Sym_cap AMVP_SYM_CIPHER_CAP
  | Hash_cap AMVP_HASH_CAP
  | Drbg_cap AMVP_DRBG_CAP
  | Hmac_cap AMVP_HMAC_CAP
  | Cmac_cap AMVP_CMAC_CAP
  | Kmac_cap AMVP_KMAC_CAP
  | Other_cap AMVP_CAP_TYPE

record AMVP_CAPS_LIST =
  cap_cipher :: AMVP_CIPHER
  cap_type :: AMVP_CAP_TYPE
  cap_has_prereq :: int
  cap_prereq_vals :: "AMVP_PREREQ_ALG_VAL list"
  cap_data :: cap_union
  cap_crypto_handler :: callback

record AMVP_CTX =
  caps_list :: "AMVP_CAPS_LIST list"
  vs_count :: int

section \<open>Objects as \<open>calloc\<close> leaves them\<close>

definition zero_domain :: AMVP_JSON_DOMAIN_OBJ where
  "zero_domain = \<lparr>dom_min = 0, dom_max = 0, dom_increment = 0, dom_values = []\<rparr>"

definition zero_sym_cap :: AMVP_SYM_CIPHER_CAP where
  "zero_sym_cap = \<lparr>
     sym_conformance = 0, sym_direction = 0, sym_keying_option = 0, sym_ivgen_source = 0,
     sym_ivgen_mode = 0, sym_salt_source = 0, sym_perform_ctr_tests = 0, sym_ctr_incr = 0,
     sym_ctr_ovrflw = 0, sym_dulen_matches_paylen = 0, sym_keylen = [], sym_ptlen = [],
     sym_tweak = [], sym_ivlen = [], sym_aadlen = [], sym_taglen = [],
     sym_payload_len = zero_domain, sym_iv_len = zero_domain, sym_aad_len = zero_domain,
     sym_tweak_len = zero_domain, sym_du_len = zero_domain, sym_kw_mode = 0\<rparr>"

definition zero_hash_cap :: AMVP_HASH_CAP where
  "zero_hash_cap = \<lparr>hash_in_bit = 0, hash_in_empty = 0, hash_out_bit = 0,
     hash_out_len = zero_domain, hash_msg_length = zero_domain\<rparr>"

definition zero_hmac_cap :: AMVP_HMAC_CAP where
  "zero_hmac_cap = \<lparr>hmac_key_len = zero_domain, hmac_mac_len = zero_domain\<rparr>"

definition zero_cmac_cap :: AMVP_CMAC_CAP where
  "zero_cmac_cap = \<lparr>cmac_mac_len = zero_domain, cmac_msg_len = zero_domain,
     cmac_direction_gen = 0, cmac_direction_ver = 0, cmac_key_len = [], cmac_keying_option = []\<rparr>"

definition zero_kmac_cap :: AMVP_KMAC_CAP where
  "zero_kmac_cap = \<lparr>kmac_mac_len = zero_domain, kmac_msg_len = zero_domain,
     kmac_key_len = zero_domain, kmac_xof = 0, kmac_hex_customization = 0\<rparr>"

definition zero_drbg_group :: AMVP_DRBG_CAP_GROUP where
  "zero_drbg_group = \<lparr>
     der_func_enabled = 0, entropy_input_len = 0, entropy_len_max = 0, entropy_len_min = 0,
     entropy_len_step = 0, nonce_len = 0, nonce_len_max = 0, nonce_len_min = 0, nonce_len_step = 0,
     perso_string_len = 0, perso_len_max = 0, perso_len_min = 0, perso_len_step = 0,
     additional_input_len = 0, additional_in_len_max = 0, additional_in_len_min = 0,
     additional_in_len_step = 0, returned_bits_len = 0\<rparr>"

definition zero_drbg_cap :: AMVP_DRBG_CAP where
  "zero_drbg_cap = \<lparr>drbg_cipher = 0, drbg_pred_resist_enabled = 0, drbg_reseed_implemented = 0,
     drbg_cap_mode = []\<rparr>"

section \<open>Finding and changing entries\<close>

definition amvp_locate_cap_entry ::
  "'z AMVP_CTX_scheme option \<Rightarrow> AMVP_CIPHER \<Rightarrow> AMVP_CAPS_LIST option" where
  "amvp_locate_cap_entry octx cipher =
     (case octx of None \<Rightarrow> None
      | Some ctx \<Rightarrow> find (\<lambda>cap. cap_cipher cap = cipher) (caps_list ctx))"

text \<open>Writes through the pointer that \<^const>\<open>amvp_locate_cap_entry\<close> returned.\<close>

definition set_entry ::
  "AMVP_CIPHER \<Rightarrow> (AMVP_CAPS_LIST \<Rightarrow> AMVP_CAPS_LIST) \<Rightarrow> 'z AMVP_CTX_scheme \<Rightarrow> 'z AMVP_CTX_scheme" where
  "set_entry cipher f ctx =
     ctx\<lparr>caps_list := update_first (\<lambda>cap. cap_cipher cap = cipher) f (caps_list ctx)\<rparr>"

definition put_cap ::
  "AMVP_CIPHER \<Rightarrow> cap_union \<Rightarrow> 'z AMVP_CTX_scheme \<Rightarrow> 'z AMVP_CTX_scheme" where
  "put_cap cipher u ctx = set_entry cipher (\<lambda>cap. cap\<lparr>cap_data := u\<rparr>) ctx"

section \<open>Creating an entry\<close>

text \<open>
  The allocations of one call of \<^verbatim>\<open>amvp_cap_list_append\<close> are the entry (0), the settings
  (1) and, for DSA and key agreement, the array of modes (2). The switch over the kind of
  capability is split at four of its labels; an arm checks the cipher and allocates.
\<close>

definition alloc_cap :: "alloc \<Rightarrow> cap_union \<Rightarrow> AMVP_RESULT + cap_union" where
  "alloc_cap ok u = (if \<not> ok 1 then Inl AMVP_MALLOC_FAIL else Inr u)"

definition alloc_cap_modes :: "alloc \<Rightarrow> cap_union \<Rightarrow> AMVP_RESULT + cap_union" where
  "alloc_cap_modes ok u =
     (if \<not> ok 1 then Inl AMVP_MALLOC_FAIL else if \<not> ok 2 then Inl AMVP_MALLOC_FAIL else Inr u)"

definition only_for :: "AMVP_CIPHER list \<Rightarrow> AMVP_CIPHER \<Rightarrow> AMVP_RESULT + cap_union \<Rightarrow> AMVP_RESULT + cap_union" where
  "only_for cs cipher r = (if cipher \<notin> set cs then Inl AMVP_INVALID_ARG else r)"

definition new_cap_basic ::
  "alloc \<Rightarrow> AMVP_CAP_TYPE \<Rightarrow> AMVP_CIPHER \<Rightarrow> (AMVP_RESULT + cap_union) option" where
  "new_cap_basic ok type cipher =
     (case type of
        AMVP_CMAC_TYPE \<Rightarrow> Some (alloc_cap ok (Cmac_cap zero_cmac_cap))
      | AMVP_KMAC_TYPE \<Rightarrow> Some (alloc_cap ok (Kmac_cap zero_kmac_cap))
      | AMVP_DRBG_TYPE \<Rightarrow> Some (alloc_cap ok (Drbg_cap zero_drbg_cap))
      | AMVP_DSA_TYPE \<Rightarrow> Some (alloc_cap_modes ok (Other_cap type))
      | AMVP_ECDSA_KEYGEN_TYPE \<Rightarrow> Some (only_for [AMVP_ECDSA_KEYGEN] cipher (alloc_cap ok (Other_cap type)))
      | AMVP_ECDSA_KEYVER_TYPE \<Rightarrow> Some (only_for [AMVP_ECDSA_KEYVER] cipher (alloc_cap ok (Other_cap type)))
      | AMVP_ECDSA_SIGGEN_TYPE \<Rightarrow> Some (only_for [AMVP_ECDSA_SIGGEN] cipher (alloc_cap ok (Other_cap type)))
      | AMVP_ECDSA_SIGVER_TYPE \<Rightarrow> Some (only_for [AMVP_ECDSA_SIGVER] cipher (alloc_cap ok (Other_cap type)))
      | AMVP_HASH_TYPE \<Rightarrow> Some (alloc_cap ok (Hash_cap zero_hash_cap))
      | AMVP_HMAC_TYPE \<Rightarrow> Some (alloc_cap ok (Hmac_cap zero_hmac_cap))
      | _ \<Rightarrow> None)"

definition new_cap_agreement ::
  "alloc \<Rightarrow> AMVP_CAP_TYPE \<Rightarrow> AMVP_CIPHER \<Rightarrow> (AMVP_RESULT + cap_union) option" where
  "new_cap_agreement ok type cipher =
     (case type of
        AMVP_KAS_ECC_CDH_TYPE \<Rightarrow> Some (only_for [AMVP_KAS_ECC_CDH] cipher (alloc_cap_modes ok (Other_cap type)))
      | AMVP_KAS_ECC_COMP_TYPE \<Rightarrow> Some (only_for [AMVP_KAS_ECC_COMP] cipher (alloc_cap_modes ok (Other_cap type)))
      | AMVP_KAS_ECC_NOCOMP_TYPE \<Rightarrow> Some (only_for [AMVP_KAS_ECC_NOCOMP] cipher (alloc_cap_modes ok (Other_cap type)))
      | AMVP_KAS_ECC_SSC_TYPE \<Rightarrow> Some (only_for [AMVP_KAS_ECC_SSC] cipher (alloc_cap_modes ok (Other_cap type)))
      | AMVP_KAS_FFC_SSC_TYPE \<Rightarrow> Some (only_for [AMVP_KAS_FFC_SSC] cipher (alloc_cap_modes ok (Other_cap type)))
      | AMVP_KAS_FFC_COMP_TYPE \<Rightarrow> Some (only_for [AMVP_KAS_FFC_COMP] cipher (alloc_cap_modes ok (Other_cap type)))
      | AMVP_KAS_FFC_NOCOMP_TYPE \<Rightarrow> Some (only_for [AMVP_KAS_FFC_NOCOMP] cipher (alloc_cap_modes ok (Other_cap type)))
      | AMVP_KDA_HKDF_TYPE \<Rightarrow> Some (only_for [AMVP_KDA_HKDF] cipher (alloc_cap ok (Other_cap type)))
      | AMVP_KDA_ONESTEP_TYPE \<Rightarrow> Some (only_for [AMVP_KDA_ONESTEP] cipher (alloc_cap ok (Other_cap type)))
      | AMVP_KDA_TWOSTEP_TYPE \<Rightarrow> Some (only_for [AMVP_KDA_TWOSTEP] cipher (alloc_cap ok (Other_cap type)))
      | AMVP_KAS_IFC_TYPE \<Rightarrow> Some (only_for [AMVP_KAS_IFC_SSC] cipher (alloc_cap ok (Other_cap type)))
      | AMVP_KTS_IFC_TYPE \<Rightarrow> Some (only_for [AMVP_KTS_IFC] cipher (alloc_cap ok (Other_cap type)))
      | _ \<Rightarrow> None)"

definition new_cap_kdf ::
  "alloc \<Rightarrow> AMVP_CAP_TYPE \<Rightarrow> AMVP_CIPHER \<Rightarrow> (AMVP_RESULT + cap_union) option" where
  "new_cap_kdf ok type cipher =
     (case type of
        AMVP_KDF108_TYPE \<Rightarrow> Some (only_for [AMVP_KDF108] cipher (alloc_cap ok (Other_cap type)))
      | AMVP_KDF135_IKEV1_TYPE \<Rightarrow> Some (only_for [AMVP_KDF135_IKEV1] cipher (alloc_cap ok (Other_cap type)))
      | AMVP_KDF135_IKEV2_TYPE \<Rightarrow> Some (only_for [AMVP_KDF135_IKEV2] cipher (alloc_cap ok (Other_cap type)))
      | AMVP_KDF135_SNMP_TYPE \<Rightarrow> Some (only_for [AMVP_KDF135_SNMP] cipher (alloc_cap ok (Other_cap type)))
      | AMVP_KDF135_SRTP_TYPE \<Rightarrow> Some (only_for [AMVP_KDF135_SRTP] cipher (alloc_cap ok (Other_cap type)))
      | AMVP_KDF135_SSH_TYPE \<Rightarrow> Some (only_for [AMVP_KDF135_SSH] cipher (alloc_cap ok (Other_cap type)))
      | AMVP_KDF135_X942_TYPE \<Rightarrow> Some (only_for [AMVP_KDF135_X942] cipher (alloc_cap ok (Other_cap type)))
      | AMVP_KDF135_X963_TYPE \<Rightarrow> Some (only_for [AMVP_KDF135_X963] cipher (alloc_cap ok (Other_cap type)))
      | AMVP_PBKDF_TYPE \<Rightarrow> Some (only_for [AMVP_PBKDF] cipher (alloc_cap ok (Other_cap type)))
      | AMVP_KDF_TLS12_TYPE \<Rightarrow> Some (only_for [AMVP_KDF_TLS12] cipher (alloc_cap ok (Other_cap type)))
      | AMVP_KDF_TLS13_TYPE \<Rightarrow> Some (only_for [AMVP_KDF_TLS13] cipher (alloc_cap ok (Other_cap type)))
      | _ \<Rightarrow> None)"

text \<open>The last arms, with the default that refuses every other kind.\<close>

definition new_cap_rsa_sym :: "alloc \<Rightarrow> AMVP_CAP_TYPE \<Rightarrow> AMVP_CIPHER \<Rightarrow> AMVP_RESULT + cap_union" where
  "new_cap_rsa_sym ok type cipher =
     (case type of
        AMVP_RSA_KEYGEN_TYPE \<Rightarrow> only_for [AMVP_RSA_KEYGEN] cipher (alloc_cap ok (Other_cap type))
      | AMVP_RSA_SIGGEN_TYPE \<Rightarrow> only_for [AMVP_RSA_SIGGEN] cipher (alloc_cap ok (Other_cap type))
      | AMVP_RSA_SIGVER_TYPE \<Rightarrow> only_for [AMVP_RSA_SIGVER] cipher (alloc_cap ok (Other_cap type))
      | AMVP_RSA_PRIM_TYPE \<Rightarrow> only_for [AMVP_RSA_SIGPRIM, AMVP_RSA_DECPRIM] cipher (alloc_cap ok (Other_cap type))
      | AMVP_SYM_TYPE \<Rightarrow>
          alloc_cap ok (Sym_cap (zero_sym_cap\<lparr>sym_perform_ctr_tests := 1, sym_dulen_matches_paylen := 1\<rparr>))
      | AMVP_SAFE_PRIMES_KEYGEN_TYPE \<Rightarrow> alloc_cap ok (Other_cap type)
      | AMVP_SAFE_PRIMES_KEYVER_TYPE \<Rightarrow> alloc_cap ok (Other_cap type)
      | _ \<Rightarrow> Inl AMVP_INVALID_ARG)"

definition new_cap :: "alloc \<Rightarrow> AMVP_CAP_TYPE \<Rightarrow> AMVP_CIPHER \<Rightarrow> AMVP_RESULT + cap_union" where
  "new_cap ok type cipher =
     (case new_cap_basic ok type cipher of Some r \<Rightarrow> r
      | None \<Rightarrow> (case new_cap_agreement ok type cipher of Some r \<Rightarrow> r
        | None \<Rightarrow> (case new_cap_kdf ok type cipher of Some r \<Rightarrow> r
          | None \<Rightarrow> new_cap_rsa_sym ok type cipher)))"

definition new_entry :: "AMVP_CAP_TYPE \<Rightarrow> AMVP_CIPHER \<Rightarrow> callback \<Rightarrow> cap_union \<Rightarrow> AMVP_CAPS_LIST" where
  "new_entry type cipher handler u =
     \<lparr>cap_cipher = cipher, cap_type = type, cap_has_prereq = 0, cap_prereq_vals = [],
      cap_data = u, cap_crypto_handler = handler\<rparr>"

definition add_entry :: "AMVP_CAPS_LIST \<Rightarrow> 'z AMVP_CTX_scheme \<Rightarrow> 'z AMVP_CTX_scheme" where
  "add_entry e ctx = ctx\<lparr>caps_list := caps_list ctx @ [e], vs_count := vs_count ctx + 1\<rparr>"

definition amvp_cap_list_append ::
  "alloc \<Rightarrow> AMVP_CAP_TYPE \<Rightarrow> AMVP_CIPHER \<Rightarrow> callback \<Rightarrow> 'z AMVP_CTX_scheme \<Rightarrow> 'z AMVP_CTX_scheme outcome" where
  "amvp_cap_list_append ok type cipher handler ctx =
     (if amvp_locate_cap_entry (Some ctx) cipher \<noteq> None then Ret AMVP_DUP_CIPHER ctx
      else if \<not> ok 0 then Ret AMVP_MALLOC_FAIL ctx
      else (case new_cap ok type cipher of
              Inl rv \<Rightarrow> Ret rv ctx
            | Inr u \<Rightarrow> Ret AMVP_SUCCESS (add_entry (new_entry type cipher handler u) ctx)))"

section \<open>Domains\<close>

definition amvp_is_domain_already_set :: "AMVP_JSON_DOMAIN_OBJ \<Rightarrow> int" where
  "amvp_is_domain_already_set d = wrap32 (dom_min d + dom_max d + dom_increment d)"

text \<open>The remainder is only reached by a non-negative increment, which may be zero.\<close>

definition validate_domain_range :: "int \<Rightarrow> int \<Rightarrow> int \<Rightarrow> ub + AMVP_RESULT" where
  "validate_domain_range lo hi inc =
     (if lo > hi \<or> lo < 0 \<or> hi < 0 \<or> inc < 0 then Inr AMVP_INVALID_ARG
      else if inc = 0 then Inl Div_Zero
      else if c_rem (hi - lo) inc \<noteq> 0 then Inr AMVP_INVALID_ARG
      else Inr AMVP_SUCCESS)"

definition set_domain :: "int \<Rightarrow> int \<Rightarrow> int \<Rightarrow> AMVP_JSON_DOMAIN_OBJ \<Rightarrow> AMVP_JSON_DOMAIN_OBJ" where
  "set_domain lo hi inc d = d\<lparr>dom_min := lo, dom_max := hi, dom_increment := inc\<rparr>"

section \<open>Prerequisites\<close>

text \<open>For each cipher the prerequisites its arm accepts, in two halves of the switch.\<close>

definition accepted_prereqs_low :: "AMVP_CIPHER \<Rightarrow> int list" where
  "accepted_prereqs_low cipher =
     (if cipher \<in> set [AMVP_AES_GCM, AMVP_AES_GCM_SIV, AMVP_AES_CCM, AMVP_AES_ECB, AMVP_AES_CFB1,
           AMVP_AES_CFB8, AMVP_AES_CFB128, AMVP_AES_CTR, AMVP_AES_OFB, AMVP_AES_CBC, AMVP_AES_CBC_CS1,
           AMVP_AES_CBC_CS2, AMVP_AES_CBC_CS3, AMVP_AES_KW, AMVP_AES_KWP, AMVP_AES_XTS, AMVP_AES_GMAC,
           AMVP_AES_XPN]
      then [AMVP_PREREQ_AES, AMVP_PREREQ_DRBG]
      else if cipher \<in> set [AMVP_TDES_ECB, AMVP_TDES_CBC, AMVP_TDES_OFB, AMVP_TDES_CFB64,
           AMVP_TDES_CFB8, AMVP_TDES_CFB1, AMVP_TDES_KW]
      then [AMVP_PREREQ_TDES]
      else if cipher \<in> set [AMVP_HASH_SHA1, AMVP_HASH_SHA224, AMVP_HASH_SHA256, AMVP_HASH_SHA384,
           AMVP_HASH_SHA512, AMVP_HASH_SHA512_224, AMVP_HASH_SHA512_256, AMVP_HASH_SHA3_224,
           AMVP_HASH_SHA3_256, AMVP_HASH_SHA3_384, AMVP_HASH_SHA3_512, AMVP_HASH_SHAKE_128,
           AMVP_HASH_SHAKE_256]
      then []
      else if cipher = AMVP_HASHDRBG then [AMVP_PREREQ_SHA]
      else if cipher = AMVP_HMACDRBG then [AMVP_PREREQ_SHA, AMVP_PREREQ_HMAC]
      else if cipher = AMVP_CTRDRBG then [AMVP_PREREQ_AES, AMVP_PREREQ_TDES]
      else if cipher \<in> set [AMVP_HMAC_SHA1, AMVP_HMAC_SHA2_224, AMVP_HMAC_SHA2_256, AMVP_HMAC_SHA2_384,
           AMVP_HMAC_SHA2_512, AMVP_HMAC_SHA2_512_224, AMVP_HMAC_SHA2_512_256, AMVP_HMAC_SHA3_224,
           AMVP_HMAC_SHA3_256, AMVP_HMAC_SHA3_384, AMVP_HMAC_SHA3_512]
      then [AMVP_PREREQ_SHA]
      else if cipher \<in> set [AMVP_CMAC_AES, AMVP_CMAC_TDES]
      then [AMVP_PREREQ_AES, AMVP_PREREQ_SHA, AMVP_PREREQ_TDES]
      else if cipher \<in> set [AMVP_KMAC_128, AMVP_KMAC_256] then []
      else if cipher \<in> set [AMVP_DSA_KEYGEN, AMVP_DSA_PQGGEN, AMVP_DSA_PQGVER, AMVP_DSA_SIGGEN, AMVP_DSA_SIGVER]
      then [AMVP_PREREQ_SHA, AMVP_PREREQ_DRBG]
      else [])"

definition accepted_prereqs_high :: "AMVP_CIPHER \<Rightarrow> int list" where
  "accepted_prereqs_high cipher =
     (if cipher \<in> set [AMVP_RSA_KEYGEN, AMVP_RSA_SIGGEN, AMVP_RSA_SIGVER, AMVP_RSA_SIGPRIM, AMVP_RSA_DECPRIM,
           AMVP_ECDSA_KEYGEN, AMVP_ECDSA_KEYVER, AMVP_ECDSA_SIGGEN, AMVP_ECDSA_SIGVER]
      then [AMVP_PREREQ_SHA, AMVP_PREREQ_DRBG]
      else if cipher \<in> set [AMVP_KDF135_SNMP, AMVP_KDF135_SSH]
      then [AMVP_PREREQ_SHA, AMVP_PREREQ_HMAC, AMVP_PREREQ_TDES, AMVP_PREREQ_AES]
      else if cipher = AMVP_KDF135_SRTP then [AMVP_PREREQ_AES]
      else if cipher \<in> set [AMVP_KDF135_IKEV2, AMVP_KDF135_IKEV1] then [AMVP_PREREQ_DRBG, AMVP_PREREQ_SHA]
      else if cipher = AMVP_KDF108
      then [AMVP_PREREQ_DRBG, AMVP_PREREQ_HMAC, AMVP_PREREQ_CMAC, AMVP_PREREQ_KAS]
      else if cipher = AMVP_PBKDF then [AMVP_PREREQ_HMAC]
      else if cipher = AMVP_KDF_TLS12 then [AMVP_PREREQ_HMAC, AMVP_PREREQ_SHA]
      else if cipher = AMVP_KDF_TLS13 then [AMVP_PREREQ_HMAC]
      else if cipher \<in> set [AMVP_KAS_ECC_COMP, AMVP_KAS_ECC_SSC, AMVP_KAS_ECC_NOCOMP]
      then [AMVP_PREREQ_DRBG, AMVP_PREREQ_HMAC, AMVP_PREREQ_CMAC, AMVP_PREREQ_SHA, AMVP_PREREQ_CCM,
            AMVP_PREREQ_ECDSA]
      else if cipher = AMVP_KAS_ECC_CDH then [AMVP_PREREQ_ECDSA]
      else if cipher \<in> set [AMVP_KAS_FFC_COMP, AMVP_KAS_FFC_NOCOMP, AMVP_KAS_FFC_SSC]
      then [AMVP_PREREQ_DRBG, AMVP_PREREQ_HMAC, AMVP_PREREQ_CMAC, AMVP_PREREQ_SHA,
            AMVP_PREREQ_SAFE_PRIMES, AMVP_PREREQ_CCM, AMVP_PREREQ_DSA]
      else if cipher \<in> set [AMVP_KTS_IFC, AMVP_KAS_IFC_SSC]
      then [AMVP_PREREQ_DRBG, AMVP_PREREQ_HMAC, AMVP_PREREQ_SHA, AMVP_PREREQ_RSA, AMVP_PREREQ_RSADP]
      else if cipher = AMVP_KDA_ONESTEP
      then [AMVP_PREREQ_DRBG, AMVP_PREREQ_HMAC, AMVP_PREREQ_KMAC, AMVP_PREREQ_SHA]
      else if cipher \<in> set [AMVP_KDA_TWOSTEP, AMVP_KDA_HKDF]
      then [AMVP_PREREQ_DRBG, AMVP_PREREQ_HMAC, AMVP_PREREQ_SHA]
      else if cipher \<in> set [AMVP_KDF135_X942, AMVP_KDF135_X963] then [AMVP_PREREQ_SHA]
      else if cipher \<in> set [AMVP_SAFE_PRIMES_KEYGEN, AMVP_SAFE_PRIMES_KEYVER]
      then [AMVP_PREREQ_DRBG, AMVP_PREREQ_SHA]
      else [])"

definition amvp_validate_prereq_val :: "AMVP_CIPHER \<Rightarrow> int \<Rightarrow> AMVP_RESULT" where
  "amvp_validate_prereq_val cipher pre_req =
     (if pre_req \<in> set (accepted_prereqs_low cipher @ accepted_prereqs_high cipher)
      then AMVP_SUCCESS else AMVP_INVALID_ARG)"

definition amvp_add_prereq_val ::
  "alloc \<Rightarrow> AMVP_CIPHER \<Rightarrow> AMVP_CAPS_LIST \<Rightarrow> int \<Rightarrow> string \<Rightarrow> AMVP_RESULT \<times> AMVP_CAPS_LIST" where
  "amvp_add_prereq_val ok cipher cap pre_req v =
     (if \<not> ok 0 then (AMVP_MALLOC_FAIL, cap)
      else let result = amvp_validate_prereq_val cipher pre_req in
        if result \<noteq> AMVP_SUCCESS then (result, cap)
        else (AMVP_SUCCESS,
          cap\<lparr>cap_prereq_vals := cap_prereq_vals cap @ [\<lparr>prereq_alg = pre_req, prereq_val = v\<rparr>]\<rparr>))"

definition amvp_cap_set_prereq ::
  "alloc \<Rightarrow> 'z AMVP_CTX_scheme option \<Rightarrow> AMVP_CIPHER \<Rightarrow> int \<Rightarrow> string option \<Rightarrow> 'z AMVP_CTX_scheme option outcome" where
  "amvp_cap_set_prereq ok octx cipher pre_req_cap v =
     with_ctx octx (\<lambda>ctx.
       if v = None \<or> strnlen_s v 12 = 0 then Ret AMVP_INVALID_ARG ctx
       else (case amvp_locate_cap_entry (Some ctx) cipher of
               None \<Rightarrow> Ret AMVP_NO_CAP ctx
             | Some cap \<Rightarrow>
                 let (rv, cap') = amvp_add_prereq_val ok cipher (cap\<lparr>cap_has_prereq := 1\<rparr>) pre_req_cap (the v)
                 in Ret rv (set_entry cipher (\<lambda>_. cap') ctx)))"

section \<open>The registry as an interface\<close>

text \<open>What the operations on entries promise: a finite map from keys to entries.\<close>

locale registry =
  fixes locate :: "'s \<Rightarrow> 'k \<Rightarrow> 'e option"
    and update :: "'k \<Rightarrow> ('e \<Rightarrow> 'e) \<Rightarrow> 's \<Rightarrow> 's"
    and insert_new :: "'e \<Rightarrow> 's \<Rightarrow> 's"
    and key :: "'e \<Rightarrow> 'k"
  assumes locate_key: "locate s c = Some e \<Longrightarrow> key e = c"
    and locate_update: "(\<And>e. locate s c = Some e \<Longrightarrow> key (f e) = c) \<Longrightarrow>
      locate (update c f s) d = (if d = c then map_option f (locate s c) else locate s d)"
    and locate_insert: "locate s (key e) = None \<Longrightarrow>
      locate (insert_new e s) d = (if d = key e then Some e else locate s d)"
begin

lemma update_domain:
  "(\<And>e. locate s c = Some e \<Longrightarrow> key (f e) = c) \<Longrightarrow> locate (update c f s) d = None \<longleftrightarrow> locate s d = None"
  by (simp add: locate_update)

lemma update_all:
  assumes "\<And>e. locate s c = Some e \<Longrightarrow> key (f e) = c \<and> P c (f e)"
    and "\<And>d e. locate s d = Some e \<Longrightarrow> P d e" and "locate (update c f s) d = Some e"
  shows "P d e"
  using assms by (auto simp: locate_update split: if_splits)

lemma insert_all:
  assumes "locate s (key n) = None" and "P (key n) n"
    and "\<And>d e. locate s d = Some e \<Longrightarrow> P d e" and "locate (insert_new n s) d = Some e"
  shows "P d e"
  using assms by (auto simp: locate_insert split: if_splits)

lemma insert_then_update:
  assumes "locate s (key e) = None" and "key (f e) = key e"
  shows "locate (update (key e) f (insert_new e s)) (key e) = Some (f e)"
  using assms by (subst locate_update) (auto simp: locate_insert)

end

lemma locate_Some [simp]:
  "amvp_locate_cap_entry (Some ctx) c = find (\<lambda>cap. cap_cipher cap = c) (caps_list ctx)"
  by (simp add: amvp_locate_cap_entry_def)

lemma locate_None [simp]: "amvp_locate_cap_entry None c = None"
  by (simp add: amvp_locate_cap_entry_def)

text \<open>A list searched and changed by key is a registry.\<close>

lemma registryI:
  assumes loc: "\<And>s c. locate s c = find (\<lambda>e. key e = c) (entries s)"
    and upd: "\<And>s c f. entries (update c f s) = update_first (\<lambda>e. key e = c) f (entries s)"
    and ins: "\<And>e s. entries (insert_new e s) = entries s @ [e]"
  shows "registry locate update insert_new key"
proof unfold_locales
  fix s c d e
  show "locate s c = Some e \<Longrightarrow> key e = c" by (auto simp: loc dest: find_Some_in)
  show "locate s (key e) = None \<Longrightarrow> locate (insert_new e s) d = (if d = key e then Some e else locate s d)"
    by (auto simp: loc ins split: option.splits)
next
  fix s c d f
  assume f: "\<And>e. locate s c = Some e \<Longrightarrow> key (f e) = c"
  show "locate (update c f s) d = (if d = c then map_option f (locate s c) else locate s d)"
  proof (cases "find (\<lambda>e. key e = c) (entries s)")
    case None
    then show ?thesis by (simp add: loc upd update_first_none)
  next
    case (Some e)
    with f [of e] find_Some_in [OF Some] show ?thesis
      by (auto simp: loc upd find_update_first_Some intro!: find_update_first_at [where x = e])
  qed
qed

interpretation caps: registry "\<lambda>ctx. amvp_locate_cap_entry (Some ctx)" set_entry add_entry cap_cipher
  by (rule registryI [where entries = caps_list]) (simp_all add: set_entry_def add_entry_def)

section \<open>The invariant of the registry\<close>

definition fits :: "AMVP_CAP_TYPE \<Rightarrow> cap_union \<Rightarrow> bool" where
  "fits t u =
     (case u of
        Sym_cap _ \<Rightarrow> t = AMVP_SYM_TYPE
      | Hash_cap _ \<Rightarrow> t = AMVP_HASH_TYPE
      | Drbg_cap _ \<Rightarrow> t = AMVP_DRBG_TYPE
      | Hmac_cap _ \<Rightarrow> t = AMVP_HMAC_TYPE
      | Cmac_cap _ \<Rightarrow> t = AMVP_CMAC_TYPE
      | Kmac_cap _ \<Rightarrow> t = AMVP_KMAC_TYPE
      | Other_cap t' \<Rightarrow> t = t' \<and> t \<notin> {AMVP_SYM_TYPE, AMVP_HASH_TYPE, AMVP_DRBG_TYPE,
                                     AMVP_HMAC_TYPE, AMVP_CMAC_TYPE, AMVP_KMAC_TYPE})"

text \<open>
  One entry for each cipher, each entry with the settings its kind says and with settings
  that satisfy \<open>ok\<close>, and at least one vector set expected for each entry.
\<close>

definition reg_inv :: "(AMVP_CIPHER \<Rightarrow> cap_union \<Rightarrow> bool) \<Rightarrow> 'z AMVP_CTX_scheme \<Rightarrow> bool" where
  "reg_inv ok ctx \<longleftrightarrow>
     distinct (map cap_cipher (caps_list ctx)) \<and>
     (\<forall>e \<in> set (caps_list ctx). fits (cap_type e) (cap_data e) \<and> ok (cap_cipher e) (cap_data e)) \<and>
     int (length (caps_list ctx)) \<le> vs_count ctx"

text \<open>What a call may do to the settings of one entry of a family: nothing, or one change.\<close>

definition family_step ::
  "('a \<Rightarrow> cap_union) \<Rightarrow> (AMVP_CIPHER \<Rightarrow> 'a \<Rightarrow> bool) \<Rightarrow> AMVP_CIPHER \<Rightarrow>
   'z AMVP_CTX_scheme \<Rightarrow> 'z AMVP_CTX_scheme \<Rightarrow> bool" where
  "family_step wrap ok c s s' \<longleftrightarrow> s' = s \<or>
     (\<exists>e x x' n. amvp_locate_cap_entry (Some s) c = Some e \<and> cap_data e = wrap x \<and>
        (ok c x \<longrightarrow> ok c x') \<and>
        s' = put_cap c (wrap x') (s\<lparr>vs_count := vs_count s + int n\<rparr>))"

lemma fits_new_cap:
  assumes "new_cap ok t c = Inr u"
  shows "fits t u"
  using assms
  by (cases t)
    (auto simp: new_cap_def new_cap_basic_def new_cap_agreement_def new_cap_kdf_def new_cap_rsa_sym_def
      alloc_cap_def alloc_cap_modes_def only_for_def fits_def split: if_splits)

lemma append_cases:
  assumes "amvp_cap_list_append ok t c h s = Ret rv s'"
  shows "rv \<noteq> AMVP_SUCCESS \<and> s' = s \<or>
    rv = AMVP_SUCCESS \<and> amvp_locate_cap_entry (Some s) c = None \<and>
    (\<exists>u. new_cap ok t c = Inr u \<and> s' = add_entry (new_entry t c h u) s)"
proof -
  have "new_cap ok t c \<noteq> Inl AMVP_SUCCESS"
    by (cases t)
      (auto simp: new_cap_def new_cap_basic_def new_cap_agreement_def new_cap_kdf_def new_cap_rsa_sym_def
        alloc_cap_def alloc_cap_modes_def only_for_def)
  then show ?thesis
    using assms unfolding amvp_cap_list_append_def
    by (auto split: if_splits sum.splits simp del: locate_Some)
qed

lemma append_never_ub: "amvp_cap_list_append ok t c h s \<noteq> UB u"
  by (auto simp: amvp_cap_list_append_def split: sum.splits)

lemma entries_distinct_new:
  "find (\<lambda>cap. cap_cipher cap = c) l = None \<longleftrightarrow> c \<notin> cap_cipher ` set l"
  by (auto simp: find_None_iff)

lemma add_entry_inv [cap_inv]:
  assumes "reg_inv ok s" and "amvp_locate_cap_entry (Some s) c = None" and "fits t u" and "ok c u"
  shows "reg_inv ok (add_entry (new_entry t c h u) s)"
  using assms by (auto simp: reg_inv_def add_entry_def new_entry_def entries_distinct_new)

lemma set_entry_inv [cap_inv]:
  assumes inv: "reg_inv ok s" and e: "amvp_locate_cap_entry (Some s) c = Some e"
    and same: "cap_cipher e' = c" "cap_type e' = cap_type e"
    and u: "fits (cap_type e) (cap_data e')" "ok c (cap_data e')"
  shows "reg_inv ok (set_entry c (\<lambda>_. e') s)"
proof -
  have f: "find (\<lambda>cap. cap_cipher cap = c) (caps_list s) = Some e" using e by simp
  with same have "map cap_cipher (update_first (\<lambda>cap. cap_cipher cap = c) (\<lambda>_. e') (caps_list s)) = map cap_cipher (caps_list s)"
    using find_Some_in [OF f] by (intro map_update_first_at [OF f]) simp
  moreover have "fits (cap_type x) (cap_data x) \<and> ok (cap_cipher x) (cap_data x)"
    if "x \<in> set (update_first (\<lambda>cap. cap_cipher cap = c) (\<lambda>_. e') (caps_list s))" for x
    using set_update_first [OF f that] inv same u by (auto simp: reg_inv_def)
  ultimately show ?thesis
    using inv by (simp add: reg_inv_def set_entry_def)
qed

lemma update_first_const:
  "find p xs = Some x \<Longrightarrow> update_first p f xs = update_first p (\<lambda>_. f x) xs"
  by (induction xs) auto

lemma put_cap_eq_set_entry:
  "amvp_locate_cap_entry (Some s) c = Some e \<Longrightarrow>
   put_cap c u s = set_entry c (\<lambda>_. e\<lparr>cap_data := u\<rparr>) s"
  using update_first_const [of "\<lambda>cap. cap_cipher cap = c" "caps_list s" e "\<lambda>cap. cap\<lparr>cap_data := u\<rparr>"]
  by (simp add: put_cap_def set_entry_def)

lemma locate_put_cap:
  assumes "amvp_locate_cap_entry (Some s) c = Some e"
  shows "amvp_locate_cap_entry (Some (put_cap c u s)) d =
    (if d = c then Some (e\<lparr>cap_data := u\<rparr>) else amvp_locate_cap_entry (Some s) d)"
  unfolding put_cap_def
  using assms caps.locate_key [OF assms] by (subst caps.locate_update) (auto simp del: locate_Some)

lemma family_step_refl [simp]: "family_step wrap ok c s s"
  by (simp add: family_step_def)

lemma family_stepI:
  "amvp_locate_cap_entry (Some s) c = Some e \<Longrightarrow> cap_data e = wrap x \<Longrightarrow> (ok c x \<Longrightarrow> ok c x') \<Longrightarrow>
   family_step wrap ok c s (put_cap c (wrap x') s)"
  unfolding family_step_def by (intro disjI2 exI [of _ e] exI [of _ x] exI [of _ x'] exI [of _ 0]) simp

text \<open>
  Writing through a member of the union. Using a member other than the one last stored is
  undefined behaviour.
\<close>

definition store ::
  "(cap_union \<Rightarrow> 'a option) \<Rightarrow> ('a \<Rightarrow> cap_union) \<Rightarrow> AMVP_CIPHER \<Rightarrow> AMVP_CAPS_LIST \<Rightarrow> ('a \<Rightarrow> 'a) \<Rightarrow>
   'z AMVP_CTX_scheme \<Rightarrow> 'z AMVP_CTX_scheme outcome" where
  "store sel wrap cipher cap f ctx =
     (case sel (cap_data cap) of
        None \<Rightarrow> UB Bad_Union
      | Some x \<Rightarrow> Ret AMVP_SUCCESS (put_cap cipher (wrap (f x)) ctx))"

text \<open>Appending to a list of the settings, where a failure to allocate is reported and leaves the list alone.\<close>

definition store_list ::
  "alloc \<Rightarrow> (cap_union \<Rightarrow> 'a option) \<Rightarrow> ('a \<Rightarrow> cap_union) \<Rightarrow> AMVP_CIPHER \<Rightarrow> AMVP_CAPS_LIST \<Rightarrow>
   ('a \<Rightarrow> int list) \<Rightarrow> ((int list \<Rightarrow> int list) \<Rightarrow> 'a \<Rightarrow> 'a) \<Rightarrow> int \<Rightarrow>
   'z AMVP_CTX_scheme \<Rightarrow> 'z AMVP_CTX_scheme outcome" where
  "store_list ok sel wrap cipher cap get upd v ctx =
     (case sel (cap_data cap) of
        None \<Rightarrow> UB Bad_Union
      | Some x \<Rightarrow>
          let (rv, l) = amvp_append_sl_list ok (Some (get x)) v in
          if rv \<noteq> AMVP_SUCCESS then Ret AMVP_MALLOC_FAIL ctx
          else Ret AMVP_SUCCESS (put_cap cipher (wrap (upd (\<lambda>_. the l) x)) ctx))"

text \<open>Operations that do not test for a null context find no entry in it.\<close>

definition with_entry ::
  "'z AMVP_CTX_scheme option \<Rightarrow> AMVP_CIPHER \<Rightarrow> (AMVP_CAPS_LIST \<Rightarrow> 'z AMVP_CTX_scheme \<Rightarrow> 'z AMVP_CTX_scheme outcome) \<Rightarrow>
   'z AMVP_CTX_scheme option outcome" where
  "with_entry octx cipher k =
     (case amvp_locate_cap_entry octx cipher of
        None \<Rightarrow> Ret AMVP_NO_CAP octx
      | Some cap \<Rightarrow> (case octx of None \<Rightarrow> UB Null_Deref | Some ctx \<Rightarrow> map_outcome_state Some (k cap ctx)))"

lemma with_entry_Ret:
  "with_entry (Some s) c k = Ret rv os' \<longleftrightarrow>
     (amvp_locate_cap_entry (Some s) c = None \<and> rv = AMVP_NO_CAP \<and> os' = Some s) \<or>
     (\<exists>e s'. amvp_locate_cap_entry (Some s) c = Some e \<and> k e s = Ret rv s' \<and> os' = Some s')"
  unfolding with_entry_def by (auto simp del: locate_Some split: option.splits)

lemma with_entry_UB:
  "with_entry octx c k = UB u \<longleftrightarrow>
     (\<exists>e s. octx = Some s \<and> amvp_locate_cap_entry (Some s) c = Some e \<and> k e s = UB u)"
  by (cases octx) (auto simp: with_entry_def simp del: locate_Some split: option.splits)

locale union_member =
  fixes sel :: "cap_union \<Rightarrow> 'a option" and wrap :: "'a \<Rightarrow> cap_union"
  assumes sel_iff: "sel u = Some x \<longleftrightarrow> u = wrap x"
begin

lemma sel_wrap [simp]: "sel (wrap x) = Some x"
  by (simp add: sel_iff)

lemma wrap_inject [simp]: "wrap x = wrap y \<longleftrightarrow> x = y"
  by (metis sel_wrap option.inject)

lemma store_Ret:
  "store sel wrap c e f s = Ret rv s' \<longleftrightarrow>
     rv = AMVP_SUCCESS \<and> (\<exists>x. cap_data e = wrap x \<and> s' = put_cap c (wrap (f x)) s)"
  by (auto simp: store_def sel_iff split: option.splits)

lemma store_step:
  assumes "store sel wrap c e f s = Ret rv s'" and "amvp_locate_cap_entry (Some s) c = Some e"
    and "\<And>x. cap_data e = wrap x \<Longrightarrow> ok c x \<Longrightarrow> ok c (f x)"
  shows "rv = AMVP_SUCCESS \<and> family_step wrap ok c s s'"
  using assms by (auto simp: store_Ret simp del: locate_Some intro!: family_stepI)

lemma store_arm:
  assumes "store sel wrap c e f s = Ret rv s'" and "amvp_locate_cap_entry (Some s) c = Some e"
    and "\<And>x. cap_data e = wrap x \<Longrightarrow> ok c x \<Longrightarrow> ok c (f x)"
  shows "(rv = AMVP_SUCCESS \<or> s' = s) \<and> family_step wrap ok c s s'"
  using store_step [where ok = ok, OF assms(1,2)] assms(3) by blast

lemma store_list_arm:
  assumes "store_list ok sel wrap c e get upd v s = Ret rv s'" and "amvp_locate_cap_entry (Some s) c = Some e"
    and "\<And>x. cap_data e = wrap x \<Longrightarrow> fok c x \<Longrightarrow> fok c (upd (\<lambda>_. get x @ [v]) x)"
  shows "(rv = AMVP_SUCCESS \<or> s' = s) \<and> family_step wrap fok c s s'"
  using assms
  by (auto simp: store_list_def sel_iff simp del: locate_Some split: option.splits if_splits intro!: family_stepI)

lemma store_defined: "store sel wrap c e f s \<noteq> UB u" if "cap_data e = wrap x"
  using that by (simp add: store_def)

end

text \<open>A family of settings: its member of the union, its kind, and what its settings satisfy.\<close>

locale cap_family = union_member +
  fixes kind :: AMVP_CAP_TYPE and fam_ok :: "AMVP_CIPHER \<Rightarrow> 'a \<Rightarrow> bool"
    and data_ok :: "AMVP_CIPHER \<Rightarrow> cap_union \<Rightarrow> bool"
  assumes kind_fits: "fits t (wrap x) \<longleftrightarrow> t = kind"
    and data_ok_wrap: "data_ok c (wrap x) \<longleftrightarrow> fam_ok c x"
begin

lemma family_step_inv:
  assumes inv: "reg_inv data_ok s" and step: "family_step wrap fam_ok c s s'"
  shows "reg_inv data_ok s'"
proof (cases "s' = s")
  case False
  then obtain e x x' n where e: "amvp_locate_cap_entry (Some s) c = Some e" and x: "cap_data e = wrap x"
    and ok: "fam_ok c x \<longrightarrow> fam_ok c x'" and s': "s' = put_cap c (wrap x') (s\<lparr>vs_count := vs_count s + int n\<rparr>)"
    using step by (auto simp: family_step_def)
  let ?t = "s\<lparr>vs_count := vs_count s + int n\<rparr>"
  have t: "amvp_locate_cap_entry (Some ?t) c = Some e" "reg_inv data_ok ?t"
    using e inv by (auto simp: reg_inv_def)
  have "e \<in> set (caps_list s)" "cap_cipher e = c" using e find_Some_in by fastforce+
  with inv x ok have "fits (cap_type e) (wrap x)" "fam_ok c x'"
    using data_ok_wrap by (auto simp: reg_inv_def)
  then show ?thesis
    unfolding s' put_cap_eq_set_entry [OF t(1)]
    using t e \<open>cap_cipher e = c\<close> by (intro set_entry_inv) (auto simp: kind_fits data_ok_wrap)
qed (use inv in simp)

lemma family_step_keeps:
  assumes step: "family_step wrap fam_ok c s s'" and e: "amvp_locate_cap_entry (Some s) d = Some e"
  shows "\<exists>e'. amvp_locate_cap_entry (Some s') d = Some e' \<and> cap_type e' = cap_type e \<and>
    cap_crypto_handler e' = cap_crypto_handler e \<and> (d \<noteq> c \<longrightarrow> e' = e)"
proof (cases "s' = s")
  case False
  then obtain e1 u n where e1: "amvp_locate_cap_entry (Some s) c = Some e1"
    and s': "s' = put_cap c u (s\<lparr>vs_count := vs_count s + int n\<rparr>)"
    using step by (auto simp: family_step_def)
  let ?t = "s\<lparr>vs_count := vs_count s + int n\<rparr>"
  have t: "amvp_locate_cap_entry (Some ?t) b = amvp_locate_cap_entry (Some s) b" for b by simp
  have "amvp_locate_cap_entry (Some s') d = (if d = c then Some (e1\<lparr>cap_data := u\<rparr>) else Some e)"
    unfolding s' put_cap_def
    using e e1 caps.locate_key [OF e1] by (subst caps.locate_update) (auto simp del: locate_Some simp: t)
  then show ?thesis using e e1 by auto
qed (use e in simp)

end

end
