(* ===== verification/Cap_Sym.thy ===== *)
theory Cap_Sym
  imports Cap_Registry
begin

unbundle bit_operations_syntax

text \<open>
  The capabilities of symmetric ciphers (\<^verbatim>\<open>src/amvp_capabilities.c\<close>): the checks of
  single values and of domains, and the three public operations that enable a cipher, set
  one of its parameters and set one of its domains. The invariant \<open>sym_ok\<close> says what the
  settings of an enabled cipher always satisfy.
\<close>

section \<open>Parameters\<close>

datatype AMVP_SYM_CIPH_PARM =
    AMVP_SYM_CIPH_KEYLEN | AMVP_SYM_CIPH_TAGLEN | AMVP_SYM_CIPH_IVLEN | AMVP_SYM_CIPH_PTLEN
  | AMVP_SYM_CIPH_TWEAK | AMVP_SYM_CIPH_AADLEN | AMVP_SYM_CIPH_KW_MODE | AMVP_SYM_CIPH_PARM_DIR
  | AMVP_SYM_CIPH_PARM_KO | AMVP_SYM_CIPH_PARM_PERFORM_CTR | AMVP_SYM_CIPH_PARM_CTR_INCR
  | AMVP_SYM_CIPH_PARM_CTR_OVRFLW | AMVP_SYM_CIPH_PARM_IVGEN_MODE | AMVP_SYM_CIPH_PARM_IVGEN_SRC
  | AMVP_SYM_CIPH_PARM_SALT_SRC | AMVP_SYM_CIPH_PARM_CONFORMANCE
  | AMVP_SYM_CIPH_PARM_DULEN_MATCHES_PAYLOADLEN

datatype AMVP_SYM_CIPH_DOMAIN_PARM =
    AMVP_SYM_CIPH_DOMAIN_IVLEN | AMVP_SYM_CIPH_DOMAIN_PTLEN
  | AMVP_SYM_CIPH_DOMAIN_AADLEN | AMVP_SYM_CIPH_DOMAIN_DULEN

abbreviation (input) AMVP_SYM_KW_MAX :: int where "AMVP_SYM_KW_MAX \<equiv> 3"
abbreviation (input) AMVP_SYM_CIPH_DIR_MAX :: int where "AMVP_SYM_CIPH_DIR_MAX \<equiv> 4"
abbreviation (input) AMVP_SYM_CIPH_KO_MAX :: int where "AMVP_SYM_CIPH_KO_MAX \<equiv> 6"
abbreviation (input) AMVP_SYM_CIPH_IVGEN_SRC_EITHER :: int where "AMVP_SYM_CIPH_IVGEN_SRC_EITHER \<equiv> 3"
abbreviation (input) AMVP_SYM_CIPH_IVGEN_SRC_MAX :: int where "AMVP_SYM_CIPH_IVGEN_SRC_MAX \<equiv> 5"
abbreviation (input) AMVP_SYM_CIPH_IVGEN_MODE_MAX :: int where "AMVP_SYM_CIPH_IVGEN_MODE_MAX \<equiv> 4"
abbreviation (input) AMVP_SYM_CIPH_SALT_SRC_MAX :: int where "AMVP_SYM_CIPH_SALT_SRC_MAX \<equiv> 4"
abbreviation (input) AMVP_SYM_CIPH_TWEAK_HEX :: int where "AMVP_SYM_CIPH_TWEAK_HEX \<equiv> 1"
abbreviation (input) AMVP_SYM_CIPH_TWEAK_NONE :: int where "AMVP_SYM_CIPH_TWEAK_NONE \<equiv> 3"
abbreviation (input) AMVP_SYM_CIPH_DIR_ENCRYPT :: int where "AMVP_SYM_CIPH_DIR_ENCRYPT \<equiv> 1"
abbreviation (input) AMVP_SYM_CIPH_DIR_DECRYPT :: int where "AMVP_SYM_CIPH_DIR_DECRYPT \<equiv> 2"
abbreviation (input) AMVP_SYM_CIPH_DIR_BOTH :: int where "AMVP_SYM_CIPH_DIR_BOTH \<equiv> 3"
abbreviation (input) AMVP_SYM_KW_CIPHER :: int where "AMVP_SYM_KW_CIPHER \<equiv> 1"
abbreviation (input) AMVP_SYM_KW_INVERSE :: int where "AMVP_SYM_KW_INVERSE \<equiv> 2"
abbreviation (input) AMVP_SYM_CIPH_IVGEN_SRC_INT :: int where "AMVP_SYM_CIPH_IVGEN_SRC_INT \<equiv> 1"
abbreviation (input) AMVP_SYM_CIPH_IVGEN_SRC_EXT :: int where "AMVP_SYM_CIPH_IVGEN_SRC_EXT \<equiv> 2"
abbreviation (input) AMVP_SYM_CIPH_SALT_SRC_INT :: int where "AMVP_SYM_CIPH_SALT_SRC_INT \<equiv> 1"
abbreviation (input) AMVP_SYM_CIPH_SALT_SRC_EXT :: int where "AMVP_SYM_CIPH_SALT_SRC_EXT \<equiv> 2"
abbreviation (input) AMVP_SYM_CIPH_IVGEN_MODE_821 :: int where "AMVP_SYM_CIPH_IVGEN_MODE_821 \<equiv> 1"
abbreviation (input) AMVP_SYM_CIPH_IVGEN_MODE_822 :: int where "AMVP_SYM_CIPH_IVGEN_MODE_822 \<equiv> 2"
abbreviation (input) AMVP_SYM_CIPH_KO_NA :: int where "AMVP_SYM_CIPH_KO_NA \<equiv> 1"
abbreviation (input) AMVP_SYM_CIPH_KO_ONE :: int where "AMVP_SYM_CIPH_KO_ONE \<equiv> 2"
abbreviation (input) AMVP_SYM_CIPH_KO_THREE :: int where "AMVP_SYM_CIPH_KO_THREE \<equiv> 3"
abbreviation (input) AMVP_SYM_CIPH_KO_TWO :: int where "AMVP_SYM_CIPH_KO_TWO \<equiv> 4"
abbreviation (input) AMVP_SYM_CIPH_KO_BOTH :: int where "AMVP_SYM_CIPH_KO_BOTH \<equiv> 5"
abbreviation (input) AMVP_SYM_CIPH_TWEAK_NUM :: int where "AMVP_SYM_CIPH_TWEAK_NUM \<equiv> 2"
abbreviation (input) AMVP_SYM_CIPH_IVGEN_SRC_NA :: int where "AMVP_SYM_CIPH_IVGEN_SRC_NA \<equiv> 4"
abbreviation (input) AMVP_SYM_CIPH_IVGEN_MODE_NA :: int where "AMVP_SYM_CIPH_IVGEN_MODE_NA \<equiv> 3"
abbreviation (input) AMVP_SYM_CIPH_SALT_SRC_NA :: int where "AMVP_SYM_CIPH_SALT_SRC_NA \<equiv> 3"

text \<open>The labels that the switches over the cipher list, in their order.\<close>

definition sym_aes_ciphers :: "AMVP_CIPHER list" where
  "sym_aes_ciphers =
    [AMVP_AES_GCM, AMVP_AES_GCM_SIV, AMVP_AES_CCM, AMVP_AES_ECB, AMVP_AES_CBC, AMVP_AES_CBC_CS1,
     AMVP_AES_CBC_CS2, AMVP_AES_CBC_CS3, AMVP_AES_CFB1, AMVP_AES_CFB8, AMVP_AES_CFB128, AMVP_AES_OFB,
     AMVP_AES_CTR, AMVP_AES_XTS, AMVP_AES_KW, AMVP_AES_KWP, AMVP_AES_GMAC, AMVP_AES_XPN]"

definition sym_tdes_ciphers :: "AMVP_CIPHER list" where
  "sym_tdes_ciphers =
    [AMVP_TDES_ECB, AMVP_TDES_CBC, AMVP_TDES_CBCI, AMVP_TDES_OFB, AMVP_TDES_OFBI, AMVP_TDES_CFB1,
     AMVP_TDES_CFB8, AMVP_TDES_CFB64, AMVP_TDES_CFBP1, AMVP_TDES_CFBP8, AMVP_TDES_CFBP64,
     AMVP_TDES_CTR, AMVP_TDES_KW]"

definition is_sym_cipher :: "AMVP_CIPHER \<Rightarrow> bool" where
  "is_sym_cipher cipher \<longleftrightarrow> cipher \<in> set (sym_aes_ciphers @ sym_tdes_ciphers)"

section \<open>Checking values\<close>

definition valid_keylen :: "AMVP_CIPHER \<Rightarrow> int \<Rightarrow> bool" where
  "valid_keylen cipher v =
     (if cipher \<in> set sym_aes_ciphers then v = 128 \<or> v = 192 \<or> v = 256
      else if cipher \<in> set sym_tdes_ciphers then v = 192
      else False)"

definition valid_taglen :: "AMVP_CIPHER \<Rightarrow> int \<Rightarrow> bool" where
  "valid_taglen cipher v =
     (if cipher \<in> set [AMVP_AES_GCM, AMVP_AES_GMAC, AMVP_AES_CCM, AMVP_AES_XPN]
      then v > 0 \<and> c_rem v 8 = 0 \<and> v \<le> 128
      else False)"

definition valid_ivlen :: "AMVP_CIPHER \<Rightarrow> int \<Rightarrow> bool" where
  "valid_ivlen cipher v =
     (if cipher \<in> set [AMVP_AES_GCM, AMVP_AES_GCM_SIV, AMVP_AES_CCM, AMVP_AES_GMAC, AMVP_TDES_CBC,
           AMVP_AES_OFB, AMVP_TDES_CFB1, AMVP_TDES_OFB, AMVP_TDES_CFB8, AMVP_TDES_CFB64]
      then v \<ge> 8 \<and> v \<le> 1024
      else False)"

definition valid_aadlen :: "AMVP_CIPHER \<Rightarrow> int \<Rightarrow> bool" where
  "valid_aadlen cipher v =
     (if cipher \<in> set [AMVP_AES_GCM, AMVP_AES_GCM_SIV, AMVP_AES_CCM, AMVP_AES_ECB, AMVP_AES_CBC,
           AMVP_AES_CFB1, AMVP_AES_CFB8, AMVP_AES_CFB128, AMVP_AES_OFB, AMVP_AES_CTR, AMVP_AES_GMAC,
           AMVP_AES_XPN]
      then v \<ge> 0 \<and> v \<le> 65536
      else False)"

definition valid_ptlen :: "AMVP_CIPHER \<Rightarrow> int \<Rightarrow> bool" where
  "valid_ptlen cipher v = (if cipher = AMVP_AES_GMAC then False else v \<ge> 0 \<and> v \<le> 65536)"

definition amvp_validate_sym_cipher_parm_value ::
  "AMVP_CIPHER \<Rightarrow> AMVP_SYM_CIPH_PARM \<Rightarrow> int \<Rightarrow> AMVP_RESULT" where
  "amvp_validate_sym_cipher_parm_value cipher parm v =
     (if (case parm of
            AMVP_SYM_CIPH_KEYLEN \<Rightarrow> valid_keylen cipher v
          | AMVP_SYM_CIPH_TAGLEN \<Rightarrow> valid_taglen cipher v
          | AMVP_SYM_CIPH_IVLEN \<Rightarrow> valid_ivlen cipher v
          | AMVP_SYM_CIPH_TWEAK \<Rightarrow>
              cipher = AMVP_AES_XTS \<and> v \<ge> AMVP_SYM_CIPH_TWEAK_HEX \<and> v < AMVP_SYM_CIPH_TWEAK_NONE
          | AMVP_SYM_CIPH_AADLEN \<Rightarrow> valid_aadlen cipher v
          | AMVP_SYM_CIPH_PTLEN \<Rightarrow> valid_ptlen cipher v
          | _ \<Rightarrow> False)
      then AMVP_SUCCESS else AMVP_INVALID_ARG)"

text \<open>The arms of the domain check, after the tests that are common to all ciphers.\<close>

definition valid_domain_arm ::
  "AMVP_CIPHER \<Rightarrow> AMVP_SYM_CIPH_DOMAIN_PARM \<Rightarrow> int \<Rightarrow> int \<Rightarrow> int \<Rightarrow> bool" where
  "valid_domain_arm cipher parm lo hi increment =
     (if cipher = AMVP_AES_GCM then
        (case parm of
           AMVP_SYM_CIPH_DOMAIN_IVLEN \<Rightarrow> lo \<ge> 8 \<and> hi \<le> 1024
         | AMVP_SYM_CIPH_DOMAIN_PTLEN \<Rightarrow> lo \<ge> 0 \<and> hi \<le> 65536
         | AMVP_SYM_CIPH_DOMAIN_AADLEN \<Rightarrow> lo \<ge> 0 \<and> hi \<le> 65536
         | _ \<Rightarrow> False)
      else if cipher = AMVP_AES_GCM_SIV then
        (case parm of
           AMVP_SYM_CIPH_DOMAIN_PTLEN \<Rightarrow> lo \<ge> 0 \<and> hi \<le> 65536 \<and> increment = 8
         | AMVP_SYM_CIPH_DOMAIN_AADLEN \<Rightarrow> lo \<ge> 0 \<and> hi \<le> 65536 \<and> increment = 8
         | _ \<Rightarrow> False)
      else if cipher = AMVP_AES_CCM then
        (case parm of
           AMVP_SYM_CIPH_DOMAIN_IVLEN \<Rightarrow> lo \<ge> 56 \<and> hi \<le> 104 \<and> increment = 8
         | AMVP_SYM_CIPH_DOMAIN_PTLEN \<Rightarrow> lo \<ge> 0 \<and> hi \<le> 256 \<and> increment = 8
         | AMVP_SYM_CIPH_DOMAIN_AADLEN \<Rightarrow> lo \<ge> 0 \<and> hi \<le> 524288
         | _ \<Rightarrow> False)
      else if cipher \<in> set [AMVP_AES_CBC_CS1, AMVP_AES_CBC_CS2, AMVP_AES_CBC_CS3] then
        parm = AMVP_SYM_CIPH_DOMAIN_PTLEN \<and> lo \<ge> 128 \<and> hi \<le> 65536
      else if cipher = AMVP_AES_CTR then
        parm = AMVP_SYM_CIPH_DOMAIN_PTLEN \<and> lo \<ge> 1 \<and> hi \<le> 128
      else if cipher = AMVP_AES_XTS then
        (case parm of
           AMVP_SYM_CIPH_DOMAIN_PTLEN \<Rightarrow> lo \<ge> 128 \<and> hi \<le> 65536
         | AMVP_SYM_CIPH_DOMAIN_DULEN \<Rightarrow> lo \<ge> 128 \<and> hi \<le> 65536 \<and> c_rem increment 8 = 0
         | _ \<Rightarrow> False)
      else if cipher = AMVP_AES_KW then
        parm = AMVP_SYM_CIPH_DOMAIN_PTLEN \<and> lo \<ge> 128 \<and> hi \<le> 524288 \<and> c_rem increment 8 = 0
      else if cipher = AMVP_AES_KWP then
        parm = AMVP_SYM_CIPH_DOMAIN_PTLEN \<and> lo \<ge> 0 \<and> hi \<le> 524288
      else if cipher = AMVP_AES_GMAC then
        (case parm of
           AMVP_SYM_CIPH_DOMAIN_IVLEN \<Rightarrow> lo \<ge> 8 \<and> hi \<le> 1024 \<and> c_rem increment 8 = 0
         | AMVP_SYM_CIPH_DOMAIN_AADLEN \<Rightarrow> lo \<ge> 0 \<and> hi \<le> 65536 \<and> c_rem increment 8 = 0
         | _ \<Rightarrow> False)
      else if cipher = AMVP_AES_XPN then
        (case parm of
           AMVP_SYM_CIPH_DOMAIN_IVLEN \<Rightarrow> lo \<ge> 8 \<and> hi \<le> 1024
         | AMVP_SYM_CIPH_DOMAIN_PTLEN \<Rightarrow> lo \<ge> 0 \<and> hi \<le> 65536
         | AMVP_SYM_CIPH_DOMAIN_AADLEN \<Rightarrow> lo \<ge> 0 \<and> hi \<le> 65536
         | _ \<Rightarrow> False)
      else if cipher \<in> set [AMVP_TDES_CTR, AMVP_TDES_KW] then
        parm = AMVP_SYM_CIPH_DOMAIN_PTLEN \<and> lo \<ge> 0 \<and> hi \<le> 65536
      else False)"

definition amvp_validate_sym_cipher_domain_value ::
  "AMVP_CIPHER \<Rightarrow> AMVP_SYM_CIPH_DOMAIN_PARM \<Rightarrow> int \<Rightarrow> int \<Rightarrow> int \<Rightarrow> AMVP_RESULT" where
  "amvp_validate_sym_cipher_domain_value cipher parm lo hi increment =
     (if lo > hi \<or> lo < 0 \<or> increment \<le> 0 then AMVP_INVALID_ARG
      else if c_rem (hi - lo) increment \<noteq> 0 then AMVP_INVALID_ARG
      else if valid_domain_arm cipher parm lo hi increment then AMVP_SUCCESS
      else AMVP_INVALID_ARG)"

section \<open>The public operations\<close>

definition sym_of :: "cap_union \<Rightarrow> AMVP_SYM_CIPHER_CAP option" where
  "sym_of u = (case u of Sym_cap x \<Rightarrow> Some x | _ \<Rightarrow> None)"

interpretation sym: union_member sym_of Sym_cap
  by unfold_locales (simp add: sym_of_def split: cap_union.splits)

definition amvp_cap_sym_cipher_enable ::
  "alloc \<Rightarrow> 'z AMVP_CTX_scheme option \<Rightarrow> AMVP_CIPHER \<Rightarrow> callback \<Rightarrow> 'z AMVP_CTX_scheme option outcome" where
  "amvp_cap_sym_cipher_enable ok octx cipher crypto_handler =
     with_ctx octx (\<lambda>ctx.
       if crypto_handler = None then Ret AMVP_INVALID_ARG ctx
       else if \<not> is_sym_cipher cipher then Ret AMVP_INVALID_ARG ctx
       else amvp_cap_list_append ok AMVP_SYM_TYPE cipher crypto_handler ctx)"

text \<open>
  One arm of the domain operation: refused when a list was given before, checked, stored.
\<close>

definition sym_domain_arm ::
  "bool \<Rightarrow> AMVP_CIPHER \<Rightarrow> AMVP_SYM_CIPH_DOMAIN_PARM \<Rightarrow> int \<Rightarrow> int \<Rightarrow> int \<Rightarrow>
   (AMVP_SYM_CIPHER_CAP \<Rightarrow> AMVP_SYM_CIPHER_CAP) \<Rightarrow> AMVP_CAPS_LIST \<Rightarrow> 'z AMVP_CTX_scheme \<Rightarrow> 'z AMVP_CTX_scheme outcome" where
  "sym_domain_arm taken cipher parm lo hi increment f cap ctx =
     (if taken then Ret AMVP_INVALID_ARG ctx
      else if amvp_validate_sym_cipher_domain_value cipher parm lo hi increment \<noteq> AMVP_SUCCESS
      then Ret AMVP_INVALID_ARG ctx
      else store sym_of Sym_cap cipher cap f ctx)"

definition amvp_cap_sym_cipher_set_domain ::
  "'z AMVP_CTX_scheme option \<Rightarrow> AMVP_CIPHER \<Rightarrow> AMVP_SYM_CIPH_DOMAIN_PARM \<Rightarrow> int \<Rightarrow> int \<Rightarrow> int \<Rightarrow>
   'z AMVP_CTX_scheme option outcome" where
  "amvp_cap_sym_cipher_set_domain octx cipher parm lo hi increment =
     with_ctx octx (\<lambda>ctx.
       if \<not> is_sym_cipher cipher then Ret AMVP_INVALID_ARG ctx
       else (case amvp_locate_cap_entry (Some ctx) cipher of
               None \<Rightarrow> Ret AMVP_NO_CAP ctx
             | Some cap \<Rightarrow>
               (case sym_of (cap_data cap) of
                  None \<Rightarrow> UB Bad_Union
                | Some symcap \<Rightarrow>
                  (case parm of
                     AMVP_SYM_CIPH_DOMAIN_IVLEN \<Rightarrow>
                       sym_domain_arm (sym_ivlen symcap \<noteq> []) cipher parm lo hi increment
                         (\<lambda>x. x\<lparr>sym_iv_len := set_domain lo hi increment (sym_iv_len x)\<rparr>) cap ctx
                   | AMVP_SYM_CIPH_DOMAIN_PTLEN \<Rightarrow>
                       sym_domain_arm (sym_ptlen symcap \<noteq> []) cipher parm lo hi increment
                         (\<lambda>x. x\<lparr>sym_payload_len := set_domain lo hi increment (sym_payload_len x)\<rparr>) cap ctx
                   | AMVP_SYM_CIPH_DOMAIN_AADLEN \<Rightarrow>
                       sym_domain_arm (sym_aadlen symcap \<noteq> []) cipher parm lo hi increment
                         (\<lambda>x. x\<lparr>sym_aad_len := set_domain lo hi increment (sym_aad_len x)\<rparr>) cap ctx
                   | AMVP_SYM_CIPH_DOMAIN_DULEN \<Rightarrow>
                       sym_domain_arm (sym_dulen_matches_paylen symcap \<noteq> 0 \<or> cipher \<noteq> AMVP_AES_XTS)
                         cipher parm lo hi increment
                         (\<lambda>x. x\<lparr>sym_du_len := set_domain lo hi increment (sym_du_len x)\<rparr>) cap ctx))))"

text \<open>
  The first switch of the parameter operation: everything that is not a length. \<^const>\<open>None\<close>
  means that the switch is left without a return.
\<close>

definition sym_set_flag ::
  "AMVP_CIPHER \<Rightarrow> AMVP_SYM_CIPH_PARM \<Rightarrow> int \<Rightarrow> AMVP_CAPS_LIST \<Rightarrow> 'z AMVP_CTX_scheme \<Rightarrow>
   'z AMVP_CTX_scheme outcome option" where
  "sym_set_flag cipher parm v cap ctx =
     (let set_if = (\<lambda>b ctx f. Some (if b then store sym_of Sym_cap cipher cap f ctx else Ret AMVP_INVALID_ARG ctx))
      in case parm of
        AMVP_SYM_CIPH_KW_MODE \<Rightarrow>
          set_if (v < AMVP_SYM_KW_MAX) ctx (\<lambda>x. x\<lparr>sym_kw_mode := sym_kw_mode x OR v\<rparr>)
      | AMVP_SYM_CIPH_PARM_DIR \<Rightarrow>
          set_if (v > 0 \<and> v < AMVP_SYM_CIPH_DIR_MAX) ctx (\<lambda>x. x\<lparr>sym_direction := v\<rparr>)
      | AMVP_SYM_CIPH_PARM_KO \<Rightarrow>
          set_if (v > 0 \<and> v < AMVP_SYM_CIPH_KO_MAX) ctx (\<lambda>x. x\<lparr>sym_keying_option := v\<rparr>)
      | AMVP_SYM_CIPH_PARM_PERFORM_CTR \<Rightarrow>
          set_if (v = 0 \<or> v = 1) ctx (\<lambda>x. x\<lparr>sym_perform_ctr_tests := v\<rparr>)
      | AMVP_SYM_CIPH_PARM_CTR_INCR \<Rightarrow>
          if sym_of (cap_data cap) = None then Some (UB Bad_Union)
          else set_if (v = 0 \<or> v = 1) ctx (\<lambda>x. x\<lparr>sym_ctr_incr := v\<rparr>)
      | AMVP_SYM_CIPH_PARM_CTR_OVRFLW \<Rightarrow>
          if sym_of (cap_data cap) = None then Some (UB Bad_Union)
          else set_if (v = 0 \<or> v = 1) ctx (\<lambda>x. x\<lparr>sym_ctr_ovrflw := v\<rparr>)
      | AMVP_SYM_CIPH_PARM_IVGEN_SRC \<Rightarrow>
          if v > 0 \<and> v < AMVP_SYM_CIPH_IVGEN_SRC_MAX then
            set_if True
              (if v = AMVP_SYM_CIPH_IVGEN_SRC_EITHER then ctx\<lparr>vs_count := vs_count ctx + 1\<rparr> else ctx)
              (\<lambda>x. x\<lparr>sym_ivgen_source := v\<rparr>)
          else Some (Ret AMVP_INVALID_ARG ctx)
      | AMVP_SYM_CIPH_PARM_IVGEN_MODE \<Rightarrow>
          set_if (v > 0 \<and> v < AMVP_SYM_CIPH_IVGEN_MODE_MAX) ctx (\<lambda>x. x\<lparr>sym_ivgen_mode := v\<rparr>)
      | AMVP_SYM_CIPH_PARM_SALT_SRC \<Rightarrow>
          set_if (cipher = AMVP_AES_XPN \<and> v > 0 \<and> v < AMVP_SYM_CIPH_SALT_SRC_MAX) ctx
            (\<lambda>x. x\<lparr>sym_salt_source := v\<rparr>)
      | AMVP_SYM_CIPH_PARM_CONFORMANCE \<Rightarrow>
          set_if (cipher = AMVP_AES_CTR \<and> v = AMVP_CONFORMANCE_RFC3686) ctx
            (\<lambda>x. x\<lparr>sym_conformance := AMVP_CONFORMANCE_RFC3686\<rparr>)
      | AMVP_SYM_CIPH_PARM_DULEN_MATCHES_PAYLOADLEN \<Rightarrow>
          if cipher \<noteq> AMVP_AES_XTS then Some (Ret AMVP_INVALID_ARG ctx)
          else (case sym_of (cap_data cap) of
                  None \<Rightarrow> Some (UB Bad_Union)
                | Some symcap \<Rightarrow>
                    if dom_max (sym_du_len symcap) \<noteq> 0 \<or> dom_increment (sym_du_len symcap) \<noteq> 0
                    then Some (Ret AMVP_INVALID_ARG ctx)
                    else set_if (v = 0 \<or> v = 1) ctx (\<lambda>x. x\<lparr>sym_dulen_matches_paylen := v\<rparr>))
      | _ \<Rightarrow> None)"

text \<open>The result of the append is not looked at.\<close>

definition append_ignored :: "alloc \<Rightarrow> int list \<Rightarrow> int \<Rightarrow> int list" where
  "append_ignored ok l v = the (snd (amvp_append_sl_list ok (Some l) v))"

text \<open>The second switch: the lengths. Three of them are refused when a domain was given before.\<close>

definition sym_set_len ::
  "alloc \<Rightarrow> AMVP_CIPHER \<Rightarrow> AMVP_SYM_CIPH_PARM \<Rightarrow> int \<Rightarrow> AMVP_CAPS_LIST \<Rightarrow> 'z AMVP_CTX_scheme \<Rightarrow>
   'z AMVP_CTX_scheme outcome" where
  "sym_set_len ok cipher parm v cap ctx =
     (let unless_domain = (\<lambda>dom f.
            (case sym_of (cap_data cap) of
               None \<Rightarrow> UB Bad_Union
             | Some symcap \<Rightarrow>
                 if amvp_is_domain_already_set (dom symcap) \<noteq> 0 then Ret AMVP_INVALID_ARG ctx
                 else store sym_of Sym_cap cipher cap f ctx))
      in case parm of
        AMVP_SYM_CIPH_KEYLEN \<Rightarrow>
          store sym_of Sym_cap cipher cap (\<lambda>x. x\<lparr>sym_keylen := append_ignored ok (sym_keylen x) v\<rparr>) ctx
      | AMVP_SYM_CIPH_TAGLEN \<Rightarrow>
          store sym_of Sym_cap cipher cap (\<lambda>x. x\<lparr>sym_taglen := append_ignored ok (sym_taglen x) v\<rparr>) ctx
      | AMVP_SYM_CIPH_IVLEN \<Rightarrow>
          unless_domain sym_iv_len (\<lambda>x. x\<lparr>sym_ivlen := append_ignored ok (sym_ivlen x) v\<rparr>)
      | AMVP_SYM_CIPH_PTLEN \<Rightarrow>
          unless_domain sym_payload_len (\<lambda>x. x\<lparr>sym_ptlen := append_ignored ok (sym_ptlen x) v\<rparr>)
      | AMVP_SYM_CIPH_TWEAK \<Rightarrow>
          store sym_of Sym_cap cipher cap (\<lambda>x. x\<lparr>sym_tweak := append_ignored ok (sym_tweak x) v\<rparr>) ctx
      | AMVP_SYM_CIPH_AADLEN \<Rightarrow>
          unless_domain sym_aad_len (\<lambda>x. x\<lparr>sym_aadlen := append_ignored ok (sym_aadlen x) v\<rparr>)
      | _ \<Rightarrow> Ret AMVP_INVALID_ARG ctx)"

definition amvp_cap_sym_cipher_set_parm ::
  "alloc \<Rightarrow> 'z AMVP_CTX_scheme option \<Rightarrow> AMVP_CIPHER \<Rightarrow> AMVP_SYM_CIPH_PARM \<Rightarrow> int \<Rightarrow>
   'z AMVP_CTX_scheme option outcome" where
  "amvp_cap_sym_cipher_set_parm ok octx cipher parm v =
     with_ctx octx (\<lambda>ctx.
       if \<not> is_sym_cipher cipher then Ret AMVP_INVALID_ARG ctx
       else (case amvp_locate_cap_entry (Some ctx) cipher of
               None \<Rightarrow> Ret AMVP_NO_CAP ctx
             | Some cap \<Rightarrow>
               (case sym_set_flag cipher parm v cap ctx of
                  Some r \<Rightarrow> r
                | None \<Rightarrow>
                    if amvp_validate_sym_cipher_parm_value cipher parm v \<noteq> AMVP_SUCCESS
                    then Ret AMVP_INVALID_ARG ctx
                    else sym_set_len ok cipher parm v cap ctx)))"

section \<open>What the settings satisfy\<close>

definition domain_unset :: "AMVP_JSON_DOMAIN_OBJ \<Rightarrow> bool" where
  "domain_unset d \<longleftrightarrow> dom_min d = 0 \<and> dom_max d = 0 \<and> dom_increment d = 0"

definition sym_domain_ok :: "AMVP_CIPHER \<Rightarrow> AMVP_SYM_CIPH_DOMAIN_PARM \<Rightarrow> AMVP_JSON_DOMAIN_OBJ \<Rightarrow> bool" where
  "sym_domain_ok c p d \<longleftrightarrow> domain_unset d \<or>
     amvp_validate_sym_cipher_domain_value c p (dom_min d) (dom_max d) (dom_increment d) = AMVP_SUCCESS \<and>
     dom_increment d \<le> 2147483647"

text \<open>
  Every length in a list passed its check, every domain is unset or passed its check, no
  length is given both as a list and as a domain, a data unit length is only given for
  AES-XTS after it was declared to differ from the payload length, and the enumerated
  settings are unset or in the range of their enumeration.
\<close>

definition sym_ok :: "AMVP_CIPHER \<Rightarrow> AMVP_SYM_CIPHER_CAP \<Rightarrow> bool" where
  "sym_ok c x \<longleftrightarrow>
     (list_all (valid_keylen c) (sym_keylen x) \<and> list_all (valid_taglen c) (sym_taglen x) \<and>
      list_all (valid_ivlen c) (sym_ivlen x) \<and> list_all (valid_ptlen c) (sym_ptlen x) \<and>
      list_all (valid_aadlen c) (sym_aadlen x) \<and> list_all (\<lambda>v. v = 1 \<or> v = 2) (sym_tweak x)) \<and>
     (sym_domain_ok c AMVP_SYM_CIPH_DOMAIN_IVLEN (sym_iv_len x) \<and>
      sym_domain_ok c AMVP_SYM_CIPH_DOMAIN_PTLEN (sym_payload_len x) \<and>
      sym_domain_ok c AMVP_SYM_CIPH_DOMAIN_AADLEN (sym_aad_len x) \<and>
      sym_domain_ok c AMVP_SYM_CIPH_DOMAIN_DULEN (sym_du_len x)) \<and>
     ((sym_ivlen x = [] \<or> domain_unset (sym_iv_len x)) \<and>
      (sym_ptlen x = [] \<or> domain_unset (sym_payload_len x)) \<and>
      (sym_aadlen x = [] \<or> domain_unset (sym_aad_len x))) \<and>
     (domain_unset (sym_du_len x) \<or> c = AMVP_AES_XTS \<and> sym_dulen_matches_paylen x = 0) \<and>
     (sym_direction x \<in> {0..3} \<and> sym_keying_option x \<in> {0..5} \<and> sym_ivgen_source x \<in> {0..4} \<and>
      sym_ivgen_mode x \<in> {0..3} \<and> sym_salt_source x \<in> {0..3} \<and> sym_conformance x \<in> {0..1} \<and>
      sym_perform_ctr_tests x \<in> {0..1} \<and> sym_ctr_incr x \<in> {0..1} \<and> sym_ctr_ovrflw x \<in> {0..1} \<and>
      sym_dulen_matches_paylen x \<in> {0..1})"

lemma append_ignored_eq [simp]: "append_ignored ok l v = (if ok 0 then l @ [v] else l)"
  by (simp add: append_ignored_def)

lemma sym_domain_bounds:
  assumes "amvp_validate_sym_cipher_domain_value c p lo hi inc = AMVP_SUCCESS"
  shows "0 \<le> lo \<and> lo \<le> hi \<and> hi \<le> 524288 \<and> 0 < inc \<and> inc dvd (hi - lo)"
  using assms
  by (cases p) (auto simp: amvp_validate_sym_cipher_domain_value_def valid_domain_arm_def c_rem_eq_0_iff split: if_splits)

text \<open>The test for a domain that was set is exact on the domains that can be stored.\<close>

lemma domain_already_set_iff:
  assumes "sym_domain_ok c p d"
  shows "amvp_is_domain_already_set d = 0 \<longleftrightarrow> domain_unset d"
proof (cases "domain_unset d")
  case False
  then have b: "0 \<le> dom_min d" "dom_min d \<le> dom_max d" "dom_max d \<le> 524288" "0 < dom_increment d" "dom_increment d \<le> 2147483647"
    using assms sym_domain_bounds by (auto simp: sym_domain_ok_def)
  then have "\<not> 4294967296 dvd dom_min d + dom_max d + dom_increment d"
    by (auto dest!: zdvd_imp_le)
  with False show ?thesis
    unfolding amvp_is_domain_already_set_def using wrap32_eq_0D by blast
qed (auto simp: domain_unset_def amvp_is_domain_already_set_def wrap32_def)

section \<open>The operations keep it\<close>

lemma sym_ok_new: "sym_ok c (zero_sym_cap\<lparr>sym_perform_ctr_tests := 1, sym_dulen_matches_paylen := 1\<rparr>)"
  by (simp add: sym_ok_def zero_sym_cap_def sym_domain_ok_def domain_unset_def zero_domain_def)

lemma sym_flag_arm:
  assumes "(if b then store sym_of Sym_cap c e f t else Ret AMVP_INVALID_ARG t) = Ret rv s'"
    and "amvp_locate_cap_entry (Some s) c = Some e" and "t = s"
    and "\<And>x. b \<Longrightarrow> cap_data e = Sym_cap x \<Longrightarrow> sym_ok c x \<Longrightarrow> sym_ok c (f x)"
  shows "(rv = AMVP_SUCCESS \<or> s' = s) \<and> family_step Sym_cap sym_ok c s s'"
  using assms sym.store_step [where ok = sym_ok, of c e f s rv s']
  by (auto split: if_splits simp del: locate_Some)

lemma sym_ivgen_step:
  assumes "store sym_of Sym_cap c e (\<lambda>x. x\<lparr>sym_ivgen_source := v\<rparr>)
      (if v = 3 then s\<lparr>vs_count := vs_count s + 1\<rparr> else s) = Ret rv s'"
    and "amvp_locate_cap_entry (Some s) c = Some e" and "0 < v" and "v < 5"
  shows "rv = AMVP_SUCCESS \<and> family_step Sym_cap sym_ok c s s'"
proof -
  obtain x where x: "cap_data e = Sym_cap x" "rv = AMVP_SUCCESS"
    and s': "s' = put_cap c (Sym_cap (x\<lparr>sym_ivgen_source := v\<rparr>))
        (s\<lparr>vs_count := vs_count s + int (if v = 3 then 1 else 0)\<rparr>)"
    using assms(1) by (auto simp: sym.store_Ret)
  have "sym_ok c x \<longrightarrow> sym_ok c (x\<lparr>sym_ivgen_source := v\<rparr>)"
    using assms by (simp add: sym_ok_def)
  with assms(2) x s' show ?thesis unfolding family_step_def by blast
qed

lemma sym_du_unset:
  "sym_domain_ok c p d \<Longrightarrow> dom_increment d = 0 \<Longrightarrow> domain_unset d"
  by (auto simp: sym_domain_ok_def dest: sym_domain_bounds)

lemma sym_ok_dulen:
  assumes "sym_ok c x" and "dom_increment (sym_du_len x) = 0" and "v = 0 \<or> v = 1"
  shows "sym_ok c (x\<lparr>sym_dulen_matches_paylen := v\<rparr>)"
proof -
  have "domain_unset (sym_du_len x)"
    using assms(1,2) sym_du_unset unfolding sym_ok_def by blast
  moreover have "0 \<le> v \<and> v \<le> 1" using assms(3) by auto
  ultimately show ?thesis using assms(1) by (simp add: sym_ok_def)
qed

lemma sym_set_flag_step:
  assumes r: "sym_set_flag c p v e s = Some (Ret rv s')" and e: "amvp_locate_cap_entry (Some s) c = Some e"
  shows "(rv = AMVP_SUCCESS \<or> s' = s) \<and> family_step Sym_cap sym_ok c s s'"
proof -
  have arm: "(rv = AMVP_SUCCESS \<or> s' = s) \<and> family_step Sym_cap sym_ok c s s'"
    if "Some (if b then store sym_of Sym_cap c e f s else Ret AMVP_INVALID_ARG s) = Some (Ret rv s')"
      and "\<And>x. b \<Longrightarrow> sym_ok c x \<Longrightarrow> sym_ok c (f x)" for b f
    using that sym_flag_arm [OF _ e refl, of b f rv s'] by simp
  note [simp] = sym_ok_def and r' = r [unfolded sym_set_flag_def Let_def]
  show ?thesis
  proof (cases p)
    case AMVP_SYM_CIPH_KW_MODE
    show ?thesis by (rule arm [OF r' [unfolded AMVP_SYM_CIPH_KW_MODE AMVP_SYM_CIPH_PARM.case]]) simp
  next
    case AMVP_SYM_CIPH_PARM_DIR
    show ?thesis by (rule arm [OF r' [unfolded AMVP_SYM_CIPH_PARM_DIR AMVP_SYM_CIPH_PARM.case]]) simp
  next
    case AMVP_SYM_CIPH_PARM_KO
    show ?thesis by (rule arm [OF r' [unfolded AMVP_SYM_CIPH_PARM_KO AMVP_SYM_CIPH_PARM.case]]) simp
  next
    case AMVP_SYM_CIPH_PARM_PERFORM_CTR
    show ?thesis by (rule arm [OF r' [unfolded AMVP_SYM_CIPH_PARM_PERFORM_CTR AMVP_SYM_CIPH_PARM.case]]) auto
  next
    case AMVP_SYM_CIPH_PARM_CTR_INCR
    with r' have "Some (if v = 0 \<or> v = 1 then store sym_of Sym_cap c e (\<lambda>x. x\<lparr>sym_ctr_incr := v\<rparr>) s else Ret AMVP_INVALID_ARG s) = Some (Ret rv s')"
      by (auto split: if_splits)
    then show ?thesis by (rule arm) auto
  next
    case AMVP_SYM_CIPH_PARM_CTR_OVRFLW
    with r' have "Some (if v = 0 \<or> v = 1 then store sym_of Sym_cap c e (\<lambda>x. x\<lparr>sym_ctr_ovrflw := v\<rparr>) s else Ret AMVP_INVALID_ARG s) = Some (Ret rv s')"
      by (auto split: if_splits)
    then show ?thesis by (rule arm) auto
  next
    case AMVP_SYM_CIPH_PARM_IVGEN_SRC
    with r' sym_ivgen_step [OF _ e, of v rv s'] show ?thesis
      by (auto split: if_splits simp del: locate_Some sym_ok_def)
  next
    case AMVP_SYM_CIPH_PARM_IVGEN_MODE
    show ?thesis by (rule arm [OF r' [unfolded AMVP_SYM_CIPH_PARM_IVGEN_MODE AMVP_SYM_CIPH_PARM.case]]) simp
  next
    case AMVP_SYM_CIPH_PARM_SALT_SRC
    show ?thesis by (rule arm [OF r' [unfolded AMVP_SYM_CIPH_PARM_SALT_SRC AMVP_SYM_CIPH_PARM.case]]) simp
  next
    case AMVP_SYM_CIPH_PARM_CONFORMANCE
    show ?thesis by (rule arm [OF r' [unfolded AMVP_SYM_CIPH_PARM_CONFORMANCE AMVP_SYM_CIPH_PARM.case]]) simp
  next
    case AMVP_SYM_CIPH_PARM_DULEN_MATCHES_PAYLOADLEN
    with r' sym_flag_arm [OF _ e refl, of "v = 0 \<or> v = 1" "\<lambda>x. x\<lparr>sym_dulen_matches_paylen := v\<rparr>" rv s'] show ?thesis
      by (auto simp: sym.sel_iff simp del: sym_ok_def locate_Some intro: sym_ok_dulen split: if_splits option.splits)
  qed (use r' in simp_all)
qed

lemma sym_set_len_step:
  assumes r: "sym_set_len ok c p v e s = Ret rv s'" and e: "amvp_locate_cap_entry (Some s) c = Some e"
    and v: "amvp_validate_sym_cipher_parm_value c p v = AMVP_SUCCESS"
  shows "(rv = AMVP_SUCCESS \<or> s' = s) \<and> family_step Sym_cap sym_ok c s s'"
proof -
  have plain: "(rv = AMVP_SUCCESS \<or> s' = s) \<and> family_step Sym_cap sym_ok c s s'"
    if "store sym_of Sym_cap c e f s = Ret rv s'"
      and "\<And>x. cap_data e = Sym_cap x \<Longrightarrow> sym_ok c x \<Longrightarrow> sym_ok c (f x)" for f
    using that sym.store_step [where ok = sym_ok, OF that(1) e] by blast
  have guarded: "(rv = AMVP_SUCCESS \<or> s' = s) \<and> family_step Sym_cap sym_ok c s s'"
    if "(case sym_of (cap_data e) of None \<Rightarrow> UB Bad_Union
         | Some x \<Rightarrow> if amvp_is_domain_already_set (dom x) \<noteq> 0 then Ret AMVP_INVALID_ARG s
                      else store sym_of Sym_cap c e f s) = Ret rv s'"
      and "\<And>x. sym_ok c x \<Longrightarrow> sym_domain_ok c q (dom x)"
      and "\<And>x. domain_unset (dom x) \<Longrightarrow> sym_ok c x \<Longrightarrow> sym_ok c (f x)" for dom f q
  proof (cases "\<exists>x. cap_data e = Sym_cap x \<and> amvp_is_domain_already_set (dom x) = 0")
    case True
    then obtain x where x: "cap_data e = Sym_cap x" "amvp_is_domain_already_set (dom x) = 0" by blast
    with that have "store sym_of Sym_cap c e f s = Ret rv s'" by simp
    then show ?thesis
    proof (rule plain)
      fix y assume y: "cap_data e = Sym_cap y" "sym_ok c y"
      with x have "domain_unset (dom y)" using domain_already_set_iff [OF that(2) [OF y(2)]] by simp
      with that(3) y show "sym_ok c (f y)" by blast
    qed
  next
    case False
    with that(1) show ?thesis by (auto simp: sym.sel_iff split: option.splits)
  qed
  note vd = v [unfolded amvp_validate_sym_cipher_parm_value_def] and rd = r [unfolded sym_set_len_def Let_def]
  show ?thesis
  proof (cases p)
    case AMVP_SYM_CIPH_KEYLEN
    then show ?thesis
      by (intro plain [OF rd [unfolded AMVP_SYM_CIPH_KEYLEN AMVP_SYM_CIPH_PARM.case]])
        (use vd in \<open>simp add: sym_ok_def split: if_splits\<close>)
  next
    case AMVP_SYM_CIPH_TAGLEN
    then show ?thesis
      by (intro plain [OF rd [unfolded AMVP_SYM_CIPH_TAGLEN AMVP_SYM_CIPH_PARM.case]])
        (use vd in \<open>simp add: sym_ok_def split: if_splits\<close>)
  next
    case AMVP_SYM_CIPH_TWEAK
    then have "v = 1 \<or> v = 2" using vd by (auto split: if_splits)
    then show ?thesis
      by (intro plain [OF rd [unfolded AMVP_SYM_CIPH_TWEAK AMVP_SYM_CIPH_PARM.case]])
        (simp add: sym_ok_def)
  next
    case AMVP_SYM_CIPH_IVLEN
    then show ?thesis
      by (intro guarded [OF rd [unfolded AMVP_SYM_CIPH_IVLEN AMVP_SYM_CIPH_PARM.case], of AMVP_SYM_CIPH_DOMAIN_IVLEN])
        (use vd in \<open>simp_all add: sym_ok_def split: if_splits\<close>)
  next
    case AMVP_SYM_CIPH_PTLEN
    then show ?thesis
      by (intro guarded [OF rd [unfolded AMVP_SYM_CIPH_PTLEN AMVP_SYM_CIPH_PARM.case], of AMVP_SYM_CIPH_DOMAIN_PTLEN])
        (use vd in \<open>simp_all add: sym_ok_def split: if_splits\<close>)
  next
    case AMVP_SYM_CIPH_AADLEN
    then show ?thesis
      by (intro guarded [OF rd [unfolded AMVP_SYM_CIPH_AADLEN AMVP_SYM_CIPH_PARM.case], of AMVP_SYM_CIPH_DOMAIN_AADLEN])
        (use vd in \<open>simp_all add: sym_ok_def split: if_splits\<close>)
  qed (use rd in auto)
qed

lemma sym_set_parm_step:
  assumes r: "amvp_cap_sym_cipher_set_parm ok (Some s) c p v = Ret rv os'"
  shows "\<exists>s'. os' = Some s' \<and> (rv = AMVP_SUCCESS \<or> s' = s) \<and> family_step Sym_cap sym_ok c s s'"
proof -
  obtain s' where s': "os' = Some s'" and b:
    "(if \<not> is_sym_cipher c then Ret AMVP_INVALID_ARG s
      else case amvp_locate_cap_entry (Some s) c of None \<Rightarrow> Ret AMVP_NO_CAP s
        | Some cap \<Rightarrow> case sym_set_flag c p v cap s of Some r \<Rightarrow> r
            | None \<Rightarrow> if amvp_validate_sym_cipher_parm_value c p v \<noteq> AMVP_SUCCESS then Ret AMVP_INVALID_ARG s
                      else sym_set_len ok c p v cap s) = Ret rv s'"
    using r unfolding amvp_cap_sym_cipher_set_parm_def with_ctx_Some map_outcome_state_Ret_iff by blast
  from b show ?thesis
    unfolding s'
    by (auto split: if_splits option.splits simp del: locate_Some dest: sym_set_flag_step sym_set_len_step)
qed

lemma sym_set_domain_step:
  assumes r: "amvp_cap_sym_cipher_set_domain (Some s) c p lo hi inc = Ret rv os'" and i: "is_int32 inc"
  shows "\<exists>s'. os' = Some s' \<and> (rv = AMVP_SUCCESS \<or> s' = s) \<and> family_step Sym_cap sym_ok c s s'"
proof -
  have arm: "(rv = AMVP_SUCCESS \<or> s' = s) \<and> family_step Sym_cap sym_ok c s s'"
    if "sym_domain_arm b c q lo hi inc f e s = Ret rv s'" and "amvp_locate_cap_entry (Some s) c = Some e"
      and "cap_data e = Sym_cap x"
      and "\<not> b \<Longrightarrow> amvp_validate_sym_cipher_domain_value c q lo hi inc = AMVP_SUCCESS \<Longrightarrow> sym_ok c x \<Longrightarrow> sym_ok c (f x)"
    for b f e s' x q
    using that sym.store_step [where ok = sym_ok, of c e f s rv s']
    by (auto simp: sym_domain_arm_def split: if_splits simp del: locate_Some)
  note simps = sym_ok_def sym_domain_ok_def domain_unset_def set_domain_def
  show ?thesis
  proof (cases "\<exists>e x. is_sym_cipher c \<and> amvp_locate_cap_entry (Some s) c = Some e \<and> cap_data e = Sym_cap x")
    case True
    then obtain e x where e: "is_sym_cipher c" "amvp_locate_cap_entry (Some s) c = Some e" "cap_data e = Sym_cap x"
      by blast
    with r obtain s' where s': "os' = Some s'"
      and b: "(case p of
          AMVP_SYM_CIPH_DOMAIN_IVLEN \<Rightarrow> sym_domain_arm (sym_ivlen x \<noteq> []) c p lo hi inc
            (\<lambda>x. x\<lparr>sym_iv_len := set_domain lo hi inc (sym_iv_len x)\<rparr>) e s
        | AMVP_SYM_CIPH_DOMAIN_PTLEN \<Rightarrow> sym_domain_arm (sym_ptlen x \<noteq> []) c p lo hi inc
            (\<lambda>x. x\<lparr>sym_payload_len := set_domain lo hi inc (sym_payload_len x)\<rparr>) e s
        | AMVP_SYM_CIPH_DOMAIN_AADLEN \<Rightarrow> sym_domain_arm (sym_aadlen x \<noteq> []) c p lo hi inc
            (\<lambda>x. x\<lparr>sym_aad_len := set_domain lo hi inc (sym_aad_len x)\<rparr>) e s
        | AMVP_SYM_CIPH_DOMAIN_DULEN \<Rightarrow> sym_domain_arm (sym_dulen_matches_paylen x \<noteq> 0 \<or> c \<noteq> AMVP_AES_XTS) c p lo hi inc
            (\<lambda>x. x\<lparr>sym_du_len := set_domain lo hi inc (sym_du_len x)\<rparr>) e s) = Ret rv s'"
      by (auto simp: amvp_cap_sym_cipher_set_domain_def simp del: locate_Some)
    have "inc \<le> 2147483647" using i by (simp add: is_int32_def)
    then have "(rv = AMVP_SUCCESS \<or> s' = s) \<and> family_step Sym_cap sym_ok c s s'"
    proof (cases p)
      case AMVP_SYM_CIPH_DOMAIN_IVLEN
      show ?thesis
        by (rule arm [OF b [unfolded AMVP_SYM_CIPH_DOMAIN_IVLEN AMVP_SYM_CIPH_DOMAIN_PARM.case] e(2,3)])
          (use \<open>inc \<le> 2147483647\<close> in \<open>simp add: simps\<close>)
    next
      case AMVP_SYM_CIPH_DOMAIN_PTLEN
      show ?thesis
        by (rule arm [OF b [unfolded AMVP_SYM_CIPH_DOMAIN_PTLEN AMVP_SYM_CIPH_DOMAIN_PARM.case] e(2,3)])
          (use \<open>inc \<le> 2147483647\<close> in \<open>simp add: simps\<close>)
    next
      case AMVP_SYM_CIPH_DOMAIN_AADLEN
      show ?thesis
        by (rule arm [OF b [unfolded AMVP_SYM_CIPH_DOMAIN_AADLEN AMVP_SYM_CIPH_DOMAIN_PARM.case] e(2,3)])
          (use \<open>inc \<le> 2147483647\<close> in \<open>simp add: simps\<close>)
    next
      case AMVP_SYM_CIPH_DOMAIN_DULEN
      show ?thesis
        by (rule arm [OF b [unfolded AMVP_SYM_CIPH_DOMAIN_DULEN AMVP_SYM_CIPH_DOMAIN_PARM.case] e(2,3)])
          (use \<open>inc \<le> 2147483647\<close> in \<open>simp add: simps\<close>)
    qed
    then show ?thesis unfolding s' by simp
  next
    case False
    with r show ?thesis
      by (auto simp: amvp_cap_sym_cipher_set_domain_def sym.sel_iff split: if_splits option.splits simp del: locate_Some)
  qed
qed

end
