(* ===== verification/Cap_Hash.thy ===== *)
theory Cap_Hash
  imports Cap_Registry Lookup_Tables
begin

text \<open>
  The capabilities of hash functions (\<^verbatim>\<open>src/amvp_capabilities.c\<close>): enabling a hash, its
  flags, and its message and output length domains.
\<close>

datatype AMVP_HASH_PARM =
    AMVP_HASH_IN_BIT | AMVP_HASH_IN_EMPTY | AMVP_HASH_OUT_BIT | AMVP_HASH_OUT_LENGTH | AMVP_HASH_MESSAGE_LEN

abbreviation (input) AMVP_HASH_MSG_BIT_MIN :: int where "AMVP_HASH_MSG_BIT_MIN \<equiv> 0"
abbreviation (input) AMVP_HASH_MSG_BIT_MAX :: int where "AMVP_HASH_MSG_BIT_MAX \<equiv> 65536"
abbreviation (input) AMVP_HASH_XOF_MD_BIT_MIN :: int where "AMVP_HASH_XOF_MD_BIT_MIN \<equiv> 16"
abbreviation (input) AMVP_HASH_XOF_MD_BIT_MAX :: int where "AMVP_HASH_XOF_MD_BIT_MAX \<equiv> 65536"

definition hash_sha2_algs :: "AMVP_CIPHER list" where
  "hash_sha2_algs =
    [AMVP_SUB_HASH_SHA1, AMVP_SUB_HASH_SHA2_224, AMVP_SUB_HASH_SHA2_256, AMVP_SUB_HASH_SHA2_384,
     AMVP_SUB_HASH_SHA2_512, AMVP_SUB_HASH_SHA2_512_224, AMVP_SUB_HASH_SHA2_512_256]"

definition hash_sha3_algs :: "AMVP_CIPHER list" where
  "hash_sha3_algs =
    [AMVP_SUB_HASH_SHA3_224, AMVP_SUB_HASH_SHA3_256, AMVP_SUB_HASH_SHA3_384, AMVP_SUB_HASH_SHA3_512]"

definition hash_shake_algs :: "AMVP_CIPHER list" where
  "hash_shake_algs = [AMVP_SUB_HASH_SHAKE_128, AMVP_SUB_HASH_SHAKE_256]"

definition hash_of :: "cap_union \<Rightarrow> AMVP_HASH_CAP option" where
  "hash_of u = (case u of Hash_cap x \<Rightarrow> Some x | _ \<Rightarrow> None)"

interpretation hash: union_member hash_of Hash_cap
  by unfold_locales (simp add: hash_of_def split: cap_union.splits)

section \<open>Operations\<close>

definition amvp_cap_hash_enable ::
  "alloc \<Rightarrow> 'z AMVP_CTX_scheme option \<Rightarrow> AMVP_CIPHER \<Rightarrow> callback \<Rightarrow> 'z AMVP_CTX_scheme option outcome" where
  "amvp_cap_hash_enable ok octx cipher crypto_handler =
     with_ctx octx (\<lambda>ctx.
       if crypto_handler = None then Ret AMVP_INVALID_ARG ctx
       else let alg = amvp_get_hash_alg cipher in
         if alg = 0 then Ret AMVP_INVALID_ARG ctx
         else if alg \<notin> set (hash_sha2_algs @ hash_sha3_algs @ hash_shake_algs) then Ret AMVP_INVALID_ARG ctx
         else amvp_cap_list_append ok AMVP_HASH_TYPE cipher crypto_handler ctx)"

definition amvp_validate_hash_parm_value :: "AMVP_HASH_PARM \<Rightarrow> int \<Rightarrow> AMVP_RESULT" where
  "amvp_validate_hash_parm_value parm v =
     (case parm of
        AMVP_HASH_IN_BIT \<Rightarrow> is_valid_tf_param v
      | AMVP_HASH_IN_EMPTY \<Rightarrow> is_valid_tf_param v
      | AMVP_HASH_OUT_BIT \<Rightarrow> is_valid_tf_param v
      | _ \<Rightarrow> AMVP_INVALID_ARG)"

definition amvp_cap_hash_set_parm ::
  "'z AMVP_CTX_scheme option \<Rightarrow> AMVP_CIPHER \<Rightarrow> AMVP_HASH_PARM \<Rightarrow> int \<Rightarrow> 'z AMVP_CTX_scheme option outcome" where
  "amvp_cap_hash_set_parm octx cipher param v =
     with_ctx octx (\<lambda>ctx.
       let alg = amvp_get_hash_alg cipher in
       if alg = 0 then Ret AMVP_INVALID_ARG ctx
       else if alg \<notin> set (hash_sha3_algs @ hash_shake_algs) then Ret AMVP_INVALID_ARG ctx
       else (case amvp_locate_cap_entry (Some ctx) cipher of
               None \<Rightarrow> Ret AMVP_NO_CAP ctx
             | Some cap \<Rightarrow>
                 if amvp_validate_hash_parm_value param v \<noteq> AMVP_SUCCESS then Ret AMVP_INVALID_ARG ctx
                 else (case param of
                     AMVP_HASH_IN_BIT \<Rightarrow> store hash_of Hash_cap cipher cap (\<lambda>x. x\<lparr>hash_in_bit := v\<rparr>) ctx
                   | AMVP_HASH_IN_EMPTY \<Rightarrow> store hash_of Hash_cap cipher cap (\<lambda>x. x\<lparr>hash_in_empty := v\<rparr>) ctx
                   | AMVP_HASH_OUT_BIT \<Rightarrow>
                       if alg \<notin> set hash_shake_algs then Ret AMVP_INVALID_ARG ctx
                       else store hash_of Hash_cap cipher cap (\<lambda>x. x\<lparr>hash_out_bit := v\<rparr>) ctx
                   | _ \<Rightarrow> Ret AMVP_INVALID_ARG ctx)))"

text \<open>The checks after the parameter is known; C's remainder, and a sum that may wrap.\<close>

definition hash_store_domain ::
  "int \<Rightarrow> int \<Rightarrow> int \<Rightarrow> AMVP_CIPHER \<Rightarrow> AMVP_CAPS_LIST \<Rightarrow> (AMVP_HASH_CAP \<Rightarrow> AMVP_HASH_CAP) \<Rightarrow>
   'z AMVP_CTX_scheme \<Rightarrow> 'z AMVP_CTX_scheme outcome" where
  "hash_store_domain lo hi increment cipher cap f ctx =
     (if increment \<le> 0 then Ret AMVP_INVALID_ARG ctx
      else if c_rem lo increment \<noteq> 0 then Ret AMVP_INVALID_ARG ctx
      else if c_rem hi increment \<noteq> 0 then Ret AMVP_INVALID_ARG ctx
      else store hash_of Hash_cap cipher cap f ctx)"

definition amvp_cap_hash_set_domain ::
  "'z AMVP_CTX_scheme option \<Rightarrow> AMVP_CIPHER \<Rightarrow> AMVP_HASH_PARM \<Rightarrow> int \<Rightarrow> int \<Rightarrow> int \<Rightarrow> 'z AMVP_CTX_scheme option outcome" where
  "amvp_cap_hash_set_domain octx cipher parm lo hi increment =
     with_ctx octx (\<lambda>ctx.
       let alg = amvp_get_hash_alg cipher in
       if alg = 0 then Ret AMVP_INVALID_ARG ctx
       else if alg \<notin> set (hash_sha3_algs @ hash_shake_algs @ hash_sha2_algs) then Ret AMVP_INVALID_ARG ctx
       else (case amvp_locate_cap_entry (Some ctx) cipher of
               None \<Rightarrow> Ret AMVP_NO_CAP ctx
             | Some cap \<Rightarrow>
                 (case parm of
                    AMVP_HASH_MESSAGE_LEN \<Rightarrow>
                      if cipher = AMVP_HASH_SHAKE_128 \<or> cipher = AMVP_HASH_SHAKE_256 then Ret AMVP_INVALID_ARG ctx
                      else if lo < AMVP_HASH_MSG_BIT_MIN \<or> hi > AMVP_HASH_MSG_BIT_MAX then Ret AMVP_INVALID_ARG ctx
                      else hash_store_domain lo hi increment cipher cap
                             (\<lambda>x. x\<lparr>hash_msg_length := set_domain lo hi increment (hash_msg_length x)\<rparr>) ctx
                  | AMVP_HASH_OUT_LENGTH \<Rightarrow>
                      if cipher \<noteq> AMVP_HASH_SHAKE_128 \<and> cipher \<noteq> AMVP_HASH_SHAKE_256 then Ret AMVP_INVALID_ARG ctx
                      else if lo < AMVP_HASH_XOF_MD_BIT_MIN \<or> hi > AMVP_HASH_XOF_MD_BIT_MAX
                      then Ret AMVP_INVALID_ARG ctx
                      else if wrap32 (increment + lo) > AMVP_HASH_XOF_MD_BIT_MAX then Ret AMVP_INVALID_ARG ctx
                      else hash_store_domain lo hi increment cipher cap
                             (\<lambda>x. x\<lparr>hash_out_len := set_domain lo hi increment (hash_out_len x)\<rparr>) ctx
                  | _ \<Rightarrow> Ret AMVP_INVALID_ARG ctx)))"

section \<open>What the settings satisfy\<close>

definition shake_cipher :: "AMVP_CIPHER \<Rightarrow> bool" where
  "shake_cipher c \<longleftrightarrow> c = AMVP_HASH_SHAKE_128 \<or> c = AMVP_HASH_SHAKE_256"

definition hash_domain_ok :: "int \<Rightarrow> AMVP_JSON_DOMAIN_OBJ \<Rightarrow> bool" where
  "hash_domain_ok low d \<longleftrightarrow>
     dom_min d = 0 \<and> dom_max d = 0 \<and> dom_increment d = 0 \<or>
     low \<le> dom_min d \<and> dom_max d \<le> 65536 \<and> 0 < dom_increment d \<and>
     dom_increment d dvd dom_min d \<and> dom_increment d dvd dom_max d"

text \<open>
  Flags are 0 or 1; only the extendable-output functions have output settings, and only the
  others have a message length; a domain that is set lies on the grid of its increment.
\<close>

definition hash_ok :: "AMVP_CIPHER \<Rightarrow> AMVP_HASH_CAP \<Rightarrow> bool" where
  "hash_ok c x \<longleftrightarrow>
     hash_in_bit x \<in> {0..1} \<and> hash_in_empty x \<in> {0..1} \<and> hash_out_bit x \<in> {0..1} \<and>
     hash_domain_ok 0 (hash_msg_length x) \<and> hash_domain_ok 16 (hash_out_len x) \<and>
     (if shake_cipher c then dom_increment (hash_msg_length x) = 0
      else hash_out_bit x = 0 \<and> dom_increment (hash_out_len x) = 0)"

lemma hash_ok_new: "hash_ok c zero_hash_cap"
  by (simp add: hash_ok_def zero_hash_cap_def zero_domain_def hash_domain_ok_def)

lemma tf_param_range: "is_valid_tf_param v = AMVP_SUCCESS \<longleftrightarrow> v = 0 \<or> v = 1"
  by (simp add: is_valid_tf_param_def)

lemma shake_algs_iff: "cipher_sub c \<in> set hash_shake_algs \<longleftrightarrow> shake_cipher c"
  using cipher_sub_block [of 43 44 c] by (auto simp: hash_shake_algs_def shake_cipher_def)

section \<open>The operations keep it\<close>

lemma hash_set_parm_step:
  assumes r: "amvp_cap_hash_set_parm (Some s) c p v = Ret rv os'"
  shows "\<exists>s'. os' = Some s' \<and> (rv = AMVP_SUCCESS \<or> s' = s) \<and> family_step Hash_cap hash_ok c s s'"
proof (cases "\<exists>e f. amvp_locate_cap_entry (Some s) c = Some e \<and>
    map_outcome_state Some (store hash_of Hash_cap c e f s) = Ret rv os' \<and> (\<forall>x. hash_ok c x \<longrightarrow> hash_ok c (f x))")
  case True
  then show ?thesis using hash.store_arm [where ok = hash_ok] by (fastforce simp del: locate_Some)
next
  case False
  have shake: "cipher_sub c \<in> set hash_shake_algs \<Longrightarrow> shake_cipher c" by (simp add: shake_algs_iff)
  have ok: "v = 0 \<or> v = 1 \<Longrightarrow> hash_ok c x \<Longrightarrow> hash_ok c (x\<lparr>hash_in_bit := v\<rparr>) \<and> hash_ok c (x\<lparr>hash_in_empty := v\<rparr>)"
    "v = 0 \<or> v = 1 \<Longrightarrow> shake_cipher c \<Longrightarrow> hash_ok c x \<Longrightarrow> hash_ok c (x\<lparr>hash_out_bit := v\<rparr>)" for x
    by (auto simp: hash_ok_def)
  show ?thesis
    using r False ok shake unfolding amvp_cap_hash_set_parm_def amvp_get_hash_alg_def
    by (cases p)
      (auto simp: Let_def amvp_validate_hash_parm_value_def tf_param_range simp del: locate_Some map_outcome_state_Ret_iff
        split: if_splits option.splits)
qed

lemma hash_store_domain_arm:
  assumes "hash_store_domain lo hi inc c e f s = Ret rv s'" and "amvp_locate_cap_entry (Some s) c = Some e"
    and "\<And>x. 0 < inc \<Longrightarrow> inc dvd lo \<Longrightarrow> inc dvd hi \<Longrightarrow> hash_ok c x \<Longrightarrow> hash_ok c (f x)"
  shows "(rv = AMVP_SUCCESS \<or> s' = s) \<and> family_step Hash_cap hash_ok c s s'"
  using assms hash.store_arm [where ok = hash_ok, of c e f s rv s']
  by (auto simp: hash_store_domain_def c_rem_eq_0_iff simp del: locate_Some split: if_splits)

lemma hash_domain_ok_set:
  "low \<le> lo \<Longrightarrow> hi \<le> 65536 \<Longrightarrow> 0 < inc \<Longrightarrow> inc dvd lo \<Longrightarrow> inc dvd hi \<Longrightarrow>
   hash_domain_ok low (set_domain lo hi inc d)"
  by (simp add: hash_domain_ok_def set_domain_def)

lemma hash_set_domain_step:
  assumes r: "amvp_cap_hash_set_domain (Some s) c p lo hi inc = Ret rv os'"
  shows "\<exists>s'. os' = Some s' \<and> (rv = AMVP_SUCCESS \<or> s' = s) \<and> family_step Hash_cap hash_ok c s s'"
proof -
  have msg: "hash_ok c (x\<lparr>hash_msg_length := set_domain lo hi inc (hash_msg_length x)\<rparr>)"
    if "hash_ok c x" "\<not> shake_cipher c" "0 \<le> lo" "hi \<le> 65536" "0 < inc" "inc dvd lo" "inc dvd hi" for x
    using that by (simp add: hash_ok_def hash_domain_ok_set)
  have out: "hash_ok c (x\<lparr>hash_out_len := set_domain lo hi inc (hash_out_len x)\<rparr>)"
    if "hash_ok c x" "shake_cipher c" "16 \<le> lo" "hi \<le> 65536" "0 < inc" "inc dvd lo" "inc dvd hi" for x
    using that by (simp add: hash_ok_def hash_domain_ok_set)
  from r show ?thesis
    unfolding amvp_cap_hash_set_domain_def
    by (cases p)
      (auto simp: Let_def shake_cipher_def [symmetric] simp del: locate_Some split: if_splits option.splits
        dest!: hash_store_domain_arm intro: msg out)
qed

end
