(* ===== verification/Cap_Mac.thy ===== *)
theory Cap_Mac
  imports Cap_Registry Lookup_Tables
begin

text \<open>
  The capabilities of HMAC, CMAC and KMAC (\<^verbatim>\<open>src/amvp_capabilities.c\<close>). The operations that
  set a parameter or a domain take any cipher that has an entry: the family of the cipher is
  not tested, so an entry of another family is used through the wrong member of the union.
\<close>

datatype AMVP_HMAC_PARM = AMVP_HMAC_KEYLEN | AMVP_HMAC_KEYBLOCK | AMVP_HMAC_MACLEN

datatype AMVP_CMAC_PARM =
    AMVP_CMAC_MACLEN | AMVP_CMAC_MSGLEN | AMVP_CMAC_KEYLEN | AMVP_CMAC_KEYING_OPTION
  | AMVP_CMAC_DIRECTION_GEN | AMVP_CMAC_DIRECTION_VER

datatype AMVP_KMAC_PARM =
    AMVP_KMAC_MACLEN | AMVP_KMAC_MSGLEN | AMVP_KMAC_KEYLEN | AMVP_KMAC_XOF_SUPPORT | AMVP_KMAC_HEX_CUSTOM_SUPPORT

abbreviation (input) AMVP_HMAC_MAC_BIT_MIN :: int where "AMVP_HMAC_MAC_BIT_MIN \<equiv> 32"
abbreviation (input) AMVP_HMAC_MAC_BIT_MAX :: int where "AMVP_HMAC_MAC_BIT_MAX \<equiv> 512"
abbreviation (input) AMVP_HMAC_KEY_BIT_MIN :: int where "AMVP_HMAC_KEY_BIT_MIN \<equiv> 8"
abbreviation (input) AMVP_HMAC_KEY_BIT_MAX :: int where "AMVP_HMAC_KEY_BIT_MAX \<equiv> 524288"
abbreviation (input) AMVP_CMAC_MSGLEN_MAX :: int where "AMVP_CMAC_MSGLEN_MAX \<equiv> 524288"
abbreviation (input) AMVP_CMAC_MSGLEN_MIN :: int where "AMVP_CMAC_MSGLEN_MIN \<equiv> 0"
abbreviation (input) AMVP_CMAC_MACLEN_MAX :: int where "AMVP_CMAC_MACLEN_MAX \<equiv> 128"
abbreviation (input) AMVP_CMAC_MACLEN_MIN :: int where "AMVP_CMAC_MACLEN_MIN \<equiv> 32"

definition hmac_of :: "cap_union \<Rightarrow> AMVP_HMAC_CAP option" where
  "hmac_of u = (case u of Hmac_cap x \<Rightarrow> Some x | _ \<Rightarrow> None)"

definition cmac_of :: "cap_union \<Rightarrow> AMVP_CMAC_CAP option" where
  "cmac_of u = (case u of Cmac_cap x \<Rightarrow> Some x | _ \<Rightarrow> None)"

definition kmac_of :: "cap_union \<Rightarrow> AMVP_KMAC_CAP option" where
  "kmac_of u = (case u of Kmac_cap x \<Rightarrow> Some x | _ \<Rightarrow> None)"

interpretation hmac: union_member hmac_of Hmac_cap
  by unfold_locales (simp add: hmac_of_def split: cap_union.splits)

interpretation cmac: union_member cmac_of Cmac_cap
  by unfold_locales (simp add: cmac_of_def split: cap_union.splits)

interpretation kmac: union_member kmac_of Kmac_cap
  by unfold_locales (simp add: kmac_of_def split: cap_union.splits)

section \<open>HMAC\<close>

definition hmac_algs :: "AMVP_CIPHER list" where
  "hmac_algs =
    [AMVP_SUB_HMAC_SHA1, AMVP_SUB_HMAC_SHA2_224, AMVP_SUB_HMAC_SHA2_256, AMVP_SUB_HMAC_SHA2_384,
     AMVP_SUB_HMAC_SHA2_512, AMVP_SUB_HMAC_SHA2_512_224, AMVP_SUB_HMAC_SHA2_512_256,
     AMVP_SUB_HMAC_SHA3_224, AMVP_SUB_HMAC_SHA3_256, AMVP_SUB_HMAC_SHA3_384, AMVP_SUB_HMAC_SHA3_512]"

definition hmac_max_mac :: "AMVP_CIPHER \<Rightarrow> int" where
  "hmac_max_mac alg =
     (if alg = AMVP_SUB_HMAC_SHA1 then 160
      else if alg \<in> set [AMVP_SUB_HMAC_SHA2_224, AMVP_SUB_HMAC_SHA2_512_224, AMVP_SUB_HMAC_SHA3_224] then 224
      else if alg \<in> set [AMVP_SUB_HMAC_SHA2_256, AMVP_SUB_HMAC_SHA2_512_256, AMVP_SUB_HMAC_SHA3_256] then 256
      else if alg \<in> set [AMVP_SUB_HMAC_SHA2_384, AMVP_SUB_HMAC_SHA3_384] then 384
      else if alg \<in> set [AMVP_SUB_HMAC_SHA2_512, AMVP_SUB_HMAC_SHA3_512] then 512
      else 0)"

definition amvp_validate_hmac_parm_value :: "AMVP_CIPHER \<Rightarrow> AMVP_HMAC_PARM \<Rightarrow> int \<Rightarrow> AMVP_RESULT" where
  "amvp_validate_hmac_parm_value cipher parm v =
     (case parm of
        AMVP_HMAC_KEYLEN \<Rightarrow>
          if v \<ge> AMVP_HMAC_KEY_BIT_MIN \<and> v \<le> AMVP_HMAC_KEY_BIT_MAX \<and> c_rem v 8 = 0
          then AMVP_SUCCESS else AMVP_INVALID_ARG
      | AMVP_HMAC_MACLEN \<Rightarrow>
          let alg = amvp_get_hmac_alg cipher in
          if alg = 0 then AMVP_INVALID_ARG
          else if v \<ge> AMVP_HMAC_MAC_BIT_MIN \<and> v \<le> hmac_max_mac alg \<and> c_rem v 8 = 0
          then AMVP_SUCCESS else AMVP_INVALID_ARG
      | _ \<Rightarrow> AMVP_INVALID_ARG)"

definition amvp_cap_hmac_enable ::
  "alloc \<Rightarrow> 'z AMVP_CTX_scheme option \<Rightarrow> AMVP_CIPHER \<Rightarrow> callback \<Rightarrow> 'z AMVP_CTX_scheme option outcome" where
  "amvp_cap_hmac_enable ok octx cipher crypto_handler =
     with_ctx octx (\<lambda>ctx.
       if crypto_handler = None then Ret AMVP_INVALID_ARG ctx
       else let alg = amvp_get_hmac_alg cipher in
         if alg = 0 then Ret AMVP_INVALID_ARG ctx
         else if alg \<notin> set hmac_algs then Ret AMVP_INVALID_ARG ctx
         else amvp_cap_list_append ok AMVP_HMAC_TYPE cipher crypto_handler ctx)"

definition amvp_cap_hmac_set_domain ::
  "'z AMVP_CTX_scheme option \<Rightarrow> AMVP_CIPHER \<Rightarrow> AMVP_HMAC_PARM \<Rightarrow> int \<Rightarrow> int \<Rightarrow> int \<Rightarrow> 'z AMVP_CTX_scheme option outcome" where
  "amvp_cap_hmac_set_domain octx cipher parm lo hi increment =
     with_entry octx cipher (\<lambda>cap ctx.
       case parm of
         AMVP_HMAC_KEYLEN \<Rightarrow>
           if lo < AMVP_HMAC_KEY_BIT_MIN \<or> hi > AMVP_HMAC_KEY_BIT_MAX then Ret AMVP_INVALID_ARG ctx
           else if c_rem increment 8 \<noteq> 0 then Ret AMVP_INVALID_ARG ctx
           else store hmac_of Hmac_cap cipher cap
                  (\<lambda>x. x\<lparr>hmac_key_len := set_domain lo hi increment (hmac_key_len x)\<rparr>) ctx
       | AMVP_HMAC_MACLEN \<Rightarrow>
           if lo < AMVP_HMAC_MAC_BIT_MIN \<or> hi > AMVP_HMAC_MAC_BIT_MAX then Ret AMVP_INVALID_ARG ctx
           else if c_rem increment 8 \<noteq> 0 then Ret AMVP_INVALID_ARG ctx
           else store hmac_of Hmac_cap cipher cap
                  (\<lambda>x. x\<lparr>hmac_mac_len := set_domain lo hi increment (hmac_mac_len x)\<rparr>) ctx
       | _ \<Rightarrow> Ret AMVP_INVALID_ARG ctx)"

definition amvp_cap_hmac_set_parm ::
  "alloc \<Rightarrow> 'z AMVP_CTX_scheme option \<Rightarrow> AMVP_CIPHER \<Rightarrow> AMVP_HMAC_PARM \<Rightarrow> int \<Rightarrow> 'z AMVP_CTX_scheme option outcome" where
  "amvp_cap_hmac_set_parm ok octx cipher parm v =
     with_entry octx cipher (\<lambda>cap ctx.
       if amvp_validate_hmac_parm_value cipher parm v \<noteq> AMVP_SUCCESS then Ret AMVP_INVALID_ARG ctx
       else (case parm of
           AMVP_HMAC_KEYLEN \<Rightarrow>
             store_list ok hmac_of Hmac_cap cipher cap (\<lambda>x. dom_values (hmac_key_len x))
               (\<lambda>g x. x\<lparr>hmac_key_len := dom_values_update g (hmac_key_len x)\<rparr>) v ctx
         | AMVP_HMAC_MACLEN \<Rightarrow>
             store_list ok hmac_of Hmac_cap cipher cap (\<lambda>x. dom_values (hmac_mac_len x))
               (\<lambda>g x. x\<lparr>hmac_mac_len := dom_values_update g (hmac_mac_len x)\<rparr>) v ctx
         | _ \<Rightarrow> Ret AMVP_INVALID_ARG ctx))"

section \<open>CMAC\<close>

definition amvp_validate_cmac_parm_value :: "AMVP_CMAC_PARM \<Rightarrow> int \<Rightarrow> AMVP_RESULT" where
  "amvp_validate_cmac_parm_value parm v =
     (case parm of
        AMVP_CMAC_MACLEN \<Rightarrow>
          if v \<ge> AMVP_CMAC_MACLEN_MIN \<and> v \<le> AMVP_CMAC_MACLEN_MAX \<and> c_rem v 8 = 0
          then AMVP_SUCCESS else AMVP_INVALID_ARG
      | AMVP_CMAC_MSGLEN \<Rightarrow>
          if v \<ge> AMVP_CMAC_MSGLEN_MIN \<and> v \<le> AMVP_CMAC_MSGLEN_MAX \<and> c_rem v 8 = 0
          then AMVP_SUCCESS else AMVP_INVALID_ARG
      | AMVP_CMAC_KEYLEN \<Rightarrow>
          if v = 128 \<or> v = 192 \<or> v = 256 then AMVP_SUCCESS else AMVP_INVALID_ARG
      | AMVP_CMAC_KEYING_OPTION \<Rightarrow>
          if v = 1 \<or> v = 2 then AMVP_SUCCESS else AMVP_INVALID_ARG
      | AMVP_CMAC_DIRECTION_GEN \<Rightarrow> is_valid_tf_param v
      | AMVP_CMAC_DIRECTION_VER \<Rightarrow> is_valid_tf_param v)"

definition amvp_cap_cmac_enable ::
  "alloc \<Rightarrow> 'z AMVP_CTX_scheme option \<Rightarrow> AMVP_CIPHER \<Rightarrow> callback \<Rightarrow> 'z AMVP_CTX_scheme option outcome" where
  "amvp_cap_cmac_enable ok octx cipher crypto_handler =
     with_ctx octx (\<lambda>ctx.
       if crypto_handler = None then Ret AMVP_INVALID_ARG ctx
       else let alg = amvp_get_cmac_alg cipher in
         if alg = 0 then Ret AMVP_INVALID_ARG ctx
         else if alg \<notin> set [AMVP_SUB_CMAC_AES, AMVP_SUB_CMAC_TDES] then Ret AMVP_INVALID_ARG ctx
         else amvp_cap_list_append ok AMVP_CMAC_TYPE cipher crypto_handler ctx)"

definition amvp_cap_cmac_set_domain ::
  "'z AMVP_CTX_scheme option \<Rightarrow> AMVP_CIPHER \<Rightarrow> AMVP_CMAC_PARM \<Rightarrow> int \<Rightarrow> int \<Rightarrow> int \<Rightarrow> 'z AMVP_CTX_scheme option outcome" where
  "amvp_cap_cmac_set_domain octx cipher parm lo hi increment =
     with_entry octx cipher (\<lambda>cap ctx.
       case parm of
         AMVP_CMAC_MSGLEN \<Rightarrow>
           if lo < AMVP_CMAC_MSGLEN_MIN \<or> hi > AMVP_CMAC_MSGLEN_MAX then Ret AMVP_INVALID_ARG ctx
           else if c_rem increment 8 \<noteq> 0 then Ret AMVP_INVALID_ARG ctx
           else store cmac_of Cmac_cap cipher cap
                  (\<lambda>x. x\<lparr>cmac_msg_len := set_domain lo hi increment (cmac_msg_len x)\<rparr>) ctx
       | AMVP_CMAC_MACLEN \<Rightarrow>
           if lo < AMVP_CMAC_MACLEN_MIN \<or> hi > AMVP_CMAC_MACLEN_MAX then Ret AMVP_INVALID_ARG ctx
           else if c_rem increment 8 \<noteq> 0 then Ret AMVP_INVALID_ARG ctx
           else store cmac_of Cmac_cap cipher cap
                  (\<lambda>x. x\<lparr>cmac_mac_len := set_domain lo hi increment (cmac_mac_len x)\<rparr>) ctx
       | _ \<Rightarrow> Ret AMVP_INVALID_ARG ctx)"

text \<open>The lists of key lengths and keying options grow without a look at the result of the append.\<close>

definition amvp_cap_cmac_set_parm ::
  "alloc \<Rightarrow> 'z AMVP_CTX_scheme option \<Rightarrow> AMVP_CIPHER \<Rightarrow> AMVP_CMAC_PARM \<Rightarrow> int \<Rightarrow> 'z AMVP_CTX_scheme option outcome" where
  "amvp_cap_cmac_set_parm ok octx cipher parm v =
     with_entry octx cipher (\<lambda>cap ctx.
       if amvp_validate_cmac_parm_value parm v \<noteq> AMVP_SUCCESS then Ret AMVP_INVALID_ARG ctx
       else (case parm of
           AMVP_CMAC_MSGLEN \<Rightarrow>
             store_list ok cmac_of Cmac_cap cipher cap (\<lambda>x. dom_values (cmac_msg_len x))
               (\<lambda>g x. x\<lparr>cmac_msg_len := dom_values_update g (cmac_msg_len x)\<rparr>) v ctx
         | AMVP_CMAC_MACLEN \<Rightarrow>
             store_list ok cmac_of Cmac_cap cipher cap (\<lambda>x. dom_values (cmac_mac_len x))
               (\<lambda>g x. x\<lparr>cmac_mac_len := dom_values_update g (cmac_mac_len x)\<rparr>) v ctx
         | AMVP_CMAC_DIRECTION_GEN \<Rightarrow>
             store cmac_of Cmac_cap cipher cap (\<lambda>x. x\<lparr>cmac_direction_gen := v\<rparr>) ctx
         | AMVP_CMAC_DIRECTION_VER \<Rightarrow>
             store cmac_of Cmac_cap cipher cap (\<lambda>x. x\<lparr>cmac_direction_ver := v\<rparr>) ctx
         | AMVP_CMAC_KEYLEN \<Rightarrow>
             store cmac_of Cmac_cap cipher cap
               (\<lambda>x. x\<lparr>cmac_key_len := the (snd (amvp_append_sl_list ok (Some (cmac_key_len x)) v))\<rparr>) ctx
         | AMVP_CMAC_KEYING_OPTION \<Rightarrow>
             if cipher = AMVP_CMAC_TDES then
               store cmac_of Cmac_cap cipher cap
                 (\<lambda>x. x\<lparr>cmac_keying_option := the (snd (amvp_append_sl_list ok (Some (cmac_keying_option x)) v))\<rparr>) ctx
             else Ret AMVP_INVALID_ARG ctx))"

section \<open>KMAC\<close>

definition amvp_cap_kmac_enable ::
  "alloc \<Rightarrow> 'z AMVP_CTX_scheme option \<Rightarrow> AMVP_CIPHER \<Rightarrow> callback \<Rightarrow> 'z AMVP_CTX_scheme option outcome" where
  "amvp_cap_kmac_enable ok octx cipher crypto_handler =
     with_ctx octx (\<lambda>ctx.
       if crypto_handler = None then Ret AMVP_INVALID_ARG ctx
       else let alg = amvp_get_kmac_alg cipher in
         if alg = 0 then Ret AMVP_INVALID_ARG ctx
         else if alg \<notin> set [AMVP_SUB_KMAC_128, AMVP_SUB_KMAC_256] then Ret AMVP_INVALID_ARG ctx
         else amvp_cap_list_append ok AMVP_KMAC_TYPE cipher crypto_handler ctx)"

definition amvp_cap_kmac_set_parm ::
  "'z AMVP_CTX_scheme option \<Rightarrow> AMVP_CIPHER \<Rightarrow> AMVP_KMAC_PARM \<Rightarrow> int \<Rightarrow> 'z AMVP_CTX_scheme option outcome" where
  "amvp_cap_kmac_set_parm octx cipher parm v =
     with_entry octx cipher (\<lambda>cap ctx.
       case parm of
         AMVP_KMAC_XOF_SUPPORT \<Rightarrow>
           if v = 0 \<or> v = 1 \<or> v = 2
           then store kmac_of Kmac_cap cipher cap (\<lambda>x. x\<lparr>kmac_xof := v\<rparr>) ctx
           else Ret AMVP_INVALID_ARG ctx
       | AMVP_KMAC_HEX_CUSTOM_SUPPORT \<Rightarrow>
           if is_valid_tf_param v = AMVP_SUCCESS
           then store kmac_of Kmac_cap cipher cap (\<lambda>x. x\<lparr>kmac_hex_customization := v\<rparr>) ctx
           else Ret AMVP_INVALID_ARG ctx
       | _ \<Rightarrow> Ret AMVP_INVALID_ARG ctx)"

definition amvp_cap_kmac_set_domain ::
  "'z AMVP_CTX_scheme option \<Rightarrow> AMVP_CIPHER \<Rightarrow> AMVP_KMAC_PARM \<Rightarrow> int \<Rightarrow> int \<Rightarrow> int \<Rightarrow> 'z AMVP_CTX_scheme option outcome" where
  "amvp_cap_kmac_set_domain octx cipher parm lo hi increment =
     with_entry octx cipher (\<lambda>cap ctx.
       case validate_domain_range lo hi increment of
         Inl u \<Rightarrow> UB u
       | Inr rv \<Rightarrow>
         if rv \<noteq> AMVP_SUCCESS then Ret AMVP_INVALID_ARG ctx
         else (case parm of
             AMVP_KMAC_MACLEN \<Rightarrow>
               if hi > 65536 \<or> lo < 32 \<or> increment \<noteq> 8 then Ret AMVP_INVALID_ARG ctx
               else store kmac_of Kmac_cap cipher cap
                      (\<lambda>x. x\<lparr>kmac_mac_len := set_domain lo hi increment (kmac_mac_len x)\<rparr>) ctx
           | AMVP_KMAC_MSGLEN \<Rightarrow>
               if hi > 65536 then Ret AMVP_INVALID_ARG ctx
               else store kmac_of Kmac_cap cipher cap
                      (\<lambda>x. x\<lparr>kmac_msg_len := set_domain lo hi increment (kmac_msg_len x)\<rparr>) ctx
           | AMVP_KMAC_KEYLEN \<Rightarrow>
               if hi > 524288 \<or> lo < 128 \<or> increment \<noteq> 8 then Ret AMVP_INVALID_ARG ctx
               else store kmac_of Kmac_cap cipher cap
                      (\<lambda>x. x\<lparr>kmac_key_len := set_domain lo hi increment (kmac_key_len x)\<rparr>) ctx
           | _ \<Rightarrow> Ret AMVP_INVALID_ARG ctx))"

section \<open>What the settings satisfy\<close>

definition mac_domain_ok :: "int \<Rightarrow> int \<Rightarrow> (int \<Rightarrow> bool) \<Rightarrow> AMVP_JSON_DOMAIN_OBJ \<Rightarrow> bool" where
  "mac_domain_ok low high val d \<longleftrightarrow>
     (dom_min d = 0 \<and> dom_max d = 0 \<and> dom_increment d = 0 \<or>
      low \<le> dom_min d \<and> dom_max d \<le> high \<and> 8 dvd dom_increment d) \<and>
     list_all val (dom_values d)"

definition hmac_ok :: "AMVP_CIPHER \<Rightarrow> AMVP_HMAC_CAP \<Rightarrow> bool" where
  "hmac_ok c x \<longleftrightarrow>
     mac_domain_ok 8 524288 (\<lambda>v. amvp_validate_hmac_parm_value c AMVP_HMAC_KEYLEN v = AMVP_SUCCESS) (hmac_key_len x) \<and>
     mac_domain_ok 32 512 (\<lambda>v. amvp_validate_hmac_parm_value c AMVP_HMAC_MACLEN v = AMVP_SUCCESS) (hmac_mac_len x)"

definition cmac_ok :: "AMVP_CIPHER \<Rightarrow> AMVP_CMAC_CAP \<Rightarrow> bool" where
  "cmac_ok c x \<longleftrightarrow>
     mac_domain_ok 32 128 (\<lambda>v. amvp_validate_cmac_parm_value AMVP_CMAC_MACLEN v = AMVP_SUCCESS) (cmac_mac_len x) \<and>
     mac_domain_ok 0 524288 (\<lambda>v. amvp_validate_cmac_parm_value AMVP_CMAC_MSGLEN v = AMVP_SUCCESS) (cmac_msg_len x) \<and>
     cmac_direction_gen x \<in> {0..1} \<and> cmac_direction_ver x \<in> {0..1} \<and>
     list_all (\<lambda>v. v = 128 \<or> v = 192 \<or> v = 256) (cmac_key_len x) \<and>
     list_all (\<lambda>v. c = AMVP_CMAC_TDES \<and> (v = 1 \<or> v = 2)) (cmac_keying_option x)"

definition kmac_domain_ok :: "int \<Rightarrow> int \<Rightarrow> AMVP_JSON_DOMAIN_OBJ \<Rightarrow> bool" where
  "kmac_domain_ok low high d \<longleftrightarrow>
     dom_min d = 0 \<and> dom_max d = 0 \<and> dom_increment d = 0 \<or>
     low \<le> dom_min d \<and> dom_min d \<le> dom_max d \<and> dom_max d \<le> high \<and> 0 < dom_increment d \<and>
     dom_increment d dvd (dom_max d - dom_min d)"

definition kmac_ok :: "AMVP_CIPHER \<Rightarrow> AMVP_KMAC_CAP \<Rightarrow> bool" where
  "kmac_ok c x \<longleftrightarrow>
     kmac_domain_ok 32 65536 (kmac_mac_len x) \<and> kmac_domain_ok 0 65536 (kmac_msg_len x) \<and>
     kmac_domain_ok 128 524288 (kmac_key_len x) \<and> kmac_xof x \<in> {0..2} \<and> kmac_hex_customization x \<in> {0..1}"

lemma mac_ok_new:
  "hmac_ok c zero_hmac_cap" "cmac_ok c zero_cmac_cap" "kmac_ok c zero_kmac_cap"
  by (simp_all add: hmac_ok_def cmac_ok_def kmac_ok_def mac_domain_ok_def kmac_domain_ok_def
      zero_hmac_cap_def zero_cmac_cap_def zero_kmac_cap_def zero_domain_def)

lemma mac_domain_ok_set:
  "mac_domain_ok low high val d \<Longrightarrow> low \<le> lo \<Longrightarrow> hi \<le> high \<Longrightarrow> c_rem inc 8 = 0 \<Longrightarrow>
   mac_domain_ok low high val (set_domain lo hi inc d)"
  by (simp add: mac_domain_ok_def set_domain_def c_rem_eq_0_iff)

lemma mac_domain_ok_append:
  "mac_domain_ok low high val d \<Longrightarrow> val v \<Longrightarrow>
   mac_domain_ok low high val (dom_values_update (\<lambda>_. dom_values d @ [v]) d)"
  by (simp add: mac_domain_ok_def)

lemma validate_domain_range_ok:
  "validate_domain_range lo hi inc = Inr AMVP_SUCCESS \<Longrightarrow> 0 \<le> lo \<and> lo \<le> hi \<and> 0 < inc \<and> inc dvd (hi - lo)"
  by (auto simp: validate_domain_range_def c_rem_eq_0_iff split: if_splits)

lemma kmac_domain_ok_set:
  "validate_domain_range lo hi inc = Inr AMVP_SUCCESS \<Longrightarrow> low \<le> lo \<Longrightarrow> hi \<le> high \<Longrightarrow>
   kmac_domain_ok low high (set_domain lo hi inc d)"
  by (drule validate_domain_range_ok) (simp add: kmac_domain_ok_def set_domain_def)

section \<open>The operations keep it\<close>

lemma hmac_set_domain_step:
  assumes "amvp_cap_hmac_set_domain (Some s) c p lo hi inc = Ret rv os'"
  shows "\<exists>s'. os' = Some s' \<and> (rv = AMVP_SUCCESS \<or> s' = s) \<and> family_step Hmac_cap hmac_ok c s s'"
  using assms unfolding amvp_cap_hmac_set_domain_def with_entry_Ret
  by (cases p)
    (auto simp del: locate_Some split: if_splits dest!: hmac.store_arm [where ok = hmac_ok]
      simp: hmac_ok_def mac_domain_ok_set)

lemma hmac_set_parm_step:
  assumes "amvp_cap_hmac_set_parm ok (Some s) c p v = Ret rv os'"
  shows "\<exists>s'. os' = Some s' \<and> (rv = AMVP_SUCCESS \<or> s' = s) \<and> family_step Hmac_cap hmac_ok c s s'"
  using assms unfolding amvp_cap_hmac_set_parm_def with_entry_Ret
  by (cases p)
    (auto simp del: locate_Some split: if_splits dest!: hmac.store_list_arm [where fok = hmac_ok]
      simp: hmac_ok_def mac_domain_ok_append)

lemma cmac_set_domain_step:
  assumes "amvp_cap_cmac_set_domain (Some s) c p lo hi inc = Ret rv os'"
  shows "\<exists>s'. os' = Some s' \<and> (rv = AMVP_SUCCESS \<or> s' = s) \<and> family_step Cmac_cap cmac_ok c s s'"
  using assms unfolding amvp_cap_cmac_set_domain_def with_entry_Ret
  by (cases p)
    (auto simp del: locate_Some split: if_splits dest!: cmac.store_arm [where ok = cmac_ok]
      simp: cmac_ok_def mac_domain_ok_set)

lemma flag_ranges:
  "v = 0 \<or> v = 1 \<or> v = 2 \<longleftrightarrow> v \<in> {0..2}" "is_valid_tf_param v = AMVP_SUCCESS \<longleftrightarrow> v \<in> {0..1}" for v :: int
  by (auto simp: is_valid_tf_param_def)

lemma kmac_set_parm_step:
  assumes "amvp_cap_kmac_set_parm (Some s) c p v = Ret rv os'"
  shows "\<exists>s'. os' = Some s' \<and> (rv = AMVP_SUCCESS \<or> s' = s) \<and> family_step Kmac_cap kmac_ok c s s'"
  using assms unfolding amvp_cap_kmac_set_parm_def with_entry_Ret flag_ranges
  by (cases p)
    (auto simp del: locate_Some atLeastAtMost_iff split: if_splits dest!: kmac.store_arm [where ok = kmac_ok]
      simp: kmac_ok_def)

lemma cmac_keylen_append:
  "cmac_ok c x \<Longrightarrow> v = 128 \<or> v = 192 \<or> v = 256 \<Longrightarrow>
   cmac_ok c (x\<lparr>cmac_key_len := the (snd (amvp_append_sl_list ok (Some (cmac_key_len x)) v))\<rparr>)"
  by (simp add: cmac_ok_def)

lemma cmac_keying_append:
  "cmac_ok AMVP_CMAC_TDES x \<Longrightarrow> v = 1 \<or> v = 2 \<Longrightarrow>
   cmac_ok AMVP_CMAC_TDES (x\<lparr>cmac_keying_option := the (snd (amvp_append_sl_list ok (Some (cmac_keying_option x)) v))\<rparr>)"
  by (simp add: cmac_ok_def)

lemma cmac_set_parm_step:
  assumes "amvp_cap_cmac_set_parm ok (Some s) c p v = Ret rv os'"
  shows "\<exists>s'. os' = Some s' \<and> (rv = AMVP_SUCCESS \<or> s' = s) \<and> family_step Cmac_cap cmac_ok c s s'"
proof (cases "amvp_locate_cap_entry (Some s) c = None \<or> amvp_validate_cmac_parm_value p v \<noteq> AMVP_SUCCESS")
  case True
  with assms show ?thesis unfolding amvp_cap_cmac_set_parm_def with_entry_Ret by (auto simp del: locate_Some)
next
  case False
  then have v: "amvp_validate_cmac_parm_value p v = AMVP_SUCCESS" by simp
  note vd = v [unfolded amvp_validate_cmac_parm_value_def]
  obtain e s' where e: "amvp_locate_cap_entry (Some s) c = Some e" and s': "os' = Some s'" and
    b: "(case p of
           AMVP_CMAC_MSGLEN \<Rightarrow> store_list ok cmac_of Cmac_cap c e (\<lambda>x. dom_values (cmac_msg_len x))
             (\<lambda>g x. x\<lparr>cmac_msg_len := dom_values_update g (cmac_msg_len x)\<rparr>) v s
         | AMVP_CMAC_MACLEN \<Rightarrow> store_list ok cmac_of Cmac_cap c e (\<lambda>x. dom_values (cmac_mac_len x))
             (\<lambda>g x. x\<lparr>cmac_mac_len := dom_values_update g (cmac_mac_len x)\<rparr>) v s
         | AMVP_CMAC_DIRECTION_GEN \<Rightarrow> store cmac_of Cmac_cap c e (\<lambda>x. x\<lparr>cmac_direction_gen := v\<rparr>) s
         | AMVP_CMAC_DIRECTION_VER \<Rightarrow> store cmac_of Cmac_cap c e (\<lambda>x. x\<lparr>cmac_direction_ver := v\<rparr>) s
         | AMVP_CMAC_KEYLEN \<Rightarrow> store cmac_of Cmac_cap c e
             (\<lambda>x. x\<lparr>cmac_key_len := the (snd (amvp_append_sl_list ok (Some (cmac_key_len x)) v))\<rparr>) s
         | AMVP_CMAC_KEYING_OPTION \<Rightarrow>
             if c = AMVP_CMAC_TDES then store cmac_of Cmac_cap c e
               (\<lambda>x. x\<lparr>cmac_keying_option := the (snd (amvp_append_sl_list ok (Some (cmac_keying_option x)) v))\<rparr>) s
             else Ret AMVP_INVALID_ARG s) = Ret rv s'"
    using assms False unfolding amvp_cap_cmac_set_parm_def with_entry_Ret by (auto simp del: locate_Some)
  have "(rv = AMVP_SUCCESS \<or> s' = s) \<and> family_step Cmac_cap cmac_ok c s s'"
  proof (cases p)
    case AMVP_CMAC_MSGLEN
    show ?thesis
      by (rule cmac.store_list_arm [OF b [unfolded AMVP_CMAC_MSGLEN AMVP_CMAC_PARM.case] e])
        (use v AMVP_CMAC_MSGLEN in \<open>simp add: cmac_ok_def mac_domain_ok_append\<close>)
  next
    case AMVP_CMAC_MACLEN
    show ?thesis
      by (rule cmac.store_list_arm [OF b [unfolded AMVP_CMAC_MACLEN AMVP_CMAC_PARM.case] e])
        (use v AMVP_CMAC_MACLEN in \<open>simp add: cmac_ok_def mac_domain_ok_append\<close>)
  next
    case AMVP_CMAC_DIRECTION_GEN
    show ?thesis
      by (rule cmac.store_arm [OF b [unfolded AMVP_CMAC_DIRECTION_GEN AMVP_CMAC_PARM.case] e])
        (use vd AMVP_CMAC_DIRECTION_GEN in \<open>simp add: cmac_ok_def flag_ranges\<close>)
  next
    case AMVP_CMAC_DIRECTION_VER
    show ?thesis
      by (rule cmac.store_arm [OF b [unfolded AMVP_CMAC_DIRECTION_VER AMVP_CMAC_PARM.case] e])
        (use vd AMVP_CMAC_DIRECTION_VER in \<open>simp add: cmac_ok_def flag_ranges\<close>)
  next
    case AMVP_CMAC_KEYLEN
    show ?thesis
      by (rule cmac.store_arm [OF b [unfolded AMVP_CMAC_KEYLEN AMVP_CMAC_PARM.case] e], rule cmac_keylen_append)
        (use vd AMVP_CMAC_KEYLEN in \<open>simp_all split: if_splits\<close>)
  next
    case AMVP_CMAC_KEYING_OPTION
    with vd have "v = 1 \<or> v = 2" by (simp split: if_splits)
    with b AMVP_CMAC_KEYING_OPTION e show ?thesis
      by (auto split: if_splits simp del: locate_Some amvp_append_sl_list_Some
          dest!: cmac.store_arm [where ok = cmac_ok] intro: cmac_keying_append)
  qed
  then show ?thesis using s' by simp
qed

lemma kmac_ok_set:
  "kmac_ok c x \<Longrightarrow> kmac_domain_ok 32 65536 d \<Longrightarrow> kmac_ok c (x\<lparr>kmac_mac_len := d\<rparr>)"
  "kmac_ok c x \<Longrightarrow> kmac_domain_ok 0 65536 d \<Longrightarrow> kmac_ok c (x\<lparr>kmac_msg_len := d\<rparr>)"
  "kmac_ok c x \<Longrightarrow> kmac_domain_ok 128 524288 d \<Longrightarrow> kmac_ok c (x\<lparr>kmac_key_len := d\<rparr>)"
  by (simp_all add: kmac_ok_def)

lemma kmac_set_domain_step:
  assumes "amvp_cap_kmac_set_domain (Some s) c p lo hi inc = Ret rv os'"
  shows "\<exists>s'. os' = Some s' \<and> (rv = AMVP_SUCCESS \<or> s' = s) \<and> family_step Kmac_cap kmac_ok c s s'"
proof (cases "validate_domain_range lo hi inc = Inr AMVP_SUCCESS")
  case True
  have arm: "(rv = AMVP_SUCCESS \<or> s' = s) \<and> family_step Kmac_cap kmac_ok c s s'"
    if "(if b then Ret AMVP_INVALID_ARG s else store kmac_of Kmac_cap c e f s) = Ret rv s'"
      and "amvp_locate_cap_entry (Some s) c = Some e" and "\<And>x. \<not> b \<Longrightarrow> kmac_ok c x \<Longrightarrow> kmac_ok c (f x)" for b e f s'
    using that kmac.store_arm [where ok = kmac_ok, of c e f s rv s'] by (auto split: if_splits simp del: locate_Some)
  have "0 \<le> lo" using validate_domain_range_ok [OF True] by simp
  with assms True show ?thesis
    unfolding amvp_cap_kmac_set_domain_def with_entry_Ret
    by (cases p) (auto simp del: locate_Some split del: if_split dest!: arm
        simp: kmac_ok_set kmac_domain_ok_set)
next
  case False
  with assms show ?thesis
    unfolding amvp_cap_kmac_set_domain_def with_entry_Ret
    by (cases "validate_domain_range lo hi inc") (auto simp del: locate_Some)
qed

end
