(* ===== verification/Cap_Drbg.thy ===== *)
theory Cap_Drbg
  imports Cap_Registry Lookup_Tables
begin

text \<open>
  The capabilities of the random bit generators (\<^verbatim>\<open>src/amvp_capabilities.c\<close>) and the lists of
  modes and groups inside them (\<^verbatim>\<open>src/amvp_util.c\<close>). Both setters create the mode and the
  group they name before they check the value, and keep them when the check fails.
\<close>

datatype AMVP_DRBG_PARM =
    AMVP_DRBG_DER_FUNC_ENABLED | AMVP_DRBG_PRED_RESIST_ENABLED | AMVP_DRBG_RESEED_ENABLED
  | AMVP_DRBG_ENTROPY_LEN | AMVP_DRBG_NONCE_LEN | AMVP_DRBG_PERSO_LEN | AMVP_DRBG_ADD_IN_LEN
  | AMVP_DRBG_RET_BITS_LEN | AMVP_DRBG_PRE_REQ_VALS

abbreviation (input) AMVP_DRB_BIT_MAX :: int where "AMVP_DRB_BIT_MAX \<equiv> 4096"
abbreviation (input) AMVP_DRBG_ENTPY_IN_BIT_MIN :: int where "AMVP_DRBG_ENTPY_IN_BIT_MIN \<equiv> 80"
abbreviation (input) AMVP_DRBG_ENTPY_IN_BIT_MAX :: int where "AMVP_DRBG_ENTPY_IN_BIT_MAX \<equiv> 1048576"
abbreviation (input) AMVP_DRBG_NONCE_BIT_MIN :: int where "AMVP_DRBG_NONCE_BIT_MIN \<equiv> 40"
abbreviation (input) AMVP_DRBG_NONCE_BIT_MAX :: int where "AMVP_DRBG_NONCE_BIT_MAX \<equiv> 512"
abbreviation (input) AMVP_DRBG_PER_SO_BIT_MAX :: int where "AMVP_DRBG_PER_SO_BIT_MAX \<equiv> 1048576"
abbreviation (input) AMVP_DRBG_ADDI_IN_BIT_MAX :: int where "AMVP_DRBG_ADDI_IN_BIT_MAX \<equiv> 1048576"

definition drbg_of :: "cap_union \<Rightarrow> AMVP_DRBG_CAP option" where
  "drbg_of u = (case u of Drbg_cap x \<Rightarrow> Some x | _ \<Rightarrow> None)"

interpretation drbg: union_member drbg_of Drbg_cap
  by unfold_locales (simp add: drbg_of_def split: cap_union.splits)

section \<open>Modes and groups\<close>

definition amvp_locate_drbg_mode_entry :: "AMVP_DRBG_CAP \<Rightarrow> int \<Rightarrow> AMVP_DRBG_MODE_ENTRY option" where
  "amvp_locate_drbg_mode_entry x mode = find (\<lambda>m. drbg_mode m = mode) (drbg_cap_mode x)"

definition add_mode :: "AMVP_DRBG_MODE_ENTRY \<Rightarrow> AMVP_DRBG_CAP \<Rightarrow> AMVP_DRBG_CAP" where
  "add_mode m x = x\<lparr>drbg_cap_mode := drbg_cap_mode x @ [m]\<rparr>"

definition upd_mode ::
  "int \<Rightarrow> (AMVP_DRBG_MODE_ENTRY \<Rightarrow> AMVP_DRBG_MODE_ENTRY) \<Rightarrow> AMVP_DRBG_CAP \<Rightarrow> AMVP_DRBG_CAP" where
  "upd_mode mode f x = x\<lparr>drbg_cap_mode := update_first (\<lambda>m. drbg_mode m = mode) f (drbg_cap_mode x)\<rparr>"

definition amvp_create_drbg_mode_entry :: "alloc \<Rightarrow> AMVP_DRBG_CAP \<Rightarrow> int \<Rightarrow> AMVP_DRBG_CAP option" where
  "amvp_create_drbg_mode_entry ok x mode =
     (if amvp_locate_drbg_mode_entry x mode \<noteq> None then None
      else if \<not> ok 0 then None
      else Some (add_mode \<lparr>drbg_mode = mode, drbg_groups = []\<rparr> x))"

definition locate_group :: "AMVP_DRBG_MODE_ENTRY \<Rightarrow> int \<Rightarrow> (int \<times> AMVP_DRBG_CAP_GROUP) option" where
  "locate_group m grp = find (\<lambda>g. fst g = grp) (drbg_groups m)"

definition amvp_locate_drbg_group_entry :: "AMVP_DRBG_MODE_ENTRY \<Rightarrow> int \<Rightarrow> AMVP_DRBG_CAP_GROUP option" where
  "amvp_locate_drbg_group_entry m grp = map_option snd (locate_group m grp)"

definition add_group :: "int \<times> AMVP_DRBG_CAP_GROUP \<Rightarrow> AMVP_DRBG_MODE_ENTRY \<Rightarrow> AMVP_DRBG_MODE_ENTRY" where
  "add_group g m = m\<lparr>drbg_groups := drbg_groups m @ [g]\<rparr>"

definition upd_group ::
  "int \<Rightarrow> (int \<times> AMVP_DRBG_CAP_GROUP \<Rightarrow> int \<times> AMVP_DRBG_CAP_GROUP) \<Rightarrow> AMVP_DRBG_MODE_ENTRY \<Rightarrow> AMVP_DRBG_MODE_ENTRY" where
  "upd_group grp f m = m\<lparr>drbg_groups := update_first (\<lambda>g. fst g = grp) f (drbg_groups m)\<rparr>"

definition amvp_create_drbg_group :: "alloc \<Rightarrow> AMVP_DRBG_MODE_ENTRY \<Rightarrow> int \<Rightarrow> AMVP_DRBG_MODE_ENTRY option" where
  "amvp_create_drbg_group ok m grp =
     (if amvp_locate_drbg_group_entry m grp \<noteq> None then None
      else if \<not> ok 0 then None
      else if \<not> ok 1 then None
      else Some (add_group (grp, zero_drbg_group) m))"

text \<open>
  The part both setters begin with: find or create the mode, then the group. The allocations
  for a group follow that for a mode, if there was one.
\<close>

definition drbg_prepare_group :: "alloc \<Rightarrow> AMVP_DRBG_CAP \<Rightarrow> int \<Rightarrow> int \<Rightarrow> AMVP_RESULT \<times> AMVP_DRBG_CAP" where
  "drbg_prepare_group ok x mode grp =
     (case amvp_locate_drbg_mode_entry x mode of
        None \<Rightarrow> (AMVP_MALLOC_FAIL, x)
      | Some m \<Rightarrow>
        (case amvp_locate_drbg_group_entry m grp of
           Some _ \<Rightarrow> (AMVP_SUCCESS, x)
         | None \<Rightarrow>
           (case amvp_create_drbg_group ok m grp of
              None \<Rightarrow> (AMVP_MALLOC_FAIL, x)
            | Some m' \<Rightarrow> (AMVP_SUCCESS, upd_mode mode (\<lambda>_. m') x))))"

definition drbg_prepare :: "alloc \<Rightarrow> AMVP_DRBG_CAP \<Rightarrow> int \<Rightarrow> int \<Rightarrow> AMVP_RESULT \<times> AMVP_DRBG_CAP" where
  "drbg_prepare ok x mode grp =
     (case amvp_locate_drbg_mode_entry x mode of
        Some _ \<Rightarrow> drbg_prepare_group ok x mode grp
      | None \<Rightarrow>
        (case amvp_create_drbg_mode_entry ok x mode of
           None \<Rightarrow> (AMVP_MALLOC_FAIL, x)
         | Some x' \<Rightarrow> drbg_prepare_group (\<lambda>i. ok (i + 1)) x' mode grp))"

definition set_group ::
  "int \<Rightarrow> int \<Rightarrow> (AMVP_DRBG_CAP_GROUP \<Rightarrow> AMVP_DRBG_CAP_GROUP) \<Rightarrow> AMVP_DRBG_CAP \<Rightarrow> AMVP_DRBG_CAP" where
  "set_group mode grp f x = upd_mode mode (upd_group grp (\<lambda>(i, g). (i, f g))) x"

section \<open>Operations\<close>

definition amvp_add_drbg_length_range ::
  "AMVP_DRBG_PARM \<Rightarrow> int \<Rightarrow> int \<Rightarrow> int \<Rightarrow> (AMVP_DRBG_CAP_GROUP \<Rightarrow> AMVP_DRBG_CAP_GROUP) option" where
  "amvp_add_drbg_length_range param lo step hi =
     (case param of
        AMVP_DRBG_ENTROPY_LEN \<Rightarrow>
          Some (\<lambda>g. g\<lparr>entropy_len_min := lo, entropy_len_step := step, entropy_len_max := hi\<rparr>)
      | AMVP_DRBG_NONCE_LEN \<Rightarrow>
          Some (\<lambda>g. g\<lparr>nonce_len_min := lo, nonce_len_step := step, nonce_len_max := hi\<rparr>)
      | AMVP_DRBG_PERSO_LEN \<Rightarrow>
          Some (\<lambda>g. g\<lparr>perso_len_min := lo, perso_len_step := step, perso_len_max := hi\<rparr>)
      | AMVP_DRBG_ADD_IN_LEN \<Rightarrow>
          Some (\<lambda>g. g\<lparr>additional_in_len_min := lo, additional_in_len_step := step, additional_in_len_max := hi\<rparr>)
      | _ \<Rightarrow> None)"

definition drbg_length_max :: "AMVP_DRBG_PARM \<Rightarrow> int option" where
  "drbg_length_max param =
     (case param of
        AMVP_DRBG_ENTROPY_LEN \<Rightarrow> Some AMVP_DRBG_ENTPY_IN_BIT_MAX
      | AMVP_DRBG_NONCE_LEN \<Rightarrow> Some AMVP_DRBG_NONCE_BIT_MAX
      | AMVP_DRBG_PERSO_LEN \<Rightarrow> Some AMVP_DRBG_PER_SO_BIT_MAX
      | AMVP_DRBG_ADD_IN_LEN \<Rightarrow> Some AMVP_DRBG_ADDI_IN_BIT_MAX
      | _ \<Rightarrow> None)"

text \<open>Everything after the entry was found, on the settings of the entry.\<close>

definition drbg_set_length_body ::
  "alloc \<Rightarrow> int \<Rightarrow> int \<Rightarrow> AMVP_DRBG_PARM \<Rightarrow> int \<Rightarrow> int \<Rightarrow> int \<Rightarrow> AMVP_DRBG_CAP \<Rightarrow> AMVP_RESULT \<times> AMVP_DRBG_CAP" where
  "drbg_set_length_body ok mode grp param lo step hi x =
     (let (rv, x') = drbg_prepare ok x mode grp in
      if rv \<noteq> AMVP_SUCCESS then (rv, x')
      else if (case drbg_length_max param of None \<Rightarrow> False | Some m \<Rightarrow> hi > m) then (AMVP_INVALID_ARG, x')
      else (case amvp_add_drbg_length_range param lo step hi of
              None \<Rightarrow> (AMVP_INVALID_ARG, x')
            | Some f \<Rightarrow> (AMVP_SUCCESS, set_group mode grp f x')))"

definition with_drbg ::
  "'z AMVP_CTX_scheme option \<Rightarrow> AMVP_CIPHER \<Rightarrow> (AMVP_DRBG_CAP \<Rightarrow> AMVP_RESULT \<times> AMVP_DRBG_CAP) \<Rightarrow>
   'z AMVP_CTX_scheme option outcome" where
  "with_drbg octx cipher body =
     with_ctx octx (\<lambda>ctx.
       case amvp_locate_cap_entry (Some ctx) cipher of
         None \<Rightarrow> Ret AMVP_NO_CAP ctx
       | Some cap \<Rightarrow>
         (case drbg_of (cap_data cap) of
            None \<Rightarrow> UB Bad_Union
          | Some x \<Rightarrow> (let (rv, x') = body x in Ret rv (put_cap cipher (Drbg_cap x') ctx))))"

definition amvp_cap_drbg_set_length ::
  "alloc \<Rightarrow> 'z AMVP_CTX_scheme option \<Rightarrow> AMVP_CIPHER \<Rightarrow> int \<Rightarrow> int \<Rightarrow> AMVP_DRBG_PARM \<Rightarrow> int \<Rightarrow> int \<Rightarrow> int \<Rightarrow>
   'z AMVP_CTX_scheme option outcome" where
  "amvp_cap_drbg_set_length ok octx cipher mode grp param lo step hi =
     with_drbg octx cipher (drbg_set_length_body ok mode grp param lo step hi)"

definition amvp_validate_drbg_parm_value :: "AMVP_DRBG_PARM \<Rightarrow> int \<Rightarrow> AMVP_RESULT" where
  "amvp_validate_drbg_parm_value parm v =
     (case parm of
        AMVP_DRBG_DER_FUNC_ENABLED \<Rightarrow> is_valid_tf_param v
      | AMVP_DRBG_PRED_RESIST_ENABLED \<Rightarrow> is_valid_tf_param v
      | AMVP_DRBG_RESEED_ENABLED \<Rightarrow> is_valid_tf_param v
      | AMVP_DRBG_ENTROPY_LEN \<Rightarrow>
          if v \<ge> AMVP_DRBG_ENTPY_IN_BIT_MIN \<and> v \<le> AMVP_DRBG_ENTPY_IN_BIT_MAX then AMVP_SUCCESS else AMVP_INVALID_ARG
      | AMVP_DRBG_NONCE_LEN \<Rightarrow>
          if v \<ge> AMVP_DRBG_NONCE_BIT_MIN \<and> v \<le> AMVP_DRBG_NONCE_BIT_MAX then AMVP_SUCCESS else AMVP_INVALID_ARG
      | AMVP_DRBG_PERSO_LEN \<Rightarrow> if v \<le> AMVP_DRBG_PER_SO_BIT_MAX then AMVP_SUCCESS else AMVP_INVALID_ARG
      | AMVP_DRBG_ADD_IN_LEN \<Rightarrow> if v \<le> AMVP_DRBG_ADDI_IN_BIT_MAX then AMVP_SUCCESS else AMVP_INVALID_ARG
      | AMVP_DRBG_RET_BITS_LEN \<Rightarrow> if v \<le> AMVP_DRB_BIT_MAX then AMVP_SUCCESS else AMVP_INVALID_ARG
      | AMVP_DRBG_PRE_REQ_VALS \<Rightarrow> AMVP_SUCCESS)"

definition drbg_apply_parm :: "int \<Rightarrow> int \<Rightarrow> AMVP_DRBG_PARM \<Rightarrow> int \<Rightarrow> AMVP_DRBG_CAP \<Rightarrow> AMVP_RESULT \<times> AMVP_DRBG_CAP" where
  "drbg_apply_parm mode grp param v x =
     (case param of
        AMVP_DRBG_DER_FUNC_ENABLED \<Rightarrow> (AMVP_SUCCESS, set_group mode grp (\<lambda>g. g\<lparr>der_func_enabled := v\<rparr>) x)
      | AMVP_DRBG_PRED_RESIST_ENABLED \<Rightarrow> (AMVP_SUCCESS, x\<lparr>drbg_pred_resist_enabled := v\<rparr>)
      | AMVP_DRBG_RESEED_ENABLED \<Rightarrow> (AMVP_SUCCESS, x\<lparr>drbg_reseed_implemented := v\<rparr>)
      | AMVP_DRBG_ENTROPY_LEN \<Rightarrow> (AMVP_SUCCESS, set_group mode grp (\<lambda>g. g\<lparr>entropy_input_len := v\<rparr>) x)
      | AMVP_DRBG_NONCE_LEN \<Rightarrow> (AMVP_SUCCESS, set_group mode grp (\<lambda>g. g\<lparr>nonce_len := v\<rparr>) x)
      | AMVP_DRBG_PERSO_LEN \<Rightarrow> (AMVP_SUCCESS, set_group mode grp (\<lambda>g. g\<lparr>perso_string_len := v\<rparr>) x)
      | AMVP_DRBG_ADD_IN_LEN \<Rightarrow> (AMVP_SUCCESS, set_group mode grp (\<lambda>g. g\<lparr>additional_input_len := v\<rparr>) x)
      | AMVP_DRBG_RET_BITS_LEN \<Rightarrow> (AMVP_SUCCESS, set_group mode grp (\<lambda>g. g\<lparr>returned_bits_len := v\<rparr>) x)
      | AMVP_DRBG_PRE_REQ_VALS \<Rightarrow> (AMVP_INVALID_ARG, x))"

definition drbg_set_parm_body ::
  "alloc \<Rightarrow> AMVP_CIPHER \<Rightarrow> int \<Rightarrow> int \<Rightarrow> AMVP_DRBG_PARM \<Rightarrow> int \<Rightarrow> AMVP_DRBG_CAP \<Rightarrow> AMVP_RESULT \<times> AMVP_DRBG_CAP" where
  "drbg_set_parm_body ok cipher mode grp param v x =
     (let (rv, x') = drbg_prepare ok x mode grp in
      if rv \<noteq> AMVP_SUCCESS then (rv, x')
      else if amvp_get_drbg_alg cipher = 0 then (AMVP_INVALID_ARG, x')
      else if amvp_validate_drbg_parm_value param v \<noteq> AMVP_SUCCESS then (AMVP_INVALID_ARG, x')
      else drbg_apply_parm mode grp param v x')"

definition amvp_cap_drbg_set_parm ::
  "alloc \<Rightarrow> 'z AMVP_CTX_scheme option \<Rightarrow> AMVP_CIPHER \<Rightarrow> int \<Rightarrow> int \<Rightarrow> AMVP_DRBG_PARM \<Rightarrow> int \<Rightarrow>
   'z AMVP_CTX_scheme option outcome" where
  "amvp_cap_drbg_set_parm ok octx cipher mode grp param v =
     with_drbg octx cipher (drbg_set_parm_body ok cipher mode grp param v)"

text \<open>No test of the cipher: any cipher gets an entry with the settings of a generator.\<close>

definition amvp_cap_drbg_enable ::
  "alloc \<Rightarrow> 'z AMVP_CTX_scheme option \<Rightarrow> AMVP_CIPHER \<Rightarrow> callback \<Rightarrow> 'z AMVP_CTX_scheme option outcome" where
  "amvp_cap_drbg_enable ok octx cipher crypto_handler =
     with_ctx octx (\<lambda>ctx.
       if crypto_handler = None then Ret AMVP_INVALID_ARG ctx
       else amvp_cap_list_append ok AMVP_DRBG_TYPE cipher crypto_handler ctx)"

section \<open>Modes and groups as registries\<close>

interpretation modes: registry amvp_locate_drbg_mode_entry upd_mode add_mode drbg_mode
  by (rule registryI [where entries = drbg_cap_mode])
    (simp_all add: amvp_locate_drbg_mode_entry_def upd_mode_def add_mode_def)

interpretation groups: registry locate_group upd_group add_group fst
  by (rule registryI [where entries = drbg_groups])
    (simp_all add: locate_group_def upd_group_def add_group_def)

text \<open>The settings of one group of one mode.\<close>

definition drbg_lookup :: "AMVP_DRBG_CAP \<Rightarrow> int \<Rightarrow> int \<Rightarrow> AMVP_DRBG_CAP_GROUP option" where
  "drbg_lookup x mode grp =
     (case amvp_locate_drbg_mode_entry x mode of
        None \<Rightarrow> None
      | Some m \<Rightarrow> amvp_locate_drbg_group_entry m grp)"

lemma mode_key: "amvp_locate_drbg_mode_entry x mode = Some m \<Longrightarrow> drbg_mode m = mode"
  by (rule modes.locate_key)

lemma upd_group_mode [simp]: "drbg_mode (upd_group g f m) = drbg_mode m"
  by (simp add: upd_group_def)

lemma add_group_mode [simp]: "drbg_mode (add_group g m) = drbg_mode m"
  by (simp add: add_group_def)

lemma lookup_set_group:
  "drbg_lookup (set_group mode grp f x) mode' grp' =
     (if mode' = mode \<and> grp' = grp then map_option f (drbg_lookup x mode grp) else drbg_lookup x mode' grp')"
proof -
  have g: "amvp_locate_drbg_group_entry (upd_group grp (\<lambda>(i, g). (i, f g)) m) k =
      (if k = grp then map_option f (amvp_locate_drbg_group_entry m grp) else amvp_locate_drbg_group_entry m k)" for m k
    unfolding amvp_locate_drbg_group_entry_def
    by (subst groups.locate_update) (auto dest: groups.locate_key simp: option.map_comp comp_def case_prod_beta)
  have "amvp_locate_drbg_mode_entry (set_group mode grp f x) mode' =
      (if mode' = mode then map_option (upd_group grp (\<lambda>(i, g). (i, f g))) (amvp_locate_drbg_mode_entry x mode)
       else amvp_locate_drbg_mode_entry x mode')"
    unfolding set_group_def by (rule modes.locate_update) (auto dest: mode_key)
  then show ?thesis by (auto simp: drbg_lookup_def g split: option.splits)
qed

lemma lookup_add_mode:
  "amvp_locate_drbg_mode_entry x mode = None \<Longrightarrow>
   drbg_lookup (add_mode \<lparr>drbg_mode = mode, drbg_groups = []\<rparr> x) m g = drbg_lookup x m g"
  using modes.locate_insert [of x "\<lparr>drbg_mode = mode, drbg_groups = []\<rparr>" m]
  by (auto simp: drbg_lookup_def amvp_locate_drbg_group_entry_def locate_group_def)

lemma lookup_prepare_group:
  assumes "drbg_prepare_group ok x mode grp = (rv, x')" and "amvp_locate_drbg_mode_entry x mode \<noteq> None"
  shows "rv = AMVP_SUCCESS \<and> drbg_lookup x' mode grp = Some (case drbg_lookup x mode grp of None \<Rightarrow> zero_drbg_group | Some g \<Rightarrow> g) \<and>
      (\<forall>m g. (m, g) \<noteq> (mode, grp) \<longrightarrow> drbg_lookup x' m g = drbg_lookup x m g) \<or>
    rv = AMVP_MALLOC_FAIL \<and> x' = x"
proof -
  obtain m where m: "amvp_locate_drbg_mode_entry x mode = Some m" using assms(2) by auto
  show ?thesis
  proof (cases "amvp_locate_drbg_group_entry m grp")
    case None
    then have n: "locate_group m grp = None" by (simp add: amvp_locate_drbg_group_entry_def)
    show ?thesis
    proof (cases "ok 0 \<and> ok 1")
      case True
      then have x': "rv = AMVP_SUCCESS" "x' = upd_mode mode (\<lambda>_. add_group (grp, zero_drbg_group) m) x"
        using assms m None by (auto simp: drbg_prepare_group_def amvp_create_drbg_group_def)
      have l: "amvp_locate_drbg_mode_entry x' k = (if k = mode then Some (add_group (grp, zero_drbg_group) m) else amvp_locate_drbg_mode_entry x k)" for k
        unfolding x' using m by (subst modes.locate_update) (auto dest: mode_key)
      have "locate_group (add_group (grp, zero_drbg_group) m) g = (if g = grp then Some (grp, zero_drbg_group) else locate_group m g)" for g
        using groups.locate_insert [of m "(grp, zero_drbg_group)" g] n by simp
      then show ?thesis
        using x'(1) m n by (auto simp: drbg_lookup_def l amvp_locate_drbg_group_entry_def)
    next
      case False
      with assms m None show ?thesis
        by (auto simp: drbg_prepare_group_def amvp_create_drbg_group_def split: if_splits)
    qed
  next
    case (Some g)
    with assms m show ?thesis by (auto simp: drbg_prepare_group_def drbg_lookup_def)
  qed
qed

text \<open>
  After the preparation the group exists, fresh if it did not exist before, and every other
  group is as it was; when memory runs out no group has changed.
\<close>

lemma lookup_prepare:
  assumes "drbg_prepare ok x mode grp = (rv, x')"
  shows "rv = AMVP_SUCCESS \<and> drbg_lookup x' mode grp = Some (case drbg_lookup x mode grp of None \<Rightarrow> zero_drbg_group | Some g \<Rightarrow> g) \<and>
      (\<forall>m g. (m, g) \<noteq> (mode, grp) \<longrightarrow> drbg_lookup x' m g = drbg_lookup x m g) \<or>
    rv = AMVP_MALLOC_FAIL \<and> (\<forall>m g. drbg_lookup x' m g = drbg_lookup x m g)"
proof (cases "amvp_locate_drbg_mode_entry x mode")
  case (Some m)
  with assms lookup_prepare_group [of ok x mode grp rv x'] show ?thesis
    by (auto simp: drbg_prepare_def)
next
  case None
  let ?y = "add_mode \<lparr>drbg_mode = mode, drbg_groups = []\<rparr> x"
  have y: "amvp_locate_drbg_mode_entry ?y mode \<noteq> None"
    using modes.locate_insert [of x "\<lparr>drbg_mode = mode, drbg_groups = []\<rparr>" mode] None by simp
  show ?thesis
  proof (cases "ok 0")
    case True
    then have "drbg_prepare_group (\<lambda>i. ok (i + 1)) ?y mode grp = (rv, x')"
      using assms None by (simp add: drbg_prepare_def amvp_create_drbg_mode_entry_def)
    from lookup_prepare_group [OF this y] lookup_add_mode [OF None] show ?thesis by auto
  next
    case False
    with assms None show ?thesis by (auto simp: drbg_prepare_def amvp_create_drbg_mode_entry_def)
  qed
qed

section \<open>What the settings satisfy\<close>

definition drbg_group_ok :: "AMVP_DRBG_CAP_GROUP \<Rightarrow> bool" where
  "drbg_group_ok g \<longleftrightarrow>
     der_func_enabled g \<in> {0..1} \<and>
     (entropy_input_len g = 0 \<or> entropy_input_len g \<in> {80..1048576}) \<and> entropy_len_max g \<le> 1048576 \<and>
     (nonce_len g = 0 \<or> nonce_len g \<in> {40..512}) \<and> nonce_len_max g \<le> 512 \<and>
     perso_string_len g \<le> 1048576 \<and> perso_len_max g \<le> 1048576 \<and>
     additional_input_len g \<le> 1048576 \<and> additional_in_len_max g \<le> 1048576 \<and>
     returned_bits_len g \<le> 4096"

text \<open>No mode and no group within a mode occurs twice, and every group is within the limits.\<close>

definition drbg_ok :: "AMVP_CIPHER \<Rightarrow> AMVP_DRBG_CAP \<Rightarrow> bool" where
  "drbg_ok c x \<longleftrightarrow>
     distinct (map drbg_mode (drbg_cap_mode x)) \<and>
     (\<forall>m \<in> set (drbg_cap_mode x). distinct (map fst (drbg_groups m)) \<and> (\<forall>g \<in> set (drbg_groups m). drbg_group_ok (snd g))) \<and>
     drbg_pred_resist_enabled x \<in> {0..1} \<and> drbg_reseed_implemented x \<in> {0..1}"

lemma drbg_ok_new: "drbg_ok c zero_drbg_cap"
  by (simp add: drbg_ok_def zero_drbg_cap_def)

lemma zero_group_ok: "drbg_group_ok zero_drbg_group"
  by (simp add: drbg_group_ok_def zero_drbg_group_def)

lemma keyed_distinct_new: "find (\<lambda>e. key e = k) l = None \<longleftrightarrow> k \<notin> key ` set l"
  by (auto simp: find_None_iff)

lemma add_mode_ok:
  "drbg_ok c x \<Longrightarrow> amvp_locate_drbg_mode_entry x mode = None \<Longrightarrow>
   drbg_ok c (add_mode \<lparr>drbg_mode = mode, drbg_groups = []\<rparr> x)"
  by (auto simp: drbg_ok_def add_mode_def amvp_locate_drbg_mode_entry_def keyed_distinct_new)

lemma set_update_first_old:
  "y \<in> set (update_first p f xs) \<Longrightarrow> y \<in> set xs \<or> (\<exists>x \<in> set xs. p x \<and> y = f x)"
  by (induction xs) (auto split: if_splits)

lemma upd_mode_ok:
  assumes "drbg_ok c x"
    and "\<And>m. m \<in> set (drbg_cap_mode x) \<Longrightarrow> drbg_mode m = mode \<Longrightarrow> drbg_mode (f m) = mode \<and>
      distinct (map fst (drbg_groups (f m))) \<and> (\<forall>g \<in> set (drbg_groups (f m)). drbg_group_ok (snd g))"
  shows "drbg_ok c (upd_mode mode f x)"
proof (cases "find (\<lambda>m. drbg_mode m = mode) (drbg_cap_mode x)")
  case None
  with assms(1) show ?thesis by (simp add: upd_mode_def update_first_none)
next
  case (Some m)
  with assms(2) find_Some_in [OF Some] have "drbg_mode (f m) = drbg_mode m" by simp
  then have "map drbg_mode (update_first (\<lambda>m. drbg_mode m = mode) f (drbg_cap_mode x)) = map drbg_mode (drbg_cap_mode x)"
    by (rule map_update_first_at [OF Some])
  with assms show ?thesis by (fastforce simp: drbg_ok_def upd_mode_def dest: set_update_first_old)
qed

lemma set_group_ok:
  assumes x: "drbg_ok c x" and f: "\<And>g. drbg_group_ok g \<Longrightarrow> drbg_group_ok (f g)"
  shows "drbg_ok c (set_group mode grp f x)"
proof -
  have "map fst (update_first (\<lambda>g. fst g = grp) (\<lambda>(i, g). (i, f g)) l) = map fst l" for l :: "(int \<times> AMVP_DRBG_CAP_GROUP) list"
    by (rule map_update_first) auto
  with x f show ?thesis
    unfolding set_group_def by (intro upd_mode_ok) (fastforce simp: drbg_ok_def upd_group_def dest!: set_update_first_old)+
qed

lemma prepare_group_ok:
  assumes "drbg_prepare_group ok x mode grp = (rv, x')" and "drbg_ok c x"
  shows "drbg_ok c x'"
proof (cases "\<exists>m. amvp_locate_drbg_mode_entry x mode = Some m \<and> amvp_locate_drbg_group_entry m grp = None \<and> ok 0 \<and> ok 1")
  case True
  then obtain m where m: "amvp_locate_drbg_mode_entry x mode = Some m" "amvp_locate_drbg_group_entry m grp = None" "ok 0" "ok 1" by blast
  with assms(1) have x': "x' = upd_mode mode (\<lambda>_. add_group (grp, zero_drbg_group) m) x"
    by (simp add: drbg_prepare_group_def amvp_create_drbg_group_def)
  have "m \<in> set (drbg_cap_mode x)" "drbg_mode m = mode"
    using m(1) find_Some_in by (fastforce simp: amvp_locate_drbg_mode_entry_def)+
  then show ?thesis
    unfolding x' using assms(2) m(2)
    by (intro upd_mode_ok)
      (auto simp: drbg_ok_def add_group_def zero_group_ok amvp_locate_drbg_group_entry_def locate_group_def keyed_distinct_new)
next
  case False
  with assms show ?thesis
    by (auto simp: drbg_prepare_group_def amvp_create_drbg_group_def split: option.splits if_splits)
qed

lemma prepare_ok:
  assumes "drbg_prepare ok x mode grp = (rv, x')" and "drbg_ok c x"
  shows "drbg_ok c x'"
  using assms prepare_group_ok add_mode_ok
  by (auto simp: drbg_prepare_def amvp_create_drbg_mode_entry_def split: option.splits if_splits)

lemma length_range_ok:
  assumes "amvp_add_drbg_length_range p lo step hi = Some f" and "drbg_group_ok g"
    and "\<not> (case drbg_length_max p of None \<Rightarrow> False | Some m \<Rightarrow> hi > m)"
  shows "drbg_group_ok (f g)"
  using assms by (cases p) (auto simp: amvp_add_drbg_length_range_def drbg_length_max_def drbg_group_ok_def)

lemma set_length_body_ok:
  assumes "drbg_set_length_body ok mode grp p lo step hi x = (rv, x')" and "drbg_ok c x"
  shows "drbg_ok c x'"
  using assms
  by (auto simp: drbg_set_length_body_def split: prod.splits if_splits option.splits
      intro!: set_group_ok dest: prepare_ok length_range_ok)

lemma apply_parm_ok:
  assumes "drbg_apply_parm mode grp p v x = (rv, x')" and "amvp_validate_drbg_parm_value p v = AMVP_SUCCESS" and "drbg_ok c x"
  shows "drbg_ok c x'"
proof -
  have tf: "is_valid_tf_param v = AMVP_SUCCESS \<longleftrightarrow> 0 \<le> v \<and> v \<le> 1" by (auto simp: is_valid_tf_param_def)
  show ?thesis
  proof (cases "p = AMVP_DRBG_PRED_RESIST_ENABLED \<or> p = AMVP_DRBG_RESEED_ENABLED \<or> p = AMVP_DRBG_PRE_REQ_VALS")
    case True
    then show ?thesis
      by (elim disjE)
        (use assms in \<open>clarsimp simp: drbg_apply_parm_def amvp_validate_drbg_parm_value_def tf drbg_ok_def\<close>)+
  next
    case False
    obtain f where "x' = set_group mode grp f x" and "\<And>g. drbg_group_ok g \<Longrightarrow> drbg_group_ok (f g)"
      using assms(1,2) False
      by (cases p) (auto simp: drbg_apply_parm_def amvp_validate_drbg_parm_value_def tf drbg_group_ok_def split: if_splits)
    with assms(3) show ?thesis by (simp add: set_group_ok)
  qed
qed

lemma set_parm_body_ok:
  assumes "drbg_set_parm_body ok c' mode grp p v x = (rv, x')" and "drbg_ok c x"
  shows "drbg_ok c x'"
  using assms
  by (auto simp: drbg_set_parm_body_def split: prod.splits if_splits dest: prepare_ok apply_parm_ok)

section \<open>The operations keep it\<close>

lemma with_drbg_step:
  assumes "with_drbg (Some s) c body = Ret rv os'"
    and "\<And>x rv x'. body x = (rv, x') \<Longrightarrow> drbg_ok c x \<Longrightarrow> drbg_ok c x'"
  shows "\<exists>s'. os' = Some s' \<and> family_step Drbg_cap drbg_ok c s s'"
  using assms
  by (auto simp: with_drbg_def drbg.sel_iff simp del: locate_Some split: option.splits prod.splits intro!: family_stepI)

lemma drbg_set_length_step:
  "amvp_cap_drbg_set_length ok (Some s) c mode grp p lo step hi = Ret rv os' \<Longrightarrow>
   \<exists>s'. os' = Some s' \<and> family_step Drbg_cap drbg_ok c s s'"
  unfolding amvp_cap_drbg_set_length_def by (erule with_drbg_step) (rule set_length_body_ok)

lemma drbg_set_parm_step:
  "amvp_cap_drbg_set_parm ok (Some s) c mode grp p v = Ret rv os' \<Longrightarrow>
   \<exists>s'. os' = Some s' \<and> family_step Drbg_cap drbg_ok c s s'"
  unfolding amvp_cap_drbg_set_parm_def by (erule with_drbg_step) (rule set_parm_body_ok)

end
