(* ===== verification/Cap_Api.thy ===== *)
theory Cap_Api
  imports Cap_Sym Cap_Hash Cap_Mac Cap_Drbg
begin

text \<open>
  The registration interface as a state machine: a call of one of the modelled public
  operations is a value, a context is reachable when a series of calls leads to it from the
  empty context, and the invariant of the registry holds in every reachable context, whatever
  the arguments, the order of the calls and the allocations that fail.
\<close>

section \<open>Calls\<close>

datatype api_call =
    Sym_enable AMVP_CIPHER callback
  | Sym_set_parm AMVP_CIPHER AMVP_SYM_CIPH_PARM int
  | Sym_set_domain AMVP_CIPHER AMVP_SYM_CIPH_DOMAIN_PARM int int int
  | Hash_enable AMVP_CIPHER callback
  | Hash_set_parm AMVP_CIPHER AMVP_HASH_PARM int
  | Hash_set_domain AMVP_CIPHER AMVP_HASH_PARM int int int
  | Hmac_enable AMVP_CIPHER callback
  | Hmac_set_parm AMVP_CIPHER AMVP_HMAC_PARM int
  | Hmac_set_domain AMVP_CIPHER AMVP_HMAC_PARM int int int
  | Cmac_enable AMVP_CIPHER callback
  | Cmac_set_parm AMVP_CIPHER AMVP_CMAC_PARM int
  | Cmac_set_domain AMVP_CIPHER AMVP_CMAC_PARM int int int
  | Kmac_enable AMVP_CIPHER callback
  | Kmac_set_parm AMVP_CIPHER AMVP_KMAC_PARM int
  | Kmac_set_domain AMVP_CIPHER AMVP_KMAC_PARM int int int
  | Drbg_enable AMVP_CIPHER callback
  | Drbg_set_parm AMVP_CIPHER int int AMVP_DRBG_PARM int
  | Drbg_set_length AMVP_CIPHER int int AMVP_DRBG_PARM int int int
  | Set_prereq AMVP_CIPHER int "string option"

primrec exec :: "alloc \<Rightarrow> api_call \<Rightarrow> AMVP_CTX option \<Rightarrow> AMVP_CTX option outcome" where
  "exec ok (Sym_enable c h) s = amvp_cap_sym_cipher_enable ok s c h"
| "exec ok (Sym_set_parm c p v) s = amvp_cap_sym_cipher_set_parm ok s c p v"
| "exec ok (Sym_set_domain c p lo hi inc) s = amvp_cap_sym_cipher_set_domain s c p lo hi inc"
| "exec ok (Hash_enable c h) s = amvp_cap_hash_enable ok s c h"
| "exec ok (Hash_set_parm c p v) s = amvp_cap_hash_set_parm s c p v"
| "exec ok (Hash_set_domain c p lo hi inc) s = amvp_cap_hash_set_domain s c p lo hi inc"
| "exec ok (Hmac_enable c h) s = amvp_cap_hmac_enable ok s c h"
| "exec ok (Hmac_set_parm c p v) s = amvp_cap_hmac_set_parm ok s c p v"
| "exec ok (Hmac_set_domain c p lo hi inc) s = amvp_cap_hmac_set_domain s c p lo hi inc"
| "exec ok (Cmac_enable c h) s = amvp_cap_cmac_enable ok s c h"
| "exec ok (Cmac_set_parm c p v) s = amvp_cap_cmac_set_parm ok s c p v"
| "exec ok (Cmac_set_domain c p lo hi inc) s = amvp_cap_cmac_set_domain s c p lo hi inc"
| "exec ok (Kmac_enable c h) s = amvp_cap_kmac_enable ok s c h"
| "exec ok (Kmac_set_parm c p v) s = amvp_cap_kmac_set_parm s c p v"
| "exec ok (Kmac_set_domain c p lo hi inc) s = amvp_cap_kmac_set_domain s c p lo hi inc"
| "exec ok (Drbg_enable c h) s = amvp_cap_drbg_enable ok s c h"
| "exec ok (Drbg_set_parm c m g p v) s = amvp_cap_drbg_set_parm ok s c m g p v"
| "exec ok (Drbg_set_length c m g p lo step hi) s = amvp_cap_drbg_set_length ok s c m g p lo step hi"
| "exec ok (Set_prereq c a v) s = amvp_cap_set_prereq ok s c a v"

text \<open>The increment of a domain is an \<^verbatim>\<open>int\<close>; the other arguments may be any integer.\<close>

definition int_args :: "api_call \<Rightarrow> bool" where
  "int_args call = (case call of Sym_set_domain c p lo hi inc \<Rightarrow> is_int32 inc | _ \<Rightarrow> True)"

text \<open>The kind of capability a cipher belongs to, for the families whose settings are modelled.\<close>

definition family_type :: "AMVP_CIPHER \<Rightarrow> AMVP_CAP_TYPE option" where
  "family_type c =
     (if is_sym_cipher c then Some AMVP_SYM_TYPE
      else if AMVP_HASH_SHA1 \<le> c \<and> c \<le> AMVP_HASH_SHAKE_256 then Some AMVP_HASH_TYPE
      else if AMVP_HASHDRBG \<le> c \<and> c \<le> AMVP_CTRDRBG then Some AMVP_DRBG_TYPE
      else if AMVP_HMAC_SHA1 \<le> c \<and> c \<le> AMVP_HMAC_SHA3_512 then Some AMVP_HMAC_TYPE
      else if AMVP_CMAC_AES \<le> c \<and> c \<le> AMVP_CMAC_TDES then Some AMVP_CMAC_TYPE
      else if AMVP_KMAC_128 \<le> c \<and> c \<le> AMVP_KMAC_256 then Some AMVP_KMAC_TYPE
      else None)"

text \<open>
  A caller is disciplined when it uses the operations of HMAC, CMAC, KMAC and DRBG on ciphers
  of that family only and never gives a KMAC domain with increment 0.
\<close>

definition disciplined :: "api_call \<Rightarrow> bool" where
  "disciplined call =
     (case call of
        Hmac_set_parm c p v \<Rightarrow> family_type c = Some AMVP_HMAC_TYPE
      | Hmac_set_domain c p lo hi inc \<Rightarrow> family_type c = Some AMVP_HMAC_TYPE
      | Cmac_set_parm c p v \<Rightarrow> family_type c = Some AMVP_CMAC_TYPE
      | Cmac_set_domain c p lo hi inc \<Rightarrow> family_type c = Some AMVP_CMAC_TYPE
      | Kmac_set_parm c p v \<Rightarrow> family_type c = Some AMVP_KMAC_TYPE
      | Kmac_set_domain c p lo hi inc \<Rightarrow> family_type c = Some AMVP_KMAC_TYPE \<and> inc \<noteq> 0
      | Drbg_enable c h \<Rightarrow> family_type c = Some AMVP_DRBG_TYPE
      | Drbg_set_parm c m g p v \<Rightarrow> family_type c = Some AMVP_DRBG_TYPE
      | Drbg_set_length c m g p lo step hi \<Rightarrow> family_type c = Some AMVP_DRBG_TYPE
      | _ \<Rightarrow> True)"

definition init_ctx :: AMVP_CTX where
  "init_ctx = \<lparr>caps_list = [], vs_count = 0\<rparr>"

text \<open>Contexts that calls accepted by \<open>P\<close> lead to; a call that returns an error counts too.\<close>

inductive reach :: "(api_call \<Rightarrow> bool) \<Rightarrow> AMVP_CTX \<Rightarrow> bool" for P where
  reach_init: "reach P init_ctx"
| reach_call: "reach P s \<Longrightarrow> P call \<Longrightarrow> int_args call \<Longrightarrow>
    exec ok call (Some s) = Ret rv (Some s') \<Longrightarrow> reach P s'"

section \<open>The invariant\<close>

text \<open>
  The settings of an entry satisfy the invariant of their family and, with \<open>b\<close>, their
  family is that of the cipher.
\<close>

definition data_ok :: "bool \<Rightarrow> AMVP_CIPHER \<Rightarrow> cap_union \<Rightarrow> bool" where
  "data_ok b c u =
     (case u of
        Sym_cap x \<Rightarrow> sym_ok c x \<and> (b \<longrightarrow> family_type c = Some AMVP_SYM_TYPE)
      | Hash_cap x \<Rightarrow> hash_ok c x \<and> (b \<longrightarrow> family_type c = Some AMVP_HASH_TYPE)
      | Drbg_cap x \<Rightarrow> drbg_ok c x \<and> (b \<longrightarrow> family_type c = Some AMVP_DRBG_TYPE)
      | Hmac_cap x \<Rightarrow> hmac_ok c x \<and> (b \<longrightarrow> family_type c = Some AMVP_HMAC_TYPE)
      | Cmac_cap x \<Rightarrow> cmac_ok c x \<and> (b \<longrightarrow> family_type c = Some AMVP_CMAC_TYPE)
      | Kmac_cap x \<Rightarrow> kmac_ok c x \<and> (b \<longrightarrow> family_type c = Some AMVP_KMAC_TYPE)
      | Other_cap t \<Rightarrow> \<not> b)"

interpretation sym_fam: cap_family sym_of Sym_cap AMVP_SYM_TYPE
    "\<lambda>c x. sym_ok c x \<and> (b \<longrightarrow> family_type c = Some AMVP_SYM_TYPE)" "data_ok b" for b
  by unfold_locales (auto simp: fits_def data_ok_def)

interpretation hash_fam: cap_family hash_of Hash_cap AMVP_HASH_TYPE
    "\<lambda>c x. hash_ok c x \<and> (b \<longrightarrow> family_type c = Some AMVP_HASH_TYPE)" "data_ok b" for b
  by unfold_locales (auto simp: fits_def data_ok_def)

interpretation drbg_fam: cap_family drbg_of Drbg_cap AMVP_DRBG_TYPE
    "\<lambda>c x. drbg_ok c x \<and> (b \<longrightarrow> family_type c = Some AMVP_DRBG_TYPE)" "data_ok b" for b
  by unfold_locales (auto simp: fits_def data_ok_def)

interpretation hmac_fam: cap_family hmac_of Hmac_cap AMVP_HMAC_TYPE
    "\<lambda>c x. hmac_ok c x \<and> (b \<longrightarrow> family_type c = Some AMVP_HMAC_TYPE)" "data_ok b" for b
  by unfold_locales (auto simp: fits_def data_ok_def)

interpretation cmac_fam: cap_family cmac_of Cmac_cap AMVP_CMAC_TYPE
    "\<lambda>c x. cmac_ok c x \<and> (b \<longrightarrow> family_type c = Some AMVP_CMAC_TYPE)" "data_ok b" for b
  by unfold_locales (auto simp: fits_def data_ok_def)

interpretation kmac_fam: cap_family kmac_of Kmac_cap AMVP_KMAC_TYPE
    "\<lambda>c x. kmac_ok c x \<and> (b \<longrightarrow> family_type c = Some AMVP_KMAC_TYPE)" "data_ok b" for b
  by unfold_locales (auto simp: fits_def data_ok_def)

text \<open>What a call keeps of the entries: the cipher stays registered, with its kind and callback.\<close>

definition keeps :: "AMVP_CTX \<Rightarrow> AMVP_CTX \<Rightarrow> bool" where
  "keeps s s' \<longleftrightarrow>
     (\<forall>d e. amvp_locate_cap_entry (Some s) d = Some e \<longrightarrow>
        (\<exists>e'. amvp_locate_cap_entry (Some s') d = Some e' \<and> cap_type e' = cap_type e \<and>
           cap_crypto_handler e' = cap_crypto_handler e))"

lemma keeps_refl [simp]: "keeps s s"
  by (simp add: keeps_def)

lemma keeps_trans: "keeps s t \<Longrightarrow> keeps t u \<Longrightarrow> keeps s u"
  unfolding keeps_def by (metis (no_types, lifting))

lemma family_step_weaken:
  "family_step wrap ok c s s' \<Longrightarrow> family_step wrap (\<lambda>c x. ok c x \<and> P c) c s s'"
  unfolding family_step_def by blast

lemma new_cap_data_ok:
  assumes "new_cap ok t c = Inr u" and "t \<in> {AMVP_SYM_TYPE, AMVP_HASH_TYPE, AMVP_DRBG_TYPE, AMVP_HMAC_TYPE, AMVP_CMAC_TYPE, AMVP_KMAC_TYPE}"
    and "b \<longrightarrow> family_type c = Some t"
  shows "data_ok b c u"
  using assms
  by (auto simp: new_cap_def new_cap_basic_def new_cap_agreement_def new_cap_kdf_def new_cap_rsa_sym_def
      alloc_cap_def data_ok_def sym_ok_new hash_ok_new drbg_ok_new mac_ok_new split: if_splits)

lemma append_inv:
  assumes "amvp_cap_list_append ok t c h s = Ret rv s'" and "reg_inv (data_ok b) s"
    and "t \<in> {AMVP_SYM_TYPE, AMVP_HASH_TYPE, AMVP_DRBG_TYPE, AMVP_HMAC_TYPE, AMVP_CMAC_TYPE, AMVP_KMAC_TYPE}"
    and "b \<longrightarrow> family_type c = Some t"
  shows "reg_inv (data_ok b) s' \<and> keeps s s' \<and> (rv = AMVP_SUCCESS \<or> s' = s)"
  using append_cases [OF assms(1)]
proof (elim disjE conjE exE)
  fix u assume n: "amvp_locate_cap_entry (Some s) c = None" and rv: "rv = AMVP_SUCCESS"
    and u: "new_cap ok t c = Inr u" and s': "s' = add_entry (new_entry t c h u) s"
  have "reg_inv (data_ok b) s'"
    unfolding s' by (rule add_entry_inv [OF assms(2) n fits_new_cap [OF u] new_cap_data_ok [OF u assms(3,4)]])
  moreover have "keeps s s'"
    unfolding keeps_def s' using n by (auto simp: caps.locate_insert new_entry_def simp del: locate_Some)
  ultimately show ?thesis using rv by simp
qed (use assms(2) in simp)

lemma prereq_inv:
  assumes r: "amvp_cap_set_prereq ok (Some s) c a v = Ret rv os'" and inv: "reg_inv (data_ok b) s"
  shows "\<exists>s'. os' = Some s' \<and> reg_inv (data_ok b) s' \<and> keeps s s'"
proof (cases "\<exists>e. (v \<noteq> None \<and> strnlen_s v 12 \<noteq> 0) \<and> amvp_locate_cap_entry (Some s) c = Some e")
  case True
  then obtain e where e: "amvp_locate_cap_entry (Some s) c = Some e" and v: "v \<noteq> None \<and> strnlen_s v 12 \<noteq> 0" by blast
  obtain e' where e': "amvp_add_prereq_val ok c (e\<lparr>cap_has_prereq := 1\<rparr>) a (the v) = (rv, e')" and
    os': "os' = Some (set_entry c (\<lambda>_. e') s)"
    using r e v by (auto simp: amvp_cap_set_prereq_def simp del: locate_Some split: prod.splits)
  have same: "cap_cipher e' = c" "cap_type e' = cap_type e" "cap_data e' = cap_data e" "cap_crypto_handler e' = cap_crypto_handler e"
    using e' caps.locate_key [OF e] by (auto simp: amvp_add_prereq_val_def Let_def split: if_splits)
  have "e \<in> set (caps_list s)" "cap_cipher e = c" using e find_Some_in by fastforce+
  with inv have "reg_inv (data_ok b) (set_entry c (\<lambda>_. e') s)"
    using same by (intro set_entry_inv [OF inv e]) (auto simp: reg_inv_def)
  moreover have "keeps s (set_entry c (\<lambda>_. e') s)"
    unfolding keeps_def using e same by (auto simp: caps.locate_update simp del: locate_Some)
  ultimately show ?thesis using os' by simp
next
  case False
  with r inv show ?thesis by (auto simp: amvp_cap_set_prereq_def simp del: locate_Some split: if_splits option.splits)
qed


section \<open>Every call keeps the invariant\<close>

lemma sym_cipher_range: "is_sym_cipher c \<Longrightarrow> 1 \<le> c \<and> c \<le> 31"
  by (auto simp: is_sym_cipher_def sym_aes_ciphers_def sym_tdes_ciphers_def)

lemma family_ranges:
  "32 \<le> c \<Longrightarrow> c \<le> 44 \<Longrightarrow> family_type c = Some AMVP_HASH_TYPE"
  "48 \<le> c \<Longrightarrow> c \<le> 58 \<Longrightarrow> family_type c = Some AMVP_HMAC_TYPE"
  "59 \<le> c \<Longrightarrow> c \<le> 60 \<Longrightarrow> family_type c = Some AMVP_CMAC_TYPE"
  "61 \<le> c \<Longrightarrow> c \<le> 62 \<Longrightarrow> family_type c = Some AMVP_KMAC_TYPE"
  using sym_cipher_range [of c] unfolding family_type_def by auto

lemma enable_families:
  "cipher_sub c \<in> set (hash_sha2_algs @ hash_sha3_algs @ hash_shake_algs) \<Longrightarrow> family_type c = Some AMVP_HASH_TYPE"
  "cipher_sub c \<in> set hmac_algs \<Longrightarrow> family_type c = Some AMVP_HMAC_TYPE"
  "cipher_sub c \<in> set [AMVP_SUB_CMAC_AES, AMVP_SUB_CMAC_TDES] \<Longrightarrow> family_type c = Some AMVP_CMAC_TYPE"
  "cipher_sub c \<in> set [AMVP_SUB_KMAC_128, AMVP_SUB_KMAC_256] \<Longrightarrow> family_type c = Some AMVP_KMAC_TYPE"
proof -
  assume "cipher_sub c \<in> set (hash_sha2_algs @ hash_sha3_algs @ hash_shake_algs)"
  then have "32 \<le> cipher_sub c \<and> cipher_sub c \<le> 44"
    unfolding hash_sha2_algs_def hash_sha3_algs_def hash_shake_algs_def by auto
  then show "family_type c = Some AMVP_HASH_TYPE" using cipher_sub_block [of 32 44 c] family_ranges(1) by simp
next
  assume "cipher_sub c \<in> set hmac_algs"
  then have "48 \<le> cipher_sub c \<and> cipher_sub c \<le> 58" unfolding hmac_algs_def by auto
  then show "family_type c = Some AMVP_HMAC_TYPE" using cipher_sub_block [of 48 58 c] family_ranges(2) by simp
next
  assume "cipher_sub c \<in> set [AMVP_SUB_CMAC_AES, AMVP_SUB_CMAC_TDES]"
  then have "59 \<le> cipher_sub c \<and> cipher_sub c \<le> 60" by auto
  then show "family_type c = Some AMVP_CMAC_TYPE" using cipher_sub_block [of 59 60 c] family_ranges(3) by simp
next
  assume "cipher_sub c \<in> set [AMVP_SUB_KMAC_128, AMVP_SUB_KMAC_256]"
  then have "61 \<le> cipher_sub c \<and> cipher_sub c \<le> 62" by auto
  then show "family_type c = Some AMVP_KMAC_TYPE" using cipher_sub_block [of 61 62 c] family_ranges(4) by simp
qed

text \<open>What a call may do to a context: nothing on an error, and never less than the invariant.\<close>

definition good_call :: "bool \<Rightarrow> bool \<Rightarrow> AMVP_CTX \<Rightarrow> AMVP_RESULT \<Rightarrow> AMVP_CTX option \<Rightarrow> bool" where
  "good_call b atomic s rv os' \<longleftrightarrow>
     (\<exists>s'. os' = Some s' \<and> (atomic \<longrightarrow> rv = AMVP_SUCCESS \<or> s' = s) \<and>
        (reg_inv (data_ok b) s \<longrightarrow> reg_inv (data_ok b) s' \<and> keeps s s'))"

lemma enable_good:
  assumes r: "(if g then map_outcome_state Some (amvp_cap_list_append ok t c h s) else Ret AMVP_INVALID_ARG (Some s)) = Ret rv os'"
    and "t \<in> {AMVP_SYM_TYPE, AMVP_HASH_TYPE, AMVP_DRBG_TYPE, AMVP_HMAC_TYPE, AMVP_CMAC_TYPE, AMVP_KMAC_TYPE}"
    and "g \<Longrightarrow> b \<longrightarrow> family_type c = Some t"
  shows "good_call b True s rv os'"
proof (cases g)
  case True
  with r obtain s' where s': "os' = Some s'" "amvp_cap_list_append ok t c h s = Ret rv s'"
    by (cases "amvp_cap_list_append ok t c h s") auto
  have "rv = AMVP_SUCCESS \<or> s' = s" using append_cases [OF s'(2)] by auto
  then show ?thesis
    using append_inv [OF s'(2) _ assms(2)] assms(3) [OF True] s'(1) unfolding good_call_def by blast
next
  case False
  with r show ?thesis by (simp add: good_call_def)
qed

lemma step_good:
  assumes "\<exists>s'. os' = Some s' \<and> (rv = AMVP_SUCCESS \<or> s' = s) \<and> family_step wrap fok c s s'"
    and "\<And>s'. reg_inv (data_ok b) s \<Longrightarrow> family_step wrap (\<lambda>c x. fok c x \<and> P c) c s s' \<Longrightarrow>
      reg_inv (data_ok b) s' \<and> keeps s s'"
  shows "good_call b True s rv os'"
  using assms family_step_weaken [of wrap fok c s _ P] unfolding good_call_def by blast


context cap_family
begin

lemma family_step_good:
  "reg_inv data_ok s \<Longrightarrow> family_step wrap fam_ok c s s' \<Longrightarrow> reg_inv data_ok s' \<and> keeps s s'"
  using family_step_inv family_step_keeps unfolding keeps_def by blast

end

lemmas sym_good = step_good [OF _ sym_fam.family_step_good]
lemmas hash_good = step_good [OF _ hash_fam.family_step_good]
lemmas hmac_good = step_good [OF _ hmac_fam.family_step_good]
lemmas cmac_good = step_good [OF _ cmac_fam.family_step_good]
lemmas kmac_good = step_good [OF _ kmac_fam.family_step_good]

text \<open>The calls whose error returns may leave a change behind.\<close>

definition atomic :: "api_call \<Rightarrow> bool" where
  "atomic call = (case call of Drbg_set_parm c m g p v \<Rightarrow> False | Drbg_set_length c m g p lo step hi \<Rightarrow> False
     | Set_prereq c a v \<Rightarrow> False | _ \<Rightarrow> True)"

lemma drbg_good:
  assumes "\<exists>s'. os' = Some s' \<and> family_step Drbg_cap drbg_ok c s s'"
  shows "good_call b False s rv os'"
proof -
  obtain s' where s': "os' = Some s'" "family_step Drbg_cap drbg_ok c s s'" using assms by blast
  show ?thesis
    using s' drbg_fam.family_step_good [OF _ family_step_weaken [OF s'(2)]] unfolding good_call_def by blast
qed

lemma enable_as_if:
  "amvp_cap_sym_cipher_enable ok (Some s) c h = (if h \<noteq> None \<and> is_sym_cipher c
     then map_outcome_state Some (amvp_cap_list_append ok AMVP_SYM_TYPE c h s) else Ret AMVP_INVALID_ARG (Some s))"
  "amvp_cap_hash_enable ok (Some s) c h =
     (if h \<noteq> None \<and> cipher_sub c \<noteq> 0 \<and> cipher_sub c \<in> set (hash_sha2_algs @ hash_sha3_algs @ hash_shake_algs)
      then map_outcome_state Some (amvp_cap_list_append ok AMVP_HASH_TYPE c h s) else Ret AMVP_INVALID_ARG (Some s))"
  "amvp_cap_hmac_enable ok (Some s) c h = (if h \<noteq> None \<and> cipher_sub c \<noteq> 0 \<and> cipher_sub c \<in> set hmac_algs
     then map_outcome_state Some (amvp_cap_list_append ok AMVP_HMAC_TYPE c h s) else Ret AMVP_INVALID_ARG (Some s))"
  "amvp_cap_cmac_enable ok (Some s) c h =
     (if h \<noteq> None \<and> cipher_sub c \<noteq> 0 \<and> cipher_sub c \<in> set [AMVP_SUB_CMAC_AES, AMVP_SUB_CMAC_TDES]
      then map_outcome_state Some (amvp_cap_list_append ok AMVP_CMAC_TYPE c h s) else Ret AMVP_INVALID_ARG (Some s))"
  "amvp_cap_kmac_enable ok (Some s) c h =
     (if h \<noteq> None \<and> cipher_sub c \<noteq> 0 \<and> cipher_sub c \<in> set [AMVP_SUB_KMAC_128, AMVP_SUB_KMAC_256]
      then map_outcome_state Some (amvp_cap_list_append ok AMVP_KMAC_TYPE c h s) else Ret AMVP_INVALID_ARG (Some s))"
  "amvp_cap_drbg_enable ok (Some s) c h = (if h \<noteq> None
     then map_outcome_state Some (amvp_cap_list_append ok AMVP_DRBG_TYPE c h s) else Ret AMVP_INVALID_ARG (Some s))"
  unfolding amvp_cap_sym_cipher_enable_def amvp_cap_hash_enable_def amvp_cap_hmac_enable_def
    amvp_cap_cmac_enable_def amvp_cap_kmac_enable_def amvp_cap_drbg_enable_def
    amvp_get_hash_alg_def amvp_get_hmac_alg_def amvp_get_cmac_alg_def amvp_get_kmac_alg_def with_ctx_def Let_def
  by simp_all

lemma exec_good:
  assumes "exec ok call (Some s) = Ret rv os'" and "int_args call" and "b \<longrightarrow> disciplined call"
  shows "good_call b (atomic call) s rv os'"
proof (cases call)
  case (Sym_enable c h)
  with assms(1) show ?thesis
    by (auto simp: atomic_def enable_as_if family_type_def intro!: enable_good)
next
  case (Hash_enable c h)
  show ?thesis
    using assms(1) Hash_enable enable_families(1)
    by (simp only: exec.simps atomic_def api_call.case enable_as_if) (rule enable_good, assumption, simp_all)
next
  case (Hmac_enable c h)
  show ?thesis
    using assms(1) Hmac_enable enable_families(2)
    by (simp only: exec.simps atomic_def api_call.case enable_as_if) (rule enable_good, assumption, simp_all)
next
  case (Cmac_enable c h)
  show ?thesis
    using assms(1) Cmac_enable enable_families(3)
    by (simp only: exec.simps atomic_def api_call.case enable_as_if) (rule enable_good, assumption, simp_all)
next
  case (Kmac_enable c h)
  show ?thesis
    using assms(1) Kmac_enable enable_families(4)
    by (simp only: exec.simps atomic_def api_call.case enable_as_if) (rule enable_good, assumption, simp_all)
next
  case (Drbg_enable c h)
  show ?thesis
    using assms(1,3) Drbg_enable
    by (simp only: exec.simps atomic_def disciplined_def api_call.case enable_as_if) (rule enable_good, assumption, simp_all)
next
  case (Set_prereq c a v)
  with assms(1) show ?thesis
    using prereq_inv [of ok s c a v rv os'] unfolding good_call_def atomic_def
    by (auto simp: amvp_cap_set_prereq_def simp del: locate_Some split: if_splits option.splits prod.splits)
qed (use assms in \<open>auto simp: atomic_def int_args_def intro: sym_good hash_good hmac_good cmac_good kmac_good drbg_good
      dest!: sym_set_parm_step sym_set_domain_step hash_set_parm_step hash_set_domain_step hmac_set_parm_step
        hmac_set_domain_step cmac_set_parm_step cmac_set_domain_step kmac_set_parm_step kmac_set_domain_step
        drbg_set_parm_step drbg_set_length_step\<close>)


section \<open>Undefined behaviour\<close>

context union_member
begin

lemma store_UB_iff: "store sel wrap c e f s = UB u \<longleftrightarrow> u = Bad_Union \<and> (\<nexists>x. cap_data e = wrap x)"
  by (auto simp: store_def sel_iff [symmetric] split: option.splits)

lemma store_list_UB_iff:
  "store_list ok sel wrap c e get upd v s = UB u \<longleftrightarrow> u = Bad_Union \<and> (\<nexists>x. cap_data e = wrap x)"
  by (auto simp: store_list_def sel_iff [symmetric] split: option.splits prod.splits)

end

text \<open>The entry of the cipher holds settings of another family.\<close>

definition wrong_member :: "('a \<Rightarrow> cap_union) \<Rightarrow> AMVP_CTX \<Rightarrow> AMVP_CIPHER \<Rightarrow> bool" where
  "wrong_member wrap s c \<longleftrightarrow> (\<exists>e. amvp_locate_cap_entry (Some s) c = Some e \<and> (\<nexists>x. cap_data e = wrap x))"

lemma sym_flag_UB: "sym_set_flag c p v e s = Some (UB u) \<Longrightarrow> \<nexists>x. cap_data e = Sym_cap x"
  by (cases p) (auto simp: sym_set_flag_def Let_def sym.store_UB_iff split: if_splits option.splits)

lemma sym_len_UB: "sym_set_len ok c p v e s = UB u \<Longrightarrow> \<nexists>x. cap_data e = Sym_cap x"
  by (cases p) (auto simp: sym_set_len_def Let_def sym.store_UB_iff split: if_splits option.splits)

lemma sym_UB:
  "amvp_cap_sym_cipher_set_parm ok (Some s) c p v = UB u \<Longrightarrow> is_sym_cipher c \<and> wrong_member Sym_cap s c"
  "amvp_cap_sym_cipher_set_domain (Some s) c q lo hi inc = UB u \<Longrightarrow> is_sym_cipher c \<and> wrong_member Sym_cap s c"
  unfolding amvp_cap_sym_cipher_set_parm_def amvp_cap_sym_cipher_set_domain_def wrong_member_def sym_domain_arm_def
  by (auto simp: sym.store_UB_iff simp del: locate_Some dest!: sym_flag_UB sym_len_UB
      split: if_splits option.splits AMVP_SYM_CIPH_DOMAIN_PARM.splits)


lemma hash_UB:
  "amvp_cap_hash_set_parm (Some s) c p v = UB u \<Longrightarrow>
     family_type c = Some AMVP_HASH_TYPE \<and> wrong_member Hash_cap s c"
  "amvp_cap_hash_set_domain (Some s) c p lo hi inc = UB u \<Longrightarrow>
     family_type c = Some AMVP_HASH_TYPE \<and> wrong_member Hash_cap s c"
  unfolding amvp_cap_hash_set_parm_def amvp_cap_hash_set_domain_def wrong_member_def hash_store_domain_def
    amvp_get_hash_alg_def Let_def
  by (auto simp: hash.store_UB_iff enable_families(1) simp del: locate_Some
      split: if_splits option.splits AMVP_HASH_PARM.splits)

lemma mac_UB:
  "amvp_cap_hmac_set_parm ok (Some s) c p v = UB u \<Longrightarrow> wrong_member Hmac_cap s c"
  "amvp_cap_hmac_set_domain (Some s) c p lo hi inc = UB u \<Longrightarrow> wrong_member Hmac_cap s c"
  unfolding amvp_cap_hmac_set_parm_def amvp_cap_hmac_set_domain_def wrong_member_def with_entry_UB
  by (auto simp: hmac.store_UB_iff hmac.store_list_UB_iff simp del: locate_Some
      split: if_splits AMVP_HMAC_PARM.splits)

lemma cmac_UB:
  "amvp_cap_cmac_set_parm ok (Some s) c p v = UB u \<Longrightarrow> wrong_member Cmac_cap s c"
  "amvp_cap_cmac_set_domain (Some s) c p lo hi inc = UB u \<Longrightarrow> wrong_member Cmac_cap s c"
  unfolding amvp_cap_cmac_set_parm_def amvp_cap_cmac_set_domain_def wrong_member_def with_entry_UB
  by (auto simp: cmac.store_UB_iff cmac.store_list_UB_iff simp del: locate_Some
      split: if_splits AMVP_CMAC_PARM.splits)

lemma kmac_UB:
  "amvp_cap_kmac_set_parm (Some s) c p v = UB u \<Longrightarrow> wrong_member Kmac_cap s c"
  "amvp_cap_kmac_set_domain (Some s) c p lo hi inc = UB u \<Longrightarrow> inc = 0 \<or> wrong_member Kmac_cap s c"
  unfolding amvp_cap_kmac_set_parm_def amvp_cap_kmac_set_domain_def wrong_member_def with_entry_UB
  by (auto simp: kmac.store_UB_iff validate_domain_range_def simp del: locate_Some
      split: if_splits AMVP_KMAC_PARM.splits sum.splits)

lemma drbg_UB:
  "amvp_cap_drbg_set_parm ok (Some s) c m g p v = UB u \<Longrightarrow> wrong_member Drbg_cap s c"
  "amvp_cap_drbg_set_length ok (Some s) c m g p lo step hi = UB u \<Longrightarrow> wrong_member Drbg_cap s c"
  unfolding amvp_cap_drbg_set_parm_def amvp_cap_drbg_set_length_def wrong_member_def with_drbg_def
  by (auto simp: drbg.sel_iff [symmetric] simp del: locate_Some split: option.splits prod.splits)

lemma right_member:
  assumes "reg_inv (data_ok True) s" and "family_type c = Some t"
  shows "t = AMVP_SYM_TYPE \<Longrightarrow> \<not> wrong_member Sym_cap s c" "t = AMVP_HASH_TYPE \<Longrightarrow> \<not> wrong_member Hash_cap s c"
    "t = AMVP_DRBG_TYPE \<Longrightarrow> \<not> wrong_member Drbg_cap s c" "t = AMVP_HMAC_TYPE \<Longrightarrow> \<not> wrong_member Hmac_cap s c"
    "t = AMVP_CMAC_TYPE \<Longrightarrow> \<not> wrong_member Cmac_cap s c" "t = AMVP_KMAC_TYPE \<Longrightarrow> \<not> wrong_member Kmac_cap s c"
proof -
  have d: "data_ok True c (cap_data e)" if "amvp_locate_cap_entry (Some s) c = Some e" for e
  proof -
    have "e \<in> set (caps_list s)" "cap_cipher e = c" using that find_Some_in by fastforce+
    with assms(1) show ?thesis by (auto simp: reg_inv_def)
  qed
  note d' = d [unfolded data_ok_def]
  show "t = AMVP_SYM_TYPE \<Longrightarrow> \<not> wrong_member Sym_cap s c" "t = AMVP_HASH_TYPE \<Longrightarrow> \<not> wrong_member Hash_cap s c"
    "t = AMVP_DRBG_TYPE \<Longrightarrow> \<not> wrong_member Drbg_cap s c" "t = AMVP_HMAC_TYPE \<Longrightarrow> \<not> wrong_member Hmac_cap s c"
    "t = AMVP_CMAC_TYPE \<Longrightarrow> \<not> wrong_member Cmac_cap s c" "t = AMVP_KMAC_TYPE \<Longrightarrow> \<not> wrong_member Kmac_cap s c"
    unfolding wrong_member_def using d' assms(2) by (auto simp del: locate_Some split: cap_union.splits)
qed

lemma prereq_defined: "amvp_cap_set_prereq ok (Some s) c a v \<noteq> UB u"
  by (auto simp: amvp_cap_set_prereq_def simp del: locate_Some split: option.splits prod.splits)

lemma exec_defined:
  assumes inv: "reg_inv (data_ok True) s" and d: "disciplined call"
  shows "exec ok call (Some s) \<noteq> UB u"
proof
  assume ub: "exec ok call (Some s) = UB u"
  note right = right_member [OF inv]
  have sym: "is_sym_cipher c \<Longrightarrow> family_type c = Some AMVP_SYM_TYPE" for c by (simp add: family_type_def)
  from ub d show False
    by (cases call)
      (auto simp: disciplined_def enable_as_if append_never_ub prereq_defined dest!: sym_UB hash_UB mac_UB cmac_UB kmac_UB drbg_UB
        dest: right sym split: if_splits)
qed


lemma reach_inv:
  assumes "reach P s" and "b \<Longrightarrow> P \<le> disciplined"
  shows "reg_inv (data_ok b) s"
  using assms(1)
proof induction
  case reach_init
  show ?case by (simp add: reg_inv_def init_ctx_def)
next
  case (reach_call s call ok rv s')
  then have "b \<longrightarrow> disciplined call" using assms(2) by auto
  from exec_good [OF reach_call.hyps(4,3) this] reach_call.IH show ?case by (auto simp: good_call_def)
qed

section \<open>Examples of contexts\<close>

definition gcm_ctx :: AMVP_CTX where
  "gcm_ctx = \<lparr>caps_list = [new_entry AMVP_SYM_TYPE AMVP_AES_GCM (Some 7)
      (Sym_cap (zero_sym_cap\<lparr>sym_perform_ctr_tests := 1, sym_dulen_matches_paylen := 1\<rparr>))], vs_count = 1\<rparr>"

definition kmac_ctx :: AMVP_CTX where
  "kmac_ctx = \<lparr>caps_list = [new_entry AMVP_KMAC_TYPE AMVP_KMAC_128 (Some 7) (Kmac_cap zero_kmac_cap)], vs_count = 1\<rparr>"

lemmas eval_enable = enable_as_if is_sym_cipher_def sym_aes_ciphers_def amvp_cap_list_append_def new_cap_def
  new_cap_basic_def new_cap_agreement_def new_cap_kdf_def new_cap_rsa_sym_def alloc_cap_def add_entry_def init_ctx_def

lemma gcm_enabled: "exec (\<lambda>_. True) (Sym_enable AMVP_AES_GCM (Some 7)) (Some init_ctx) = Ret AMVP_SUCCESS (Some gcm_ctx)"
  unfolding gcm_ctx_def by (simp add: eval_enable)

lemma kmac_enabled: "exec (\<lambda>_. True) (Kmac_enable AMVP_KMAC_128 (Some 7)) (Some init_ctx) = Ret AMVP_SUCCESS (Some kmac_ctx)"
  unfolding kmac_ctx_def by (simp add: eval_enable cipher_sub_mid)

lemma gcm_reach: "P (Sym_enable AMVP_AES_GCM (Some 7)) \<Longrightarrow> reach P gcm_ctx"
  by (rule reach_call [OF reach_init _ _ gcm_enabled]) (simp_all add: int_args_def)

lemma kmac_reach: "P (Kmac_enable AMVP_KMAC_128 (Some 7)) \<Longrightarrow> reach P kmac_ctx"
  by (rule reach_call [OF reach_init _ _ kmac_enabled]) (simp_all add: int_args_def)

section \<open>Properties\<close>

text \<open>
  C1: whatever calls were made, with whatever arguments and failing allocations, the registry
  holds at most one entry for each cipher, each entry has the settings its kind announces,
  the settings satisfy the rules of their family (lengths and domains in the ranges of the
  cipher, never a list and a domain for the same length, HMAC lengths within the digest, and
  so on), and at least as many vector sets are expected as there are entries.
\<close>
theorem registry_invariant:
  assumes "reach (\<lambda>_. True) s"
  shows "reg_inv (data_ok False) s"
  using reach_inv [OF assms] by simp

theorem registry_invariant_witness:
  "\<exists>t. exec (\<lambda>_. True) (Sym_set_parm AMVP_AES_GCM AMVP_SYM_CIPH_KEYLEN 128) (Some gcm_ctx) = Ret AMVP_SUCCESS (Some t) \<and>
     length (caps_list t) = 1 \<and> reg_inv (data_ok False) t"
proof -
  obtain t where t: "exec (\<lambda>_. True) (Sym_set_parm AMVP_AES_GCM AMVP_SYM_CIPH_KEYLEN 128) (Some gcm_ctx) = Ret AMVP_SUCCESS (Some t)"
    and l: "length (caps_list t) = 1"
    unfolding gcm_ctx_def
    by (simp add: amvp_cap_sym_cipher_set_parm_def is_sym_cipher_def sym_aes_ciphers_def new_entry_def sym_set_flag_def
        sym_set_len_def amvp_validate_sym_cipher_parm_value_def valid_keylen_def store_def put_cap_def set_entry_def)
  have "reach (\<lambda>_. True) t"
    by (rule reach_call [OF gcm_reach [OF TrueI] TrueI _ t]) (simp add: int_args_def)
  from registry_invariant [OF this] t l show ?thesis by blast
qed



text \<open>
  The two ways out of that discipline, on any registered cipher. The KMAC domain operation
  divides by the increment before any test of it, so an increment of 0 is a division by zero
  whenever the minimum and maximum are in order; and the HMAC operations write through the
  HMAC member of the union whatever entry was found, which is undefined exactly when the entry
  is of another family.
\<close>
theorem undisciplined_calls_undefined:
  assumes "amvp_locate_cap_entry (Some s) c = Some e" and "0 \<le> lo" and "lo \<le> hi"
  shows "exec ok (Kmac_set_domain c p lo hi 0) (Some s) = UB Div_Zero \<and>
    (exec ok (Hmac_set_domain c AMVP_HMAC_KEYLEN 8 512 8) (Some s) = UB Bad_Union \<longleftrightarrow> (\<nexists>x. cap_data e = Hmac_cap x))"
  using assms
  by (simp add: amvp_cap_kmac_set_domain_def amvp_cap_hmac_set_domain_def with_entry_def validate_domain_range_def
      c_rem_eq_0_iff hmac.store_UB_iff del: locate_Some)

theorem undisciplined_calls_undefined_witness:
  "exec (\<lambda>_. True) (Kmac_set_domain AMVP_AES_GCM AMVP_KMAC_MSGLEN 0 8 0) (Some gcm_ctx) = UB Div_Zero \<and>
   exec (\<lambda>_. True) (Hmac_set_domain AMVP_AES_GCM AMVP_HMAC_KEYLEN 8 512 8) (Some gcm_ctx) = UB Bad_Union"
proof -
  have "amvp_locate_cap_entry (Some gcm_ctx) AMVP_AES_GCM = Some (hd (caps_list gcm_ctx))"
    "\<nexists>x. cap_data (hd (caps_list gcm_ctx)) = Hmac_cap x"
    by (simp_all add: gcm_ctx_def new_entry_def)
  from undisciplined_calls_undefined [OF this(1), of 0 8 "\<lambda>_. True" AMVP_KMAC_MSGLEN] this(2) show ?thesis by simp
qed

text \<open>No operation of the interface uses a null context: each returns an error.\<close>
theorem null_context_refused:
  "exec ok call None = Ret AMVP_NO_CTX None \<or> exec ok call None = Ret AMVP_NO_CAP None"
  by (cases call)
    (simp_all add: amvp_cap_sym_cipher_enable_def amvp_cap_sym_cipher_set_parm_def amvp_cap_sym_cipher_set_domain_def
      amvp_cap_hash_enable_def amvp_cap_hash_set_parm_def amvp_cap_hash_set_domain_def
      amvp_cap_hmac_enable_def amvp_cap_hmac_set_parm_def amvp_cap_hmac_set_domain_def
      amvp_cap_cmac_enable_def amvp_cap_cmac_set_parm_def amvp_cap_cmac_set_domain_def
      amvp_cap_kmac_enable_def amvp_cap_kmac_set_parm_def amvp_cap_kmac_set_domain_def
      amvp_cap_drbg_enable_def amvp_cap_drbg_set_parm_def amvp_cap_drbg_set_length_def
      amvp_cap_set_prereq_def with_entry_def with_drbg_def)

text \<open>
  C11: an operation that reports an error leaves the context as it was, for every operation but
  the two DRBG setters and the prerequisite setter.
\<close>
theorem errors_change_nothing:
  assumes "exec ok call (Some s) = Ret rv os'" and "int_args call" and "atomic call" and "rv \<noteq> AMVP_SUCCESS"
  shows "os' = Some s"
  using exec_good [OF assms(1,2), of False] assms(3,4) by (auto simp: good_call_def)

theorem errors_change_nothing_witness:
  "\<exists>os'. exec (\<lambda>_. True) (Sym_enable AMVP_AES_GCM (Some 3)) (Some gcm_ctx) = Ret AMVP_DUP_CIPHER os' \<and> os' = Some gcm_ctx"
proof -
  obtain os' where r: "exec (\<lambda>_. True) (Sym_enable AMVP_AES_GCM (Some 3)) (Some gcm_ctx) = Ret AMVP_DUP_CIPHER os'"
    unfolding gcm_ctx_def by (simp add: eval_enable new_entry_def)
  from errors_change_nothing [OF r] r show ?thesis by (simp add: int_args_def atomic_def)
qed

text \<open>
  C12: a registered cipher stays registered: no later call removes its entry or changes the kind
  of the entry or the callback that will run its tests.
\<close>
theorem registration_permanent:
  assumes "reach (\<lambda>_. True) s" and "int_args call" and "exec ok call (Some s) = Ret rv (Some s')"
    and "amvp_locate_cap_entry (Some s) d = Some e"
  shows "\<exists>e'. amvp_locate_cap_entry (Some s') d = Some e' \<and> cap_type e' = cap_type e \<and>
    cap_crypto_handler e' = cap_crypto_handler e"
  using exec_good [OF assms(3,2), of False] reach_inv [OF assms(1), of False] assms(4)
  by (auto simp: good_call_def keeps_def simp del: locate_Some)

theorem registration_permanent_witness:
  "\<exists>s' e'. exec (\<lambda>_. True) (Set_prereq AMVP_AES_GCM AMVP_PREREQ_AES (Some ''same'')) (Some gcm_ctx) = Ret AMVP_SUCCESS (Some s') \<and>
     amvp_locate_cap_entry (Some s') AMVP_AES_GCM = Some e' \<and> cap_crypto_handler e' = Some 7"
proof -
  obtain s' where r: "exec (\<lambda>_. True) (Set_prereq AMVP_AES_GCM AMVP_PREREQ_AES (Some ''same'')) (Some gcm_ctx) = Ret AMVP_SUCCESS (Some s')"
    unfolding gcm_ctx_def
    by (simp add: amvp_cap_set_prereq_def amvp_add_prereq_val_def amvp_validate_prereq_val_def accepted_prereqs_low_def new_entry_def
      set_entry_def)
  obtain e where e: "amvp_locate_cap_entry (Some gcm_ctx) AMVP_AES_GCM = Some e" "cap_crypto_handler e = Some 7"
    by (simp add: gcm_ctx_def new_entry_def)
  from registration_permanent [OF gcm_reach [OF TrueI] _ r e(1)] e(2) r show ?thesis
    by (auto simp: int_args_def simp del: locate_Some exec.simps)
qed

end
