(* ===== verification/Cap_Props.thy ===== *)
theory Cap_Props
  imports Cap_Api
begin

text \<open>
  What the operations of each family do to the settings of a registered cipher: their exact
  effect, the settings that exclude each other, and the checks that are missing.
\<close>

section \<open>Symmetric ciphers\<close>

text \<open>The lengths that can be given as a list of values or as a domain.\<close>

definition list_domain_pairs :: "(AMVP_SYM_CIPH_PARM \<times> AMVP_SYM_CIPH_DOMAIN_PARM) list" where
  "list_domain_pairs =
     [(AMVP_SYM_CIPH_IVLEN, AMVP_SYM_CIPH_DOMAIN_IVLEN), (AMVP_SYM_CIPH_PTLEN, AMVP_SYM_CIPH_DOMAIN_PTLEN),
      (AMVP_SYM_CIPH_AADLEN, AMVP_SYM_CIPH_DOMAIN_AADLEN)]"

lemma sym_set_len_Ret:
  assumes "(p, q) \<in> set list_domain_pairs" and "sym_set_len ok c p v e s = Ret rv s'"
  shows "\<exists>x. cap_data e = Sym_cap x"
  using assms
  by (auto simp: list_domain_pairs_def sym_set_len_def sym.sel_iff split: option.splits)

lemma sym_set_parm_len:
  assumes "exec ok (Sym_set_parm c p v) (Some s) = Ret AMVP_SUCCESS (Some s')"
    and pq: "(p, q) \<in> set list_domain_pairs"
  shows "is_sym_cipher c \<and> (\<exists>e x. amvp_locate_cap_entry (Some s) c = Some e \<and> cap_data e = Sym_cap x \<and>
    sym_set_len ok c p v e s = Ret AMVP_SUCCESS s')"
proof -
  have none: "sym_set_flag c p v e s = None" for e using pq by (auto simp: list_domain_pairs_def sym_set_flag_def)
  from assms(1) obtain e where "is_sym_cipher c" "amvp_locate_cap_entry (Some s) c = Some e"
    "sym_set_len ok c p v e s = Ret AMVP_SUCCESS s'"
    by (auto simp: amvp_cap_sym_cipher_set_parm_def none simp del: locate_Some split: if_splits option.splits)
  with sym_set_len_Ret [OF pq] show ?thesis by blast
qed

text \<open>
  C13: once a length of a symmetric cipher was given as a value, no domain is accepted for the
  same length, whatever the bounds.
\<close>
theorem sym_list_excludes_domain:
  assumes "exec ok (Sym_set_parm c p v) (Some s) = Ret AMVP_SUCCESS (Some s')" and "ok 0"
    and "(p, q) \<in> set list_domain_pairs"
  shows "exec ok' (Sym_set_domain c q lo hi inc) (Some s') = Ret AMVP_INVALID_ARG (Some s')"
proof -
  obtain e x where e: "amvp_locate_cap_entry (Some s) c = Some e" and x: "cap_data e = Sym_cap x" and c: "is_sym_cipher c"
    and l: "sym_set_len ok c p v e s = Ret AMVP_SUCCESS s'"
    using sym_set_parm_len [OF assms(1,3)] by blast
  from assms(3) l show ?thesis
    by (auto simp: list_domain_pairs_def sym_set_len_def x assms(2) sym.store_Ret c amvp_cap_sym_cipher_set_domain_def
        locate_put_cap [OF e] sym_domain_arm_def simp del: locate_Some split: if_splits)
qed

text \<open>
  Once a domain was given for a length of a symmetric cipher, no single value is accepted
  for it. The test for a domain that was given adds
  three numbers and could wrap; on the domains that pass the checks it does not.
\<close>
theorem sym_domain_excludes_list:
  assumes "exec ok (Sym_set_domain c q lo hi inc) (Some s) = Ret AMVP_SUCCESS (Some s')" and "is_int32 inc"
    and "(p, q) \<in> set list_domain_pairs"
  shows "exec ok' (Sym_set_parm c p v) (Some s') = Ret AMVP_INVALID_ARG (Some s')"
proof -
  obtain e x where e: "amvp_locate_cap_entry (Some s) c = Some e" and x: "cap_data e = Sym_cap x" and c: "is_sym_cipher c"
    and v: "amvp_validate_sym_cipher_domain_value c q lo hi inc = AMVP_SUCCESS"
    using assms(1,3)
    by (auto simp: list_domain_pairs_def amvp_cap_sym_cipher_set_domain_def sym_domain_arm_def sym.sel_iff
        simp del: locate_Some split: if_splits option.splits)
  have "sym_domain_ok c q (set_domain lo hi inc d)" "\<not> domain_unset (set_domain lo hi inc d)" for d
    using v assms(2) sym_domain_bounds [OF v] by (auto simp: sym_domain_ok_def set_domain_def is_int32_def domain_unset_def)
  from domain_already_set_iff [OF this(1)] this(2)
  have set: "amvp_is_domain_already_set (set_domain lo hi inc d) \<noteq> 0" for d by simp
  from assms(1,3) show ?thesis
    by (auto simp: list_domain_pairs_def amvp_cap_sym_cipher_set_domain_def amvp_cap_sym_cipher_set_parm_def c e x
        sym_domain_arm_def v sym.store_Ret locate_put_cap [OF e] sym_set_flag_def sym_set_len_def set
        simp del: locate_Some split: if_splits)
qed

lemma gcm_entry:
  "amvp_locate_cap_entry (Some gcm_ctx) AMVP_AES_GCM = Some (hd (caps_list gcm_ctx))"
  "cap_data (hd (caps_list gcm_ctx)) = Sym_cap (zero_sym_cap\<lparr>sym_perform_ctr_tests := 1, sym_dulen_matches_paylen := 1\<rparr>)"
  "is_sym_cipher AMVP_AES_GCM"
  by (simp_all add: gcm_ctx_def new_entry_def is_sym_cipher_def sym_aes_ciphers_def)

theorem sym_list_excludes_domain_witness:
  "\<exists>s'. exec (\<lambda>_. True) (Sym_set_parm AMVP_AES_GCM AMVP_SYM_CIPH_IVLEN 96) (Some gcm_ctx) = Ret AMVP_SUCCESS (Some s') \<and>
     exec (\<lambda>_. True) (Sym_set_domain AMVP_AES_GCM AMVP_SYM_CIPH_DOMAIN_IVLEN 8 1024 8) (Some s') = Ret AMVP_INVALID_ARG (Some s')"
proof -
  obtain s' where r: "exec (\<lambda>_. True) (Sym_set_parm AMVP_AES_GCM AMVP_SYM_CIPH_IVLEN 96) (Some gcm_ctx) = Ret AMVP_SUCCESS (Some s')"
    by (simp add: amvp_cap_sym_cipher_set_parm_def gcm_entry [simplified] sym_set_flag_def sym_set_len_def zero_sym_cap_def
        amvp_validate_sym_cipher_parm_value_def valid_ivlen_def amvp_is_domain_already_set_def zero_domain_def store_def wrap32_def)
  from sym_list_excludes_domain [OF r, of AMVP_SYM_CIPH_DOMAIN_IVLEN] r show ?thesis
    by (auto simp: list_domain_pairs_def simp del: exec.simps)
qed

theorem sym_domain_excludes_list_witness:
  "\<exists>s'. exec (\<lambda>_. True) (Sym_set_domain AMVP_AES_GCM AMVP_SYM_CIPH_DOMAIN_PTLEN 0 65536 8) (Some gcm_ctx) = Ret AMVP_SUCCESS (Some s') \<and>
     exec (\<lambda>_. True) (Sym_set_parm AMVP_AES_GCM AMVP_SYM_CIPH_PTLEN 128) (Some s') = Ret AMVP_INVALID_ARG (Some s')"
proof -
  obtain s' where r: "exec (\<lambda>_. True) (Sym_set_domain AMVP_AES_GCM AMVP_SYM_CIPH_DOMAIN_PTLEN 0 65536 8) (Some gcm_ctx) = Ret AMVP_SUCCESS (Some s')"
    by (simp add: amvp_cap_sym_cipher_set_domain_def gcm_entry [simplified] sym_domain_arm_def zero_sym_cap_def
        amvp_validate_sym_cipher_domain_value_def valid_domain_arm_def c_rem_eq_0_iff store_def)
  from sym_domain_excludes_list [OF r, of AMVP_SYM_CIPH_PTLEN] r show ?thesis
    by (auto simp: list_domain_pairs_def is_int32_def simp del: exec.simps)
qed

text \<open>
  A symmetric cipher is enabled exactly when a callback is given, the cipher is one of the
  symmetric ones, it has no entry yet and memory suffices; its entry then has the callback, no
  settings but the two defaults, and no prerequisites, one more vector set is expected, and no
  other entry changed.
\<close>
theorem sym_enable_cases:
  "\<exists>rv s'. exec ok (Sym_enable c h) (Some s) = Ret rv (Some s') \<and>
     rv = (if h \<noteq> None \<and> is_sym_cipher c
           then if amvp_locate_cap_entry (Some s) c \<noteq> None then AMVP_DUP_CIPHER
                else if ok 0 \<and> ok 1 then AMVP_SUCCESS else AMVP_MALLOC_FAIL
           else AMVP_INVALID_ARG) \<and>
     vs_count s' = vs_count s + (if rv = AMVP_SUCCESS then 1 else 0) \<and>
     amvp_locate_cap_entry (Some s') d =
       (if rv = AMVP_SUCCESS \<and> d = c
        then Some \<lparr>cap_cipher = c, cap_type = AMVP_SYM_TYPE, cap_has_prereq = 0, cap_prereq_vals = [],
          cap_data = Sym_cap (zero_sym_cap\<lparr>sym_perform_ctr_tests := 1, sym_dulen_matches_paylen := 1\<rparr>),
          cap_crypto_handler = h\<rparr>
        else amvp_locate_cap_entry (Some s) d)"
  using caps.locate_insert [of s "new_entry AMVP_SYM_TYPE c h
      (Sym_cap (zero_sym_cap\<lparr>sym_perform_ctr_tests := 1, sym_dulen_matches_paylen := 1\<rparr>))" d]
  by (auto simp: enable_as_if amvp_cap_list_append_def new_cap_def new_cap_basic_def new_cap_agreement_def new_cap_kdf_def
      new_cap_rsa_sym_def alloc_cap_def new_entry_def add_entry_def simp del: locate_Some)


text \<open>
  A key length that passes its check is reported as stored even when memory ran out and
  the list did not change.
\<close>
theorem sym_append_failure_hidden:
  assumes "amvp_locate_cap_entry (Some s) c = Some e" and "cap_data e = Sym_cap x" and "is_sym_cipher c"
  shows "exec ok (Sym_set_parm c AMVP_SYM_CIPH_KEYLEN v) (Some s) =
    (if valid_keylen c v
     then Ret AMVP_SUCCESS (Some (put_cap c (Sym_cap (x\<lparr>sym_keylen := sym_keylen x @ (if ok 0 then [v] else [])\<rparr>)) s))
     else Ret AMVP_INVALID_ARG (Some s))"
  using assms
  by (simp add: amvp_cap_sym_cipher_set_parm_def sym_set_flag_def sym_set_len_def amvp_validate_sym_cipher_parm_value_def
      store_def del: locate_Some)

theorem sym_append_failure_hidden_witness:
  "exec (\<lambda>_. False) (Sym_set_parm AMVP_AES_GCM AMVP_SYM_CIPH_KEYLEN 128) (Some gcm_ctx) = Ret AMVP_SUCCESS (Some gcm_ctx)"
  using sym_append_failure_hidden [OF gcm_entry, of "\<lambda>_. False" 128]
  by (simp add: valid_keylen_def sym_aes_ciphers_def put_cap_def set_entry_def gcm_ctx_def new_entry_def zero_sym_cap_def del: exec.simps)

text \<open>
  Choosing both sources of the initialisation vector announces one more vector set, each
  time it is chosen: the same choice made twice leaves the settings as after the first and
  counts two.
\<close>
theorem ivgen_either_counted_each_time:
  assumes "amvp_locate_cap_entry (Some s) c = Some e" and "cap_data e = Sym_cap x" and "is_sym_cipher c"
  shows "\<exists>s1 s2. exec ok (Sym_set_parm c AMVP_SYM_CIPH_PARM_IVGEN_SRC AMVP_SYM_CIPH_IVGEN_SRC_EITHER) (Some s) = Ret AMVP_SUCCESS (Some s1) \<and>
    exec ok (Sym_set_parm c AMVP_SYM_CIPH_PARM_IVGEN_SRC AMVP_SYM_CIPH_IVGEN_SRC_EITHER) (Some s1) = Ret AMVP_SUCCESS (Some s2) \<and>
    vs_count s2 = vs_count s + 2 \<and>
    amvp_locate_cap_entry (Some s1) d = amvp_locate_cap_entry (Some s2) d"
proof -
  let ?x = "x\<lparr>sym_ivgen_source := AMVP_SYM_CIPH_IVGEN_SRC_EITHER\<rparr>"
  let ?s1 = "put_cap c (Sym_cap ?x) (s\<lparr>vs_count := vs_count s + 1\<rparr>)"
  have step: "exec ok (Sym_set_parm c AMVP_SYM_CIPH_PARM_IVGEN_SRC AMVP_SYM_CIPH_IVGEN_SRC_EITHER) (Some t) =
      Ret AMVP_SUCCESS (Some (put_cap c (Sym_cap (y\<lparr>sym_ivgen_source := AMVP_SYM_CIPH_IVGEN_SRC_EITHER\<rparr>)) (t\<lparr>vs_count := vs_count t + 1\<rparr>)))"
    if "amvp_locate_cap_entry (Some t) c = Some f" "cap_data f = Sym_cap y" for t f y
    using that assms(3) by (simp add: amvp_cap_sym_cipher_set_parm_def sym_set_flag_def store_def del: locate_Some)
  have t: "amvp_locate_cap_entry (Some (t\<lparr>vs_count := n\<rparr>)) b = amvp_locate_cap_entry (Some t) b" for t :: AMVP_CTX and n b
    by simp
  have e1: "amvp_locate_cap_entry (Some ?s1) b = (if b = c then Some (e\<lparr>cap_data := Sym_cap ?x\<rparr>) else amvp_locate_cap_entry (Some s) b)" for b
    using locate_put_cap [of "s\<lparr>vs_count := vs_count s + 1\<rparr>" c e] assms(1) by (simp add: t del: locate_Some)
  have vs: "vs_count (put_cap c u t) = vs_count t" for u and t :: AMVP_CTX by (simp add: put_cap_def set_entry_def)
  have e2: "amvp_locate_cap_entry (Some (?s1\<lparr>vs_count := vs_count ?s1 + 1\<rparr>)) c = Some (e\<lparr>cap_data := Sym_cap ?x\<rparr>)"
    unfolding t e1 by simp
  show ?thesis
    unfolding step [OF assms(1,2)]
    using step [of ?s1 "e\<lparr>cap_data := Sym_cap ?x\<rparr>" ?x] e1 locate_put_cap [OF e2]
    by (auto simp: vs t simp del: locate_Some exec.simps)
qed

theorem ivgen_either_counted_each_time_witness:
  "\<exists>s1 s2. exec (\<lambda>_. True) (Sym_set_parm AMVP_AES_GCM AMVP_SYM_CIPH_PARM_IVGEN_SRC AMVP_SYM_CIPH_IVGEN_SRC_EITHER) (Some gcm_ctx) = Ret AMVP_SUCCESS (Some s1) \<and>
    exec (\<lambda>_. True) (Sym_set_parm AMVP_AES_GCM AMVP_SYM_CIPH_PARM_IVGEN_SRC AMVP_SYM_CIPH_IVGEN_SRC_EITHER) (Some s1) = Ret AMVP_SUCCESS (Some s2) \<and>
    vs_count s2 = 3"
  using ivgen_either_counted_each_time [OF gcm_entry, of "\<lambda>_. True" 0] by (auto simp: gcm_ctx_def simp del: exec.simps)

section \<open>Hashes and message authentication codes\<close>

lemma hash_block: "32 \<le> c \<Longrightarrow> c \<le> 44 \<Longrightarrow> c \<in> set (hash_sha3_algs @ hash_shake_algs @ hash_sha2_algs)" for c :: nat
  unfolding hash_sha3_algs_def hash_shake_algs_def hash_sha2_algs_def by (simp add: le_eq_less_or_eq [of _ 44]) presburger


text \<open>
  The message lengths of a registered hash function that is not an extendable-output
  function are accepted exactly when the minimum is not negative, the maximum is at most 65536
  and the increment is positive and divides both. The order of minimum and maximum is not
  tested.
\<close>
theorem hash_message_domain_cases:
  assumes "amvp_locate_cap_entry (Some s) c = Some e" and "cap_data e = Hash_cap x"
    and "AMVP_HASH_SHA1 \<le> c" and "c \<le> AMVP_HASH_SHA3_512"
  shows "exec ok (Hash_set_domain c AMVP_HASH_MESSAGE_LEN lo hi inc) (Some s) =
    (if 0 \<le> lo \<and> hi \<le> 65536 \<and> 0 < inc \<and> inc dvd lo \<and> inc dvd hi
     then Ret AMVP_SUCCESS (Some (put_cap c (Hash_cap (x\<lparr>hash_msg_length := set_domain lo hi inc (hash_msg_length x)\<rparr>)) s))
     else Ret AMVP_INVALID_ARG (Some s))"
proof -
  have "cipher_sub c = c" using assms(3,4) cipher_sub_mid [of c] by simp
  moreover have "c \<in> set (hash_sha3_algs @ hash_shake_algs @ hash_sha2_algs)" using hash_block [of c] assms(3,4) by simp
  ultimately show ?thesis
    using assms
    by (simp add: amvp_cap_hash_set_domain_def amvp_get_hash_alg_def hash_store_domain_def store_def c_rem_eq_0_iff
        hash.sel_iff del: locate_Some)
qed

definition sha256_ctx :: AMVP_CTX where
  "sha256_ctx = \<lparr>caps_list = [new_entry AMVP_HASH_TYPE AMVP_HASH_SHA256 (Some 7) (Hash_cap zero_hash_cap)], vs_count = 1\<rparr>"

theorem hash_message_domain_cases_witness:
  "\<exists>s'. exec (\<lambda>_. True) (Hash_set_domain AMVP_HASH_SHA256 AMVP_HASH_MESSAGE_LEN 65536 0 8) (Some sha256_ctx) = Ret AMVP_SUCCESS s'"
  using hash_message_domain_cases [of sha256_ctx AMVP_HASH_SHA256 "hd (caps_list sha256_ctx)" zero_hash_cap "\<lambda>_. True" 65536 0 8]
  by (simp add: sha256_ctx_def new_entry_def del: exec.simps)

text \<open>
  A single MAC length of a registered HMAC is accepted exactly when it is a multiple of 8
  from 32 up to the length of the digest, and is then stored unless memory runs out, which is
  reported; a domain of MAC lengths is only compared with 512, whatever the digest.
\<close>
theorem hmac_mac_length_cases:
  assumes "amvp_locate_cap_entry (Some s) c = Some e" and "cap_data e = Hmac_cap x"
    and "AMVP_HMAC_SHA1 \<le> c" and "c \<le> AMVP_HMAC_SHA3_512"
  shows "exec ok (Hmac_set_parm c AMVP_HMAC_MACLEN v) (Some s) =
      (if 32 \<le> v \<and> v \<le> hmac_max_mac c \<and> 8 dvd v
       then if ok 0 then Ret AMVP_SUCCESS (Some (put_cap c (Hmac_cap (x\<lparr>hmac_mac_len :=
              (hmac_mac_len x)\<lparr>dom_values := dom_values (hmac_mac_len x) @ [v]\<rparr>\<rparr>)) s))
            else Ret AMVP_MALLOC_FAIL (Some s)
       else Ret AMVP_INVALID_ARG (Some s)) \<and>
    exec ok (Hmac_set_domain c AMVP_HMAC_MACLEN lo hi inc) (Some s) =
      (if 32 \<le> lo \<and> hi \<le> 512 \<and> 8 dvd inc
       then Ret AMVP_SUCCESS (Some (put_cap c (Hmac_cap (x\<lparr>hmac_mac_len := set_domain lo hi inc (hmac_mac_len x)\<rparr>)) s))
       else Ret AMVP_INVALID_ARG (Some s))"
proof -
  have "cipher_sub c = c" using assms(3,4) cipher_sub_mid [of c] by simp
  then show ?thesis
    using assms
    by (auto simp: amvp_cap_hmac_set_parm_def amvp_cap_hmac_set_domain_def with_entry_def amvp_validate_hmac_parm_value_def
        amvp_get_hmac_alg_def store_def store_list_def c_rem_eq_0_iff hmac.sel_iff simp del: locate_Some)
qed

definition hmac_ctx :: AMVP_CTX where
  "hmac_ctx = \<lparr>caps_list = [new_entry AMVP_HMAC_TYPE AMVP_HMAC_SHA1 (Some 7) (Hmac_cap zero_hmac_cap)], vs_count = 1\<rparr>"

theorem hmac_mac_length_cases_witness:
  "exec (\<lambda>_. True) (Hmac_set_parm AMVP_HMAC_SHA1 AMVP_HMAC_MACLEN 168) (Some hmac_ctx) = Ret AMVP_INVALID_ARG (Some hmac_ctx) \<and>
   (\<exists>s'. exec (\<lambda>_. True) (Hmac_set_domain AMVP_HMAC_SHA1 AMVP_HMAC_MACLEN 32 512 8) (Some hmac_ctx) = Ret AMVP_SUCCESS s')"
  using hmac_mac_length_cases [of hmac_ctx AMVP_HMAC_SHA1 "hd (caps_list hmac_ctx)" zero_hmac_cap "\<lambda>_. True" 168 32 512 8]
  by (simp add: hmac_ctx_def new_entry_def hmac_max_mac_def del: exec.simps)

section \<open>Random bit generators\<close>

lemma with_drbg_eq:
  assumes "amvp_locate_cap_entry (Some s) c = Some e" and "cap_data e = Drbg_cap x"
  shows "with_drbg (Some s) c body = Ret (fst (body x)) (Some (put_cap c (Drbg_cap (snd (body x))) s))"
  using assms by (simp add: with_drbg_def case_prod_beta del: locate_Some)

text \<open>
  Setting the range of a length of a generator sets it in the group of the mode that was
  named, created empty if it did not exist, and changes no other group of any mode. When the
  range is refused the group has been created nevertheless; when memory runs out no group has
  changed.
\<close>
theorem drbg_set_length_effect:
  assumes "amvp_locate_cap_entry (Some s) c = Some e" and "cap_data e = Drbg_cap x"
  shows "\<exists>rv x'. exec ok (Drbg_set_length c mode grp p lo step hi) (Some s) = Ret rv (Some (put_cap c (Drbg_cap x') s)) \<and>
    drbg_lookup x' m g =
      (if (m, g) \<noteq> (mode, grp) \<or> rv = AMVP_MALLOC_FAIL then drbg_lookup x m g
       else Some ((case amvp_add_drbg_length_range p lo step hi of Some f \<Rightarrow> if rv = AMVP_SUCCESS then f else (\<lambda>g. g) | None \<Rightarrow> (\<lambda>g. g))
         (case drbg_lookup x mode grp of None \<Rightarrow> zero_drbg_group | Some g \<Rightarrow> g)))"
proof -
  obtain rv x1 where p: "drbg_prepare ok x mode grp = (rv, x1)" by fastforce
  show ?thesis
    using lookup_prepare [OF p] p
    by (auto simp: with_drbg_eq [OF assms] amvp_cap_drbg_set_length_def drbg_set_length_body_def lookup_set_group
        split: option.splits)
qed


definition drbg_ctx :: AMVP_CTX where
  "drbg_ctx = \<lparr>caps_list = [new_entry AMVP_DRBG_TYPE AMVP_HASHDRBG (Some 7) (Drbg_cap zero_drbg_cap)], vs_count = 1\<rparr>"

theorem drbg_set_length_effect_witness:
  "\<exists>x'. exec (\<lambda>_. True) (Drbg_set_length AMVP_HASHDRBG 1 0 AMVP_DRBG_NONCE_LEN 0 8 1024) (Some drbg_ctx) =
      Ret AMVP_INVALID_ARG (Some (put_cap AMVP_HASHDRBG (Drbg_cap x') drbg_ctx)) \<and>
    drbg_lookup x' 1 0 = Some zero_drbg_group \<and> drbg_lookup zero_drbg_cap 1 0 = None"
proof -
  have e: "amvp_locate_cap_entry (Some drbg_ctx) AMVP_HASHDRBG = Some (hd (caps_list drbg_ctx))"
    "cap_data (hd (caps_list drbg_ctx)) = Drbg_cap zero_drbg_cap"
    by (simp_all add: drbg_ctx_def new_entry_def)
  have none: "drbg_lookup zero_drbg_cap 1 0 = None"
    by (simp add: drbg_lookup_def zero_drbg_cap_def amvp_locate_drbg_mode_entry_def)
  have "\<exists>s. exec (\<lambda>_. True) (Drbg_set_length AMVP_HASHDRBG 1 0 AMVP_DRBG_NONCE_LEN 0 8 1024) (Some drbg_ctx) = Ret AMVP_INVALID_ARG s"
    by (simp add: amvp_cap_drbg_set_length_def with_drbg_eq [OF e] drbg_set_length_body_def drbg_prepare_def drbg_prepare_group_def
        amvp_locate_drbg_mode_entry_def zero_drbg_cap_def amvp_create_drbg_mode_entry_def add_mode_def amvp_create_drbg_group_def
        amvp_locate_drbg_group_entry_def locate_group_def drbg_length_max_def)
  then show ?thesis
    using drbg_set_length_effect [OF e, of "\<lambda>_. True" 1 0 AMVP_DRBG_NONCE_LEN 0 8 1024 1 0] none
    by (auto simp: amvp_add_drbg_length_range_def simp del: exec.simps)
qed

section \<open>Prerequisites\<close>

text \<open>
  A prerequisite with a text that is not empty is recorded for a registered cipher exactly
  when memory suffices and the prerequisite is one of those the cipher accepts; it is added at
  the end, and no other entry changes. The entry is marked as having prerequisites even when
  the prerequisite is refused.
\<close>
theorem set_prereq_cases:
  assumes "amvp_locate_cap_entry (Some s) c = Some e" and "v \<noteq> []"
  shows "\<exists>s' rv. exec ok (Set_prereq c a (Some v)) (Some s) = Ret rv (Some s') \<and>
    rv = (if \<not> ok 0 then AMVP_MALLOC_FAIL
          else if a \<in> set (accepted_prereqs_low c @ accepted_prereqs_high c) then AMVP_SUCCESS else AMVP_INVALID_ARG) \<and>
    amvp_locate_cap_entry (Some s') d =
      (if d = c then Some (e\<lparr>cap_has_prereq := 1, cap_prereq_vals := cap_prereq_vals e @
          (if rv = AMVP_SUCCESS then [\<lparr>prereq_alg = a, prereq_val = v\<rparr>] else [])\<rparr>)
       else amvp_locate_cap_entry (Some s) d)"
proof -
  let ?p = "amvp_add_prereq_val ok c (e\<lparr>cap_has_prereq := 1\<rparr>) a v"
  have r: "exec ok (Set_prereq c a (Some v)) (Some s) = Ret (fst ?p) (Some (set_entry c (\<lambda>_. snd ?p) s))"
    using assms by (simp add: amvp_cap_set_prereq_def case_prod_beta min_def del: locate_Some)
  have "cap_cipher (snd ?p) = c"
    using caps.locate_key [OF assms(1)] by (simp add: amvp_add_prereq_val_def Let_def)
  then have l: "amvp_locate_cap_entry (Some (set_entry c (\<lambda>_. snd ?p) s)) d =
      (if d = c then Some (snd ?p) else amvp_locate_cap_entry (Some s) d)"
    using assms(1) by (subst caps.locate_update) (auto simp del: locate_Some)
  show ?thesis
    unfolding r using l by (auto simp: amvp_add_prereq_val_def amvp_validate_prereq_val_def simp del: locate_Some)
qed

theorem set_prereq_cases_witness:
  "\<exists>s' e'. exec (\<lambda>_. True) (Set_prereq AMVP_AES_GCM AMVP_PREREQ_SHA (Some ''same'')) (Some gcm_ctx) = Ret AMVP_INVALID_ARG (Some s') \<and>
    amvp_locate_cap_entry (Some s') AMVP_AES_GCM = Some e' \<and> cap_has_prereq e' = 1 \<and> cap_prereq_vals e' = []"
  using set_prereq_cases [OF gcm_entry(1), of "''same''" "\<lambda>_. True" AMVP_PREREQ_SHA AMVP_AES_GCM]
  by (auto simp: accepted_prereqs_low_def accepted_prereqs_high_def gcm_ctx_def new_entry_def simp del: exec.simps)

end
