(* ===== verification/Json.thy ===== *)
theory Json
  imports Safe_C
begin

text \<open>
  JSON values and the part of the accessors of \<^verbatim>\<open>src/parson.c\<close> that the session uses. A null
  pointer is \<^const>\<open>None\<close>; every accessor takes one and answers with a null pointer or a
  default. The text of a message is turned into a value by a parser that is a parameter of
  the session. Numbers are kept as the integers the callers store them in. Building a value
  allocates; it is modelled as not failing, and strings as short enough and well encoded.
\<close>

datatype JSON_Value =
    JSONNull
  | JSONString string
  | JSONNumber int
  | JSONObject "(string \<times> JSON_Value) list"
  | JSONArray "JSON_Value list"
  | JSONBoolean bool

type_synonym JSON_Object = "(string \<times> JSON_Value) list"
type_synonym JSON_Array = "JSON_Value list"

section \<open>Reading\<close>

definition json_value_get_object :: "JSON_Value option \<Rightarrow> JSON_Object option" where
  "json_value_get_object v = (case v of Some (JSONObject obj) \<Rightarrow> Some obj | _ \<Rightarrow> None)"

definition json_value_get_array :: "JSON_Value option \<Rightarrow> JSON_Array option" where
  "json_value_get_array v = (case v of Some (JSONArray a) \<Rightarrow> Some a | _ \<Rightarrow> None)"

definition json_value_get_string :: "JSON_Value option \<Rightarrow> string option" where
  "json_value_get_string v = (case v of Some (JSONString s) \<Rightarrow> Some s | _ \<Rightarrow> None)"

definition json_value_get_number :: "JSON_Value option \<Rightarrow> int" where
  "json_value_get_number v = (case v of Some (JSONNumber n) \<Rightarrow> n | _ \<Rightarrow> 0)"

definition json_value_get_boolean :: "JSON_Value option \<Rightarrow> int" where
  "json_value_get_boolean v = (case v of Some (JSONBoolean b) \<Rightarrow> if b then 1 else 0 | _ \<Rightarrow> -1)"

abbreviation (input) STRING_NAME_MAX :: nat where "STRING_NAME_MAX \<equiv> 128"

text \<open>
  The search compares lengths, which are cut at \<^const>\<open>STRING_NAME_MAX\<close>, and then the whole names;
  the comparison result starts at 1 and is carried along.
\<close>

primrec json_object_getn_loop :: "JSON_Object \<Rightarrow> string \<Rightarrow> nat \<Rightarrow> int \<Rightarrow> JSON_Value option" where
  "json_object_getn_loop [] name name_len diff = None"
| "json_object_getn_loop (p # rest) name name_len diff =
     (let name_length = strnlen_s (Some (fst p)) STRING_NAME_MAX in
      if name_length \<noteq> name_len then json_object_getn_loop rest name name_len diff
      else let diff' = snd (strcmp_s (Some name) name_len (Some (fst p)) diff) in
        if diff' = 0 then Some (snd p) else json_object_getn_loop rest name name_len diff')"

definition json_object_getn_value :: "JSON_Object \<Rightarrow> string \<Rightarrow> nat \<Rightarrow> JSON_Value option" where
  "json_object_getn_value obj name name_len = json_object_getn_loop obj name name_len 1"

definition json_object_get_value :: "JSON_Object option \<Rightarrow> string \<Rightarrow> JSON_Value option" where
  "json_object_get_value object name =
     (case object of None \<Rightarrow> None
      | Some obj \<Rightarrow> json_object_getn_value obj name (strnlen_s (Some name) STRING_NAME_MAX))"

definition json_object_has_value :: "JSON_Object option \<Rightarrow> string \<Rightarrow> bool" where
  "json_object_has_value object name \<longleftrightarrow> json_object_get_value object name \<noteq> None"

definition json_object_get_string :: "JSON_Object option \<Rightarrow> string \<Rightarrow> string option" where
  "json_object_get_string object name = json_value_get_string (json_object_get_value object name)"

definition json_object_get_number :: "JSON_Object option \<Rightarrow> string \<Rightarrow> int" where
  "json_object_get_number object name = json_value_get_number (json_object_get_value object name)"

definition json_object_get_array :: "JSON_Object option \<Rightarrow> string \<Rightarrow> JSON_Array option" where
  "json_object_get_array object name = json_value_get_array (json_object_get_value object name)"

definition json_object_get_boolean :: "JSON_Object option \<Rightarrow> string \<Rightarrow> int" where
  "json_object_get_boolean object name = json_value_get_boolean (json_object_get_value object name)"

definition json_array_get_count :: "JSON_Array option \<Rightarrow> nat" where
  "json_array_get_count a = (case a of None \<Rightarrow> 0 | Some l \<Rightarrow> length l)"

definition json_array_get_value :: "JSON_Array option \<Rightarrow> nat \<Rightarrow> JSON_Value option" where
  "json_array_get_value a i =
     (case a of None \<Rightarrow> None | Some l \<Rightarrow> if i \<ge> json_array_get_count a then None else Some (l ! i))"

definition json_array_get_string :: "JSON_Array option \<Rightarrow> nat \<Rightarrow> string option" where
  "json_array_get_string a i = json_value_get_string (json_array_get_value a i)"

definition json_array_get_object :: "JSON_Array option \<Rightarrow> nat \<Rightarrow> JSON_Object option" where
  "json_array_get_object a i = json_value_get_object (json_array_get_value a i)"

section \<open>Building\<close>

definition json_object_set_value :: "string \<Rightarrow> JSON_Value option \<Rightarrow> JSON_Object \<Rightarrow> JSON_Object" where
  "json_object_set_value name v obj =
     (case v of None \<Rightarrow> obj
      | Some x \<Rightarrow>
          if json_object_get_value (Some obj) name \<noteq> None
          then update_first (\<lambda>p. snd (strcmp_s (Some (fst p)) STRING_NAME_MAX (Some name) 1) = 0) (\<lambda>p. (fst p, x)) obj
          else obj @ [(take STRING_NAME_MAX name, x)])"

definition json_object_set_string :: "string \<Rightarrow> string option \<Rightarrow> JSON_Object \<Rightarrow> JSON_Object" where
  "json_object_set_string name s = json_object_set_value name (map_option JSONString s)"

definition json_object_set_number :: "string \<Rightarrow> int \<Rightarrow> JSON_Object \<Rightarrow> JSON_Object" where
  "json_object_set_number name n = json_object_set_value name (Some (JSONNumber n))"

definition json_object_set_boolean :: "string \<Rightarrow> int \<Rightarrow> JSON_Object \<Rightarrow> JSON_Object" where
  "json_object_set_boolean name b = json_object_set_value name (Some (JSONBoolean (b \<noteq> 0)))"

text \<open>\<^verbatim>\<open>src/amvp_util.c\<close>: a response is an array whose first element is the object.\<close>

definition amvp_get_obj_from_rsp :: "JSON_Value \<Rightarrow> JSON_Object option" where
  "amvp_get_obj_from_rsp arry_val = json_array_get_object (json_value_get_array (Some arry_val)) 0"

section \<open>Objects as maps\<close>

text \<open>Names that are not empty, shorter than the limit and free of terminators are looked up exactly.\<close>

definition json_name :: "string \<Rightarrow> bool" where
  "json_name s \<longleftrightarrow> s \<noteq> [] \<and> length s < STRING_NAME_MAX \<and> c_string s"

definition json_names :: "JSON_Object \<Rightarrow> bool" where
  "json_names obj \<longleftrightarrow> list_all (\<lambda>p. c_string (fst p)) obj"

lemma json_getn_loop_eq:
  "json_name name \<Longrightarrow> json_names obj \<Longrightarrow> diff \<noteq> 0 \<Longrightarrow>
   json_object_getn_loop obj name (length name) diff = map_of obj name"
proof (induction obj arbitrary: diff)
  case (Cons p obj)
  then have c: "c_string (fst p)" "json_names obj" by (simp_all add: json_names_def)
  have len: "min (length (fst p)) STRING_NAME_MAX = length name \<longleftrightarrow> length (fst p) = length name"
    using Cons.prems(1) by (auto simp: json_name_def min_def)
  have cmp: "snd (strcmp_s (Some name) (length name) (Some (fst p)) diff) = strcmp name (fst p)"
    using Cons.prems(1) by (simp add: strcmp_s_indicator json_name_def RSIZE_MAX_STR_def)
  show ?case
  proof (cases "fst p = name")
    case True
    then show ?thesis using len cmp by (cases p) (simp add: Let_def)
  next
    case False
    then have "strcmp name (fst p) \<noteq> 0"
      using c(1) Cons.prems(1) by (simp add: strcmp_eq_0 json_name_def)
    then show ?thesis
      using False Cons.IH [OF Cons.prems(1) c(2)] Cons.prems(3) len cmp by (cases p) (auto simp: Let_def)
  qed
qed simp

lemma json_object_get_value_eq:
  "json_name name \<Longrightarrow> json_names obj \<Longrightarrow> json_object_get_value (Some obj) name = map_of obj name"
  using json_getn_loop_eq [of name obj 1]
  by (simp add: json_object_get_value_def json_object_getn_value_def json_name_def)

lemma json_object_get_value_None [simp]: "json_object_get_value None name = None"
  by (simp add: json_object_get_value_def)

lemma update_first_key:
  "map_of (update_first (\<lambda>p. fst p = k) (\<lambda>p. (fst p, v)) obj) = (if k \<in> fst ` set obj then (map_of obj)(k \<mapsto> v) else map_of obj)"
  by (induction obj) (auto simp: fun_eq_iff)

text \<open>Setting a name changes what is found under that name, and nothing else.\<close>

lemma json_set_get:
  assumes "json_name name" and "json_names obj"
  shows "map_of (json_object_set_value name (Some v) obj) = (map_of obj)(name \<mapsto> v)"
proof -
  have p: "update_first (\<lambda>p. snd (strcmp_s (Some (fst p)) STRING_NAME_MAX (Some name) 1) = 0) (\<lambda>p. (fst p, v)) obj =
      update_first (\<lambda>p. fst p = name) (\<lambda>p. (fst p, v)) obj"
    using assms
    by (induction obj) (auto simp: strcmp_s_indicator RSIZE_MAX_STR_def strcmp_eq_0 json_name_def json_names_def)
  have t: "take STRING_NAME_MAX name = name" using assms(1) by (simp add: json_name_def)
  show ?thesis
  proof (cases "map_of obj name")
    case None
    then show ?thesis
      using assms by (auto simp: json_object_set_value_def json_object_get_value_eq t map_add_def fun_eq_iff split: option.splits)
  next
    case (Some w)
    then have "name \<in> fst ` set obj" by (force dest: map_of_SomeD)
    with Some show ?thesis
      using assms p by (simp add: json_object_set_value_def json_object_get_value_eq update_first_key)
  qed
qed

lemma json_set_new:
  "json_name name \<Longrightarrow> json_names obj \<Longrightarrow> name \<notin> fst ` set obj \<Longrightarrow> json_object_set_value name (Some v) obj = obj @ [(name, v)]"
  by (auto simp: json_object_set_value_def json_object_get_value_eq json_name_def dest!: map_of_SomeD intro: rev_image_eqI)

lemma json_set_old:
  assumes "json_name name" and "json_names obj" and "name \<in> fst ` set obj"
  shows "json_object_set_value name (Some v) obj = update_first (\<lambda>p. fst p = name) (\<lambda>p. (fst p, v)) obj"
proof -
  have "update_first (\<lambda>p. snd (strcmp_s (Some (fst p)) STRING_NAME_MAX (Some name) 1) = 0) (\<lambda>p. (fst p, v)) obj =
      update_first (\<lambda>p. fst p = name) (\<lambda>p. (fst p, v)) obj"
    using assms(1,2)
    by (induction obj) (auto simp: strcmp_s_indicator RSIZE_MAX_STR_def strcmp_eq_0 json_name_def json_names_def)
  moreover have "map_of obj name \<noteq> None" using assms(3) by (simp add: map_of_eq_None_iff)
  ultimately show ?thesis using assms(1,2) by (simp add: json_object_set_value_def json_object_get_value_eq)
qed

lemma json_names_simps: "json_names []" "json_names (p # obj) \<longleftrightarrow> c_string (fst p) \<and> json_names obj"
  by (simp_all add: json_names_def)

lemma json_names_set: "json_names obj \<Longrightarrow> json_name name \<Longrightarrow> json_names (json_object_set_value name v obj)"
proof -
  assume names: "json_names obj" and name: "json_name name"
  have upd: "json_names (update_first p (\<lambda>q. (fst q, x)) obj)" for p x
  proof -
    have "map fst (update_first p (\<lambda>q. (fst q, x)) obj) = map fst obj" by (rule map_update_first) simp
    with names show ?thesis unfolding json_names_def list.pred_map [of c_string fst, unfolded comp_def, symmetric] by simp
  qed
  show ?thesis
    using names name upd
    by (auto simp: json_object_set_value_def json_name_def json_names_def split: option.splits)
qed

end
