(* ===== verification/Session_Poll.thy ===== *)
theory Session_Poll
  imports Cap_Registry Json
begin

text \<open>
  The retry handler of \<^verbatim>\<open>src/amvp.c\<close> and the loops that ask the server for a vector set until
  it is ready. The network, the file system, the JSON parser, the clock and the handlers that
  work through a vector set are functions of an environment: they take and return the state of
  the session, which holds a part \<open>world\<close> for whatever they keep.
\<close>

section \<open>The state of a session\<close>

text \<open>The fields of the context the session uses, after those of the capability registry.\<close>

record 'w SESSION = AMVP_CTX +
  curl_buf :: "string option"
  vsid_url_list :: "string list"
  session_url :: "string option"
  jwt_token :: "string option"
  is_sample :: int
  vector_req :: int
  vs_id :: int
  kat_resp :: "JSON_Value option"
  session_passed :: int
  log_lvl :: AMVP_LOG_LVL
  do_validation :: int
  registration :: "JSON_Value option"
  world :: 'w

text \<open>
  \<open>net_retrieve\<close>, \<open>net_result\<close> and \<open>net_submit\<close> stand for \<^verbatim>\<open>amvp_retrieve_vector_set\<close>,
  \<^verbatim>\<open>amvp_retrieve_vector_set_result\<close> and \<^verbatim>\<open>amvp_submit_vector_responses\<close>; \<open>file_write\<close> and
  \<open>file_append\<close> for the two functions that write JSON to the request file; \<open>parse_json\<close> for
  \<^verbatim>\<open>json_parse_string\<close>; \<open>mem\<close> says whether the next allocation succeeds.
\<close>

record 'w env =
  net_retrieve :: "string \<Rightarrow> 'w SESSION \<Rightarrow> AMVP_RESULT \<times> 'w SESSION"
  net_result :: "string option \<Rightarrow> 'w SESSION \<Rightarrow> AMVP_RESULT \<times> 'w SESSION"
  net_submit :: "string \<Rightarrow> 'w SESSION \<Rightarrow> AMVP_RESULT \<times> 'w SESSION"
  file_write :: "JSON_Value option \<Rightarrow> 'w SESSION \<Rightarrow> AMVP_RESULT \<times> 'w SESSION"
  file_append :: "JSON_Value option \<Rightarrow> 'w SESSION \<Rightarrow> AMVP_RESULT \<times> 'w SESSION"
  parse_json :: "string \<Rightarrow> JSON_Value option"
  run_handler :: "kat_handler \<Rightarrow> JSON_Object option \<Rightarrow> 'w SESSION \<Rightarrow> AMVP_RESULT \<times> 'w SESSION"
  sleep :: "nat \<Rightarrow> 'w \<Rightarrow> 'w"
  mem :: "'w \<Rightarrow> bool \<times> 'w"

definition json_parse_string :: "'w env \<Rightarrow> 'w SESSION \<Rightarrow> JSON_Value option" where
  "json_parse_string env ctx = (case curl_buf ctx of None \<Rightarrow> None | Some text \<Rightarrow> parse_json env text)"

section \<open>Waiting\<close>

abbreviation (input) AMVP_RETRY_TIME_MIN :: int where "AMVP_RETRY_TIME_MIN \<equiv> 5"
abbreviation (input) AMVP_RETRY_TIME_MAX :: int where "AMVP_RETRY_TIME_MAX \<equiv> 300"
abbreviation (input) AMVP_MAX_WAIT_TIME :: nat where "AMVP_MAX_WAIT_TIME \<equiv> 7200"
abbreviation (input) AMVP_RETRY_TIME :: int where "AMVP_RETRY_TIME \<equiv> 30"
abbreviation (input) AMVP_RETRY_MODIFIER_MAX :: int where "AMVP_RETRY_MODIFIER_MAX \<equiv> 10"

text \<open>
  The sum of the two times is unsigned and wraps at 32 bits. The handler returns its result
  code, the next period, the time waited so far and the seconds it slept.
\<close>

definition amvp_retry_handler :: "int \<Rightarrow> nat \<Rightarrow> int \<Rightarrow> AMVP_RESULT \<times> int \<times> nat \<times> nat" where
  "amvp_retry_handler retry_period waited_so_far modifier =
     (if waited_so_far \<ge> AMVP_MAX_WAIT_TIME then (AMVP_TRANSPORT_FAIL, retry_period, waited_so_far, 0)
      else
        let period1 = (if (int waited_so_far + retry_period) mod 2 ^ 32 > int AMVP_MAX_WAIT_TIME
                       then int AMVP_MAX_WAIT_TIME - int waited_so_far else retry_period);
            period2 = (if period1 \<le> AMVP_RETRY_TIME_MIN \<or> period1 > AMVP_RETRY_TIME_MAX
                       then AMVP_RETRY_TIME_MAX else period1);
            factor = (if modifier < 1 \<or> modifier > AMVP_RETRY_MODIFIER_MAX then 1 else modifier);
            period3 = (if period2 * factor > AMVP_RETRY_TIME_MAX then AMVP_RETRY_TIME_MAX else period2 * factor)
        in (AMVP_KAT_DOWNLOAD_RETRY, period3, waited_so_far + nat period3, nat period2))"

lemma retry_handler_cases:
  assumes "amvp_retry_handler period waited modifier = (rv, period', waited', slept)"
  shows "rv = AMVP_TRANSPORT_FAIL \<and> AMVP_MAX_WAIT_TIME \<le> waited \<and> waited' = waited \<and> slept = 0 \<or>
    rv = AMVP_KAT_DOWNLOAD_RETRY \<and> waited < AMVP_MAX_WAIT_TIME \<and> 5 < period' \<and> period' \<le> 300 \<and>
      waited' = waited + nat period' \<and> 5 < slept \<and> int slept \<le> period'"
proof -
  have "q \<le> q * f \<and> 5 < q * f" if "1 \<le> f" "5 < q" for q f :: int
    using mult_left_mono [of 1 f q] that by linarith
  note m = this [of "if modifier < 1 \<or> modifier > 10 then 1 else modifier"]
  show ?thesis
    using assms m unfolding amvp_retry_handler_def Let_def by (auto split: if_splits)
qed

text \<open>
  A period that the server asks for, waited out with factor 1: the handler sleeps exactly as
  long as it adds to the time waited.
\<close>

lemma retry_handler_step:
  assumes "amvp_retry_handler period waited modifier = (AMVP_KAT_DOWNLOAD_RETRY, period', waited', slept)"
  shows "waited < AMVP_MAX_WAIT_TIME" "waited + 6 \<le> waited'" "waited' \<le> waited + 300" "slept \<le> waited' - waited"
  using retry_handler_cases [OF assms] by auto

lemma retry_decreases:
  assumes "(rv, rest) = amvp_retry_handler period waited modifier" and "(period', rest') = rest"
    and "(waited', slept) = rest'" and "\<not> rv \<noteq> AMVP_KAT_DOWNLOAD_RETRY"
  shows "AMVP_MAX_WAIT_TIME - waited' < AMVP_MAX_WAIT_TIME - waited"
  using assms retry_handler_step(1,2) [of period waited modifier period' waited' slept] by fastforce

section \<open>Polling for a vector set\<close>

text \<open>
  The loop of \<^verbatim>\<open>amvp_process_vsid\<close> and of \<^verbatim>\<open>amvp_process_teid\<close>, which differ in what they do with
  a set that is ready (\<open>ready\<close>, which also tells whether the responses are to be submitted).
  The time waited grows with every round and bounds the rounds.
\<close>

function poll ::
  "'w env \<Rightarrow> string \<Rightarrow> (JSON_Value \<Rightarrow> JSON_Object option \<Rightarrow> 'w SESSION \<Rightarrow> AMVP_RESULT \<times> bool \<times> 'w SESSION) \<Rightarrow>
   nat \<Rightarrow> 'w SESSION \<Rightarrow> AMVP_RESULT \<times> bool \<times> 'w SESSION" where
  "poll env url ready waited ctx =
     (let (rv, ctx1) = net_retrieve env url ctx in
      if rv \<noteq> AMVP_SUCCESS then (rv, False, ctx1)
      else
        case json_parse_string env ctx1 of
          None \<Rightarrow> (AMVP_JSON_ERR, False, ctx1)
        | Some val \<Rightarrow>
            let obj = amvp_get_obj_from_rsp val;
                retry_period = json_object_get_number obj ''retry''
            in if retry_period \<noteq> 0 then
                 (case amvp_retry_handler retry_period waited 1 of
                    (rv', period', waited', slept) \<Rightarrow>
                      if rv' \<noteq> AMVP_KAT_DOWNLOAD_RETRY then (AMVP_TRANSPORT_FAIL, False, ctx1)
                      else poll env url ready waited' (ctx1\<lparr>world := sleep env slept (world ctx1)\<rparr>))
               else ready val obj ctx1)"
  by pat_completeness auto

termination
  by (relation "measure (\<lambda>(env, url, ready, waited, ctx). AMVP_MAX_WAIT_TIME - waited)")
    (simp, simp only: in_measure case_prod_conv, rule retry_decreases)

declare poll.simps [simp del]


section \<open>One vector set\<close>

text \<open>What is written first to the request file: the session and the list of its sets.\<close>

definition session_header :: "string \<Rightarrow> 'w SESSION \<Rightarrow> JSON_Value" where
  "session_header list_name ctx =
     JSONObject
       (json_object_set_value list_name (Some (JSONArray (map JSONString (vsid_url_list ctx))))
         (json_object_set_boolean ''isSample'' (is_sample ctx)
           (json_object_set_string ''url'' (session_url ctx)
             (json_object_set_string ''jwt'' (jwt_token ctx) []))))"

text \<open>Saving a set that is ready: the header before the first one, then the set itself.\<close>

definition save_set ::
  "'w env \<Rightarrow> string \<Rightarrow> nat \<Rightarrow> nat \<Rightarrow> JSON_Value \<Rightarrow> 'w SESSION \<Rightarrow> AMVP_RESULT \<times> 'w SESSION" where
  "save_set env list_name item count val ctx =
     (let set_val = json_array_get_value (json_value_get_array (Some val)) item in
      if count = 0 then
        (let (rv, ctx1) = file_write env (Some (session_header list_name ctx)) ctx in
         if rv \<noteq> AMVP_SUCCESS then (rv, ctx1) else file_append env set_val ctx1)
      else file_append env set_val ctx)"

definition process_ready ::
  "'w env \<Rightarrow> string \<Rightarrow> nat \<Rightarrow> (JSON_Object option \<Rightarrow> 'w SESSION \<Rightarrow> AMVP_RESULT \<times> 'w SESSION) \<Rightarrow> nat \<Rightarrow>
   JSON_Value \<Rightarrow> JSON_Object option \<Rightarrow> 'w SESSION \<Rightarrow> AMVP_RESULT \<times> bool \<times> 'w SESSION" where
  "process_ready env list_name item process count val obj ctx =
     (if vector_req ctx \<noteq> 0 then
        (let (rv, ctx1) = save_set env list_name item count val ctx in (rv, False, ctx1))
      else
        (let (rv, ctx1) = process obj ctx in (rv, rv = AMVP_SUCCESS, ctx1)))"

definition process_set ::
  "'w env \<Rightarrow> string \<Rightarrow> nat \<Rightarrow> (JSON_Object option \<Rightarrow> 'w SESSION \<Rightarrow> AMVP_RESULT \<times> 'w SESSION) \<Rightarrow>
   string \<Rightarrow> nat \<Rightarrow> 'w SESSION \<Rightarrow> AMVP_RESULT \<times> 'w SESSION" where
  "process_set env list_name item process url count ctx =
     (let (rv, submit, ctx1) = poll env url (process_ready env list_name item process count) 0 ctx in
      if submit then net_submit env url ctx1 else (rv, ctx1))"

section \<open>All vector sets\<close>

primrec process_list ::
  "(string \<Rightarrow> nat \<Rightarrow> 'w SESSION \<Rightarrow> AMVP_RESULT \<times> 'w SESSION) \<Rightarrow> string list \<Rightarrow> nat \<Rightarrow> 'w SESSION \<Rightarrow>
   AMVP_RESULT \<times> 'w SESSION" where
  "process_list one [] count ctx = (AMVP_SUCCESS, ctx)"
| "process_list one (url # rest) count ctx =
     (let (rv, ctx1) = one url count ctx in
      if rv \<noteq> AMVP_SUCCESS then (rv, ctx1) else process_list one rest (count + 1) ctx1)"

definition process_all ::
  "'w env \<Rightarrow> (string \<Rightarrow> nat \<Rightarrow> 'w SESSION \<Rightarrow> AMVP_RESULT \<times> 'w SESSION) \<Rightarrow> 'w SESSION option \<Rightarrow>
   AMVP_RESULT \<times> 'w SESSION option" where
  "process_all env one octx =
     (case octx of
        None \<Rightarrow> (AMVP_NO_CTX, None)
      | Some ctx \<Rightarrow>
          if vsid_url_list ctx = [] then (AMVP_MISSING_ARG, Some ctx)
          else
            let (rv, ctx1) = process_list one (vsid_url_list ctx) 0 ctx in
            if rv \<noteq> AMVP_SUCCESS then (rv, Some ctx1)
            else if vector_req ctx1 \<noteq> 0 then
              (let (rv', ctx2) = file_append env None ctx1 in (rv', Some ctx2))
            else (AMVP_SUCCESS, Some ctx1))"


section \<open>Properties of the wait\<close>

text \<open>
  The retry handler gives up exactly when 7200 seconds have been counted. Otherwise it
  sleeps between 6 and 300 seconds, whatever period the server asked for, and counts at least
  the time it slept, so a count below 7200 never grows beyond 7499. The bound of 7200 that its
  description promises is not kept: after 7195 seconds it sleeps for 300 more.
\<close>
theorem retry_handler_bounds:
  "(case amvp_retry_handler period waited modifier of (rv, period', waited', slept) \<Rightarrow>
      if waited < AMVP_MAX_WAIT_TIME
      then rv = AMVP_KAT_DOWNLOAD_RETRY \<and> 6 \<le> slept \<and> slept \<le> 300 \<and> waited + slept \<le> waited' \<and> waited' \<le> 7499
      else rv = AMVP_TRANSPORT_FAIL \<and> slept = 0 \<and> waited' = waited) \<and>
   amvp_retry_handler 100 7195 1 = (AMVP_KAT_DOWNLOAD_RETRY, 300, 7495, 300)"
proof (intro conjI)
  obtain rv period' waited' slept where r: "amvp_retry_handler period waited modifier = (rv, period', waited', slept)"
    by (cases "amvp_retry_handler period waited modifier") auto
  show "case amvp_retry_handler period waited modifier of (rv, period', waited', slept) \<Rightarrow>
      if waited < AMVP_MAX_WAIT_TIME
      then rv = AMVP_KAT_DOWNLOAD_RETRY \<and> 6 \<le> slept \<and> slept \<le> 300 \<and> waited + slept \<le> waited' \<and> waited' \<le> 7499
      else rv = AMVP_TRANSPORT_FAIL \<and> slept = 0 \<and> waited' = waited"
    using retry_handler_cases [OF r] unfolding r by auto
qed (simp add: amvp_retry_handler_def)

text \<open>
  How the environment changes two counters of the world, one of requests and one of seconds
  slept: a download is one request, sleeping adds its seconds, and neither touches the other.
\<close>

definition counts :: "('w \<Rightarrow> nat) \<Rightarrow> ('w \<Rightarrow> nat) \<Rightarrow> 'w env \<Rightarrow> bool" where
  "counts requests slept env \<longleftrightarrow>
     (\<forall>url ctx. requests (world (snd (net_retrieve env url ctx))) = requests (world ctx) + 1 \<and>
        slept (world (snd (net_retrieve env url ctx))) = slept (world ctx)) \<and>
     (\<forall>n w. requests (sleep env n w) = requests w \<and> slept (sleep env n w) = slept w + n)"

text \<open>One round of the loop, with the three ways it can go.\<close>

lemma poll_round:
  assumes "net_retrieve env url ctx = (rv, c1)"
  shows "poll env url ready waited ctx =
    (if rv \<noteq> AMVP_SUCCESS then (rv, False, c1)
     else case json_parse_string env c1 of
       None \<Rightarrow> (AMVP_JSON_ERR, False, c1)
     | Some val \<Rightarrow>
         if json_object_get_number (amvp_get_obj_from_rsp val) ''retry'' = 0
         then ready val (amvp_get_obj_from_rsp val) c1
         else if AMVP_MAX_WAIT_TIME \<le> waited then (AMVP_TRANSPORT_FAIL, False, c1)
         else case amvp_retry_handler (json_object_get_number (amvp_get_obj_from_rsp val) ''retry'') waited 1 of
           (_, _, waited', n) \<Rightarrow> poll env url ready waited' (c1\<lparr>world := sleep env n (world c1)\<rparr>))"
proof -
  have "fst (amvp_retry_handler p waited 1) \<noteq> AMVP_KAT_DOWNLOAD_RETRY \<longleftrightarrow> AMVP_MAX_WAIT_TIME \<le> waited" for p
    by (simp add: amvp_retry_handler_def Let_def)
  then show ?thesis
    using assms by (subst poll.simps) (auto simp: Let_def case_prod_beta split: option.splits)
qed

lemma poll_counts:
  assumes "counts requests slept env"
    and "\<And>val obj c. requests (world (snd (snd (ready val obj c)))) = requests (world c) \<and>
      slept (world (snd (snd (ready val obj c)))) = slept (world c)"
    and "poll env url ready waited ctx = (rv, submit, ctx')"
  shows "6 * requests (world ctx') \<le> 6 * requests (world ctx) + 6 + (7205 - waited) \<and>
    slept (world ctx') \<le> slept (world ctx) + (7499 - waited)"
  using assms(3)
proof (induction "AMVP_MAX_WAIT_TIME - waited" arbitrary: waited ctx rule: less_induct)
  case less
  obtain rv1 c1 where c1: "net_retrieve env url ctx = (rv1, c1)" by fastforce
  then have count: "requests (world c1) = requests (world ctx) + 1" "slept (world c1) = slept (world ctx)"
    using assms(1) unfolding counts_def by (metis snd_conv)+
  consider (stop) "ctx' = c1"
    | (ready) val where "ready val (amvp_get_obj_from_rsp val) c1 = (rv, submit, ctx')"
    | (again) val p w n where "amvp_retry_handler val waited 1 = (AMVP_KAT_DOWNLOAD_RETRY, p, w, n)" "waited < AMVP_MAX_WAIT_TIME"
        "poll env url ready w (c1\<lparr>world := sleep env n (world c1)\<rparr>) = (rv, submit, ctx')"
    using less.prems retry_handler_cases [of _ waited 1]
    unfolding poll_round [OF c1] by (fastforce split: if_splits option.splits prod.splits)
  then show ?case
  proof cases
    case stop
    with count show ?thesis by simp
  next
    case ready
    with count assms(2) show ?thesis by (metis add_le_cancel_left le_add1 le_add2 snd_conv mult_Suc_right Suc_eq_plus1 add.commute)
  next
    case again
    note step = retry_handler_step [OF again(1)]
    let ?c = "c1\<lparr>world := sleep env n (world c1)\<rparr>"
    have "requests (world ?c) = requests (world ctx) + 1" "slept (world ?c) = slept (world ctx) + n"
      using assms(1) count unfolding counts_def by auto
    moreover have "6 * requests (world ctx') \<le> 6 * requests (world ?c) + 6 + (7205 - w) \<and>
        slept (world ctx') \<le> slept (world ?c) + (7499 - w)"
      using less.hyps [OF _ again(3)] step again(2) by linarith
    ultimately show ?thesis using step again(2) by linarith
  qed
qed

text \<open>
  C15: asking for a vector set always ends, whatever the server answers: the loop returns after
  at most 1201 requests and at most 7499 seconds asleep.
\<close>
theorem poll_ends:
  assumes "counts requests slept env"
    and "\<And>val obj c. requests (world (snd (snd (ready val obj c)))) = requests (world c) \<and>
      slept (world (snd (snd (ready val obj c)))) = slept (world c)"
  shows "\<exists>rv submit ctx'. poll env url ready 0 ctx = (rv, submit, ctx') \<and>
    requests (world ctx') \<le> requests (world ctx) + 1201 \<and> slept (world ctx') \<le> slept (world ctx) + 7499"
proof -
  obtain rv submit ctx' where r: "poll env url ready 0 ctx = (rv, submit, ctx')"
    by (cases "poll env url ready 0 ctx") auto
  from poll_counts [OF assms r] r show ?thesis by auto
qed


text \<open>A server that always asks to come back, in a world that counts requests and seconds.\<close>

definition busy_env :: "int \<Rightarrow> (nat \<times> nat) env" where
  "busy_env period =
     \<lparr>net_retrieve = (\<lambda>url ctx. (AMVP_SUCCESS, ctx\<lparr>curl_buf := Some ''busy'', world := (fst (world ctx) + 1, snd (world ctx))\<rparr>)),
      net_result = (\<lambda>url ctx. (AMVP_SUCCESS, ctx)),
      net_submit = (\<lambda>url ctx. (AMVP_SUCCESS, ctx)),
      file_write = (\<lambda>v ctx. (AMVP_SUCCESS, ctx)),
      file_append = (\<lambda>v ctx. (AMVP_SUCCESS, ctx)),
      parse_json = (\<lambda>text. Some (JSONArray [JSONObject [(''retry'', JSONNumber period)]])),
      run_handler = (\<lambda>h obj ctx. (AMVP_SUCCESS, ctx)),
      sleep = (\<lambda>n w. (fst w, snd w + n)),
      mem = (\<lambda>w. (True, w))\<rparr>"

definition init_session :: "'w \<Rightarrow> 'w SESSION" where
  "init_session w =
     \<lparr>caps_list = [], vs_count = 0, curl_buf = None, vsid_url_list = [], session_url = None, jwt_token = None,
      is_sample = 0, vector_req = 0, vs_id = 0, kat_resp = None, session_passed = 0, log_lvl = AMVP_LOG_LVL_ERR,
      do_validation = 0, registration = None, world = w\<rparr>"

theorem poll_ends_witness:
  "\<exists>rv submit ctx'. poll (busy_env 30) ''url'' (\<lambda>val obj c. (AMVP_SUCCESS, False, c)) 0 (init_session (0, 0)) = (rv, submit, ctx') \<and>
     fst (world ctx') \<le> 1201 \<and> snd (world ctx') \<le> 7499"
proof -
  have "counts fst snd (busy_env 30)" by (simp add: counts_def busy_env_def)
  from poll_ends [OF this, where ready = "\<lambda>val obj c. (AMVP_SUCCESS, False, c)" and url = "''url''" and ctx = "init_session (0, 0)"]
  show ?thesis by (simp add: init_session_def)
qed

lemma busy_answers:
  assumes "period \<noteq> 0"
  shows "fst (net_retrieve (busy_env period) url c) = AMVP_SUCCESS \<and>
    (\<exists>val. json_parse_string (busy_env period) (snd (net_retrieve (busy_env period) url c)) = Some val \<and>
       json_object_get_number (amvp_get_obj_from_rsp val) ''retry'' \<noteq> 0)"
  using assms
  by (simp add: busy_env_def json_parse_string_def amvp_get_obj_from_rsp_def json_array_get_object_def json_array_get_value_def
      json_array_get_count_def json_value_get_array_def json_value_get_object_def json_object_get_number_def
      json_value_get_number_def json_object_get_value_eq json_name_def json_names_def c_string_def)

lemma busy_poll:
  assumes busy: "\<And>url c. fst (net_retrieve env url c) = AMVP_SUCCESS \<and>
      (\<exists>val. json_parse_string env (snd (net_retrieve env url c)) = Some val \<and>
         json_object_get_number (amvp_get_obj_from_rsp val) ''retry'' \<noteq> 0)"
  shows "fst (poll env url ready waited ctx) = AMVP_TRANSPORT_FAIL \<and> \<not> fst (snd (poll env url ready waited ctx))"
proof (induction "AMVP_MAX_WAIT_TIME - waited" arbitrary: waited ctx rule: less_induct)
  case less
  obtain rv1 c1 where c1: "net_retrieve env url ctx = (rv1, c1)" by fastforce
  then obtain val where rv1: "rv1 = AMVP_SUCCESS" and val: "json_parse_string env c1 = Some val"
    and p: "json_object_get_number (amvp_get_obj_from_rsp val) ''retry'' \<noteq> 0"
    using busy [of url ctx] by auto
  obtain r q w n where h: "amvp_retry_handler (json_object_get_number (amvp_get_obj_from_rsp val) ''retry'') waited 1 = (r, q, w, n)"
    using prod_cases4 by blast
  show ?case
  proof (cases "AMVP_MAX_WAIT_TIME \<le> waited")
    case False
    then have "r = AMVP_KAT_DOWNLOAD_RETRY" "AMVP_MAX_WAIT_TIME - w < AMVP_MAX_WAIT_TIME - waited"
      using retry_handler_cases [OF h] by auto
    with less.hyps [of w] False show ?thesis by (simp add: poll_round [OF c1] rv1 val p h)
  qed (simp add: poll_round [OF c1] rv1 val p)
qed



section \<open>The order of the sets\<close>

lemma process_list_append:
  "process_list one (xs @ ys) n ctx =
     (let (rv, c1) = process_list one xs n ctx in
      if rv \<noteq> AMVP_SUCCESS then (rv, c1) else process_list one ys (n + length xs) c1)"
  by (induction xs arbitrary: n ctx) (auto simp: case_prod_beta Let_def)

lemma process_all_stops:
  assumes "vsid_url_list ctx = xs @ u # ys" and "process_list one xs 0 ctx = (AMVP_SUCCESS, c1)"
    and "one u (length xs) c1 = (rv, c2)" and "rv \<noteq> AMVP_SUCCESS"
  shows "process_all env one (Some ctx) = (rv, Some c2)"
  using assms by (simp add: process_all_def process_list_append)

end
