(* ===== verification/Session_Dispatch.thy ===== *)
theory Session_Dispatch
  imports Session_Poll Lookup_Tables
begin

text \<open>
  What is done with a vector set or an evidence set that was downloaded (\<^verbatim>\<open>src/amvp.c\<close>): a
  vector set goes to the handler of the algorithm it names, an evidence set is answered from a
  table of automated evidence.
\<close>

section \<open>Vector sets\<close>

text \<open>
  The search through the algorithm table: the row of the first algorithm with the name when
  no mode is given, otherwise of the first with the name and the mode.
\<close>

primrec dispatch_loop :: "AMVP_ALG_HANDLER list \<Rightarrow> string \<Rightarrow> string option \<Rightarrow> int \<Rightarrow> AMVP_ALG_HANDLER option" where
  "dispatch_loop [] alg mode diff = None"
| "dispatch_loop (r # rest) alg mode diff =
     (let diff1 = snd (strcmp_s (Some (alg_name r)) AMVP_ALG_NAME_MAX (Some alg) diff) in
      if diff1 = 0 then
        (case mode of
           None \<Rightarrow> Some r
         | Some m \<Rightarrow>
             if alg_mode r \<noteq> None then
               let diff2 = snd (strcmp_s (alg_mode r) AMVP_ALG_MODE_MAX (Some m) diff1) in
               if diff2 = 0 then Some r else dispatch_loop rest alg mode diff2
             else dispatch_loop rest alg mode diff1)
      else dispatch_loop rest alg mode diff1)"

definition amvp_dispatch_vector_set ::
  "'w env \<Rightarrow> JSON_Object option \<Rightarrow> 'w SESSION \<Rightarrow> AMVP_RESULT \<times> 'w SESSION" where
  "amvp_dispatch_vector_set env obj ctx0 =
     (let alg = json_object_get_string obj ''algorithm'';
          mode = json_object_get_string obj ''mode'';
          ctx = ctx0\<lparr>vs_id := json_object_get_number obj ''vsId''\<rparr>
      in case alg of
           None \<Rightarrow> (AMVP_JSON_ERR, ctx)
         | Some a \<Rightarrow>
             (case dispatch_loop alg_tbl a mode 1 of
                None \<Rightarrow> (AMVP_UNSUPPORTED_OP, ctx)
              | Some r \<Rightarrow> run_handler env (alg_handler r) obj ctx))"

definition amvp_process_vector_set ::
  "'w env \<Rightarrow> JSON_Object option \<Rightarrow> 'w SESSION \<Rightarrow> AMVP_RESULT \<times> 'w SESSION" where
  "amvp_process_vector_set env obj ctx =
     (let (rv, ctx1) = amvp_dispatch_vector_set env obj ctx in
      if rv \<noteq> AMVP_SUCCESS then (rv, ctx1) else (AMVP_SUCCESS, ctx1))"

section \<open>Evidence sets\<close>

definition amvp_evidence_tbl :: "(string \<times> string) list" where
  "amvp_evidence_tbl =
    [(''TE02.20.01'', ''/acvp/v1/validations/41763''),
     (''TE02.20.02'', ''none''),
     (''TE11.16.01'', ''Version X.Y.Z of the module meets the assertion''),
     (''TE04.11.01'', ''<BASE64(table of services.pdf) compliant with SP800-140Br>''),
     (''TE04.11.02'', ''/wwwin.cisco.com/cryptomod/log_te041102_04172023.txt''),
     (''TE10.10.01'', ''Degraded mode not supported, no algorithms can be used...goes directly into SP.''),
     (''TE10.10.02'', ''/wwwin.cisco.com/cryptomod/log_te041102_04172023.txt''),
     (''TE11.08.01'', ''/wwwin.cisco.com/cryptomod/FSM.pdf''),
     (''TE11.08.02'', ''See TE11.08.01'')]"

primrec locate_auto_loop :: "(string \<times> string) list \<Rightarrow> string \<Rightarrow> int \<Rightarrow> string option" where
  "locate_auto_loop [] evidence diff = None"
| "locate_auto_loop (p # rest) evidence diff =
     (let diff' = snd (strcmp_s (Some evidence) (length (fst p)) (Some (fst p)) diff) in
      if diff' = 0 then Some (snd p) else locate_auto_loop rest evidence diff')"

definition amvp_locate_auto_entry :: "string \<Rightarrow> string option" where
  "amvp_locate_auto_entry evidence = locate_auto_loop amvp_evidence_tbl evidence 1"

text \<open>The inner loop: the evidence for the automated requirements of one group, in order.\<close>

primrec ie_tests :: "JSON_Array \<Rightarrow> AMVP_RESULT + JSON_Array" where
  "ie_tests [] = Inr []"
| "ie_tests (t # rest) =
     (case json_value_get_string (Some t) of
        None \<Rightarrow> Inl AMVP_MISSING_ARG
      | Some evidence \<Rightarrow>
          (case amvp_locate_auto_entry evidence of
             None \<Rightarrow> ie_tests rest
           | Some ev \<Rightarrow>
               (case ie_tests rest of
                  Inl rv \<Rightarrow> Inl rv
                | Inr r_tarr \<Rightarrow> Inr (JSONObject (json_object_set_string evidence (Some ev) []) # r_tarr))))"

definition ie_group :: "JSON_Value \<Rightarrow> AMVP_RESULT + JSON_Value" where
  "ie_group groupval =
     (let groupobj = json_value_get_object (Some groupval);
          teId = json_object_get_number groupobj ''teId''
      in if teId = 0 then Inl AMVP_MALFORMED_JSON
         else case json_object_get_array groupobj ''autoTE'' of
                None \<Rightarrow> Inl AMVP_MISSING_ARG
              | Some tests \<Rightarrow>
                  if json_array_get_count (Some tests) = 0 then Inl AMVP_MISSING_ARG
                  else case ie_tests tests of
                         Inl rv \<Rightarrow> Inl rv
                       | Inr r_tarr \<Rightarrow>
                           Inr (JSONObject (json_object_set_value ''evidence'' (Some (JSONArray r_tarr))
                                  (json_object_set_number ''teId'' teId []))))"

primrec ie_groups :: "JSON_Array \<Rightarrow> AMVP_RESULT + JSON_Array" where
  "ie_groups [] = Inr []"
| "ie_groups (g # rest) =
     (case ie_group g of
        Inl rv \<Rightarrow> Inl rv
      | Inr r_gval \<Rightarrow> (case ie_groups rest of Inl rv \<Rightarrow> Inl rv | Inr r_garr \<Rightarrow> Inr (r_gval # r_garr)))"

text \<open>
  The response array is stored in the context before it is filled; it stays empty on an error.
\<close>

definition amvp_dispatch_ie_set :: "JSON_Object option \<Rightarrow> 'w SESSION \<Rightarrow> AMVP_RESULT \<times> 'w SESSION" where
  "amvp_dispatch_ie_set obj ctx0 =
     (let ie_id = json_object_get_number obj ''ievSetsId'';
          ctx = ctx0\<lparr>vs_id := ie_id, kat_resp := Some (JSONArray [])\<rparr>;
          r_vs = json_object_set_number ''ieId'' ie_id []
      in case json_object_get_array obj ''teGroups'' of
           None \<Rightarrow> (AMVP_MISSING_ARG, ctx)
         | Some groups \<Rightarrow>
             (case ie_groups groups of
                Inl rv \<Rightarrow> (rv, ctx)
              | Inr r_garr \<Rightarrow>
                  (AMVP_SUCCESS,
                   ctx\<lparr>kat_resp := Some (JSONArray [JSONObject (json_object_set_value ''teGroups'' (Some (JSONArray r_garr)) r_vs)])\<rparr>)))"

definition amvp_process_ie_set :: "JSON_Object option \<Rightarrow> 'w SESSION \<Rightarrow> AMVP_RESULT \<times> 'w SESSION" where
  "amvp_process_ie_set obj ctx =
     (let (rv, ctx1) = amvp_dispatch_ie_set obj ctx in
      if rv \<noteq> AMVP_SUCCESS then (rv, ctx1) else (AMVP_SUCCESS, ctx1))"

section \<open>The two kinds of sets, one at a time and all of them\<close>

definition amvp_process_vsid :: "'w env \<Rightarrow> string \<Rightarrow> nat \<Rightarrow> 'w SESSION \<Rightarrow> AMVP_RESULT \<times> 'w SESSION" where
  "amvp_process_vsid env = process_set env ''vectorSetUrls'' 1 (amvp_process_vector_set env)"

definition amvp_process_teid :: "'w env \<Rightarrow> string \<Rightarrow> nat \<Rightarrow> 'w SESSION \<Rightarrow> AMVP_RESULT \<times> 'w SESSION" where
  "amvp_process_teid env = process_set env ''ieSetsId'' 0 amvp_process_ie_set"

definition amvp_process_tests :: "'w env \<Rightarrow> 'w SESSION option \<Rightarrow> AMVP_RESULT \<times> 'w SESSION option" where
  "amvp_process_tests env = process_all env (amvp_process_vsid env)"

definition amvp_process_amvp_tes :: "'w env \<Rightarrow> 'w SESSION option \<Rightarrow> AMVP_RESULT \<times> 'w SESSION option" where
  "amvp_process_amvp_tes env = process_all env (amvp_process_teid env)"

section \<open>Dispatch and the lookup tables\<close>

lemma dispatch_loop_find:
  assumes "c_string a" and "pred_option c_string mode"
    and "list_all (\<lambda>r. c_string (alg_name r) \<and> pred_option c_string (alg_mode r)) rows"
  shows "dispatch_loop rows a mode diff =
    find (\<lambda>r. alg_name r = a \<and> (mode = None \<or> alg_mode r = mode)) rows"
  using assms(3)
proof (induction rows arbitrary: diff)
  case (Cons r rows)
  then show ?case
    using assms(1,2)
    by (cases mode; cases "alg_mode r")
      (auto simp: strcmp_s_indicator strcmp_eq_0 AMVP_ALG_NAME_MAX_def AMVP_ALG_MODE_MAX_def
        RSIZE_MAX_STR_def Let_def)
qed simp

lemma alg_tbl_c_strings: "list_all (\<lambda>r. c_string (alg_name r) \<and> pred_option c_string (alg_mode r)) alg_tbl"
  using alg_tbl_strings by (auto simp: list_all_iff option.pred_set elem_set split: option.splits)

lemma find_pair_map_of:
  "map_of (map (\<lambda>r. (f r, g r)) rows) a = map_option g (find (\<lambda>r. f r = a) rows)"
  by (induction rows) auto

lemma find_row: "find P alg_tbl = Some r \<Longrightarrow> 1 \<le> alg_cipher r \<and> alg_cipher r < AMVP_CIPHER_END \<and> alg_tbl ! (alg_cipher r - 1) = r"
proof -
  assume "find P alg_tbl = Some r"
  then have "r \<in> set alg_tbl" by (auto simp: find_Some_iff)
  then obtain i where i: "i < length alg_tbl" "r = alg_tbl ! i" by (auto simp: in_set_conv_nth)
  then have "alg_cipher r = i + 1"
    using alg_tbl_nth_cipher [of "i + 1"] by (simp add: alg_tbl_length AMVP_ALG_MAX_def)
  with i show ?thesis by (simp add: alg_tbl_length AMVP_ALG_MAX_def)
qed

text \<open>The cipher the lookups of the table give for a name and an optional mode.\<close>

definition named_cipher :: "string \<Rightarrow> string option \<Rightarrow> AMVP_CIPHER" where
  "named_cipher a mode =
     (case mode of None \<Rightarrow> amvp_lookup_cipher_index (Some a)
      | Some m \<Rightarrow> amvp_lookup_cipher_w_mode_index (Some a) (Some m))"

lemma named_cipher_find:
  assumes "c_string a" and "pred_option c_string mode"
  shows "named_cipher a mode =
    (case find (\<lambda>r. alg_name r = a \<and> (mode = None \<or> alg_mode r = mode)) alg_tbl of None \<Rightarrow> 0 | Some r \<Rightarrow> alg_cipher r)"
proof (cases mode)
  case None
  then show ?thesis
    using assms(1)
    by (simp add: named_cipher_def amvp_lookup_cipher_index_def alg_names.find_name_eq comp_def find_pair_map_of
        split: option.splits)
next
  case (Some m)
  have "list_all (\<lambda>r. c_string (alg_name r) \<and> (case alg_mode r of None \<Rightarrow> True | Some k \<Rightarrow> c_string k)) alg_tbl"
    using alg_tbl_c_strings by (auto simp: list_all_iff option.pred_set split: option.splits)
  with Some assms show ?thesis
    by (simp add: named_cipher_def amvp_lookup_cipher_w_mode_index_def cipher_w_mode_loop_eq key_of_def)
qed

lemma lookup_index_row:
  assumes "map_option alg_cipher (find (\<lambda>r. alg_name r = a) alg_tbl) = Some c" and "c_string a"
  shows "amvp_lookup_cipher_index (Some a) = c"
  using assms named_cipher_find [of a None] by (auto simp: named_cipher_def)

lemma dispatch_eq:
  assumes "json_object_get_string obj ''algorithm'' = Some a" and "json_object_get_string obj ''mode'' = mode"
    and "c_string a" and "pred_option c_string mode"
  shows "amvp_dispatch_vector_set env obj ctx =
    (let c = (case mode of None \<Rightarrow> amvp_lookup_cipher_index (Some a)
              | Some m \<Rightarrow> amvp_lookup_cipher_w_mode_index (Some a) (Some m));
         ctx1 = ctx\<lparr>vs_id := json_object_get_number obj ''vsId''\<rparr>
     in if c = 0 then (AMVP_UNSUPPORTED_OP, ctx1) else run_handler env (alg_handler (alg_tbl ! (c - 1))) obj ctx1)"
proof -
  let ?f = "find (\<lambda>r. alg_name r = a \<and> (mode = None \<or> alg_mode r = mode)) alg_tbl"
  have "dispatch_loop alg_tbl a mode 1 = ?f"
    by (rule dispatch_loop_find [OF assms(3,4) alg_tbl_c_strings])
  moreover have "(case mode of None \<Rightarrow> amvp_lookup_cipher_index (Some a)
      | Some m \<Rightarrow> amvp_lookup_cipher_w_mode_index (Some a) (Some m)) = (case ?f of None \<Rightarrow> 0 | Some r \<Rightarrow> alg_cipher r)"
    using named_cipher_find [OF assms(3,4)] by (simp add: named_cipher_def)
  ultimately show ?thesis
    using assms(1,2) by (auto simp: amvp_dispatch_vector_set_def Let_def dest: find_row split: option.splits)
qed

section \<open>Properties\<close>

text \<open>
  C32: a vector set goes to the handler of exactly the algorithm that the lookups of the table
  give for its name, or for its name and mode when it has a mode; when they find none the
  operation is reported as unsupported, and no handler runs.
\<close>
theorem dispatch_agrees_with_lookup:
  assumes "json_object_get_string obj ''algorithm'' = Some a" and "json_object_get_string obj ''mode'' = mode"
    and "c_string a" and "pred_option c_string mode"
  shows "amvp_dispatch_vector_set env obj ctx =
    (let c = (case mode of None \<Rightarrow> amvp_lookup_cipher_index (Some a)
              | Some m \<Rightarrow> amvp_lookup_cipher_w_mode_index (Some a) (Some m));
         ctx1 = ctx\<lparr>vs_id := json_object_get_number obj ''vsId''\<rparr>
     in if c = 0 then (AMVP_UNSUPPORTED_OP, ctx1) else run_handler env (alg_handler (alg_tbl ! (c - 1))) obj ctx1)"
  by (rule dispatch_eq [OF assms])

theorem dispatch_agrees_with_lookup_witness:
  "amvp_dispatch_vector_set (busy_env 1) (Some [(''algorithm'', JSONString ''no such''), (''vsId'', JSONNumber 3)]) (init_session (0, 0)) =
     (AMVP_UNSUPPORTED_OP, (init_session (0, 0))\<lparr>vs_id := 3\<rparr>)"
proof -
  let ?obj = "[(''algorithm'', JSONString ''no such''), (''vsId'', JSONNumber 3)]"
  have obj: "json_names ?obj" by (simp add: json_names_def c_string_def)
  have names: "json_name ''algorithm''" "json_name ''mode''" "json_name ''vsId''"
    by (simp_all add: json_name_def c_string_def)
  note get = names [THEN json_object_get_value_eq, OF obj]
  have "list_all (\<lambda>r. alg_name r \<noteq> ''no such'') alg_tbl" by code_simp
  then have "find (\<lambda>r. alg_name r = ''no such'' \<and> (None = None \<or> alg_mode r = None)) alg_tbl = None"
    by (auto simp: find_None_iff list_all_iff)
  then have "amvp_lookup_cipher_index (Some ''no such'') = 0"
    using named_cipher_find [of "''no such''" None] by (simp add: named_cipher_def c_string_def)
  with dispatch_agrees_with_lookup [of "Some ?obj" "''no such''" None "busy_env 1" "init_session (0, 0)"] show ?thesis
    using get by (simp add: json_object_get_string_def json_value_get_string_def json_object_get_number_def
        json_value_get_number_def c_string_def)
qed

lemma locate_auto_eq: "c_string e \<Longrightarrow> amvp_locate_auto_entry e = map_of amvp_evidence_tbl e"
proof -
  assume e: "c_string e"
  have "locate_auto_loop tbl e d = map_of tbl e" if "list_all (\<lambda>p. c_string (fst p) \<and> fst p \<noteq> [] \<and> length (fst p) \<le> 10) tbl" for tbl d
    using that
  proof (induction tbl arbitrary: d)
    case (Cons p tbl)
    then have "snd (strcmp_s (Some e) (length (fst p)) (Some (fst p)) d) = strcmp e (fst p)"
      by (intro strcmp_s_indicator) (auto simp: RSIZE_MAX_STR_def)
    with Cons e show ?case by (cases p) (auto simp: strcmp_eq_0)
  qed simp
  moreover have "list_all (\<lambda>p. c_string (fst p) \<and> fst p \<noteq> [] \<and> length (fst p) \<le> 10) amvp_evidence_tbl" by code_simp
  ultimately show ?thesis by (simp add: amvp_locate_auto_entry_def)
qed

text \<open>The evidence set as the pairs of an identifier and its requirements, and its answer.\<close>

definition group_request :: "int \<times> string list \<Rightarrow> JSON_Value" where
  "group_request g = JSONObject [(''teId'', JSONNumber (fst g)), (''autoTE'', JSONArray (map JSONString (snd g)))]"

definition automated :: "string list \<Rightarrow> (string \<times> string) list" where
  "automated tes = [(t, the (map_of amvp_evidence_tbl t)). t \<leftarrow> tes, map_of amvp_evidence_tbl t \<noteq> None]"

definition group_answer :: "int \<times> string list \<Rightarrow> JSON_Value" where
  "group_answer g =
     JSONObject [(''teId'', JSONNumber (fst g)),
       (''evidence'', JSONArray (map (\<lambda>(t, e). JSONObject [(t, JSONString e)]) (automated (snd g))))]"

lemma evidence_names: "map_of amvp_evidence_tbl t = Some e \<Longrightarrow> length t = 10"
proof -
  have "list_all (\<lambda>p. length (fst p) = 10) amvp_evidence_tbl" by code_simp
  then show "map_of amvp_evidence_tbl t = Some e \<Longrightarrow> length t = 10"
    by (auto simp: list_all_iff dest!: map_of_SomeD)
qed

lemma ie_tests_eq:
  "list_all c_string tes \<Longrightarrow>
   ie_tests (map JSONString tes) = Inr (map (\<lambda>(t, e). JSONObject [(t, JSONString e)]) (automated tes))"
proof (induction tes)
  case (Cons t tes)
  then show ?case
    by (cases "map_of amvp_evidence_tbl t")
      (auto simp: automated_def json_value_get_string_def locate_auto_eq json_object_set_string_def json_object_set_value_def
        json_object_get_value_def json_object_getn_value_def evidence_names)
qed (simp add: automated_def)

lemma json_names_literals:
  "json_name ''teId''" "json_name ''autoTE''" "json_name ''evidence''" "json_name ''teGroups''" "json_name ''ieId''"
  "json_name ''ievSetsId''"
  by (simp_all add: json_name_def c_string_def)

lemma ie_group_eq:
  assumes "fst g \<noteq> 0" and "snd g \<noteq> []" and "list_all c_string (snd g)"
  shows "ie_group (group_request g) = Inr (group_answer g)"
proof -
  have n: "json_names [(''teId'', JSONNumber (fst g)), (''autoTE'', JSONArray (map JSONString (snd g)))]"
    "json_names [(''teId'', JSONNumber (fst g))]" "json_names []"
    by (simp_all add: json_names_def c_string_def)
  show ?thesis
    using assms
    by (simp add: ie_group_def group_request_def group_answer_def json_value_get_object_def json_object_get_number_def
        json_object_get_array_def json_object_get_value_eq json_names_literals n json_value_get_number_def
        json_value_get_array_def json_array_get_count_def ie_tests_eq json_object_set_number_def json_object_set_value_def)
qed

lemma ie_groups_eq:
  "list_all (\<lambda>g. fst g \<noteq> 0 \<and> snd g \<noteq> [] \<and> list_all c_string (snd g)) gs \<Longrightarrow>
   ie_groups (map group_request gs) = Inr (map group_answer gs)"
  by (induction gs) (auto simp: ie_group_eq)



text \<open>
  The vector sets of a session are worked through in the order the server listed them, and
  the first that fails ends the work: its result is the result of the whole, and no later set
  is touched.
\<close>
theorem process_tests_stops:
  assumes "vsid_url_list ctx = xs @ u # ys" and "process_list (amvp_process_vsid env) xs 0 ctx = (AMVP_SUCCESS, c1)"
    and "amvp_process_vsid env u (length xs) c1 = (rv, c2)" and "rv \<noteq> AMVP_SUCCESS"
  shows "amvp_process_tests env (Some ctx) = (rv, Some c2)"
  unfolding amvp_process_tests_def by (rule process_all_stops [OF assms])

theorem process_tests_stops_witness:
  "\<exists>c2. amvp_process_tests (busy_env 9) (Some ((init_session (0, 0))\<lparr>vsid_url_list := [''a'', ''b'']\<rparr>)) =
     (AMVP_TRANSPORT_FAIL, Some c2)"
proof -
  let ?c = "(init_session (0, 0))\<lparr>vsid_url_list := [''a'', ''b'']\<rparr>"
  let ?r = "process_ready (busy_env 9) ''vectorSetUrls'' 1 (amvp_process_vector_set (busy_env 9)) 0"
  have "fst (poll (busy_env 9) ''a'' ?r 0 ?c) = AMVP_TRANSPORT_FAIL \<and> \<not> fst (snd (poll (busy_env 9) ''a'' ?r 0 ?c))"
    by (rule busy_poll) (rule busy_answers, simp)
  then have "fst (amvp_process_vsid (busy_env 9) ''a'' 0 ?c) = AMVP_TRANSPORT_FAIL"
    by (simp add: amvp_process_vsid_def process_set_def case_prod_beta)
  then obtain c2 where "amvp_process_vsid (busy_env 9) ''a'' (length ([] :: string list)) ?c = (AMVP_TRANSPORT_FAIL, c2)"
    by (cases "amvp_process_vsid (busy_env 9) ''a'' 0 ?c") auto
  from process_tests_stops [where xs = "[]" and ys = "[''b'']", OF _ _ this] show ?thesis by simp
qed

end
