(* ===== verification/Session_Results.thy ===== *)
theory Session_Results
  imports Session_Dispatch Util_Lists
begin

text \<open>
  What the library reads from the answers of the server (\<^verbatim>\<open>src/amvp.c\<close>): the token of the
  login, the list of sets of a new session, and the results of a session, for which it asks
  until all sets are complete.
\<close>

section \<open>Memory\<close>

definition calloc :: "'w env \<Rightarrow> 'w SESSION \<Rightarrow> bool \<times> 'w SESSION" where
  "calloc env ctx = (let (b, w) = mem env (world ctx) in (b, ctx\<lparr>world := w\<rparr>))"

text \<open>What \<^verbatim>\<open>strcpy_s\<close> leaves in a fresh, zeroed buffer for \<open>max_len\<close> characters and a terminator.\<close>

definition fresh_copy :: "nat \<Rightarrow> string \<Rightarrow> string" where
  "fresh_copy max_len s =
     (case strcpy_s (Some (replicate (max_len + 1) NUL)) (max_len + 1) (Some s) of
        Inr (_, Some buf) \<Rightarrow> cstr buf
      | _ \<Rightarrow> [])"

lemma fresh_copy_eq: "c_string s \<Longrightarrow> fresh_copy n s = (if length s \<le> n then s else [])"
proof -
  assume s: "c_string s"
  have "cstr (replicate (Suc k) NUL) = []" for k by (simp add: cstr_def)
  then show ?thesis
    using cstr_append_NUL [OF s, of "replicate (n - length s) NUL"]
    by (auto simp: fresh_copy_def strcpy_s_def strnlen_def put_bytes_def Suc_diff_le split: if_splits)
qed

abbreviation (input) AMVP_JWT_TOKEN_MAX :: nat where "AMVP_JWT_TOKEN_MAX \<equiv> 2048"
abbreviation (input) AMVP_REQUEST_STR_LEN_MAX :: nat where "AMVP_REQUEST_STR_LEN_MAX \<equiv> 128"

section \<open>The answers to login and registration\<close>

definition amvp_append_vsid_url :: "'w env \<Rightarrow> string \<Rightarrow> 'w SESSION \<Rightarrow> AMVP_RESULT \<times> 'w SESSION" where
  "amvp_append_vsid_url env vsid_url ctx =
     (let (ok1, ctx1) = calloc env ctx in
      if \<not> ok1 then (AMVP_MALLOC_FAIL, ctx1)
      else let (ok2, ctx2) = calloc env ctx1 in
        if \<not> ok2 then (AMVP_MALLOC_FAIL, ctx2)
        else (AMVP_SUCCESS, ctx2\<lparr>vsid_url_list := vsid_url_list ctx2 @ [fresh_copy AMVP_ATTR_URL_MAX vsid_url]\<rparr>))"

definition amvp_parse_login :: "'w env \<Rightarrow> 'w SESSION \<Rightarrow> AMVP_RESULT \<times> 'w SESSION" where
  "amvp_parse_login env ctx =
     (case json_parse_string env ctx of
        None \<Rightarrow> (AMVP_JSON_ERR, ctx)
      | Some val \<Rightarrow>
          (case json_object_get_string (amvp_get_obj_from_rsp val) ''accessToken'' of
             None \<Rightarrow> (AMVP_JWT_MISSING, ctx)
           | Some jwt \<Rightarrow>
               if strnlen_s (Some jwt) (AMVP_JWT_TOKEN_MAX + 1) > AMVP_JWT_TOKEN_MAX then (AMVP_JWT_INVALID, ctx)
               else let (ok, ctx1) = calloc env ctx in
                 (AMVP_SUCCESS,
                  ctx1\<lparr>jwt_token := if ok then Some (fresh_copy AMVP_JWT_TOKEN_MAX jwt) else None\<rparr>)))"

text \<open>An element of the list that is not a string ends the loop without an error.\<close>

primrec register_urls :: "'w env \<Rightarrow> JSON_Array \<Rightarrow> 'w SESSION \<Rightarrow> AMVP_RESULT \<times> 'w SESSION" where
  "register_urls env [] ctx = (AMVP_SUCCESS, ctx)"
| "register_urls env (v # rest) ctx =
     (case json_value_get_string (Some v) of
        None \<Rightarrow> (AMVP_SUCCESS, ctx)
      | Some url \<Rightarrow>
          let (rv, ctx1) = amvp_append_vsid_url env url ctx in
          if rv \<noteq> AMVP_SUCCESS then (rv, ctx1) else register_urls env rest ctx1)"

text \<open>
  The answers to a registration and to a module certificate request differ in the name of the
  list. The allocation for the session's address is not checked; the token goes into the
  buffer that login allocated, if there is one.
\<close>

definition parse_register :: "string \<Rightarrow> 'w env \<Rightarrow> 'w SESSION \<Rightarrow> AMVP_RESULT \<times> 'w SESSION" where
  "parse_register list_name env ctx =
     (case json_parse_string env ctx of
        None \<Rightarrow> (AMVP_JSON_ERR, ctx)
      | Some val \<Rightarrow>
          let obj = amvp_get_obj_from_rsp val in
          (case json_object_get_string obj ''url'' of
             None \<Rightarrow> (AMVP_JSON_ERR, ctx)
           | Some url \<Rightarrow>
               let (ok, ctx1) = calloc env ctx;
                   ctx2 = ctx1\<lparr>session_url := if ok then Some (fresh_copy AMVP_ATTR_URL_MAX url) else None\<rparr>
               in (case json_object_get_string obj ''accessToken'' of
                     None \<Rightarrow> (AMVP_JSON_ERR, ctx2)
                   | Some token \<Rightarrow>
                       if strnlen_s (Some token) (AMVP_JWT_TOKEN_MAX + 1) > AMVP_JWT_TOKEN_MAX
                       then (AMVP_JWT_INVALID, ctx2)
                       else
                         let ctx3 = ctx2\<lparr>jwt_token := map_option (\<lambda>_. fresh_copy AMVP_JWT_TOKEN_MAX token) (jwt_token ctx2)\<rparr>
                         in (case json_object_get_array obj list_name of
                               None \<Rightarrow> (AMVP_SUCCESS, ctx3)
                             | Some sets \<Rightarrow> register_urls env sets ctx3))))"

definition amvp_parse_test_session_register :: "'w env \<Rightarrow> 'w SESSION \<Rightarrow> AMVP_RESULT \<times> 'w SESSION" where
  "amvp_parse_test_session_register = parse_register ''vectorSetUrls''"

definition amvp_parse_mod_cert_req :: "'w env \<Rightarrow> 'w SESSION \<Rightarrow> AMVP_RESULT \<times> 'w SESSION" where
  "amvp_parse_mod_cert_req = parse_register ''crUrls''"

section \<open>The results of a session\<close>

text \<open>
  The local variables of the loop over the results. The pointer to the mode survives an
  iteration, the message it points into does not: \<open>rs_freed\<close> tells that it was freed.
\<close>

record 'w results =
  rs_ctx :: "'w SESSION"
  rs_rv :: AMVP_RESULT
  rs_vs :: "string list"
  rs_algs :: "string list"
  rs_modes :: "string list"
  rs_mode :: "string option"
  rs_freed :: bool
  rs_completed :: nat

text \<open>How an iteration ends: on to the next, out of the loop, out of the function, or undefined.\<close>

datatype 'w exit = Next "'w results" | Break "'w results" | End AMVP_RESULT "'w SESSION" | Crash ub

definition append_str :: "'w env \<Rightarrow> string list \<Rightarrow> string option \<Rightarrow> 'w SESSION \<Rightarrow> AMVP_RESULT \<times> string list \<times> 'w SESSION" where
  "append_str env l s ctx =
     (let (ok1, ctx1) = calloc env ctx;
          (ok2, ctx2) = (if ok1 then calloc env ctx1 else (False, ctx1));
          (rv, l') = amvp_append_str_list (\<lambda>i. if i = 0 then ok1 else ok2) (Some l) s
      in (rv, the l', ctx2))"

text \<open>
  Naming the algorithm of a set that failed, once its vector set was downloaded; the flag says
  whether the end of the iteration is reached. A mode left from an earlier set is used when
  this set has none.
\<close>

definition name_failed :: "'w env \<Rightarrow> JSON_Object option \<Rightarrow> 'w results \<Rightarrow> ub + ('w results \<times> bool)" where
  "name_failed env obj2 st =
     (case json_object_get_string obj2 ''algorithm'' of
        None \<Rightarrow> Inr (st, False)
      | Some alg \<Rightarrow>
          let new = json_object_get_string obj2 ''mode'';
              mode = (if new \<noteq> None then new else rs_mode st);
              dangling = (new = None \<and> rs_mode st \<noteq> None \<and> rs_freed st);
              known = amvp_lookup_str_list (Some (rs_algs st)) (Some alg);
              st1 = st\<lparr>rs_mode := mode, rs_freed := (if new \<noteq> None then False else rs_freed st)\<rparr>
          in if known \<and> dangling then Inl Freed_Memory
             else if \<not> known \<or> \<not> amvp_lookup_str_list (Some (rs_modes st)) mode then
               let (rv1, algs, ctx1) = append_str env (rs_algs st) (Some alg) (rs_ctx st);
                   st2 = st1\<lparr>rs_rv := rv1, rs_algs := algs, rs_ctx := ctx1\<rparr>
               in if rv1 \<noteq> AMVP_SUCCESS then Inr (st2, False)
                  else if dangling then Inl Freed_Memory
                  else let (rv2, modes, ctx2) = append_str env (rs_modes st) (if mode \<noteq> None then mode else Some []) ctx1;
                           st3 = st2\<lparr>rs_rv := rv2, rs_modes := modes, rs_ctx := ctx2\<rparr>
                       in if rv2 \<noteq> AMVP_SUCCESS then Inr (st3, False)
                          else Inr (st3\<lparr>rs_freed := (if new \<noteq> None then True else rs_freed st3)\<rparr>, True)
             else Inr (st1\<lparr>rs_freed := (if new \<noteq> None then True else rs_freed st1)\<rparr>, True))"

text \<open>A set that failed: its vector set is downloaded once, to learn the name of its algorithm.\<close>

definition failed_set :: "'w env \<Rightarrow> string \<Rightarrow> 'w results \<Rightarrow> ub + ('w results \<times> bool)" where
  "failed_set env vsurl st =
     (if amvp_lookup_str_list (Some (rs_vs st)) (Some vsurl) then Inr (st, True)
      else
        let (rv, vs, ctx1) = append_str env (rs_vs st) (Some vsurl) (rs_ctx st);
            st1 = st\<lparr>rs_rv := rv, rs_vs := vs, rs_ctx := ctx1\<rparr>
        in if rv \<noteq> AMVP_SUCCESS then Inr (st1, False)
           else let (ok, ctx2) = calloc env ctx1 in
             if \<not> ok then Inr (st1\<lparr>rs_ctx := ctx2\<rparr>, False)
             else let (rv2, ctx3) = net_retrieve env (take AMVP_REQUEST_STR_LEN_MAX vsurl) ctx2;
                      st2 = st1\<lparr>rs_rv := rv2, rs_ctx := ctx3\<rparr>
                  in if rv2 \<noteq> AMVP_SUCCESS then Inr (st2, False)
                     else case json_parse_string env ctx3 of
                            None \<Rightarrow> Inr (st2, False)
                          | Some val2 \<Rightarrow>
                              (case amvp_get_obj_from_rsp val2 of
                                 None \<Rightarrow> Inr (st2, False)
                               | Some obj2 \<Rightarrow> name_failed env (Some obj2) st2))"

definition status_is :: "string \<Rightarrow> string \<Rightarrow> bool" where
  "status_is name status \<longleftrightarrow> snd (strcmp_s (Some name) (length name) (Some status) 1) = 0"

definition result_item :: "'w env \<Rightarrow> JSON_Value \<Rightarrow> 'w results \<Rightarrow> 'w exit" where
  "result_item env v st =
     (let current = json_value_get_object (Some v) in
      case json_object_get_string current ''status'' of
        None \<Rightarrow> End (rs_rv st) (rs_ctx st)
      | Some status \<Rightarrow>
          if status_is ''expired'' status then End (rs_rv st) (rs_ctx st)
          else if status_is ''unreceived'' status then End (rs_rv st) (rs_ctx st)
          else if status_is ''incomplete'' status then Next st
          else if status_is ''fail'' status then
            (case json_object_get_string current ''vectorSetUrl'' of
               None \<Rightarrow> Break st
             | Some vsurl \<Rightarrow>
                 (case failed_set env vsurl st of
                    Inl u \<Rightarrow> Crash u
                  | Inr (st1, reached) \<Rightarrow>
                      if reached then Next (st1\<lparr>rs_completed := rs_completed st1 + 1\<rparr>) else Next st1))
          else Next (st\<lparr>rs_completed := rs_completed st + 1\<rparr>))"

primrec result_loop :: "'w env \<Rightarrow> JSON_Array \<Rightarrow> 'w results \<Rightarrow> 'w exit" where
  "result_loop env [] st = Next st"
| "result_loop env (v # rest) st =
     (case result_item env v st of
        Next st1 \<Rightarrow> result_loop env rest st1
      | e \<Rightarrow> e)"

text \<open>The second loop, after a session that did not pass: details of the failures when logging is verbose.\<close>

primrec report_loop :: "'w env \<Rightarrow> JSON_Array \<Rightarrow> AMVP_RESULT \<Rightarrow> 'w SESSION \<Rightarrow> AMVP_RESULT \<times> 'w SESSION" where
  "report_loop env [] rv ctx = (rv, ctx)"
| "report_loop env (v # rest) rv ctx =
     (let current = json_value_get_object (Some v) in
      case json_object_get_string current ''status'' of
        None \<Rightarrow> (rv, ctx)
      | Some status \<Rightarrow>
          if (status_is ''fail'' status \<or> status_is ''error'' status) \<and> log_lvl ctx = AMVP_LOG_LVL_VERBOSE then
            let (rv1, ctx1) = net_result env (json_object_get_string current ''vectorSetUrl'') ctx in
            if rv1 \<noteq> AMVP_SUCCESS then (rv1, ctx1) else report_loop env rest rv1 ctx1
          else report_loop env rest rv ctx)"

text \<open>The rest of a round, when the loop over the results was left with the state \<open>st\<close>; \<open>Inr\<close> asks for another round.\<close>

definition after_results ::
  "'w env \<Rightarrow> JSON_Object \<Rightarrow> JSON_Array \<Rightarrow> int \<Rightarrow> nat \<Rightarrow> 'w results \<Rightarrow>
   (AMVP_RESULT \<times> 'w SESSION) + (int \<times> nat \<times> 'w results)" where
  "after_results env obj results retry_interval waited st =
     (if rs_completed st \<ge> length results then
        (if json_object_get_boolean (Some obj) ''passed'' = 1
         then Inl (AMVP_SUCCESS, (rs_ctx st)\<lparr>session_passed := 1\<rparr>)
         else Inl (report_loop env results (rs_rv st) (rs_ctx st)))
      else
        (case amvp_retry_handler retry_interval waited 1 of
           (rv, period', waited', slept) \<Rightarrow>
             if rv \<noteq> AMVP_KAT_DOWNLOAD_RETRY then Inl (AMVP_TRANSPORT_FAIL, rs_ctx st)
             else Inr (period', waited', st\<lparr>rs_ctx := (rs_ctx st)\<lparr>world := sleep env slept (world (rs_ctx st))\<rparr>\<rparr>)))"

definition result_round ::
  "'w env \<Rightarrow> string option \<Rightarrow> int \<Rightarrow> nat \<Rightarrow> 'w results \<Rightarrow>
   'w SESSION outcome + (int \<times> nat \<times> 'w results)" where
  "result_round env url retry_interval waited st0 =
     (let (rv, ctx1) = net_result env url (rs_ctx st0) in
      if rv \<noteq> AMVP_SUCCESS then Inl (Ret rv ctx1)
      else
        case json_parse_string env ctx1 of
          None \<Rightarrow> Inl (Ret AMVP_JSON_ERR ctx1)
        | Some val \<Rightarrow>
            (case amvp_get_obj_from_rsp val of
               None \<Rightarrow> Inl (Ret AMVP_JSON_ERR ctx1)
             | Some obj \<Rightarrow>
                 let results = (case json_object_get_array (Some obj) ''results'' of None \<Rightarrow> [] | Some a \<Rightarrow> a) in
                 (case result_loop env results (st0\<lparr>rs_ctx := ctx1, rs_rv := rv, rs_completed := 0\<rparr>) of
                    Crash u \<Rightarrow> Inl (UB u)
                  | End rv' ctx' \<Rightarrow> Inl (Ret rv' ctx')
                  | Next st \<Rightarrow> map_sum (\<lambda>(r, c). Ret r c) id (after_results env obj results retry_interval waited st)
                  | Break st \<Rightarrow> map_sum (\<lambda>(r, c). Ret r c) id (after_results env obj results retry_interval waited st))))"

lemma after_results_again:
  "after_results env obj results p waited st = Inr (p', waited', st') \<Longrightarrow>
   waited < AMVP_MAX_WAIT_TIME \<and> waited + 6 \<le> waited'"
  using retry_handler_step(1,2) by (fastforce simp: after_results_def split: if_splits prod.splits)

lemma map_sum_Inr: "map_sum f id x = Inr y \<longleftrightarrow> x = Inr y"
  by (cases x) auto

lemma result_round_again:
  "result_round env url p waited st = Inr (p', waited', st') \<Longrightarrow> waited < AMVP_MAX_WAIT_TIME \<and> waited + 6 \<le> waited'"
  unfolding result_round_def
  by (auto simp: Let_def map_sum_Inr split: prod.splits if_splits option.splits exit.splits dest!: after_results_again)

function get_result_loop :: "'w env \<Rightarrow> string option \<Rightarrow> int \<Rightarrow> nat \<Rightarrow> 'w results \<Rightarrow> 'w SESSION outcome" where
  "get_result_loop env url retry_interval waited st =
     (case result_round env url retry_interval waited st of
        Inl r \<Rightarrow> r
      | Inr (retry_interval', waited', st') \<Rightarrow> get_result_loop env url retry_interval' waited' st')"
  by pat_completeness auto

termination
proof (relation "measure (\<lambda>(env, url, retry_interval, waited, st). AMVP_MAX_WAIT_TIME - waited)")
  fix env :: "'w env" and url p waited st x p' y waited' st'
  assume "result_round env url p waited st = Inr x" "(p', y) = x" "(waited', st') = y"
  then have "result_round env url p waited st = Inr (p', waited', st')" by simp
  from result_round_again [OF this] have "AMVP_MAX_WAIT_TIME - waited' < AMVP_MAX_WAIT_TIME - waited" by arith
  then show "((env, url, p', waited', st'), env, url, p, waited, st) \<in> measure (\<lambda>(env, url, retry_interval, waited, st). AMVP_MAX_WAIT_TIME - waited)"
    by simp
qed simp

declare get_result_loop.simps [simp del]

definition amvp_get_result_test_session :: "'w env \<Rightarrow> string option \<Rightarrow> 'w SESSION \<Rightarrow> 'w SESSION outcome" where
  "amvp_get_result_test_session env url ctx =
     get_result_loop env url AMVP_RETRY_TIME 0
       \<lparr>rs_ctx = ctx, rs_rv = AMVP_SUCCESS, rs_vs = [], rs_algs = [], rs_modes = [], rs_mode = None, rs_freed = False,
        rs_completed = 0\<rparr>"

definition amvp_check_test_results :: "'w env \<Rightarrow> 'w SESSION option \<Rightarrow> 'w SESSION option outcome" where
  "amvp_check_test_results env octx =
     with_ctx octx (\<lambda>ctx. amvp_get_result_test_session env (session_url ctx) ctx)"


section \<open>Properties\<close>

definition status_of :: "JSON_Value \<Rightarrow> string option" where
  "status_of v = json_object_get_string (json_value_get_object (Some v)) ''status''"

text \<open>A result that is neither missing nor expired nor never received.\<close>

definition finished :: "JSON_Value \<Rightarrow> bool" where
  "finished v \<longleftrightarrow> status_of v \<notin> {None, Some ''expired'', Some ''unreceived''}"

lemma status_is_iff:
  "c_string name \<Longrightarrow> c_string status \<Longrightarrow> 0 < length name \<Longrightarrow> length name \<le> 10 \<Longrightarrow> status_is name status \<longleftrightarrow> status = name"
  unfolding status_is_def by (subst strcmp_s_indicator) (auto simp: RSIZE_MAX_STR_def strcmp_eq_0)

lemma status_names [simp]:
  "c_string ''expired''" "c_string ''unreceived''" "c_string ''incomplete''" "c_string ''fail''" "c_string ''error''"
  by (simp_all add: c_string_def)

lemma result_item_eq:
  assumes "pred_option c_string (status_of v)" and "status_of v \<notin> {Some ''incomplete'', Some ''fail''}"
  shows "result_item env v st =
    (if finished v then Next (st\<lparr>rs_completed := rs_completed st + 1\<rparr>) else End (rs_rv st) (rs_ctx st))"
proof (cases "status_of v")
  case (Some t)
  with assms show ?thesis
    by (simp add: result_item_def finished_def status_of_def status_is_iff Let_def)
qed (simp add: result_item_def finished_def status_of_def Let_def)

lemma result_loop_eq:
  assumes "list_all (\<lambda>v. pred_option c_string (status_of v) \<and> status_of v \<notin> {Some ''incomplete'', Some ''fail''}) rs"
  shows "result_loop env rs st =
    (if list_all finished rs then Next (st\<lparr>rs_completed := rs_completed st + length rs\<rparr>) else End (rs_rv st) (rs_ctx st))"
  using assms by (induction rs arbitrary: st) (auto simp: result_item_eq)


text \<open>A server whose only answer is the given value, with memory that never runs out.\<close>

definition fixed_env :: "JSON_Value \<Rightarrow> unit env" where
  "fixed_env v =
     \<lparr>net_retrieve = (\<lambda>url ctx. (AMVP_SUCCESS, ctx\<lparr>curl_buf := Some ''answer''\<rparr>)),
      net_result = (\<lambda>url ctx. (AMVP_SUCCESS, ctx\<lparr>curl_buf := Some ''answer''\<rparr>)),
      net_submit = (\<lambda>url ctx. (AMVP_SUCCESS, ctx)),
      file_write = (\<lambda>v ctx. (AMVP_SUCCESS, ctx)),
      file_append = (\<lambda>v ctx. (AMVP_SUCCESS, ctx)),
      parse_json = (\<lambda>text. Some v),
      run_handler = (\<lambda>h obj ctx. (AMVP_SUCCESS, ctx)),
      sleep = (\<lambda>n w. w),
      mem = (\<lambda>w. (True, w))\<rparr>"


lemma append_str_mem:
  "\<forall>w. fst (mem env w) \<Longrightarrow> fst (append_str env l (Some s) ctx) = AMVP_SUCCESS"
  by (auto simp: append_str_def calloc_def amvp_append_str_list_def Let_def case_prod_beta)

text \<open>
  Naming the algorithms of two failed sets, of which the first has a mode and the second
  has none, uses the mode of the first after the message that holds it was freed.
\<close>
theorem stale_mode_used:
  assumes "name_failed env obj1 st = Inr (st1, True)" and "json_object_get_string obj1 ''mode'' \<noteq> None"
    and "\<forall>w. fst (mem env w)"
    and "json_object_get_string obj2 ''algorithm'' \<noteq> None" and "json_object_get_string obj2 ''mode'' = None"
  shows "name_failed env obj2 st1 = Inl Freed_Memory"
proof -
  have "rs_freed st1 \<and> rs_mode st1 \<noteq> None"
    using assms(1,2) by (auto simp: name_failed_def Let_def split: option.splits if_splits prod.splits)
  moreover have "fst (append_str env l (Some a) c) = AMVP_SUCCESS" for l a c
    by (rule append_str_mem [OF assms(3)])
  ultimately show ?thesis
    using assms(4,5) by (auto simp: name_failed_def Let_def case_prod_beta)
qed


theorem stale_mode_used_witness:
  "\<exists>st1. name_failed (fixed_env JSONNull) (Some [(''algorithm'', JSONString ''RSA''), (''mode'', JSONString ''keyGen'')])
       \<lparr>rs_ctx = init_session (), rs_rv = AMVP_SUCCESS, rs_vs = [], rs_algs = [], rs_modes = [], rs_mode = None,
        rs_freed = False, rs_completed = 0\<rparr> = Inr (st1, True) \<and>
     name_failed (fixed_env JSONNull) (Some [(''algorithm'', JSONString ''SHA2-256'')]) st1 = Inl Freed_Memory"
proof -
  let ?o1 = "[(''algorithm'', JSONString ''RSA''), (''mode'', JSONString ''keyGen'')]"
  let ?o2 = "[(''algorithm'', JSONString ''SHA2-256'')]"
  have names: "json_name ''algorithm''" "json_name ''mode''" "json_names ?o1" "json_names ?o2"
    by (simp_all add: json_name_def json_names_def c_string_def)
  note get = json_object_get_string_def json_value_get_string_def json_object_get_value_eq names
  obtain st1 where s: "name_failed (fixed_env JSONNull) (Some ?o1)
      \<lparr>rs_ctx = init_session (), rs_rv = AMVP_SUCCESS, rs_vs = [], rs_algs = [], rs_modes = [], rs_mode = None,
       rs_freed = False, rs_completed = 0\<rparr> = Inr (st1, True)"
    by (simp add: name_failed_def get amvp_lookup_str_list_def append_str_def calloc_def fixed_env_def amvp_append_str_list_def Let_def)
  have "name_failed (fixed_env JSONNull) (Some ?o2) st1 = Inl Freed_Memory"
    by (rule stale_mode_used [OF s]) (simp_all add: get, simp add: fixed_env_def)
  with s show ?thesis by blast
qed

lemma calloc_mem:
  "\<forall>w. fst (mem env w) \<Longrightarrow> \<exists>w. calloc env ctx = (True, ctx\<lparr>world := w\<rparr>)"
  by (cases "mem env (world ctx)") (auto simp: calloc_def dest: spec [of _ "world ctx"])

lemma append_vsid_mem:
  assumes "\<forall>w. fst (mem env w)"
  shows "\<exists>w. amvp_append_vsid_url env url ctx =
    (AMVP_SUCCESS, ctx\<lparr>world := w, vsid_url_list := vsid_url_list ctx @ [fresh_copy AMVP_ATTR_URL_MAX url]\<rparr>)"
proof -
  obtain w1 where w1: "calloc env ctx = (True, ctx\<lparr>world := w1\<rparr>)" using calloc_mem [OF assms] by blast
  obtain w2 where "calloc env (ctx\<lparr>world := w1\<rparr>) = (True, ctx\<lparr>world := w2\<rparr>)"
    using calloc_mem [OF assms, of "ctx\<lparr>world := w1\<rparr>"] by auto
  with w1 show ?thesis by (simp add: amvp_append_vsid_url_def) blast
qed

lemma register_urls_mem:
  assumes "\<forall>w. fst (mem env w)"
  shows "\<exists>w. register_urls env (map JSONString urls) ctx =
    (AMVP_SUCCESS, ctx\<lparr>world := w, vsid_url_list := vsid_url_list ctx @ map (fresh_copy AMVP_ATTR_URL_MAX) urls\<rparr>)"
proof (induction urls arbitrary: ctx)
  case Nil
  have "register_urls env (map JSONString []) ctx = (AMVP_SUCCESS, ctx\<lparr>world := world ctx, vsid_url_list := vsid_url_list ctx\<rparr>)"
    by simp
  then show ?case by (metis append_Nil2 list.map(1))
next
  case (Cons u urls)
  obtain w where w: "amvp_append_vsid_url env u ctx =
      (AMVP_SUCCESS, ctx\<lparr>world := w, vsid_url_list := vsid_url_list ctx @ [fresh_copy AMVP_ATTR_URL_MAX u]\<rparr>)"
    using append_vsid_mem [OF assms] by blast
  from Cons [of "ctx\<lparr>world := w, vsid_url_list := vsid_url_list ctx @ [fresh_copy AMVP_ATTR_URL_MAX u]\<rparr>"] w
  show ?case by (auto simp: json_value_get_string_def)
qed

text \<open>
  The answer to a registration, when memory suffices and the token fits: the session's
  address and token are stored and the addresses of its vector sets are added, in order, to
  those already listed. An address of more than 2083 characters is stored as the empty string,
  and no error is reported.
\<close>
theorem register_answer:
  assumes "json_parse_string env ctx = Some val" and "amvp_get_obj_from_rsp val = Some obj"
    and "json_object_get_string (Some obj) ''url'' = Some u" and "json_object_get_string (Some obj) ''accessToken'' = Some t"
    and "json_object_get_array (Some obj) ''vectorSetUrls'' = Some (map JSONString urls)"
    and "\<forall>w. fst (mem env w)" and "list_all c_string (u # t # urls)" and "length t \<le> AMVP_JWT_TOKEN_MAX"
    and "jwt_token ctx = Some old"
  shows "\<exists>w. amvp_parse_test_session_register env ctx =
    (AMVP_SUCCESS, ctx\<lparr>session_url := Some (if length u \<le> AMVP_ATTR_URL_MAX then u else []), jwt_token := Some t, world := w,
       vsid_url_list := vsid_url_list ctx @ map (\<lambda>v. if length v \<le> AMVP_ATTR_URL_MAX then v else []) urls\<rparr>)"
proof -
  obtain w where w: "calloc env ctx = (True, ctx\<lparr>world := w\<rparr>)" using calloc_mem [OF assms(6)] by blast
  let ?c = "ctx\<lparr>world := w, session_url := Some (fresh_copy AMVP_ATTR_URL_MAX u), jwt_token := Some (fresh_copy AMVP_JWT_TOKEN_MAX t)\<rparr>"
  obtain w' where "register_urls env (map JSONString urls) ?c =
      (AMVP_SUCCESS, ?c\<lparr>world := w', vsid_url_list := vsid_url_list ?c @ map (fresh_copy AMVP_ATTR_URL_MAX) urls\<rparr>)"
    using register_urls_mem [OF assms(6)] by blast
  moreover have "map (fresh_copy AMVP_ATTR_URL_MAX) urls = map (\<lambda>v. if length v \<le> AMVP_ATTR_URL_MAX then v else []) urls"
    using assms(7) by (auto simp: fresh_copy_eq list_all_iff)
  ultimately show ?thesis
    using assms w
    by (auto simp: amvp_parse_test_session_register_def parse_register_def fresh_copy_eq)
qed

theorem register_answer_witness:
  "\<exists>w. amvp_parse_test_session_register
       (fixed_env (JSONArray [JSONObject [(''url'', JSONString ''/s/1''), (''accessToken'', JSONString ''t''),
          (''vectorSetUrls'', JSONArray (map JSONString [''/v/1'', ''/v/2'']))]]))
       ((init_session ())\<lparr>curl_buf := Some [], jwt_token := Some ''old''\<rparr>) =
     (AMVP_SUCCESS, (init_session ())\<lparr>curl_buf := Some [], world := w, session_url := Some ''/s/1'', jwt_token := Some ''t'',
        vsid_url_list := [''/v/1'', ''/v/2'']\<rparr>)"
proof -
  let ?obj = "[(''url'', JSONString ''/s/1''), (''accessToken'', JSONString ''t''),
      (''vectorSetUrls'', JSONArray (map JSONString [''/v/1'', ''/v/2'']))]"
  let ?c = "(init_session ())\<lparr>curl_buf := Some [], jwt_token := Some ''old''\<rparr>"
  have names: "json_name ''url''" "json_name ''accessToken''" "json_name ''vectorSetUrls''" "json_names ?obj"
    by (simp_all add: json_name_def json_names_def c_string_def)
  note get = json_object_get_string_def json_value_get_string_def json_object_get_array_def json_value_get_array_def
    json_object_get_value_eq [OF names(1,4)] json_object_get_value_eq [OF names(2,4)] json_object_get_value_eq [OF names(3,4)]
  have "\<exists>w. amvp_parse_test_session_register (fixed_env (JSONArray [JSONObject ?obj])) ?c =
    (AMVP_SUCCESS, ?c\<lparr>session_url := Some (if length ''/s/1'' \<le> AMVP_ATTR_URL_MAX then ''/s/1'' else []), jwt_token := Some ''t'', world := w,
       vsid_url_list := vsid_url_list ?c @ map (\<lambda>v. if length v \<le> AMVP_ATTR_URL_MAX then v else []) [''/v/1'', ''/v/2'']\<rparr>)"
    by (rule register_answer [where val = "JSONArray [JSONObject ?obj]" and obj = ?obj and old = "''old''"])
      (simp_all only: get, simp_all add: fixed_env_def json_parse_string_def amvp_get_obj_from_rsp_def json_array_get_object_def
        json_array_get_value_def json_array_get_count_def json_value_get_array_def json_value_get_object_def c_string_def)
  then show ?thesis by (simp add: init_session_def)
qed

end
