(* ===== verification/Session_Run.thy ===== *)
theory Session_Run
  imports Session_Results
begin

text \<open>
  A whole run (\<^verbatim>\<open>amvp_run\<close> of \<^verbatim>\<open>src/amvp.c\<close>): login, one of the single requests or a test session,
  its results, and the request for a validation. The requests and the messages that are built
  elsewhere are operations of the environment.
\<close>

section \<open>Operations of the environment\<close>

text \<open>
  Each names the function it stands for: building and sending a login, plain GET, DELETE and
  POST requests, the check of the validation metadata, building and sending the registration,
  the certificate request, writing the session file, retrieving the documents, the validation
  and the final PUT; \<open>Save_Write\<close> and \<open>Save_Append\<close> write an answer to the file of the caller.
\<close>

datatype run_op =
    Build_Login int | Send_Login | Get_Request | Delete_Request | Post_Data | Post_Resources | Verify_Metadata
  | Build_Registration | Build_Full_Registration | Send_Registration | Post_Cert_Request | Write_Session_Info
  | Retrieve_Docs | Build_Validation | Put_Validation | Put_Cert_Validation | Parse_Validation | Put_Data
  | Save_Write | Save_Append

record 'w run_env = "'w env" +
  perform :: "run_op \<Rightarrow> 'w SESSION \<Rightarrow> AMVP_RESULT \<times> 'w SESSION"
  json_file :: "'w SESSION \<Rightarrow> JSON_Value option"

abbreviation (input) net :: "'w run_env \<Rightarrow> 'w env" where "net env \<equiv> env.truncate env"

text \<open>What the caller asked for; the flags are integers of the context that a run only reads.\<close>

record run_opts =
  no_login :: bool
  opt_get :: int
  opt_post :: int
  opt_post_resources :: int
  opt_mod_cert_req :: int
  opt_delete :: int
  opt_put :: int
  opt_use_json :: int
  save_filename :: bool

section \<open>The parts of a run\<close>

definition amvp_login :: "'w run_env \<Rightarrow> int \<Rightarrow> 'w SESSION \<Rightarrow> AMVP_RESULT \<times> 'w SESSION" where
  "amvp_login env refresh ctx =
     (let (rv, ctx1) = perform env (Build_Login refresh) ctx in
      if rv \<noteq> AMVP_SUCCESS then (rv, ctx1)
      else let (rv, ctx2) = perform env Send_Login ctx1 in
        if rv \<noteq> AMVP_SUCCESS then (rv, ctx2) else amvp_parse_login (net env) ctx2)"

definition amvp_refresh :: "'w run_env \<Rightarrow> 'w SESSION option \<Rightarrow> AMVP_RESULT \<times> 'w SESSION option" where
  "amvp_refresh env octx =
     (case octx of None \<Rightarrow> (AMVP_NO_CTX, None)
      | Some ctx \<Rightarrow> (let (rv, ctx1) = amvp_login env 1 ctx in (rv, Some ctx1)))"

text \<open>The registration read from a file: an array of at least one and at most \<^const>\<open>AMVP_CAP_MAX\<close> objects.\<close>

definition read_registration :: "'w run_env \<Rightarrow> 'w SESSION \<Rightarrow> AMVP_RESULT \<times> 'w SESSION" where
  "read_registration env ctx =
     (case json_file env ctx of
        None \<Rightarrow> (AMVP_JSON_ERR, ctx)
      | Some val \<Rightarrow>
          (case json_value_get_array (Some val) of
             None \<Rightarrow> (AMVP_JSON_ERR, ctx)
           | Some arr \<Rightarrow>
               let count = json_array_get_count (Some arr) in
               if count < 1 \<or> count > AMVP_CAP_MAX then (AMVP_JSON_ERR, ctx)
               else (AMVP_SUCCESS, ctx\<lparr>registration := Some val\<rparr>)))"

definition amvp_register :: "'w run_env \<Rightarrow> run_opts \<Rightarrow> 'w SESSION \<Rightarrow> AMVP_RESULT \<times> 'w SESSION" where
  "amvp_register env opts ctx =
     (let (rv, ctx1) = (if opt_use_json opts \<noteq> 0 then read_registration env ctx else perform env Build_Registration ctx) in
      if rv \<noteq> AMVP_SUCCESS then (rv, ctx1)
      else let (rv, ctx2) = perform env Build_Full_Registration ctx1 in
        if rv \<noteq> AMVP_SUCCESS then (rv, ctx2)
        else let (rv, ctx3) = perform env Send_Registration ctx2 in
          if rv = AMVP_SUCCESS then amvp_parse_test_session_register (net env) ctx3 else (rv, ctx3))"

definition amvp_mod_cert_req :: "'w run_env \<Rightarrow> 'w SESSION option \<Rightarrow> AMVP_RESULT \<times> 'w SESSION option" where
  "amvp_mod_cert_req env octx =
     (case octx of None \<Rightarrow> (AMVP_NO_CTX, None)
      | Some ctx \<Rightarrow>
          (let (rv, ctx1) = read_registration env ctx in
           if rv \<noteq> AMVP_SUCCESS then (rv, Some ctx1)
           else let (rv, ctx2) = perform env Post_Cert_Request ctx1 in
             if rv \<noteq> AMVP_SUCCESS then (rv, Some ctx2)
             else let (rv, ctx3) = amvp_parse_mod_cert_req (net env) ctx2 in
               if rv \<noteq> AMVP_SUCCESS then (rv, Some ctx3)
               else amvp_process_amvp_tes (net env) (Some ctx3)))"

definition amvp_validate_test_session :: "'w run_env \<Rightarrow> 'w SESSION option \<Rightarrow> AMVP_RESULT \<times> 'w SESSION option" where
  "amvp_validate_test_session env octx =
     (case octx of None \<Rightarrow> (AMVP_NO_CTX, None)
      | Some ctx \<Rightarrow>
          if session_passed ctx \<noteq> 1 then (AMVP_SUCCESS, Some ctx)
          else
            (let (rv, ctx1) = perform env Build_Validation ctx in
             if rv \<noteq> AMVP_SUCCESS then (rv, Some ctx1)
             else let (rv, ctx2) = perform env Put_Validation ctx1 in
               if rv \<noteq> AMVP_SUCCESS then (rv, Some ctx2)
               else let (rv, ctx3) = perform env Parse_Validation ctx2 in (rv, Some ctx3)))"

definition amvp_cert_req :: "'w run_env \<Rightarrow> run_opts \<Rightarrow> 'w SESSION \<Rightarrow> AMVP_RESULT \<times> 'w SESSION" where
  "amvp_cert_req env opts ctx =
     (let (rv, ctx1) = perform env Retrieve_Docs ctx in
      if rv \<noteq> AMVP_SUCCESS then (rv, ctx1)
      else case json_parse_string (net env) ctx1 of
             None \<Rightarrow> (AMVP_JSON_ERR, ctx1)
           | Some val \<Rightarrow>
               (case json_array_get_object (json_value_get_array (Some val)) 0 of
                  None \<Rightarrow> (AMVP_MALFORMED_JSON, ctx1)
                | Some obj \<Rightarrow>
                    if opt_mod_cert_req opts \<noteq> 0 then
                      (let (rv, ctx2) = perform env Put_Cert_Validation ctx1 in
                       if rv \<noteq> AMVP_SUCCESS then (rv, ctx2) else perform env Parse_Validation ctx2)
                    else (AMVP_SUCCESS, ctx1)))"

text \<open>
  The answer to a plain GET or DELETE request. It is written to the caller's file when it can
  be parsed; when it cannot be written it is printed, with the result of the writing.
\<close>

definition plain_request :: "'w run_env \<Rightarrow> run_opts \<Rightarrow> run_op \<Rightarrow> 'w SESSION \<Rightarrow> AMVP_RESULT \<times> 'w SESSION" where
  "plain_request env opts request ctx =
     (let (rv, ctx1) = perform env request ctx in
      if save_filename opts \<and> json_parse_string (net env) ctx1 \<noteq> None then
        (let (rv1, ctx2) = perform env Save_Write ctx1 in
         if rv1 \<noteq> AMVP_SUCCESS then (rv1, ctx2) else perform env Save_Append ctx2)
      else (rv, ctx1))"

section \<open>A run\<close>

text \<open>From the label \<^verbatim>\<open>check\<close> on.\<close>

definition run_check :: "'w run_env \<Rightarrow> run_opts \<Rightarrow> int \<Rightarrow> 'w SESSION \<Rightarrow> 'w SESSION outcome" where
  "run_check env opts fips_validation ctx =
     (if vector_req ctx \<noteq> 0 then Ret AMVP_SUCCESS ctx
      else
        case amvp_check_test_results (net env) (Some ctx) of
          UB u \<Rightarrow> UB u
        | Ret rv None \<Rightarrow> UB Null_Deref
        | Ret rv (Some ctx1) \<Rightarrow>
            if rv \<noteq> AMVP_SUCCESS then Ret rv ctx1
            else if opt_mod_cert_req opts \<noteq> 0 then (case amvp_cert_req env opts ctx1 of (rv, c) \<Rightarrow> Ret rv c)
            else
              let (rv2, octx2) = (if fips_validation \<noteq> 0 then amvp_validate_test_session env (Some ctx1) else (rv, Some ctx1));
                  ctx2 = the octx2
              in if rv2 \<noteq> AMVP_SUCCESS then Ret rv2 ctx2
                 else if opt_put opts \<noteq> 0 then (case perform env Put_Data ctx2 of (rv, c) \<Rightarrow> Ret rv c)
                 else Ret rv2 ctx2)"

definition run_session :: "'w run_env \<Rightarrow> run_opts \<Rightarrow> int \<Rightarrow> 'w SESSION \<Rightarrow> 'w SESSION outcome" where
  "run_session env opts fips_validation ctx =
     (let (rv, ctx1) = (if fips_validation \<noteq> 0 then perform env Verify_Metadata ctx else (AMVP_SUCCESS, ctx)) in
      if rv \<noteq> AMVP_SUCCESS then Ret AMVP_UNSUPPORTED_OP ctx1
      else
        let (rv, ctx2) = amvp_register env opts (ctx1\<lparr>do_validation := if fips_validation \<noteq> 0 then 1 else 0\<rparr>) in
        if rv \<noteq> AMVP_SUCCESS then Ret rv ctx2
        else
          let ctx3 = (if opt_put opts = 0 then snd (perform env Write_Session_Info ctx2) else ctx2);
              (rv, octx4) = amvp_process_tests (net env) (Some ctx3)
          in if rv \<noteq> AMVP_SUCCESS then Ret rv (the octx4) else run_check env opts fips_validation (the octx4))"

definition amvp_run :: "'w run_env \<Rightarrow> run_opts \<Rightarrow> int \<Rightarrow> 'w SESSION option \<Rightarrow> 'w SESSION option outcome" where
  "amvp_run env opts fips_validation octx =
     with_ctx octx (\<lambda>ctx.
       let (rv, ctx1) = (if no_login opts then (AMVP_SUCCESS, ctx) else amvp_login env 0 ctx) in
       if rv \<noteq> AMVP_SUCCESS then Ret rv ctx1
       else if opt_get opts \<noteq> 0 then (case plain_request env opts Get_Request ctx1 of (rv, c) \<Rightarrow> Ret rv c)
       else if opt_post opts \<noteq> 0 then (case perform env Post_Data ctx1 of (rv, c) \<Rightarrow> Ret rv c)
       else if opt_post_resources opts \<noteq> 0 then (case perform env Post_Resources ctx1 of (rv, c) \<Rightarrow> Ret rv c)
       else if opt_mod_cert_req opts \<noteq> 0 then
         (case amvp_mod_cert_req env (Some ctx1) of (rv, oc) \<Rightarrow> run_check env opts fips_validation (the oc))
       else if opt_delete opts \<noteq> 0 then (case plain_request env opts Delete_Request ctx1 of (rv, c) \<Rightarrow> Ret rv c)
       else run_session env opts fips_validation ctx1)"

section \<open>Properties of a run\<close>

text \<open>
  A login that succeeds, and the state it leaves; without a login the state is the one given.
\<close>

definition logged_in :: "'w run_env \<Rightarrow> run_opts \<Rightarrow> 'w SESSION \<Rightarrow> 'w SESSION \<Rightarrow> bool" where
  "logged_in env opts ctx ctx1 \<longleftrightarrow>
     (if no_login opts then ctx1 = ctx else amvp_login env 0 ctx = (AMVP_SUCCESS, ctx1))"

lemma amvp_run_success_login:
  assumes "amvp_run env opts v (Some ctx) = Ret AMVP_SUCCESS (Some ctx')"
  obtains ctx1 where "logged_in env opts ctx ctx1"
proof (cases "amvp_login env 0 ctx")
  case (Pair rv ctx1)
  with assms have "no_login opts \<or> rv = AMVP_SUCCESS"
    by (auto simp: amvp_run_def split: if_splits)
  with Pair show ?thesis using that [of ctx] that [of ctx1] by (cases "no_login opts") (auto simp: logged_in_def)
qed

lemma amvp_run_session:
  assumes "logged_in env opts ctx ctx1" and "opt_get opts = 0" "opt_post opts = 0" "opt_post_resources opts = 0"
    "opt_mod_cert_req opts = 0" "opt_delete opts = 0"
  shows "amvp_run env opts v (Some ctx) = with_ctx (Some ctx1) (run_session env opts v)"
  using assms by (auto simp: amvp_run_def logged_in_def split: if_splits)

text \<open>
  The stages of a test session that a successful return vouches for: the registration, every
  vector set and, unless only the evidence was asked for, the results.
\<close>

definition session_done :: "'w run_env \<Rightarrow> run_opts \<Rightarrow> 'w SESSION \<Rightarrow> bool" where
  "session_done env opts ctx \<longleftrightarrow>
     (\<exists>ctx1 ctx2 ctx3 ctx4.
        amvp_register env opts ctx1 = (AMVP_SUCCESS, ctx2) \<and>
        amvp_process_tests (net env) (Some ctx3) = (AMVP_SUCCESS, Some ctx4) \<and>
        ctx3 = (if opt_put opts = 0 then snd (perform env Write_Session_Info ctx2) else ctx2) \<and>
        (ctx4 = ctx \<and> vector_req ctx \<noteq> 0 \<or>
         (\<exists>ctx5. amvp_check_test_results (net env) (Some ctx4) = Ret AMVP_SUCCESS (Some ctx5))))"

lemma process_all_Some: "\<exists>ctx'. snd (process_all env one (Some ctx)) = Some ctx'"
  by (auto simp: process_all_def case_prod_beta Let_def)

lemma run_check_success:
  assumes "run_check env opts v ctx = Ret AMVP_SUCCESS ctx'"
  shows "ctx' = ctx \<and> vector_req ctx' \<noteq> 0 \<or>
    (\<exists>ctx1. amvp_check_test_results (net env) (Some ctx) = Ret AMVP_SUCCESS (Some ctx1))"
  using assms by (auto simp: run_check_def split: if_splits outcome.splits option.splits)

lemma run_session_success:
  assumes "run_session env opts v ctx = Ret AMVP_SUCCESS ctx'"
  shows "session_done env opts ctx'"
proof -
  define c1 where "c1 = (if v \<noteq> 0 then snd (perform env Verify_Metadata ctx) else ctx)\<lparr>do_validation := if v \<noteq> 0 then 1 else 0\<rparr>"
  obtain rv c2 where c2: "amvp_register env opts c1 = (rv, c2)" by fastforce
  define c3 where "c3 = (if opt_put opts = 0 then snd (perform env Write_Session_Info c2) else c2)"
  obtain rv2 c4 where c4: "amvp_process_tests (net env) (Some c3) = (rv2, Some c4)"
    using process_all_Some unfolding amvp_process_tests_def by (metis surjective_pairing)
  have "rv = AMVP_SUCCESS" "rv2 = AMVP_SUCCESS" "run_check env opts v c4 = Ret AMVP_SUCCESS ctx'"
    using assms c2 c4 unfolding run_session_def c1_def c3_def
    by (auto simp: Let_def case_prod_beta split: if_splits)
  with c2 c4 show ?thesis
    unfolding session_done_def using run_check_success [of env opts v c4 ctx'] c3_def by blast
qed


text \<open>
  C39: a certificate request, unlike a test session, loses its failure: when only the evidence is
  asked for, the run returns success whatever the request returned.
\<close>
theorem run_loses_failed_request:
  assumes "logged_in env opts ctx ctx1" and "opt_get opts = 0" "opt_post opts = 0" "opt_post_resources opts = 0"
    and "opt_mod_cert_req opts \<noteq> 0" and "amvp_mod_cert_req env (Some ctx1) = (rv, Some ctx2)" and "vector_req ctx2 \<noteq> 0"
  shows "amvp_run env opts v (Some ctx) = Ret AMVP_SUCCESS (Some ctx2)"
  using assms by (auto simp: amvp_run_def logged_in_def run_check_def split: if_splits)

text \<open>A server that gives the same answer to everything, and requests that all succeed.\<close>

definition fixed_run_env :: "JSON_Value \<Rightarrow> unit run_env" where
  "fixed_run_env val =
     env.extend (fixed_env val) (run_env.fields (\<lambda>op ctx. (AMVP_SUCCESS, ctx)) (\<lambda>ctx. None))"

definition session_opts :: "int \<Rightarrow> run_opts" where
  "session_opts cert =
     \<lparr>no_login = True, opt_get = 0, opt_post = 0, opt_post_resources = 0, opt_mod_cert_req = cert, opt_delete = 0,
      opt_put = 0, opt_use_json = 0, save_filename = False\<rparr>"

definition evidence_session :: "unit SESSION" where
  "evidence_session = (init_session ())\<lparr>curl_buf := Some [], jwt_token := Some ''old'', vector_req := 1\<rparr>"

theorem run_loses_failed_request_witness:
  "amvp_mod_cert_req (fixed_run_env JSONNull) (Some evidence_session) = (AMVP_JSON_ERR, Some evidence_session) \<and>
   amvp_run (fixed_run_env JSONNull) (session_opts 1) 0 (Some evidence_session) = Ret AMVP_SUCCESS (Some evidence_session)"
proof -
  have "amvp_mod_cert_req (fixed_run_env JSONNull) (Some evidence_session) = (AMVP_JSON_ERR, Some evidence_session)"
    by (simp add: amvp_mod_cert_req_def read_registration_def fixed_run_env_def env.defs run_env.defs)
  moreover from this have "amvp_run (fixed_run_env JSONNull) (session_opts 1) 0 (Some evidence_session) =
      Ret AMVP_SUCCESS (Some evidence_session)"
    by (intro run_loses_failed_request [where ?ctx1.0 = evidence_session and rv = AMVP_JSON_ERR])
      (simp_all add: logged_in_def session_opts_def evidence_session_def)
  ultimately show ?thesis by simp
qed

lemma net_fixed_run_env [simp]: "env.truncate (fixed_run_env val) = fixed_env val"
  by (simp add: fixed_run_env_def env.defs)

lemma perform_fixed_run_env [simp]: "perform (fixed_run_env val) op ctx = (AMVP_SUCCESS, ctx)"
  by (simp add: fixed_run_env_def env.defs run_env.defs)

lemma evidence_run:
  defines "obj \<equiv> [(''url'', JSONString ''/s/1''), (''accessToken'', JSONString ''t''), (''vectorSetUrls'', JSONArray [JSONString ''/v/1''])]"
  shows "\<exists>ctx'. amvp_run (fixed_run_env (JSONArray [JSONObject obj])) (session_opts 0) 0 (Some evidence_session) = Ret AMVP_SUCCESS (Some ctx')"
proof -
  have names: "json_name ''url''" "json_name ''accessToken''" "json_name ''vectorSetUrls''" "json_name ''retry''" "json_names obj"
    by (simp_all add: obj_def json_name_def json_names_def c_string_def)
  have get: "json_object_get_string (Some obj) ''url'' = Some ''/s/1''" "json_object_get_string (Some obj) ''accessToken'' = Some ''t''"
    "json_object_get_array (Some obj) ''vectorSetUrls'' = Some [JSONString ''/v/1'']" "json_object_get_number (Some obj) ''retry'' = 0"
    by (simp_all add: json_object_get_string_def json_value_get_string_def json_object_get_array_def json_value_get_array_def
        json_object_get_number_def json_value_get_number_def json_object_get_value_eq names(1-4) names(5))
      (simp_all add: obj_def)
  let ?env = "fixed_env (JSONArray [JSONObject obj])" and ?renv = "fixed_run_env (JSONArray [JSONObject obj])"
  have ok: "json_parse_string ?env c = map_option (\<lambda>_. JSONArray [JSONObject obj]) (curl_buf c)"
    "amvp_get_obj_from_rsp (JSONArray [JSONObject obj]) = Some obj" "calloc ?env c = (True, c)"
    "file_append ?env v c = (AMVP_SUCCESS, c)" "file_write ?env v c = (AMVP_SUCCESS, c)"
    "net_retrieve ?env url c = (AMVP_SUCCESS, c\<lparr>curl_buf := Some ''answer''\<rparr>)" for c v url
    by (simp_all add: json_parse_string_def calloc_def fixed_env_def amvp_get_obj_from_rsp_def json_array_get_object_def
        json_array_get_value_def json_array_get_count_def json_value_get_array_def json_value_get_object_def split: option.splits)
  have given: "curl_buf evidence_session = Some []" "jwt_token evidence_session = Some ''old''"
    "vsid_url_list evidence_session = []" "vector_req evidence_session = 1"
    by (simp_all add: evidence_session_def init_session_def)
  define c where "c = evidence_session\<lparr>do_validation := 0, session_url := Some ''/s/1'', jwt_token := Some ''t'', vsid_url_list := [''/v/1'']\<rparr>"
  have "amvp_register ?renv (session_opts 0) (evidence_session\<lparr>do_validation := 0\<rparr>) = (AMVP_SUCCESS, c)"
    by (simp add: amvp_register_def session_opts_def amvp_parse_test_session_register_def parse_register_def given ok get c_def
        amvp_append_vsid_url_def fresh_copy_eq c_string_def json_value_get_string_def)
  moreover have "amvp_process_vsid ?env ''/v/1'' 0 c = (AMVP_SUCCESS, c\<lparr>curl_buf := Some ''answer''\<rparr>)"
    by (simp add: amvp_process_vsid_def process_set_def poll_round ok get process_ready_def save_set_def c_def given)
  then have "amvp_process_tests ?env (Some c) = (AMVP_SUCCESS, Some (c\<lparr>curl_buf := Some ''answer''\<rparr>))"
    by (simp add: amvp_process_tests_def process_all_def c_def ok given)
  ultimately show ?thesis
    by (simp add: amvp_run_def run_session_def run_check_def c_def given session_opts_def)
qed


end
