(* ===== verification/Kat_Common.thy ===== *)
theory Kat_Common
  imports Session_Results Hex_Codec
begin

text \<open>
  What the handlers of vector sets share. A handler reads the groups and tests of a vector set,
  calls the crypto module of the application for each test and builds the answer. Its body is a
  sequence of steps over the state of the world (memory and crypto module), each of which
  finishes with a value, ends the handler with a result code, or has undefined behaviour.
\<close>

type_synonym bytes = "8 word list"

section \<open>Steps\<close>

datatype ('a, 's) kat = Done 'a 's | Fail AMVP_RESULT 's | Undef ub

type_synonym ('a, 's) step = "'s \<Rightarrow> ('a, 's) kat"

definition pass :: "'a \<Rightarrow> ('a, 's) step" where "pass x s = Done x s"
definition stop :: "AMVP_RESULT \<Rightarrow> ('a, 's) step" where "stop rv s = Fail rv s"
definition undef :: "ub \<Rightarrow> ('a, 's) step" where "undef u s = Undef u"

definition andthen :: "('a, 's) step \<Rightarrow> ('a \<Rightarrow> ('b, 's) step) \<Rightarrow> ('b, 's) step" where
  "andthen p f s = (case p s of Done x t \<Rightarrow> f x t | Fail rv t \<Rightarrow> Fail rv t | Undef u \<Rightarrow> Undef u)"

definition reject :: "bool \<Rightarrow> AMVP_RESULT \<Rightarrow> ('a, 's) step \<Rightarrow> ('a, 's) step" where
  "reject bad rv p = (if bad then stop rv else p)"

text \<open>A loop over an array that appends one value for each element.\<close>

primrec each :: "('x \<Rightarrow> ('a, 's) step) \<Rightarrow> 'x list \<Rightarrow> ('a list, 's) step" where
  "each f [] = pass []"
| "each f (x # xs) = andthen (f x) (\<lambda>a. andthen (each f xs) (\<lambda>as. pass (a # as)))"

lemma pass_Done [simp]: "pass x s = Done x s"
  and stop_Fail [simp]: "stop rv s = Fail rv s"
  and undef_Undef [simp]: "undef u s = Undef u"
  by (simp_all add: pass_def stop_def undef_def)

lemma andthen_Done [simp]: "p s = Done x t \<Longrightarrow> andthen p f s = f x t"
  and andthen_Fail [simp]: "p s = Fail rv t \<Longrightarrow> andthen p f s = Fail rv t"
  and andthen_Undef [simp]: "p s = Undef u \<Longrightarrow> andthen p f s = Undef u"
  by (simp_all add: andthen_def)

lemma pass_eq: "pass x = Done x"
  and andthen_Done_step [simp]: "andthen (Done x) f = f x"
  by (simp_all add: fun_eq_iff)

lemma reject_simps [simp]: "reject True rv p = stop rv" "reject False rv p = p"
  by (simp_all add: reject_def)

lemma andthen_Done_iff:
  "andthen p f s = Done y u \<longleftrightarrow> (\<exists>x t. p s = Done x t \<and> f x t = Done y u)"
  by (simp add: andthen_def split: kat.splits)

section \<open>Outcomes, numbers and memory as steps\<close>

definition of_sum :: "ub + 'a \<Rightarrow> ('a, 's) step" where
  "of_sum r = (case r of Inl u \<Rightarrow> undef u | Inr x \<Rightarrow> pass x)"

definition of_outcome :: "'a outcome \<Rightarrow> ('a, 's) step" where
  "of_outcome r = (case r of UB u \<Rightarrow> undef u | Ret rv x \<Rightarrow> if rv = AMVP_SUCCESS then pass x else stop rv)"

lemma of_sum_simps [simp]: "of_sum (Inr x) = pass x" "of_sum (Inl u) = undef u"
  by (simp_all add: of_sum_def)

lemma of_outcome_simps [simp]:
  "of_outcome (Ret AMVP_SUCCESS x) = pass x" "of_outcome (UB u) = undef u" "rv \<noteq> AMVP_SUCCESS \<Longrightarrow> of_outcome (Ret rv x) = stop rv"
  by (simp_all add: of_outcome_def)

text \<open>
  A JSON number is a \<^verbatim>\<open>double\<close>. Stored into an \<^verbatim>\<open>unsigned int\<close> or an \<^verbatim>\<open>int\<close> that cannot hold it, its
  conversion is undefined.
\<close>

definition as_uint :: "int \<Rightarrow> (nat, 's) step" where
  "as_uint n = (if 0 \<le> n \<and> n < 2 ^ 32 then pass (nat n) else undef Bad_Conversion)"

definition as_int :: "int \<Rightarrow> (int, 's) step" where
  "as_int n = (if is_int32 n then pass n else undef Bad_Conversion)"

lemma as_uint_simps [simp]: "n < 2 ^ 32 \<Longrightarrow> as_uint (int n) = pass n"
  by (simp add: as_uint_def)

lemma as_int_simps [simp]: "is_int32 n \<Longrightarrow> as_int n = pass n"
  by (simp add: as_int_def)

text \<open>An \<^verbatim>\<open>int\<close> stored as an \<^verbatim>\<open>unsigned int\<close>.\<close>

definition uint_of :: "int \<Rightarrow> nat" where
  "uint_of n = nat (n mod 2 ^ 32)"

text \<open>A length in bits as one in bytes.\<close>

definition AMVP_BIT2BYTE :: "nat \<Rightarrow> nat" where
  "AMVP_BIT2BYTE x = (x + 7) mod 2 ^ 32 div 8"

text \<open>
  The allocator of the session as a function of the world, and one that never fails. Buffers
  that \<^verbatim>\<open>calloc\<close> returns are zeroed; a failed allocation ends the handler.
\<close>

type_synonym 'w allocator = "'w \<Rightarrow> bool \<times> 'w"

definition always_memory :: "'w allocator" where "always_memory w = (True, w)"

lemma always_memory_ok: "\<forall>w. fst (always_memory w)"
  by (simp add: always_memory_def)

definition new_bytes :: "'w allocator \<Rightarrow> nat \<Rightarrow> (8 word list, 'w) step" where
  "new_bytes al n w = (case al w of (ok, w') \<Rightarrow> if ok then Done (replicate n 0) w' else Fail AMVP_MALLOC_FAIL w')"

definition new_chars :: "'w allocator \<Rightarrow> nat \<Rightarrow> (char list, 'w) step" where
  "new_chars al n w = (case al w of (ok, w') \<Rightarrow> if ok then Done (replicate n NUL) w' else Fail AMVP_MALLOC_FAIL w')"

text \<open>Hexadecimal text into a buffer of the size claimed, and bytes into a fresh string.\<close>

definition from_hex :: "'w allocator \<Rightarrow> string \<Rightarrow> 8 word list \<Rightarrow> nat \<Rightarrow> (8 word list, 'w) step" where
  "from_hex al s buf n = andthen (of_outcome (amvp_hexstr_to_bin (Some s) (Some buf) (int n) None)) (\<lambda>(b, _). pass (the b))"

text \<open>A string that may be absent into a buffer; the buffer stays zero when it is.\<close>

definition from_hex_if :: "'w allocator \<Rightarrow> string option \<Rightarrow> 8 word list \<Rightarrow> nat \<Rightarrow> (8 word list, 'w) step" where
  "from_hex_if al s buf n = (case s of None \<Rightarrow> pass buf | Some t \<Rightarrow> from_hex al t buf n)"

definition to_hex :: "'w allocator \<Rightarrow> 8 word list option \<Rightarrow> int \<Rightarrow> nat \<Rightarrow> (string, 'w) step" where
  "to_hex al bs len n =
     andthen (new_chars al (n + 1)) (\<lambda>tmp.
       andthen (of_outcome (amvp_bin_to_hexstr bs len (Some tmp) (int n))) (\<lambda>t. pass (cstr (the t))))"

definition from_hex_len :: "'w allocator \<Rightarrow> string \<Rightarrow> 8 word list \<Rightarrow> nat \<Rightarrow> (8 word list \<times> nat, 'w) step" where
  "from_hex_len al s buf n =
     andthen (of_outcome (amvp_hexstr_to_bin (Some s) (Some buf) (int n) (Some 0))) (\<lambda>(b, k). pass (the b, nat (the k)))"

text \<open>Copies between the buffers of a test case, whose error codes the code ignores.\<close>

definition copy_bytes :: "8 word list option \<Rightarrow> nat \<Rightarrow> 8 word list option \<Rightarrow> nat \<Rightarrow> (8 word list option, 'w) step" where
  "copy_bytes dest dmax src slen = andthen (of_sum (memcpy_s dest dmax src slen)) (\<lambda>(_, d). pass d)"

definition clear_bytes :: "8 word list option \<Rightarrow> nat \<Rightarrow> (8 word list option, 'w) step" where
  "clear_bytes dest dmax =
     (case dest of None \<Rightarrow> pass None
      | Some buf \<Rightarrow> andthen (of_sum (put_bytes 0 (replicate dmax 0) buf)) (\<lambda>b. pass (Some b)))"

text \<open>The crypto module, by the callback stored in the capability; it changes the test case.\<close>

definition call_crypto ::
  "(nat \<Rightarrow> 'tc \<Rightarrow> 'w \<Rightarrow> AMVP_RESULT \<times> 'tc \<times> 'w) \<Rightarrow> callback \<Rightarrow> 'tc \<Rightarrow> ('tc, 'w) step" where
  "call_crypto crypto cb stc w =
     (case cb of
        None \<Rightarrow> Undef Null_Deref
      | Some c \<Rightarrow>
          case crypto c stc w of (rv, stc', w') \<Rightarrow>
            if rv \<noteq> AMVP_SUCCESS then Fail AMVP_CRYPTO_MODULE_FAIL w' else Done stc' w')"

section \<open>The answer\<close>

text \<open>
  \<^verbatim>\<open>amvp_create_array\<close> and \<^verbatim>\<open>amvp_setup_json_rsp_group\<close> of \<^verbatim>\<open>src/amvp_util.c\<close>: the response of the
  context becomes a new, empty array, and the object of the vector set is prepared.
\<close>

definition amvp_setup_json_rsp_group :: "string \<Rightarrow> 'w SESSION \<Rightarrow> JSON_Object \<times> 'w SESSION" where
  "amvp_setup_json_rsp_group alg_str ctx =
     (json_object_set_value ''testGroups'' (Some (JSONArray []))
        (json_object_set_string ''algorithm'' (Some alg_str) (json_object_set_number ''vsId'' (vs_id ctx) [])),
      ctx\<lparr>kat_resp := Some (JSONArray [])\<rparr>)"

definition group_rsp :: "int \<Rightarrow> JSON_Array \<Rightarrow> JSON_Value" where
  "group_rsp tgId tests =
     JSONObject (json_object_set_value ''tests'' (Some (JSONArray tests)) (json_object_set_number ''tgId'' tgId []))"

text \<open>
  The body every handler has: prepare the answer, work through the groups, and append the object
  of the vector set to the response, which stays empty when a step fails. Some of the handlers
  refuse a set without groups (\<open>no_groups\<close>), some add a member to the object (\<open>extra\<close>). A handler whose local variables survive from one group to
  the next keeps them in the state \<open>'s\<close>, beside the world. Before the body, the cipher and its
  capability are found.
\<close>

definition kat_answer ::
  "('w \<Rightarrow> 's) \<Rightarrow> ('s \<Rightarrow> 'w) \<Rightarrow> (JSON_Object \<Rightarrow> JSON_Object) \<Rightarrow> AMVP_RESULT option \<Rightarrow> (JSON_Object option \<Rightarrow> (JSON_Value, 's) step) \<Rightarrow>
   string \<Rightarrow> JSON_Object option \<Rightarrow> 'w SESSION \<Rightarrow> 'w SESSION outcome" where
  "kat_answer enter leave extra no_groups do_group alg_str obj ctx =
     (let (r_vs, ctx1) = amvp_setup_json_rsp_group alg_str ctx;
          groups = json_object_get_array obj ''testGroups'';
          objs = map (\<lambda>v. json_value_get_object (Some v)) (case groups of None \<Rightarrow> [] | Some a \<Rightarrow> a)
      in case reject (no_groups \<noteq> None \<and> groups = None) (the no_groups) (each do_group objs) (enter (world ctx1)) of
           Undef u \<Rightarrow> UB u
         | Fail rv s \<Rightarrow> Ret rv (ctx1\<lparr>world := leave s\<rparr>)
         | Done garr s \<Rightarrow>
             Ret AMVP_SUCCESS
               (ctx1\<lparr>kat_resp := Some (JSONArray [JSONObject (json_object_set_value ''testGroups'' (Some (JSONArray garr)) (extra r_vs))]),
                  world := leave s\<rparr>))"

definition kat_body ::
  "('w \<Rightarrow> 's) \<Rightarrow> ('s \<Rightarrow> 'w) \<Rightarrow> bool \<Rightarrow> (JSON_Object option \<Rightarrow> (JSON_Value, 's) step) \<Rightarrow> string \<Rightarrow> JSON_Object option \<Rightarrow>
   'w SESSION \<Rightarrow> 'w SESSION outcome" where
  "kat_body enter leave need = kat_answer enter leave (\<lambda>r. r) (if need then Some AMVP_MISSING_ARG else None)"

definition kat_frame ::
  "bool \<Rightarrow> ('w \<Rightarrow> 's) \<Rightarrow> ('s \<Rightarrow> 'w) \<Rightarrow> (AMVP_CIPHER \<Rightarrow> callback \<Rightarrow> JSON_Object option \<Rightarrow> (JSON_Value, 's) step) \<Rightarrow>
   JSON_Object option \<Rightarrow> 'w SESSION option \<Rightarrow> 'w SESSION option outcome" where
  "kat_frame need enter leave do_group obj octx =
     with_ctx octx (\<lambda>ctx.
       case json_object_get_string obj ''algorithm'' of
         None \<Rightarrow> Ret AMVP_MALFORMED_JSON ctx
       | Some alg_str \<Rightarrow>
           let alg_id = amvp_lookup_cipher_index (Some alg_str) in
           if alg_id = 0 then Ret AMVP_UNSUPPORTED_OP ctx
           else
             case amvp_locate_cap_entry (Some ctx) alg_id of
               None \<Rightarrow> Ret AMVP_UNSUPPORTED_OP ctx
             | Some cap \<Rightarrow> kat_body enter leave need (do_group alg_id (cap_crypto_handler cap)) alg_str obj ctx)"

text \<open>The number of a group, which every handler requires, and its tests.\<close>

definition with_tgId :: "JSON_Object option \<Rightarrow> (int \<Rightarrow> ('a, 's) step) \<Rightarrow> ('a, 's) step" where
  "with_tgId groupobj k =
     andthen (as_int (json_object_get_number groupobj ''tgId'')) (\<lambda>tgId. reject (tgId = 0) AMVP_MALFORMED_JSON (k tgId))"

definition each_test :: "JSON_Object option \<Rightarrow> (JSON_Object option \<Rightarrow> ('a, 's) step) \<Rightarrow> ('a list, 's) step" where
  "each_test groupobj f =
     each f (map (\<lambda>v. json_value_get_object (Some v)) (case json_object_get_array groupobj ''tests'' of None \<Rightarrow> [] | Some a \<Rightarrow> a))"

definition required :: "'x option \<Rightarrow> ('x \<Rightarrow> ('a, 's) step) \<Rightarrow> ('a, 's) step" where
  "required x k = (case x of None \<Rightarrow> stop AMVP_MISSING_ARG | Some y \<Rightarrow> k y)"

lemma required_simps [simp]: "required None k = stop AMVP_MISSING_ARG" "required (Some y) k = k y"
  by (simp_all add: required_def)

text \<open>A length of a group, which must be present and not zero, and its tests, at least one.\<close>

definition group_len :: "JSON_Object option \<Rightarrow> string \<Rightarrow> (nat \<Rightarrow> ('a, 's) step) \<Rightarrow> ('a, 's) step" where
  "group_len groupobj name k =
     andthen (as_uint (json_object_get_number groupobj name)) (\<lambda>n. reject (n = 0) AMVP_MISSING_ARG (k n))"

definition some_tests :: "JSON_Object option \<Rightarrow> ('a, 's) step \<Rightarrow> ('a, 's) step" where
  "some_tests groupobj p =
     reject (json_object_get_array groupobj ''tests'' = None \<or> json_array_get_count (json_object_get_array groupobj ''tests'') = 0)
       AMVP_MISSING_ARG p"

text \<open>A text of a test, which must be present and not longer than its limit.\<close>

definition bounded_text :: "JSON_Object option \<Rightarrow> string \<Rightarrow> nat \<Rightarrow> (string \<Rightarrow> ('a, 's) step) \<Rightarrow> ('a, 's) step" where
  "bounded_text obj name mx k =
     required (json_object_get_string obj name) (\<lambda>t. reject (strnlen_s (Some t) (mx + 1) > mx) AMVP_INVALID_ARG (k t))"

text \<open>A flag of a group, which must be there, and a length in bits with its limits.\<close>

definition flag :: "JSON_Object option \<Rightarrow> string \<Rightarrow> (int \<Rightarrow> ('a, 's) step) \<Rightarrow> ('a, 's) step" where
  "flag obj name k = (let b = json_object_get_boolean obj name in reject (b = -1) AMVP_MISSING_ARG (k b))"

definition bits_within :: "JSON_Object option \<Rightarrow> string \<Rightarrow> int \<Rightarrow> int \<Rightarrow> bool \<Rightarrow> (nat \<Rightarrow> ('a, 's) step) \<Rightarrow> ('a, 's) step" where
  "bits_within obj name lo hi exempt k =
     andthen (as_uint (json_object_get_number obj name)) (\<lambda>n. reject (\<not> exempt \<and> (int n < lo \<or> int n > hi)) AMVP_INVALID_ARG (k n))"

section \<open>What steps keep\<close>

text \<open>A step keeps a property of the state when it holds after every way of finishing.\<close>

named_theorems keeps_intros \<open>rules for the steps that keep a property\<close>

definition keeps :: "('s \<Rightarrow> bool) \<Rightarrow> ('a, 's) step \<Rightarrow> bool" where
  "keeps P p \<longleftrightarrow> (\<forall>s x t. P s \<longrightarrow> p s = Done x t \<longrightarrow> P t)"

lemma keepsD: "keeps P p \<Longrightarrow> p s = Done x t \<Longrightarrow> P s \<Longrightarrow> P t"
  by (auto simp: keeps_def)

lemma keeps_basic [keeps_intros]: "keeps P (pass x)" "keeps P (stop rv)" "keeps P (undef u)"
  by (simp_all add: keeps_def)

lemma keeps_andthen [keeps_intros]: "keeps P p \<Longrightarrow> (\<And>x. keeps P (f x)) \<Longrightarrow> keeps P (andthen p f)"
  unfolding keeps_def andthen_Done_iff by blast

lemma keeps_reject [keeps_intros]: "keeps P p \<Longrightarrow> keeps P (reject b rv p)"
  by (cases b) (simp_all add: keeps_basic)

lemma keeps_required [keeps_intros]: "(\<And>y. keeps P (k y)) \<Longrightarrow> keeps P (required x k)"
  by (cases x) (simp_all add: keeps_basic)

lemma keeps_number [keeps_intros]: "keeps P (as_uint n)" "keeps P (as_int n)"
  by (simp_all add: as_uint_def as_int_def keeps_basic)

lemma keeps_each [keeps_intros]: "(\<And>x. keeps P (f x)) \<Longrightarrow> keeps P (each f xs)"
  by (induction xs) (simp_all add: keeps_basic keeps_andthen)

lemma keeps_with_state: "(\<And>s. keeps P (q s)) \<Longrightarrow> keeps P (\<lambda>s. q s s)"
  by (auto simp: keeps_def)

section \<open>Steps that succeed\<close>

lemma copy_bytes_ok:
  assumes "n \<le> dmax" and "n \<le> length s" and "n \<le> length d"
  shows "copy_bytes (Some d) dmax (Some s) n w = Done (Some (take n s @ drop n d)) w"
  using assms by (simp add: copy_bytes_def memcpy_s_def put_bytes_def min_def)

lemma new_chars_ok:
  assumes "\<forall>w. fst (al w)"
  obtains w' where "new_chars al n w = Done (replicate n NUL) w'"
  using assms by (cases "al w") (auto simp: new_chars_def dest: spec [of _ w])

lemma new_bytes_ok:
  assumes "\<forall>w. fst (al w)"
  obtains w' where "new_bytes al n w = Done (replicate n 0) w'"
  using assms by (cases "al w") (auto simp: new_bytes_def dest: spec [of _ w])

lemma bin_to_hex_loop_take:
  "n \<le> length bs \<Longrightarrow> bin_to_hex_loop n bs j dest = bin_to_hex_loop n (take n bs) j dest"
  by (induction n bs j dest rule: bin_to_hex_loop.induct) (auto split: sum.splits)

lemma to_hex_ok:
  assumes "\<forall>w. fst (al w)" and "n \<le> length bs" and "2 * n \<le> mx" and "n < 2 ^ 30"
  obtains w' where "to_hex al (Some bs) (wrap32 (int n)) mx w = Done (hex_of (take n bs)) w'"
proof -
  obtain w' where w': "new_chars al (mx + 1) w = Done (replicate (mx + 1) NUL) w'"
    using new_chars_ok [OF assms(1)] .
  have wr: "wrap32 (int n) = int n" "wrap32 (int n * 2) = int n * 2"
    using assms(4) by (auto intro!: wrap32_id simp: is_int32_def)
  have "bin_to_hex_loop n bs 0 (replicate (mx + 1) NUL) =
      Inr (hex_of (take n bs) @ NUL # drop (2 * n + 1) (replicate (mx + 1) NUL))"
    using assms(2,3) bin_to_hex_loop_eq [of "take n bs" n 0 "replicate (mx + 1) NUL"]
    by (simp add: bin_to_hex_loop_take [of n bs] min_def)
  moreover have "cstr (hex_of (take n bs) @ NUL # r) = hex_of (take n bs)" for r
    by (rule cstr_append_NUL [OF hex_of_c_string])
  ultimately have "to_hex al (Some bs) (wrap32 (int n)) mx w = Done (hex_of (take n bs)) w'"
    using assms(3) wr w' by (simp add: to_hex_def amvp_bin_to_hexstr_def)
  then show ?thesis using that by blast
qed

lemma from_hex_ok:
  assumes "length bs \<le> n" and "n < 2 ^ 30" and "2 * length bs \<le> AMVP_HEXSTR_MAX"
  shows "from_hex al (hex_of bs) (replicate n 0) n w = Done (bs @ replicate (n - length bs) 0) w"
proof -
  have "wrap32 (2 * int n) = 2 * int n" using assms(2) by (intro wrap32_id) (simp add: is_int32_def)
  then have "amvp_hexstr_to_bin (Some (hex_of bs)) (Some (replicate n 0)) (int n) None =
      Ret AMVP_SUCCESS (Some (bs @ replicate (n - length bs) 0), None)"
    using assms hex_to_bin_loop_eq [of 0 bs "replicate n 0"] by (simp add: amvp_hexstr_to_bin_def Let_def min_def)
  then show ?thesis by (simp add: from_hex_def)
qed

text \<open>The buffer of a text: its bytes, followed by zeros, or all zeros when there is no text.\<close>

definition padded :: "nat \<Rightarrow> 8 word list option \<Rightarrow> 8 word list" where
  "padded n bs = (case bs of None \<Rightarrow> replicate n 0 | Some b \<Rightarrow> b @ replicate (n - length b) 0)"

lemma take_padded [simp]: "take (length bs) (padded n (Some bs)) = bs"
  by (simp add: padded_def)

lemma from_hex_if_ok:
  assumes "\<And>b. bs = Some b \<Longrightarrow> length b \<le> n" and "n \<le> 131072"
  shows "from_hex_if al (map_option hex_of bs) (replicate n 0) n w = Done (padded n bs) w"
proof (cases bs)
  case (Some b)
  then have "from_hex al (hex_of b) (replicate n 0) n w = Done (b @ replicate (n - length b) 0) w"
    using assms by (intro from_hex_ok) (auto simp: AMVP_HEXSTR_MAX_def)
  then show ?thesis by (simp add: from_hex_if_def padded_def Some)
qed (simp add: from_hex_if_def padded_def)

lemmas from_hex_if_Some = from_hex_if_ok [where bs = "Some b" for b, simplified]

lemma take_padded_length: "length bs = n \<Longrightarrow> take n (padded m (Some bs)) = bs"
  by (simp add: padded_def)

lemma each_ok:
  assumes "\<And>x w. x \<in> set xs \<Longrightarrow> \<exists>w'. f (k x) w = Done (g x) w'"
  shows "\<exists>w'. each f (map k xs) w = Done (map g xs) w'"
  using assms
proof (induction xs arbitrary: w)
  case (Cons x xs)
  obtain w1 where "f (k x) w = Done (g x) w1" using Cons.prems [of x w] by auto
  moreover obtain w2 where "each f (map k xs) w1 = Done (map g xs) w2" using Cons.IH [of w1] Cons.prems by auto
  ultimately show ?case by simp
qed simp

text \<open>
  The names of members that requests and answers use, each short enough to be looked up
  exactly, and the rules that read and build objects with such names.
\<close>

lemma kat_names:
  "json_name ''algorithm''" "json_name ''testGroups''" "json_name ''vsId''" "json_name ''tgId''" "json_name ''tests''"
  "json_name ''testType''" "json_name ''tcId''" "json_name ''msg''" "json_name ''md''" "json_name ''mac''" "json_name ''resultsArray''"
  "json_name ''msgLen''" "json_name ''keyLen''" "json_name ''macLen''" "json_name ''key''" "json_name ''direction''" "json_name ''message''"
  "json_name ''testPassed''" "json_name ''outLen''"
  by (simp_all add: json_name_def c_string_def)

lemma c_string_simps: "c_string []" "c_string (c # s) \<longleftrightarrow> c \<noteq> NUL \<and> c_string s"
  by (auto simp: c_string_def)

lemmas json_read =
  json_object_get_string_def json_value_get_string_def json_object_get_number_def json_value_get_number_def
  json_object_get_array_def json_value_get_array_def json_value_get_object_def json_object_get_value_eq

lemmas json_build =
  json_object_set_string_def json_object_set_number_def json_set_new json_set_old

lemmas json_known = kat_names json_names_simps c_string_simps

end
