(* ===== verification/Kat_Hash.thy ===== *)
theory Kat_Hash
  imports Kat_Common
begin

text \<open>
  The handler of hash vector sets, \<^verbatim>\<open>src/amvp_hash.c\<close>: algorithm functional tests, tests with an
  output length of the server's choice (SHAKE), and the three Monte Carlo tests.
\<close>

section \<open>Test cases\<close>

definition AMVP_HASH_MSG_STR_MAX :: nat where "AMVP_HASH_MSG_STR_MAX = 16384"
definition AMVP_HASH_MSG_BYTE_MAX :: nat where "AMVP_HASH_MSG_BYTE_MAX = 8192"
definition AMVP_HASH_MD_STR_MAX :: nat where "AMVP_HASH_MD_STR_MAX = 128"
definition AMVP_HASH_MD_BYTE_MAX :: nat where "AMVP_HASH_MD_BYTE_MAX = 64"
definition AMVP_SHAKE_MSG_STR_MAX :: nat where "AMVP_SHAKE_MSG_STR_MAX = 32768"
definition AMVP_SHAKE_MSG_BYTE_MAX :: nat where "AMVP_SHAKE_MSG_BYTE_MAX = 16384"
definition AMVP_HASH_XOF_MD_STR_MAX :: nat where "AMVP_HASH_XOF_MD_STR_MAX = 16384"
definition AMVP_HASH_XOF_MD_BYTE_MAX :: nat where "AMVP_HASH_XOF_MD_BYTE_MAX = 8192"
definition AMVP_HASH_MCT_INNER :: nat where "AMVP_HASH_MCT_INNER = 1000"
definition AMVP_HASH_MCT_OUTER :: nat where "AMVP_HASH_MCT_OUTER = 100"

lemmas hash_sizes =
  AMVP_HASH_MSG_STR_MAX_def AMVP_HASH_MSG_BYTE_MAX_def AMVP_HASH_MD_STR_MAX_def AMVP_HASH_MD_BYTE_MAX_def
  AMVP_SHAKE_MSG_STR_MAX_def AMVP_SHAKE_MSG_BYTE_MAX_def AMVP_HASH_XOF_MD_STR_MAX_def AMVP_HASH_XOF_MD_BYTE_MAX_def

datatype AMVP_HASH_TESTTYPE =
  AMVP_HASH_TEST_TYPE_NONE | AMVP_HASH_TEST_TYPE_AFT | AMVP_HASH_TEST_TYPE_MCT | AMVP_HASH_TEST_TYPE_VOT

record AMVP_HASH_TC =
  h_cipher :: AMVP_CIPHER
  h_tc_id :: nat
  h_test_type :: AMVP_HASH_TESTTYPE
  h_msg :: "8 word list option"
  h_m1 :: "8 word list option"
  h_m2 :: "8 word list option"
  h_m3 :: "8 word list option"
  h_msg_len :: nat
  h_xof_len :: nat
  h_xof_bit_len :: nat
  h_md :: "8 word list option"
  h_md_len :: nat

type_synonym 'w hash_crypto = "nat \<Rightarrow> AMVP_HASH_TC \<Rightarrow> 'w \<Rightarrow> AMVP_RESULT \<times> AMVP_HASH_TC \<times> 'w"

definition is_shake :: "AMVP_CIPHER \<Rightarrow> bool" where
  "is_shake c \<longleftrightarrow> c = AMVP_HASH_SHAKE_128 \<or> c = AMVP_HASH_SHAKE_256"

definition is_sha3 :: "AMVP_CIPHER \<Rightarrow> bool" where
  "is_sha3 c \<longleftrightarrow> c = AMVP_HASH_SHA3_224 \<or> c = AMVP_HASH_SHA3_256 \<or> c = AMVP_HASH_SHA3_384 \<or> c = AMVP_HASH_SHA3_512"

definition hash_read_test_type :: "string \<Rightarrow> AMVP_HASH_TESTTYPE" where
  "hash_read_test_type tt_str =
     (let d1 = snd (strcmp_s (Some ''MCT'') 3 (Some tt_str) 0) in
      if d1 = 0 then AMVP_HASH_TEST_TYPE_MCT
      else let d2 = snd (strcmp_s (Some ''AFT'') 3 (Some tt_str) d1) in
        if d2 = 0 then AMVP_HASH_TEST_TYPE_AFT
        else let d3 = snd (strcmp_s (Some ''VOT'') 3 (Some tt_str) d2) in
          if d3 = 0 then AMVP_HASH_TEST_TYPE_VOT else AMVP_HASH_TEST_TYPE_NONE)"

text \<open>The three buffers that only the Monte Carlo test of SHA-1 and SHA-2 has.\<close>

definition mct_buffers ::
  "'w allocator \<Rightarrow> bool \<Rightarrow> ((8 word list option \<times> 8 word list option \<times> 8 word list option), 'w) step" where
  "mct_buffers al present =
     (if \<not> present then pass (None, None, None)
      else andthen (new_bytes al AMVP_HASH_MD_BYTE_MAX) (\<lambda>a. andthen (new_bytes al AMVP_HASH_MD_BYTE_MAX) (\<lambda>b.
             andthen (new_bytes al AMVP_HASH_MD_BYTE_MAX) (\<lambda>c. pass (Some a, Some b, Some c)))))"

definition amvp_hash_init_tc ::
  "'w allocator \<Rightarrow> nat \<Rightarrow> AMVP_HASH_TESTTYPE \<Rightarrow> nat \<Rightarrow> string \<Rightarrow> nat \<Rightarrow> AMVP_CIPHER \<Rightarrow> (AMVP_HASH_TC, 'w) step" where
  "amvp_hash_init_tc al tc_id test_type msg_len msg xof_len alg_id =
     (let msg_max = (if is_shake alg_id then AMVP_SHAKE_MSG_BYTE_MAX else AMVP_HASH_MSG_BYTE_MAX);
          md_max = (if test_type = AMVP_HASH_TEST_TYPE_AFT then AMVP_HASH_MD_BYTE_MAX
                    else if test_type = AMVP_HASH_TEST_TYPE_VOT then AMVP_HASH_XOF_MD_BYTE_MAX
                    else if is_shake alg_id then AMVP_HASH_XOF_MD_BYTE_MAX else AMVP_HASH_MD_BYTE_MAX);
          three = (test_type \<noteq> AMVP_HASH_TEST_TYPE_AFT \<and> test_type \<noteq> AMVP_HASH_TEST_TYPE_VOT \<and>
                   \<not> is_sha3 alg_id \<and> \<not> is_shake alg_id)
      in andthen (new_bytes al msg_max) (\<lambda>buf.
         andthen (new_bytes al md_max) (\<lambda>md.
         andthen (mct_buffers al three) (\<lambda>(m1, m2, m3).
         andthen (from_hex al msg buf msg_max) (\<lambda>bin.
           pass \<lparr>h_cipher = alg_id, h_tc_id = tc_id, h_test_type = test_type, h_msg = Some bin,
                 h_m1 = m1, h_m2 = m2, h_m3 = m3, h_msg_len = (msg_len + 7) div 8, h_xof_len = (xof_len + 7) div 8,
                 h_xof_bit_len = xof_len, h_md = Some md, h_md_len = 0\<rparr>)))))"

text \<open>The length the crypto module stored is an \<^verbatim>\<open>unsigned int\<close>, passed as an \<^verbatim>\<open>int\<close>.\<close>

definition amvp_hash_output_tc :: "'w allocator \<Rightarrow> AMVP_HASH_TC \<Rightarrow> JSON_Object \<Rightarrow> (JSON_Object, 'w) step" where
  "amvp_hash_output_tc al stc tc_rsp =
     andthen (to_hex al (h_md stc) (wrap32 (int (h_md_len stc)))
                (if h_test_type stc = AMVP_HASH_TEST_TYPE_VOT then AMVP_HASH_XOF_MD_STR_MAX else AMVP_HASH_MD_STR_MAX))
       (\<lambda>tmp. pass (json_object_set_string ''md'' (Some tmp) tc_rsp))"

definition amvp_hash_output_mct_tc :: "'w allocator \<Rightarrow> AMVP_HASH_TC \<Rightarrow> JSON_Object \<Rightarrow> (JSON_Object, 'w) step" where
  "amvp_hash_output_mct_tc al stc r_tobj =
     andthen (to_hex al (h_md stc) (wrap32 (int (h_md_len stc)))
                (if is_shake (h_cipher stc) then AMVP_HASH_XOF_MD_STR_MAX else AMVP_HASH_MD_STR_MAX))
       (\<lambda>tmp. pass (json_object_set_string ''md'' (Some tmp) r_tobj))"

section \<open>Monte Carlo tests\<close>

definition amvp_hash_mct_iterate_tc :: "AMVP_HASH_TC \<Rightarrow> (AMVP_HASH_TC, 'w) step" where
  "amvp_hash_mct_iterate_tc stc =
     andthen (copy_bytes (h_m1 stc) AMVP_HASH_MD_BYTE_MAX (h_m2 stc) (h_md_len stc)) (\<lambda>m1.
     andthen (copy_bytes (h_m2 stc) AMVP_HASH_MD_BYTE_MAX (h_m3 stc) (h_md_len stc)) (\<lambda>m2.
     andthen (copy_bytes (h_m3 stc) AMVP_HASH_MD_BYTE_MAX (h_md stc) (h_md_len stc)) (\<lambda>m3.
       pass (stc\<lparr>h_m1 := m1, h_m2 := m2, h_m3 := m3\<rparr>))))"

primrec mct_inner :: "'w hash_crypto \<Rightarrow> callback \<Rightarrow> nat \<Rightarrow> AMVP_HASH_TC \<Rightarrow> (AMVP_HASH_TC, 'w) step" where
  "mct_inner crypto cb 0 stc = pass stc"
| "mct_inner crypto cb (Suc n) stc =
     andthen (call_crypto crypto cb stc) (\<lambda>stc1.
     andthen (amvp_hash_mct_iterate_tc stc1) (\<lambda>stc2. mct_inner crypto cb n stc2))"

primrec mct_outer ::
  "'w allocator \<Rightarrow> 'w hash_crypto \<Rightarrow> callback \<Rightarrow> nat \<Rightarrow> AMVP_HASH_TC \<Rightarrow> (JSON_Array \<times> AMVP_HASH_TC, 'w) step" where
  "mct_outer al crypto cb 0 stc = pass ([], stc)"
| "mct_outer al crypto cb (Suc n) stc =
     andthen (mct_inner crypto cb AMVP_HASH_MCT_INNER stc) (\<lambda>stc1.
     andthen (amvp_hash_output_mct_tc al stc1 []) (\<lambda>r_tobj.
     andthen (copy_bytes (h_m1 stc1) AMVP_HASH_MD_BYTE_MAX (h_m3 stc1) (h_msg_len stc1)) (\<lambda>m1.
     andthen (copy_bytes (h_m2 stc1) AMVP_HASH_MD_BYTE_MAX (h_m3 stc1) (h_msg_len stc1)) (\<lambda>m2.
     andthen (mct_outer al crypto cb n (stc1\<lparr>h_m1 := m1, h_m2 := m2\<rparr>)) (\<lambda>(rest, stc2).
       pass (JSONObject r_tobj # rest, stc2))))))"

definition amvp_hash_mct_tc ::
  "'w allocator \<Rightarrow> 'w hash_crypto \<Rightarrow> callback \<Rightarrow> AMVP_HASH_TC \<Rightarrow> (JSON_Array \<times> AMVP_HASH_TC, 'w) step" where
  "amvp_hash_mct_tc al crypto cb stc =
     andthen (new_chars al (AMVP_HASH_MSG_STR_MAX * 3)) (\<lambda>_.
     andthen (copy_bytes (h_m1 stc) AMVP_HASH_MD_BYTE_MAX (h_msg stc) (h_msg_len stc)) (\<lambda>m1.
     andthen (copy_bytes (h_m2 stc) AMVP_HASH_MD_BYTE_MAX (h_msg stc) (h_msg_len stc)) (\<lambda>m2.
     andthen (copy_bytes (h_m3 stc) AMVP_HASH_MD_BYTE_MAX (h_msg stc) (h_msg_len stc)) (\<lambda>m3.
       mct_outer al crypto cb AMVP_HASH_MCT_OUTER (stc\<lparr>h_m1 := m1, h_m2 := m2, h_m3 := m3\<rparr>)))))"

text \<open>SHA-3: the digest becomes the next message; the last one starts the next outer round.\<close>

definition sha3_feed :: "AMVP_HASH_TC \<Rightarrow> (AMVP_HASH_TC, 'w) step" where
  "sha3_feed stc =
     andthen (clear_bytes (h_msg stc) AMVP_HASH_MSG_BYTE_MAX) (\<lambda>z.
     andthen (copy_bytes z AMVP_HASH_MSG_BYTE_MAX (h_md stc) (h_md_len stc)) (\<lambda>m.
       pass (stc\<lparr>h_msg := m, h_msg_len := h_md_len stc\<rparr>)))"

primrec sha3_inner :: "'w hash_crypto \<Rightarrow> callback \<Rightarrow> nat \<Rightarrow> bool \<Rightarrow> AMVP_HASH_TC \<Rightarrow> (AMVP_HASH_TC, 'w) step" where
  "sha3_inner crypto cb 0 first stc = (if first then pass stc else sha3_feed stc)"
| "sha3_inner crypto cb (Suc n) first stc =
     andthen (if first then pass stc else sha3_feed stc) (\<lambda>stc1.
     andthen (clear_bytes (h_md stc1) AMVP_HASH_MD_BYTE_MAX) (\<lambda>z.
     andthen (call_crypto crypto cb (stc1\<lparr>h_md := z\<rparr>)) (\<lambda>stc2. sha3_inner crypto cb n False stc2)))"

primrec sha3_outer ::
  "'w allocator \<Rightarrow> 'w hash_crypto \<Rightarrow> callback \<Rightarrow> nat \<Rightarrow> AMVP_HASH_TC \<Rightarrow> (JSON_Array \<times> AMVP_HASH_TC, 'w) step" where
  "sha3_outer al crypto cb 0 stc = pass ([], stc)"
| "sha3_outer al crypto cb (Suc n) stc =
     andthen (sha3_inner crypto cb AMVP_HASH_MCT_INNER True stc) (\<lambda>stc1.
     andthen (amvp_hash_output_mct_tc al stc1 []) (\<lambda>r_tobj.
     andthen (sha3_outer al crypto cb n stc1) (\<lambda>(rest, stc2). pass (JSONObject r_tobj # rest, stc2))))"

definition amvp_hash_sha3_mct ::
  "'w allocator \<Rightarrow> 'w hash_crypto \<Rightarrow> callback \<Rightarrow> AMVP_HASH_TC \<Rightarrow> (JSON_Array \<times> AMVP_HASH_TC, 'w) step" where
  "amvp_hash_sha3_mct al crypto cb stc = sha3_outer al crypto cb AMVP_HASH_MCT_OUTER stc"

text \<open>
  SHAKE: the leftmost 16 bytes of the digest become the next message, and its last two bytes
  choose the next output length. \<^verbatim>\<open>range\<close> is unsigned and wraps.
\<close>

definition shake_feed :: "AMVP_HASH_TC \<Rightarrow> (AMVP_HASH_TC, 'w) step" where
  "shake_feed stc =
     andthen (clear_bytes (h_msg stc) AMVP_SHAKE_MSG_BYTE_MAX) (\<lambda>z.
     andthen (copy_bytes z AMVP_SHAKE_MSG_BYTE_MAX (h_md stc) (if h_md_len stc \<le> 16 then h_md_len stc else 16)) (\<lambda>m.
       pass (stc\<lparr>h_msg := m\<rparr>)))"

definition shake_range :: "nat \<Rightarrow> nat \<Rightarrow> nat" where
  "shake_range min_xof_bytes max_xof_bytes = nat ((int max_xof_bytes - int min_xof_bytes + 1) mod 2 ^ 32)"

definition rightmost_out_bits :: "8 word list \<Rightarrow> nat \<Rightarrow> nat" where
  "rightmost_out_bits md n = 256 * unat (md ! (n - 2)) + unat (md ! (n - 1))"

definition shake_next_len :: "nat \<Rightarrow> nat \<Rightarrow> AMVP_HASH_TC \<Rightarrow> (nat, 'w) step" where
  "shake_next_len min_xof_bytes range_len stc =
     (case h_md stc of
        None \<Rightarrow> undef Null_Deref
      | Some md \<Rightarrow>
          if h_md_len stc < 2 \<or> h_md_len stc > length md then undef Out_Of_Bounds
          else if range_len = 0 then undef Div_Zero
          else pass (min_xof_bytes + rightmost_out_bits md (h_md_len stc) mod range_len))"

primrec shake_inner ::
  "'w hash_crypto \<Rightarrow> callback \<Rightarrow> nat \<Rightarrow> nat \<Rightarrow> nat \<Rightarrow> bool \<Rightarrow> AMVP_HASH_TC \<Rightarrow> (AMVP_HASH_TC, 'w) step" where
  "shake_inner crypto cb mn rng 0 first stc = (if first then pass stc else shake_feed stc)"
| "shake_inner crypto cb mn rng (Suc n) first stc =
     andthen (if first then pass stc else shake_feed stc) (\<lambda>stc1.
     andthen (clear_bytes (h_md stc1) AMVP_HASH_XOF_MD_BYTE_MAX) (\<lambda>z.
     andthen (call_crypto crypto cb (stc1\<lparr>h_msg_len := 16, h_md := z\<rparr>)) (\<lambda>stc2.
     andthen (shake_next_len mn rng stc2) (\<lambda>len. shake_inner crypto cb mn rng n False (stc2\<lparr>h_xof_len := len\<rparr>)))))"

primrec shake_outer ::
  "'w allocator \<Rightarrow> 'w hash_crypto \<Rightarrow> callback \<Rightarrow> nat \<Rightarrow> nat \<Rightarrow> nat \<Rightarrow> AMVP_HASH_TC \<Rightarrow> (JSON_Array \<times> AMVP_HASH_TC, 'w) step" where
  "shake_outer al crypto cb mn rng 0 stc = pass ([], stc)"
| "shake_outer al crypto cb mn rng (Suc n) stc =
     andthen (shake_inner crypto cb mn rng AMVP_HASH_MCT_INNER True stc) (\<lambda>stc1.
     andthen (amvp_hash_output_mct_tc al stc1 []) (\<lambda>r_tobj.
     andthen (shake_outer al crypto cb mn rng n stc1) (\<lambda>(rest, stc2). pass (JSONObject r_tobj # rest, stc2))))"

definition amvp_hash_shake_mct ::
  "'w allocator \<Rightarrow> 'w hash_crypto \<Rightarrow> callback \<Rightarrow> nat \<Rightarrow> nat \<Rightarrow> AMVP_HASH_TC \<Rightarrow> (JSON_Array \<times> AMVP_HASH_TC, 'w) step" where
  "amvp_hash_shake_mct al crypto cb min_xof_bits max_xof_bits stc =
     (let min_xof_bytes = min_xof_bits div 8; max_xof_bytes = max_xof_bits div 8
      in shake_outer al crypto cb min_xof_bytes (shake_range min_xof_bytes max_xof_bytes) AMVP_HASH_MCT_OUTER
           (stc\<lparr>h_xof_len := (max_xof_bits div 8 * 8 + 7) div 8\<rparr>))"

section \<open>The handler\<close>

definition hash_run_tc ::
  "'w allocator \<Rightarrow> 'w hash_crypto \<Rightarrow> AMVP_CIPHER \<Rightarrow> callback \<Rightarrow> nat \<Rightarrow> nat \<Rightarrow> AMVP_HASH_TC \<Rightarrow> JSON_Object \<Rightarrow> (JSON_Object, 'w) step" where
  "hash_run_tc al crypto alg_id cb min_xof max_xof stc r_tobj =
     (if h_test_type stc = AMVP_HASH_TEST_TYPE_MCT then
        andthen (if is_sha3 alg_id then amvp_hash_sha3_mct al crypto cb stc
                 else if is_shake alg_id then amvp_hash_shake_mct al crypto cb min_xof max_xof stc
                 else amvp_hash_mct_tc al crypto cb stc)
          (\<lambda>(res, _). pass (json_object_set_value ''resultsArray'' (Some (JSONArray res)) r_tobj))
      else andthen (call_crypto crypto cb stc) (\<lambda>stc1. amvp_hash_output_tc al stc1 r_tobj))"

definition hash_test ::
  "'w allocator \<Rightarrow> 'w hash_crypto \<Rightarrow> AMVP_CIPHER \<Rightarrow> callback \<Rightarrow> AMVP_HASH_TESTTYPE \<Rightarrow> nat \<Rightarrow> nat \<Rightarrow> JSON_Object option \<Rightarrow>
   (JSON_Value, 'w) step" where
  "hash_test al crypto alg_id cb test_type min_xof max_xof testobj =
     andthen (as_uint (json_object_get_number testobj ''tcId'')) (\<lambda>tc_id.
     required (json_object_get_string testobj ''msg'') (\<lambda>msg.
       let max_len = (if is_shake alg_id then AMVP_SHAKE_MSG_STR_MAX else AMVP_HASH_MSG_STR_MAX);
           tmp_msg_len = strnlen_s (Some msg) (max_len + 1)
       in reject (tmp_msg_len > max_len) AMVP_INVALID_ARG
            (andthen (if test_type = AMVP_HASH_TEST_TYPE_VOT then as_uint (json_object_get_number testobj ''outLen'') else pass 0) (\<lambda>xof_len.
             reject (test_type = AMVP_HASH_TEST_TYPE_VOT \<and> \<not> (16 \<le> xof_len \<and> xof_len \<le> 65536)) AMVP_INVALID_ARG
               (andthen (amvp_hash_init_tc al tc_id test_type (tmp_msg_len * 4) msg xof_len alg_id) (\<lambda>stc.
                andthen (hash_run_tc al crypto alg_id cb min_xof max_xof stc (json_object_set_number ''tcId'' (int tc_id) []))
                  (\<lambda>r_tobj. pass (JSONObject r_tobj))))))))"

definition hash_xof_limits :: "AMVP_CIPHER \<Rightarrow> AMVP_HASH_TESTTYPE \<Rightarrow> JSON_Object option \<Rightarrow> (nat \<times> nat, 'w) step" where
  "hash_xof_limits alg_id test_type groupobj =
     (if test_type = AMVP_HASH_TEST_TYPE_MCT \<and> is_shake alg_id then
        andthen (as_uint (json_object_get_number groupobj ''minOutLen'')) (\<lambda>mn.
        reject (mn < 16) AMVP_INVALID_ARG
          (andthen (as_uint (json_object_get_number groupobj ''maxOutLen'')) (\<lambda>mx.
           reject (mx > 65536) AMVP_INVALID_ARG (pass (mn, mx)))))
      else pass (0, 0))"

definition hash_group ::
  "'w allocator \<Rightarrow> 'w hash_crypto \<Rightarrow> AMVP_CIPHER \<Rightarrow> callback \<Rightarrow> JSON_Object option \<Rightarrow> (JSON_Value, 'w) step" where
  "hash_group al crypto alg_id cb groupobj =
     with_tgId groupobj (\<lambda>tgId.
     required (json_object_get_string groupobj ''testType'') (\<lambda>test_type_str.
       let test_type = hash_read_test_type test_type_str
       in reject (test_type = AMVP_HASH_TEST_TYPE_NONE) AMVP_INVALID_ARG
            (reject (test_type = AMVP_HASH_TEST_TYPE_VOT \<and> \<not> is_shake alg_id) AMVP_INVALID_ARG
              (andthen (hash_xof_limits alg_id test_type groupobj) (\<lambda>(mn, mx).
               andthen (each_test groupobj (hash_test al crypto alg_id cb test_type mn mx)) (\<lambda>tests.
                 pass (group_rsp tgId tests)))))))"

definition hash_kat_handler ::
  "'w allocator \<Rightarrow> 'w hash_crypto \<Rightarrow> JSON_Object option \<Rightarrow> 'w SESSION option \<Rightarrow> 'w SESSION option outcome" where
  "hash_kat_handler al crypto = kat_frame False (\<lambda>w. w) (\<lambda>w. w) (hash_group al crypto)"

section \<open>The Monte Carlo test of SHA-1 and SHA-2\<close>

text \<open>
  The test as the standard defines it: three copies of the seed, then a thousand times the
  digest of the last three values; the last digest is the answer of the round and the seed of
  the next one.
\<close>

definition mct_next :: "(8 word list \<Rightarrow> 8 word list) \<Rightarrow> 8 word list \<times> 8 word list \<times> 8 word list \<Rightarrow>
    8 word list \<times> 8 word list \<times> 8 word list" where
  "mct_next H = (\<lambda>(a, b, c). (b, c, H (a @ b @ c)))"

definition mct_round :: "(8 word list \<Rightarrow> 8 word list) \<Rightarrow> 8 word list \<Rightarrow> 8 word list" where
  "mct_round H seed = snd (snd ((mct_next H ^^ AMVP_HASH_MCT_INNER) (seed, seed, seed)))"

primrec mct_reference :: "(8 word list \<Rightarrow> 8 word list) \<Rightarrow> nat \<Rightarrow> 8 word list \<Rightarrow> 8 word list list" where
  "mct_reference H 0 seed = []"
| "mct_reference H (Suc n) seed = (let d = mct_round H seed in d # mct_reference H n d)"

text \<open>
  What the crypto module is asked for in such a test: the digest of the three messages, put at
  the front of the digest buffer, and its length.
\<close>

definition mct_input :: "AMVP_HASH_TC \<Rightarrow> 8 word list" where
  "mct_input stc = concat (map (\<lambda>m. take (h_msg_len stc) (the m)) [h_m1 stc, h_m2 stc, h_m3 stc])"

definition digests :: "(AMVP_HASH_TC \<Rightarrow> 8 word list) \<Rightarrow> nat \<Rightarrow> (8 word list \<Rightarrow> 8 word list) \<Rightarrow> 'w hash_crypto \<Rightarrow> nat \<Rightarrow> bool" where
  "digests input n H crypto cb \<longleftrightarrow>
     (\<forall>x. length (H x) = n) \<and>
     (\<forall>stc md w. h_md stc = Some md \<longrightarrow>
        (\<exists>w'. crypto cb stc w = (AMVP_SUCCESS, stc\<lparr>h_md := Some (H (input stc) @ drop n md), h_md_len := n\<rparr>, w')))"

text \<open>A test case whose three messages start with the given values.\<close>

definition mct_holds :: "nat \<Rightarrow> AMVP_HASH_TC \<Rightarrow> 8 word list \<times> 8 word list \<times> 8 word list \<Rightarrow> bool" where
  "mct_holds n stc = (\<lambda>(a, b, c). \<exists>x y z md.
     h_m1 stc = Some x \<and> h_m2 stc = Some y \<and> h_m3 stc = Some z \<and> h_md stc = Some md \<and> h_msg_len stc = n \<and>
     \<not> is_shake (h_cipher stc) \<and>
     list_all (\<lambda>l. length l = AMVP_HASH_MD_BYTE_MAX) [x, y, z, md] \<and> take n x = a \<and> take n y = b \<and> take n z = c)"

lemma mct_inner_step:
  assumes "digests mct_input n H crypto cb" and "n \<le> AMVP_HASH_MD_BYTE_MAX" and "mct_holds n stc v"
  obtains stc' w' where "mct_inner crypto (Some cb) (Suc k) stc w = mct_inner crypto (Some cb) k stc' w'"
    and "mct_holds n stc' (mct_next H v)" and "h_md_len stc' = n" and "take n (the (h_md stc')) = snd (snd (mct_next H v))"
proof -
  obtain a b c where v: "v = (a, b, c)" by (cases v)
  obtain x y z md where st: "h_m1 stc = Some x" "h_m2 stc = Some y" "h_m3 stc = Some z" "h_md stc = Some md" "h_msg_len stc = n"
    "\<not> is_shake (h_cipher stc)" "length x = AMVP_HASH_MD_BYTE_MAX" "length y = AMVP_HASH_MD_BYTE_MAX"
    "length z = AMVP_HASH_MD_BYTE_MAX" "length md = AMVP_HASH_MD_BYTE_MAX" "take n x = a" "take n y = b" "take n z = c"
    using assms(3) by (auto simp: mct_holds_def v)
  have "mct_input stc = a @ b @ c" using st by (simp add: mct_input_def)
  then obtain w' where cr: "crypto cb stc w = (AMVP_SUCCESS, stc\<lparr>h_md := Some (H (a @ b @ c) @ drop n md), h_md_len := n\<rparr>, w')"
    using assms(1) st(4) unfolding digests_def by metis
  have len: "length (H (a @ b @ c)) = n" "length b = n" "length c = n"
    using assms(1,2) st by (auto simp: digests_def)
  let ?md = "H (a @ b @ c) @ drop n md"
  let ?s = "stc\<lparr>h_md := Some ?md, h_md_len := n, h_m1 := Some (take n y @ drop n x), h_m2 := Some (take n z @ drop n y),
      h_m3 := Some (H (a @ b @ c) @ drop n z)\<rparr>"
  have "call_crypto crypto (Some cb) stc w = Done (stc\<lparr>h_md := Some ?md, h_md_len := n\<rparr>) w'"
    by (simp add: call_crypto_def cr)
  moreover have "amvp_hash_mct_iterate_tc (stc\<lparr>h_md := Some ?md, h_md_len := n\<rparr>) w' = Done ?s w'"
    using assms(2) st len by (simp add: amvp_hash_mct_iterate_tc_def copy_bytes_ok)
  ultimately have "mct_inner crypto (Some cb) (Suc k) stc w = mct_inner crypto (Some cb) k ?s w'" by simp
  moreover have "mct_holds n ?s (mct_next H v)"
    using assms(2) st(5-) len by (simp add: mct_holds_def mct_next_def v)
  ultimately show ?thesis using that [of ?s w'] len by (simp add: mct_next_def v)
qed

lemma mct_inner_eq:
  assumes "digests mct_input n H crypto cb" and "n \<le> AMVP_HASH_MD_BYTE_MAX" and "mct_holds n stc v"
  obtains stc' w' where "mct_inner crypto (Some cb) (Suc k) stc w = Done stc' w'"
    and "mct_holds n stc' ((mct_next H ^^ Suc k) v)" and "h_md_len stc' = n"
    and "take n (the (h_md stc')) = snd (snd ((mct_next H ^^ Suc k) v))"
  using assms(3)
proof (induction k arbitrary: stc v w thesis)
  case 0
  show ?case using mct_inner_step [OF assms(1,2) "0.prems"(2), of 0 w] "0.prems"(1) by auto
next
  case (Suc k)
  obtain stc1 w1 where s1: "mct_inner crypto (Some cb) (Suc (Suc k)) stc w = mct_inner crypto (Some cb) (Suc k) stc1 w1"
    and h1: "mct_holds n stc1 (mct_next H v)"
    using mct_inner_step [OF assms(1,2) Suc.prems(2), of "Suc k" w] by metis
  show ?case
    by (rule Suc.IH [OF _ h1, of w1], rule Suc.prems(1))
      (simp_all only: s1 funpow_Suc_right o_apply)
qed

lemma mct_outer_eq:
  assumes "digests mct_input n H crypto cb" and "n \<le> AMVP_HASH_MD_BYTE_MAX" and "\<forall>w. fst (al w)"
    and "mct_holds n stc (seed, seed, seed)"
  shows "\<exists>stc' w'. mct_outer al crypto (Some cb) k stc w =
    Done (map (\<lambda>d. JSONObject [(''md'', JSONString (hex_of d))]) (mct_reference H k seed), stc') w'"
  using assms(4)
proof (induction k arbitrary: stc seed w)
  case (Suc k)
  let ?v = "(mct_next H ^^ AMVP_HASH_MCT_INNER) (seed, seed, seed)"
  obtain stc1 w1 where inner: "mct_inner crypto (Some cb) AMVP_HASH_MCT_INNER stc w = Done stc1 w1"
    and h1: "mct_holds n stc1 ?v" and md: "h_md_len stc1 = n" "take n (the (h_md stc1)) = snd (snd ?v)"
    using mct_inner_eq [OF assms(1,2) Suc.prems, of "AMVP_HASH_MCT_INNER - 1" w]
    by (auto simp: AMVP_HASH_MCT_INNER_def simp del: mct_inner.simps funpow.simps)
  let ?d = "mct_round H seed"
  obtain x y z m where st: "h_m1 stc1 = Some x" "h_m2 stc1 = Some y" "h_m3 stc1 = Some z" "h_md stc1 = Some m" "h_msg_len stc1 = n"
    "\<not> is_shake (h_cipher stc1)" "length x = AMVP_HASH_MD_BYTE_MAX" "length y = AMVP_HASH_MD_BYTE_MAX"
    "length z = AMVP_HASH_MD_BYTE_MAX" "length m = AMVP_HASH_MD_BYTE_MAX" "take n z = ?d"
    using h1 by (auto simp: mct_holds_def mct_round_def split: prod.splits)
  obtain w2 where "to_hex al (Some m) (wrap32 (int n)) AMVP_HASH_MD_STR_MAX w1 = Done (hex_of (take n m)) w2"
    using to_hex_ok [OF assms(3), of n m AMVP_HASH_MD_STR_MAX w1] assms(2) st(10) by (auto simp: hash_sizes)
  then have out: "amvp_hash_output_mct_tc al stc1 [] w1 = Done [(''md'', JSONString (hex_of ?d))] w2"
    using md st(4,6) by (simp add: amvp_hash_output_mct_tc_def mct_round_def json_object_set_string_def json_object_set_value_def
        json_object_get_value_def json_object_getn_value_def)
  let ?s = "stc1\<lparr>h_m1 := Some (take n z @ drop n x), h_m2 := Some (take n z @ drop n y)\<rparr>"
  have ld: "length ?d = n" using arg_cong [OF st(11), of length] st(9) assms(2) by simp
  then have "mct_holds n ?s (?d, ?d, ?d)"
    using st(3-) assms(2) by (simp add: mct_holds_def)
  from Suc.IH [OF this, of w2] obtain stc2 w3 where
    "mct_outer al crypto (Some cb) k ?s w2 = Done (map (\<lambda>d. JSONObject [(''md'', JSONString (hex_of d))]) (mct_reference H k ?d), stc2) w3"
    by blast
  then show ?case using inner out st assms(2) by (simp add: copy_bytes_ok Let_def)
qed simp

text \<open>
  C4: the Monte Carlo test of SHA-1 and SHA-2 is the one of the standard. With a crypto module
  that computes the digest \<open>H\<close> of \<open>n\<close> bytes, a seed of that length and enough memory, the test
  answers with the hundred digests of the reference, in order and in hexadecimal.
\<close>
theorem hash_mct_reference:
  assumes "digests mct_input n H crypto cb" and "n \<le> AMVP_HASH_MD_BYTE_MAX" and "\<forall>w. fst (al w)"
    and "h_msg stc = Some msg" and "n \<le> length msg" and "h_msg_len stc = n" and "\<not> is_shake (h_cipher stc)"
    and "h_m1 stc = Some x" "h_m2 stc = Some y" "h_m3 stc = Some z" "h_md stc = Some md"
    and "list_all (\<lambda>l. length l = AMVP_HASH_MD_BYTE_MAX) [x, y, z, md]"
  shows "\<exists>stc' w'. amvp_hash_mct_tc al crypto (Some cb) stc w =
    Done (map (\<lambda>d. JSONObject [(''md'', JSONString (hex_of d))]) (mct_reference H AMVP_HASH_MCT_OUTER (take n msg)), stc') w'"
proof -
  obtain w1 where w1: "new_chars al (AMVP_HASH_MSG_STR_MAX * 3) w = Done (replicate (AMVP_HASH_MSG_STR_MAX * 3) NUL) w1"
    using new_chars_ok [OF assms(3)] .
  let ?s = "stc\<lparr>h_m1 := Some (take n msg @ drop n x), h_m2 := Some (take n msg @ drop n y), h_m3 := Some (take n msg @ drop n z)\<rparr>"
  have "mct_holds n ?s (take n msg, take n msg, take n msg)"
    using assms by (simp add: mct_holds_def)
  from mct_outer_eq [OF assms(1-3) this, of AMVP_HASH_MCT_OUTER w1] w1 assms(2,4-)
  show ?thesis by (simp add: amvp_hash_mct_tc_def copy_bytes_ok)
qed

text \<open>A crypto module for tests: the digest of a message is its first byte, or zero.\<close>

definition first_byte :: "8 word list \<Rightarrow> 8 word list" where
  "first_byte m = (case m of [] \<Rightarrow> [0] | b # _ \<Rightarrow> [b])"

definition first_byte_module :: "(AMVP_HASH_TC \<Rightarrow> 8 word list) \<Rightarrow> unit hash_crypto" where
  "first_byte_module input c stc w =
     (AMVP_SUCCESS, stc\<lparr>h_md := map_option (\<lambda>md. first_byte (input stc) @ drop 1 md) (h_md stc), h_md_len := 1\<rparr>, w)"

lemma first_byte_digests: "digests input 1 first_byte (first_byte_module input) cb"
  by (auto simp: digests_def first_byte_def first_byte_module_def split: list.splits)

definition mct_case :: AMVP_HASH_TC where
  "mct_case = \<lparr>h_cipher = AMVP_HASH_SHA256, h_tc_id = 1, h_test_type = AMVP_HASH_TEST_TYPE_MCT, h_msg = Some [0x5A, 0],
     h_m1 = Some (replicate AMVP_HASH_MD_BYTE_MAX 0), h_m2 = Some (replicate AMVP_HASH_MD_BYTE_MAX 0),
     h_m3 = Some (replicate AMVP_HASH_MD_BYTE_MAX 0), h_msg_len = 1, h_xof_len = 0, h_xof_bit_len = 0,
     h_md = Some (replicate AMVP_HASH_MD_BYTE_MAX 0), h_md_len = 0\<rparr>"

theorem hash_mct_reference_witness:
  "\<exists>stc' w'. amvp_hash_mct_tc always_memory (first_byte_module mct_input) (Some 0) mct_case () =
    Done (map (\<lambda>d. JSONObject [(''md'', JSONString (hex_of d))]) (mct_reference first_byte AMVP_HASH_MCT_OUTER [0x5A]), stc') w'"
proof -
  from hash_mct_reference [OF first_byte_digests _ always_memory_ok, of mct_case "[0x5A, 0]"] show ?thesis
    by (simp add: mct_case_def is_shake_def hash_sizes)
qed

section \<open>Output lengths of SHAKE\<close>

lemma shake_range_eq:
  "mn \<le> mx + 1 \<Longrightarrow> mx < 2 ^ 29 \<Longrightarrow> shake_range mn mx = mx + 1 - mn"
  by (simp add: shake_range_def)

lemma shake_range_wrap:
  assumes "mx + 1 < mn" and "mn < 2 ^ 29"
  shows "shake_range mn mx = 2 ^ 32 + mx + 1 - mn"
proof -
  let ?r = "int mx - int mn + 1 + 4294967296"
  have "?r mod 4294967296 = ?r" using assms by (intro mod_pos_pos_trivial) auto
  then have "(int mx - int mn + 1) mod 4294967296 = ?r" by (simp only: mod_add_self2)
  then show ?thesis using assms by (simp add: shake_range_def)
qed

text \<open>
  C40: the output lengths of the SHAKE Monte Carlo test. With the limits in order, every length
  that the test asks of the crypto module lies between them, in bytes, so it fits the digest
  buffer. Limits out of order pass the checks of the handler: a maximum one byte below the
  minimum divides by zero, and a smaller one lets the last two bytes of the digest choose any
  length up to 65535 bytes above the minimum, past the buffer of 8192 bytes.
\<close>
theorem shake_output_length:
  assumes "h_md stc = Some md" and "2 \<le> h_md_len stc" and "h_md_len stc \<le> length md" and "16 \<le> mn" and "mn < 2 ^ 32" and "mx \<le> 65536"
  shows "hash_xof_limits AMVP_HASH_SHAKE_128 AMVP_HASH_TEST_TYPE_MCT
      (Some [(''minOutLen'', JSONNumber (int mn)), (''maxOutLen'', JSONNumber (int mx))]) w = Done (mn, mx) w \<and>
    (if mn div 8 \<le> mx div 8
     then \<exists>len. shake_next_len (mn div 8) (shake_range (mn div 8) (mx div 8)) stc w = Done len w \<and>
       mn div 8 \<le> len \<and> len \<le> mx div 8 \<and> len \<le> AMVP_HASH_XOF_MD_BYTE_MAX
     else if mn div 8 = mx div 8 + 1
     then shake_next_len (mn div 8) (shake_range (mn div 8) (mx div 8)) stc w = Undef Div_Zero
     else shake_next_len (mn div 8) (shake_range (mn div 8) (mx div 8)) stc w =
       Done (mn div 8 + rightmost_out_bits md (h_md_len stc)) w)"
proof (rule conjI)
  let ?obj = "[(''minOutLen'', JSONNumber (int mn)), (''maxOutLen'', JSONNumber (int mx))]"
  have "json_name ''minOutLen''" "json_name ''maxOutLen''" "json_names ?obj"
    by (simp_all add: json_name_def json_names_def c_string_def)
  then show "hash_xof_limits AMVP_HASH_SHAKE_128 AMVP_HASH_TEST_TYPE_MCT (Some ?obj) w = Done (mn, mx) w"
    using assms(4-)
    by (simp add: hash_xof_limits_def is_shake_def json_object_get_number_def json_object_get_value_eq json_value_get_number_def)
  have next_len: "shake_next_len a r stc w =
      (if r = 0 then Undef Div_Zero else Done (a + rightmost_out_bits md (h_md_len stc) mod r) w)" for a r
    using assms(1-3) by (simp add: shake_next_len_def)
  have mod_le: "v mod Suc k \<le> k" for v k :: nat
    by (metis less_Suc_eq_le mod_less_divisor zero_less_Suc)
  have small: "rightmost_out_bits md (h_md_len stc) < 65536"
    using unsigned_less [of "md ! (h_md_len stc - 2)", where ?'a = nat] unsigned_less [of "md ! (h_md_len stc - 1)", where ?'a = nat]
    by (simp add: rightmost_out_bits_def)
  consider (ord) "mn div 8 \<le> mx div 8" | (one) "mn div 8 = mx div 8 + 1" | (less) "mx div 8 + 1 < mn div 8" by linarith
  then show "if mn div 8 \<le> mx div 8
     then \<exists>len. shake_next_len (mn div 8) (shake_range (mn div 8) (mx div 8)) stc w = Done len w \<and>
       mn div 8 \<le> len \<and> len \<le> mx div 8 \<and> len \<le> AMVP_HASH_XOF_MD_BYTE_MAX
     else if mn div 8 = mx div 8 + 1
     then shake_next_len (mn div 8) (shake_range (mn div 8) (mx div 8)) stc w = Undef Div_Zero
     else shake_next_len (mn div 8) (shake_range (mn div 8) (mx div 8)) stc w =
       Done (mn div 8 + rightmost_out_bits md (h_md_len stc)) w"
  proof cases
    case ord
    then have "shake_range (mn div 8) (mx div 8) = Suc (mx div 8 - mn div 8)"
      using assms(6) by (subst shake_range_eq) auto
    moreover have "mn div 8 + rightmost_out_bits md (h_md_len stc) mod Suc (mx div 8 - mn div 8) \<le> mx div 8"
      using ord mod_le [of "rightmost_out_bits md (h_md_len stc)" "mx div 8 - mn div 8"] by linarith
    moreover from this have "mn div 8 + rightmost_out_bits md (h_md_len stc) mod Suc (mx div 8 - mn div 8) \<le> 8192"
      using assms(6) by linarith
    ultimately show ?thesis using ord by (simp add: next_len hash_sizes)
  next
    case one
    then show ?thesis using assms(6) by (simp add: next_len shake_range_def)
  next
    case less
    have "mn div 8 < 2 ^ 29" using assms(5) by (simp add: div_less_iff_less_mult)
    with less have "shake_range (mn div 8) (mx div 8) = 2 ^ 32 + mx div 8 + 1 - mn div 8"
      by (intro shake_range_wrap) auto
    moreover have "v < 2 ^ 32 + b + 1 - a" if "b + 1 < a" "a < 2 ^ 29" "v < 65536" for a b v :: nat using that by simp
    from this [OF less \<open>mn div 8 < 2 ^ 29\<close> small] calculation
    have "rightmost_out_bits md (h_md_len stc) < shake_range (mn div 8) (mx div 8)" by simp
    then have "shake_next_len (mn div 8) (shake_range (mn div 8) (mx div 8)) stc w =
        Done (mn div 8 + rightmost_out_bits md (h_md_len stc)) w"
      by (simp add: next_len)
    with less show ?thesis by simp
  qed
qed

theorem shake_output_length_witness:
  "hash_xof_limits AMVP_HASH_SHAKE_128 AMVP_HASH_TEST_TYPE_MCT
      (Some [(''minOutLen'', JSONNumber (int 16)), (''maxOutLen'', JSONNumber (int 8))]) () = Done (16, 8) () \<and>
   shake_next_len (16 div 8) (shake_range (16 div 8) (8 div 8)) (mct_case\<lparr>h_md := Some [1, 2], h_md_len := 2\<rparr>) () = Undef Div_Zero"
  using shake_output_length [of "mct_case\<lparr>h_md := Some [1, 2], h_md_len := 2\<rparr>" "[1, 2]" 16 8 "()"] by simp

section \<open>Functional tests\<close>

text \<open>
  A vector set of functional tests as data: groups of a number and tests, each a number and a
  message; the object the server sends for it, and the response the library owes.
\<close>

definition hash_test_request :: "nat \<times> 8 word list \<Rightarrow> JSON_Value" where
  "hash_test_request t = JSONObject [(''tcId'', JSONNumber (int (fst t))), (''msg'', JSONString (hex_of (snd t)))]"

definition hash_group_request :: "int \<times> (nat \<times> 8 word list) list \<Rightarrow> JSON_Value" where
  "hash_group_request g =
     JSONObject [(''tgId'', JSONNumber (fst g)), (''testType'', JSONString ''AFT''), (''tests'', JSONArray (map hash_test_request (snd g)))]"

definition hash_request :: "int \<Rightarrow> string \<Rightarrow> (int \<times> (nat \<times> 8 word list) list) list \<Rightarrow> JSON_Object" where
  "hash_request vs alg gs = [(''vsId'', JSONNumber vs), (''algorithm'', JSONString alg), (''testGroups'', JSONArray (map hash_group_request gs))]"

definition hash_test_answer :: "(8 word list \<Rightarrow> 8 word list) \<Rightarrow> nat \<times> 8 word list \<Rightarrow> JSON_Value" where
  "hash_test_answer H t = JSONObject [(''tcId'', JSONNumber (int (fst t))), (''md'', JSONString (hex_of (H (snd t))))]"

definition hash_group_answer :: "(8 word list \<Rightarrow> 8 word list) \<Rightarrow> int \<times> (nat \<times> 8 word list) list \<Rightarrow> JSON_Value" where
  "hash_group_answer H g = JSONObject [(''tgId'', JSONNumber (fst g)), (''tests'', JSONArray (map (hash_test_answer H) (snd g)))]"

definition hash_answer :: "int \<Rightarrow> string \<Rightarrow> (8 word list \<Rightarrow> 8 word list) \<Rightarrow> (int \<times> (nat \<times> 8 word list) list) list \<Rightarrow> JSON_Value" where
  "hash_answer vs alg H gs =
     JSONArray [JSONObject [(''vsId'', JSONNumber vs), (''algorithm'', JSONString alg), (''testGroups'', JSONArray (map (hash_group_answer H) gs))]]"

definition hash_test_fits :: "nat \<times> 8 word list \<Rightarrow> bool" where
  "hash_test_fits t \<longleftrightarrow> fst t < 2 ^ 32 \<and> length (snd t) \<le> AMVP_HASH_MSG_BYTE_MAX"

definition aft_input :: "AMVP_HASH_TC \<Rightarrow> 8 word list" where
  "aft_input stc = take (h_msg_len stc) (the (h_msg stc))"

lemma hash_read_AFT: "hash_read_test_type ''AFT'' = AMVP_HASH_TEST_TYPE_AFT"
  by (simp add: hash_read_test_type_def strcmp_s_indicator RSIZE_MAX_STR_def)

lemma hash_init_aft:
  assumes "\<forall>w. fst (al w)" and "length m \<le> AMVP_HASH_MSG_BYTE_MAX" and "\<not> is_shake c"
  obtains stc w' where "amvp_hash_init_tc al t AMVP_HASH_TEST_TYPE_AFT (8 * length m) (hex_of m) 0 c w = Done stc w'"
    and "aft_input stc = m" and "h_test_type stc = AMVP_HASH_TEST_TYPE_AFT" and "h_md stc = Some (replicate AMVP_HASH_MD_BYTE_MAX 0)"
proof -
  obtain w1 where w1: "new_bytes al AMVP_HASH_MSG_BYTE_MAX w = Done (replicate AMVP_HASH_MSG_BYTE_MAX 0) w1"
    using new_bytes_ok [OF assms(1)] .
  obtain w2 where w2: "new_bytes al AMVP_HASH_MD_BYTE_MAX w1 = Done (replicate AMVP_HASH_MD_BYTE_MAX 0) w2"
    using new_bytes_ok [OF assms(1)] .
  have "from_hex al (hex_of m) (replicate AMVP_HASH_MSG_BYTE_MAX 0) AMVP_HASH_MSG_BYTE_MAX w2 =
      Done (m @ replicate (AMVP_HASH_MSG_BYTE_MAX - length m) 0) w2"
    using assms(2) by (intro from_hex_ok) (auto simp: hash_sizes AMVP_HEXSTR_MAX_def)
  then show ?thesis
    using that w1 w2 assms(3) by (simp add: amvp_hash_init_tc_def mct_buffers_def aft_input_def)
qed

lemma hash_test_eq:
  assumes "digests aft_input n H crypto cb" and "n \<le> AMVP_HASH_MD_BYTE_MAX" and "\<forall>w. fst (al w)"
    and "\<not> is_shake c" and "hash_test_fits t"
  shows "\<exists>w'. hash_test al crypto c (Some cb) AMVP_HASH_TEST_TYPE_AFT mn mx
    (json_value_get_object (Some (hash_test_request t))) w = Done (hash_test_answer H t) w'"
proof -
  obtain k m where t: "t = (k, m)" by (cases t)
  have fits: "k < 2 ^ 32" "length m \<le> AMVP_HASH_MSG_BYTE_MAX" using assms(5) by (simp_all add: hash_test_fits_def t)
  obtain stc w1 where init: "amvp_hash_init_tc al k AMVP_HASH_TEST_TYPE_AFT (8 * length m) (hex_of m) 0 c w = Done stc w1"
    and stc: "aft_input stc = m" "h_test_type stc = AMVP_HASH_TEST_TYPE_AFT" "h_md stc = Some (replicate AMVP_HASH_MD_BYTE_MAX 0)"
    using hash_init_aft [OF assms(3) fits(2) assms(4)] .
  let ?md = "H m @ drop n (replicate AMVP_HASH_MD_BYTE_MAX 0)"
  obtain w2 where "crypto cb stc w1 = (AMVP_SUCCESS, stc\<lparr>h_md := Some ?md, h_md_len := n\<rparr>, w2)"
    using assms(1) stc unfolding digests_def by metis
  then have cr: "call_crypto crypto (Some cb) stc w1 = Done (stc\<lparr>h_md := Some ?md, h_md_len := n\<rparr>) w2"
    by (simp add: call_crypto_def)
  have len: "length (H m) = n" using assms(1) by (simp add: digests_def)
  obtain w3 where "to_hex al (Some ?md) (wrap32 (int n)) AMVP_HASH_MD_STR_MAX w2 = Done (hex_of (take n ?md)) w3"
    using to_hex_ok [OF assms(3), of n ?md AMVP_HASH_MD_STR_MAX w2] assms(2) len by (auto simp: hash_sizes)
  with cr stc len have run: "hash_run_tc al crypto c (Some cb) mn mx stc [(''tcId'', JSONNumber (int k))] w1 =
      Done [(''tcId'', JSONNumber (int k)), (''md'', JSONString (hex_of (H m)))] w3"
    by (simp add: hash_run_tc_def amvp_hash_output_tc_def json_build json_known)
  have "length (hex_of m) \<le> AMVP_HASH_MSG_STR_MAX" using fits(2) by (simp add: hash_sizes)
  with init run fits(1) show ?thesis
    using assms(4)
    by (simp add: hash_test_def hash_test_request_def hash_test_answer_def t json_read json_build json_known Let_def min_def)
qed

lemma hash_group_eq:
  assumes "digests aft_input n H crypto cb" and "n \<le> AMVP_HASH_MD_BYTE_MAX" and "\<forall>w. fst (al w)"
    and "\<not> is_shake c" and "fst g \<noteq> 0" and "is_int32 (fst g)" and "list_all hash_test_fits (snd g)"
  shows "\<exists>w'. hash_group al crypto c (Some cb) (json_value_get_object (Some (hash_group_request g))) w = Done (hash_group_answer H g) w'"
proof -
  have "\<exists>w'. each (hash_test al crypto c (Some cb) AMVP_HASH_TEST_TYPE_AFT 0 0)
      (map (\<lambda>t. json_value_get_object (Some (hash_test_request t))) (snd g)) w = Done (map (hash_test_answer H) (snd g)) w'"
    by (rule each_ok) (use assms(7) hash_test_eq [OF assms(1-4)] in \<open>auto simp: list_all_iff\<close>)
  then show ?thesis
    using assms(5,6)
    by (auto simp: hash_group_def with_tgId_def hash_group_request_def hash_group_answer_def each_test_def group_rsp_def hash_xof_limits_def
        hash_read_AFT json_read json_build json_known Let_def comp_def)
qed

text \<open>
  The handler refines the abstract answer, for a registered hash function other than SHAKE and
  a crypto module that computes the digest \<open>H\<close>.
\<close>

lemma hash_handler_eq:
  assumes "amvp_lookup_cipher_index (Some alg) = c" and "c \<noteq> 0" and "\<not> is_shake c"
    and "amvp_locate_cap_entry (Some ctx) c = Some cap" and "cap_crypto_handler cap = Some cb"
    and "digests aft_input n H crypto cb" and "n \<le> AMVP_HASH_MD_BYTE_MAX" and "\<forall>w. fst (al w)"
    and "list_all (\<lambda>g. fst g \<noteq> 0 \<and> is_int32 (fst g) \<and> list_all hash_test_fits (snd g)) gs"
  shows "\<exists>w'. hash_kat_handler al crypto (Some (hash_request vs alg gs)) (Some ctx) =
    Ret AMVP_SUCCESS (Some (ctx\<lparr>kat_resp := Some (hash_answer (vs_id ctx) alg H gs), world := w'\<rparr>))"
proof -
  have "\<exists>w'. each (hash_group al crypto c (Some cb)) (map (\<lambda>g. json_value_get_object (Some (hash_group_request g))) gs) (world ctx) =
      Done (map (hash_group_answer H) gs) w'"
    by (rule each_ok) (use assms(9) hash_group_eq [OF assms(6-8,3)] in \<open>auto simp: list_all_iff\<close>)
  then show ?thesis
    using assms(1,2,4,5)
    by (auto simp: hash_kat_handler_def kat_frame_def kat_body_def kat_answer_def hash_request_def hash_answer_def amvp_setup_json_rsp_group_def
        json_read json_build json_known Let_def comp_def)
qed

definition sha256_cap :: AMVP_CAPS_LIST where
  "sha256_cap = \<lparr>cap_cipher = AMVP_HASH_SHA256, cap_type = AMVP_HASH_TYPE, cap_has_prereq = 0, cap_prereq_vals = [],
     cap_data = Hash_cap zero_hash_cap, cap_crypto_handler = Some 0\<rparr>"

definition sha256_session :: "unit SESSION" where
  "sha256_session = (init_session ())\<lparr>caps_list := [sha256_cap]\<rparr>"

lemma sha256_index: "amvp_lookup_cipher_index (Some ''SHA2-256'') = AMVP_HASH_SHA256"
  by (rule lookup_index_row) (code_simp, simp add: c_string_def)

end
