(* ===== verification/Kat_Mac.thy ===== *)
theory Kat_Mac
  imports Kat_Common
begin

text \<open>
  The handlers of HMAC, CMAC and KMAC vector sets, \<^verbatim>\<open>src/amvp_hmac.c\<close>, \<^verbatim>\<open>src/amvp_cmac.c\<close> and
  \<^verbatim>\<open>src/amvp_kmac.c\<close>.
\<close>

section \<open>HMAC\<close>

definition AMVP_HMAC_MSG_MAX :: nat where "AMVP_HMAC_MSG_MAX = 1024"
definition AMVP_HMAC_MAC_BYTE_MAX :: nat where "AMVP_HMAC_MAC_BYTE_MAX = 64"
definition AMVP_HMAC_MAC_STR_MAX :: nat where "AMVP_HMAC_MAC_STR_MAX = 128"
definition AMVP_HMAC_KEY_BYTE_MAX :: nat where "AMVP_HMAC_KEY_BYTE_MAX = 65536"
definition AMVP_HMAC_KEY_STR_MAX :: nat where "AMVP_HMAC_KEY_STR_MAX = 131072"

record AMVP_HMAC_TC =
  hm_cipher :: AMVP_CIPHER
  hm_tc_id :: nat
  hm_msg :: "8 word list option"
  hm_msg_len :: nat
  hm_mac :: "8 word list option"
  hm_mac_len :: nat
  hm_key_len :: nat
  hm_key :: "8 word list option"

type_synonym 'w hmac_crypto = "nat \<Rightarrow> AMVP_HMAC_TC \<Rightarrow> 'w \<Rightarrow> AMVP_RESULT \<times> AMVP_HMAC_TC \<times> 'w"

definition amvp_hmac_init_tc ::
  "'w allocator \<Rightarrow> nat \<Rightarrow> nat \<Rightarrow> string \<Rightarrow> nat \<Rightarrow> nat \<Rightarrow> string \<Rightarrow> AMVP_CIPHER \<Rightarrow> (AMVP_HMAC_TC, 'w) step" where
  "amvp_hmac_init_tc al tc_id msg_len msg mac_len key_len key alg_id =
     andthen (new_bytes al AMVP_HMAC_MSG_MAX) (\<lambda>mbuf.
     andthen (new_bytes al AMVP_HMAC_MAC_BYTE_MAX) (\<lambda>mac.
     andthen (new_bytes al AMVP_HMAC_KEY_BYTE_MAX) (\<lambda>kbuf.
     andthen (from_hex al msg mbuf AMVP_HMAC_MSG_MAX) (\<lambda>m.
     andthen (from_hex al key kbuf AMVP_HMAC_KEY_BYTE_MAX) (\<lambda>k.
       pass \<lparr>hm_cipher = alg_id, hm_tc_id = tc_id, hm_msg = Some m, hm_msg_len = msg_len div 8, hm_mac = Some mac,
             hm_mac_len = mac_len div 8, hm_key_len = key_len div 8, hm_key = Some k\<rparr>)))))"

definition amvp_hmac_output_tc :: "'w allocator \<Rightarrow> AMVP_HMAC_TC \<Rightarrow> JSON_Object \<Rightarrow> (JSON_Object, 'w) step" where
  "amvp_hmac_output_tc al stc tc_rsp =
     andthen (to_hex al (hm_mac stc) (wrap32 (int (hm_mac_len stc))) AMVP_HMAC_MAC_STR_MAX)
       (\<lambda>tmp. pass (json_object_set_string ''mac'' (Some tmp) tc_rsp))"

text \<open>The length of the message in characters is compared with an unsigned product, which wraps.\<close>

definition hmac_test ::
  "'w allocator \<Rightarrow> 'w hmac_crypto \<Rightarrow> AMVP_CIPHER \<Rightarrow> callback \<Rightarrow> nat \<Rightarrow> nat \<Rightarrow> nat \<Rightarrow> JSON_Object option \<Rightarrow> (JSON_Value, 'w) step" where
  "hmac_test al crypto alg_id cb msglen keylen maclen testobj =
     andthen (as_uint (json_object_get_number testobj ''tcId'')) (\<lambda>tc_id.
     reject (tc_id = 0) AMVP_MISSING_ARG
       (required (json_object_get_string testobj ''msg'') (\<lambda>msg.
        reject (strnlen_s (Some msg) AMVP_HMAC_MSG_MAX \<noteq> (msglen * 2) mod 2 ^ 32 div 8) AMVP_INVALID_ARG
          (required (json_object_get_string testobj ''key'') (\<lambda>key.
           reject (strnlen_s (Some key) AMVP_HMAC_KEY_STR_MAX \<noteq> keylen div 4) AMVP_INVALID_ARG
             (andthen (amvp_hmac_init_tc al tc_id msglen msg maclen keylen key alg_id) (\<lambda>stc.
              andthen (call_crypto crypto cb stc) (\<lambda>stc1.
              andthen (amvp_hmac_output_tc al stc1 (json_object_set_number ''tcId'' (int tc_id) [])) (\<lambda>r_tobj.
                pass (JSONObject r_tobj))))))))))"

definition hmac_group ::
  "'w allocator \<Rightarrow> 'w hmac_crypto \<Rightarrow> AMVP_CIPHER \<Rightarrow> callback \<Rightarrow> JSON_Object option \<Rightarrow> (JSON_Value, 'w) step" where
  "hmac_group al crypto alg_id cb groupobj =
     with_tgId groupobj (\<lambda>tgId.
     group_len groupobj ''msgLen'' (\<lambda>msglen.
     group_len groupobj ''keyLen'' (\<lambda>keylen.
     group_len groupobj ''macLen'' (\<lambda>maclen.
     some_tests groupobj
       (andthen (each_test groupobj (hmac_test al crypto alg_id cb msglen keylen maclen)) (\<lambda>tests.
          pass (group_rsp tgId tests)))))))"

definition hmac_kat_handler ::
  "'w allocator \<Rightarrow> 'w hmac_crypto \<Rightarrow> JSON_Object option \<Rightarrow> 'w SESSION option \<Rightarrow> 'w SESSION option outcome" where
  "hmac_kat_handler al crypto = kat_frame True (\<lambda>w. w) (\<lambda>w. w) (hmac_group al crypto)"

section \<open>CMAC\<close>

definition AMVP_CMAC_MSGLEN_MAX_STR :: nat where "AMVP_CMAC_MSGLEN_MAX_STR = 131072"
definition CMAC_MACLEN_MAX :: nat where "CMAC_MACLEN_MAX = 128"
definition AMVP_CMAC_KEY_MAX :: nat where "AMVP_CMAC_KEY_MAX = 64"

record AMVP_CMAC_TC =
  cm_cipher :: AMVP_CIPHER
  cm_verify :: bool
  cm_ver_disposition :: bool
  cm_tc_id :: nat
  cm_msg :: "8 word list option"
  cm_msg_len :: nat
  cm_mac :: "8 word list option"
  cm_mac_len :: nat
  cm_key_len :: nat
  cm_key :: "8 word list option"
  cm_key2 :: "8 word list option"
  cm_key3 :: "8 word list option"

type_synonym 'w cmac_crypto = "nat \<Rightarrow> AMVP_CMAC_TC \<Rightarrow> 'w \<Rightarrow> AMVP_RESULT \<times> AMVP_CMAC_TC \<times> 'w"

text \<open>
  What survives from one test or group to the next: whether the test case on the stack has
  been initialised, the flag \<^verbatim>\<open>verify\<close>, which is set but never cleared, and the world.
\<close>

record 'w cmac_frame =
  cf_ready :: bool
  cf_verify :: bool
  cf_world :: 'w

definition on_world :: "('a, 'w) step \<Rightarrow> ('a, 'w cmac_frame) step" where
  "on_world p f =
     (case p (cf_world f) of Done x w \<Rightarrow> Done x (f\<lparr>cf_world := w\<rparr>) | Fail rv w \<Rightarrow> Fail rv (f\<lparr>cf_world := w\<rparr>) | Undef u \<Rightarrow> Undef u)"

text \<open>The arguments that are refused before the test case is cleared.\<close>

definition cmac_refused ::
  "AMVP_CIPHER \<Rightarrow> nat \<Rightarrow> string option \<Rightarrow> string option \<Rightarrow> string option \<Rightarrow> string option \<Rightarrow> bool \<Rightarrow> string option \<Rightarrow> nat \<Rightarrow> bool" where
  "cmac_refused alg_id tc_id msg key key2 key3 verify mac mac_len \<longleftrightarrow>
     (alg_id \<noteq> AMVP_CMAC_TDES \<and> alg_id \<noteq> AMVP_CMAC_AES) \<or> msg = None \<or> tc_id = 0 \<or> key = None \<or>
     (alg_id = AMVP_CMAC_TDES \<and> (key2 = None \<or> key3 = None)) \<or> (verify \<and> (mac_len = 0 \<or> mac = None))"

definition cmac_keys ::
  "'w allocator \<Rightarrow> AMVP_CIPHER \<Rightarrow> string \<Rightarrow> string option \<Rightarrow> string option \<Rightarrow> 8 word list \<Rightarrow> 8 word list \<Rightarrow> 8 word list \<Rightarrow>
   ((8 word list \<times> nat) \<times> 8 word list \<times> 8 word list, 'w) step" where
  "cmac_keys al alg_id key key2 key3 kbuf k2buf k3buf =
     (if alg_id = AMVP_CMAC_AES then
        andthen (from_hex_len al key kbuf AMVP_CMAC_KEY_MAX) (\<lambda>(k, n). pass ((k, n), k2buf, k3buf))
      else
        andthen (from_hex al key kbuf AMVP_CMAC_KEY_MAX) (\<lambda>k.
        andthen (from_hex al (the key2) k2buf AMVP_CMAC_KEY_MAX) (\<lambda>k2.
        andthen (from_hex al (the key3) k3buf AMVP_CMAC_KEY_MAX) (\<lambda>k3. pass ((k, 0), k2, k3)))))"

definition cmac_fill ::
  "'w allocator \<Rightarrow> nat \<Rightarrow> string \<Rightarrow> nat \<Rightarrow> string \<Rightarrow> string option \<Rightarrow> string option \<Rightarrow> bool \<Rightarrow> string option \<Rightarrow> nat \<Rightarrow> AMVP_CIPHER \<Rightarrow>
   (AMVP_CMAC_TC, 'w) step" where
  "cmac_fill al tc_id msg msg_len key key2 key3 verify mac mac_len alg_id =
     andthen (new_bytes al AMVP_CMAC_MSGLEN_MAX_STR) (\<lambda>mbuf.
     andthen (new_bytes al CMAC_MACLEN_MAX) (\<lambda>macbuf.
     andthen (new_bytes al AMVP_CMAC_KEY_MAX) (\<lambda>kbuf.
     andthen (if verify then from_hex_len al (the mac) macbuf CMAC_MACLEN_MAX else pass (macbuf, mac_len)) (\<lambda>(macb, maclen).
     andthen (new_bytes al AMVP_CMAC_KEY_MAX) (\<lambda>k2buf.
     andthen (new_bytes al AMVP_CMAC_KEY_MAX) (\<lambda>k3buf.
     andthen (from_hex al msg mbuf AMVP_CMAC_MSGLEN_MAX_STR) (\<lambda>m.
     andthen (cmac_keys al alg_id key key2 key3 kbuf k2buf k3buf) (\<lambda>((k, klen), k2, k3).
       pass \<lparr>cm_cipher = alg_id, cm_verify = verify, cm_ver_disposition = False, cm_tc_id = tc_id, cm_msg = Some m, cm_msg_len = msg_len,
             cm_mac = Some macb, cm_mac_len = maclen, cm_key_len = klen, cm_key = Some k, cm_key2 = Some k2, cm_key3 = Some k3\<rparr>))))))))"

text \<open>
  \<^verbatim>\<open>amvp_cmac_init_tc\<close> with the release that follows its failure: arguments refused before the
  test case was ever cleared make the release free pointers that were never set.
\<close>

definition amvp_cmac_init_tc ::
  "'w allocator \<Rightarrow> nat \<Rightarrow> string option \<Rightarrow> nat \<Rightarrow> string option \<Rightarrow> string option \<Rightarrow> string option \<Rightarrow> bool \<Rightarrow> string option \<Rightarrow> nat \<Rightarrow>
   AMVP_CIPHER \<Rightarrow> (AMVP_CMAC_TC, 'w cmac_frame) step" where
  "amvp_cmac_init_tc al tc_id msg msg_len key key2 key3 verify mac mac_len alg_id f =
     (if cmac_refused alg_id tc_id msg key key2 key3 verify mac mac_len
      then (if cf_ready f then Fail AMVP_INVALID_ARG f else Undef Uninitialised)
      else on_world (cmac_fill al tc_id (the msg) msg_len (the key) key2 key3 verify mac mac_len alg_id) (f\<lparr>cf_ready := True\<rparr>))"

definition amvp_cmac_output_tc :: "'w allocator \<Rightarrow> AMVP_CMAC_TC \<Rightarrow> JSON_Object \<Rightarrow> (JSON_Object, 'w) step" where
  "amvp_cmac_output_tc al stc tc_rsp =
     (if cm_verify stc then
        andthen (new_chars al (CMAC_MACLEN_MAX + 1)) (\<lambda>_.
          pass (json_object_set_boolean ''testPassed'' (if cm_ver_disposition stc then 1 else 0) tc_rsp))
      else
        andthen (to_hex al (cm_mac stc) (wrap32 (int (cm_mac_len stc))) CMAC_MACLEN_MAX)
          (\<lambda>tmp. pass (json_object_set_string ''mac'' (Some tmp) tc_rsp)))"

definition cmac_msg_check :: "nat \<Rightarrow> string option \<Rightarrow> AMVP_RESULT option" where
  "cmac_msg_check msglen msg =
     (case msg of
        Some m \<Rightarrow>
          let json_msglen = strnlen_s msg (AMVP_CMAC_MSGLEN_MAX_STR + 1) in
          if json_msglen > AMVP_CMAC_MSGLEN_MAX_STR then Some AMVP_INVALID_ARG
          else if msglen = 0 \<and> json_msglen > 0 then Some AMVP_MISSING_ARG else None
      | None \<Rightarrow> if msglen \<noteq> 0 then Some AMVP_MISSING_ARG else None)"

definition cmac_key_check :: "AMVP_CIPHER \<Rightarrow> string option list \<Rightarrow> AMVP_RESULT option" where
  "cmac_key_check alg_id keys =
     (let used = (if alg_id = AMVP_CMAC_AES then [keys ! 0] else if alg_id = AMVP_CMAC_TDES then keys else []) in
      if None \<in> set used then Some AMVP_MISSING_ARG
      else if \<exists>k \<in> set used. strnlen_s k (AMVP_CMAC_KEY_MAX + 1) > AMVP_CMAC_KEY_MAX then Some AMVP_INVALID_ARG else None)"

definition cmac_run_test ::
  "'w allocator \<Rightarrow> 'w cmac_crypto \<Rightarrow> AMVP_CIPHER \<Rightarrow> callback \<Rightarrow> nat \<Rightarrow> nat \<Rightarrow> nat \<Rightarrow> string option \<Rightarrow> string option list \<Rightarrow> string option \<Rightarrow>
   (JSON_Value, 'w cmac_frame) step" where
  "cmac_run_test al crypto alg_id cb tc_id msglen maclen msg keys given_mac f =
     (let verify = cf_verify f; mac = (if verify then given_mac else None)
      in reject (verify \<and> mac = None) AMVP_MISSING_ARG
           (andthen (amvp_cmac_init_tc al tc_id msg msglen (keys ! 0) (keys ! 1) (keys ! 2) verify mac maclen alg_id) (\<lambda>stc.
            andthen (on_world (call_crypto crypto cb stc)) (\<lambda>stc1.
            andthen (on_world (amvp_cmac_output_tc al stc1 (json_object_set_number ''tcId'' (int tc_id) []))) (\<lambda>r_tobj.
              pass (JSONObject r_tobj))))) f)"

definition cmac_test ::
  "'w allocator \<Rightarrow> 'w cmac_crypto \<Rightarrow> AMVP_CIPHER \<Rightarrow> callback \<Rightarrow> nat \<Rightarrow> nat \<Rightarrow> JSON_Object option \<Rightarrow> (JSON_Value, 'w cmac_frame) step" where
  "cmac_test al crypto alg_id cb msglen maclen testobj =
     andthen (as_uint (json_object_get_number testobj ''tcId'')) (\<lambda>tc_id.
       let msg = json_object_get_string testobj ''message'';
           names = (if alg_id = AMVP_CMAC_AES then [Some ''key'', None, None]
                    else if alg_id = AMVP_CMAC_TDES then [Some ''key1'', Some ''key2'', Some ''key3''] else [None, None, None]);
           keys = map (\<lambda>n. case n of None \<Rightarrow> None | Some k \<Rightarrow> json_object_get_string testobj k) names
       in case cmac_msg_check msglen msg of
            Some rv \<Rightarrow> stop rv
          | None \<Rightarrow>
              (case cmac_key_check alg_id keys of
                 Some rv \<Rightarrow> stop rv
               | None \<Rightarrow>
                   cmac_run_test al crypto alg_id cb tc_id msglen maclen msg keys (json_object_get_string testobj ''mac'')))"

text \<open>A length in bits that is divided by eight, as a \<^verbatim>\<open>double\<close>, before it is converted.\<close>

definition eighth :: "int \<Rightarrow> int" where
  "eighth n = (if n < 0 then - (- n div 8) else n div 8)"

definition cmac_group_args :: "AMVP_CIPHER \<Rightarrow> JSON_Object option \<Rightarrow> (unit, 's) step" where
  "cmac_group_args alg_id groupobj =
     (if alg_id = AMVP_CMAC_AES then group_len groupobj ''keyLen'' (\<lambda>_. pass ())
      else if alg_id = AMVP_CMAC_TDES then
        andthen (as_uint (json_object_get_number groupobj ''keyingOption'')) (\<lambda>k. reject (k \<le> 0 \<or> k \<ge> 3) AMVP_INVALID_ARG (pass ()))
      else pass ())"

definition cmac_direction :: "JSON_Object option \<Rightarrow> (unit, 'w cmac_frame) step" where
  "cmac_direction groupobj f =
     (case json_object_get_string groupobj ''direction'' of
        None \<Rightarrow> Fail AMVP_MALFORMED_JSON f
      | Some direction \<Rightarrow>
          if snd (strcmp_s (Some ''ver'') 3 (Some direction) 0) = 0 then Done () (f\<lparr>cf_verify := True\<rparr>)
          else if snd (strcmp_s (Some ''gen'') 3 (Some direction) 0) \<noteq> 0 then Fail AMVP_UNSUPPORTED_OP f
          else Done () f)"

definition cmac_group ::
  "'w allocator \<Rightarrow> 'w cmac_crypto \<Rightarrow> AMVP_CIPHER \<Rightarrow> callback \<Rightarrow> JSON_Object option \<Rightarrow> (JSON_Value, 'w cmac_frame) step" where
  "cmac_group al crypto alg_id cb groupobj =
     with_tgId groupobj (\<lambda>tgId.
     andthen (cmac_group_args alg_id groupobj) (\<lambda>_.
     required (json_object_get_string groupobj ''testType'') (\<lambda>test_type_str.
     reject (snd (strcmp_s (Some ''AFT'') 3 (Some test_type_str) 0) \<noteq> 0) AMVP_UNSUPPORTED_OP
       (andthen (cmac_direction groupobj) (\<lambda>_.
        andthen (as_uint (eighth (json_object_get_number groupobj ''msgLen''))) (\<lambda>msglen.
        andthen (as_uint (eighth (json_object_get_number groupobj ''macLen''))) (\<lambda>maclen.
        reject (maclen = 0) AMVP_MISSING_ARG
          (andthen (each_test groupobj (cmac_test al crypto alg_id cb msglen maclen)) (\<lambda>tests.
             pass (group_rsp tgId tests))))))))))"

definition cmac_kat_handler ::
  "'w allocator \<Rightarrow> 'w cmac_crypto \<Rightarrow> JSON_Object option \<Rightarrow> 'w SESSION option \<Rightarrow> 'w SESSION option outcome" where
  "cmac_kat_handler al crypto =
     kat_frame False (\<lambda>w. \<lparr>cf_ready = False, cf_verify = False, cf_world = w\<rparr>) cf_world (cmac_group al crypto)"

section \<open>KMAC\<close>

definition AMVP_KMAC_MSG_BYTE_MAX :: nat where "AMVP_KMAC_MSG_BYTE_MAX = 8192"
definition AMVP_KMAC_MSG_STR_MAX :: nat where "AMVP_KMAC_MSG_STR_MAX = 16384"
definition AMVP_KMAC_MAC_BYTE_MAX :: nat where "AMVP_KMAC_MAC_BYTE_MAX = 8192"
definition AMVP_KMAC_MAC_STR_MAX :: nat where "AMVP_KMAC_MAC_STR_MAX = 16384"
definition AMVP_KMAC_KEY_BYTE_MAX :: nat where "AMVP_KMAC_KEY_BYTE_MAX = 65536"
definition AMVP_KMAC_KEY_STR_MAX :: nat where "AMVP_KMAC_KEY_STR_MAX = 131072"
definition AMVP_KMAC_CUSTOM_STR_MAX :: nat where "AMVP_KMAC_CUSTOM_STR_MAX = 161"
definition AMVP_KMAC_CUSTOM_HEX_BYTE_MAX :: nat where "AMVP_KMAC_CUSTOM_HEX_BYTE_MAX = 161"

datatype AMVP_KMAC_TESTTYPE = AMVP_KMAC_TEST_TYPE_NONE | AMVP_KMAC_TEST_TYPE_AFT | AMVP_KMAC_TEST_TYPE_MVT

record AMVP_KMAC_TC =
  km_cipher :: AMVP_CIPHER
  km_test_type :: AMVP_KMAC_TESTTYPE
  km_disposition :: bool
  km_tc_id :: int
  km_xof :: int
  km_hex_customization :: int
  km_msg :: "8 word list option"
  km_mac :: "8 word list option"
  km_key :: "8 word list option"
  km_custom_hex :: "8 word list option"
  km_custom :: "char list option"
  km_msg_len :: int
  km_mac_len :: int
  km_key_len :: int
  km_custom_len :: int

type_synonym 'w kmac_crypto = "nat \<Rightarrow> AMVP_KMAC_TC \<Rightarrow> 'w \<Rightarrow> AMVP_RESULT \<times> AMVP_KMAC_TC \<times> 'w"

definition kmac_read_test_type :: "string \<Rightarrow> AMVP_KMAC_TESTTYPE" where
  "kmac_read_test_type str =
     (let d1 = snd (strcmp_s (Some ''AFT'') 3 (Some str) 1) in
      if d1 = 0 then AMVP_KMAC_TEST_TYPE_AFT
      else let d2 = snd (strcmp_s (Some ''MVT'') 3 (Some str) d1) in
        if d2 = 0 then AMVP_KMAC_TEST_TYPE_MVT else AMVP_KMAC_TEST_TYPE_NONE)"

text \<open>
  The customization: bytes from hexadecimal text, or a string copied into a buffer of its
  maximal length. The copy works in one memory that holds the buffer and, above it, the string.
\<close>

definition kmac_custom ::
  "'w allocator \<Rightarrow> int \<Rightarrow> string \<Rightarrow> 8 word list \<Rightarrow> char list \<Rightarrow> (8 word list option \<times> char list option \<times> int, 'w) step" where
  "kmac_custom al hex_customization custom hbuf sbuf =
     (if hex_customization \<noteq> 0 then
        andthen (from_hex_len al custom hbuf AMVP_KMAC_CUSTOM_HEX_BYTE_MAX) (\<lambda>(b, n). pass (Some b, None, int n))
      else
        let len = strnlen_s (Some custom) (AMVP_KMAC_CUSTOM_STR_MAX + 1) in
        reject (len > AMVP_KMAC_CUSTOM_STR_MAX) AMVP_INVALID_ARG
          (andthen (of_sum (strncpy_s (sbuf @ custom @ [NUL]) (Some 0) AMVP_KMAC_CUSTOM_STR_MAX (Some (length sbuf)) len)) (\<lambda>(e, m).
             reject (e \<noteq> EOK) AMVP_INVALID_ARG (pass (None, Some (take (length sbuf) m), int len)))))"

definition amvp_kmac_init_tc ::
  "'w allocator \<Rightarrow> AMVP_CIPHER \<Rightarrow> int \<Rightarrow> AMVP_KMAC_TESTTYPE \<Rightarrow> int \<Rightarrow> int \<Rightarrow> string \<Rightarrow> int \<Rightarrow> string \<Rightarrow> int \<Rightarrow> string \<Rightarrow> int \<Rightarrow> string \<Rightarrow>
   (AMVP_KMAC_TC, 'w) step" where
  "amvp_kmac_init_tc al alg_id tc_id type xof hex_customization msg msg_len mac mac_len key key_len custom =
     andthen (new_bytes al AMVP_KMAC_MSG_BYTE_MAX) (\<lambda>mbuf.
     andthen (new_bytes al AMVP_KMAC_MAC_BYTE_MAX) (\<lambda>macbuf.
     andthen (new_bytes al AMVP_KMAC_KEY_BYTE_MAX) (\<lambda>kbuf.
     andthen (if hex_customization \<noteq> 0 then new_bytes al AMVP_KMAC_CUSTOM_HEX_BYTE_MAX else pass []) (\<lambda>hbuf.
     andthen (if hex_customization \<noteq> 0 then pass [] else new_chars al AMVP_KMAC_CUSTOM_STR_MAX) (\<lambda>sbuf.
     andthen (from_hex al msg mbuf AMVP_KMAC_MSG_BYTE_MAX) (\<lambda>m.
     andthen (from_hex al key kbuf AMVP_KMAC_KEY_BYTE_MAX) (\<lambda>k.
     andthen (if type = AMVP_KMAC_TEST_TYPE_MVT then from_hex al mac macbuf AMVP_KMAC_MAC_BYTE_MAX else pass macbuf) (\<lambda>macb.
     andthen (kmac_custom al hex_customization custom hbuf sbuf) (\<lambda>(ch, cs, clen).
       pass \<lparr>km_cipher = alg_id, km_test_type = type, km_disposition = False, km_tc_id = tc_id, km_xof = xof,
             km_hex_customization = hex_customization, km_msg = Some m, km_mac = Some macb, km_key = Some k,
             km_custom_hex = ch, km_custom = cs, km_msg_len = msg_len div 8, km_mac_len = mac_len div 8,
             km_key_len = key_len div 8, km_custom_len = clen\<rparr>)))))))))"

definition amvp_kmac_output_tc :: "'w allocator \<Rightarrow> AMVP_KMAC_TC \<Rightarrow> JSON_Object \<Rightarrow> (JSON_Object, 'w) step" where
  "amvp_kmac_output_tc al stc tc_rsp =
     (if km_test_type stc = AMVP_KMAC_TEST_TYPE_AFT then
        andthen (to_hex al (km_mac stc) (km_mac_len stc) AMVP_KMAC_MAC_STR_MAX)
          (\<lambda>tmp. pass (json_object_set_string ''mac'' (Some tmp) tc_rsp))
      else pass (json_object_set_boolean ''testPassed'' (if km_disposition stc then 1 else 0) tc_rsp))"

text \<open>A text of a test and its length in bits, which has to be four for every character.\<close>

definition kmac_text :: "JSON_Object option \<Rightarrow> string \<Rightarrow> nat \<Rightarrow> int \<Rightarrow> (string \<Rightarrow> ('a, 's) step) \<Rightarrow> ('a, 's) step" where
  "kmac_text testobj name max_len bits k =
     required (json_object_get_string testobj name) (\<lambda>s.
     reject (int (strnlen_s (Some s) max_len) \<noteq> bits div 4) AMVP_INVALID_ARG (k s))"

definition kmac_mac :: "JSON_Object option \<Rightarrow> AMVP_KMAC_TESTTYPE \<Rightarrow> int \<Rightarrow> (string, 's) step" where
  "kmac_mac testobj type maclen =
     (if type = AMVP_KMAC_TEST_TYPE_MVT then
        required (json_object_get_string testobj ''mac'') (\<lambda>mac.
        reject (int (strnlen_s (Some mac) AMVP_KMAC_MAC_STR_MAX) * 4 \<noteq> maclen) AMVP_INVALID_ARG (pass mac))
      else pass [])"

definition kmac_test ::
  "'w allocator \<Rightarrow> 'w kmac_crypto \<Rightarrow> AMVP_CIPHER \<Rightarrow> callback \<Rightarrow> AMVP_KMAC_TESTTYPE \<Rightarrow> int \<Rightarrow> int \<Rightarrow> JSON_Object option \<Rightarrow> (JSON_Value, 'w) step" where
  "kmac_test al crypto alg_id cb type xof hex_customization testobj =
     andthen (as_int (json_object_get_number testobj ''tcId'')) (\<lambda>tc_id.
     reject (tc_id = 0) AMVP_MISSING_ARG
       (andthen (as_int (json_object_get_number testobj ''msgLen'')) (\<lambda>msglen.
        reject (msglen < 0) AMVP_INVALID_ARG
          (kmac_text testobj ''msg'' AMVP_KMAC_MSG_STR_MAX msglen (\<lambda>msg.
           andthen (as_int (json_object_get_number testobj ''keyLen'')) (\<lambda>keylen.
           reject (keylen \<le> 0) AMVP_INVALID_ARG
             (kmac_text testobj ''key'' AMVP_KMAC_KEY_STR_MAX keylen (\<lambda>key.
              andthen (as_int (json_object_get_number testobj ''macLen'')) (\<lambda>maclen.
              reject (maclen \<le> 0) AMVP_INVALID_ARG
                (andthen (kmac_mac testobj type maclen) (\<lambda>mac.
                 required (json_object_get_string testobj (if hex_customization \<noteq> 0 then ''customizationHex'' else ''customization'')) (\<lambda>custom.
                 andthen (amvp_kmac_init_tc al alg_id tc_id type xof hex_customization msg msglen mac maclen key keylen custom) (\<lambda>stc.
                 andthen (call_crypto crypto cb stc) (\<lambda>stc1.
                 andthen (amvp_kmac_output_tc al stc1 (json_object_set_number ''tcId'' tc_id [])) (\<lambda>r_tobj.
                   pass (JSONObject r_tobj))))))))))))))))"

definition kmac_group ::
  "'w allocator \<Rightarrow> 'w kmac_crypto \<Rightarrow> AMVP_CIPHER \<Rightarrow> callback \<Rightarrow> JSON_Object option \<Rightarrow> (JSON_Value, 'w) step" where
  "kmac_group al crypto alg_id cb groupobj =
     with_tgId groupobj (\<lambda>tgId.
     required (json_object_get_string groupobj ''testType'') (\<lambda>type_str.
       let type = kmac_read_test_type type_str
       in reject (type = AMVP_KMAC_TEST_TYPE_NONE) AMVP_INVALID_ARG
            (some_tests groupobj
              (andthen (each_test groupobj (kmac_test al crypto alg_id cb type (json_object_get_boolean groupobj ''xof'')
                 (json_object_get_boolean groupobj ''hexCustomization''))) (\<lambda>tests.
                 pass (group_rsp tgId tests))))))"

definition kmac_kat_handler ::
  "'w allocator \<Rightarrow> 'w kmac_crypto \<Rightarrow> JSON_Object option \<Rightarrow> 'w SESSION option \<Rightarrow> 'w SESSION option outcome" where
  "kmac_kat_handler al crypto = kat_frame True (\<lambda>w. w) (\<lambda>w. w) (kmac_group al crypto)"

section \<open>The customization of KMAC\<close>

text \<open>Copying a string into a separate buffer below it, after the first \<open>i\<close> characters.\<close>

lemma strncpy_copy:
  assumes "c_string s" and "length s \<le> length buf"
  shows "i \<le> length s \<Longrightarrow>
    strncpy_loop (take i s @ drop i buf @ s @ [NUL]) True 0 (length buf) i (length buf - i) (length buf + i) (length s - i) =
      (if length s < length buf then Inr (EOK, s @ NUL # drop (length s + 1) buf @ s @ [NUL])
       else Inr (ESNOSPC, (s @ s @ [NUL])[0 := NUL]))"
proof (induction "length s - i" arbitrary: i)
  case 0
  then have "i = length s" by simp
  then show ?case
    using assms(2) by (cases "length buf - i") (auto simp: list_update_append Cons_nth_drop_Suc [symmetric])
next
  case (Suc k)
  then have i: "i < length s" "i < length buf" using assms(2) by auto
  let ?m = "take i s @ drop i buf @ s @ [NUL]"
  have src: "?m ! (length buf + i) = s ! i" using i by (auto simp: nth_append)
  have upd: "?m[i := s ! i] = take (Suc i) s @ drop (Suc i) buf @ s @ [NUL]"
    using i by (simp add: list_update_append take_Suc_conv_app_nth Cons_nth_drop_Suc [symmetric])
  have ne: "s ! i \<noteq> NUL" using assms(1) i(1) by (metis c_string_def nth_mem)
  have eq: "length buf - i = Suc (length buf - Suc i)" "length s - i = Suc (length s - Suc i)" using i by auto
  have nth: "(take (Suc i) s @ drop (Suc i) buf @ s @ [NUL]) ! i = s ! i" using i by (simp add: nth_append)
  show ?case
    using Suc.hyps(1) [of "Suc i"] Suc.hyps(2) i src ne nth unfolding eq strncpy_loop.simps
    by (simp add: Let_def upd)
qed

text \<open>
  Which customization strings a KMAC test accepts. The limit of 161 characters that the
  handler tests is one too many: a string of exactly that length passes the test and is
  refused by the copy, which has no room for its terminator.
\<close>
theorem kmac_custom_limit:
  assumes "c_string s"
  shows "kmac_custom al 0 s hbuf (replicate AMVP_KMAC_CUSTOM_STR_MAX NUL) w =
    (if length s \<le> 160 then Done (None, Some (s @ replicate (161 - length s) NUL), int (length s)) w else Fail AMVP_INVALID_ARG w)"
proof (cases "length s \<le> AMVP_KMAC_CUSTOM_STR_MAX")
  case True
  let ?b = "replicate AMVP_KMAC_CUSTOM_STR_MAX NUL"
  have "strncpy_s (?b @ s @ [NUL]) (Some 0) AMVP_KMAC_CUSTOM_STR_MAX (Some AMVP_KMAC_CUSTOM_STR_MAX) (length s) =
      (if length s < AMVP_KMAC_CUSTOM_STR_MAX then Inr (EOK, s @ NUL # drop (length s + 1) ?b @ s @ [NUL])
       else Inr (ESNOSPC, (s @ s @ [NUL])[0 := NUL]))"
    using True strncpy_copy [OF assms, of ?b 0] by (simp add: strncpy_s_def AMVP_KMAC_CUSTOM_STR_MAX_def RSIZE_MAX_STR_def)
  moreover have "161 - length s = Suc (160 - length s)" if "length s \<le> 160" using that by simp
  ultimately show ?thesis
    using True by (auto simp: kmac_custom_def Let_def min_def AMVP_KMAC_CUSTOM_STR_MAX_def)
next
  case False
  then show ?thesis by (simp add: kmac_custom_def Let_def min_def AMVP_KMAC_CUSTOM_STR_MAX_def)
qed

theorem kmac_custom_limit_witness:
  "kmac_custom always_memory 0 ''abc'' [] (replicate AMVP_KMAC_CUSTOM_STR_MAX NUL) () =
     Done (None, Some (''abc'' @ replicate 158 NUL), 3) () \<and>
   kmac_custom always_memory 0 (replicate 161 CHR ''x'') [] (replicate AMVP_KMAC_CUSTOM_STR_MAX NUL) () = Fail AMVP_INVALID_ARG ()"
proof -
  have "c_string ''abc''" "c_string (replicate 161 CHR ''x'')" by (simp_all add: c_string_def)
  from this [THEN kmac_custom_limit, of always_memory "[]" "()"] show ?thesis by simp
qed

section \<open>The order of groups in CMAC\<close>

lemma keeps_on_world [keeps_intros]: "keeps cf_verify (on_world p)"
  by (auto simp: keeps_def on_world_def split: kat.splits)

lemma keeps_cmac_init [keeps_intros]:
  "keeps cf_verify (amvp_cmac_init_tc al tc_id msg msg_len key key2 key3 verify mac mac_len alg_id)"
  unfolding keeps_def amvp_cmac_init_tc_def by (auto split: if_splits dest: keepsD [OF keeps_on_world])

lemma keeps_cmac_run_test [keeps_intros]:
  "keeps cf_verify (cmac_run_test al crypto alg_id cb tc_id msglen maclen msg keys given_mac)"
proof -
  have "keeps cf_verify (reject b AMVP_MISSING_ARG
      (andthen (amvp_cmac_init_tc al tc_id msg msglen (keys ! 0) (keys ! 1) (keys ! 2) v mac maclen alg_id) (\<lambda>stc.
       andthen (on_world (call_crypto crypto cb stc)) (\<lambda>stc1.
       andthen (on_world (amvp_cmac_output_tc al stc1 (json_object_set_number ''tcId'' (int tc_id) []))) (\<lambda>r_tobj.
         pass (JSONObject r_tobj))))))" for b v mac
    by (intro keeps_intros)
  then show ?thesis unfolding keeps_def cmac_run_test_def Let_def by blast
qed

lemma keeps_cmac_test [keeps_intros]: "keeps cf_verify (cmac_test al crypto alg_id cb msglen maclen testobj)"
  unfolding cmac_test_def Let_def
  by (intro keeps_andthen keeps_number) (simp add: keeps_intros split: option.split)

lemma as_uint_Done: "as_uint n s = Done x t \<longleftrightarrow> 0 \<le> n \<and> n < 2 ^ 32 \<and> x = nat n \<and> t = s"
  by (auto simp: as_uint_def)

lemma cmac_ver_group:
  assumes "cmac_group al crypto alg_id cb g f = Done a f'" and "json_object_get_string g ''direction'' = Some ''ver''"
  shows "cf_verify f'"
proof -
  have dir: "cmac_direction g f1 = Done () (f1\<lparr>cf_verify := True\<rparr>)" for f1 :: "'a cmac_frame"
    using assms(2) by (simp add: cmac_direction_def strcmp_s_indicator RSIZE_MAX_STR_def)
  obtain f1 k m xs where "each_test g (cmac_test al crypto alg_id cb k m) (f1\<lparr>cf_verify := True\<rparr>) = Done xs f'"
    using assms(1)
    by (auto simp: cmac_group_def with_tgId_def andthen_Done_iff reject_def required_def dir as_uint_Done split: if_splits option.splits)
  moreover have "keeps cf_verify (each_test g (cmac_test al crypto alg_id cb k m))"
    unfolding each_test_def by (intro keeps_intros)
  ultimately show ?thesis by (auto dest: keepsD)
qed

text \<open>A group that asks for MACs with AES, as the server writes it, with a first test without a MAC.\<close>

definition cmac_gen_group :: "int \<Rightarrow> nat \<Rightarrow> nat \<Rightarrow> nat \<Rightarrow> 8 word list \<Rightarrow> 8 word list \<Rightarrow> JSON_Array \<Rightarrow> JSON_Object" where
  "cmac_gen_group tgId key_bytes mac_bytes tcId m k rest =
     [(''tgId'', JSONNumber tgId), (''keyLen'', JSONNumber (8 * int key_bytes)), (''testType'', JSONString ''AFT''),
      (''direction'', JSONString ''gen''), (''msgLen'', JSONNumber (8 * int (length m))), (''macLen'', JSONNumber (8 * int mac_bytes)),
      (''tests'', JSONArray (JSONObject [(''tcId'', JSONNumber (int tcId)), (''message'', JSONString (hex_of m)),
         (''key'', JSONString (hex_of k))] # rest))]"

definition cmac_set :: "string \<Rightarrow> JSON_Object list \<Rightarrow> JSON_Object" where
  "cmac_set alg gs = [(''algorithm'', JSONString alg), (''testGroups'', JSONArray (map JSONObject gs))]"

lemma cmac_gen_header:
  assumes "tgId \<noteq> 0" and "is_int32 tgId" and "0 < key_bytes" "key_bytes < 2 ^ 29" and "0 < mac_bytes" "mac_bytes < 2 ^ 32"
    and "length m < 2 ^ 32"
  shows "cmac_group al crypto AMVP_CMAC_AES cb (Some (cmac_gen_group tgId key_bytes mac_bytes tcId m k rest)) f =
    andthen (each (cmac_test al crypto AMVP_CMAC_AES cb (length m) mac_bytes)
        (Some [(''tcId'', JSONNumber (int tcId)), (''message'', JSONString (hex_of m)), (''key'', JSONString (hex_of k))] #
          map (\<lambda>v. json_value_get_object (Some v)) rest))
      (\<lambda>tests. pass (group_rsp tgId tests)) f"
proof -
  let ?g = "cmac_gen_group tgId key_bytes mac_bytes tcId m k rest"
  have n: "json_names ?g" by (simp add: cmac_gen_group_def json_known)
  have e: "eighth (8 * int x) = int x" for x by (simp add: eighth_def)
  have "as_uint (8 * int key_bytes) f = Done (8 * key_bytes) f" using assms(4) by (simp add: as_uint_Done)
  then have "cmac_group_args AMVP_CMAC_AES (Some ?g) f = Done () f" "cmac_direction (Some ?g) f = Done () f"
    using assms(3) n by (simp_all add: cmac_group_args_def group_len_def cmac_direction_def json_read kat_names
        cmac_gen_group_def strcmp_s_indicator RSIZE_MAX_STR_def)
  then show ?thesis
    using assms n
    by (simp add: cmac_group_def with_tgId_def json_read kat_names each_test_def strcmp_s_indicator RSIZE_MAX_STR_def)
      (simp add: cmac_gen_group_def e json_value_get_object_def)
qed

lemma cmac_gen_test:
  assumes "tcId < 2 ^ 32" and "length m \<le> 65536" and "length k \<le> 32"
  shows "cmac_test al crypto AMVP_CMAC_AES cb (length m) mac_bytes
      (Some [(''tcId'', JSONNumber (int tcId)), (''message'', JSONString (hex_of m)), (''key'', JSONString (hex_of k))]) f =
    cmac_run_test al crypto AMVP_CMAC_AES cb tcId (length m) mac_bytes (Some (hex_of m)) [Some (hex_of k), None, None] None f"
proof -
  let ?t = "[(''tcId'', JSONNumber (int tcId)), (''message'', JSONString (hex_of m)), (''key'', JSONString (hex_of k))]"
  have n: "json_names ?t" by (simp add: json_known)
  have "cmac_msg_check (length m) (Some (hex_of m)) = None" "cmac_key_check AMVP_CMAC_AES [Some (hex_of k), None, None] = None"
    using assms by (simp_all add: cmac_msg_check_def cmac_key_check_def AMVP_CMAC_MSGLEN_MAX_STR_def AMVP_CMAC_KEY_MAX_def)
  then show ?thesis
    using assms(1) by (simp add: cmac_test_def json_read kat_names n Let_def)
qed

lemma cmac_frame_eq:
  assumes "amvp_lookup_cipher_index (Some alg) = AMVP_CMAC_AES" and "amvp_locate_cap_entry (Some ctx) AMVP_CMAC_AES = Some cap"
  shows "cmac_kat_handler al crypto (Some (cmac_set alg gs)) (Some ctx) =
    (case each (cmac_group al crypto AMVP_CMAC_AES (cap_crypto_handler cap)) (map Some gs) \<lparr>cf_ready = False, cf_verify = False, cf_world = world ctx\<rparr> of
       Undef u \<Rightarrow> UB u
     | Fail rv s \<Rightarrow> Ret rv (Some (ctx\<lparr>kat_resp := Some (JSONArray []), world := cf_world s\<rparr>))
     | Done garr s \<Rightarrow> Ret AMVP_SUCCESS (Some (ctx\<lparr>kat_resp := Some (JSONArray [JSONObject [(''vsId'', JSONNumber (vs_id ctx)),
         (''algorithm'', JSONString alg), (''testGroups'', JSONArray garr)]]), world := cf_world s\<rparr>)))"
  using assms
  by (simp add: cmac_kat_handler_def kat_frame_def kat_body_def kat_answer_def cmac_set_def amvp_setup_json_rsp_group_def json_read json_build json_known Let_def comp_def
      split: kat.splits)

text \<open>
  C21: the direction of a CMAC group leaks into the groups after it. Once a group to be verified
  has been worked through, a group that asks for MACs is taken as one to be verified too: its
  first test, which has no MAC, ends the whole vector set with a missing argument, and the
  answer stays empty.
\<close>
theorem cmac_gen_after_ver:
  assumes "amvp_lookup_cipher_index (Some alg) = AMVP_CMAC_AES" and "amvp_locate_cap_entry (Some ctx) AMVP_CMAC_AES = Some cap"
    and "cmac_group al crypto AMVP_CMAC_AES (cap_crypto_handler cap) (Some v) \<lparr>cf_ready = False, cf_verify = False, cf_world = world ctx\<rparr> = Done a f1"
    and "json_object_get_string (Some v) ''direction'' = Some ''ver''"
    and "tgId \<noteq> 0" "is_int32 tgId" "0 < key_bytes" "key_bytes < 2 ^ 29" "0 < mac_bytes" "mac_bytes < 2 ^ 32"
    and "tcId < 2 ^ 32" "length m \<le> 65536" "length k \<le> 32"
  shows "cmac_kat_handler al crypto (Some (cmac_set alg [v, cmac_gen_group tgId key_bytes mac_bytes tcId m k rest])) (Some ctx) =
    Ret AMVP_MISSING_ARG (Some (ctx\<lparr>kat_resp := Some (JSONArray []), world := cf_world f1\<rparr>))"
proof -
  have "cf_verify f1" using cmac_ver_group [OF assms(3,4)] .
  then have "cmac_run_test al crypto AMVP_CMAC_AES cb tcId (length m) mac_bytes (Some (hex_of m)) [Some (hex_of k), None, None] None f1 =
      Fail AMVP_MISSING_ARG f1" for cb
    by (simp add: cmac_run_test_def)
  then have "cmac_group al crypto AMVP_CMAC_AES (cap_crypto_handler cap) (Some (cmac_gen_group tgId key_bytes mac_bytes tcId m k rest)) f1 =
      Fail AMVP_MISSING_ARG f1"
    using assms(5-) by (subst cmac_gen_header) (simp_all add: cmac_gen_test)
  with assms(1-3) show ?thesis by (simp add: cmac_frame_eq)
qed

text \<open>
  C20: a CMAC vector set whose first test has the number zero, or none, frees pointers that were
  never set: the arguments are refused before the test case on the stack is cleared, and the
  refusal is followed by the release of that test case.
\<close>
theorem cmac_first_test_refused:
  assumes "amvp_lookup_cipher_index (Some alg) = AMVP_CMAC_AES" and "amvp_locate_cap_entry (Some ctx) AMVP_CMAC_AES = Some cap"
    and "tgId \<noteq> 0" "is_int32 tgId" "0 < key_bytes" "key_bytes < 2 ^ 29" "0 < mac_bytes" "mac_bytes < 2 ^ 32"
    and "length m \<le> 65536" "length k \<le> 32"
  shows "cmac_kat_handler al crypto (Some (cmac_set alg [cmac_gen_group tgId key_bytes mac_bytes 0 m k rest])) (Some ctx) = UB Uninitialised"
proof -
  have "cmac_run_test al crypto AMVP_CMAC_AES cb 0 (length m) mac_bytes (Some (hex_of m)) [Some (hex_of k), None, None] None
      \<lparr>cf_ready = False, cf_verify = False, cf_world = w\<rparr> = Undef Uninitialised" for cb w
    by (simp add: cmac_run_test_def amvp_cmac_init_tc_def cmac_refused_def Let_def)
  then have "cmac_group al crypto AMVP_CMAC_AES (cap_crypto_handler cap) (Some (cmac_gen_group tgId key_bytes mac_bytes 0 m k rest))
      \<lparr>cf_ready = False, cf_verify = False, cf_world = world ctx\<rparr> = Undef Uninitialised"
    using assms(3-) by (subst cmac_gen_header) (simp_all add: cmac_gen_test [where tcId = 0, simplified])
  with assms(1,2) show ?thesis by (simp add: cmac_frame_eq)
qed

definition cmac_cap_entry :: AMVP_CAPS_LIST where
  "cmac_cap_entry = \<lparr>cap_cipher = AMVP_CMAC_AES, cap_type = AMVP_CMAC_TYPE, cap_has_prereq = 0, cap_prereq_vals = [],
     cap_data = Cmac_cap zero_cmac_cap, cap_crypto_handler = Some 0\<rparr>"

definition cmac_session :: "unit SESSION" where
  "cmac_session = (init_session ())\<lparr>caps_list := [cmac_cap_entry]\<rparr>"

lemma cmac_index: "amvp_lookup_cipher_index (Some ''CMAC-AES'') = AMVP_CMAC_AES"
  by (rule lookup_index_row) (code_simp, simp add: c_string_def)

lemma cmac_session_cap: "amvp_locate_cap_entry (Some cmac_session) AMVP_CMAC_AES = Some cmac_cap_entry"
  by (simp add: cmac_session_def cmac_cap_entry_def amvp_locate_cap_entry_def)

definition cmac_ver_empty :: JSON_Object where
  "cmac_ver_empty = [(''tgId'', JSONNumber 1), (''keyLen'', JSONNumber 128), (''testType'', JSONString ''AFT''),
     (''direction'', JSONString ''ver''), (''macLen'', JSONNumber 64)]"

definition keep_module :: "unit cmac_crypto" where
  "keep_module c stc w = (AMVP_SUCCESS, stc, w)"

theorem cmac_gen_after_ver_witness:
  "cmac_kat_handler always_memory keep_module
     (Some (cmac_set ''CMAC-AES'' [cmac_ver_empty, cmac_gen_group 2 16 8 1 [1, 2] [3] []])) (Some cmac_session) =
   Ret AMVP_MISSING_ARG (Some (cmac_session\<lparr>kat_resp := Some (JSONArray [])\<rparr>))"
proof -
  have n: "json_names cmac_ver_empty" by (simp add: cmac_ver_empty_def json_known)
  have dir: "json_object_get_string (Some cmac_ver_empty) ''direction'' = Some ''ver''"
    by (simp add: json_read kat_names n) (simp add: cmac_ver_empty_def)
  then have "cmac_direction (Some cmac_ver_empty) f = Done () (f\<lparr>cf_verify := True\<rparr>)" for f :: "unit cmac_frame"
    by (simp add: cmac_direction_def strcmp_s_indicator RSIZE_MAX_STR_def)
  then have "cmac_group always_memory keep_module AMVP_CMAC_AES (cap_crypto_handler cmac_cap_entry) (Some cmac_ver_empty)
      \<lparr>cf_ready = False, cf_verify = False, cf_world = world cmac_session\<rparr> =
      Done (group_rsp 1 []) \<lparr>cf_ready = False, cf_verify = True, cf_world = ()\<rparr>"
    by (simp add: cmac_group_def with_tgId_def cmac_group_args_def group_len_def each_test_def json_read kat_names n
        strcmp_s_indicator RSIZE_MAX_STR_def)
      (simp add: cmac_ver_empty_def is_int32_def as_uint_def eighth_def strcmp_s_indicator RSIZE_MAX_STR_def)
  with dir have "cmac_kat_handler always_memory keep_module
      (Some (cmac_set ''CMAC-AES'' [cmac_ver_empty, cmac_gen_group 2 16 8 1 [1, 2] [3] []])) (Some cmac_session) =
    Ret AMVP_MISSING_ARG (Some (cmac_session\<lparr>kat_resp := Some (JSONArray []),
       world := cf_world \<lparr>cf_ready = False, cf_verify = True, cf_world = ()\<rparr>\<rparr>))"
    by (intro cmac_gen_after_ver [OF cmac_index cmac_session_cap]) (simp_all add: is_int32_def)
  then show ?thesis by (simp add: cmac_session_def init_session_def)
qed

theorem cmac_first_test_refused_witness:
  "cmac_kat_handler always_memory keep_module (Some (cmac_set ''CMAC-AES'' [cmac_gen_group 2 16 8 0 [1, 2] [3] []])) (Some cmac_session) =
   UB Uninitialised"
  by (intro cmac_first_test_refused [OF cmac_index cmac_session_cap]) (simp_all add: is_int32_def)

section \<open>HMAC answers\<close>

text \<open>
  A group of HMAC tests as data: its number, the lengths in bytes of message, key and MAC, and
  tests of a number, a message and a key.
\<close>

type_synonym hmac_data = "int \<times> (nat \<times> nat \<times> nat) \<times> (nat \<times> 8 word list \<times> 8 word list) list"

definition hmac_test_request :: "nat \<times> 8 word list \<times> 8 word list \<Rightarrow> JSON_Value" where
  "hmac_test_request = (\<lambda>(t, m, k). JSONObject [(''tcId'', JSONNumber (int t)), (''msg'', JSONString (hex_of m)), (''key'', JSONString (hex_of k))])"

definition hmac_group_request :: "hmac_data \<Rightarrow> JSON_Value" where
  "hmac_group_request = (\<lambda>(g, (ml, kl, n), ts).
     JSONObject [(''tgId'', JSONNumber g), (''msgLen'', JSONNumber (8 * int ml)), (''keyLen'', JSONNumber (8 * int kl)),
       (''macLen'', JSONNumber (8 * int n)), (''tests'', JSONArray (map hmac_test_request ts))])"

definition hmac_request :: "string \<Rightarrow> hmac_data list \<Rightarrow> JSON_Object" where
  "hmac_request alg gs = [(''algorithm'', JSONString alg), (''testGroups'', JSONArray (map hmac_group_request gs))]"

definition hmac_test_answer ::
  "(nat \<Rightarrow> 8 word list \<Rightarrow> 8 word list \<Rightarrow> 8 word list) \<Rightarrow> nat \<Rightarrow> nat \<times> 8 word list \<times> 8 word list \<Rightarrow> JSON_Value" where
  "hmac_test_answer M n = (\<lambda>(t, m, k). JSONObject [(''tcId'', JSONNumber (int t)), (''mac'', JSONString (hex_of (M n k m)))])"

definition hmac_group_answer :: "(nat \<Rightarrow> 8 word list \<Rightarrow> 8 word list \<Rightarrow> 8 word list) \<Rightarrow> hmac_data \<Rightarrow> JSON_Value" where
  "hmac_group_answer M = (\<lambda>(g, (ml, kl, n), ts).
     JSONObject [(''tgId'', JSONNumber g), (''tests'', JSONArray (map (hmac_test_answer M n) ts))])"

text \<open>
  The lengths a group may have. A message is at most 512 bytes: the test of its length reads at
  most 1024 characters. A MAC is at most 64 bytes.
\<close>

definition hmac_group_fits :: "hmac_data \<Rightarrow> bool" where
  "hmac_group_fits = (\<lambda>(g, (ml, kl, n), ts). g \<noteq> 0 \<and> is_int32 g \<and> 0 < ml \<and> ml \<le> 512 \<and> 0 < kl \<and> kl \<le> AMVP_HMAC_KEY_BYTE_MAX \<and>
     0 < n \<and> n \<le> AMVP_HMAC_MAC_BYTE_MAX \<and> ts \<noteq> [] \<and>
     list_all (\<lambda>(t, m, k). 0 < t \<and> t < 2 ^ 32 \<and> length m = ml \<and> length k = kl) ts)"

text \<open>A crypto module that computes the MAC of \<open>n\<close> bytes of a message under a key.\<close>

definition hmacs :: "(nat \<Rightarrow> 8 word list \<Rightarrow> 8 word list \<Rightarrow> 8 word list) \<Rightarrow> 'w hmac_crypto \<Rightarrow> nat \<Rightarrow> bool" where
  "hmacs M crypto cb \<longleftrightarrow>
     (\<forall>n k m. length (M n k m) = n) \<and>
     (\<forall>stc m k mac w. hm_msg stc = Some m \<longrightarrow> hm_key stc = Some k \<longrightarrow> hm_mac stc = Some mac \<longrightarrow>
        (\<exists>w'. crypto cb stc w = (AMVP_SUCCESS, stc\<lparr>hm_mac := Some
           (M (hm_mac_len stc) (take (hm_key_len stc) k) (take (hm_msg_len stc) m) @ drop (hm_mac_len stc) mac)\<rparr>, w')))"

lemma hmacsD:
  "hmacs M crypto cb \<Longrightarrow> hm_msg stc = Some m \<Longrightarrow> hm_key stc = Some k \<Longrightarrow> hm_mac stc = Some mac \<Longrightarrow>
    \<exists>w'. crypto cb stc w = (AMVP_SUCCESS, stc\<lparr>hm_mac := Some
      (M (hm_mac_len stc) (take (hm_key_len stc) k) (take (hm_msg_len stc) m) @ drop (hm_mac_len stc) mac)\<rparr>, w')"
  by (simp add: hmacs_def)

lemmas hmac_sizes =
  AMVP_HMAC_MSG_MAX_def AMVP_HMAC_MAC_BYTE_MAX_def AMVP_HMAC_MAC_STR_MAX_def AMVP_HMAC_KEY_BYTE_MAX_def AMVP_HMAC_KEY_STR_MAX_def

lemma hmac_init_ok:
  assumes "\<forall>w. fst (al w)" and "length m \<le> 512" and "length k \<le> AMVP_HMAC_KEY_BYTE_MAX"
  obtains w' where "amvp_hmac_init_tc al t (8 * length m) (hex_of m) (8 * n) (8 * length k) (hex_of k) c w =
    Done \<lparr>hm_cipher = c, hm_tc_id = t, hm_msg = Some (m @ replicate (AMVP_HMAC_MSG_MAX - length m) 0), hm_msg_len = length m,
      hm_mac = Some (replicate AMVP_HMAC_MAC_BYTE_MAX 0), hm_mac_len = n, hm_key_len = length k,
      hm_key = Some (k @ replicate (AMVP_HMAC_KEY_BYTE_MAX - length k) 0)\<rparr> w'"
proof -
  obtain w1 where w1: "new_bytes al AMVP_HMAC_MSG_MAX w = Done (replicate AMVP_HMAC_MSG_MAX 0) w1"
    using new_bytes_ok [OF assms(1)] .
  obtain w2 where w2: "new_bytes al AMVP_HMAC_MAC_BYTE_MAX w1 = Done (replicate AMVP_HMAC_MAC_BYTE_MAX 0) w2"
    using new_bytes_ok [OF assms(1)] .
  obtain w3 where w3: "new_bytes al AMVP_HMAC_KEY_BYTE_MAX w2 = Done (replicate AMVP_HMAC_KEY_BYTE_MAX 0) w3"
    using new_bytes_ok [OF assms(1)] .
  have "from_hex al (hex_of m) (replicate AMVP_HMAC_MSG_MAX 0) AMVP_HMAC_MSG_MAX w3 =
      Done (m @ replicate (AMVP_HMAC_MSG_MAX - length m) 0) w3"
    using assms(2) by (intro from_hex_ok) (auto simp: hmac_sizes AMVP_HEXSTR_MAX_def)
  moreover have "from_hex al (hex_of k) (replicate AMVP_HMAC_KEY_BYTE_MAX 0) AMVP_HMAC_KEY_BYTE_MAX w3 =
      Done (k @ replicate (AMVP_HMAC_KEY_BYTE_MAX - length k) 0) w3"
    using assms(3) by (intro from_hex_ok) (auto simp: hmac_sizes AMVP_HEXSTR_MAX_def)
  ultimately show ?thesis using that w1 w2 w3 by (simp add: amvp_hmac_init_tc_def)
qed

lemma hmac_test_eq:
  assumes "hmacs M crypto cb" and "\<forall>w. fst (al w)" and "hmac_group_fits (g, (ml, kl, n), ts)" and "x \<in> set ts"
  shows "\<exists>w'. hmac_test al crypto c (Some cb) (8 * ml) (8 * kl) (8 * n) (json_value_get_object (Some (hmac_test_request x))) w =
    Done (hmac_test_answer M n x) w'"
proof -
  obtain t m k where x: "x = (t, m, k)" by (cases x)
  have fits: "0 < t" "t < 2 ^ 32" "length m = ml" "length k = kl" "ml \<le> 512" "kl \<le> AMVP_HMAC_KEY_BYTE_MAX" "n \<le> AMVP_HMAC_MAC_BYTE_MAX"
    using assms(3,4) by (auto simp: hmac_group_fits_def x list_all_iff)
  let ?stc = "\<lparr>hm_cipher = c, hm_tc_id = t, hm_msg = Some (m @ replicate (AMVP_HMAC_MSG_MAX - ml) 0), hm_msg_len = ml,
      hm_mac = Some (replicate AMVP_HMAC_MAC_BYTE_MAX 0), hm_mac_len = n, hm_key_len = kl,
      hm_key = Some (k @ replicate (AMVP_HMAC_KEY_BYTE_MAX - kl) 0)\<rparr>"
  obtain w1 where init: "amvp_hmac_init_tc al t (8 * ml) (hex_of m) (8 * n) (8 * kl) (hex_of k) c w = Done ?stc w1"
    using hmac_init_ok [OF assms(2), of m k t n c w] fits by auto
  let ?mac = "M n k m @ drop n (replicate AMVP_HMAC_MAC_BYTE_MAX 0)"
  obtain w2 where "crypto cb ?stc w1 = (AMVP_SUCCESS, ?stc\<lparr>hm_mac := Some ?mac\<rparr>, w2)"
    using hmacsD [OF assms(1), of ?stc "m @ replicate (AMVP_HMAC_MSG_MAX - ml) 0" "k @ replicate (AMVP_HMAC_KEY_BYTE_MAX - kl) 0"
        "replicate AMVP_HMAC_MAC_BYTE_MAX 0" w1] fits(3,4) by auto
  then have cr: "call_crypto crypto (Some cb) ?stc w1 = Done (?stc\<lparr>hm_mac := Some ?mac\<rparr>) w2" by (simp add: call_crypto_def)
  have len: "length (M n k m) = n" using assms(1) by (simp add: hmacs_def)
  obtain w3 where "to_hex al (Some ?mac) (wrap32 (int n)) AMVP_HMAC_MAC_STR_MAX w2 = Done (hex_of (take n ?mac)) w3"
    using to_hex_ok [OF assms(2), of n ?mac AMVP_HMAC_MAC_STR_MAX w2] fits len by (auto simp: hmac_sizes)
  then have "amvp_hmac_output_tc al (?stc\<lparr>hm_mac := Some ?mac\<rparr>) [(''tcId'', JSONNumber (int t))] w2 =
      Done [(''tcId'', JSONNumber (int t)), (''mac'', JSONString (hex_of (M n k m)))] w3"
    using len by (simp add: amvp_hmac_output_tc_def json_build json_known)
  moreover have "min (2 * ml) AMVP_HMAC_MSG_MAX = 8 * ml * 2 mod 2 ^ 32 div 8" "min (2 * kl) AMVP_HMAC_KEY_STR_MAX = 8 * kl div 4"
    using fits by (auto simp: hmac_sizes min_def)
  ultimately show ?thesis
    using init cr fits(1-4)
    by (simp add: hmac_test_def hmac_test_request_def hmac_test_answer_def x json_read json_build json_known min.commute)
qed

lemma hmac_group_eq:
  assumes "hmacs M crypto cb" and "\<forall>w. fst (al w)" and "hmac_group_fits x"
  shows "\<exists>w'. hmac_group al crypto c (Some cb) (json_value_get_object (Some (hmac_group_request x))) w = Done (hmac_group_answer M x) w'"
proof -
  obtain g ml kl n ts where x: "x = (g, (ml, kl, n), ts)" by (cases x) auto
  have fits: "g \<noteq> 0" "is_int32 g" "0 < ml" "ml \<le> 512" "0 < kl" "kl \<le> AMVP_HMAC_KEY_BYTE_MAX" "0 < n" "n \<le> AMVP_HMAC_MAC_BYTE_MAX" "ts \<noteq> []"
    using assms(3) by (auto simp: hmac_group_fits_def x)
  have tests: "\<exists>w'. each (hmac_test al crypto c (Some cb) (8 * ml) (8 * kl) (8 * n))
      (map (\<lambda>t. json_value_get_object (Some (hmac_test_request t))) ts) w = Done (map (hmac_test_answer M n) ts) w'"
    by (rule each_ok) (rule hmac_test_eq [OF assms(1,2) assms(3) [unfolded x]])
  have "as_uint (8 * int l) w = Done (8 * l) w" if "l \<le> 65536" for l using that by (simp add: as_uint_Done)
  then have num: "as_uint (8 * int ml) w = Done (8 * ml) w" "as_uint (8 * int kl) w = Done (8 * kl) w" "as_uint (8 * int n) w = Done (8 * n) w"
    using fits by (simp_all add: hmac_sizes)
  show ?thesis
    using tests fits(1-3,5,7,9) num
    by (auto simp: hmac_group_def hmac_group_request_def hmac_group_answer_def x with_tgId_def group_len_def some_tests_def each_test_def
        group_rsp_def json_read json_build json_known json_array_get_count_def comp_def)
qed

text \<open>
  C18: the HMAC handler answers every test of a vector set whose lengths are consistent. With a
  crypto module that computes the MAC \<open>M\<close> and enough memory it succeeds, and the response
  holds the groups and tests in the order asked, each with the MAC of its message under its
  key, of the length its group names.
\<close>
theorem hmac_handler_answers:
  assumes "amvp_lookup_cipher_index (Some alg) = c" and "c \<noteq> 0"
    and "amvp_locate_cap_entry (Some ctx) c = Some cap" and "cap_crypto_handler cap = Some cb"
    and "hmacs M crypto cb" and "\<forall>w. fst (al w)" and "list_all hmac_group_fits gs"
  shows "\<exists>w'. hmac_kat_handler al crypto (Some (hmac_request alg gs)) (Some ctx) =
    Ret AMVP_SUCCESS (Some (ctx\<lparr>kat_resp := Some (JSONArray [JSONObject [(''vsId'', JSONNumber (vs_id ctx)), (''algorithm'', JSONString alg),
      (''testGroups'', JSONArray (map (hmac_group_answer M) gs))]]), world := w'\<rparr>))"
proof -
  have "\<exists>w'. each (hmac_group al crypto c (Some cb)) (map (\<lambda>g. json_value_get_object (Some (hmac_group_request g))) gs) (world ctx) =
      Done (map (hmac_group_answer M) gs) w'"
    by (rule each_ok) (use assms(7) hmac_group_eq [OF assms(5,6)] in \<open>auto simp: list_all_iff\<close>)
  then show ?thesis
    using assms(1-4)
    by (auto simp: hmac_kat_handler_def kat_frame_def kat_body_def kat_answer_def hmac_request_def amvp_setup_json_rsp_group_def
        json_read json_build json_known Let_def comp_def)
qed

definition hmac_cap_entry :: AMVP_CAPS_LIST where
  "hmac_cap_entry = \<lparr>cap_cipher = AMVP_HMAC_SHA2_256, cap_type = AMVP_HMAC_TYPE, cap_has_prereq = 0, cap_prereq_vals = [],
     cap_data = Hmac_cap zero_hmac_cap, cap_crypto_handler = Some 0\<rparr>"

definition hmac_session :: "unit SESSION" where
  "hmac_session = (init_session ())\<lparr>caps_list := [hmac_cap_entry]\<rparr>"

definition zero_mac_module :: "unit hmac_crypto" where
  "zero_mac_module c stc w = (AMVP_SUCCESS, stc\<lparr>hm_mac := map_option (\<lambda>mac. replicate (hm_mac_len stc) 0 @ drop (hm_mac_len stc) mac) (hm_mac stc)\<rparr>, w)"

lemma hmac_index: "amvp_lookup_cipher_index (Some ''HMAC-SHA2-256'') = AMVP_HMAC_SHA2_256"
  by (rule lookup_index_row) (code_simp, simp add: c_string_def)

theorem hmac_handler_answers_witness:
  "\<exists>w'. hmac_kat_handler always_memory zero_mac_module (Some (hmac_request ''HMAC-SHA2-256'' [(1, (2, 1, 4), [(9, [1, 2], [3])])])) (Some hmac_session) =
    Ret AMVP_SUCCESS (Some (hmac_session\<lparr>kat_resp := Some (JSONArray [JSONObject [(''vsId'', JSONNumber (vs_id hmac_session)),
      (''algorithm'', JSONString ''HMAC-SHA2-256''), (''testGroups'', JSONArray (map (hmac_group_answer (\<lambda>n k m. replicate n 0)) [(1, (2, 1, 4), [(9, [1, 2], [3])])]))]]), world := w'\<rparr>))"
  by (rule hmac_handler_answers [OF hmac_index, where cap = hmac_cap_entry and cb = 0])
    (simp_all add: hmac_session_def hmac_cap_entry_def amvp_locate_cap_entry_def hmacs_def zero_mac_module_def always_memory_def
      hmac_group_fits_def is_int32_def hmac_sizes)

end
