(* ===== verification/Register_Build.thy ===== *)
theory Register_Build
  imports Cap_Props Json
begin

text \<open>
  The registration message of \<^verbatim>\<open>src/amvp_build_register.c\<close>: one JSON object for each registered
  capability, two when internal and external initialisation vectors are both to be tested.
  The builders fill an object and return a result code; what they filled in before an error is
  kept in the model although the caller frees it. The builders of the families whose settings
  the registry does not hold are one parameter, \<open>other\<close>.
\<close>

section \<open>Sequencing and pieces of messages\<close>

text \<open>The next step of a builder runs unless this one returned an error.\<close>

definition proceed :: "'s outcome \<Rightarrow> ('s \<Rightarrow> 's outcome) \<Rightarrow> 's outcome" where
  "proceed r f =
     (case r of UB u \<Rightarrow> UB u | Ret rv s \<Rightarrow> if rv \<noteq> AMVP_SUCCESS then Ret rv s else f s)"

abbreviation set_array :: "string \<Rightarrow> JSON_Array \<Rightarrow> JSON_Object \<Rightarrow> JSON_Object" where
  "set_array name a \<equiv> json_object_set_value name (Some (JSONArray a))"

abbreviation numbers :: "int list \<Rightarrow> JSON_Array" where
  "numbers l \<equiv> map JSONNumber l"

text \<open>A range; the MAC builders write its minimum first, the others its maximum.\<close>

definition range_object :: "int \<Rightarrow> int \<Rightarrow> int \<Rightarrow> JSON_Value" where
  "range_object lo hi inc =
     JSONObject (json_object_set_number ''increment'' inc (json_object_set_number ''max'' hi (json_object_set_number ''min'' lo [])))"

definition range_object_max :: "int \<Rightarrow> int \<Rightarrow> int \<Rightarrow> JSON_Value" where
  "range_object_max lo hi inc =
     JSONObject (json_object_set_number ''increment'' inc (json_object_set_number ''min'' lo (json_object_set_number ''max'' hi [])))"

definition domain_object :: "AMVP_JSON_DOMAIN_OBJ \<Rightarrow> JSON_Value" where
  "domain_object d = range_object (dom_min d) (dom_max d) (dom_increment d)"

definition domain_object_max :: "AMVP_JSON_DOMAIN_OBJ \<Rightarrow> JSON_Value" where
  "domain_object_max d = range_object_max (dom_min d) (dom_max d) (dom_increment d)"

text \<open>A length of a MAC: its range, when an increment was given, and then its single values.\<close>

definition mac_lengths :: "AMVP_JSON_DOMAIN_OBJ \<Rightarrow> JSON_Array" where
  "mac_lengths d = (if dom_increment d \<noteq> 0 then [domain_object d] else []) @ numbers (dom_values d)"

text \<open>The name and the revision of the algorithm, which start every message.\<close>

definition with_revision :: "AMVP_CAPS_LIST \<Rightarrow> JSON_Object \<Rightarrow> (JSON_Object \<Rightarrow> JSON_Object outcome) \<Rightarrow> JSON_Object outcome" where
  "with_revision cap_entry cap_obj k =
     (let obj1 = json_object_set_string ''algorithm'' (amvp_lookup_cipher_name (cap_cipher cap_entry)) cap_obj in
      case amvp_lookup_cipher_revision (cap_cipher cap_entry) of
        None \<Rightarrow> Ret AMVP_INVALID_ARG obj1
      | Some revision \<Rightarrow> k (json_object_set_string ''revision'' (Some revision) obj1))"

section \<open>Prerequisites\<close>

definition amvp_prereqs_tbl :: "(int \<times> string) list" where
  "amvp_prereqs_tbl =
    [(AMVP_PREREQ_AES, ''AES''), (AMVP_PREREQ_CCM, ''CCM''), (AMVP_PREREQ_CMAC, ''CMAC''), (AMVP_PREREQ_DRBG, ''DRBG''),
     (AMVP_PREREQ_DSA, ''DSA''), (AMVP_PREREQ_ECDSA, ''ECDSA''), (AMVP_PREREQ_HMAC, ''HMAC''), (AMVP_PREREQ_KAS, ''KAS''),
     (AMVP_PREREQ_RSA, ''RSA''), (AMVP_PREREQ_RSADP, ''RSADP''), (AMVP_PREREQ_SAFE_PRIMES, ''safePrimes''),
     (AMVP_PREREQ_SHA, ''SHA''), (AMVP_PREREQ_TDES, ''TDES''), (AMVP_PREREQ_KMAC, ''KMAC'')]"

definition prereq_object :: "AMVP_PREREQ_ALG_VAL \<Rightarrow> JSON_Value" where
  "prereq_object pre_req =
     JSONObject
       (case map_of amvp_prereqs_tbl (prereq_alg pre_req) of
          None \<Rightarrow> []
        | Some alg_str \<Rightarrow>
            json_object_set_string ''valValue'' (Some (prereq_val pre_req))
              (json_object_set_string ''algorithm'' (Some alg_str) []))"

definition amvp_lookup_prereqVals :: "AMVP_CAPS_LIST \<Rightarrow> JSON_Object \<Rightarrow> JSON_Object outcome" where
  "amvp_lookup_prereqVals cap_entry cap_obj =
     (if cap_has_prereq cap_entry = 0 then Ret AMVP_SUCCESS cap_obj
      else Ret AMVP_SUCCESS (set_array ''prereqVals'' (map prereq_object (cap_prereq_vals cap_entry)) cap_obj))"

section \<open>Hashes and MACs\<close>

definition amvp_build_hash_register_cap :: "AMVP_CAPS_LIST \<Rightarrow> JSON_Object \<Rightarrow> JSON_Object outcome" where
  "amvp_build_hash_register_cap cap_entry cap_obj =
     (case hash_of (cap_data cap_entry) of
        None \<Rightarrow> UB Bad_Union
      | Some hash_cap \<Rightarrow>
          with_revision cap_entry cap_obj (\<lambda>obj.
            let c = cap_cipher cap_entry;
                obj1 = (if c \<in> set [AMVP_HASH_SHA3_224, AMVP_HASH_SHA3_256, AMVP_HASH_SHA3_384, AMVP_HASH_SHA3_512,
                                   AMVP_HASH_SHAKE_128, AMVP_HASH_SHAKE_256]
                        then json_object_set_boolean ''inEmpty'' (hash_in_empty hash_cap)
                               (json_object_set_boolean ''inBit'' (hash_in_bit hash_cap) obj)
                        else obj)
            in Ret AMVP_SUCCESS
                 (if c = AMVP_HASH_SHAKE_128 \<or> c = AMVP_HASH_SHAKE_256
                  then set_array ''outputLen'' [domain_object (hash_out_len hash_cap)]
                         (json_object_set_boolean ''outBit'' (hash_out_bit hash_cap) obj1)
                  else set_array ''messageLength'' [domain_object (hash_msg_length hash_cap)] obj1)))"

definition amvp_build_hmac_register_cap :: "AMVP_CAPS_LIST \<Rightarrow> JSON_Object \<Rightarrow> JSON_Object outcome" where
  "amvp_build_hmac_register_cap cap_entry cap_obj =
     (case hmac_of (cap_data cap_entry) of
        None \<Rightarrow> UB Bad_Union
      | Some hmac_cap \<Rightarrow>
          with_revision cap_entry cap_obj (\<lambda>obj.
            proceed (amvp_lookup_prereqVals cap_entry obj) (\<lambda>obj1.
              Ret AMVP_SUCCESS
                (set_array ''macLen'' (mac_lengths (hmac_mac_len hmac_cap))
                  (set_array ''keyLen'' (mac_lengths (hmac_key_len hmac_cap)) obj1)))))"

text \<open>The object of the capabilities is only attached at the end; an error leaves an empty array.\<close>

definition amvp_build_cmac_register_cap :: "AMVP_CAPS_LIST \<Rightarrow> JSON_Object \<Rightarrow> JSON_Object outcome" where
  "amvp_build_cmac_register_cap cap_entry cap_obj =
     with_revision cap_entry cap_obj (\<lambda>obj.
       proceed (amvp_lookup_prereqVals cap_entry obj) (\<lambda>obj1.
         let c = cap_cipher cap_entry; obj2 = set_array ''capabilities'' [] obj1 in
         case cmac_of (cap_data cap_entry) of
           None \<Rightarrow> UB Bad_Union
         | Some cmac_cap \<Rightarrow>
             if cmac_direction_gen cmac_cap = 0 \<and> cmac_direction_ver cmac_cap = 0 then Ret AMVP_MISSING_ARG obj2
             else
               let direction = (if cmac_direction_gen cmac_cap \<noteq> 0 then [JSONString ''gen''] else []) @
                               (if cmac_direction_ver cmac_cap \<noteq> 0 then [JSONString ''ver''] else []);
                   caps = set_array ''macLen'' (mac_lengths (cmac_mac_len cmac_cap))
                            (set_array ''msgLen'' (mac_lengths (cmac_msg_len cmac_cap)) (set_array ''direction'' direction []));
                   attach = (\<lambda>caps. Ret AMVP_SUCCESS (set_array ''capabilities'' [JSONObject caps] obj2))
               in if c = AMVP_CMAC_AES then attach (set_array ''keyLen'' (numbers (cmac_key_len cmac_cap)) caps)
                  else if c = AMVP_CMAC_TDES then
                    if cmac_keying_option cmac_cap = [] then Ret AMVP_MISSING_ARG obj2
                    else attach (set_array ''keyingOption'' (numbers (cmac_keying_option cmac_cap)) caps)
                  else attach caps))"

abbreviation (input) AMVP_XOF_SUPPORT_FALSE :: int where "AMVP_XOF_SUPPORT_FALSE \<equiv> 0"
abbreviation (input) AMVP_XOF_SUPPORT_TRUE :: int where "AMVP_XOF_SUPPORT_TRUE \<equiv> 1"
abbreviation (input) AMVP_XOF_SUPPORT_BOTH :: int where "AMVP_XOF_SUPPORT_BOTH \<equiv> 2"

definition amvp_build_kmac_register_cap :: "AMVP_CAPS_LIST \<Rightarrow> JSON_Object \<Rightarrow> JSON_Object outcome" where
  "amvp_build_kmac_register_cap cap_entry cap_obj =
     with_revision cap_entry cap_obj (\<lambda>obj.
       proceed (amvp_lookup_prereqVals cap_entry obj) (\<lambda>obj1.
         case kmac_of (cap_data cap_entry) of
           None \<Rightarrow> UB Bad_Union
         | Some kmac_cap \<Rightarrow>
             let finish = (\<lambda>xof. Ret AMVP_SUCCESS
                   (set_array ''keyLen'' (mac_lengths (kmac_key_len kmac_cap))
                     (set_array ''macLen'' (mac_lengths (kmac_mac_len kmac_cap))
                       (set_array ''msgLen'' (mac_lengths (kmac_msg_len kmac_cap))
                         (json_object_set_boolean ''hexCustomization'' (kmac_hex_customization kmac_cap)
                           (set_array ''xof'' (map JSONBoolean xof) obj1))))))
             in if kmac_xof kmac_cap = AMVP_XOF_SUPPORT_FALSE then finish [False]
                else if kmac_xof kmac_cap = AMVP_XOF_SUPPORT_TRUE then finish [True]
                else if kmac_xof kmac_cap = AMVP_XOF_SUPPORT_BOTH then finish [True, False]
                else Ret AMVP_INVALID_ARG (set_array ''xof'' [] obj1)))"

section \<open>Symmetric ciphers\<close>


text \<open>The message is built in the order of the code: conformance and direction first.\<close>

definition sym_reg_direction :: "AMVP_SYM_CIPHER_CAP \<Rightarrow> JSON_Object \<Rightarrow> JSON_Object outcome" where
  "sym_reg_direction sym_cap obj =
     (let obj1 = (if sym_conformance sym_cap = AMVP_CONFORMANCE_RFC3686
                  then set_array ''conformances'' [JSONString ''RFC3686''] obj else obj);
          d = sym_direction sym_cap
      in if d = 0 then Ret AMVP_MISSING_ARG obj1
         else Ret AMVP_SUCCESS
           (set_array ''direction''
             ((if d = AMVP_SYM_CIPH_DIR_ENCRYPT \<or> d = AMVP_SYM_CIPH_DIR_BOTH then [JSONString ''encrypt''] else []) @
              (if d = AMVP_SYM_CIPH_DIR_DECRYPT \<or> d = AMVP_SYM_CIPH_DIR_BOTH then [JSONString ''decrypt''] else [])) obj1))"

definition sym_reg_keywrap_counter :: "AMVP_CIPHER \<Rightarrow> AMVP_SYM_CIPHER_CAP \<Rightarrow> JSON_Object \<Rightarrow> JSON_Object" where
  "sym_reg_keywrap_counter cipher sym_cap obj =
     (let obj1 =
            (if cipher \<in> set [AMVP_AES_KW, AMVP_AES_KWP, AMVP_TDES_KW]
             then set_array ''kwCipher''
               ((if sym_kw_mode sym_cap AND AMVP_SYM_KW_CIPHER \<noteq> 0 then [JSONString ''cipher''] else []) @
                (if sym_kw_mode sym_cap AND AMVP_SYM_KW_INVERSE \<noteq> 0 then [JSONString ''inverse''] else [])) obj
             else obj)
      in if cipher = AMVP_AES_CTR \<or> cipher = AMVP_TDES_CTR
         then json_object_set_boolean ''performCounterTests'' (sym_perform_ctr_tests sym_cap)
                (json_object_set_boolean ''overflowCounter'' (sym_ctr_ovrflw sym_cap)
                  (json_object_set_boolean ''incrementalCounter'' (sym_ctr_incr sym_cap) obj1))
         else obj1)"

text \<open>
  Where the initialisation vector comes from. For AES-CTR with the conformance of RFC 3686 the
  label is the one that the generation mode uses below.
\<close>

definition rfc3686_counter :: "AMVP_CIPHER \<Rightarrow> AMVP_SYM_CIPHER_CAP \<Rightarrow> bool" where
  "rfc3686_counter cipher sym_cap \<longleftrightarrow> cipher = AMVP_AES_CTR \<and> sym_conformance sym_cap = AMVP_CONFORMANCE_RFC3686"

definition sym_reg_ivgen :: "AMVP_CIPHER \<Rightarrow> AMVP_SYM_CIPHER_CAP \<Rightarrow> JSON_Object \<Rightarrow> JSON_Object outcome" where
  "sym_reg_ivgen cipher sym_cap obj =
     (let ivGenLabel = (if rfc3686_counter cipher sym_cap then ''ivGenMode'' else ''ivGen'') in
      if sym_ivgen_source sym_cap = AMVP_SYM_CIPH_IVGEN_SRC_INT
      then Ret AMVP_SUCCESS (json_object_set_string ivGenLabel (Some ''internal'') obj)
      else if sym_ivgen_source sym_cap = AMVP_SYM_CIPH_IVGEN_SRC_EXT
      then Ret AMVP_SUCCESS (json_object_set_string ivGenLabel (Some ''external'') obj)
      else if cipher \<in> set [AMVP_AES_GCM, AMVP_AES_GMAC, AMVP_AES_XPN] \<or> rfc3686_counter cipher sym_cap
      then Ret AMVP_MISSING_ARG obj
      else Ret AMVP_SUCCESS obj)"

definition sym_reg_salt_ivmode :: "AMVP_SYM_CIPHER_CAP \<Rightarrow> JSON_Object \<Rightarrow> JSON_Object outcome" where
  "sym_reg_salt_ivmode sym_cap obj =
     (let obj1 = (if sym_salt_source sym_cap = AMVP_SYM_CIPH_SALT_SRC_INT then json_object_set_string ''saltGen'' (Some ''internal'') obj
                  else if sym_salt_source sym_cap = AMVP_SYM_CIPH_SALT_SRC_EXT then json_object_set_string ''saltGen'' (Some ''external'') obj
                  else obj)
      in if sym_ivgen_source sym_cap = AMVP_SYM_CIPH_IVGEN_SRC_INT then
           (if sym_ivgen_mode sym_cap = AMVP_SYM_CIPH_IVGEN_MODE_821
            then Ret AMVP_SUCCESS (json_object_set_string ''ivGenMode'' (Some ''8.2.1'') obj1)
            else if sym_ivgen_mode sym_cap = AMVP_SYM_CIPH_IVGEN_MODE_822
            then Ret AMVP_SUCCESS (json_object_set_string ''ivGenMode'' (Some ''8.2.2'') obj1)
            else Ret AMVP_MISSING_ARG obj1)
         else Ret AMVP_SUCCESS obj1)"

definition sym_reg_keys :: "AMVP_CIPHER \<Rightarrow> AMVP_SYM_CIPHER_CAP \<Rightarrow> JSON_Object \<Rightarrow> JSON_Object outcome" where
  "sym_reg_keys cipher sym_cap obj =
     (let ko = sym_keying_option sym_cap;
          obj1 = (if ko \<noteq> AMVP_SYM_CIPH_KO_NA
                  then set_array ''keyingOption''
                    ((if ko = AMVP_SYM_CIPH_KO_THREE \<or> ko = AMVP_SYM_CIPH_KO_ONE \<or> ko = AMVP_SYM_CIPH_KO_BOTH
                      then [JSONNumber 1] else []) @
                     (if ko = AMVP_SYM_CIPH_KO_TWO \<or> ko = AMVP_SYM_CIPH_KO_BOTH then [JSONNumber 2] else [])) obj
                  else obj)
      in if sym_keylen sym_cap \<noteq> [] then Ret AMVP_SUCCESS (set_array ''keyLen'' (numbers (sym_keylen sym_cap)) obj1)
         else if amvp_get_aes_alg cipher \<in> set [AMVP_SUB_AES_ECB, AMVP_SUB_AES_CBC, AMVP_SUB_AES_OFB, AMVP_SUB_AES_CFB128,
           AMVP_SUB_AES_CFB8, AMVP_SUB_AES_CFB1, AMVP_SUB_AES_CBC_CS1, AMVP_SUB_AES_CBC_CS2, AMVP_SUB_AES_CBC_CS3,
           AMVP_SUB_AES_CCM, AMVP_SUB_AES_GCM, AMVP_SUB_AES_GCM_SIV, AMVP_SUB_AES_CTR, AMVP_SUB_AES_XTS, AMVP_SUB_AES_XPN,
           AMVP_SUB_AES_KW, AMVP_SUB_AES_KWP, AMVP_SUB_AES_GMAC]
         then Ret AMVP_MISSING_ARG obj1
         else Ret AMVP_SUCCESS obj1)"

text \<open>A length given as a list of values, or else as a range.\<close>

definition list_or_domain :: "int list \<Rightarrow> AMVP_JSON_DOMAIN_OBJ \<Rightarrow> JSON_Array" where
  "list_or_domain l d = (if l \<noteq> [] then numbers l else [domain_object_max d])"

text \<open>The switch lists every cipher but four; numbers outside the enumeration take its default.\<close>

definition sym_reg_tag_iv :: "AMVP_CIPHER \<Rightarrow> AMVP_SYM_CIPHER_CAP \<Rightarrow> JSON_Object \<Rightarrow> JSON_Object" where
  "sym_reg_tag_iv cipher sym_cap obj =
     (let obj1 = (if cipher \<in> set [AMVP_AES_GCM, AMVP_AES_CCM, AMVP_AES_GMAC, AMVP_AES_XPN]
                  then set_array ''tagLen'' (numbers (sym_taglen sym_cap)) obj else obj)
      in if cipher \<in> set [AMVP_AES_GCM, AMVP_AES_GCM_SIV, AMVP_AES_CCM, AMVP_AES_GMAC] \<or> cipher > AMVP_CIPHER_END
         then set_array ''ivLen'' (list_or_domain (sym_ivlen sym_cap) (sym_iv_len sym_cap)) obj1
         else obj1)"

definition sym_reg_payload :: "AMVP_CIPHER \<Rightarrow> AMVP_SYM_CIPHER_CAP \<Rightarrow> JSON_Object \<Rightarrow> JSON_Object outcome" where
  "sym_reg_payload cipher sym_cap obj =
     (let d = sym_payload_len sym_cap in
      if sym_ptlen sym_cap \<noteq> [] \<or> dom_min d \<noteq> 0 \<or> dom_max d \<noteq> 0 \<or> dom_increment d \<noteq> 0
      then Ret AMVP_SUCCESS (set_array ''payloadLen'' (list_or_domain (sym_ptlen sym_cap) d) obj)
      else if amvp_get_aes_alg cipher \<in> set [AMVP_SUB_AES_CBC_CS1, AMVP_SUB_AES_CBC_CS2, AMVP_SUB_AES_CBC_CS3, AMVP_SUB_AES_CCM,
        AMVP_SUB_AES_GCM, AMVP_SUB_AES_GCM_SIV, AMVP_SUB_AES_CTR, AMVP_SUB_AES_XTS, AMVP_SUB_AES_XPN, AMVP_SUB_AES_KW, AMVP_SUB_AES_KWP]
      then Ret AMVP_MISSING_ARG obj
      else Ret AMVP_SUCCESS obj)"

definition tweak_names :: "int list \<Rightarrow> JSON_Array" where
  "tweak_names l =
     concat (map (\<lambda>t. if t = AMVP_SYM_CIPH_TWEAK_HEX then [JSONString ''hex'']
                      else if t = AMVP_SYM_CIPH_TWEAK_NUM then [JSONString ''number''] else []) l)"

definition sym_reg_xts_aad :: "AMVP_CIPHER \<Rightarrow> AMVP_SYM_CIPHER_CAP \<Rightarrow> JSON_Object \<Rightarrow> JSON_Object" where
  "sym_reg_xts_aad cipher sym_cap obj =
     (let obj1 =
            (if cipher = AMVP_AES_XTS then
               let obj2 = json_object_set_boolean ''dataUnitLenMatchesPayload'' (sym_dulen_matches_paylen sym_cap)
                            (set_array ''tweakMode'' (tweak_names (sym_tweak sym_cap)) obj)
               in if sym_dulen_matches_paylen sym_cap = 0
                  then set_array ''dataUnitLen'' [domain_object_max (sym_du_len sym_cap)] obj2 else obj2
             else obj)
      in if cipher \<in> set [AMVP_AES_GCM, AMVP_AES_CCM, AMVP_AES_GMAC, AMVP_AES_GCM_SIV, AMVP_AES_XPN]
         then set_array ''aadLen'' (list_or_domain (sym_aadlen sym_cap) (sym_aad_len sym_cap)) obj1
         else obj1)"

definition amvp_build_sym_cipher_register_cap :: "AMVP_CAPS_LIST \<Rightarrow> JSON_Object \<Rightarrow> JSON_Object outcome" where
  "amvp_build_sym_cipher_register_cap cap_entry cap_obj =
     with_revision cap_entry cap_obj (\<lambda>obj.
       case sym_of (cap_data cap_entry) of
         None \<Rightarrow> UB Bad_Union
       | Some sym_cap \<Rightarrow>
           let c = cap_cipher cap_entry in
           proceed (amvp_lookup_prereqVals cap_entry obj) (\<lambda>obj1.
           proceed (sym_reg_direction sym_cap obj1) (\<lambda>obj2.
           proceed (sym_reg_ivgen c sym_cap (sym_reg_keywrap_counter c sym_cap obj2)) (\<lambda>obj3.
           proceed (sym_reg_salt_ivmode sym_cap obj3) (\<lambda>obj4.
           proceed (sym_reg_keys c sym_cap obj4) (\<lambda>obj5.
           proceed (sym_reg_payload c sym_cap (sym_reg_tag_iv c sym_cap obj5)) (\<lambda>obj6.
             Ret AMVP_SUCCESS (sym_reg_xts_aad c sym_cap obj6))))))))"

section \<open>DRBGs\<close>

definition amvp_lookup_drbg_mode_string :: "int \<Rightarrow> string option" where
  "amvp_lookup_drbg_mode_string mode =
     map_of [(AMVP_DRBG_SHA_1, ''SHA-1''), (AMVP_DRBG_SHA_224, ''SHA2-224''), (AMVP_DRBG_SHA_256, ''SHA2-256''),
       (AMVP_DRBG_SHA_384, ''SHA2-384''), (AMVP_DRBG_SHA_512, ''SHA2-512''), (AMVP_DRBG_SHA_512_224, ''SHA2-512/224''),
       (AMVP_DRBG_SHA_512_256, ''SHA2-512/256''), (AMVP_DRBG_TDES, ''TDES''), (AMVP_DRBG_AES_128, ''AES-128''),
       (AMVP_DRBG_AES_192, ''AES-192''), (AMVP_DRBG_AES_256, ''AES-256'')] mode"

text \<open>A length without a step is one number, the minimum or else the maximum; \<open>none\<close> is written when both are 0.\<close>

definition drbg_length :: "JSON_Array \<Rightarrow> int \<Rightarrow> int \<Rightarrow> int \<Rightarrow> JSON_Array" where
  "drbg_length none lo hi step =
     (if step = 0 then if lo \<noteq> 0 then [JSONNumber lo] else if hi \<noteq> 0 then [JSONNumber hi] else none
      else [range_object_max lo hi step])"

definition drbg_group_object :: "AMVP_CIPHER \<Rightarrow> string \<Rightarrow> AMVP_DRBG_CAP_GROUP \<Rightarrow> JSON_Value" where
  "drbg_group_object cipher mode_str g =
     (let obj = json_object_set_string ''mode'' (Some mode_str) [];
          obj1 = (if cipher = AMVP_CTRDRBG then json_object_set_boolean ''derFuncEnabled'' (der_func_enabled g) obj else obj)
      in JSONObject
           (json_object_set_number ''returnedBitsLen'' (returned_bits_len g)
             (set_array ''additionalInputLen''
                (drbg_length [JSONNumber 0] (additional_in_len_min g) (additional_in_len_max g) (additional_in_len_step g))
               (set_array ''persoStringLen'' (drbg_length [JSONNumber 0] (perso_len_min g) (perso_len_max g) (perso_len_step g))
                 (set_array ''nonceLen'' (drbg_length [JSONNumber 0] (nonce_len_min g) (nonce_len_max g) (nonce_len_step g))
                   (set_array ''entropyInputLen'' (drbg_length [] (entropy_len_min g) (entropy_len_max g) (entropy_len_step g))
                     obj1))))))"

text \<open>The groups of every mode in turn; a mode without a name ends the loop. The answer is what was appended.\<close>

primrec drbg_modes :: "AMVP_CIPHER \<Rightarrow> AMVP_DRBG_MODE_ENTRY list \<Rightarrow> AMVP_RESULT \<times> JSON_Array" where
  "drbg_modes cipher [] = (AMVP_SUCCESS, [])"
| "drbg_modes cipher (m # rest) =
     (case amvp_lookup_drbg_mode_string (drbg_mode m) of
        None \<Rightarrow> (AMVP_INVALID_ARG, [])
      | Some mode_str \<Rightarrow>
          let (rv, more) = drbg_modes cipher rest
          in (rv, map (\<lambda>g. drbg_group_object cipher mode_str (snd g)) (drbg_groups m) @ more))"

definition amvp_build_drbg_register_cap :: "AMVP_CAPS_LIST \<Rightarrow> JSON_Object \<Rightarrow> JSON_Object outcome" where
  "amvp_build_drbg_register_cap cap_entry cap_obj =
     (case drbg_of (cap_data cap_entry) of
        None \<Rightarrow> UB Bad_Union
      | Some cap \<Rightarrow>
          if drbg_cap_mode cap = [] \<or> drbg_groups (hd (drbg_cap_mode cap)) = [] then Ret AMVP_MISSING_ARG cap_obj
          else
            with_revision cap_entry cap_obj (\<lambda>obj.
              proceed (amvp_lookup_prereqVals cap_entry obj) (\<lambda>obj1.
                let obj2 = json_object_set_boolean ''reseedImplemented'' (drbg_reseed_implemented cap)
                      (set_array ''predResistanceEnabled'' [JSONBoolean (drbg_pred_resist_enabled cap \<noteq> 0)] obj1);
                    (rv, groups) = drbg_modes (cap_cipher cap_entry) (drbg_cap_mode cap)
                in Ret rv (set_array ''capabilities'' groups obj2))))"

section \<open>The message\<close>

text \<open>What one entry adds to the array, before the check of the result code; \<open>Inl\<close> leaves the function.\<close>

definition both_iv_ciphers :: "AMVP_CIPHER list" where
  "both_iv_ciphers = [AMVP_AES_GCM, AMVP_AES_XPN, AMVP_AES_GMAC, AMVP_AES_CTR]"

definition other_sym_ciphers :: "AMVP_CIPHER list" where
  "other_sym_ciphers =
     [AMVP_AES_GCM_SIV, AMVP_AES_CCM, AMVP_AES_ECB, AMVP_AES_CFB1, AMVP_AES_CFB8, AMVP_AES_CFB128, AMVP_AES_OFB,
      AMVP_AES_CBC, AMVP_AES_CBC_CS1, AMVP_AES_CBC_CS2, AMVP_AES_CBC_CS3, AMVP_AES_KW, AMVP_AES_KWP, AMVP_AES_XTS,
      AMVP_TDES_ECB, AMVP_TDES_CBC, AMVP_TDES_CTR, AMVP_TDES_OFB, AMVP_TDES_CFB64, AMVP_TDES_CFB8, AMVP_TDES_CFB1,
      AMVP_TDES_CBCI, AMVP_TDES_OFBI, AMVP_TDES_CFBP1, AMVP_TDES_CFBP8, AMVP_TDES_CFBP64, AMVP_TDES_KW]"

text \<open>The source of the initialisation vector is changed in the entry for the time of the two calls.\<close>

definition with_ivgen_source :: "int \<Rightarrow> AMVP_CAPS_LIST \<Rightarrow> AMVP_CAPS_LIST" where
  "with_ivgen_source v cap_entry =
     cap_entry\<lparr>cap_data := (case cap_data cap_entry of Sym_cap x \<Rightarrow> Sym_cap (x\<lparr>sym_ivgen_source := v\<rparr>) | u \<Rightarrow> u)\<rparr>"

definition one_object :: "JSON_Object outcome \<Rightarrow> JSON_Array outcome" where
  "one_object r = (case r of UB u \<Rightarrow> UB u | Ret rv obj \<Rightarrow> if rv \<noteq> AMVP_SUCCESS then Ret rv [] else Ret rv [JSONObject obj])"

definition two_objects :: "JSON_Object outcome \<Rightarrow> JSON_Object outcome \<Rightarrow> JSON_Array outcome" where
  "two_objects r s = proceed (one_object r) (\<lambda>first. map_outcome_state (\<lambda>second. first @ second) (one_object s))"

definition build_iv_caps :: "AMVP_CAPS_LIST \<Rightarrow> JSON_Array outcome" where
  "build_iv_caps cap_entry =
     (case sym_of (cap_data cap_entry) of
        None \<Rightarrow> UB Bad_Union
      | Some sym_cap \<Rightarrow>
          if sym_ivgen_source sym_cap = AMVP_SYM_CIPH_IVGEN_SRC_EITHER
          then two_objects
                 (amvp_build_sym_cipher_register_cap (with_ivgen_source AMVP_SYM_CIPH_IVGEN_SRC_INT cap_entry) [])
                 (amvp_build_sym_cipher_register_cap (with_ivgen_source AMVP_SYM_CIPH_IVGEN_SRC_EXT cap_entry) [])
          else one_object (amvp_build_sym_cipher_register_cap cap_entry []))"

definition build_cap :: "(AMVP_CAPS_LIST \<Rightarrow> JSON_Array outcome) \<Rightarrow> AMVP_CAPS_LIST \<Rightarrow> JSON_Array outcome" where
  "build_cap other cap_entry =
     (let c = cap_cipher cap_entry in
      if c \<in> set both_iv_ciphers then build_iv_caps cap_entry
      else if c \<in> set other_sym_ciphers then one_object (amvp_build_sym_cipher_register_cap cap_entry [])
      else if AMVP_HASH_SHA1 \<le> c \<and> c \<le> AMVP_HASH_SHAKE_256 then one_object (amvp_build_hash_register_cap cap_entry [])
      else if c \<in> set [AMVP_HASHDRBG, AMVP_HMACDRBG, AMVP_CTRDRBG] then one_object (amvp_build_drbg_register_cap cap_entry [])
      else if AMVP_HMAC_SHA1 \<le> c \<and> c \<le> AMVP_HMAC_SHA3_512 then one_object (amvp_build_hmac_register_cap cap_entry [])
      else if c \<in> set [AMVP_CMAC_AES, AMVP_CMAC_TDES] then one_object (amvp_build_cmac_register_cap cap_entry [])
      else if c \<in> set [AMVP_KMAC_128, AMVP_KMAC_256] then one_object (amvp_build_kmac_register_cap cap_entry [])
      else if AMVP_CIPHER_START < c \<and> c < AMVP_CIPHER_END then other cap_entry
      else Ret AMVP_NO_CAP [])"

primrec build_caps :: "(AMVP_CAPS_LIST \<Rightarrow> JSON_Array outcome) \<Rightarrow> AMVP_CAPS_LIST list \<Rightarrow> JSON_Array outcome" where
  "build_caps other [] = Ret AMVP_SUCCESS []"
| "build_caps other (cap_entry # rest) =
     proceed (build_cap other cap_entry) (\<lambda>objs. map_outcome_state (\<lambda>more. objs @ more) (build_caps other rest))"

text \<open>The value is only stored through the result pointer when every entry was built.\<close>

definition amvp_build_registration_json ::
  "(AMVP_CAPS_LIST \<Rightarrow> JSON_Array outcome) \<Rightarrow> 'z AMVP_CTX_scheme option \<Rightarrow> JSON_Value option outcome" where
  "amvp_build_registration_json other octx =
     (case octx of
        None \<Rightarrow> Ret AMVP_NO_CTX None
      | Some ctx \<Rightarrow>
          if caps_list ctx = [] then Ret AMVP_NO_CAP None
          else (case build_caps other (caps_list ctx) of
                  UB u \<Rightarrow> UB u
                | Ret rv objs \<Rightarrow> if rv \<noteq> AMVP_SUCCESS then Ret rv None else Ret rv (Some (JSONArray objs))))"

text \<open>The whole message; a registration that is not there is not added.\<close>

definition amvp_build_full_registration :: "int \<Rightarrow> JSON_Value option \<Rightarrow> JSON_Value" where
  "amvp_build_full_registration is_sample registration =
     JSONArray [JSONObject (json_object_set_value ''algorithms'' registration (json_object_set_boolean ''isSample'' is_sample []))]"

definition amvp_get_vector_set_count :: "'z AMVP_CTX_scheme option \<Rightarrow> int" where
  "amvp_get_vector_set_count octx = (case octx of None \<Rightarrow> -1 | Some ctx \<Rightarrow> vs_count ctx)"

section \<open>Every message names its algorithm\<close>

text \<open>An object that holds the name and the revision of a cipher.\<close>

definition headed :: "AMVP_CIPHER \<Rightarrow> JSON_Object \<Rightarrow> bool" where
  "headed c obj \<longleftrightarrow> json_names obj \<and>
     map_of obj ''algorithm'' = map_option JSONString (amvp_lookup_cipher_name c) \<and>
     map_of obj ''revision'' = map_option JSONString (amvp_lookup_cipher_revision c)"

lemma headed_set:
  assumes "headed c obj" and "json_name name" and "name \<noteq> ''algorithm''" and "name \<noteq> ''revision''"
  shows "headed c (json_object_set_value name v obj)"
proof (cases v)
  case (Some x)
  then show ?thesis
    using assms json_set_get [OF assms(2), of obj x] json_names_set [OF _ assms(2), of obj v] by (simp add: headed_def)
qed (use assms(1) in \<open>simp add: json_object_set_value_def\<close>)

text \<open>What holds of the object of a builder that returned success.\<close>

definition builds :: "('s \<Rightarrow> bool) \<Rightarrow> 's outcome \<Rightarrow> bool" where
  "builds Q r = (case r of UB u \<Rightarrow> True | Ret rv obj \<Rightarrow> rv = AMVP_SUCCESS \<longrightarrow> Q obj)"

named_theorems builds_intros \<open>rules for what a builder leaves\<close>

lemma builds_Ret [builds_intros]: "(rv = AMVP_SUCCESS \<Longrightarrow> Q obj) \<Longrightarrow> builds Q (Ret rv obj)"
  by (simp add: builds_def)

lemma builds_UB [builds_intros]: "builds Q (UB u)"
  by (simp add: builds_def)

lemma builds_proceed [builds_intros]: "builds P r \<Longrightarrow> (\<And>s. P s \<Longrightarrow> builds Q (f s)) \<Longrightarrow> builds Q (proceed r f)"
  by (cases r) (auto simp: builds_def [of P] proceed_def intro: builds_Ret builds_UB)

lemma builds_D: "builds Q (Ret AMVP_SUCCESS obj) \<Longrightarrow> Q obj"
  by (simp add: builds_def)

lemma builds_revision [builds_intros]:
  assumes "\<And>obj. headed (cap_cipher e) obj \<Longrightarrow> builds Q (k obj)"
  shows "builds Q (with_revision e [] k)"
proof (cases "amvp_lookup_cipher_revision (cap_cipher e)")
  case (Some revision)
  let ?obj = "json_object_set_string ''algorithm'' (amvp_lookup_cipher_name (cap_cipher e)) []"
  have n: "json_name ''algorithm''" "json_name ''revision''" by (simp_all add: json_name_def c_string_def)
  have o: "json_names ?obj" unfolding json_object_set_string_def by (rule json_names_set) (simp_all add: n json_names_def)
  have "map_of ?obj ''algorithm'' = map_option JSONString (amvp_lookup_cipher_name (cap_cipher e))"
    using json_set_get [OF n(1), of "[]"]
    by (cases "amvp_lookup_cipher_name (cap_cipher e)") (simp_all add: json_object_set_string_def json_object_set_value_def json_names_def)
  then have "headed (cap_cipher e) (json_object_set_string ''revision'' (Some revision) ?obj)"
    using o n(2) json_names_set [OF o n(2)] by (simp add: headed_def json_object_set_string_def Some json_set_get)
  then show ?thesis using assms Some by (simp add: with_revision_def)
qed (simp add: with_revision_def builds_def)

lemmas set_defs = json_object_set_string_def json_object_set_number_def json_object_set_boolean_def json_name_def c_string_def

lemma prereqVals_headed [builds_intros]: "headed c obj \<Longrightarrow> builds (headed c) (amvp_lookup_prereqVals e obj)"
  by (auto simp: amvp_lookup_prereqVals_def set_defs intro!: builds_intros headed_set)

lemma hash_headed: "builds (headed (cap_cipher e)) (amvp_build_hash_register_cap e [])"
  unfolding amvp_build_hash_register_cap_def
  by (auto simp: set_defs Let_def split: option.splits intro!: builds_intros headed_set)

lemma hmac_headed: "builds (headed (cap_cipher e)) (amvp_build_hmac_register_cap e [])"
  unfolding amvp_build_hmac_register_cap_def
  by (auto simp: set_defs split: option.splits intro!: builds_intros headed_set)

lemma cmac_headed: "builds (headed (cap_cipher e)) (amvp_build_cmac_register_cap e [])"
  unfolding amvp_build_cmac_register_cap_def
  by (auto simp: set_defs Let_def split: option.splits intro!: builds_intros headed_set)

lemma kmac_headed: "builds (headed (cap_cipher e)) (amvp_build_kmac_register_cap e [])"
  unfolding amvp_build_kmac_register_cap_def
  by (auto simp: set_defs Let_def split: option.splits intro!: builds_intros headed_set)

lemma drbg_headed: "builds (headed (cap_cipher e)) (amvp_build_drbg_register_cap e [])"
  unfolding amvp_build_drbg_register_cap_def
  by (auto simp: set_defs Let_def split: option.splits prod.splits intro!: builds_intros headed_set)

lemma sym_parts_headed [builds_intros]:
  assumes "headed c obj"
  shows "builds (headed c) (sym_reg_direction x obj)" "builds (headed c) (sym_reg_ivgen d x obj)"
    "builds (headed c) (sym_reg_salt_ivmode x obj)" "builds (headed c) (sym_reg_keys d x obj)"
    "builds (headed c) (sym_reg_payload d x obj)"
  unfolding sym_reg_direction_def sym_reg_ivgen_def sym_reg_salt_ivmode_def sym_reg_keys_def sym_reg_payload_def Let_def
  using assms by (auto simp: set_defs intro!: builds_intros headed_set)

lemma sym_tails_headed [builds_intros]:
  assumes "headed c obj"
  shows "headed c (sym_reg_keywrap_counter d x obj)" "headed c (sym_reg_tag_iv d x obj)" "headed c (sym_reg_xts_aad d x obj)"
  unfolding sym_reg_keywrap_counter_def sym_reg_tag_iv_def sym_reg_xts_aad_def Let_def
  using assms by (auto simp: set_defs intro!: headed_set)

lemma sym_headed: "builds (headed (cap_cipher e)) (amvp_build_sym_cipher_register_cap e [])"
  unfolding amvp_build_sym_cipher_register_cap_def Let_def
  by (auto split: option.splits intro!: builds_intros)

section \<open>Every builder returns\<close>

definition returns :: "'s outcome \<Rightarrow> bool" where
  "returns r = (case r of UB u \<Rightarrow> False | Ret rv s \<Rightarrow> True)"

lemma returns_Ret [simp]: "returns (Ret rv s)" by (simp add: returns_def)

lemma returns_proceed [simp]: "returns r \<Longrightarrow> (\<And>s. returns (f s)) \<Longrightarrow> returns (proceed r f)"
  by (cases r) (auto simp: returns_def proceed_def)

lemma returns_revision [simp]: "(\<And>obj. returns (k obj)) \<Longrightarrow> returns (with_revision e obj k)"
  by (simp add: with_revision_def Let_def split: option.splits)

lemma returns_map [simp]: "returns (map_outcome_state f r) \<longleftrightarrow> returns r"
  by (cases r) (simp_all add: returns_def)

lemma returns_one_object [simp]: "returns r \<Longrightarrow> returns (one_object r)"
  by (cases r) (auto simp: returns_def one_object_def)

lemma prereqVals_returns [simp]: "returns (amvp_lookup_prereqVals e obj)"
  by (simp add: amvp_lookup_prereqVals_def)

lemma sym_parts_return [simp]:
  "returns (sym_reg_direction x obj)" "returns (sym_reg_ivgen c x obj)" "returns (sym_reg_salt_ivmode x obj)"
  "returns (sym_reg_keys c x obj)" "returns (sym_reg_payload c x obj)"
  by (simp_all add: sym_reg_direction_def sym_reg_ivgen_def sym_reg_salt_ivmode_def sym_reg_keys_def sym_reg_payload_def Let_def)

lemma builders_return:
  "cap_data e = Sym_cap x1 \<Longrightarrow> returns (amvp_build_sym_cipher_register_cap e obj)"
  "cap_data e = Hash_cap x2 \<Longrightarrow> returns (amvp_build_hash_register_cap e obj)"
  "cap_data e = Drbg_cap x3 \<Longrightarrow> returns (amvp_build_drbg_register_cap e obj)"
  "cap_data e = Hmac_cap x4 \<Longrightarrow> returns (amvp_build_hmac_register_cap e obj)"
  "cap_data e = Cmac_cap x5 \<Longrightarrow> returns (amvp_build_cmac_register_cap e obj)"
  "cap_data e = Kmac_cap x6 \<Longrightarrow> returns (amvp_build_kmac_register_cap e obj)"
  by (simp_all add: amvp_build_sym_cipher_register_cap_def amvp_build_hash_register_cap_def amvp_build_drbg_register_cap_def
      amvp_build_hmac_register_cap_def amvp_build_cmac_register_cap_def amvp_build_kmac_register_cap_def Let_def split: prod.splits)

text \<open>The ciphers of the modelled families, by the arm of the switch that takes them.\<close>

lemma sym_arms: "is_sym_cipher c \<longleftrightarrow> c \<in> set both_iv_ciphers \<or> c \<in> set other_sym_ciphers"
proof -
  have "list_all (\<lambda>c. c \<in> set (both_iv_ciphers @ other_sym_ciphers)) (sym_aes_ciphers @ sym_tdes_ciphers)"
    "list_all (\<lambda>c. c \<in> set (sym_aes_ciphers @ sym_tdes_ciphers)) (both_iv_ciphers @ other_sym_ciphers)"
    unfolding sym_aes_ciphers_def sym_tdes_ciphers_def both_iv_ciphers_def other_sym_ciphers_def by simp_all
  then show ?thesis unfolding is_sym_cipher_def list_all_iff by auto
qed

lemma build_cap_sym:
  assumes "is_sym_cipher (cap_cipher e)"
  shows "build_cap other e =
    (if cap_cipher e \<in> set both_iv_ciphers then build_iv_caps e else one_object (amvp_build_sym_cipher_register_cap e []))"
  using assms unfolding sym_arms by (elim disjE) (simp_all add: build_cap_def)

lemma build_cap_other_families:
  assumes "\<not> is_sym_cipher (cap_cipher e)" and "family_type (cap_cipher e) = Some t"
  shows "t = AMVP_HASH_TYPE \<Longrightarrow> build_cap other e = one_object (amvp_build_hash_register_cap e [])"
    "t = AMVP_DRBG_TYPE \<Longrightarrow> build_cap other e = one_object (amvp_build_drbg_register_cap e [])"
    "t = AMVP_HMAC_TYPE \<Longrightarrow> build_cap other e = one_object (amvp_build_hmac_register_cap e [])"
    "t = AMVP_CMAC_TYPE \<Longrightarrow> build_cap other e = one_object (amvp_build_cmac_register_cap e [])"
    "t = AMVP_KMAC_TYPE \<Longrightarrow> build_cap other e = one_object (amvp_build_kmac_register_cap e [])"
    "t \<noteq> AMVP_SYM_TYPE"
proof -
  have n: "cap_cipher e \<notin> set both_iv_ciphers" "cap_cipher e \<notin> set other_sym_ciphers" using assms(1) by (simp_all add: sym_arms)
  show "t = AMVP_HASH_TYPE \<Longrightarrow> build_cap other e = one_object (amvp_build_hash_register_cap e [])"
    "t = AMVP_DRBG_TYPE \<Longrightarrow> build_cap other e = one_object (amvp_build_drbg_register_cap e [])"
    "t = AMVP_HMAC_TYPE \<Longrightarrow> build_cap other e = one_object (amvp_build_hmac_register_cap e [])"
    "t = AMVP_CMAC_TYPE \<Longrightarrow> build_cap other e = one_object (amvp_build_cmac_register_cap e [])"
    "t = AMVP_KMAC_TYPE \<Longrightarrow> build_cap other e = one_object (amvp_build_kmac_register_cap e [])"
    "t \<noteq> AMVP_SYM_TYPE"
    using assms n by (auto simp: build_cap_def Let_def family_type_def split: if_splits)
qed

lemma build_cap_returns:
  assumes "data_ok True (cap_cipher e) (cap_data e)"
  shows "returns (build_cap other e)"
proof (cases "is_sym_cipher (cap_cipher e)")
  case True
  then obtain x where x: "cap_data e = Sym_cap x"
    using assms by (auto simp: data_ok_def family_type_def split: cap_union.splits)
  have "returns (amvp_build_sym_cipher_register_cap (with_ivgen_source v e) [])" for v
    by (rule builders_return(1)) (simp add: with_ivgen_source_def x)
  with x builders_return(1) [OF x] show ?thesis
    by (simp add: build_cap_sym [OF True] build_iv_caps_def two_objects_def)
next
  case False
  with assms obtain t where t: "family_type (cap_cipher e) = Some t" by (auto simp: data_ok_def split: cap_union.splits)
  note arms = build_cap_other_families [OF False t]
  show ?thesis
    using assms t arms builders_return [of e] by (auto simp: data_ok_def split: cap_union.splits)
qed

lemma build_caps_returns: "list_all (\<lambda>e. returns (build_cap other e)) l \<Longrightarrow> returns (build_caps other l)"
  by (induction l) simp_all

section \<open>The message as a whole\<close>

text \<open>How many objects an entry adds.\<close>

definition copies :: "AMVP_CAPS_LIST \<Rightarrow> nat" where
  "copies e =
     (case cap_data e of
        Sym_cap x \<Rightarrow>
          if sym_ivgen_source x = AMVP_SYM_CIPH_IVGEN_SRC_EITHER \<and> cap_cipher e \<in> set both_iv_ciphers then 2 else 1
      | _ \<Rightarrow> 1)"

definition is_object_of :: "AMVP_CIPHER \<Rightarrow> JSON_Value \<Rightarrow> bool" where
  "is_object_of c v \<longleftrightarrow> (case v of JSONObject obj \<Rightarrow> headed c obj | _ \<Rightarrow> False)"

lemma one_object_builds:
  "builds (headed c) r \<Longrightarrow> builds (\<lambda>objs. length objs = 1 \<and> list_all (is_object_of c) objs) (one_object r)"
  by (cases r) (auto simp: builds_def one_object_def is_object_of_def)

lemma builds_map: "builds (\<lambda>x. Q (f x)) r \<Longrightarrow> builds Q (map_outcome_state f r)"
  by (cases r) (auto simp: builds_def)

lemma builds_mono: "builds P r \<Longrightarrow> (\<And>x. P x \<Longrightarrow> Q x) \<Longrightarrow> builds Q r"
  by (cases r) (auto simp: builds_def)

lemma two_objects_build:
  assumes "builds (headed c) r" and "builds (headed c) s"
  shows "builds (\<lambda>objs. length objs = 2 \<and> list_all (is_object_of c) objs) (two_objects r s)"
  unfolding two_objects_def
  by (rule builds_proceed [OF one_object_builds [OF assms(1)]], rule builds_map,
      rule builds_mono [OF one_object_builds [OF assms(2)]]) auto

lemma build_cap_headed:
  assumes "family_type (cap_cipher e) = Some t"
  shows "builds (\<lambda>objs. length objs = copies e \<and> list_all (is_object_of (cap_cipher e)) objs) (build_cap other e)"
proof (cases "is_sym_cipher (cap_cipher e)")
  case True
  have w: "builds (headed (cap_cipher e)) (amvp_build_sym_cipher_register_cap (with_ivgen_source v e) [])" for v
    using sym_headed [of "with_ivgen_source v e"] by (simp add: with_ivgen_source_def)
  show ?thesis
    using one_object_builds [OF sym_headed] two_objects_build [OF w w]
    by (auto simp: build_cap_sym [OF True] build_iv_caps_def copies_def sym.sel_iff builds_UB split: option.splits cap_union.splits)
next
  case False
  then have "copies e = 1" by (auto simp: copies_def sym_arms split: cap_union.splits)
  then show ?thesis
    using build_cap_other_families [OF False assms] one_object_builds [OF hash_headed] one_object_builds [OF drbg_headed]
      one_object_builds [OF hmac_headed] one_object_builds [OF cmac_headed] one_object_builds [OF kmac_headed] assms False
    by (auto simp: family_type_def split: if_splits)
qed

lemma build_caps_headed:
  assumes "list_all (\<lambda>e. family_type (cap_cipher e) \<noteq> None) l"
  shows "builds (list_all2 is_object_of (concat (map (\<lambda>e. replicate (copies e) (cap_cipher e)) l))) (build_caps other l)"
  using assms
proof (induction l)
  case (Cons e l)
  then obtain t where t: "family_type (cap_cipher e) = Some t" by auto
  have head: "list_all2 is_object_of (replicate (copies e) (cap_cipher e)) objs"
    if "length objs = copies e \<and> list_all (is_object_of (cap_cipher e)) objs" for objs
    using that by (simp add: list_all2_conv_all_nth list_all_length)
  show ?case
    unfolding build_caps.simps list.map concat.simps
    by (rule builds_proceed [OF build_cap_headed [OF t]], rule builds_map, rule builds_mono [OF Cons.IH])
      (use Cons.prems head in \<open>auto intro: list_all2_appendI\<close>)
qed (simp add: builds_def)

text \<open>The name in a message leads back to the cipher.\<close>

definition algorithm_of :: "JSON_Value \<Rightarrow> AMVP_CIPHER" where
  "algorithm_of v = amvp_lookup_cipher_index (json_object_get_string (json_value_get_object (Some v)) ''algorithm'')"

lemma family_range: "family_type c = Some t \<Longrightarrow> 1 \<le> c \<and> c \<le> 62"
  using sym_cipher_range [of c] by (auto simp: family_type_def split: if_splits)

lemma family_modes: "list_all (\<lambda>r. alg_mode r = None) (take 62 alg_tbl)"
  by code_simp

lemma algorithm_of_object:
  assumes "family_type c = Some t" and "is_object_of c v"
  shows "algorithm_of v = c"
proof -
  let ?r = "alg_tbl ! (c - 1)"
  have c: "1 \<le> c" "c \<le> 62" using family_range [OF assms(1)] by simp_all
  have "alg_mode ?r = None"
    using family_modes c by (simp add: list_all_length alg_tbl_length AMVP_ALG_MAX_def)
  with index_row [OF alg_row_in, of c] c have i: "amvp_lookup_cipher_index (Some (alg_name ?r)) = c"
    using alg_tbl_nth_cipher [of c] by simp
  obtain obj where obj: "v = JSONObject obj" "headed c obj"
    using assms(2) by (auto simp: is_object_of_def split: JSON_Value.splits)
  have "json_name ''algorithm''" by (simp add: json_name_def c_string_def)
  then have "json_object_get_string (Some obj) ''algorithm'' = amvp_lookup_cipher_name c"
    using obj(2) by (simp add: json_object_get_string_def json_object_get_value_eq headed_def json_value_get_string_def split: option.splits)
  with i show ?thesis
    using c alg_tbl_find [of c] by (simp add: algorithm_of_def obj(1) json_value_get_object_def amvp_lookup_cipher_name_def)
qed

lemma registration_objects:
  assumes "amvp_build_registration_json other (Some ctx) = Ret AMVP_SUCCESS v"
    and "list_all (\<lambda>e. family_type (cap_cipher e) \<noteq> None) (caps_list ctx)"
  obtains objs where "v = Some (JSONArray objs)"
    and "map algorithm_of objs = concat (map (\<lambda>e. replicate (copies e) (cap_cipher e)) (caps_list ctx))"
proof -
  obtain objs where o: "v = Some (JSONArray objs)" "build_caps other (caps_list ctx) = Ret AMVP_SUCCESS objs"
    using assms(1) by (auto simp: amvp_build_registration_json_def split: if_splits outcome.splits)
  let ?cs = "concat (map (\<lambda>e. replicate (copies e) (cap_cipher e)) (caps_list ctx))"
  have fam: "\<exists>t. family_type c = Some t" if "c \<in> set ?cs" for c using that assms(2) by (auto simp: list_all_iff)
  have "list_all2 is_object_of ?cs objs"
    using build_caps_headed [OF assms(2), of other] by (simp add: o(2) builds_def)
  then have "list_all2 (\<lambda>c x. algorithm_of x = c) ?cs objs"
    by (rule list.rel_mono_strong) (use fam algorithm_of_object in blast)
  then have "map algorithm_of objs = ?cs" by (auto simp: list_all2_conv_all_nth intro: nth_equalityI)
  with o(1) that show thesis by blast
qed

section \<open>How many vector sets are expected\<close>

definition sets_registered :: "'z AMVP_CTX_scheme \<Rightarrow> nat" where
  "sets_registered s = sum_list (map copies (caps_list s))"

lemma copies_cong: "cap_cipher e' = cap_cipher e \<Longrightarrow> cap_data e' = cap_data e \<Longrightarrow> copies e' = copies e"
  by (simp add: copies_def split: cap_union.splits)

lemma copies_bounds: "1 \<le> copies e" "copies e \<le> 2"
  by (auto simp: copies_def split: cap_union.splits)

lemma sets_update:
  assumes "find p l = Some e"
  shows "sum_list (map copies (update_first p f l)) + copies e = sum_list (map copies l) + copies (f e)"
  using assms by (induction l) (auto split: if_splits)

lemma sets_set_entry:
  assumes "amvp_locate_cap_entry (Some s) c = Some e"
  shows "sets_registered (set_entry c (\<lambda>_. e') s) + copies e = sets_registered s + copies e'"
  using sets_update [of "\<lambda>cap. cap_cipher cap = c" "caps_list s" e "\<lambda>_. e'"] assms
  by (simp add: sets_registered_def set_entry_def)

text \<open>The entries of the other families add one object whatever their settings.\<close>

lemma family_step_sets:
  assumes "family_step wrap ok c s s'" and "\<And>x y. wrap x \<noteq> Sym_cap y"
    and "int (sets_registered s) \<le> vs_count s"
  shows "int (sets_registered s') \<le> vs_count s'"
proof (cases "s' = s")
  case False
  then obtain e x x' n where e: "amvp_locate_cap_entry (Some s) c = Some e" "cap_data e = wrap x"
    and s': "s' = put_cap c (wrap x') (s\<lparr>vs_count := vs_count s + int n\<rparr>)"
    using assms(1) by (auto simp: family_step_def)
  let ?t = "s\<lparr>vs_count := vs_count s + int n\<rparr>"
  have t: "amvp_locate_cap_entry (Some ?t) c = Some e" using e(1) by simp
  have "copies (e\<lparr>cap_data := wrap x'\<rparr>) = 1" "copies e = 1"
    using assms(2) e(2) by (auto simp: copies_def split: cap_union.splits)
  with sets_set_entry [OF t, of "e\<lparr>cap_data := wrap x'\<rparr>"] assms(3) show ?thesis
    by (simp add: s' put_cap_eq_set_entry [OF t] sets_registered_def set_entry_def)
qed (use assms(3) in simp)

text \<open>A symmetric cipher asks for a second vector set only where the count goes up.\<close>

definition source_step :: "AMVP_CIPHER \<Rightarrow> AMVP_CTX \<Rightarrow> AMVP_CTX \<Rightarrow> bool" where
  "source_step c s s' \<longleftrightarrow> s' = s \<or>
     (\<exists>e x x' n. amvp_locate_cap_entry (Some s) c = Some e \<and> cap_data e = Sym_cap x \<and>
        s' = put_cap c (Sym_cap x') (s\<lparr>vs_count := vs_count s + int n\<rparr>) \<and>
        (sym_ivgen_source x' = AMVP_SYM_CIPH_IVGEN_SRC_EITHER \<longrightarrow>
           sym_ivgen_source x = AMVP_SYM_CIPH_IVGEN_SRC_EITHER \<or> 1 \<le> n))"

lemma source_step_refl [simp]: "source_step c s s" by (simp add: source_step_def)

lemma source_stepI:
  "amvp_locate_cap_entry (Some s) c = Some e \<Longrightarrow> cap_data e = Sym_cap x \<Longrightarrow>
   (sym_ivgen_source x' = AMVP_SYM_CIPH_IVGEN_SRC_EITHER \<Longrightarrow> sym_ivgen_source x = AMVP_SYM_CIPH_IVGEN_SRC_EITHER) \<Longrightarrow>
   source_step c s (put_cap c (Sym_cap x') s)"
  "amvp_locate_cap_entry (Some s) c = Some e \<Longrightarrow> cap_data e = Sym_cap x \<Longrightarrow>
   source_step c s (put_cap c (Sym_cap x') (s\<lparr>vs_count := vs_count s + 1\<rparr>))"
  unfolding source_step_def
  by (intro disjI2 exI [of _ e] exI [of _ x] exI [of _ x'] exI [of _ 0], simp)
    (intro disjI2 exI [of _ e] exI [of _ x] exI [of _ x'] exI [of _ 1], simp)

lemma sym_flag_source:
  "sym_set_flag c p v e s = Some (Ret rv s') \<Longrightarrow> amvp_locate_cap_entry (Some s) c = Some e \<Longrightarrow> source_step c s s'"
  by (cases p)
    (auto simp: sym_set_flag_def Let_def sym.store_Ret simp del: locate_Some
      split: if_splits option.splits intro: source_stepI)

lemma sym_len_source:
  "sym_set_len ok c p v e s = Ret rv s' \<Longrightarrow> amvp_locate_cap_entry (Some s) c = Some e \<Longrightarrow> source_step c s s'"
  by (cases p)
    (auto simp: sym_set_len_def Let_def sym.store_Ret simp del: locate_Some
      split: if_splits option.splits intro: source_stepI)

lemma sym_domain_source:
  "sym_domain_arm b c q lo hi inc f e s = Ret rv s' \<Longrightarrow> amvp_locate_cap_entry (Some s) c = Some e \<Longrightarrow>
   (\<And>x. sym_ivgen_source (f x) = sym_ivgen_source x) \<Longrightarrow> source_step c s s'"
  by (auto simp: sym_domain_arm_def sym.store_Ret simp del: locate_Some
      split: if_splits intro: source_stepI)

lemma sym_set_source:
  "amvp_cap_sym_cipher_set_parm ok (Some s) c p v = Ret rv (Some s') \<Longrightarrow> source_step c s s'"
  "amvp_cap_sym_cipher_set_domain (Some s) c q lo hi inc = Ret rv (Some s') \<Longrightarrow> source_step c s s'"
  unfolding amvp_cap_sym_cipher_set_parm_def amvp_cap_sym_cipher_set_domain_def with_ctx_Some map_outcome_state_Ret_iff option.inject
  by (auto simp del: locate_Some split: if_splits option.splits AMVP_SYM_CIPH_DOMAIN_PARM.splits
      intro: sym_flag_source sym_len_source sym_domain_source)

lemma source_step_sets:
  assumes "source_step c s s'" and "int (sets_registered s) \<le> vs_count s"
  shows "int (sets_registered s') \<le> vs_count s'"
proof (cases "s' = s")
  case False
  then obtain e x x' n where e: "amvp_locate_cap_entry (Some s) c = Some e" "cap_data e = Sym_cap x"
    and s': "s' = put_cap c (Sym_cap x') (s\<lparr>vs_count := vs_count s + int n\<rparr>)"
    and n: "sym_ivgen_source x' = AMVP_SYM_CIPH_IVGEN_SRC_EITHER \<longrightarrow> sym_ivgen_source x = AMVP_SYM_CIPH_IVGEN_SRC_EITHER \<or> 1 \<le> n"
    using assms(1) by (auto simp: source_step_def)
  let ?t = "s\<lparr>vs_count := vs_count s + int n\<rparr>"
  have t: "amvp_locate_cap_entry (Some ?t) c = Some e" using e(1) by simp
  have "copies (e\<lparr>cap_data := Sym_cap x'\<rparr>) \<le> copies e + n" using n by (auto simp: copies_def e(2))
  with sets_set_entry [OF t, of "e\<lparr>cap_data := Sym_cap x'\<rparr>"] assms(2) show ?thesis
    by (simp add: s' put_cap_eq_set_entry [OF t] sets_registered_def set_entry_def)
qed (use assms(2) in simp)

lemma append_sets:
  assumes "amvp_cap_list_append ok t c h s = Ret rv s'" and "int (sets_registered s) \<le> vs_count s"
  shows "int (sets_registered s') \<le> vs_count s'"
  using append_cases [OF assms(1)]
proof (elim disjE conjE exE)
  fix u assume u: "new_cap ok t c = Inr u" and s': "s' = add_entry (new_entry t c h u) s"
  have "copies (new_entry t c h u) = 1"
    using u by (cases t)
      (auto simp: copies_def new_entry_def new_cap_def new_cap_basic_def new_cap_agreement_def new_cap_kdf_def new_cap_rsa_sym_def
        alloc_cap_def alloc_cap_modes_def only_for_def zero_sym_cap_def split: if_splits)
  then show ?thesis using assms(2) by (simp add: s' add_entry_def sets_registered_def)
qed (use assms(2) in simp)

lemma prereq_sets:
  assumes r: "amvp_cap_set_prereq ok (Some s) c a v = Ret rv (Some s')" and "int (sets_registered s) \<le> vs_count s"
  shows "int (sets_registered s') \<le> vs_count s'"
proof (cases "s' = s")
  case False
  then obtain e e' where e: "amvp_locate_cap_entry (Some s) c = Some e"
    and e': "amvp_add_prereq_val ok c (e\<lparr>cap_has_prereq := 1\<rparr>) a (the v) = (rv, e')" and s': "s' = set_entry c (\<lambda>_. e') s"
    using r by (auto simp: amvp_cap_set_prereq_def simp del: locate_Some split: if_splits option.splits prod.splits)
  have "copies e' = copies e"
    using e' by (intro copies_cong) (auto simp: amvp_add_prereq_val_def Let_def split: if_splits)
  with sets_set_entry [OF e, of e'] assms(2) show ?thesis by (simp add: s' set_entry_def sets_registered_def)
qed (use assms(2) in simp)

lemma exec_sets:
  assumes "exec ok call (Some s) = Ret rv (Some s')" and "int_args call" and "int (sets_registered s) \<le> vs_count s"
  shows "int (sets_registered s') \<le> vs_count s'"
proof -
  note step = family_step_sets [OF _ _ assms(3)]
  from assms show ?thesis
    by (cases call)
      (auto simp: int_args_def enable_as_if split: if_splits intro: append_sets prereq_sets source_step_sets [OF _ assms(3)]
        dest: sym_set_source dest!: hash_set_parm_step hash_set_domain_step hmac_set_parm_step
        hmac_set_domain_step cmac_set_parm_step cmac_set_domain_step kmac_set_parm_step kmac_set_domain_step
        drbg_set_parm_step drbg_set_length_step elim!: step)
qed

lemma reach_sets: "reach P s \<Longrightarrow> int (sets_registered s) \<le> vs_count s"
proof (induction rule: reach.induct)
  case reach_init
  show ?case by (simp add: sets_registered_def init_ctx_def)
next
  case (reach_call s call ok rv s')
  show ?case by (rule exec_sets [OF reach_call.hyps(4,3) reach_call.IH])
qed

section \<open>One entry and its part of the message\<close>

lemma build_caps_member:
  assumes "build_caps other l = Ret AMVP_SUCCESS objs" and "e \<in> set l"
  obtains os where "build_cap other e = Ret AMVP_SUCCESS os" and "set os \<subseteq> set objs"
  using assms
proof (induction l arbitrary: objs thesis)
  case (Cons a l)
  then obtain os more where o: "build_cap other a = Ret AMVP_SUCCESS os" "build_caps other l = Ret AMVP_SUCCESS more" "objs = os @ more"
    by (auto simp: proceed_def split: outcome.splits if_splits)
  show ?case
  proof (cases "e = a")
    case False
    then show ?thesis using Cons.IH [OF _ o(2)] Cons.prems(1,3) o(3) by (metis le_supI2 set_append set_ConsD)
  qed (use o Cons.prems(1) in auto)
qed simp

lemma registration_member:
  assumes "amvp_build_registration_json other (Some s) = Ret AMVP_SUCCESS (Some (JSONArray objs))" and "e \<in> set (caps_list s)"
  obtains os where "build_cap other e = Ret AMVP_SUCCESS os" and "set os \<subseteq> set objs"
proof -
  have "build_caps other (caps_list s) = Ret AMVP_SUCCESS objs"
    using assms(1) by (auto simp: amvp_build_registration_json_def split: if_splits outcome.splits)
  from build_caps_member [OF this assms(2)] that show thesis by blast
qed

lemma one_object_success:
  "one_object r = Ret AMVP_SUCCESS os \<longleftrightarrow> (\<exists>obj. r = Ret AMVP_SUCCESS obj \<and> os = [JSONObject obj])"
  by (cases r) (auto simp: one_object_def)

lemma proceed_success: "proceed r f = Ret AMVP_SUCCESS s \<longleftrightarrow> (\<exists>t. r = Ret AMVP_SUCCESS t \<and> f t = Ret AMVP_SUCCESS s)"
  by (cases r) (auto simp: proceed_def)

text \<open>A name of an object keeps its value while other names are set.\<close>

definition has :: "string \<Rightarrow> JSON_Value option \<Rightarrow> JSON_Object \<Rightarrow> bool" where
  "has name v obj \<longleftrightarrow> json_names obj \<and> map_of obj name = v"

lemma has_set:
  assumes "has k v obj" and "json_name name" and "name \<noteq> k"
  shows "has k v (json_object_set_value name w obj)"
proof (cases w)
  case (Some x)
  then show ?thesis using assms json_set_get [OF assms(2), of obj x] json_names_set [OF _ assms(2), of obj w] by (simp add: has_def)
qed (use assms(1) in \<open>simp add: json_object_set_value_def\<close>)

lemma has_new: "json_names obj \<Longrightarrow> json_name k \<Longrightarrow> has k (Some x) (json_object_set_value k (Some x) obj)"
  using json_set_get [of k obj x] json_names_set [of obj k "Some x"] by (simp add: has_def)

lemma has_revision:
  assumes "\<And>obj. has k None obj \<Longrightarrow> builds Q (f obj)" and "k \<noteq> ''algorithm''" and "k \<noteq> ''revision''"
  shows "builds Q (with_revision e [] f)"
proof -
  have "has k None []" by (simp add: has_def json_names_def)
  then show ?thesis
    using assms(2,3) unfolding with_revision_def Let_def json_object_set_string_def
    by (auto split: option.splits intro!: builds_Ret assms(1) has_set simp: json_name_def c_string_def)
qed

text \<open>The message of a hash that is not an extendable-output function carries its range.\<close>

lemma hash_message_length:
  assumes "cap_data e = Hash_cap x" and "\<not> shake_cipher (cap_cipher e)"
  shows "builds (has ''messageLength'' (Some (JSONArray [domain_object (hash_msg_length x)]))) (amvp_build_hash_register_cap e [])"
proof -
  have tail: "builds (has ''messageLength'' (Some (JSONArray [domain_object (hash_msg_length x)])))
      (Ret AMVP_SUCCESS (set_array ''messageLength'' [domain_object (hash_msg_length x)] obj))" if "has ''messageLength'' None obj" for obj
    using that by (intro builds_Ret has_new) (simp_all add: has_def json_name_def c_string_def)
  show ?thesis
    using assms unfolding amvp_build_hash_register_cap_def shake_cipher_def
    by (auto simp: set_defs Let_def intro!: has_revision [of "''messageLength''"] tail has_set)
qed

text \<open>The parts of the symmetric message leave the names alone that they do not set.\<close>

lemma sym_parts_has:
  assumes "has k v obj"
  shows "k \<notin> {''conformances'', ''direction''} \<Longrightarrow> builds (has k v) (sym_reg_direction x obj)"
    "k \<notin> {''keyingOption'', ''keyLen''} \<Longrightarrow> builds (has k v) (sym_reg_keys c x obj)"
    "k \<noteq> ''payloadLen'' \<Longrightarrow> builds (has k v) (sym_reg_payload c x obj)"
    "k \<notin> {''kwCipher'', ''incrementalCounter'', ''overflowCounter'', ''performCounterTests''} \<Longrightarrow>
       has k v (sym_reg_keywrap_counter c x obj)"
    "k \<notin> {''tagLen'', ''ivLen''} \<Longrightarrow> has k v (sym_reg_tag_iv c x obj)"
    "k \<notin> {''tweakMode'', ''dataUnitLenMatchesPayload'', ''dataUnitLen'', ''aadLen''} \<Longrightarrow> has k v (sym_reg_xts_aad c x obj)"
  unfolding sym_reg_direction_def sym_reg_keys_def sym_reg_payload_def sym_reg_keywrap_counter_def sym_reg_tag_iv_def
    sym_reg_xts_aad_def Let_def
  using assms by (auto simp: set_defs intro!: builds_Ret has_set)

lemma prereqVals_has: "has k v obj \<Longrightarrow> k \<noteq> ''prereqVals'' \<Longrightarrow> builds (has k v) (amvp_lookup_prereqVals e obj)"
  by (auto simp: amvp_lookup_prereqVals_def set_defs intro!: builds_Ret has_set)

definition mode_name :: "int \<Rightarrow> JSON_Value option" where
  "mode_name m = (if m = AMVP_SYM_CIPH_IVGEN_MODE_821 then Some (JSONString ''8.2.1'')
     else if m = AMVP_SYM_CIPH_IVGEN_MODE_822 then Some (JSONString ''8.2.2'') else None)"

lemma salt_ivmode_has:
  assumes "has k v obj" and "sym_ivgen_source x = AMVP_SYM_CIPH_IVGEN_SRC_INT"
  shows "builds (has ''ivGenMode'' (mode_name (sym_ivgen_mode x))) (sym_reg_salt_ivmode x obj)"
    "mode_name (sym_ivgen_mode x) = None \<Longrightarrow> builds (\<lambda>_. False) (sym_reg_salt_ivmode x obj)"
    "k \<notin> {''saltGen'', ''ivGenMode''} \<Longrightarrow> builds (has k v) (sym_reg_salt_ivmode x obj)"
proof -
  have n: "json_names obj" "json_names (json_object_set_value ''saltGen'' w obj)" for w
    using assms(1) by (auto simp: has_def json_name_def c_string_def intro: json_names_set)
  show "builds (has ''ivGenMode'' (mode_name (sym_ivgen_mode x))) (sym_reg_salt_ivmode x obj)"
    unfolding sym_reg_salt_ivmode_def Let_def mode_name_def using assms(2) n
    by (auto simp: set_defs intro!: builds_Ret has_new)
  show "mode_name (sym_ivgen_mode x) = None \<Longrightarrow> builds (\<lambda>_. False) (sym_reg_salt_ivmode x obj)"
    unfolding sym_reg_salt_ivmode_def Let_def mode_name_def using assms(2) by (auto intro!: builds_Ret split: if_splits)
  show "k \<notin> {''saltGen'', ''ivGenMode''} \<Longrightarrow> builds (has k v) (sym_reg_salt_ivmode x obj)"
    unfolding sym_reg_salt_ivmode_def Let_def using assms by (auto simp: set_defs intro!: builds_Ret has_set)
qed

lemma rfc3686_message:
  assumes "cap_data e = Sym_cap x" and "rfc3686_counter (cap_cipher e) x" and "sym_ivgen_source x = AMVP_SYM_CIPH_IVGEN_SRC_INT"
  shows "builds (has ''ivGen'' None) (amvp_build_sym_cipher_register_cap e [])"
    "builds (has ''ivGenMode'' (mode_name (sym_ivgen_mode x))) (amvp_build_sym_cipher_register_cap e [])"
    "mode_name (sym_ivgen_mode x) = None \<Longrightarrow> builds (\<lambda>_. False) (amvp_build_sym_cipher_register_cap e [])"
proof -
  have iv: "builds (has ''ivGen'' v) (sym_reg_ivgen (cap_cipher e) x obj)" if "has ''ivGen'' v obj" for v obj
    using that assms(2,3) by (auto simp: sym_reg_ivgen_def set_defs intro!: builds_Ret has_set)
  note steps = builds_proceed builds_Ret prereqVals_has sym_parts_has iv
  show "builds (has ''ivGen'' None) (amvp_build_sym_cipher_register_cap e [])"
    unfolding amvp_build_sym_cipher_register_cap_def Let_def assms(1) sym.sel_wrap option.case
    by (rule has_revision [of "''ivGen''"]) (rule steps salt_ivmode_has(3) assms(3) | assumption | simp)+
  show "builds (has ''ivGenMode'' (mode_name (sym_ivgen_mode x))) (amvp_build_sym_cipher_register_cap e [])"
    unfolding amvp_build_sym_cipher_register_cap_def Let_def assms(1) sym.sel_wrap option.case
    by (rule has_revision [of "''ivGen''"]) (rule steps salt_ivmode_has(1) assms(3) | assumption | simp)+
  show "mode_name (sym_ivgen_mode x) = None \<Longrightarrow> builds (\<lambda>_. False) (amvp_build_sym_cipher_register_cap e [])"
    unfolding amvp_build_sym_cipher_register_cap_def Let_def assms(1) sym.sel_wrap option.case
    by (rule has_revision [of "''ivGen''"]) (rule steps salt_ivmode_has(2) assms(3) | assumption | simp)+
qed

section \<open>Properties\<close>

lemma reach_families:
  assumes "reach disciplined s"
  shows "list_all (\<lambda>e. data_ok True (cap_cipher e) (cap_data e)) (caps_list s)"
    "list_all (\<lambda>e. family_type (cap_cipher e) \<noteq> None) (caps_list s)"
proof -
  show d: "list_all (\<lambda>e. data_ok True (cap_cipher e) (cap_data e)) (caps_list s)"
    using reach_inv [OF assms, of True] by (simp add: reg_inv_def list_all_iff)
  have "family_type (cap_cipher e) \<noteq> None" if "data_ok True (cap_cipher e) (cap_data e)" for e
    using that by (auto simp: data_ok_def split: cap_union.splits)
  with d show "list_all (\<lambda>e. family_type (cap_cipher e) \<noteq> None) (caps_list s)" unfolding list_all_iff by blast
qed

text \<open>The builders of the other families are never reached from these contexts; any function will do.\<close>

definition no_other :: "AMVP_CAPS_LIST \<Rightarrow> JSON_Array outcome" where
  "no_other cap_entry = Ret AMVP_NO_CAP []"

text \<open>
  C9: for every context a disciplined caller can reach, building the registration returns: no
  member of a union is read that was not stored. It stores a message exactly when it reports
  success.
\<close>
theorem registration_defined:
  assumes "reach disciplined s"
  shows "\<exists>rv v. amvp_build_registration_json other (Some s) = Ret rv v \<and> (v = None \<longleftrightarrow> rv \<noteq> AMVP_SUCCESS)"
proof -
  have "list_all (\<lambda>e. returns (build_cap other e)) (caps_list s)"
    using reach_families(1) [OF assms] build_cap_returns by (simp add: list_all_iff)
  from build_caps_returns [OF this] obtain rv objs where "build_caps other (caps_list s) = Ret rv objs"
    by (auto simp: returns_def split: outcome.splits)
  then show ?thesis by (simp add: amvp_build_registration_json_def)
qed

theorem registration_defined_witness:
  "\<exists>rv v. amvp_build_registration_json no_other (Some kmac_ctx) = Ret rv v \<and> (v = None \<longleftrightarrow> rv \<noteq> AMVP_SUCCESS)"
  by (rule registration_defined, rule kmac_reach) (simp add: disciplined_def)

text \<open>
  C10: a registration that is built is the list of the registered ciphers. Looking up the
  algorithm name of each object of the message, as the library does for the vector sets it
  receives, gives the ciphers of the registry in their order, twice for a cipher that is
  to be tested with internal and with external initialisation vectors, and the count of
  vector sets that the library reports is not less than the number of objects.
\<close>
theorem registration_lists_ciphers:
  assumes "reach disciplined s" and "amvp_build_registration_json other (Some s) = Ret AMVP_SUCCESS v"
  shows "\<exists>objs. v = Some (JSONArray objs) \<and>
    map algorithm_of objs = concat (map (\<lambda>e. replicate (copies e) (cap_cipher e)) (caps_list s)) \<and>
    int (length objs) \<le> amvp_get_vector_set_count (Some s)"
proof -
  obtain objs where o: "v = Some (JSONArray objs)"
    "map algorithm_of objs = concat (map (\<lambda>e. replicate (copies e) (cap_cipher e)) (caps_list s))"
    using registration_objects [OF assms(2) reach_families(2) [OF assms(1)]] .
  have "length objs = sets_registered s"
    using arg_cong [OF o(2), of length] by (simp add: length_concat comp_def sets_registered_def)
  with o reach_sets [OF assms(1)] show ?thesis by (simp add: amvp_get_vector_set_count_def)
qed

lemmas eval_build = amvp_build_registration_json_def build_cap_def both_iv_ciphers_def other_sym_ciphers_def proceed_def
  with_revision_def amvp_lookup_prereqVals_def new_entry_def Let_def one_object_def

lemma kmac_registration:
  "\<exists>objs. amvp_build_registration_json no_other (Some kmac_ctx) = Ret AMVP_SUCCESS (Some (JSONArray objs))"
proof -
  obtain r where "amvp_lookup_cipher_revision AMVP_KMAC_128 = Some r"
    using alg_tbl_find [of AMVP_KMAC_128] by (simp add: amvp_lookup_cipher_revision_def)
  then show ?thesis
    by (simp add: kmac_ctx_def eval_build amvp_build_kmac_register_cap_def zero_kmac_cap_def kmac_of_def)
qed

theorem registration_lists_ciphers_witness:
  "\<exists>objs. amvp_build_registration_json no_other (Some kmac_ctx) = Ret AMVP_SUCCESS (Some (JSONArray objs)) \<and>
    map algorithm_of objs = [AMVP_KMAC_128]"
proof -
  obtain objs where b: "amvp_build_registration_json no_other (Some kmac_ctx) = Ret AMVP_SUCCESS (Some (JSONArray objs))"
    using kmac_registration by blast
  have "reach disciplined kmac_ctx" by (rule kmac_reach) (simp add: disciplined_def)
  from registration_lists_ciphers [OF this b] b show ?thesis by (simp add: kmac_ctx_def copies_def new_entry_def)
qed

text \<open>
  What was set is what is sent. After a message length was accepted for a hash, in any
  context a disciplined caller can reach, the registration that is built holds an object for
  that hash whose message length is the range that was given.
\<close>
theorem hash_length_registered:
  assumes "reach disciplined s"
    and "exec ok (Hash_set_domain c AMVP_HASH_MESSAGE_LEN lo hi inc) (Some s) = Ret AMVP_SUCCESS (Some s')"
    and "amvp_build_registration_json other (Some s') = Ret AMVP_SUCCESS (Some (JSONArray objs))"
  shows "\<exists>obj. JSONObject obj \<in> set objs \<and> algorithm_of (JSONObject obj) = c \<and>
    map_of obj ''messageLength'' = Some (JSONArray [range_object lo hi inc])"
proof -
  obtain e x where e: "amvp_locate_cap_entry (Some s) c = Some e" "cap_data e = Hash_cap x" and sh: "\<not> shake_cipher c"
    and alg: "cipher_sub c \<in> set (hash_sha2_algs @ hash_sha3_algs @ hash_shake_algs)"
    and s': "s' = put_cap c (Hash_cap (x\<lparr>hash_msg_length := set_domain lo hi inc (hash_msg_length x)\<rparr>)) s"
    using assms(2)
    by (auto simp: amvp_cap_hash_set_domain_def hash_store_domain_def hash.store_Ret amvp_get_hash_alg_def shake_cipher_def Let_def
        simp del: locate_Some split: if_splits option.splits)
  let ?x = "x\<lparr>hash_msg_length := set_domain lo hi inc (hash_msg_length x)\<rparr>"
  let ?e = "e\<lparr>cap_data := Hash_cap ?x\<rparr>"
  have c: "cap_cipher ?e = c" using caps.locate_key [OF e(1)] by simp
  have "amvp_locate_cap_entry (Some s') c = Some ?e" unfolding s' using locate_put_cap [OF e(1)] by simp
  then have "?e \<in> set (caps_list s')" using find_Some_in by fastforce
  then obtain os where os: "build_cap other ?e = Ret AMVP_SUCCESS os" "set os \<subseteq> set objs"
    using registration_member [OF assms(3)] by blast
  have t: "family_type (cap_cipher ?e) = Some AMVP_HASH_TYPE" using enable_families(1) [OF alg] c by simp
  then have n: "\<not> is_sym_cipher (cap_cipher ?e)" by (auto simp: family_type_def)
  then obtain obj where obj: "amvp_build_hash_register_cap ?e [] = Ret AMVP_SUCCESS obj" "os = [JSONObject obj]"
    using os(1) build_cap_other_families(1) [OF n t] by (auto simp: one_object_success)
  have "has ''messageLength'' (Some (JSONArray [range_object lo hi inc])) obj"
    using hash_message_length [of ?e ?x] sh c obj(1) by (simp add: builds_def domain_object_def set_domain_def)
  moreover have "algorithm_of (JSONObject obj) = c"
    using algorithm_of_object [OF t, of "JSONObject obj"] hash_headed [of ?e] obj(1) c by (simp add: builds_def is_object_of_def)
  ultimately show ?thesis using os(2) obj(2) by (auto simp: has_def)
qed

lemma sha256_reach: "reach disciplined sha256_ctx"
proof (rule reach_call [OF reach_init])
  show "exec (\<lambda>_. True) (Hash_enable AMVP_HASH_SHA256 (Some 7)) (Some init_ctx) = Ret AMVP_SUCCESS (Some sha256_ctx)"
    unfolding sha256_ctx_def by (simp add: eval_enable cipher_sub_mid hash_sha2_algs_def)
qed (simp_all add: disciplined_def int_args_def)

theorem hash_length_registered_witness:
  "\<exists>s' objs obj. exec (\<lambda>_. True) (Hash_set_domain AMVP_HASH_SHA256 AMVP_HASH_MESSAGE_LEN 0 1024 8) (Some sha256_ctx) =
      Ret AMVP_SUCCESS (Some s') \<and>
    amvp_build_registration_json no_other (Some s') = Ret AMVP_SUCCESS (Some (JSONArray objs)) \<and> JSONObject obj \<in> set objs \<and>
    map_of obj ''messageLength'' = Some (JSONArray [range_object 0 1024 8])"
proof -
  obtain s' where r: "exec (\<lambda>_. True) (Hash_set_domain AMVP_HASH_SHA256 AMVP_HASH_MESSAGE_LEN 0 1024 8) (Some sha256_ctx) =
      Ret AMVP_SUCCESS (Some s')"
    and l: "caps_list s' = [new_entry AMVP_HASH_TYPE AMVP_HASH_SHA256 (Some 7)
      (Hash_cap (zero_hash_cap\<lparr>hash_msg_length := set_domain 0 1024 8 zero_domain\<rparr>))]"
    by (simp add: sha256_ctx_def amvp_cap_hash_set_domain_def hash_store_domain_def amvp_get_hash_alg_def cipher_sub_mid hash_sha2_algs_def
        hash_sha3_algs_def hash_shake_algs_def store_def hash_of_def new_entry_def put_cap_def set_entry_def zero_hash_cap_def c_rem_def)
  obtain rev where "amvp_lookup_cipher_revision AMVP_HASH_SHA256 = Some rev"
    using alg_tbl_find [of AMVP_HASH_SHA256] by (simp add: amvp_lookup_cipher_revision_def)
  then obtain objs where b: "amvp_build_registration_json no_other (Some s') = Ret AMVP_SUCCESS (Some (JSONArray objs))"
    by (simp add: l eval_build amvp_build_hash_register_cap_def hash_of_def)
  from hash_length_registered [OF sha256_reach r b] r b show ?thesis by blast
qed

text \<open>
  AES-CTR with the conformance of RFC 3686 and internal initialisation vectors is never
  registered as such. The source and the generation mode are written under the same name, so
  a message that is built says only the mode, and without a mode none is built.
\<close>
theorem rfc3686_source_lost:
  assumes "amvp_locate_cap_entry (Some s) AMVP_AES_CTR = Some e" and "cap_data e = Sym_cap x"
    and "sym_conformance x = AMVP_CONFORMANCE_RFC3686" and "sym_ivgen_source x = AMVP_SYM_CIPH_IVGEN_SRC_INT"
    and "amvp_build_registration_json other (Some s) = Ret AMVP_SUCCESS (Some (JSONArray objs))"
  shows "\<exists>obj. JSONObject obj \<in> set objs \<and> algorithm_of (JSONObject obj) = AMVP_AES_CTR \<and>
    map_of obj ''ivGenMode'' \<in> {Some (JSONString ''8.2.1''), Some (JSONString ''8.2.2'')} \<and> map_of obj ''ivGen'' = None"
proof -
  have e: "e \<in> set (caps_list s)" "cap_cipher e = AMVP_AES_CTR" using assms(1) find_Some_in by fastforce+
  have sym: "is_sym_cipher (cap_cipher e)" by (simp add: e(2) sym_arms both_iv_ciphers_def)
  obtain os where os: "build_cap other e = Ret AMVP_SUCCESS os" "set os \<subseteq> set objs"
    using registration_member [OF assms(5) e(1)] .
  then obtain obj where obj: "amvp_build_sym_cipher_register_cap e [] = Ret AMVP_SUCCESS obj" "os = [JSONObject obj]"
    using assms(2,4) by (auto simp: build_cap_sym [OF sym] build_iv_caps_def one_object_success split: if_splits)
  have "rfc3686_counter (cap_cipher e) x" using assms(3) e(2) by (simp add: rfc3686_counter_def)
  note m = rfc3686_message [OF assms(2) this assms(4), unfolded obj(1) builds_def outcome.case]
  have "family_type (cap_cipher e) = Some AMVP_SYM_TYPE" using sym by (simp add: family_type_def)
  then have "algorithm_of (JSONObject obj) = AMVP_AES_CTR"
    using algorithm_of_object [of _ _ "JSONObject obj"] sym_headed [of e] obj(1) e(2) by (simp add: builds_def is_object_of_def)
  with m os(2) obj(2) show ?thesis by (auto simp: has_def mode_name_def split: if_splits)
qed

definition rfc3686_ctx :: AMVP_CTX where
  "rfc3686_ctx = \<lparr>caps_list = [new_entry AMVP_SYM_TYPE AMVP_AES_CTR (Some 7)
      (Sym_cap (zero_sym_cap\<lparr>sym_conformance := AMVP_CONFORMANCE_RFC3686, sym_direction := AMVP_SYM_CIPH_DIR_BOTH,
        sym_ivgen_source := AMVP_SYM_CIPH_IVGEN_SRC_INT, sym_ivgen_mode := AMVP_SYM_CIPH_IVGEN_MODE_821,
        sym_keylen := [128], sym_ptlen := [128]\<rparr>))], vs_count = 1\<rparr>"

theorem rfc3686_source_lost_witness:
  "\<exists>objs obj. amvp_build_registration_json no_other (Some rfc3686_ctx) = Ret AMVP_SUCCESS (Some (JSONArray objs)) \<and>
    JSONObject obj \<in> set objs \<and> map_of obj ''ivGenMode'' \<in> {Some (JSONString ''8.2.1''), Some (JSONString ''8.2.2'')}"
proof -
  obtain rev where "amvp_lookup_cipher_revision AMVP_AES_CTR = Some rev"
    using alg_tbl_find [of AMVP_AES_CTR] by (simp add: amvp_lookup_cipher_revision_def)
  then obtain objs where b: "amvp_build_registration_json no_other (Some rfc3686_ctx) = Ret AMVP_SUCCESS (Some (JSONArray objs))"
    by (simp add: rfc3686_ctx_def eval_build build_iv_caps_def amvp_build_sym_cipher_register_cap_def sym_of_def sym_reg_direction_def
        sym_reg_ivgen_def sym_reg_salt_ivmode_def sym_reg_keys_def sym_reg_payload_def)
  have "\<exists>obj. JSONObject obj \<in> set objs \<and> algorithm_of (JSONObject obj) = AMVP_AES_CTR \<and>
      map_of obj ''ivGenMode'' \<in> {Some (JSONString ''8.2.1''), Some (JSONString ''8.2.2'')} \<and> map_of obj ''ivGen'' = None"
    by (rule rfc3686_source_lost [OF _ _ _ _ b, where e = "hd (caps_list rfc3686_ctx)"
          and x = "the (sym_of (cap_data (hd (caps_list rfc3686_ctx))))"])
      (simp_all add: rfc3686_ctx_def new_entry_def sym_of_def)
  with b show ?thesis by blast
qed

end
