(* ===== verification/Oe_Metadata.thy ===== *)
theory Oe_Metadata
  imports Json Util_Lists
begin

text \<open>
  The metadata of a validation, \<^verbatim>\<open>src/amvp_operating_env.c\<close>: vendors, modules, dependencies and
  operating environments, the operations that create and change them, and loading them from
  the JSON of a metadata file. The arrays of the context are lists, as long as their counts;
  a pointer into an array is an index. The counters that number entries are static variables
  of the file and are part of the state here, and so is the sequence of answers that \<open>calloc\<close>
  will give.
\<close>

section \<open>Data\<close>

record AMVP_VENDOR_ADDRESS =
  street_1 :: "string option"
  street_2 :: "string option"
  street_3 :: "string option"
  locality :: "string option"
  region :: "string option"
  country :: "string option"
  postal_code :: "string option"
  addr_url :: "string option"

record AMVP_OE_PHONE =
  phone_number :: "string option"
  phone_type :: "string option"

record AMVP_PERSON =
  person_url :: "string option"
  full_name :: "string option"
  person_phones :: "AMVP_OE_PHONE list"
  person_emails :: "string option list"

record AMVP_VENDOR =
  vendor_id :: nat
  vendor_url :: "string option"
  vendor_name :: "string option"
  website :: "string option"
  vendor_phones :: "AMVP_OE_PHONE list"
  vendor_emails :: "string option list"
  address :: AMVP_VENDOR_ADDRESS
  persons :: "AMVP_PERSON list"

record AMVP_MODULE =
  mod_id :: nat
  mod_name :: "string option"
  mod_type :: "string option"
  mod_version :: "string option"
  mod_description :: "string option"
  mod_url :: "string option"
  mod_vendor :: "nat option"

record AMVP_DEPENDENCY =
  dep_id :: nat
  dep_url :: "string option"
  dep_name :: "string option"
  dep_type :: "string option"
  dep_description :: "string option"
  dep_series :: "string option"
  dep_family :: "string option"
  dep_version :: "string option"
  dep_manufacturer :: "string option"

datatype AMVP_RESOURCE_STATUS =
  AMVP_RESOURCE_STATUS_UNSET | AMVP_RESOURCE_STATUS_COMPLETE | AMVP_RESOURCE_STATUS_PARTIAL | AMVP_RESOURCE_STATUS_INCOMPLETE

record AMVP_OE =
  oe_id :: nat
  oe_name :: "string option"
  oe_url :: "string option"
  oe_deps :: "nat list"
  oe_status :: AMVP_RESOURCE_STATUS

text \<open>What the functions of the file use of the context, and the static variables.\<close>

record META =
  vendors :: "AMVP_VENDOR list"
  modules :: "AMVP_MODULE list"
  dependencies :: "AMVP_DEPENDENCY list"
  oes :: "AMVP_OE list"
  metadata_loaded :: int
  metadata_ready :: int
  fips_module :: "nat option"
  fips_oe :: "nat option"
  glb_dependency_id :: nat
  glb_vendor_id :: nat
  glb_module_id :: nat
  glb_oe_id :: nat
  allocs :: "nat \<Rightarrow> bool"
  alloc_n :: nat

abbreviation (input) LIBAMVP_PERSONS_MAX :: nat where "LIBAMVP_PERSONS_MAX \<equiv> 8"
abbreviation (input) LIBAMVP_VENDORS_MAX :: nat where "LIBAMVP_VENDORS_MAX \<equiv> 8"
abbreviation (input) LIBAMVP_MODULES_MAX :: nat where "LIBAMVP_MODULES_MAX \<equiv> 32"
abbreviation (input) LIBAMVP_DEPENDENCIES_MAX :: nat where "LIBAMVP_DEPENDENCIES_MAX \<equiv> 64"
abbreviation (input) LIBAMVP_OES_MAX :: nat where "LIBAMVP_OES_MAX \<equiv> 8"
abbreviation (input) AMVP_OE_STR_MAX :: nat where "AMVP_OE_STR_MAX \<equiv> 256"
abbreviation (input) AMVP_JSON_FILENAME_MAX :: nat where "AMVP_JSON_FILENAME_MAX \<equiv> 128"

text \<open>Entries as the zeroed context holds them, with their number.\<close>

definition new_dependency :: "nat \<Rightarrow> AMVP_DEPENDENCY" where
  "new_dependency num = \<lparr>dep_id = num, dep_url = None, dep_name = None, dep_type = None, dep_description = None,
     dep_series = None, dep_family = None, dep_version = None, dep_manufacturer = None\<rparr>"

definition new_oe :: "nat \<Rightarrow> AMVP_OE" where
  "new_oe num = \<lparr>oe_id = num, oe_name = None, oe_url = None, oe_deps = [], oe_status = AMVP_RESOURCE_STATUS_UNSET\<rparr>"

definition new_vendor :: "nat \<Rightarrow> AMVP_VENDOR" where
  "new_vendor num = \<lparr>vendor_id = num, vendor_url = None, vendor_name = None, website = None, vendor_phones = [],
     vendor_emails = [],
     address = \<lparr>street_1 = None, street_2 = None, street_3 = None, locality = None, region = None, country = None,
                postal_code = None, addr_url = None\<rparr>,
     persons = []\<rparr>"

definition new_module :: "nat \<Rightarrow> AMVP_MODULE" where
  "new_module num = \<lparr>mod_id = num, mod_name = None, mod_type = None, mod_version = None,
     mod_description = None, mod_url = None, mod_vendor = None\<rparr>"

section \<open>Sequencing, memory and strings\<close>

definition then_ok :: "AMVP_RESULT \<times> 's \<Rightarrow> ('s \<Rightarrow> AMVP_RESULT \<times> 's) \<Rightarrow> AMVP_RESULT \<times> 's" where
  "then_ok r f = (if fst r \<noteq> AMVP_SUCCESS then r else f (snd r))"

definition meta_calloc :: "META \<Rightarrow> bool \<times> META" where
  "meta_calloc st = (allocs st (alloc_n st), st\<lparr>alloc_n := alloc_n st + 1\<rparr>)"

text \<open>The destination keeps its memory, or gets some; what is copied fits.\<close>

definition copy_oe_string :: "string option \<Rightarrow> string option \<Rightarrow> META \<Rightarrow> AMVP_RESULT \<times> string option \<times> META" where
  "copy_oe_string dest src st =
     (case src of
        None \<Rightarrow> (AMVP_MISSING_ARG, dest, st)
      | Some s \<Rightarrow>
          if \<not> string_fits src AMVP_OE_STR_MAX then (AMVP_INVALID_ARG, dest, st)
          else case dest of
              Some _ \<Rightarrow> (AMVP_SUCCESS, Some s, st)
            | None \<Rightarrow>
                let (ok, st1) = meta_calloc st in
                if ok then (AMVP_SUCCESS, Some s, st1) else (AMVP_MALLOC_FAIL, None, st1))"

text \<open>
  Callers look at some of its results only: a failure to allocate is not reported, and where
  the string was tested before, neither is a missing one.
\<close>

definition copy_field ::
  "AMVP_RESULT list \<Rightarrow> ('a \<Rightarrow> string option) \<Rightarrow> (string option \<Rightarrow> 'a \<Rightarrow> 'a) \<Rightarrow> string option \<Rightarrow> 'a \<times> META \<Rightarrow>
   AMVP_RESULT \<times> ('a \<times> META)" where
  "copy_field reported get put src s =
     (let (rv, v, st) = copy_oe_string (get (fst s)) src (snd s)
      in (if rv \<in> set reported then rv else AMVP_SUCCESS, (put v (fst s), st)))"

abbreviation (input) copy_given ::
  "('a \<Rightarrow> string option) \<Rightarrow> (string option \<Rightarrow> 'a \<Rightarrow> 'a) \<Rightarrow> string option \<Rightarrow> 'a \<times> META \<Rightarrow> AMVP_RESULT \<times> ('a \<times> META)" where
  "copy_given get put src s \<equiv> (if src = None then (AMVP_SUCCESS, s) else copy_field [AMVP_INVALID_ARG] get put src s)"

text \<open>The place of the first entry with a number; 0 is never a number of an entry.\<close>

primrec position :: "('a \<Rightarrow> bool) \<Rightarrow> 'a list \<Rightarrow> nat option" where
  "position p [] = None"
| "position p (x # xs) = (if p x then Some 0 else map_option Suc (position p xs))"

definition find_id :: "('a \<Rightarrow> nat) \<Rightarrow> nat \<Rightarrow> 'a list \<Rightarrow> nat option" where
  "find_id key num l = (if num = 0 then None else position (\<lambda>x. key x = num) l)"

definition find_dependency :: "META \<Rightarrow> nat \<Rightarrow> nat option" where
  "find_dependency st num = find_id dep_id num (dependencies st)"

definition find_oe :: "META \<Rightarrow> nat \<Rightarrow> nat option" where
  "find_oe st num = find_id oe_id num (oes st)"

definition find_vendor :: "META \<Rightarrow> nat \<Rightarrow> nat option" where
  "find_vendor st num = find_id vendor_id num (vendors st)"

definition find_module :: "META \<Rightarrow> nat \<Rightarrow> nat option" where
  "find_module st num = find_id mod_id num (modules st)"

text \<open>A function works on one entry in place.\<close>

definition on_dependency :: "nat \<Rightarrow> (AMVP_DEPENDENCY \<times> META \<Rightarrow> AMVP_RESULT \<times> (AMVP_DEPENDENCY \<times> META)) \<Rightarrow> META \<Rightarrow> AMVP_RESULT \<times> META" where
  "on_dependency i f st = (let (rv, d, st1) = f (dependencies st ! i, st) in (rv, st1\<lparr>dependencies := (dependencies st1)[i := d]\<rparr>))"

definition on_oe :: "nat \<Rightarrow> (AMVP_OE \<times> META \<Rightarrow> AMVP_RESULT \<times> (AMVP_OE \<times> META)) \<Rightarrow> META \<Rightarrow> AMVP_RESULT \<times> META" where
  "on_oe i f st = (let (rv, d, st1) = f (oes st ! i, st) in (rv, st1\<lparr>oes := (oes st1)[i := d]\<rparr>))"

definition on_vendor :: "nat \<Rightarrow> (AMVP_VENDOR \<times> META \<Rightarrow> AMVP_RESULT \<times> (AMVP_VENDOR \<times> META)) \<Rightarrow> META \<Rightarrow> AMVP_RESULT \<times> META" where
  "on_vendor i f st = (let (rv, d, st1) = f (vendors st ! i, st) in (rv, st1\<lparr>vendors := (vendors st1)[i := d]\<rparr>))"

definition on_module :: "nat \<Rightarrow> (AMVP_MODULE \<times> META \<Rightarrow> AMVP_RESULT \<times> (AMVP_MODULE \<times> META)) \<Rightarrow> META \<Rightarrow> AMVP_RESULT \<times> META" where
  "on_module i f st = (let (rv, d, st1) = f (modules st ! i, st) in (rv, st1\<lparr>modules := (modules st1)[i := d]\<rparr>))"

text \<open>The public functions test the context first.\<close>

definition with_meta :: "META option \<Rightarrow> (META \<Rightarrow> AMVP_RESULT \<times> META) \<Rightarrow> AMVP_RESULT \<times> META option" where
  "with_meta ost f = (case ost of None \<Rightarrow> (AMVP_NO_CTX, None) | Some st \<Rightarrow> map_prod id Some (f st))"

section \<open>Creating and changing entries\<close>

text \<open>A full table of dependencies is reported as success.\<close>

definition dependency_new :: "nat \<Rightarrow> META \<Rightarrow> AMVP_RESULT \<times> META" where
  "dependency_new num st =
     (if length (dependencies st) = LIBAMVP_DEPENDENCIES_MAX then (AMVP_SUCCESS, st)
      else if num = 0 then (AMVP_INVALID_ARG, st)
      else if list_ex (\<lambda>d. dep_id d = num) (dependencies st) then (AMVP_INVALID_ARG, st)
      else (AMVP_SUCCESS, st\<lparr>dependencies := dependencies st @ [new_dependency num]\<rparr>))"

definition amvp_oe_dependency_new :: "META option \<Rightarrow> nat \<Rightarrow> AMVP_RESULT \<times> META option" where
  "amvp_oe_dependency_new ost num = with_meta ost (dependency_new num)"

datatype DEPENDENCY_FIELD =
    DEPENDENCY_FIELD_TYPE | DEPENDENCY_FIELD_NAME | DEPENDENCY_FIELD_DESC | DEPENDENCY_FIELD_MAN
  | DEPENDENCY_FIELD_VERSION | DEPENDENCY_FIELD_FAMILY | DEPENDENCY_FIELD_SERIES

primrec get_dep_field :: "DEPENDENCY_FIELD \<Rightarrow> AMVP_DEPENDENCY \<Rightarrow> string option" where
  "get_dep_field DEPENDENCY_FIELD_TYPE d = dep_type d"
| "get_dep_field DEPENDENCY_FIELD_NAME d = dep_name d"
| "get_dep_field DEPENDENCY_FIELD_DESC d = dep_description d"
| "get_dep_field DEPENDENCY_FIELD_MAN d = dep_manufacturer d"
| "get_dep_field DEPENDENCY_FIELD_VERSION d = dep_version d"
| "get_dep_field DEPENDENCY_FIELD_FAMILY d = dep_family d"
| "get_dep_field DEPENDENCY_FIELD_SERIES d = dep_series d"

primrec put_dep_field :: "DEPENDENCY_FIELD \<Rightarrow> string option \<Rightarrow> AMVP_DEPENDENCY \<Rightarrow> AMVP_DEPENDENCY" where
  "put_dep_field DEPENDENCY_FIELD_TYPE v d = d\<lparr>dep_type := v\<rparr>"
| "put_dep_field DEPENDENCY_FIELD_NAME v d = d\<lparr>dep_name := v\<rparr>"
| "put_dep_field DEPENDENCY_FIELD_DESC v d = d\<lparr>dep_description := v\<rparr>"
| "put_dep_field DEPENDENCY_FIELD_MAN v d = d\<lparr>dep_manufacturer := v\<rparr>"
| "put_dep_field DEPENDENCY_FIELD_VERSION v d = d\<lparr>dep_version := v\<rparr>"
| "put_dep_field DEPENDENCY_FIELD_FAMILY v d = d\<lparr>dep_family := v\<rparr>"
| "put_dep_field DEPENDENCY_FIELD_SERIES v d = d\<lparr>dep_series := v\<rparr>"

definition amvp_oe_dependency_set_field :: "DEPENDENCY_FIELD \<Rightarrow> nat \<Rightarrow> string option \<Rightarrow> META \<Rightarrow> AMVP_RESULT \<times> META" where
  "amvp_oe_dependency_set_field field num v st =
     (case find_dependency st num of
        None \<Rightarrow> (AMVP_INVALID_ARG, st)
      | Some i \<Rightarrow>
          on_dependency i (copy_field [AMVP_INVALID_ARG, AMVP_MISSING_ARG] (get_dep_field field) (put_dep_field field) v) st)"

text \<open>An entry is added, and counted, before its name is copied.\<close>

definition oe_new :: "nat \<Rightarrow> string option \<Rightarrow> META \<Rightarrow> AMVP_RESULT \<times> META" where
  "oe_new num name st =
     (if length (oes st) = LIBAMVP_OES_MAX then (AMVP_UNSUPPORTED_OP, st)
      else if num = 0 then (AMVP_INVALID_ARG, st)
      else if name = None then (AMVP_MISSING_ARG, st)
      else if list_ex (\<lambda>e. oe_id e = num) (oes st) then (AMVP_INVALID_ARG, st)
      else on_oe (length (oes st))
             (copy_field [AMVP_INVALID_ARG, AMVP_MISSING_ARG] oe_name (\<lambda>v e. e\<lparr>oe_name := v\<rparr>) name)
             (st\<lparr>oes := oes st @ [new_oe num]\<rparr>))"

definition amvp_oe_oe_new :: "META option \<Rightarrow> nat \<Rightarrow> string option \<Rightarrow> AMVP_RESULT \<times> META option" where
  "amvp_oe_oe_new ost num name = with_meta ost (oe_new num name)"

definition oe_set_dependency :: "nat \<Rightarrow> nat \<Rightarrow> META \<Rightarrow> AMVP_RESULT \<times> META" where
  "oe_set_dependency oe_num dep_num st =
     (case find_oe st oe_num of
        None \<Rightarrow> (AMVP_INVALID_ARG, st)
      | Some i \<Rightarrow>
          (case find_dependency st dep_num of
             None \<Rightarrow> (AMVP_INVALID_ARG, st)
           | Some dep \<Rightarrow>
               if length (oe_deps (oes st ! i)) = LIBAMVP_DEPENDENCIES_MAX then (AMVP_UNSUPPORTED_OP, st)
               else (AMVP_SUCCESS, st\<lparr>oes := (oes st)[i := (oes st ! i)\<lparr>oe_deps := oe_deps (oes st ! i) @ [dep]\<rparr>]\<rparr>)))"

definition amvp_oe_oe_set_dependency :: "META option \<Rightarrow> nat \<Rightarrow> nat \<Rightarrow> AMVP_RESULT \<times> META option" where
  "amvp_oe_oe_set_dependency ost oe_num dep_num = with_meta ost (oe_set_dependency oe_num dep_num)"

definition amvp_oe_vendor_new :: "nat \<Rightarrow> string option \<Rightarrow> META \<Rightarrow> AMVP_RESULT \<times> META" where
  "amvp_oe_vendor_new num name st =
     (if length (vendors st) = LIBAMVP_VENDORS_MAX then (AMVP_UNSUPPORTED_OP, st)
      else if num = 0 then (AMVP_INVALID_ARG, st)
      else if list_ex (\<lambda>v. vendor_id v = num) (vendors st) then (AMVP_INVALID_ARG, st)
      else on_vendor (length (vendors st))
             (copy_field [AMVP_INVALID_ARG, AMVP_MISSING_ARG] vendor_name (\<lambda>v e. e\<lparr>vendor_name := v\<rparr>) name)
             (st\<lparr>vendors := vendors st @ [new_vendor num]\<rparr>))"

text \<open>The vendor of a module is looked up by the number of the module.\<close>

definition module_new :: "nat \<Rightarrow> string option \<Rightarrow> META \<Rightarrow> AMVP_RESULT \<times> META" where
  "module_new num name st =
     (if length (modules st) = LIBAMVP_MODULES_MAX then (AMVP_UNSUPPORTED_OP, st)
      else if num = 0 then (AMVP_INVALID_ARG, st)
      else if list_ex (\<lambda>e. mod_id e = num) (modules st) then (AMVP_INVALID_ARG, st)
      else
        let st1 = st\<lparr>modules := modules st @ [new_module num]\<rparr> in
        case find_vendor st1 num of
          None \<Rightarrow> (AMVP_INVALID_ARG, st1)
        | Some vendor \<Rightarrow>
            on_module (length (modules st))
              (\<lambda>(e, s). copy_field [AMVP_INVALID_ARG, AMVP_MISSING_ARG] mod_name (\<lambda>v e. e\<lparr>mod_name := v\<rparr>) name
                 (e\<lparr>mod_vendor := Some vendor\<rparr>, s)) st1)"

definition amvp_oe_module_new :: "META option \<Rightarrow> nat \<Rightarrow> string option \<Rightarrow> AMVP_RESULT \<times> META option" where
  "amvp_oe_module_new ost num name = with_meta ost (module_new num name)"

definition module_set_type_version_desc ::
  "nat \<Rightarrow> string option \<Rightarrow> string option \<Rightarrow> string option \<Rightarrow> META \<Rightarrow> AMVP_RESULT \<times> META" where
  "module_set_type_version_desc num type version description st =
     (if type = None \<and> version = None \<and> description = None then (AMVP_INVALID_ARG, st)
      else case find_module st num of
          None \<Rightarrow> (AMVP_INVALID_ARG, st)
        | Some i \<Rightarrow>
            on_module i (\<lambda>s.
              then_ok (copy_given mod_type (\<lambda>v e. e\<lparr>mod_type := v\<rparr>) type s) (\<lambda>s1.
              then_ok (copy_given mod_version (\<lambda>v e. e\<lparr>mod_version := v\<rparr>) version s1) (\<lambda>s2.
                copy_given mod_description (\<lambda>v e. e\<lparr>mod_description := v\<rparr>) description s2))) st)"

definition amvp_oe_module_set_type_version_desc ::
  "META option \<Rightarrow> nat \<Rightarrow> string option \<Rightarrow> string option \<Rightarrow> string option \<Rightarrow> AMVP_RESULT \<times> META option" where
  "amvp_oe_module_set_type_version_desc ost num type version description =
     with_meta ost (module_set_type_version_desc num type version description)"

section \<open>Loading the metadata\<close>

definition json_object_get_object :: "JSON_Object option \<Rightarrow> string \<Rightarrow> JSON_Object option" where
  "json_object_get_object object name = json_value_get_object (json_object_get_value object name)"

abbreviation (input) copy_address ::
  "(AMVP_VENDOR_ADDRESS \<Rightarrow> string option) \<Rightarrow> (string option \<Rightarrow> AMVP_VENDOR_ADDRESS \<Rightarrow> AMVP_VENDOR_ADDRESS) \<Rightarrow> string option \<Rightarrow>
   AMVP_VENDOR \<times> META \<Rightarrow> AMVP_RESULT \<times> (AMVP_VENDOR \<times> META)" where
  "copy_address get put \<equiv> copy_given (\<lambda>v. get (address v)) (\<lambda>x v. v\<lparr>address := put x (address v)\<rparr>)"

definition amvp_oe_vendor_add_address ::
  "string option \<Rightarrow> string option \<Rightarrow> string option \<Rightarrow> string option \<Rightarrow> string option \<Rightarrow> string option \<Rightarrow> string option \<Rightarrow>
   AMVP_VENDOR \<times> META \<Rightarrow> AMVP_RESULT \<times> (AMVP_VENDOR \<times> META)" where
  "amvp_oe_vendor_add_address s1 s2 s3 loc reg cty code s =
     (if s1 = None \<and> s2 = None \<and> s3 = None \<and> loc = None \<and> reg = None \<and> cty = None \<and> code = None then (AMVP_INVALID_ARG, s)
      else
        then_ok (copy_address street_1 (\<lambda>x a. a\<lparr>street_1 := x\<rparr>) s1 s) (\<lambda>s.
        then_ok (copy_address street_2 (\<lambda>x a. a\<lparr>street_2 := x\<rparr>) s2 s) (\<lambda>s.
        then_ok (copy_address street_3 (\<lambda>x a. a\<lparr>street_3 := x\<rparr>) s3 s) (\<lambda>s.
        then_ok (copy_address locality (\<lambda>x a. a\<lparr>locality := x\<rparr>) loc s) (\<lambda>s.
        then_ok (copy_address region (\<lambda>x a. a\<lparr>region := x\<rparr>) reg s) (\<lambda>s.
        then_ok (copy_address country (\<lambda>x a. a\<lparr>country := x\<rparr>) cty s) (\<lambda>s.
          copy_address postal_code (\<lambda>x a. a\<lparr>postal_code := x\<rparr>) code s)))))))"

definition amvp_oe_metadata_parse_vendor_address ::
  "JSON_Object \<Rightarrow> AMVP_VENDOR \<times> META \<Rightarrow> AMVP_RESULT \<times> (AMVP_VENDOR \<times> META)" where
  "amvp_oe_metadata_parse_vendor_address obj s =
     (case json_object_get_object (Some obj) ''address'' of
        None \<Rightarrow> (AMVP_MISSING_ARG, s)
      | Some a_obj \<Rightarrow>
          let str = json_object_get_string (Some a_obj) in
          amvp_oe_vendor_add_address (str ''street1'') (str ''street2'') (str ''street3'') (str ''locality'') (str ''region'')
            (str ''country'') (str ''postalCode'') s)"

text \<open>A node is linked into the list before its string is copied into it.\<close>

definition parse_email :: "JSON_Value \<Rightarrow> string option list \<times> META \<Rightarrow> AMVP_RESULT \<times> (string option list \<times> META)" where
  "parse_email v s =
     (case json_value_get_string (Some v) of
        None \<Rightarrow> (AMVP_JSON_ERR, s)
      | Some email_str \<Rightarrow>
          let (ok, st1) = meta_calloc (snd s) in
          if \<not> ok then (AMVP_MALLOC_FAIL, (fst s, st1))
          else let (rv, email, st2) = copy_oe_string None (Some email_str) st1
            in (if rv = AMVP_INVALID_ARG then rv else AMVP_SUCCESS, (fst s @ [email], st2)))"

primrec parse_emails :: "JSON_Array \<Rightarrow> string option list \<times> META \<Rightarrow> AMVP_RESULT \<times> (string option list \<times> META)" where
  "parse_emails [] s = (AMVP_SUCCESS, s)"
| "parse_emails (v # rest) s = then_ok (parse_email v s) (parse_emails rest)"

definition amvp_oe_metadata_parse_emails ::
  "JSON_Object \<Rightarrow> string option list \<times> META \<Rightarrow> AMVP_RESULT \<times> (string option list \<times> META)" where
  "amvp_oe_metadata_parse_emails obj s =
     (if fst s \<noteq> [] then (AMVP_INVALID_ARG, s)
      else case json_object_get_array (Some obj) ''emails'' of
          None \<Rightarrow> (AMVP_SUCCESS, s)
        | Some emails_array \<Rightarrow> parse_emails emails_array s)"

definition parse_phone :: "JSON_Value \<Rightarrow> AMVP_OE_PHONE list \<times> META \<Rightarrow> AMVP_RESULT \<times> (AMVP_OE_PHONE list \<times> META)" where
  "parse_phone v s =
     (case json_value_get_object (Some v) of
        None \<Rightarrow> (AMVP_JSON_ERR, s)
      | Some phone_obj \<Rightarrow>
          (case (json_object_get_string (Some phone_obj) ''number'', json_object_get_string (Some phone_obj) ''type'') of
             (Some number_str, Some type_str) \<Rightarrow>
               let (ok, st1) = meta_calloc (snd s) in
               if \<not> ok then (AMVP_MALLOC_FAIL, (fst s, st1))
               else
                 let (rv, number, st2) = copy_oe_string None (Some number_str) st1 in
                 if rv = AMVP_INVALID_ARG then (rv, (fst s @ [\<lparr>phone_number = number, phone_type = None\<rparr>], st2))
                 else
                   let (rv, type, st3) = copy_oe_string None (Some type_str) st2
                   in (if rv = AMVP_INVALID_ARG then rv else AMVP_SUCCESS,
                       (fst s @ [\<lparr>phone_number = number, phone_type = type\<rparr>], st3))
           | _ \<Rightarrow> (AMVP_JSON_ERR, s)))"

primrec parse_phones :: "JSON_Array \<Rightarrow> AMVP_OE_PHONE list \<times> META \<Rightarrow> AMVP_RESULT \<times> (AMVP_OE_PHONE list \<times> META)" where
  "parse_phones [] s = (AMVP_SUCCESS, s)"
| "parse_phones (v # rest) s = then_ok (parse_phone v s) (parse_phones rest)"

definition amvp_oe_metadata_parse_phone_numbers ::
  "JSON_Object \<Rightarrow> AMVP_OE_PHONE list \<times> META \<Rightarrow> AMVP_RESULT \<times> (AMVP_OE_PHONE list \<times> META)" where
  "amvp_oe_metadata_parse_phone_numbers obj s =
     (if fst s \<noteq> [] then (AMVP_INVALID_ARG, s)
      else case json_object_get_array (Some obj) ''phoneNumbers'' of
          None \<Rightarrow> (AMVP_SUCCESS, s)
        | Some phones_array \<Rightarrow> parse_phones phones_array s)"

definition new_person :: AMVP_PERSON where
  "new_person = \<lparr>person_url = None, full_name = None, person_phones = [], person_emails = []\<rparr>"

text \<open>A field of a larger object is worked on in place.\<close>

definition in_field ::
  "('a \<Rightarrow> 'b) \<Rightarrow> ('b \<Rightarrow> 'a \<Rightarrow> 'a) \<Rightarrow> ('b \<times> META \<Rightarrow> AMVP_RESULT \<times> ('b \<times> META)) \<Rightarrow> 'a \<times> META \<Rightarrow> AMVP_RESULT \<times> ('a \<times> META)" where
  "in_field get put f s = (let (rv, x, st) = f (get (fst s), snd s) in (rv, (put x (fst s), st)))"

definition parse_contact :: "JSON_Object \<Rightarrow> AMVP_PERSON \<times> META \<Rightarrow> AMVP_RESULT \<times> (AMVP_PERSON \<times> META)" where
  "parse_contact contact_obj s =
     (case json_object_get_string (Some contact_obj) ''fullName'' of
        None \<Rightarrow> (AMVP_JSON_ERR, s)
      | Some name_str \<Rightarrow>
          then_ok (copy_field [AMVP_INVALID_ARG] full_name (\<lambda>v p. p\<lparr>full_name := v\<rparr>) (Some name_str) s) (\<lambda>s1.
          then_ok (in_field person_emails (\<lambda>x p. p\<lparr>person_emails := x\<rparr>) (amvp_oe_metadata_parse_emails contact_obj) s1) (\<lambda>s2.
            in_field person_phones (\<lambda>x p. p\<lparr>person_phones := x\<rparr>) (amvp_oe_metadata_parse_phone_numbers contact_obj) s2)))"

text \<open>The contact is counted before it is read.\<close>

definition add_contact :: "JSON_Value \<Rightarrow> AMVP_VENDOR \<times> META \<Rightarrow> AMVP_RESULT \<times> (AMVP_VENDOR \<times> META)" where
  "add_contact v s =
     (case json_value_get_object (Some v) of
        None \<Rightarrow> (AMVP_JSON_ERR, s)
      | Some contact_obj \<Rightarrow>
          let (rv, p, st1) = parse_contact contact_obj (new_person, snd s)
          in (rv, ((fst s)\<lparr>persons := persons (fst s) @ [p]\<rparr>, st1)))"

primrec parse_contacts :: "JSON_Array \<Rightarrow> AMVP_VENDOR \<times> META \<Rightarrow> AMVP_RESULT \<times> (AMVP_VENDOR \<times> META)" where
  "parse_contacts [] s = (AMVP_SUCCESS, s)"
| "parse_contacts (v # rest) s = then_ok (add_contact v s) (parse_contacts rest)"

definition amvp_oe_metadata_parse_vendor_contacts ::
  "JSON_Object \<Rightarrow> AMVP_VENDOR \<times> META \<Rightarrow> AMVP_RESULT \<times> (AMVP_VENDOR \<times> META)" where
  "amvp_oe_metadata_parse_vendor_contacts obj s =
     (if persons (fst s) \<noteq> [] then (AMVP_INVALID_ARG, s)
      else
        let contacts_array = json_object_get_array (Some obj) ''contacts''; count = json_array_get_count contacts_array in
        if count > LIBAMVP_PERSONS_MAX then (AMVP_JSON_ERR, s)
        else if count = 0 then (AMVP_JSON_ERR, s)
        else parse_contacts (the contacts_array) s)"

definition next_number :: "nat \<Rightarrow> nat" where
  "next_number n = (n + 1) mod 2 ^ 32"

definition amvp_oe_metadata_parse_vendor :: "JSON_Object \<Rightarrow> META \<Rightarrow> AMVP_RESULT \<times> META" where
  "amvp_oe_metadata_parse_vendor obj st =
     (let num = glb_vendor_id st; st0 = st\<lparr>glb_vendor_id := next_number num\<rparr> in
      case json_object_get_string (Some obj) ''name'' of
        None \<Rightarrow> (AMVP_INVALID_ARG, st0)
      | Some name \<Rightarrow>
          then_ok (amvp_oe_vendor_new num (Some name) st0) (\<lambda>st1.
            case find_vendor st1 num of
              None \<Rightarrow> (AMVP_INVALID_ARG, st1)
            | Some i \<Rightarrow>
                on_vendor i (\<lambda>s.
                  then_ok (copy_given website (\<lambda>v e. e\<lparr>website := v\<rparr>) (json_object_get_string (Some obj) ''website'') s) (\<lambda>s1.
                  then_ok (in_field vendor_emails (\<lambda>x e. e\<lparr>vendor_emails := x\<rparr>) (amvp_oe_metadata_parse_emails obj) s1) (\<lambda>s2.
                  then_ok (in_field vendor_phones (\<lambda>x e. e\<lparr>vendor_phones := x\<rparr>) (amvp_oe_metadata_parse_phone_numbers obj) s2) (\<lambda>s3.
                  then_ok (amvp_oe_metadata_parse_vendor_address obj s3)
                    (amvp_oe_metadata_parse_vendor_contacts obj))))) st1))"

text \<open>The elements of an array of objects in turn.\<close>

primrec parse_objects :: "(JSON_Object \<Rightarrow> META \<Rightarrow> AMVP_RESULT \<times> META) \<Rightarrow> JSON_Array \<Rightarrow> META \<Rightarrow> AMVP_RESULT \<times> META" where
  "parse_objects f [] st = (AMVP_SUCCESS, st)"
| "parse_objects f (v # rest) st =
     (case json_value_get_object (Some v) of
        None \<Rightarrow> (AMVP_JSON_ERR, st)
      | Some obj \<Rightarrow> then_ok (f obj st) (parse_objects f rest))"

definition amvp_oe_metadata_parse_vendors :: "JSON_Object \<Rightarrow> META \<Rightarrow> AMVP_RESULT \<times> META" where
  "amvp_oe_metadata_parse_vendors obj st =
     (case json_object_get_array (Some obj) ''vendors'' of
        None \<Rightarrow> (AMVP_JSON_ERR, st)
      | Some vendors_array \<Rightarrow>
          if vendors_array = [] then (AMVP_MALFORMED_JSON, st)
          else parse_objects amvp_oe_metadata_parse_vendor vendors_array st)"

definition amvp_oe_metadata_parse_module :: "JSON_Object \<Rightarrow> META \<Rightarrow> AMVP_RESULT \<times> META" where
  "amvp_oe_metadata_parse_module obj st =
     (let num = glb_module_id st; st0 = st\<lparr>glb_module_id := next_number num\<rparr> in
      case json_object_get_string (Some obj) ''name'' of
        None \<Rightarrow> (AMVP_INVALID_ARG, st0)
      | Some name \<Rightarrow>
          then_ok (module_new num (Some name) st0)
            (module_set_type_version_desc num (json_object_get_string (Some obj) ''type'')
               (json_object_get_string (Some obj) ''version'') (json_object_get_string (Some obj) ''description'')))"

definition amvp_oe_metadata_parse_modules :: "JSON_Object \<Rightarrow> META \<Rightarrow> AMVP_RESULT \<times> META" where
  "amvp_oe_metadata_parse_modules obj st =
     (case json_object_get_array (Some obj) ''modules'' of
        None \<Rightarrow> (AMVP_JSON_ERR, st)
      | Some modules_array \<Rightarrow> parse_objects amvp_oe_metadata_parse_module modules_array st)"

text \<open>Every field but the name is compared; the comparison result is carried along.\<close>

primrec compare_fields :: "(string option \<times> string option) list \<Rightarrow> int \<Rightarrow> bool" where
  "compare_fields [] diff = True"
| "compare_fields (p # rest) diff =
     (case p of
        (Some x, Some y) \<Rightarrow>
          (let diff' = snd (strcmp_s (Some x) AMVP_OE_STR_MAX (Some y) diff)
           in if diff' \<noteq> 0 then False else compare_fields rest diff')
      | (None, None) \<Rightarrow> compare_fields rest diff
      | _ \<Rightarrow> False)"

definition compare_dependencies :: "AMVP_DEPENDENCY \<Rightarrow> AMVP_DEPENDENCY \<Rightarrow> bool" where
  "compare_dependencies a b =
     (if dep_name a = None \<or> dep_name b = None then False
      else compare_fields
        [(dep_type a, dep_type b), (dep_description a, dep_description b), (dep_series a, dep_series b),
         (dep_family a, dep_family b), (dep_version a, dep_version b), (dep_manufacturer a, dep_manufacturer b)] 0)"

text \<open>The number that is returned is that of the argument, not that of the entry that matched.\<close>

definition match_dependency :: "META \<Rightarrow> AMVP_DEPENDENCY \<Rightarrow> nat" where
  "match_dependency st dep =
     (if list_ex (compare_dependencies dep) (dependencies st) then dep_id dep else 0)"

definition set_given :: "DEPENDENCY_FIELD \<Rightarrow> nat \<Rightarrow> string option \<Rightarrow> META \<Rightarrow> AMVP_RESULT \<times> META" where
  "set_given field num v st = (if v = None then (AMVP_SUCCESS, st) else amvp_oe_dependency_set_field field num v st)"

text \<open>The counter goes up only when the new dependency is complete; linking it is not checked.\<close>

definition parse_dependency :: "nat \<Rightarrow> JSON_Object option \<Rightarrow> META \<Rightarrow> AMVP_RESULT \<times> META" where
  "parse_dependency oe_num dep_obj st =
     (let str = json_object_get_string dep_obj;
          type = str ''type''; name = str ''name''; desc = str ''description''; family = str ''family'';
          series = str ''series''; man = str ''manufacturer''; version = str ''version''
      in if type = None \<and> name = None \<and> desc = None then (AMVP_JSON_ERR, st)
         else
           let dep_num = match_dependency st
                 \<lparr>dep_id = 0, dep_url = None, dep_name = name, dep_type = type, dep_description = desc, dep_series = series,
                  dep_family = family, dep_version = version, dep_manufacturer = man\<rparr>
           in if dep_num \<noteq> 0 then (AMVP_SUCCESS, snd (oe_set_dependency oe_num dep_num st))
              else
                let num = glb_dependency_id st in
                then_ok (dependency_new num st) (\<lambda>st1.
                  if find_dependency st1 num = None then (AMVP_INVALID_ARG, st1)
                  else
                    then_ok (set_given DEPENDENCY_FIELD_TYPE num type st1) (\<lambda>st.
                    then_ok (set_given DEPENDENCY_FIELD_NAME num name st) (\<lambda>st.
                    then_ok (set_given DEPENDENCY_FIELD_DESC num desc st) (\<lambda>st.
                    then_ok (set_given DEPENDENCY_FIELD_MAN num man st) (\<lambda>st.
                    then_ok (set_given DEPENDENCY_FIELD_VERSION num version st) (\<lambda>st.
                    then_ok (set_given DEPENDENCY_FIELD_FAMILY num family st) (\<lambda>st.
                    then_ok (set_given DEPENDENCY_FIELD_SERIES num series st) (\<lambda>st.
                      (AMVP_SUCCESS, snd (oe_set_dependency oe_num num (st\<lparr>glb_dependency_id := next_number num\<rparr>))))))))))))"

primrec parse_dependencies :: "nat \<Rightarrow> JSON_Array \<Rightarrow> META \<Rightarrow> AMVP_RESULT \<times> META" where
  "parse_dependencies oe_num [] st = (AMVP_SUCCESS, st)"
| "parse_dependencies oe_num (v # rest) st =
     then_ok (parse_dependency oe_num (json_value_get_object (Some v)) st) (parse_dependencies oe_num rest)"

definition amvp_oe_metadata_parse_oe_dependencies :: "JSON_Object \<Rightarrow> nat \<Rightarrow> META \<Rightarrow> AMVP_RESULT \<times> META" where
  "amvp_oe_metadata_parse_oe_dependencies obj oe_num st =
     (case json_object_get_array (Some obj) ''dependencies'' of
        None \<Rightarrow> (AMVP_JSON_ERR, st)
      | Some deps_array \<Rightarrow>
          if deps_array = [] then (AMVP_JSON_ERR, st) else parse_dependencies oe_num deps_array st)"

definition amvp_oe_metadata_parse_oe :: "JSON_Object \<Rightarrow> META \<Rightarrow> AMVP_RESULT \<times> META" where
  "amvp_oe_metadata_parse_oe obj st =
     (let num = glb_oe_id st; st0 = st\<lparr>glb_oe_id := next_number num\<rparr> in
      case json_object_get_string (Some obj) ''name'' of
        None \<Rightarrow> (AMVP_INVALID_ARG, st0)
      | Some name \<Rightarrow> then_ok (oe_new num (Some name) st0) (amvp_oe_metadata_parse_oe_dependencies obj num))"

definition amvp_oe_metadata_parse_oes :: "JSON_Object \<Rightarrow> META \<Rightarrow> AMVP_RESULT \<times> META" where
  "amvp_oe_metadata_parse_oes obj st =
     (case json_object_get_array (Some obj) ''operating_environments'' of
        None \<Rightarrow> (AMVP_JSON_ERR, st)
      | Some oes_array \<Rightarrow> parse_objects amvp_oe_metadata_parse_oe oes_array st)"

text \<open>The file is read and parsed by a function that is a parameter.\<close>

definition amvp_oe_ingest_metadata ::
  "(string \<Rightarrow> JSON_Value option) \<Rightarrow> META option \<Rightarrow> string option \<Rightarrow> AMVP_RESULT \<times> META option" where
  "amvp_oe_ingest_metadata json_parse_file ost metadata_file =
     with_meta ost (\<lambda>st.
       case metadata_file of
         None \<Rightarrow> (AMVP_MISSING_ARG, st)
       | Some file \<Rightarrow>
           if strnlen_s (Some file) (AMVP_JSON_FILENAME_MAX + 1) > AMVP_JSON_FILENAME_MAX then (AMVP_INVALID_ARG, st)
           else
             case json_parse_file file of
               None \<Rightarrow> (AMVP_JSON_ERR, st)
             | Some val \<Rightarrow>
                 (case json_value_get_object (Some val) of
                    None \<Rightarrow> (AMVP_JSON_ERR, st)
                  | Some obj \<Rightarrow>
                      then_ok (amvp_oe_metadata_parse_vendors obj st) (\<lambda>st1.
                      then_ok (amvp_oe_metadata_parse_modules obj st1) (\<lambda>st2.
                      then_ok (amvp_oe_metadata_parse_oes obj st2) (\<lambda>st3.
                        (AMVP_SUCCESS, st3\<lparr>metadata_loaded := 1\<rparr>))))))"

text \<open>The module is chosen before the environment is looked up.\<close>

definition amvp_oe_set_fips_validation_metadata :: "META option \<Rightarrow> nat \<Rightarrow> nat \<Rightarrow> AMVP_RESULT \<times> META option" where
  "amvp_oe_set_fips_validation_metadata ost mod_num oe_num =
     with_meta ost (\<lambda>st.
       if metadata_loaded st = 0 then (AMVP_INVALID_ARG, st)
       else if mod_num = 0 \<and> oe_num = 0 then (AMVP_INVALID_ARG, st)
       else
         then_ok (if mod_num = 0 then (AMVP_SUCCESS, st)
                  else case find_module st mod_num of
                      None \<Rightarrow> (AMVP_INVALID_ARG, st)
                    | Some i \<Rightarrow> (AMVP_SUCCESS, st\<lparr>fips_module := Some i\<rparr>))
           (\<lambda>st1.
              if oe_num = 0 then (AMVP_SUCCESS, st1)
              else case find_oe st1 oe_num of
                  None \<Rightarrow> (AMVP_INVALID_ARG, st1)
                | Some i \<Rightarrow> (AMVP_SUCCESS, st1\<lparr>fips_oe := Some i\<rparr>)))"

end
