(* ===== verification/Oe_Query.thy ===== *)
theory Oe_Query
  imports Oe_Metadata
begin

text \<open>
  \<^verbatim>\<open>src/amvp_operating_env.c\<close>: looking up the metadata of a validation in the database of the
  server. The dependencies of the operating environment, the environment itself, the vendor and
  the module are each looked for page by page; what is found gets the address the server has it
  under. The request and the parsed answer are parameters. A function that may run forever has
  the result \<^const>\<open>None\<close> then.
\<close>

section \<open>The server\<close>

record 'w server =
  path_segment :: string
  transport_get :: "string \<Rightarrow> AMVP_KV list \<Rightarrow> 'w \<Rightarrow> AMVP_RESULT \<times> 'w"
  answer :: "'w \<Rightarrow> JSON_Value option"

type_synonym 'w meta_net = "META \<times> 'w"

text \<open>A copy into a zeroed buffer: a string that does not fit leaves the buffer empty.\<close>

definition url_copy :: "string \<Rightarrow> string" where
  "url_copy u = (if length u \<le> AMVP_ATTR_URL_MAX then u else [])"

text \<open>A string is duplicated when there is one; what was there before stays otherwise.\<close>

definition dup_given :: "string option \<Rightarrow> string option \<Rightarrow> META \<Rightarrow> string option \<times> META" where
  "dup_given old src st =
     (case src of None \<Rightarrow> (old, st)
      | Some s \<Rightarrow> let (ok, st1) = meta_calloc st in (if ok then Some s else None, st1))"

section \<open>Pages\<close>

text \<open>
  The loop over the objects of a page: an object lets the loop go on, or ends it with a result
  code and whether there was a match.
\<close>

datatype 's scan = Next 's | Done AMVP_RESULT bool 's

primrec scan_data :: "(nat \<Rightarrow> JSON_Object \<Rightarrow> 's \<Rightarrow> 's scan option) \<Rightarrow> nat \<Rightarrow> JSON_Array \<Rightarrow> 's \<Rightarrow> 's scan option" where
  "scan_data f i [] s = Some (Next s)"
| "scan_data f i (v # rest) s =
     (case json_value_get_object (Some v) of
        None \<Rightarrow> Some (Done AMVP_JSON_ERR False s)
      | Some obj \<Rightarrow>
          Option.bind (f i obj s) (\<lambda>r.
            case r of Next s1 \<Rightarrow> scan_data f (Suc i) rest s1 | Done rv found s1 \<Rightarrow> Some (Done rv found s1)))"

definition data_of :: "JSON_Object \<Rightarrow> JSON_Array" where
  "data_of obj = (case json_object_get_array (Some obj) ''data'' of None \<Rightarrow> [] | Some a \<Rightarrow> a)"

text \<open>What a page leads to: a result code, whether there was a match, and the next page.\<close>

type_synonym 'w page = "AMVP_RESULT \<times> bool \<times> string option \<times> 'w meta_net"

definition next_page :: "string \<Rightarrow> JSON_Object \<Rightarrow> 'w meta_net \<Rightarrow> 'w page" where
  "next_page link obj s =
     (case json_object_get_object (Some obj) ''links'' of
        None \<Rightarrow> (AMVP_JSON_ERR, False, None, s)
      | Some links_obj \<Rightarrow>
          (case json_object_get_string (Some links_obj) link of
             None \<Rightarrow> (AMVP_SUCCESS, False, None, s)
           | Some next \<Rightarrow>
               let (ok, st1) = meta_calloc (fst s) in
               if ok then (AMVP_SUCCESS, False, Some (url_copy next), (st1, snd s))
               else (AMVP_MALLOC_FAIL, False, None, (st1, snd s))))"

definition match_page ::
  "'w server \<Rightarrow> string \<Rightarrow> (nat \<Rightarrow> JSON_Object \<Rightarrow> 'x \<times> 'w meta_net \<Rightarrow> ('x \<times> 'w meta_net) scan option) \<Rightarrow> 'x \<Rightarrow> 'w meta_net \<Rightarrow> 'w page option" where
  "match_page srv link f x s =
     (case answer srv (snd s) of
        None \<Rightarrow> Some (AMVP_JSON_ERR, False, None, s)
      | Some val \<Rightarrow>
          (case amvp_get_obj_from_rsp val of
             None \<Rightarrow> Some (AMVP_JSON_ERR, False, None, s)
           | Some obj \<Rightarrow>
               Option.bind (scan_data f 0 (data_of obj) (x, s)) (\<lambda>r.
                 Some (case r of
                         Next (_, s1) \<Rightarrow> next_page link obj s1
                       | Done rv found (_, s1) \<Rightarrow> (rv, found, None, s1)))))"

text \<open>A match: the address of the object is copied into the entry.\<close>

definition take_url :: "(string option \<Rightarrow> META \<Rightarrow> META) \<Rightarrow> JSON_Object \<Rightarrow> 'x \<times> 'w meta_net \<Rightarrow> ('x \<times> 'w meta_net) scan" where
  "take_url put obj = (\<lambda>(x, st, w).
     case json_object_get_string (Some obj) ''url'' of
       None \<Rightarrow> Done AMVP_JSON_ERR False (x, st, w)
     | Some url \<Rightarrow>
         let (ok, st1) = meta_calloc st in
         if ok then Done AMVP_SUCCESS True (x, put (Some (url_copy url)) st1, w)
         else Done AMVP_MALLOC_FAIL False (x, put None st1, w))"

text \<open>
  Asking for page after page, until a match, an error or a page with no successor. The
  parameters go with the first request only.
\<close>

partial_function (option) query_pages ::
  "'w server \<Rightarrow> ('w meta_net \<Rightarrow> 'w page option) \<Rightarrow> string \<Rightarrow> AMVP_KV list \<Rightarrow> 'w meta_net \<Rightarrow> (AMVP_RESULT \<times> 'w meta_net) option" where
  "query_pages srv matches endpoint parameters s =
     (case transport_get srv endpoint parameters (snd s) of
        (rv, w1) \<Rightarrow>
          if rv \<noteq> AMVP_SUCCESS then Some (rv, (fst s, w1))
          else Option.bind (matches (fst s, w1)) (\<lambda>(rv1, found, next, s1).
            if rv1 \<noteq> AMVP_SUCCESS \<or> found then Some (rv1, s1)
            else case next of
                None \<Rightarrow> Some (rv1, s1)
              | Some endpoint1 \<Rightarrow> query_pages srv matches endpoint1 [] s1))"

text \<open>The parameters of the first request, one key and value after the other.\<close>

definition kv_add :: "string \<Rightarrow> string option \<Rightarrow> AMVP_KV list \<times> META \<Rightarrow> AMVP_RESULT \<times> (AMVP_KV list \<times> META)" where
  "kv_add key v s =
     (case amvp_kv_list_append (\<lambda>k. allocs (snd s) (alloc_n (snd s) + k)) (Some (fst s)) (Some key) v of
        (rv, l) \<Rightarrow> (rv, (the l, (snd s)\<lparr>alloc_n := alloc_n (snd s) + 3\<rparr>)))"

primrec kv_all :: "(string \<times> string option) list \<Rightarrow> AMVP_KV list \<times> META \<Rightarrow> AMVP_RESULT \<times> (AMVP_KV list \<times> META)" where
  "kv_all [] s = (AMVP_SUCCESS, s)"
| "kv_all (p # rest) s = then_ok (kv_add (fst p) (snd p) s) (kv_all rest)"

definition kv_given :: "string \<Rightarrow> string option \<Rightarrow> (string \<times> string option) list" where
  "kv_given key v = (if v = None then [] else [(key, v)])"

definition first_endpoint :: "'w server \<Rightarrow> string \<Rightarrow> string" where
  "first_endpoint srv table = take (AMVP_ATTR_URL_MAX - 1) (path_segment srv @ table)"

definition query_entry ::
  "'w server \<Rightarrow> string \<Rightarrow> (string \<times> string option) list \<Rightarrow> ('w meta_net \<Rightarrow> 'w page option) \<Rightarrow> string option \<Rightarrow> 'w meta_net \<Rightarrow>
   (AMVP_RESULT \<times> 'w meta_net) option" where
  "query_entry srv table params matches endpoint s =
     (case endpoint of
        Some e \<Rightarrow> query_pages srv matches e [] s
      | None \<Rightarrow>
          let (ok, st1) = meta_calloc (fst s) in
          if \<not> ok then Some (AMVP_MALLOC_FAIL, (st1, snd s))
          else case kv_all params ([], st1) of
              (rv, parameters, st2) \<Rightarrow>
                if rv \<noteq> AMVP_SUCCESS then Some (rv, (st2, snd s))
                else query_pages srv matches (first_endpoint srv table) parameters (st2, snd s))"

section \<open>Dependencies\<close>

text \<open>
  The object of the page is copied into a temporary entry. Type, name and description are
  cleared after each object; the other fields keep what an earlier object had.
\<close>

definition tmp_dependency :: "JSON_Object \<Rightarrow> AMVP_DEPENDENCY \<Rightarrow> META \<Rightarrow> AMVP_DEPENDENCY \<times> META" where
  "tmp_dependency obj tmp st =
     (let str = json_object_get_string (Some obj);
          (a, st) = dup_given (dep_type tmp) (str ''type'') st;
          (b, st) = dup_given (dep_name tmp) (str ''name'') st;
          (c, st) = dup_given (dep_description tmp) (str ''description'') st;
          (d, st) = dup_given (dep_series tmp) (str ''series'') st;
          (e, st) = dup_given (dep_family tmp) (str ''family'') st;
          (f, st) = dup_given (dep_version tmp) (str ''version'') st;
          (g, st) = dup_given (dep_manufacturer tmp) (str ''manufacturer'') st
      in (tmp\<lparr>dep_type := a, dep_name := b, dep_description := c, dep_series := d, dep_family := e, dep_version := f,
            dep_manufacturer := g\<rparr>, st))"

definition set_dep_url :: "nat \<Rightarrow> string option \<Rightarrow> META \<Rightarrow> META" where
  "set_dep_url i u st = st\<lparr>dependencies := (dependencies st)[i := (dependencies st ! i)\<lparr>dep_url := u\<rparr>]\<rparr>"

definition match_dependency_object ::
  "nat \<Rightarrow> nat \<Rightarrow> JSON_Object \<Rightarrow> AMVP_DEPENDENCY \<times> 'w meta_net \<Rightarrow> (AMVP_DEPENDENCY \<times> 'w meta_net) scan option" where
  "match_dependency_object dep i obj = (\<lambda>(tmp, st, w).
     let (tmp1, st1) = tmp_dependency obj tmp st in
     if compare_dependencies (dependencies st1 ! dep) tmp1 then Some (take_url (set_dep_url dep) obj (tmp1, st1, w))
     else Some (Next (tmp1\<lparr>dep_type := None, dep_name := None, dep_description := None\<rparr>, st1, w)))"

definition match_dependencies_page :: "'w server \<Rightarrow> nat \<Rightarrow> 'w meta_net \<Rightarrow> 'w page option" where
  "match_dependencies_page srv dep = match_page srv ''next'' (match_dependency_object dep) (new_dependency 0)"

definition query_dependency :: "'w server \<Rightarrow> nat \<Rightarrow> string option \<Rightarrow> 'w meta_net \<Rightarrow> (AMVP_RESULT \<times> 'w meta_net) option" where
  "query_dependency srv dep endpoint s =
     (let d = dependencies (fst s) ! dep in
      if dep_url d \<noteq> None then Some (AMVP_SUCCESS, s)
      else query_entry srv ''dependencies?''
        (kv_given ''type[0]=eq:'' (dep_type d) @ kv_given ''name[0]=eq:'' (dep_name d) @
         kv_given ''description[0]=eq:'' (dep_description d))
        (match_dependencies_page srv dep) endpoint s)"

text \<open>All dependencies of an environment in turn; whether one exists, and whether one does not.\<close>

primrec query_dependencies ::
  "'w server \<Rightarrow> nat list \<Rightarrow> bool \<Rightarrow> AMVP_RESOURCE_STATUS \<Rightarrow> 'w meta_net \<Rightarrow> (AMVP_RESULT \<times> bool \<times> AMVP_RESOURCE_STATUS \<times> 'w meta_net) option" where
  "query_dependencies srv [] all_incomplete status s = Some (AMVP_SUCCESS, all_incomplete, status, s)"
| "query_dependencies srv (dep # rest) all_incomplete status s =
     Option.bind (query_dependency srv dep None s) (\<lambda>(rv, s1).
       if rv \<noteq> AMVP_SUCCESS then Some (rv, all_incomplete, status, s1)
       else if dep_url (dependencies (fst s1) ! dep) = None
         then query_dependencies srv rest all_incomplete AMVP_RESOURCE_STATUS_PARTIAL s1
         else query_dependencies srv rest False status s1)"

definition set_oe_status :: "nat \<Rightarrow> AMVP_RESOURCE_STATUS \<Rightarrow> META \<Rightarrow> META" where
  "set_oe_status i status st = st\<lparr>oes := (oes st)[i := (oes st ! i)\<lparr>oe_status := status\<rparr>]\<rparr>"

definition verify_fips_oe_dependencies :: "'w server \<Rightarrow> nat \<Rightarrow> 'w meta_net \<Rightarrow> (AMVP_RESULT \<times> 'w meta_net) option" where
  "verify_fips_oe_dependencies srv oe s =
     Option.bind (query_dependencies srv (oe_deps (oes (fst s) ! oe)) True AMVP_RESOURCE_STATUS_COMPLETE s)
       (\<lambda>(rv, all_incomplete, status, st, w).
          Some (rv, set_oe_status oe
            (if rv = AMVP_SUCCESS \<and> all_incomplete then AMVP_RESOURCE_STATUS_INCOMPLETE else status) st, w))"

section \<open>Operating environments\<close>

text \<open>The addresses of the dependencies have to be those of the object, in the same order.\<close>

primrec same_urls :: "META \<Rightarrow> nat list \<Rightarrow> JSON_Array \<Rightarrow> nat \<Rightarrow> bool" where
  "same_urls st [] urls k = True"
| "same_urls st (dep # rest) urls k =
     (case json_array_get_string (Some urls) k of
        None \<Rightarrow> same_urls st rest urls (Suc k)
      | Some parsed_url \<Rightarrow>
          if snd (strcmp_s (dep_url (dependencies st ! dep)) AMVP_ATTR_URL_MAX (Some parsed_url) 0) \<noteq> 0 then False
          else same_urls st rest urls (Suc k))"

definition set_oe_url :: "nat \<Rightarrow> string option \<Rightarrow> META \<Rightarrow> META" where
  "set_oe_url i u st = st\<lparr>oes := (oes st)[i := (oes st ! i)\<lparr>oe_url := u\<rparr>]\<rparr>"

definition match_oe_object :: "nat \<Rightarrow> nat \<Rightarrow> JSON_Object \<Rightarrow> unit \<times> 'w meta_net \<Rightarrow> (unit \<times> 'w meta_net) scan option" where
  "match_oe_object oe i obj s =
     (case json_object_get_array (Some obj) ''dependencyUrls'' of
        None \<Rightarrow> Some (Done AMVP_JSON_ERR False s)
      | Some urls \<Rightarrow>
          let st = fst (snd s); deps = oe_deps (oes st ! oe) in
          if length deps \<noteq> length urls then Some (Next s)
          else if same_urls st deps urls 0 then Some (take_url (set_oe_url oe) obj s)
          else Some (Next s))"

definition match_oes_page :: "'w server \<Rightarrow> nat \<Rightarrow> 'w meta_net \<Rightarrow> 'w page option" where
  "match_oes_page srv oe = match_page srv ''next'' (match_oe_object oe) ()"

definition query_oe :: "'w server \<Rightarrow> nat \<Rightarrow> string option \<Rightarrow> 'w meta_net \<Rightarrow> (AMVP_RESULT \<times> 'w meta_net) option" where
  "query_oe srv oe endpoint s =
     (let e = oes (fst s) ! oe in
      if oe_url e \<noteq> None then Some (AMVP_SUCCESS, s)
      else query_entry srv ''oes?'' (kv_given ''name[0]=eq:'' (oe_name e)) (match_oes_page srv oe) endpoint s)"

definition verify_fips_oe :: "'w server \<Rightarrow> nat \<Rightarrow> 'w meta_net \<Rightarrow> (AMVP_RESULT \<times> 'w meta_net) option" where
  "verify_fips_oe srv oe s =
     Option.bind (verify_fips_oe_dependencies srv oe s) (\<lambda>(rv, s1).
       if rv \<noteq> AMVP_SUCCESS then Some (rv, s1)
       else if list_ex (\<lambda>dep. dep_url (dependencies (fst s1) ! dep) = None) (oe_deps (oes (fst s1) ! oe)) then Some (AMVP_SUCCESS, s1)
       else query_oe srv oe None s1)"

section \<open>Vendors\<close>

text \<open>
  The loop that counts the addresses goes from the list to its second element, and then to the
  second element again.
\<close>

partial_function (option) count_emails :: "string option list \<Rightarrow> string option list \<Rightarrow> nat \<Rightarrow> nat option" where
  "count_emails email_list tmp_ptr email_list_len =
     (if tmp_ptr = [] then Some email_list_len
      else count_emails email_list (tl email_list) ((email_list_len + 1) mod 2 ^ 64))"

primrec same_emails :: "string option list \<Rightarrow> JSON_Array \<Rightarrow> nat \<Rightarrow> bool" where
  "same_emails [] cand i = True"
| "same_emails (email # rest) cand i =
     (case json_array_get_string (Some cand) i of
        None \<Rightarrow> same_emails rest cand (Suc i)
      | Some tmp_email \<Rightarrow>
          if snd (strcmp_s email AMVP_OE_STR_MAX (Some tmp_email) 0) \<noteq> 0 then False else same_emails rest cand (Suc i))"

definition compare_emails :: "string option list \<Rightarrow> JSON_Array \<Rightarrow> bool \<Rightarrow> (AMVP_RESULT \<times> bool) option" where
  "compare_emails email_list cand equal =
     (if email_list = [] then Some (AMVP_INVALID_ARG, equal)
      else Option.bind (count_emails email_list email_list 0) (\<lambda>n.
        if n \<noteq> length cand then Some (AMVP_SUCCESS, False) else Some (AMVP_SUCCESS, same_emails email_list cand 0)))"

text \<open>A number or a type that the object does not have is not compared.\<close>

definition same_string :: "string option \<Rightarrow> string option \<Rightarrow> bool" where
  "same_string own given = (given = None \<or> snd (strcmp_s own AMVP_OE_STR_MAX given 0) = 0)"

primrec same_phones :: "AMVP_OE_PHONE list \<Rightarrow> JSON_Array \<Rightarrow> nat \<Rightarrow> AMVP_RESULT \<times> bool" where
  "same_phones [] cand i = (AMVP_SUCCESS, True)"
| "same_phones (p # rest) cand i =
     (case json_array_get_object (Some cand) i of
        None \<Rightarrow> (AMVP_JSON_ERR, True)
      | Some obj \<Rightarrow>
          if \<not> same_string (phone_number p) (json_object_get_string (Some obj) ''number'') then (AMVP_SUCCESS, False)
          else if \<not> same_string (phone_type p) (json_object_get_string (Some obj) ''type'') then (AMVP_SUCCESS, False)
          else same_phones rest cand (Suc i))"

definition compare_phone_numbers :: "AMVP_OE_PHONE list \<Rightarrow> JSON_Array \<Rightarrow> bool \<Rightarrow> AMVP_RESULT \<times> bool" where
  "compare_phone_numbers phone_list cand equal =
     (if phone_list = [] \<and> cand = [] then (AMVP_SUCCESS, True)
      else if phone_list = [] then (AMVP_INVALID_ARG, equal)
      else if length phone_list \<noteq> length cand then (AMVP_SUCCESS, False)
      else same_phones phone_list cand 0)"

definition same_address :: "AMVP_VENDOR_ADDRESS \<Rightarrow> JSON_Object \<Rightarrow> bool" where
  "same_address a obj =
     (let str = json_object_get_string (Some obj) in
      compare_fields
        [(street_1 a, str ''street1''), (street_2 a, str ''street2''), (street_3 a, str ''street3''),
         (locality a, str ''locality''), (region a, str ''region''), (country a, str ''country''),
         (postal_code a, str ''postalCode'')] 0)"

text \<open>An address without a location of its own does not count; one that was found before is overwritten.\<close>

definition match_address_object ::
  "nat \<Rightarrow> JSON_Object \<Rightarrow> AMVP_VENDOR_ADDRESS \<times> META \<Rightarrow> (AMVP_VENDOR_ADDRESS \<times> META) scan option" where
  "match_address_object i obj = (\<lambda>(a, st).
     if \<not> same_address a obj then Some (Next (a, st))
     else case json_object_get_string (Some obj) ''url'' of
         None \<Rightarrow> Some (Next (a, st))
       | Some url \<Rightarrow>
           let (ok, st1) = (if addr_url a \<noteq> None then (True, st) else meta_calloc st) in
           if ok then Some (Done AMVP_SUCCESS True (a\<lparr>addr_url := Some (url_copy url)\<rparr>, st1))
           else Some (Done AMVP_MALLOC_FAIL False (a, st1)))"

definition compare_vendor_address ::
  "AMVP_VENDOR_ADDRESS \<Rightarrow> JSON_Array \<Rightarrow> META \<Rightarrow> (AMVP_RESULT \<times> bool \<times> AMVP_VENDOR_ADDRESS \<times> META) option" where
  "compare_vendor_address a cand st =
     Option.bind (scan_data match_address_object 0 cand (a, st)) (\<lambda>r.
       Some (case r of Next s \<Rightarrow> (AMVP_SUCCESS, False, s) | Done rv found s \<Rightarrow> (rv, found, s)))"

text \<open>A contact of the vendor and an object of the page; a match without an address ends the search.\<close>

definition match_contact_object ::
  "nat \<Rightarrow> JSON_Object \<Rightarrow> AMVP_PERSON \<times> META \<Rightarrow> (AMVP_PERSON \<times> META) scan option" where
  "match_contact_object i obj = (\<lambda>(p, st).
     case json_object_get_string (Some obj) ''fullName'' of
       None \<Rightarrow> Some (Done AMVP_JSON_ERR False (p, st))
     | Some name \<Rightarrow>
         if snd (strcmp_s (full_name p) AMVP_OE_STR_MAX (Some name) 0) \<noteq> 0 then Some (Next (p, st))
         else
           case json_object_get_array (Some obj) ''emails'' of
             None \<Rightarrow> Some (Done AMVP_JSON_ERR False (p, st))
           | Some emails \<Rightarrow>
               Option.bind (compare_emails (person_emails p) emails True) (\<lambda>(rv, equal).
                 if rv \<noteq> AMVP_SUCCESS then Some (Done rv False (p, st))
                 else if \<not> equal then Some (Next (p, st))
                 else
                   case (case json_object_get_array (Some obj) ''phoneNumbers'' of
                           None \<Rightarrow> (AMVP_SUCCESS, True)
                         | Some phones \<Rightarrow> compare_phone_numbers (person_phones p) phones equal) of
                     (rv1, equal1) \<Rightarrow>
                       if rv1 \<noteq> AMVP_SUCCESS then Some (Done rv1 False (p, st))
                       else if \<not> equal1 then Some (Next (p, st))
                       else
                         let (ok, st1) = (if person_url p \<noteq> None then (True, st) else meta_calloc st) in
                         if \<not> ok then Some (Done AMVP_MALLOC_FAIL False (p, st1))
                         else case json_object_get_string (Some obj) ''url'' of
                             None \<Rightarrow> Some (Done AMVP_SUCCESS False (p\<lparr>person_url := Some []\<rparr>, st1))
                           | Some url \<Rightarrow> Some (Done AMVP_SUCCESS True (p\<lparr>person_url := Some (url_copy url)\<rparr>, st1))))"

text \<open>All contacts of the vendor, until one is not found.\<close>

primrec match_contacts ::
  "JSON_Array \<Rightarrow> AMVP_PERSON list \<Rightarrow> META \<Rightarrow> (AMVP_RESULT \<times> bool \<times> AMVP_PERSON list \<times> META) option" where
  "match_contacts data [] st = Some (AMVP_SUCCESS, True, [], st)"
| "match_contacts data (p # rest) st =
     Option.bind (scan_data match_contact_object 0 data (p, st)) (\<lambda>r.
       case r of
         Next (p1, st1) \<Rightarrow> Some (AMVP_SUCCESS, False, p1 # rest, st1)
       | Done rv found (p1, st1) \<Rightarrow>
           if rv \<noteq> AMVP_SUCCESS \<or> \<not> found then Some (rv, False, p1 # rest, st1)
           else Option.bind (match_contacts data rest st1) (\<lambda>(rv2, m, rest2, st2). Some (rv2, m, p1 # rest2, st2)))"

definition query_vendor_contacts ::
  "'w server \<Rightarrow> AMVP_PERSON list \<Rightarrow> string option \<Rightarrow> 'w meta_net \<Rightarrow> (AMVP_RESULT \<times> bool \<times> AMVP_PERSON list \<times> 'w meta_net) option" where
  "query_vendor_contacts srv ps endpoint s =
     (case endpoint of
        None \<Rightarrow> Some (AMVP_SUCCESS, ps = [], ps, s)
      | Some e \<Rightarrow>
          (case transport_get srv e [] (snd s) of
             (rv, w1) \<Rightarrow>
               if rv \<noteq> AMVP_SUCCESS then Some (rv, False, ps, (fst s, w1))
               else case answer srv w1 of
                   None \<Rightarrow> Some (AMVP_JSON_ERR, False, ps, (fst s, w1))
                 | Some val \<Rightarrow>
                     (case amvp_get_obj_from_rsp val of
                        None \<Rightarrow> Some (AMVP_JSON_ERR, False, ps, (fst s, w1))
                      | Some obj \<Rightarrow>
                          Option.bind (match_contacts (data_of obj) ps (fst s)) (\<lambda>(rv2, m, ps2, st2).
                            Some (rv2, m, ps2, (st2, w1))))))"

definition set_vendor :: "nat \<Rightarrow> (AMVP_VENDOR \<Rightarrow> AMVP_VENDOR) \<Rightarrow> META \<Rightarrow> META" where
  "set_vendor i f st = st\<lparr>vendors := (vendors st)[i := f (vendors st ! i)]\<rparr>"

text \<open>The result code of the query for the contacts is not looked at.\<close>

definition match_vendor_contacts ::
  "'w server \<Rightarrow> nat \<Rightarrow> JSON_Object \<Rightarrow> unit \<times> 'w meta_net \<Rightarrow> (unit \<times> 'w meta_net) scan option" where
  "match_vendor_contacts srv vendor obj = (\<lambda>(x, s).
     Option.bind (query_vendor_contacts srv (persons (vendors (fst s) ! vendor)) (json_object_get_string (Some obj) ''contactsUrl'') s)
       (\<lambda>(rv, equal, ps, st, w).
          let s1 = (set_vendor vendor (\<lambda>v. v\<lparr>persons := ps\<rparr>) st, w) in
          if \<not> equal then Some (Next (x, s1))
          else Some (take_url (\<lambda>u. set_vendor vendor (\<lambda>v. v\<lparr>vendor_url := u\<rparr>)) obj (x, s1))))"

definition match_vendor_address ::
  "'w server \<Rightarrow> nat \<Rightarrow> JSON_Object \<Rightarrow> unit \<times> 'w meta_net \<Rightarrow> (unit \<times> 'w meta_net) scan option" where
  "match_vendor_address srv vendor obj = (\<lambda>(x, s).
     case json_object_get_array (Some obj) ''addresses'' of
       None \<Rightarrow> Some (Done AMVP_JSON_ERR False (x, s))
     | Some addresses \<Rightarrow>
         Option.bind (compare_vendor_address (address (vendors (fst s) ! vendor)) addresses (fst s)) (\<lambda>(rv, equal, a, st).
           let s1 = (set_vendor vendor (\<lambda>v. v\<lparr>address := a\<rparr>) st, snd s) in
           if rv \<noteq> AMVP_SUCCESS then Some (Done rv False (x, s1))
           else if \<not> equal then Some (Next (x, s1))
           else match_vendor_contacts srv vendor obj (x, s1)))"

definition match_vendor_object ::
  "'w server \<Rightarrow> nat \<Rightarrow> nat \<Rightarrow> JSON_Object \<Rightarrow> unit \<times> 'w meta_net \<Rightarrow> (unit \<times> 'w meta_net) scan option" where
  "match_vendor_object srv vendor i obj s =
     (let v = vendors (fst (snd s)) ! vendor in
      case json_object_get_array (Some obj) ''emails'' of
        None \<Rightarrow> Some (Done AMVP_JSON_ERR False s)
      | Some emails \<Rightarrow>
          Option.bind (compare_emails (vendor_emails v) emails True) (\<lambda>(rv, equal).
            if rv \<noteq> AMVP_SUCCESS then Some (Done rv False s)
            else if \<not> equal then Some (Next s)
            else
              case (case json_object_get_array (Some obj) ''phoneNumbers'' of
                      None \<Rightarrow> (AMVP_SUCCESS, True)
                    | Some phones \<Rightarrow> compare_phone_numbers (vendor_phones v) phones equal) of
                (rv1, equal1) \<Rightarrow>
                  if rv1 \<noteq> AMVP_SUCCESS then Some (Done rv1 False s)
                  else if \<not> equal1 then Some (Next s)
                  else match_vendor_address srv vendor obj s))"

definition match_vendors_page :: "'w server \<Rightarrow> nat \<Rightarrow> 'w meta_net \<Rightarrow> 'w page option" where
  "match_vendors_page srv vendor = match_page srv ''nextPage'' (match_vendor_object srv vendor) ()"

definition query_vendor :: "'w server \<Rightarrow> nat option \<Rightarrow> string option \<Rightarrow> 'w meta_net \<Rightarrow> (AMVP_RESULT \<times> 'w meta_net) option" where
  "query_vendor srv vendor endpoint s =
     (case vendor of
        None \<Rightarrow> Some (AMVP_INVALID_ARG, s)
      | Some i \<Rightarrow>
          let v = vendors (fst s) ! i in
          if vendor_url v \<noteq> None then Some (AMVP_SUCCESS, s)
          else query_entry srv ''vendors?''
            (kv_given ''name[0]=eq:'' (vendor_name v) @ kv_given ''website[0]=eq:'' (website v) @
             (if vendor_emails v = [] then [] else [(''email[0]=eq:'', hd (vendor_emails v))]))
            (match_vendors_page srv i) endpoint s)"

section \<open>Modules\<close>

primrec compare_urls :: "(string option \<times> string option) list \<Rightarrow> bool" where
  "compare_urls [] = True"
| "compare_urls (p # rest) =
     (if fst p = None \<or> snd p = None then False
      else if snd (strcmp_s (fst p) AMVP_ATTR_URL_MAX (snd p) 0) \<noteq> 0 then False
      else compare_urls rest)"

text \<open>A module together with its vendor; every text and address has to be there on both sides.\<close>

definition compare_modules :: "AMVP_MODULE \<times> AMVP_VENDOR \<Rightarrow> AMVP_MODULE \<times> AMVP_VENDOR \<Rightarrow> bool" where
  "compare_modules = (\<lambda>(a, av) (b, bv).
     if list_ex (\<lambda>x. x = None) [mod_type a, mod_name a, mod_description a, mod_version a, vendor_url av, addr_url (address av)] then False
     else if list_ex (\<lambda>x. x = None) [mod_type b, mod_name b, mod_description b, mod_version b, vendor_url bv, addr_url (address bv)] then False
     else if \<not> compare_fields [(mod_type a, mod_type b), (mod_name a, mod_name b), (mod_version a, mod_version b),
       (mod_description a, mod_description b)] 0 then False
     else if \<not> compare_urls [(vendor_url av, vendor_url bv), (addr_url (address av), addr_url (address bv))] then False
     else compare_urls (zip (map person_url (persons av)) (map person_url (persons bv))))"

text \<open>
  The temporary contacts: the address is taken at the place of the module on the page, not at
  that of the contact.
\<close>

primrec tmp_contacts :: "nat \<Rightarrow> JSON_Array \<Rightarrow> nat \<Rightarrow> META \<Rightarrow> AMVP_PERSON list \<times> META" where
  "tmp_contacts 0 urls i st = ([], st)"
| "tmp_contacts (Suc k) urls i st =
     (let (u, st1) = dup_given None (json_array_get_string (Some urls) i) st; (ps, st2) = tmp_contacts k urls i st1
      in (new_person\<lparr>person_url := u\<rparr> # ps, st2))"

definition tmp_module :: "JSON_Object \<Rightarrow> META \<Rightarrow> (AMVP_MODULE \<times> AMVP_VENDOR) \<times> META" where
  "tmp_module obj st =
     (let str = json_object_get_string (Some obj); v = new_vendor 0;
          (a, st) = dup_given None (str ''type'') st;
          (b, st) = dup_given None (str ''name'') st;
          (c, st) = dup_given None (str ''version'') st;
          (d, st) = dup_given None (str ''description'') st;
          (e, st) = dup_given None (str ''vendorUrl'') st;
          (f, st) = dup_given None (str ''addressUrl'') st
      in (((new_module 0)\<lparr>mod_type := a, mod_name := b, mod_version := c, mod_description := d\<rparr>,
           v\<lparr>vendor_url := e, address := (address v)\<lparr>addr_url := f\<rparr>\<rparr>), st))"

definition set_mod_url :: "nat \<Rightarrow> string option \<Rightarrow> META \<Rightarrow> META" where
  "set_mod_url i u st = st\<lparr>modules := (modules st)[i := (modules st ! i)\<lparr>mod_url := u\<rparr>]\<rparr>"

definition match_module_object ::
  "nat \<Rightarrow> nat \<Rightarrow> nat \<Rightarrow> JSON_Object \<Rightarrow> unit \<times> 'w meta_net \<Rightarrow> (unit \<times> 'w meta_net) scan option" where
  "match_module_object module vendor i obj = (\<lambda>(x, st, w).
     let ((tm, tv), st1) = tmp_module obj st in
     case json_object_get_array (Some obj) ''contactUrls'' of
       None \<Rightarrow> Some (Done AMVP_JSON_ERR False (x, st1, w))
     | Some urls \<Rightarrow>
         if length urls \<noteq> length (persons (vendors st1 ! vendor)) \<or> length urls > LIBAMVP_PERSONS_MAX then Some (Next (x, st1, w))
         else
           let (ps, st2) = tmp_contacts (length urls) urls i st1 in
           if compare_modules (modules st2 ! module, vendors st2 ! vendor) (tm, tv\<lparr>persons := ps\<rparr>)
           then Some (take_url (set_mod_url module) obj (x, st2, w))
           else Some (Next (x, st2, w)))"

definition match_modules_page :: "'w server \<Rightarrow> nat \<Rightarrow> nat \<Rightarrow> 'w meta_net \<Rightarrow> 'w page option" where
  "match_modules_page srv module vendor s =
     (if answer srv (snd s) = None then Some (AMVP_JSON_ERR, False, None, s)
      else
        let (ok1, st1) = meta_calloc (fst s) in
        if \<not> ok1 then Some (AMVP_MALLOC_FAIL, False, None, (st1, snd s))
        else
          let (ok2, st2) = meta_calloc st1 in
          if \<not> ok2 then Some (AMVP_MALLOC_FAIL, False, None, (st2, snd s))
          else match_page srv ''nextPage'' (match_module_object module vendor) () (st2, snd s))"

text \<open>From slash to slash; the last one is kept, or the beginning where there is none.\<close>

function last_slash :: "string \<Rightarrow> string \<Rightarrow> string" where
  "last_slash ptr ptr_old =
     (case dropWhile (\<lambda>c. c \<noteq> CHR ''/'') ptr of [] \<Rightarrow> ptr_old | c # rest \<Rightarrow> last_slash rest (c # rest))"
  by pat_completeness auto

termination
proof (relation "measure (\<lambda>(ptr, _). length ptr)")
  fix ptr ptr_old :: string and c rest
  assume "dropWhile (\<lambda>c. c \<noteq> CHR ''/'') ptr = c # rest"
  then have "Suc (length rest) \<le> length ptr" by (metis length_Cons length_dropWhile_le)
  then show "((rest, c # rest), ptr, ptr_old) \<in> measure (\<lambda>(ptr, _). length ptr)" by simp
qed simp

text \<open>What comes after that place; an empty address lies in a zeroed buffer.\<close>

definition vendor_id_of :: "string \<Rightarrow> string" where
  "vendor_id_of url = tl (last_slash url url)"

definition query_module :: "'w server \<Rightarrow> nat \<Rightarrow> nat \<Rightarrow> string option \<Rightarrow> 'w meta_net \<Rightarrow> (AMVP_RESULT \<times> 'w meta_net) option" where
  "query_module srv module vendor endpoint s =
     (let m = modules (fst s) ! module in
      if mod_url m \<noteq> None then Some (AMVP_SUCCESS, s)
      else query_entry srv ''modules?''
        (kv_given ''name[0]=eq:'' (mod_name m) @ kv_given ''type[0]=eq:'' (mod_type m) @
         kv_given ''version[0]=eq:'' (mod_version m) @ kv_given ''description[0]=eq:'' (mod_description m) @
         [(''vendorId[0]=eq:'', map_option vendor_id_of (vendor_url (vendors (fst s) ! vendor)))])
        (match_modules_page srv module vendor) endpoint s)"

text \<open>
  Where there is no vendor the query refuses, and its number is then read through the null
  pointer for the message.
\<close>

definition verify_fips_module :: "'w server \<Rightarrow> nat \<Rightarrow> 'w meta_net \<Rightarrow> 'w meta_net outcome option" where
  "verify_fips_module srv module s =
     Option.bind (query_vendor srv (mod_vendor (modules (fst s) ! module)) None s) (\<lambda>(rv, s1).
       case mod_vendor (modules (fst s1) ! module) of
         None \<Rightarrow> Some (UB Null_Deref)
       | Some vendor \<Rightarrow>
           if rv \<noteq> AMVP_SUCCESS then Some (Ret rv s1)
           else if vendor_url (vendors (fst s1) ! vendor) = None then Some (Ret AMVP_INVALID_ARG s1)
           else Option.bind (query_module srv module vendor None s1) (\<lambda>(rv2, s2). Some (Ret rv2 s2)))"

definition amvp_verify_fips_validation_metadata :: "'w server \<Rightarrow> 'w meta_net option \<Rightarrow> 'w meta_net option outcome option" where
  "amvp_verify_fips_validation_metadata srv os =
     (case os of
        None \<Rightarrow> Some (Ret AMVP_NO_CTX None)
      | Some s \<Rightarrow>
          (case (fips_module (fst s), fips_oe (fst s)) of
             (Some module, Some oe) \<Rightarrow>
               Option.bind (verify_fips_module srv module s) (\<lambda>r.
                 case r of
                   UB u \<Rightarrow> Some (UB u)
                 | Ret rv s1 \<Rightarrow>
                     if rv \<noteq> AMVP_SUCCESS then Some (Ret rv (Some s1))
                     else Option.bind (verify_fips_oe srv oe s1) (\<lambda>(rv2, s2). Some (Ret rv2 (Some s2))))
           | _ \<Rightarrow> Some (Ret AMVP_UNSUPPORTED_OP (Some s))))"

section \<open>The validation message\<close>

text \<open>\<^verbatim>\<open>src/amvp_build_register.c\<close>: a text that is missing is left out, also where it is set without a test.\<close>

definition dependency_object :: "AMVP_DEPENDENCY \<Rightarrow> JSON_Value" where
  "dependency_object d = JSONObject
     (json_object_set_string ''manufacturer'' (dep_manufacturer d)
     (json_object_set_string ''series'' (dep_series d)
     (json_object_set_string ''family'' (dep_family d)
     (json_object_set_string ''version'' (dep_version d)
     (json_object_set_string ''description'' (dep_description d)
     (json_object_set_string ''name'' (dep_name d)
     (json_object_set_string ''type'' (dep_type d) [])))))))"

primrec string_array :: "string option list \<Rightarrow> JSON_Array" where
  "string_array [] = []"
| "string_array (s # rest) = (case s of None \<Rightarrow> [] | Some x \<Rightarrow> [JSONString x]) @ string_array rest"

definition oe_object :: "AMVP_DEPENDENCY list \<Rightarrow> AMVP_OE \<Rightarrow> JSON_Object" where
  "oe_object deps e =
     (let obj0 = json_object_set_string ''name'' (oe_name e) [];
          obj1 = (if oe_status e \<in> {AMVP_RESOURCE_STATUS_COMPLETE, AMVP_RESOURCE_STATUS_PARTIAL}
                  then json_object_set_value ''dependencyUrls'' (Some (JSONArray (string_array (map dep_url deps)))) obj0 else obj0)
      in if oe_status e \<in> {AMVP_RESOURCE_STATUS_INCOMPLETE, AMVP_RESOURCE_STATUS_PARTIAL}
         then json_object_set_value ''dependencies''
                (Some (JSONArray (map dependency_object (filter (\<lambda>d. dep_url d = None) deps)))) obj1
         else obj1)"

definition module_object :: "AMVP_MODULE \<Rightarrow> AMVP_VENDOR \<Rightarrow> JSON_Object" where
  "module_object m v =
     json_object_set_value ''contactUrls'' (Some (JSONArray (string_array (map person_url (persons v)))))
     (json_object_set_string ''addressUrl'' (addr_url (address v))
     (json_object_set_string ''vendorUrl'' (vendor_url v)
     (json_object_set_string ''description'' (mod_description m)
     (json_object_set_string ''type'' (mod_type m)
     (json_object_set_string ''version'' (mod_version m)
     (json_object_set_string ''name'' (mod_name m) []))))))"

definition validation_oe :: "META \<Rightarrow> AMVP_OE \<Rightarrow> JSON_Object \<Rightarrow> JSON_Object" where
  "validation_oe st e obj =
     (if oe_url e \<noteq> None then json_object_set_string ''oeUrl'' (oe_url e) obj
      else json_object_set_value ''oe'' (Some (JSONObject (oe_object (map (\<lambda>i. dependencies st ! i) (oe_deps e)) e))) obj)"

definition amvp_build_validation :: "META option \<Rightarrow> JSON_Value option outcome" where
  "amvp_build_validation ost =
     (case ost of
        None \<Rightarrow> Ret AMVP_NO_CTX None
      | Some st \<Rightarrow>
          (case (fips_oe st, fips_module st) of
             (Some oe, Some module) \<Rightarrow>
               let obj = validation_oe st (oes st ! oe) []; m = modules st ! module in
               if mod_url m \<noteq> None
               then Ret AMVP_SUCCESS (Some (JSONArray [JSONObject (json_object_set_string ''moduleUrl'' (mod_url m) obj)]))
               else case mod_vendor m of
                   None \<Rightarrow> UB Null_Deref
                 | Some v \<Rightarrow>
                     Ret AMVP_SUCCESS (Some (JSONArray
                       [JSONObject (json_object_set_value ''module'' (Some (JSONObject (module_object m (vendors st ! v)))) obj)]))
           | _ \<Rightarrow> UB Null_Deref))"

end
