(* ===== verification/Oe_Props.thy ===== *)
theory Oe_Props
  imports Oe_Query
begin

text \<open>
  The invariant of the metadata and what loading a file does: the tables stay within their
  sizes, numbers are unique, every link leads to an entry, strings fit their buffers.
\<close>

section \<open>The invariant\<close>

definition short :: "string option \<Rightarrow> bool" where
  "short s = pred_option (\<lambda>x. length x \<le> AMVP_OE_STR_MAX) s"

definition url_fits :: "string option \<Rightarrow> bool" where
  "url_fits u = pred_option (\<lambda>x. length x \<le> AMVP_ATTR_URL_MAX) u"

definition short_phone :: "AMVP_OE_PHONE \<Rightarrow> bool" where
  "short_phone p \<longleftrightarrow> short (phone_number p) \<and> short (phone_type p)"

definition short_address :: "AMVP_VENDOR_ADDRESS \<Rightarrow> bool" where
  "short_address a \<longleftrightarrow> list_all short [street_1 a, street_2 a, street_3 a, locality a, region a, country a, postal_code a] \<and>
     url_fits (addr_url a)"

definition person_ok :: "AMVP_PERSON \<Rightarrow> bool" where
  "person_ok p \<longleftrightarrow> url_fits (person_url p) \<and> short (full_name p) \<and> list_all short (person_emails p) \<and> list_all short_phone (person_phones p)"

definition vendor_texts :: "AMVP_VENDOR \<Rightarrow> bool" where
  "vendor_texts v \<longleftrightarrow> url_fits (vendor_url v) \<and> short (vendor_name v) \<and> short (website v) \<and> list_all short (vendor_emails v) \<and>
     list_all short_phone (vendor_phones v) \<and> short_address (address v) \<and> list_all person_ok (persons v)"

definition vendor_ok :: "AMVP_VENDOR \<Rightarrow> bool" where
  "vendor_ok v \<longleftrightarrow> vendor_texts v \<and> length (persons v) \<le> LIBAMVP_PERSONS_MAX"

definition module_ok :: "AMVP_VENDOR list \<Rightarrow> AMVP_MODULE \<Rightarrow> bool" where
  "module_ok vs m \<longleftrightarrow> list_all short [mod_name m, mod_type m, mod_version m, mod_description m] \<and> url_fits (mod_url m) \<and>
     pred_option (\<lambda>i. i < length vs \<and> vendor_id (vs ! i) = mod_id m) (mod_vendor m)"

definition dependency_ok :: "AMVP_DEPENDENCY \<Rightarrow> bool" where
  "dependency_ok d \<longleftrightarrow> list_all short [dep_name d, dep_type d, dep_description d, dep_series d, dep_family d, dep_version d, dep_manufacturer d] \<and>
     url_fits (dep_url d)"

definition oe_ok :: "nat \<Rightarrow> AMVP_OE \<Rightarrow> bool" where
  "oe_ok n e \<longleftrightarrow> short (oe_name e) \<and> url_fits (oe_url e) \<and> list_all (\<lambda>i. i < n) (oe_deps e) \<and> length (oe_deps e) \<le> LIBAMVP_DEPENDENCIES_MAX"

definition numbered :: "('a \<Rightarrow> nat) \<Rightarrow> nat \<Rightarrow> 'a list \<Rightarrow> bool" where
  "numbered key most l \<longleftrightarrow> length l \<le> most \<and> distinct (map key l) \<and> 0 \<notin> set (map key l)"

definition meta_inv :: "META \<Rightarrow> bool" where
  "meta_inv st \<longleftrightarrow>
     (numbered vendor_id LIBAMVP_VENDORS_MAX (vendors st) \<and> list_all vendor_ok (vendors st)) \<and>
     (numbered mod_id LIBAMVP_MODULES_MAX (modules st) \<and> list_all (module_ok (vendors st)) (modules st)) \<and>
     (numbered dep_id LIBAMVP_DEPENDENCIES_MAX (dependencies st) \<and> list_all dependency_ok (dependencies st)) \<and>
     (numbered oe_id LIBAMVP_OES_MAX (oes st) \<and> list_all (oe_ok (length (dependencies st))) (oes st)) \<and>
     pred_option (\<lambda>i. i < length (modules st)) (fips_module st) \<and>
     pred_option (\<lambda>i. i < length (oes st)) (fips_oe st)"

section \<open>Working on one entry\<close>

text \<open>A function on one entry keeps a property of it and changes nothing else but what memory is left.\<close>

definition part_ok :: "('a \<Rightarrow> bool) \<Rightarrow> ('a \<times> META \<Rightarrow> AMVP_RESULT \<times> ('a \<times> META)) \<Rightarrow> bool" where
  "part_ok P f \<longleftrightarrow>
     (\<forall>x st rv x' st'. P x \<longrightarrow> f (x, st) = (rv, x', st') \<longrightarrow> P x' \<and> (\<exists>n. st' = st\<lparr>alloc_n := n\<rparr>))"

named_theorems part_intros \<open>rules for functions on one entry\<close>

lemma part_okI:
  "(\<And>x st rv x' st'. P x \<Longrightarrow> f (x, st) = (rv, x', st') \<Longrightarrow> P x' \<and> (\<exists>n. st' = st\<lparr>alloc_n := n\<rparr>)) \<Longrightarrow> part_ok P f"
  by (simp add: part_ok_def)

lemma part_okD:
  "part_ok P f \<Longrightarrow> f (x, st) = (rv, x', st') \<Longrightarrow> P x \<Longrightarrow> P x' \<and> (\<exists>n. st' = st\<lparr>alloc_n := n\<rparr>)"
  by (auto simp: part_ok_def)

lemma same_alloc: "\<exists>n. (st::META) = st\<lparr>alloc_n := n\<rparr>"
  by (rule exI [of _ "alloc_n st"]) (cases st, simp)

lemma part_return [part_intros]: "part_ok P (\<lambda>s. (rv, s))"
  unfolding part_ok_def using same_alloc by blast

lemma part_if [part_intros]:
  assumes f: "part_ok P f" and g: "part_ok P g"
  shows "part_ok P (\<lambda>s. if b s then f s else g s)"
proof (rule part_okI)
  fix x st rv x' st' assume x: "P x" and r: "(if b (x, st) then f (x, st) else g (x, st)) = (rv, x', st')"
  show "P x' \<and> (\<exists>n. st' = st\<lparr>alloc_n := n\<rparr>)"
  proof (cases "b (x, st)")
    case True
    with r have "f (x, st) = (rv, x', st')" by simp
    from part_okD [OF f this x] show ?thesis .
  next
    case False
    with r have "g (x, st) = (rv, x', st')" by simp
    from part_okD [OF g this x] show ?thesis .
  qed
qed

lemma part_case [part_intros]:
  "part_ok P f \<Longrightarrow> (\<And>y. part_ok P (g y)) \<Longrightarrow> part_ok P (\<lambda>s. case v of None \<Rightarrow> f s | Some y \<Rightarrow> g y s)"
  by (cases v) simp_all

lemma part_then [part_intros]:
  assumes f: "part_ok P f" and g: "part_ok P g"
  shows "part_ok P (\<lambda>s. then_ok (f s) g)"
proof (rule part_okI)
  fix x st rv x' st' assume x: "P x" and r: "then_ok (f (x, st)) g = (rv, x', st')"
  obtain rv1 x1 st1 where f1: "f (x, st) = (rv1, x1, st1)" by (metis prod_cases3)
  note fD = part_okD [OF f f1 x]
  show "P x' \<and> (\<exists>n. st' = st\<lparr>alloc_n := n\<rparr>)"
  proof (cases "rv1 = AMVP_SUCCESS")
    case True
    with r f1 have "g (x1, st1) = (rv, x', st')" by (simp add: then_ok_def)
    from part_okD [OF g this] fD show ?thesis by auto
  qed (use r f1 fD in \<open>simp add: then_ok_def\<close>)
qed

lemma copy_oe_string_short:
  assumes "copy_oe_string dest src st = (rv, v, st')" and "short dest"
  shows "short v" "\<exists>n. st' = st\<lparr>alloc_n := n\<rparr>"
  using assms
  by (auto simp: copy_oe_string_def short_def meta_calloc_def string_fits_iff intro: same_alloc split: option.splits if_splits)

lemma part_copy [part_intros]:
  assumes "\<And>x. P x \<Longrightarrow> short (get x)" and "\<And>x v. P x \<Longrightarrow> short v \<Longrightarrow> P (put v x)"
  shows "part_ok P (copy_field reported get put src)"
proof (rule part_okI)
  fix x st rv x' st' assume x: "P x" and r: "copy_field reported get put src (x, st) = (rv, x', st')"
  obtain rv1 v st1 where c: "copy_oe_string (get x) src st = (rv1, v, st1)" by (metis prod_cases3)
  from copy_oe_string_short [OF c assms(1) [OF x]] assms(2) [OF x] r c show "P x' \<and> (\<exists>n. st' = st\<lparr>alloc_n := n\<rparr>)"
    by (auto simp: copy_field_def)
qed

lemma part_field:
  assumes "part_ok Q f" and "\<And>x. P x \<Longrightarrow> Q (get x)" and "\<And>x y. P x \<Longrightarrow> Q y \<Longrightarrow> P (put y x)"
  shows "part_ok P (in_field get put f)"
proof (rule part_okI)
  fix x st rv x' st' assume x: "P x" and r: "in_field get put f (x, st) = (rv, x', st')"
  obtain rv1 y st1 where c: "f (get x, st) = (rv1, y, st1)" by (metis prod_cases3)
  from part_okD [OF assms(1) c assms(2) [OF x]] assms(3) [OF x] r c show "P x' \<and> (\<exists>n. st' = st\<lparr>alloc_n := n\<rparr>)"
    by (auto simp: in_field_def)
qed

text \<open>The loops over addresses, telephone numbers and contacts.\<close>

lemma part_loop:
  assumes "\<And>v. part_ok P (f v)" and "\<And>s. g [] s = (AMVP_SUCCESS, s)" and "\<And>v l s. g (v # l) s = then_ok (f v s) (g l)"
  shows "part_ok P (g l)"
proof (induction l)
  case Nil
  have "g [] = (\<lambda>s. (AMVP_SUCCESS, s))" by (rule ext) (rule assms(2))
  then show ?case by (simp add: part_return)
next
  case (Cons v l)
  have "g (v # l) = (\<lambda>s. then_ok (f v s) (g l))" by (rule ext) (rule assms(3))
  then show ?case by (simp add: part_then [OF assms(1) Cons.IH])
qed

lemma short_None [simp]: "short None" "url_fits None"
  by (simp_all add: short_def url_fits_def)

lemma meta_calloc_frame: "meta_calloc st = (ok, st') \<Longrightarrow> \<exists>n. st' = st\<lparr>alloc_n := n\<rparr>"
  by (auto simp: meta_calloc_def)

lemma parse_email_part: "part_ok (list_all short) (parse_email v)"
proof (rule part_okI)
  fix l st rv l' st' assume l: "list_all short l" and r: "parse_email v (l, st) = (rv, l', st')"
  obtain ok st1 where a: "meta_calloc st = (ok, st1)" by (metis surj_pair)
  obtain n where n: "st1 = st\<lparr>alloc_n := n\<rparr>" using meta_calloc_frame [OF a] by blast
  show "list_all short l' \<and> (\<exists>n. st' = st\<lparr>alloc_n := n\<rparr>)"
  proof (cases "json_value_get_string (Some v)")
    case None
    with r l same_alloc show ?thesis by (simp add: parse_email_def)
  next
    case (Some e)
    obtain rv1 x st2 where c: "copy_oe_string None (Some e) st1 = (rv1, x, st2)" by (metis prod_cases3)
    from copy_oe_string_short [OF c] n r l a c Some show ?thesis by (auto simp: parse_email_def split: if_splits)
  qed
qed

lemma parse_emails_part: "part_ok (list_all short) (parse_emails l)"
  by (rule part_loop [OF parse_email_part]) simp_all

lemma parse_phone_part: "part_ok (list_all short_phone) (parse_phone v)"
proof (rule part_okI)
  fix l st rv l' st' assume l: "list_all short_phone l" and r: "parse_phone v (l, st) = (rv, l', st')"
  obtain ok st1 where a: "meta_calloc st = (ok, st1)" by (metis surj_pair)
  obtain n where n: "st1 = st\<lparr>alloc_n := n\<rparr>" using meta_calloc_frame [OF a] by blast
  have skip: "list_all short_phone l \<and> (\<exists>n. st = st\<lparr>alloc_n := n\<rparr>)" using l same_alloc by blast
  show "list_all short_phone l' \<and> (\<exists>n. st' = st\<lparr>alloc_n := n\<rparr>)"
  proof (cases "\<exists>obj num ty. json_value_get_object (Some v) = Some obj \<and> json_object_get_string (Some obj) ''number'' = Some num \<and>
      json_object_get_string (Some obj) ''type'' = Some ty")
    case False
    then have "l' = l \<and> st' = st" using r by (auto simp: parse_phone_def split: option.splits)
    with skip show ?thesis by simp
  next
    case True
    then obtain obj num ty where o: "json_value_get_object (Some v) = Some obj" "json_object_get_string (Some obj) ''number'' = Some num"
      "json_object_get_string (Some obj) ''type'' = Some ty" by blast
    obtain rv1 x st2 where c: "copy_oe_string None (Some num) st1 = (rv1, x, st2)" by (metis prod_cases3)
    obtain rv2 y st3 where d: "copy_oe_string None (Some ty) st2 = (rv2, y, st3)" by (metis prod_cases3)
    from copy_oe_string_short [OF c] copy_oe_string_short [OF d] n r l a c d o show ?thesis
      by (auto simp: parse_phone_def short_phone_def split: if_splits)
  qed
qed

lemma parse_phones_part: "part_ok (list_all short_phone) (parse_phones l)"
  by (rule part_loop [OF parse_phone_part]) simp_all

lemma metadata_emails_part: "part_ok (list_all short) (amvp_oe_metadata_parse_emails obj)"
  unfolding amvp_oe_metadata_parse_emails_def by (intro part_intros parse_emails_part)

lemma metadata_phones_part: "part_ok (list_all short_phone) (amvp_oe_metadata_parse_phone_numbers obj)"
  unfolding amvp_oe_metadata_parse_phone_numbers_def by (intro part_intros parse_phones_part)

lemmas field_parts [part_intros] = part_field [OF metadata_emails_part] part_field [OF metadata_phones_part]

lemma parse_contact_part: "part_ok person_ok (parse_contact obj)"
  unfolding parse_contact_def by (intro part_intros) (auto simp: person_ok_def)

abbreviation (input) numbered_vendor :: "nat \<Rightarrow> AMVP_VENDOR \<Rightarrow> bool" where
  "numbered_vendor n v \<equiv> vendor_id v = n \<and> vendor_texts v"

lemma add_contact_part: "part_ok (numbered_vendor n) (add_contact v)"
proof (rule part_okI)
  fix x st rv x' st' assume x: "numbered_vendor n x" and r: "add_contact v (x, st) = (rv, x', st')"
  show "numbered_vendor n x' \<and> (\<exists>n. st' = st\<lparr>alloc_n := n\<rparr>)"
  proof (cases "json_value_get_object (Some v)")
    case None
    with r x same_alloc show ?thesis by (simp add: add_contact_def)
  next
    case (Some obj)
    obtain rv1 p st1 where c: "parse_contact obj (new_person, st) = (rv1, p, st1)" by (metis prod_cases3)
    have "person_ok new_person" by (simp add: person_ok_def new_person_def)
    from part_okD [OF parse_contact_part c this] r c x Some show ?thesis by (auto simp: add_contact_def vendor_texts_def)
  qed
qed

lemma parse_contacts_part: "part_ok (numbered_vendor n) (parse_contacts l)"
  by (rule part_loop [OF add_contact_part]) simp_all

lemma parse_contacts_count:
  "parse_contacts l (x, st) = (rv, x', st') \<Longrightarrow> length (persons x') \<le> length (persons x) + length l"
proof (induction l arbitrary: x st)
  case (Cons v l)
  obtain rv1 y st1 where a: "add_contact v (x, st) = (rv1, y, st1)" by (metis prod_cases3)
  have y: "length (persons y) \<le> length (persons x) + 1"
    using a by (auto simp: add_contact_def split: option.splits prod.splits)
  show ?case
  proof (cases "rv1 = AMVP_SUCCESS")
    case True
    with Cons.prems a have "parse_contacts l (y, st1) = (rv, x', st')" by (simp add: then_ok_def)
    from Cons.IH [OF this] y show ?thesis by simp
  next
    case False
    with Cons.prems a y show ?thesis by (simp add: then_ok_def)
  qed
qed simp

abbreviation (input) full_vendor :: "nat \<Rightarrow> AMVP_VENDOR \<Rightarrow> bool" where
  "full_vendor n v \<equiv> vendor_id v = n \<and> vendor_ok v"

lemma vendor_contacts_part [part_intros]: "part_ok (full_vendor n) (amvp_oe_metadata_parse_vendor_contacts obj)"
proof (rule part_okI)
  fix x st rv x' st'
  assume x: "full_vendor n x" and r: "amvp_oe_metadata_parse_vendor_contacts obj (x, st) = (rv, x', st')"
  show "full_vendor n x' \<and> (\<exists>n. st' = st\<lparr>alloc_n := n\<rparr>)"
  proof (cases "\<exists>l. persons x = [] \<and> length l \<le> 8 \<and> parse_contacts l (x, st) = (rv, x', st')")
    case True
    then obtain l where l: "persons x = []" "length l \<le> 8" "parse_contacts l (x, st) = (rv, x', st')" by blast
    from part_okD [OF parse_contacts_part l(3)] x parse_contacts_count [OF l(3)] l(1,2) show ?thesis
      by (auto simp: vendor_ok_def)
  next
    case False
    then have "x' = x \<and> st' = st"
      using r by (auto simp: amvp_oe_metadata_parse_vendor_contacts_def json_array_get_count_def Let_def split: if_splits option.splits)
    with x same_alloc show ?thesis by simp
  qed
qed

lemma vendor_address_part [part_intros]: "part_ok (full_vendor n) (amvp_oe_metadata_parse_vendor_address obj)"
  unfolding amvp_oe_metadata_parse_vendor_address_def amvp_oe_vendor_add_address_def Let_def
  by (intro part_intros) (auto simp: vendor_ok_def vendor_texts_def short_address_def)

section \<open>Every operation keeps the invariant\<close>

definition meta_ok :: "(META \<Rightarrow> AMVP_RESULT \<times> META) \<Rightarrow> bool" where
  "meta_ok f \<longleftrightarrow> (\<forall>st. meta_inv st \<longrightarrow> meta_inv (snd (f st)))"

named_theorems meta_intros \<open>rules for operations that keep the invariant\<close>

lemma meta_okD: "meta_ok f \<Longrightarrow> meta_inv st \<Longrightarrow> meta_inv (snd (f st))"
  by (simp add: meta_ok_def)

lemma meta_then [meta_intros]: "meta_ok f \<Longrightarrow> meta_ok g \<Longrightarrow> meta_ok (\<lambda>st. then_ok (f st) g)"
  by (simp add: meta_ok_def then_ok_def)

lemma meta_return [meta_intros]: "meta_ok (\<lambda>st. (rv, st))"
  by (simp add: meta_ok_def)

lemma meta_case [meta_intros]:
  "meta_ok f \<Longrightarrow> (\<And>y. meta_ok (g y)) \<Longrightarrow> meta_ok (\<lambda>st. case v of None \<Rightarrow> f st | Some y \<Rightarrow> g y st)"
  by (cases v) simp_all

lemma meta_if [meta_intros]: "meta_ok f \<Longrightarrow> meta_ok g \<Longrightarrow> meta_ok (\<lambda>st. if b st then f st else g st)"
  by (simp add: meta_ok_def)

lemma meta_objects [meta_intros]:
  assumes "\<And>obj. meta_ok (f obj)"
  shows "meta_ok (parse_objects f l)"
proof (induction l)
  case (Cons v l)
  then have "meta_ok (\<lambda>st. case json_value_get_object (Some v) of None \<Rightarrow> (AMVP_JSON_ERR, st)
      | Some obj \<Rightarrow> then_ok (f obj st) (parse_objects f l))"
    by (intro meta_intros assms)
  then show ?case by (simp add: meta_ok_def)
qed (simp add: meta_ok_def)

lemma position_Some: "position p l = Some i \<Longrightarrow> i < length l \<and> p (l ! i)"
  by (induction l arbitrary: i) (auto split: if_splits)

lemma find_id_Some: "find_id key num l = Some i \<Longrightarrow> i < length l \<and> key (l ! i) = num"
  by (auto simp: find_id_def split: if_splits dest: position_Some)

lemma numbered_append:
  "numbered key m l \<Longrightarrow> length l \<noteq> m \<Longrightarrow> key x \<noteq> 0 \<Longrightarrow> \<not> list_ex (\<lambda>y. key y = key x) l \<Longrightarrow> numbered key m (l @ [x])"
  by (auto simp: numbered_def list_ex_iff)

lemma numbered_update: "numbered key m l \<Longrightarrow> key x = key (l ! i) \<Longrightarrow> numbered key m (l[i := x])"
proof -
  assume n: "numbered key m l" and x: "key x = key (l ! i)"
  have "map key (l[i := x]) = map key l"
    by (cases "i < length l") (simp_all add: map_update x list_update_same_conv list_update_beyond)
  with n show ?thesis by (simp add: numbered_def)
qed

lemma list_all_update: "list_all P l \<Longrightarrow> P x \<Longrightarrow> list_all P (l[i := x])"
  by (auto simp: list_all_iff dest!: set_update_subset_insert [THEN subsetD])

lemma meta_inv_alloc [simp]: "meta_inv (st\<lparr>alloc_n := n\<rparr>) \<longleftrightarrow> meta_inv st"
  by (simp add: meta_inv_def)

lemma on_dependency_ok:
  assumes "meta_inv st" and "i < length (dependencies st)"
    and "part_ok (\<lambda>d. dep_id d = dep_id (dependencies st ! i) \<and> dependency_ok d) f"
  shows "meta_inv (snd (on_dependency i f st))"
proof -
  obtain rv d st1 where f: "f (dependencies st ! i, st) = (rv, d, st1)" by (metis prod_cases3)
  have "dependency_ok (dependencies st ! i)" using assms(1,2) by (simp add: meta_inv_def list_all_length)
  then obtain n where d: "dep_id d = dep_id (dependencies st ! i)" "dependency_ok d" "st1 = st\<lparr>alloc_n := n\<rparr>"
    using part_okD [OF assms(3) f] by auto
  then show ?thesis
    using assms(1) by (simp add: on_dependency_def f meta_inv_def numbered_update list_all_update)
qed

lemma on_oe_ok:
  assumes "meta_inv st" and "i < length (oes st)"
    and "part_ok (\<lambda>d. oe_id d = oe_id (oes st ! i) \<and> oe_ok (length (dependencies st)) d) f"
  shows "meta_inv (snd (on_oe i f st))"
proof -
  obtain rv d st1 where f: "f (oes st ! i, st) = (rv, d, st1)" by (metis prod_cases3)
  have "oe_ok (length (dependencies st)) (oes st ! i)" using assms(1,2) by (simp add: meta_inv_def list_all_length)
  then obtain n where d: "oe_id d = oe_id (oes st ! i)" "oe_ok (length (dependencies st)) d" "st1 = st\<lparr>alloc_n := n\<rparr>"
    using part_okD [OF assms(3) f] by auto
  then show ?thesis
    using assms(1) by (simp add: on_oe_def f meta_inv_def numbered_update list_all_update)
qed

lemma on_module_ok:
  assumes "meta_inv st" and "i < length (modules st)"
    and "part_ok (\<lambda>d. mod_id d = mod_id (modules st ! i) \<and> module_ok (vendors st) d) f"
  shows "meta_inv (snd (on_module i f st))"
proof -
  obtain rv d st1 where f: "f (modules st ! i, st) = (rv, d, st1)" by (metis prod_cases3)
  have "module_ok (vendors st) (modules st ! i)" using assms(1,2) by (simp add: meta_inv_def list_all_length)
  then obtain n where d: "mod_id d = mod_id (modules st ! i)" "module_ok (vendors st) d" "st1 = st\<lparr>alloc_n := n\<rparr>"
    using part_okD [OF assms(3) f] by auto
  then show ?thesis
    using assms(1) by (simp add: on_module_def f meta_inv_def numbered_update list_all_update)
qed

text \<open>The vendors keep their numbers and places, so the modules keep their vendors.\<close>

lemma module_ok_vendor: "module_ok vs m \<Longrightarrow> vendor_id v = vendor_id (vs ! i) \<Longrightarrow> module_ok (vs[i := v]) m"
  by (cases "i < length vs") (auto simp: module_ok_def nth_list_update list_update_beyond option.pred_set)

lemma on_vendor_ok:
  assumes "meta_inv st" and "i < length (vendors st)" and "part_ok (full_vendor (vendor_id (vendors st ! i))) f"
  shows "meta_inv (snd (on_vendor i f st))"
proof -
  obtain rv d st1 where f: "f (vendors st ! i, st) = (rv, d, st1)" by (metis prod_cases3)
  have "vendor_ok (vendors st ! i)" using assms(1,2) by (simp add: meta_inv_def list_all_length)
  then obtain n where d: "vendor_id d = vendor_id (vendors st ! i)" "vendor_ok d" "st1 = st\<lparr>alloc_n := n\<rparr>"
    using part_okD [OF assms(3) f] by auto
  moreover have "list_all (module_ok ((vendors st)[i := d])) (modules st)"
    using assms(1) module_ok_vendor [OF _ d(1)] by (simp add: meta_inv_def list_all_iff)
  ultimately show ?thesis
    using assms(1) by (simp add: on_vendor_def f meta_inv_def numbered_update list_all_update)
qed

lemma new_entries_ok [simp]:
  "dependency_ok (new_dependency num)" "oe_ok n (new_oe num)" "vendor_ok (new_vendor num)" "module_ok vs (new_module num)"
  "dep_id (new_dependency num) = num" "oe_id (new_oe num) = num" "vendor_id (new_vendor num) = num" "mod_id (new_module num) = num"
  by (simp_all add: dependency_ok_def new_dependency_def oe_ok_def new_oe_def vendor_ok_def vendor_texts_def new_vendor_def
      short_address_def module_ok_def new_module_def)

lemma oe_ok_mono: "oe_ok n e \<Longrightarrow> n \<le> m \<Longrightarrow> oe_ok m e"
  by (auto simp: oe_ok_def list_all_iff)

lemma module_ok_more: "module_ok vs m \<Longrightarrow> module_ok (vs @ [v]) m"
  by (auto simp: module_ok_def nth_append option.pred_set)

text \<open>A fresh entry at the end of each table.\<close>

lemma add_dependency_inv:
  assumes "meta_inv st" and "length (dependencies st) \<noteq> LIBAMVP_DEPENDENCIES_MAX" and "num \<noteq> 0"
    and "\<not> list_ex (\<lambda>d. dep_id d = num) (dependencies st)"
  shows "meta_inv (st\<lparr>dependencies := dependencies st @ [new_dependency num]\<rparr>)"
proof -
  have "list_all (oe_ok (Suc (length (dependencies st)))) (oes st)"
    using assms(1) by (auto simp: meta_inv_def list_all_iff intro: oe_ok_mono)
  then show ?thesis using assms by (simp add: meta_inv_def numbered_append)
qed

lemma add_oe_inv:
  assumes "meta_inv st" and "length (oes st) \<noteq> LIBAMVP_OES_MAX" and "num \<noteq> 0" and "\<not> list_ex (\<lambda>d. oe_id d = num) (oes st)"
  shows "meta_inv (st\<lparr>oes := oes st @ [new_oe num]\<rparr>)"
  using assms by (auto simp: meta_inv_def numbered_append option.pred_set)

lemma add_vendor_inv:
  assumes "meta_inv st" and "length (vendors st) \<noteq> LIBAMVP_VENDORS_MAX" and "num \<noteq> 0"
    and "\<not> list_ex (\<lambda>d. vendor_id d = num) (vendors st)"
  shows "meta_inv (st\<lparr>vendors := vendors st @ [new_vendor num]\<rparr>)"
proof -
  have "list_all (module_ok (vendors st @ [new_vendor num])) (modules st)"
    using assms(1) by (auto simp: meta_inv_def list_all_iff intro: module_ok_more)
  then show ?thesis using assms by (simp add: meta_inv_def numbered_append)
qed

lemma add_module_inv:
  assumes "meta_inv st" and "length (modules st) \<noteq> LIBAMVP_MODULES_MAX" and "num \<noteq> 0"
    and "\<not> list_ex (\<lambda>d. mod_id d = num) (modules st)"
  shows "meta_inv (st\<lparr>modules := modules st @ [new_module num]\<rparr>)"
  using assms by (auto simp: meta_inv_def numbered_append option.pred_set)

lemma dependency_new_ok [meta_intros]: "meta_ok (dependency_new num)"
  by (auto simp: meta_ok_def dependency_new_def intro: add_dependency_inv)

lemma put_dep_field_ok:
  "dependency_ok d \<Longrightarrow> short (get_dep_field field d)"
  "dependency_ok d \<Longrightarrow> short v \<Longrightarrow> dependency_ok (put_dep_field field v d)"
  "dep_id (put_dep_field field v d) = dep_id d"
  by (cases field; simp add: dependency_ok_def)+

lemma dependency_set_field_ok [meta_intros]: "meta_ok (amvp_oe_dependency_set_field field num v)"
  unfolding meta_ok_def amvp_oe_dependency_set_field_def find_dependency_def
  by (auto split: option.split dest!: find_id_Some intro!: on_dependency_ok part_copy simp: put_dep_field_ok)

lemma oe_new_ok [meta_intros]: "meta_ok (oe_new num name)"
  unfolding meta_ok_def oe_new_def
  by (auto intro!: on_oe_ok add_oe_inv part_copy simp: oe_ok_def)

lemma oe_set_dependency_ok [meta_intros]: "meta_ok (oe_set_dependency oe_num dep_num)"
proof (unfold meta_ok_def, intro allI impI)
  fix st assume st: "meta_inv st"
  show "meta_inv (snd (oe_set_dependency oe_num dep_num st))"
  proof (cases "find_oe st oe_num")
    case (Some i)
    show ?thesis
    proof (cases "find_dependency st dep_num")
      case dep: (Some j)
      have i: "i < length (oes st)" and j: "j < length (dependencies st)"
        using Some dep by (auto simp: find_oe_def find_dependency_def dest: find_id_Some)
      then have "oe_ok (length (dependencies st)) (oes st ! i)" using st by (simp add: meta_inv_def list_all_length)
      then have "oe_ok (length (dependencies st)) ((oes st ! i)\<lparr>oe_deps := oe_deps (oes st ! i) @ [j]\<rparr>)"
        if "length (oe_deps (oes st ! i)) \<noteq> 64" using that j by (simp add: oe_ok_def)
      then show ?thesis
        using st by (simp add: oe_set_dependency_def Some dep meta_inv_def numbered_update list_all_update)
    qed (use st in \<open>simp add: oe_set_dependency_def Some\<close>)
  qed (use st in \<open>simp add: oe_set_dependency_def\<close>)
qed

lemma vendor_new_ok [meta_intros]: "meta_ok (amvp_oe_vendor_new num name)"
  unfolding meta_ok_def amvp_oe_vendor_new_def
  by (auto intro!: on_vendor_ok add_vendor_inv part_copy simp: vendor_ok_def vendor_texts_def)

lemma module_texts_part:
  "part_ok (\<lambda>m. mod_id m = num \<and> module_ok vs m) (copy_field reported mod_name (\<lambda>v e. e\<lparr>mod_name := v\<rparr>) src)"
  "part_ok (\<lambda>m. mod_id m = num \<and> module_ok vs m) (copy_field reported mod_type (\<lambda>v e. e\<lparr>mod_type := v\<rparr>) src)"
  "part_ok (\<lambda>m. mod_id m = num \<and> module_ok vs m) (copy_field reported mod_version (\<lambda>v e. e\<lparr>mod_version := v\<rparr>) src)"
  "part_ok (\<lambda>m. mod_id m = num \<and> module_ok vs m) (copy_field reported mod_description (\<lambda>v e. e\<lparr>mod_description := v\<rparr>) src)"
  by (rule part_copy; auto simp: module_ok_def)+

lemma part_first: "part_ok P f \<Longrightarrow> (\<And>x. P x \<Longrightarrow> P (g x)) \<Longrightarrow> part_ok P (\<lambda>(x, s). f (g x, s))"
  by (rule part_okI) (auto dest!: part_okD)

lemma module_new_ok [meta_intros]: "meta_ok (module_new num name)"
proof (unfold meta_ok_def, intro allI impI)
  fix st assume st: "meta_inv st"
  let ?st = "st\<lparr>modules := modules st @ [new_module num]\<rparr>"
  show "meta_inv (snd (module_new num name st))"
  proof (cases "length (modules st) \<noteq> 32 \<and> num \<noteq> 0 \<and> \<not> list_ex (\<lambda>e. mod_id e = num) (modules st)")
    case True
    then have new: "meta_inv ?st" using add_module_inv [OF st] by blast
    show ?thesis
    proof (cases "find_vendor ?st num")
      case (Some i)
      then have "i < length (vendors st)" "vendor_id (vendors st ! i) = num" by (auto simp: find_vendor_def dest: find_id_Some)
      then have "part_ok (\<lambda>m. mod_id m = num \<and> module_ok (vendors st) m)
        (\<lambda>(e, s). copy_field [AMVP_INVALID_ARG, AMVP_MISSING_ARG] mod_name (\<lambda>v e. e\<lparr>mod_name := v\<rparr>) name (e\<lparr>mod_vendor := Some i\<rparr>, s))"
        by (intro part_first module_texts_part) (auto simp: module_ok_def)
      with on_module_ok [OF new, of "length (modules st)"] Some True show ?thesis by (simp add: module_new_def Let_def)
    qed (use new True in \<open>simp add: module_new_def Let_def\<close>)
  qed (use st in \<open>auto simp: module_new_def\<close>)
qed

lemma module_set_ok [meta_intros]: "meta_ok (module_set_type_version_desc num type version description)"
  unfolding meta_ok_def module_set_type_version_desc_def find_module_def
  by (auto split: option.split dest!: find_id_Some intro!: on_module_ok part_intros module_texts_part)

text \<open>The counters take no part in the invariant.\<close>

lemma meta_inv_counters [simp]:
  "meta_inv (st\<lparr>glb_vendor_id := n\<rparr>) \<longleftrightarrow> meta_inv st" "meta_inv (st\<lparr>glb_module_id := n\<rparr>) \<longleftrightarrow> meta_inv st"
  "meta_inv (st\<lparr>glb_oe_id := n\<rparr>) \<longleftrightarrow> meta_inv st" "meta_inv (st\<lparr>glb_dependency_id := n\<rparr>) \<longleftrightarrow> meta_inv st"
  "meta_inv (st\<lparr>metadata_loaded := k\<rparr>) \<longleftrightarrow> meta_inv st"
  by (simp_all add: meta_inv_def)

lemma meta_numbered: "(\<And>n. meta_ok (f n)) \<Longrightarrow> meta_ok (\<lambda>st. let n = h st in f n st)"
  by (simp add: meta_ok_def)

lemma meta_counted: "meta_ok f \<Longrightarrow> (\<And>st. meta_inv (g st) \<longleftrightarrow> meta_inv st) \<Longrightarrow> meta_ok (\<lambda>st. let st0 = g st in f st0)"
  by (simp add: meta_ok_def)

lemma vendor_fields_part:
  "part_ok (full_vendor n) (\<lambda>s.
     then_ok (copy_given website (\<lambda>v e. e\<lparr>website := v\<rparr>) web s) (\<lambda>s1.
     then_ok (in_field vendor_emails (\<lambda>x e. e\<lparr>vendor_emails := x\<rparr>) (amvp_oe_metadata_parse_emails obj) s1) (\<lambda>s2.
     then_ok (in_field vendor_phones (\<lambda>x e. e\<lparr>vendor_phones := x\<rparr>) (amvp_oe_metadata_parse_phone_numbers obj) s2) (\<lambda>s3.
     then_ok (amvp_oe_metadata_parse_vendor_address obj s3) (amvp_oe_metadata_parse_vendor_contacts obj)))))"
  by (intro part_intros) (auto simp: vendor_ok_def vendor_texts_def)

lemma parse_vendor_ok [meta_intros]: "meta_ok (amvp_oe_metadata_parse_vendor obj)"
proof -
  have fields: "meta_ok (\<lambda>st. case find_vendor st num of None \<Rightarrow> (rv, st) | Some i \<Rightarrow> on_vendor i f st)"
    if "\<And>n. part_ok (full_vendor n) f" for num rv f
    using that by (auto simp: meta_ok_def find_vendor_def split: option.split dest!: find_id_Some intro!: on_vendor_ok)
  show ?thesis
    unfolding amvp_oe_metadata_parse_vendor_def
    by (rule meta_numbered, rule meta_counted, intro meta_intros fields vendor_fields_part) simp
qed

lemma parse_module_ok [meta_intros]: "meta_ok (amvp_oe_metadata_parse_module obj)"
  unfolding amvp_oe_metadata_parse_module_def
  by (rule meta_numbered, rule meta_counted, intro meta_intros) simp

lemma set_given_ok [meta_intros]: "meta_ok (set_given field num v)"
  unfolding set_given_def by (intro meta_intros)

lemma link_ok: "meta_ok g \<Longrightarrow> meta_ok (\<lambda>st. (rv, snd (g st)))"
  by (simp add: meta_ok_def)

lemma parse_dependency_ok: "meta_ok (parse_dependency oe_num dep_obj)"
proof -
  have last: "meta_ok (\<lambda>st. (AMVP_SUCCESS, snd (oe_set_dependency oe_num num (st\<lparr>glb_dependency_id := n\<rparr>))))" for num n
    using oe_set_dependency_ok by (simp add: meta_ok_def)
  have create: "meta_ok (\<lambda>st. then_ok (dependency_new num st) (\<lambda>st1.
      if find_dependency st1 num = None then (AMVP_INVALID_ARG, st1) else
        then_ok (set_given DEPENDENCY_FIELD_TYPE num type st1) (\<lambda>st.
        then_ok (set_given DEPENDENCY_FIELD_NAME num name st) (\<lambda>st.
        then_ok (set_given DEPENDENCY_FIELD_DESC num desc st) (\<lambda>st.
        then_ok (set_given DEPENDENCY_FIELD_MAN num man st) (\<lambda>st.
        then_ok (set_given DEPENDENCY_FIELD_VERSION num version st) (\<lambda>st.
        then_ok (set_given DEPENDENCY_FIELD_FAMILY num family st) (\<lambda>st.
        then_ok (set_given DEPENDENCY_FIELD_SERIES num series st) (\<lambda>st.
          (AMVP_SUCCESS, snd (oe_set_dependency oe_num num (st\<lparr>glb_dependency_id := next_number num\<rparr>))))))))))))"
    for num type name desc man version family series
    by (intro meta_intros last)
  show ?thesis
    unfolding meta_ok_def parse_dependency_def Let_def
    using meta_okD [OF create] meta_okD [OF oe_set_dependency_ok] by simp
qed

lemma parse_oe_ok [meta_intros]: "meta_ok (amvp_oe_metadata_parse_oe obj)"
proof -
  have all: "meta_ok (parse_dependencies oe_num l)" for oe_num l
  proof (induction l)
    case (Cons v l)
    then show ?case using meta_then [OF parse_dependency_ok Cons] by (simp add: meta_ok_def)
  qed (simp add: meta_ok_def)
  have "meta_ok (amvp_oe_metadata_parse_oe_dependencies obj num)" for num
    unfolding amvp_oe_metadata_parse_oe_dependencies_def by (intro meta_intros all)
  then show ?thesis
    unfolding amvp_oe_metadata_parse_oe_def
    by (intro meta_numbered meta_counted meta_intros) simp_all
qed

section \<open>Queries keep the invariant\<close>

primrec scan_state :: "'s scan \<Rightarrow> 's" where
  "scan_state (Next s) = s"
| "scan_state (Done rv found s) = s"

lemma scan_data_keeps:
  assumes "\<And>i obj s r. P s \<Longrightarrow> f i obj s = Some r \<Longrightarrow> P (scan_state r)"
  shows "scan_data f i l s = Some r \<Longrightarrow> P s \<Longrightarrow> P (scan_state r)"
proof (induction l arbitrary: i s r)
  case (Cons v l)
  show ?case
  proof (cases "json_value_get_object (Some v)")
    case (Some obj)
    with Cons.prems(1) obtain r1 where r1: "f i obj s = Some r1" by (auto split: bind_splits)
    with assms Cons.prems(2) have "P (scan_state r1)" by blast
    with Cons Some r1 show ?thesis by (cases r1) auto
  qed (use Cons.prems in auto)
qed auto

lemma match_page_keeps:
  assumes alloc: "\<And>st n. Q (st\<lparr>alloc_n := n\<rparr>) \<longleftrightarrow> Q st"
    and "\<And>i obj x s r. f i obj (x, s) = Some r \<Longrightarrow> Q (fst s) \<Longrightarrow> Q (fst (snd (scan_state r)))"
    and "match_page srv link f x s = Some (rv, found, nxt, s')" and "Q (fst s)"
  shows "Q (fst s')"
proof -
  have n: "Q (fst s')" if "next_page link obj s1 = (rv, found, nxt, s')" "Q (fst s1)" for obj s1
    using that by (auto simp: next_page_def meta_calloc_def Let_def alloc split: option.splits if_splits)
  have r: "Q (fst (snd (scan_state r)))" if "scan_data f 0 l (x, s) = Some r" for l r
    by (rule scan_data_keeps [where P = "\<lambda>y. Q (fst (snd y))" and f = f, OF _ that]) (use assms in auto)
  show ?thesis
    using assms(3,4) by (fastforce simp: match_page_def split: option.splits scan.splits bind_splits dest: r n)
qed

lemma query_pages_keeps:
  assumes m: "\<And>s rv found nxt s'. matches s = Some (rv, found, nxt, s') \<Longrightarrow> Q (fst s) \<Longrightarrow> Q (fst s')"
    and r: "query_pages srv matches endpoint parameters s = Some (rv, s')" and s: "Q (fst s)"
  shows "Q (fst s')"
proof -
  have "matches = matches \<longrightarrow> Q (fst s) \<longrightarrow> Q (fst (snd (rv, s')))"
  proof (rule query_pages.raw_induct [where P = "\<lambda>srv m e p s r. m = matches \<longrightarrow> Q (fst s) \<longrightarrow> Q (fst (snd r))", OF _ r], intro impI)
    fix qp srv ms e p s r
    assume IH: "\<And>srv ms e p s r. qp srv ms e p s = Some r \<Longrightarrow> ms = matches \<longrightarrow> Q (fst s) \<longrightarrow> Q (fst (snd r))"
      and body: "(case transport_get srv e p (snd s) of (rv, w1) \<Rightarrow>
          if rv \<noteq> AMVP_SUCCESS then Some (rv, fst s, w1)
          else Option.bind (ms (fst s, w1)) (\<lambda>(rv1, found, nxt, s1).
            if rv1 \<noteq> AMVP_SUCCESS \<or> found then Some (rv1, s1)
            else case nxt of None \<Rightarrow> Some (rv1, s1) | Some e1 \<Rightarrow> qp srv ms e1 [] s1)) = Some r"
      and ms: "ms = matches" and q: "Q (fst s)"
    obtain rv0 w1 where g: "transport_get srv e p (snd s) = (rv0, w1)" by (metis surj_pair)
    show "Q (fst (snd r))"
    proof (cases "rv0 = AMVP_SUCCESS")
      case True
      then obtain rv1 found nxt s1 where m1: "matches (fst s, w1) = Some (rv1, found, nxt, s1)"
        using body g ms by (cases "matches (fst s, w1)") auto
      from m [OF this] q have "Q (fst s1)" by simp
      with True body g ms m1 IH show ?thesis by (auto split: if_splits option.splits)
    qed (use body g q in auto)
  qed
  with s show ?thesis by simp
qed

lemma kv_all_keeps: "kv_all l s = (rv, s') \<Longrightarrow> \<exists>n. snd s' = (snd s)\<lparr>alloc_n := n\<rparr>"
proof (induction l arbitrary: s)
  case (Cons p l)
  obtain rv1 s1 where s1: "kv_add (fst p) (snd p) s = (rv1, s1)" by (metis surj_pair)
  then have "snd s1 = (snd s)\<lparr>alloc_n := alloc_n (snd s) + 3\<rparr>" by (auto simp: kv_add_def split: prod.splits)
  moreover have "\<exists>n. snd s' = (snd s1)\<lparr>alloc_n := n\<rparr>" if "kv_all l s1 = (rv, s')" using Cons.IH [OF that] .
  ultimately show ?case using Cons.prems s1 by (cases "rv1 = AMVP_SUCCESS") (auto simp: then_ok_def)
next
  case Nil
  then have "s' = s" by simp
  then show ?case using same_alloc [of "snd s"] by metis
qed

lemma query_entry_keeps:
  assumes alloc: "\<And>st n. Q (st\<lparr>alloc_n := n\<rparr>) \<longleftrightarrow> Q st"
    and m: "\<And>s rv found nxt s'. matches s = Some (rv, found, nxt, s') \<Longrightarrow> Q (fst s) \<Longrightarrow> Q (fst s')"
    and r: "query_entry srv table params matches endpoint s = Some (rv, s')" and s: "Q (fst s)"
  shows "Q (fst s')"
proof -
  have pages: "Q (fst s2)" if "query_pages srv matches e p s1 = Some (rv2, s2)" "Q (fst s1)" for e p s1 rv2 s2
    by (rule query_pages_keeps [where matches = matches and Q = Q, OF m that(1)]) (use that(2) in auto)
  show ?thesis
  proof (cases endpoint)
    case (Some e)
    with r s show ?thesis by (auto simp: query_entry_def intro: pages)
  next
    case None
    obtain ok st1 where c: "meta_calloc (fst s) = (ok, st1)" by (metis surj_pair)
    obtain rv1 ps st2 where k: "kv_all params ([], st1) = (rv1, ps, st2)" by (metis prod_cases3)
    have "Q st1" "Q st2"
      using meta_calloc_frame [OF c] kv_all_keeps [OF k] s by (auto simp: alloc)
    with r None c k show ?thesis by (auto simp: query_entry_def split: if_splits dest: pages)
  qed
qed

lemma list_all_at: "list_all P l \<Longrightarrow> (i < length l \<Longrightarrow> P (l ! i) \<Longrightarrow> P x) \<Longrightarrow> list_all P (l[i := x])"
  by (cases "i < length l") (auto simp: list_all_length nth_list_update list_update_beyond)

lemma set_urls_inv:
  "meta_inv st \<Longrightarrow> url_fits u \<Longrightarrow> meta_inv (set_dep_url i u st)"
  "meta_inv st \<Longrightarrow> url_fits u \<Longrightarrow> meta_inv (set_oe_url i u st)"
  "meta_inv st \<Longrightarrow> url_fits u \<Longrightarrow> meta_inv (set_mod_url i u st)"
  "meta_inv st \<Longrightarrow> meta_inv (set_oe_status i status st)"
  by (auto simp: meta_inv_def set_dep_url_def set_oe_url_def set_mod_url_def set_oe_status_def dependency_ok_def oe_ok_def module_ok_def
      intro!: numbered_update list_all_at)

lemma set_vendor_inv:
  assumes "meta_inv st" and "i < length (vendors st) \<Longrightarrow> vendor_ok (vendors st ! i) \<Longrightarrow> vendor_ok (f (vendors st ! i))"
    and "\<And>v. vendor_id (f v) = vendor_id v"
  shows "meta_inv (set_vendor i f st)"
proof -
  have "list_all (module_ok ((vendors st)[i := f (vendors st ! i)])) (modules st)"
    using assms(1,3) module_ok_vendor by (simp add: meta_inv_def list_all_iff)
  moreover have "list_all vendor_ok ((vendors st)[i := f (vendors st ! i)])"
    using assms(1,2) by (intro list_all_at) (auto simp: meta_inv_def)
  ultimately show ?thesis
    using assms(1,3) by (simp add: meta_inv_def set_vendor_def numbered_update)
qed

lemma url_copy_fits [simp]: "url_fits (Some (url_copy u))"
  by (simp add: url_fits_def url_copy_def)

lemma take_url_keeps:
  assumes "\<And>st n. Q (st\<lparr>alloc_n := n\<rparr>) \<longleftrightarrow> Q st" and "\<And>u st. url_fits u \<Longrightarrow> Q st \<Longrightarrow> Q (put u st)" and "Q (fst (snd s))"
  shows "Q (fst (snd (scan_state (take_url put obj s))))"
  using assms by (cases s) (auto simp: take_url_def meta_calloc_def split: option.split)

lemmas take_url_inv = take_url_keeps [where Q = meta_inv, OF meta_inv_alloc]

text \<open>The invariant, that a vendor is in the table, and that nothing but the vendors changes.\<close>

definition same_but_vendors :: "META \<Rightarrow> META \<Rightarrow> bool" where
  "same_but_vendors st0 st \<longleftrightarrow>
     modules st = modules st0 \<and> dependencies st = dependencies st0 \<and> oes st = oes st0 \<and>
     fips_module st = fips_module st0 \<and> fips_oe st = fips_oe st0"

lemma same_but_vendors_simps [simp]:
  "same_but_vendors st st" "same_but_vendors st0 (st\<lparr>alloc_n := n\<rparr>) \<longleftrightarrow> same_but_vendors st0 st"
  "same_but_vendors st0 (set_vendor i f st) \<longleftrightarrow> same_but_vendors st0 st"
  by (simp_all add: same_but_vendors_def set_vendor_def)

abbreviation (input) vendor_inv :: "META \<Rightarrow> nat \<Rightarrow> META \<Rightarrow> bool" where
  "vendor_inv st0 i st \<equiv> meta_inv st \<and> i < length (vendors st) \<and> same_but_vendors st0 st"

lemma dup_given_keeps:
  assumes "\<And>st n. Q (st\<lparr>alloc_n := n\<rparr>) \<longleftrightarrow> Q st"
  shows "Q (snd (dup_given old src st)) \<longleftrightarrow> Q st"
  by (auto simp: dup_given_def meta_calloc_def assms split: option.split)

lemma tmp_keeps:
  assumes "\<And>st n. Q (st\<lparr>alloc_n := n\<rparr>) \<longleftrightarrow> Q st"
  shows "Q (snd (tmp_dependency obj tmp st)) \<longleftrightarrow> Q st" "Q (snd (tmp_module obj st)) \<longleftrightarrow> Q st"
    "Q (snd (tmp_contacts k urls i st)) \<longleftrightarrow> Q st"
proof -
  note d = dup_given_keeps [of Q, OF assms]
  show "Q (snd (tmp_dependency obj tmp st)) \<longleftrightarrow> Q st" by (simp add: tmp_dependency_def Let_def case_prod_beta d)
  show "Q (snd (tmp_module obj st)) \<longleftrightarrow> Q st" by (simp add: tmp_module_def Let_def case_prod_beta d)
  show "Q (snd (tmp_contacts k urls i st)) \<longleftrightarrow> Q st" by (induction k arbitrary: st) (simp_all add: Let_def case_prod_beta d)
qed

lemmas tmp_inv = tmp_keeps [where Q = meta_inv, OF meta_inv_alloc]

lemma dependency_object_inv:
  "match_dependency_object dep i obj (tmp, s) = Some r \<Longrightarrow> meta_inv (fst s) \<Longrightarrow> meta_inv (fst (snd (scan_state r)))"
  using tmp_inv(1) [of obj tmp "fst s"]
  by (cases s) (auto simp: match_dependency_object_def case_prod_beta Let_def intro!: take_url_inv set_urls_inv split: if_splits)

lemma oe_object_inv: "match_oe_object oe i obj (x, s) = Some r \<Longrightarrow> meta_inv (fst s) \<Longrightarrow> meta_inv (fst (snd (scan_state r)))"
  by (auto simp: match_oe_object_def Let_def intro!: take_url_inv set_urls_inv split: if_splits option.splits)

lemma module_object_inv:
  assumes "match_module_object module vendor i obj (x, s) = Some r" and "meta_inv (fst s)"
  shows "meta_inv (fst (snd (scan_state r)))"
proof -
  obtain tm tv st1 where t: "tmp_module obj (fst s) = ((tm, tv), st1)" by (metis prod.exhaust)
  with tmp_inv(2) [of obj "fst s"] assms(2) have st1: "meta_inv st1" by simp
  have st2: "meta_inv (snd (tmp_contacts k urls i st1))" for k urls by (simp add: tmp_inv(3) st1)
  show ?thesis
    using assms(1) t st1 st2
    by (cases s) (auto simp: match_module_object_def Let_def case_prod_beta intro!: take_url_inv set_urls_inv split: if_splits option.splits)
qed

lemma address_object_ok:
  assumes "match_address_object i obj s = Some r" and "short_address (fst s) \<and> (\<exists>n. snd s = st0\<lparr>alloc_n := n\<rparr>)"
  shows "short_address (fst (scan_state r)) \<and> (\<exists>n. snd (scan_state r) = st0\<lparr>alloc_n := n\<rparr>)"
  using assms
  by (cases s) (auto simp: match_address_object_def meta_calloc_def short_address_def Let_def split: if_splits option.splits)

lemma compare_address_ok:
  assumes "compare_vendor_address a cand st = Some (rv, equal, a', st')" and "short_address a"
  shows "short_address a' \<and> (\<exists>n. st' = st\<lparr>alloc_n := n\<rparr>)"
proof -
  obtain r where r: "scan_data match_address_object 0 cand (a, st) = Some r"
    using assms(1) by (auto simp: compare_vendor_address_def split: bind_splits)
  from scan_data_keeps [where P = "\<lambda>s. short_address (fst s) \<and> (\<exists>n. snd s = st\<lparr>alloc_n := n\<rparr>)", OF address_object_ok r]
    assms same_alloc [of st] show ?thesis
    by (cases r) (auto simp: compare_vendor_address_def r)
qed

lemma contact_object_ok:
  assumes "match_contact_object i obj s = Some r" and "person_ok (fst s) \<and> (\<exists>n. snd s = st0\<lparr>alloc_n := n\<rparr>)"
  shows "person_ok (fst (scan_state r)) \<and> (\<exists>n. snd (scan_state r) = st0\<lparr>alloc_n := n\<rparr>)"
proof -
  have fits: "url_fits (Some [])" by (simp add: url_fits_def)
  show ?thesis
    using assms fits
    by (cases s)
      (auto simp: match_contact_object_def meta_calloc_def person_ok_def Let_def split: if_splits option.splits bind_splits prod.splits)
qed

lemma match_contacts_ok:
  "match_contacts l ps st = Some (rv, m, ps', st') \<Longrightarrow> list_all person_ok ps \<Longrightarrow>
   list_all person_ok ps' \<and> length ps' = length ps \<and> (\<exists>n. st' = st\<lparr>alloc_n := n\<rparr>)"
proof (induction ps arbitrary: st rv m ps')
  case (Cons p ps)
  then obtain r where r: "scan_data match_contact_object 0 l (p, st) = Some r" by (auto split: bind_splits)
  have "person_ok (fst (scan_state r)) \<and> (\<exists>n. snd (scan_state r) = st\<lparr>alloc_n := n\<rparr>)"
    by (rule scan_data_keeps [where P = "\<lambda>s. person_ok (fst s) \<and> (\<exists>n. snd s = st\<lparr>alloc_n := n\<rparr>)", OF _ r], rule contact_object_ok)
      (use Cons.prems same_alloc [of st] in simp_all)
  then obtain n where ok: "person_ok (fst (scan_state r))" "snd (scan_state r) = st\<lparr>alloc_n := n\<rparr>" by blast
  show ?case
  proof (cases r)
    case (Next s1)
    then show ?thesis using Cons.prems r ok by (cases s1) auto
  next
    case (Done rv1 found s1)
    obtain p1 st1 where s1: "s1 = (p1, st1)" by (metis surj_pair)
    show ?thesis
    proof (cases "rv1 = AMVP_SUCCESS \<and> found")
      case True
      then obtain m2 ps2 where m2: "match_contacts l ps st1 = Some (rv, m2, ps2, st')" "ps' = p1 # ps2"
        using Cons.prems(1) r Done s1 by (auto split: bind_splits)
      from Cons.IH [OF m2(1)] Cons.prems(2) ok Done s1 m2(2) show ?thesis by auto
    qed (use Cons.prems r ok Done s1 in auto)
  qed
next
  case Nil
  then have "ps' = [] \<and> st' = st" by simp
  then show ?case using same_alloc [of st] by (metis list.pred_inject(1))
qed

lemma query_contacts_ok:
  assumes "query_vendor_contacts srv ps endpoint s = Some (rv, m, ps', s')" and "list_all person_ok ps"
  shows "list_all person_ok ps' \<and> length ps' = length ps \<and> (\<exists>n. fst s' = (fst s)\<lparr>alloc_n := n\<rparr>)"
proof (cases "\<exists>l rv2 st2. match_contacts l ps (fst s) = Some (rv2, m, ps', st2) \<and> fst s' = st2")
  case True
  with match_contacts_ok assms(2) show ?thesis by blast
next
  case False
  then have "ps' = ps \<and> fst s' = fst s"
    using assms(1) by (fastforce simp: query_vendor_contacts_def split: option.splits prod.splits if_splits bind_splits)
  with assms(2) same_alloc show ?thesis by simp
qed

lemma vendor_at: "meta_inv st \<Longrightarrow> i < length (vendors st) \<Longrightarrow> vendor_ok (vendors st ! i)"
  by (simp add: meta_inv_def list_all_length)

lemma vendor_contacts_object_inv:
  assumes "match_vendor_contacts srv vendor obj (x, s) = Some r" and s: "vendor_inv st0 vendor (fst s)"
  shows "vendor_inv st0 vendor (fst (snd (scan_state r)))"
proof -
  have "list_all person_ok (persons (vendors (fst s) ! vendor))"
    using vendor_at [of "fst s" vendor] s by (simp add: vendor_ok_def vendor_texts_def)
  moreover obtain rv m ps s1 where q: "query_vendor_contacts srv (persons (vendors (fst s) ! vendor)) (json_object_get_string (Some obj) ''contactsUrl'') s = Some (rv, m, ps, s1)"
    using assms(1) by (auto simp: match_vendor_contacts_def split: bind_splits)
  ultimately obtain n where ps: "list_all person_ok ps" "length ps = length (persons (vendors (fst s) ! vendor))" "fst s1 = (fst s)\<lparr>alloc_n := n\<rparr>"
    using query_contacts_ok by blast
  have "length ps \<le> 8" using ps(2) vendor_at [of "fst s" vendor] s by (simp add: vendor_ok_def)
  then have ps_inv: "vendor_inv st0 vendor (set_vendor vendor (\<lambda>v. v\<lparr>persons := ps\<rparr>) (fst s1))"
    using ps(1,3) s by (intro conjI set_vendor_inv) (auto simp: vendor_ok_def vendor_texts_def set_vendor_def same_but_vendors_def)
  have "vendor_inv st0 vendor (set_vendor vendor (\<lambda>v. v\<lparr>vendor_url := u\<rparr>) st)" if "url_fits u" "vendor_inv st0 vendor st" for u st
    using that by (intro conjI set_vendor_inv) (auto simp: vendor_ok_def vendor_texts_def set_vendor_def same_but_vendors_def)
  then have "vendor_inv st0 vendor (fst (snd (scan_state (take_url (\<lambda>u. set_vendor vendor (\<lambda>v. v\<lparr>vendor_url := u\<rparr>)) obj
      (x, set_vendor vendor (\<lambda>v. v\<lparr>persons := ps\<rparr>) (fst s1), snd s1)))))"
    using ps_inv by (intro take_url_keeps [where Q = "vendor_inv st0 vendor"]) simp_all
  with ps_inv show ?thesis
    using assms(1) q by (cases s1) (auto simp: match_vendor_contacts_def Let_def split: if_splits)
qed

lemma vendor_address_object_inv:
  assumes "match_vendor_address srv vendor obj (x, s) = Some r" and s: "vendor_inv st0 vendor (fst s)"
  shows "vendor_inv st0 vendor (fst (snd (scan_state r)))"
proof (cases "json_object_get_array (Some obj) ''addresses''")
  case (Some l)
  obtain rv equal a st where c: "compare_vendor_address (address (vendors (fst s) ! vendor)) l (fst s) = Some (rv, equal, a, st)"
    using assms(1) Some by (auto simp: match_vendor_address_def split: bind_splits)
  have "short_address (address (vendors (fst s) ! vendor))"
    using vendor_at [of "fst s" vendor] s by (simp add: vendor_ok_def vendor_texts_def)
  from compare_address_ok [OF c this] obtain n where a: "short_address a" "st = (fst s)\<lparr>alloc_n := n\<rparr>" by auto
  let ?st = "set_vendor vendor (\<lambda>v. v\<lparr>address := a\<rparr>) st"
  have "meta_inv ?st" using a s by (intro set_vendor_inv) (auto simp: vendor_ok_def vendor_texts_def)
  moreover have "vendor < length (vendors ?st)" using s a(2) by (simp add: set_vendor_def)
  moreover have "same_but_vendors st0 ?st" using s a(2) by simp
  ultimately show ?thesis
    using assms(1) Some c vendor_contacts_object_inv [of srv vendor obj x "(?st, snd s)" r st0]
    by (auto simp: match_vendor_address_def Let_def split: if_splits)
qed (use assms in \<open>auto simp: match_vendor_address_def\<close>)

lemma vendor_object_inv:
  assumes "match_vendor_object srv vendor i obj (x, s) = Some r" and s: "vendor_inv st0 vendor (fst s)"
  shows "vendor_inv st0 vendor (fst (snd (scan_state r)))"
proof (cases "match_vendor_address srv vendor obj (x, s) = Some r")
  case True
  from vendor_address_object_inv [OF this s] show ?thesis .
next
  case False
  then have "scan_state r = (x, s)"
    using assms(1) by (auto simp: match_vendor_object_def Let_def split: option.splits if_splits bind_splits prod.splits)
  with s show ?thesis by simp
qed

lemma query_dependency_inv:
  "query_dependency srv dep endpoint s = Some (rv, s') \<Longrightarrow> meta_inv (fst s) \<Longrightarrow> meta_inv (fst s')"
  unfolding query_dependency_def Let_def match_dependencies_page_def
  by (auto split: if_splits elim!: query_entry_keeps [where Q = meta_inv, OF meta_inv_alloc, rotated] match_page_keeps [where Q = meta_inv, OF meta_inv_alloc, rotated]
      intro: dependency_object_inv)

lemma query_dependencies_inv:
  "query_dependencies srv deps b status s = Some (rv, b', status', s') \<Longrightarrow> meta_inv (fst s) \<Longrightarrow> meta_inv (fst s')"
  by (induction deps arbitrary: b status s)
    (auto split: if_splits bind_splits prod.splits dest: query_dependency_inv)

lemma verify_dependencies_inv:
  "verify_fips_oe_dependencies srv oe s = Some (rv, s') \<Longrightarrow> meta_inv (fst s) \<Longrightarrow> meta_inv (fst s')"
  by (auto simp: verify_fips_oe_dependencies_def split: bind_splits prod.splits dest!: query_dependencies_inv intro!: set_urls_inv)

lemma query_oe_inv: "query_oe srv oe endpoint s = Some (rv, s') \<Longrightarrow> meta_inv (fst s) \<Longrightarrow> meta_inv (fst s')"
  unfolding query_oe_def Let_def match_oes_page_def
  by (auto split: if_splits elim!: query_entry_keeps [where Q = meta_inv, OF meta_inv_alloc, rotated] match_page_keeps [where Q = meta_inv, OF meta_inv_alloc, rotated]
      intro: oe_object_inv)

lemma verify_oe_inv: "verify_fips_oe srv oe s = Some (rv, s') \<Longrightarrow> meta_inv (fst s) \<Longrightarrow> meta_inv (fst s')"
  by (auto simp: verify_fips_oe_def split: bind_splits prod.splits if_splits dest: query_oe_inv verify_dependencies_inv)

lemma query_vendor_inv:
  assumes "query_vendor srv (Some i) endpoint s = Some (rv, s')" and "vendor_inv st0 i (fst s)"
  shows "vendor_inv st0 i (fst s')"
proof -
  have page: "vendor_inv st0 i (fst s2)" if "match_vendors_page srv i s1 = Some (rv1, found, nxt, s2)" "vendor_inv st0 i (fst s1)"
    for s1 rv1 found nxt s2
    using that unfolding match_vendors_page_def
    by (elim match_page_keeps [where Q = "vendor_inv st0 i", rotated 2]) (assumption, simp, erule (1) vendor_object_inv)
  have "vendor_inv st0 i (fst s')" if "query_entry srv table params (match_vendors_page srv i) endpoint s = Some (rv, s')" for table params
    by (rule query_entry_keeps [where Q = "vendor_inv st0 i", OF _ page that]) (use assms(2) in simp_all)
  then show ?thesis using assms by (auto simp: query_vendor_def Let_def split: if_splits)
qed

lemma query_module_inv:
  assumes "query_module srv m v endpoint s = Some (rv, s')" and "meta_inv (fst s)"
  shows "meta_inv (fst s')"
proof -
  have page: "meta_inv (fst s2)" if "match_modules_page srv m v s1 = Some (rv1, found, nxt, s2)" "meta_inv (fst s1)"
    for s1 rv1 found nxt s2
    using that unfolding match_modules_page_def
    by (auto simp: meta_calloc_def Let_def split: if_splits
        elim!: match_page_keeps [where Q = meta_inv, OF meta_inv_alloc, rotated] intro: module_object_inv)
  have "meta_inv (fst s')" if "query_entry srv table params (match_modules_page srv m v) endpoint s = Some (rv, s')" for table params
    by (rule query_entry_keeps [where Q = meta_inv, OF _ page that]) (use assms(2) in simp_all)
  then show ?thesis using assms by (auto simp: query_module_def Let_def split: if_splits)
qed

lemma verify_module_inv:
  assumes "verify_fips_module srv m s = Some (Ret rv s')" and "meta_inv (fst s)" and "m < length (modules (fst s))"
  shows "meta_inv (fst s')"
proof -
  obtain rv1 s1 where q: "query_vendor srv (mod_vendor (modules (fst s) ! m)) None s = Some (rv1, s1)"
    using assms(1) by (auto simp: verify_fips_module_def split: bind_splits)
  have "module_ok (vendors (fst s)) (modules (fst s) ! m)" using assms(2,3) by (simp add: meta_inv_def list_all_length)
  then have "vendor_inv (fst s) i (fst s)" if "mod_vendor (modules (fst s) ! m) = Some i" for i
    using that assms(2) by (simp add: module_ok_def)
  then have "meta_inv (fst s1)"
    using q query_vendor_inv [of srv _ None s rv1 s1 "fst s"] assms(2)
    by (cases "mod_vendor (modules (fst s) ! m)") (auto simp: query_vendor_def [of srv None])
  moreover have "s' = s1 \<or> (\<exists>v. query_module srv m v None s1 = Some (rv, s'))"
    using assms(1) q by (auto simp: verify_fips_module_def split: option.splits if_splits bind_splits)
  ultimately show ?thesis using query_module_inv by blast
qed

lemma verify_metadata_inv:
  assumes "amvp_verify_fips_validation_metadata srv (Some s) = Some (Ret rv (Some s'))" and "meta_inv (fst s)"
  shows "meta_inv (fst s')"
proof (cases "\<exists>m oe. fips_module (fst s) = Some m \<and> fips_oe (fst s) = Some oe")
  case True
  then obtain m oe where c: "fips_module (fst s) = Some m" "fips_oe (fst s) = Some oe" by blast
  then have "m < length (modules (fst s))" using assms(2) by (simp add: meta_inv_def)
  then have m: "meta_inv (fst s1)" if "verify_fips_module srv m s = Some (Ret rv1 s1)" for rv1 s1
    using verify_module_inv [OF that] assms(2) by blast
  obtain rv1 s1 where r: "verify_fips_module srv m s = Some (Ret rv1 s1)"
    using assms(1) c by (auto simp: amvp_verify_fips_validation_metadata_def split: outcome.splits bind_splits)
  show ?thesis
  proof (cases "rv1 = AMVP_SUCCESS")
    case True
    with assms(1) c r have "verify_fips_oe srv oe s1 = Some (rv, s')"
      by (auto simp: amvp_verify_fips_validation_metadata_def split: bind_splits)
    from verify_oe_inv [OF this m [OF r]] show ?thesis .
  qed (use assms(1) c r m [OF r] in \<open>auto simp: amvp_verify_fips_validation_metadata_def\<close>)
qed (use assms in \<open>auto simp: amvp_verify_fips_validation_metadata_def split: option.splits\<close>)

section \<open>Sequences of calls\<close>

text \<open>The public functions that create, load, select and verify metadata, one call at a time.\<close>

inductive meta_call :: "'w meta_net \<Rightarrow> 'w meta_net \<Rightarrow> bool" where
  dependency_new: "amvp_oe_dependency_new (Some st) num = (rv, Some st') \<Longrightarrow> meta_call (st, w) (st', w)"
| oe_new: "amvp_oe_oe_new (Some st) num name = (rv, Some st') \<Longrightarrow> meta_call (st, w) (st', w)"
| oe_set_dependency: "amvp_oe_oe_set_dependency (Some st) oe_num dep_num = (rv, Some st') \<Longrightarrow> meta_call (st, w) (st', w)"
| module_new: "amvp_oe_module_new (Some st) num name = (rv, Some st') \<Longrightarrow> meta_call (st, w) (st', w)"
| module_set: "amvp_oe_module_set_type_version_desc (Some st) num type version description = (rv, Some st') \<Longrightarrow> meta_call (st, w) (st', w)"
| ingest: "amvp_oe_ingest_metadata json_parse_file (Some st) file = (rv, Some st') \<Longrightarrow> meta_call (st, w) (st', w)"
| select: "amvp_oe_set_fips_validation_metadata (Some st) mod_num oe_num = (rv, Some st') \<Longrightarrow> meta_call (st, w) (st', w)"
| verify: "amvp_verify_fips_validation_metadata srv (Some s) = Some (Ret rv (Some s')) \<Longrightarrow> meta_call s s'"

definition fresh_meta :: META where
  "fresh_meta = \<lparr>vendors = [], modules = [], dependencies = [], oes = [], metadata_loaded = 0, metadata_ready = 0,
     fips_module = None, fips_oe = None, glb_dependency_id = 1, glb_vendor_id = 1, glb_module_id = 1, glb_oe_id = 1,
     allocs = alloc_ok, alloc_n = 0\<rparr>"

lemma with_meta_inv: "meta_ok f \<Longrightarrow> with_meta (Some st) f = (rv, Some st') \<Longrightarrow> meta_inv st \<Longrightarrow> meta_inv st'"
  by (cases "f st") (auto simp: with_meta_def dest: meta_okD [of f st])

lemma parse_tables_ok [meta_intros]:
  "meta_ok (amvp_oe_metadata_parse_vendors obj)" "meta_ok (amvp_oe_metadata_parse_modules obj)" "meta_ok (amvp_oe_metadata_parse_oes obj)"
  unfolding amvp_oe_metadata_parse_vendors_def amvp_oe_metadata_parse_modules_def amvp_oe_metadata_parse_oes_def
  by (intro meta_intros)+

lemma loaded_ok: "meta_ok (\<lambda>st. (rv, st\<lparr>metadata_loaded := k\<rparr>))"
  by (simp add: meta_ok_def)

lemma ingest_inv:
  "amvp_oe_ingest_metadata json_parse_file (Some st) file = (rv, Some st') \<Longrightarrow> meta_inv st \<Longrightarrow> meta_inv st'"
  unfolding amvp_oe_ingest_metadata_def by (erule with_meta_inv [rotated], assumption, intro meta_intros loaded_ok)

lemma select_inv:
  assumes "amvp_oe_set_fips_validation_metadata (Some st) mod_num oe_num = (rv, Some st')" and "meta_inv st"
  shows "meta_inv st'"
proof -
  have m: "meta_inv (st\<lparr>fips_module := Some i\<rparr>)" if "find_module st mod_num = Some i" for i
    using that assms(2) by (auto simp: find_module_def meta_inv_def dest: find_id_Some)
  have e: "meta_inv (st1\<lparr>fips_oe := Some i\<rparr>)" if "find_oe st1 oe_num = Some i" "meta_inv st1" for st1 i
    using that by (auto simp: find_oe_def meta_inv_def dest: find_id_Some)
  show ?thesis
    using assms m e
    by (auto simp: amvp_oe_set_fips_validation_metadata_def with_meta_def then_ok_def split: if_splits option.splits)
qed

lemma meta_call_inv: "meta_call s s' \<Longrightarrow> meta_inv (fst s) \<Longrightarrow> meta_inv (fst s')"
proof (induction rule: meta_call.induct)
  case (verify srv s rv s')
  then show ?case by (rule verify_metadata_inv)
qed (auto simp: amvp_oe_dependency_new_def amvp_oe_oe_new_def amvp_oe_oe_set_dependency_def amvp_oe_module_new_def
    amvp_oe_module_set_type_version_desc_def dest: with_meta_inv [rotated] ingest_inv select_inv intro: meta_intros)

end
