(* ===== verification/Oe_Validation.thy ===== *)
theory Oe_Validation
  imports Oe_Props
begin

text \<open>
  What the metadata calls guarantee together: the invariant of reachable states, when the
  verification with the server returns and what it leaves, and what the validation message says.
\<close>

section \<open>The invariant\<close>

text \<open>
  C6: the metadata stays well formed. After any sequence of calls that create, load, select and
  verify metadata, with any file contents, any server and any failures of memory allocation, the
  tables are within their C arrays, numbers are unique and not zero, every string fits its
  buffer, a module points to the vendor with its own number, an environment to dependencies
  that exist, and the selected module and environment exist.
\<close>
theorem metadata_well_formed:
  assumes "meta_call\<^sup>*\<^sup>* (fresh_meta\<lparr>allocs := ok\<rparr>, w) (st, w')"
  shows "meta_inv st"
proof -
  have "meta_inv (fst s')" if "meta_call\<^sup>*\<^sup>* s s'" "meta_inv (fst s)" for s s' :: "'a meta_net"
    using that by (induction rule: rtranclp_induct) (auto dest: meta_call_inv)
  moreover have "meta_inv (fresh_meta\<lparr>allocs := ok\<rparr>)" by (simp add: meta_inv_def fresh_meta_def numbered_def)
  ultimately show ?thesis using assms by force
qed

definition one_oe :: META where
  "one_oe = fresh_meta\<lparr>dependencies := [new_dependency 7], oes := [(new_oe 3)\<lparr>oe_name := Some ''Linux'', oe_deps := [0]\<rparr>], alloc_n := 1\<rparr>"

theorem metadata_well_formed_witness: "meta_inv one_oe \<and> length (dependencies one_oe) = 1"
proof -
  let ?a = "fresh_meta\<lparr>allocs := alloc_ok\<rparr>"
  let ?b = "?a\<lparr>dependencies := [new_dependency 7]\<rparr>"
  let ?c = "?b\<lparr>oes := [(new_oe 3)\<lparr>oe_name := Some ''Linux''\<rparr>], alloc_n := 1\<rparr>"
  have "meta_call (?a, ()) (?b, ())"
    by (rule meta_call.dependency_new [where num = 7 and rv = AMVP_SUCCESS])
      (simp add: amvp_oe_dependency_new_def with_meta_def dependency_new_def fresh_meta_def)
  moreover have "meta_call (?b, ()) (?c, ())"
    by (rule meta_call.oe_new [where num = 3 and name = "Some ''Linux''" and rv = AMVP_SUCCESS])
      (simp add: amvp_oe_oe_new_def with_meta_def oe_new_def fresh_meta_def on_oe_def copy_field_def copy_oe_string_def meta_calloc_def
        string_fits_iff new_oe_def)
  moreover have "meta_call (?c, ()) (one_oe, ())"
    by (rule meta_call.oe_set_dependency [where oe_num = 3 and dep_num = 7 and rv = AMVP_SUCCESS])
      (simp add: amvp_oe_oe_set_dependency_def with_meta_def oe_set_dependency_def fresh_meta_def find_oe_def find_dependency_def find_id_def
        new_oe_def new_dependency_def one_oe_def)
  ultimately have "meta_call\<^sup>*\<^sup>* (?a, ()) (one_oe, ())" by (meson converse_rtranclp_into_rtranclp rtranclp.rtrancl_refl)
  from metadata_well_formed [OF this] show ?thesis by (simp add: one_oe_def)
qed

section \<open>A vendor with two addresses\<close>

lemma count_emails_one: "count_emails [e] [e] 0 = Some 1"
  by (simp add: count_emails.simps)

lemma count_emails_more: "2 \<le> length l \<Longrightarrow> count_emails l l n = None"
proof -
  have stuck: "t = [] \<or> length l < 2" if "count_emails l t n = Some r" for l t n r
  proof (rule count_emails.raw_induct [where P = "\<lambda>l t n r. t = [] \<or> length l < 2", OF _ that])
    fix f and l t :: "string option list" and n r :: nat
    assume "\<And>l t n r. f l t n = Some r \<Longrightarrow> t = [] \<or> length l < 2"
      and "(if t = [] then Some n else f l (tl l) ((n + 1) mod 2 ^ 64)) = Some r"
    then have "t = [] \<or> tl l = [] \<or> length l < 2" by (metis (no_types))
    then show "t = [] \<or> length l < 2" by (cases l) auto
  qed
  show "2 \<le> length l \<Longrightarrow> count_emails l l n = None" using stuck [of l l n] by (cases "count_emails l l n") auto
qed

lemma compare_emails_returns: "compare_emails l cand equal = None \<longleftrightarrow> 2 \<le> length l"
  using count_emails_more [of l 0] count_emails_one
  by (cases l) (auto simp: compare_emails_def Suc_le_eq split: if_splits)

lemma kv_all_ok:
  assumes "list_all (\<lambda>p. length (fst p) \<le> 256 \<and> snd p \<noteq> None \<and> length (the (snd p)) \<le> 256) l" and "\<forall>n. allocs st n"
  shows "\<exists>ps n. kv_all l (ps0, st) = (AMVP_SUCCESS, ps, st\<lparr>alloc_n := n\<rparr>)"
  using assms
proof (induction l arbitrary: ps0 st)
  case (Cons p l)
  then have "\<exists>ps. kv_add (fst p) (snd p) (ps0, st) = (AMVP_SUCCESS, ps, st\<lparr>alloc_n := alloc_n st + 3\<rparr>)"
    by (auto simp: kv_add_def amvp_kv_list_append_def string_fits_iff AMVP_UTIL_KV_STR_MAX_def)
  then obtain ps where ps: "kv_add (fst p) (snd p) (ps0, st) = (AMVP_SUCCESS, ps, st\<lparr>alloc_n := alloc_n st + 3\<rparr>)" ..
  from Cons.IH [of "st\<lparr>alloc_n := alloc_n st + 3\<rparr>" ps] Cons.prems ps show ?case by (simp add: then_ok_def)
next
  case Nil
  have "kv_all [] (ps0, st) = (AMVP_SUCCESS, ps0, st\<lparr>alloc_n := alloc_n st\<rparr>)" by simp
  then show ?case by blast
qed

text \<open>
  C30: a vendor with more than one electronic mail address is never verified. When the module that
  was selected belongs to such a vendor, memory does not run out, and the server answers the
  query with a page whose first vendor has an array of addresses, the verification of the
  metadata does not return, whatever the addresses are.
\<close>
theorem two_emails_never_return:
  assumes "meta_inv st" and "fips_module st = Some m" and "fips_oe st = Some oe" and "mod_vendor (modules st ! m) = Some v"
    and "vendor_url (vendors st ! v) = None" and "2 \<le> length (vendor_emails (vendors st ! v))"
    and "hd (vendor_emails (vendors st ! v)) \<noteq> None" and "\<forall>n. allocs st n"
    and get: "\<And>url parameters. transport_get srv url parameters w = (AMVP_SUCCESS, w1)"
    and page: "answer srv w1 = Some val" "amvp_get_obj_from_rsp val = Some obj" "data_of obj = JSONObject entry # rest"
      "json_object_get_array (Some entry) ''emails'' = Some emails"
  shows "amvp_verify_fips_validation_metadata srv (Some (st, w)) = None"
proof -
  let ?v = "vendors st ! v"
  have in_table: "m < length (modules st)" using assms(1,2) by (simp add: meta_inv_def)
  then have "module_ok (vendors st) (modules st ! m)" using assms(1) by (simp add: meta_inv_def list_all_length)
  then have "v < length (vendors st)" using assms(4) by (simp add: module_ok_def)
  then have texts: "vendor_texts ?v" using vendor_at [OF assms(1)] by (simp add: vendor_ok_def)
  have "compare_emails (vendor_emails ?v) emails True = None" using assms(6) by (simp add: compare_emails_returns)
  then have stuck: "match_vendors_page srv v (st\<lparr>alloc_n := n\<rparr>, w1) = None" for n
    using page by (simp add: match_vendors_page_def match_page_def match_vendor_object_def json_value_get_object_def Let_def)
  let ?params = "kv_given ''name[0]=eq:'' (vendor_name ?v) @ kv_given ''website[0]=eq:'' (website ?v) @ [(''email[0]=eq:'', hd (vendor_emails ?v))]"
  have "short (hd (vendor_emails ?v))" using texts assms(6) by (cases "vendor_emails ?v") (auto simp: vendor_texts_def)
  then have "list_all (\<lambda>p. length (fst p) \<le> 256 \<and> snd p \<noteq> None \<and> length (the (snd p)) \<le> 256) ?params"
    using texts assms(7) by (auto simp: kv_given_def vendor_texts_def short_def option.pred_set)
  with kv_all_ok [of ?params "st\<lparr>alloc_n := alloc_n st + 1\<rparr>" "[]"] assms(8) obtain ps n where
    "kv_all ?params ([], st\<lparr>alloc_n := alloc_n st + 1\<rparr>) = (AMVP_SUCCESS, ps, st\<lparr>alloc_n := n\<rparr>)" by auto
  moreover have "vendor_emails ?v \<noteq> []" using assms(6) by auto
  ultimately have "query_vendor srv (Some v) None (st, w) = None"
    using assms(5,8) stuck get
    by (simp add: query_vendor_def query_entry_def meta_calloc_def Let_def query_pages.simps)
  then show ?thesis
    using assms(2-4) by (simp add: amvp_verify_fips_validation_metadata_def verify_fips_module_def)
qed

text \<open>A vendor with two addresses, one module, one environment; and a server that has one vendor.\<close>

definition two_emails :: META where
  "two_emails = fresh_meta\<lparr>vendors := [(new_vendor 1)\<lparr>vendor_emails := [Some ''a@b'', Some ''c@d'']\<rparr>],
     modules := [(new_module 1)\<lparr>mod_name := Some ''M'', mod_vendor := Some 0\<rparr>], oes := [new_oe 1],
     metadata_loaded := 1, fips_module := Some 0, fips_oe := Some 0\<rparr>"

definition one_vendor_server :: "unit server" where
  "one_vendor_server = \<lparr>path_segment = ''/amv/v1/'', transport_get = (\<lambda>_ _ w. (AMVP_SUCCESS, w)),
     answer = (\<lambda>_. Some (JSONArray [JSONObject [(''data'', JSONArray [JSONObject [(''emails'', JSONArray [])]])]]))\<rparr>"

lemma json_names_used:
  "json_name ''data''" "json_name ''emails''" "json_name ''url''" "json_name ''links''" "json_name ''next''" "json_name ''name''"
  "json_name ''type''" "json_name ''description''" "json_name ''version''" "json_name ''family''" "json_name ''series''"
  "json_name ''manufacturer''" "json_name ''dependencyUrls''" "json_name ''dependencies''"
  by (simp_all add: json_name_def c_string_def)

theorem two_emails_never_return_witness: "amvp_verify_fips_validation_metadata one_vendor_server (Some (two_emails, ())) = None"
proof (rule two_emails_never_return [where m = 0 and v = 0 and oe = 0 and emails = "[]" and rest = "[]"
      and val = "JSONArray [JSONObject [(''data'', JSONArray [JSONObject [(''emails'', JSONArray [])]])]]"])
  show "meta_inv two_emails"
    by (simp add: meta_inv_def two_emails_def fresh_meta_def numbered_def vendor_ok_def vendor_texts_def new_vendor_def short_address_def
        module_ok_def new_module_def short_def)
  show "json_object_get_array (Some [(''emails'', JSONArray [])]) ''emails'' = Some []"
    by (simp add: json_object_get_array_def json_object_get_value_eq json_names_used json_names_def c_string_def json_value_get_array_def)
  show "data_of [(''data'', JSONArray [JSONObject [(''emails'', JSONArray [])]])] = [JSONObject [(''emails'', JSONArray [])]]"
    by (simp add: data_of_def json_object_get_array_def json_object_get_value_eq json_names_used json_names_def c_string_def json_value_get_array_def)
qed (simp_all add: two_emails_def fresh_meta_def one_vendor_server_def new_vendor_def new_module_def amvp_get_obj_from_rsp_def
    json_array_get_object_def json_array_get_value_def json_array_get_count_def json_value_get_array_def json_value_get_object_def)

section \<open>What a query changes\<close>

text \<open>A dependency, an environment or a module that is looked up may get an address; nothing else changes.\<close>

definition same_but_dep :: "nat \<Rightarrow> META \<Rightarrow> META \<Rightarrow> bool" where
  "same_but_dep i st0 st \<longleftrightarrow>
     (\<forall>j. j \<noteq> i \<longrightarrow> dependencies st ! j = dependencies st0 ! j) \<and> oes st = oes st0 \<and>
     modules st = modules st0 \<and> fips_module st = fips_module st0 \<and> fips_oe st = fips_oe st0"

definition same_but_oe :: "nat \<Rightarrow> META \<Rightarrow> META \<Rightarrow> bool" where
  "same_but_oe i st0 st \<longleftrightarrow>
     (\<exists>u. oes st = (oes st0)[i := (oes st0 ! i)\<lparr>oe_url := u\<rparr>]) \<and> dependencies st = dependencies st0 \<and>
     modules st = modules st0 \<and> fips_module st = fips_module st0 \<and> fips_oe st = fips_oe st0"

definition same_but_module :: "META \<Rightarrow> META \<Rightarrow> bool" where
  "same_but_module st0 st \<longleftrightarrow>
     map mod_vendor (modules st) = map mod_vendor (modules st0) \<and> dependencies st = dependencies st0 \<and> oes st = oes st0 \<and>
     fips_module st = fips_module st0 \<and> fips_oe st = fips_oe st0"

lemma same_alloc_simps [simp]:
  "same_but_dep i st0 (st\<lparr>alloc_n := n\<rparr>) \<longleftrightarrow> same_but_dep i st0 st"
  "same_but_oe i st0 (st\<lparr>alloc_n := n\<rparr>) \<longleftrightarrow> same_but_oe i st0 st"
  "same_but_module st0 (st\<lparr>alloc_n := n\<rparr>) \<longleftrightarrow> same_but_module st0 st"
  by (simp_all add: same_but_dep_def same_but_oe_def same_but_module_def)

lemma same_set_simps:
  "same_but_dep i st0 st \<Longrightarrow> same_but_dep i st0 (set_dep_url i u st)"
  "same_but_oe i st0 st \<Longrightarrow> same_but_oe i st0 (set_oe_url i u st)"
  "same_but_module st0 st \<Longrightarrow> same_but_module st0 (set_mod_url i u st)"
  "same_but_dep i st0 st0" "same_but_oe i st0 st0" "same_but_module st0 st0"
proof -
  show "same_but_dep i st0 st \<Longrightarrow> same_but_dep i st0 (set_dep_url i u st)" by (auto simp: same_but_dep_def set_dep_url_def)
  show "same_but_oe i st0 st \<Longrightarrow> same_but_oe i st0 (set_oe_url i u st)"
  proof -
    assume same: "same_but_oe i st0 st"
    then obtain x where x: "oes st = (oes st0)[i := (oes st0 ! i)\<lparr>oe_url := x\<rparr>]" by (auto simp: same_but_oe_def)
    have "oes (set_oe_url i u st) = (oes st0)[i := (oes st0 ! i)\<lparr>oe_url := u\<rparr>]"
      by (cases "i < length (oes st0)") (simp_all add: set_oe_url_def x list_update_beyond)
    with same show ?thesis by (auto simp: same_but_oe_def set_oe_url_def)
  qed
  show "same_but_module st0 st \<Longrightarrow> same_but_module st0 (set_mod_url i u st)"
  proof -
    have "map mod_vendor ((modules st)[i := (modules st ! i)\<lparr>mod_url := u\<rparr>]) = map mod_vendor (modules st)"
      by (cases "i < length (modules st)") (simp_all add: map_update list_update_same_conv list_update_beyond)
    then show "same_but_module st0 st \<Longrightarrow> ?thesis" by (simp add: same_but_module_def set_mod_url_def)
  qed
  have "oes st0 = (oes st0)[i := (oes st0 ! i)\<lparr>oe_url := oe_url (oes st0 ! i)\<rparr>]" by simp
  then show "same_but_oe i st0 st0" unfolding same_but_oe_def by blast
qed (simp_all add: same_but_dep_def same_but_module_def)

lemma query_dependency_frame:
  assumes "query_dependency srv dep endpoint s = Some (rv, s')"
  shows "same_but_dep dep (fst s) (fst s')"
proof -
  let ?Q = "same_but_dep dep (fst s)"
  have obj: "?Q (fst (snd (scan_state r)))" if "match_dependency_object dep i obj (x, s1) = Some r" "?Q (fst s1)" for i obj x s1 r
  proof -
    have "?Q (snd (tmp_dependency obj x (fst s1)))" using tmp_keeps(1) [of ?Q] that(2) by simp
    then show ?thesis
      using that(1) by (cases s1) (auto simp: match_dependency_object_def case_prod_beta Let_def
        intro!: take_url_keeps [where Q = ?Q] same_set_simps(1) split: if_splits)
  qed
  have page: "?Q (fst s2)" if "match_dependencies_page srv dep s1 = Some (rv1, found, nxt, s2)" "?Q (fst s1)" for s1 rv1 found nxt s2
    by (rule match_page_keeps [where Q = ?Q, OF _ obj that(1) [unfolded match_dependencies_page_def] that(2)]) simp_all
  have "?Q (fst s')" if "query_entry srv table params (match_dependencies_page srv dep) endpoint s = Some (rv, s')" for table params
    by (rule query_entry_keeps [where Q = ?Q, OF _ page that]) (simp_all add: same_set_simps)
  then show ?thesis using assms by (auto simp: query_dependency_def Let_def same_set_simps split: if_splits)
qed

lemma query_oe_frame:
  assumes "query_oe srv oe endpoint s = Some (rv, s')"
  shows "same_but_oe oe (fst s) (fst s')"
proof -
  let ?Q = "same_but_oe oe (fst s)"
  have obj: "?Q (fst (snd (scan_state r)))" if "match_oe_object oe i obj (x, s1) = Some r" "?Q (fst s1)" for i obj x s1 r
    using that by (auto simp: match_oe_object_def Let_def intro!: take_url_keeps [where Q = ?Q] same_set_simps(2) split: if_splits option.splits)
  have page: "?Q (fst s2)" if "match_oes_page srv oe s1 = Some (rv1, found, nxt, s2)" "?Q (fst s1)" for s1 rv1 found nxt s2
    by (rule match_page_keeps [where Q = ?Q, OF _ obj that(1) [unfolded match_oes_page_def] that(2)]) simp_all
  have "?Q (fst s')" if "query_entry srv table params (match_oes_page srv oe) endpoint s = Some (rv, s')" for table params
    by (rule query_entry_keeps [where Q = ?Q, OF _ page that]) (simp_all add: same_set_simps)
  then show ?thesis using assms by (auto simp: query_oe_def Let_def same_set_simps split: if_splits)
qed

lemma query_module_frame:
  assumes "query_module srv m v endpoint s = Some (rv, s')"
  shows "same_but_module (fst s) (fst s')"
proof -
  let ?Q = "same_but_module (fst s)"
  have obj: "?Q (fst (snd (scan_state r)))" if "match_module_object m v i obj (x, s1) = Some r" "?Q (fst s1)" for i obj x s1 r
  proof -
    obtain tm tv st1 where t: "tmp_module obj (fst s1) = ((tm, tv), st1)" by (metis prod.exhaust)
    with tmp_keeps(2) [of ?Q obj "fst s1"] that(2) have "?Q st1" by simp
    then have "?Q (snd (tmp_contacts k urls i st1))" for k urls using tmp_keeps(3) [of ?Q] by simp
    with \<open>?Q st1\<close> t that(1) show ?thesis
      by (cases s1) (auto simp: match_module_object_def Let_def case_prod_beta
        intro!: take_url_keeps [where Q = ?Q] same_set_simps(3) split: if_splits option.splits)
  qed
  have page: "?Q (fst s2)" if p: "match_modules_page srv m v s1 = Some (rv1, found, nxt, s2)" "?Q (fst s1)" for s1 rv1 found nxt s2
  proof -
    have "?Q (fst s2)" if "match_page srv ''nextPage'' (match_module_object m v) () (st1, snd s1) = Some (rv1, found, nxt, s2)" "?Q st1" for st1
      by (rule match_page_keeps [where Q = ?Q, OF _ obj that(1)]) (use that(2) in simp_all)
    with p show ?thesis by (auto simp: match_modules_page_def meta_calloc_def Let_def split: if_splits)
  qed
  have "?Q (fst s')" if "query_entry srv table params (match_modules_page srv m v) endpoint s = Some (rv, s')" for table params
    by (rule query_entry_keeps [where Q = ?Q, OF _ page that]) (simp_all add: same_set_simps)
  then show ?thesis using assms by (auto simp: query_module_def Let_def same_set_simps split: if_splits)
qed

section \<open>The message after a verification\<close>

definition found_status :: "AMVP_DEPENDENCY list \<Rightarrow> AMVP_RESOURCE_STATUS" where
  "found_status deps =
     (if list_all (\<lambda>d. dep_url d = None) deps then AMVP_RESOURCE_STATUS_INCOMPLETE
      else if list_ex (\<lambda>d. dep_url d = None) deps then AMVP_RESOURCE_STATUS_PARTIAL
      else AMVP_RESOURCE_STATUS_COMPLETE)"

definition linked :: "META \<Rightarrow> nat \<Rightarrow> AMVP_DEPENDENCY list" where
  "linked st oe = map ((!) (dependencies st)) (oe_deps (oes st ! oe))"

lemma query_dependencies_result:
  assumes "query_dependencies srv deps b status s = Some (AMVP_SUCCESS, b', status', s')" and "distinct deps"
  shows "(\<forall>j. j \<notin> set deps \<longrightarrow> dependencies (fst s') ! j = dependencies (fst s) ! j) \<and>
    oes (fst s') = oes (fst s) \<and> modules (fst s') = modules (fst s) \<and> fips_module (fst s') = fips_module (fst s) \<and>
    fips_oe (fst s') = fips_oe (fst s) \<and>
    b' = (b \<and> list_all (\<lambda>d. dep_url (dependencies (fst s') ! d) = None) deps) \<and>
    status' = (if list_ex (\<lambda>d. dep_url (dependencies (fst s') ! d) = None) deps then AMVP_RESOURCE_STATUS_PARTIAL else status)"
  using assms
proof (induction deps arbitrary: b status s)
  case (Cons dep deps)
  obtain rv s1 where q: "query_dependency srv dep None s = Some (rv, s1)"
    using Cons.prems(1) by (auto split: bind_splits)
  from query_dependency_frame [OF q] have frame: "same_but_dep dep (fst s) (fst s1)" .
  let ?none = "dep_url (dependencies (fst s1) ! dep) = None"
  have "query_dependencies srv deps (if ?none then b else False) (if ?none then AMVP_RESOURCE_STATUS_PARTIAL else status) s1 =
      Some (AMVP_SUCCESS, b', status', s')"
    using Cons.prems(1) q by (auto split: if_splits)
  from Cons.IH [OF this] Cons.prems(2) frame show ?case by (auto simp: same_but_dep_def split: if_splits)
qed auto

lemma verify_dependencies_result:
  assumes "verify_fips_oe_dependencies srv oe s = Some (AMVP_SUCCESS, s')" and "distinct (oe_deps (oes (fst s) ! oe))"
    and "oe < length (oes (fst s))"
  shows "oe_status (oes (fst s') ! oe) = found_status (linked (fst s') oe) \<and>
    (\<exists>status. oes (fst s') = (oes (fst s))[oe := (oes (fst s) ! oe)\<lparr>oe_status := status\<rparr>]) \<and>
    modules (fst s') = modules (fst s) \<and> fips_module (fst s') = fips_module (fst s) \<and> fips_oe (fst s') = fips_oe (fst s)"
proof -
  obtain b status s1 where q: "query_dependencies srv (oe_deps (oes (fst s) ! oe)) True AMVP_RESOURCE_STATUS_COMPLETE s = Some (AMVP_SUCCESS, b, status, s1)"
    using assms(1) by (auto simp: verify_fips_oe_dependencies_def split: bind_splits)
  note r = query_dependencies_result [OF q assms(2)]
  have s': "fst s' = set_oe_status oe (if b then AMVP_RESOURCE_STATUS_INCOMPLETE else status) (fst s1)"
    using assms(1) q by (cases s1) (auto simp: verify_fips_oe_dependencies_def)
  then have "oes (fst s') = (oes (fst s))[oe := (oes (fst s) ! oe)\<lparr>oe_status := if b then AMVP_RESOURCE_STATUS_INCOMPLETE else status\<rparr>]"
    using r by (simp add: set_oe_status_def)
  moreover from this have "oe_status (oes (fst s') ! oe) = (if b then AMVP_RESOURCE_STATUS_INCOMPLETE else status)"
    and "oe_deps (oes (fst s') ! oe) = oe_deps (oes (fst s) ! oe)" using assms(3) by simp_all
  moreover have "dependencies (fst s') = dependencies (fst s1)" using s' by (simp add: set_oe_status_def)
  ultimately show ?thesis
    using r s' by (auto simp: found_status_def linked_def list_all_iff list_ex_iff set_oe_status_def)
qed

text \<open>The same for the environment: it has an address in the end, or the status of its dependencies is right.\<close>

lemma verify_oe_result:
  assumes "verify_fips_oe srv oe s = Some (AMVP_SUCCESS, s')" and "distinct (oe_deps (oes (fst s) ! oe))" and "oe < length (oes (fst s))"
  shows "oe_status (oes (fst s') ! oe) = found_status (linked (fst s') oe) \<and>
    oe_deps (oes (fst s') ! oe) = oe_deps (oes (fst s) ! oe) \<and> oe_name (oes (fst s') ! oe) = oe_name (oes (fst s) ! oe) \<and>
    modules (fst s') = modules (fst s) \<and> fips_module (fst s') = fips_module (fst s) \<and> fips_oe (fst s') = fips_oe (fst s)"
proof -
  obtain rv1 s1 where v: "verify_fips_oe_dependencies srv oe s = Some (rv1, s1)"
    using assms(1) by (auto simp: verify_fips_oe_def split: bind_splits)
  have s1: "rv1 = AMVP_SUCCESS" "s1 = s' \<or> query_oe srv oe None s1 = Some (AMVP_SUCCESS, s')"
    using assms(1) v by (auto simp: verify_fips_oe_def split: if_splits)
  then have "same_but_oe oe (fst s1) (fst s')" using query_oe_frame same_set_simps(5) by blast
  with verify_dependencies_result [OF v [unfolded s1(1)] assms(2,3)] assms(3) show ?thesis
    by (auto simp: same_but_oe_def linked_def)
qed

lemma verify_module_result:
  assumes "verify_fips_module srv m s = Some (Ret AMVP_SUCCESS s')" and "meta_inv (fst s)" and "m < length (modules (fst s))"
  shows "mod_vendor (modules (fst s') ! m) \<noteq> None \<and> oes (fst s') = oes (fst s) \<and> fips_module (fst s') = fips_module (fst s) \<and>
    fips_oe (fst s') = fips_oe (fst s)"
proof -
  obtain rv1 s1 where q: "query_vendor srv (mod_vendor (modules (fst s) ! m)) None s = Some (rv1, s1)"
    using assms(1) by (auto simp: verify_fips_module_def split: bind_splits)
  have "module_ok (vendors (fst s)) (modules (fst s) ! m)" using assms(2,3) by (simp add: meta_inv_def list_all_length)
  then have "vendor_inv (fst s) i (fst s)" if "mod_vendor (modules (fst s) ! m) = Some i" for i
    using that assms(2) by (simp add: module_ok_def)
  then have "same_but_vendors (fst s) (fst s1)"
    using q query_vendor_inv [of srv _ None s rv1 s1 "fst s"] by (cases "mod_vendor (modules (fst s) ! m)") (auto simp: query_vendor_def [of srv None])
  moreover obtain v where "mod_vendor (modules (fst s1) ! m) = Some v" "query_module srv m v None s1 = Some (AMVP_SUCCESS, s')"
    using assms(1) q by (auto simp: verify_fips_module_def split: option.splits if_splits bind_splits)
  moreover from this(2) have "same_but_module (fst s1) (fst s')" by (rule query_module_frame)
  moreover from this have "mod_vendor (modules (fst s') ! m) = mod_vendor (modules (fst s1) ! m)" if "m < length (modules (fst s1))"
    using that unfolding same_but_module_def by (metis length_map nth_map)
  ultimately show ?thesis using assms(3) by (auto simp: same_but_vendors_def same_but_module_def)
qed

lemma string_array_urls:
  "string_array (map dep_url deps) = map (\<lambda>d. JSONString (the (dep_url d))) (filter (\<lambda>d. dep_url d \<noteq> None) deps)"
  by (induction deps) auto

lemma json_set_string_names: "json_names obj \<Longrightarrow> json_name name \<Longrightarrow> json_names (json_object_set_string name s obj)"
  by (simp add: json_object_set_string_def json_names_set)

lemma set_none: "json_object_set_value name None obj = obj"
  by (simp add: json_object_set_value_def)

lemma oe_object_fields:
  assumes "oe_status e = found_status deps"
  shows "json_object_get_array (Some (oe_object deps e)) ''dependencyUrls'' =
      (if list_ex (\<lambda>d. dep_url d \<noteq> None) deps
       then Some (map (\<lambda>d. JSONString (the (dep_url d))) (filter (\<lambda>d. dep_url d \<noteq> None) deps)) else None)" (is ?urls)
    and "json_object_get_array (Some (oe_object deps e)) ''dependencies'' =
      (if deps = [] \<or> list_ex (\<lambda>d. dep_url d = None) deps
       then Some (map dependency_object (filter (\<lambda>d. dep_url d = None) deps)) else None)" (is ?deps)
proof -
  define n0 where "n0 = json_object_set_string ''name'' (oe_name e) []"
  define has_url where "has_url \<longleftrightarrow> list_ex (\<lambda>d. dep_url d \<noteq> None) deps"
  define has_none where "has_none \<longleftrightarrow> deps = [] \<or> list_ex (\<lambda>d. dep_url d = None) deps"
  have n0: "n0 = (case oe_name e of None \<Rightarrow> [] | Some n \<Rightarrow> [(''name'', JSONString n)])"
    by (simp add: n0_def json_object_set_string_def set_none json_set_new json_names_used json_names_simps(1) split: option.split)
  have names: "json_names n0" "''dependencyUrls'' \<notin> fst ` set n0" "''dependencies'' \<notin> fst ` set n0"
    by (cases "oe_name e"; simp add: n0 json_names_def c_string_def)+
  have status: "oe_status e = (if \<not> has_url then AMVP_RESOURCE_STATUS_INCOMPLETE else if has_none then AMVP_RESOURCE_STATUS_PARTIAL
      else AMVP_RESOURCE_STATUS_COMPLETE)" and one: "has_none \<or> has_url"
    by (cases deps; auto simp: assms found_status_def has_url_def has_none_def list_all_iff list_ex_iff)+
  have obj: "oe_object deps e = n0 @
      (if has_url then [(''dependencyUrls'', JSONArray (map (\<lambda>d. JSONString (the (dep_url d))) (filter (\<lambda>d. dep_url d \<noteq> None) deps)))] else []) @
      (if has_none then [(''dependencies'', JSONArray (map dependency_object (filter (\<lambda>d. dep_url d = None) deps)))] else [])"
    (is "_ = n0 @ ?u @ ?d")
    using names one
    by (cases has_url; cases has_none)
      (auto simp: oe_object_def n0_def [symmetric] status string_array_urls json_set_new json_names_used json_names_def c_string_def)
  have "map_of n0 ''dependencyUrls'' = None" "map_of n0 ''dependencies'' = None" using names(2,3) by (simp_all add: map_of_eq_None_iff)
  moreover have "json_names (n0 @ ?u @ ?d)" using names(1) by (simp add: json_names_def c_string_def)
  ultimately show ?urls ?deps
    unfolding obj has_url_def [symmetric] has_none_def [symmetric]
    by (simp_all add: json_object_get_array_def json_object_get_value_eq json_names_used json_value_get_array_def map_add_def split: option.split)
qed


text \<open>One dependency is known to the server, the other is not on the only, empty page.\<close>

definition partly_found :: "AMVP_RESOURCE_STATUS \<Rightarrow> nat \<Rightarrow> META" where
  "partly_found status n = fresh_meta\<lparr>vendors := [(new_vendor 1)\<lparr>vendor_url := Some ''/v/1''\<rparr>],
     modules := [(new_module 1)\<lparr>mod_name := Some ''M'', mod_vendor := Some 0, mod_url := Some ''/m/1''\<rparr>],
     dependencies := [(new_dependency 1)\<lparr>dep_url := Some ''/d/1''\<rparr>, (new_dependency 2)\<lparr>dep_name := Some ''cpu''\<rparr>],
     oes := [(new_oe 1)\<lparr>oe_name := Some ''Linux'', oe_deps := [0, 1], oe_status := status\<rparr>],
     fips_module := Some 0, fips_oe := Some 0, alloc_n := n\<rparr>"

definition empty_server :: "unit server" where
  "empty_server = \<lparr>path_segment = ''/amv/v1/'', transport_get = (\<lambda>_ _ w. (AMVP_SUCCESS, w)),
     answer = (\<lambda>_. Some (JSONArray [JSONObject [(''data'', JSONArray []), (''links'', JSONObject [])]]))\<rparr>"

lemma empty_page:
  "match_page empty_server link f x s = Some (AMVP_SUCCESS, False, None, s)"
proof -
  have "json_names [(''data'', JSONArray []), (''links'', JSONObject [])]" by (simp add: json_names_def c_string_def)
  moreover have "json_object_get_value (Some []) link = None" by (simp add: json_object_get_value_def json_object_getn_value_def)
  ultimately show ?thesis
    by (simp add: match_page_def empty_server_def amvp_get_obj_from_rsp_def json_array_get_object_def json_array_get_value_def
        json_array_get_count_def json_value_get_array_def json_value_get_object_def data_of_def json_object_get_array_def
        json_object_get_object_def json_object_get_value_eq json_names_used next_page_def json_object_get_string_def
        json_value_get_string_def)
qed

lemma partly_found_verified:
  "amvp_verify_fips_validation_metadata empty_server (Some (partly_found AMVP_RESOURCE_STATUS_UNSET 0, ())) =
     Some (Ret AMVP_SUCCESS (Some (partly_found AMVP_RESOURCE_STATUS_PARTIAL 4, ())))"
proof -
  have kv: "kv_all (kv_given ''name[0]=eq:'' (Some ''cpu'')) ([], st) =
      (AMVP_SUCCESS, [\<lparr>kv_key = Some ''name[0]=eq:'', kv_value = Some ''cpu''\<rparr>], st\<lparr>alloc_n := alloc_n st + 3\<rparr>)" if "\<forall>n. allocs st n" for st
    using that by (simp add: kv_given_def kv_add_def then_ok_def amvp_kv_list_append_def string_fits_iff AMVP_UTIL_KV_STR_MAX_def)
  have none: "kv_given k None = []" for k by (simp add: kv_given_def)
  have get: "transport_get empty_server e ps w = (AMVP_SUCCESS, w)" for e ps w by (simp add: empty_server_def)
  have pages: "query_pages empty_server (match_dependencies_page empty_server i) e ps (st, ()) = Some (AMVP_SUCCESS, st, ())" for i e ps st
    by (subst query_pages.simps) (simp add: match_dependencies_page_def empty_page get)
  have second: "query_dependency empty_server 1 None (partly_found status 0, ()) = Some (AMVP_SUCCESS, partly_found status 4, ())" for status
    by (simp add: query_dependency_def query_entry_def Let_def partly_found_def new_dependency_def fresh_meta_def meta_calloc_def kv none pages)
  have first: "query_dependency empty_server 0 None (partly_found status n, ()) = Some (AMVP_SUCCESS, partly_found status n, ())" for status n
    by (simp add: query_dependency_def partly_found_def)
  have module: "verify_fips_module empty_server 0 (partly_found status n, ()) = Some (Ret AMVP_SUCCESS (partly_found status n, ()))" for status n
    by (simp add: verify_fips_module_def query_vendor_def query_module_def partly_found_def)
  have deps: "oe_deps (oes (partly_found status n) ! 0) = [0, 1]" "dep_url (dependencies (partly_found status n) ! 0) = Some ''/d/1''"
    "dep_url (dependencies (partly_found status n) ! 1) = None" "set_oe_status 0 new (partly_found status n) = partly_found new n"
    for status n new by (simp_all add: partly_found_def new_dependency_def set_oe_status_def)
  have "verify_fips_oe empty_server 0 (partly_found AMVP_RESOURCE_STATUS_UNSET 0, ()) =
      Some (AMVP_SUCCESS, partly_found AMVP_RESOURCE_STATUS_PARTIAL 4, ())"
    by (simp add: verify_fips_oe_def verify_fips_oe_dependencies_def deps first second del: One_nat_def)
  moreover have "fips_module (partly_found status n) = Some 0" "fips_oe (partly_found status n) = Some 0" for status n
    by (simp_all add: partly_found_def)
  ultimately show ?thesis by (simp add: amvp_verify_fips_validation_metadata_def module)
qed


section \<open>A module without a vendor\<close>

text \<open>
  C31: a module that was refused. A new module whose number is not the number of a vendor is
  refused, but stays in the table without a vendor. It can then be selected for a validation,
  and both the verification with the server and, without it, the building of the message read
  the vendor through a null pointer.
\<close>
theorem refused_module_selected:
  assumes "metadata_loaded st \<noteq> 0" and "length (modules st) < LIBAMVP_MODULES_MAX" and "num \<noteq> 0"
    and "find_module st num = None" and "find_vendor st num = None" and "oe_num \<noteq> 0" and "find_oe st oe_num = Some oe"
  shows "\<exists>st1 st2. amvp_oe_module_new (Some st) num name = (AMVP_INVALID_ARG, Some st1) \<and>
    amvp_oe_set_fips_validation_metadata (Some st1) num oe_num = (AMVP_SUCCESS, Some st2) \<and>
    amvp_verify_fips_validation_metadata srv (Some (st2, w)) = Some (UB Null_Deref) \<and>
    amvp_build_validation (Some st2) = UB Null_Deref"
proof -
  let ?st1 = "st\<lparr>modules := modules st @ [new_module num]\<rparr>"
  let ?m = "length (modules st)"
  have absent: "position p l = None \<Longrightarrow> \<not> list_ex p l" and placed: "position p l = None \<Longrightarrow> p x \<Longrightarrow> position p (l @ [x]) = Some (length l)"
    for p and l :: "AMVP_MODULE list" and x by (induction l) (auto split: if_splits)
  have pos: "position (\<lambda>x. mod_id x = num) (modules st) = None" using assms(3,4) by (simp add: find_module_def find_id_def)
  have "amvp_oe_module_new (Some st) num name = (AMVP_INVALID_ARG, Some ?st1)"
    using assms(2,3,5) absent [OF pos]
    by (simp add: amvp_oe_module_new_def with_meta_def module_new_def find_vendor_def Let_def)
  moreover have "find_module ?st1 num = Some ?m"
    using assms(3) placed [OF pos, of "new_module num"] by (simp add: find_module_def find_id_def)
  then have "amvp_oe_set_fips_validation_metadata (Some ?st1) num oe_num =
      (AMVP_SUCCESS, Some (?st1\<lparr>fips_module := Some ?m, fips_oe := Some oe\<rparr>))" (is "_ = (_, Some ?st2)")
    using assms(1,3,6,7) by (simp add: amvp_oe_set_fips_validation_metadata_def with_meta_def then_ok_def find_oe_def)
  moreover have "mod_vendor (modules ?st2 ! ?m) = None" "mod_url (modules ?st2 ! ?m) = None" by (simp_all add: new_module_def)
  then have "amvp_verify_fips_validation_metadata srv (Some (?st2, w)) = Some (UB Null_Deref)" "amvp_build_validation (Some ?st2) = UB Null_Deref"
    by (simp_all add: amvp_verify_fips_validation_metadata_def verify_fips_module_def query_vendor_def amvp_build_validation_def)
  ultimately show ?thesis by blast
qed

definition loaded_oe :: META where
  "loaded_oe = fresh_meta\<lparr>oes := [new_oe 1], metadata_loaded := 1\<rparr>"

theorem refused_module_selected_witness:
  "\<exists>st1 st2. amvp_oe_module_new (Some loaded_oe) 1 (Some ''M'') = (AMVP_INVALID_ARG, Some st1) \<and>
    amvp_oe_set_fips_validation_metadata (Some st1) 1 1 = (AMVP_SUCCESS, Some st2) \<and>
    amvp_verify_fips_validation_metadata empty_server (Some (st2, ())) = Some (UB Null_Deref) \<and>
    amvp_build_validation (Some st2) = UB Null_Deref"
  by (rule refused_module_selected [where oe = 0])
    (simp_all add: loaded_oe_def fresh_meta_def find_module_def find_vendor_def find_oe_def find_id_def new_oe_def)

section \<open>Fields that stay behind\<close>

text \<open>The temporary copy of an object keeps the version of an earlier object.\<close>

lemma tmp_version:
  assumes "tmp_dependency obj tmp st = (tmp', st')" and "\<forall>n. allocs st n"
  shows "dep_version tmp' = (case json_object_get_string (Some obj) ''version'' of None \<Rightarrow> dep_version tmp | Some v \<Rightarrow> Some v) \<and> allocs st' = allocs st"
proof -
  have a: "allocs (snd (dup_given old src st1)) = allocs st1" for old src st1
    by (simp add: dup_given_def meta_calloc_def split: option.split)
  have d: "fst (dup_given old src st1) = (case src of None \<Rightarrow> old | Some s \<Rightarrow> Some s)" if "\<forall>n. allocs st1 n" for old src st1
    using that by (simp add: dup_given_def meta_calloc_def split: option.split)
  show ?thesis
    using assms by (auto simp: tmp_dependency_def Let_def case_prod_beta a d)
qed

lemma compare_fields_missing: "compare_fields l diff \<Longrightarrow> (x, y) \<in> set l \<Longrightarrow> x = None \<longleftrightarrow> y = None"
  by (induction l arbitrary: diff) (auto simp: Let_def split: option.splits if_splits)

lemma compare_version:
  assumes "compare_dependencies d tmp" and "dep_version d = None"
  shows "dep_version tmp = None"
proof -
  have "compare_fields [(dep_type d, dep_type tmp), (dep_description d, dep_description tmp), (dep_series d, dep_series tmp),
      (dep_family d, dep_family tmp), (dep_version d, dep_version tmp), (dep_manufacturer d, dep_manufacturer tmp)] 0"
    using assms(1) unfolding compare_dependencies_def by (simp only: split: if_splits)
  from compare_fields_missing [OF this, of "dep_version d" "dep_version tmp"] assms(2) show ?thesis by simp
qed

lemma version_stays:
  assumes "dep_version tmp \<noteq> None" and "dep_version (dependencies st ! dep) = None" and "\<forall>n. allocs st n"
  shows "\<forall>rv s'. scan_data (match_dependency_object dep) i l (tmp, st, w) \<noteq> Some (Done rv True s')"
  using assms
proof (induction l arbitrary: i tmp st)
  case (Cons v l)
  show ?case
  proof (cases "json_value_get_object (Some v)")
    case (Some obj)
    obtain tmp1 st1 where t: "tmp_dependency obj tmp st = (tmp1, st1)" by (metis surj_pair)
    have st1: "allocs st1 = allocs st" and v1: "dep_version tmp1 \<noteq> None"
      using tmp_version [OF t Cons.prems(3)] Cons.prems(1) by (auto split: option.splits)
    have deps: "dependencies st1 = dependencies st"
      using tmp_keeps(1) [of "\<lambda>s. dependencies s = dependencies st" obj tmp st] t by simp
    then have "\<not> compare_dependencies (dependencies st1 ! dep) tmp1" using compare_version Cons.prems(2) v1 by metis
    then show ?thesis
      using Cons.IH [of "tmp1\<lparr>dep_type := None, dep_name := None, dep_description := None\<rparr>" st1] Cons.prems(2,3) Some t v1 st1 deps
      by (simp add: match_dependency_object_def)
  qed simp
qed simp

text \<open>
  A version that stays behind. When the first object of a page of dependencies has a version,
  no object of that page matches a dependency that has none, also not one that describes
  it exactly: the version is kept for the objects after it.
\<close>
theorem stale_version:
  assumes "answer srv w = Some val" and "amvp_get_obj_from_rsp val = Some page" and "data_of page = JSONObject obj # rest"
    and "json_object_get_string (Some obj) ''version'' = Some version"
    and "dep_version (dependencies st ! dep) = None" and "\<forall>n. allocs st n"
  shows "match_dependencies_page srv dep (st, w) \<noteq> Some (rv, True, nxt, s')"
proof -
  obtain tmp1 st1 where t: "tmp_dependency obj (new_dependency 0) st = (tmp1, st1)" by (metis surj_pair)
  have v1: "dep_version tmp1 = Some version" and st1: "allocs st1 = allocs st"
    using tmp_version [OF t assms(6)] assms(4) by simp_all
  have deps: "dependencies st1 = dependencies st"
    using tmp_keeps(1) [of "\<lambda>s. dependencies s = dependencies st" obj "new_dependency 0" st] t by simp
  have "\<not> compare_dependencies (dependencies st1 ! dep) tmp1" using compare_version assms(5) v1 deps by force
  then have first: "match_dependency_object dep 0 obj (new_dependency 0, st, w) =
      Some (Next (tmp1\<lparr>dep_type := None, dep_name := None, dep_description := None\<rparr>, st1, w))"
    by (simp add: match_dependency_object_def t)
  have "scan_data (match_dependency_object dep) 0 (data_of page) (new_dependency 0, st, w) \<noteq> Some (Done rv True x)" for rv x
    using version_stays [of "tmp1\<lparr>dep_type := None, dep_name := None, dep_description := None\<rparr>" st1 dep "Suc 0" rest w] v1 st1 deps assms(3,5,6) first
    by (cases x) (simp add: json_value_get_object_def)
  then show ?thesis
    using assms(1,2)
    by (auto simp: match_dependencies_page_def match_page_def next_page_def meta_calloc_def Let_def
        split: option.splits scan.splits bind_splits if_splits) blast
qed

text \<open>The second object of the page is the dependency that is looked for.\<close>

definition two_object_server :: "JSON_Object list \<Rightarrow> unit server" where
  "two_object_server objs = \<lparr>path_segment = ''/'', transport_get = (\<lambda>_ _ w. (AMVP_SUCCESS, w)),
     answer = (\<lambda>_. Some (JSONArray [JSONObject [(''data'', JSONArray (map JSONObject objs)), (''links'', JSONObject [])]]))\<rparr>"

definition cpu_object :: JSON_Object where
  "cpu_object = [(''name'', JSONString ''cpu''), (''url'', JSONString ''/d/2'')]"

theorem stale_version_witness:
  "match_dependencies_page (two_object_server [[(''version'', JSONString ''1'')], cpu_object]) 1 (partly_found AMVP_RESOURCE_STATUS_UNSET 0, ()) \<noteq>
     Some (AMVP_SUCCESS, True, None, (partly_found AMVP_RESOURCE_STATUS_UNSET 0, ()))"
proof (rule stale_version [where obj = "[(''version'', JSONString ''1'')]" and rest = "[JSONObject cpu_object]" and version = "''1''"
      and val = "JSONArray [JSONObject [(''data'', JSONArray (map JSONObject [[(''version'', JSONString ''1'')], cpu_object])), (''links'', JSONObject [])]]"
      and page = "[(''data'', JSONArray (map JSONObject [[(''version'', JSONString ''1'')], cpu_object])), (''links'', JSONObject [])]"])
  show "data_of [(''data'', JSONArray (map JSONObject [[(''version'', JSONString ''1'')], cpu_object])), (''links'', JSONObject [])] =
      [JSONObject [(''version'', JSONString ''1'')], JSONObject cpu_object]"
    by (simp add: data_of_def json_object_get_array_def json_object_get_value_eq json_names_used json_names_def c_string_def json_value_get_array_def)
  show "json_object_get_string (Some [(''version'', JSONString ''1'')]) ''version'' = Some ''1''"
    by (simp add: json_object_get_string_def json_object_get_value_eq json_names_used json_names_def c_string_def json_value_get_string_def)
qed (simp_all add: two_object_server_def partly_found_def fresh_meta_def new_dependency_def amvp_get_obj_from_rsp_def
    json_array_get_object_def json_array_get_value_def json_array_get_count_def json_value_get_array_def json_value_get_object_def)

end
