(* ===== verification/Kat_Drbg.thy ===== *)
theory Kat_Drbg
  imports Kat_Common Cap_Drbg
begin

text \<open>
  The handler of the vector sets of random bit generators, \<^verbatim>\<open>src/amvp_drbg.c\<close>: the test case that
  goes to the crypto module, the checks on groups and tests, and the answer.
\<close>

section \<open>Limits and the test case\<close>

definition AMVP_DRB_BYTE_MAX :: nat where "AMVP_DRB_BYTE_MAX = 512"
definition AMVP_DRB_STR_MAX :: nat where "AMVP_DRB_STR_MAX = 1024"
definition AMVP_DRBG_ENTPY_IN_BYTE_MAX :: nat where "AMVP_DRBG_ENTPY_IN_BYTE_MAX = 131072"
definition AMVP_DRBG_ENTPY_IN_STR_MAX :: nat where "AMVP_DRBG_ENTPY_IN_STR_MAX = 262144"
definition AMVP_DRBG_NONCE_BYTE_MAX :: nat where "AMVP_DRBG_NONCE_BYTE_MAX = 64"
definition AMVP_DRBG_NONCE_STR_MAX :: nat where "AMVP_DRBG_NONCE_STR_MAX = 128"
definition AMVP_DRBG_PER_SO_BYTE_MAX :: nat where "AMVP_DRBG_PER_SO_BYTE_MAX = 131072"
definition AMVP_DRBG_PER_SO_STR_MAX :: nat where "AMVP_DRBG_PER_SO_STR_MAX = 262144"
definition AMVP_DRBG_ADDI_IN_BYTE_MAX :: nat where "AMVP_DRBG_ADDI_IN_BYTE_MAX = 131072"
definition AMVP_DRBG_ADDI_IN_STR_MAX :: nat where "AMVP_DRBG_ADDI_IN_STR_MAX = 262144"

lemmas drbg_sizes =
  AMVP_DRB_BYTE_MAX_def AMVP_DRB_STR_MAX_def
  AMVP_DRBG_ENTPY_IN_BYTE_MAX_def AMVP_DRBG_ENTPY_IN_STR_MAX_def
  AMVP_DRBG_NONCE_BYTE_MAX_def AMVP_DRBG_NONCE_STR_MAX_def
  AMVP_DRBG_PER_SO_BYTE_MAX_def AMVP_DRBG_PER_SO_STR_MAX_def
  AMVP_DRBG_ADDI_IN_BYTE_MAX_def AMVP_DRBG_ADDI_IN_STR_MAX_def

text \<open>Bits to bytes, rounded up; the sum is one of unsigned integers and may wrap.\<close>


record AMVP_DRBG_TC =
  dr_cipher :: AMVP_CIPHER
  dr_mode :: int
  dr_tc_id :: nat
  dr_additional_input_0 :: "8 word list option"
  dr_entropy_input_pr_0 :: "8 word list option"
  dr_additional_input_1 :: "8 word list option"
  dr_entropy_input_pr_1 :: "8 word list option"
  dr_additional_input_2 :: "8 word list option"
  dr_entropy_input_pr_2 :: "8 word list option"
  dr_pr1_len :: nat
  dr_pr2_len :: nat
  dr_perso_string :: "8 word list option"
  dr_entropy :: "8 word list option"
  dr_nonce :: "8 word list option"
  dr_drb :: "8 word list option"
  dr_der_func_enabled :: int
  dr_pred_resist_enabled :: int
  dr_reseed :: int
  dr_additional_input_len :: nat
  dr_perso_string_len :: nat
  dr_entropy_len :: nat
  dr_nonce_len :: nat
  dr_drb_len :: nat

type_synonym 'w drbg_crypto = "nat \<Rightarrow> AMVP_DRBG_TC \<Rightarrow> 'w \<Rightarrow> AMVP_RESULT \<times> AMVP_DRBG_TC \<times> 'w"

section \<open>The handler\<close>

text \<open>What a group says, as the handler's variables hold it.\<close>

record drbg_params =
  dp_mode :: int
  dp_pred :: int
  dp_reseed :: int
  dp_der :: int
  dp_entropy_len :: nat
  dp_nonce_len :: nat
  dp_perso_len :: nat
  dp_drb_len :: nat
  dp_add_len :: nat

definition amvp_drbg_init_tc ::
  "'w allocator \<Rightarrow> nat \<Rightarrow> string option \<times> string option \<Rightarrow> string option \<times> string option \<Rightarrow> string option \<times> string option \<Rightarrow>
   nat \<Rightarrow> nat \<Rightarrow> string option \<Rightarrow> string option \<Rightarrow> string option \<Rightarrow> drbg_params \<Rightarrow> AMVP_CIPHER \<Rightarrow> (AMVP_DRBG_TC, 'w) step" where
  "amvp_drbg_init_tc al tc_id in0 in1 in2 pr1_len pr2_len perso_string entropy nonce p alg_id =
     andthen (new_bytes al AMVP_DRB_BYTE_MAX) (\<lambda>drb.
     andthen (new_bytes al AMVP_DRBG_ADDI_IN_BYTE_MAX) (\<lambda>a0.
     andthen (new_bytes al AMVP_DRBG_ADDI_IN_BYTE_MAX) (\<lambda>a1.
     andthen (new_bytes al AMVP_DRBG_ADDI_IN_BYTE_MAX) (\<lambda>a2.
     andthen (new_bytes al AMVP_DRBG_ENTPY_IN_BYTE_MAX) (\<lambda>e.
     andthen (new_bytes al AMVP_DRBG_ENTPY_IN_BYTE_MAX) (\<lambda>e0.
     andthen (new_bytes al AMVP_DRBG_ENTPY_IN_BYTE_MAX) (\<lambda>e1.
     andthen (new_bytes al AMVP_DRBG_ENTPY_IN_BYTE_MAX) (\<lambda>e2.
     andthen (new_bytes al AMVP_DRBG_NONCE_BYTE_MAX) (\<lambda>n.
     andthen (new_bytes al AMVP_DRBG_PER_SO_BYTE_MAX) (\<lambda>ps.
     andthen (from_hex_if al (fst in0) a0 AMVP_DRBG_ADDI_IN_BYTE_MAX) (\<lambda>a0'.
     andthen (from_hex_if al (snd in0) e0 AMVP_DRBG_ENTPY_IN_BYTE_MAX) (\<lambda>e0'.
     andthen (from_hex_if al (fst in1) a1 AMVP_DRBG_ADDI_IN_BYTE_MAX) (\<lambda>a1'.
     andthen (from_hex_if al (snd in1) e1 AMVP_DRBG_ENTPY_IN_BYTE_MAX) (\<lambda>e1'.
     andthen (from_hex_if al (fst in2) a2 AMVP_DRBG_ADDI_IN_BYTE_MAX) (\<lambda>a2'.
     andthen (from_hex_if al (snd in2) e2 AMVP_DRBG_ENTPY_IN_BYTE_MAX) (\<lambda>e2'.
     andthen (from_hex_if al entropy e AMVP_DRBG_ENTPY_IN_BYTE_MAX) (\<lambda>e'.
     andthen (from_hex_if al perso_string ps AMVP_DRBG_PER_SO_BYTE_MAX) (\<lambda>ps'.
     andthen (from_hex_if al nonce n AMVP_DRBG_NONCE_BYTE_MAX) (\<lambda>n'.
       pass \<lparr>dr_cipher = alg_id, dr_mode = dp_mode p, dr_tc_id = tc_id,
             dr_additional_input_0 = Some a0', dr_entropy_input_pr_0 = Some e0', dr_additional_input_1 = Some a1',
             dr_entropy_input_pr_1 = Some e1', dr_additional_input_2 = Some a2', dr_entropy_input_pr_2 = Some e2',
             dr_pr1_len = pr1_len, dr_pr2_len = pr2_len, dr_perso_string = Some ps', dr_entropy = Some e', dr_nonce = Some n', dr_drb = Some drb,
             dr_der_func_enabled = dp_der p, dr_pred_resist_enabled = dp_pred p, dr_reseed = dp_reseed p,
             dr_additional_input_len = AMVP_BIT2BYTE (dp_add_len p), dr_perso_string_len = AMVP_BIT2BYTE (dp_perso_len p),
             dr_entropy_len = AMVP_BIT2BYTE (dp_entropy_len p), dr_nonce_len = AMVP_BIT2BYTE (dp_nonce_len p),
             dr_drb_len = AMVP_BIT2BYTE (dp_drb_len p)\<rparr>)))))))))))))))))))"

definition amvp_drbg_output_tc :: "'w allocator \<Rightarrow> AMVP_DRBG_TC \<Rightarrow> JSON_Object \<Rightarrow> (JSON_Object, 'w) step" where
  "amvp_drbg_output_tc al stc tc_rsp =
     andthen (to_hex al (dr_drb stc) (wrap32 (int (dr_drb_len stc))) AMVP_DRB_STR_MAX)
       (\<lambda>tmp. pass (json_object_set_string ''returnedBits'' (Some tmp) tc_rsp))"

text \<open>
  One entry of the further inputs. The result of the comparison with the intended use is kept
  in a variable that is 0 at the start and that ends the handler when it is not, so it is 0
  before every comparison, and stays so when the comparison itself reports an error.
\<close>

definition drbg_input :: "string \<Rightarrow> JSON_Array \<Rightarrow> nat \<Rightarrow> (string \<times> string, 's) step" where
  "drbg_input intended arr index =
     (case json_array_get_value (Some arr) index of
        None \<Rightarrow> stop AMVP_INVALID_ARG
      | Some v \<Rightarrow>
          let pr_input_obj = json_value_get_object (Some v);
              int_use = json_object_get_string pr_input_obj ''intendedUse'';
              n = length intended
          in reject (snd (strncmp_s int_use n (Some intended) n 0) \<noteq> 0) AMVP_INVALID_ARG
               (bounded_text pr_input_obj ''additionalInput'' AMVP_DRBG_ADDI_IN_STR_MAX (\<lambda>additional.
                bounded_text pr_input_obj ''entropyInput'' AMVP_DRBG_ENTPY_IN_STR_MAX (\<lambda>entropy.
                  pass (additional, entropy)))))"

text \<open>The entry for reseeding comes first, and only when the group asks for it.\<close>

definition drbg_reseed_input :: "drbg_params \<Rightarrow> JSON_Array \<Rightarrow> ((string option \<times> string option) \<times> nat, 's) step" where
  "drbg_reseed_input p arr =
     (if dp_pred p = 0 \<and> dp_reseed p \<noteq> 0
      then if json_array_get_count (Some arr) \<noteq> 3 then stop AMVP_INVALID_ARG
           else andthen (drbg_input ''reSeed'' arr 0) (\<lambda>(a, e). pass ((Some a, Some e), 1))
      else reject (json_array_get_count (Some arr) \<noteq> 2) AMVP_INVALID_ARG (pass ((None, None), 0)))"

definition drbg_run_test ::
  "'w allocator \<Rightarrow> 'w drbg_crypto \<Rightarrow> AMVP_CIPHER \<Rightarrow> callback \<Rightarrow> drbg_params \<Rightarrow> nat \<Rightarrow> string \<Rightarrow> string \<Rightarrow> string \<Rightarrow> JSON_Array \<Rightarrow>
   (JSON_Value, 'w) step" where
  "drbg_run_test al crypto alg_id cb p tc_id perso entropy nonce arr =
     andthen (drbg_reseed_input p arr) (\<lambda>(in0, index).
     andthen (drbg_input ''generate'' arr index) (\<lambda>(a1, e1).
     andthen (drbg_input ''generate'' arr (index + 1)) (\<lambda>(a2, e2).
     andthen (amvp_drbg_init_tc al tc_id in0 (Some a1, Some e1) (Some a2, Some e2)
                (strnlen_s (Some e1) (AMVP_DRBG_ENTPY_IN_STR_MAX + 1) div 2) (strnlen_s (Some e2) (AMVP_DRBG_ENTPY_IN_STR_MAX + 1) div 2)
                (Some perso) (Some entropy) (Some nonce) p alg_id) (\<lambda>stc.
     andthen (call_crypto crypto cb stc) (\<lambda>stc1.
     andthen (amvp_drbg_output_tc al stc1 (json_object_set_number ''tcId'' (int tc_id) [])) (\<lambda>r_tobj.
       pass (JSONObject r_tobj)))))))"

definition drbg_test ::
  "'w allocator \<Rightarrow> 'w drbg_crypto \<Rightarrow> AMVP_CIPHER \<Rightarrow> callback \<Rightarrow> drbg_params \<Rightarrow> JSON_Object option \<Rightarrow> (JSON_Value, 'w) step" where
  "drbg_test al crypto alg_id cb p testobj =
     andthen (as_uint (json_object_get_number testobj ''tcId'')) (\<lambda>tc_id.
     bounded_text testobj ''persoString'' AMVP_DRBG_PER_SO_STR_MAX (\<lambda>perso.
     bounded_text testobj ''entropyInput'' AMVP_DRBG_ENTPY_IN_STR_MAX (\<lambda>entropy.
     bounded_text testobj ''nonce'' AMVP_DRBG_NONCE_STR_MAX (\<lambda>nonce.
     required (json_object_get_array testobj ''otherInput'') (\<lambda>arr.
     reject (json_array_get_count (Some arr) = 0) AMVP_INVALID_ARG
       (drbg_run_test al crypto alg_id cb p tc_id perso entropy nonce arr))))))"

definition drbg_group ::
  "'w allocator \<Rightarrow> 'w drbg_crypto \<Rightarrow> AMVP_CIPHER \<Rightarrow> callback \<Rightarrow> JSON_Object option \<Rightarrow> (JSON_Value, 'w) step" where
  "drbg_group al crypto alg_id cb groupobj =
     with_tgId groupobj (\<lambda>tgId.
       case json_object_get_string groupobj ''mode'' of
         None \<Rightarrow> stop AMVP_MALFORMED_JSON
       | Some mode_str \<Rightarrow>
           let mode_id = amvp_lookup_drbg_mode_index (Some mode_str) in
           reject (mode_id = 0) AMVP_UNSUPPORTED_OP
             (flag groupobj ''predResistance'' (\<lambda>pred.
              flag groupobj ''reSeed'' (\<lambda>reseed.
              (if alg_id = AMVP_CTRDRBG then flag groupobj ''derFunc'' else (\<lambda>k. k 0)) (\<lambda>der.
              bits_within groupobj ''entropyInputLen'' AMVP_DRBG_ENTPY_IN_BIT_MIN AMVP_DRBG_ENTPY_IN_BIT_MAX False (\<lambda>entropy_len.
              bits_within groupobj ''nonceLen'' AMVP_DRBG_NONCE_BIT_MIN AMVP_DRBG_NONCE_BIT_MAX (alg_id = AMVP_CTRDRBG \<and> der = 0) (\<lambda>nonce_len.
              bits_within groupobj ''persoStringLen'' 0 AMVP_DRBG_PER_SO_BIT_MAX False (\<lambda>perso_len.
              bits_within groupobj ''returnedBitsLen'' 1 AMVP_DRB_BIT_MAX False (\<lambda>drb_len.
              bits_within groupobj ''additionalInputLen'' 0 AMVP_DRBG_ADDI_IN_BIT_MAX False (\<lambda>add_len.
              andthen (each_test groupobj (drbg_test al crypto alg_id cb
                  \<lparr>dp_mode = mode_id, dp_pred = pred, dp_reseed = reseed, dp_der = der, dp_entropy_len = entropy_len, dp_nonce_len = nonce_len,
                    dp_perso_len = perso_len, dp_drb_len = drb_len, dp_add_len = add_len\<rparr>)) (\<lambda>tests.
                pass (group_rsp tgId tests))))))))))))"

text \<open>A handler for the ciphers of one range, which refuses every other before it looks for the capability.\<close>

definition for_ciphers ::
  "(AMVP_CIPHER \<Rightarrow> bool) \<Rightarrow> (JSON_Object option \<Rightarrow> 'w SESSION option \<Rightarrow> 'w SESSION option outcome) \<Rightarrow>
   JSON_Object option \<Rightarrow> 'w SESSION option \<Rightarrow> 'w SESSION option outcome" where
  "for_ciphers ok handler obj octx =
     (case (octx, json_object_get_string obj ''algorithm'') of
        (Some ctx, Some alg_str) \<Rightarrow>
          if ok (amvp_lookup_cipher_index (Some alg_str)) then handler obj octx else Ret AMVP_UNSUPPORTED_OP octx
      | _ \<Rightarrow> handler obj octx)"

definition drbg_kat_handler ::
  "'w allocator \<Rightarrow> 'w drbg_crypto \<Rightarrow> JSON_Object option \<Rightarrow> 'w SESSION option \<Rightarrow> 'w SESSION option outcome" where
  "drbg_kat_handler al crypto =
     for_ciphers (\<lambda>alg_id. \<not> (alg_id < AMVP_HASHDRBG \<or> alg_id > AMVP_CTRDRBG)) (kat_frame False (\<lambda>w. w) (\<lambda>w. w) (drbg_group al crypto))"

section \<open>The intended use of an input\<close>

text \<open>
  Which intended uses pass the comparison: those that begin with the expected word, and also
  an absent one and one that is too short to be compared.
\<close>

definition use_passes :: "string \<Rightarrow> string option \<Rightarrow> bool" where
  "use_passes intended u \<longleftrightarrow> u = None \<or> length (the u) < length intended \<or> take (length intended) (the u) = intended"

lemma use_passes_iff:
  assumes "c_string intended" and "0 < length intended" and "length intended \<le> RSIZE_MAX_STR" and "\<And>t. u = Some t \<Longrightarrow> c_string t"
  shows "snd (strncmp_s u (length intended) (Some intended) (length intended) 0) = 0 \<longleftrightarrow> use_passes intended u"
proof (cases u)
  case (Some t)
  have "c_string (take n t)" for n using assms(4) [OF Some] by (auto simp: c_string_def dest: in_set_takeD)
  then show ?thesis
    using assms(1-3) Some by (auto simp: strncmp_s_def strncmp_def strnlen_def use_passes_def strcmp_eq_0)
qed (simp add: strncmp_s_def use_passes_def)

section \<open>Requests and answers\<close>

text \<open>
  A vector set as data. Lengths of a group are in bytes; a test has its number, the
  personalization string, the entropy and the nonce, and further inputs, each with its intended
  use, additional input and entropy.
\<close>

record drbg_entry =
  en_use :: "string option"
  en_add :: "8 word list"
  en_ent :: "8 word list"

record drbg_query =
  dq_id :: nat
  dq_perso :: "8 word list"
  dq_entropy :: "8 word list"
  dq_nonce :: "8 word list"
  dq_inputs :: "drbg_entry list"

record drbg_set =
  ds_id :: int
  ds_mode :: string
  ds_pred :: bool
  ds_reseed :: bool
  ds_der :: bool
  ds_entropy :: nat
  ds_nonce :: nat
  ds_perso :: nat
  ds_out :: nat
  ds_add :: nat
  ds_tests :: "drbg_query list"

definition entry_request :: "drbg_entry \<Rightarrow> JSON_Value" where
  "entry_request x = JSONObject ((case en_use x of None \<Rightarrow> [] | Some u \<Rightarrow> [(''intendedUse'', JSONString u)]) @
     [(''additionalInput'', JSONString (hex_of (en_add x))), (''entropyInput'', JSONString (hex_of (en_ent x)))])"

definition drbg_test_request :: "drbg_query \<Rightarrow> JSON_Value" where
  "drbg_test_request q = JSONObject [(''tcId'', JSONNumber (int (dq_id q))), (''persoString'', JSONString (hex_of (dq_perso q))),
     (''entropyInput'', JSONString (hex_of (dq_entropy q))), (''nonce'', JSONString (hex_of (dq_nonce q))),
     (''otherInput'', JSONArray (map entry_request (dq_inputs q)))]"

definition drbg_group_request :: "drbg_set \<Rightarrow> JSON_Value" where
  "drbg_group_request g = JSONObject [(''tgId'', JSONNumber (ds_id g)), (''mode'', JSONString (ds_mode g)),
     (''predResistance'', JSONBoolean (ds_pred g)), (''reSeed'', JSONBoolean (ds_reseed g)), (''derFunc'', JSONBoolean (ds_der g)),
     (''entropyInputLen'', JSONNumber (8 * int (ds_entropy g))), (''nonceLen'', JSONNumber (8 * int (ds_nonce g))),
     (''persoStringLen'', JSONNumber (8 * int (ds_perso g))), (''returnedBitsLen'', JSONNumber (8 * int (ds_out g))),
     (''additionalInputLen'', JSONNumber (8 * int (ds_add g))), (''tests'', JSONArray (map drbg_test_request (ds_tests g)))]"

definition drbg_request :: "string \<Rightarrow> drbg_set list \<Rightarrow> JSON_Object" where
  "drbg_request alg gs = [(''algorithm'', JSONString alg), (''testGroups'', JSONArray (map drbg_group_request gs))]"

text \<open>
  A generator as a function: its mode, whether the derivation function and prediction resistance
  are used, the entropy, nonce and personalization string it is started with, the inputs of its
  reseeding and of its two calls, and the number of bytes wanted.
\<close>

record drbg_question =
  qu_mode :: int
  qu_der :: bool
  qu_pred :: bool
  qu_start :: "8 word list \<times> 8 word list \<times> 8 word list"
  qu_inputs :: "(8 word list \<times> 8 word list) list"

type_synonym generator = "nat \<Rightarrow> drbg_question \<Rightarrow> 8 word list"

text \<open>What a test case asks, as its buffers and lengths say.\<close>

definition asked :: "AMVP_DRBG_TC \<Rightarrow> drbg_question" where
  "asked stc =
     (let upto = (\<lambda>n b. take n (the b)); add = dr_additional_input_len stc in
      \<lparr>qu_mode = dr_mode stc, qu_der = (dr_der_func_enabled stc \<noteq> 0), qu_pred = (dr_pred_resist_enabled stc \<noteq> 0),
       qu_start = (upto (dr_entropy_len stc) (dr_entropy stc), upto (dr_nonce_len stc) (dr_nonce stc),
                   upto (dr_perso_string_len stc) (dr_perso_string stc)),
       qu_inputs =
         (if dr_pred_resist_enabled stc = 0 \<and> dr_reseed stc \<noteq> 0
          then [(upto add (dr_additional_input_0 stc), upto (dr_entropy_len stc) (dr_entropy_input_pr_0 stc))] else []) @
         [(upto add (dr_additional_input_1 stc), upto (dr_pr1_len stc) (dr_entropy_input_pr_1 stc)),
          (upto add (dr_additional_input_2 stc), upto (dr_pr2_len stc) (dr_entropy_input_pr_2 stc))]\<rparr>)"

text \<open>What a test of a group asks, as the data says.\<close>

definition meant :: "AMVP_CIPHER \<Rightarrow> drbg_set \<Rightarrow> drbg_query \<Rightarrow> drbg_question" where
  "meant c g q =
     \<lparr>qu_mode = amvp_lookup_drbg_mode_index (Some (ds_mode g)), qu_der = (c = AMVP_CTRDRBG \<and> ds_der g), qu_pred = ds_pred g,
      qu_start = (dq_entropy q, dq_nonce q, dq_perso q), qu_inputs = map (\<lambda>x. (en_add x, en_ent x)) (dq_inputs q)\<rparr>"

definition generates :: "generator \<Rightarrow> 'w drbg_crypto \<Rightarrow> nat \<Rightarrow> bool" where
  "generates G crypto cb \<longleftrightarrow>
     (\<forall>n q. length (G n q) = n) \<and>
     (\<forall>stc drb w. dr_drb stc = Some drb \<longrightarrow>
        (\<exists>w'. crypto cb stc w = (AMVP_SUCCESS, stc\<lparr>dr_drb := Some (G (dr_drb_len stc) (asked stc) @ drop (dr_drb_len stc) drb)\<rparr>, w')))"

lemma generatesD:
  "generates G crypto cb \<Longrightarrow> dr_drb stc = Some drb \<Longrightarrow>
    \<exists>w'. crypto cb stc w = (AMVP_SUCCESS, stc\<lparr>dr_drb := Some (G (dr_drb_len stc) (asked stc) @ drop (dr_drb_len stc) drb)\<rparr>, w')"
  by (simp add: generates_def)

definition drbg_test_answer :: "generator \<Rightarrow> AMVP_CIPHER \<Rightarrow> drbg_set \<Rightarrow> drbg_query \<Rightarrow> JSON_Value" where
  "drbg_test_answer G c g q =
     JSONObject [(''tcId'', JSONNumber (int (dq_id q))), (''returnedBits'', JSONString (hex_of (G (ds_out g) (meant c g q))))]"

definition drbg_group_answer :: "generator \<Rightarrow> AMVP_CIPHER \<Rightarrow> drbg_set \<Rightarrow> JSON_Value" where
  "drbg_group_answer G c g =
     JSONObject [(''tgId'', JSONNumber (ds_id g)), (''tests'', JSONArray (map (drbg_test_answer G c g) (ds_tests g)))]"

text \<open>
  The sets a server may send: lengths within the limits, data of the lengths the group names,
  and three inputs when the generator is reseeded without prediction resistance, two otherwise.
\<close>

definition entry_fits :: "drbg_set \<Rightarrow> string \<Rightarrow> drbg_entry \<Rightarrow> bool" where
  "entry_fits g intended x \<longleftrightarrow> use_passes intended (en_use x) \<and> (\<forall>u. en_use x = Some u \<longrightarrow> c_string u) \<and>
     length (en_add x) = ds_add g \<and> length (en_ent x) \<le> AMVP_DRBG_ENTPY_IN_BYTE_MAX"

definition inputs_fit :: "drbg_set \<Rightarrow> drbg_entry list \<Rightarrow> bool" where
  "inputs_fit g xs \<longleftrightarrow>
     (if \<not> ds_pred g \<and> ds_reseed g
      then length xs = 3 \<and> entry_fits g ''reSeed'' (hd xs) \<and> length (en_ent (hd xs)) = ds_entropy g \<and> list_all (entry_fits g ''generate'') (tl xs)
      else length xs = 2 \<and> list_all (entry_fits g ''generate'') xs)"

definition drbg_query_fits :: "drbg_set \<Rightarrow> drbg_query \<Rightarrow> bool" where
  "drbg_query_fits g q \<longleftrightarrow> dq_id q < 2 ^ 32 \<and> length (dq_perso q) = ds_perso g \<and> length (dq_entropy q) = ds_entropy g \<and>
     length (dq_nonce q) = ds_nonce g \<and> inputs_fit g (dq_inputs q)"

definition drbg_set_fits :: "AMVP_CIPHER \<Rightarrow> drbg_set \<Rightarrow> bool" where
  "drbg_set_fits c g \<longleftrightarrow> ds_id g \<noteq> 0 \<and> is_int32 (ds_id g) \<and> amvp_lookup_drbg_mode_index (Some (ds_mode g)) \<noteq> 0 \<and>
     10 \<le> ds_entropy g \<and> ds_entropy g \<le> AMVP_DRBG_ENTPY_IN_BYTE_MAX \<and> ds_nonce g \<le> AMVP_DRBG_NONCE_BYTE_MAX \<and>
     ((c = AMVP_CTRDRBG \<and> \<not> ds_der g) \<or> 5 \<le> ds_nonce g) \<and> ds_perso g \<le> AMVP_DRBG_PER_SO_BYTE_MAX \<and>
     0 < ds_out g \<and> ds_out g \<le> AMVP_DRB_BYTE_MAX \<and> ds_add g \<le> AMVP_DRBG_ADDI_IN_BYTE_MAX \<and> list_all (drbg_query_fits g) (ds_tests g)"

section \<open>The handler answers\<close>

lemma drbg_names:
  "json_name ''intendedUse''" "json_name ''additionalInput''" "json_name ''entropyInput''" "json_name ''persoString''" "json_name ''nonce''"
  "json_name ''otherInput''" "json_name ''mode''" "json_name ''predResistance''" "json_name ''reSeed''" "json_name ''derFunc''"
  "json_name ''entropyInputLen''" "json_name ''nonceLen''" "json_name ''persoStringLen''" "json_name ''returnedBitsLen''"
  "json_name ''additionalInputLen''" "json_name ''returnedBits''"
  by (simp_all add: json_name_def c_string_def)

lemmas drbg_known = json_known drbg_names

lemma BIT2BYTE_bytes [simp]: "n < 2 ^ 28 \<Longrightarrow> AMVP_BIT2BYTE (8 * n) = n"
  by (simp add: AMVP_BIT2BYTE_def)

lemma bounded_text_hex:
  "json_object_get_string obj name = Some (hex_of bs) \<Longrightarrow> 2 * length bs \<le> mx \<Longrightarrow> bounded_text obj name mx k = k (hex_of bs)"
  by (simp add: bounded_text_def)

lemma entry_members:
  assumes "entry_fits g intended x"
  shows "json_object_get_string (json_value_get_object (Some (entry_request x))) ''intendedUse'' = en_use x"
    and "json_object_get_string (json_value_get_object (Some (entry_request x))) ''additionalInput'' = Some (hex_of (en_add x))"
    and "json_object_get_string (json_value_get_object (Some (entry_request x))) ''entropyInput'' = Some (hex_of (en_ent x))"
  by (cases "en_use x"; simp add: entry_request_def json_read drbg_known)+

lemma drbg_input_ok:
  assumes "entry_fits g intended (xs ! i)" and "i < length xs" and "ds_add g \<le> AMVP_DRBG_ADDI_IN_BYTE_MAX"
    and "intended = ''reSeed'' \<or> intended = ''generate''"
  shows "drbg_input intended (map entry_request xs) i s = Done (hex_of (en_add (xs ! i)), hex_of (en_ent (xs ! i))) s"
proof -
  have "c_string intended" "0 < length intended" "length intended \<le> RSIZE_MAX_STR"
    using assms(4) by (auto simp: c_string_def RSIZE_MAX_STR_def)
  then have use: "snd (strncmp_s (en_use (xs ! i)) (length intended) (Some intended) (length intended) 0) = 0"
    using assms(1) by (auto simp: use_passes_iff entry_fits_def)
  have "2 * length (en_add (xs ! i)) \<le> AMVP_DRBG_ADDI_IN_STR_MAX" "2 * length (en_ent (xs ! i)) \<le> AMVP_DRBG_ENTPY_IN_STR_MAX"
    using assms(1,3) by (auto simp: entry_fits_def drbg_sizes)
  note texts = bounded_text_hex [OF entry_members(2) [OF assms(1)] this(1)] bounded_text_hex [OF entry_members(3) [OF assms(1)] this(2)]
  show ?thesis
    using assms(2) use
    by (simp add: drbg_input_def json_array_get_value_def json_array_get_count_def texts entry_members(1) [OF assms(1)] del: One_nat_def)
qed

lemma drbg_init_ok:
  assumes al: "\<forall>w. fst (al w)"
    and "\<And>b. a0 = Some b \<Longrightarrow> length b \<le> AMVP_DRBG_ADDI_IN_BYTE_MAX" and "\<And>b. e0 = Some b \<Longrightarrow> length b \<le> AMVP_DRBG_ENTPY_IN_BYTE_MAX"
    and "length a1 \<le> AMVP_DRBG_ADDI_IN_BYTE_MAX" "length e1 \<le> AMVP_DRBG_ENTPY_IN_BYTE_MAX"
    and "length a2 \<le> AMVP_DRBG_ADDI_IN_BYTE_MAX" "length e2 \<le> AMVP_DRBG_ENTPY_IN_BYTE_MAX"
    and "length ps \<le> AMVP_DRBG_PER_SO_BYTE_MAX" "length e \<le> AMVP_DRBG_ENTPY_IN_BYTE_MAX" "length n \<le> AMVP_DRBG_NONCE_BYTE_MAX"
  obtains w' where "amvp_drbg_init_tc al t (map_option hex_of a0, map_option hex_of e0) (Some (hex_of a1), Some (hex_of e1))
      (Some (hex_of a2), Some (hex_of e2)) l1 l2 (Some (hex_of ps)) (Some (hex_of e)) (Some (hex_of n)) p c w =
    Done \<lparr>dr_cipher = c, dr_mode = dp_mode p, dr_tc_id = t,
      dr_additional_input_0 = Some (padded AMVP_DRBG_ADDI_IN_BYTE_MAX a0), dr_entropy_input_pr_0 = Some (padded AMVP_DRBG_ENTPY_IN_BYTE_MAX e0),
      dr_additional_input_1 = Some (padded AMVP_DRBG_ADDI_IN_BYTE_MAX (Some a1)), dr_entropy_input_pr_1 = Some (padded AMVP_DRBG_ENTPY_IN_BYTE_MAX (Some e1)),
      dr_additional_input_2 = Some (padded AMVP_DRBG_ADDI_IN_BYTE_MAX (Some a2)), dr_entropy_input_pr_2 = Some (padded AMVP_DRBG_ENTPY_IN_BYTE_MAX (Some e2)),
      dr_pr1_len = l1, dr_pr2_len = l2, dr_perso_string = Some (padded AMVP_DRBG_PER_SO_BYTE_MAX (Some ps)),
      dr_entropy = Some (padded AMVP_DRBG_ENTPY_IN_BYTE_MAX (Some e)), dr_nonce = Some (padded AMVP_DRBG_NONCE_BYTE_MAX (Some n)),
      dr_drb = Some (replicate AMVP_DRB_BYTE_MAX 0), dr_der_func_enabled = dp_der p, dr_pred_resist_enabled = dp_pred p, dr_reseed = dp_reseed p,
      dr_additional_input_len = AMVP_BIT2BYTE (dp_add_len p), dr_perso_string_len = AMVP_BIT2BYTE (dp_perso_len p),
      dr_entropy_len = AMVP_BIT2BYTE (dp_entropy_len p), dr_nonce_len = AMVP_BIT2BYTE (dp_nonce_len p),
      dr_drb_len = AMVP_BIT2BYTE (dp_drb_len p)\<rparr> w'"
proof -
  let ?N = "AMVP_DRBG_ADDI_IN_BYTE_MAX" and ?E = "AMVP_DRBG_ENTPY_IN_BYTE_MAX"
  obtain w0 where w0: "new_bytes al AMVP_DRB_BYTE_MAX w = Done (replicate AMVP_DRB_BYTE_MAX 0) w0" using new_bytes_ok [OF al] .
  obtain w1 where w1: "new_bytes al ?N w0 = Done (replicate ?N 0) w1" using new_bytes_ok [OF al] .
  obtain w2 where w2: "new_bytes al ?N w1 = Done (replicate ?N 0) w2" using new_bytes_ok [OF al] .
  obtain w3 where w3: "new_bytes al ?N w2 = Done (replicate ?N 0) w3" using new_bytes_ok [OF al] .
  obtain w4 where w4: "new_bytes al ?E w3 = Done (replicate ?E 0) w4" using new_bytes_ok [OF al] .
  obtain w5 where w5: "new_bytes al ?E w4 = Done (replicate ?E 0) w5" using new_bytes_ok [OF al] .
  obtain w6 where w6: "new_bytes al ?E w5 = Done (replicate ?E 0) w6" using new_bytes_ok [OF al] .
  obtain w7 where w7: "new_bytes al ?E w6 = Done (replicate ?E 0) w7" using new_bytes_ok [OF al] .
  obtain w8 where w8: "new_bytes al AMVP_DRBG_NONCE_BYTE_MAX w7 = Done (replicate AMVP_DRBG_NONCE_BYTE_MAX 0) w8" using new_bytes_ok [OF al] .
  obtain w9 where w9: "new_bytes al AMVP_DRBG_PER_SO_BYTE_MAX w8 = Done (replicate AMVP_DRBG_PER_SO_BYTE_MAX 0) w9" using new_bytes_ok [OF al] .
  have sizes: "?N \<le> 131072" "?E \<le> 131072" "AMVP_DRBG_NONCE_BYTE_MAX \<le> 131072" "AMVP_DRBG_PER_SO_BYTE_MAX \<le> 131072"
    by (simp_all add: drbg_sizes)
  show ?thesis
    using that [of w9] assms(2-) sizes
    by (simp add: amvp_drbg_init_tc_def w0 w1 w2 w3 w4 w5 w6 w7 w8 w9 from_hex_if_ok from_hex_if_Some)
qed

text \<open>The variables of a group as its data gives them.\<close>

definition params_of :: "AMVP_CIPHER \<Rightarrow> drbg_set \<Rightarrow> drbg_params" where
  "params_of c g =
     \<lparr>dp_mode = amvp_lookup_drbg_mode_index (Some (ds_mode g)), dp_pred = of_bool (ds_pred g), dp_reseed = of_bool (ds_reseed g),
      dp_der = of_bool (c = AMVP_CTRDRBG \<and> ds_der g), dp_entropy_len = 8 * ds_entropy g, dp_nonce_len = 8 * ds_nonce g,
      dp_perso_len = 8 * ds_perso g, dp_drb_len = 8 * ds_out g, dp_add_len = 8 * ds_add g\<rparr>"

text \<open>The inputs of a test: that of the reseeding, when there is one, and the two of the calls.\<close>

lemma drbg_inputs_ok:
  assumes "inputs_fit g xs" and "ds_add g \<le> AMVP_DRBG_ADDI_IN_BYTE_MAX"
  obtains in0 x1 x2 index where
    "drbg_reseed_input (params_of c g) (map entry_request xs) = (pass ((map_option (hex_of \<circ> en_add) in0, map_option (hex_of \<circ> en_ent) in0), index) :: (_, 'w) step)"
    "drbg_input ''generate'' (map entry_request xs) index = (pass (hex_of (en_add x1), hex_of (en_ent x1)) :: (_, 'w) step)"
    "drbg_input ''generate'' (map entry_request xs) (index + 1) = (pass (hex_of (en_add x2), hex_of (en_ent x2)) :: (_, 'w) step)"
    "xs = (case in0 of None \<Rightarrow> [] | Some x \<Rightarrow> [x]) @ [x1, x2]" "in0 \<noteq> None \<longleftrightarrow> \<not> ds_pred g \<and> ds_reseed g"
    "\<And>x. in0 = Some x \<Longrightarrow> entry_fits g ''reSeed'' x \<and> length (en_ent x) = ds_entropy g"
    "entry_fits g ''generate'' x1" "entry_fits g ''generate'' x2"
proof (cases "\<not> ds_pred g \<and> ds_reseed g")
  case True
  then have "length xs = 3" using assms(1) by (simp add: inputs_fit_def)
  then obtain x0 x1 x2 where xs: "xs = [x0, x1, x2]" by (auto simp: numeral_3_eq_3 length_Suc_conv)
  have fits: "entry_fits g ''reSeed'' x0" "entry_fits g ''generate'' x1" "entry_fits g ''generate'' x2" "length (en_ent x0) = ds_entropy g"
    using assms(1) True by (simp_all add: inputs_fit_def xs)
  have "drbg_input ''reSeed'' (map entry_request xs) 0 = (pass (hex_of (en_add x0), hex_of (en_ent x0)) :: (_, 'w) step)"
    "drbg_input ''generate'' (map entry_request xs) 1 = (pass (hex_of (en_add x1), hex_of (en_ent x1)) :: (_, 'w) step)"
    "drbg_input ''generate'' (map entry_request xs) (1 + 1) = (pass (hex_of (en_add x2), hex_of (en_ent x2)) :: (_, 'w) step)"
    using fits assms(2) by (auto simp: fun_eq_iff drbg_input_ok xs simp del: list.map)
  then show ?thesis
    using that [of "Some x0" 1 x1 x2] True fits
    by (auto simp: drbg_reseed_input_def params_of_def json_array_get_count_def xs pass_eq)
next
  case False
  then have "length xs = 2" using assms(1) by (auto simp: inputs_fit_def)
  then obtain x1 x2 where xs: "xs = [x1, x2]" by (auto simp: numeral_2_eq_2 length_Suc_conv)
  have fits: "entry_fits g ''generate'' x1" "entry_fits g ''generate'' x2"
    using assms(1) False by (auto simp: inputs_fit_def xs)
  have "drbg_input ''generate'' (map entry_request xs) 0 = (pass (hex_of (en_add x1), hex_of (en_ent x1)) :: (_, 'w) step)"
    "drbg_input ''generate'' (map entry_request xs) (0 + 1) = (pass (hex_of (en_add x2), hex_of (en_ent x2)) :: (_, 'w) step)"
    using fits assms(2) by (auto simp: fun_eq_iff drbg_input_ok xs simp del: list.map)
  then show ?thesis
    using that [of None 0 x1 x2] False fits
    by (auto simp: drbg_reseed_input_def params_of_def json_array_get_count_def xs pass_eq)
qed

lemma drbg_set_limits:
  assumes "drbg_set_fits c g"
  shows "ds_entropy g \<le> AMVP_DRBG_ENTPY_IN_BYTE_MAX" "ds_nonce g \<le> AMVP_DRBG_NONCE_BYTE_MAX" "ds_perso g \<le> AMVP_DRBG_PER_SO_BYTE_MAX"
    "ds_out g \<le> AMVP_DRB_BYTE_MAX" "ds_add g \<le> AMVP_DRBG_ADDI_IN_BYTE_MAX"
  using assms by (simp_all add: drbg_set_fits_def)

text \<open>The test case the crypto module gets asks what the test means.\<close>

lemma drbg_init_asked:
  assumes al: "\<forall>w. fst (al w)" and g: "drbg_set_fits c g" and q: "drbg_query_fits g q"
    and xs: "dq_inputs q = (case in0 of None \<Rightarrow> [] | Some x \<Rightarrow> [x]) @ [x1, x2]" "in0 \<noteq> None \<longleftrightarrow> \<not> ds_pred g \<and> ds_reseed g"
    and x0: "\<And>x. in0 = Some x \<Longrightarrow> entry_fits g ''reSeed'' x \<and> length (en_ent x) = ds_entropy g"
    and x12: "entry_fits g ''generate'' x1" "entry_fits g ''generate'' x2"
  obtains stc w1 where "amvp_drbg_init_tc al (dq_id q) (map_option (hex_of \<circ> en_add) in0, map_option (hex_of \<circ> en_ent) in0)
      (Some (hex_of (en_add x1)), Some (hex_of (en_ent x1))) (Some (hex_of (en_add x2)), Some (hex_of (en_ent x2)))
      (length (en_ent x1)) (length (en_ent x2)) (Some (hex_of (dq_perso q))) (Some (hex_of (dq_entropy q))) (Some (hex_of (dq_nonce q)))
      (params_of c g) c w = Done stc w1"
    "dr_drb stc = Some (replicate AMVP_DRB_BYTE_MAX 0)" "dr_drb_len stc = ds_out g" "asked stc = meant c g q"
proof -
  note lims = drbg_set_limits [OF g]
  have lens: "length (dq_perso q) = ds_perso g" "length (dq_entropy q) = ds_entropy g" "length (dq_nonce q) = ds_nonce g"
    using q by (simp_all add: drbg_query_fits_def)
  have ent: "length (en_add x1) = ds_add g" "length (en_ent x1) \<le> AMVP_DRBG_ENTPY_IN_BYTE_MAX"
    "length (en_add x2) = ds_add g" "length (en_ent x2) \<le> AMVP_DRBG_ENTPY_IN_BYTE_MAX"
    using x12 by (simp_all add: entry_fits_def)
  have ent0: "length b \<le> AMVP_DRBG_ADDI_IN_BYTE_MAX" if "map_option en_add in0 = Some b" for b
    using that x0 lims(5) by (auto simp: entry_fits_def)
  have ent0': "length b \<le> AMVP_DRBG_ENTPY_IN_BYTE_MAX" if "map_option en_ent in0 = Some b" for b
    using that x0 by (auto simp: entry_fits_def)
  have bytes: "AMVP_BIT2BYTE (8 * n) = n" if "n \<le> 131072" for n using that by simp
  have lens8: "AMVP_BIT2BYTE (8 * ds_entropy g) = ds_entropy g" "AMVP_BIT2BYTE (8 * ds_nonce g) = ds_nonce g"
    "AMVP_BIT2BYTE (8 * ds_perso g) = ds_perso g" "AMVP_BIT2BYTE (8 * ds_out g) = ds_out g" "AMVP_BIT2BYTE (8 * ds_add g) = ds_add g"
    using lims by (auto intro!: bytes simp: drbg_sizes)
  have reseed: "take (ds_add g) (padded n (map_option en_add in0)) = en_add x \<and> take (ds_entropy g) (padded m (map_option en_ent in0)) = en_ent x"
    if "in0 = Some x" for x n m using x0 [OF that] that by (simp add: take_padded_length entry_fits_def)
  show ?thesis
    by (rule drbg_init_ok [of al "map_option en_add in0" "map_option en_ent in0" "en_add x1" "en_ent x1" "en_add x2" "en_ent x2"
          "dq_perso q" "dq_entropy q" "dq_nonce q" "dq_id q" "length (en_ent x1)" "length (en_ent x2)" "params_of c g" c w])
      (use al ent0 ent0' lims ent lens lens8 xs reseed in \<open>auto intro!: that simp: option.map_comp asked_def meant_def params_of_def take_padded_length Let_def split: option.splits\<close>)
qed

text \<open>A test that fits is answered with what the generator returns for the question it means.\<close>

lemma drbg_run_test_ok:
  assumes gen: "generates G crypto cb" and al: "\<forall>w. fst (al w)" and g: "drbg_set_fits c g" and q: "drbg_query_fits g q"
  shows "\<exists>w'. drbg_run_test al crypto c (Some cb) (params_of c g) (dq_id q) (hex_of (dq_perso q)) (hex_of (dq_entropy q)) (hex_of (dq_nonce q))
    (map entry_request (dq_inputs q)) w = Done (drbg_test_answer G c g q) w'"
proof -
  have fit: "inputs_fit g (dq_inputs q)" using q by (simp add: drbg_query_fits_def)
  obtain in0 index x1 x2 where inputs:
    "drbg_reseed_input (params_of c g) (map entry_request (dq_inputs q)) =
       (pass ((map_option (hex_of \<circ> en_add) in0, map_option (hex_of \<circ> en_ent) in0), index) :: (_, 'a) step)"
    "drbg_input ''generate'' (map entry_request (dq_inputs q)) index = (pass (hex_of (en_add x1), hex_of (en_ent x1)) :: (_, 'a) step)"
    "drbg_input ''generate'' (map entry_request (dq_inputs q)) (index + 1) = (pass (hex_of (en_add x2), hex_of (en_ent x2)) :: (_, 'a) step)"
    and xs: "dq_inputs q = (case in0 of None \<Rightarrow> [] | Some x \<Rightarrow> [x]) @ [x1, x2]" "in0 \<noteq> None \<longleftrightarrow> \<not> ds_pred g \<and> ds_reseed g"
    and x0: "\<And>x. in0 = Some x \<Longrightarrow> entry_fits g ''reSeed'' x \<and> length (en_ent x) = ds_entropy g"
    and x12: "entry_fits g ''generate'' x1" "entry_fits g ''generate'' x2"
    by (rule drbg_inputs_ok [OF fit drbg_set_limits(5) [OF g], of c, where 'w = 'a]) (rule that; assumption)
  obtain stc w1 where init: "amvp_drbg_init_tc al (dq_id q) (map_option (hex_of \<circ> en_add) in0, map_option (hex_of \<circ> en_ent) in0)
      (Some (hex_of (en_add x1)), Some (hex_of (en_ent x1))) (Some (hex_of (en_add x2)), Some (hex_of (en_ent x2)))
      (length (en_ent x1)) (length (en_ent x2)) (Some (hex_of (dq_perso q))) (Some (hex_of (dq_entropy q))) (Some (hex_of (dq_nonce q)))
      (params_of c g) c w = Done stc w1"
    and stc: "dr_drb stc = Some (replicate AMVP_DRB_BYTE_MAX 0)" "dr_drb_len stc = ds_out g" "asked stc = meant c g q"
    by (rule drbg_init_asked [OF al g q xs x0 x12])
  let ?out = "G (ds_out g) (meant c g q)" and ?rest = "drop (ds_out g) (replicate AMVP_DRB_BYTE_MAX 0)"
  obtain w2 where "call_crypto crypto (Some cb) stc w1 = Done (stc\<lparr>dr_drb := Some (?out @ ?rest)\<rparr>) w2"
    using generatesD [OF gen stc(1), of w1] stc by (auto simp: call_crypto_def)
  moreover have "length ?out = ds_out g" using gen by (simp add: generates_def)
  moreover obtain w3 where "to_hex al (Some (?out @ ?rest)) (wrap32 (int (ds_out g))) AMVP_DRB_STR_MAX w2 = Done (hex_of (take (ds_out g) (?out @ ?rest))) w3"
    using to_hex_ok [OF al, of "ds_out g" "?out @ ?rest" AMVP_DRB_STR_MAX w2] drbg_set_limits(4) [OF g] calculation(2) by (auto simp: drbg_sizes)
  moreover have "min (2 * length (en_ent x)) (AMVP_DRBG_ENTPY_IN_STR_MAX + 1) div 2 = length (en_ent x)" if "entry_fits g i x" for i x
    using that by (auto simp: entry_fits_def drbg_sizes)
  ultimately show ?thesis
    using init stc(2) x12
    by (simp add: drbg_run_test_def inputs amvp_drbg_output_tc_def drbg_test_answer_def json_build drbg_known del: One_nat_def)
qed

lemma drbg_test_eq:
  assumes "generates G crypto cb" and "\<forall>w. fst (al w)" and "drbg_set_fits c g" and "drbg_query_fits g q"
  shows "\<exists>w'. drbg_test al crypto c (Some cb) (params_of c g) (json_value_get_object (Some (drbg_test_request q))) w = Done (drbg_test_answer G c g q) w'"
proof -
  have lens: "length (dq_perso q) = ds_perso g" "length (dq_entropy q) = ds_entropy g" "length (dq_nonce q) = ds_nonce g" "dq_id q < 2 ^ 32" "dq_inputs q \<noteq> []"
    using assms(4) by (auto simp: drbg_query_fits_def inputs_fit_def split: if_splits)
  have "bounded_text (json_value_get_object (Some (drbg_test_request q))) ''persoString'' AMVP_DRBG_PER_SO_STR_MAX k = k (hex_of (dq_perso q))"
    "bounded_text (json_value_get_object (Some (drbg_test_request q))) ''entropyInput'' AMVP_DRBG_ENTPY_IN_STR_MAX k = k (hex_of (dq_entropy q))"
    "bounded_text (json_value_get_object (Some (drbg_test_request q))) ''nonce'' AMVP_DRBG_NONCE_STR_MAX k = k (hex_of (dq_nonce q))"
    for k :: "string \<Rightarrow> (JSON_Value, 'a) step"
    using drbg_set_limits [OF assms(3)] lens
    by (auto intro!: bounded_text_hex simp: drbg_sizes drbg_test_request_def json_read drbg_known)
  moreover have "json_object_get_number (json_value_get_object (Some (drbg_test_request q))) ''tcId'' = int (dq_id q)"
    "json_object_get_array (json_value_get_object (Some (drbg_test_request q))) ''otherInput'' = Some (map entry_request (dq_inputs q))"
    by (simp_all add: drbg_test_request_def json_read drbg_known)
  ultimately show ?thesis
    using lens(4,5) drbg_run_test_ok [OF assms, of w] by (simp add: drbg_test_def json_array_get_count_def)
qed

lemma bits_within_bytes:
  assumes "json_object_get_number obj name = 8 * int n" and "n \<le> 131072" and "ex \<or> lo \<le> 8 * int n \<and> 8 * int n \<le> hi"
  shows "bits_within obj name lo hi ex k = k (8 * n)"
  using assms by (auto simp: bits_within_def as_uint_def pass_eq nat_mult_distrib)

lemma flag_ok: "json_object_get_boolean obj name = of_bool b \<Longrightarrow> flag obj name k = k (of_bool b)"
  by (cases b) (simp_all add: flag_def)

lemma drbg_group_eq:
  assumes "generates G crypto cb" and "\<forall>w. fst (al w)" and "drbg_set_fits c g"
  shows "\<exists>w'. drbg_group al crypto c (Some cb) (json_value_get_object (Some (drbg_group_request g))) w = Done (drbg_group_answer G c g) w'"
proof -
  let ?obj = "json_value_get_object (Some (drbg_group_request g))"
  have tests: "\<exists>w'. each_test ?obj (drbg_test al crypto c (Some cb) (params_of c g)) w = Done (map (drbg_test_answer G c g) (ds_tests g)) w'"
    using each_ok [of "ds_tests g" "drbg_test al crypto c (Some cb) (params_of c g)" "\<lambda>q. json_value_get_object (Some (drbg_test_request q))"]
      drbg_test_eq [OF assms] assms(3)
    by (simp add: each_test_def drbg_group_request_def json_read drbg_known list_all_iff drbg_set_fits_def comp_def)
  note fits = assms(3) [unfolded drbg_set_fits_def drbg_sizes]
  have "json_object_get_number ?obj ''tgId'' = ds_id g" "json_object_get_string ?obj ''mode'' = Some (ds_mode g)"
    "json_object_get_boolean ?obj ''predResistance'' = of_bool (ds_pred g)" "json_object_get_boolean ?obj ''reSeed'' = of_bool (ds_reseed g)"
    "json_object_get_boolean ?obj ''derFunc'' = of_bool (ds_der g)"
    by (simp_all add: drbg_group_request_def json_read json_object_get_boolean_def json_value_get_boolean_def drbg_known)
  moreover have "json_object_get_number ?obj ''entropyInputLen'' = 8 * int (ds_entropy g)" "json_object_get_number ?obj ''nonceLen'' = 8 * int (ds_nonce g)"
    "json_object_get_number ?obj ''persoStringLen'' = 8 * int (ds_perso g)" "json_object_get_number ?obj ''returnedBitsLen'' = 8 * int (ds_out g)"
    "json_object_get_number ?obj ''additionalInputLen'' = 8 * int (ds_add g)"
    by (simp_all add: drbg_group_request_def json_read drbg_known)
  ultimately show ?thesis
    using fits tests
    by (auto simp: drbg_group_def with_tgId_def flag_ok bits_within_bytes params_of_def drbg_group_answer_def group_rsp_def json_build json_known Let_def)
qed

text \<open>
  C17: the handler of random bit generators answers every test of a vector set whose lengths are
  consistent. With a crypto module that computes the generator \<open>G\<close> and enough memory it
  succeeds, and the response holds, in the order asked, what the generator returns for the
  entropy, nonce, personalization string and further inputs of each test, reseeding included. An
  input that does not say what it is used for is taken like one that does.
\<close>
theorem drbg_handler_answers:
  assumes "amvp_lookup_cipher_index (Some alg) = c" and "AMVP_HASHDRBG \<le> c" and "c \<le> AMVP_CTRDRBG"
    and "amvp_locate_cap_entry (Some ctx) c = Some cap" and "cap_crypto_handler cap = Some cb"
    and "generates G crypto cb" and "\<forall>w. fst (al w)" and "list_all (drbg_set_fits c) gs"
  shows "\<exists>w'. drbg_kat_handler al crypto (Some (drbg_request alg gs)) (Some ctx) =
    Ret AMVP_SUCCESS (Some (ctx\<lparr>kat_resp := Some (JSONArray [JSONObject [(''vsId'', JSONNumber (vs_id ctx)), (''algorithm'', JSONString alg),
      (''testGroups'', JSONArray (map (drbg_group_answer G c) gs))]]), world := w'\<rparr>))"
proof -
  have "\<exists>w'. each (drbg_group al crypto c (Some cb)) (map (\<lambda>g. json_value_get_object (Some (drbg_group_request g))) gs) (world ctx) =
      Done (map (drbg_group_answer G c) gs) w'"
    by (rule each_ok) (use assms(8) drbg_group_eq [OF assms(6,7)] in \<open>auto simp: list_all_iff\<close>)
  then show ?thesis
    using assms(1-5)
    by (auto simp: drbg_kat_handler_def for_ciphers_def kat_frame_def kat_body_def kat_answer_def drbg_request_def amvp_setup_json_rsp_group_def
        json_read json_build json_known Let_def comp_def)
qed

definition drbg_cap_entry :: AMVP_CAPS_LIST where
  "drbg_cap_entry = \<lparr>cap_cipher = AMVP_HASHDRBG, cap_type = AMVP_DRBG_TYPE, cap_has_prereq = 0, cap_prereq_vals = [],
     cap_data = Drbg_cap zero_drbg_cap, cap_crypto_handler = Some 0\<rparr>"

definition drbg_session :: "unit SESSION" where
  "drbg_session = (init_session ())\<lparr>caps_list := [drbg_cap_entry]\<rparr>"

definition zero_bits_module :: "unit drbg_crypto" where
  "zero_bits_module c stc w = (AMVP_SUCCESS, stc\<lparr>dr_drb := map_option (\<lambda>b. replicate (dr_drb_len stc) 0 @ drop (dr_drb_len stc) b) (dr_drb stc)\<rparr>, w)"

definition drbg_example :: drbg_set where
  "drbg_example = \<lparr>ds_id = 1, ds_mode = ''SHA2-256'', ds_pred = False, ds_reseed = True, ds_der = False, ds_entropy = 10, ds_nonce = 5, ds_perso = 0,
     ds_out = 4, ds_add = 1, ds_tests = [\<lparr>dq_id = 7, dq_perso = [], dq_entropy = replicate 10 3, dq_nonce = replicate 5 1,
       dq_inputs = [\<lparr>en_use = Some ''reSeed'', en_add = [1], en_ent = replicate 10 2\<rparr>, \<lparr>en_use = Some ''generate'', en_add = [2], en_ent = []\<rparr>,
         \<lparr>en_use = None, en_add = [3], en_ent = []\<rparr>]\<rparr>]\<rparr>"

lemma drbg_index: "amvp_lookup_cipher_index (Some ''hashDRBG'') = AMVP_HASHDRBG"
  by (rule lookup_index_row) (code_simp, simp add: c_string_def)

lemma drbg_example_mode: "amvp_lookup_drbg_mode_index (Some ''SHA2-256'') \<noteq> 0"
  by (simp add: amvp_lookup_drbg_mode_index_def drbg_mode_tbl_def strcmp_s_def DRBG_MODE_NAME_MAX_def RSIZE_MAX_STR_def)

theorem drbg_handler_answers_witness:
  "\<exists>w'. drbg_kat_handler always_memory zero_bits_module (Some (drbg_request ''hashDRBG'' [drbg_example])) (Some drbg_session) =
    Ret AMVP_SUCCESS (Some (drbg_session\<lparr>kat_resp := Some (JSONArray [JSONObject [(''vsId'', JSONNumber (vs_id drbg_session)),
      (''algorithm'', JSONString ''hashDRBG''), (''testGroups'', JSONArray (map (drbg_group_answer (\<lambda>n q. replicate n 0) AMVP_HASHDRBG) [drbg_example]))]]),
      world := w'\<rparr>))"
  by (rule drbg_handler_answers [OF drbg_index, where cap = drbg_cap_entry and cb = 0])
    (simp_all add: drbg_session_def drbg_cap_entry_def amvp_locate_cap_entry_def generates_def zero_bits_module_def always_memory_def
      drbg_set_fits_def drbg_query_fits_def inputs_fit_def entry_fits_def use_passes_def drbg_example_def drbg_example_mode drbg_sizes is_int32_def c_string_def)

text \<open>
  What the comparison with the intended use refuses. An input whose intended use is at least
  as long as the expected word and does not begin with it ends the handler with an invalid
  argument; an input without any intended use, or with a shorter one, is read like a correct one.
\<close>
theorem drbg_intended_use:
  assumes "json_array_get_value (Some arr) i = Some v" and "intended = ''reSeed'' \<or> intended = ''generate''"
    and "obj = json_value_get_object (Some v)" and "\<And>t. json_object_get_string obj ''intendedUse'' = Some t \<Longrightarrow> c_string t"
  shows "drbg_input intended arr i s =
    (if use_passes intended (json_object_get_string obj ''intendedUse'')
     then bounded_text obj ''additionalInput'' AMVP_DRBG_ADDI_IN_STR_MAX (\<lambda>a.
          bounded_text obj ''entropyInput'' AMVP_DRBG_ENTPY_IN_STR_MAX (\<lambda>e. pass (a, e))) s
     else Fail AMVP_INVALID_ARG s)"
proof -
  have "c_string intended" "0 < length intended" "length intended \<le> RSIZE_MAX_STR"
    using assms(2) by (auto simp: c_string_def RSIZE_MAX_STR_def)
  from use_passes_iff [OF this assms(4)] show ?thesis
    using assms(1,3) by (simp add: drbg_input_def Let_def reject_def)
qed

theorem drbg_intended_use_witness:
  "drbg_input ''generate'' [JSONObject [(''additionalInput'', JSONString ''''), (''entropyInput'', JSONString ''00'')]] 0 () = Done ('''', ''00'') ()"
proof -
  let ?o = "[(''additionalInput'', JSONString ''''), (''entropyInput'', JSONString ''00'')]"
  have "json_object_get_string (Some ?o) ''intendedUse'' = None" "json_object_get_string (Some ?o) ''additionalInput'' = Some ''''"
    "json_object_get_string (Some ?o) ''entropyInput'' = Some ''00''"
    by (simp_all add: json_read drbg_known)
  then show ?thesis
    using drbg_intended_use [of "[JSONObject ?o]" 0 "JSONObject ?o" "''generate''" "Some ?o" "()"]
    by (simp add: json_array_get_value_def json_array_get_count_def json_value_get_object_def use_passes_def bounded_text_def drbg_sizes)
qed

end
