(* ===== verification/Kat_Aes.thy ===== *)
theory Kat_Aes
  imports Kat_Common Cap_Sym
begin

unbundle bit_operations_syntax


text \<open>
  The handler of AES vector sets, \<^verbatim>\<open>src/amvp_aes.c\<close>: the checks on groups and tests, the test case
  that goes to the crypto module, functional and counter tests, Monte Carlo tests, and the answer.
\<close>

section \<open>Limits, enumerations and the test case\<close>

definition AMVP_SYM_KEY_MAX_STR :: nat where "AMVP_SYM_KEY_MAX_STR = 128"
definition AMVP_SYM_KEY_MAX_BYTES :: nat where "AMVP_SYM_KEY_MAX_BYTES = 64"
definition AMVP_SYM_PT_BIT_MAX :: nat where "AMVP_SYM_PT_BIT_MAX = 131072"
definition AMVP_SYM_PT_MAX :: nat where "AMVP_SYM_PT_MAX = 32768"
definition AMVP_SYM_PT_BYTE_MAX :: nat where "AMVP_SYM_PT_BYTE_MAX = 16384"
definition AMVP_SYM_CT_MAX :: nat where "AMVP_SYM_CT_MAX = 32768"
definition AMVP_SYM_CT_BYTE_MAX :: nat where "AMVP_SYM_CT_BYTE_MAX = 16384"
definition AMVP_SYM_IV_MAX :: nat where "AMVP_SYM_IV_MAX = 256"
definition AMVP_SYM_IV_BYTE_MAX :: nat where "AMVP_SYM_IV_BYTE_MAX = 128"
definition AMVP_AES_GCM_SIV_IVLEN :: nat where "AMVP_AES_GCM_SIV_IVLEN = 96"
definition AMVP_AES_XPN_IVLEN :: nat where "AMVP_AES_XPN_IVLEN = 96"
definition AMVP_SYM_TAG_BIT_MIN :: nat where "AMVP_SYM_TAG_BIT_MIN = 4"
definition AMVP_SYM_TAG_BIT_MAX :: nat where "AMVP_SYM_TAG_BIT_MAX = 128"
definition AMVP_SYM_TAG_MAX :: nat where "AMVP_SYM_TAG_MAX = 32"
definition AMVP_SYM_TAG_BYTE_MAX :: nat where "AMVP_SYM_TAG_BYTE_MAX = 16"
definition AMVP_AES_GCM_SIV_TAGLEN :: nat where "AMVP_AES_GCM_SIV_TAGLEN = 128"
definition AMVP_SYM_AAD_BIT_MAX :: nat where "AMVP_SYM_AAD_BIT_MAX = 65536"
definition AMVP_SYM_AAD_MAX :: nat where "AMVP_SYM_AAD_MAX = 16384"
definition AMVP_SYM_AAD_BYTE_MAX :: nat where "AMVP_SYM_AAD_BYTE_MAX = 8192"
definition AMVP_AES_XPN_SALTLEN :: nat where "AMVP_AES_XPN_SALTLEN = 96"
definition AMVP_AES_CCM_IV_BIT_MIN :: nat where "AMVP_AES_CCM_IV_BIT_MIN = 56"
definition AMVP_AES_CCM_IV_BIT_MAX :: nat where "AMVP_AES_CCM_IV_BIT_MAX = 104"
definition AMVP_AES_GCM_IV_BIT_MIN :: nat where "AMVP_AES_GCM_IV_BIT_MIN = 8"
definition AMVP_AES_GCM_IV_BIT_MAX :: nat where "AMVP_AES_GCM_IV_BIT_MAX = 1024"

lemmas sym_sizes =
  AMVP_SYM_KEY_MAX_STR_def AMVP_SYM_KEY_MAX_BYTES_def AMVP_SYM_PT_BIT_MAX_def AMVP_SYM_PT_MAX_def AMVP_SYM_PT_BYTE_MAX_def
  AMVP_SYM_CT_MAX_def AMVP_SYM_CT_BYTE_MAX_def AMVP_SYM_IV_MAX_def AMVP_SYM_IV_BYTE_MAX_def AMVP_SYM_TAG_MAX_def
  AMVP_SYM_TAG_BYTE_MAX_def AMVP_SYM_AAD_MAX_def AMVP_SYM_AAD_BYTE_MAX_def AMVP_AES_XPN_SALTLEN_def

abbreviation (input) AMVP_SYM_TEST_TYPE_AFT :: int where "AMVP_SYM_TEST_TYPE_AFT \<equiv> 1"
abbreviation (input) AMVP_SYM_TEST_TYPE_CTR :: int where "AMVP_SYM_TEST_TYPE_CTR \<equiv> 2"
abbreviation (input) AMVP_SYM_TEST_TYPE_MCT :: int where "AMVP_SYM_TEST_TYPE_MCT \<equiv> 3"

record AMVP_SYM_CIPHER_TC =
  sy_cipher :: AMVP_CIPHER
  sy_conformance :: int
  sy_test_type :: int
  sy_direction :: int
  sy_ivgen_source :: int
  sy_ivgen_mode :: int
  sy_salt_source :: int
  sy_tc_id :: nat
  sy_key :: "bytes option"
  sy_pt :: "bytes option"
  sy_aad :: "bytes option"
  sy_iv :: "bytes option"
  sy_ct :: "bytes option"
  sy_tag :: "bytes option"
  sy_iv_ret :: "bytes option"
  sy_iv_ret_after :: "bytes option"
  sy_salt :: "bytes option"
  sy_kwcipher :: int
  sy_tw_mode :: int
  sy_seq_num :: nat
  sy_key_len :: nat
  sy_pt_len :: nat
  sy_data_len :: nat
  sy_aad_len :: nat
  sy_iv_len :: nat
  sy_ct_len :: nat
  sy_tag_len :: nat
  sy_salt_len :: nat
  sy_mct_index :: nat
  sy_incr_ctr :: nat
  sy_ovrflw_ctr :: nat
  sy_keyingOption :: nat
  sy_data_unit_len :: nat

type_synonym 'w sym_crypto = "nat \<Rightarrow> AMVP_SYM_CIPHER_TC \<Rightarrow> 'w \<Rightarrow> AMVP_RESULT \<times> AMVP_SYM_CIPHER_TC \<times> 'w"

text \<open>
  What survives from one test or group to the next: the static arrays of the Monte Carlo test,
  the flag \<^verbatim>\<open>readIv\<close>, which is set but never cleared, the sequence number and the world. The arrays
  keep what earlier vector sets left in them; the handler is given their contents.
\<close>

record aes_arrays =
  ar_mkey :: "bytes list"
  ar_miv :: "bytes list"
  ar_ptext :: "bytes list"
  ar_ctext :: "bytes list"

record 'w aes_frame =
  af_arrays :: aes_arrays
  af_readIv :: bool
  af_seq_num :: int
  af_world :: 'w

definition on_aes :: "('a, 'w) step \<Rightarrow> ('a, 'w aes_frame) step" where
  "on_aes p f =
     (case p (af_world f) of Done x w \<Rightarrow> Done x (f\<lparr>af_world := w\<rparr>) | Fail rv w \<Rightarrow> Fail rv (f\<lparr>af_world := w\<rparr>) | Undef u \<Rightarrow> Undef u)"

definition read_arrays :: "(aes_arrays, 'w aes_frame) step" where
  "read_arrays f = Done (af_arrays f) f"

definition write_arrays :: "aes_arrays \<Rightarrow> (unit, 'w aes_frame) step" where
  "write_arrays a f = Done () (f\<lparr>af_arrays := a\<rparr>)"

section \<open>Bytes, bits and rows\<close>

abbreviation (input) KEY_ROW_LEN :: nat where "KEY_ROW_LEN \<equiv> 32"
abbreviation (input) IV_ROW_LEN :: nat where "IV_ROW_LEN \<equiv> 16"
abbreviation (input) TEXT_ROW_LEN :: nat where "TEXT_ROW_LEN \<equiv> 32"
abbreviation (input) MCT_CT_LEN :: nat where "MCT_CT_LEN \<equiv> 68"
abbreviation (input) AMVP_AES_MCT_INNER :: nat where "AMVP_AES_MCT_INNER \<equiv> 1000"
abbreviation (input) AMVP_AES_MCT_OUTER :: nat where "AMVP_AES_MCT_OUTER \<equiv> 100"

definition arrays_shaped :: "aes_arrays \<Rightarrow> bool" where
  "arrays_shaped a \<longleftrightarrow> length (ar_mkey a) = 101 \<and> length (ar_miv a) = 101 \<and> length (ar_ptext a) = 1001 \<and> length (ar_ctext a) = 1001 \<and>
     (\<forall>r \<in> set (ar_mkey a). length r = KEY_ROW_LEN) \<and> (\<forall>r \<in> set (ar_miv a). length r = IV_ROW_LEN) \<and>
     (\<forall>r \<in> set (ar_ptext a) \<union> set (ar_ctext a). length r = TEXT_ROW_LEN)"

definition gb :: "bytes \<Rightarrow> nat \<Rightarrow> bool" where
  "gb a b = bit (a ! (b div 8)) (7 - b mod 8)"

definition sb :: "bytes \<Rightarrow> nat \<Rightarrow> bool \<Rightarrow> bytes" where
  "sb a b v = a[b div 8 := (a ! (b div 8) AND NOT (push_bit (7 - b mod 8) 1)) OR (if v then push_bit (7 - b mod 8) 1 else 0)]"

definition byte_at :: "bytes option \<Rightarrow> nat \<Rightarrow> (8 word, 's) step" where
  "byte_at buf i = (case buf of None \<Rightarrow> undef Null_Deref | Some b \<Rightarrow> if i < length b then pass (b ! i) else undef Out_Of_Bounds)"

definition set_byte :: "bytes option \<Rightarrow> nat \<Rightarrow> 8 word \<Rightarrow> (bytes option, 's) step" where
  "set_byte buf i v = (case buf of None \<Rightarrow> undef Null_Deref | Some b \<Rightarrow> if i < length b then pass (Some (b[i := v])) else undef Out_Of_Bounds)"

text \<open>A copy into a row of an array, and one of a part of a row to an offset of a buffer.\<close>

definition row_put :: "nat \<Rightarrow> bytes list \<Rightarrow> nat \<Rightarrow> bytes option \<Rightarrow> nat \<Rightarrow> (bytes list, 's) step" where
  "row_put dmax rows j src n =
     (if j < length rows then andthen (copy_bytes (Some (rows ! j)) dmax src n) (\<lambda>r. pass (rows[j := the r])) else undef Out_Of_Bounds)"

definition copy_to :: "nat \<Rightarrow> bytes \<Rightarrow> bytes \<Rightarrow> nat \<Rightarrow> (bytes, 's) step" where
  "copy_to off buf src n =
     (if n \<le> length src then of_sum (put_bytes off (take n src) buf) else undef Out_Of_Bounds)"

text \<open>Bytes as hexadecimal text, in a buffer that is cleared before.\<close>

definition hex_text :: "bytes option \<Rightarrow> nat \<Rightarrow> nat \<Rightarrow> (string, 's) step" where
  "hex_text bs len mx =
     andthen (of_outcome (amvp_bin_to_hexstr bs (wrap32 (int len)) (Some (replicate (AMVP_SYM_CT_MAX + 1) NUL)) (int mx)))
       (\<lambda>t. pass (cstr (the t)))"

section \<open>Monte Carlo tests\<close>

text \<open>
  The two directions are mirror images: encrypting turns the plaintext into the ciphertext, any
  other direction the ciphertext into the plaintext. The input and the output of a test case
  and the arrays they are kept in, by direction.
\<close>

definition encrypting :: "AMVP_SYM_CIPHER_TC \<Rightarrow> bool" where
  "encrypting stc \<longleftrightarrow> sy_direction stc = AMVP_SYM_CIPH_DIR_ENCRYPT"

definition in_buf :: "AMVP_SYM_CIPHER_TC \<Rightarrow> bytes option" where
  "in_buf stc = (if encrypting stc then sy_pt stc else sy_ct stc)"

definition out_buf :: "AMVP_SYM_CIPHER_TC \<Rightarrow> bytes option" where
  "out_buf stc = (if encrypting stc then sy_ct stc else sy_pt stc)"

definition in_len :: "AMVP_SYM_CIPHER_TC \<Rightarrow> nat" where
  "in_len stc = (if encrypting stc then sy_pt_len stc else sy_ct_len stc)"

definition out_len :: "AMVP_SYM_CIPHER_TC \<Rightarrow> nat" where
  "out_len stc = (if encrypting stc then sy_ct_len stc else sy_pt_len stc)"

definition set_in :: "bytes option \<Rightarrow> AMVP_SYM_CIPHER_TC \<Rightarrow> AMVP_SYM_CIPHER_TC" where
  "set_in b stc = (if encrypting stc then stc\<lparr>sy_pt := b\<rparr> else stc\<lparr>sy_ct := b\<rparr>)"

definition in_max :: "AMVP_SYM_CIPHER_TC \<Rightarrow> nat" where
  "in_max stc = (if encrypting stc then AMVP_SYM_PT_BYTE_MAX else AMVP_SYM_CT_BYTE_MAX)"

definition in_rows :: "AMVP_SYM_CIPHER_TC \<Rightarrow> aes_arrays \<Rightarrow> bytes list" where
  "in_rows stc a = (if encrypting stc then ar_ptext a else ar_ctext a)"

definition out_rows :: "AMVP_SYM_CIPHER_TC \<Rightarrow> aes_arrays \<Rightarrow> bytes list" where
  "out_rows stc a = (if encrypting stc then ar_ctext a else ar_ptext a)"

definition set_in_row :: "AMVP_SYM_CIPHER_TC \<Rightarrow> nat \<Rightarrow> bytes \<Rightarrow> aes_arrays \<Rightarrow> aes_arrays" where
  "set_in_row stc j r a =
     (if encrypting stc then a\<lparr>ar_ptext := (ar_ptext a)[j := r]\<rparr> else a\<lparr>ar_ctext := (ar_ctext a)[j := r]\<rparr>)"

text \<open>
  \<^verbatim>\<open>amvp_aes_mct_iterate_tc\<close> in two parts. The first keeps the texts of iteration \<open>j\<close>, and the key
  in the first one; of a bit cipher only the first byte is kept.
\<close>

definition aes_keep :: "AMVP_SYM_CIPHER_TC \<Rightarrow> aes_arrays \<Rightarrow> (aes_arrays, 's) step" where
  "aes_keep stc a =
     (let j = sy_mct_index stc in
      andthen
        (if sy_cipher stc \<noteq> AMVP_AES_CFB1
         then andthen (row_put TEXT_ROW_LEN (ar_ctext a) j (sy_ct stc) (sy_ct_len stc)) (\<lambda>c.
              andthen (row_put TEXT_ROW_LEN (ar_ptext a) j (sy_pt stc) (sy_pt_len stc)) (\<lambda>p. pass (c, p)))
         else andthen (byte_at (sy_ct stc) 0) (\<lambda>c. andthen (byte_at (sy_pt stc) 0) (\<lambda>p.
              pass ((ar_ctext a)[j := (ar_ctext a ! j)[0 := c]], (ar_ptext a)[j := (ar_ptext a ! j)[0 := p]]))))
        (\<lambda>(c, p).
           andthen (if j = 0 then row_put KEY_ROW_LEN (ar_mkey a) j (sy_key stc) (sy_key_len stc div 8) else pass (ar_mkey a)) (\<lambda>k.
             pass (a\<lparr>ar_ctext := c, ar_ptext := p, ar_mkey := k\<rparr>))))"

text \<open>The second sets the input, and for some modes the initialization vector, of the next iteration.\<close>

definition aes_feed :: "nat \<Rightarrow> AMVP_SYM_CIPHER_TC \<Rightarrow> aes_arrays \<Rightarrow> (AMVP_SYM_CIPHER_TC \<times> aes_arrays, 's) step" where
  "aes_feed i stc a =
     (let j = sy_mct_index stc;
          alg = amvp_get_aes_alg (sy_cipher stc);
          out = out_rows stc a;
          feed = (\<lambda>src n k. andthen (copy_bytes (in_buf stc) (in_max stc) src n) (\<lambda>b. k (set_in b stc)))
      in if alg = 0 then stop AMVP_TC_INVALID_DATA
         else if alg = AMVP_SUB_AES_ECB then feed (Some (out ! j)) (out_len stc) (\<lambda>stc1. pass (stc1, a))
         else if alg = AMVP_SUB_AES_CBC \<or> alg = AMVP_SUB_AES_OFB \<or> alg = AMVP_SUB_AES_CFB128 then
           (if j = 0 then feed (sy_iv stc) (sy_iv_len stc) (\<lambda>stc1. pass (stc1, a))
            else feed (Some (out ! (j - 1))) (out_len stc) (\<lambda>stc1.
                 andthen (copy_bytes (sy_iv stc1) AMVP_SYM_IV_BYTE_MAX (Some (out ! j)) (out_len stc)) (\<lambda>v. pass (stc1\<lparr>sy_iv := v\<rparr>, a))))
         else if alg = AMVP_SUB_AES_CFB8 then
           (if j < 16 then
              (case sy_iv stc of None \<Rightarrow> undef Null_Deref
               | Some v \<Rightarrow> feed (Some (drop j v)) (sy_iv_len stc) (\<lambda>stc1. pass (stc1, a)))
            else feed (Some (out ! (j - 16))) (out_len stc) (\<lambda>stc1. pass (stc1, a)))
         else if alg = AMVP_SUB_AES_CFB1 then
           (let row = sb (in_rows stc a ! (j + 1)) 0 (if j < 128 then gb (ar_miv a ! i) j else gb (out ! (j - 128)) 0)
            in andthen (set_byte (in_buf stc) 0 (row ! 0)) (\<lambda>b. pass (set_in b stc, set_in_row stc (j + 1) row a)))
         else pass (stc, a))"

definition amvp_aes_mct_iterate_tc :: "nat \<Rightarrow> AMVP_SYM_CIPHER_TC \<Rightarrow> (AMVP_SYM_CIPHER_TC, 'w aes_frame) step" where
  "amvp_aes_mct_iterate_tc i stc =
     andthen read_arrays (\<lambda>a.
     andthen (aes_keep stc a) (\<lambda>a1.
     andthen (write_arrays a1) (\<lambda>_.
     andthen (aes_feed i stc a1) (\<lambda>(stc1, a2).
     andthen (write_arrays a2) (\<lambda>_. pass stc1)))))"

definition amvp_aes_output_mct_tc :: "'w allocator \<Rightarrow> AMVP_SYM_CIPHER_TC \<Rightarrow> JSON_Object \<Rightarrow> (JSON_Object, 'w) step" where
  "amvp_aes_output_mct_tc al stc r_tobj =
     andthen (new_chars al (AMVP_SYM_CT_MAX + 1)) (\<lambda>_.
     andthen (hex_text (sy_key stc) (sy_key_len stc div 8) AMVP_SYM_CT_MAX) (\<lambda>key.
     andthen (if sy_cipher stc \<noteq> AMVP_AES_ECB
              then andthen (hex_text (sy_iv stc) (sy_iv_len stc) AMVP_SYM_CT_MAX) (\<lambda>iv.
                     pass (json_object_set_string ''iv'' (Some iv) (json_object_set_string ''key'' (Some key) r_tobj)))
              else pass (json_object_set_string ''key'' (Some key) r_tobj)) (\<lambda>r1.
     andthen (hex_text (in_buf stc) (if sy_cipher stc = AMVP_AES_CFB1 then 1 else in_len stc)
                (if encrypting stc then AMVP_SYM_PT_MAX else AMVP_SYM_CT_MAX)) (\<lambda>txt.
       pass (json_object_set_string (if encrypting stc then ''pt'' else ''ct'') (Some txt) r1)))))"

primrec aes_mct_inner ::
  "'w sym_crypto \<Rightarrow> callback \<Rightarrow> nat \<Rightarrow> nat \<Rightarrow> nat \<Rightarrow> AMVP_SYM_CIPHER_TC \<Rightarrow> (AMVP_SYM_CIPHER_TC, 'w aes_frame) step" where
  "aes_mct_inner crypto cb i 0 j stc = pass stc"
| "aes_mct_inner crypto cb i (Suc n) j stc =
     andthen (on_aes (call_crypto crypto cb (stc\<lparr>sy_mct_index := j\<rparr>))) (\<lambda>stc1.
     andthen (amvp_aes_mct_iterate_tc i stc1) (\<lambda>stc2. aes_mct_inner crypto cb i n (j + 1) stc2))"

text \<open>
  What follows the inner loop of round \<open>i\<close>, for \<open>j = 999\<close>. From the last outputs come the bytes that
  change the key and, for the feedback modes of bytes and bits, the next vector; what the bytes
  were before is kept where nothing is assigned.
\<close>

definition aes_last_bytes :: "bytes list \<Rightarrow> nat \<Rightarrow> bytes \<Rightarrow> bytes" where
  "aes_last_bytes out k buf = foldl (\<lambda>c n. c[n := (out ! (999 - (k - 1 - n))) ! 0]) buf [0..<k]"

definition aes_last_bits :: "bytes list \<Rightarrow> nat \<Rightarrow> bytes \<Rightarrow> bytes" where
  "aes_last_bits out k buf = foldl (\<lambda>c n. sb c n (gb (out ! (999 - (k - 1 - n))) 0)) buf [0..<k]"

definition aes_last_blocks :: "bytes list \<Rightarrow> nat \<Rightarrow> bytes \<Rightarrow> (bytes, 's) step" where
  "aes_last_blocks out key_len ciphertext =
     (if key_len = 128 then copy_to 0 ciphertext (out ! 999) 16
      else if key_len = 192 then
        andthen (copy_to 0 ciphertext (drop 8 (out ! 998)) 8) (\<lambda>c. copy_to 8 c (out ! 999) 16)
      else if key_len = 256 then
        andthen (copy_to 0 ciphertext (out ! 998) 16) (\<lambda>c. copy_to 16 c (out ! 999) 16)
      else pass ciphertext)"

definition aes_mct_chain ::
  "nat \<Rightarrow> AMVP_SYM_CIPHER_TC \<Rightarrow> bytes \<Rightarrow> aes_arrays \<Rightarrow> (AMVP_SYM_CIPHER_TC \<times> bytes \<times> aes_arrays, 's) step" where
  "aes_mct_chain i stc ciphertext a =
     (let out = out_rows stc a in
      if sy_cipher stc = AMVP_AES_CFB8 then
        (case sy_iv stc of None \<Rightarrow> undef Null_Deref
         | Some v \<Rightarrow> pass (stc\<lparr>sy_iv := Some (aes_last_bytes out 16 v)\<rparr>, aes_last_bytes out (sy_key_len stc div 8) ciphertext,
                            set_in_row stc 0 ((in_rows stc a ! 0)[0 := (out ! 983) ! 0]) a))
      else if sy_cipher stc = AMVP_AES_CFB1 then
        (let miv = aes_last_bits out 128 (ar_miv a ! (i + 1));
             first = ((out ! 871) ! 0) AND 0x80
         in andthen (set_byte (in_buf stc) 0 first) (\<lambda>b.
            andthen (copy_bytes (sy_iv stc) AMVP_SYM_IV_BYTE_MAX (Some miv) (sy_iv_len stc)) (\<lambda>v.
              pass ((set_in b stc)\<lparr>sy_iv := v\<rparr>, aes_last_bits out (sy_key_len stc) ciphertext,
                    set_in_row stc 0 ((in_rows stc a ! 0)[0 := first]) (a\<lparr>ar_miv := (ar_miv a)[i + 1 := miv]\<rparr>)))))
      else andthen (aes_last_blocks out (sy_key_len stc) ciphertext) (\<lambda>c. pass (stc, c, a)))"

definition aes_next_key :: "AMVP_SYM_CIPHER_TC \<Rightarrow> bytes \<Rightarrow> aes_arrays \<Rightarrow> (AMVP_SYM_CIPHER_TC, 's) step" where
  "aes_next_key stc ciphertext a =
     (let n = sy_key_len stc div 8; row = ar_mkey a ! 0 in
      if n = 0 then pass stc
      else case sy_key stc of None \<Rightarrow> undef Null_Deref
           | Some key \<Rightarrow>
               if n > length row \<or> n > length ciphertext \<or> n > length key then undef Out_Of_Bounds
               else pass (stc\<lparr>sy_key := Some (map2 (XOR) (take n row) (take n ciphertext) @ drop n key)\<rparr>))"

primrec aes_mct_outer ::
  "'w allocator \<Rightarrow> 'w sym_crypto \<Rightarrow> callback \<Rightarrow> nat \<Rightarrow> nat \<Rightarrow> bytes \<Rightarrow> AMVP_SYM_CIPHER_TC \<Rightarrow> (JSON_Array, 'w aes_frame) step" where
  "aes_mct_outer al crypto cb 0 i ciphertext stc = pass []"
| "aes_mct_outer al crypto cb (Suc n) i ciphertext stc =
     andthen (on_aes (amvp_aes_output_mct_tc al stc [])) (\<lambda>r_tobj.
     andthen (aes_mct_inner crypto cb i AMVP_AES_MCT_INNER 0 stc) (\<lambda>stc1.
     andthen (hex_text (out_buf stc1) (if sy_cipher stc1 = AMVP_AES_CFB1 then 1 else out_len stc1) AMVP_SYM_CT_MAX) (\<lambda>txt.
     andthen read_arrays (\<lambda>a.
     andthen (aes_mct_chain i stc1 ciphertext a) (\<lambda>(stc2, ciphertext1, a1).
     andthen (write_arrays a1) (\<lambda>_.
     andthen (aes_next_key stc2 ciphertext1 a1) (\<lambda>stc3.
     andthen (aes_mct_outer al crypto cb n (i + 1) ciphertext1 stc3) (\<lambda>rest.
       pass (JSONObject (json_object_set_string (if encrypting stc1 then ''ct'' else ''pt'') (Some txt) r_tobj) # rest)))))))))"

definition amvp_aes_mct_tc :: "'w allocator \<Rightarrow> 'w sym_crypto \<Rightarrow> callback \<Rightarrow> AMVP_SYM_CIPHER_TC \<Rightarrow> (JSON_Array, 'w aes_frame) step" where
  "amvp_aes_mct_tc al crypto cb stc =
     andthen (on_aes (new_chars al (AMVP_SYM_CT_MAX + 1))) (\<lambda>_.
     andthen read_arrays (\<lambda>a.
     andthen (row_put IV_ROW_LEN (ar_miv a) 0 (sy_iv stc) (sy_iv_len stc)) (\<lambda>miv.
     andthen (write_arrays (a\<lparr>ar_miv := miv\<rparr>)) (\<lambda>_.
       aes_mct_outer al crypto cb AMVP_AES_MCT_OUTER 0 (replicate MCT_CT_LEN 0) stc))))"

section \<open>The test case\<close>

definition read_word :: "(int \<times> string) list \<Rightarrow> string option \<Rightarrow> int" where
  "read_word tbl str = (case find_by_name length 0 tbl str of None \<Rightarrow> 0 | Some v \<Rightarrow> v)"

definition read_tw_mode :: "string option \<Rightarrow> int" where
  "read_tw_mode = read_word [(AMVP_SYM_CIPH_TWEAK_HEX, ''hex''), (AMVP_SYM_CIPH_TWEAK_NUM, ''number'')]"

definition read_ivgen_mode :: "string option \<Rightarrow> int" where
  "read_ivgen_mode = read_word [(AMVP_SYM_CIPH_IVGEN_MODE_821, ''8.2.1''), (AMVP_SYM_CIPH_IVGEN_MODE_822, ''8.2.2'')]"

definition read_ivgen_source :: "string option \<Rightarrow> int" where
  "read_ivgen_source = read_word [(AMVP_SYM_CIPH_IVGEN_SRC_INT, ''internal''), (AMVP_SYM_CIPH_IVGEN_SRC_EXT, ''external'')]"

definition read_salt_source :: "string option \<Rightarrow> int" where
  "read_salt_source = read_word [(AMVP_SYM_CIPH_SALT_SRC_INT, ''internal''), (AMVP_SYM_CIPH_SALT_SRC_EXT, ''external'')]"

definition read_kw_mode :: "string option \<Rightarrow> int" where
  "read_kw_mode = read_word [(AMVP_SYM_KW_CIPHER, ''cipher''), (AMVP_SYM_KW_INVERSE, ''inverse'')]"

definition aes_read_test_type :: "string option \<Rightarrow> int" where
  "aes_read_test_type =
     read_word [(AMVP_SYM_TEST_TYPE_MCT, ''MCT''), (AMVP_SYM_TEST_TYPE_AFT, ''AFT''), (AMVP_SYM_TEST_TYPE_CTR, ''CTR'')]"

definition read_direction :: "string option \<Rightarrow> int" where
  "read_direction = read_word [(AMVP_SYM_CIPH_DIR_ENCRYPT, ''encrypt''), (AMVP_SYM_CIPH_DIR_DECRYPT, ''decrypt'')]"

text \<open>What a group says, as the handler's variables hold it, and what a test adds.\<close>

record aes_params =
  ap_dir :: int
  ap_type :: int
  ap_incr :: int
  ap_ovrflw :: int
  ap_kw :: int
  ap_keylen :: nat
  ap_ivlen :: nat
  ap_ivgen :: int
  ap_ivmode :: int
  ap_aadlen :: nat
  ap_taglen :: nat
  ap_paylen :: nat
  ap_tw_mode :: "string option"
  ap_salt_src :: int
  ap_saltlen :: nat
  ap_conformance :: int

record aes_inputs =
  ai_tc_id :: nat
  ai_key :: string
  ai_pt :: "string option"
  ai_ct :: "string option"
  ai_iv :: "string option"
  ai_tag :: "string option"
  ai_aad :: "string option"
  ai_salt :: "string option"
  ai_datalen :: nat
  ai_dulen :: nat
  ai_tweak :: int

text \<open>
  \<^verbatim>\<open>amvp_aes_init_tc\<close>. A text gives its own length, except that a bit cipher takes the length of the
  test and CCM that of the group; where there is no text the length of the group stays.
\<close>

definition aes_text ::
  "'w allocator \<Rightarrow> string option \<Rightarrow> bytes \<Rightarrow> nat \<Rightarrow> nat \<Rightarrow> AMVP_CIPHER \<Rightarrow> nat \<Rightarrow> nat \<Rightarrow> nat \<Rightarrow> (bytes \<times> nat \<times> nat, 'w) step" where
  "aes_text al s buf bmax smax alg_id data_len glen dlen =
     (case s of
        None \<Rightarrow> pass (buf, glen, dlen)
      | Some t \<Rightarrow>
          andthen (from_hex al t buf bmax) (\<lambda>b.
            if alg_id = AMVP_AES_CFB1 then pass (b, data_len, data_len)
            else if alg_id = AMVP_AES_CCM then pass (b, glen, dlen)
            else pass (b, strnlen_s (Some t) smax div 2, dlen)))"

definition aes_iv ::
  "'w allocator \<Rightarrow> string option \<Rightarrow> bytes \<Rightarrow> AMVP_CIPHER \<Rightarrow> nat \<Rightarrow> (bytes \<times> nat, 'w) step" where
  "aes_iv al s buf alg_id ivlen =
     (case s of
        None \<Rightarrow> pass (buf, ivlen)
      | Some t \<Rightarrow>
          if alg_id = AMVP_AES_CBC_CS1 \<or> alg_id = AMVP_AES_CBC_CS2 \<or> alg_id = AMVP_AES_CBC_CS3
          then andthen (of_outcome (amvp_hexstr_to_bin (Some t) (Some buf) (int AMVP_SYM_IV_BYTE_MAX) (Some 0))) (\<lambda>(b, n).
                 pass (the b, uint_of (the n)))
          else andthen (from_hex al t buf AMVP_SYM_IV_BYTE_MAX) (\<lambda>b. pass (b, ivlen)))"

definition amvp_aes_init_tc ::
  "'w allocator \<Rightarrow> aes_params \<Rightarrow> aes_inputs \<Rightarrow> int \<Rightarrow> AMVP_CIPHER \<Rightarrow> (AMVP_SYM_CIPHER_TC, 'w) step" where
  "amvp_aes_init_tc al p x seq_num alg_id =
     andthen (new_bytes al AMVP_SYM_KEY_MAX_BYTES) (\<lambda>kbuf.
     andthen (new_bytes al AMVP_SYM_PT_BYTE_MAX) (\<lambda>pbuf.
     andthen (new_bytes al AMVP_SYM_CT_BYTE_MAX) (\<lambda>cbuf.
     andthen (new_bytes al AMVP_SYM_TAG_BYTE_MAX) (\<lambda>tbuf.
     andthen (new_bytes al AMVP_SYM_IV_BYTE_MAX) (\<lambda>vbuf.
     andthen (new_bytes al AMVP_SYM_AAD_BYTE_MAX) (\<lambda>abuf.
     andthen (new_bytes al AMVP_AES_XPN_SALTLEN) (\<lambda>sbuf.
     andthen (from_hex al (ai_key x) kbuf AMVP_SYM_KEY_MAX_BYTES) (\<lambda>key.
     andthen (aes_text al (ai_pt x) pbuf AMVP_SYM_PT_BYTE_MAX AMVP_SYM_PT_MAX alg_id (ai_datalen x) (ap_paylen p div 8) 0) (\<lambda>(pt, pt_len, d1).
     andthen (aes_text al (ai_ct x) cbuf AMVP_SYM_CT_BYTE_MAX AMVP_SYM_CT_MAX alg_id (ai_datalen x) (ap_paylen p div 8) d1) (\<lambda>(ct, ct_len, d2).
     andthen (aes_iv al (ai_iv x) vbuf alg_id (ap_ivlen p div 8)) (\<lambda>(iv, iv_len).
     andthen (from_hex_if al (ai_tag x) tbuf AMVP_SYM_TAG_BYTE_MAX) (\<lambda>tag.
     andthen (from_hex_if al (ai_aad x) abuf AMVP_SYM_AAD_BYTE_MAX) (\<lambda>aad.
     andthen (from_hex_if al (ai_salt x) sbuf AMVP_AES_XPN_SALTLEN) (\<lambda>salt.
       pass \<lparr>sy_cipher = alg_id, sy_conformance = ap_conformance p, sy_test_type = ap_type p, sy_direction = ap_dir p,
             sy_ivgen_source = ap_ivgen p, sy_ivgen_mode = ap_ivmode p, sy_salt_source = ap_salt_src p, sy_tc_id = ai_tc_id x,
             sy_key = Some key, sy_pt = Some pt, sy_aad = Some aad, sy_iv = Some iv, sy_ct = Some ct, sy_tag = Some tag,
             sy_iv_ret = None, sy_iv_ret_after = None, sy_salt = Some salt, sy_kwcipher = ap_kw p, sy_tw_mode = ai_tweak x,
             sy_seq_num = uint_of seq_num, sy_key_len = ap_keylen p, sy_pt_len = pt_len, sy_data_len = d2, sy_aad_len = ap_aadlen p div 8,
             sy_iv_len = iv_len, sy_ct_len = ct_len, sy_tag_len = ap_taglen p div 8, sy_salt_len = ap_saltlen p div 8, sy_mct_index = 0,
             sy_incr_ctr = uint_of (ap_incr p), sy_ovrflw_ctr = uint_of (ap_ovrflw p), sy_keyingOption = 0,
             sy_data_unit_len = ai_dulen x div 8\<rparr>))))))))))))))"

section \<open>The answer of a functional test\<close>

definition returns_iv :: "AMVP_SYM_CIPHER_TC \<Rightarrow> bool" where
  "returns_iv stc \<longleftrightarrow> sy_ivgen_source stc = AMVP_SYM_CIPH_IVGEN_SRC_INT \<and>
     (sy_cipher stc = AMVP_AES_GCM \<or> sy_cipher stc = AMVP_AES_GMAC \<or> sy_cipher stc = AMVP_AES_XPN \<or>
      (sy_cipher stc = AMVP_AES_CTR \<and> sy_conformance stc = AMVP_CONFORMANCE_RFC3686))"

definition reports_failure :: "AMVP_CIPHER \<Rightarrow> bool" where
  "reports_failure c \<longleftrightarrow> c \<in> set [AMVP_AES_GCM, AMVP_AES_CCM, AMVP_AES_KW, AMVP_AES_KWP, AMVP_AES_GCM_SIV, AMVP_AES_GMAC, AMVP_AES_XPN]"

text \<open>The number of bytes of the result: bits for a bit cipher, and the length of the other text for GCM.\<close>

definition result_len :: "AMVP_CIPHER \<Rightarrow> nat \<Rightarrow> nat \<Rightarrow> nat" where
  "result_len c own other =
     (if c = AMVP_AES_CFB1 then (own + 7) mod 2 ^ 32 div 8 else if c = AMVP_AES_GCM then other else own)"

definition put_hex :: "string \<Rightarrow> bytes option \<Rightarrow> nat \<Rightarrow> nat \<Rightarrow> bool \<Rightarrow> JSON_Object \<Rightarrow> (JSON_Object, 's) step" where
  "put_hex name bs len mx shown rsp =
     andthen (hex_text bs len mx) (\<lambda>t. pass (if shown then json_object_set_string name (Some t) rsp else rsp))"

definition aes_output_encrypt :: "AMVP_SYM_CIPHER_TC \<Rightarrow> JSON_Object \<Rightarrow> (JSON_Object, 's) step" where
  "aes_output_encrypt stc r =
     andthen (put_hex ''ct'' (sy_ct stc) (result_len (sy_cipher stc) (sy_ct_len stc) (sy_pt_len stc)) AMVP_SYM_CT_MAX
                (sy_cipher stc \<noteq> AMVP_AES_GMAC) r) (\<lambda>r1.
       if sy_cipher stc = AMVP_AES_GCM \<or> sy_cipher stc = AMVP_AES_GMAC \<or> sy_cipher stc = AMVP_AES_XPN
       then put_hex ''tag'' (sy_tag stc) (sy_tag_len stc) AMVP_SYM_CT_MAX True r1 else pass r1)"

definition aes_output_decrypt :: "AMVP_SYM_CIPHER_TC \<Rightarrow> bool \<Rightarrow> JSON_Object \<Rightarrow> (JSON_Object, 's) step" where
  "aes_output_decrypt stc failed r =
     (if reports_failure (sy_cipher stc) \<and> failed then pass (json_object_set_boolean ''testPassed'' 0 r)
      else put_hex ''pt'' (sy_pt stc) (result_len (sy_cipher stc) (sy_pt_len stc) (sy_ct_len stc)) AMVP_SYM_PT_MAX
             (sy_cipher stc \<noteq> AMVP_AES_GMAC)
             (if reports_failure (sy_cipher stc) then json_object_set_boolean ''testPassed'' 1 r else r))"

definition amvp_aes_output_tc :: "'w allocator \<Rightarrow> AMVP_SYM_CIPHER_TC \<Rightarrow> bool \<Rightarrow> JSON_Object \<Rightarrow> (JSON_Object, 'w) step" where
  "amvp_aes_output_tc al stc failed tc_rsp =
     andthen (new_chars al (AMVP_SYM_CT_MAX + 1)) (\<lambda>_.
     andthen (if returns_iv stc then put_hex ''iv'' (sy_iv stc) (sy_iv_len stc) AMVP_SYM_CT_MAX True tc_rsp else pass tc_rsp) (\<lambda>r1.
     andthen (if sy_cipher stc = AMVP_AES_XPN \<and> sy_salt_source stc = AMVP_SYM_CIPH_SALT_SRC_INT
              then put_hex ''salt'' (sy_salt stc) (sy_salt_len stc) AMVP_AES_XPN_SALTLEN True r1 else pass r1) (\<lambda>r2.
       if encrypting stc then aes_output_encrypt stc r2 else aes_output_decrypt stc failed r2)))"

section \<open>The handler\<close>

definition tc_required :: "'x option \<Rightarrow> ('x \<Rightarrow> ('a, 's) step) \<Rightarrow> ('a, 's) step" where
  "tc_required x k = (case x of None \<Rightarrow> stop AMVP_TC_MISSING_DATA | Some y \<Rightarrow> k y)"

definition tc_reject :: "bool \<Rightarrow> ('a, 's) step \<Rightarrow> ('a, 's) step" where
  "tc_reject bad = reject bad AMVP_TC_INVALID_DATA"

definition tc_text :: "JSON_Object option \<Rightarrow> string \<Rightarrow> nat \<Rightarrow> (string \<Rightarrow> ('a, 's) step) \<Rightarrow> ('a, 's) step" where
  "tc_text obj name mx k = tc_required (json_object_get_string obj name) (\<lambda>t. tc_reject (strnlen_s (Some t) (mx + 1) > mx) (k t))"

text \<open>A word of a group, which must be there and known.\<close>

definition tc_word :: "JSON_Object option \<Rightarrow> string \<Rightarrow> (string option \<Rightarrow> int) \<Rightarrow> (int \<Rightarrow> ('a, 's) step) \<Rightarrow> ('a, 's) step" where
  "tc_word obj name rd k = tc_required (json_object_get_string obj name) (\<lambda>t. tc_reject (rd (Some t) = 0) (k (rd (Some t))))"

definition tc_uint :: "JSON_Object option \<Rightarrow> string \<Rightarrow> (nat \<Rightarrow> ('a, 's) step) \<Rightarrow> ('a, 's) step" where
  "tc_uint obj name k = andthen (as_uint (json_object_get_number obj name)) k"

definition aes_counter_args :: "JSON_Object option \<Rightarrow> int \<Rightarrow> (int \<times> int, 's) step" where
  "aes_counter_args groupobj test_type =
     (if test_type = AMVP_SYM_TEST_TYPE_CTR then
        (let incr = json_object_get_boolean groupobj ''incremental''; ovrflw = json_object_get_boolean groupobj ''overflow''
         in tc_reject (ovrflw \<noteq> 0 \<and> ovrflw \<noteq> 1) (tc_reject (incr \<noteq> 0 \<and> incr \<noteq> 1) (pass (incr, ovrflw))))
      else pass (-1, -1))"

definition aes_is_aead :: "AMVP_CIPHER \<Rightarrow> bool" where
  "aes_is_aead c \<longleftrightarrow> c \<in> set [AMVP_AES_GCM, AMVP_AES_CCM, AMVP_AES_GMAC, AMVP_AES_GCM_SIV, AMVP_AES_XPN]"

definition aes_ivgen_args :: "AMVP_CIPHER \<Rightarrow> JSON_Object option \<Rightarrow> nat \<Rightarrow> int \<Rightarrow> (int \<times> int, 's) step" where
  "aes_ivgen_args alg_id groupobj ivlen iv_gen =
     (if alg_id = AMVP_AES_GCM \<or> alg_id = AMVP_AES_GMAC then
        tc_reject (\<not> (ivlen \<ge> AMVP_AES_GCM_IV_BIT_MIN \<and> ivlen \<le> AMVP_AES_GCM_IV_BIT_MAX))
          (tc_word groupobj ''ivGen'' read_ivgen_source (\<lambda>src.
             if src = AMVP_SYM_CIPH_IVGEN_SRC_INT then tc_word groupobj ''ivGenMode'' read_ivgen_mode (\<lambda>m. pass (src, m))
             else pass (src, AMVP_SYM_CIPH_IVGEN_MODE_NA)))
      else if alg_id = AMVP_AES_CCM then
        tc_reject (\<not> (ivlen \<ge> AMVP_AES_CCM_IV_BIT_MIN \<and> ivlen \<le> AMVP_AES_CCM_IV_BIT_MAX) \<or> ivlen mod 8 \<noteq> 0)
          (pass (iv_gen, AMVP_SYM_CIPH_IVGEN_MODE_NA))
      else tc_reject ((alg_id = AMVP_AES_GCM_SIV \<and> ivlen \<noteq> AMVP_AES_GCM_SIV_IVLEN) \<or> (alg_id = AMVP_AES_XPN \<and> ivlen \<noteq> AMVP_AES_XPN_IVLEN))
             (pass (iv_gen, AMVP_SYM_CIPH_IVGEN_MODE_NA)))"

definition aes_aead_args ::
  "AMVP_CIPHER \<Rightarrow> JSON_Object option \<Rightarrow> nat \<Rightarrow> int \<Rightarrow> (nat \<times> (int \<times> int) \<times> nat \<times> nat, 's) step" where
  "aes_aead_args alg_id groupobj ivlen0 iv_gen =
     (if \<not> aes_is_aead alg_id then pass (ivlen0, (iv_gen, AMVP_SYM_CIPH_IVGEN_MODE_NA), 0, 0)
      else tc_uint groupobj ''ivLen'' (\<lambda>ivlen.
           reject (ivlen = 0) AMVP_TC_MISSING_DATA
             (andthen (aes_ivgen_args alg_id groupobj ivlen iv_gen) (\<lambda>gen.
              tc_uint groupobj ''aadLen'' (\<lambda>aadlen.
              tc_reject (aadlen > AMVP_SYM_AAD_BIT_MAX)
                (tc_uint groupobj ''tagLen'' (\<lambda>taglen.
                 tc_reject ((alg_id = AMVP_AES_GCM_SIV \<and> taglen \<noteq> AMVP_AES_GCM_SIV_TAGLEN) \<or>
                            \<not> (taglen \<ge> AMVP_SYM_TAG_BIT_MIN \<and> taglen \<le> AMVP_SYM_TAG_BIT_MAX))
                   (pass (ivlen, gen, aadlen, taglen)))))))))"

definition aes_salt_args :: "AMVP_CIPHER \<Rightarrow> JSON_Object option \<Rightarrow> (int \<times> nat, 's) step" where
  "aes_salt_args alg_id groupobj =
     (if alg_id = AMVP_AES_XPN then
        tc_word groupobj ''saltGen'' read_salt_source (\<lambda>src.
        tc_uint groupobj ''saltLen'' (\<lambda>n. tc_reject (n \<noteq> AMVP_AES_XPN_SALTLEN) (pass (src, n))))
      else pass (AMVP_SYM_CIPH_SALT_SRC_NA, 0))"

definition aes_group_args :: "AMVP_SYM_CIPHER_CAP \<Rightarrow> AMVP_CIPHER \<Rightarrow> JSON_Object option \<Rightarrow> (aes_params, 's) step" where
  "aes_group_args sc alg_id groupobj =
     tc_word groupobj ''direction'' read_direction (\<lambda>dir.
     tc_word groupobj ''testType'' aes_read_test_type (\<lambda>test_type.
     andthen (aes_counter_args groupobj test_type) (\<lambda>(incr, ovrflw).
     andthen (if alg_id = AMVP_AES_KW \<or> alg_id = AMVP_TDES_KW \<or> alg_id = AMVP_AES_KWP
              then tc_word groupobj ''kwCipher'' read_kw_mode pass else pass 0) (\<lambda>kw.
     tc_uint groupobj ''keyLen'' (\<lambda>keylen.
     tc_reject (keylen \<noteq> 128 \<and> keylen \<noteq> 192 \<and> keylen \<noteq> 256)
       (andthen (aes_aead_args alg_id groupobj
          (if alg_id \<noteq> AMVP_AES_ECB \<and> alg_id \<noteq> AMVP_AES_KW \<and> alg_id \<noteq> AMVP_AES_KWP then 128 else 0)
          (if alg_id = AMVP_AES_CTR \<and> sym_conformance sc = AMVP_CONFORMANCE_RFC3686 then sym_ivgen_source sc else AMVP_SYM_CIPH_IVGEN_SRC_NA))
        (\<lambda>(ivlen, (iv_gen, iv_mode), aadlen, taglen).
        tc_uint groupobj ''payloadLen'' (\<lambda>paylen.
        tc_reject (alg_id = AMVP_AES_GMAC \<and> paylen \<noteq> 0)
          (tc_reject (paylen > AMVP_SYM_PT_BIT_MAX)
            (andthen (if alg_id = AMVP_AES_XTS then tc_required (json_object_get_string groupobj ''tweakMode'') (\<lambda>t. pass (Some t)) else pass None) (\<lambda>tw.
             andthen (aes_salt_args alg_id groupobj) (\<lambda>(salt_src, saltlen).
               pass \<lparr>ap_dir = dir, ap_type = test_type, ap_incr = incr, ap_ovrflw = ovrflw, ap_kw = kw, ap_keylen = keylen, ap_ivlen = ivlen,
                     ap_ivgen = iv_gen, ap_ivmode = iv_mode, ap_aadlen = aadlen, ap_taglen = taglen, ap_paylen = paylen, ap_tw_mode = tw,
                     ap_salt_src = salt_src, ap_saltlen = saltlen, ap_conformance = sym_conformance sc\<rparr>))))))))))))"

text \<open>The texts of a test, the plaintext or the ciphertext and its tag.\<close>

definition aes_given_text :: "AMVP_CIPHER \<Rightarrow> JSON_Object option \<Rightarrow> string \<Rightarrow> nat \<Rightarrow> (string option, 's) step" where
  "aes_given_text alg_id testobj name mx =
     (if alg_id = AMVP_AES_GMAC then tc_reject (json_object_get_string testobj name \<noteq> None) (pass None)
      else tc_text testobj name mx (\<lambda>t. pass (Some t)))"

definition aes_given_data :: "AMVP_CIPHER \<Rightarrow> int \<Rightarrow> JSON_Object option \<Rightarrow> (string option \<times> string option \<times> string option, 's) step" where
  "aes_given_data alg_id dir testobj =
     (if dir = AMVP_SYM_CIPH_DIR_ENCRYPT
      then andthen (aes_given_text alg_id testobj ''pt'' AMVP_SYM_PT_MAX) (\<lambda>pt. pass (pt, None, None))
      else andthen (aes_given_text alg_id testobj ''ct'' AMVP_SYM_CT_MAX) (\<lambda>ct.
           if alg_id = AMVP_AES_GCM \<or> alg_id = AMVP_AES_GMAC
           then tc_text testobj ''tag'' AMVP_SYM_TAG_MAX (\<lambda>tag. pass (None, ct, Some tag)) else pass (None, ct, None)))"

text \<open>When a test sets the flag that makes it, and every later test, read an initialization vector.\<close>

definition aes_sets_readIv :: "AMVP_CIPHER \<Rightarrow> int \<Rightarrow> int \<Rightarrow> bool" where
  "aes_sets_readIv alg_id iv_gen dir \<longleftrightarrow>
     alg_id \<in> set [AMVP_AES_CBC, AMVP_AES_CBC_CS1, AMVP_AES_CBC_CS2, AMVP_AES_CBC_CS3, AMVP_AES_CFB1, AMVP_AES_CFB8, AMVP_AES_CFB128,
                   AMVP_AES_OFB, AMVP_AES_CCM] \<or>
     (alg_id = AMVP_AES_CTR \<and> iv_gen \<noteq> AMVP_SYM_CIPH_IVGEN_SRC_INT) \<or>
     (alg_id \<in> set [AMVP_AES_GCM, AMVP_AES_GMAC, AMVP_AES_XPN] \<and>
      \<not> (iv_gen = AMVP_SYM_CIPH_IVGEN_SRC_INT \<and> dir = AMVP_SYM_CIPH_DIR_ENCRYPT))"

definition aes_given_iv :: "AMVP_CIPHER \<Rightarrow> aes_params \<Rightarrow> JSON_Object option \<Rightarrow> (string option, 'w aes_frame) step" where
  "aes_given_iv alg_id p testobj f =
     (let f1 = f\<lparr>af_readIv := af_readIv f \<or> aes_sets_readIv alg_id (ap_ivgen p) (ap_dir p)\<rparr>
      in (if af_readIv f1 then tc_text testobj ''iv'' AMVP_SYM_IV_MAX (\<lambda>t. pass (Some t)) else pass None) f1)"

definition aes_given_tweak :: "AMVP_CIPHER \<Rightarrow> aes_params \<Rightarrow> JSON_Object option \<Rightarrow> string option \<Rightarrow> (int \<times> string option, 'w aes_frame) step" where
  "aes_given_tweak alg_id p testobj iv =
     (if alg_id \<noteq> AMVP_AES_XTS then pass (0, iv)
      else
        (let tweak_mode = read_tw_mode (ap_tw_mode p) in
         tc_reject (tweak_mode = 0)
           (if tweak_mode = AMVP_SYM_CIPH_TWEAK_HEX then tc_text testobj ''tweakValue'' AMVP_SYM_IV_MAX (\<lambda>t. pass (tweak_mode, Some t))
            else andthen (as_int (json_object_get_number testobj ''sequenceNumber'')) (\<lambda>n.
                 tc_reject (n < 0 \<or> n > 255) (\<lambda>f. Done (tweak_mode, iv) (f\<lparr>af_seq_num := n\<rparr>))))))"

definition aes_test_args :: "AMVP_CIPHER \<Rightarrow> aes_params \<Rightarrow> JSON_Object option \<Rightarrow> (aes_inputs, 'w aes_frame) step" where
  "aes_test_args alg_id p testobj =
     tc_uint testobj ''tcId'' (\<lambda>tc_id.
     reject (\<not> json_object_has_value testobj ''tcId'') AMVP_TC_MISSING_DATA
       (tc_text testobj ''key'' AMVP_SYM_KEY_MAX_STR (\<lambda>key.
        andthen (if alg_id = AMVP_AES_CFB1 then tc_uint testobj ''payloadLen'' (\<lambda>n. tc_reject (n > AMVP_SYM_PT_BIT_MAX) (pass n)) else pass 0) (\<lambda>datalen.
        andthen (if alg_id = AMVP_AES_XTS then tc_uint testobj ''dataUnitLen'' (\<lambda>n. tc_reject (n > AMVP_SYM_PT_BIT_MAX) (pass n)) else pass 0) (\<lambda>dulen.
        andthen (aes_given_data alg_id (ap_dir p) testobj) (\<lambda>(pt, ct, tag).
        andthen (aes_given_iv alg_id p testobj) (\<lambda>iv.
        andthen (aes_given_tweak alg_id p testobj iv) (\<lambda>(tweak, iv1).
        andthen (if aes_is_aead alg_id then tc_text testobj ''aad'' AMVP_SYM_AAD_MAX (\<lambda>t. pass (Some t)) else pass None) (\<lambda>aad.
          pass \<lparr>ai_tc_id = tc_id, ai_key = key, ai_pt = pt, ai_ct = ct, ai_iv = iv1, ai_tag = tag, ai_aad = aad,
                ai_salt = (if alg_id = AMVP_AES_XPN \<and> ap_salt_src p = AMVP_SYM_CIPH_SALT_SRC_EXT then json_object_get_string testobj ''salt'' else None),
                ai_datalen = datalen, ai_dulen = dulen, ai_tweak = tweak\<rparr>)))))))))"

text \<open>The crypto module may fail for the ciphers that report it in the answer; any other failure ends the handler.\<close>

definition aes_may_fail :: "AMVP_CIPHER \<Rightarrow> bool" where
  "aes_may_fail c \<longleftrightarrow> c \<in> set [AMVP_AES_KW, AMVP_AES_GCM, AMVP_AES_GCM_SIV, AMVP_AES_CCM, AMVP_AES_KWP, AMVP_AES_GMAC]"

definition try_crypto :: "'w sym_crypto \<Rightarrow> callback \<Rightarrow> AMVP_SYM_CIPHER_TC \<Rightarrow> (bool \<times> AMVP_SYM_CIPHER_TC, 'w) step" where
  "try_crypto crypto cb stc w =
     (case cb of None \<Rightarrow> Undef Null_Deref
      | Some c \<Rightarrow> (case crypto c stc w of (rv, stc', w') \<Rightarrow> Done (rv \<noteq> AMVP_SUCCESS, stc') w'))"

definition aes_run_test ::
  "'w allocator \<Rightarrow> 'w sym_crypto \<Rightarrow> AMVP_CIPHER \<Rightarrow> callback \<Rightarrow> AMVP_SYM_CIPHER_TC \<Rightarrow> JSON_Object \<Rightarrow> (JSON_Object, 'w aes_frame) step" where
  "aes_run_test al crypto alg_id cb stc r_tobj =
     (if sy_test_type stc = AMVP_SYM_TEST_TYPE_MCT
      then andthen (amvp_aes_mct_tc al crypto cb stc) (\<lambda>res. pass (json_object_set_value ''resultsArray'' (Some (JSONArray res)) r_tobj))
      else andthen (on_aes (try_crypto crypto cb stc)) (\<lambda>(failed, stc1).
           reject (failed \<and> \<not> aes_may_fail alg_id) AMVP_CRYPTO_MODULE_FAIL (on_aes (amvp_aes_output_tc al stc1 failed r_tobj))))"

definition aes_test ::
  "'w allocator \<Rightarrow> 'w sym_crypto \<Rightarrow> AMVP_CIPHER \<Rightarrow> callback \<Rightarrow> aes_params \<Rightarrow> JSON_Object option \<Rightarrow> (JSON_Value, 'w aes_frame) step" where
  "aes_test al crypto alg_id cb p testobj =
     andthen (aes_test_args alg_id p testobj) (\<lambda>x.
     andthen (\<lambda>f. on_aes (amvp_aes_init_tc al p x (af_seq_num f) alg_id) f) (\<lambda>stc.
     andthen (aes_run_test al crypto alg_id cb stc (json_object_set_number ''tcId'' (int (ai_tc_id x)) [])) (\<lambda>r_tobj.
       pass (JSONObject r_tobj))))"

definition aes_group ::
  "'w allocator \<Rightarrow> 'w sym_crypto \<Rightarrow> AMVP_SYM_CIPHER_CAP \<Rightarrow> AMVP_CIPHER \<Rightarrow> callback \<Rightarrow> JSON_Object option \<Rightarrow> (JSON_Value, 'w aes_frame) step" where
  "aes_group al crypto sc alg_id cb groupobj =
     andthen (as_int (json_object_get_number groupobj ''tgId'')) (\<lambda>tgId.
     reject (tgId = 0) AMVP_TC_MISSING_DATA
       (andthen (aes_group_args sc alg_id groupobj) (\<lambda>p.
        andthen (each_test groupobj (aes_test al crypto alg_id cb p)) (\<lambda>tests.
          pass (group_rsp tgId tests)))))"

definition aes_kat_handler ::
  "'w allocator \<Rightarrow> 'w sym_crypto \<Rightarrow> aes_arrays \<Rightarrow> JSON_Object option \<Rightarrow> 'w SESSION option \<Rightarrow> 'w SESSION option outcome" where
  "aes_kat_handler al crypto arrays obj octx =
     with_ctx octx (\<lambda>ctx.
       if obj = None then Ret AMVP_JSON_ERR ctx
       else case json_object_get_string obj ''algorithm'' of
         None \<Rightarrow> Ret AMVP_TC_MISSING_DATA ctx
       | Some alg_str \<Rightarrow>
           let alg_id = amvp_lookup_cipher_index (Some alg_str) in
           if alg_id = 0 then Ret AMVP_TC_INVALID_DATA ctx
           else case amvp_locate_cap_entry (Some ctx) alg_id of
             None \<Rightarrow> Ret AMVP_TC_INVALID_DATA ctx
           | Some cap \<Rightarrow>
               (case cap_data cap of
                  Sym_cap sc \<Rightarrow>
                    kat_body (\<lambda>w. \<lparr>af_arrays = arrays, af_readIv = False, af_seq_num = 0, af_world = w\<rparr>) af_world False
                      (aes_group al crypto sc alg_id (cap_crypto_handler cap)) alg_str obj ctx
                | _ \<Rightarrow> UB Bad_Union))"

end
