(* ===== verification/Kat_Aes_Mct.thy ===== *)
theory Kat_Aes_Mct
  imports Kat_Aes
begin

unbundle bit_operations_syntax

text \<open>
  The Monte Carlo test of AES for the modes that work on blocks, ECB, CBC, OFB and CFB128, in
  both directions: the results are those of a reference definition that follows the
  description of the test and knows nothing of arrays and buffers.
\<close>

section \<open>The reference\<close>

text \<open>
  A mode of operation as a machine: it starts with a key and an initialization vector and
  turns one text after the other into another text of the same length. An iteration of the
  test has the state of the machine, the last two texts it produced and the text it gets; ECB
  feeds the last output back, the other modes the one before it, the vector at first.
\<close>

type_synonym 'm mct_state = "'m \<times> bytes \<times> bytes \<times> bytes"

definition block_step :: "bool \<Rightarrow> ('m \<Rightarrow> bytes \<Rightarrow> bytes \<times> 'm) \<Rightarrow> 'm mct_state \<Rightarrow> 'm mct_state" where
  "block_step ecb upd = (\<lambda>(m, prev, out, x). (snd (upd m x), out, fst (upd m x), if ecb then fst (upd m x) else out))"

definition block_run :: "bool \<Rightarrow> (bytes \<Rightarrow> bytes \<Rightarrow> 'm) \<Rightarrow> ('m \<Rightarrow> bytes \<Rightarrow> bytes \<times> 'm) \<Rightarrow> nat \<Rightarrow> bytes \<times> bytes \<times> bytes \<Rightarrow> 'm mct_state" where
  "block_run ecb init upd n = (\<lambda>(k, iv, t). (block_step ecb upd ^^ n) (init k iv, [], iv, t))"

text \<open>The key, vector and text of the next round, and what a round reports.\<close>

definition block_next :: "bool \<Rightarrow> (bytes \<Rightarrow> bytes \<Rightarrow> 'm) \<Rightarrow> ('m \<Rightarrow> bytes \<Rightarrow> bytes \<times> 'm) \<Rightarrow> bytes \<times> bytes \<times> bytes \<Rightarrow> bytes \<times> bytes \<times> bytes" where
  "block_next ecb init upd = (\<lambda>(k, iv, t). case block_run ecb init upd 1000 (k, iv, t) of
     (m, prev, out, x) \<Rightarrow> (map2 (XOR) k (drop (32 - length k) (prev @ out)), if ecb then iv else out, x))"

definition block_report :: "bool \<Rightarrow> bool \<Rightarrow> (bytes \<Rightarrow> bytes \<Rightarrow> 'm) \<Rightarrow> ('m \<Rightarrow> bytes \<Rightarrow> bytes \<times> 'm) \<Rightarrow> bytes \<times> bytes \<times> bytes \<Rightarrow> JSON_Value" where
  "block_report ecb enc init upd = (\<lambda>(k, iv, t). case block_run ecb init upd 1000 (k, iv, t) of
     (m, prev, out, x) \<Rightarrow>
       JSONObject ((''key'', JSONString (hex_of k)) # (if ecb then [] else [(''iv'', JSONString (hex_of iv))]) @
         (if enc then [(''pt'', JSONString (hex_of t)), (''ct'', JSONString (hex_of out))]
          else [(''ct'', JSONString (hex_of t)), (''pt'', JSONString (hex_of out))])))"

primrec block_mct :: "nat \<Rightarrow> bool \<Rightarrow> bool \<Rightarrow> (bytes \<Rightarrow> bytes \<Rightarrow> 'm) \<Rightarrow> ('m \<Rightarrow> bytes \<Rightarrow> bytes \<times> 'm) \<Rightarrow> bytes \<times> bytes \<times> bytes \<Rightarrow> JSON_Array" where
  "block_mct 0 ecb enc init upd s = []"
| "block_mct (Suc n) ecb enc init upd s = block_report ecb enc init upd s # block_mct n ecb enc init upd (block_next ecb init upd s)"

text \<open>
  A crypto module that is such a machine: with index 0 it starts with the key and vector of the
  test case, later it continues; it leaves the output and its length, and touches nothing else.
\<close>

definition set_out :: "bytes option \<Rightarrow> nat \<Rightarrow> AMVP_SYM_CIPHER_TC \<Rightarrow> AMVP_SYM_CIPHER_TC" where
  "set_out b n stc = (if encrypting stc then stc\<lparr>sy_ct := b, sy_ct_len := n\<rparr> else stc\<lparr>sy_pt := b, sy_pt_len := n\<rparr>)"

definition runs_machine ::
  "(bytes \<Rightarrow> bytes \<Rightarrow> 'm) \<Rightarrow> ('m \<Rightarrow> bytes \<Rightarrow> bytes \<times> 'm) \<Rightarrow> ('w \<Rightarrow> 'm) \<Rightarrow> 'w sym_crypto \<Rightarrow> nat \<Rightarrow> bool" where
  "runs_machine init upd chain crypto cb \<longleftrightarrow>
     (\<forall>m x. length (fst (upd m x)) = length x) \<and>
     (\<forall>stc w k v b ob. sy_key stc = Some k \<longrightarrow> sy_iv stc = Some v \<longrightarrow> in_buf stc = Some b \<longrightarrow> out_buf stc = Some ob \<longrightarrow>
        (let m = (if sy_mct_index stc = 0 then init (take (sy_key_len stc div 8) k) (take (sy_iv_len stc) v) else chain w);
             y = fst (upd m (take (in_len stc) b))
         in \<exists>w'. crypto cb stc w = (AMVP_SUCCESS, set_out (Some (y @ drop (length y) ob)) (in_len stc) stc, w') \<and>
              chain w' = snd (upd m (take (in_len stc) b))))"

section \<open>An iteration\<close>

text \<open>
  What holds after \<open>j\<close> iterations of a round with key \<open>k\<close> and vector \<open>iv\<close>: the input buffer holds the
  next text, the last two rows of the outputs the last two texts.
\<close>

definition mct_modes :: "bool \<Rightarrow> AMVP_CIPHER \<Rightarrow> bool" where
  "mct_modes ecb c \<longleftrightarrow> (if ecb then c = AMVP_AES_ECB else c = AMVP_AES_CBC \<or> c = AMVP_AES_OFB \<or> c = AMVP_AES_CFB128)"

definition tc_shaped :: "bool \<Rightarrow> AMVP_SYM_CIPHER_TC \<Rightarrow> bool" where
  "tc_shaped ecb stc \<longleftrightarrow> mct_modes ecb (sy_cipher stc) \<and> in_len stc = 16 \<and> sy_iv_len stc = (if ecb then 0 else 16) \<and>
     sy_key_len stc \<in> {128, 192, 256} \<and>
     (\<exists>k v b ob. sy_key stc = Some k \<and> length k = AMVP_SYM_KEY_MAX_BYTES \<and> sy_iv stc = Some v \<and> length v = AMVP_SYM_IV_BYTE_MAX \<and>
        in_buf stc = Some b \<and> length b = 16384 \<and> out_buf stc = Some ob \<and> length ob = 16384)"

definition mct_key :: "AMVP_SYM_CIPHER_TC \<Rightarrow> bytes" where "mct_key stc = take (sy_key_len stc div 8) (the (sy_key stc))"
definition mct_iv :: "AMVP_SYM_CIPHER_TC \<Rightarrow> bytes" where "mct_iv stc = take (sy_iv_len stc) (the (sy_iv stc))"
definition mct_text :: "AMVP_SYM_CIPHER_TC \<Rightarrow> bytes" where "mct_text stc = take 16 (the (in_buf stc))"

definition rows_hold :: "nat \<Rightarrow> bytes \<Rightarrow> bytes \<Rightarrow> bytes \<Rightarrow> AMVP_SYM_CIPHER_TC \<Rightarrow> aes_arrays \<Rightarrow> bool" where
  "rows_hold j k prev out stc a \<longleftrightarrow> arrays_shaped a \<and>
     (0 < j \<longrightarrow> take 16 (out_rows stc a ! (j - 1)) = out \<and> take (length k) (ar_mkey a ! 0) = k \<and> out_len stc = 16 \<and> take 16 (the (out_buf stc)) = out) \<and>
     (1 < j \<longrightarrow> take 16 (out_rows stc a ! (j - 2)) = prev)"

fun mct_inv :: "bool \<Rightarrow> bool \<Rightarrow> ('w \<Rightarrow> 'm) \<Rightarrow> (bytes \<Rightarrow> bytes \<Rightarrow> 'm) \<Rightarrow> bytes \<times> bytes \<Rightarrow> nat \<Rightarrow> 'm mct_state \<Rightarrow> AMVP_SYM_CIPHER_TC \<Rightarrow> 'w aes_frame \<Rightarrow> bool" where
  "mct_inv ecb enc chain init (k, iv) j (m, prev, out, x) stc f \<longleftrightarrow>
     tc_shaped ecb stc \<and> encrypting stc = enc \<and> mct_key stc = k \<and> mct_text stc = x \<and> mct_iv stc = (if ecb \<or> j \<le> 1 then iv else out) \<and>
     m = (if j = 0 then init k iv else chain (af_world f)) \<and> (j = 0 \<longrightarrow> out = iv) \<and> rows_hold j k prev out stc (af_arrays f)"

lemma copy_bytes_Done: "n \<le> dmax \<Longrightarrow> n \<le> length s \<Longrightarrow> n \<le> length d \<Longrightarrow> copy_bytes (Some d) dmax (Some s) n = Done (Some (take n s @ drop n d))"
  by (simp add: fun_eq_iff copy_bytes_ok)

lemma row_put_Done:
  "j < length rows \<Longrightarrow> n \<le> dmax \<Longrightarrow> n \<le> length s \<Longrightarrow> n \<le> length (rows ! j) \<Longrightarrow>
    row_put dmax rows j (Some s) n = Done (rows[j := take n s @ drop n (rows ! j)])"
  by (simp add: row_put_def copy_bytes_Done pass_eq)

lemma set_out_simps [simp]:
  "sy_cipher (set_out b n stc) = sy_cipher stc" "sy_key (set_out b n stc) = sy_key stc" "sy_iv (set_out b n stc) = sy_iv stc"
  "sy_key_len (set_out b n stc) = sy_key_len stc" "sy_iv_len (set_out b n stc) = sy_iv_len stc" "sy_mct_index (set_out b n stc) = sy_mct_index stc"
  "encrypting (set_out b n stc) = encrypting stc" "in_buf (set_out b n stc) = in_buf stc" "in_len (set_out b n stc) = in_len stc"
  "out_buf (set_out b n stc) = b" "out_len (set_out b n stc) = n" "in_max (set_out b n stc) = in_max stc"
  "out_rows (set_out b n stc) = out_rows stc"
  by (auto simp: set_out_def encrypting_def in_buf_def in_len_def out_buf_def out_len_def in_max_def out_rows_def fun_eq_iff)

lemma set_in_simps [simp]:
  "sy_cipher (set_in b stc) = sy_cipher stc" "sy_key (set_in b stc) = sy_key stc" "sy_iv (set_in b stc) = sy_iv stc"
  "sy_key_len (set_in b stc) = sy_key_len stc" "sy_iv_len (set_in b stc) = sy_iv_len stc" "sy_mct_index (set_in b stc) = sy_mct_index stc"
  "encrypting (set_in b stc) = encrypting stc" "in_buf (set_in b stc) = b" "in_len (set_in b stc) = in_len stc"
  "out_buf (set_in b stc) = out_buf stc" "out_len (set_in b stc) = out_len stc" "out_rows (set_in b stc) = out_rows stc"
  by (auto simp: set_in_def encrypting_def in_buf_def in_len_def out_buf_def out_len_def out_rows_def fun_eq_iff)

lemma index_simps [simp]:
  "encrypting (stc\<lparr>sy_mct_index := j\<rparr>) = encrypting stc" "in_buf (stc\<lparr>sy_mct_index := j\<rparr>) = in_buf stc"
  "in_len (stc\<lparr>sy_mct_index := j\<rparr>) = in_len stc" "out_buf (stc\<lparr>sy_mct_index := j\<rparr>) = out_buf stc" "in_max (stc\<lparr>sy_mct_index := j\<rparr>) = in_max stc"
  "out_rows (stc\<lparr>sy_mct_index := j\<rparr>) = out_rows stc"
  by (auto simp: encrypting_def in_buf_def in_len_def out_buf_def in_max_def out_rows_def fun_eq_iff)

lemma iv_simps [simp]:
  "encrypting (stc\<lparr>sy_iv := v\<rparr>) = encrypting stc" "in_buf (stc\<lparr>sy_iv := v\<rparr>) = in_buf stc" "in_len (stc\<lparr>sy_iv := v\<rparr>) = in_len stc"
  "out_buf (stc\<lparr>sy_iv := v\<rparr>) = out_buf stc" "out_len (stc\<lparr>sy_iv := v\<rparr>) = out_len stc" "out_rows (stc\<lparr>sy_iv := v\<rparr>) = out_rows stc"
  by (auto simp: encrypting_def in_buf_def in_len_def out_buf_def out_len_def out_rows_def fun_eq_iff)

text \<open>The crypto module on a test case of the right shape.\<close>

lemma machine_step:
  assumes "runs_machine init upd chain crypto cb" and "tc_shaped ecb stc" and "m = (if j = 0 then init (mct_key stc) (mct_iv stc) else chain w)"
  obtains w' where
    "call_crypto crypto (Some cb) (stc\<lparr>sy_mct_index := j\<rparr>) w =
       Done (set_out (Some (fst (upd m (mct_text stc)) @ drop 16 (the (out_buf stc)))) 16 (stc\<lparr>sy_mct_index := j\<rparr>)) w'"
    "chain w' = snd (upd m (mct_text stc))" "length (fst (upd m (mct_text stc))) = 16"
proof -
  obtain k v b ob where bufs: "sy_key stc = Some k" "sy_iv stc = Some v" "in_buf stc = Some b" "length b = 16384" "out_buf stc = Some ob" "in_len stc = 16"
    using assms(2) by (auto simp: tc_shaped_def)
  then have y: "length (fst (upd m (mct_text stc))) = 16" using assms(1) by (simp add: runs_machine_def mct_text_def)
  let ?s = "stc\<lparr>sy_mct_index := j\<rparr>"
  have "sy_key ?s = Some k" "sy_iv ?s = Some v" "in_buf ?s = Some b" "out_buf ?s = Some ob" using bufs by simp_all
  with assms(1) have step: "let m = (if sy_mct_index ?s = 0 then init (take (sy_key_len ?s div 8) k) (take (sy_iv_len ?s) v) else chain w);
             y = fst (upd m (take (in_len ?s) b))
         in \<exists>w'. crypto cb ?s w = (AMVP_SUCCESS, set_out (Some (y @ drop (length y) ob)) (in_len ?s) ?s, w') \<and>
              chain w' = snd (upd m (take (in_len ?s) b))"
    unfolding runs_machine_def by blast
  have "(if sy_mct_index ?s = 0 then init (take (sy_key_len ?s div 8) k) (take (sy_iv_len ?s) v) else chain w) = m" "take (in_len ?s) b = mct_text stc"
    using assms(3) bufs by (simp_all add: mct_key_def mct_iv_def mct_text_def)
  from step [unfolded Let_def this] obtain w' where
    "crypto cb ?s w = (AMVP_SUCCESS, set_out (Some (fst (upd m (mct_text stc)) @ drop 16 ob)) 16 ?s, w')" "chain w' = snd (upd m (mct_text stc))"
    using y bufs(6) by auto
  then show ?thesis using that y bufs(5) by (simp add: call_crypto_def)
qed

text \<open>Keeping the texts and the key.\<close>

lemma arrays_shapedD:
  assumes "arrays_shaped a"
  shows "length (ar_mkey a) = 101" "length (ar_ptext a) = 1001" "length (ar_ctext a) = 1001" "length (ar_miv a) = 101"
    "j < 101 \<Longrightarrow> length (ar_mkey a ! j) = 32" "j < 1001 \<Longrightarrow> length (ar_ptext a ! j) = 32" "j < 1001 \<Longrightarrow> length (ar_ctext a ! j) = 32"
    "j < 101 \<Longrightarrow> length (ar_miv a ! j) = 16"
  using assms by (simp_all add: arrays_shaped_def)

lemma shaped_update: "(\<forall>r \<in> set rows. length r = n) \<Longrightarrow> length r' = n \<Longrightarrow> r \<in> set (rows[j := r']) \<Longrightarrow> length r = n"
  by (auto dest!: set_update_subset_insert [THEN subsetD])

lemma aes_keep_ok:
  assumes shape: "tc_shaped ecb stc" "arrays_shaped a" and j: "sy_mct_index stc = j" "j < 1000" and out: "out_len stc = 16"
  obtains a1 where "aes_keep stc a = Done a1" "arrays_shaped a1"
    "out_rows stc a1 = (out_rows stc a)[j := take 16 (the (out_buf stc)) @ drop 16 (out_rows stc a ! j)]"
    "take (length (mct_key stc)) (ar_mkey a1 ! 0) = (if j = 0 then mct_key stc else take (length (mct_key stc)) (ar_mkey a ! 0))"
proof -
  obtain k b ob where bufs: "sy_key stc = Some k" "length k = 64" "in_buf stc = Some b" "length b = 16384" "out_buf stc = Some ob" "length ob = 16384"
    "in_len stc = 16" "sy_key_len stc div 8 \<le> 32" "sy_cipher stc \<noteq> AMVP_AES_CFB1"
    using shape(1) by (auto simp: tc_shaped_def sym_sizes mct_modes_def split: if_splits)
  then obtain ct pt where texts: "sy_ct stc = Some ct" "sy_pt stc = Some pt" "length ct = 16384" "length pt = 16384" "sy_ct_len stc = 16" "sy_pt_len stc = 16"
    using out by (auto simp: in_buf_def out_buf_def in_len_def out_len_def split: if_splits)
  let ?c = "(ar_ctext a)[j := take 16 ct @ drop 16 (ar_ctext a ! j)]" and ?p = "(ar_ptext a)[j := take 16 pt @ drop 16 (ar_ptext a ! j)]"
  let ?k = "if j = 0 then (ar_mkey a)[0 := mct_key stc @ drop (sy_key_len stc div 8) (ar_mkey a ! 0)] else ar_mkey a"
  let ?a1 = "a\<lparr>ar_ctext := ?c, ar_ptext := ?p, ar_mkey := ?k\<rparr>"
  note sh = arrays_shapedD [OF shape(2)]
  have klen: "length (mct_key stc) = sy_key_len stc div 8" using bufs by (simp add: mct_key_def)
  have "aes_keep stc a = Done ?a1"
    using bufs texts j sh by (simp add: aes_keep_def Let_def row_put_Done mct_key_def pass_eq)
  moreover have "arrays_shaped ?a1"
    using shape(2) j sh klen bufs(8) texts by (auto simp: arrays_shaped_def elim!: shaped_update [rotated 2])
  moreover have "out_rows stc ?a1 = (out_rows stc a)[j := take 16 (the (out_buf stc)) @ drop 16 (out_rows stc a ! j)]"
    using texts by (simp add: out_rows_def out_buf_def)
  moreover have "take (length (mct_key stc)) (ar_mkey ?a1 ! 0) = (if j = 0 then mct_key stc else take (length (mct_key stc)) (ar_mkey a ! 0))"
    using sh by simp
  ultimately show ?thesis using that by blast
qed

text \<open>Feeding the next text.\<close>

lemma mct_algs:
  "amvp_get_aes_alg AMVP_AES_ECB = AMVP_SUB_AES_ECB" "amvp_get_aes_alg AMVP_AES_CBC = AMVP_SUB_AES_CBC"
  "amvp_get_aes_alg AMVP_AES_OFB = AMVP_SUB_AES_OFB" "amvp_get_aes_alg AMVP_AES_CFB128 = AMVP_SUB_AES_CFB128"
  by (simp_all add: amvp_get_aes_alg_def cipher_sub_def alg_tbl_def alg_row_def)

lemma mct_modes_alg:
  "mct_modes ecb c \<Longrightarrow> amvp_get_aes_alg c \<in> (if ecb then {AMVP_SUB_AES_ECB} else {AMVP_SUB_AES_CBC, AMVP_SUB_AES_OFB, AMVP_SUB_AES_CFB128})"
  by (auto simp: mct_modes_def mct_algs split: if_splits)

lemma aes_feed_ok:
  assumes shape: "tc_shaped ecb stc" "arrays_shaped a" and j: "sy_mct_index stc = j" "j < 1000" and out: "out_len stc = 16"
  obtains stc' where "aes_feed i stc a = Done (stc', a)" "tc_shaped ecb stc'" "encrypting stc' = encrypting stc" "mct_key stc' = mct_key stc"
    "out_buf stc' = out_buf stc" "out_len stc' = out_len stc"
    "mct_text stc' = (if ecb then take 16 (out_rows stc a ! j) else if j = 0 then mct_iv stc else take 16 (out_rows stc a ! (j - 1)))"
    "mct_iv stc' = (if ecb \<or> j = 0 then mct_iv stc else take 16 (out_rows stc a ! j))"
proof -
  obtain v b where bufs: "sy_iv stc = Some v" "length v = 128" "in_buf stc = Some b" "length b = 16384" "in_max stc = 16384"
    "sy_iv_len stc = (if ecb then 0 else 16)"
    using shape(1) by (auto simp: tc_shaped_def sym_sizes in_max_def)
  have rows: "length (out_rows stc a ! j') = 32" if "j' < 1001" for j' using arrays_shapedD [OF shape(2)] that by (simp add: out_rows_def)
  let ?alg = "amvp_get_aes_alg (sy_cipher stc)"
  have alg: "ecb \<Longrightarrow> ?alg = AMVP_SUB_AES_ECB"
    "\<not> ecb \<Longrightarrow> ?alg \<noteq> 0 \<and> ?alg \<noteq> AMVP_SUB_AES_ECB \<and> (?alg = AMVP_SUB_AES_CBC \<or> ?alg = AMVP_SUB_AES_OFB \<or> ?alg = AMVP_SUB_AES_CFB128)"
    using mct_modes_alg [of ecb "sy_cipher stc"] shape(1) by (auto simp: tc_shaped_def)
  let ?x = "if ecb then out_rows stc a ! j else if j = 0 then v else out_rows stc a ! (j - 1)"
  let ?s = "set_in (Some (take 16 ?x @ drop 16 b)) stc"
  let ?stc' = "if ecb \<or> j = 0 then ?s else ?s\<lparr>sy_iv := Some (take 16 (out_rows stc a ! j) @ drop 16 v)\<rparr>"
  have "aes_feed i stc a = Done (?stc', a)"
    using alg bufs rows j out unfolding aes_feed_def Let_def
    by (cases ecb; cases "j = 0") (simp_all add: copy_bytes_Done pass_eq AMVP_SYM_IV_BYTE_MAX_def)
  moreover have len: "length (take 16 ?x @ drop 16 b) = 16384" "length (take 16 (out_rows stc a ! j) @ drop 16 v) = 128"
    using bufs rows j by auto
  have "tc_shaped ecb ?stc'"
    using shape(1) len by (auto simp: tc_shaped_def AMVP_SYM_IV_BYTE_MAX_def)
  moreover have "mct_key ?stc' = mct_key stc" "encrypting ?stc' = encrypting stc" "out_buf ?stc' = out_buf stc" "out_len ?stc' = out_len stc"
    by (simp_all add: mct_key_def)
  moreover have "mct_text ?stc' = (if ecb then take 16 (out_rows stc a ! j) else if j = 0 then mct_iv stc else take 16 (out_rows stc a ! (j - 1)))"
    "mct_iv ?stc' = (if ecb \<or> j = 0 then mct_iv stc else take 16 (out_rows stc a ! j))"
    using bufs rows j by (auto simp: mct_text_def mct_iv_def)
  ultimately show ?thesis using that [of ?stc'] by blast
qed

lemma mct_inv_step:
  fixes chain :: "'w \<Rightarrow> 'm"
  assumes mach: "runs_machine init upd chain crypto cb" and inv: "mct_inv ecb enc chain init (k, iv) j s stc f" and j: "j < 1000"
  obtains stc1 stc' f1 f' where
    "on_aes (call_crypto crypto (Some cb) (stc\<lparr>sy_mct_index := j\<rparr>)) f = Done stc1 f1" "amvp_aes_mct_iterate_tc i stc1 f1 = Done stc' f'"
    "mct_inv ecb enc chain init (k, iv) (j + 1) (block_step ecb upd s) stc' f'" "af_readIv f' = af_readIv f"
proof -
  obtain m prev out x where s: "s = (m, prev, out, x)" by (cases s)
  note inv = inv [unfolded s mct_inv.simps]
  let ?y = "fst (upd m x)" and ?a = "af_arrays f"
  have m: "m = (if j = 0 then init (mct_key stc) (mct_iv stc) else chain (af_world f))" using inv by auto
  obtain w' where crypt: "call_crypto crypto (Some cb) (stc\<lparr>sy_mct_index := j\<rparr>) (af_world f) =
      Done (set_out (Some (?y @ drop 16 (the (out_buf stc)))) 16 (stc\<lparr>sy_mct_index := j\<rparr>)) w'"
    and chain: "chain w' = snd (upd m x)" and leny: "length ?y = 16"
    using machine_step [OF mach _ m] inv by metis
  let ?stc1 = "set_out (Some (?y @ drop 16 (the (out_buf stc)))) 16 (stc\<lparr>sy_mct_index := j\<rparr>)"
  have shape1: "tc_shaped ecb ?stc1" using inv leny by (auto simp: tc_shaped_def)
  have same: "mct_key ?stc1 = k" "mct_iv ?stc1 = mct_iv stc" "out_rows ?stc1 = out_rows stc" "encrypting ?stc1 = enc"
    using inv by (auto simp: mct_key_def mct_iv_def)
  have a: "arrays_shaped ?a" using inv by (simp add: rows_hold_def)
  have idx: "sy_mct_index ?stc1 = j" "out_len ?stc1 = 16" by simp_all
  obtain a1 where keep: "aes_keep ?stc1 ?a = (Done a1 :: (_, 'w aes_frame) step)" "arrays_shaped a1"
      "out_rows ?stc1 a1 = (out_rows ?stc1 ?a)[j := take 16 (the (out_buf ?stc1)) @ drop 16 (out_rows ?stc1 ?a ! j)]"
      "take (length (mct_key ?stc1)) (ar_mkey a1 ! 0) = (if j = 0 then mct_key ?stc1 else take (length (mct_key ?stc1)) (ar_mkey ?a ! 0))"
    by (rule aes_keep_ok [OF shape1 a idx(1) j idx(2)])
  obtain stc' where feed: "aes_feed i ?stc1 a1 = (Done (stc', a1) :: (_, 'w aes_frame) step)" "tc_shaped ecb stc'" "encrypting stc' = encrypting ?stc1" "mct_key stc' = mct_key ?stc1"
      "out_buf stc' = out_buf ?stc1" "out_len stc' = out_len ?stc1"
      "mct_text stc' = (if ecb then take 16 (out_rows ?stc1 a1 ! j) else if j = 0 then mct_iv ?stc1 else take 16 (out_rows ?stc1 a1 ! (j - 1)))"
      "mct_iv stc' = (if ecb \<or> j = 0 then mct_iv ?stc1 else take 16 (out_rows ?stc1 a1 ! j))"
    by (rule aes_feed_ok [OF shape1 keep(2) idx(1) j idx(2)])
  have nrows: "length (out_rows stc ?a) = 1001" using arrays_shapedD [OF a] by (simp add: out_rows_def)
  have rows': "out_rows stc' = out_rows stc" using feed(3) same(4) inv by (simp add: out_rows_def fun_eq_iff)
  have row: "take 16 (out_rows stc a1 ! j) = ?y" "0 < j \<Longrightarrow> out_rows stc a1 ! (j - 1) = out_rows stc ?a ! (j - 1)"
    using keep(3) leny nrows j by (simp_all add: same(3))
  let ?f1 = "f\<lparr>af_world := w'\<rparr>" and ?f' = "f\<lparr>af_world := w', af_arrays := a1\<rparr>"
  have calls: "on_aes (call_crypto crypto (Some cb) (stc\<lparr>sy_mct_index := j\<rparr>)) f = Done ?stc1 ?f1" "amvp_aes_mct_iterate_tc i ?stc1 ?f1 = Done stc' ?f'"
    using crypt keep(1) feed(1) by (simp_all add: on_aes_def amvp_aes_mct_iterate_tc_def read_arrays_def write_arrays_def)
  have old: "0 < j \<Longrightarrow> take 16 (out_rows stc ?a ! (j - 1)) = out" "0 < j \<Longrightarrow> take (length k) (ar_mkey ?a ! 0) = k" "j = 0 \<Longrightarrow> out = iv"
    "mct_iv stc = (if ecb \<or> j \<le> 1 then iv else out)" "encrypting stc = enc" "m = (if j = 0 then init k iv else chain (af_world f))"
    using inv by (simp_all add: rows_hold_def)
  have key: "take (length k) (ar_mkey a1 ! 0) = k" using keep(4) old(2) unfolding same(1) by (auto split: if_splits)
  have "rows_hold (j + 1) k out ?y stc' a1"
    unfolding rows_hold_def rows' using keep(2) row old(1) key feed(5,6) leny by (cases j) simp_all
  moreover have "mct_text stc' = (if ecb then ?y else out)" using feed(7) row old(1,3,4) unfolding same(2,3) by (auto split: if_splits)
  moreover have "mct_iv stc' = (if ecb \<or> j + 1 \<le> 1 then iv else ?y)" using feed(8) row old(4) unfolding same(2,3) by (auto split: if_splits)
  ultimately have "mct_inv ecb enc chain init (k, iv) (j + 1) (block_step ecb upd s) stc' ?f'"
    using feed(2-4) same(1,4) chain by (simp add: s block_step_def)
  with calls show ?thesis by (rule that) simp
qed

section \<open>A round\<close>

lemma mct_inner_ok:
  assumes "runs_machine init upd chain crypto cb" and "mct_inv ecb enc chain init (k, iv) j s stc f" and "j + n \<le> 1000"
  shows "\<exists>stc' f'. aes_mct_inner crypto (Some cb) i n j stc f = Done stc' f' \<and>
    mct_inv ecb enc chain init (k, iv) (j + n) ((block_step ecb upd ^^ n) s) stc' f' \<and> af_readIv f' = af_readIv f"
  using assms(2,3)
proof (induction n arbitrary: j s stc f)
  case (Suc n)
  have j: "j < 1000" using Suc.prems(2) by simp
  obtain stc1 stc2 f1 f2 where
    step: "on_aes (call_crypto crypto (Some cb) (stc\<lparr>sy_mct_index := j\<rparr>)) f = Done stc1 f1" "amvp_aes_mct_iterate_tc i stc1 f1 = Done stc2 f2"
      "mct_inv ecb enc chain init (k, iv) (j + 1) (block_step ecb upd s) stc2 f2" "af_readIv f2 = af_readIv f"
    by (rule mct_inv_step [OF assms(1) Suc.prems(1) j, of i]) (rule that; assumption)
  have "aes_mct_inner crypto (Some cb) i (Suc n) j stc f = aes_mct_inner crypto (Some cb) i n (j + 1) stc2 f2"
    using step(1,2) by simp
  moreover have "block_step ecb upd ((block_step ecb upd ^^ n) s) = (block_step ecb upd ^^ n) (block_step ecb upd s)"
    by (rule funpow_swap1)
  ultimately show ?case using Suc.IH [OF step(3)] Suc.prems(2) step(4) by simp
qed simp

lemma hex_text_ok:
  assumes "n \<le> length bs" and "2 * n \<le> mx" and "mx \<le> AMVP_SYM_CT_MAX"
  shows "hex_text (Some bs) n mx = Done (hex_of (take n bs))"
proof -
  let ?tmp = "replicate (AMVP_SYM_CT_MAX + 1) NUL"
  have wr: "wrap32 (int n) = int n" "wrap32 (int n * 2) = int n * 2"
    using assms(2,3) by (auto intro!: wrap32_id simp: is_int32_def AMVP_SYM_CT_MAX_def)
  have "bin_to_hex_loop n bs 0 ?tmp = Inr (hex_of (take n bs) @ NUL # drop (2 * n + 1) ?tmp)"
    using assms bin_to_hex_loop_eq [of "take n bs" n 0 ?tmp] by (simp add: bin_to_hex_loop_take [of n bs] min_def)
  then show ?thesis
    using assms(2) wr by (simp add: hex_text_def amvp_bin_to_hexstr_def cstr_append_NUL [OF hex_of_c_string] pass_eq)
qed

text \<open>What a round starts with, and what it reports of it.\<close>

definition round_starts :: "bool \<Rightarrow> bool \<Rightarrow> bytes \<times> bytes \<times> bytes \<Rightarrow> AMVP_SYM_CIPHER_TC \<Rightarrow> 'w aes_frame \<Rightarrow> bool" where
  "round_starts ecb enc = (\<lambda>(k, iv, t) stc f. tc_shaped ecb stc \<and> encrypting stc = enc \<and> mct_key stc = k \<and> mct_iv stc = iv \<and> mct_text stc = t \<and>
     arrays_shaped (af_arrays f))"

lemma mct_names: "json_name ''key''" "json_name ''iv''" "json_name ''pt''" "json_name ''ct''"
  by (simp_all add: json_name_def c_string_def)

lemma output_mct_ok:
  assumes "\<forall>w. fst (al w)" and "round_starts ecb enc (k, iv, t) stc f"
  obtains w' where "amvp_aes_output_mct_tc al stc [] w =
    Done ((''key'', JSONString (hex_of k)) # (if ecb then [] else [(''iv'', JSONString (hex_of iv))]) @
      [(if enc then ''pt'' else ''ct'', JSONString (hex_of t))]) w'"
proof -
  obtain w' where w': "new_chars al (AMVP_SYM_CT_MAX + 1) w = Done (replicate (AMVP_SYM_CT_MAX + 1) NUL) w'" using new_chars_ok [OF assms(1)] .
  obtain kb v b where bufs: "sy_key stc = Some kb" "length kb = 64" "sy_iv stc = Some v" "length v = 128" "in_buf stc = Some b" "length b = 16384"
    "in_len stc = 16" "sy_key_len stc div 8 \<le> 32" "sy_iv_len stc \<le> 16" "mct_modes ecb (sy_cipher stc)"
    using assms(2) by (auto simp: round_starts_def tc_shaped_def sym_sizes)
  have "hex_text (sy_key stc) (sy_key_len stc div 8) AMVP_SYM_CT_MAX = (Done (hex_of k) :: (_, 'a) step)"
    "hex_text (sy_iv stc) (sy_iv_len stc) AMVP_SYM_CT_MAX = (Done (hex_of iv) :: (_, 'a) step)"
    "hex_text (in_buf stc) (in_len stc) (if encrypting stc then AMVP_SYM_PT_MAX else AMVP_SYM_CT_MAX) = (Done (hex_of t) :: (_, 'a) step)"
    using assms(2) bufs by (auto simp: hex_text_ok round_starts_def mct_key_def mct_iv_def mct_text_def AMVP_SYM_CT_MAX_def AMVP_SYM_PT_MAX_def)
  moreover have "sy_cipher stc \<noteq> AMVP_AES_CFB1" "sy_cipher stc \<noteq> AMVP_AES_ECB \<longleftrightarrow> \<not> ecb" "encrypting stc = enc"
    using bufs(10) assms(2) by (auto simp: mct_modes_def round_starts_def split: if_splits)
  ultimately show ?thesis
    using that w' by (cases ecb; cases enc) (simp_all add: amvp_aes_output_mct_tc_def json_build json_known mct_names pass_eq)
qed

text \<open>The bytes that change the key are the last ones of the last two texts.\<close>

lemma copy_to_Done: "n \<le> length src \<Longrightarrow> off + n \<le> length buf \<Longrightarrow> copy_to off buf src n = Done (take off buf @ take n src @ drop (off + n) buf)"
  by (simp add: copy_to_def put_bytes_def pass_eq min_def)

lemma last_blocks_ok:
  assumes "length (rows ! 998) = 32" and "length (rows ! 999) = 32" and "length c = 68" and "kl \<in> {128, 192, 256}"
  obtains c' where "aes_last_blocks rows kl c s = Done c' s" "length c' = 68"
    "take (kl div 8) c' = drop (32 - kl div 8) (take 16 (rows ! 998) @ take 16 (rows ! 999))"
proof -
  let ?c' = "(if kl = 128 then [] else if kl = 192 then take 8 (drop 8 (rows ! 998)) else take 16 (rows ! 998)) @ take 16 (rows ! 999) @ drop (kl div 8) c"
  have "aes_last_blocks rows kl c s = Done ?c' s"
    using assms by (auto simp: aes_last_blocks_def copy_to_Done)
  moreover have "length ?c' = 68" "take (kl div 8) ?c' = drop (32 - kl div 8) (take 16 (rows ! 998) @ take 16 (rows ! 999))"
    using assms by (auto simp: drop_take)
  ultimately show ?thesis using that by blast
qed

lemma next_key_ok:
  assumes "tc_shaped ecb stc" and "arrays_shaped a" and "take (length (mct_key stc)) (ar_mkey a ! 0) = mct_key stc" and "length c = 68"
  obtains stc' where "aes_next_key stc c a s = Done stc' s" "tc_shaped ecb stc'" "encrypting stc' = encrypting stc"
    "mct_key stc' = map2 (XOR) (mct_key stc) (take (length (mct_key stc)) c)" "mct_iv stc' = mct_iv stc" "mct_text stc' = mct_text stc"
proof -
  obtain kb where bufs: "sy_key stc = Some kb" "length kb = 64" "sy_key_len stc \<in> {128, 192, 256}"
    using assms(1) by (auto simp: tc_shaped_def AMVP_SYM_KEY_MAX_BYTES_def)
  let ?n = "sy_key_len stc div 8"
  have klen: "length (mct_key stc) = ?n" "?n \<le> 32" "?n \<noteq> 0" using bufs by (auto simp: mct_key_def)
  let ?key = "map2 (XOR) (mct_key stc) (take ?n c)"
  have len: "length ?key = ?n" using assms(4) klen by simp
  let ?stc' = "stc\<lparr>sy_key := Some (?key @ drop ?n kb)\<rparr>"
  have same: "encrypting ?stc' = encrypting stc" "in_buf ?stc' = in_buf stc" "in_len ?stc' = in_len stc" "out_buf ?stc' = out_buf stc"
    by (simp_all add: encrypting_def in_buf_def in_len_def out_buf_def)
  have "aes_next_key stc c a s = Done ?stc' s"
    using klen bufs(1,2) assms(3,4) arrays_shapedD(5) [OF assms(2), of 0] by (simp add: aes_next_key_def Let_def)
  moreover have "tc_shaped ecb ?stc'" using assms(1) len klen bufs by (auto simp: tc_shaped_def same AMVP_SYM_KEY_MAX_BYTES_def)
  moreover have "mct_key ?stc' = map2 (XOR) (mct_key stc) (take (length (mct_key stc)) c)" "mct_iv ?stc' = mct_iv stc" "mct_text ?stc' = mct_text stc"
    using len klen(1) by (simp_all add: mct_key_def [of ?stc'] mct_iv_def mct_text_def same(2))
  ultimately show ?thesis using that same(1) by blast
qed

lemma mct_chain_ok:
  assumes inv: "mct_inv ecb enc chain init (k, iv) 1000 (m, prev, out, x) stc f" and c: "length c = 68"
  obtains stc' c' where "aes_mct_chain i stc c (af_arrays f) f = Done (stc, c', af_arrays f) f" "length c' = 68"
    "aes_next_key stc c' (af_arrays f) f = Done stc' f"
    "round_starts ecb enc (map2 (XOR) k (drop (32 - length k) (prev @ out)), if ecb then iv else out, x) stc' f"
proof -
  have shape: "tc_shaped ecb stc" "encrypting stc = enc" "mct_key stc = k" "mct_text stc = x" "mct_iv stc = (if ecb then iv else out)"
    "arrays_shaped (af_arrays f)" "take 16 (out_rows stc (af_arrays f) ! 999) = out" "take 16 (out_rows stc (af_arrays f) ! 998) = prev"
    "take (length k) (ar_mkey (af_arrays f) ! 0) = k"
    using inv by (auto simp: rows_hold_def)
  have modes: "mct_modes ecb (sy_cipher stc)" "sy_key_len stc \<in> {128, 192, 256}" using shape(1) by (simp_all add: tc_shaped_def)
  have rows: "length (out_rows stc (af_arrays f) ! 998) = 32" "length (out_rows stc (af_arrays f) ! 999) = 32"
    using arrays_shapedD [OF shape(6)] by (simp_all add: out_rows_def)
  obtain c' where c': "aes_last_blocks (out_rows stc (af_arrays f)) (sy_key_len stc) c f = Done c' f" "length c' = 68"
    "take (sy_key_len stc div 8) c' = drop (32 - sy_key_len stc div 8) (prev @ out)"
    by (rule last_blocks_ok [OF rows c modes(2), of f, unfolded shape(7,8)])
  obtain kb where "sy_key stc = Some kb" "length kb = 64" using shape(1) by (auto simp: tc_shaped_def AMVP_SYM_KEY_MAX_BYTES_def)
  then have klen: "length k = sy_key_len stc div 8" using shape(3) modes(2) by (auto simp: mct_key_def)
  obtain stc' where next': "aes_next_key stc c' (af_arrays f) f = Done stc' f" "tc_shaped ecb stc'" "encrypting stc' = encrypting stc"
    "mct_key stc' = map2 (XOR) (mct_key stc) (take (length (mct_key stc)) c')" "mct_iv stc' = mct_iv stc" "mct_text stc' = mct_text stc"
    using next_key_ok [OF shape(1,6) _ c'(2), of f] shape(3,9) by metis
  have "aes_mct_chain i stc c (af_arrays f) f = Done (stc, c', af_arrays f) f"
    using modes(1) c'(1) by (auto simp: aes_mct_chain_def mct_modes_def Let_def split: if_splits)
  moreover have "round_starts ecb enc (map2 (XOR) k (drop (32 - length k) (prev @ out)), if ecb then iv else out, x) stc' f"
    using next'(2-6) shape(2-6) c'(3) klen by (simp add: round_starts_def)
  ultimately show ?thesis using that c'(2) next'(1) by blast
qed

section \<open>All rounds\<close>

lemma mct_outer_ok:
  fixes chain :: "'w \<Rightarrow> 'm"
  assumes mach: "runs_machine init upd chain crypto cb" and al: "\<forall>w. fst (al w)" and "round_starts ecb enc kit stc f" and "length c = 68"
  shows "\<exists>f'. aes_mct_outer al crypto (Some cb) n i c stc f = Done (block_mct n ecb enc init upd kit) f' \<and> arrays_shaped (af_arrays f') \<and>
    af_readIv f' = af_readIv f"
  using assms(3,4)
proof (induction n arbitrary: i c stc f kit)
  case (Suc n)
  obtain k iv t where kit: "kit = (k, iv, t)" by (cases kit)
  note starts = Suc.prems(1) [unfolded kit]
  obtain w1 where w1: "amvp_aes_output_mct_tc al stc [] (af_world f) =
      Done ((''key'', JSONString (hex_of k)) # (if ecb then [] else [(''iv'', JSONString (hex_of iv))]) @
        [(if enc then ''pt'' else ''ct'', JSONString (hex_of t))]) w1"
    by (rule output_mct_ok [OF al starts])
  let ?f1 = "f\<lparr>af_world := w1\<rparr>"
  have "mct_inv ecb enc chain init (k, iv) 0 (init k iv, [], iv, t) stc ?f1"
    using starts by (simp add: round_starts_def rows_hold_def)
  from mct_inner_ok [OF mach this, of 1000 i] obtain stc1 f2 where
    inner: "aes_mct_inner crypto (Some cb) i 1000 0 stc ?f1 = Done stc1 f2"
      and inv0: "mct_inv ecb enc chain init (k, iv) 1000 ((block_step ecb upd ^^ 1000) (init k iv, [], iv, t)) stc1 f2" and same: "af_readIv f2 = af_readIv f" by auto
  obtain m prev out x where run: "(block_step ecb upd ^^ 1000) (init k iv, [], iv, t) = (m, prev, out, x)"
    by (cases "(block_step ecb upd ^^ 1000) (init k iv, [], iv, t)")
  note inv = inv0 [unfolded run]
  obtain stc3 c' where chained: "aes_mct_chain i stc1 c (af_arrays f2) f2 = Done (stc1, c', af_arrays f2) f2" "length c' = 68"
      "aes_next_key stc1 c' (af_arrays f2) f2 = Done stc3 f2"
    and nxt: "round_starts ecb enc (map2 (XOR) k (drop (32 - length k) (prev @ out)), if ecb then iv else out, x) stc3 f2"
    by (rule mct_chain_ok [OF inv Suc.prems(2), of i])
  have bufs: "encrypting stc1 = enc" "sy_cipher stc1 \<noteq> AMVP_AES_CFB1" "take 16 (the (out_buf stc1)) = out" "out_len stc1 = 16"
      "\<exists>ob. out_buf stc1 = Some ob \<and> length ob = 16384"
    using inv by (auto simp: rows_hold_def tc_shaped_def mct_modes_def split: if_splits)
  then have out_hex: "hex_text (out_buf stc1) (out_len stc1) AMVP_SYM_CT_MAX = (Done (hex_of out) :: (_, 'w aes_frame) step)"
    by (auto simp: hex_text_ok AMVP_SYM_CT_MAX_def)
  obtain f' where rest: "aes_mct_outer al crypto (Some cb) n (i + 1) c' stc3 f2 =
      Done (block_mct n ecb enc init upd (map2 (XOR) k (drop (32 - length k) (prev @ out)), if ecb then iv else out, x)) f'" "arrays_shaped (af_arrays f')" "af_readIv f' = af_readIv f"
    using same Suc.IH [OF nxt chained(2)] by blast
  show ?case
    using w1 inner out_hex chained rest bufs(1,2) run
    by (cases ecb; cases enc)
      (simp_all add: kit on_aes_def read_arrays_def write_arrays_def block_report_def block_next_def block_run_def json_build json_known mct_names)
qed (auto simp: round_starts_def)

text \<open>
  The Monte Carlo test of a test case: a hundred rounds of the reference, whatever the static
  arrays held before.
\<close>
lemma mct_tc_ok:
  assumes "runs_machine init upd chain crypto cb" and "\<forall>w. fst (al w)" and "round_starts ecb enc kit stc f"
  shows "\<exists>f'. amvp_aes_mct_tc al crypto (Some cb) stc f = Done (block_mct 100 ecb enc init upd kit) f' \<and> arrays_shaped (af_arrays f') \<and> af_readIv f' = af_readIv f"
proof -
  let ?a = "af_arrays f"
  obtain w1 where w1: "new_chars al (AMVP_SYM_CT_MAX + 1) (af_world f) = Done (replicate (AMVP_SYM_CT_MAX + 1) NUL) w1" using new_chars_ok [OF assms(2)] .
  obtain v where v: "sy_iv stc = Some v" "length v = 128" "sy_iv_len stc \<le> 16" "arrays_shaped ?a"
    using assms(3) by (cases kit) (auto simp: round_starts_def tc_shaped_def AMVP_SYM_IV_BYTE_MAX_def)
  let ?miv = "(ar_miv ?a)[0 := take (sy_iv_len stc) v @ drop (sy_iv_len stc) (ar_miv ?a ! 0)]"
  let ?f1 = "f\<lparr>af_world := w1, af_arrays := ?a\<lparr>ar_miv := ?miv\<rparr>\<rparr>"
  have miv: "row_put IV_ROW_LEN (ar_miv ?a) 0 (sy_iv stc) (sy_iv_len stc) (f\<lparr>af_world := w1\<rparr>) = Done ?miv (f\<lparr>af_world := w1\<rparr>)"
    using v arrays_shapedD [OF v(4)] by (simp add: row_put_Done)
  have "arrays_shaped (?a\<lparr>ar_miv := ?miv\<rparr>)"
    using v arrays_shapedD [OF v(4)] by (auto simp: arrays_shaped_def elim!: shaped_update [rotated 2])
  then have "round_starts ecb enc kit stc ?f1" using assms(3) by (cases kit) (simp add: round_starts_def)
  from mct_outer_ok [OF assms(1,2) this, of "replicate 68 0" 100 0] show ?thesis
    using w1 miv by (simp add: amvp_aes_mct_tc_def on_aes_def read_arrays_def write_arrays_def)
qed

end
