(* ===== verification/Kat_Aes_Props.thy ===== *)
theory Kat_Aes_Props
  imports Kat_Aes_Mct
begin

unbundle bit_operations_syntax

text \<open>
  Properties of the AES handler: vector sets of the block modes are answered as a machine for the
  mode says, functional and Monte Carlo tests alike, and what goes wrong with the modes that
  authenticate.
\<close>

section \<open>Vector sets of the block modes\<close>

text \<open>A vector set as data: tests of a number, a key, an initialization vector and a text.\<close>

record aes_query =
  aq_id :: nat
  aq_key :: bytes
  aq_iv :: bytes
  aq_text :: bytes

record aes_set =
  as_id :: int
  as_mct :: bool
  as_enc :: bool
  as_keylen :: nat
  as_tests :: "aes_query list"

definition aes_test_request :: "bool \<Rightarrow> bool \<Rightarrow> aes_query \<Rightarrow> JSON_Value" where
  "aes_test_request ecb enc q = JSONObject ([(''tcId'', JSONNumber (int (aq_id q))), (''key'', JSONString (hex_of (aq_key q)))] @
     (if ecb then [] else [(''iv'', JSONString (hex_of (aq_iv q)))]) @ [(if enc then ''pt'' else ''ct'', JSONString (hex_of (aq_text q)))])"

definition aes_group_request :: "bool \<Rightarrow> aes_set \<Rightarrow> JSON_Value" where
  "aes_group_request ecb g = JSONObject [(''tgId'', JSONNumber (as_id g)), (''direction'', JSONString (if as_enc g then ''encrypt'' else ''decrypt'')),
     (''testType'', JSONString (if as_mct g then ''MCT'' else ''AFT'')), (''keyLen'', JSONNumber (8 * int (as_keylen g))),
     (''tests'', JSONArray (map (aes_test_request ecb (as_enc g)) (as_tests g)))]"

definition aes_request :: "string \<Rightarrow> bool \<Rightarrow> aes_set list \<Rightarrow> JSON_Object" where
  "aes_request alg ecb gs = [(''algorithm'', JSONString alg), (''testGroups'', JSONArray (map (aes_group_request ecb) gs))]"

text \<open>The answers of a machine: its output for a functional test, a hundred rounds for a Monte Carlo test.\<close>

definition aes_test_answer ::
  "bool \<Rightarrow> (bytes \<Rightarrow> bytes \<Rightarrow> 'm) \<Rightarrow> ('m \<Rightarrow> bytes \<Rightarrow> bytes \<times> 'm) \<Rightarrow> aes_set \<Rightarrow> aes_query \<Rightarrow> JSON_Value" where
  "aes_test_answer ecb init upd g q = JSONObject [(''tcId'', JSONNumber (int (aq_id q))),
     if as_mct g then (''resultsArray'', JSONArray (block_mct 100 ecb (as_enc g) init upd (aq_key q, aq_iv q, aq_text q)))
     else (if as_enc g then ''ct'' else ''pt'', JSONString (hex_of (fst (upd (init (aq_key q) (aq_iv q)) (aq_text q)))))]"

definition aes_group_answer :: "bool \<Rightarrow> (bytes \<Rightarrow> bytes \<Rightarrow> 'm) \<Rightarrow> ('m \<Rightarrow> bytes \<Rightarrow> bytes \<times> 'm) \<Rightarrow> aes_set \<Rightarrow> JSON_Value" where
  "aes_group_answer ecb init upd g =
     JSONObject [(''tgId'', JSONNumber (as_id g)), (''tests'', JSONArray (map (aes_test_answer ecb init upd g) (as_tests g)))]"

definition aes_query_fits :: "bool \<Rightarrow> aes_set \<Rightarrow> aes_query \<Rightarrow> bool" where
  "aes_query_fits ecb g q \<longleftrightarrow> aq_id q < 2 ^ 32 \<and> length (aq_key q) = as_keylen g \<and> length (aq_iv q) = (if ecb then 0 else 16) \<and>
     (if as_mct g then length (aq_text q) = 16 else length (aq_text q) \<le> AMVP_SYM_PT_BYTE_MAX)"

definition aes_set_fits :: "bool \<Rightarrow> aes_set \<Rightarrow> bool" where
  "aes_set_fits ecb g \<longleftrightarrow> as_id g \<noteq> 0 \<and> is_int32 (as_id g) \<and> (as_keylen g = 16 \<or> as_keylen g = 24 \<or> as_keylen g = 32) \<and>
     list_all (aes_query_fits ecb g) (as_tests g)"

section \<open>What the handler reads\<close>

lemma aes_names:
  "json_name ''incremental''" "json_name ''overflow''" "json_name ''payloadLen''" "json_name ''dataUnitLen''" "json_name ''tag''" "json_name ''aad''"
  by (simp_all add: json_name_def c_string_def)

lemmas aes_known = json_known mct_names aes_names

definition aes_params_of :: "AMVP_SYM_CIPHER_CAP \<Rightarrow> bool \<Rightarrow> aes_set \<Rightarrow> aes_params" where
  "aes_params_of sc ecb g = \<lparr>ap_dir = (if as_enc g then AMVP_SYM_CIPH_DIR_ENCRYPT else AMVP_SYM_CIPH_DIR_DECRYPT),
     ap_type = (if as_mct g then AMVP_SYM_TEST_TYPE_MCT else AMVP_SYM_TEST_TYPE_AFT), ap_incr = -1, ap_ovrflw = -1, ap_kw = 0, ap_keylen = 8 * as_keylen g,
     ap_ivlen = (if ecb then 0 else 128), ap_ivgen = AMVP_SYM_CIPH_IVGEN_SRC_NA, ap_ivmode = AMVP_SYM_CIPH_IVGEN_MODE_NA, ap_aadlen = 0, ap_taglen = 0,
     ap_paylen = 0, ap_tw_mode = None, ap_salt_src = AMVP_SYM_CIPH_SALT_SRC_NA, ap_saltlen = 0, ap_conformance = sym_conformance sc\<rparr>"

definition aes_inputs_of :: "bool \<Rightarrow> aes_set \<Rightarrow> aes_query \<Rightarrow> aes_inputs" where
  "aes_inputs_of ecb g q = \<lparr>ai_tc_id = aq_id q, ai_key = hex_of (aq_key q), ai_pt = (if as_enc g then Some (hex_of (aq_text q)) else None),
     ai_ct = (if as_enc g then None else Some (hex_of (aq_text q))), ai_iv = (if ecb then None else Some (hex_of (aq_iv q))), ai_tag = None, ai_aad = None,
     ai_salt = None, ai_datalen = 0, ai_dulen = 0, ai_tweak = 0\<rparr>"

lemma tc_simps [simp]:
  "tc_required (Some y) k = k y" "tc_required None k = stop AMVP_TC_MISSING_DATA" "tc_reject False p = p" "tc_reject True p = stop AMVP_TC_INVALID_DATA"
  by (simp_all add: tc_required_def tc_reject_def)

lemma read_words:
  "read_direction (Some ''encrypt'') = AMVP_SYM_CIPH_DIR_ENCRYPT" "read_direction (Some ''decrypt'') = AMVP_SYM_CIPH_DIR_DECRYPT"
  "aes_read_test_type (Some ''MCT'') = AMVP_SYM_TEST_TYPE_MCT" "aes_read_test_type (Some ''AFT'') = AMVP_SYM_TEST_TYPE_AFT"
  by (simp_all add: read_direction_def aes_read_test_type_def read_word_def strcmp_s_def RSIZE_MAX_STR_def char_code_def)

lemma mct_modes_cases:
  assumes "mct_modes ecb c"
  obtains "ecb" "c = AMVP_AES_ECB" | "\<not> ecb" "c = AMVP_AES_CBC" | "\<not> ecb" "c = AMVP_AES_OFB" | "\<not> ecb" "c = AMVP_AES_CFB128"
  using assms by (auto simp: mct_modes_def split: if_splits)

lemma aes_group_args_ok:
  assumes "mct_modes ecb c" and "aes_set_fits ecb g"
  shows "aes_group_args sc c (json_value_get_object (Some (aes_group_request ecb g))) = Done (aes_params_of sc ecb g)"
proof -
  let ?obj = "json_value_get_object (Some (aes_group_request ecb g))"
  have words: "json_object_get_string ?obj ''direction'' = Some (if as_enc g then ''encrypt'' else ''decrypt'')"
    "json_object_get_string ?obj ''testType'' = Some (if as_mct g then ''MCT'' else ''AFT'')"
    "json_object_get_number ?obj ''keyLen'' = 8 * int (as_keylen g)" "json_object_get_number ?obj ''payloadLen'' = 0"
    by (simp_all add: aes_group_request_def json_read aes_known)
  have key: "as_uint (8 * int (as_keylen g)) = Done (8 * as_keylen g)"
    "tc_reject (as_keylen g \<noteq> 16 \<and> as_keylen g \<noteq> 24 \<and> as_keylen g \<noteq> 32) q = q" for q :: "('b, 's) step"
    using assms(2) by (auto simp: aes_set_fits_def as_uint_def pass_eq tc_reject_def reject_def)
  have num: "as_uint 0 = Done 0" by (simp add: as_uint_def pass_eq)
  from assms(1) show ?thesis
    unfolding aes_group_args_def tc_word_def tc_uint_def words
    by (cases rule: mct_modes_cases; cases "as_enc g"; cases "as_mct g")
      (simp_all add: key num read_words aes_counter_args_def aes_aead_args_def aes_is_aead_def
        aes_salt_args_def aes_params_of_def pass_eq AMVP_SYM_PT_BIT_MAX_def)
qed

lemma tc_text_hex:
  "json_object_get_string obj name = Some (hex_of bs) \<Longrightarrow> 2 * length bs \<le> mx \<Longrightarrow> tc_text obj name mx k = k (hex_of bs)"
  by (simp add: tc_text_def)

lemma aes_query_sizes:
  assumes "aes_set_fits ecb g" and "aes_query_fits ecb g q"
  shows "length (aq_key q) \<le> 32" "length (aq_iv q) \<le> 16" "length (aq_text q) \<le> 16384" "aq_id q < 2 ^ 32"
  using assms by (auto simp: aes_set_fits_def aes_query_fits_def AMVP_SYM_PT_BYTE_MAX_def split: if_splits)

lemma aes_test_args_ok:
  assumes modes: "mct_modes ecb c" and fits: "aes_set_fits ecb g" "aes_query_fits ecb g q" and unread: "ecb \<Longrightarrow> \<not> af_readIv f"
  shows "aes_test_args c (aes_params_of sc ecb g) (json_value_get_object (Some (aes_test_request ecb (as_enc g) q))) f =
    Done (aes_inputs_of ecb g q) (f\<lparr>af_readIv := \<not> ecb\<rparr>)"
proof -
  let ?obj = "json_value_get_object (Some (aes_test_request ecb (as_enc g) q))"
  note sizes = aes_query_sizes [OF fits]
  have reads: "json_object_get_number ?obj ''tcId'' = int (aq_id q)" "json_object_has_value ?obj ''tcId''"
    "json_object_get_string ?obj ''key'' = Some (hex_of (aq_key q))" "\<not> ecb \<Longrightarrow> json_object_get_string ?obj ''iv'' = Some (hex_of (aq_iv q))"
    "as_enc g \<Longrightarrow> json_object_get_string ?obj ''pt'' = Some (hex_of (aq_text q))" "\<not> as_enc g \<Longrightarrow> json_object_get_string ?obj ''ct'' = Some (hex_of (aq_text q))"
    by (cases ecb; cases "as_enc g"; simp add: aes_test_request_def json_read json_object_has_value_def aes_known)+
  have texts: "tc_text ?obj ''key'' AMVP_SYM_KEY_MAX_STR k = k (hex_of (aq_key q))" "\<not> ecb \<Longrightarrow> tc_text ?obj ''iv'' AMVP_SYM_IV_MAX k' = k' (hex_of (aq_iv q))"
    "as_enc g \<Longrightarrow> tc_text ?obj ''pt'' AMVP_SYM_PT_MAX k'' = k'' (hex_of (aq_text q))"
    "\<not> as_enc g \<Longrightarrow> tc_text ?obj ''ct'' AMVP_SYM_CT_MAX k'' = k'' (hex_of (aq_text q))"
    for k :: "string \<Rightarrow> (aes_inputs, 'a aes_frame) step" and k' k'' :: "string \<Rightarrow> (string option, 'a aes_frame) step"
    using sizes reads by (simp_all add: tc_text_hex sym_sizes)
  have num: "as_uint (int (aq_id q)) = Done (aq_id q)" using sizes(4) by (simp add: pass_eq)
  have data: "aes_given_data c (ap_dir (aes_params_of sc ecb g)) ?obj = (Done (ai_pt (aes_inputs_of ecb g q), ai_ct (aes_inputs_of ecb g q), None) :: (_, 'a aes_frame) step)"
    using texts(3,4) modes by (cases "as_enc g") (auto simp: aes_given_data_def aes_given_text_def aes_params_of_def aes_inputs_of_def mct_modes_def pass_eq split: if_splits)
  have sets: "aes_sets_readIv c (ap_ivgen (aes_params_of sc ecb g)) (ap_dir (aes_params_of sc ecb g)) = (\<not> ecb)"
    using modes by (cases rule: mct_modes_cases) (simp_all add: aes_sets_readIv_def)
  have iv: "aes_given_iv c (aes_params_of sc ecb g) ?obj f = Done (ai_iv (aes_inputs_of ecb g q)) (f\<lparr>af_readIv := \<not> ecb\<rparr>)"
    using unread texts(2) unfolding aes_given_iv_def sets by (cases ecb) (simp_all add: aes_inputs_of_def Let_def)
  from modes have plain: "c \<noteq> AMVP_AES_CFB1" "c \<noteq> AMVP_AES_XTS" "c \<noteq> AMVP_AES_XPN" "\<not> aes_is_aead c"
    by (auto simp: mct_modes_def aes_is_aead_def split: if_splits)
  show ?thesis
    using iv plain by (simp add: aes_test_args_def tc_uint_def reads(1,2) num texts(1) data aes_given_tweak_def) (simp add: aes_inputs_of_def)
qed

section \<open>The handler answers\<close>

text \<open>The test case of a test: buffers with the key, vector and text, and their lengths.\<close>

lemma aes_init_ok:
  assumes al: "\<forall>w. fst (al w)" and modes: "mct_modes ecb c" and fits: "aes_set_fits ecb g" "aes_query_fits ecb g q"
  obtains stc w' where "amvp_aes_init_tc al (aes_params_of sc ecb g) (aes_inputs_of ecb g q) n c w = Done stc w'"
    "sy_cipher stc = c" "encrypting stc = as_enc g" "sy_test_type stc = ap_type (aes_params_of sc ecb g)" "sy_mct_index stc = 0"
    "sy_key_len stc = 8 * as_keylen g" "sy_iv_len stc = (if ecb then 0 else 16)" "in_len stc = length (aq_text q)" "sy_ivgen_source stc = AMVP_SYM_CIPH_IVGEN_SRC_NA"
    "sy_key stc = Some (padded 64 (Some (aq_key q)))" "sy_iv stc = Some (padded 128 (Some (aq_iv q)))"
    "in_buf stc = Some (padded 16384 (Some (aq_text q)))" "out_buf stc = Some (replicate 16384 0)"
proof -
  obtain w1 where w1: "new_bytes al 64 w = Done (replicate 64 0) w1" using new_bytes_ok [OF al] .
  obtain w2 where w2: "new_bytes al 16384 w1 = Done (replicate 16384 0) w2" using new_bytes_ok [OF al] .
  obtain w3 where w3: "new_bytes al 16384 w2 = Done (replicate 16384 0) w3" using new_bytes_ok [OF al] .
  obtain w4 where w4: "new_bytes al 16 w3 = Done (replicate 16 0) w4" using new_bytes_ok [OF al] .
  obtain w5 where w5: "new_bytes al 128 w4 = Done (replicate 128 0) w5" using new_bytes_ok [OF al] .
  obtain w6 where w6: "new_bytes al 8192 w5 = Done (replicate 8192 0) w6" using new_bytes_ok [OF al] .
  obtain w7 where w7: "new_bytes al 96 w6 = Done (replicate 96 0) w7" using new_bytes_ok [OF al] .
  note sizes = aes_query_sizes [OF fits]
  have key: "from_hex al (hex_of (aq_key q)) (replicate 64 0) 64 w7 = Done (padded 64 (Some (aq_key q))) w7"
    and vec: "from_hex al (hex_of (aq_iv q)) (replicate 128 0) 128 w7 = Done (padded 128 (Some (aq_iv q))) w7"
    and txt': "from_hex al (hex_of (aq_text q)) (replicate 16384 0) 16384 w7 = Done (padded 16384 (Some (aq_text q))) w7"
    using sizes by (auto simp: from_hex_ok padded_def AMVP_HEXSTR_MAX_def)
  have noiv: "ecb \<Longrightarrow> padded 128 (Some (aq_iv q)) = replicate 128 0" using fits(2) by (simp add: aes_query_fits_def padded_def)
  from modes have plain: "c \<noteq> AMVP_AES_CFB1" "c \<noteq> AMVP_AES_CCM" "c \<noteq> AMVP_AES_CBC_CS1" "c \<noteq> AMVP_AES_CBC_CS2" "c \<noteq> AMVP_AES_CBC_CS3"
    by (auto simp: mct_modes_def split: if_splits)
  let ?t = "Some (padded 16384 (Some (aq_text q)))" and ?z = "Some (replicate 16384 0)"
  let ?stc = "\<lparr>sy_cipher = c, sy_conformance = sym_conformance sc, sy_test_type = ap_type (aes_params_of sc ecb g),
      sy_direction = ap_dir (aes_params_of sc ecb g), sy_ivgen_source = AMVP_SYM_CIPH_IVGEN_SRC_NA, sy_ivgen_mode = AMVP_SYM_CIPH_IVGEN_MODE_NA,
      sy_salt_source = AMVP_SYM_CIPH_SALT_SRC_NA, sy_tc_id = aq_id q, sy_key = Some (padded 64 (Some (aq_key q))),
      sy_pt = (if as_enc g then ?t else ?z), sy_aad = Some (replicate 8192 0), sy_iv = Some (padded 128 (Some (aq_iv q))),
      sy_ct = (if as_enc g then ?z else ?t), sy_tag = Some (replicate 16 0), sy_iv_ret = None, sy_iv_ret_after = None, sy_salt = Some (replicate 96 0),
      sy_kwcipher = 0, sy_tw_mode = 0, sy_seq_num = uint_of n, sy_key_len = 8 * as_keylen g, sy_pt_len = (if as_enc g then length (aq_text q) else 0),
      sy_data_len = 0, sy_aad_len = 0, sy_iv_len = (if ecb then 0 else 16), sy_ct_len = (if as_enc g then 0 else length (aq_text q)), sy_tag_len = 0,
      sy_salt_len = 0, sy_mct_index = 0, sy_incr_ctr = uint_of (- 1), sy_ovrflw_ctr = uint_of (- 1), sy_keyingOption = 0, sy_data_unit_len = 0\<rparr>"
  have "amvp_aes_init_tc al (aes_params_of sc ecb g) (aes_inputs_of ecb g q) n c w = Done ?stc w7"
    using w1 w2 w3 w4 w5 w6 w7 key vec txt' noiv plain sizes(3)
    by (cases ecb; cases "as_enc g")
      (simp_all add: amvp_aes_init_tc_def aes_inputs_of_def aes_params_of_def aes_text_def aes_iv_def from_hex_if_def sym_sizes min_def)
  then show ?thesis by (rule that) (simp_all add: encrypting_def in_buf_def out_buf_def in_len_def aes_params_of_def)
qed

lemma runs_machine_first:
  assumes "runs_machine init upd chain crypto cb" and "sy_mct_index stc = 0"
    and "sy_key stc = Some k" "sy_iv stc = Some v" "in_buf stc = Some b" "out_buf stc = Some ob"
    and "y = fst (upd (init (take (sy_key_len stc div 8) k) (take (sy_iv_len stc) v)) (take (in_len stc) b))"
  shows "\<exists>w'. crypto cb stc w = (AMVP_SUCCESS, set_out (Some (y @ drop (length y) ob)) (in_len stc) stc, w')"
proof -
  from assms(1,3-6) have "let m = (if sy_mct_index stc = 0 then init (take (sy_key_len stc div 8) k) (take (sy_iv_len stc) v) else chain w);
             y = fst (upd m (take (in_len stc) b))
         in \<exists>w'. crypto cb stc w = (AMVP_SUCCESS, set_out (Some (y @ drop (length y) ob)) (in_len stc) stc, w') \<and>
              chain w' = snd (upd m (take (in_len stc) b))"
    unfolding runs_machine_def by blast
  then show ?thesis using assms(2,7) by (auto simp: Let_def)
qed

text \<open>A functional test of a machine: one call with index 0, and the output in the answer.\<close>

lemma aes_output_block:
  assumes "\<forall>w. fst (al w)" and "mct_modes ecb (sy_cipher stc)" and "sy_ivgen_source stc \<noteq> AMVP_SYM_CIPH_IVGEN_SRC_INT"
    and "out_buf stc = Some ob" and "out_len stc \<le> length ob" and "out_len stc \<le> 16384"
  obtains w' where "amvp_aes_output_tc al stc False [(''tcId'', JSONNumber t)] w =
    Done [(''tcId'', JSONNumber t), (if encrypting stc then ''ct'' else ''pt'', JSONString (hex_of (take (out_len stc) ob)))] w'"
proof -
  obtain w' where w': "new_chars al (AMVP_SYM_CT_MAX + 1) w = Done (replicate (AMVP_SYM_CT_MAX + 1) NUL) w'" using new_chars_ok [OF assms(1)] .
  have plain: "\<not> returns_iv stc" "sy_cipher stc \<noteq> AMVP_AES_XPN" "sy_cipher stc \<noteq> AMVP_AES_GCM" "sy_cipher stc \<noteq> AMVP_AES_GMAC" "\<not> reports_failure (sy_cipher stc)"
    "result_len (sy_cipher stc) n m = n" for n m
    using assms(2,3) by (auto simp: mct_modes_def returns_iv_def reports_failure_def result_len_def split: if_splits)
  have "hex_text (out_buf stc) (out_len stc) AMVP_SYM_CT_MAX = (Done (hex_of (take (out_len stc) ob)) :: (_, 'a) step)"
    "hex_text (out_buf stc) (out_len stc) AMVP_SYM_PT_MAX = (Done (hex_of (take (out_len stc) ob)) :: (_, 'a) step)"
    using assms(4-6) by (simp_all add: hex_text_ok AMVP_SYM_CT_MAX_def AMVP_SYM_PT_MAX_def)
  then show ?thesis
    using w' that plain
    by (cases "encrypting stc") (simp_all add: amvp_aes_output_tc_def aes_output_encrypt_def aes_output_decrypt_def put_hex_def out_buf_def out_len_def
        json_build aes_known pass_eq)
qed

lemma aes_aft_ok:
  assumes mach: "runs_machine init upd chain crypto cb" and al: "\<forall>w. fst (al w)" and modes: "mct_modes ecb (sy_cipher stc)"
    and "sy_ivgen_source stc = AMVP_SYM_CIPH_IVGEN_SRC_NA" and "sy_test_type stc \<noteq> AMVP_SYM_TEST_TYPE_MCT" and "sy_mct_index stc = 0"
    and bufs: "sy_key stc = Some kb" "sy_iv stc = Some v" "in_buf stc = Some b" "out_buf stc = Some (replicate 16384 0)" "in_len stc \<le> 16384" "in_len stc \<le> length b"
  shows "\<exists>w'. aes_run_test al crypto c (Some cb) stc [(''tcId'', JSONNumber t)] f =
    Done [(''tcId'', JSONNumber t), (if encrypting stc then ''ct'' else ''pt'',
      JSONString (hex_of (fst (upd (init (take (sy_key_len stc div 8) kb) (take (sy_iv_len stc) v)) (take (in_len stc) b)))))] (f\<lparr>af_world := w'\<rparr>)"
proof -
  let ?y = "fst (upd (init (take (sy_key_len stc div 8) kb) (take (sy_iv_len stc) v)) (take (in_len stc) b))"
  have y: "length ?y = in_len stc" using mach bufs(6) by (simp add: runs_machine_def)
  let ?stc1 = "set_out (Some (?y @ drop (in_len stc) (replicate 16384 0))) (in_len stc) stc"
  obtain w1 where "crypto cb stc (af_world f) = (AMVP_SUCCESS, ?stc1, w1)"
    using runs_machine_first [OF mach assms(6) bufs(1-4) refl, of "af_world f"] y by auto
  then have call: "try_crypto crypto (Some cb) stc (af_world f) = Done (False, ?stc1) w1" by (simp add: try_crypto_def)
  have src: "sy_ivgen_source ?stc1 = sy_ivgen_source stc" by (simp add: set_out_def)
  obtain w2 where "amvp_aes_output_tc al ?stc1 False [(''tcId'', JSONNumber t)] w1 =
      Done [(''tcId'', JSONNumber t), (if encrypting ?stc1 then ''ct'' else ''pt'', JSONString (hex_of (take (out_len ?stc1) (?y @ drop (in_len stc) (replicate 16384 0)))))] w2"
    by (rule aes_output_block [OF al, of ecb ?stc1]) (use modes src assms(4) y bufs(5) in auto)
  then show ?thesis using call assms(5) y by (auto simp: aes_run_test_def on_aes_def)
qed

text \<open>What the handler keeps between tests: arrays of the right shape, and for ECB that no vector is read.\<close>

definition frame_ok :: "bool \<Rightarrow> 'w aes_frame \<Rightarrow> bool" where
  "frame_ok ecb f \<longleftrightarrow> arrays_shaped (af_arrays f) \<and> (ecb \<longrightarrow> \<not> af_readIv f)"

lemma aes_test_eq:
  fixes chain :: "'w \<Rightarrow> 'm"
  assumes mach: "runs_machine init upd chain crypto cb" and al: "\<forall>w. fst (al w)" and modes: "mct_modes ecb c"
    and fits: "aes_set_fits ecb g" "aes_query_fits ecb g q" and frame: "frame_ok ecb f"
  shows "\<exists>f'. aes_test al crypto c (Some cb) (aes_params_of sc ecb g) (json_value_get_object (Some (aes_test_request ecb (as_enc g) q))) f =
    Done (aes_test_answer ecb init upd g q) f' \<and> frame_ok ecb f'"
proof -
  let ?f1 = "f\<lparr>af_readIv := \<not> ecb\<rparr>"
  have args: "aes_test_args c (aes_params_of sc ecb g) (json_value_get_object (Some (aes_test_request ecb (as_enc g) q))) f = Done (aes_inputs_of ecb g q) ?f1"
    by (rule aes_test_args_ok [OF modes fits]) (use frame in \<open>simp add: frame_ok_def\<close>)
  obtain stc w1 where init: "amvp_aes_init_tc al (aes_params_of sc ecb g) (aes_inputs_of ecb g q) (af_seq_num ?f1) c (af_world ?f1) = Done stc w1"
    and stc: "sy_cipher stc = c" "encrypting stc = as_enc g" "sy_test_type stc = ap_type (aes_params_of sc ecb g)" "sy_mct_index stc = 0"
      "sy_key_len stc = 8 * as_keylen g" "sy_iv_len stc = (if ecb then 0 else 16)" "in_len stc = length (aq_text q)" "sy_ivgen_source stc = AMVP_SYM_CIPH_IVGEN_SRC_NA"
      "sy_key stc = Some (padded 64 (Some (aq_key q)))" "sy_iv stc = Some (padded 128 (Some (aq_iv q)))"
      "in_buf stc = Some (padded 16384 (Some (aq_text q)))" "out_buf stc = Some (replicate 16384 0)"
    by (rule aes_init_ok [OF al modes fits])
  let ?f2 = "?f1\<lparr>af_world := w1\<rparr>" and ?r = "[(''tcId'', JSONNumber (int (aq_id q)))]"
  note sizes = aes_query_sizes [OF fits]
  have lens: "length (aq_key q) = as_keylen g" "length (aq_iv q) = sy_iv_len stc" using fits(2) stc(6) by (simp_all add: aes_query_fits_def)
  have takes: "take (sy_key_len stc div 8) (padded 64 (Some (aq_key q))) = aq_key q" "take (sy_iv_len stc) (padded 128 (Some (aq_iv q))) = aq_iv q"
    "take (in_len stc) (padded 16384 (Some (aq_text q))) = aq_text q"
    using lens stc(5,7) by (simp_all add: padded_def)
  have "\<exists>f'. aes_run_test al crypto c (Some cb) stc ?r ?f2 = Done (case aes_test_answer ecb init upd g q of JSONObject r \<Rightarrow> r) f' \<and> frame_ok ecb f'"
  proof (cases "as_mct g")
    case True
    have "round_starts ecb (as_enc g) (aq_key q, aq_iv q, aq_text q) stc ?f2"
      using modes stc True fits sizes frame takes
      by (auto simp: round_starts_def tc_shaped_def mct_key_def mct_iv_def mct_text_def padded_def frame_ok_def aes_set_fits_def aes_query_fits_def sym_sizes)
    from mct_tc_ok [OF mach al this] show ?thesis
      using True stc(3) by (auto simp: aes_run_test_def aes_params_of_def aes_test_answer_def frame_ok_def json_set_new aes_known)
  next
    case False
    have "\<exists>w'. aes_run_test al crypto c (Some cb) stc ?r ?f2 = Done [(''tcId'', JSONNumber (int (aq_id q))), (if encrypting stc then ''ct'' else ''pt'',
        JSONString (hex_of (fst (upd (init (aq_key q) (aq_iv q)) (aq_text q)))))] (?f2\<lparr>af_world := w'\<rparr>)"
      using aes_aft_ok [OF mach al, of ecb stc, OF _ _ _ stc(4,9,10,11,12), of c "int (aq_id q)" ?f2] modes stc False sizes takes
      by (auto simp: aes_params_of_def padded_def)
    then show ?thesis using False stc(2) frame by (auto simp: aes_test_answer_def frame_ok_def)
  qed
  then show ?thesis
    using args init by (auto simp: aes_test_def on_aes_def aes_test_answer_def json_build aes_known aes_inputs_of_def)
qed

lemma each_keeps_ok:
  assumes "\<And>x f. x \<in> set xs \<Longrightarrow> P f \<Longrightarrow> \<exists>f'. h (k x) f = Done (g x) f' \<and> P f'" and "P f"
  shows "\<exists>f'. each h (map k xs) f = Done (map g xs) f' \<and> P f'"
  using assms
proof (induction xs arbitrary: f)
  case (Cons x xs)
  obtain f1 where "h (k x) f = Done (g x) f1" "P f1" using Cons.prems(1) [of x f] Cons.prems(2) by auto
  moreover obtain f2 where "each h (map k xs) f1 = Done (map g xs) f2" "P f2" using Cons.IH [OF _ \<open>P f1\<close>] Cons.prems(1) by auto
  ultimately show ?case by auto
qed simp

lemma aes_group_eq:
  assumes "runs_machine init upd chain crypto cb" and "\<forall>w. fst (al w)" and "mct_modes ecb c" and "aes_set_fits ecb g" and "frame_ok ecb f"
  shows "\<exists>f'. aes_group al crypto sc c (Some cb) (json_value_get_object (Some (aes_group_request ecb g))) f =
    Done (aes_group_answer ecb init upd g) f' \<and> frame_ok ecb f'"
proof -
  let ?obj = "json_value_get_object (Some (aes_group_request ecb g))"
  have "list_all (aes_query_fits ecb g) (as_tests g)" using assms(4) by (simp add: aes_set_fits_def)
  then have "\<exists>f'. each (aes_test al crypto c (Some cb) (aes_params_of sc ecb g))
      (map (\<lambda>q. json_value_get_object (Some (aes_test_request ecb (as_enc g) q))) (as_tests g)) f =
      Done (map (aes_test_answer ecb init upd g) (as_tests g)) f' \<and> frame_ok ecb f'"
    by (intro each_keeps_ok [where P = "frame_ok ecb"] aes_test_eq [OF assms(1-4)] assms(5)) (auto simp: list_all_iff)
  then have "\<exists>f'. each_test ?obj (aes_test al crypto c (Some cb) (aes_params_of sc ecb g)) f =
      Done (map (aes_test_answer ecb init upd g) (as_tests g)) f' \<and> frame_ok ecb f'"
    by (simp add: each_test_def aes_group_request_def json_read aes_known comp_def)
  moreover have "json_object_get_number ?obj ''tgId'' = as_id g" by (simp add: aes_group_request_def json_read aes_known)
  ultimately show ?thesis
    using assms(4)
    by (auto simp: aes_group_def aes_group_args_ok [OF assms(3,4)] aes_set_fits_def aes_group_answer_def group_rsp_def json_build json_known)
qed


definition zero_arrays :: aes_arrays where
  "zero_arrays = \<lparr>ar_mkey = replicate 101 (replicate 32 0), ar_miv = replicate 101 (replicate 16 0),
     ar_ptext = replicate 1001 (replicate 32 0), ar_ctext = replicate 1001 (replicate 32 0)\<rparr>"

definition cbc_cap_entry :: AMVP_CAPS_LIST where
  "cbc_cap_entry = \<lparr>cap_cipher = AMVP_AES_CBC, cap_type = AMVP_SYM_TYPE, cap_has_prereq = 0, cap_prereq_vals = [],
     cap_data = Sym_cap zero_sym_cap, cap_crypto_handler = Some 0\<rparr>"

definition cbc_session :: "unit SESSION" where
  "cbc_session = (init_session ())\<lparr>caps_list := [cbc_cap_entry]\<rparr>"

text \<open>A machine that inverts every byte, and its crypto module.\<close>

definition invert :: "unit \<Rightarrow> bytes \<Rightarrow> bytes \<times> unit" where
  "invert m x = (map (\<lambda>b. NOT b) x, ())"

definition invert_module :: "unit sym_crypto" where
  "invert_module c stc w =
     (let y = fst (invert () (take (in_len stc) (the (in_buf stc))))
      in (AMVP_SUCCESS, set_out (Some (y @ drop (length y) (the (out_buf stc)))) (in_len stc) stc, w))"

definition cbc_example :: aes_set where
  "cbc_example = \<lparr>as_id = 1, as_mct = True, as_enc = True, as_keylen = 24,
     as_tests = [\<lparr>aq_id = 7, aq_key = replicate 24 1, aq_iv = replicate 16 2, aq_text = replicate 16 3\<rparr>]\<rparr>"

lemma cbc_index: "amvp_lookup_cipher_index (Some ''AMVP-AES-CBC'') = AMVP_AES_CBC"
  by (rule lookup_index_row) (code_simp, simp add: c_string_def)

lemma zero_arrays_shaped: "arrays_shaped zero_arrays"
  by (simp add: arrays_shaped_def zero_arrays_def)

lemma invert_machine: "runs_machine (\<lambda>k iv. ()) invert (\<lambda>w. w) invert_module 0"
  by (simp add: runs_machine_def invert_module_def invert_def Let_def)


section \<open>Modes that authenticate\<close>

lemma new_bytes_Done: "new_bytes al n w = Done b w' \<Longrightarrow> b = replicate n 0"
  by (auto simp: new_bytes_def split: prod.splits if_splits)

text \<open>What the test case holds where the test gave no text: a buffer of zeros.\<close>

lemma aes_init_zeros:
  assumes "amvp_aes_init_tc al p x n c w = Done stc w'"
  shows "ai_iv x = None \<Longrightarrow> sy_iv stc = Some (replicate AMVP_SYM_IV_BYTE_MAX 0)"
    and "ai_tag x = None \<Longrightarrow> sy_tag stc = Some (replicate AMVP_SYM_TAG_BYTE_MAX 0)"
  using assms
  by (auto simp: amvp_aes_init_tc_def andthen_Done_iff aes_iv_def from_hex_if_def split: prod.splits dest!: new_bytes_Done)

text \<open>When the steps that read a member finish.\<close>

lemma reads_Done:
  "reject b rv p s = Done x t \<longleftrightarrow> \<not> b \<and> p s = Done x t"
  "tc_reject b p s = Done x t \<longleftrightarrow> \<not> b \<and> p s = Done x t"
  "as_uint n s = Done m t \<longleftrightarrow> 0 \<le> n \<and> n < 2 ^ 32 \<and> m = nat n \<and> t = s"
  "tc_text obj name mx k s = Done x t \<longleftrightarrow> (\<exists>u. json_object_get_string obj name = Some u \<and> length u \<le> mx \<and> k u s = Done x t)"
  by (auto simp: reject_def tc_reject_def as_uint_def tc_text_def tc_required_def not_less split: option.splits)

lemma tc_uint_Done: "tc_uint obj name k s = Done x t \<Longrightarrow> \<exists>n. k n s = Done x t"
  by (auto simp: tc_uint_def andthen_Done_iff reads_Done)

lemma aes_given_data_Done:
  assumes "aes_given_data c d t s = Done r s'"
  shows "s' = s" "c \<noteq> AMVP_AES_GCM \<Longrightarrow> c \<noteq> AMVP_AES_GMAC \<Longrightarrow> snd (snd r) = None"
  using assms by (auto simp: aes_given_data_def aes_given_text_def andthen_Done_iff reads_Done split: if_splits)

text \<open>What reading the arguments leaves of the flag, and what it gives as vector and tag.\<close>

lemma aes_given_iv_Done:
  assumes "aes_given_iv c p t f = Done iv f1"
  shows "af_readIv f1 = (af_readIv f \<or> aes_sets_readIv c (ap_ivgen p) (ap_dir p))" "af_readIv f1 = (iv \<noteq> None)"
    "af_readIv f1 \<Longrightarrow> json_object_get_string t ''iv'' \<noteq> None"
  using assms by (auto simp: aes_given_iv_def Let_def reads_Done split: if_splits)

lemma aes_test_args_Done:
  assumes "aes_test_args c p t f = Done x f1" and "c \<noteq> AMVP_AES_XTS"
  shows "af_readIv f1 = (af_readIv f \<or> aes_sets_readIv c (ap_ivgen p) (ap_dir p))" "af_readIv f1 = (ai_iv x \<noteq> None)"
    "af_readIv f1 \<Longrightarrow> json_object_get_string t ''iv'' \<noteq> None" "c \<noteq> AMVP_AES_GCM \<Longrightarrow> c \<noteq> AMVP_AES_GMAC \<Longrightarrow> ai_tag x = None"
proof -
  obtain n key where "(andthen (if c = AMVP_AES_CFB1 then tc_uint t ''payloadLen'' (\<lambda>n. tc_reject (n > AMVP_SYM_PT_BIT_MAX) (pass n)) else pass 0) (\<lambda>datalen.
      andthen (aes_given_data c (ap_dir p) t) (\<lambda>(pt, ct, tag).
      andthen (aes_given_iv c p t) (\<lambda>iv.
      andthen (if aes_is_aead c then tc_text t ''aad'' AMVP_SYM_AAD_MAX (\<lambda>t. pass (Some t)) else pass None) (\<lambda>aad.
        pass \<lparr>ai_tc_id = n, ai_key = key, ai_pt = pt, ai_ct = ct, ai_iv = iv, ai_tag = tag, ai_aad = aad,
          ai_salt = (if c = AMVP_AES_XPN \<and> ap_salt_src p = AMVP_SYM_CIPH_SALT_SRC_EXT then json_object_get_string t ''salt'' else None),
          ai_datalen = datalen, ai_dulen = 0, ai_tweak = 0\<rparr>))))) f = Done x f1"
    using assms by (auto simp: aes_test_args_def reads_Done aes_given_tweak_def pass_eq dest!: tc_uint_Done)
  then obtain d f0 iv where given: "aes_given_data c (ap_dir p) t f = Done d f0" "aes_given_iv c p t f0 = Done iv f1" "ai_iv x = iv" "ai_tag x = snd (snd d)"
    by (auto simp: andthen_Done_iff reads_Done tc_uint_def split: if_splits)
  have "f0 = f" by (rule aes_given_data_Done(1) [OF given(1)])
  with given aes_given_iv_Done [of c p t f iv f1] show
    "af_readIv f1 = (af_readIv f \<or> aes_sets_readIv c (ap_ivgen p) (ap_dir p))" "af_readIv f1 = (ai_iv x \<noteq> None)"
    "af_readIv f1 \<Longrightarrow> json_object_get_string t ''iv'' \<noteq> None"
    by blast+
  show "c \<noteq> AMVP_AES_GCM \<Longrightarrow> c \<noteq> AMVP_AES_GMAC \<Longrightarrow> ai_tag x = None"
    using aes_given_data_Done(2) [OF given(1)] given(4) by simp
qed

text \<open>The flag is never cleared: not by the crypto module, not by a Monte Carlo test, not by the next test.\<close>

lemma keeps_readIv_steps [keeps_intros]:
  "keeps af_readIv (on_aes p)" "keeps af_readIv read_arrays" "keeps af_readIv (write_arrays a)"
  by (auto simp: keeps_def on_aes_def read_arrays_def write_arrays_def split: kat.splits)

lemma keeps_copies [keeps_intros]: "keeps P (copy_bytes d m s n)" "keeps P (of_sum r)" "keeps P (of_outcome q)"
  by (auto simp: copy_bytes_def of_sum_def of_outcome_def intro!: keeps_intros split: sum.splits outcome.splits)

lemma keeps_rows [keeps_intros]:
  "keeps P (row_put m rows j s n)" "keeps P (copy_to off buf src n)" "keeps P (byte_at b i)" "keeps P (set_byte b i v)" "keeps P (hex_text b n m)"
  by (auto simp: row_put_def copy_to_def byte_at_def set_byte_def hex_text_def intro!: keeps_intros split: option.splits)

lemma keeps_if [keeps_intros]: "keeps P p \<Longrightarrow> keeps P q \<Longrightarrow> keeps P (if b then p else q)"
  by simp

lemma keeps_pair [keeps_intros]: "(\<And>x y. keeps P (h x y)) \<Longrightarrow> keeps P (case z of (x, y) \<Rightarrow> h x y)"
  by (cases z) simp

lemma keeps_option [keeps_intros]: "keeps P p \<Longrightarrow> (\<And>x. keeps P (h x)) \<Longrightarrow> keeps P (case z of None \<Rightarrow> p | Some x \<Rightarrow> h x)"
  by (cases z) simp_all

lemma keeps_mct_parts [keeps_intros]:
  "keeps P (aes_keep stc a)" "keeps P (aes_feed i stc a)" "keeps P (aes_last_blocks out k c)" "keeps P (aes_mct_chain i stc c a)" "keeps P (aes_next_key stc c a)"
  unfolding aes_keep_def aes_feed_def aes_last_blocks_def aes_mct_chain_def aes_next_key_def Let_def by (intro keeps_intros)+

lemma keeps_iterate [keeps_intros]: "keeps af_readIv (amvp_aes_mct_iterate_tc i stc)"
  unfolding amvp_aes_mct_iterate_tc_def by (intro keeps_intros)

lemma keeps_mct_inner [keeps_intros]: "keeps af_readIv (aes_mct_inner crypto cb i n j stc)"
  by (induction n arbitrary: j stc) (simp_all add: keeps_intros)

lemma keeps_mct_outer [keeps_intros]: "keeps af_readIv (aes_mct_outer al crypto cb n i c stc)"
proof (induction n arbitrary: i c stc)
  case (Suc n)
  show ?case unfolding aes_mct_outer.simps by (intro keeps_intros Suc)
qed (simp add: keeps_intros)

lemma keeps_run_test: "keeps af_readIv (aes_run_test al crypto c cb stc r)"
  unfolding aes_run_test_def amvp_aes_mct_tc_def by (intro keeps_intros)

lemma aes_test_readIv:
  assumes "aes_test al crypto c cb p t f = Done v f1" and "c \<noteq> AMVP_AES_XTS"
  obtains x f0 where "aes_test_args c p t f = Done x f0" "af_readIv f0 \<longrightarrow> af_readIv f1"
proof -
  from assms(1) obtain x f0 stc r f' where "aes_test_args c p t f = Done x f0"
      "on_aes (amvp_aes_init_tc al p x (af_seq_num f0) c) f0 = Done stc f'" "aes_run_test al crypto c cb stc (json_object_set_number ''tcId'' (int (ai_tc_id x)) []) f' = Done r f1"
    unfolding aes_test_def andthen_Done_iff pass_Done kat.inject by blast
  then have "aes_test_args c p t f = Done x f0" "af_readIv f0 \<longrightarrow> af_readIv f1"
    using keepsD [OF keeps_readIv_steps(1)] keepsD [OF keeps_run_test] by metis+
  then show ?thesis by (rule that)
qed

text \<open>
  C22: in a vector set of AES-GCM, once a test has read an initialization vector every later test
  must have one. After a test that decrypts, a test that encrypts with a vector of the module's
  choice, which the server sends without one, is refused, and the handler ends with an error.
\<close>
theorem aes_gcm_vector_required:
  assumes "aes_test al crypto AMVP_AES_GCM cb p t f = Done v f1" and "ap_dir p \<noteq> AMVP_SYM_CIPH_DIR_ENCRYPT"
    and "json_object_get_string t' ''iv'' = None"
  shows "aes_test al crypto AMVP_AES_GCM cb p' t' f1 \<noteq> Done v' f2"
proof
  assume later: "aes_test al crypto AMVP_AES_GCM cb p' t' f1 = Done v' f2"
  obtain x f0 where first: "aes_test_args AMVP_AES_GCM p t f = Done x f0" "af_readIv f0 \<longrightarrow> af_readIv f1" by (rule aes_test_readIv [OF assms(1)]) simp_all
  have "af_readIv f1" using aes_test_args_Done(1) [OF first(1)] first(2) assms(2) by (simp add: aes_sets_readIv_def)
  moreover obtain y f3 where "aes_test_args AMVP_AES_GCM p' t' f1 = Done y f3" by (rule aes_test_readIv [OF later]) simp_all
  ultimately show False using aes_test_args_Done(1,3) [of AMVP_AES_GCM p' t' f1 y f3] assms(3) by simp
qed

text \<open>
  C23: the initialization vector of a test of AES-GCM-SIV is not read. Whatever the test says, the
  test case that goes to the crypto module has a vector of zeros, and so it is for all the tests
  of the vector set.
\<close>
theorem aes_siv_vector_ignored:
  assumes "aes_test_args AMVP_AES_GCM_SIV p t f = Done x f1" and "\<not> af_readIv f"
    and "amvp_aes_init_tc al p x n AMVP_AES_GCM_SIV w = Done stc w'"
  shows "sy_iv stc = Some (replicate AMVP_SYM_IV_BYTE_MAX 0) \<and> \<not> af_readIv f1"
proof -
  have "\<not> af_readIv f1" "ai_iv x = None" using aes_test_args_Done(1,2) [OF assms(1)] assms(2) by (simp_all add: aes_sets_readIv_def)
  then show ?thesis using aes_init_zeros(1) [OF assms(3)] by simp
qed

text \<open>
  C25: the tag of a test of AES-XPN that decrypts is not read: the crypto module gets a tag of
  zeros. And where the crypto module then says that the tag is wrong, the handler ends with an
  error instead of reporting that the test failed.
\<close>
theorem aes_xpn_tag_lost:
  assumes "aes_test_args AMVP_AES_XPN p t f = Done x f1" and "amvp_aes_init_tc al p x n AMVP_AES_XPN w = Done stc w'"
    and "crypto cb stc (af_world f2) = (rv, stc1, w1)" and "rv \<noteq> AMVP_SUCCESS" and "sy_test_type stc \<noteq> AMVP_SYM_TEST_TYPE_MCT"
  shows "sy_tag stc = Some (replicate AMVP_SYM_TAG_BYTE_MAX 0) \<and>
    aes_run_test al crypto AMVP_AES_XPN (Some cb) stc r f2 = Fail AMVP_CRYPTO_MODULE_FAIL (f2\<lparr>af_world := w1\<rparr>)"
proof -
  have "ai_tag x = None" using aes_test_args_Done(4) [OF assms(1)] by simp
  then show ?thesis
    using aes_init_zeros(2) [OF assms(2)] assms(3-5) by (simp add: aes_run_test_def on_aes_def try_crypto_def aes_may_fail_def)
qed

text \<open>Examples: tests with empty texts, and a crypto module that refuses them.\<close>

lemma from_hex_empty: "n < 2 ^ 30 \<Longrightarrow> from_hex al [] (replicate n 0) n w = Done (replicate n 0) w"
  using from_hex_ok [of "[]" n al w] by (simp add: hex_of_def)

lemma new_always: "new_bytes always_memory n w = Done (replicate n 0) w" "new_chars always_memory n w = Done (replicate n NUL) w"
  by (simp_all add: new_bytes_def new_chars_def always_memory_def)

definition empty_test :: "string \<Rightarrow> string option \<Rightarrow> JSON_Object" where
  "empty_test name iv = [(''tcId'', JSONNumber 1), (''key'', JSONString []), (name, JSONString []), (''tag'', JSONString []), (''aad'', JSONString [])] @
     (case iv of None \<Rightarrow> [] | Some v \<Rightarrow> [(''iv'', JSONString v)])"

definition example_params :: "int \<Rightarrow> int \<Rightarrow> aes_params" where
  "example_params dir gen = (aes_params_of zero_sym_cap False cbc_example)\<lparr>ap_dir := dir, ap_type := AMVP_SYM_TEST_TYPE_AFT, ap_ivgen := gen\<rparr>"

definition example_frame :: "unit aes_frame" where
  "example_frame = \<lparr>af_arrays = zero_arrays, af_readIv = False, af_seq_num = 0, af_world = ()\<rparr>"

lemma example_world: "af_world example_frame = ()" "af_seq_num example_frame = 0"
  by (simp_all add: example_frame_def)

definition refuse_module :: "unit sym_crypto" where
  "refuse_module c stc w = (AMVP_CRYPTO_MODULE_FAIL, stc, w)"

definition empty_inputs :: "bool \<Rightarrow> bool \<Rightarrow> bool \<Rightarrow> aes_inputs" where
  "empty_inputs enc iv tag = \<lparr>ai_tc_id = 1, ai_key = [], ai_pt = (if enc then Some [] else None), ai_ct = (if enc then None else Some []),
     ai_iv = (if iv then Some [] else None), ai_tag = (if tag then Some [] else None), ai_aad = Some [], ai_salt = None, ai_datalen = 0, ai_dulen = 0, ai_tweak = 0\<rparr>"

lemma example_init:
  assumes "c \<noteq> AMVP_AES_CBC_CS1" "c \<noteq> AMVP_AES_CBC_CS2" "c \<noteq> AMVP_AES_CBC_CS3"
  shows "\<exists>stc. amvp_aes_init_tc always_memory p (empty_inputs enc iv tag) n c w = Done stc w \<and> sy_cipher stc = c \<and> sy_test_type stc = ap_type p \<and>
    sy_direction stc = ap_dir p \<and> sy_ivgen_source stc = ap_ivgen p"
  using assms
  by (cases enc; cases iv; cases tag; cases "c = AMVP_AES_CFB1"; cases "c = AMVP_AES_CCM")
    (simp_all add: amvp_aes_init_tc_def new_always empty_inputs_def aes_text_def aes_iv_def from_hex_if_def from_hex_empty sym_sizes)

lemma example_members:
  assumes "n = ''pt'' \<or> n = ''ct''" and "obj = Some (empty_test n v)"
  shows "json_object_get_string obj ''key'' = Some []" "json_object_get_number obj ''tcId'' = 1" "json_object_has_value obj ''tcId''"
    "json_object_get_string obj n = Some []" "json_object_get_string obj ''aad'' = Some []" "json_object_get_string obj ''tag'' = Some []"
    "json_object_get_string obj ''iv'' = v"
proof -
  have "json_names (empty_test n v)" using assms(1) by (cases v) (auto simp: empty_test_def aes_known)
  then show "json_object_get_string obj ''key'' = Some []" "json_object_get_number obj ''tcId'' = 1" "json_object_has_value obj ''tcId''"
    "json_object_get_string obj n = Some []" "json_object_get_string obj ''aad'' = Some []" "json_object_get_string obj ''tag'' = Some []"
    "json_object_get_string obj ''iv'' = v"
    using assms by (cases v; auto simp: json_read json_object_has_value_def aes_known assms(2) empty_test_def)+
qed

lemma tc_text_empty: "json_object_get_string obj name = Some [] \<Longrightarrow> tc_text obj name mx k = k []"
  by (simp add: tc_text_def)

text \<open>What the examples read: an authenticated mode that is neither GCM nor GMAC has no tag.\<close>

lemma example_args:
  assumes "c \<in> {AMVP_AES_GCM, AMVP_AES_GCM_SIV, AMVP_AES_XPN}" and "n = (if dir = AMVP_SYM_CIPH_DIR_ENCRYPT then ''pt'' else ''ct'')"
  shows "aes_test_args c (example_params dir gen) (Some (empty_test n (Some []))) example_frame =
    Done (empty_inputs (dir = AMVP_SYM_CIPH_DIR_ENCRYPT) (aes_sets_readIv c gen dir) (c = AMVP_AES_GCM \<and> dir \<noteq> AMVP_SYM_CIPH_DIR_ENCRYPT))
      (example_frame\<lparr>af_readIv := aes_sets_readIv c gen dir\<rparr>)"
proof -
  let ?obj = "Some (empty_test n (Some []))"
  have n: "n = ''pt'' \<or> n = ''ct''" using assms(2) by simp
  note mem = example_members [OF n refl, of "Some []"]
  have uint: "as_uint 1 = (Done 1 :: (_, unit aes_frame) step)" by (simp add: as_uint_def pass_eq)
  have params: "ap_dir (example_params dir gen) = dir" "ap_ivgen (example_params dir gen) = gen" "ap_salt_src (example_params dir gen) = AMVP_SYM_CIPH_SALT_SRC_NA"
    by (simp_all add: example_params_def aes_params_of_def)
  have c: "c \<noteq> AMVP_AES_CFB1" "c \<noteq> AMVP_AES_XTS" "c \<noteq> AMVP_AES_GMAC" "aes_is_aead c" using assms(1) by (auto simp: aes_is_aead_def)
  have data: "aes_given_data c dir ?obj = (Done (if dir = AMVP_SYM_CIPH_DIR_ENCRYPT then Some [] else None, if dir = AMVP_SYM_CIPH_DIR_ENCRYPT then None else Some [],
      if c = AMVP_AES_GCM \<and> dir \<noteq> AMVP_SYM_CIPH_DIR_ENCRYPT then Some [] else None) :: (_, unit aes_frame) step)"
    using assms(2) c(3) mem(4,6) by (cases "dir = AMVP_SYM_CIPH_DIR_ENCRYPT") (simp_all add: aes_given_data_def aes_given_text_def tc_text_empty pass_eq)
  have iv: "aes_given_iv c (example_params dir gen) ?obj example_frame =
      Done (if aes_sets_readIv c gen dir then Some [] else None) (example_frame\<lparr>af_readIv := aes_sets_readIv c gen dir\<rparr>)"
    by (simp add: aes_given_iv_def params tc_text_empty mem(7) example_frame_def)
  show ?thesis
    using c by (simp add: aes_test_args_def tc_uint_def mem(2,3) uint tc_text_empty mem(1,5) params data iv aes_given_tweak_def) (auto simp: empty_inputs_def pass_eq)
qed

theorem aes_gcm_vector_required_witness:
  "\<exists>v f1. aes_test always_memory refuse_module AMVP_AES_GCM (Some 0) (example_params AMVP_SYM_CIPH_DIR_DECRYPT AMVP_SYM_CIPH_IVGEN_SRC_EXT)
       (Some (empty_test ''ct'' (Some []))) example_frame = Done v f1 \<and>
     aes_test always_memory refuse_module AMVP_AES_GCM (Some 0) (example_params AMVP_SYM_CIPH_DIR_ENCRYPT AMVP_SYM_CIPH_IVGEN_SRC_INT)
       (Some (empty_test ''pt'' None)) f1 \<noteq> Done v f1"
proof -
  let ?p = "example_params AMVP_SYM_CIPH_DIR_DECRYPT AMVP_SYM_CIPH_IVGEN_SRC_EXT"
  obtain stc where stc: "amvp_aes_init_tc always_memory ?p (empty_inputs False True True) 0 AMVP_AES_GCM () = Done stc ()"
      "sy_cipher stc = AMVP_AES_GCM" "sy_test_type stc = AMVP_SYM_TEST_TYPE_AFT" "\<not> encrypting stc" "sy_ivgen_source stc = AMVP_SYM_CIPH_IVGEN_SRC_EXT"
    using example_init [of AMVP_AES_GCM ?p False True True 0 "()"] by (auto simp: example_params_def encrypting_def)
  have args: "aes_test_args AMVP_AES_GCM ?p (Some (empty_test ''ct'' (Some []))) example_frame =
      Done (empty_inputs False True True) (example_frame\<lparr>af_readIv := True\<rparr>)"
    using example_args [of AMVP_AES_GCM "''ct''" AMVP_SYM_CIPH_DIR_DECRYPT AMVP_SYM_CIPH_IVGEN_SRC_EXT] by (simp add: aes_sets_readIv_def)
  have "\<exists>v f1. aes_test always_memory refuse_module AMVP_AES_GCM (Some 0) ?p (Some (empty_test ''ct'' (Some []))) example_frame = Done v f1"
    using stc by (simp del: One_nat_def add: aes_test_def args on_aes_def example_world aes_run_test_def try_crypto_def refuse_module_def aes_may_fail_def
        amvp_aes_output_tc_def new_always returns_iv_def aes_output_decrypt_def reports_failure_def)
  then obtain v f1 where "aes_test always_memory refuse_module AMVP_AES_GCM (Some 0) ?p (Some (empty_test ''ct'' (Some []))) example_frame = Done v f1" by blast
  moreover from this have "aes_test always_memory refuse_module AMVP_AES_GCM (Some 0) (example_params AMVP_SYM_CIPH_DIR_ENCRYPT AMVP_SYM_CIPH_IVGEN_SRC_INT)
       (Some (empty_test ''pt'' None)) f1 \<noteq> Done v f1"
    by (rule aes_gcm_vector_required) (simp_all add: example_params_def example_members [OF _ refl])
  ultimately show ?thesis by blast
qed

theorem aes_siv_vector_ignored_witness:
  "\<exists>x f1 stc. aes_test_args AMVP_AES_GCM_SIV (example_params AMVP_SYM_CIPH_DIR_ENCRYPT AMVP_SYM_CIPH_IVGEN_SRC_NA) (Some (empty_test ''pt'' (Some []))) example_frame = Done x f1 \<and>
     amvp_aes_init_tc always_memory (example_params AMVP_SYM_CIPH_DIR_ENCRYPT AMVP_SYM_CIPH_IVGEN_SRC_NA) x 0 AMVP_AES_GCM_SIV () = Done stc () \<and>
     sy_iv stc = Some (replicate AMVP_SYM_IV_BYTE_MAX 0) \<and> \<not> af_readIv f1"
proof -
  let ?p = "example_params AMVP_SYM_CIPH_DIR_ENCRYPT AMVP_SYM_CIPH_IVGEN_SRC_NA"
  have args: "aes_test_args AMVP_AES_GCM_SIV ?p (Some (empty_test ''pt'' (Some []))) example_frame = Done (empty_inputs True False False) (example_frame\<lparr>af_readIv := False\<rparr>)"
    using example_args [of AMVP_AES_GCM_SIV "''pt''" AMVP_SYM_CIPH_DIR_ENCRYPT AMVP_SYM_CIPH_IVGEN_SRC_NA] by (simp add: aes_sets_readIv_def)
  moreover obtain stc where stc: "amvp_aes_init_tc always_memory ?p (empty_inputs True False False) 0 AMVP_AES_GCM_SIV () = Done stc ()"
    using example_init [of AMVP_AES_GCM_SIV ?p True False False 0 "()"] by auto
  moreover have "sy_iv stc = Some (replicate AMVP_SYM_IV_BYTE_MAX 0) \<and> \<not> af_readIv (example_frame\<lparr>af_readIv := False\<rparr>)"
    by (rule aes_siv_vector_ignored [OF args _ stc]) (simp add: example_frame_def)
  ultimately show ?thesis by blast
qed

theorem aes_xpn_tag_lost_witness:
  "\<exists>x f1 stc. aes_test_args AMVP_AES_XPN (example_params AMVP_SYM_CIPH_DIR_DECRYPT AMVP_SYM_CIPH_IVGEN_SRC_NA) (Some (empty_test ''ct'' (Some []))) example_frame = Done x f1 \<and>
     amvp_aes_init_tc always_memory (example_params AMVP_SYM_CIPH_DIR_DECRYPT AMVP_SYM_CIPH_IVGEN_SRC_NA) x 0 AMVP_AES_XPN () = Done stc () \<and>
     sy_tag stc = Some (replicate AMVP_SYM_TAG_BYTE_MAX 0) \<and>
     aes_run_test always_memory refuse_module AMVP_AES_XPN (Some 0) stc [] f1 = Fail AMVP_CRYPTO_MODULE_FAIL (f1\<lparr>af_world := ()\<rparr>)"
proof -
  let ?p = "example_params AMVP_SYM_CIPH_DIR_DECRYPT AMVP_SYM_CIPH_IVGEN_SRC_NA" and ?f = "example_frame\<lparr>af_readIv := True\<rparr>"
  have args: "aes_test_args AMVP_AES_XPN ?p (Some (empty_test ''ct'' (Some []))) example_frame = Done (empty_inputs False True False) ?f"
    using example_args [of AMVP_AES_XPN "''ct''" AMVP_SYM_CIPH_DIR_DECRYPT AMVP_SYM_CIPH_IVGEN_SRC_NA] by (simp add: aes_sets_readIv_def)
  moreover obtain stc where stc: "amvp_aes_init_tc always_memory ?p (empty_inputs False True False) 0 AMVP_AES_XPN () = Done stc ()"
      "sy_test_type stc = AMVP_SYM_TEST_TYPE_AFT"
    using example_init [of AMVP_AES_XPN ?p False True False 0 "()"] by (auto simp: example_params_def)
  moreover have refused: "refuse_module 0 stc (af_world ?f) = (AMVP_CRYPTO_MODULE_FAIL, stc, ())" by (simp add: refuse_module_def)
  have "sy_tag stc = Some (replicate AMVP_SYM_TAG_BYTE_MAX 0) \<and>
     aes_run_test always_memory refuse_module AMVP_AES_XPN (Some 0) stc [] ?f = Fail AMVP_CRYPTO_MODULE_FAIL (?f\<lparr>af_world := ()\<rparr>)"
    by (rule aes_xpn_tag_lost [where crypto = refuse_module and cb = 0, OF args stc(1) refused]) (use stc(2) in simp_all)
  ultimately show ?thesis by blast
qed

section \<open>Long texts in Monte Carlo tests\<close>


definition long_test :: AMVP_SYM_CIPHER_TC where
  "long_test = \<lparr>sy_cipher = AMVP_AES_ECB, sy_conformance = 0, sy_test_type = AMVP_SYM_TEST_TYPE_MCT, sy_direction = AMVP_SYM_CIPH_DIR_ENCRYPT,
     sy_ivgen_source = 0, sy_ivgen_mode = 0, sy_salt_source = 0, sy_tc_id = 1, sy_key = None, sy_pt = Some (replicate AMVP_SYM_PT_BYTE_MAX 0), sy_aad = None,
     sy_iv = None, sy_ct = Some (replicate AMVP_SYM_CT_BYTE_MAX 0), sy_tag = None, sy_iv_ret = None, sy_iv_ret_after = None, sy_salt = None, sy_kwcipher = 0,
     sy_tw_mode = 0, sy_seq_num = 0, sy_key_len = 128, sy_pt_len = 48, sy_data_len = 0, sy_aad_len = 0, sy_iv_len = 0, sy_ct_len = 48, sy_tag_len = 0,
     sy_salt_len = 0, sy_mct_index = 999, sy_incr_ctr = 0, sy_ovrflw_ctr = 0, sy_keyingOption = 0, sy_data_unit_len = 0\<rparr>"


end
