(* ===== verification/Kat_Frames.thy ===== *)
theory Kat_Frames
  imports Kat_Common
begin

text \<open>
  What the handlers of key derivation, signatures and key agreement share: the prologue that
  finds the capability by algorithm and mode, the run of one test case, fields and texts, and
  the rule that an answer names the groups and tests of the request, in their order.
\<close>

section \<open>Prologues\<close>

text \<open>
  The handlers differ in the codes they return for what is missing, in the ciphers they accept
  and in what they add to the object of the vector set.
\<close>

record kat_rules =
  kr_no_obj :: AMVP_RESULT
  kr_no_alg :: AMVP_RESULT
  kr_no_mode :: AMVP_RESULT
  kr_accepts :: "AMVP_CIPHER \<Rightarrow> bool"
  kr_extra :: "string \<Rightarrow> JSON_Object \<Rightarrow> JSON_Object"
  kr_no_groups :: "AMVP_RESULT option"

definition plain_rules :: "AMVP_CIPHER \<Rightarrow> kat_rules" where
  "plain_rules cipher =
     \<lparr>kr_no_obj = AMVP_MALFORMED_JSON, kr_no_alg = AMVP_MALFORMED_JSON, kr_no_mode = AMVP_MALFORMED_JSON, kr_accepts = (\<lambda>c. c = cipher),
       kr_extra = (\<lambda>_ r. r), kr_no_groups = None\<rparr>"

definition echo_mode :: "string \<Rightarrow> JSON_Object \<Rightarrow> JSON_Object" where
  "echo_mode mode_str = json_object_set_string ''mode'' (Some mode_str)"

definition with_cap ::
  "kat_rules \<Rightarrow> ('w \<Rightarrow> 's) \<Rightarrow> ('s \<Rightarrow> 'w) \<Rightarrow> (AMVP_CIPHER \<Rightarrow> AMVP_CAPS_LIST \<Rightarrow> JSON_Object option \<Rightarrow> (JSON_Value, 's) step) \<Rightarrow>
   AMVP_CIPHER \<Rightarrow> string \<Rightarrow> string \<Rightarrow> JSON_Object option \<Rightarrow> 'w SESSION \<Rightarrow> 'w SESSION outcome" where
  "with_cap rules enter leave do_group alg_id alg_str mode_str obj ctx =
     (if \<not> kr_accepts rules alg_id then Ret AMVP_INVALID_ARG ctx
      else case amvp_locate_cap_entry (Some ctx) alg_id of
        None \<Rightarrow> Ret AMVP_UNSUPPORTED_OP ctx
      | Some cap \<Rightarrow> kat_answer enter leave (kr_extra rules mode_str) (kr_no_groups rules) (do_group alg_id cap) alg_str obj ctx)"

definition moded_frame ::
  "kat_rules \<Rightarrow> ('w \<Rightarrow> 's) \<Rightarrow> ('s \<Rightarrow> 'w) \<Rightarrow> (AMVP_CIPHER \<Rightarrow> AMVP_CAPS_LIST \<Rightarrow> JSON_Object option \<Rightarrow> (JSON_Value, 's) step) \<Rightarrow>
   JSON_Object option \<Rightarrow> 'w SESSION option \<Rightarrow> 'w SESSION option outcome" where
  "moded_frame rules enter leave do_group obj octx =
     with_ctx octx (\<lambda>ctx.
       if obj = None then Ret (kr_no_obj rules) ctx
       else case json_object_get_string obj ''algorithm'' of
         None \<Rightarrow> Ret (kr_no_alg rules) ctx
       | Some alg_str \<Rightarrow>
           (case json_object_get_string obj ''mode'' of
              None \<Rightarrow> Ret (kr_no_mode rules) ctx
            | Some mode_str \<Rightarrow>
                with_cap rules enter leave do_group (amvp_lookup_cipher_w_mode_index (Some alg_str) (Some mode_str))
                  alg_str mode_str obj ctx))"

text \<open>Two handlers go by the name of the algorithm alone.\<close>

definition named_frame ::
  "kat_rules \<Rightarrow> ('w \<Rightarrow> 's) \<Rightarrow> ('s \<Rightarrow> 'w) \<Rightarrow> (AMVP_CIPHER \<Rightarrow> AMVP_CAPS_LIST \<Rightarrow> JSON_Object option \<Rightarrow> (JSON_Value, 's) step) \<Rightarrow>
   JSON_Object option \<Rightarrow> 'w SESSION option \<Rightarrow> 'w SESSION option outcome" where
  "named_frame rules enter leave do_group obj octx =
     with_ctx octx (\<lambda>ctx.
       case json_object_get_string obj ''algorithm'' of
         None \<Rightarrow> Ret (kr_no_alg rules) ctx
       | Some alg_str \<Rightarrow> with_cap rules enter leave do_group (amvp_lookup_cipher_index (Some alg_str)) alg_str [] obj ctx)"

text \<open>
  A handler with variables that survive from one group to the next works on pairs of them and
  the world.
\<close>

definition on_snd :: "('a, 'w) step \<Rightarrow> ('a, 'v \<times> 'w) step" where
  "on_snd p s = (case p (snd s) of Done x w \<Rightarrow> Done x (fst s, w) | Fail rv w \<Rightarrow> Fail rv (fst s, w) | Undef u \<Rightarrow> Undef u)"

definition get_local :: "('v, 'v \<times> 'w) step" where
  "get_local s = Done (fst s) s"

definition put_local :: "'v \<Rightarrow> (unit, 'v \<times> 'w) step" where
  "put_local v s = Done () (v, snd s)"

section \<open>Fields\<close>

definition int_field :: "JSON_Object option \<Rightarrow> string \<Rightarrow> (int \<Rightarrow> ('a, 's) step) \<Rightarrow> ('a, 's) step" where
  "int_field obj name k = andthen (as_int (json_object_get_number obj name)) k"

definition uint_field :: "JSON_Object option \<Rightarrow> string \<Rightarrow> (nat \<Rightarrow> ('a, 's) step) \<Rightarrow> ('a, 's) step" where
  "uint_field obj name k = andthen (as_uint (json_object_get_number obj name)) k"

definition text_field :: "JSON_Object option \<Rightarrow> string \<Rightarrow> (string \<Rightarrow> ('a, 's) step) \<Rightarrow> ('a, 's) step" where
  "text_field obj name k = required (json_object_get_string obj name) k"

text \<open>A word that a function of the handler reads as an enumerator, 0 when it is unknown.\<close>

definition word_field ::
  "JSON_Object option \<Rightarrow> string \<Rightarrow> AMVP_RESULT \<Rightarrow> (string option \<Rightarrow> int) \<Rightarrow> (int \<Rightarrow> ('a, 's) step) \<Rightarrow> ('a, 's) step" where
  "word_field obj name rv rd k = text_field obj name (\<lambda>t. reject (rd (Some t) = 0) rv (k (rd (Some t))))"

text \<open>
  A function that compares a text with one literal after another; the comparison result
  starts at \<open>ind\<close> and the length given with a literal is that of the literal.
\<close>

definition read_literal :: "int \<Rightarrow> (int \<times> string) list \<Rightarrow> string option \<Rightarrow> int" where
  "read_literal ind tbl str = (case find_by_name length ind tbl str of None \<Rightarrow> 0 | Some v \<Rightarrow> v)"

text \<open>The number of a test, which most handlers require.\<close>

definition with_tcId :: "JSON_Object option \<Rightarrow> bool \<Rightarrow> (nat \<Rightarrow> ('a, 's) step) \<Rightarrow> ('a, 's) step" where
  "with_tcId testobj need k =
     uint_field testobj ''tcId'' (\<lambda>tc_id. reject (need \<and> tc_id = 0) AMVP_MISSING_ARG (k tc_id))"

section \<open>Buffers and texts\<close>

text \<open>A buffer that is allocated and filled from a text, with the length that was read or without it.\<close>

definition new_hex :: "'w allocator \<Rightarrow> nat \<Rightarrow> string \<Rightarrow> (bytes, 'w) step" where
  "new_hex al n s = andthen (new_bytes al n) (\<lambda>b. from_hex al s b n)"

definition new_hex_len :: "'w allocator \<Rightarrow> nat \<Rightarrow> string \<Rightarrow> (bytes \<times> nat, 'w) step" where
  "new_hex_len al n s = andthen (new_bytes al n) (\<lambda>b. from_hex_len al s b n)"

text \<open>
  Bytes as the members of an answer, one after the other, through one text buffer of
  \<open>mx + 1\<close> characters that is cleared in between.
\<close>

definition hex_member :: "nat \<Rightarrow> string \<Rightarrow> bytes option \<Rightarrow> int \<Rightarrow> JSON_Object \<Rightarrow> (JSON_Object, 's) step" where
  "hex_member mx name bs len rsp =
     andthen (of_outcome (amvp_bin_to_hexstr bs len (Some (replicate (mx + 1) NUL)) (int mx)))
       (\<lambda>t. pass (json_object_set_string name (Some (cstr (the t))) rsp))"

primrec hex_members :: "nat \<Rightarrow> (string \<times> bytes option \<times> int) list \<Rightarrow> JSON_Object \<Rightarrow> (JSON_Object, 's) step" where
  "hex_members mx [] rsp = pass rsp"
| "hex_members mx (p # ps) rsp = andthen (hex_member mx (fst p) (fst (snd p)) (snd (snd p)) rsp) (hex_members mx ps)"

text \<open>An \<^verbatim>\<open>int\<close> of bits as bytes: C divides towards zero.\<close>

definition quot8 :: "int \<Rightarrow> int" where
  "quot8 n = sgn n * (\<bar>n\<bar> div 8)"

text \<open>A string buffer whose allocation is not checked; a failure leaves a null pointer.\<close>

definition unchecked_chars :: "'w allocator \<Rightarrow> nat \<Rightarrow> (char list option, 'w) step" where
  "unchecked_chars al n w = (case al w of (ok, w') \<Rightarrow> Done (if ok then Some (replicate n NUL) else None) w')"

definition hex_through :: "char list option \<Rightarrow> nat \<Rightarrow> string \<Rightarrow> bytes option \<Rightarrow> int \<Rightarrow> JSON_Object \<Rightarrow> (JSON_Object, 's) step" where
  "hex_through tmp mx name bs len rsp =
     andthen (of_outcome (amvp_bin_to_hexstr bs len tmp (int mx))) (\<lambda>t. pass (json_object_set_string name (Some (cstr (the t))) rsp))"

text \<open>An error that is dropped: what comes after goes on with the object as it was.\<close>

definition dropping_error :: "'a \<Rightarrow> ('a, 's) step \<Rightarrow> ('a, 's) step" where
  "dropping_error x p s = (case p s of Fail rv t \<Rightarrow> Done x t | r \<Rightarrow> r)"

text \<open>When these conversions succeed.\<close>

lemma new_hex_ok:
  assumes "\<forall>w. fst (al w)" and "length bs \<le> n" and "n \<le> 131072"
  obtains w' where "new_hex al n (hex_of bs) w = Done (bs @ replicate (n - length bs) 0) w'"
proof -
  obtain w' where "new_bytes al n w = Done (replicate n 0) w'" using new_bytes_ok [OF assms(1)] .
  then have "new_hex al n (hex_of bs) w = Done (bs @ replicate (n - length bs) 0) w'"
    using assms(2,3) from_hex_ok [of bs n al w'] by (simp add: new_hex_def AMVP_HEXSTR_MAX_def)
  then show ?thesis by (rule that)
qed

lemma new_hex_len_ok:
  assumes "\<forall>w. fst (al w)" and "length bs \<le> n" and "n \<le> 131072"
  obtains w' where "new_hex_len al n (hex_of bs) w = Done (bs @ replicate (n - length bs) 0, length bs) w'"
proof -
  obtain w' where "new_bytes al n w = Done (replicate n 0) w'" using new_bytes_ok [OF assms(1)] .
  moreover have "wrap32 (2 * int n) = 2 * int n" using assms(3) by (intro wrap32_id) (simp add: is_int32_def)
  then have "amvp_hexstr_to_bin (Some (hex_of bs)) (Some (replicate n 0)) (int n) (Some 0) =
      Ret AMVP_SUCCESS (Some (bs @ replicate (n - length bs) 0), Some (int (length bs)))"
    using assms(2,3) hex_to_bin_loop_eq [of 0 bs "replicate n 0"]
    by (simp add: amvp_hexstr_to_bin_def Let_def min_def AMVP_HEXSTR_MAX_def)
  ultimately have "new_hex_len al n (hex_of bs) w = Done (bs @ replicate (n - length bs) 0, length bs) w'"
    by (simp add: new_hex_len_def from_hex_len_def)
  then show ?thesis by (rule that)
qed

lemma hex_member_ok:
  assumes "n \<le> length bs" and "2 * n \<le> mx" and "n < 2 ^ 30"
  shows "hex_member mx name (Some bs) (int n) r w = Done (json_object_set_string name (Some (hex_of (take n bs))) r) w"
proof -
  have wr: "wrap32 (int n * 2) = int n * 2" using assms(3) by (intro wrap32_id) (simp add: is_int32_def)
  have "bin_to_hex_loop n bs 0 (replicate (mx + 1) NUL) = Inr (hex_of (take n bs) @ NUL # drop (2 * n + 1) (replicate (mx + 1) NUL))"
    using assms(1,2) bin_to_hex_loop_eq [of "take n bs" n 0 "replicate (mx + 1) NUL"] by (simp add: bin_to_hex_loop_take [of n bs] min_def)
  moreover have "cstr (hex_of (take n bs) @ NUL # t) = hex_of (take n bs)" for t
    by (rule cstr_append_NUL [OF hex_of_c_string])
  ultimately show ?thesis using assms(2) wr by (simp add: hex_member_def amvp_bin_to_hexstr_def)
qed

lemma hex_member_too_long:
  assumes "2 * n > mx" and "n < 2 ^ 30"
  shows "hex_member mx name bs (int n) r w = Fail AMVP_CONVERT_DATA_ERR w"
proof -
  have "wrap32 (int n * 2) = int n * 2" using assms(2) by (intro wrap32_id) (simp add: is_int32_def)
  then show ?thesis using assms(1) by (auto simp: hex_member_def amvp_bin_to_hexstr_def split: option.splits)
qed

section \<open>One test case\<close>

definition run_case ::
  "('tc, 's) step \<Rightarrow> ('tc \<Rightarrow> ('tc, 's) step) \<Rightarrow> ('tc \<Rightarrow> JSON_Object \<Rightarrow> (JSON_Object, 's) step) \<Rightarrow> int \<Rightarrow> (JSON_Value, 's) step" where
  "run_case init crypto output tc_id =
     andthen init (\<lambda>stc.
     andthen (crypto stc) (\<lambda>stc1.
     andthen (output stc1 (json_object_set_number ''tcId'' tc_id [])) (\<lambda>r_tobj.
       pass (JSONObject r_tobj))))"

definition answer_group :: "int \<Rightarrow> JSON_Object option \<Rightarrow> (JSON_Object option \<Rightarrow> (JSON_Value, 's) step) \<Rightarrow> (JSON_Value, 's) step" where
  "answer_group tgId groupobj do_test = andthen (each_test groupobj do_test) (\<lambda>tests. pass (group_rsp tgId tests))"

section \<open>Answers in the order of the request\<close>

text \<open>The numbers of the groups of a vector set, each with the numbers of its tests.\<close>

definition test_number :: "JSON_Object option \<Rightarrow> int" where
  "test_number testobj = json_object_get_number testobj ''tcId''"

definition group_shape :: "JSON_Object option \<Rightarrow> int \<times> int list" where
  "group_shape groupobj =
     (json_object_get_number groupobj ''tgId'',
      map (\<lambda>v. test_number (json_value_get_object (Some v))) (case json_object_get_array groupobj ''tests'' of None \<Rightarrow> [] | Some a \<Rightarrow> a))"

definition set_shape :: "JSON_Object option \<Rightarrow> (int \<times> int list) list" where
  "set_shape obj =
     map (\<lambda>v. group_shape (json_value_get_object (Some v))) (case json_object_get_array obj ''testGroups'' of None \<Rightarrow> [] | Some a \<Rightarrow> a)"

definition answered_in_order :: "JSON_Object option \<Rightarrow> 'w SESSION \<Rightarrow> bool" where
  "answered_in_order obj ctx \<longleftrightarrow>
     (\<exists>r. kat_resp ctx = Some (JSONArray [JSONObject r]) \<and> set_shape (Some r) = set_shape obj)"

named_theorems yields_intros \<open>rules for what steps finish with\<close>

definition yields :: "('a \<Rightarrow> bool) \<Rightarrow> ('a, 's) step \<Rightarrow> bool" where
  "yields P p \<longleftrightarrow> (\<forall>s. case p s of Done x t \<Rightarrow> P x | Fail rv t \<Rightarrow> rv \<noteq> AMVP_SUCCESS | Undef u \<Rightarrow> True)"

abbreviation (input) honest :: "('a, 's) step \<Rightarrow> bool" where
  "honest \<equiv> yields (\<lambda>_. True)"

text \<open>A step that never finishes with a value, and never ends with success either.\<close>

abbreviation (input) refuses :: "('a, 's) step \<Rightarrow> bool" where
  "refuses \<equiv> yields (\<lambda>_. False)"

lemma yieldsD: "yields P p \<Longrightarrow> p s = Done x t \<Longrightarrow> P x"
  by (auto simp: yields_def dest: spec [of _ s])

lemma honestD: "yields P p \<Longrightarrow> p s = Fail rv t \<Longrightarrow> rv \<noteq> AMVP_SUCCESS"
  by (auto simp: yields_def dest: spec [of _ s])

lemma yields_pass: "P x \<Longrightarrow> yields P (pass x)"
  and yields_Done [simp]: "yields P (Done x) \<longleftrightarrow> P x"
  and yields_Fail [simp]: "yields P (Fail rv) \<longleftrightarrow> rv \<noteq> AMVP_SUCCESS"
  by (simp_all add: yields_def)

lemma honest_pass [yields_intros]: "honest (pass x)"
  by (simp add: yields_def)

lemma yields_basic [yields_intros]: "rv \<noteq> AMVP_SUCCESS \<Longrightarrow> yields P (stop rv)" "yields P (undef u)"
  by (simp_all add: yields_def)

lemma yields_bind: "yields Q p \<Longrightarrow> (\<And>x. Q x \<Longrightarrow> yields P (f x)) \<Longrightarrow> yields P (andthen p f)"
  unfolding yields_def andthen_def by (fastforce split: kat.splits dest: spec)

lemma yields_andthen [yields_intros]: "honest p \<Longrightarrow> (\<And>x. yields P (f x)) \<Longrightarrow> yields P (andthen p f)"
  by (rule yields_bind)

lemma yields_reject [yields_intros]: "rv \<noteq> AMVP_SUCCESS \<Longrightarrow> yields P p \<Longrightarrow> yields P (reject b rv p)"
  by (cases b) (simp_all add: yields_basic)

lemma yields_required [yields_intros]: "(\<And>y. yields P (k y)) \<Longrightarrow> yields P (required x k)"
  by (cases x) (simp_all add: yields_basic)

lemma yields_cases [yields_intros]:
  "yields P a \<Longrightarrow> (\<And>y. yields P (f y)) \<Longrightarrow> yields P (case x of None \<Rightarrow> a | Some y \<Rightarrow> f y)"
  "(b \<Longrightarrow> yields P p) \<Longrightarrow> (\<not> b \<Longrightarrow> yields P q) \<Longrightarrow> yields P (if b then p else q)"
  by (cases x; simp) (cases b; simp)

lemma honest_library [yields_intros]:
  "honest (as_uint n)" "honest (as_int i)" "honest (of_sum r)" "honest (of_outcome q)" "honest (new_bytes al m)" "honest (new_chars al m)"
  "honest (call_crypto crypto cb stc)"
  by (auto simp: yields_def as_uint_def as_int_def of_sum_def of_outcome_def new_bytes_def new_chars_def call_crypto_def
      split: sum.splits outcome.splits option.splits prod.splits)

lemma honest_hex [yields_intros]:
  "honest (from_hex al s b n)" "honest (from_hex_len al s b n)" "honest (from_hex_if al t b n)" "honest (new_hex al n s)" "honest (new_hex_len al n s)"
  "honest (to_hex al bs i n)" "honest (copy_bytes d m e n)" "honest (hex_member mx name bs i r)"
  by (auto simp: from_hex_def from_hex_len_def from_hex_if_def new_hex_def new_hex_len_def to_hex_def copy_bytes_def hex_member_def
      split: option.splits intro!: yields_intros)

lemma honest_hex_members [yields_intros]: "honest (hex_members mx ps r)"
  by (induction ps arbitrary: r) (auto intro!: yields_intros)

lemma honest_local [yields_intros]: "honest get_local" "honest (put_local v)" "honest p \<Longrightarrow> honest (on_snd p)"
  by (auto simp: yields_def get_local_def put_local_def on_snd_def split: kat.splits)

lemma honest_chars [yields_intros]: "honest (unchecked_chars al n)"
  by (simp add: yields_def unchecked_chars_def split: prod.splits)

lemma yields_fields [yields_intros]:
  "(\<And>i. yields P (f i)) \<Longrightarrow> yields P (int_field obj name f)"
  "(\<And>n. yields P (k n)) \<Longrightarrow> yields P (uint_field obj name k)"
  "(\<And>t. yields P (g t)) \<Longrightarrow> yields P (text_field obj name g)"
  "rv \<noteq> AMVP_SUCCESS \<Longrightarrow> (\<And>i. yields P (f i)) \<Longrightarrow> yields P (word_field obj name rv rd f)"
  "(\<And>t. yields P (g t)) \<Longrightarrow> yields P (bounded_text obj name mx g)"
  "(\<And>n. yields P (k n)) \<Longrightarrow> yields P (group_len obj name k)"
  "(\<And>n. yields P (k n)) \<Longrightarrow> yields P (bits_within obj name lo hi e k)"
  "yields P p \<Longrightarrow> yields P (some_tests obj p)"
  by (auto simp: int_field_def uint_field_def text_field_def word_field_def bounded_text_def group_len_def bits_within_def
      some_tests_def intro!: yields_intros)

text \<open>An object of a test that carries the number \<open>n\<close>, and what keeps it.\<close>

definition labelled :: "int \<Rightarrow> JSON_Object \<Rightarrow> bool" where
  "labelled n r \<longleftrightarrow> json_names r \<and> map_of r ''tcId'' = Some (JSONNumber n)"

lemma labelled_new: "labelled n (json_object_set_number ''tcId'' n [])"
  by (simp add: labelled_def json_build json_known)

lemma labelled_set: "labelled n r \<Longrightarrow> json_name name \<Longrightarrow> name \<noteq> ''tcId'' \<Longrightarrow> labelled n (json_object_set_value name v r)"
  by (cases v) (auto simp: labelled_def json_names_set json_set_get, simp add: json_object_set_value_def)

lemma labelled_sets [intro]:
  assumes "labelled n r" and "json_name name" and "name \<noteq> ''tcId''"
  shows "labelled n (json_object_set_string name s r)" "labelled n (json_object_set_boolean name b r)" "labelled n (json_object_set_number name i r)"
  using labelled_set [OF assms] by (simp_all add: json_object_set_string_def json_object_set_boolean_def json_object_set_number_def)

lemma labelled_number: "labelled n r \<Longrightarrow> test_number (Some r) = n"
  by (simp add: labelled_def test_number_def json_object_get_number_def json_value_get_number_def json_object_get_value_eq json_known)

definition keeps_label :: "(JSON_Object \<Rightarrow> (JSON_Object, 's) step) \<Rightarrow> bool" where
  "keeps_label f \<longleftrightarrow> (\<forall>n r. labelled n r \<longrightarrow> yields (labelled n) (f r))"

named_theorems label_intros \<open>rules for the steps that keep the number of a test\<close>

lemma keeps_labelI: "(\<And>n r. labelled n r \<Longrightarrow> yields (labelled n) (f r)) \<Longrightarrow> keeps_label f"
  by (simp add: keeps_label_def)

lemma keeps_labelD: "keeps_label f \<Longrightarrow> labelled n r \<Longrightarrow> yields (labelled n) (f r)"
  by (simp add: keeps_label_def)

lemma keeps_label_pass [label_intros]: "keeps_label pass" "keeps_label Done"
  by (simp_all add: keeps_label_def pass_eq)

lemma keeps_label_stop [label_intros]: "rv \<noteq> AMVP_SUCCESS \<Longrightarrow> keeps_label (\<lambda>r. stop rv)"
  by (simp add: keeps_label_def yields_basic)

lemma keeps_label_andthen [label_intros]: "keeps_label f \<Longrightarrow> keeps_label g \<Longrightarrow> keeps_label (\<lambda>r. andthen (f r) g)"
  unfolding keeps_label_def by (blast intro: yields_bind)

lemma keeps_label_before [label_intros]: "honest p \<Longrightarrow> (\<And>x. keeps_label (f x)) \<Longrightarrow> keeps_label (\<lambda>r. andthen p (\<lambda>x. f x r))"
  by (simp add: keeps_label_def yields_andthen)

lemma keeps_label_reject [label_intros]: "rv \<noteq> AMVP_SUCCESS \<Longrightarrow> keeps_label f \<Longrightarrow> keeps_label (\<lambda>r. reject b rv (f r))"
  by (simp add: keeps_label_def yields_reject)

lemma keeps_label_if [label_intros]: "(b \<Longrightarrow> keeps_label f) \<Longrightarrow> (\<not> b \<Longrightarrow> keeps_label g) \<Longrightarrow> keeps_label (\<lambda>r. if b then f r else g r)"
  by (cases b) simp_all

lemma keeps_label_string [label_intros]:
  "json_name name \<Longrightarrow> name \<noteq> ''tcId'' \<Longrightarrow> keeps_label (\<lambda>r. pass (json_object_set_string name s r))"
  "json_name name \<Longrightarrow> name \<noteq> ''tcId'' \<Longrightarrow> keeps_label (\<lambda>r. pass (json_object_set_boolean name b r))"
  by (auto intro!: keeps_labelI yields_pass)

lemma keeps_label_hex_member [label_intros]:
  "json_name name \<Longrightarrow> name \<noteq> ''tcId'' \<Longrightarrow> keeps_label (hex_member mx name bs len)"
  by (auto simp: hex_member_def intro!: keeps_labelI yields_andthen yields_pass honest_library)

lemma keeps_label_hex_through [label_intros]:
  "json_name name \<Longrightarrow> name \<noteq> ''tcId'' \<Longrightarrow> keeps_label (hex_through tmp mx name bs len)"
  by (auto simp: hex_through_def intro!: keeps_labelI yields_andthen yields_pass honest_library)

lemma keeps_label_on_snd [label_intros]: "keeps_label f \<Longrightarrow> keeps_label (\<lambda>r. on_snd (f r))"
  by (force simp: keeps_label_def yields_def on_snd_def split: kat.splits)

lemma keeps_label_dropping [label_intros]: "keeps_label f \<Longrightarrow> keeps_label (\<lambda>r. dropping_error r (f r))"
  by (force simp: keeps_label_def yields_def dropping_error_def split: kat.splits)

lemma keeps_label_hex_members [label_intros]:
  "list_all (\<lambda>p. json_name (fst p) \<and> fst p \<noteq> ''tcId'') ps \<Longrightarrow> keeps_label (hex_members mx ps :: _ \<Rightarrow> (_, 's) step)"
proof (induction ps)
  case Nil
  then show ?case by (simp add: keeps_label_pass pass_eq)
next
  case (Cons p ps)
  have "keeps_label (\<lambda>r :: JSON_Object. andthen (hex_member mx (fst p) (fst (snd p)) (snd (snd p)) r) (hex_members mx ps) :: (_, 's) step)"
    using Cons by (intro keeps_label_andthen keeps_label_hex_member) auto
  then show ?case by (simp add: keeps_label_def)
qed

text \<open>A step for a test, and one for a group, that names what the request asks for.\<close>

definition answers_test :: "(JSON_Object option \<Rightarrow> (JSON_Value, 's) step) \<Rightarrow> bool" where
  "answers_test f \<longleftrightarrow> (\<forall>testobj. yields (\<lambda>v. \<exists>r. v = JSONObject r \<and> test_number (Some r) = test_number testobj) (f testobj))"

definition answers_group :: "(JSON_Object option \<Rightarrow> (JSON_Value, 's) step) \<Rightarrow> bool" where
  "answers_group f \<longleftrightarrow> (\<forall>groupobj. yields (\<lambda>v. group_shape (json_value_get_object (Some v)) = group_shape groupobj) (f groupobj))"

abbreviation (input) names_test :: "JSON_Object option \<Rightarrow> JSON_Value \<Rightarrow> bool" where
  "names_test testobj v \<equiv> \<exists>r. v = JSONObject r \<and> test_number (Some r) = test_number testobj"

lemma answers_testI: "(\<And>testobj. yields (names_test testobj) (f testobj)) \<Longrightarrow> answers_test f"
  by (simp add: answers_test_def)

lemma yields_as_int: "(is_int32 n \<Longrightarrow> yields P (f n)) \<Longrightarrow> yields P (andthen (as_int n) f)"
  by (auto simp: as_int_def yields_def andthen_def split: kat.splits)

lemma yields_as_uint: "(\<And>k. n = int k \<Longrightarrow> yields P (f k)) \<Longrightarrow> yields P (andthen (as_uint n) f)"
  by (auto simp: as_uint_def yields_def andthen_def pass_eq split: kat.splits)

lemma yields_with_tcId: "(\<And>n. test_number testobj = int n \<Longrightarrow> yields P (k n)) \<Longrightarrow> yields P (with_tcId testobj need k)"
  unfolding with_tcId_def uint_field_def test_number_def by (auto intro!: yields_as_uint yields_reject)

lemma yields_run_case:
  assumes "\<And>stc. keeps_label (output stc)" and "honest init" and "\<And>stc. honest (crypto stc)" and "test_number testobj = n"
  shows "yields (names_test testobj) (run_case init crypto output n)"
proof -
  have "yields (labelled n) (output stc (json_object_set_number ''tcId'' n []))" for stc
    using assms(1) labelled_new by (rule keeps_labelD)
  then have "yields (names_test testobj) (andthen (output stc (json_object_set_number ''tcId'' n [])) (\<lambda>r. pass (JSONObject r)))" for stc
    by (rule yields_bind) (use assms(4) in \<open>auto simp: labelled_number intro!: yields_pass\<close>)
  then show ?thesis unfolding run_case_def by (intro yields_andthen [OF assms(2)] yields_andthen [OF assms(3)])
qed

lemma yields_each:
  assumes "answers_test f"
  shows "yields (\<lambda>ts. map (\<lambda>v. test_number (json_value_get_object (Some v))) ts = map test_number xs) (each f xs)"
proof (induction xs)
  case (Cons x xs)
  have "yields (names_test x) (f x)" using assms by (simp add: answers_test_def)
  then show ?case
    unfolding each.simps
    by (rule yields_bind) (auto intro!: yields_bind [OF Cons.IH] yields_pass simp: json_value_get_object_def)
qed (simp add: yields_pass)

lemma refuses_each:
  assumes "x \<in> set xs" and "refuses (f x)" and "\<And>y. honest (f y)"
  shows "refuses (each f xs)"
  using assms(1)
proof (induction xs)
  case (Cons y ys)
  have "honest (each f zs)" for zs by (induction zs) (auto intro!: yields_intros assms(3))
  then show ?case using Cons assms(2,3) by (auto intro: yields_bind)
qed simp

lemma group_rsp_shape:
  "group_shape (json_value_get_object (Some (group_rsp tgId tests))) = (tgId, map (\<lambda>v. test_number (json_value_get_object (Some v))) tests)"
  by (simp add: group_rsp_def group_shape_def json_read json_build json_known)

lemma yields_answer_group:
  assumes "answers_test f" and "json_object_get_number groupobj ''tgId'' = tgId"
  shows "yields (\<lambda>v. group_shape (json_value_get_object (Some v)) = group_shape groupobj) (answer_group tgId groupobj f)"
  unfolding answer_group_def each_test_def
  by (rule yields_bind [OF yields_each [OF assms(1)]])
    (use assms(2) in \<open>auto simp: group_rsp_shape comp_def intro!: yields_pass, simp add: group_shape_def\<close>)

lemma answers_groupI:
  assumes "\<And>groupobj tgId. json_object_get_number groupobj ''tgId'' = tgId \<Longrightarrow>
    yields (\<lambda>v. group_shape (json_value_get_object (Some v)) = group_shape groupobj) (k groupobj tgId)"
  shows "answers_group (\<lambda>groupobj. with_tgId groupobj (k groupobj))"
  using assms unfolding answers_group_def with_tgId_def by (auto intro!: yields_as_int yields_reject)

lemma honest_each: "(\<And>x. honest (f x)) \<Longrightarrow> honest (each f xs)"
  by (induction xs) (auto intro!: yields_intros)

lemma yields_each_rel: "(\<And>x. yields (R x) (f x)) \<Longrightarrow> yields (list_all2 R xs) (each f xs)"
  by (induction xs) (auto intro!: yields_bind yields_pass)

text \<open>What a handler that returned success has done: a step for every group, each of which finished.\<close>

abbreviation (input) group_objects :: "JSON_Object option \<Rightarrow> JSON_Object option list" where
  "group_objects obj \<equiv> map (\<lambda>v. json_value_get_object (Some v)) (case json_object_get_array obj ''testGroups'' of None \<Rightarrow> [] | Some a \<Rightarrow> a)"

lemma kat_answer_done:
  assumes "kat_answer enter leave extra no_groups do_group alg_str obj ctx = Ret AMVP_SUCCESS ctx'"
    and honest: "\<And>g. honest (do_group g)" and "no_groups \<noteq> Some AMVP_SUCCESS" and extra: "\<And>r. json_names r \<Longrightarrow> json_names (extra r)"
  obtains garr s r where "each do_group (group_objects obj) (enter (world ctx)) = Done garr s"
    and "kat_resp ctx' = Some (JSONArray [JSONObject r])"
    and "set_shape (Some r) = map (\<lambda>v. group_shape (json_value_get_object (Some v))) garr"
proof -
  obtain r0 c0 where su: "amvp_setup_json_rsp_group alg_str ctx = (r0, c0)" by fastforce
  then have names: "json_names (extra r0)" and world: "world c0 = world ctx"
    by (auto simp: amvp_setup_json_rsp_group_def json_object_set_string_def json_object_set_number_def json_known
        intro!: extra json_names_set)
  let ?p = "reject (no_groups \<noteq> None \<and> json_object_get_array obj ''testGroups'' = None) (the no_groups) (each do_group (group_objects obj))"
  have "honest ?p" using assms(3) by (cases no_groups) (auto intro!: yields_reject honest_each honest)
  then have "?p (enter (world c0)) \<noteq> Fail AMVP_SUCCESS t" for t by (blast dest: honestD)
  then obtain garr s where ok: "?p (enter (world c0)) = Done garr s"
    and resp: "kat_resp ctx' = Some (JSONArray [JSONObject (json_object_set_value ''testGroups'' (Some (JSONArray garr)) (extra r0))])"
    using assms(1) su by (cases "?p (enter (world c0))") (auto simp: kat_answer_def Let_def)
  from ok have "each do_group (group_objects obj) (enter (world ctx)) = Done garr s" by (auto simp: reject_def world split: if_splits)
  moreover have "set_shape (Some (json_object_set_value ''testGroups'' (Some (JSONArray garr)) (extra r0))) =
      map (\<lambda>v. group_shape (json_value_get_object (Some v))) garr"
    using names by (simp add: set_shape_def json_read json_known json_names_set json_set_get)
  ultimately show ?thesis using resp that by blast
qed

lemma moded_frame_done:
  assumes "moded_frame rules enter leave do_group obj octx = Ret AMVP_SUCCESS (Some ctx')"
    and "AMVP_SUCCESS \<notin> {kr_no_obj rules, kr_no_alg rules, kr_no_mode rules}"
  obtains alg_id cap alg_str mode_str ctx where "octx = Some ctx"
    and "kat_answer enter leave (kr_extra rules mode_str) (kr_no_groups rules) (do_group alg_id cap) alg_str obj ctx = Ret AMVP_SUCCESS ctx'"
  using assms by (cases octx) (auto simp: moded_frame_def with_cap_def split: option.splits if_splits)

text \<open>The contract of a step for groups, and what follows for the answer of a handler.\<close>

locale answering =
  fixes do_group :: "JSON_Object option \<Rightarrow> (JSON_Value, 's) step"
  assumes group_answered: "answers_group do_group"
begin

lemma groups_in_order:
  "yields (\<lambda>vs. map (\<lambda>v. group_shape (json_value_get_object (Some v))) vs = map group_shape gs) (each do_group gs)"
proof (induction gs)
  case (Cons g gs)
  have "yields (\<lambda>v. group_shape (json_value_get_object (Some v)) = group_shape g) (do_group g)"
    using group_answered by (simp add: answers_group_def)
  then show ?case
    unfolding each.simps by (rule yields_bind) (auto intro!: yields_bind [OF Cons.IH] yields_pass)
qed (simp add: yields_pass)

lemma honest_group: "honest (do_group g)"
  using group_answered by (auto simp: answers_group_def yields_def split: kat.splits)

lemma answer_in_order:
  assumes "kat_answer enter leave extra no_groups do_group alg_str obj ctx = Ret AMVP_SUCCESS ctx'"
    and "no_groups \<noteq> Some AMVP_SUCCESS"
    and "\<And>r. json_names r \<Longrightarrow> json_names (extra r)"
  shows "answered_in_order obj ctx'"
proof -
  obtain garr s r where "each do_group (group_objects obj) (enter (world ctx)) = Done garr s" and "kat_resp ctx' = Some (JSONArray [JSONObject r])"
    and "set_shape (Some r) = map (\<lambda>v. group_shape (json_value_get_object (Some v))) garr"
    by (rule kat_answer_done [OF assms(1) honest_group assms(2,3)])
  moreover from this(1) have "map (\<lambda>v. group_shape (json_value_get_object (Some v))) garr = set_shape obj"
    by (simp add: yieldsD [OF groups_in_order] set_shape_def)
  ultimately show ?thesis by (simp add: answered_in_order_def)
qed

lemma refused_group:
  assumes "json_object_get_array obj ''testGroups'' = Some groups" and "v \<in> set groups" and "refuses (do_group (json_value_get_object (Some v)))"
    and "no_groups \<noteq> Some AMVP_SUCCESS"
  shows "kat_answer enter leave extra no_groups do_group alg_str obj ctx \<noteq> Ret AMVP_SUCCESS ctx'"
proof -
  have "refuses (each do_group (map (\<lambda>v. json_value_get_object (Some v)) groups))"
    using assms(2,3) by (intro refuses_each [OF _ _ honest_group]) auto
  then have "each do_group (map (\<lambda>v. json_value_get_object (Some v)) groups) s \<noteq> Done vs t" "each do_group (map (\<lambda>v. json_value_get_object (Some v)) groups) s \<noteq> Fail AMVP_SUCCESS t" for s t vs
    by (auto dest: yieldsD honestD)
  then show ?thesis using assms(1) by (auto simp: kat_answer_def Let_def split: prod.splits kat.splits)
qed

end

lemma json_names_echo: "json_names r \<Longrightarrow> json_names (echo_mode mode_str r)"
  by (simp add: echo_mode_def json_object_set_string_def json_names_set json_name_def c_string_simps)

text \<open>The contract of a handler: its steps for groups answer, and its rules keep the answer an object.\<close>

locale answering_handler =
  fixes rules :: kat_rules
    and enter :: "'w \<Rightarrow> 's"
    and leave :: "'s \<Rightarrow> 'w"
    and do_group :: "AMVP_CIPHER \<Rightarrow> AMVP_CAPS_LIST \<Rightarrow> JSON_Object option \<Rightarrow> (JSON_Value, 's) step"
  assumes groups_answered: "answers_group (do_group alg_id cap)"
    and refusals: "AMVP_SUCCESS \<notin> {kr_no_obj rules, kr_no_alg rules, kr_no_mode rules}" "kr_no_groups rules \<noteq> Some AMVP_SUCCESS"
    and extra_names: "json_names r \<Longrightarrow> json_names (kr_extra rules mode_str r)"

sublocale answering_handler \<subseteq> group_order: answering "do_group alg_id cap" for alg_id cap
  by unfold_locales (rule groups_answered)

context answering_handler
begin

lemma cap_in_order:
  assumes "with_cap rules enter leave do_group alg_id alg_str mode_str obj ctx = Ret AMVP_SUCCESS ctx'"
  shows "answered_in_order obj ctx'"
  using assms group_order.answer_in_order [OF _ refusals(2) extra_names]
  by (auto simp: with_cap_def split: if_splits option.splits)

lemma moded_refused:
  assumes "json_object_get_array obj ''testGroups'' = Some groups" and "v \<in> set groups"
    and "\<And>alg_id cap. refuses (do_group alg_id cap (json_value_get_object (Some v)))"
  shows "moded_frame rules enter leave do_group obj octx \<noteq> Ret AMVP_SUCCESS octx'"
  using refusals(1)
  by (cases octx) (auto simp: moded_frame_def with_cap_def group_order.refused_group [OF assms refusals(2)] split: option.splits)

lemma moded_in_order:
  assumes "moded_frame rules enter leave do_group obj octx = Ret AMVP_SUCCESS (Some ctx')"
  shows "answered_in_order obj ctx'"
  using assms refusals(1)
  by (auto simp: moded_frame_def with_ctx_def split: option.splits if_splits outcome.splits dest: cap_in_order)

lemma named_in_order:
  assumes "named_frame rules enter leave do_group obj octx = Ret AMVP_SUCCESS (Some ctx')"
  shows "answered_in_order obj ctx'"
  using assms refusals(1)
  by (auto simp: named_frame_def with_ctx_def split: option.splits if_splits outcome.splits dest: cap_in_order)

end

end
