(* ===== verification/Amvp_Limits.thy ===== *)
theory Amvp_Limits
  imports Amvp_Enums
begin

text \<open>
  The limits and enumerators of \<^verbatim>\<open>include/amvp/amvp_lcl.h\<close> and \<^verbatim>\<open>include/amvp/amvp.h\<close> that key
  derivation, signatures, key agreement and their capabilities use. Limits that are lengths of buffers are
  constants, so that nothing unfolds them by accident; enumerators are numerals.
\<close>

section \<open>Limits\<close>

definition AMVP_KEY_LEN_TDES :: nat where "AMVP_KEY_LEN_TDES = 24"
definition AMVP_KEY_LEN_AES128 :: nat where "AMVP_KEY_LEN_AES128 = 16"
definition AMVP_KEY_LEN_AES192 :: nat where "AMVP_KEY_LEN_AES192 = 24"
definition AMVP_KEY_LEN_AES256 :: nat where "AMVP_KEY_LEN_AES256 = 32"
definition AMVP_BLOCK_LEN_TDES :: nat where "AMVP_BLOCK_LEN_TDES = 8"
definition AMVP_BLOCK_LEN_AES128 :: nat where "AMVP_BLOCK_LEN_AES128 = 16"
definition AMVP_BLOCK_LEN_AES192 :: nat where "AMVP_BLOCK_LEN_AES192 = 16"
definition AMVP_BLOCK_LEN_AES256 :: nat where "AMVP_BLOCK_LEN_AES256 = 16"
definition AMVP_SHA1_BYTE_LEN :: nat where "AMVP_SHA1_BYTE_LEN = 20"
definition AMVP_SHA224_BYTE_LEN :: nat where "AMVP_SHA224_BYTE_LEN = 28"
definition AMVP_SHA256_BYTE_LEN :: nat where "AMVP_SHA256_BYTE_LEN = 32"
definition AMVP_SHA384_BYTE_LEN :: nat where "AMVP_SHA384_BYTE_LEN = 48"
definition AMVP_SHA512_BYTE_LEN :: nat where "AMVP_SHA512_BYTE_LEN = 64"
definition AMVP_KDF135_SSH_EKEY_MAX :: nat where "AMVP_KDF135_SSH_EKEY_MAX = 64"
definition AMVP_KDF135_SSH_IKEY_MAX :: nat where "AMVP_KDF135_SSH_IKEY_MAX = 64"
definition AMVP_KDF135_SSH_IV_MAX :: nat where "AMVP_KDF135_SSH_IV_MAX = 64"
definition AMVP_KDF135_SSH_STR_OUT_MAX :: nat where "AMVP_KDF135_SSH_STR_OUT_MAX = 128"
definition AMVP_KDF135_SSH_STR_IN_MAX :: nat where "AMVP_KDF135_SSH_STR_IN_MAX = 4096"
definition AMVP_KDF135_SRTP_KDR_STR_MAX :: nat where "AMVP_KDF135_SRTP_KDR_STR_MAX = 13"
definition AMVP_KDF135_SRTP_MASTER_MAX :: nat where "AMVP_KDF135_SRTP_MASTER_MAX = 65"
definition AMVP_KDF135_SRTP_INDEX_MAX :: nat where "AMVP_KDF135_SRTP_INDEX_MAX = 32"
definition AMVP_KDF135_SRTP_OUTPUT_MAX :: nat where "AMVP_KDF135_SRTP_OUTPUT_MAX = 64"
definition AMVP_KDF135_X942_BIT_MAX :: nat where "AMVP_KDF135_X942_BIT_MAX = 4096"
definition AMVP_KDF135_X942_STR_MAX :: nat where "AMVP_KDF135_X942_STR_MAX = 1024"
definition AMVP_KDF135_X942_BYTE_MAX :: nat where "AMVP_KDF135_X942_BYTE_MAX = 512"
definition AMVP_KDF135_X963_KEYDATA_MAX_CHARS :: nat where "AMVP_KDF135_X963_KEYDATA_MAX_CHARS = 1024"
definition AMVP_KDF135_X963_KEYDATA_MAX_BYTES :: nat where "AMVP_KDF135_X963_KEYDATA_MAX_BYTES = 512"
definition AMVP_KDF135_X963_INPUT_MAX :: nat where "AMVP_KDF135_X963_INPUT_MAX = 128"
definition AMVP_KDF135_SNMP_PASS_LEN_MAX :: nat where "AMVP_KDF135_SNMP_PASS_LEN_MAX = 8192"
definition AMVP_KDF135_SNMP_ENGID_MAX_BYTES :: nat where "AMVP_KDF135_SNMP_ENGID_MAX_BYTES = 32"
definition AMVP_KDF135_SNMP_SKEY_MAX :: nat where "AMVP_KDF135_SNMP_SKEY_MAX = 64"
definition AMVP_KDF135_IKEV1_COOKIE_STR_MAX :: nat where "AMVP_KDF135_IKEV1_COOKIE_STR_MAX = 32"
definition AMVP_KDF135_IKEV1_COOKIE_BYTE_MAX :: nat where "AMVP_KDF135_IKEV1_COOKIE_BYTE_MAX = 16"
definition AMVP_KDF135_IKEV1_SKEY_BYTE_MAX :: nat where "AMVP_KDF135_IKEV1_SKEY_BYTE_MAX = 64"
definition AMVP_KDF135_IKEV1_SKEY_STR_MAX :: nat where "AMVP_KDF135_IKEV1_SKEY_STR_MAX = 128"
definition AMVP_KDF135_IKEV1_INIT_NONCE_BIT_MIN :: nat where "AMVP_KDF135_IKEV1_INIT_NONCE_BIT_MIN = 64"
definition AMVP_KDF135_IKEV1_INIT_NONCE_BIT_MAX :: nat where "AMVP_KDF135_IKEV1_INIT_NONCE_BIT_MAX = 2048"
definition AMVP_KDF135_IKEV1_INIT_NONCE_BYTE_MAX :: nat where "AMVP_KDF135_IKEV1_INIT_NONCE_BYTE_MAX = 256"
definition AMVP_KDF135_IKEV1_INIT_NONCE_STR_MAX :: nat where "AMVP_KDF135_IKEV1_INIT_NONCE_STR_MAX = 512"
definition AMVP_KDF135_IKEV1_RESP_NONCE_BIT_MIN :: nat where "AMVP_KDF135_IKEV1_RESP_NONCE_BIT_MIN = 64"
definition AMVP_KDF135_IKEV1_RESP_NONCE_BIT_MAX :: nat where "AMVP_KDF135_IKEV1_RESP_NONCE_BIT_MAX = 2048"
definition AMVP_KDF135_IKEV1_RESP_NONCE_BYTE_MAX :: nat where "AMVP_KDF135_IKEV1_RESP_NONCE_BYTE_MAX = 256"
definition AMVP_KDF135_IKEV1_RESP_NONCE_STR_MAX :: nat where "AMVP_KDF135_IKEV1_RESP_NONCE_STR_MAX = 512"
definition AMVP_KDF135_IKEV1_DH_SHARED_SECRET_BIT_MIN :: nat where "AMVP_KDF135_IKEV1_DH_SHARED_SECRET_BIT_MIN = 224"
definition AMVP_KDF135_IKEV1_DH_SHARED_SECRET_BIT_MAX :: nat where "AMVP_KDF135_IKEV1_DH_SHARED_SECRET_BIT_MAX = 8192"
definition AMVP_KDF135_IKEV1_DH_SHARED_SECRET_BYTE_MAX :: nat where "AMVP_KDF135_IKEV1_DH_SHARED_SECRET_BYTE_MAX = 1024"
definition AMVP_KDF135_IKEV1_DH_SHARED_SECRET_STR_MAX :: nat where "AMVP_KDF135_IKEV1_DH_SHARED_SECRET_STR_MAX = 2048"
definition AMVP_KDF135_IKEV1_PSK_BIT_MIN :: nat where "AMVP_KDF135_IKEV1_PSK_BIT_MIN = 8"
definition AMVP_KDF135_IKEV1_PSK_BIT_MAX :: nat where "AMVP_KDF135_IKEV1_PSK_BIT_MAX = 8192"
definition AMVP_KDF135_IKEV1_PSK_BYTE_MAX :: nat where "AMVP_KDF135_IKEV1_PSK_BYTE_MAX = 1024"
definition AMVP_KDF135_IKEV1_PSK_STR_MAX :: nat where "AMVP_KDF135_IKEV1_PSK_STR_MAX = 2048"
definition AMVP_KDF135_IKEV2_SPI_STR_MAX :: nat where "AMVP_KDF135_IKEV2_SPI_STR_MAX = 32"
definition AMVP_KDF135_IKEV2_SPI_BYTE_MAX :: nat where "AMVP_KDF135_IKEV2_SPI_BYTE_MAX = 16"
definition AMVP_KDF135_IKEV2_SKEY_SEED_BYTE_MAX :: nat where "AMVP_KDF135_IKEV2_SKEY_SEED_BYTE_MAX = 64"
definition AMVP_KDF135_IKEV2_SKEY_SEED_STR_MAX :: nat where "AMVP_KDF135_IKEV2_SKEY_SEED_STR_MAX = 128"
definition AMVP_KDF135_IKEV2_INIT_NONCE_BIT_MIN :: nat where "AMVP_KDF135_IKEV2_INIT_NONCE_BIT_MIN = 64"
definition AMVP_KDF135_IKEV2_INIT_NONCE_BIT_MAX :: nat where "AMVP_KDF135_IKEV2_INIT_NONCE_BIT_MAX = 2048"
definition AMVP_KDF135_IKEV2_INIT_NONCE_BYTE_MAX :: nat where "AMVP_KDF135_IKEV2_INIT_NONCE_BYTE_MAX = 256"
definition AMVP_KDF135_IKEV2_RESP_NONCE_BIT_MIN :: nat where "AMVP_KDF135_IKEV2_RESP_NONCE_BIT_MIN = 64"
definition AMVP_KDF135_IKEV2_RESP_NONCE_BIT_MAX :: nat where "AMVP_KDF135_IKEV2_RESP_NONCE_BIT_MAX = 2048"
definition AMVP_KDF135_IKEV2_RESP_NONCE_BYTE_MAX :: nat where "AMVP_KDF135_IKEV2_RESP_NONCE_BYTE_MAX = 256"
definition AMVP_KDF135_IKEV2_DH_SHARED_SECRET_BIT_MIN :: nat where "AMVP_KDF135_IKEV2_DH_SHARED_SECRET_BIT_MIN = 224"
definition AMVP_KDF135_IKEV2_DH_SHARED_SECRET_BIT_MAX :: nat where "AMVP_KDF135_IKEV2_DH_SHARED_SECRET_BIT_MAX = 8192"
definition AMVP_KDF135_IKEV2_DH_SHARED_SECRET_BYTE_MAX :: nat where "AMVP_KDF135_IKEV2_DH_SHARED_SECRET_BYTE_MAX = 1024"
definition AMVP_KDF135_IKEV2_DH_SHARED_SECRET_STR_MAX :: nat where "AMVP_KDF135_IKEV2_DH_SHARED_SECRET_STR_MAX = 2048"
definition AMVP_KDF135_IKEV2_DKEY_MATERIAL_BIT_MIN :: nat where "AMVP_KDF135_IKEV2_DKEY_MATERIAL_BIT_MIN = 160"
definition AMVP_KDF135_IKEV2_DKEY_MATERIAL_BIT_MAX :: nat where "AMVP_KDF135_IKEV2_DKEY_MATERIAL_BIT_MAX = 16384"
definition AMVP_KDF135_IKEV2_DKEY_MATERIAL_BYTE_MAX :: nat where "AMVP_KDF135_IKEV2_DKEY_MATERIAL_BYTE_MAX = 2048"
definition AMVP_KDF135_IKEV2_DKEY_MATERIAL_STR_MAX :: nat where "AMVP_KDF135_IKEV2_DKEY_MATERIAL_STR_MAX = 4096"
definition AMVP_KDF108_KEYOUT_BIT_MAX :: nat where "AMVP_KDF108_KEYOUT_BIT_MAX = 4096"
definition AMVP_KDF108_KEYOUT_BYTE_MAX :: nat where "AMVP_KDF108_KEYOUT_BYTE_MAX = 512"
definition AMVP_KDF108_KEYOUT_STR_MAX :: nat where "AMVP_KDF108_KEYOUT_STR_MAX = 1024"
definition AMVP_KDF108_KEYIN_STR_MAX :: nat where "AMVP_KDF108_KEYIN_STR_MAX = 1024"
definition AMVP_KDF108_IV_STR_MAX :: nat where "AMVP_KDF108_IV_STR_MAX = 128"
definition AMVP_KDF108_FIXED_DATA_BYTE_MAX :: nat where "AMVP_KDF108_FIXED_DATA_BYTE_MAX = 64"
definition AMVP_KDF108_FIXED_DATA_STR_MAX :: nat where "AMVP_KDF108_FIXED_DATA_STR_MAX = 128"
definition AMVP_PBKDF_ITERATION_MIN :: nat where "AMVP_PBKDF_ITERATION_MIN = 1"
definition AMVP_PBKDF_ITERATION_MAX :: nat where "AMVP_PBKDF_ITERATION_MAX = 10000000"
definition AMVP_PBKDF_KEY_BIT_MIN :: nat where "AMVP_PBKDF_KEY_BIT_MIN = 112"
definition AMVP_PBKDF_KEY_BIT_MAX :: nat where "AMVP_PBKDF_KEY_BIT_MAX = 4096"
definition AMVP_PBKDF_KEY_BYTE_MIN :: nat where "AMVP_PBKDF_KEY_BYTE_MIN = 14"
definition AMVP_PBKDF_KEY_BYTE_MAX :: nat where "AMVP_PBKDF_KEY_BYTE_MAX = 512"
definition AMVP_PBKDF_KEY_STR_MAX :: nat where "AMVP_PBKDF_KEY_STR_MAX = 1024"
definition AMVP_PBKDF_PASS_LEN_MIN :: nat where "AMVP_PBKDF_PASS_LEN_MIN = 8"
definition AMVP_PBKDF_PASS_LEN_MAX :: nat where "AMVP_PBKDF_PASS_LEN_MAX = 128"
definition AMVP_PBKDF_SALT_LEN_STR_MAX :: nat where "AMVP_PBKDF_SALT_LEN_STR_MAX = 1024"
definition AMVP_KDF_TLS12_MSG_MAX :: nat where "AMVP_KDF_TLS12_MSG_MAX = 4096"
definition AMVP_KDF_TLS13_DATA_LEN_STR_MAX :: nat where "AMVP_KDF_TLS13_DATA_LEN_STR_MAX = 1024"
definition AMVP_KDF_TLS13_DATA_LEN_BYTE_MAX :: nat where "AMVP_KDF_TLS13_DATA_LEN_BYTE_MAX = 512"
definition AMVP_ECDSA_EXP_LEN_MAX :: nat where "AMVP_ECDSA_EXP_LEN_MAX = 512"
definition AMVP_ECDSA_MSGLEN_MAX :: nat where "AMVP_ECDSA_MSGLEN_MAX = 8192"
definition AMVP_KAS_IFC_BYTE_MAX :: nat where "AMVP_KAS_IFC_BYTE_MAX = 2048"
definition AMVP_KAS_IFC_STR_MAX :: nat where "AMVP_KAS_IFC_STR_MAX = 4096"
definition AMVP_KTS_IFC_BYTE_MAX :: nat where "AMVP_KTS_IFC_BYTE_MAX = 768"
definition AMVP_KTS_IFC_STR_MAX :: nat where "AMVP_KTS_IFC_STR_MAX = 1536"
definition AMVP_KAS_FFC_BYTE_MAX :: nat where "AMVP_KAS_FFC_BYTE_MAX = 2048"
definition AMVP_KAS_FFC_STR_MAX :: nat where "AMVP_KAS_FFC_STR_MAX = 4096"
definition AMVP_SAFE_PRIMES_BYTE_MAX :: nat where "AMVP_SAFE_PRIMES_BYTE_MAX = 2048"
definition AMVP_SAFE_PRIMES_STR_MAX :: nat where "AMVP_SAFE_PRIMES_STR_MAX = 4096"
definition AMVP_KAS_ECC_BYTE_MAX :: nat where "AMVP_KAS_ECC_BYTE_MAX = 512"
definition AMVP_KAS_ECC_STR_MAX :: nat where "AMVP_KAS_ECC_STR_MAX = 1024"
definition AMVP_RSA_SEEDLEN_MAX :: nat where "AMVP_RSA_SEEDLEN_MAX = 64"
definition AMVP_RSA_MSGLEN_MAX :: nat where "AMVP_RSA_MSGLEN_MAX = 1024"
definition AMVP_RSA_SIGNATURE_MAX :: nat where "AMVP_RSA_SIGNATURE_MAX = 2048"
definition AMVP_RSA_EXP_LEN_MAX :: nat where "AMVP_RSA_EXP_LEN_MAX = 1024"
definition AMVP_RSA_EXP_BYTE_MAX :: nat where "AMVP_RSA_EXP_BYTE_MAX = 512"

section \<open>Enumerators\<close>

abbreviation (input) AMVP_KDF135_IKEV1_AMETH_DSA :: int where "AMVP_KDF135_IKEV1_AMETH_DSA \<equiv> 1"
abbreviation (input) AMVP_KDF135_IKEV1_AMETH_PSK :: int where "AMVP_KDF135_IKEV1_AMETH_PSK \<equiv> 2"
abbreviation (input) AMVP_KDF135_IKEV1_AMETH_PKE :: int where "AMVP_KDF135_IKEV1_AMETH_PKE \<equiv> 3"

abbreviation (input) AMVP_KDF108_MODE_COUNTER :: int where "AMVP_KDF108_MODE_COUNTER \<equiv> 1"
abbreviation (input) AMVP_KDF108_MODE_FEEDBACK :: int where "AMVP_KDF108_MODE_FEEDBACK \<equiv> 2"
abbreviation (input) AMVP_KDF108_MODE_DPI :: int where "AMVP_KDF108_MODE_DPI \<equiv> 3"

abbreviation (input) AMVP_KDF108_MAC_MODE_CMAC_AES128 :: int where "AMVP_KDF108_MAC_MODE_CMAC_AES128 \<equiv> 1"
abbreviation (input) AMVP_KDF108_MAC_MODE_CMAC_AES192 :: int where "AMVP_KDF108_MAC_MODE_CMAC_AES192 \<equiv> 2"
abbreviation (input) AMVP_KDF108_MAC_MODE_CMAC_AES256 :: int where "AMVP_KDF108_MAC_MODE_CMAC_AES256 \<equiv> 3"
abbreviation (input) AMVP_KDF108_MAC_MODE_CMAC_TDES :: int where "AMVP_KDF108_MAC_MODE_CMAC_TDES \<equiv> 4"
abbreviation (input) AMVP_KDF108_MAC_MODE_HMAC_SHA1 :: int where "AMVP_KDF108_MAC_MODE_HMAC_SHA1 \<equiv> 5"
abbreviation (input) AMVP_KDF108_MAC_MODE_HMAC_SHA224 :: int where "AMVP_KDF108_MAC_MODE_HMAC_SHA224 \<equiv> 6"
abbreviation (input) AMVP_KDF108_MAC_MODE_HMAC_SHA256 :: int where "AMVP_KDF108_MAC_MODE_HMAC_SHA256 \<equiv> 7"
abbreviation (input) AMVP_KDF108_MAC_MODE_HMAC_SHA384 :: int where "AMVP_KDF108_MAC_MODE_HMAC_SHA384 \<equiv> 8"
abbreviation (input) AMVP_KDF108_MAC_MODE_HMAC_SHA512 :: int where "AMVP_KDF108_MAC_MODE_HMAC_SHA512 \<equiv> 9"
abbreviation (input) AMVP_KDF108_MAC_MODE_HMAC_SHA512_224 :: int where "AMVP_KDF108_MAC_MODE_HMAC_SHA512_224 \<equiv> 10"
abbreviation (input) AMVP_KDF108_MAC_MODE_HMAC_SHA512_256 :: int where "AMVP_KDF108_MAC_MODE_HMAC_SHA512_256 \<equiv> 11"
abbreviation (input) AMVP_KDF108_MAC_MODE_HMAC_SHA3_224 :: int where "AMVP_KDF108_MAC_MODE_HMAC_SHA3_224 \<equiv> 12"
abbreviation (input) AMVP_KDF108_MAC_MODE_HMAC_SHA3_256 :: int where "AMVP_KDF108_MAC_MODE_HMAC_SHA3_256 \<equiv> 13"
abbreviation (input) AMVP_KDF108_MAC_MODE_HMAC_SHA3_384 :: int where "AMVP_KDF108_MAC_MODE_HMAC_SHA3_384 \<equiv> 14"
abbreviation (input) AMVP_KDF108_MAC_MODE_HMAC_SHA3_512 :: int where "AMVP_KDF108_MAC_MODE_HMAC_SHA3_512 \<equiv> 15"

abbreviation (input) AMVP_KDF108_FIXED_DATA_ORDER_NONE :: int where "AMVP_KDF108_FIXED_DATA_ORDER_NONE \<equiv> 1"
abbreviation (input) AMVP_KDF108_FIXED_DATA_ORDER_AFTER :: int where "AMVP_KDF108_FIXED_DATA_ORDER_AFTER \<equiv> 2"
abbreviation (input) AMVP_KDF108_FIXED_DATA_ORDER_BEFORE :: int where "AMVP_KDF108_FIXED_DATA_ORDER_BEFORE \<equiv> 3"
abbreviation (input) AMVP_KDF108_FIXED_DATA_ORDER_MIDDLE :: int where "AMVP_KDF108_FIXED_DATA_ORDER_MIDDLE \<equiv> 4"
abbreviation (input) AMVP_KDF108_FIXED_DATA_ORDER_BEFORE_ITERATOR :: int where "AMVP_KDF108_FIXED_DATA_ORDER_BEFORE_ITERATOR \<equiv> 5"

abbreviation (input) AMVP_ECDSA_SECRET_GEN_EXTRA_BITS :: int where "AMVP_ECDSA_SECRET_GEN_EXTRA_BITS \<equiv> 1"
abbreviation (input) AMVP_ECDSA_SECRET_GEN_TEST_CAND :: int where "AMVP_ECDSA_SECRET_GEN_TEST_CAND \<equiv> 2"

abbreviation (input) AMVP_KDF_X942_KDF_TYPE_DER :: int where "AMVP_KDF_X942_KDF_TYPE_DER \<equiv> 0"
abbreviation (input) AMVP_KDF_X942_KDF_TYPE_CONCAT :: int where "AMVP_KDF_X942_KDF_TYPE_CONCAT \<equiv> 1"

abbreviation (input) AMVP_KDF_TLS13_RUN_MODE_PSK :: int where "AMVP_KDF_TLS13_RUN_MODE_PSK \<equiv> 1"
abbreviation (input) AMVP_KDF_TLS13_RUN_MODE_DHE :: int where "AMVP_KDF_TLS13_RUN_MODE_DHE \<equiv> 2"
abbreviation (input) AMVP_KDF_TLS13_RUN_MODE_PSK_DHE :: int where "AMVP_KDF_TLS13_RUN_MODE_PSK_DHE \<equiv> 3"

abbreviation (input) AMVP_RSA_TESTTYPE_KAT :: int where "AMVP_RSA_TESTTYPE_KAT \<equiv> 1"
abbreviation (input) AMVP_RSA_TESTTYPE_AFT :: int where "AMVP_RSA_TESTTYPE_AFT \<equiv> 2"
abbreviation (input) AMVP_RSA_TESTTYPE_GDT :: int where "AMVP_RSA_TESTTYPE_GDT \<equiv> 3"

abbreviation (input) AMVP_RSA_KEY_FORMAT_STANDARD :: int where "AMVP_RSA_KEY_FORMAT_STANDARD \<equiv> 1"
abbreviation (input) AMVP_RSA_KEY_FORMAT_CRT :: int where "AMVP_RSA_KEY_FORMAT_CRT \<equiv> 2"

abbreviation (input) AMVP_RSA_PUB_EXP_MODE_FIXED :: int where "AMVP_RSA_PUB_EXP_MODE_FIXED \<equiv> 1"
abbreviation (input) AMVP_RSA_PUB_EXP_MODE_RANDOM :: int where "AMVP_RSA_PUB_EXP_MODE_RANDOM \<equiv> 2"

abbreviation (input) AMVP_RSA_PRIME_TEST_TBLC2 :: int where "AMVP_RSA_PRIME_TEST_TBLC2 \<equiv> 1"
abbreviation (input) AMVP_RSA_PRIME_TEST_TBLC3 :: int where "AMVP_RSA_PRIME_TEST_TBLC3 \<equiv> 2"

abbreviation (input) AMVP_RSA_KEYGEN_B32 :: int where "AMVP_RSA_KEYGEN_B32 \<equiv> 1"
abbreviation (input) AMVP_RSA_KEYGEN_B33 :: int where "AMVP_RSA_KEYGEN_B33 \<equiv> 2"
abbreviation (input) AMVP_RSA_KEYGEN_B34 :: int where "AMVP_RSA_KEYGEN_B34 \<equiv> 3"
abbreviation (input) AMVP_RSA_KEYGEN_B35 :: int where "AMVP_RSA_KEYGEN_B35 \<equiv> 4"
abbreviation (input) AMVP_RSA_KEYGEN_B36 :: int where "AMVP_RSA_KEYGEN_B36 \<equiv> 5"

abbreviation (input) AMVP_RSA_SIG_TYPE_X931 :: int where "AMVP_RSA_SIG_TYPE_X931 \<equiv> 1"
abbreviation (input) AMVP_RSA_SIG_TYPE_PKCS1V15 :: int where "AMVP_RSA_SIG_TYPE_PKCS1V15 \<equiv> 2"
abbreviation (input) AMVP_RSA_SIG_TYPE_PKCS1PSS :: int where "AMVP_RSA_SIG_TYPE_PKCS1PSS \<equiv> 3"

abbreviation (input) AMVP_RSA_PRIM_KEYFORMAT_STANDARD :: int where "AMVP_RSA_PRIM_KEYFORMAT_STANDARD \<equiv> 1"
abbreviation (input) AMVP_RSA_PRIM_KEYFORMAT_CRT :: int where "AMVP_RSA_PRIM_KEYFORMAT_CRT \<equiv> 2"

abbreviation (input) AMVP_PBKDF_TEST_TYPE_AFT :: int where "AMVP_PBKDF_TEST_TYPE_AFT \<equiv> 1"

abbreviation (input) AMVP_KDF_TLS13_TEST_TYPE_AFT :: int where "AMVP_KDF_TLS13_TEST_TYPE_AFT \<equiv> 1"

abbreviation (input) AMVP_KAS_ECC_MODE_COMPONENT :: int where "AMVP_KAS_ECC_MODE_COMPONENT \<equiv> 1"
abbreviation (input) AMVP_KAS_ECC_MODE_CDH :: int where "AMVP_KAS_ECC_MODE_CDH \<equiv> 2"

abbreviation (input) AMVP_KAS_ECC_TT_AFT :: int where "AMVP_KAS_ECC_TT_AFT \<equiv> 1"
abbreviation (input) AMVP_KAS_ECC_TT_VAL :: int where "AMVP_KAS_ECC_TT_VAL \<equiv> 2"

abbreviation (input) AMVP_KAS_FFC_MODE_COMPONENT :: int where "AMVP_KAS_FFC_MODE_COMPONENT \<equiv> 1"

abbreviation (input) AMVP_KAS_FFC_FB :: int where "AMVP_KAS_FFC_FB \<equiv> 7"
abbreviation (input) AMVP_KAS_FFC_FC :: int where "AMVP_KAS_FFC_FC \<equiv> 8"
abbreviation (input) AMVP_KAS_FFC_MODP2048 :: int where "AMVP_KAS_FFC_MODP2048 \<equiv> 9"
abbreviation (input) AMVP_KAS_FFC_MODP3072 :: int where "AMVP_KAS_FFC_MODP3072 \<equiv> 10"
abbreviation (input) AMVP_KAS_FFC_MODP4096 :: int where "AMVP_KAS_FFC_MODP4096 \<equiv> 11"
abbreviation (input) AMVP_KAS_FFC_MODP6144 :: int where "AMVP_KAS_FFC_MODP6144 \<equiv> 12"
abbreviation (input) AMVP_KAS_FFC_MODP8192 :: int where "AMVP_KAS_FFC_MODP8192 \<equiv> 13"
abbreviation (input) AMVP_KAS_FFC_FFDHE2048 :: int where "AMVP_KAS_FFC_FFDHE2048 \<equiv> 14"
abbreviation (input) AMVP_KAS_FFC_FFDHE3072 :: int where "AMVP_KAS_FFC_FFDHE3072 \<equiv> 15"
abbreviation (input) AMVP_KAS_FFC_FFDHE4096 :: int where "AMVP_KAS_FFC_FFDHE4096 \<equiv> 16"
abbreviation (input) AMVP_KAS_FFC_FFDHE6144 :: int where "AMVP_KAS_FFC_FFDHE6144 \<equiv> 17"
abbreviation (input) AMVP_KAS_FFC_FFDHE8192 :: int where "AMVP_KAS_FFC_FFDHE8192 \<equiv> 18"

abbreviation (input) AMVP_KAS_FFC_TT_AFT :: int where "AMVP_KAS_FFC_TT_AFT \<equiv> 1"
abbreviation (input) AMVP_KAS_FFC_TT_VAL :: int where "AMVP_KAS_FFC_TT_VAL \<equiv> 2"

abbreviation (input) AMVP_SAFE_PRIMES_MODP2048 :: int where "AMVP_SAFE_PRIMES_MODP2048 \<equiv> 1"
abbreviation (input) AMVP_SAFE_PRIMES_MODP3072 :: int where "AMVP_SAFE_PRIMES_MODP3072 \<equiv> 2"
abbreviation (input) AMVP_SAFE_PRIMES_MODP4096 :: int where "AMVP_SAFE_PRIMES_MODP4096 \<equiv> 3"
abbreviation (input) AMVP_SAFE_PRIMES_MODP6144 :: int where "AMVP_SAFE_PRIMES_MODP6144 \<equiv> 4"
abbreviation (input) AMVP_SAFE_PRIMES_MODP8192 :: int where "AMVP_SAFE_PRIMES_MODP8192 \<equiv> 5"
abbreviation (input) AMVP_SAFE_PRIMES_FFDHE2048 :: int where "AMVP_SAFE_PRIMES_FFDHE2048 \<equiv> 6"
abbreviation (input) AMVP_SAFE_PRIMES_FFDHE3072 :: int where "AMVP_SAFE_PRIMES_FFDHE3072 \<equiv> 7"
abbreviation (input) AMVP_SAFE_PRIMES_FFDHE4096 :: int where "AMVP_SAFE_PRIMES_FFDHE4096 \<equiv> 8"
abbreviation (input) AMVP_SAFE_PRIMES_FFDHE6144 :: int where "AMVP_SAFE_PRIMES_FFDHE6144 \<equiv> 9"
abbreviation (input) AMVP_SAFE_PRIMES_FFDHE8192 :: int where "AMVP_SAFE_PRIMES_FFDHE8192 \<equiv> 10"

abbreviation (input) AMVP_SAFE_PRIMES_TT_AFT :: int where "AMVP_SAFE_PRIMES_TT_AFT \<equiv> 1"
abbreviation (input) AMVP_SAFE_PRIMES_TT_VAL :: int where "AMVP_SAFE_PRIMES_TT_VAL \<equiv> 2"

abbreviation (input) AMVP_KAS_IFC_KAS1 :: int where "AMVP_KAS_IFC_KAS1 \<equiv> 4"
abbreviation (input) AMVP_KAS_IFC_KAS2 :: int where "AMVP_KAS_IFC_KAS2 \<equiv> 5"

abbreviation (input) AMVP_KAS_IFC_RSAKPG1_BASIC :: int where "AMVP_KAS_IFC_RSAKPG1_BASIC \<equiv> 1"
abbreviation (input) AMVP_KAS_IFC_RSAKPG1_PRIME_FACTOR :: int where "AMVP_KAS_IFC_RSAKPG1_PRIME_FACTOR \<equiv> 2"
abbreviation (input) AMVP_KAS_IFC_RSAKPG1_CRT :: int where "AMVP_KAS_IFC_RSAKPG1_CRT \<equiv> 3"
abbreviation (input) AMVP_KAS_IFC_RSAKPG2_BASIC :: int where "AMVP_KAS_IFC_RSAKPG2_BASIC \<equiv> 4"
abbreviation (input) AMVP_KAS_IFC_RSAKPG2_PRIME_FACTOR :: int where "AMVP_KAS_IFC_RSAKPG2_PRIME_FACTOR \<equiv> 5"
abbreviation (input) AMVP_KAS_IFC_RSAKPG2_CRT :: int where "AMVP_KAS_IFC_RSAKPG2_CRT \<equiv> 6"

abbreviation (input) AMVP_KAS_IFC_INITIATOR :: int where "AMVP_KAS_IFC_INITIATOR \<equiv> 1"
abbreviation (input) AMVP_KAS_IFC_RESPONDER :: int where "AMVP_KAS_IFC_RESPONDER \<equiv> 2"

abbreviation (input) AMVP_KAS_IFC_TT_AFT :: int where "AMVP_KAS_IFC_TT_AFT \<equiv> 1"
abbreviation (input) AMVP_KAS_IFC_TT_VAL :: int where "AMVP_KAS_IFC_TT_VAL \<equiv> 2"

abbreviation (input) AMVP_KTS_IFC_RSAKPG1_CRT :: int where "AMVP_KTS_IFC_RSAKPG1_CRT \<equiv> 3"
abbreviation (input) AMVP_KTS_IFC_RSAKPG2_CRT :: int where "AMVP_KTS_IFC_RSAKPG2_CRT \<equiv> 6"

abbreviation (input) AMVP_KTS_IFC_INITIATOR :: int where "AMVP_KTS_IFC_INITIATOR \<equiv> 1"
abbreviation (input) AMVP_KTS_IFC_RESPONDER :: int where "AMVP_KTS_IFC_RESPONDER \<equiv> 2"

abbreviation (input) AMVP_KTS_IFC_TT_AFT :: int where "AMVP_KTS_IFC_TT_AFT \<equiv> 1"
abbreviation (input) AMVP_KTS_IFC_TT_VAL :: int where "AMVP_KTS_IFC_TT_VAL \<equiv> 2"

lemmas limit_defs =
  AMVP_KEY_LEN_TDES_def AMVP_KEY_LEN_AES128_def AMVP_KEY_LEN_AES192_def AMVP_KEY_LEN_AES256_def
  AMVP_BLOCK_LEN_TDES_def AMVP_BLOCK_LEN_AES128_def AMVP_BLOCK_LEN_AES192_def AMVP_BLOCK_LEN_AES256_def
  AMVP_SHA1_BYTE_LEN_def AMVP_SHA224_BYTE_LEN_def AMVP_SHA256_BYTE_LEN_def AMVP_SHA384_BYTE_LEN_def
  AMVP_SHA512_BYTE_LEN_def AMVP_KDF135_SSH_EKEY_MAX_def AMVP_KDF135_SSH_IKEY_MAX_def AMVP_KDF135_SSH_IV_MAX_def
  AMVP_KDF135_SSH_STR_OUT_MAX_def AMVP_KDF135_SSH_STR_IN_MAX_def AMVP_KDF135_SRTP_KDR_STR_MAX_def AMVP_KDF135_SRTP_MASTER_MAX_def
  AMVP_KDF135_SRTP_INDEX_MAX_def AMVP_KDF135_SRTP_OUTPUT_MAX_def AMVP_KDF135_X942_BIT_MAX_def AMVP_KDF135_X942_STR_MAX_def
  AMVP_KDF135_X942_BYTE_MAX_def AMVP_KDF135_X963_KEYDATA_MAX_CHARS_def AMVP_KDF135_X963_KEYDATA_MAX_BYTES_def AMVP_KDF135_X963_INPUT_MAX_def
  AMVP_KDF135_SNMP_PASS_LEN_MAX_def AMVP_KDF135_SNMP_ENGID_MAX_BYTES_def AMVP_KDF135_SNMP_SKEY_MAX_def AMVP_KDF135_IKEV1_COOKIE_STR_MAX_def
  AMVP_KDF135_IKEV1_COOKIE_BYTE_MAX_def AMVP_KDF135_IKEV1_SKEY_BYTE_MAX_def AMVP_KDF135_IKEV1_SKEY_STR_MAX_def AMVP_KDF135_IKEV1_INIT_NONCE_BIT_MIN_def
  AMVP_KDF135_IKEV1_INIT_NONCE_BIT_MAX_def AMVP_KDF135_IKEV1_INIT_NONCE_BYTE_MAX_def AMVP_KDF135_IKEV1_INIT_NONCE_STR_MAX_def AMVP_KDF135_IKEV1_RESP_NONCE_BIT_MIN_def
  AMVP_KDF135_IKEV1_RESP_NONCE_BIT_MAX_def AMVP_KDF135_IKEV1_RESP_NONCE_BYTE_MAX_def AMVP_KDF135_IKEV1_RESP_NONCE_STR_MAX_def AMVP_KDF135_IKEV1_DH_SHARED_SECRET_BIT_MIN_def
  AMVP_KDF135_IKEV1_DH_SHARED_SECRET_BIT_MAX_def AMVP_KDF135_IKEV1_DH_SHARED_SECRET_BYTE_MAX_def AMVP_KDF135_IKEV1_DH_SHARED_SECRET_STR_MAX_def AMVP_KDF135_IKEV1_PSK_BIT_MIN_def
  AMVP_KDF135_IKEV1_PSK_BIT_MAX_def AMVP_KDF135_IKEV1_PSK_BYTE_MAX_def AMVP_KDF135_IKEV1_PSK_STR_MAX_def AMVP_KDF135_IKEV2_SPI_STR_MAX_def
  AMVP_KDF135_IKEV2_SPI_BYTE_MAX_def AMVP_KDF135_IKEV2_SKEY_SEED_BYTE_MAX_def AMVP_KDF135_IKEV2_SKEY_SEED_STR_MAX_def AMVP_KDF135_IKEV2_INIT_NONCE_BIT_MIN_def
  AMVP_KDF135_IKEV2_INIT_NONCE_BIT_MAX_def AMVP_KDF135_IKEV2_INIT_NONCE_BYTE_MAX_def AMVP_KDF135_IKEV2_RESP_NONCE_BIT_MIN_def AMVP_KDF135_IKEV2_RESP_NONCE_BIT_MAX_def
  AMVP_KDF135_IKEV2_RESP_NONCE_BYTE_MAX_def AMVP_KDF135_IKEV2_DH_SHARED_SECRET_BIT_MIN_def AMVP_KDF135_IKEV2_DH_SHARED_SECRET_BIT_MAX_def AMVP_KDF135_IKEV2_DH_SHARED_SECRET_BYTE_MAX_def
  AMVP_KDF135_IKEV2_DH_SHARED_SECRET_STR_MAX_def AMVP_KDF135_IKEV2_DKEY_MATERIAL_BIT_MIN_def AMVP_KDF135_IKEV2_DKEY_MATERIAL_BIT_MAX_def AMVP_KDF135_IKEV2_DKEY_MATERIAL_BYTE_MAX_def
  AMVP_KDF135_IKEV2_DKEY_MATERIAL_STR_MAX_def AMVP_KDF108_KEYOUT_BIT_MAX_def AMVP_KDF108_KEYOUT_BYTE_MAX_def AMVP_KDF108_KEYOUT_STR_MAX_def
  AMVP_KDF108_KEYIN_STR_MAX_def AMVP_KDF108_IV_STR_MAX_def AMVP_KDF108_FIXED_DATA_BYTE_MAX_def AMVP_KDF108_FIXED_DATA_STR_MAX_def
  AMVP_PBKDF_ITERATION_MIN_def AMVP_PBKDF_ITERATION_MAX_def AMVP_PBKDF_KEY_BIT_MIN_def AMVP_PBKDF_KEY_BIT_MAX_def
  AMVP_PBKDF_KEY_BYTE_MIN_def AMVP_PBKDF_KEY_BYTE_MAX_def AMVP_PBKDF_KEY_STR_MAX_def AMVP_PBKDF_PASS_LEN_MIN_def
  AMVP_PBKDF_PASS_LEN_MAX_def AMVP_PBKDF_SALT_LEN_STR_MAX_def AMVP_KDF_TLS12_MSG_MAX_def AMVP_KDF_TLS13_DATA_LEN_STR_MAX_def
  AMVP_KDF_TLS13_DATA_LEN_BYTE_MAX_def AMVP_ECDSA_EXP_LEN_MAX_def AMVP_ECDSA_MSGLEN_MAX_def AMVP_KAS_IFC_BYTE_MAX_def
  AMVP_KAS_IFC_STR_MAX_def AMVP_KTS_IFC_BYTE_MAX_def AMVP_KTS_IFC_STR_MAX_def AMVP_KAS_FFC_BYTE_MAX_def
  AMVP_KAS_FFC_STR_MAX_def AMVP_SAFE_PRIMES_BYTE_MAX_def AMVP_SAFE_PRIMES_STR_MAX_def AMVP_KAS_ECC_BYTE_MAX_def
  AMVP_KAS_ECC_STR_MAX_def AMVP_RSA_SEEDLEN_MAX_def AMVP_RSA_MSGLEN_MAX_def AMVP_RSA_SIGNATURE_MAX_def
  AMVP_RSA_EXP_LEN_MAX_def AMVP_RSA_EXP_BYTE_MAX_def

end
