(* ===== verification/Kat_Kdf135.thy ===== *)
theory Kat_Kdf135
  imports Kat_Frames Amvp_Limits
begin

text \<open>
  The handlers of the application-specific key derivation functions: \<^verbatim>\<open>src/amvp_kdf135_snmp.c\<close>,
  \<^verbatim>\<open>src/amvp_kdf135_srtp.c\<close>, \<^verbatim>\<open>src/amvp_kdf135_ssh.c\<close>, \<^verbatim>\<open>src/amvp_kdf135_x942.c\<close>, \<^verbatim>\<open>src/amvp_kdf135_x963.c\<close>,
  \<^verbatim>\<open>src/amvp_kdf135_ikev1.c\<close> and \<^verbatim>\<open>src/amvp_kdf135_ikev2.c\<close>.
\<close>

section \<open>SNMP\<close>

record AMVP_KDF135_SNMP_TC =
  sn_cipher :: AMVP_CIPHER
  sn_tc_id :: nat
  sn_engine_id :: "bytes option"
  sn_engine_id_len :: nat
  sn_password :: "string option"
  sn_p_len :: nat
  sn_s_key :: "bytes option"
  sn_skey_len :: nat

type_synonym ('tc, 'w) module = "nat \<Rightarrow> 'tc \<Rightarrow> 'w \<Rightarrow> AMVP_RESULT \<times> 'tc \<times> 'w"

definition amvp_kdf135_snmp_init_tc ::
  "'w allocator \<Rightarrow> nat \<Rightarrow> AMVP_CIPHER \<Rightarrow> string \<Rightarrow> string \<Rightarrow> nat \<Rightarrow> (AMVP_KDF135_SNMP_TC, 'w) step" where
  "amvp_kdf135_snmp_init_tc al tc_id alg_id engine_id password p_len =
     andthen (new_bytes al (AMVP_KDF135_SNMP_SKEY_MAX * 2)) (\<lambda>s_key.
     andthen (new_hex_len al AMVP_KDF135_SNMP_ENGID_MAX_BYTES engine_id) (\<lambda>(eid, eid_len).
       pass \<lparr>sn_cipher = alg_id, sn_tc_id = tc_id, sn_engine_id = Some eid, sn_engine_id_len = eid_len, sn_password = Some password,
             sn_p_len = p_len div 8, sn_s_key = Some s_key, sn_skey_len = 160 div 8\<rparr>))"

text \<open>The allocation of the text is not checked.\<close>

definition amvp_kdf135_snmp_output_tc :: "'w allocator \<Rightarrow> AMVP_KDF135_SNMP_TC \<Rightarrow> JSON_Object \<Rightarrow> (JSON_Object, 'w) step" where
  "amvp_kdf135_snmp_output_tc al stc tc_rsp =
     andthen (unchecked_chars al (AMVP_KDF135_SNMP_SKEY_MAX + 1)) (\<lambda>tmp.
       hex_through tmp AMVP_KDF135_SNMP_SKEY_MAX ''sharedKey'' (sn_s_key stc) (wrap32 (int (sn_skey_len stc))) tc_rsp)"

definition snmp_test ::
  "'w allocator \<Rightarrow> (AMVP_KDF135_SNMP_TC, 'w) module \<Rightarrow> AMVP_CIPHER \<Rightarrow> callback \<Rightarrow> nat \<Rightarrow> string \<Rightarrow> JSON_Object option \<Rightarrow> (JSON_Value, 'w) step" where
  "snmp_test al crypto alg_id cb p_len engine_id testobj =
     with_tcId testobj True (\<lambda>tc_id.
     text_field testobj ''password'' (\<lambda>password.
     reject (strnlen_s (Some password) AMVP_KDF135_SNMP_PASS_LEN_MAX \<noteq> p_len div 8) AMVP_INVALID_ARG
       (run_case (amvp_kdf135_snmp_init_tc al tc_id alg_id engine_id password p_len) (call_crypto crypto cb)
          (amvp_kdf135_snmp_output_tc al) (int tc_id))))"

definition snmp_group ::
  "'w allocator \<Rightarrow> (AMVP_KDF135_SNMP_TC, 'w) module \<Rightarrow> AMVP_CIPHER \<Rightarrow> AMVP_CAPS_LIST \<Rightarrow> JSON_Object option \<Rightarrow> (JSON_Value, 'w) step" where
  "snmp_group al crypto alg_id cap groupobj =
     with_tgId groupobj (\<lambda>tgId.
     uint_field groupobj ''passwordLength'' (\<lambda>p_len.
     reject (p_len = 0) AMVP_INVALID_ARG
       (text_field groupobj ''engineId'' (\<lambda>engine_id.
        some_tests groupobj
          (answer_group tgId groupobj (snmp_test al crypto alg_id (cap_crypto_handler cap) p_len engine_id))))))"

definition snmp_kat_handler ::
  "'w allocator \<Rightarrow> (AMVP_KDF135_SNMP_TC, 'w) module \<Rightarrow> JSON_Object option \<Rightarrow> 'w SESSION option \<Rightarrow> 'w SESSION option outcome" where
  "snmp_kat_handler al crypto =
     moded_frame ((plain_rules AMVP_KDF135_SNMP)\<lparr>kr_no_groups := Some AMVP_MISSING_ARG\<rparr>) (\<lambda>w. w) (\<lambda>w. w) (snmp_group al crypto)"

section \<open>SRTP\<close>

record AMVP_KDF135_SRTP_TC =
  sr_cipher :: AMVP_CIPHER
  sr_tc_id :: nat
  sr_kdr :: "bytes option"
  sr_kdr_len :: int
  sr_aes_keylen :: int
  sr_master_key :: "bytes option"
  sr_master_salt :: "bytes option"
  sr_idx :: "bytes option"
  sr_srtcp_idx :: "bytes option"
  sr_srtp_ke :: "bytes option"
  sr_srtp_ka :: "bytes option"
  sr_srtp_ks :: "bytes option"
  sr_srtcp_ke :: "bytes option"
  sr_srtcp_ka :: "bytes option"
  sr_srtcp_ks :: "bytes option"

text \<open>The test case is cleared after the handler stored the cipher, so the cipher is 0 in it.\<close>

definition amvp_kdf135_srtp_init_tc ::
  "'w allocator \<Rightarrow> nat \<Rightarrow> int \<Rightarrow> string \<Rightarrow> string \<Rightarrow> string \<Rightarrow> string \<Rightarrow> string \<Rightarrow> (AMVP_KDF135_SRTP_TC, 'w) step" where
  "amvp_kdf135_srtp_init_tc al tc_id aes_keylen kdr master_key master_salt idx srtcp_idx =
     andthen (new_hex_len al AMVP_KDF135_SRTP_KDR_STR_MAX kdr) (\<lambda>(kd, kd_len).
     andthen (new_hex al AMVP_KDF135_SRTP_MASTER_MAX master_key) (\<lambda>mk.
     andthen (new_hex al AMVP_KDF135_SRTP_MASTER_MAX master_salt) (\<lambda>ms.
     andthen (new_hex al AMVP_KDF135_SRTP_INDEX_MAX idx) (\<lambda>ix.
     andthen (new_hex al AMVP_KDF135_SRTP_INDEX_MAX srtcp_idx) (\<lambda>cx.
     andthen (new_bytes al AMVP_KDF135_SRTP_OUTPUT_MAX) (\<lambda>ka.
     andthen (new_bytes al AMVP_KDF135_SRTP_OUTPUT_MAX) (\<lambda>ke.
     andthen (new_bytes al AMVP_KDF135_SRTP_OUTPUT_MAX) (\<lambda>ks.
     andthen (new_bytes al AMVP_KDF135_SRTP_OUTPUT_MAX) (\<lambda>cka.
     andthen (new_bytes al AMVP_KDF135_SRTP_OUTPUT_MAX) (\<lambda>cke.
     andthen (new_bytes al AMVP_KDF135_SRTP_OUTPUT_MAX) (\<lambda>cks.
       pass \<lparr>sr_cipher = 0, sr_tc_id = tc_id, sr_kdr = Some kd, sr_kdr_len = int kd_len, sr_aes_keylen = aes_keylen, sr_master_key = Some mk,
             sr_master_salt = Some ms, sr_idx = Some ix, sr_srtcp_idx = Some cx, sr_srtp_ke = Some ke, sr_srtp_ka = Some ka,
             sr_srtp_ks = Some ks, sr_srtcp_ke = Some cke, sr_srtcp_ka = Some cka, sr_srtcp_ks = Some cks\<rparr>)))))))))))"

definition amvp_kdf135_srtp_output_tc :: "'w allocator \<Rightarrow> AMVP_KDF135_SRTP_TC \<Rightarrow> JSON_Object \<Rightarrow> (JSON_Object, 'w) step" where
  "amvp_kdf135_srtp_output_tc al stc tc_rsp =
     andthen (new_chars al (AMVP_KDF135_SRTP_OUTPUT_MAX + 1)) (\<lambda>_.
       hex_members AMVP_KDF135_SRTP_OUTPUT_MAX
         [(''srtpKe'', sr_srtp_ke stc, quot8 (sr_aes_keylen stc)), (''srtpKa'', sr_srtp_ka stc, 160 div 8), (''srtpKs'', sr_srtp_ks stc, 112 div 8),
          (''srtcpKe'', sr_srtcp_ke stc, quot8 (sr_aes_keylen stc)), (''srtcpKa'', sr_srtcp_ka stc, 160 div 8), (''srtcpKs'', sr_srtcp_ks stc, 112 div 8)]
         tc_rsp)"

definition srtp_test ::
  "'w allocator \<Rightarrow> (AMVP_KDF135_SRTP_TC, 'w) module \<Rightarrow> callback \<Rightarrow> int \<Rightarrow> string \<Rightarrow> JSON_Object option \<Rightarrow> (JSON_Value, 'w) step" where
  "srtp_test al crypto cb aes_key_length kdr testobj =
     with_tcId testobj False (\<lambda>tc_id.
     text_field testobj ''masterKey'' (\<lambda>master_key.
     text_field testobj ''masterSalt'' (\<lambda>master_salt.
     text_field testobj ''index'' (\<lambda>idx.
     text_field testobj ''srtcpIndex'' (\<lambda>srtcp_idx.
       run_case (amvp_kdf135_srtp_init_tc al tc_id aes_key_length kdr master_key master_salt idx srtcp_idx) (call_crypto crypto cb)
         (amvp_kdf135_srtp_output_tc al) (int tc_id))))))"

definition srtp_group ::
  "'w allocator \<Rightarrow> (AMVP_KDF135_SRTP_TC, 'w) module \<Rightarrow> AMVP_CIPHER \<Rightarrow> AMVP_CAPS_LIST \<Rightarrow> JSON_Object option \<Rightarrow> (JSON_Value, 'w) step" where
  "srtp_group al crypto alg_id cap groupobj =
     with_tgId groupobj (\<lambda>tgId.
     int_field groupobj ''aesKeyLength'' (\<lambda>aes_key_length.
     reject (aes_key_length = 0) AMVP_INVALID_ARG
       (text_field groupobj ''kdr'' (\<lambda>kdr.
          answer_group tgId groupobj (srtp_test al crypto (cap_crypto_handler cap) aes_key_length kdr)))))"

definition srtp_kat_handler ::
  "'w allocator \<Rightarrow> (AMVP_KDF135_SRTP_TC, 'w) module \<Rightarrow> JSON_Object option \<Rightarrow> 'w SESSION option \<Rightarrow> 'w SESSION option outcome" where
  "srtp_kat_handler al crypto = moded_frame (plain_rules AMVP_KDF135_SRTP) (\<lambda>w. w) (\<lambda>w. w) (srtp_group al crypto)"

section \<open>SSH\<close>

record AMVP_KDF135_SSH_TC =
  ss_cipher :: AMVP_CIPHER
  ss_tc_id :: nat
  ss_sha_type :: int
  ss_shared_secret_len :: nat
  ss_hash_len :: nat
  ss_session_id_len :: nat
  ss_e_key_len :: nat
  ss_i_key_len :: nat
  ss_iv_len :: nat
  ss_shared_secret_k :: "bytes option"
  ss_hash_h :: "bytes option"
  ss_session_id :: "bytes option"
  ss_cs_init_iv :: "bytes option"
  ss_sc_init_iv :: "bytes option"
  ss_cs_encrypt_key :: "bytes option"
  ss_sc_encrypt_key :: "bytes option"
  ss_cs_integrity_key :: "bytes option"
  ss_sc_integrity_key :: "bytes option"

definition amvp_kdf135_ssh_init_tc ::
  "'w allocator \<Rightarrow> nat \<Rightarrow> AMVP_CIPHER \<Rightarrow> int \<Rightarrow> nat \<Rightarrow> nat \<Rightarrow> nat \<Rightarrow> nat \<Rightarrow> string \<Rightarrow> string \<Rightarrow> string \<Rightarrow> (AMVP_KDF135_SSH_TC, 'w) step" where
  "amvp_kdf135_ssh_init_tc al tc_id alg_id sha_type e_key_len i_key_len iv_len hash_len shared_secret_k hash_h session_id =
     (let shared_secret_len = strnlen_s (Some shared_secret_k) AMVP_KDF135_SSH_STR_IN_MAX div 2;
          session_id_len = strnlen_s (Some session_id) AMVP_KDF135_SSH_STR_IN_MAX div 2
      in andthen (new_bytes al shared_secret_len) (\<lambda>kbuf.
         andthen (new_bytes al hash_len) (\<lambda>hbuf.
         andthen (new_bytes al session_id_len) (\<lambda>sbuf.
         andthen (from_hex al shared_secret_k kbuf shared_secret_len) (\<lambda>k.
         andthen (from_hex al hash_h hbuf hash_len) (\<lambda>h.
         andthen (from_hex al session_id sbuf session_id_len) (\<lambda>sid.
         andthen (new_bytes al AMVP_KDF135_SSH_IV_MAX) (\<lambda>civ.
         andthen (new_bytes al AMVP_KDF135_SSH_IV_MAX) (\<lambda>siv.
         andthen (new_bytes al AMVP_KDF135_SSH_EKEY_MAX) (\<lambda>cek.
         andthen (new_bytes al AMVP_KDF135_SSH_EKEY_MAX) (\<lambda>sek.
         andthen (new_bytes al AMVP_KDF135_SSH_IKEY_MAX) (\<lambda>cik.
         andthen (new_bytes al AMVP_KDF135_SSH_IKEY_MAX) (\<lambda>sik.
           pass \<lparr>ss_cipher = alg_id, ss_tc_id = tc_id, ss_sha_type = sha_type, ss_shared_secret_len = shared_secret_len,
                 ss_hash_len = hash_len, ss_session_id_len = session_id_len, ss_e_key_len = e_key_len, ss_i_key_len = i_key_len,
                 ss_iv_len = iv_len, ss_shared_secret_k = Some k, ss_hash_h = Some h, ss_session_id = Some sid, ss_cs_init_iv = Some civ,
                 ss_sc_init_iv = Some siv, ss_cs_encrypt_key = Some cek, ss_sc_encrypt_key = Some sek, ss_cs_integrity_key = Some cik,
                 ss_sc_integrity_key = Some sik\<rparr>)))))))))))))"

definition amvp_kdf135_ssh_output_tc :: "'w allocator \<Rightarrow> AMVP_KDF135_SSH_TC \<Rightarrow> JSON_Object \<Rightarrow> (JSON_Object, 'w) step" where
  "amvp_kdf135_ssh_output_tc al stc tc_rsp =
     (let too_long = (\<lambda>n. (n * 2) mod 2 ^ 32 > AMVP_KDF135_SSH_STR_OUT_MAX); len = (\<lambda>n. wrap32 (int n))
      in reject (too_long (ss_iv_len stc) \<or> too_long (ss_e_key_len stc) \<or> too_long (ss_i_key_len stc)) AMVP_DATA_TOO_LARGE
           (andthen (new_chars al (AMVP_KDF135_SSH_STR_OUT_MAX + 1)) (\<lambda>_.
              hex_members AMVP_KDF135_SSH_STR_OUT_MAX
                [(''initialIvClient'', ss_cs_init_iv stc, len (ss_iv_len stc)), (''encryptionKeyClient'', ss_cs_encrypt_key stc, len (ss_e_key_len stc)),
                 (''integrityKeyClient'', ss_cs_integrity_key stc, len (ss_i_key_len stc)), (''initialIvServer'', ss_sc_init_iv stc, len (ss_iv_len stc)),
                 (''encryptionKeyServer'', ss_sc_encrypt_key stc, len (ss_e_key_len stc)), (''integrityKeyServer'', ss_sc_integrity_key stc, len (ss_i_key_len stc))]
                tc_rsp)))"

definition ssh_test ::
  "'w allocator \<Rightarrow> (AMVP_KDF135_SSH_TC, 'w) module \<Rightarrow> AMVP_CIPHER \<Rightarrow> callback \<Rightarrow> int \<Rightarrow> nat \<Rightarrow> nat \<Rightarrow> nat \<Rightarrow> JSON_Object option \<Rightarrow> (JSON_Value, 'w) step" where
  "ssh_test al crypto alg_id cb sha_type hash_len e_key_len iv_len testobj =
     with_tcId testobj True (\<lambda>tc_id.
     text_field testobj ''k'' (\<lambda>k.
     text_field testobj ''h'' (\<lambda>h.
     text_field testobj ''sessionId'' (\<lambda>sid.
       run_case (amvp_kdf135_ssh_init_tc al tc_id alg_id sha_type e_key_len hash_len iv_len hash_len k h sid) (call_crypto crypto cb)
         (amvp_kdf135_ssh_output_tc al) (int tc_id)))))"

text \<open>The length of a hash, which is also that of the integrity key, 0 for any other, and the lengths a cipher implies.\<close>

definition ssh_hash_len :: "int \<Rightarrow> nat" where
  "ssh_hash_len sha_type =
     (if sha_type = AMVP_SHA1 then AMVP_SHA1_BYTE_LEN else if sha_type = AMVP_SHA224 then AMVP_SHA224_BYTE_LEN
      else if sha_type = AMVP_SHA256 then AMVP_SHA256_BYTE_LEN else if sha_type = AMVP_SHA384 then AMVP_SHA384_BYTE_LEN
      else if sha_type = AMVP_SHA512 then AMVP_SHA512_BYTE_LEN else 0)"

definition ssh_cipher_lens :: "string \<Rightarrow> nat \<times> nat" where
  "ssh_cipher_lens cipher_str =
     (case find_by_name length 1 [((AMVP_KEY_LEN_TDES, AMVP_BLOCK_LEN_TDES), ''TDES''), ((AMVP_KEY_LEN_AES128, AMVP_BLOCK_LEN_AES128), ''AES-128''),
        ((AMVP_KEY_LEN_AES192, AMVP_BLOCK_LEN_AES192), ''AES-192''), ((AMVP_KEY_LEN_AES256, AMVP_BLOCK_LEN_AES256), ''AES-256'')] (Some cipher_str) of
        None \<Rightarrow> (0, 0) | Some l \<Rightarrow> l)"

definition ssh_group ::
  "'w allocator \<Rightarrow> (AMVP_KDF135_SSH_TC, 'w) module \<Rightarrow> AMVP_CIPHER \<Rightarrow> AMVP_CAPS_LIST \<Rightarrow> JSON_Object option \<Rightarrow> (JSON_Value, 'w) step" where
  "ssh_group al crypto alg_id cap groupobj =
     with_tgId groupobj (\<lambda>tgId.
     text_field groupobj ''cipher'' (\<lambda>cipher_str.
     text_field groupobj ''hashAlg'' (\<lambda>sha_str.
       let sha_type = amvp_lookup_hash_alg (Some sha_str); hash_len = ssh_hash_len sha_type; (e_key_len, iv_len) = ssh_cipher_lens cipher_str
       in reject (hash_len = 0) AMVP_NO_CAP
            (reject (e_key_len = 0 \<or> iv_len = 0) AMVP_NO_CAP
              (some_tests groupobj
                (answer_group tgId groupobj (ssh_test al crypto alg_id (cap_crypto_handler cap) sha_type hash_len e_key_len iv_len)))))))"

definition ssh_kat_handler ::
  "'w allocator \<Rightarrow> (AMVP_KDF135_SSH_TC, 'w) module \<Rightarrow> JSON_Object option \<Rightarrow> 'w SESSION option \<Rightarrow> 'w SESSION option outcome" where
  "ssh_kat_handler al crypto =
     moded_frame ((plain_rules AMVP_KDF135_SSH)\<lparr>kr_no_groups := Some AMVP_MISSING_ARG\<rparr>) (\<lambda>w. w) (\<lambda>w. w) (ssh_group al crypto)"

section \<open>ANSI X9.42\<close>

record AMVP_KDF135_X942_TC =
  x4_cipher :: AMVP_CIPHER
  x4_tc_id :: nat
  x4_hash_alg :: int
  x4_type :: int
  x4_oid :: "bytes option"
  x4_zz :: "bytes option"
  x4_party_u_info :: "bytes option"
  x4_party_v_info :: "bytes option"
  x4_supp_pub_info :: "bytes option"
  x4_supp_priv_info :: "bytes option"
  x4_dkm :: "bytes option"
  x4_key_len :: int
  x4_oid_len :: int
  x4_zz_len :: int
  x4_party_u_len :: int
  x4_party_v_len :: int
  x4_supp_pub_len :: int
  x4_supp_priv_len :: int
  x4_dkm_len :: int

definition amvp_kdf135_x942_init_tc ::
  "'w allocator \<Rightarrow> int \<Rightarrow> int \<Rightarrow> int \<Rightarrow> string \<Rightarrow> string \<Rightarrow> int \<Rightarrow> string \<Rightarrow> string \<Rightarrow> string \<Rightarrow> string \<Rightarrow> (AMVP_KDF135_X942_TC, 'w) step" where
  "amvp_kdf135_x942_init_tc al tc_id hash_alg type oid zz key_len party_u_info party_v_info supp_pub_info supp_priv_info =
     andthen (new_bytes al AMVP_KDF135_X942_BYTE_MAX) (\<lambda>dkm.
     andthen (new_hex_len al AMVP_KDF135_X942_BYTE_MAX oid) (\<lambda>(oi, oi_len).
     andthen (new_hex_len al AMVP_KDF135_X942_BYTE_MAX zz) (\<lambda>(z, z_len).
     andthen (new_hex_len al AMVP_KDF135_X942_BYTE_MAX party_u_info) (\<lambda>(u, u_len).
     andthen (new_hex_len al AMVP_KDF135_X942_BYTE_MAX party_v_info) (\<lambda>(v, v_len).
     andthen (new_hex_len al AMVP_KDF135_X942_BYTE_MAX supp_pub_info) (\<lambda>(pub, pub_len).
     andthen (new_hex_len al AMVP_KDF135_X942_BYTE_MAX supp_priv_info) (\<lambda>(priv, priv_len).
       pass \<lparr>x4_cipher = 0, x4_tc_id = uint_of tc_id, x4_hash_alg = hash_alg, x4_type = type, x4_oid = Some oi, x4_zz = Some z,
             x4_party_u_info = Some u, x4_party_v_info = Some v, x4_supp_pub_info = Some pub, x4_supp_priv_info = Some priv,
             x4_dkm = Some dkm, x4_key_len = quot8 key_len, x4_oid_len = int oi_len, x4_zz_len = int z_len, x4_party_u_len = int u_len,
             x4_party_v_len = int v_len, x4_supp_pub_len = int pub_len, x4_supp_priv_len = int priv_len, x4_dkm_len = 0\<rparr>)))))))"

definition amvp_kdf135_x942_output_tc :: "'w allocator \<Rightarrow> AMVP_KDF135_X942_TC \<Rightarrow> JSON_Object \<Rightarrow> (JSON_Object, 'w) step" where
  "amvp_kdf135_x942_output_tc al stc tc_rsp =
     reject (x4_dkm_len stc \<noteq> x4_key_len stc) AMVP_TC_INVALID_DATA
       (andthen (new_chars al (AMVP_KDF135_X942_STR_MAX + 1)) (\<lambda>_.
          hex_member AMVP_KDF135_X942_STR_MAX ''derivedKey'' (x4_dkm stc) (x4_dkm_len stc) tc_rsp))"

definition x942_test ::
  "'w allocator \<Rightarrow> (AMVP_KDF135_X942_TC, 'w) module \<Rightarrow> callback \<Rightarrow> int \<Rightarrow> int \<Rightarrow> string \<Rightarrow> JSON_Object option \<Rightarrow> (JSON_Value, 'w) step" where
  "x942_test al crypto cb hash_alg kdf_type oid testobj =
     int_field testobj ''tcId'' (\<lambda>tc_id.
     reject (tc_id = 0) AMVP_MISSING_ARG
       (bounded_text testobj ''zz'' AMVP_KDF135_X942_STR_MAX (\<lambda>zz.
        int_field testobj ''keyLen'' (\<lambda>key_len.
        reject (key_len = 0) AMVP_MISSING_ARG
          (reject (key_len < 1 \<or> key_len > int AMVP_KDF135_X942_BIT_MAX) AMVP_INVALID_ARG
            (bounded_text testobj ''partyUInfo'' AMVP_KDF135_X942_STR_MAX (\<lambda>party_u.
             bounded_text testobj ''partyVInfo'' AMVP_KDF135_X942_STR_MAX (\<lambda>party_v.
             bounded_text testobj ''suppPubInfo'' AMVP_KDF135_X942_STR_MAX (\<lambda>supp_pub.
             bounded_text testobj ''suppPrivInfo'' AMVP_KDF135_X942_STR_MAX (\<lambda>supp_priv.
               run_case (amvp_kdf135_x942_init_tc al tc_id hash_alg kdf_type oid zz key_len party_u party_v supp_pub supp_priv)
                 (call_crypto crypto cb) (amvp_kdf135_x942_output_tc al) tc_id))))))))))"

text \<open>
  The type of the function. The comparison result is 0 when a group is read: it is 0 at the
  start, and a group whose type leaves it different from 0 ends the handler.
\<close>

definition read_x942_type :: "string \<Rightarrow> int option" where
  "read_x942_type t =
     (let diff = snd (strncmp_s (Some t) 14 (Some ''DER'') 3 0) in
      if diff = 0 then Some AMVP_KDF_X942_KDF_TYPE_DER
      else if snd (strncmp_s (Some t) 14 (Some ''concatentation'') 14 diff) = 0 then Some AMVP_KDF_X942_KDF_TYPE_CONCAT
      else None)"

definition x942_group ::
  "'w allocator \<Rightarrow> (AMVP_KDF135_X942_TC, 'w) module \<Rightarrow> AMVP_CIPHER \<Rightarrow> AMVP_CAPS_LIST \<Rightarrow> JSON_Object option \<Rightarrow> (JSON_Value, 'w) step" where
  "x942_group al crypto alg_id cap groupobj =
     with_tgId groupobj (\<lambda>tgId.
     text_field groupobj ''kdfType'' (\<lambda>t.
     reject (read_x942_type t = None) AMVP_INVALID_ARG
       (word_field groupobj ''hashAlg'' AMVP_INVALID_ARG amvp_lookup_hash_alg (\<lambda>hash_alg.
        text_field groupobj ''oid'' (\<lambda>oid.
        some_tests groupobj
          (answer_group tgId groupobj (x942_test al crypto (cap_crypto_handler cap) hash_alg (the (read_x942_type t)) oid)))))))"

definition x942_kat_handler ::
  "'w allocator \<Rightarrow> (AMVP_KDF135_X942_TC, 'w) module \<Rightarrow> JSON_Object option \<Rightarrow> 'w SESSION option \<Rightarrow> 'w SESSION option outcome" where
  "x942_kat_handler al crypto =
     moded_frame ((plain_rules AMVP_KDF135_X942)\<lparr>kr_no_alg := AMVP_MISSING_ARG, kr_no_mode := AMVP_MISSING_ARG,
         kr_extra := (\<lambda>_. echo_mode ''ansix9.42''), kr_no_groups := Some AMVP_MISSING_ARG\<rparr>)
       (\<lambda>w. w) (\<lambda>w. w) (x942_group al crypto)"

section \<open>ANSI X9.63\<close>

record AMVP_KDF135_X963_TC =
  x3_cipher :: AMVP_CIPHER
  x3_tc_id :: nat
  x3_hash_alg :: int
  x3_field_size :: int
  x3_key_data_len :: int
  x3_shared_info_len :: int
  x3_z_len :: int
  x3_z :: "bytes option"
  x3_shared_info :: "bytes option"
  x3_key_data :: "bytes option"

definition amvp_kdf135_x963_init_tc ::
  "'w allocator \<Rightarrow> nat \<Rightarrow> int \<Rightarrow> int \<Rightarrow> int \<Rightarrow> int \<Rightarrow> string \<Rightarrow> string \<Rightarrow> (AMVP_KDF135_X963_TC, 'w) step" where
  "amvp_kdf135_x963_init_tc al tc_id hash_alg field_size key_data_length shared_info_length z shared_info =
     andthen (new_hex_len al AMVP_KDF135_X963_INPUT_MAX z) (\<lambda>(zb, z_len).
     andthen (new_hex al AMVP_KDF135_X963_INPUT_MAX shared_info) (\<lambda>si.
     andthen (new_bytes al AMVP_KDF135_X963_KEYDATA_MAX_BYTES) (\<lambda>kd.
       pass \<lparr>x3_cipher = 0, x3_tc_id = tc_id, x3_hash_alg = hash_alg, x3_field_size = quot8 field_size,
             x3_key_data_len = quot8 key_data_length, x3_shared_info_len = quot8 shared_info_length, x3_z_len = int z_len,
             x3_z = Some zb, x3_shared_info = Some si, x3_key_data = Some kd\<rparr>)))"

text \<open>An error of the conversion is not returned: the answer then lacks the key.\<close>

definition amvp_kdf135_x963_output_tc :: "'w allocator \<Rightarrow> AMVP_KDF135_X963_TC \<Rightarrow> JSON_Object \<Rightarrow> (JSON_Object, 'w) step" where
  "amvp_kdf135_x963_output_tc al stc tc_rsp =
     andthen (new_chars al (AMVP_KDF135_X963_KEYDATA_MAX_CHARS + 1)) (\<lambda>_.
       dropping_error tc_rsp (hex_member AMVP_KDF135_X963_KEYDATA_MAX_CHARS ''keyData'' (x3_key_data stc) (x3_key_data_len stc) tc_rsp))"

definition x963_test ::
  "'w allocator \<Rightarrow> (AMVP_KDF135_X963_TC, 'w) module \<Rightarrow> callback \<Rightarrow> int \<Rightarrow> int \<Rightarrow> int \<Rightarrow> int \<Rightarrow> JSON_Object option \<Rightarrow> (JSON_Value, 'w) step" where
  "x963_test al crypto cb hash_alg field_size key_data_length shared_info_len testobj =
     with_tcId testobj True (\<lambda>tc_id.
       case (json_object_get_string testobj ''z'', json_object_get_string testobj ''sharedInfo'') of
         (Some z, Some shared_info) \<Rightarrow>
           run_case (amvp_kdf135_x963_init_tc al tc_id hash_alg field_size key_data_length shared_info_len z shared_info)
             (call_crypto crypto cb) (amvp_kdf135_x963_output_tc al) (int tc_id)
       | _ \<Rightarrow> stop AMVP_INVALID_ARG)"

definition x963_group ::
  "'w allocator \<Rightarrow> (AMVP_KDF135_X963_TC, 'w) module \<Rightarrow> AMVP_CIPHER \<Rightarrow> AMVP_CAPS_LIST \<Rightarrow> JSON_Object option \<Rightarrow> (JSON_Value, 'w) step" where
  "x963_group al crypto alg_id cap groupobj =
     with_tgId groupobj (\<lambda>tgId.
     int_field groupobj ''fieldSize'' (\<lambda>field_size.
     reject (field_size = 0) AMVP_MISSING_ARG
       (int_field groupobj ''keyDataLength'' (\<lambda>key_data_length.
        reject (key_data_length = 0) AMVP_MISSING_ARG
          (int_field groupobj ''sharedInfoLength'' (\<lambda>shared_info_len.
           text_field groupobj ''hashAlg'' (\<lambda>hash_alg_str.
             let hash_alg = amvp_lookup_hash_alg (Some hash_alg_str)
             in reject (hash_alg \<noteq> AMVP_SHA224 \<and> hash_alg \<noteq> AMVP_SHA256 \<and> hash_alg \<noteq> AMVP_SHA384 \<and> hash_alg \<noteq> AMVP_SHA512) AMVP_INVALID_ARG
                  (some_tests groupobj
                    (answer_group tgId groupobj
                      (x963_test al crypto (cap_crypto_handler cap) hash_alg field_size key_data_length shared_info_len))))))))))"

definition x963_kat_handler ::
  "'w allocator \<Rightarrow> (AMVP_KDF135_X963_TC, 'w) module \<Rightarrow> JSON_Object option \<Rightarrow> 'w SESSION option \<Rightarrow> 'w SESSION option outcome" where
  "x963_kat_handler al crypto =
     moded_frame ((plain_rules AMVP_KDF135_X963)\<lparr>kr_no_alg := AMVP_MISSING_ARG, kr_no_mode := AMVP_MISSING_ARG,
         kr_extra := (\<lambda>_. echo_mode ''ansix9.63''), kr_no_groups := Some AMVP_MISSING_ARG\<rparr>)
       (\<lambda>w. w) (\<lambda>w. w) (x963_group al crypto)"

section \<open>IKEv1\<close>

record AMVP_KDF135_IKEV1_TC =
  i1_cipher :: AMVP_CIPHER
  i1_tc_id :: nat
  i1_hash_alg :: int
  i1_auth_method :: int
  i1_init_nonce_len :: nat
  i1_resp_nonce_len :: nat
  i1_dh_secret_len :: nat
  i1_psk_len :: nat
  i1_init_nonce :: "bytes option"
  i1_resp_nonce :: "bytes option"
  i1_init_ckey :: "bytes option"
  i1_resp_ckey :: "bytes option"
  i1_gxy :: "bytes option"
  i1_psk :: "bytes option"
  i1_s_key_id :: "bytes option"
  i1_s_key_id_len :: int
  i1_s_key_id_d :: "bytes option"
  i1_s_key_id_d_len :: int
  i1_s_key_id_a :: "bytes option"
  i1_s_key_id_a_len :: int
  i1_s_key_id_e :: "bytes option"
  i1_s_key_id_e_len :: int

text \<open>What a group says; the lengths have been checked, so none is negative.\<close>

record ikev1_params =
  ip_hash :: int
  ip_auth :: int
  ip_init_len :: nat
  ip_resp_len :: nat
  ip_dh_len :: nat

definition amvp_kdf135_ikev1_init_tc ::
  "'w allocator \<Rightarrow> nat \<Rightarrow> ikev1_params \<Rightarrow> nat \<Rightarrow> string \<Rightarrow> string \<Rightarrow> string \<Rightarrow> string \<Rightarrow> string \<Rightarrow> string option \<Rightarrow> (AMVP_KDF135_IKEV1_TC, 'w) step" where
  "amvp_kdf135_ikev1_init_tc al tc_id p psk_len init_nonce resp_nonce init_ckey resp_ckey gxy psk =
     andthen (new_hex al AMVP_KDF135_IKEV1_INIT_NONCE_BYTE_MAX init_nonce) (\<lambda>ni.
     andthen (new_hex al AMVP_KDF135_IKEV1_RESP_NONCE_BYTE_MAX resp_nonce) (\<lambda>nr.
     andthen (new_hex al AMVP_KDF135_IKEV1_COOKIE_BYTE_MAX init_ckey) (\<lambda>ci.
     andthen (new_hex al AMVP_KDF135_IKEV1_COOKIE_BYTE_MAX resp_ckey) (\<lambda>cr.
     andthen (new_hex al AMVP_KDF135_IKEV1_DH_SHARED_SECRET_BYTE_MAX gxy) (\<lambda>g.
     andthen (case psk of None \<Rightarrow> pass None | Some t \<Rightarrow> andthen (new_hex al AMVP_KDF135_IKEV1_PSK_BYTE_MAX t) (\<lambda>b. pass (Some b))) (\<lambda>pk.
     andthen (new_bytes al AMVP_KDF135_IKEV1_SKEY_BYTE_MAX) (\<lambda>k.
     andthen (new_bytes al AMVP_KDF135_IKEV1_SKEY_BYTE_MAX) (\<lambda>ka.
     andthen (new_bytes al AMVP_KDF135_IKEV1_SKEY_BYTE_MAX) (\<lambda>kd.
     andthen (new_bytes al AMVP_KDF135_IKEV1_SKEY_BYTE_MAX) (\<lambda>ke.
       pass \<lparr>i1_cipher = 0, i1_tc_id = tc_id, i1_hash_alg = ip_hash p, i1_auth_method = ip_auth p,
             i1_init_nonce_len = AMVP_BIT2BYTE (ip_init_len p), i1_resp_nonce_len = AMVP_BIT2BYTE (ip_resp_len p),
             i1_dh_secret_len = AMVP_BIT2BYTE (ip_dh_len p), i1_psk_len = AMVP_BIT2BYTE psk_len, i1_init_nonce = Some ni,
             i1_resp_nonce = Some nr, i1_init_ckey = Some ci, i1_resp_ckey = Some cr, i1_gxy = Some g, i1_psk = pk,
             i1_s_key_id = Some k, i1_s_key_id_len = 0, i1_s_key_id_d = Some kd, i1_s_key_id_d_len = 0, i1_s_key_id_a = Some ka,
             i1_s_key_id_a_len = 0, i1_s_key_id_e = Some ke, i1_s_key_id_e_len = 0\<rparr>))))))))))"

definition amvp_kdf135_ikev1_output_tc :: "'w allocator \<Rightarrow> AMVP_KDF135_IKEV1_TC \<Rightarrow> JSON_Object \<Rightarrow> (JSON_Object, 'w) step" where
  "amvp_kdf135_ikev1_output_tc al stc tc_rsp =
     andthen (new_chars al (AMVP_KDF135_IKEV1_SKEY_STR_MAX + 1)) (\<lambda>_.
       hex_members AMVP_KDF135_IKEV1_SKEY_STR_MAX
         [(''sKeyId'', i1_s_key_id stc, i1_s_key_id_len stc), (''sKeyIdD'', i1_s_key_id_d stc, i1_s_key_id_d_len stc),
          (''sKeyIdA'', i1_s_key_id_a stc, i1_s_key_id_a_len stc), (''sKeyIdE'', i1_s_key_id_e stc, i1_s_key_id_e_len stc)] tc_rsp)"

definition read_auth_method :: "string option \<Rightarrow> int" where
  "read_auth_method =
     read_literal 1 [(AMVP_KDF135_IKEV1_AMETH_DSA, ''dsa''), (AMVP_KDF135_IKEV1_AMETH_PSK, ''psk''), (AMVP_KDF135_IKEV1_AMETH_PKE, ''pke'')]"

text \<open>
  The pre-shared key and its length are variables of the handler: a group with another method
  neither sets nor clears them.
\<close>

type_synonym psk_locals = "string option \<times> nat"

definition ikev1_psk :: "int \<Rightarrow> JSON_Object option \<Rightarrow> (string option \<times> nat, psk_locals \<times> 'w) step" where
  "ikev1_psk auth testobj =
     andthen get_local (\<lambda>(psk, psk_len).
       if auth = AMVP_KDF135_IKEV1_AMETH_PSK
       then bounded_text testobj ''preSharedKey'' AMVP_KDF135_IKEV1_PSK_STR_MAX (\<lambda>t.
              andthen (put_local (Some t, psk_len)) (\<lambda>_. pass (Some t, psk_len)))
       else pass (psk, psk_len))"

definition exact_text :: "JSON_Object option \<Rightarrow> string \<Rightarrow> nat \<Rightarrow> nat \<Rightarrow> (string \<Rightarrow> ('a, 's) step) \<Rightarrow> ('a, 's) step" where
  "exact_text obj name mx n k = text_field obj name (\<lambda>t. reject (strnlen_s (Some t) mx \<noteq> n) AMVP_INVALID_ARG (k t))"

definition ikev1_test ::
  "'w allocator \<Rightarrow> (AMVP_KDF135_IKEV1_TC, 'w) module \<Rightarrow> callback \<Rightarrow> ikev1_params \<Rightarrow> JSON_Object option \<Rightarrow> (JSON_Value, psk_locals \<times> 'w) step" where
  "ikev1_test al crypto cb p testobj =
     with_tcId testobj False (\<lambda>tc_id.
     exact_text testobj ''nInit'' (AMVP_KDF135_IKEV1_INIT_NONCE_STR_MAX + 1) ((ip_init_len p + 7) div 8 * 2) (\<lambda>init_nonce.
     exact_text testobj ''nResp'' (AMVP_KDF135_IKEV1_RESP_NONCE_STR_MAX + 1) ((ip_resp_len p + 7) div 8 * 2) (\<lambda>resp_nonce.
     bounded_text testobj ''ckyInit'' AMVP_KDF135_IKEV1_COOKIE_STR_MAX (\<lambda>init_ckey.
     bounded_text testobj ''ckyResp'' AMVP_KDF135_IKEV1_COOKIE_STR_MAX (\<lambda>resp_ckey.
     bounded_text testobj ''gxy'' AMVP_KDF135_IKEV1_DH_SHARED_SECRET_STR_MAX (\<lambda>gxy.
     andthen (ikev1_psk (ip_auth p) testobj) (\<lambda>(psk, psk_len).
       run_case (on_snd (amvp_kdf135_ikev1_init_tc al tc_id p psk_len init_nonce resp_nonce init_ckey resp_ckey gxy psk))
         (\<lambda>stc. on_snd (call_crypto crypto cb stc)) (\<lambda>stc r. on_snd (amvp_kdf135_ikev1_output_tc al stc r)) (int tc_id))))))))"

definition is_sha1_or_sha2 :: "int \<Rightarrow> bool" where
  "is_sha1_or_sha2 h \<longleftrightarrow> h = AMVP_SHA1 \<or> h = AMVP_SHA224 \<or> h = AMVP_SHA256 \<or> h = AMVP_SHA384 \<or> h = AMVP_SHA512"

definition int_within :: "JSON_Object option \<Rightarrow> string \<Rightarrow> nat \<Rightarrow> nat \<Rightarrow> (nat \<Rightarrow> ('a, 's) step) \<Rightarrow> ('a, 's) step" where
  "int_within obj name lo hi k =
     int_field obj name (\<lambda>n. reject (\<not> (n \<ge> int lo \<and> n \<le> int hi)) AMVP_INVALID_ARG (k (nat n)))"

definition ikev1_group ::
  "'w allocator \<Rightarrow> (AMVP_KDF135_IKEV1_TC, 'w) module \<Rightarrow> AMVP_CIPHER \<Rightarrow> AMVP_CAPS_LIST \<Rightarrow> JSON_Object option \<Rightarrow> (JSON_Value, psk_locals \<times> 'w) step" where
  "ikev1_group al crypto alg_id cap groupobj =
     with_tgId groupobj (\<lambda>tgId.
     text_field groupobj ''hashAlg'' (\<lambda>hash_alg_str.
     reject (\<not> is_sha1_or_sha2 (amvp_lookup_hash_alg (Some hash_alg_str))) AMVP_INVALID_ARG
       (word_field groupobj ''authenticationMethod'' AMVP_INVALID_ARG read_auth_method (\<lambda>auth.
        bits_within groupobj ''nInitLength'' (int AMVP_KDF135_IKEV1_INIT_NONCE_BIT_MIN) (int AMVP_KDF135_IKEV1_INIT_NONCE_BIT_MAX) False (\<lambda>init_len.
        bits_within groupobj ''nRespLength'' (int AMVP_KDF135_IKEV1_RESP_NONCE_BIT_MIN) (int AMVP_KDF135_IKEV1_RESP_NONCE_BIT_MAX) False (\<lambda>resp_len.
        int_within groupobj ''dhLength'' AMVP_KDF135_IKEV1_DH_SHARED_SECRET_BIT_MIN AMVP_KDF135_IKEV1_DH_SHARED_SECRET_BIT_MAX (\<lambda>dh_len.
        andthen (if auth = AMVP_KDF135_IKEV1_AMETH_PSK
                 then int_within groupobj ''preSharedKeyLength'' AMVP_KDF135_IKEV1_PSK_BIT_MIN AMVP_KDF135_IKEV1_PSK_BIT_MAX (\<lambda>n.
                        andthen get_local (\<lambda>(psk, _). put_local (psk, n)))
                 else pass ()) (\<lambda>_.
          answer_group tgId groupobj (ikev1_test al crypto (cap_crypto_handler cap)
            \<lparr>ip_hash = amvp_lookup_hash_alg (Some hash_alg_str), ip_auth = auth, ip_init_len = init_len, ip_resp_len = resp_len, ip_dh_len = dh_len\<rparr>)))))))))"

definition ikev1_kat_handler ::
  "'w allocator \<Rightarrow> (AMVP_KDF135_IKEV1_TC, 'w) module \<Rightarrow> JSON_Object option \<Rightarrow> 'w SESSION option \<Rightarrow> 'w SESSION option outcome" where
  "ikev1_kat_handler al crypto = moded_frame (plain_rules AMVP_KDF135_IKEV1) (\<lambda>w. ((None, 0), w)) snd (ikev1_group al crypto)"

section \<open>IKEv2\<close>

record AMVP_KDF135_IKEV2_TC =
  i2_cipher :: AMVP_CIPHER
  i2_tc_id :: nat
  i2_hash_alg :: int
  i2_init_nonce_len :: nat
  i2_resp_nonce_len :: nat
  i2_gir_len :: nat
  i2_gir_new_len :: nat
  i2_init_spi_len :: nat
  i2_resp_spi_len :: nat
  i2_dh_secret_len :: nat
  i2_keying_material_len :: int
  i2_init_nonce :: "bytes option"
  i2_resp_nonce :: "bytes option"
  i2_init_spi :: "bytes option"
  i2_resp_spi :: "bytes option"
  i2_gir :: "bytes option"
  i2_gir_new :: "bytes option"
  i2_s_key_seed :: "bytes option"
  i2_s_key_seed_rekey :: "bytes option"
  i2_derived_keying_material :: "bytes option"
  i2_derived_keying_material_child :: "bytes option"
  i2_derived_keying_material_child_dh :: "bytes option"
  i2_key_out_len :: int

record ikev2_params =
  jp_hash :: int
  jp_init_len :: nat
  jp_resp_len :: nat
  jp_dh_len :: nat
  jp_material_len :: nat

definition amvp_kdf135_ikev2_init_tc ::
  "'w allocator \<Rightarrow> nat \<Rightarrow> ikev2_params \<Rightarrow> string \<Rightarrow> string \<Rightarrow> string \<Rightarrow> string \<Rightarrow> string \<Rightarrow> string \<Rightarrow> (AMVP_KDF135_IKEV2_TC, 'w) step" where
  "amvp_kdf135_ikev2_init_tc al tc_id p init_nonce resp_nonce init_spi resp_spi gir gir_new =
     andthen (new_hex_len al AMVP_KDF135_IKEV2_INIT_NONCE_BYTE_MAX init_nonce) (\<lambda>(ni, ni_len).
     andthen (new_hex_len al AMVP_KDF135_IKEV2_RESP_NONCE_BYTE_MAX resp_nonce) (\<lambda>(nr, nr_len).
     andthen (new_hex_len al AMVP_KDF135_IKEV2_SPI_BYTE_MAX init_spi) (\<lambda>(si, si_len).
     andthen (new_hex_len al AMVP_KDF135_IKEV2_SPI_BYTE_MAX resp_spi) (\<lambda>(sr, sr_len).
     andthen (new_hex_len al AMVP_KDF135_IKEV2_DH_SHARED_SECRET_BYTE_MAX gir) (\<lambda>(g, g_len).
     andthen (new_hex_len al AMVP_KDF135_IKEV2_DH_SHARED_SECRET_BYTE_MAX gir_new) (\<lambda>(gn, gn_len).
     andthen (new_bytes al AMVP_KDF135_IKEV2_SKEY_SEED_BYTE_MAX) (\<lambda>seed.
     andthen (new_bytes al AMVP_KDF135_IKEV2_SKEY_SEED_BYTE_MAX) (\<lambda>rekey.
     andthen (new_bytes al AMVP_KDF135_IKEV2_DKEY_MATERIAL_BYTE_MAX) (\<lambda>dkm.
     andthen (new_bytes al AMVP_KDF135_IKEV2_DKEY_MATERIAL_BYTE_MAX) (\<lambda>dh.
     andthen (new_bytes al AMVP_KDF135_IKEV2_DKEY_MATERIAL_BYTE_MAX) (\<lambda>child.
       pass \<lparr>i2_cipher = 0, i2_tc_id = tc_id, i2_hash_alg = jp_hash p, i2_init_nonce_len = ni_len, i2_resp_nonce_len = nr_len,
             i2_gir_len = g_len, i2_gir_new_len = gn_len, i2_init_spi_len = si_len, i2_resp_spi_len = sr_len, i2_dh_secret_len = jp_dh_len p,
             i2_keying_material_len = int (AMVP_BIT2BYTE (jp_material_len p)), i2_init_nonce = Some ni, i2_resp_nonce = Some nr,
             i2_init_spi = Some si, i2_resp_spi = Some sr, i2_gir = Some g, i2_gir_new = Some gn, i2_s_key_seed = Some seed,
             i2_s_key_seed_rekey = Some rekey, i2_derived_keying_material = Some dkm, i2_derived_keying_material_child = Some child,
             i2_derived_keying_material_child_dh = Some dh, i2_key_out_len = 0\<rparr>)))))))))))"

text \<open>
  The second text buffer has room for \<open>AMVP_KDF135_IKEV2_DKEY_MATERIAL_STR_MAX\<close> characters and no
  terminator, and its allocation is not checked.
\<close>

definition amvp_kdf135_ikev2_output_tc :: "'w allocator \<Rightarrow> AMVP_KDF135_IKEV2_TC \<Rightarrow> JSON_Object \<Rightarrow> (JSON_Object, 'w) step" where
  "amvp_kdf135_ikev2_output_tc al stc tc_rsp =
     (let mx = AMVP_KDF135_IKEV2_DKEY_MATERIAL_STR_MAX; len = i2_keying_material_len stc in
      andthen (new_chars al (AMVP_KDF135_IKEV2_SKEY_SEED_STR_MAX + 1)) (\<lambda>_.
      andthen (hex_members AMVP_KDF135_IKEV2_SKEY_SEED_STR_MAX
                 [(''sKeySeed'', i2_s_key_seed stc, i2_key_out_len stc), (''sKeySeedReKey'', i2_s_key_seed_rekey stc, i2_key_out_len stc)] tc_rsp) (\<lambda>r1.
      andthen (unchecked_chars al mx) (\<lambda>tmp.
      andthen (hex_through tmp mx ''derivedKeyingMaterial'' (i2_derived_keying_material stc) len r1) (\<lambda>r2.
      andthen (hex_through tmp mx ''derivedKeyingMaterialChild'' (i2_derived_keying_material_child stc) len r2) (\<lambda>r3.
        hex_through tmp mx ''derivedKeyingMaterialDh'' (i2_derived_keying_material_child_dh stc) len r3))))))"

definition ikev2_test ::
  "'w allocator \<Rightarrow> (AMVP_KDF135_IKEV2_TC, 'w) module \<Rightarrow> callback \<Rightarrow> ikev2_params \<Rightarrow> JSON_Object option \<Rightarrow> (JSON_Value, 'w) step" where
  "ikev2_test al crypto cb p testobj =
     with_tcId testobj False (\<lambda>tc_id.
     exact_text testobj ''nInit'' (jp_init_len p) (jp_init_len p div 4) (\<lambda>init_nonce.
     exact_text testobj ''nResp'' (jp_resp_len p) (jp_resp_len p div 4) (\<lambda>resp_nonce.
     bounded_text testobj ''spiInit'' AMVP_KDF135_IKEV2_SPI_STR_MAX (\<lambda>init_spi.
     bounded_text testobj ''spiResp'' AMVP_KDF135_IKEV2_SPI_STR_MAX (\<lambda>resp_spi.
     bounded_text testobj ''gir'' AMVP_KDF135_IKEV2_DH_SHARED_SECRET_STR_MAX (\<lambda>gir.
     bounded_text testobj ''girNew'' AMVP_KDF135_IKEV2_DH_SHARED_SECRET_STR_MAX (\<lambda>gir_new.
       run_case (amvp_kdf135_ikev2_init_tc al tc_id p init_nonce resp_nonce init_spi resp_spi gir gir_new) (call_crypto crypto cb)
         (amvp_kdf135_ikev2_output_tc al) (int tc_id))))))))"

definition ikev2_group ::
  "'w allocator \<Rightarrow> (AMVP_KDF135_IKEV2_TC, 'w) module \<Rightarrow> AMVP_CIPHER \<Rightarrow> AMVP_CAPS_LIST \<Rightarrow> JSON_Object option \<Rightarrow> (JSON_Value, 'w) step" where
  "ikev2_group al crypto alg_id cap groupobj =
     with_tgId groupobj (\<lambda>tgId.
     text_field groupobj ''hashAlg'' (\<lambda>hash_alg_str.
     reject (\<not> is_sha1_or_sha2 (amvp_lookup_hash_alg (Some hash_alg_str))) AMVP_INVALID_ARG
       (bits_within groupobj ''nInitLength'' (int AMVP_KDF135_IKEV2_INIT_NONCE_BIT_MIN) (int AMVP_KDF135_IKEV2_INIT_NONCE_BIT_MAX) False (\<lambda>init_len.
        bits_within groupobj ''nRespLength'' (int AMVP_KDF135_IKEV2_RESP_NONCE_BIT_MIN) (int AMVP_KDF135_IKEV2_RESP_NONCE_BIT_MAX) False (\<lambda>resp_len.
        int_within groupobj ''dhLength'' AMVP_KDF135_IKEV2_DH_SHARED_SECRET_BIT_MIN AMVP_KDF135_IKEV2_DH_SHARED_SECRET_BIT_MAX (\<lambda>dh_len.
        int_within groupobj ''derivedKeyingMaterialLength'' AMVP_KDF135_IKEV2_DKEY_MATERIAL_BIT_MIN AMVP_KDF135_IKEV2_DKEY_MATERIAL_BIT_MAX (\<lambda>len.
          answer_group tgId groupobj (ikev2_test al crypto (cap_crypto_handler cap)
            \<lparr>jp_hash = amvp_lookup_hash_alg (Some hash_alg_str), jp_init_len = init_len, jp_resp_len = resp_len, jp_dh_len = dh_len,
              jp_material_len = len\<rparr>))))))))"

definition ikev2_kat_handler ::
  "'w allocator \<Rightarrow> (AMVP_KDF135_IKEV2_TC, 'w) module \<Rightarrow> JSON_Object option \<Rightarrow> 'w SESSION option \<Rightarrow> 'w SESSION option outcome" where
  "ikev2_kat_handler al crypto = moded_frame (plain_rules AMVP_KDF135_IKEV2) (\<lambda>w. w) (\<lambda>w. w) (ikev2_group al crypto)"

section \<open>Answers\<close>

lemma kdf135_outputs [label_intros]:
  "keeps_label (amvp_kdf135_snmp_output_tc al sn)" "keeps_label (amvp_kdf135_srtp_output_tc al sr)" "keeps_label (amvp_kdf135_ssh_output_tc al ss)"
  "keeps_label (amvp_kdf135_x942_output_tc al x4)" "keeps_label (amvp_kdf135_x963_output_tc al x3)" "keeps_label (amvp_kdf135_ikev1_output_tc al i1)"
  "keeps_label (amvp_kdf135_ikev2_output_tc al i2)"
  unfolding amvp_kdf135_snmp_output_tc_def [abs_def] amvp_kdf135_srtp_output_tc_def [abs_def] amvp_kdf135_ssh_output_tc_def [abs_def]
    amvp_kdf135_x942_output_tc_def [abs_def] amvp_kdf135_x963_output_tc_def [abs_def] amvp_kdf135_ikev1_output_tc_def [abs_def]
    amvp_kdf135_ikev2_output_tc_def [abs_def] Let_def
  by (intro label_intros yields_intros; simp add: json_name_def c_string_simps)+

lemma kdf135_inits [yields_intros]:
  "honest (amvp_kdf135_snmp_init_tc al tc_id alg_id e pw n)" "honest (amvp_kdf135_srtp_init_tc al tc_id i s1 s2 s3 s4 s5)"
  "honest (amvp_kdf135_ssh_init_tc al tc_id alg_id i k1 k2 k3 k4 s1 s2 s3)" "honest (amvp_kdf135_x942_init_tc al j i1 i2 s1 s2 i3 s3 s4 s5 s6)"
  "honest (amvp_kdf135_x963_init_tc al tc_id i1 i2 i3 i4 s1 s2)" "honest (amvp_kdf135_ikev1_init_tc al tc_id p n s1 s2 s3 s4 s5 t)"
  "honest (amvp_kdf135_ikev2_init_tc al tc_id q s1 s2 s3 s4 s5 s6)"
  unfolding amvp_kdf135_snmp_init_tc_def amvp_kdf135_srtp_init_tc_def amvp_kdf135_ssh_init_tc_def amvp_kdf135_x942_init_tc_def
    amvp_kdf135_x963_init_tc_def amvp_kdf135_ikev1_init_tc_def amvp_kdf135_ikev2_init_tc_def Let_def
  by (auto intro!: yields_intros split: option.splits)

lemma yields_exact_text [yields_intros]: "(\<And>t. yields P (k t)) \<Longrightarrow> yields P (exact_text obj name mx n k)"
  and yields_int_within [yields_intros]: "(\<And>m. yields P (h m)) \<Longrightarrow> yields P (int_within obj name lo hi h)"
  by (auto simp: exact_text_def int_within_def intro!: yields_intros)

lemma honest_ikev1_psk [yields_intros]: "honest (ikev1_psk auth testobj)"
  by (auto simp: ikev1_psk_def intro!: yields_intros)

lemma kdf135_tests:
  "answers_test (snmp_test al snmp alg_id cb n e)" "answers_test (srtp_test al srtp cb i s)" "answers_test (ssh_test al ssh alg_id cb i k1 k2 k3)"
  "answers_test (ikev1_test al ikev1 cb p)" "answers_test (ikev2_test al ikev2 cb q)"
  unfolding snmp_test_def [abs_def] srtp_test_def [abs_def] ssh_test_def [abs_def] ikev1_test_def [abs_def] ikev2_test_def [abs_def] case_prod_beta
  by (intro answers_testI yields_with_tcId yields_intros yields_run_case label_intros; simp)+

lemma x942_test_answers: "answers_test (x942_test al crypto cb h t s)"
  unfolding x942_test_def [abs_def] int_field_def [of _ "''tcId''"]
  by (intro answers_testI yields_as_int yields_intros yields_run_case label_intros) (auto simp: test_number_def)

lemma x963_test_answers: "answers_test (x963_test al crypto cb h i1 i2 i3)"
  unfolding x963_test_def [abs_def] prod.case
  by (intro answers_testI yields_with_tcId yields_intros yields_run_case label_intros; simp)

lemmas kdf135_answers = kdf135_tests x942_test_answers x963_test_answers

lemma kdf135_groups:
  "answers_group (snmp_group al snmp alg_id cap)" "answers_group (srtp_group al srtp alg_id cap)" "answers_group (ssh_group al ssh alg_id cap)"
  "answers_group (x942_group al x942 alg_id cap)" "answers_group (x963_group al x963 alg_id cap)"
  "answers_group (ikev1_group al ikev1 alg_id cap)" "answers_group (ikev2_group al ikev2 alg_id cap)"
  unfolding snmp_group_def [abs_def] srtp_group_def [abs_def] ssh_group_def [abs_def] x942_group_def [abs_def] x963_group_def [abs_def]
    ikev1_group_def [abs_def] ikev2_group_def [abs_def] Let_def case_prod_beta
  by (intro answers_groupI yields_intros yields_answer_group kdf135_answers; simp add: yields_intros)+

end
