(* ===== verification/Kat_Kdf.thy ===== *)
theory Kat_Kdf
  imports Kat_Kdf135
begin

text \<open>
  The handlers of the other key derivation functions: \<^verbatim>\<open>src/amvp_kdf108.c\<close>, \<^verbatim>\<open>src/amvp_pbkdf.c\<close>,
  \<^verbatim>\<open>src/amvp_kdf_tls12.c\<close> and \<^verbatim>\<open>src/amvp_kdf_tls13.c\<close>.
\<close>

section \<open>SP 800-108\<close>

record AMVP_KDF108_TC =
  k8_cipher :: AMVP_CIPHER
  k8_tc_id :: nat
  k8_mode :: int
  k8_mac_mode :: int
  k8_counter_location :: int
  k8_key_in :: "bytes option"
  k8_key_out :: "bytes option"
  k8_fixed_data :: "bytes option"
  k8_iv :: "bytes option"
  k8_key_in_len :: nat
  k8_key_out_len :: int
  k8_iv_len :: int
  k8_fixed_data_len :: int
  k8_counter_len :: int
  k8_deferred :: int

record kdf108_params =
  kp_mode :: int
  kp_mac_mode :: int
  kp_key_out_len :: int
  kp_counter_len :: int
  kp_counter_location :: int

text \<open>A negative size is one beyond the address space for the allocator, which cannot serve it.\<close>

definition new_bytes_int :: "'w allocator \<Rightarrow> int \<Rightarrow> (bytes, 'w) step" where
  "new_bytes_int al n = (if n < 0 then stop AMVP_MALLOC_FAIL else new_bytes al (nat n))"

text \<open>The length of the initialization vector is not stored.\<close>

definition amvp_kdf108_init_tc ::
  "'w allocator \<Rightarrow> nat \<Rightarrow> kdf108_params \<Rightarrow> string \<Rightarrow> string option \<Rightarrow> nat \<Rightarrow> nat \<Rightarrow> int \<Rightarrow> (AMVP_KDF108_TC, 'w) step" where
  "amvp_kdf108_init_tc al tc_id p key_in iv key_in_len iv_len deferred =
     andthen (new_hex al key_in_len key_in) (\<lambda>k.
     andthen (case iv of None \<Rightarrow> pass None | Some t \<Rightarrow> andthen (new_hex al iv_len t) (\<lambda>v. pass (Some v))) (\<lambda>v.
     andthen (new_bytes_int al (kp_key_out_len p)) (\<lambda>ko.
     andthen (new_bytes al AMVP_KDF108_FIXED_DATA_BYTE_MAX) (\<lambda>fd.
       pass \<lparr>k8_cipher = AMVP_KDF108, k8_tc_id = tc_id, k8_mode = kp_mode p, k8_mac_mode = kp_mac_mode p,
             k8_counter_location = kp_counter_location p, k8_key_in = Some k, k8_key_out = Some ko, k8_fixed_data = Some fd, k8_iv = v,
             k8_key_in_len = key_in_len, k8_key_out_len = kp_key_out_len p, k8_iv_len = 0, k8_fixed_data_len = 0,
             k8_counter_len = kp_counter_len p, k8_deferred = deferred\<rparr>))))"

definition amvp_kdf108_output_tc :: "'w allocator \<Rightarrow> AMVP_KDF108_TC \<Rightarrow> JSON_Object \<Rightarrow> (JSON_Object, 'w) step" where
  "amvp_kdf108_output_tc al stc tc_rsp =
     andthen (new_chars al (AMVP_KDF108_KEYOUT_STR_MAX + 1)) (\<lambda>_.
     reject (k8_key_out_len stc > int AMVP_KDF108_KEYOUT_BYTE_MAX) AMVP_INVALID_ARG
       (andthen (hex_member AMVP_KDF108_KEYOUT_STR_MAX ''keyOut'' (k8_key_out stc) (k8_key_out_len stc) tc_rsp) (\<lambda>r1.
        andthen (new_chars al (AMVP_KDF108_FIXED_DATA_STR_MAX + 1)) (\<lambda>_.
        reject (k8_fixed_data_len stc > int AMVP_KDF108_FIXED_DATA_BYTE_MAX) AMVP_INVALID_ARG
          (hex_member AMVP_KDF108_FIXED_DATA_STR_MAX ''fixedData'' (k8_fixed_data stc) (k8_fixed_data_len stc) r1)))))"

definition read_mode :: "string option \<Rightarrow> int" where
  "read_mode =
     read_literal 1 [(AMVP_KDF108_MODE_COUNTER, ''counter''), (AMVP_KDF108_MODE_FEEDBACK, ''feedback''),
       (AMVP_KDF108_MODE_DPI, ''double pipeline iteration'')]"

definition read_mac_mode :: "string option \<Rightarrow> int" where
  "read_mac_mode =
     read_literal 1
       [(AMVP_KDF108_MAC_MODE_HMAC_SHA1, ''HMAC-SHA-1''), (AMVP_KDF108_MAC_MODE_HMAC_SHA224, ''HMAC-SHA2-224''),
        (AMVP_KDF108_MAC_MODE_HMAC_SHA256, ''HMAC-SHA2-256''), (AMVP_KDF108_MAC_MODE_HMAC_SHA384, ''HMAC-SHA2-384''),
        (AMVP_KDF108_MAC_MODE_HMAC_SHA512, ''HMAC-SHA2-512''), (AMVP_KDF108_MAC_MODE_HMAC_SHA512_224, ''HMAC-SHA2-512/224''),
        (AMVP_KDF108_MAC_MODE_HMAC_SHA512_256, ''HMAC-SHA2-512/256''), (AMVP_KDF108_MAC_MODE_HMAC_SHA3_224, ''HMAC-SHA3-224''),
        (AMVP_KDF108_MAC_MODE_HMAC_SHA3_256, ''HMAC-SHA3-256''), (AMVP_KDF108_MAC_MODE_HMAC_SHA3_384, ''HMAC-SHA3-384''),
        (AMVP_KDF108_MAC_MODE_HMAC_SHA3_512, ''HMAC-SHA3-512''), (AMVP_KDF108_MAC_MODE_CMAC_AES128, ''CMAC-AES128''),
        (AMVP_KDF108_MAC_MODE_CMAC_AES192, ''CMAC-AES192''), (AMVP_KDF108_MAC_MODE_CMAC_AES256, ''CMAC-AES256''),
        (AMVP_KDF108_MAC_MODE_CMAC_TDES, ''CMAC-TDES'')]"

definition read_ctr_location :: "string option \<Rightarrow> int" where
  "read_ctr_location =
     read_literal 1
       [(AMVP_KDF108_FIXED_DATA_ORDER_AFTER, ''after fixed data''), (AMVP_KDF108_FIXED_DATA_ORDER_BEFORE, ''before fixed data''),
        (AMVP_KDF108_FIXED_DATA_ORDER_MIDDLE, ''middle fixed data''), (AMVP_KDF108_FIXED_DATA_ORDER_NONE, ''none''),
        (AMVP_KDF108_FIXED_DATA_ORDER_BEFORE_ITERATOR, ''before iterator'')]"

text \<open>
  The initialization vector and its length are variables of the handler: only a group in
  feedback mode sets them, and no group clears them.
\<close>

type_synonym iv_locals = "string option \<times> nat"

definition kdf108_iv :: "int \<Rightarrow> JSON_Object option \<Rightarrow> (iv_locals, iv_locals \<times> 'w) step" where
  "kdf108_iv mode testobj =
     (if mode = AMVP_KDF108_MODE_FEEDBACK
      then bounded_text testobj ''iv'' AMVP_KDF108_IV_STR_MAX (\<lambda>t.
             let v = (Some t, strnlen_s (Some t) (AMVP_KDF108_IV_STR_MAX + 1) div 2) in andthen (put_local v) (\<lambda>_. pass v))
      else get_local)"

definition kdf108_test ::
  "'w allocator \<Rightarrow> (AMVP_KDF108_TC, 'w) module \<Rightarrow> callback \<Rightarrow> kdf108_params \<Rightarrow> JSON_Object option \<Rightarrow> (JSON_Value, iv_locals \<times> 'w) step" where
  "kdf108_test al crypto cb p testobj =
     with_tcId testobj False (\<lambda>tc_id.
     bounded_text testobj ''keyIn'' AMVP_KDF108_KEYIN_STR_MAX (\<lambda>key_in.
     andthen (kdf108_iv (kp_mode p) testobj) (\<lambda>(iv, iv_len).
       let deferred = json_object_get_boolean testobj ''deferred'';
           key_in_len = strnlen_s (Some key_in) (AMVP_KDF108_KEYIN_STR_MAX + 1) div 2
       in reject (deferred = -1 \<and> kp_counter_location p = AMVP_KDF108_FIXED_DATA_ORDER_MIDDLE) AMVP_MISSING_ARG
            (run_case (on_snd (amvp_kdf108_init_tc al tc_id p key_in iv key_in_len iv_len deferred)) (\<lambda>stc. on_snd (call_crypto crypto cb stc))
               (\<lambda>stc r. on_snd (amvp_kdf108_output_tc al stc r)) (int tc_id)))))"

definition kdf108_group ::
  "'w allocator \<Rightarrow> (AMVP_KDF108_TC, 'w) module \<Rightarrow> AMVP_CIPHER \<Rightarrow> AMVP_CAPS_LIST \<Rightarrow> JSON_Object option \<Rightarrow> (JSON_Value, iv_locals \<times> 'w) step" where
  "kdf108_group al crypto alg_id cap groupobj =
     with_tgId groupobj (\<lambda>tgId.
     word_field groupobj ''kdfMode'' AMVP_INVALID_ARG read_mode (\<lambda>mode.
     word_field groupobj ''macMode'' AMVP_INVALID_ARG read_mac_mode (\<lambda>mac_mode.
     int_field groupobj ''keyOutLength'' (\<lambda>bits.
     reject (bits = 0 \<or> bits > int AMVP_KDF108_KEYOUT_BIT_MAX) AMVP_INVALID_ARG
       (int_field groupobj ''counterLength'' (\<lambda>ctr_len.
        reject (mode = AMVP_KDF108_MODE_COUNTER \<and> ctr_len \<noteq> 8 \<and> ctr_len \<noteq> 16 \<and> ctr_len \<noteq> 24 \<and> ctr_len \<noteq> 32) AMVP_INVALID_ARG
          (word_field groupobj ''counterLocation'' AMVP_INVALID_ARG read_ctr_location (\<lambda>ctr_loc.
             answer_group tgId groupobj (kdf108_test al crypto (cap_crypto_handler cap)
               \<lparr>kp_mode = mode, kp_mac_mode = mac_mode, kp_key_out_len = quot8 (bits + 7), kp_counter_len = ctr_len,
                 kp_counter_location = ctr_loc\<rparr>)))))))))"

definition kdf108_kat_handler ::
  "'w allocator \<Rightarrow> (AMVP_KDF108_TC, 'w) module \<Rightarrow> JSON_Object option \<Rightarrow> 'w SESSION option \<Rightarrow> 'w SESSION option outcome" where
  "kdf108_kat_handler al crypto = named_frame (plain_rules AMVP_KDF108) (\<lambda>w. ((None, 0), w)) snd (kdf108_group al crypto)"

section \<open>PBKDF\<close>

record AMVP_PBKDF_TC =
  pb_cipher :: AMVP_CIPHER
  pb_tc_id :: nat
  pb_hmac_type :: int
  pb_test_type :: int
  pb_key_len :: nat
  pb_salt :: "bytes option"
  pb_salt_len :: nat
  pb_password :: "char list option"
  pb_pw_len :: nat
  pb_iterationCount :: nat
  pb_key :: "bytes option"

text \<open>The password is copied in one memory that holds the buffer and, above it, the text.\<close>

definition amvp_pbkdf_init_tc ::
  "'w allocator \<Rightarrow> nat \<Rightarrow> int \<Rightarrow> int \<Rightarrow> string \<Rightarrow> string \<Rightarrow> nat \<Rightarrow> nat \<Rightarrow> nat \<Rightarrow> nat \<Rightarrow> (AMVP_PBKDF_TC, 'w) step" where
  "amvp_pbkdf_init_tc al tc_id hmacAlg testType salt password iterationCount key_len salt_len password_len =
     andthen (new_hex al salt_len salt) (\<lambda>sa.
     andthen (new_chars al (password_len + 1)) (\<lambda>buf.
     andthen (of_sum (strncpy_s (buf @ password @ [NUL]) (Some 0) (password_len + 1) (Some (length buf)) password_len)) (\<lambda>(e, m).
     reject (e \<noteq> EOK) AMVP_DATA_TOO_LARGE
       (andthen (new_bytes al (AMVP_PBKDF_KEY_BYTE_MAX + 1)) (\<lambda>key.
          pass \<lparr>pb_cipher = AMVP_PBKDF, pb_tc_id = tc_id, pb_hmac_type = hmacAlg, pb_test_type = testType, pb_key_len = key_len,
                pb_salt = Some sa, pb_salt_len = salt_len, pb_password = Some (take (length buf) m), pb_pw_len = password_len,
                pb_iterationCount = iterationCount, pb_key = Some key\<rparr>)))))"

definition amvp_pbkdf_output_tc :: "'w allocator \<Rightarrow> AMVP_PBKDF_TC \<Rightarrow> JSON_Object \<Rightarrow> (JSON_Object, 'w) step" where
  "amvp_pbkdf_output_tc al stc tc_rsp =
     reject (pb_key_len stc > AMVP_PBKDF_KEY_BYTE_MAX) AMVP_DATA_TOO_LARGE
       (reject (pb_key_len stc < AMVP_PBKDF_KEY_BYTE_MIN) AMVP_INVALID_ARG
         (andthen (new_chars al (AMVP_PBKDF_KEY_STR_MAX + 1)) (\<lambda>_.
            hex_member AMVP_PBKDF_KEY_STR_MAX ''derivedKey'' (pb_key stc) (int (pb_key_len stc)) tc_rsp)))"

definition pbkdf_read_test_type :: "string option \<Rightarrow> int" where
  "pbkdf_read_test_type = read_literal 1 [(AMVP_PBKDF_TEST_TYPE_AFT, ''AFT'')]"

definition read_hmac_alg :: "string option \<Rightarrow> int" where
  "read_hmac_alg =
     read_literal 1
       [(AMVP_SHA1, ''SHA-1''), (AMVP_SHA224, ''SHA2-224''), (AMVP_SHA256, ''SHA2-256''), (AMVP_SHA384, ''SHA2-384''), (AMVP_SHA512, ''SHA2-512''),
        (AMVP_SHA512_224, ''SHA2-512/224''), (AMVP_SHA512_256, ''SHA2-512/256''), (AMVP_SHA3_224, ''SHA3-224''), (AMVP_SHA3_256, ''SHA3-256''),
        (AMVP_SHA3_384, ''SHA3-384''), (AMVP_SHA3_512, ''SHA3-512'')]"

definition pbkdf_test ::
  "'w allocator \<Rightarrow> (AMVP_PBKDF_TC, 'w) module \<Rightarrow> callback \<Rightarrow> int \<Rightarrow> int \<Rightarrow> JSON_Object option \<Rightarrow> (JSON_Value, 'w) step" where
  "pbkdf_test al crypto cb test_type hmac_alg testobj =
     with_tcId testobj True (\<lambda>tc_id.
     int_within testobj ''keyLen'' AMVP_PBKDF_KEY_BIT_MIN AMVP_PBKDF_KEY_BIT_MAX (\<lambda>key_bits.
     bounded_text testobj ''salt'' AMVP_PBKDF_SALT_LEN_STR_MAX (\<lambda>salt.
     text_field testobj ''password'' (\<lambda>password.
       let password_len = strnlen_s (Some password) (AMVP_PBKDF_PASS_LEN_MAX + 1) in
       reject (password_len < AMVP_PBKDF_PASS_LEN_MIN \<or> password_len > AMVP_PBKDF_PASS_LEN_MAX) AMVP_INVALID_ARG
         (int_within testobj ''iterationCount'' AMVP_PBKDF_ITERATION_MIN AMVP_PBKDF_ITERATION_MAX (\<lambda>iteration_count.
            run_case (amvp_pbkdf_init_tc al tc_id hmac_alg test_type salt password iteration_count (key_bits div 8)
                (strnlen_s (Some salt) (AMVP_PBKDF_SALT_LEN_STR_MAX + 1) div 2) password_len)
              (call_crypto crypto cb) (amvp_pbkdf_output_tc al) (int tc_id)))))))"

definition pbkdf_group ::
  "'w allocator \<Rightarrow> (AMVP_PBKDF_TC, 'w) module \<Rightarrow> AMVP_CIPHER \<Rightarrow> AMVP_CAPS_LIST \<Rightarrow> JSON_Object option \<Rightarrow> (JSON_Value, 'w) step" where
  "pbkdf_group al crypto alg_id cap groupobj =
     with_tgId groupobj (\<lambda>tgId.
     word_field groupobj ''testType'' AMVP_INVALID_ARG pbkdf_read_test_type (\<lambda>test_type.
     word_field groupobj ''hmacAlg'' AMVP_INVALID_ARG read_hmac_alg (\<lambda>hmac_alg.
       answer_group tgId groupobj (pbkdf_test al crypto (cap_crypto_handler cap) test_type hmac_alg))))"

definition pbkdf_kat_handler ::
  "'w allocator \<Rightarrow> (AMVP_PBKDF_TC, 'w) module \<Rightarrow> JSON_Object option \<Rightarrow> 'w SESSION option \<Rightarrow> 'w SESSION option outcome" where
  "pbkdf_kat_handler al crypto = named_frame (plain_rules AMVP_PBKDF) (\<lambda>w. w) (\<lambda>w. w) (pbkdf_group al crypto)"

section \<open>TLS 1.2\<close>

record AMVP_KDF_TLS12_TC =
  t2_cipher :: AMVP_CIPHER
  t2_tc_id :: nat
  t2_md :: int
  t2_pm_len :: nat
  t2_kb_len :: nat
  t2_pm_secret :: "bytes option"
  t2_session_hash :: "bytes option"
  t2_s_rnd :: "bytes option"
  t2_c_rnd :: "bytes option"
  t2_msecret :: "bytes option"
  t2_kblock :: "bytes option"
  t2_session_hash_len :: nat
  t2_s_rnd_len :: nat
  t2_c_rnd_len :: nat

definition amvp_kdf_tls12_init_tc ::
  "'w allocator \<Rightarrow> nat \<Rightarrow> AMVP_CIPHER \<Rightarrow> int \<Rightarrow> nat \<Rightarrow> nat \<Rightarrow> string \<Rightarrow> string \<Rightarrow> string \<Rightarrow> string \<Rightarrow> (AMVP_KDF_TLS12_TC, 'w) step" where
  "amvp_kdf_tls12_init_tc al tc_id alg_id md pm_len kb_len pm_secret session_hash s_rnd c_rnd =
     andthen (new_hex al AMVP_KDF_TLS12_MSG_MAX pm_secret) (\<lambda>pm.
     andthen (new_hex_len al AMVP_KDF_TLS12_MSG_MAX session_hash) (\<lambda>(sh, sh_len).
     andthen (new_hex_len al AMVP_KDF_TLS12_MSG_MAX c_rnd) (\<lambda>(cr, cr_len).
     andthen (new_hex_len al AMVP_KDF_TLS12_MSG_MAX s_rnd) (\<lambda>(sr, sr_len).
     andthen (new_bytes al AMVP_KDF_TLS12_MSG_MAX) (\<lambda>ms.
     andthen (new_bytes al AMVP_KDF_TLS12_MSG_MAX) (\<lambda>kb.
       pass \<lparr>t2_cipher = alg_id, t2_tc_id = tc_id, t2_md = md, t2_pm_len = pm_len div 8, t2_kb_len = kb_len div 8, t2_pm_secret = Some pm,
             t2_session_hash = Some sh, t2_s_rnd = Some sr, t2_c_rnd = Some cr, t2_msecret = Some ms, t2_kblock = Some kb,
             t2_session_hash_len = sh_len, t2_s_rnd_len = sr_len, t2_c_rnd_len = cr_len\<rparr>))))))"

text \<open>The master secret is reported with the length of the premaster secret.\<close>

definition amvp_kdf_tls12_output_tc :: "'w allocator \<Rightarrow> AMVP_KDF_TLS12_TC \<Rightarrow> JSON_Object \<Rightarrow> (JSON_Object, 'w) step" where
  "amvp_kdf_tls12_output_tc al stc tc_rsp =
     andthen (new_chars al (AMVP_KDF_TLS12_MSG_MAX + 1)) (\<lambda>_.
       hex_members AMVP_KDF_TLS12_MSG_MAX
         [(''masterSecret'', t2_msecret stc, wrap32 (int (t2_pm_len stc))), (''keyBlock'', t2_kblock stc, wrap32 (int (t2_kb_len stc)))] tc_rsp)"

definition tls12_test ::
  "'w allocator \<Rightarrow> (AMVP_KDF_TLS12_TC, 'w) module \<Rightarrow> AMVP_CIPHER \<Rightarrow> callback \<Rightarrow> nat \<Rightarrow> nat \<Rightarrow> int \<Rightarrow> JSON_Object option \<Rightarrow> (JSON_Value, 'w) step" where
  "tls12_test al crypto alg_id cb pm_len kb_len md testobj =
     with_tcId testobj False (\<lambda>tc_id.
     exact_text testobj ''preMasterSecret'' pm_len (pm_len div 4) (\<lambda>pm_secret.
     text_field testobj ''sessionHash'' (\<lambda>session_hash.
     text_field testobj ''serverRandom'' (\<lambda>s_rnd.
     text_field testobj ''clientRandom'' (\<lambda>c_rnd.
       run_case (amvp_kdf_tls12_init_tc al tc_id alg_id md pm_len kb_len pm_secret session_hash s_rnd c_rnd) (call_crypto crypto cb)
         (amvp_kdf_tls12_output_tc al) (int tc_id))))))"

definition tls12_group ::
  "'w allocator \<Rightarrow> (AMVP_KDF_TLS12_TC, 'w) module \<Rightarrow> AMVP_CIPHER \<Rightarrow> AMVP_CAPS_LIST \<Rightarrow> JSON_Object option \<Rightarrow> (JSON_Value, 'w) step" where
  "tls12_group al crypto alg_id cap groupobj =
     with_tgId groupobj (\<lambda>tgId.
     uint_field groupobj ''preMasterSecretLength'' (\<lambda>pm_len.
     reject (pm_len = 0) AMVP_INVALID_ARG
       (uint_field groupobj ''keyBlockLength'' (\<lambda>kb_len.
        reject (kb_len = 0) AMVP_INVALID_ARG
          (text_field groupobj ''hashAlg'' (\<lambda>sha.
             let md = amvp_lookup_hash_alg (Some sha) in
             reject (md \<noteq> AMVP_SHA256 \<and> md \<noteq> AMVP_SHA384 \<and> md \<noteq> AMVP_SHA512) AMVP_NO_CAP
               (answer_group tgId groupobj (tls12_test al crypto alg_id (cap_crypto_handler cap) pm_len kb_len md))))))))"

definition tls12_kat_handler ::
  "'w allocator \<Rightarrow> (AMVP_KDF_TLS12_TC, 'w) module \<Rightarrow> JSON_Object option \<Rightarrow> 'w SESSION option \<Rightarrow> 'w SESSION option outcome" where
  "tls12_kat_handler al crypto = moded_frame (plain_rules AMVP_KDF_TLS12) (\<lambda>w. w) (\<lambda>w. w) (tls12_group al crypto)"

section \<open>TLS 1.3\<close>

record AMVP_KDF_TLS13_TC =
  t3_cipher :: AMVP_CIPHER
  t3_tc_id :: nat
  t3_test_type :: int
  t3_hmac_alg :: int
  t3_running_mode :: int
  t3_psk :: "bytes option"
  t3_dhe :: "bytes option"
  t3_s_hello_rand :: "bytes option"
  t3_c_hello_rand :: "bytes option"
  t3_fin_s_hello_rand :: "bytes option"
  t3_fin_c_hello_rand :: "bytes option"
  t3_psk_len :: nat
  t3_dhe_len :: nat
  t3_s_hello_rand_len :: nat
  t3_c_hello_rand_len :: nat
  t3_fin_s_hello_rand_len :: nat
  t3_fin_c_hello_rand_len :: nat
  t3_c_early_traffic_secret :: "bytes option"
  t3_early_expt_master_secret :: "bytes option"
  t3_c_hs_traffic_secret :: "bytes option"
  t3_s_hs_traffic_secret :: "bytes option"
  t3_c_app_traffic_secret :: "bytes option"
  t3_s_app_traffic_secret :: "bytes option"
  t3_expt_master_secret :: "bytes option"
  t3_resume_master_secret :: "bytes option"
  t3_cets_len :: int
  t3_eems_len :: int
  t3_chts_len :: int
  t3_shts_len :: int
  t3_cats_len :: int
  t3_sats_len :: int
  t3_ems_len :: int
  t3_rms_len :: int

definition new_hex_opt :: "'w allocator \<Rightarrow> nat \<Rightarrow> string option \<Rightarrow> (bytes \<times> nat, 'w) step" where
  "new_hex_opt al n s = andthen (new_bytes al n) (\<lambda>b. case s of None \<Rightarrow> pass (b, 0) | Some t \<Rightarrow> from_hex_len al t b n)"

definition amvp_kdf_tls13_init_tc ::
  "'w allocator \<Rightarrow> nat \<Rightarrow> AMVP_CIPHER \<Rightarrow> int \<Rightarrow> int \<Rightarrow> int \<Rightarrow> string option \<Rightarrow> string option \<Rightarrow> string \<Rightarrow> string \<Rightarrow> string \<Rightarrow> string \<Rightarrow>
   (AMVP_KDF_TLS13_TC, 'w) step" where
  "amvp_kdf_tls13_init_tc al tc_id alg_id type run_mode hmac psk dhe s_hello_rand c_hello_rand fin_s_hello_rand fin_c_hello_rand =
     (let n = AMVP_KDF_TLS13_DATA_LEN_BYTE_MAX in
      andthen (new_hex_opt al n psk) (\<lambda>(pk, pk_len).
      andthen (new_hex_opt al n dhe) (\<lambda>(dh, dh_len).
      andthen (new_hex_len al n c_hello_rand) (\<lambda>(ch, ch_len).
      andthen (new_hex_len al n s_hello_rand) (\<lambda>(sh, sh_len).
      andthen (new_hex_len al n fin_c_hello_rand) (\<lambda>(fc, fc_len).
      andthen (new_hex_len al n fin_s_hello_rand) (\<lambda>(fs, fs_len).
      andthen (new_bytes al n) (\<lambda>b1.
      andthen (new_bytes al n) (\<lambda>b2.
      andthen (new_bytes al n) (\<lambda>b3.
      andthen (new_bytes al n) (\<lambda>b4.
      andthen (new_bytes al n) (\<lambda>b5.
      andthen (new_bytes al n) (\<lambda>b6.
      andthen (new_bytes al n) (\<lambda>b7.
      andthen (new_bytes al n) (\<lambda>b8.
        pass \<lparr>t3_cipher = alg_id, t3_tc_id = tc_id, t3_test_type = type, t3_hmac_alg = hmac, t3_running_mode = run_mode, t3_psk = Some pk,
              t3_dhe = Some dh, t3_s_hello_rand = Some sh, t3_c_hello_rand = Some ch, t3_fin_s_hello_rand = Some fs,
              t3_fin_c_hello_rand = Some fc, t3_psk_len = pk_len, t3_dhe_len = dh_len, t3_s_hello_rand_len = sh_len,
              t3_c_hello_rand_len = ch_len, t3_fin_s_hello_rand_len = fs_len, t3_fin_c_hello_rand_len = fc_len,
              t3_c_early_traffic_secret = Some b1, t3_early_expt_master_secret = Some b2, t3_c_hs_traffic_secret = Some b3,
              t3_s_hs_traffic_secret = Some b4, t3_c_app_traffic_secret = Some b5, t3_s_app_traffic_secret = Some b6,
              t3_expt_master_secret = Some b7, t3_resume_master_secret = Some b8, t3_cets_len = 0, t3_eems_len = 0, t3_chts_len = 0,
              t3_shts_len = 0, t3_cats_len = 0, t3_sats_len = 0, t3_ems_len = 0, t3_rms_len = 0\<rparr>)))))))))))))))"

text \<open>Members whose lengths, which the crypto module gave, are checked one after the other.\<close>

primrec checked_members :: "nat \<Rightarrow> nat \<Rightarrow> (string \<times> bytes option \<times> int) list \<Rightarrow> JSON_Object \<Rightarrow> (JSON_Object, 's) step" where
  "checked_members mx bmax [] rsp = pass rsp"
| "checked_members mx bmax (p # ps) rsp =
     reject (snd (snd p) > int bmax) AMVP_INVALID_ARG
       (andthen (hex_member mx (fst p) (fst (snd p)) (snd (snd p)) rsp) (checked_members mx bmax ps))"

definition amvp_kdf_tls13_output_tc :: "'w allocator \<Rightarrow> AMVP_KDF_TLS13_TC \<Rightarrow> JSON_Object \<Rightarrow> (JSON_Object, 'w) step" where
  "amvp_kdf_tls13_output_tc al stc tc_rsp =
     andthen (new_chars al (AMVP_KDF_TLS13_DATA_LEN_STR_MAX + 1)) (\<lambda>_.
       checked_members AMVP_KDF_TLS13_DATA_LEN_STR_MAX AMVP_KDF_TLS13_DATA_LEN_BYTE_MAX
         [(''clientEarlyTrafficSecret'', t3_c_early_traffic_secret stc, t3_cets_len stc),
          (''earlyExporterMasterSecret'', t3_early_expt_master_secret stc, t3_eems_len stc),
          (''clientHandshakeTrafficSecret'', t3_c_hs_traffic_secret stc, t3_chts_len stc),
          (''serverHandshakeTrafficSecret'', t3_s_hs_traffic_secret stc, t3_shts_len stc),
          (''clientApplicationTrafficSecret'', t3_c_app_traffic_secret stc, t3_cats_len stc),
          (''serverApplicationTrafficSecret'', t3_s_app_traffic_secret stc, t3_sats_len stc),
          (''exporterMasterSecret'', t3_expt_master_secret stc, t3_ems_len stc),
          (''resumptionMasterSecret'', t3_resume_master_secret stc, t3_rms_len stc)] tc_rsp)"

definition read_run_mode :: "string option \<Rightarrow> int" where
  "read_run_mode =
     read_literal 0 [(AMVP_KDF_TLS13_RUN_MODE_PSK, ''PSK''), (AMVP_KDF_TLS13_RUN_MODE_DHE, ''DHE''), (AMVP_KDF_TLS13_RUN_MODE_PSK_DHE, ''PSK-DHE'')]"

definition tls13_read_test_type :: "string option \<Rightarrow> int" where
  "tls13_read_test_type = read_literal 1 [(AMVP_KDF_TLS13_TEST_TYPE_AFT, ''AFT'')]"

definition text_when :: "bool \<Rightarrow> JSON_Object option \<Rightarrow> string \<Rightarrow> (string option \<Rightarrow> ('a, 's) step) \<Rightarrow> ('a, 's) step" where
  "text_when b obj name k = (if b then text_field obj name (\<lambda>t. k (Some t)) else k None)"

definition tls13_test ::
  "'w allocator \<Rightarrow> (AMVP_KDF_TLS13_TC, 'w) module \<Rightarrow> AMVP_CIPHER \<Rightarrow> callback \<Rightarrow> int \<Rightarrow> int \<Rightarrow> int \<Rightarrow> JSON_Object option \<Rightarrow> (JSON_Value, 'w) step" where
  "tls13_test al crypto alg_id cb type hmac runmode testobj =
     with_tcId testobj True (\<lambda>tc_id.
     text_when (runmode = AMVP_KDF_TLS13_RUN_MODE_PSK \<or> runmode = AMVP_KDF_TLS13_RUN_MODE_PSK_DHE) testobj ''psk'' (\<lambda>psk.
     text_when (runmode = AMVP_KDF_TLS13_RUN_MODE_DHE \<or> runmode = AMVP_KDF_TLS13_RUN_MODE_PSK_DHE) testobj ''dhe'' (\<lambda>dhe.
     text_field testobj ''helloServerRandom'' (\<lambda>sh_rnd.
     text_field testobj ''helloClientRandom'' (\<lambda>ch_rnd.
     text_field testobj ''finishedServerRandom'' (\<lambda>s_fin_rnd.
     text_field testobj ''finishedClientRandom'' (\<lambda>c_fin_rnd.
       run_case (amvp_kdf_tls13_init_tc al tc_id alg_id type runmode hmac psk dhe sh_rnd ch_rnd s_fin_rnd c_fin_rnd) (call_crypto crypto cb)
         (amvp_kdf_tls13_output_tc al) (int tc_id))))))))"

definition tls13_group ::
  "'w allocator \<Rightarrow> (AMVP_KDF_TLS13_TC, 'w) module \<Rightarrow> AMVP_CIPHER \<Rightarrow> AMVP_CAPS_LIST \<Rightarrow> JSON_Object option \<Rightarrow> (JSON_Value, 'w) step" where
  "tls13_group al crypto alg_id cap groupobj =
     with_tgId groupobj (\<lambda>tgId.
     word_field groupobj ''testType'' AMVP_MALFORMED_JSON tls13_read_test_type (\<lambda>type.
     word_field groupobj ''hmacAlg'' AMVP_MALFORMED_JSON amvp_lookup_hash_alg (\<lambda>hmac.
     word_field groupobj ''runningMode'' AMVP_MALFORMED_JSON read_run_mode (\<lambda>runmode.
       answer_group tgId groupobj (tls13_test al crypto alg_id (cap_crypto_handler cap) type hmac runmode)))))"

definition tls13_kat_handler ::
  "'w allocator \<Rightarrow> (AMVP_KDF_TLS13_TC, 'w) module \<Rightarrow> JSON_Object option \<Rightarrow> 'w SESSION option \<Rightarrow> 'w SESSION option outcome" where
  "tls13_kat_handler al crypto = moded_frame (plain_rules AMVP_KDF_TLS13) (\<lambda>w. w) (\<lambda>w. w) (tls13_group al crypto)"

section \<open>Answers\<close>

lemma keeps_label_checked [label_intros]:
  "list_all (\<lambda>p. json_name (fst p) \<and> fst p \<noteq> ''tcId'') ps \<Longrightarrow> keeps_label (checked_members mx bmax ps :: _ \<Rightarrow> (_, 's) step)"
proof (induction ps)
  case Nil
  then show ?case by (simp add: keeps_label_pass pass_eq)
next
  case (Cons p ps)
  have "keeps_label (\<lambda>r :: JSON_Object. reject (snd (snd p) > int bmax) AMVP_INVALID_ARG
      (andthen (hex_member mx (fst p) (fst (snd p)) (snd (snd p)) r) (checked_members mx bmax ps)) :: (_, 's) step)"
    using Cons by (intro keeps_label_reject keeps_label_andthen keeps_label_hex_member) auto
  then show ?case by (simp add: keeps_label_def)
qed

lemma honest_new [yields_intros]: "honest (new_bytes_int al i)" "honest (new_hex_opt al n s)"
  by (auto simp: new_bytes_int_def new_hex_opt_def intro!: yields_intros)

lemma yields_text_when [yields_intros]: "(\<And>t. yields P (k t)) \<Longrightarrow> yields P (text_when b obj name k)"
  by (auto simp: text_when_def intro!: yields_intros)

lemma honest_kdf108_iv [yields_intros]: "honest (kdf108_iv mode testobj)"
  by (auto simp: kdf108_iv_def Let_def intro!: yields_intros)

lemma kdf_outputs [label_intros]:
  "keeps_label (amvp_kdf108_output_tc al k8)" "keeps_label (amvp_pbkdf_output_tc al pb)"
  "keeps_label (amvp_kdf_tls12_output_tc al t2)" "keeps_label (amvp_kdf_tls13_output_tc al t3)"
  unfolding amvp_kdf108_output_tc_def [abs_def] amvp_pbkdf_output_tc_def [abs_def] amvp_kdf_tls12_output_tc_def [abs_def]
    amvp_kdf_tls13_output_tc_def [abs_def]
  by (intro label_intros yields_intros; simp add: json_name_def c_string_simps)+

lemma kdf_inits [yields_intros]:
  "honest (amvp_kdf108_init_tc al tc_id p s t n m i)" "honest (amvp_pbkdf_init_tc al tc_id i1 i2 s1 s2 n1 n2 n3 n4)"
  "honest (amvp_kdf_tls12_init_tc al tc_id alg_id i n1 n2 s1 s2 s3 s4)" "honest (amvp_kdf_tls13_init_tc al tc_id alg_id i1 i2 i3 t1 t2 s1 s2 s3 s4)"
  unfolding amvp_kdf108_init_tc_def amvp_pbkdf_init_tc_def amvp_kdf_tls12_init_tc_def amvp_kdf_tls13_init_tc_def Let_def
  by (auto intro!: yields_intros)

lemma kdf_tests:
  "answers_test (kdf108_test al kdf108 cb p)" "answers_test (pbkdf_test al pbkdf cb i j)"
  "answers_test (tls12_test al tls12 alg_id cb n m i)" "answers_test (tls13_test al tls13 alg_id cb i1 i2 i3)"
  unfolding kdf108_test_def [abs_def] pbkdf_test_def [abs_def] tls12_test_def [abs_def] tls13_test_def [abs_def] case_prod_beta Let_def
  by (intro answers_testI yields_with_tcId yields_intros yields_run_case label_intros; simp)+

lemma kdf_groups:
  "answers_group (kdf108_group al kdf108 alg_id cap)" "answers_group (pbkdf_group al pbkdf alg_id cap)"
  "answers_group (tls12_group al tls12 alg_id cap)" "answers_group (tls13_group al tls13 alg_id cap)"
  unfolding kdf108_group_def [abs_def] pbkdf_group_def [abs_def] tls12_group_def [abs_def] tls13_group_def [abs_def] Let_def
  by (intro answers_groupI yields_intros yields_answer_group kdf_tests; simp)+

end
