(* ===== verification/Kat_Kdf_Props.thy ===== *)
theory Kat_Kdf_Props
  imports Kat_Kdf
begin

text \<open>
  The handlers of key derivation functions as instances of the contract of answering handlers,
  and what becomes of requests that some of them cannot answer.
\<close>

section \<open>The contract\<close>

interpretation snmp_kat: answering_handler "(plain_rules AMVP_KDF135_SNMP)\<lparr>kr_no_groups := Some AMVP_MISSING_ARG\<rparr>"
    "\<lambda>w. w" "\<lambda>w. w" "snmp_group al crypto" for al crypto
  by unfold_locales (auto simp: plain_rules_def kdf135_groups)

interpretation srtp_kat: answering_handler "plain_rules AMVP_KDF135_SRTP" "\<lambda>w. w" "\<lambda>w. w" "srtp_group al crypto" for al crypto
  by unfold_locales (auto simp: plain_rules_def kdf135_groups)

interpretation ssh_kat: answering_handler "(plain_rules AMVP_KDF135_SSH)\<lparr>kr_no_groups := Some AMVP_MISSING_ARG\<rparr>"
    "\<lambda>w. w" "\<lambda>w. w" "ssh_group al crypto" for al crypto
  by unfold_locales (auto simp: plain_rules_def kdf135_groups)

interpretation x942_kat: answering_handler "(plain_rules AMVP_KDF135_X942)\<lparr>kr_no_alg := AMVP_MISSING_ARG, kr_no_mode := AMVP_MISSING_ARG,
      kr_extra := (\<lambda>_. echo_mode ''ansix9.42''), kr_no_groups := Some AMVP_MISSING_ARG\<rparr>"
    "\<lambda>w. w" "\<lambda>w. w" "x942_group al crypto" for al crypto
  by unfold_locales (auto simp: plain_rules_def kdf135_groups json_names_echo)

interpretation x963_kat: answering_handler "(plain_rules AMVP_KDF135_X963)\<lparr>kr_no_alg := AMVP_MISSING_ARG, kr_no_mode := AMVP_MISSING_ARG,
      kr_extra := (\<lambda>_. echo_mode ''ansix9.63''), kr_no_groups := Some AMVP_MISSING_ARG\<rparr>"
    "\<lambda>w. w" "\<lambda>w. w" "x963_group al crypto" for al crypto
  by unfold_locales (auto simp: plain_rules_def kdf135_groups json_names_echo)

interpretation ikev1_kat: answering_handler "plain_rules AMVP_KDF135_IKEV1" "\<lambda>w. ((None, 0), w)" snd "ikev1_group al crypto" for al crypto
  by unfold_locales (auto simp: plain_rules_def kdf135_groups)

interpretation ikev2_kat: answering_handler "plain_rules AMVP_KDF135_IKEV2" "\<lambda>w. w" "\<lambda>w. w" "ikev2_group al crypto" for al crypto
  by unfold_locales (auto simp: plain_rules_def kdf135_groups)

interpretation kdf108_kat: answering_handler "plain_rules AMVP_KDF108" "\<lambda>w. ((None, 0), w)" snd "kdf108_group al crypto" for al crypto
  by unfold_locales (auto simp: plain_rules_def kdf_groups)

interpretation pbkdf_kat: answering_handler "plain_rules AMVP_PBKDF" "\<lambda>w. w" "\<lambda>w. w" "pbkdf_group al crypto" for al crypto
  by unfold_locales (auto simp: plain_rules_def kdf_groups)

interpretation tls12_kat: answering_handler "plain_rules AMVP_KDF_TLS12" "\<lambda>w. w" "\<lambda>w. w" "tls12_group al crypto" for al crypto
  by unfold_locales (auto simp: plain_rules_def kdf_groups)

interpretation tls13_kat: answering_handler "plain_rules AMVP_KDF_TLS13" "\<lambda>w. w" "\<lambda>w. w" "tls13_group al crypto" for al crypto
  by unfold_locales (auto simp: plain_rules_def kdf_groups)

lemmas kdf_in_order =
  snmp_kat.moded_in_order srtp_kat.moded_in_order ssh_kat.moded_in_order x942_kat.moded_in_order x963_kat.moded_in_order
  ikev1_kat.moded_in_order ikev2_kat.moded_in_order kdf108_kat.named_in_order pbkdf_kat.named_in_order tls12_kat.moded_in_order
  tls13_kat.moded_in_order

section \<open>Requests that cannot be answered\<close>

lemma x942_type_misspelt: "read_x942_type ''concatenation'' = None"
  by (simp add: read_x942_type_def strncmp_s_def strnlen_def strncmp_def RSIZE_MAX_STR_def strcmp_eq_0 Let_def c_string_simps)

text \<open>
  C26: a vector set of ANSI X9.42 with a group of type \<^verbatim>\<open>concatenation\<close>, the name the protocol and the
  registration message have for it, is never answered: the name the handler knows is another one.
\<close>
theorem x942_concatenation_refused:
  assumes "json_object_get_array obj ''testGroups'' = Some groups" and "v \<in> set groups"
    and "json_object_get_string (json_value_get_object (Some v)) ''kdfType'' = Some ''concatenation''"
  shows "x942_kat_handler al crypto obj octx \<noteq> Ret AMVP_SUCCESS octx'"
proof -
  have "refuses (x942_group al crypto alg_id cap (json_value_get_object (Some v)))" for alg_id cap
    by (auto simp: x942_group_def with_tgId_def text_field_def assms(3) x942_type_misspelt intro!: yields_intros)
  then show ?thesis
    unfolding x942_kat_handler_def by (rule x942_kat.moded_refused [OF assms(1,2)])
qed

lemma refuses_bind: "refuses p \<Longrightarrow> refuses (andthen p f)"
  by (erule yields_bind) simp

lemma hex_through_too_long:
  assumes "tmp = None \<or> length (the tmp) \<le> 2 * n" and "n < 2 ^ 30"
  shows "refuses (hex_through tmp mx name bs (int n) r)"
proof -
  have "wrap32 (int n * 2) = int n * 2" using assms(2) by (intro wrap32_id) (simp add: is_int32_def)
  then have "refuses (of_outcome (amvp_bin_to_hexstr bs (int n) tmp (int mx)))"
    using assms(1) bin_to_hex_loop_overflow [where dest = "the tmp" and j = 0 and n = n and bs = "the bs"]
    by (auto simp: amvp_bin_to_hexstr_def intro!: yields_intros split: option.splits)
  then show ?thesis unfolding hex_through_def by (rule refuses_bind)
qed

lemma ikev2_output_refused:
  assumes "i2_keying_material_len stc = int AMVP_KDF135_IKEV2_DKEY_MATERIAL_BYTE_MAX"
  shows "refuses (amvp_kdf135_ikev2_output_tc al stc r)"
proof -
  have "yields (\<lambda>tmp. tmp = None \<or> length (the tmp) \<le> 2 * AMVP_KDF135_IKEV2_DKEY_MATERIAL_BYTE_MAX)
      (unchecked_chars al AMVP_KDF135_IKEV2_DKEY_MATERIAL_STR_MAX)"
    by (auto simp: yields_def unchecked_chars_def limit_defs split: prod.splits)
  then have "refuses (andthen (unchecked_chars al AMVP_KDF135_IKEV2_DKEY_MATERIAL_STR_MAX) (\<lambda>tmp.
      andthen (hex_through tmp AMVP_KDF135_IKEV2_DKEY_MATERIAL_STR_MAX name bs (i2_keying_material_len stc) r1) (f tmp)))" for name bs r1 f
    unfolding assms by (rule yields_bind) (rule refuses_bind [OF hex_through_too_long], simp_all add: limit_defs)
  then show ?thesis
    unfolding amvp_kdf135_ikev2_output_tc_def Let_def
    by (intro yields_andthen [OF honest_library(6)] yields_andthen [OF honest_hex_members])
qed

lemma refuses_run_case:
  assumes "yields P init" and "\<And>stc. P stc \<Longrightarrow> yields Q (crypto stc)" and "\<And>stc r. Q stc \<Longrightarrow> refuses (output stc r)"
  shows "refuses (run_case init crypto output n)"
  unfolding run_case_def by (rule yields_bind [OF assms(1)], rule yields_bind [OF assms(2)]) (auto intro: refuses_bind assms(3))

lemma refuses_answer_group:
  assumes "json_object_get_array groupobj ''tests'' = Some (v # vs)" and "\<And>testobj. refuses (do_test testobj)"
  shows "refuses (answer_group tgId groupobj do_test)"
  using assms by (auto simp: answer_group_def each_test_def intro!: refuses_bind)

lemma yields_int_within_at:
  assumes "yields P (k (nat (json_object_get_number obj name)))"
  shows "yields P (int_within obj name lo hi k)"
  using assms unfolding int_within_def int_field_def by (intro yields_as_int yields_reject) simp_all

definition keeps_material_len :: "(AMVP_KDF135_IKEV2_TC, 'w) module \<Rightarrow> bool" where
  "keeps_material_len crypto \<longleftrightarrow> (\<forall>c stc w. i2_keying_material_len (fst (snd (crypto c stc w))) = i2_keying_material_len stc)"

lemma ikev2_init_len:
  "yields (\<lambda>stc. i2_keying_material_len stc = int (AMVP_BIT2BYTE (jp_material_len p))) (amvp_kdf135_ikev2_init_tc al tc_id p s1 s2 s3 s4 s5 s6)"
  unfolding amvp_kdf135_ikev2_init_tc_def case_prod_beta by (intro yields_andthen yields_pass yields_intros) simp

lemma ikev2_test_refused:
  assumes "keeps_material_len crypto" and "AMVP_BIT2BYTE (jp_material_len p) = AMVP_KDF135_IKEV2_DKEY_MATERIAL_BYTE_MAX"
  shows "refuses (ikev2_test al crypto cb p testobj)"
proof -
  let ?len = "int AMVP_KDF135_IKEV2_DKEY_MATERIAL_BYTE_MAX"
  have "yields (\<lambda>stc'. i2_keying_material_len stc' = ?len) (call_crypto crypto cb stc)" if "i2_keying_material_len stc = ?len" for stc
    using assms(1) that
    by (auto simp: yields_def call_crypto_def keeps_material_len_def split: option.splits prod.splits) (metis fst_conv snd_conv)
  then have "refuses (run_case (amvp_kdf135_ikev2_init_tc al tc_id p s1 s2 s3 s4 s5 s6) (call_crypto crypto cb) (amvp_kdf135_ikev2_output_tc al) n)"
    for tc_id s1 s2 s3 s4 s5 s6 n
    by (rule refuses_run_case [OF ikev2_init_len [of p al tc_id s1 s2 s3 s4 s5 s6, unfolded assms(2)] _ ikev2_output_refused])
  then show ?thesis unfolding ikev2_test_def by (intro yields_with_tcId yields_intros)
qed


definition ikev2_longest_set :: JSON_Object where
  "ikev2_longest_set =
     [(''testGroups'', JSONArray [JSONObject [(''tgId'', JSONNumber 1), (''derivedKeyingMaterialLength'', JSONNumber 16384),
        (''tests'', JSONArray [JSONObject [(''tcId'', JSONNumber 1)]])]])]"

lemma kdf_names: "json_name ''derivedKeyingMaterialLength''" "json_name ''kdfType''" "json_name ''keyData''"
  by (simp_all add: json_name_def c_string_simps)


definition x942_concat_set :: JSON_Object where
  "x942_concat_set = [(''testGroups'', JSONArray [JSONObject [(''tgId'', JSONNumber 1), (''kdfType'', JSONString ''concatenation'')]])]"

theorem x942_concatenation_refused_witness:
  "\<forall>crypto octx octx'. x942_kat_handler always_memory crypto (Some x942_concat_set) octx \<noteq> Ret AMVP_SUCCESS octx'"
  by (intro allI x942_concatenation_refused [where v = "hd (the (json_object_get_array (Some x942_concat_set) ''testGroups''))"])
    (auto simp: x942_concat_set_def json_read json_known kdf_names)

section \<open>What the handler of ANSI X9.63 answers\<close>

text \<open>
  The key derivation function as a reference: from the hash algorithm, the field size, the shared
  secret and the shared information to as many bytes as asked for. A crypto module computes it
  when it writes these bytes, as far as they fit, into the buffer it is given.
\<close>

type_synonym x963_function = "int \<Rightarrow> nat \<Rightarrow> bytes \<Rightarrow> bytes \<Rightarrow> nat \<Rightarrow> bytes"

definition overwrite :: "bytes \<Rightarrow> bytes \<Rightarrow> bytes" where
  "overwrite k b = take (length b) k @ drop (length k) b"

definition derives_x963 :: "x963_function \<Rightarrow> (AMVP_KDF135_X963_TC, 'w) module \<Rightarrow> nat \<Rightarrow> bool" where
  "derives_x963 F crypto cb \<longleftrightarrow>
     (\<forall>n h fs z info. length (F h fs z info n) = n) \<and>
     (\<forall>stc w z info kd. x3_z stc = Some z \<longrightarrow> x3_shared_info stc = Some info \<longrightarrow> x3_key_data stc = Some kd \<longrightarrow>
        (\<exists>w'. crypto cb stc w = (AMVP_SUCCESS, stc\<lparr>x3_key_data := Some (overwrite
           (F (x3_hash_alg stc) (nat (x3_field_size stc)) (take (nat (x3_z_len stc)) z) (take (nat (x3_shared_info_len stc)) info)
              (nat (x3_key_data_len stc))) kd)\<rparr>, w')))"

record x963_query =
  xq_id :: nat
  xq_z :: bytes
  xq_info :: bytes

record x963_set =
  xs_id :: int
  xs_field :: nat
  xs_key :: nat
  xs_info :: nat
  xs_hash :: string
  xs_tests :: "x963_query list"

definition x963_test_request :: "x963_query \<Rightarrow> JSON_Value" where
  "x963_test_request q = JSONObject [(''tcId'', JSONNumber (int (xq_id q))), (''z'', JSONString (hex_of (xq_z q))),
     (''sharedInfo'', JSONString (hex_of (xq_info q)))]"

definition x963_group_request :: "x963_set \<Rightarrow> JSON_Value" where
  "x963_group_request g = JSONObject [(''tgId'', JSONNumber (xs_id g)), (''fieldSize'', JSONNumber (8 * int (xs_field g))),
     (''keyDataLength'', JSONNumber (8 * int (xs_key g))), (''sharedInfoLength'', JSONNumber (8 * int (xs_info g))),
     (''hashAlg'', JSONString (xs_hash g)), (''tests'', JSONArray (map x963_test_request (xs_tests g)))]"

definition x963_request :: "x963_set list \<Rightarrow> JSON_Object" where
  "x963_request gs = [(''algorithm'', JSONString ''kdf-components''), (''mode'', JSONString ''ansix9.63''),
     (''testGroups'', JSONArray (map x963_group_request gs))]"

text \<open>The answer that is meant, and that of a group whose key is too long for the text buffer.\<close>

definition x963_test_answer :: "x963_function \<Rightarrow> x963_set \<Rightarrow> x963_query \<Rightarrow> JSON_Value" where
  "x963_test_answer F g q =
     JSONObject ((''tcId'', JSONNumber (int (xq_id q))) #
       (if xs_key g \<le> AMVP_KDF135_X963_KEYDATA_MAX_BYTES
        then [(''keyData'', JSONString (hex_of (F (amvp_lookup_hash_alg (Some (xs_hash g))) (xs_field g) (xq_z q) (xq_info q) (xs_key g))))]
        else []))"

definition x963_group_answer :: "x963_function \<Rightarrow> x963_set \<Rightarrow> JSON_Value" where
  "x963_group_answer F g =
     JSONObject [(''tgId'', JSONNumber (xs_id g)), (''tests'', JSONArray (map (x963_test_answer F g) (xs_tests g)))]"

definition x963_query_fits :: "nat \<Rightarrow> x963_query \<Rightarrow> bool" where
  "x963_query_fits n q \<longleftrightarrow> 0 < xq_id q \<and> xq_id q < 2 ^ 32 \<and> length (xq_z q) \<le> AMVP_KDF135_X963_INPUT_MAX \<and>
     length (xq_info q) = n \<and> n \<le> AMVP_KDF135_X963_INPUT_MAX"

definition x963_set_fits :: "x963_set \<Rightarrow> bool" where
  "x963_set_fits g \<longleftrightarrow> xs_id g \<noteq> 0 \<and> is_int32 (xs_id g) \<and> 0 < xs_field g \<and> xs_field g < 2 ^ 27 \<and> 0 < xs_key g \<and> xs_key g < 2 ^ 27 \<and>
     amvp_lookup_hash_alg (Some (xs_hash g)) \<in> {AMVP_SHA224, AMVP_SHA256, AMVP_SHA384, AMVP_SHA512} \<and>
     xs_tests g \<noteq> [] \<and> list_all (x963_query_fits (xs_info g)) (xs_tests g)"

lemma quot8_bytes [simp]: "quot8 (8 * int n) = int n"
  by (cases "n = 0") (simp_all add: quot8_def)

lemma length_overwrite [simp]: "length (overwrite k b) = length b"
  by (simp add: overwrite_def)

lemma take_overwrite: "length k \<le> length b \<Longrightarrow> take (length k) (overwrite k b) = k"
  by (simp add: overwrite_def)

lemma x963_names: "json_name ''fieldSize''" "json_name ''keyDataLength''" "json_name ''sharedInfoLength''" "json_name ''hashAlg''" "json_name ''z''"
  "json_name ''sharedInfo''" "json_name ''mode''"
  by (simp_all add: json_name_def c_string_simps)

lemmas x963_known = json_known kdf_names x963_names

lemma x963_output_ok:
  assumes "\<forall>w. fst (al w)" and "x3_key_data stc = Some kd" and "length kd = AMVP_KDF135_X963_KEYDATA_MAX_BYTES" and "x3_key_data_len stc = int n"
    and "n < 2 ^ 27"
  shows "\<exists>w'. amvp_kdf135_x963_output_tc al stc [(''tcId'', JSONNumber i)] w =
    Done ((''tcId'', JSONNumber i) # (if n \<le> AMVP_KDF135_X963_KEYDATA_MAX_BYTES then [(''keyData'', JSONString (hex_of (take n kd)))] else [])) w'"
proof -
  obtain w' where w': "new_chars al (AMVP_KDF135_X963_KEYDATA_MAX_CHARS + 1) w = Done (replicate (AMVP_KDF135_X963_KEYDATA_MAX_CHARS + 1) NUL) w'"
    using new_chars_ok [OF assms(1)] .
  show ?thesis
  proof (cases "n \<le> AMVP_KDF135_X963_KEYDATA_MAX_BYTES")
    case True
    then show ?thesis
      using w' assms(2-5) hex_member_ok [of n kd AMVP_KDF135_X963_KEYDATA_MAX_CHARS "''keyData''" "[(''tcId'', JSONNumber i)]" w']
      by (simp add: amvp_kdf135_x963_output_tc_def dropping_error_def limit_defs json_build x963_known)
  next
    case False
    then show ?thesis
      using w' assms(2-5) hex_member_too_long [of AMVP_KDF135_X963_KEYDATA_MAX_CHARS n "''keyData''" "Some kd" "[(''tcId'', JSONNumber i)]" w']
      by (simp add: amvp_kdf135_x963_output_tc_def dropping_error_def limit_defs)
  qed
qed

text \<open>The test case that a query becomes, with what the buffer of the key holds.\<close>

definition x963_tc_of :: "x963_set \<Rightarrow> x963_query \<Rightarrow> bytes \<Rightarrow> AMVP_KDF135_X963_TC" where
  "x963_tc_of g q kd =
     \<lparr>x3_cipher = 0, x3_tc_id = xq_id q, x3_hash_alg = amvp_lookup_hash_alg (Some (xs_hash g)), x3_field_size = int (xs_field g),
       x3_key_data_len = int (xs_key g), x3_shared_info_len = int (xs_info g), x3_z_len = int (length (xq_z q)),
       x3_z = Some (xq_z q @ replicate (AMVP_KDF135_X963_INPUT_MAX - length (xq_z q)) 0),
       x3_shared_info = Some (xq_info q @ replicate (AMVP_KDF135_X963_INPUT_MAX - length (xq_info q)) 0), x3_key_data = Some kd\<rparr>"

lemma x963_init_ok:
  assumes "\<forall>w. fst (al w)" and "x963_query_fits (xs_info g) q"
  obtains w' where "amvp_kdf135_x963_init_tc al (xq_id q) (amvp_lookup_hash_alg (Some (xs_hash g))) (8 * int (xs_field g)) (8 * int (xs_key g))
    (8 * int (xs_info g)) (hex_of (xq_z q)) (hex_of (xq_info q)) w = Done (x963_tc_of g q (replicate AMVP_KDF135_X963_KEYDATA_MAX_BYTES 0)) w'"
proof -
  let ?M = AMVP_KDF135_X963_INPUT_MAX
  have fits: "length (xq_z q) \<le> ?M" "length (xq_info q) \<le> ?M" "?M \<le> 131072"
    using assms(2) by (auto simp: x963_query_fits_def limit_defs)
  obtain w1 where "new_hex_len al ?M (hex_of (xq_z q)) w = Done (xq_z q @ replicate (?M - length (xq_z q)) 0, length (xq_z q)) w1"
    by (rule new_hex_len_ok [OF assms(1) fits(1,3)])
  moreover obtain w2 where "new_hex al ?M (hex_of (xq_info q)) w1 = Done (xq_info q @ replicate (?M - length (xq_info q)) 0) w2"
    by (rule new_hex_ok [OF assms(1) fits(2,3)])
  moreover obtain w3 where "new_bytes al AMVP_KDF135_X963_KEYDATA_MAX_BYTES w2 = Done (replicate AMVP_KDF135_X963_KEYDATA_MAX_BYTES 0) w3"
    by (rule new_bytes_ok [OF assms(1)])
  ultimately show ?thesis by (intro that) (simp add: amvp_kdf135_x963_init_tc_def x963_tc_of_def)
qed

lemma x963_crypto_ok:
  assumes "derives_x963 F crypto cb" and "length (xq_info q) = xs_info g"
  obtains w' where "call_crypto crypto (Some cb) (x963_tc_of g q kd) w =
    Done (x963_tc_of g q (overwrite (F (amvp_lookup_hash_alg (Some (xs_hash g))) (xs_field g) (xq_z q) (xq_info q) (xs_key g)) kd)) w'"
proof -
  let ?stc = "x963_tc_of g q kd" and ?z = "xq_z q @ replicate (AMVP_KDF135_X963_INPUT_MAX - length (xq_z q)) 0"
  let ?info = "xq_info q @ replicate (AMVP_KDF135_X963_INPUT_MAX - length (xq_info q)) 0"
  have "x3_z ?stc = Some ?z" "x3_shared_info ?stc = Some ?info" "x3_key_data ?stc = Some kd" by (simp_all add: x963_tc_of_def)
  then obtain w' where "crypto cb ?stc w = (AMVP_SUCCESS, ?stc\<lparr>x3_key_data := Some (overwrite
      (F (x3_hash_alg ?stc) (nat (x3_field_size ?stc)) (take (nat (x3_z_len ?stc)) ?z) (take (nat (x3_shared_info_len ?stc)) ?info)
        (nat (x3_key_data_len ?stc))) kd)\<rparr>, w')"
    using assms(1) unfolding derives_x963_def by blast
  then show ?thesis using assms(2) by (intro that [of w']) (simp add: call_crypto_def x963_tc_of_def)
qed

lemma x963_test_eq:
  assumes "derives_x963 F crypto cb" and "\<forall>w. fst (al w)" and "x963_query_fits (xs_info g) q" and "xs_key g < 2 ^ 27"
  shows "\<exists>w'. x963_test al crypto (Some cb) (amvp_lookup_hash_alg (Some (xs_hash g))) (8 * int (xs_field g)) (8 * int (xs_key g)) (8 * int (xs_info g))
      (json_value_get_object (Some (x963_test_request q))) w = Done (x963_test_answer F g q) w'"
proof -
  let ?o = "json_value_get_object (Some (x963_test_request q))" and ?kd = "replicate AMVP_KDF135_X963_KEYDATA_MAX_BYTES (0 :: 8 word)"
  let ?k = "F (amvp_lookup_hash_alg (Some (xs_hash g))) (xs_field g) (xq_z q) (xq_info q) (xs_key g)"
  have fits: "0 < xq_id q" "xq_id q < 2 ^ 32" "length (xq_info q) = xs_info g" using assms(3) by (auto simp: x963_query_fits_def)
  obtain w1 where init: "amvp_kdf135_x963_init_tc al (xq_id q) (amvp_lookup_hash_alg (Some (xs_hash g))) (8 * int (xs_field g))
      (8 * int (xs_key g)) (8 * int (xs_info g)) (hex_of (xq_z q)) (hex_of (xq_info q)) w = Done (x963_tc_of g q ?kd) w1"
    by (rule x963_init_ok [OF assms(2,3)])
  obtain w2 where crypto: "call_crypto crypto (Some cb) (x963_tc_of g q ?kd) w1 = Done (x963_tc_of g q (overwrite ?k ?kd)) w2"
    by (rule x963_crypto_ok [OF assms(1) fits(3)])
  have "\<exists>w3. amvp_kdf135_x963_output_tc al (x963_tc_of g q (overwrite ?k ?kd)) [(''tcId'', JSONNumber (int (xq_id q)))] w2 =
      Done ((''tcId'', JSONNumber (int (xq_id q))) #
        (if xs_key g \<le> AMVP_KDF135_X963_KEYDATA_MAX_BYTES then [(''keyData'', JSONString (hex_of (take (xs_key g) (overwrite ?k ?kd))))] else [])) w3"
    by (rule x963_output_ok [OF assms(2) _ _ _ assms(4)]) (simp_all add: x963_tc_of_def)
  moreover have "take (xs_key g) (overwrite ?k ?kd) = ?k" if "xs_key g \<le> AMVP_KDF135_X963_KEYDATA_MAX_BYTES"
    using that take_overwrite [of ?k ?kd] assms(1) by (simp add: derives_x963_def)
  ultimately obtain w3 where out: "amvp_kdf135_x963_output_tc al (x963_tc_of g q (overwrite ?k ?kd))
      (json_object_set_number ''tcId'' (int (xq_id q)) []) w2 =
      Done ((''tcId'', JSONNumber (int (xq_id q))) #
        (if xs_key g \<le> AMVP_KDF135_X963_KEYDATA_MAX_BYTES then [(''keyData'', JSONString (hex_of ?k))] else [])) w3"
    by (auto simp: json_build json_known)
  have req: "json_object_get_string ?o ''z'' = Some (hex_of (xq_z q))" "json_object_get_string ?o ''sharedInfo'' = Some (hex_of (xq_info q))"
    "json_object_get_number ?o ''tcId'' = int (xq_id q)"
    by (simp_all add: x963_test_request_def json_read x963_known)
  show ?thesis
    using init crypto out fits(1,2) by (simp add: x963_test_def with_tcId_def uint_field_def req run_case_def x963_test_answer_def)
qed

lemma x963_group_eq:
  assumes "derives_x963 F crypto cb" and "\<forall>w. fst (al w)" and "cap_crypto_handler cap = Some cb" and "x963_set_fits g"
  shows "\<exists>w'. x963_group al crypto alg_id cap (json_value_get_object (Some (x963_group_request g))) w = Done (x963_group_answer F g) w'"
proof -
  let ?o = "json_value_get_object (Some (x963_group_request g))" and ?h = "amvp_lookup_hash_alg (Some (xs_hash g))"
  let ?t = "x963_test al crypto (Some cb) ?h (8 * int (xs_field g)) (8 * int (xs_key g)) (8 * int (xs_info g))"
  have fits: "xs_id g \<noteq> 0" "is_int32 (xs_id g)" "0 < xs_field g" "xs_field g < 2 ^ 27" "0 < xs_key g" "xs_key g < 2 ^ 27" "xs_tests g \<noteq> []"
    "\<And>q. q \<in> set (xs_tests g) \<Longrightarrow> x963_query_fits (xs_info g) q"
    and hash: "\<not> (?h \<noteq> AMVP_SHA224 \<and> ?h \<noteq> AMVP_SHA256 \<and> ?h \<noteq> AMVP_SHA384 \<and> ?h \<noteq> AMVP_SHA512)"
    using assms(4) by (auto simp: x963_set_fits_def list_all_iff)
  obtain q qs where "xs_tests g = q # qs" using fits(7) by (cases "xs_tests g") auto
  then have "xs_info g \<le> AMVP_KDF135_X963_INPUT_MAX" using fits(8) [of q] by (simp add: x963_query_fits_def)
  then have ints: "is_int32 (8 * int (xs_field g))" "is_int32 (8 * int (xs_key g))" "is_int32 (8 * int (xs_info g))"
    using fits by (auto simp: is_int32_def limit_defs)
  have req: "json_object_get_number ?o ''tgId'' = xs_id g" "json_object_get_number ?o ''fieldSize'' = 8 * int (xs_field g)"
    "json_object_get_number ?o ''keyDataLength'' = 8 * int (xs_key g)" "json_object_get_number ?o ''sharedInfoLength'' = 8 * int (xs_info g)"
    "json_object_get_string ?o ''hashAlg'' = Some (xs_hash g)" "json_object_get_array ?o ''tests'' = Some (map x963_test_request (xs_tests g))"
    by (simp_all add: x963_group_request_def json_read x963_known)
  have "\<exists>w'. each ?t (map (\<lambda>q. json_value_get_object (Some (x963_test_request q))) (xs_tests g)) w = Done (map (x963_test_answer F g) (xs_tests g)) w'"
    by (rule each_ok) (rule x963_test_eq [OF assms(1,2) fits(8) fits(6)])
  then have "\<exists>w'. answer_group (xs_id g) ?o ?t w = Done (x963_group_answer F g) w'"
    by (auto simp: answer_group_def each_test_def req comp_def x963_group_answer_def group_rsp_def json_build json_known)
  then show ?thesis
    unfolding x963_group_def with_tgId_def int_field_def text_field_def some_tests_def req assms(3) Let_def
    using fits(1-5,7) ints hash by (simp add: json_array_get_count_def reject_def)
qed

lemma x963_groups_eq:
  assumes "derives_x963 F crypto cb" and "\<forall>w. fst (al w)" and "cap_crypto_handler cap = Some cb" and "list_all x963_set_fits gs"
  shows "\<exists>w'. each (x963_group al crypto alg_id cap) (map (\<lambda>g. json_value_get_object (Some (x963_group_request g))) gs) w =
    Done (map (x963_group_answer F) gs) w'"
  by (rule each_ok) (use assms(4) x963_group_eq [OF assms(1-3)] in \<open>auto simp: list_all_iff\<close>)

lemma x963_index: "amvp_lookup_cipher_w_mode_index (Some ''kdf-components'') (Some ''ansix9.63'') = AMVP_KDF135_X963"
proof -
  have "List.member alg_tbl (alg_row AMVP_KDF135_X963 amvp_kdf135_x963_kat_handler ''kdf-components'' (Some ''ansix9.63'') ''1.0'' AMVP_SUB_KDF_X963)"
    by code_simp
  from w_mode_index_row [OF this [unfolded List.member_iff]] show ?thesis by (simp add: alg_row_def)
qed


definition x963_cap_entry :: AMVP_CAPS_LIST where
  "x963_cap_entry = \<lparr>cap_cipher = AMVP_KDF135_X963, cap_type = AMVP_KDF135_X963_TYPE, cap_has_prereq = 0, cap_prereq_vals = [],
     cap_data = Other_cap AMVP_KDF135_X963_TYPE, cap_crypto_handler = Some 0\<rparr>"

definition x963_session :: "unit SESSION" where
  "x963_session = (init_session ())\<lparr>caps_list := [x963_cap_entry]\<rparr>"

definition zero_x963 :: x963_function where
  "zero_x963 h fs z info n = replicate n 0"

definition zero_x963_module :: "(AMVP_KDF135_X963_TC, unit) module" where
  "zero_x963_module c stc w =
     (AMVP_SUCCESS, stc\<lparr>x3_key_data := map_option (overwrite (replicate (nat (x3_key_data_len stc)) 0)) (x3_key_data stc)\<rparr>, w)"

definition x963_example :: "x963_set list" where
  "x963_example =
     [\<lparr>xs_id = 1, xs_field = 28, xs_key = 2, xs_info = 1, xs_hash = ''SHA2-256'', xs_tests = [\<lparr>xq_id = 7, xq_z = [1, 2], xq_info = [3]\<rparr>]\<rparr>,
      \<lparr>xs_id = 2, xs_field = 28, xs_key = 513, xs_info = 0, xs_hash = ''SHA2-512'', xs_tests = [\<lparr>xq_id = 8, xq_z = [1], xq_info = []\<rparr>]\<rparr>]"

lemma x963_example_ok:
  "derives_x963 zero_x963 zero_x963_module 0" "amvp_locate_cap_entry (Some x963_session) AMVP_KDF135_X963 = Some x963_cap_entry"
  "cap_crypto_handler x963_cap_entry = Some 0"
  by (auto simp: derives_x963_def zero_x963_def zero_x963_module_def x963_session_def x963_cap_entry_def amvp_locate_cap_entry_def)

lemma x963_example_fits: "list_all x963_set_fits x963_example"
proof -
  have "amvp_lookup_hash_alg (Some ''SHA2-256'') = AMVP_SHA256" "amvp_lookup_hash_alg (Some ''SHA2-512'') = AMVP_SHA512"
    by (simp_all add: amvp_lookup_hash_alg_def hash_alg_tbl_def strcmp_s_def HASH_ALG_NAME_MAX_def RSIZE_MAX_STR_def)
  then show ?thesis by (simp add: x963_example_def x963_set_fits_def x963_query_fits_def is_int32_def limit_defs)
qed


end
