(* ===== verification/Kat_Lenient.thy ===== *)
theory Kat_Lenient
  imports Kat_Frames Amvp_Limits
begin

text \<open>
  What the handlers of signatures and key agreement share beyond the frames: test cases that are
  filled field by field and used although a field could not be filled, conversions whose errors
  end the output of a test without being returned, buffers that are freed twice, and groups whose
  answer carries members of its own.
\<close>

section \<open>Filling a test case\<close>

text \<open>
  A filling stops at the first field that fails and reports the code, together with the test case
  as far as it was filled.
\<close>

type_synonym ('tc, 's) filling = "'tc \<Rightarrow> (AMVP_RESULT \<times> 'tc, 's) step"

primrec fill_all :: "('tc, 's) filling list \<Rightarrow> ('tc, 's) filling" where
  "fill_all [] stc = pass (AMVP_SUCCESS, stc)"
| "fill_all (f # fs) stc = andthen (f stc) (\<lambda>(rv, stc1). if rv = AMVP_SUCCESS then fill_all fs stc1 else pass (rv, stc1))"

definition fill_when :: "bool \<Rightarrow> ('tc, 's) filling list \<Rightarrow> ('tc, 's) filling" where
  "fill_when b fs = fill_all (if b then fs else [])"

definition alloc_into :: "'w allocator \<Rightarrow> nat \<Rightarrow> (bytes \<Rightarrow> 'tc \<Rightarrow> 'tc) \<Rightarrow> ('tc, 'w) filling" where
  "alloc_into al n put stc w =
     (case al w of (ok, w') \<Rightarrow> if ok then Done (AMVP_SUCCESS, put (replicate n 0) stc) w' else Done (AMVP_MALLOC_FAIL, stc) w')"

definition alloc_text_into :: "'w allocator \<Rightarrow> nat \<Rightarrow> (char list \<Rightarrow> 'tc \<Rightarrow> 'tc) \<Rightarrow> ('tc, 'w) filling" where
  "alloc_text_into al n put stc w =
     (case al w of (ok, w') \<Rightarrow> if ok then Done (AMVP_SUCCESS, put (replicate n NUL) stc) w' else Done (AMVP_MALLOC_FAIL, stc) w')"

text \<open>A text into a buffer of the test case, with its length; a text or buffer that is missing is an error of the conversion.\<close>

definition hex_into :: "string option \<Rightarrow> ('tc \<Rightarrow> bytes option) \<Rightarrow> (bytes \<Rightarrow> int \<Rightarrow> 'tc \<Rightarrow> 'tc) \<Rightarrow> nat \<Rightarrow> ('tc, 's) filling" where
  "hex_into t buf put n stc =
     (case amvp_hexstr_to_bin t (buf stc) (int n) (Some 0) of
        UB u \<Rightarrow> undef u
      | Ret rv (b, k) \<Rightarrow> pass (rv, if rv = AMVP_SUCCESS then put (the b) (the k) stc else stc))"

text \<open>A field that is copied, which cannot fail.\<close>

definition set_field :: "('tc \<Rightarrow> 'tc) \<Rightarrow> ('tc, 's) filling" where
  "set_field g stc = pass (AMVP_SUCCESS, g stc)"

text \<open>Arguments that must not be missing.\<close>

definition check_args :: "bool \<Rightarrow> ('tc, 's) filling" where
  "check_args present stc = pass (if present then AMVP_SUCCESS else AMVP_MISSING_ARG, stc)"

text \<open>A buffer stored in a field, alone or with its length.\<close>

definition store :: "((bytes option \<Rightarrow> bytes option) \<Rightarrow> 'tc \<Rightarrow> 'tc) \<Rightarrow> bytes \<Rightarrow> 'tc \<Rightarrow> 'tc" where
  "store upd b = upd (\<lambda>_. Some b)"

definition store_len ::
  "((bytes option \<Rightarrow> bytes option) \<Rightarrow> 'tc \<Rightarrow> 'tc) \<Rightarrow> ((int \<Rightarrow> int) \<Rightarrow> 'tc \<Rightarrow> 'tc) \<Rightarrow> bytes \<Rightarrow> int \<Rightarrow> 'tc \<Rightarrow> 'tc" where
  "store_len upd upd_len b n stc = upd_len (\<lambda>_. n) (upd (\<lambda>_. Some b) stc)"

text \<open>The crypto module is called only for a test case that is complete; the output is made for every one.\<close>

definition run_lenient ::
  "(AMVP_RESULT \<times> 'tc, 's) step \<Rightarrow> ('tc \<Rightarrow> ('tc, 's) step) \<Rightarrow> ('tc \<Rightarrow> JSON_Object \<Rightarrow> ('a, 's) step) \<Rightarrow> int \<Rightarrow> ('a, 's) step" where
  "run_lenient init crypto output tc_id =
     andthen init (\<lambda>(rv, stc).
     andthen (if rv = AMVP_SUCCESS then crypto stc else pass stc) (\<lambda>stc1. output stc1 (json_object_set_number ''tcId'' tc_id [])))"

text \<open>The strict use of a filling: its code ends the handler.\<close>

definition strictly :: "(AMVP_RESULT \<times> 'tc, 's) step \<Rightarrow> ('tc, 's) step" where
  "strictly init = andthen init (\<lambda>(rv, stc). reject (rv \<noteq> AMVP_SUCCESS) rv (pass stc))"

text \<open>Buffers that the filling frees when memory runs out and that the handler then frees again.\<close>

definition freed_twice :: "('tc, 's) filling \<Rightarrow> ('tc, 's) filling" where
  "freed_twice f stc = andthen (f stc) (\<lambda>(rv, stc1). if rv = AMVP_MALLOC_FAIL then undef Freed_Memory else pass (rv, stc1))"

section \<open>Output that ends early\<close>

text \<open>Members up to the first whose conversion fails; that error is not returned.\<close>

primrec hex_until :: "char list option \<Rightarrow> nat \<Rightarrow> (string \<times> bytes option \<times> int) list \<Rightarrow> JSON_Object \<Rightarrow> (JSON_Object, 's) step" where
  "hex_until tmp mx [] r = pass r"
| "hex_until tmp mx (p # ps) r =
     (\<lambda>s. case hex_through tmp mx (fst p) (fst (snd p)) (snd (snd p)) r s of
        Done r1 t \<Rightarrow> hex_until tmp mx ps r1 t
      | Fail rv t \<Rightarrow> Done r t
      | Undef u \<Rightarrow> Undef u)"

text \<open>Bytes as text through a buffer of the caller.\<close>

definition text_through :: "char list option \<Rightarrow> nat \<Rightarrow> bytes option \<Rightarrow> int \<Rightarrow> (string, 's) step" where
  "text_through tmp mx bs len = andthen (of_outcome (amvp_bin_to_hexstr bs len tmp (int mx))) (\<lambda>t. pass (cstr (the t)))"

text \<open>Two texts of an object, both present before either is measured.\<close>

definition two_texts :: "JSON_Object option \<Rightarrow> string \<Rightarrow> string \<Rightarrow> nat \<Rightarrow> (string \<Rightarrow> string \<Rightarrow> ('a, 's) step) \<Rightarrow> ('a, 's) step" where
  "two_texts obj name1 name2 mx k =
     text_field obj name1 (\<lambda>t1. text_field obj name2 (\<lambda>t2.
       reject (strnlen_s (Some t1) (mx + 1) > mx \<or> strnlen_s (Some t2) (mx + 1) > mx) AMVP_INVALID_ARG (k t1 t2)))"

section \<open>Groups with members of their own\<close>

text \<open>A test that also changes the object of its group.\<close>

type_synonym answer_with = "JSON_Value \<times> (JSON_Object \<Rightarrow> JSON_Object)"

definition answer_group_with :: "int \<Rightarrow> JSON_Object option \<Rightarrow> (JSON_Object option \<Rightarrow> (answer_with, 's) step) \<Rightarrow> (JSON_Value, 's) step" where
  "answer_group_with tgId groupobj do_test =
     andthen (each_test groupobj do_test) (\<lambda>rs.
       pass (JSONObject (fold snd rs
         (json_object_set_value ''tests'' (Some (JSONArray (map fst rs))) (json_object_set_number ''tgId'' tgId [])))))"

definition with_tgId_or :: "AMVP_RESULT \<Rightarrow> JSON_Object option \<Rightarrow> (int \<Rightarrow> ('a, 's) step) \<Rightarrow> ('a, 's) step" where
  "with_tgId_or rv groupobj k =
     andthen (as_int (json_object_get_number groupobj ''tgId'')) (\<lambda>tgId. reject (tgId = 0) rv (k tgId))"

definition with_tcId_or :: "AMVP_RESULT \<Rightarrow> JSON_Object option \<Rightarrow> (nat \<Rightarrow> ('a, 's) step) \<Rightarrow> ('a, 's) step" where
  "with_tcId_or rv testobj k = uint_field testobj ''tcId'' (\<lambda>tc_id. reject (tc_id = 0) rv (k tc_id))"

section \<open>Rules\<close>

lemma honest_filling [yields_intros]: "honest (alloc_into al n put stc)" "honest (hex_into t buf put2 m stc)" "honest (set_field g stc)"
  "honest (check_args b stc)" "honest (alloc_text_into al n put3 stc)"
  by (auto simp: yields_def alloc_into_def alloc_text_into_def hex_into_def set_field_def check_args_def split: prod.splits outcome.splits)

lemma honest_fill_all [yields_intros]: "list_all (\<lambda>f. \<forall>stc. honest (f stc)) fs \<Longrightarrow> honest (fill_all fs stc)"
  by (induction fs arbitrary: stc) (auto intro!: yields_intros)

lemma honest_fill_when [yields_intros]: "list_all (\<lambda>f. \<forall>stc. honest (f stc)) fs \<Longrightarrow> honest (fill_when b fs stc)"
  by (cases b) (auto simp: fill_when_def intro!: yields_intros)

lemma honest_strictly [yields_intros]: "honest p \<Longrightarrow> honest (strictly p)"
  by (auto simp: strictly_def yields_def andthen_def reject_def split: kat.splits prod.splits)

lemma honest_freed_twice [yields_intros]: "honest (f stc) \<Longrightarrow> honest (freed_twice f stc)"
  by (auto simp: freed_twice_def intro!: yields_intros split: prod.splits)

lemma yields_prod [yields_intros]: "(\<And>a b. yields P (f a b)) \<Longrightarrow> yields P (case x of (a, b) \<Rightarrow> f a b)"
  by (cases x) simp

lemma honest_text_through [yields_intros]: "honest (text_through tmp mx bs len)"
  by (auto simp: text_through_def intro!: yields_intros)

lemma yields_two_texts [yields_intros]: "(\<And>t1 t2. yields P (k t1 t2)) \<Longrightarrow> yields P (two_texts obj name1 name2 mx k)"
  by (auto simp: two_texts_def intro!: yields_intros)

lemma keeps_label_hex_until [label_intros]:
  "list_all (\<lambda>p. json_name (fst p) \<and> fst p \<noteq> ''tcId'') ps \<Longrightarrow> keeps_label (hex_until tmp mx ps)"
proof (induction ps)
  case (Cons p ps)
  have "yields (labelled n) (hex_until tmp mx (p # ps) r :: (_, 'a) step)" if "labelled n r" for n r
  proof -
    have "yields (labelled n) (hex_through tmp mx (fst p) (fst (snd p)) (snd (snd p)) r :: (_, 'a) step)"
      using Cons.prems that by (intro keeps_labelD [OF keeps_label_hex_through]) auto
    then have "labelled n r1" if "hex_through tmp mx (fst p) (fst (snd p)) (snd (snd p)) r s = Done r1 t" for r1 and s t :: 'a
      using that yieldsD by fast
    then show ?thesis
      using Cons that unfolding yields_def keeps_label_def by (auto split: kat.splits) (blast+)
  qed
  then show ?case by (rule keeps_labelI)
qed (simp add: keeps_label_def yields_pass)

lemma yields_with_tgId_or:
  "(\<And>tgId. json_object_get_number groupobj ''tgId'' = tgId \<Longrightarrow> yields P (k tgId)) \<Longrightarrow> rv \<noteq> AMVP_SUCCESS \<Longrightarrow> yields P (with_tgId_or rv groupobj k)"
  unfolding with_tgId_or_def by (auto intro!: yields_as_int yields_reject)

lemma yields_with_tcId_or:
  "(\<And>n. test_number testobj = int n \<Longrightarrow> yields P (k n)) \<Longrightarrow> rv \<noteq> AMVP_SUCCESS \<Longrightarrow> yields P (with_tcId_or rv testobj k)"
  unfolding with_tcId_or_def uint_field_def test_number_def by (auto intro!: yields_as_uint yields_reject)

text \<open>A change of the object of a group that leaves its number and its tests alone.\<close>

definition neutral :: "(JSON_Object \<Rightarrow> JSON_Object) \<Rightarrow> bool" where
  "neutral g \<longleftrightarrow> (\<forall>r. json_names r \<longrightarrow>
     json_names (g r) \<and> map_of (g r) ''tgId'' = map_of r ''tgId'' \<and> map_of (g r) ''tests'' = map_of r ''tests'')"

lemma neutral_id [intro!]: "neutral (\<lambda>r. r)"
  by (simp add: neutral_def)

lemma neutral_comp: "neutral g \<Longrightarrow> neutral h \<Longrightarrow> neutral (\<lambda>r. g (h r))"
  by (simp add: neutral_def)

lemma neutral_set:
  assumes "json_name name" and "name \<noteq> ''tgId''" and "name \<noteq> ''tests''"
  shows "neutral (json_object_set_string name (Some t))"
  using assms by (auto simp: neutral_def json_object_set_string_def json_names_set json_set_get)

lemma neutral_fold: "list_all neutral gs \<Longrightarrow> neutral (fold (\<lambda>g. g) gs)"
proof (induction gs)
  case (Cons g gs)
  then show ?case using neutral_comp [of "fold (\<lambda>g. g) gs" g] by (simp add: comp_def)
qed (auto simp: neutral_def)

definition answers_test_with :: "(JSON_Object option \<Rightarrow> (answer_with, 's) step) \<Rightarrow> bool" where
  "answers_test_with f \<longleftrightarrow> (\<forall>testobj. yields (\<lambda>(v, g). names_test testobj v \<and> neutral g) (f testobj))"

lemma answers_test_withI: "(\<And>testobj. yields (\<lambda>(v, g). names_test testobj v \<and> neutral g) (f testobj)) \<Longrightarrow> answers_test_with f"
  by (simp add: answers_test_with_def)

lemma yields_each_with:
  assumes "answers_test_with f"
  shows "yields (\<lambda>rs. map (\<lambda>p. test_number (json_value_get_object (Some (fst p)))) rs = map test_number xs \<and> list_all neutral (map snd rs)) (each f xs)"
proof (induction xs)
  case (Cons x xs)
  have "yields (\<lambda>(v, g). names_test x v \<and> neutral g) (f x)" using assms by (simp add: answers_test_with_def)
  then show ?case
    unfolding each.simps
    by (rule yields_bind) (auto intro!: yields_bind [OF Cons.IH] yields_pass simp: json_value_get_object_def)
qed (simp add: yields_pass)

lemma shape_neutral:
  assumes "neutral g"
  shows "group_shape (Some (g (json_object_set_value ''tests'' (Some (JSONArray ts)) (json_object_set_number ''tgId'' tgId [])))) =
    (tgId, map (\<lambda>v. test_number (json_value_get_object (Some v))) ts)"
proof -
  let ?r = "json_object_set_value ''tests'' (Some (JSONArray ts)) (json_object_set_number ''tgId'' tgId [])"
  have "json_names ?r" "map_of ?r ''tgId'' = Some (JSONNumber tgId)" "map_of ?r ''tests'' = Some (JSONArray ts)"
    by (simp_all add: json_build json_known)
  then have "json_names (g ?r)" "map_of (g ?r) ''tgId'' = Some (JSONNumber tgId)" "map_of (g ?r) ''tests'' = Some (JSONArray ts)"
    using assms unfolding neutral_def by metis+
  then show ?thesis by (simp add: group_shape_def json_read json_known)
qed

lemma yields_answer_group_with:
  assumes "answers_test_with f" and "json_object_get_number groupobj ''tgId'' = tgId"
  shows "yields (\<lambda>v. group_shape (json_value_get_object (Some v)) = group_shape groupobj) (answer_group_with tgId groupobj f)"
proof -
  have "group_shape (json_value_get_object (Some (JSONObject (fold snd rs
      (json_object_set_value ''tests'' (Some (JSONArray (map fst rs))) (json_object_set_number ''tgId'' tgId [])))))) =
    (tgId, map (\<lambda>p. test_number (json_value_get_object (Some (fst p)))) rs)" if "list_all neutral (map snd rs)" for rs
    using shape_neutral [OF neutral_fold [OF that]] by (simp add: json_value_get_object_def fold_map comp_def)
  then show ?thesis
    unfolding answer_group_with_def each_test_def
    by (intro yields_bind [OF yields_each_with [OF assms(1)]] yields_pass)
      (use assms(2) in \<open>auto simp: group_shape_def comp_def\<close>)
qed

lemma yields_run_lenient:
  assumes "honest init" and "\<And>stc. honest (crypto stc)"
    and "\<And>stc r. labelled n r \<Longrightarrow> yields P (output stc r)"
  shows "yields P (run_lenient init crypto output n)"
  unfolding run_lenient_def by (auto intro!: yields_andthen yields_cases assms labelled_new honest_pass split: prod.splits)

text \<open>Allocations and conversions as equations, for memory that never runs out.\<close>

lemma alloc_eq:
  assumes "\<forall>w. fst (al w)"
  shows "alloc_into al n put stc w = Done (AMVP_SUCCESS, put (replicate n 0) stc) (snd (al w))"
    and "alloc_text_into al n put2 stc w = Done (AMVP_SUCCESS, put2 (replicate n NUL) stc) (snd (al w))"
    and "new_chars al n w = Done (replicate n NUL) (snd (al w))"
    and "new_bytes al n w = Done (replicate n 0) (snd (al w))"
  using assms [rule_format, of w]
  by (auto simp: alloc_into_def alloc_text_into_def new_chars_def new_bytes_def split: prod.splits)

lemma hex_into_odd:
  assumes "odd (length t)" and "length t \<le> 2 * n" and "n \<le> 131072" and "buf stc = Some b"
  shows "hex_into (Some t) buf put n stc w = Done (AMVP_UNSUPPORTED_OP, stc) w"
proof -
  have "wrap32 (2 * int n) = 2 * int n" using assms(3) by (intro wrap32_id) (simp add: is_int32_def)
  moreover have "min (length t) AMVP_HEXSTR_MAX = length t" using assms(2,3) by (simp add: AMVP_HEXSTR_MAX_def)
  ultimately show ?thesis using assms(1,2,4) by (simp add: hex_into_def amvp_hexstr_to_bin_def Let_def)
qed

lemma hex_member_empty: "hex_member mx name (Some bs) 0 r w = Done (json_object_set_string name (Some []) r) w"
  using hex_member_ok [of 0 bs mx name r w] by (simp add: hex_of_def)

end
