(* ===== verification/Kat_Ecdsa.thy ===== *)
theory Kat_Ecdsa
  imports Kat_Lenient
begin

text \<open>
  The handlers of \<^verbatim>\<open>src/amvp_ecdsa.c\<close>: key generation and verification, signature generation and
  verification, four ciphers that share one body.
\<close>

record AMVP_ECDSA_TC =
  ec_tc_id :: nat
  ec_tg_id :: int
  ec_is_component :: int
  ec_hash_alg :: int
  ec_cipher :: AMVP_CIPHER
  ec_curve :: int
  ec_secret_gen_mode :: int
  ec_d :: "bytes option"
  ec_d_len :: int
  ec_qy :: "bytes option"
  ec_qx_len :: int
  ec_qx :: "bytes option"
  ec_qy_len :: int
  ec_r :: "bytes option"
  ec_r_len :: int
  ec_s :: "bytes option"
  ec_s_len :: int
  ec_ver_disposition :: int
  ec_message :: "bytes option"
  ec_msg_len :: int

text \<open>
  The errors of the conversions end the output early and are not returned, and the text buffer is
  not checked.
\<close>

definition amvp_ecdsa_output_tc :: "'w allocator \<Rightarrow> AMVP_CIPHER \<Rightarrow> AMVP_ECDSA_TC \<Rightarrow> JSON_Object \<Rightarrow> (JSON_Object, 'w) step" where
  "amvp_ecdsa_output_tc al cipher stc tc_rsp =
     andthen (unchecked_chars al (AMVP_ECDSA_EXP_LEN_MAX + 1)) (\<lambda>tmp.
       if cipher = AMVP_ECDSA_KEYGEN
       then hex_until tmp AMVP_ECDSA_EXP_LEN_MAX
              [(''qy'', ec_qy stc, ec_qy_len stc), (''qx'', ec_qx stc, ec_qx_len stc), (''d'', ec_d stc, ec_d_len stc)] tc_rsp
       else if cipher = AMVP_ECDSA_KEYVER \<or> cipher = AMVP_ECDSA_SIGVER
       then pass (json_object_set_boolean ''testPassed'' (ec_ver_disposition stc) tc_rsp)
       else if cipher = AMVP_ECDSA_SIGGEN
       then hex_until tmp AMVP_ECDSA_EXP_LEN_MAX [(''r'', ec_r stc, ec_r_len stc), (''s'', ec_s stc, ec_s_len stc)] tc_rsp
       else pass tc_rsp)"

text \<open>When memory runs out after the first buffer, the buffers are freed here and again by the handler.\<close>

definition amvp_ecdsa_init_tc ::
  "'w allocator \<Rightarrow> AMVP_CIPHER \<Rightarrow> int \<Rightarrow> int \<Rightarrow> nat \<Rightarrow> int \<Rightarrow> int \<Rightarrow> int \<Rightarrow>
   string option \<Rightarrow> string option \<Rightarrow> string option \<Rightarrow> string option \<Rightarrow> string option \<Rightarrow> (AMVP_ECDSA_TC, 'w) step" where
  "amvp_ecdsa_init_tc al cipher is_component tg_id tc_id curve secret_gen_mode hash_alg qx qy message r s =
     strictly (fill_all
       [alloc_into al AMVP_RSA_EXP_LEN_MAX (store ec_qx_update),
        freed_twice (fill_all
          [alloc_into al AMVP_RSA_EXP_LEN_MAX (store ec_qy_update), alloc_into al AMVP_RSA_EXP_LEN_MAX (store ec_d_update),
           alloc_into al AMVP_RSA_EXP_LEN_MAX (store ec_s_update), alloc_into al AMVP_RSA_EXP_LEN_MAX (store ec_r_update),
           alloc_into al AMVP_RSA_EXP_LEN_MAX (store ec_message_update)]),
        fill_when (cipher = AMVP_ECDSA_KEYVER \<or> cipher = AMVP_ECDSA_SIGVER)
          [check_args (qx \<noteq> None \<and> qy \<noteq> None), hex_into qx ec_qx (store_len ec_qx_update ec_qx_len_update) AMVP_RSA_EXP_LEN_MAX,
           hex_into qy ec_qy (store_len ec_qy_update ec_qy_len_update) AMVP_RSA_EXP_LEN_MAX],
        fill_when (cipher = AMVP_ECDSA_SIGVER)
          [check_args (r \<noteq> None \<and> s \<noteq> None), hex_into r ec_r (store_len ec_r_update ec_r_len_update) AMVP_RSA_EXP_LEN_MAX,
           hex_into s ec_s (store_len ec_s_update ec_s_len_update) AMVP_RSA_EXP_LEN_MAX],
        fill_when (cipher = AMVP_ECDSA_SIGVER \<or> cipher = AMVP_ECDSA_SIGGEN)
          [check_args (message \<noteq> None), hex_into message ec_message (store_len ec_message_update ec_msg_len_update) AMVP_RSA_MSGLEN_MAX]]
       \<lparr>ec_tc_id = tc_id, ec_tg_id = tg_id, ec_is_component = is_component, ec_hash_alg = hash_alg, ec_cipher = cipher, ec_curve = curve,
         ec_secret_gen_mode = secret_gen_mode, ec_d = None, ec_d_len = 0, ec_qy = None, ec_qx_len = 0, ec_qx = None, ec_qy_len = 0,
         ec_r = None, ec_r_len = 0, ec_s = None, ec_s_len = 0, ec_ver_disposition = 0, ec_message = None, ec_msg_len = 0\<rparr>)"

definition read_secret_gen_mode :: "string option \<Rightarrow> int" where
  "read_secret_gen_mode =
     read_literal 1 [(AMVP_ECDSA_SECRET_GEN_EXTRA_BITS, ''extra bits''), (AMVP_ECDSA_SECRET_GEN_TEST_CAND, ''testing candidates'')]"

text \<open>What a group says.\<close>

record ecdsa_params =
  ep_tgId :: int
  ep_curve :: int
  ep_secret_gen_mode :: int
  ep_hash_alg :: int
  ep_is_component :: int

text \<open>The public key of a signature goes into the object of the group, so that of a later test replaces it.\<close>

definition ecdsa_group_key :: "'w allocator \<Rightarrow> AMVP_CIPHER \<Rightarrow> AMVP_ECDSA_TC \<Rightarrow> (JSON_Object \<Rightarrow> JSON_Object, 'w) step" where
  "ecdsa_group_key al cipher stc =
     (if cipher = AMVP_ECDSA_SIGGEN
      then andthen (unchecked_chars al (AMVP_ECDSA_EXP_LEN_MAX + 1)) (\<lambda>tmp.
           andthen (text_through tmp AMVP_ECDSA_EXP_LEN_MAX (ec_qy stc) (ec_qy_len stc)) (\<lambda>qy.
           andthen (text_through tmp AMVP_ECDSA_EXP_LEN_MAX (ec_qx stc) (ec_qx_len stc)) (\<lambda>qx.
             pass (\<lambda>g. json_object_set_string ''qx'' (Some qx) (json_object_set_string ''qy'' (Some qy) g)))))
      else pass (\<lambda>g. g))"

definition ecdsa_run ::
  "'w allocator \<Rightarrow> (nat \<Rightarrow> AMVP_ECDSA_TC \<Rightarrow> 'w \<Rightarrow> AMVP_RESULT \<times> AMVP_ECDSA_TC \<times> 'w) \<Rightarrow> callback \<Rightarrow> AMVP_CIPHER \<Rightarrow> nat \<Rightarrow>
   (AMVP_ECDSA_TC, 'w) step \<Rightarrow> (answer_with, 'w) step" where
  "ecdsa_run al crypto cb cipher tc_id init =
     andthen init (\<lambda>stc.
     andthen (call_crypto crypto cb stc) (\<lambda>stc1.
     andthen (ecdsa_group_key al cipher stc1) (\<lambda>g.
     andthen (amvp_ecdsa_output_tc al cipher stc1 (json_object_set_number ''tcId'' (int tc_id) [])) (\<lambda>r_tobj.
       pass (JSONObject r_tobj, g)))))"

text \<open>A text that only some of the ciphers have.\<close>

definition ecdsa_test ::
  "'w allocator \<Rightarrow> (nat \<Rightarrow> AMVP_ECDSA_TC \<Rightarrow> 'w \<Rightarrow> AMVP_RESULT \<times> AMVP_ECDSA_TC \<times> 'w) \<Rightarrow> callback \<Rightarrow> AMVP_CIPHER \<Rightarrow> ecdsa_params \<Rightarrow>
   JSON_Object option \<Rightarrow> (answer_with, 'w) step" where
  "ecdsa_test al crypto cb alg_id p testobj =
     with_tcId testobj False (\<lambda>tc_id.
     andthen (if alg_id = AMVP_ECDSA_KEYVER \<or> alg_id = AMVP_ECDSA_SIGVER
              then two_texts testobj ''qx'' ''qy'' AMVP_ECDSA_EXP_LEN_MAX (\<lambda>qx qy. pass (Some qx, Some qy))
              else pass (None, None)) (\<lambda>(qx, qy).
     andthen (if alg_id = AMVP_ECDSA_SIGGEN \<or> alg_id = AMVP_ECDSA_SIGVER
              then bounded_text testobj ''message'' AMVP_ECDSA_MSGLEN_MAX (\<lambda>m. pass (Some m))
              else pass None) (\<lambda>message.
     andthen (if alg_id = AMVP_ECDSA_SIGVER
              then two_texts testobj ''r'' ''s'' AMVP_ECDSA_EXP_LEN_MAX (\<lambda>r s. pass (Some r, Some s))
              else pass (None, None)) (\<lambda>(r, s).
       ecdsa_run al crypto cb alg_id tc_id
         (amvp_ecdsa_init_tc al alg_id (ep_is_component p) (ep_tgId p) tc_id (ep_curve p) (ep_secret_gen_mode p) (ep_hash_alg p) qx qy message r s)))))"

definition ecdsa_group ::
  "'w allocator \<Rightarrow> (nat \<Rightarrow> AMVP_ECDSA_TC \<Rightarrow> 'w \<Rightarrow> AMVP_RESULT \<times> AMVP_ECDSA_TC \<times> 'w) \<Rightarrow> AMVP_CIPHER \<Rightarrow> AMVP_CAPS_LIST \<Rightarrow>
   JSON_Object option \<Rightarrow> (JSON_Value, 'w) step" where
  "ecdsa_group al crypto alg_id cap groupobj =
     with_tgId_or AMVP_MISSING_ARG groupobj (\<lambda>tgId.
     word_field groupobj ''curve'' AMVP_INVALID_ARG (amvp_lookup_ec_curve alg_id) (\<lambda>curve.
     andthen (if alg_id = AMVP_ECDSA_KEYGEN
              then word_field groupobj ''secretGenerationMode'' AMVP_INVALID_ARG read_secret_gen_mode (\<lambda>m. pass m)
              else pass 0) (\<lambda>secret_gen_mode.
     andthen (if alg_id = AMVP_ECDSA_SIGGEN \<or> alg_id = AMVP_ECDSA_SIGVER
              then word_field groupobj ''hashAlg'' AMVP_INVALID_ARG amvp_lookup_hash_alg (\<lambda>h.
                   reject (alg_id = AMVP_ECDSA_SIGGEN \<and> h = AMVP_SHA1) AMVP_INVALID_ARG
                     (pass (h, json_object_get_boolean groupobj ''componentTest'')))
              else pass (0, 0)) (\<lambda>(hash_alg, is_component).
     some_tests groupobj
       (answer_group_with tgId groupobj (ecdsa_test al crypto (cap_crypto_handler cap) alg_id
          \<lparr>ep_tgId = tgId, ep_curve = curve, ep_secret_gen_mode = secret_gen_mode, ep_hash_alg = hash_alg, ep_is_component = is_component\<rparr>))))))"

definition ecdsa_rules :: "AMVP_CIPHER \<Rightarrow> kat_rules" where
  "ecdsa_rules cipher = (plain_rules cipher)\<lparr>kr_extra := echo_mode, kr_no_groups := Some AMVP_MALFORMED_JSON\<rparr>"

definition amvp_ecdsa_kat_handler_internal ::
  "'w allocator \<Rightarrow> (nat \<Rightarrow> AMVP_ECDSA_TC \<Rightarrow> 'w \<Rightarrow> AMVP_RESULT \<times> AMVP_ECDSA_TC \<times> 'w) \<Rightarrow> AMVP_CIPHER \<Rightarrow>
   JSON_Object option \<Rightarrow> 'w SESSION option \<Rightarrow> 'w SESSION option outcome" where
  "amvp_ecdsa_kat_handler_internal al crypto cipher = moded_frame (ecdsa_rules cipher) (\<lambda>w. w) (\<lambda>w. w) (ecdsa_group al crypto)"

definition ecdsa_keygen_kat_handler where "ecdsa_keygen_kat_handler al crypto = amvp_ecdsa_kat_handler_internal al crypto AMVP_ECDSA_KEYGEN"
definition ecdsa_keyver_kat_handler where "ecdsa_keyver_kat_handler al crypto = amvp_ecdsa_kat_handler_internal al crypto AMVP_ECDSA_KEYVER"
definition ecdsa_siggen_kat_handler where "ecdsa_siggen_kat_handler al crypto = amvp_ecdsa_kat_handler_internal al crypto AMVP_ECDSA_SIGGEN"
definition ecdsa_sigver_kat_handler where "ecdsa_sigver_kat_handler al crypto = amvp_ecdsa_kat_handler_internal al crypto AMVP_ECDSA_SIGVER"

section \<open>Answers\<close>

lemma ecdsa_output_label [label_intros]: "keeps_label (amvp_ecdsa_output_tc al cipher stc)"
  unfolding amvp_ecdsa_output_tc_def [abs_def]
  by (intro label_intros yields_intros; simp add: json_name_def c_string_simps)

lemma ecdsa_init_honest [yields_intros]: "honest (amvp_ecdsa_init_tc al cipher i1 i2 n i3 i4 i5 t1 t2 t3 t4 t5)"
  unfolding amvp_ecdsa_init_tc_def by (intro yields_intros) (auto intro!: yields_intros)

lemma ecdsa_key_neutral: "yields neutral (ecdsa_group_key al cipher stc)"
  unfolding ecdsa_group_key_def
  by (auto intro!: yields_intros yields_pass neutral_comp [OF neutral_set neutral_set] simp: json_name_def c_string_simps)

lemma ecdsa_run_yields:
  assumes "honest init" and "test_number testobj = int tc_id"
  shows "yields (\<lambda>(v, g). names_test testobj v \<and> neutral g) (ecdsa_run al crypto cb cipher tc_id init)"
  unfolding ecdsa_run_def
  by (intro yields_andthen [OF assms(1)] yields_andthen [OF honest_library(7)] yields_bind [OF ecdsa_key_neutral]
      yields_bind [OF keeps_labelD [OF ecdsa_output_label labelled_new]] yields_pass)
    (auto simp: labelled_number assms(2))

lemma ecdsa_test_answers: "answers_test_with (ecdsa_test al crypto cb alg_id p)"
  unfolding ecdsa_test_def [abs_def]
  by (intro answers_test_withI yields_with_tcId yields_intros ecdsa_run_yields; simp)

lemma ecdsa_group_answers: "answers_group (ecdsa_group al crypto alg_id cap)"
  unfolding ecdsa_group_def [abs_def] answers_group_def
  by (intro allI yields_with_tgId_or yields_intros yields_answer_group_with ecdsa_test_answers; simp)

interpretation ecdsa_kat: answering_handler "ecdsa_rules cipher" "\<lambda>w. w" "\<lambda>w. w" "ecdsa_group al crypto" for cipher al crypto
  by unfold_locales (auto simp: ecdsa_rules_def plain_rules_def ecdsa_group_answers json_names_echo)

end
