(* ===== verification/Kat_Rsa_Sig.thy ===== *)
theory Kat_Rsa_Sig
  imports Kat_Lenient
begin

text \<open>
  The handlers of RSA signatures, \<^verbatim>\<open>src/amvp_rsa_sig.c\<close>. A test case that could not be filled is
  not given to the crypto module but answered all the same.
\<close>

record AMVP_RSA_SIG_TC =
  rs_tc_id :: nat
  rs_tg_id :: int
  rs_group_e :: "string option"
  rs_group_n :: "string option"
  rs_hash_alg :: int
  rs_sig_type :: int
  rs_modulo :: nat
  rs_e :: "bytes option"
  rs_e_len :: int
  rs_n :: "bytes option"
  rs_n_len :: int
  rs_salt :: "char list option"
  rs_salt_len :: int
  rs_msg :: "bytes option"
  rs_msg_len :: int
  rs_signature :: "bytes option"
  rs_sig_len :: int
  rs_sig_mode :: AMVP_CIPHER
  rs_ver_disposition :: int

definition zero_rsa_sig_tc :: AMVP_RSA_SIG_TC where
  "zero_rsa_sig_tc =
     \<lparr>rs_tc_id = 0, rs_tg_id = 0, rs_group_e = None, rs_group_n = None, rs_hash_alg = 0, rs_sig_type = 0, rs_modulo = 0, rs_e = None, rs_e_len = 0,
       rs_n = None, rs_n_len = 0, rs_salt = None, rs_salt_len = 0, rs_msg = None, rs_msg_len = 0, rs_signature = None, rs_sig_len = 0,
       rs_sig_mode = 0, rs_ver_disposition = 0\<rparr>"

definition amvp_rsa_sig_output_tc :: "'w allocator \<Rightarrow> AMVP_RSA_SIG_TC \<Rightarrow> JSON_Object \<Rightarrow> (JSON_Object, 'w) step" where
  "amvp_rsa_sig_output_tc al stc tc_rsp =
     (if rs_sig_mode stc = AMVP_RSA_SIGVER
      then pass (json_object_set_boolean ''testPassed'' (rs_ver_disposition stc) tc_rsp)
      else andthen (new_chars al (AMVP_RSA_SIGNATURE_MAX + 1)) (\<lambda>_.
             hex_member AMVP_RSA_SIGNATURE_MAX ''signature'' (rs_signature stc) (rs_sig_len stc) tc_rsp))"

text \<open>The salt is copied as text; the buffer is longer than what is copied.\<close>

definition copy_salt :: "int \<Rightarrow> string option \<Rightarrow> AMVP_RSA_SIG_TC \<Rightarrow> AMVP_RSA_SIG_TC" where
  "copy_salt salt_len salt stc =
     (case salt of
        Some t \<Rightarrow> if salt_len \<noteq> 0 then stc\<lparr>rs_salt := map_option (\<lambda>b. take (strnlen_s (Some t) 256) t @ drop (strnlen_s (Some t) 256) b) (rs_salt stc)\<rparr> else stc
      | None \<Rightarrow> stc)"

definition amvp_rsa_sig_init_tc ::
  "'w allocator \<Rightarrow> AMVP_CIPHER \<Rightarrow> int \<Rightarrow> nat \<Rightarrow> int \<Rightarrow> nat \<Rightarrow> int \<Rightarrow> string option \<Rightarrow> string option \<Rightarrow> string \<Rightarrow> string option \<Rightarrow>
   string option \<Rightarrow> int \<Rightarrow> (AMVP_RESULT \<times> AMVP_RSA_SIG_TC, 'w) step" where
  "amvp_rsa_sig_init_tc al cipher tgId tc_id sig_type md hash_alg e n msg signature salt salt_len =
     fill_all
       [alloc_into al AMVP_RSA_MSGLEN_MAX (store rs_msg_update),
        alloc_into al AMVP_RSA_SIGNATURE_MAX (store rs_signature_update),
        alloc_text_into al AMVP_RSA_SIGNATURE_MAX (\<lambda>b. rs_salt_update (\<lambda>_. Some b)),
        alloc_into al AMVP_RSA_EXP_LEN_MAX (store rs_e_update),
        alloc_into al AMVP_RSA_EXP_LEN_MAX (store rs_n_update),
        hex_into (Some msg) rs_msg (store_len rs_msg_update rs_msg_len_update) AMVP_RSA_MSGLEN_MAX,
        fill_when (cipher = AMVP_RSA_SIGVER)
          [set_field (rs_sig_mode_update (\<lambda>_. AMVP_RSA_SIGVER)),
           hex_into e rs_e (store_len rs_e_update rs_e_len_update) AMVP_RSA_EXP_LEN_MAX,
           hex_into n rs_n (store_len rs_n_update rs_n_len_update) AMVP_RSA_EXP_LEN_MAX,
           hex_into signature rs_signature (store_len rs_signature_update rs_sig_len_update) AMVP_RSA_SIGNATURE_MAX],
        fill_when (cipher \<noteq> AMVP_RSA_SIGVER) [set_field (rs_sig_mode_update (\<lambda>_. AMVP_RSA_SIGGEN))],
        set_field (\<lambda>stc. (copy_salt salt_len salt stc)\<lparr>rs_salt_len := salt_len, rs_tc_id := tc_id, rs_tg_id := tgId, rs_modulo := md,
          rs_hash_alg := hash_alg, rs_sig_type := sig_type\<rparr>)]
       zero_rsa_sig_tc"

definition read_sig_type :: "string option \<Rightarrow> int" where
  "read_sig_type =
     read_literal 1 [(AMVP_RSA_SIG_TYPE_X931, ''ansx9.31''), (AMVP_RSA_SIG_TYPE_PKCS1V15, ''pkcs1v1.5''), (AMVP_RSA_SIG_TYPE_PKCS1PSS, ''pss'')]"

text \<open>
  A signature shorter than the modulus gets leading zeros; the number of zeros of one that is
  longer wraps around, and they are written past the end of the buffer.
\<close>

definition padded_signature :: "'w allocator \<Rightarrow> nat \<Rightarrow> string \<Rightarrow> (string, 'w) step" where
  "padded_signature al md tmp_signature =
     (let len = strnlen_s (Some tmp_signature) (AMVP_RSA_SIGNATURE_MAX + 1) in
      andthen (new_chars al (md div 4 + 1)) (\<lambda>_.
        if len > md div 4 then undef Out_Of_Bounds
        else pass (replicate (md div 4 - len) (CHR ''0'') @ tmp_signature)))"

record rsa_sig_params =
  sp_tgId :: int
  sp_sig_type :: int
  sp_mod :: nat
  sp_hash_alg :: int
  sp_salt_len :: nat
  sp_e :: "string option"
  sp_n :: "string option"

text \<open>The public key goes into the object of the group.\<close>

definition rsa_group_key :: "'w allocator \<Rightarrow> AMVP_CIPHER \<Rightarrow> AMVP_RSA_SIG_TC \<Rightarrow> (JSON_Object \<Rightarrow> JSON_Object, 'w) step" where
  "rsa_group_key al alg_id stc =
     (if alg_id = AMVP_RSA_SIGGEN
      then andthen (new_chars al (AMVP_RSA_EXP_LEN_MAX + 1)) (\<lambda>tmp.
           andthen (text_through (Some tmp) AMVP_RSA_EXP_LEN_MAX (rs_e stc) (rs_e_len stc)) (\<lambda>e.
           andthen (text_through (Some tmp) AMVP_RSA_EXP_LEN_MAX (rs_n stc) (rs_n_len stc)) (\<lambda>n.
             pass (\<lambda>g. json_object_set_string ''n'' (Some n) (json_object_set_string ''e'' (Some e) g)))))
      else pass (\<lambda>g. g))"

definition rsa_sig_output :: "'w allocator \<Rightarrow> AMVP_CIPHER \<Rightarrow> AMVP_RSA_SIG_TC \<Rightarrow> JSON_Object \<Rightarrow> (answer_with, 'w) step" where
  "rsa_sig_output al alg_id stc r_tobj =
     andthen (rsa_group_key al alg_id stc) (\<lambda>g. andthen (amvp_rsa_sig_output_tc al stc r_tobj) (\<lambda>r. pass (JSONObject r, g)))"

definition rsa_sig_test ::
  "'w allocator \<Rightarrow> (nat \<Rightarrow> AMVP_RSA_SIG_TC \<Rightarrow> 'w \<Rightarrow> AMVP_RESULT \<times> AMVP_RSA_SIG_TC \<times> 'w) \<Rightarrow> callback \<Rightarrow> AMVP_CIPHER \<Rightarrow> rsa_sig_params \<Rightarrow>
   JSON_Object option \<Rightarrow> (answer_with, 'w) step" where
  "rsa_sig_test al crypto cb alg_id p testobj =
     with_tcId_or AMVP_MALFORMED_JSON testobj (\<lambda>tc_id.
     bounded_text testobj ''message'' AMVP_RSA_MSGLEN_MAX (\<lambda>msg.
     andthen (if alg_id = AMVP_RSA_SIGVER
              then bounded_text testobj ''signature'' AMVP_RSA_SIGNATURE_MAX (\<lambda>t.
                   andthen (padded_signature al (sp_mod p) t) (\<lambda>sg. pass (Some sg, json_object_get_string testobj ''salt'')))
              else pass (None, None)) (\<lambda>(signature, salt).
       run_lenient
         (amvp_rsa_sig_init_tc al alg_id (sp_tgId p) tc_id (sp_sig_type p) (sp_mod p) (sp_hash_alg p) (sp_e p) (sp_n p) msg signature salt
            (wrap32 (int (sp_salt_len p))))
         (call_crypto crypto cb) (rsa_sig_output al alg_id) (int tc_id))))"

definition rsa_sig_group ::
  "'w allocator \<Rightarrow> (nat \<Rightarrow> AMVP_RSA_SIG_TC \<Rightarrow> 'w \<Rightarrow> AMVP_RESULT \<times> AMVP_RSA_SIG_TC \<times> 'w) \<Rightarrow> AMVP_CIPHER \<Rightarrow> AMVP_CAPS_LIST \<Rightarrow>
   JSON_Object option \<Rightarrow> (JSON_Value, 'w) step" where
  "rsa_sig_group al crypto alg_id cap groupobj =
     with_tgId groupobj (\<lambda>tgId.
     word_field groupobj ''sigType'' AMVP_INVALID_ARG read_sig_type (\<lambda>sig_type.
     group_len groupobj ''modulo'' (\<lambda>md.
     reject (md \<noteq> 1024 \<and> md \<noteq> 1536 \<and> md \<noteq> 2048 \<and> md \<noteq> 3072 \<and> md \<noteq> 4096) AMVP_INVALID_ARG
       (word_field groupobj ''hashAlg'' AMVP_INVALID_ARG amvp_lookup_hash_alg (\<lambda>hash_alg.
        reject (alg_id = AMVP_RSA_SIGGEN \<and> hash_alg = AMVP_SHA1) AMVP_INVALID_ARG
          (uint_field groupobj ''saltLen'' (\<lambda>salt_len.
           andthen (if alg_id = AMVP_RSA_SIGVER
                    then two_texts groupobj ''e'' ''n'' AMVP_RSA_EXP_LEN_MAX (\<lambda>e n. pass (Some e, Some n))
                    else pass (None, None)) (\<lambda>(e, n).
             answer_group_with tgId groupobj (rsa_sig_test al crypto (cap_crypto_handler cap) alg_id
               \<lparr>sp_tgId = tgId, sp_sig_type = sig_type, sp_mod = md, sp_hash_alg = hash_alg, sp_salt_len = salt_len, sp_e = e, sp_n = n\<rparr>)))))))))"

definition rsa_sig_rules :: "AMVP_CIPHER \<Rightarrow> kat_rules" where
  "rsa_sig_rules cipher = (plain_rules cipher)\<lparr>kr_no_mode := AMVP_MISSING_ARG, kr_extra := echo_mode\<rparr>"

definition amvp_rsa_sig_kat_handler_internal ::
  "'w allocator \<Rightarrow> (nat \<Rightarrow> AMVP_RSA_SIG_TC \<Rightarrow> 'w \<Rightarrow> AMVP_RESULT \<times> AMVP_RSA_SIG_TC \<times> 'w) \<Rightarrow> AMVP_CIPHER \<Rightarrow>
   JSON_Object option \<Rightarrow> 'w SESSION option \<Rightarrow> 'w SESSION option outcome" where
  "amvp_rsa_sig_kat_handler_internal al crypto cipher = moded_frame (rsa_sig_rules cipher) (\<lambda>w. w) (\<lambda>w. w) (rsa_sig_group al crypto)"

definition rsa_siggen_kat_handler where "rsa_siggen_kat_handler al crypto = amvp_rsa_sig_kat_handler_internal al crypto AMVP_RSA_SIGGEN"
definition rsa_sigver_kat_handler where "rsa_sigver_kat_handler al crypto = amvp_rsa_sig_kat_handler_internal al crypto AMVP_RSA_SIGVER"

section \<open>Answers\<close>

lemma rsa_sig_output_label [label_intros]: "keeps_label (amvp_rsa_sig_output_tc al stc)"
  unfolding amvp_rsa_sig_output_tc_def [abs_def]
  by (intro label_intros yields_intros; simp add: json_name_def c_string_simps)

lemma rsa_sig_init_honest [yields_intros]: "honest (amvp_rsa_sig_init_tc al cipher i1 n i2 m i3 t1 t2 s t3 t4 i4)"
  unfolding amvp_rsa_sig_init_tc_def by (intro yields_intros) (auto intro!: yields_intros)

lemma rsa_key_neutral: "yields neutral (rsa_group_key al alg_id stc)"
  unfolding rsa_group_key_def
  by (auto intro!: yields_intros yields_pass neutral_comp [OF neutral_set neutral_set] simp: json_name_def c_string_simps)

lemma honest_padded_signature [yields_intros]: "honest (padded_signature al md t)"
  by (auto simp: padded_signature_def Let_def intro!: yields_intros)

lemma rsa_sig_output_yields:
  assumes "labelled n r" and "test_number testobj = n"
  shows "yields (\<lambda>(v, g). names_test testobj v \<and> neutral g) (rsa_sig_output al alg_id stc r)"
  unfolding rsa_sig_output_def
  by (intro yields_bind [OF rsa_key_neutral] yields_bind [OF keeps_labelD [OF rsa_sig_output_label assms(1)]] yields_pass)
    (auto simp: labelled_number assms(2))

lemma rsa_sig_test_answers: "answers_test_with (rsa_sig_test al crypto cb alg_id p)"
  unfolding rsa_sig_test_def [abs_def]
  by (intro answers_test_withI yields_with_tcId_or yields_intros yields_run_lenient rsa_sig_output_yields; simp)

lemma rsa_sig_group_answers: "answers_group (rsa_sig_group al crypto alg_id cap)"
  unfolding rsa_sig_group_def [abs_def]
  by (intro answers_groupI yields_intros yields_answer_group_with rsa_sig_test_answers; simp)

interpretation rsa_sig_kat: answering_handler "rsa_sig_rules cipher" "\<lambda>w. w" "\<lambda>w. w" "rsa_sig_group al crypto" for cipher al crypto
  by unfold_locales (auto simp: rsa_sig_rules_def plain_rules_def rsa_sig_group_answers json_names_echo)

section \<open>Test cases that are not complete\<close>

lemma rsa_sig_init_odd_message:
  assumes "\<forall>w. fst (al w)" and "odd (length msg)" and "length msg \<le> AMVP_RSA_MSGLEN_MAX"
  shows "\<exists>w' stc. amvp_rsa_sig_init_tc al cipher tgId tc_id sig_type md hash_alg e n msg signature salt salt_len w = Done (AMVP_UNSUPPORTED_OP, stc) w' \<and>
    rs_sig_mode stc = 0 \<and> rs_signature stc = Some (replicate AMVP_RSA_SIGNATURE_MAX 0) \<and> rs_sig_len stc = 0"
proof -
  have "length msg \<le> 2 * AMVP_RSA_MSGLEN_MAX" "AMVP_RSA_MSGLEN_MAX \<le> 131072" using assms(3) by (simp_all add: limit_defs)
  note odd = hex_into_odd [OF assms(2) this]
  show ?thesis by (simp add: amvp_rsa_sig_init_tc_def alloc_eq [OF assms(1)] store_def odd zero_rsa_sig_tc_def)
qed

lemma rsa_sig_names: "json_name ''signature''" "json_name ''salt''"
  by (simp_all add: json_name_def c_string_simps)


definition rsa_sig_example :: rsa_sig_params where
  "rsa_sig_example = \<lparr>sp_tgId = 1, sp_sig_type = AMVP_RSA_SIG_TYPE_PKCS1PSS, sp_mod = 2048, sp_hash_alg = AMVP_SHA256, sp_salt_len = 0,
     sp_e = Some ''03'', sp_n = Some ''0f''\<rparr>"

definition refusing_sig_module :: "nat \<Rightarrow> AMVP_RSA_SIG_TC \<Rightarrow> unit \<Rightarrow> AMVP_RESULT \<times> AMVP_RSA_SIG_TC \<times> unit" where
  "refusing_sig_module c stc w = (AMVP_CRYPTO_MODULE_FAIL, stc, w)"


text \<open>A signature with more digits than the modulus makes the handler write past its buffer.\<close>

lemma padded_signature_overflow:
  assumes "\<forall>w. fst (al w)" and "length t > md div 4" and "length t \<le> AMVP_RSA_SIGNATURE_MAX"
  shows "padded_signature al md t w = Undef Out_Of_Bounds"
  using assms(2,3) by (simp add: padded_signature_def alloc_eq [OF assms(1)] min_def Let_def)

end
