(* ===== verification/Kat_Kas.thy ===== *)
theory Kat_Kas
  imports Kat_Lenient
begin

text \<open>
  The handlers of key agreement, \<^verbatim>\<open>src/amvp_kas_ecc.c\<close> and \<^verbatim>\<open>src/amvp_kas_ffc.c\<close>: on elliptic
  curves the cofactor primitive, components and shared secrets, and on finite fields components
  and shared secrets.
\<close>

section \<open>A prologue that fails late\<close>

text \<open>
  These handlers prepare the response before they look for the mode and the capability, so a
  request they refuse leaves an empty response behind. What they keep from one group to the next
  starts from the cipher.
\<close>

definition located :: "'w SESSION \<Rightarrow> AMVP_CIPHER \<Rightarrow> AMVP_CIPHER \<Rightarrow> AMVP_RESULT + AMVP_CIPHER \<times> AMVP_CAPS_LIST" where
  "located ctx wanted cipher =
     (case amvp_locate_cap_entry (Some ctx) wanted of None \<Rightarrow> Inl AMVP_UNSUPPORTED_OP | Some cap \<Rightarrow> Inr (cipher, cap))"

definition late_frame ::
  "(JSON_Object option \<Rightarrow> JSON_Object \<Rightarrow> JSON_Object) \<Rightarrow>
   (string \<Rightarrow> string option \<Rightarrow> 'w SESSION \<Rightarrow> AMVP_RESULT + AMVP_CIPHER \<times> AMVP_CAPS_LIST) \<Rightarrow>
   (AMVP_CIPHER \<Rightarrow> 'v) \<Rightarrow> (AMVP_CIPHER \<Rightarrow> AMVP_CAPS_LIST \<Rightarrow> JSON_Object option \<Rightarrow> (JSON_Value, 'v \<times> 'w) step) \<Rightarrow>
   JSON_Object option \<Rightarrow> 'w SESSION option \<Rightarrow> 'w SESSION option outcome" where
  "late_frame extra select locals do_group obj octx =
     with_ctx octx (\<lambda>ctx.
       case json_object_get_string obj ''algorithm'' of
         None \<Rightarrow> Ret AMVP_MALFORMED_JSON ctx
       | Some alg_str \<Rightarrow>
           (case select alg_str (json_object_get_string obj ''mode'') ctx of
              Inl rv \<Rightarrow> Ret rv (snd (amvp_setup_json_rsp_group alg_str ctx))
            | Inr (cipher, cap) \<Rightarrow> kat_answer (\<lambda>w. (locals cipher, w)) snd (extra obj) None (do_group cipher cap) alg_str obj ctx))"

definition echo_given_mode :: "JSON_Object option \<Rightarrow> JSON_Object \<Rightarrow> JSON_Object" where
  "echo_given_mode obj = json_object_set_string ''mode'' (json_object_get_string obj ''mode'')"

text \<open>The release of a finished test case clears it, the cipher included.\<close>

definition run_cleared ::
  "(AMVP_CIPHER \<Rightarrow> ('tc, 'w) step) \<Rightarrow> ('tc \<Rightarrow> ('tc, 'w) step) \<Rightarrow> ('tc \<Rightarrow> JSON_Object \<Rightarrow> (JSON_Object, 'w) step) \<Rightarrow> int \<Rightarrow>
   (JSON_Value, AMVP_CIPHER \<times> 'w) step" where
  "run_cleared init crypto output tc_id =
     andthen get_local (\<lambda>cipher.
     andthen (on_snd (run_case (init cipher) crypto output tc_id)) (\<lambda>v.
     andthen (put_local 0) (\<lambda>_. pass v)))"

text \<open>
  The comparison of the computed hash with the expected one, over the length of the expected
  one; an empty or overlong one counts as a difference.
\<close>

definition same_hash :: "nat \<Rightarrow> bytes option \<Rightarrow> bytes option \<Rightarrow> int \<Rightarrow> (bool, 's) step" where
  "same_hash mx chash z zlen =
     (case (z, chash) of
        (Some zb, Some h) \<Rightarrow>
          if zlen \<le> 0 \<or> zlen > int mx then pass False
          else if nat zlen > length h \<or> nat zlen > length zb then undef Out_Of_Bounds
          else pass (take (nat zlen) h = take (nat zlen) zb)
      | _ \<Rightarrow> pass False)"

definition verdict :: "nat \<Rightarrow> bytes option \<Rightarrow> bytes option \<Rightarrow> int \<Rightarrow> JSON_Object \<Rightarrow> (JSON_Object, 's) step" where
  "verdict mx chash z zlen tc_rsp =
     andthen (same_hash mx chash z zlen) (\<lambda>b. pass (json_object_set_boolean ''testPassed'' (if b then 1 else 0) tc_rsp))"

text \<open>
  The hash function of a shared secret, which a group names when the capability has one, and the
  expected secret. What the capability says is an argument.
\<close>

definition ssc_hash :: "int option \<Rightarrow> JSON_Object option \<Rightarrow> (int \<Rightarrow> ('a, 's) step) \<Rightarrow> ('a, 's) step" where
  "ssc_hash cap_hash groupobj k =
     (if cap_hash = None \<or> cap_hash = Some AMVP_NO_SHA then k 0
      else text_field groupobj ''hashFunctionZ'' (\<lambda>t.
        let hash = amvp_lookup_hash_alg (Some t)
        in reject (hash \<notin> set [AMVP_SHA224, AMVP_SHA256, AMVP_SHA384, AMVP_SHA512, AMVP_SHA512_224, AMVP_SHA512_256,
             AMVP_SHA3_224, AMVP_SHA3_256, AMVP_SHA3_384, AMVP_SHA3_512]) AMVP_INVALID_ARG (k hash)))"

definition ssc_secret :: "bool \<Rightarrow> nat \<Rightarrow> JSON_Object option \<Rightarrow> (string, 's) step" where
  "ssc_secret no_hash mx testobj =
     required (case json_object_get_string testobj ''hashZ'' of
         None \<Rightarrow> if no_hash then json_object_get_string testobj ''z'' else None
       | Some z \<Rightarrow> Some z)
       (\<lambda>z. reject (strnlen_s (Some z) (mx + 1) > mx) AMVP_INVALID_ARG (pass z))"

definition sha2_only :: "int \<Rightarrow> bool" where
  "sha2_only hash \<longleftrightarrow> hash \<in> set [AMVP_SHA224, AMVP_SHA256, AMVP_SHA384, AMVP_SHA512]"

section \<open>Elliptic curves\<close>

record AMVP_KAS_ECC_TC =
  ke_cipher :: AMVP_CIPHER
  ke_func :: int
  ke_test_type :: int
  ke_mode :: int
  ke_curve :: int
  ke_md :: int
  ke_psx :: "bytes option"
  ke_psy :: "bytes option"
  ke_pix :: "bytes option"
  ke_piy :: "bytes option"
  ke_d :: "bytes option"
  ke_z :: "bytes option"
  ke_chash :: "bytes option"
  ke_psxlen :: int
  ke_psylen :: int
  ke_pixlen :: int
  ke_piylen :: int
  ke_dlen :: int
  ke_zlen :: int
  ke_chashlen :: int

definition cleared_ecc_tc :: "AMVP_CIPHER \<Rightarrow> AMVP_KAS_ECC_TC" where
  "cleared_ecc_tc cipher =
     \<lparr>ke_cipher = cipher, ke_func = 0, ke_test_type = 0, ke_mode = 0, ke_curve = 0, ke_md = 0, ke_psx = None, ke_psy = None,
       ke_pix = None, ke_piy = None, ke_d = None, ke_z = None, ke_chash = None, ke_psxlen = 0, ke_psylen = 0, ke_pixlen = 0,
       ke_piylen = 0, ke_dlen = 0, ke_zlen = 0, ke_chashlen = 0\<rparr>"

definition amvp_kas_ecc_output_cdh_tc :: "'w allocator \<Rightarrow> AMVP_KAS_ECC_TC \<Rightarrow> JSON_Object \<Rightarrow> (JSON_Object, 'w) step" where
  "amvp_kas_ecc_output_cdh_tc al stc tc_rsp =
     andthen (new_chars al (AMVP_KAS_ECC_STR_MAX + 1)) (\<lambda>_.
       hex_members AMVP_KAS_ECC_STR_MAX
         [(''publicIutX'', ke_pix stc, ke_pixlen stc), (''publicIutY'', ke_piy stc, ke_piylen stc), (''z'', ke_z stc, ke_zlen stc)] tc_rsp)"

text \<open>A test to be verified converts the computed hash to text and drops the text.\<close>

definition ecc_answer :: "'w allocator \<Rightarrow> string \<Rightarrow> AMVP_KAS_ECC_TC \<Rightarrow> JSON_Object \<Rightarrow> (JSON_Object, 'w) step" where
  "ecc_answer al secret_name stc tc_rsp =
     andthen (new_chars al (AMVP_KAS_ECC_STR_MAX + 1)) (\<lambda>tmp.
       if ke_test_type stc = AMVP_KAS_ECC_TT_VAL
       then andthen (text_through (Some tmp) AMVP_KAS_ECC_STR_MAX (ke_chash stc) (ke_chashlen stc)) (\<lambda>_.
              verdict AMVP_KAS_ECC_BYTE_MAX (ke_chash stc) (ke_z stc) (ke_zlen stc) tc_rsp)
       else hex_members AMVP_KAS_ECC_STR_MAX
              [(''ephemeralPublicIutX'', ke_pix stc, ke_pixlen stc), (''ephemeralPublicIutY'', ke_piy stc, ke_piylen stc),
               (''ephemeralPrivateIut'', ke_d stc, ke_dlen stc), (secret_name, ke_chash stc, ke_chashlen stc)] tc_rsp)"

definition amvp_kas_ecc_output_comp_tc :: "'w allocator \<Rightarrow> AMVP_KAS_ECC_TC \<Rightarrow> JSON_Object \<Rightarrow> (JSON_Object, 'w) step" where
  "amvp_kas_ecc_output_comp_tc al = ecc_answer al ''hashZIut''"

definition amvp_kas_ecc_output_ssc_tc :: "'w allocator \<Rightarrow> AMVP_KAS_ECC_TC \<Rightarrow> JSON_Object \<Rightarrow> (JSON_Object, 'w) step" where
  "amvp_kas_ecc_output_ssc_tc al stc = ecc_answer al (if ke_md stc = AMVP_NO_SHA then ''Z'' else ''hashZ'') stc"

definition amvp_kas_ecc_init_cdh_tc ::
  "'w allocator \<Rightarrow> int \<Rightarrow> int \<Rightarrow> string \<Rightarrow> string \<Rightarrow> AMVP_CIPHER \<Rightarrow> (AMVP_KAS_ECC_TC, 'w) step" where
  "amvp_kas_ecc_init_cdh_tc al test_type curve psx psy cipher =
     (let mx = AMVP_KAS_ECC_BYTE_MAX in
      strictly (fill_all
        [alloc_into al mx (store ke_psx_update), hex_into (Some psx) ke_psx (store_len ke_psx_update ke_psxlen_update) mx,
         alloc_into al mx (store ke_psy_update), hex_into (Some psy) ke_psy (store_len ke_psy_update ke_psylen_update) mx,
         alloc_into al mx (store ke_pix_update), alloc_into al mx (store ke_piy_update), alloc_into al mx (store ke_z_update),
         alloc_into al mx (store ke_d_update), alloc_into al mx (store ke_chash_update)]
        ((cleared_ecc_tc cipher)\<lparr>ke_mode := AMVP_KAS_ECC_MODE_CDH, ke_curve := curve, ke_test_type := test_type\<rparr>)))"

text \<open>What a test to be verified says about the module under test: its public key, its private key and the secret.\<close>

type_synonym ecc_iut = "string option \<times> string option \<times> string option \<times> string option"

definition amvp_kas_ecc_init_comp_tc ::
  "'w allocator \<Rightarrow> int \<Rightarrow> int \<Rightarrow> int \<Rightarrow> string \<Rightarrow> string \<Rightarrow> ecc_iut \<Rightarrow> AMVP_CIPHER \<Rightarrow> (AMVP_KAS_ECC_TC, 'w) step" where
  "amvp_kas_ecc_init_comp_tc al test_type curve hash psx psy iut cipher =
     (let mx = AMVP_KAS_ECC_BYTE_MAX; (pix, piy, d, z) = iut in
      strictly (fill_all
        [alloc_into al mx (store ke_psx_update), hex_into (Some psx) ke_psx (store_len ke_psx_update ke_psxlen_update) mx,
         alloc_into al mx (store ke_psy_update), hex_into (Some psy) ke_psy (store_len ke_psy_update ke_psylen_update) mx,
         alloc_into al mx (store ke_pix_update), alloc_into al mx (store ke_piy_update), alloc_into al mx (store ke_d_update),
         alloc_into al mx (store ke_z_update), alloc_into al mx (store ke_chash_update),
         fill_when (test_type = AMVP_KAS_ECC_TT_VAL)
           [check_args (pix \<noteq> None \<and> piy \<noteq> None \<and> d \<noteq> None \<and> z \<noteq> None),
            hex_into pix ke_pix (store_len ke_pix_update ke_pixlen_update) mx, hex_into piy ke_piy (store_len ke_piy_update ke_piylen_update) mx,
            hex_into d ke_d (store_len ke_d_update ke_dlen_update) mx, hex_into z ke_z (store_len ke_z_update ke_zlen_update) mx]]
        ((cleared_ecc_tc cipher)\<lparr>ke_mode := AMVP_KAS_ECC_MODE_COMPONENT, ke_curve := curve, ke_md := hash, ke_test_type := test_type\<rparr>)))"

definition kas_ecc_read_test_type :: "string option \<Rightarrow> int" where
  "kas_ecc_read_test_type = read_literal 1 [(AMVP_KAS_ECC_TT_AFT, ''AFT''), (AMVP_KAS_ECC_TT_VAL, ''VAL'')]"

type_synonym 'w ecc_module = "nat \<Rightarrow> AMVP_KAS_ECC_TC \<Rightarrow> 'w \<Rightarrow> AMVP_RESULT \<times> AMVP_KAS_ECC_TC \<times> 'w"

definition ecc_cdh_test ::
  "'w allocator \<Rightarrow> 'w ecc_module \<Rightarrow> callback \<Rightarrow> int \<Rightarrow> int \<Rightarrow> JSON_Object option \<Rightarrow> (JSON_Value, AMVP_CIPHER \<times> 'w) step" where
  "ecc_cdh_test al crypto cb test_type curve testobj =
     int_field testobj ''tcId'' (\<lambda>tc_id.
     bounded_text testobj ''publicServerX'' AMVP_KAS_ECC_STR_MAX (\<lambda>psx.
     bounded_text testobj ''publicServerY'' AMVP_KAS_ECC_STR_MAX (\<lambda>psy.
       run_cleared (amvp_kas_ecc_init_cdh_tc al test_type curve psx psy) (call_crypto crypto cb) (amvp_kas_ecc_output_cdh_tc al) tc_id)))"

definition ecc_given :: "(JSON_Object option \<Rightarrow> (string, 's) step) \<Rightarrow> int \<Rightarrow> JSON_Object option \<Rightarrow> (ecc_iut, 's) step" where
  "ecc_given secret test_type testobj =
     (if test_type = AMVP_KAS_ECC_TT_VAL
      then bounded_text testobj ''ephemeralPublicIutX'' AMVP_KAS_ECC_STR_MAX (\<lambda>pix.
           bounded_text testobj ''ephemeralPublicIutY'' AMVP_KAS_ECC_STR_MAX (\<lambda>piy.
           bounded_text testobj ''ephemeralPrivateIut'' AMVP_KAS_ECC_STR_MAX (\<lambda>d.
           andthen (secret testobj) (\<lambda>z. pass (Some pix, Some piy, Some d, Some z)))))
      else pass (None, None, None, None))"

definition ecc_test ::
  "'w allocator \<Rightarrow> 'w ecc_module \<Rightarrow> callback \<Rightarrow> (JSON_Object option \<Rightarrow> (string, AMVP_CIPHER \<times> 'w) step) \<Rightarrow>
   ('w allocator \<Rightarrow> AMVP_KAS_ECC_TC \<Rightarrow> JSON_Object \<Rightarrow> (JSON_Object, 'w) step) \<Rightarrow> int \<Rightarrow> int \<Rightarrow> int \<Rightarrow>
   JSON_Object option \<Rightarrow> (JSON_Value, AMVP_CIPHER \<times> 'w) step" where
  "ecc_test al crypto cb secret output test_type curve hash testobj =
     int_field testobj ''tcId'' (\<lambda>tc_id.
     bounded_text testobj ''ephemeralPublicServerX'' AMVP_KAS_ECC_STR_MAX (\<lambda>psx.
     bounded_text testobj ''ephemeralPublicServerY'' AMVP_KAS_ECC_STR_MAX (\<lambda>psy.
     andthen (ecc_given secret test_type testobj) (\<lambda>iut.
       run_cleared (amvp_kas_ecc_init_comp_tc al test_type curve hash psx psy iut) (call_crypto crypto cb) (output al) tc_id))))"

definition ecc_curve :: "JSON_Object option \<Rightarrow> string \<Rightarrow> (int \<Rightarrow> ('a, AMVP_CIPHER \<times> 'w) step) \<Rightarrow> ('a, AMVP_CIPHER \<times> 'w) step" where
  "ecc_curve groupobj name k =
     andthen get_local (\<lambda>cipher. word_field groupobj name AMVP_INVALID_ARG (amvp_lookup_ec_curve cipher) k)"

definition amvp_kas_ecc_cdh ::
  "'w allocator \<Rightarrow> 'w ecc_module \<Rightarrow> AMVP_CAPS_LIST \<Rightarrow> JSON_Object option \<Rightarrow> (JSON_Value, AMVP_CIPHER \<times> 'w) step" where
  "amvp_kas_ecc_cdh al crypto cap groupobj =
     with_tgId groupobj (\<lambda>tgId.
     ecc_curve groupobj ''curve'' (\<lambda>curve.
     word_field groupobj ''testType'' AMVP_INVALID_ARG kas_ecc_read_test_type (\<lambda>test_type.
       answer_group tgId groupobj (ecc_cdh_test al crypto (cap_crypto_handler cap) test_type curve))))"

definition amvp_kas_ecc_comp ::
  "'w allocator \<Rightarrow> 'w ecc_module \<Rightarrow> AMVP_CAPS_LIST \<Rightarrow> JSON_Object option \<Rightarrow> (JSON_Value, AMVP_CIPHER \<times> 'w) step" where
  "amvp_kas_ecc_comp al crypto cap groupobj =
     with_tgId groupobj (\<lambda>tgId.
     ecc_curve groupobj ''curve'' (\<lambda>curve.
     text_field groupobj ''hashAlg'' (\<lambda>hash_str.
       let hash = amvp_lookup_hash_alg (Some hash_str) in
       reject (\<not> sha2_only hash) AMVP_INVALID_ARG
         (word_field groupobj ''testType'' AMVP_INVALID_ARG kas_ecc_read_test_type (\<lambda>test_type.
            answer_group tgId groupobj
              (ecc_test al crypto (cap_crypto_handler cap) (\<lambda>testobj. bounded_text testobj ''hashZIut'' AMVP_KAS_ECC_STR_MAX pass)
                 amvp_kas_ecc_output_comp_tc test_type curve hash))))))"

definition amvp_kas_ecc_ssc ::
  "'w allocator \<Rightarrow> 'w ecc_module \<Rightarrow> (AMVP_CAPS_LIST \<Rightarrow> int option) \<Rightarrow> AMVP_CAPS_LIST \<Rightarrow> JSON_Object option \<Rightarrow>
   (JSON_Value, AMVP_CIPHER \<times> 'w) step" where
  "amvp_kas_ecc_ssc al crypto cap_hash cap groupobj =
     with_tgId groupobj (\<lambda>tgId.
     ecc_curve groupobj ''domainParameterGenerationMode'' (\<lambda>curve.
     ssc_hash (cap_hash cap) groupobj (\<lambda>hash.
     word_field groupobj ''testType'' AMVP_INVALID_ARG kas_ecc_read_test_type (\<lambda>test_type.
       answer_group tgId groupobj
         (ecc_test al crypto (cap_crypto_handler cap) (ssc_secret (cap_hash cap = None \<or> cap_hash cap = Some AMVP_NO_SHA) AMVP_KAS_ECC_STR_MAX)
            amvp_kas_ecc_output_ssc_tc test_type curve hash)))))"

definition kas_ecc_select :: "string \<Rightarrow> string option \<Rightarrow> 'w SESSION \<Rightarrow> AMVP_RESULT + AMVP_CIPHER \<times> AMVP_CAPS_LIST" where
  "kas_ecc_select alg_str mode_str ctx =
     (let cipher = (if mode_str = None then AMVP_KAS_ECC_NOCOMP else amvp_lookup_cipher_w_mode_index (Some alg_str) mode_str);
          alg = amvp_get_kas_alg cipher
      in if mode_str \<noteq> None \<and> cipher \<noteq> AMVP_KAS_ECC_CDH \<and> cipher \<noteq> AMVP_KAS_ECC_COMP then Inl AMVP_INVALID_ARG
         else if alg = 0 then Inl AMVP_INVALID_ARG
         else if alg = AMVP_SUB_KAS_ECC_CDH then located ctx AMVP_KAS_ECC_CDH cipher
         else if alg = AMVP_SUB_KAS_ECC_COMP then located ctx AMVP_KAS_ECC_COMP cipher
         else Inl AMVP_UNSUPPORTED_OP)"

definition kas_ecc_kat_handler ::
  "'w allocator \<Rightarrow> 'w ecc_module \<Rightarrow> JSON_Object option \<Rightarrow> 'w SESSION option \<Rightarrow> 'w SESSION option outcome" where
  "kas_ecc_kat_handler al crypto =
     late_frame echo_given_mode kas_ecc_select (\<lambda>c. c)
       (\<lambda>cipher. if amvp_get_kas_alg cipher = AMVP_SUB_KAS_ECC_CDH then amvp_kas_ecc_cdh al crypto else amvp_kas_ecc_comp al crypto)"

definition kas_ecc_ssc_kat_handler ::
  "'w allocator \<Rightarrow> 'w ecc_module \<Rightarrow> (AMVP_CAPS_LIST \<Rightarrow> int option) \<Rightarrow>
   JSON_Object option \<Rightarrow> 'w SESSION option \<Rightarrow> 'w SESSION option outcome" where
  "kas_ecc_ssc_kat_handler al crypto cap_hash =
     late_frame (\<lambda>_ r. r) (\<lambda>_ _ ctx. located ctx AMVP_KAS_ECC_SSC 0) (\<lambda>c. c) (\<lambda>_. amvp_kas_ecc_ssc al crypto cap_hash)"

section \<open>Finite fields\<close>

record AMVP_KAS_FFC_TC =
  kf_cipher :: AMVP_CIPHER
  kf_test_type :: int
  kf_md :: int
  kf_mode :: int
  kf_dgm :: int
  kf_p :: "bytes option"
  kf_q :: "bytes option"
  kf_g :: "bytes option"
  kf_d :: "bytes option"
  kf_eps :: "bytes option"
  kf_epri :: "bytes option"
  kf_epui :: "bytes option"
  kf_z :: "bytes option"
  kf_chash :: "bytes option"
  kf_piut :: "bytes option"
  kf_plen :: int
  kf_qlen :: int
  kf_glen :: int
  kf_dlen :: int
  kf_zlen :: int
  kf_epslen :: int
  kf_eprilen :: int
  kf_epuilen :: int
  kf_chashlen :: int
  kf_piutlen :: int

definition cleared_ffc_tc :: "AMVP_CIPHER \<Rightarrow> AMVP_KAS_FFC_TC" where
  "cleared_ffc_tc cipher =
     \<lparr>kf_cipher = cipher, kf_test_type = 0, kf_md = 0, kf_mode = 0, kf_dgm = 0, kf_p = None, kf_q = None, kf_g = None, kf_d = None,
       kf_eps = None, kf_epri = None, kf_epui = None, kf_z = None, kf_chash = None, kf_piut = None, kf_plen = 0, kf_qlen = 0, kf_glen = 0,
       kf_dlen = 0, kf_zlen = 0, kf_epslen = 0, kf_eprilen = 0, kf_epuilen = 0, kf_chashlen = 0, kf_piutlen = 0\<rparr>"

definition DGM_STR_MAX :: nat where
  "DGM_STR_MAX = 9"

definition ffc_convert_dgm_string :: "string option \<Rightarrow> int" where
  "ffc_convert_dgm_string dgm_str =
     (case find_by_name (\<lambda>_. DGM_STR_MAX) 0
        [(AMVP_KAS_FFC_FB, ''fb''), (AMVP_KAS_FFC_FC, ''fc''), (AMVP_KAS_FFC_FB, ''FB''), (AMVP_KAS_FFC_FC, ''FC''),
         (AMVP_KAS_FFC_MODP2048, ''MODP-2048''), (AMVP_KAS_FFC_MODP3072, ''MODP-3072''), (AMVP_KAS_FFC_MODP4096, ''MODP-4096''),
         (AMVP_KAS_FFC_MODP6144, ''MODP-6144''), (AMVP_KAS_FFC_MODP8192, ''MODP-8192''), (AMVP_KAS_FFC_FFDHE2048, ''ffdhe2048''),
         (AMVP_KAS_FFC_FFDHE3072, ''ffdhe3072''), (AMVP_KAS_FFC_FFDHE4096, ''ffdhe4096''), (AMVP_KAS_FFC_FFDHE6144, ''ffdhe6144''),
         (AMVP_KAS_FFC_FFDHE8192, ''ffdhe8192'')] dgm_str of
        None \<Rightarrow> 0
      | Some v \<Rightarrow> v)"

definition ffc_answer :: "'w allocator \<Rightarrow> string \<Rightarrow> AMVP_KAS_FFC_TC \<Rightarrow> JSON_Object \<Rightarrow> (JSON_Object, 'w) step" where
  "ffc_answer al secret_name stc tc_rsp =
     andthen (new_chars al (AMVP_KAS_FFC_STR_MAX + 1)) (\<lambda>_.
       if kf_test_type stc = AMVP_KAS_FFC_TT_VAL
       then verdict AMVP_KAS_FFC_BYTE_MAX (kf_chash stc) (kf_z stc) (kf_zlen stc) tc_rsp
       else hex_members AMVP_KAS_FFC_STR_MAX
              [(''ephemeralPublicIut'', kf_piut stc, kf_piutlen stc), (secret_name, kf_chash stc, kf_chashlen stc)] tc_rsp)"

definition amvp_kas_ffc_output_ssc_tc :: "'w allocator \<Rightarrow> AMVP_KAS_FFC_TC \<Rightarrow> JSON_Object \<Rightarrow> (JSON_Object, 'w) step" where
  "amvp_kas_ffc_output_ssc_tc al stc = ffc_answer al (if kf_md stc = AMVP_NO_SHA then ''Z'' else ''hashZ'') stc"

definition amvp_kas_ffc_output_comp_tc :: "'w allocator \<Rightarrow> AMVP_KAS_FFC_TC \<Rightarrow> JSON_Object \<Rightarrow> (JSON_Object, 'w) step" where
  "amvp_kas_ffc_output_comp_tc al = ffc_answer al ''hashZIut''"

text \<open>
  The domain parameters of a group and what a test to be verified says about the module under
  test: its private key, its public key and the secret.
\<close>

type_synonym ffc_domain = "string option \<times> string option \<times> string option"

type_synonym ffc_iut = "string option \<times> string option \<times> string option"

definition own_domain :: "int \<Rightarrow> bool" where
  "own_domain dgm \<longleftrightarrow> dgm = AMVP_KAS_FFC_FB \<or> dgm = AMVP_KAS_FFC_FC"

definition amvp_kas_ffc_init_comp_tc ::
  "'w allocator \<Rightarrow> int \<Rightarrow> int \<Rightarrow> ffc_domain \<Rightarrow> string \<Rightarrow> ffc_iut \<Rightarrow> int \<Rightarrow> AMVP_CIPHER \<Rightarrow> (AMVP_KAS_FFC_TC, 'w) step" where
  "amvp_kas_ffc_init_comp_tc al hash_alg dgm domain eps iut test_type cipher =
     (let mx = AMVP_KAS_FFC_BYTE_MAX; (p, q, g) = domain; (epri, epui, z) = iut in
      strictly (fill_all
        [fill_when (own_domain dgm)
           [alloc_into al mx (store kf_p_update), hex_into p kf_p (store_len kf_p_update kf_plen_update) mx,
            alloc_into al mx (store kf_q_update), hex_into q kf_q (store_len kf_q_update kf_qlen_update) mx,
            alloc_into al mx (store kf_g_update), hex_into g kf_g (store_len kf_g_update kf_glen_update) mx],
         alloc_into al mx (store kf_eps_update), hex_into (Some eps) kf_eps (store_len kf_eps_update kf_epslen_update) mx,
         alloc_into al mx (store kf_epri_update), alloc_into al mx (store kf_epui_update), alloc_into al mx (store kf_chash_update),
         alloc_into al mx (store kf_piut_update), alloc_into al mx (store kf_z_update),
         fill_when (test_type = AMVP_KAS_FFC_TT_VAL)
           [hex_into z kf_z (store_len kf_z_update kf_zlen_update) mx, hex_into epri kf_epri (store_len kf_epri_update kf_eprilen_update) mx,
            hex_into epui kf_epui (store_len kf_epui_update kf_epuilen_update) mx],
         set_field (\<lambda>stc. stc\<lparr>kf_dgm := dgm\<rparr>)]
        ((cleared_ffc_tc cipher)\<lparr>kf_mode := AMVP_KAS_FFC_MODE_COMPONENT, kf_md := hash_alg, kf_test_type := test_type\<rparr>)))"

definition kas_ffc_read_test_type :: "string option \<Rightarrow> int" where
  "kas_ffc_read_test_type = read_literal 1 [(AMVP_KAS_FFC_TT_AFT, ''AFT''), (AMVP_KAS_FFC_TT_VAL, ''VAL'')]"

type_synonym 'w ffc_module = "nat \<Rightarrow> AMVP_KAS_FFC_TC \<Rightarrow> 'w \<Rightarrow> AMVP_RESULT \<times> AMVP_KAS_FFC_TC \<times> 'w"

definition ffc_given :: "(JSON_Object option \<Rightarrow> (string, 's) step) \<Rightarrow> int \<Rightarrow> JSON_Object option \<Rightarrow> (ffc_iut, 's) step" where
  "ffc_given secret test_type testobj =
     (if test_type = AMVP_KAS_FFC_TT_VAL
      then bounded_text testobj ''ephemeralPrivateIut'' AMVP_KAS_FFC_STR_MAX (\<lambda>epri.
           bounded_text testobj ''ephemeralPublicIut'' AMVP_KAS_FFC_STR_MAX (\<lambda>epui.
           andthen (secret testobj) (\<lambda>z. pass (Some epri, Some epui, Some z))))
      else pass (None, None, None))"

definition ffc_test ::
  "'w allocator \<Rightarrow> 'w ffc_module \<Rightarrow> callback \<Rightarrow> (JSON_Object option \<Rightarrow> (string, AMVP_CIPHER \<times> 'w) step) \<Rightarrow>
   ('w allocator \<Rightarrow> AMVP_KAS_FFC_TC \<Rightarrow> JSON_Object \<Rightarrow> (JSON_Object, 'w) step) \<Rightarrow> int \<Rightarrow> int \<Rightarrow> ffc_domain \<Rightarrow> int \<Rightarrow>
   JSON_Object option \<Rightarrow> (JSON_Value, AMVP_CIPHER \<times> 'w) step" where
  "ffc_test al crypto cb secret output hash_alg dgm domain test_type testobj =
     int_field testobj ''tcId'' (\<lambda>tc_id.
     bounded_text testobj ''ephemeralPublicServer'' AMVP_KAS_FFC_STR_MAX (\<lambda>eps.
     andthen (ffc_given secret test_type testobj) (\<lambda>iut.
       run_cleared (amvp_kas_ffc_init_comp_tc al hash_alg dgm domain eps iut test_type) (call_crypto crypto cb) (output al) tc_id)))"

definition domain_texts :: "JSON_Object option \<Rightarrow> (ffc_domain, 's) step" where
  "domain_texts groupobj =
     bounded_text groupobj ''p'' AMVP_KAS_FFC_STR_MAX (\<lambda>p.
     bounded_text groupobj ''q'' AMVP_KAS_FFC_STR_MAX (\<lambda>q.
     bounded_text groupobj ''g'' AMVP_KAS_FFC_STR_MAX (\<lambda>g. pass (Some p, Some q, Some g))))"

definition amvp_kas_ffc_comp ::
  "'w allocator \<Rightarrow> 'w ffc_module \<Rightarrow> AMVP_CAPS_LIST \<Rightarrow> JSON_Object option \<Rightarrow> (JSON_Value, AMVP_CIPHER \<times> 'w) step" where
  "amvp_kas_ffc_comp al crypto cap groupobj =
     with_tgId groupobj (\<lambda>tgId.
     text_field groupobj ''hashAlg'' (\<lambda>hash_str.
       let hash_alg = amvp_lookup_hash_alg (Some hash_str) in
       reject (\<not> sha2_only hash_alg) AMVP_INVALID_ARG
         (word_field groupobj ''parmSet'' AMVP_MALFORMED_JSON ffc_convert_dgm_string (\<lambda>pms.
          word_field groupobj ''testType'' AMVP_INVALID_ARG kas_ffc_read_test_type (\<lambda>test_type.
          andthen (domain_texts groupobj) (\<lambda>domain.
            answer_group tgId groupobj
              (ffc_test al crypto (cap_crypto_handler cap) (\<lambda>testobj. bounded_text testobj ''hashZIut'' AMVP_KAS_FFC_STR_MAX pass)
                 amvp_kas_ffc_output_comp_tc hash_alg pms domain test_type)))))))"

text \<open>
  For shared secrets the group goes by the hash function of the last mode of the capability, and
  the tests go by the one of its first mode.
\<close>

definition amvp_kas_ffc_ssc ::
  "'w allocator \<Rightarrow> 'w ffc_module \<Rightarrow> (AMVP_CAPS_LIST \<Rightarrow> (int \<times> int) option) \<Rightarrow> AMVP_CAPS_LIST \<Rightarrow> JSON_Object option \<Rightarrow>
   (JSON_Value, AMVP_CIPHER \<times> 'w) step" where
  "amvp_kas_ffc_ssc al crypto cap_hashes cap groupobj =
     with_tgId groupobj (\<lambda>tgId.
     word_field groupobj ''domainParameterGenerationMode'' AMVP_MALFORMED_JSON ffc_convert_dgm_string (\<lambda>dgm.
     ssc_hash (map_option fst (cap_hashes cap)) groupobj (\<lambda>hash_alg.
     word_field groupobj ''testType'' AMVP_INVALID_ARG kas_ffc_read_test_type (\<lambda>test_type.
     andthen (if own_domain dgm then domain_texts groupobj else pass (None, None, None)) (\<lambda>domain.
       let first_hash = map_option snd (cap_hashes cap)
       in answer_group tgId groupobj
            (ffc_test al crypto (cap_crypto_handler cap) (ssc_secret (first_hash = None \<or> first_hash = Some AMVP_NO_SHA) AMVP_KAS_FFC_STR_MAX)
               amvp_kas_ffc_output_ssc_tc hash_alg dgm domain test_type))))))"

definition kas_ffc_select :: "string \<Rightarrow> string option \<Rightarrow> 'w SESSION \<Rightarrow> AMVP_RESULT + AMVP_CIPHER \<times> AMVP_CAPS_LIST" where
  "kas_ffc_select alg_str mode_str ctx =
     (let cipher = (if mode_str = None then AMVP_KAS_FFC_NOCOMP else amvp_lookup_cipher_w_mode_index (Some alg_str) mode_str);
          alg = amvp_get_kas_alg cipher
      in if mode_str \<noteq> None \<and> cipher \<noteq> AMVP_KAS_FFC_COMP then Inl AMVP_INVALID_ARG
         else if alg = 0 then Inl AMVP_INVALID_ARG
         else if alg = AMVP_SUB_KAS_FFC_COMP then located ctx AMVP_KAS_FFC_COMP cipher
         else Inl AMVP_UNSUPPORTED_OP)"

definition kas_ffc_kat_handler ::
  "'w allocator \<Rightarrow> 'w ffc_module \<Rightarrow> JSON_Object option \<Rightarrow> 'w SESSION option \<Rightarrow> 'w SESSION option outcome" where
  "kas_ffc_kat_handler al crypto = late_frame echo_given_mode kas_ffc_select (\<lambda>c. c) (\<lambda>_. amvp_kas_ffc_comp al crypto)"

definition kas_ffc_ssc_kat_handler ::
  "'w allocator \<Rightarrow> 'w ffc_module \<Rightarrow> (AMVP_CAPS_LIST \<Rightarrow> (int \<times> int) option) \<Rightarrow>
   JSON_Object option \<Rightarrow> 'w SESSION option \<Rightarrow> 'w SESSION option outcome" where
  "kas_ffc_ssc_kat_handler al crypto cap_hashes =
     late_frame (\<lambda>_ r. r) (\<lambda>_ _ ctx. located ctx AMVP_KAS_FFC_SSC 0) (\<lambda>c. c) (\<lambda>_. amvp_kas_ffc_ssc al crypto cap_hashes)"

section \<open>Answers\<close>

text \<open>The contract of these handlers: their steps answer, and a refusal is not a success.\<close>

locale late_handler =
  fixes extra :: "JSON_Object option \<Rightarrow> JSON_Object \<Rightarrow> JSON_Object"
    and select :: "string \<Rightarrow> string option \<Rightarrow> 'w SESSION \<Rightarrow> AMVP_RESULT + AMVP_CIPHER \<times> AMVP_CAPS_LIST"
    and locals :: "AMVP_CIPHER \<Rightarrow> 'v"
    and do_group :: "AMVP_CIPHER \<Rightarrow> AMVP_CAPS_LIST \<Rightarrow> JSON_Object option \<Rightarrow> (JSON_Value, 'v \<times> 'w) step"
  assumes late_groups: "answers_group (do_group cipher cap)"
    and late_refusals: "select alg_str mode_str ctx \<noteq> Inl AMVP_SUCCESS"
    and late_names: "json_names r \<Longrightarrow> json_names (extra obj r)"

sublocale late_handler \<subseteq> late_order: answering "do_group cipher cap" for cipher cap
  by unfold_locales (rule late_groups)

context late_handler
begin

lemma late_done:
  assumes "late_frame extra select locals do_group obj octx = Ret AMVP_SUCCESS octx'"
  obtains ctx ctx' alg_str cipher cap where "octx = Some ctx" and "octx' = Some ctx'"
    and "select alg_str (json_object_get_string obj ''mode'') ctx = Inr (cipher, cap)"
    and "kat_answer (\<lambda>w. (locals cipher, w)) snd (extra obj) None (do_group cipher cap) alg_str obj ctx = Ret AMVP_SUCCESS ctx'"
  using assms late_refusals
  by (auto simp: late_frame_def with_ctx_def split: option.splits sum.splits prod.splits outcome.splits)

lemma late_in_order:
  assumes "late_frame extra select locals do_group obj octx = Ret AMVP_SUCCESS (Some ctx')"
  shows "answered_in_order obj ctx'"
  using assms by (rule late_done) (auto intro: late_order.answer_in_order late_names)

end

lemma located_not_success: "located ctx wanted cipher \<noteq> Inl AMVP_SUCCESS"
  by (simp add: located_def split: option.splits)

lemma json_names_echo_given: "json_names r \<Longrightarrow> json_names (echo_given_mode obj r)"
  using json_names_echo [of r]
  by (cases "json_object_get_string obj ''mode''") (auto simp: echo_given_mode_def echo_mode_def json_object_set_string_def json_object_set_value_def)

lemma honest_kas [yields_intros]: "honest (same_hash mx chash z zlen)" "honest (ssc_secret b mx obj)" "honest (domain_texts obj)"
  "honest (amvp_kas_ecc_init_cdh_tc al i1 i2 t1 t2 cipher)" "honest (amvp_kas_ecc_init_comp_tc al i1 i2 i3 t1 t2 iut cipher)"
  "honest (amvp_kas_ffc_init_comp_tc al i1 i2 domain t1 ffc_iut i3 cipher)"
  by (auto simp: same_hash_def ssc_secret_def domain_texts_def amvp_kas_ecc_init_cdh_tc_def amvp_kas_ecc_init_comp_tc_def
      amvp_kas_ffc_init_comp_tc_def Let_def intro!: yields_intros split: option.splits prod.splits)

lemma honest_given [yields_intros]:
  "(\<And>testobj. honest (secret testobj)) \<Longrightarrow> honest (ecc_given secret test_type obj)"
  "(\<And>testobj. honest (secret testobj)) \<Longrightarrow> honest (ffc_given secret test_type obj)"
  by (auto simp: ecc_given_def ffc_given_def intro!: yields_intros)

lemma yields_ssc_hash [yields_intros]: "(\<And>h. yields P (k h)) \<Longrightarrow> yields P (ssc_hash cap_hash obj k)"
  by (auto simp: ssc_hash_def Let_def intro!: yields_intros)

lemma yields_ecc_curve [yields_intros]: "(\<And>c. yields P (k c)) \<Longrightarrow> yields P (ecc_curve obj name k)"
  by (auto simp: ecc_curve_def intro!: yields_intros)

lemma verdict_label [label_intros]: "keeps_label (verdict mx chash z zlen)"
  unfolding verdict_def [abs_def] by (intro label_intros yields_intros; simp add: json_name_def c_string_simps)

lemma kas_output_label [label_intros]:
  "keeps_label (amvp_kas_ecc_output_cdh_tc al ecc)" "keeps_label (amvp_kas_ecc_output_comp_tc al ecc)" "keeps_label (amvp_kas_ecc_output_ssc_tc al ecc)"
  "keeps_label (amvp_kas_ffc_output_comp_tc al ffc)" "keeps_label (amvp_kas_ffc_output_ssc_tc al ffc)"
  unfolding amvp_kas_ecc_output_cdh_tc_def [abs_def] amvp_kas_ecc_output_comp_tc_def amvp_kas_ecc_output_ssc_tc_def ecc_answer_def [abs_def]
    amvp_kas_ffc_output_comp_tc_def amvp_kas_ffc_output_ssc_tc_def ffc_answer_def [abs_def]
  by (intro label_intros yields_intros; simp add: json_name_def c_string_simps)+

lemma yields_run_cleared:
  assumes "\<And>stc. keeps_label (output stc)" and "\<And>cipher. honest (init cipher)" and "\<And>stc. honest (crypto stc)" and "test_number testobj = n"
  shows "yields (names_test testobj) (run_cleared init crypto output n)"
proof -
  have "yields (names_test testobj) (on_snd (run_case (init cipher) crypto output n))" for cipher
    using yields_run_case [OF assms(1) assms(2) assms(3) assms(4), of cipher] by (force simp: yields_def on_snd_def split: kat.splits)
  then show ?thesis
    unfolding run_cleared_def
    by (rule yields_andthen [OF honest_local(1) yields_bind]) (auto intro!: yields_andthen honest_local yields_pass)
qed

lemma kas_tests:
  "answers_test (ecc_cdh_test al ecc cb test_type curve)"
  "(\<And>testobj. honest (secret testobj)) \<Longrightarrow> (\<And>stc. keeps_label (eoutput al stc)) \<Longrightarrow> answers_test (ecc_test al ecc cb secret eoutput test_type curve hash)"
  "(\<And>testobj. honest (secret testobj)) \<Longrightarrow> (\<And>stc. keeps_label (foutput al stc)) \<Longrightarrow>
     answers_test (ffc_test al ffc cb secret foutput hash dgm domain test_type)"
  unfolding ecc_cdh_test_def [abs_def] ecc_test_def [abs_def] ffc_test_def [abs_def] int_field_def [of _ "''tcId''"]
  by (intro answers_testI yields_as_int yields_intros yields_run_cleared label_intros; simp add: test_number_def)+

lemma kas_groups:
  "answers_group (amvp_kas_ecc_cdh al ecc cap)" "answers_group (amvp_kas_ecc_comp al ecc cap)" "answers_group (amvp_kas_ecc_ssc al ecc cap_hash cap)"
  "answers_group (amvp_kas_ffc_comp al ffc cap)" "answers_group (amvp_kas_ffc_ssc al ffc cap_hashes cap)"
  unfolding amvp_kas_ecc_cdh_def [abs_def] amvp_kas_ecc_comp_def [abs_def] amvp_kas_ecc_ssc_def [abs_def] amvp_kas_ffc_comp_def [abs_def]
    amvp_kas_ffc_ssc_def [abs_def] Let_def
  by (intro answers_groupI yields_intros yields_answer_group kas_tests label_intros; simp add: yields_intros)+

interpretation kas_ecc_kat: late_handler echo_given_mode kas_ecc_select "\<lambda>c. c"
    "\<lambda>cipher. if amvp_get_kas_alg cipher = AMVP_SUB_KAS_ECC_CDH then amvp_kas_ecc_cdh al crypto else amvp_kas_ecc_comp al crypto" for al crypto
  by unfold_locales (auto simp: kas_groups kas_ecc_select_def located_not_success json_names_echo_given Let_def)

interpretation kas_ecc_ssc_kat: late_handler "\<lambda>_ r. r" "\<lambda>_ _ ctx. located ctx AMVP_KAS_ECC_SSC 0" "\<lambda>c. c" "\<lambda>_. amvp_kas_ecc_ssc al crypto cap_hash"
    for al crypto cap_hash
  by unfold_locales (auto simp: kas_groups located_not_success)

interpretation kas_ffc_kat: late_handler echo_given_mode kas_ffc_select "\<lambda>c. c" "\<lambda>_. amvp_kas_ffc_comp al crypto" for al crypto
  by unfold_locales (auto simp: kas_groups kas_ffc_select_def located_not_success json_names_echo_given Let_def)

interpretation kas_ffc_ssc_kat: late_handler "\<lambda>_ r. r" "\<lambda>_ _ ctx. located ctx AMVP_KAS_FFC_SSC 0" "\<lambda>c. c" "\<lambda>_. amvp_kas_ffc_ssc al crypto cap_hashes"
    for al crypto cap_hashes
  by unfold_locales (auto simp: kas_groups located_not_success)

section \<open>The cipher is lost\<close>

text \<open>
  A step that spends \<open>n\<close> test cases: it needs the cipher for each of them, and a test case that is
  finished leaves none.
\<close>

definition spends :: "nat \<Rightarrow> ('a, AMVP_CIPHER \<times> 'w) step \<Rightarrow> bool" where
  "spends n p \<longleftrightarrow> (\<forall>s x t. p s = Done x t \<longrightarrow> (n = 0 \<and> fst t = fst s) \<or> (n = 1 \<and> fst s \<noteq> 0 \<and> fst t = 0))"

named_theorems spends_intros \<open>rules for the number of test cases that steps spend\<close>

lemma spends_andthen:
  assumes "spends n p" and "\<And>x. spends m (f x)"
  shows "spends (n + m) (andthen p f)"
  unfolding spends_def
proof (intro allI impI)
  fix s x t
  assume "andthen p f s = Done x t"
  then obtain y u where "p s = Done y u" "f y u = Done x t" by (auto simp: andthen_def split: kat.splits)
  with assms(1) assms(2) [of y] have "(n = 0 \<and> fst u = fst s) \<or> (n = 1 \<and> fst s \<noteq> 0 \<and> fst u = 0)"
    "(m = 0 \<and> fst t = fst u) \<or> (m = 1 \<and> fst u \<noteq> 0 \<and> fst t = 0)"
    unfolding spends_def by blast+
  then show "(n + m = 0 \<and> fst t = fst s) \<or> (n + m = 1 \<and> fst s \<noteq> 0 \<and> fst t = 0)" by auto
qed

lemma spends_before [spends_intros]: "spends 0 p \<Longrightarrow> (\<And>x. spends n (f x)) \<Longrightarrow> spends n (andthen p f)"
  using spends_andthen [of 0 p n f] by simp

lemma spends_basic [spends_intros]: "spends 0 (pass x)" "spends n (stop rv)" "spends n (undef u)" "spends 0 get_local" "spends 0 (on_snd p)"
  by (auto simp: spends_def get_local_def on_snd_def split: kat.splits)

lemma spends_reject [spends_intros]: "spends n p \<Longrightarrow> spends n (reject b rv p)"
  by (simp add: reject_def spends_basic)

lemma spends_numbers [spends_intros]: "spends 0 (as_int i)" "spends 0 (as_uint i)"
  by (auto simp: spends_def as_int_def as_uint_def pass_eq split: if_splits)

lemma spends_required [spends_intros]: "(\<And>x. spends n (k x)) \<Longrightarrow> spends n (required y k)"
  by (cases y) (simp_all add: spends_basic)

lemma spends_fields [spends_intros]:
  "(\<And>i. spends n (f i)) \<Longrightarrow> spends n (int_field obj name f)" "(\<And>t. spends n (g t)) \<Longrightarrow> spends n (text_field obj name g)"
  "(\<And>i. spends n (f i)) \<Longrightarrow> spends n (word_field obj name rv rd f)" "(\<And>t. spends n (g t)) \<Longrightarrow> spends n (bounded_text obj name mx g)"
  "(\<And>i. spends n (f i)) \<Longrightarrow> spends n (with_tgId obj f)" "(\<And>i. spends n (f i)) \<Longrightarrow> spends n (ecc_curve obj name f)"
  "(\<And>i. spends n (f i)) \<Longrightarrow> spends n (ssc_hash cap_hash obj f)"
  unfolding int_field_def text_field_def word_field_def bounded_text_def with_tgId_def ecc_curve_def ssc_hash_def Let_def
  by (auto intro!: spends_intros)

lemma spends_given [spends_intros]: "spends 0 (domain_texts obj)" "spends 0 (ssc_secret b mx obj)"
  "(\<And>obj. spends 0 (secret obj)) \<Longrightarrow> spends 0 (ecc_given secret test_type obj)"
  "(\<And>obj. spends 0 (secret obj)) \<Longrightarrow> spends 0 (ffc_given secret test_type obj)"
  unfolding domain_texts_def ssc_secret_def ecc_given_def ffc_given_def by (auto intro!: spends_intros)

lemma spends_each: "(\<And>x. spends (cost x) (f x)) \<Longrightarrow> spends (sum_list (map cost xs)) (each f xs)"
proof (induction xs)
  case (Cons x xs)
  have "spends (sum_list (map cost xs) + 0) (andthen (each f xs) (\<lambda>as. pass (a # as)))" for a
    using Cons by (intro spends_andthen spends_basic) auto
  then show ?case using Cons.prems spends_andthen by fastforce
qed (simp add: spends_basic)

definition group_tests :: "JSON_Object option \<Rightarrow> nat" where
  "group_tests groupobj = length (snd (group_shape groupobj))"

definition tests_asked :: "JSON_Object option \<Rightarrow> nat" where
  "tests_asked obj = length (concat (map snd (set_shape obj)))"

lemma spends_group [spends_intros]:
  assumes "\<And>testobj. spends 1 (f testobj)"
  shows "spends (group_tests groupobj) (answer_group tgId groupobj f)"
proof -
  have "spends (sum_list (map (\<lambda>_. 1) xs)) (each f xs)" for xs by (rule spends_each) (rule assms)
  then have "spends (length xs) (each f xs)" for xs by (simp add: sum_list_triv)
  from this [of "map (\<lambda>v. json_value_get_object (Some v)) (case json_object_get_array groupobj ''tests'' of None \<Rightarrow> [] | Some a \<Rightarrow> a)"]
  have "spends (group_tests groupobj) (each_test groupobj f)" by (simp add: each_test_def group_tests_def group_shape_def)
  then show ?thesis using spends_andthen [OF _ spends_basic(1)] unfolding answer_group_def by fastforce
qed

text \<open>Fillings keep the cipher of a test case, so the crypto module sees the one that is stored.\<close>

abbreviation (input) keeping :: "('tc \<Rightarrow> 'c) \<Rightarrow> ('tc, 's) filling \<Rightarrow> bool" where
  "keeping c f \<equiv> \<forall>stc. yields (\<lambda>(rv, stc'). c stc' = c stc) (f stc)"

lemma keeping_fill_all: "list_all (keeping c) fs \<Longrightarrow> keeping c (fill_all fs)"
proof (induction fs)
  case (Cons f fs)
  have "yields (\<lambda>(rv, stc'). c stc' = c stc) (fill_all (f # fs) stc)" for stc
    using Cons unfolding fill_all.simps
    by (intro yields_bind [where Q = "\<lambda>(rv, stc'). c stc' = c stc"]) (auto intro!: yields_pass, metis)
  then show ?case by blast
qed (simp add: yields_pass)

lemma keeping_fillings:
  "(\<And>b stc. c (put b stc) = c stc) \<Longrightarrow> keeping c (alloc_into al n put)"
  "(\<And>b i stc. c (put2 b i stc) = c stc) \<Longrightarrow> keeping c (hex_into t buf put2 m)"
  "keeping c (check_args b)" "(\<And>stc. c (g stc) = c stc) \<Longrightarrow> keeping c (set_field g)"
  "list_all (keeping c) fs \<Longrightarrow> keeping c (fill_when b fs)"
  using keeping_fill_all [of c fs] keeping_fill_all [of c "[]"]
  by (auto simp: yields_def alloc_into_def hex_into_def check_args_def set_field_def fill_when_def split: prod.splits outcome.splits)

lemma yields_strictly: "yields (\<lambda>(rv, stc). P stc) p \<Longrightarrow> yields P (strictly p)"
  unfolding strictly_def by (erule yields_bind) (auto simp: reject_def intro!: yields_intros yields_pass)

lemma kas_init_cipher:
  "yields (\<lambda>stc. ke_cipher stc = cipher) (amvp_kas_ecc_init_cdh_tc al i1 i2 t1 t2 cipher)"
  "yields (\<lambda>stc. ke_cipher stc = cipher) (amvp_kas_ecc_init_comp_tc al i1 i2 i3 t1 t2 iut cipher)"
  "yields (\<lambda>stc. kf_cipher stc = cipher) (amvp_kas_ffc_init_comp_tc al i1 i2 domain t1 ffc_iut i3 cipher)"
proof -
  have *: "yields (\<lambda>stc. c stc = cipher) (strictly (fill_all fs stc0))" if "list_all (keeping c) fs" "c stc0 = cipher"
    for c :: "'b \<Rightarrow> AMVP_CIPHER" and fs :: "('b, 'w) filling list" and stc0
    using keeping_fill_all [OF that(1)] that(2) by (intro yields_strictly) auto
  show "yields (\<lambda>stc. ke_cipher stc = cipher) (amvp_kas_ecc_init_cdh_tc al i1 i2 t1 t2 cipher)"
    "yields (\<lambda>stc. ke_cipher stc = cipher) (amvp_kas_ecc_init_comp_tc al i1 i2 i3 t1 t2 iut cipher)"
    "yields (\<lambda>stc. kf_cipher stc = cipher) (amvp_kas_ffc_init_comp_tc al i1 i2 domain t1 ffc_iut i3 cipher)"
    unfolding amvp_kas_ecc_init_cdh_tc_def amvp_kas_ecc_init_comp_tc_def amvp_kas_ffc_init_comp_tc_def Let_def case_prod_beta
    by (rule *; simp add: keeping_fillings store_def store_len_def cleared_ecc_tc_def cleared_ffc_tc_def)+
qed

lemma spends_run_cleared:
  assumes "\<And>cipher. yields (\<lambda>stc. c stc = cipher) (init cipher)" and "\<And>n stc w. c stc = 0 \<Longrightarrow> fst (crypto n stc w) \<noteq> AMVP_SUCCESS"
  shows "spends 1 (run_cleared init (call_crypto crypto cb) output tc_id)"
  unfolding spends_def
proof (intro allI impI disjI2 conjI refl)
  fix s v t
  assume run: "run_cleared init (call_crypto crypto cb) output tc_id s = Done v t"
  then show "fst t = 0"
    by (auto simp: run_cleared_def andthen_def get_local_def put_local_def split: kat.splits)
  from run obtain u where "run_case (init (fst s)) (call_crypto crypto cb) output tc_id (snd s) = Done v u"
    by (auto simp: run_cleared_def andthen_def get_local_def put_local_def on_snd_def split: kat.splits)
  then obtain stc w stc1 w1 where "init (fst s) (snd s) = Done stc w" "call_crypto crypto cb stc w = Done stc1 w1"
    by (auto simp: run_case_def andthen_def split: kat.splits)
  moreover from this(1) have "c stc = fst s" using yieldsD [OF assms(1)] by metis
  ultimately show "fst s \<noteq> 0"
    using assms(2) [of stc _ w] by (cases cb) (auto simp: call_crypto_def case_prod_beta split: if_splits)
qed

lemma spends_ecc_cdh:
  "(\<And>n stc w. ke_cipher stc = 0 \<Longrightarrow> fst (ecc n stc w) \<noteq> AMVP_SUCCESS) \<Longrightarrow>
     spends 1 (run_cleared (amvp_kas_ecc_init_cdh_tc al i1 i2 t1 t2) (call_crypto ecc cb) output tc_id)"
  by (rule spends_run_cleared [where c = ke_cipher]) (rule kas_init_cipher, assumption)

lemma spends_ecc_comp:
  "(\<And>n stc w. ke_cipher stc = 0 \<Longrightarrow> fst (ecc n stc w) \<noteq> AMVP_SUCCESS) \<Longrightarrow>
     spends 1 (run_cleared (amvp_kas_ecc_init_comp_tc al i1 i2 i3 t1 t2 iut) (call_crypto ecc cb) output tc_id)"
  by (rule spends_run_cleared [where c = ke_cipher]) (rule kas_init_cipher, assumption)

lemma spends_ffc_comp:
  "(\<And>n stc w. kf_cipher stc = 0 \<Longrightarrow> fst (ffc n stc w) \<noteq> AMVP_SUCCESS) \<Longrightarrow>
     spends 1 (run_cleared (amvp_kas_ffc_init_comp_tc al i1 i2 domain t1 ffc_iut i3) (call_crypto ffc cb) output tc_id)"
  by (rule spends_run_cleared [where c = kf_cipher]) (rule kas_init_cipher, assumption)

lemma kas_tests_spend:
  "(\<And>n stc w. ke_cipher stc = 0 \<Longrightarrow> fst (ecc n stc w) \<noteq> AMVP_SUCCESS) \<Longrightarrow> spends 1 (ecc_cdh_test al ecc cb test_type curve testobj)"
  "(\<And>n stc w. ke_cipher stc = 0 \<Longrightarrow> fst (ecc n stc w) \<noteq> AMVP_SUCCESS) \<Longrightarrow> (\<And>testobj. spends 0 (secret testobj)) \<Longrightarrow>
     spends 1 (ecc_test al ecc cb secret eoutput test_type curve hash testobj)"
  "(\<And>n stc w. kf_cipher stc = 0 \<Longrightarrow> fst (ffc n stc w) \<noteq> AMVP_SUCCESS) \<Longrightarrow> (\<And>testobj. spends 0 (secret testobj)) \<Longrightarrow>
     spends 1 (ffc_test al ffc cb secret foutput hash dgm domain test_type testobj)"
  unfolding ecc_cdh_test_def ecc_test_def ffc_test_def
  by (intro spends_fields spends_before spends_given spends_ecc_cdh spends_ecc_comp spends_ffc_comp; assumption)+

lemma ecc_groups_spend:
  assumes "\<And>n stc w. ke_cipher stc = 0 \<Longrightarrow> fst (ecc n stc w) \<noteq> AMVP_SUCCESS"
  shows "spends (group_tests groupobj) (amvp_kas_ecc_cdh al ecc cap groupobj)" "spends (group_tests groupobj) (amvp_kas_ecc_comp al ecc cap groupobj)"
    "spends (group_tests groupobj) (amvp_kas_ecc_ssc al ecc cap_hash cap groupobj)"
  unfolding amvp_kas_ecc_cdh_def amvp_kas_ecc_comp_def amvp_kas_ecc_ssc_def Let_def
  by (intro spends_fields spends_reject spends_group kas_tests_spend spends_given spends_basic; (rule assms)?; assumption?)+

lemma ffc_groups_spend:
  assumes "\<And>n stc w. kf_cipher stc = 0 \<Longrightarrow> fst (ffc n stc w) \<noteq> AMVP_SUCCESS"
  shows "spends (group_tests groupobj) (amvp_kas_ffc_comp al ffc cap groupobj)" "spends (group_tests groupobj) (amvp_kas_ffc_ssc al ffc cap_hashes cap groupobj)"
  unfolding amvp_kas_ffc_comp_def amvp_kas_ffc_ssc_def Let_def
  by (intro spends_before spends_fields spends_reject spends_group kas_tests_spend spends_given spends_basic; (rule assms)?; (simp add: spends_intros)?)+

lemma spent_tests:
  assumes "kat_answer (\<lambda>w. (cipher, w)) snd extra None do_group alg_str obj ctx = Ret AMVP_SUCCESS ctx'"
    and "answers_group do_group" and "\<And>r. json_names r \<Longrightarrow> json_names (extra r)" and "\<And>g. spends (group_tests g) (do_group g)"
  shows "tests_asked obj = 0 \<or> tests_asked obj = 1 \<and> cipher \<noteq> 0"
proof -
  have honest: "honest (do_group g)" for g using assms(2) by (auto simp: answers_group_def yields_def split: kat.splits)
  obtain garr s where "each do_group (group_objects obj) (cipher, world ctx) = Done garr s"
    using kat_answer_done [OF assms(1) honest option.distinct(1) assms(3)] by metis
  with spends_each [of group_tests do_group "group_objects obj", OF assms(4)]
  have "sum_list (map group_tests (group_objects obj)) = 0 \<or> sum_list (map group_tests (group_objects obj)) = 1 \<and> cipher \<noteq> 0"
    unfolding spends_def by (metis fst_conv)
  moreover have "sum_list (map group_tests (group_objects obj)) = tests_asked obj"
    by (simp add: tests_asked_def set_shape_def group_tests_def length_concat comp_def)
  ultimately show ?thesis by metis
qed

text \<open>
  C0: a crypto module that goes by the cipher of a test case cannot be tested for key agreement. When
  it refuses test cases without a cipher, a vector set for components of elliptic curves or
  finite fields that is answered with success has at most one test in all its groups, and one
  for shared secrets has none: the release of a test case clears the cipher for the tests
  after it, and the handlers of shared secrets never set it.
\<close>
theorem kas_cipher_lost:
  assumes "\<And>n stc w. ke_cipher stc = 0 \<Longrightarrow> fst (ecc n stc w) \<noteq> AMVP_SUCCESS" and "\<And>n stc w. kf_cipher stc = 0 \<Longrightarrow> fst (ffc n stc w) \<noteq> AMVP_SUCCESS"
  shows "(Ret AMVP_SUCCESS octx' \<in> {kas_ecc_kat_handler al ecc obj octx, kas_ffc_kat_handler al ffc obj octx} \<longrightarrow> tests_asked obj \<le> 1) \<and>
    (Ret AMVP_SUCCESS octx' \<in> {kas_ecc_ssc_kat_handler al ecc cap_hash obj octx, kas_ffc_ssc_kat_handler al ffc cap_hashes obj octx} \<longrightarrow>
      tests_asked obj = 0)"
proof -
  have "tests_asked obj \<le> 1" if "kas_ecc_kat_handler al ecc obj octx = Ret AMVP_SUCCESS octx'"
    using that unfolding kas_ecc_kat_handler_def
    by (rule kas_ecc_kat.late_done)
      (drule spent_tests [OF _ kas_ecc_kat.late_groups json_names_echo_given]; auto simp: ecc_groups_spend [OF assms(1)])
  moreover have "tests_asked obj \<le> 1" if "kas_ffc_kat_handler al ffc obj octx = Ret AMVP_SUCCESS octx'"
    using that unfolding kas_ffc_kat_handler_def
    by (rule kas_ffc_kat.late_done)
      (drule spent_tests [OF _ kas_ffc_kat.late_groups json_names_echo_given]; auto simp: ffc_groups_spend [OF assms(2)])
  moreover have "tests_asked obj = 0" if "kas_ecc_ssc_kat_handler al ecc cap_hash obj octx = Ret AMVP_SUCCESS octx'"
    using that unfolding kas_ecc_ssc_kat_handler_def
    by (rule kas_ecc_ssc_kat.late_done)
      (drule spent_tests [OF _ kas_ecc_ssc_kat.late_groups]; auto simp: ecc_groups_spend [OF assms(1)] located_def split: option.splits)
  moreover have "tests_asked obj = 0" if "kas_ffc_ssc_kat_handler al ffc cap_hashes obj octx = Ret AMVP_SUCCESS octx'"
    using that unfolding kas_ffc_ssc_kat_handler_def
    by (rule kas_ffc_ssc_kat.late_done)
      (drule spent_tests [OF _ kas_ffc_ssc_kat.late_groups]; auto simp: ffc_groups_spend [OF assms(2)] located_def split: option.splits)
  ultimately show ?thesis by (metis empty_iff insert_iff)
qed

text \<open>A module that refuses test cases without a cipher, with one test and with two tests of the cofactor primitive.\<close>

definition ecc_by_cipher :: "unit ecc_module" where
  "ecc_by_cipher n stc w = (if ke_cipher stc = 0 then AMVP_CRYPTO_MODULE_FAIL else AMVP_SUCCESS, stc, w)"

definition ffc_by_cipher :: "unit ffc_module" where
  "ffc_by_cipher n stc w = (if kf_cipher stc = 0 then AMVP_CRYPTO_MODULE_FAIL else AMVP_SUCCESS, stc, w)"

definition cdh_session :: "unit SESSION" where
  "cdh_session = (init_session ())\<lparr>caps_list :=
     [\<lparr>cap_cipher = AMVP_KAS_ECC_CDH, cap_type = AMVP_KAS_ECC_CDH_TYPE, cap_has_prereq = 0, cap_prereq_vals = [],
       cap_data = Other_cap AMVP_KAS_ECC_CDH_TYPE, cap_crypto_handler = Some 0\<rparr>]\<rparr>"

definition cdh_example :: "int list \<Rightarrow> JSON_Object" where
  "cdh_example ids =
     [(''algorithm'', JSONString ''KAS-ECC''), (''mode'', JSONString ''CDH-Component''),
      (''testGroups'', JSONArray [JSONObject [(''tgId'', JSONNumber 1), (''curve'', JSONString ''P-256''), (''testType'', JSONString ''AFT''),
         (''tests'', JSONArray (map (\<lambda>i. JSONObject [(''tcId'', JSONNumber i), (''publicServerX'', JSONString []), (''publicServerY'', JSONString [])]) ids))]])]"

lemma cdh_names: "json_name ''curve''" "json_name ''testType''" "json_name ''publicServerX''" "json_name ''publicServerY''"
  "json_name ''publicIutX''" "json_name ''publicIutY''" "json_name ''z''" "json_name ''mode''"
  by (simp_all add: json_name_def c_string_simps)

lemma cdh_index: "amvp_lookup_cipher_w_mode_index (Some ''KAS-ECC'') (Some ''CDH-Component'') = AMVP_KAS_ECC_CDH"
proof -
  have "List.member alg_tbl (alg_row AMVP_KAS_ECC_CDH amvp_kas_ecc_kat_handler ''KAS-ECC'' (Some ''CDH-Component'') ''1.0'' AMVP_SUB_KAS_ECC_CDH)"
    by code_simp
  from w_mode_index_row [OF this [unfolded List.member_iff]] show ?thesis by (simp add: alg_row_def)
qed

lemma cdh_words:
  "kas_ecc_read_test_type (Some ''AFT'') = AMVP_KAS_ECC_TT_AFT" "amvp_get_kas_alg AMVP_KAS_ECC_CDH = AMVP_SUB_KAS_ECC_CDH"
  "amvp_lookup_ec_curve AMVP_KAS_ECC_CDH (Some ''P-256'') = AMVP_EC_CURVE_P256"
  by (simp add: kas_ecc_read_test_type_def read_literal_def strcmp_s_def RSIZE_MAX_STR_def, code_simp)
    (simp add: amvp_lookup_ec_curve_def ec_curve_tbl_def EC_CURVE_NAME_MAX_def strcmp_s_def RSIZE_MAX_STR_def)

lemma tests_asked_cdh: "tests_asked (Some (cdh_example ids)) = length ids"
  by (simp add: tests_asked_def set_shape_def group_shape_def cdh_example_def json_read json_known cdh_names)

lemma hex_into_empty:
  assumes "buf stc = Some b" and "n \<le> 131072"
  shows "hex_into (Some []) buf put n stc = pass (AMVP_SUCCESS, put b 0 stc)"
proof -
  have "wrap32 (2 * int n) = 2 * int n" using assms(2) by (intro wrap32_id) (simp add: is_int32_def)
  then show ?thesis using assms(1) by (simp add: hex_into_def amvp_hexstr_to_bin_def Let_def)
qed

lemma cdh_example_test:
  "ecc_cdh_test always_memory ecc_by_cipher (Some 0) AMVP_KAS_ECC_TT_AFT curve
      (Some [(''tcId'', JSONNumber 7), (''publicServerX'', JSONString []), (''publicServerY'', JSONString [])]) (AMVP_KAS_ECC_CDH, ()) =
    Done (JSONObject [(''tcId'', JSONNumber 7), (''publicIutX'', JSONString []), (''publicIutY'', JSONString []), (''z'', JSONString [])]) (0, ())"
  by (simp add: ecc_cdh_test_def int_field_def bounded_text_def run_cleared_def run_case_def amvp_kas_ecc_init_cdh_tc_def strictly_def alloc_into_def
      always_memory_def store_def store_len_def hex_into_empty AMVP_KAS_ECC_BYTE_MAX_def cleared_ecc_tc_def call_crypto_def ecc_by_cipher_def
      amvp_kas_ecc_output_cdh_tc_def new_chars_def hex_member_empty get_local_def put_local_def on_snd_def
      is_int32_def json_read json_build json_known cdh_names Let_def)

theorem kas_cipher_lost_witness:
  "(\<exists>octx'. kas_ecc_kat_handler always_memory ecc_by_cipher (Some (cdh_example [7])) (Some cdh_session) = Ret AMVP_SUCCESS octx') \<and>
   (\<forall>octx'. kas_ecc_kat_handler always_memory ecc_by_cipher (Some (cdh_example [7, 8])) (Some cdh_session) \<noteq> Ret AMVP_SUCCESS octx')"
proof (intro conjI allI notI)
  show "\<exists>octx'. kas_ecc_kat_handler always_memory ecc_by_cipher (Some (cdh_example [7])) (Some cdh_session) = Ret AMVP_SUCCESS octx'"
    by (simp add: kas_ecc_kat_handler_def late_frame_def kas_ecc_select_def cdh_index cdh_words located_def cdh_session_def amvp_locate_cap_entry_def
        kat_answer_def amvp_setup_json_rsp_group_def cdh_example_def amvp_kas_ecc_cdh_def with_tgId_def ecc_curve_def word_field_def text_field_def
        answer_group_def each_test_def cdh_example_test get_local_def is_int32_def json_read json_known cdh_names Let_def)
  fix octx'
  assume "kas_ecc_kat_handler always_memory ecc_by_cipher (Some (cdh_example [7, 8])) (Some cdh_session) = Ret AMVP_SUCCESS octx'"
  then have "tests_asked (Some (cdh_example [7, 8])) \<le> 1"
    using kas_cipher_lost [of ecc_by_cipher ffc_by_cipher octx' always_memory "Some (cdh_example [7, 8])" "Some cdh_session"]
    by (simp add: ecc_by_cipher_def ffc_by_cipher_def)
  then show False by (simp add: tests_asked_cdh)
qed

end
