(* ===== verification/Kat_Rsa_Keys.thy ===== *)
theory Kat_Rsa_Keys
  imports Kat_Lenient
begin

text \<open>
  RSA key generation, \<^verbatim>\<open>src/amvp_rsa_keygen.c\<close>, and the signature primitive of \<^verbatim>\<open>src/amvp_rsa_prim.c\<close>.
  Both answer a test case that could not be filled, and both keep variables from one group to
  the next. The records leave out the members of the structs that no handler touches.
\<close>

section \<open>Key generation\<close>

record AMVP_RSA_KEYGEN_TC =
  rk_tc_id :: nat
  rk_hash_alg :: int
  rk_test_type :: int
  rk_prime_test :: int
  rk_prime_result :: "string option"
  rk_rand_pq :: int
  rk_pub_exp_mode :: int
  rk_key_format :: int
  rk_info_gen_by_server :: int
  rk_test_disposition :: int
  rk_modulo :: nat
  rk_e :: "bytes option"
  rk_xp1 :: "bytes option"
  rk_xp2 :: "bytes option"
  rk_xp :: "bytes option"
  rk_xq1 :: "bytes option"
  rk_xq2 :: "bytes option"
  rk_xq :: "bytes option"
  rk_n :: "bytes option"
  rk_d :: "bytes option"
  rk_p :: "bytes option"
  rk_q :: "bytes option"
  rk_seed :: "bytes option"
  rk_seed_len :: int
  rk_bitlen1 :: int
  rk_bitlen2 :: int
  rk_bitlen3 :: int
  rk_bitlen4 :: int
  rk_e_len :: int
  rk_n_len :: int
  rk_d_len :: int
  rk_p_len :: int
  rk_q_len :: int
  rk_xq_len :: int
  rk_xq1_len :: int
  rk_xq2_len :: int
  rk_xp_len :: int
  rk_xp1_len :: int
  rk_xp2_len :: int

definition amvp_rsa_output_tc :: "'w allocator \<Rightarrow> AMVP_RSA_KEYGEN_TC \<Rightarrow> JSON_Object \<Rightarrow> (JSON_Object, 'w) step" where
  "amvp_rsa_output_tc al stc tc_rsp =
     (let mx = AMVP_RSA_EXP_LEN_MAX; pq = rk_rand_pq stc in
      if pq = AMVP_RSA_KEYGEN_B33 \<and> rk_test_type stc = AMVP_RSA_TESTTYPE_KAT
      then pass (json_object_set_boolean ''testPassed'' (rk_test_disposition stc) tc_rsp)
      else
        andthen (new_chars al (mx + 1)) (\<lambda>tmp.
        andthen (hex_members mx [(''p'', rk_p stc, rk_p_len stc), (''q'', rk_q stc, rk_q_len stc), (''n'', rk_n stc, rk_n_len stc),
                   (''d'', rk_d stc, rk_d_len stc), (''e'', rk_e stc, rk_e_len stc)] tc_rsp) (\<lambda>r1.
        andthen (if rk_key_format stc = AMVP_RSA_KEY_FORMAT_CRT
                 then hex_members mx [(''xP'', rk_xp stc, rk_xp_len stc), (''xP1'', rk_xp1 stc, rk_xp1_len stc), (''xP2'', rk_xp2 stc, rk_xp2_len stc),
                        (''xQ'', rk_xq stc, rk_xq_len stc), (''xQ1'', rk_xq1 stc, rk_xq1_len stc), (''xQ2'', rk_xq2 stc, rk_xq2_len stc)] r1
                 else pass r1) (\<lambda>r2.
          if rk_info_gen_by_server stc \<noteq> 0
          then pass (if pq = AMVP_RSA_KEYGEN_B33 \<or> pq = AMVP_RSA_KEYGEN_B35 \<or> pq = AMVP_RSA_KEYGEN_B36
                     then json_object_set_string ''primeResult'' (rk_prime_result stc) r2 else r2)
          else if pq \<noteq> AMVP_RSA_KEYGEN_B33
          then andthen (hex_through (Some tmp) AMVP_RSA_SEEDLEN_MAX ''seed'' (rk_seed stc) (rk_seed_len stc) r2) (\<lambda>r3.
                 pass (json_object_set_value ''bitlens'' (Some (JSONArray [JSONNumber (rk_bitlen1 stc), JSONNumber (rk_bitlen2 stc),
                   JSONNumber (rk_bitlen3 stc), JSONNumber (rk_bitlen4 stc)])) r3))
          else pass r2))))"

text \<open>What a group says and what a test adds.\<close>

record rsa_keygen_params =
  gp_test_type :: int
  gp_info :: int
  gp_pub_exp_mode :: int
  gp_fixed_e :: "string option"
  gp_key_format :: int
  gp_rand_pq :: int
  gp_mod :: nat

record rsa_keygen_inputs =
  gi_e :: string
  gi_xp :: "string option"
  gi_xp1 :: "string option"
  gi_xp2 :: "string option"
  gi_xq :: "string option"
  gi_xq1 :: "string option"
  gi_xq2 :: "string option"
  gi_bitlens :: "int \<times> int \<times> int \<times> int"

text \<open>The variables of the handler that only some groups and tests set.\<close>

record rsa_keygen_locals =
  gl_hash_alg :: int
  gl_prime_test :: int
  gl_seed :: "string option"
  gl_seed_len :: nat

text \<open>The strings for the primes themselves are never set, so no prime is read.\<close>

definition amvp_rsa_keygen_init_tc ::
  "'w allocator \<Rightarrow> nat \<Rightarrow> rsa_keygen_params \<Rightarrow> rsa_keygen_locals \<Rightarrow> rsa_keygen_inputs \<Rightarrow> (AMVP_RESULT \<times> AMVP_RSA_KEYGEN_TC, 'w) step" where
  "amvp_rsa_keygen_init_tc al tc_id p l i =
     (let mx = AMVP_RSA_EXP_BYTE_MAX; b36 = (gp_rand_pq p = AMVP_RSA_KEYGEN_B36) in
      fill_all
        [alloc_into al mx (store rk_e_update), alloc_into al mx (store rk_p_update), alloc_into al mx (store rk_q_update),
         alloc_into al mx (store rk_n_update), alloc_into al mx (store rk_d_update),
         fill_when (b36 \<or> gp_info p = 0)
           [alloc_into al mx (store rk_xp_update), alloc_into al mx (store rk_xp1_update), alloc_into al mx (store rk_xp2_update),
            alloc_into al mx (store rk_xq_update), alloc_into al mx (store rk_xq1_update), alloc_into al mx (store rk_xq2_update)],
         fill_when b36
           [hex_into (gi_xp i) rk_xp (store_len rk_xp_update rk_xp_len_update) mx, hex_into (gi_xp1 i) rk_xp1 (store_len rk_xp1_update rk_xp1_len_update) mx,
            hex_into (gi_xp2 i) rk_xp2 (store_len rk_xp2_update rk_xp2_len_update) mx, hex_into (gi_xq i) rk_xq (store_len rk_xq_update rk_xq_len_update) mx,
            hex_into (gi_xq1 i) rk_xq1 (store_len rk_xq1_update rk_xq1_len_update) mx, hex_into (gi_xq2 i) rk_xq2 (store_len rk_xq2_update rk_xq2_len_update) mx],
         hex_into (Some (gi_e i)) rk_e (store_len rk_e_update rk_e_len_update) mx,
         alloc_into al AMVP_RSA_SEEDLEN_MAX (store rk_seed_update),
         fill_when (gp_info p \<noteq> 0)
           [set_field (\<lambda>stc. case gi_bitlens i of (b1, b2, b3, b4) \<Rightarrow>
              stc\<lparr>rk_bitlen1 := b1, rk_bitlen2 := b2, rk_bitlen3 := b3, rk_bitlen4 := b4\<rparr>),
            fill_when (gl_seed l \<noteq> None) [hex_into (gl_seed l) rk_seed (store_len rk_seed_update rk_seed_len_update) (gl_seed_len l)]]]
        \<lparr>rk_tc_id = tc_id, rk_hash_alg = gl_hash_alg l, rk_test_type = gp_test_type p, rk_prime_test = gl_prime_test l, rk_prime_result = None,
          rk_rand_pq = gp_rand_pq p, rk_pub_exp_mode = gp_pub_exp_mode p, rk_key_format = gp_key_format p, rk_info_gen_by_server = gp_info p,
          rk_test_disposition = 0, rk_modulo = gp_mod p, rk_e = None, rk_xp1 = None, rk_xp2 = None, rk_xp = None, rk_xq1 = None, rk_xq2 = None,
          rk_xq = None, rk_n = None, rk_d = None, rk_p = None, rk_q = None, rk_seed = None, rk_seed_len = 0, rk_bitlen1 = 0, rk_bitlen2 = 0,
          rk_bitlen3 = 0, rk_bitlen4 = 0, rk_e_len = 0, rk_n_len = 0, rk_d_len = 0, rk_p_len = 0, rk_q_len = 0, rk_xq_len = 0, rk_xq1_len = 0,
          rk_xq2_len = 0, rk_xp_len = 0, rk_xp1_len = 0, rk_xp2_len = 0\<rparr>)"

definition rsa_read_test_type :: "string option \<Rightarrow> int" where
  "rsa_read_test_type = read_literal 1 [(AMVP_RSA_TESTTYPE_KAT, ''KAT''), (AMVP_RSA_TESTTYPE_AFT, ''AFT''), (AMVP_RSA_TESTTYPE_GDT, ''GDT'')]"

definition read_pub_exp_mode :: "string option \<Rightarrow> int" where
  "read_pub_exp_mode = read_literal 1 [(AMVP_RSA_PUB_EXP_MODE_FIXED, ''fixed''), (AMVP_RSA_PUB_EXP_MODE_RANDOM, ''random'')]"

definition read_key_format :: "string option \<Rightarrow> int" where
  "read_key_format = read_literal 1 [(AMVP_RSA_KEY_FORMAT_STANDARD, ''standard''), (AMVP_RSA_KEY_FORMAT_CRT, ''crt'')]"

definition read_prime_test_type :: "string option \<Rightarrow> int" where
  "read_prime_test_type = read_literal 1 [(AMVP_RSA_PRIME_TEST_TBLC2, ''tblC2''), (AMVP_RSA_PRIME_TEST_TBLC3, ''tblC3'')]"

definition bitlen_at :: "JSON_Array option \<Rightarrow> nat \<Rightarrow> (int, 's) step" where
  "bitlen_at bitlens i = as_int (json_value_get_number (json_array_get_value bitlens i))"

text \<open>The lengths of the auxiliary primes and the seed, which the server sends when it generates them.\<close>

definition keygen_server_info :: "rsa_keygen_params \<Rightarrow> JSON_Object option \<Rightarrow> (int \<times> int \<times> int \<times> int, rsa_keygen_locals \<times> 'w) step" where
  "keygen_server_info p testobj =
     (if gp_info p = 0 then pass (0, 0, 0, 0)
      else
        let bitlens = json_object_get_array testobj ''bitlens'' in
        reject (json_array_get_count bitlens \<noteq> 4) AMVP_INVALID_ARG
          (andthen (bitlen_at bitlens 0) (\<lambda>b1. andthen (bitlen_at bitlens 1) (\<lambda>b2. andthen (bitlen_at bitlens 2) (\<lambda>b3. andthen (bitlen_at bitlens 3) (\<lambda>b4.
           andthen (if gp_rand_pq p = AMVP_RSA_KEYGEN_B32 \<or> gp_rand_pq p = AMVP_RSA_KEYGEN_B34 \<or> gp_rand_pq p = AMVP_RSA_KEYGEN_B35
                    then text_field testobj ''seed'' (\<lambda>t.
                         let len = strnlen_s (Some t) (AMVP_RSA_SEEDLEN_MAX + 1) in
                         andthen get_local (\<lambda>l. andthen (put_local (l\<lparr>gl_seed := Some t, gl_seed_len := len\<rparr>)) (\<lambda>_.
                           reject (len > AMVP_RSA_SEEDLEN_MAX) AMVP_INVALID_ARG (pass ()))))
                    else pass ()) (\<lambda>_. pass (b1, b2, b3, b4))))))))"

text \<open>The lengths of an earlier test are still there in a test without them, but they are not used then.\<close>

definition opt_text :: "bool \<Rightarrow> JSON_Object option \<Rightarrow> string \<Rightarrow> (string option, 's) step" where
  "opt_text b obj name = (if b then text_field obj name (\<lambda>t. pass (Some t)) else pass None)"

definition rsa_keygen_test ::
  "'w allocator \<Rightarrow> (nat \<Rightarrow> AMVP_RSA_KEYGEN_TC \<Rightarrow> 'w \<Rightarrow> AMVP_RESULT \<times> AMVP_RSA_KEYGEN_TC \<times> 'w) \<Rightarrow> callback \<Rightarrow> rsa_keygen_params \<Rightarrow>
   JSON_Object option \<Rightarrow> (JSON_Value, rsa_keygen_locals \<times> 'w) step" where
  "rsa_keygen_test al crypto cb p testobj =
     with_tcId testobj False (\<lambda>tc_id.
     andthen (if gp_pub_exp_mode p = AMVP_RSA_PUB_EXP_MODE_RANDOM then bounded_text testobj ''e'' AMVP_RSA_EXP_LEN_MAX (\<lambda>t. pass t)
              else pass (the (gp_fixed_e p))) (\<lambda>e.
     andthen (keygen_server_info p testobj) (\<lambda>bitlens.
     let b36 = (gp_rand_pq p = AMVP_RSA_KEYGEN_B36) in
     andthen (opt_text b36 testobj ''xP'') (\<lambda>xp. andthen (opt_text b36 testobj ''xP1'') (\<lambda>xp1. andthen (opt_text b36 testobj ''xP2'') (\<lambda>xp2.
     andthen (opt_text b36 testobj ''xQ'') (\<lambda>xq. andthen (opt_text b36 testobj ''xQ1'') (\<lambda>xq1. andthen (opt_text b36 testobj ''xQ2'') (\<lambda>xq2.
     andthen get_local (\<lambda>l.
       run_lenient
         (on_snd (amvp_rsa_keygen_init_tc al tc_id p l
            \<lparr>gi_e = e, gi_xp = xp, gi_xp1 = xp1, gi_xp2 = xp2, gi_xq = xq, gi_xq1 = xq1, gi_xq2 = xq2, gi_bitlens = bitlens\<rparr>))
         (\<lambda>stc. on_snd (call_crypto crypto cb stc))
         (\<lambda>stc r. andthen (on_snd (amvp_rsa_output_tc al stc r)) (\<lambda>r1. pass (JSONObject r1))) (int tc_id)))))))))))"

text \<open>A type of test that is not known is taken as 0.\<close>

definition rsa_keygen_group ::
  "'w allocator \<Rightarrow> (nat \<Rightarrow> AMVP_RSA_KEYGEN_TC \<Rightarrow> 'w \<Rightarrow> AMVP_RESULT \<times> AMVP_RSA_KEYGEN_TC \<times> 'w) \<Rightarrow> AMVP_CIPHER \<Rightarrow> AMVP_CAPS_LIST \<Rightarrow>
   JSON_Object option \<Rightarrow> (JSON_Value, rsa_keygen_locals \<times> 'w) step" where
  "rsa_keygen_group al crypto alg_id cap groupobj =
     with_tgId groupobj (\<lambda>tgId.
       case json_object_get_string groupobj ''testType'' of
         None \<Rightarrow> stop AMVP_TC_INVALID_DATA
       | Some test_type_str \<Rightarrow>
           flag groupobj ''infoGeneratedByServer'' (\<lambda>info.
           word_field groupobj ''pubExp'' AMVP_INVALID_ARG read_pub_exp_mode (\<lambda>pub_exp_mode.
           andthen (opt_text (pub_exp_mode = AMVP_RSA_PUB_EXP_MODE_FIXED) groupobj ''fixedPubExp'') (\<lambda>fixed_e.
           word_field groupobj ''keyFormat'' AMVP_INVALID_ARG read_key_format (\<lambda>key_format.
           word_field groupobj ''randPQ'' AMVP_INVALID_ARG amvp_lookup_rsa_randpq_index (\<lambda>rand_pq.
           andthen (if rand_pq = AMVP_RSA_KEYGEN_B33 \<or> rand_pq = AMVP_RSA_KEYGEN_B35 \<or> rand_pq = AMVP_RSA_KEYGEN_B36
                    then word_field groupobj ''primeTest'' AMVP_INVALID_ARG read_prime_test_type (\<lambda>t.
                         andthen get_local (\<lambda>l. put_local (l\<lparr>gl_prime_test := t\<rparr>)))
                    else pass ()) (\<lambda>_.
           group_len groupobj ''modulo'' (\<lambda>md.
           reject (md \<noteq> 2048 \<and> md \<noteq> 3072 \<and> md \<noteq> 4096) AMVP_INVALID_ARG
             (andthen (if rand_pq = AMVP_RSA_KEYGEN_B32 \<or> rand_pq = AMVP_RSA_KEYGEN_B34 \<or> rand_pq = AMVP_RSA_KEYGEN_B35
                       then word_field groupobj ''hashAlg'' AMVP_INVALID_ARG amvp_lookup_hash_alg (\<lambda>h.
                            andthen get_local (\<lambda>l. put_local (l\<lparr>gl_hash_alg := h\<rparr>)))
                       else pass ()) (\<lambda>_.
                answer_group tgId groupobj (rsa_keygen_test al crypto (cap_crypto_handler cap)
                  \<lparr>gp_test_type = rsa_read_test_type (Some test_type_str), gp_info = info, gp_pub_exp_mode = pub_exp_mode, gp_fixed_e = fixed_e,
                    gp_key_format = key_format, gp_rand_pq = rand_pq, gp_mod = md\<rparr>)))))))))))"

definition rsa_echo_rules :: "AMVP_CIPHER \<Rightarrow> AMVP_RESULT \<Rightarrow> kat_rules" where
  "rsa_echo_rules cipher no_mode = (plain_rules cipher)\<lparr>kr_no_mode := no_mode, kr_extra := echo_mode\<rparr>"

definition no_keygen_locals :: rsa_keygen_locals where
  "no_keygen_locals = \<lparr>gl_hash_alg = 0, gl_prime_test = 0, gl_seed = None, gl_seed_len = 0\<rparr>"

definition rsa_keygen_kat_handler ::
  "'w allocator \<Rightarrow> (nat \<Rightarrow> AMVP_RSA_KEYGEN_TC \<Rightarrow> 'w \<Rightarrow> AMVP_RESULT \<times> AMVP_RSA_KEYGEN_TC \<times> 'w) \<Rightarrow>
   JSON_Object option \<Rightarrow> 'w SESSION option \<Rightarrow> 'w SESSION option outcome" where
  "rsa_keygen_kat_handler al crypto =
     moded_frame (rsa_echo_rules AMVP_RSA_KEYGEN AMVP_MALFORMED_JSON) (\<lambda>w. (no_keygen_locals, w)) snd (rsa_keygen_group al crypto)"

section \<open>The signature primitive\<close>

record AMVP_RSA_PRIM_TC =
  rp_msg :: "bytes option"
  rp_msg_len :: int
  rp_signature :: "bytes option"
  rp_sig_len :: int
  rp_modulo :: nat
  rp_key_format :: int
  rp_n :: "bytes option"
  rp_e :: "bytes option"
  rp_d :: "bytes option"
  rp_p :: "bytes option"
  rp_q :: "bytes option"
  rp_dmp1 :: "bytes option"
  rp_dmq1 :: "bytes option"
  rp_iqmp :: "bytes option"
  rp_n_len :: int
  rp_e_len :: int
  rp_d_len :: int
  rp_p_len :: int
  rp_q_len :: int
  rp_dmp1_len :: int
  rp_dmq1_len :: int
  rp_iqmp_len :: int
  rp_disposition :: int

definition amvp_rsa_sigprim_output_tc :: "'w allocator \<Rightarrow> AMVP_RSA_PRIM_TC \<Rightarrow> JSON_Object \<Rightarrow> (JSON_Object, 'w) step" where
  "amvp_rsa_sigprim_output_tc al stc tc_rsp =
     andthen (new_chars al (AMVP_RSA_EXP_LEN_MAX + 1)) (\<lambda>_.
       if rp_disposition stc \<noteq> 0
       then andthen (hex_member AMVP_RSA_EXP_LEN_MAX ''signature'' (rp_signature stc) (rp_sig_len stc) tc_rsp) (\<lambda>r.
              pass (json_object_set_boolean ''testPassed'' (rp_disposition stc) r))
       else pass (json_object_set_boolean ''testPassed'' (rp_disposition stc) tc_rsp))"

text \<open>The variables of the handler: a group in one key format leaves those of the other as they were.\<close>

record sigprim_locals =
  pl_keyformat :: int
  pl_d :: "string option"
  pl_p :: "string option"
  pl_q :: "string option"
  pl_dmp1 :: "string option"
  pl_dmq1 :: "string option"
  pl_iqmp :: "string option"

text \<open>A buffer that is allocated and filled only when there is a text for it.\<close>

definition given_into ::
  "'w allocator \<Rightarrow> nat \<Rightarrow> string option \<Rightarrow> ('tc \<Rightarrow> bytes option) \<Rightarrow> ((bytes option \<Rightarrow> bytes option) \<Rightarrow> 'tc \<Rightarrow> 'tc) \<Rightarrow>
   ((int \<Rightarrow> int) \<Rightarrow> 'tc \<Rightarrow> 'tc) \<Rightarrow> ('tc, 'w) filling" where
  "given_into al n t buf upd upd_len = fill_when (t \<noteq> None) [alloc_into al n (store upd), hex_into t buf (store_len upd upd_len) n]"

definition amvp_rsa_sigprim_init_tc ::
  "'w allocator \<Rightarrow> nat \<Rightarrow> sigprim_locals \<Rightarrow> string \<Rightarrow> string \<Rightarrow> string \<Rightarrow> (AMVP_RESULT \<times> AMVP_RSA_PRIM_TC, 'w) step" where
  "amvp_rsa_sigprim_init_tc al md l e n msg =
     (let mx = AMVP_RSA_EXP_BYTE_MAX in
      fill_all
        [given_into al mx (Some e) rp_e rp_e_update rp_e_len_update, given_into al mx (pl_d l) rp_d rp_d_update rp_d_len_update,
         given_into al mx (Some n) rp_n rp_n_update rp_n_len_update, given_into al mx (pl_p l) rp_p rp_p_update rp_p_len_update,
         given_into al mx (pl_q l) rp_q rp_q_update rp_q_len_update, given_into al mx (pl_dmp1 l) rp_dmp1 rp_dmp1_update rp_dmp1_len_update,
         given_into al mx (pl_dmq1 l) rp_dmq1 rp_dmq1_update rp_dmq1_len_update, given_into al mx (pl_iqmp l) rp_iqmp rp_iqmp_update rp_iqmp_len_update,
         given_into al mx (Some msg) rp_msg rp_msg_update rp_msg_len_update,
         set_field (\<lambda>stc. stc\<lparr>rp_modulo := md, rp_key_format := pl_keyformat l\<rparr>),
         alloc_into al mx (store rp_signature_update)]
        \<lparr>rp_msg = None, rp_msg_len = 0, rp_signature = None, rp_sig_len = 0, rp_modulo = 0, rp_key_format = 0, rp_n = None, rp_e = None, rp_d = None,
          rp_p = None, rp_q = None, rp_dmp1 = None, rp_dmq1 = None, rp_iqmp = None, rp_n_len = 0, rp_e_len = 0, rp_d_len = 0, rp_p_len = 0,
          rp_q_len = 0, rp_dmp1_len = 0, rp_dmq1_len = 0, rp_iqmp_len = 0, rp_disposition = 0\<rparr>)"

text \<open>The private key of a test. The length of the exponent is measured, but a long one is only logged.\<close>

definition too_long :: "string \<Rightarrow> bool" where
  "too_long t \<longleftrightarrow> strnlen_s (Some t) (AMVP_RSA_EXP_LEN_MAX + 1) > AMVP_RSA_EXP_LEN_MAX"

definition sigprim_key :: "JSON_Object option \<Rightarrow> (sigprim_locals, sigprim_locals \<times> 'w) step" where
  "sigprim_key testobj =
     andthen get_local (\<lambda>l.
       if pl_keyformat l = AMVP_RSA_PRIM_KEYFORMAT_CRT
       then text_field testobj ''p'' (\<lambda>p. text_field testobj ''q'' (\<lambda>q. text_field testobj ''dmp1'' (\<lambda>dmp1. text_field testobj ''dmq1'' (\<lambda>dmq1.
            text_field testobj ''iqmp'' (\<lambda>iqmp.
              reject (list_ex too_long [p, q, dmp1, dmq1, iqmp]) AMVP_INVALID_ARG
                (let l' = l\<lparr>pl_p := Some p, pl_q := Some q, pl_dmp1 := Some dmp1, pl_dmq1 := Some dmq1, pl_iqmp := Some iqmp\<rparr>
                 in andthen (put_local l') (\<lambda>_. pass l')))))))
       else text_field testobj ''d'' (\<lambda>d. let l' = l\<lparr>pl_d := Some d\<rparr> in andthen (put_local l') (\<lambda>_. pass l')))"

definition sigprim_test ::
  "'w allocator \<Rightarrow> (nat \<Rightarrow> AMVP_RSA_PRIM_TC \<Rightarrow> 'w \<Rightarrow> AMVP_RESULT \<times> AMVP_RSA_PRIM_TC \<times> 'w) \<Rightarrow> callback \<Rightarrow> nat \<Rightarrow>
   JSON_Object option \<Rightarrow> (JSON_Value, sigprim_locals \<times> 'w) step" where
  "sigprim_test al crypto cb md testobj =
     with_tcId_or AMVP_MALFORMED_JSON testobj (\<lambda>tc_id.
     two_texts testobj ''e'' ''n'' AMVP_RSA_EXP_LEN_MAX (\<lambda>e n.
     andthen (sigprim_key testobj) (\<lambda>l.
     bounded_text testobj ''message'' AMVP_RSA_MSGLEN_MAX (\<lambda>msg.
       run_lenient (on_snd (amvp_rsa_sigprim_init_tc al md l e n msg)) (\<lambda>stc. on_snd (call_crypto crypto cb stc))
         (\<lambda>stc r. andthen (on_snd (amvp_rsa_sigprim_output_tc al stc r)) (\<lambda>r1. pass (JSONObject r1))) (int tc_id)))))"

text \<open>A key format that is not known leaves the one before.\<close>

definition read_keyformat :: "int \<Rightarrow> string \<Rightarrow> int" where
  "read_keyformat old t =
     (let k1 = (if strcmp ''standard'' t = 0 then AMVP_RSA_PRIM_KEYFORMAT_STANDARD else old)
      in if strcmp ''crt'' t = 0 then AMVP_RSA_PRIM_KEYFORMAT_CRT else k1)"

definition sigprim_group ::
  "'w allocator \<Rightarrow> (nat \<Rightarrow> AMVP_RSA_PRIM_TC \<Rightarrow> 'w \<Rightarrow> AMVP_RESULT \<times> AMVP_RSA_PRIM_TC \<times> 'w) \<Rightarrow> AMVP_CIPHER \<Rightarrow> AMVP_CAPS_LIST \<Rightarrow>
   JSON_Object option \<Rightarrow> (JSON_Value, sigprim_locals \<times> 'w) step" where
  "sigprim_group al crypto alg_id cap groupobj =
     with_tgId groupobj (\<lambda>tgId.
     uint_field groupobj ''modulo'' (\<lambda>md.
     reject (md \<noteq> 2048) AMVP_INVALID_ARG
       (text_field groupobj ''keyFormat'' (\<lambda>t.
        andthen get_local (\<lambda>l. andthen (put_local (l\<lparr>pl_keyformat := read_keyformat (pl_keyformat l) t\<rparr>)) (\<lambda>_.
          answer_group tgId groupobj (sigprim_test al crypto (cap_crypto_handler cap) md)))))))"

definition no_sigprim_locals :: sigprim_locals where
  "no_sigprim_locals = \<lparr>pl_keyformat = 0, pl_d = None, pl_p = None, pl_q = None, pl_dmp1 = None, pl_dmq1 = None, pl_iqmp = None\<rparr>"

definition rsa_sigprim_kat_handler ::
  "'w allocator \<Rightarrow> (nat \<Rightarrow> AMVP_RSA_PRIM_TC \<Rightarrow> 'w \<Rightarrow> AMVP_RESULT \<times> AMVP_RSA_PRIM_TC \<times> 'w) \<Rightarrow>
   JSON_Object option \<Rightarrow> 'w SESSION option \<Rightarrow> 'w SESSION option outcome" where
  "rsa_sigprim_kat_handler al crypto =
     moded_frame (rsa_echo_rules AMVP_RSA_SIGPRIM AMVP_MISSING_ARG) (\<lambda>w. (no_sigprim_locals, w)) snd (sigprim_group al crypto)"

section \<open>Answers\<close>

lemma labelled_value [intro]: "labelled n r \<Longrightarrow> json_name name \<Longrightarrow> name \<noteq> ''tcId'' \<Longrightarrow> labelled n (json_object_set_value name (Some v) r)"
  by (rule labelled_set)

lemma keeps_label_value [label_intros]:
  "json_name name \<Longrightarrow> name \<noteq> ''tcId'' \<Longrightarrow> keeps_label (\<lambda>r. pass (json_object_set_value name (Some v) r))"
  by (auto intro!: keeps_labelI yields_pass)

lemma rsa_key_names: "json_name ''primeResult''" "json_name ''bitlens''" "json_name ''seed''" "json_name ''signature''"
  by (simp_all add: json_name_def c_string_simps)

lemma keeps_label_if_pass [label_intros]:
  "json_name name \<Longrightarrow> name \<noteq> ''tcId'' \<Longrightarrow> keeps_label (\<lambda>r. pass (if b then json_object_set_string name t r else r))"
  by (cases b) (auto intro!: keeps_labelI yields_pass)

lemma rsa_outputs_label [label_intros]:
  "keeps_label (amvp_rsa_output_tc al kg)" "keeps_label (amvp_rsa_sigprim_output_tc al sp)"
  unfolding amvp_rsa_output_tc_def [abs_def] amvp_rsa_sigprim_output_tc_def [abs_def] Let_def
  by (intro label_intros yields_intros; simp add: json_name_def c_string_simps)+

lemma honest_given_into [yields_intros]: "honest (given_into al n t buf upd upd_len stc)"
  by (auto simp: given_into_def intro!: yields_intros)

lemma rsa_inits_honest [yields_intros]:
  "honest (amvp_rsa_keygen_init_tc al tc_id p l i)" "honest (amvp_rsa_sigprim_init_tc al md l2 e n msg)"
  unfolding amvp_rsa_keygen_init_tc_def amvp_rsa_sigprim_init_tc_def Let_def by (intro yields_intros; auto intro!: yields_intros)+

lemma honest_rsa_reading [yields_intros]:
  "honest (opt_text b obj name)" "honest (bitlen_at arr k)" "honest (keygen_server_info p obj)" "honest (sigprim_key obj)"
  by (auto simp: opt_text_def bitlen_at_def keygen_server_info_def sigprim_key_def Let_def intro!: yields_intros)

lemma yields_flag [yields_intros]: "(\<And>b. yields P (k b)) \<Longrightarrow> yields P (flag obj name k)"
  by (auto simp: flag_def Let_def intro!: yields_intros)

lemma yields_lenient_test:
  assumes "honest init" and "\<And>stc. honest (crypto stc)" and "\<And>stc. keeps_label (output stc)" and "test_number testobj = n"
  shows "yields (names_test testobj) (run_lenient init crypto (\<lambda>stc r. andthen (output stc r) (\<lambda>r1. pass (JSONObject r1))) n)"
  by (rule yields_run_lenient [OF assms(1,2)])
    (rule yields_bind [OF keeps_labelD [OF assms(3)]], assumption, auto simp: labelled_number assms(4) intro!: yields_pass)

lemma rsa_tests_answer:
  "answers_test (rsa_keygen_test al keygen cb p)" "answers_test (sigprim_test al sigprim cb md)"
  unfolding rsa_keygen_test_def [abs_def] sigprim_test_def [abs_def] Let_def
  by (intro answers_testI yields_with_tcId yields_with_tcId_or yields_intros yields_lenient_test label_intros; simp)+

lemma rsa_groups_answer:
  "answers_group (rsa_keygen_group al keygen alg_id cap)" "answers_group (sigprim_group al sigprim alg_id cap)"
  unfolding rsa_keygen_group_def [abs_def] sigprim_group_def [abs_def]
  by (intro answers_groupI yields_intros yields_answer_group rsa_tests_answer; simp)+

interpretation rsa_keygen_kat: answering_handler "rsa_echo_rules AMVP_RSA_KEYGEN AMVP_MALFORMED_JSON" "\<lambda>w. (no_keygen_locals, w)" snd
    "rsa_keygen_group al crypto" for al crypto
  by unfold_locales (auto simp: rsa_echo_rules_def plain_rules_def rsa_groups_answer json_names_echo)

interpretation sigprim_kat: answering_handler "rsa_echo_rules AMVP_RSA_SIGPRIM AMVP_MISSING_ARG" "\<lambda>w. (no_sigprim_locals, w)" snd
    "sigprim_group al crypto" for al crypto
  by unfold_locales (auto simp: rsa_echo_rules_def plain_rules_def rsa_groups_answer json_names_echo)

end
