(* ===== verification/Kat_Ifc.thy ===== *)
theory Kat_Ifc
  imports Kat_Kas Kat_Rsa_Keys
begin

text \<open>
  Key transport and key agreement with integer factorization, \<^verbatim>\<open>src/amvp_kts_ifc.c\<close> and
  \<^verbatim>\<open>src/amvp_kas_ifc.c\<close>. Both keep the texts of a test in variables that live as long as the
  handler.
\<close>

section \<open>Texts that are kept\<close>

text \<open>Steps one after the other, and steps that are taken under a condition.\<close>

primrec in_turn :: "(unit, 's) step list \<Rightarrow> (unit, 's) step" where
  "in_turn [] = pass ()"
| "in_turn (p # ps) = andthen p (\<lambda>_. in_turn ps)"

definition in_case :: "bool \<Rightarrow> (unit, 's) step list \<Rightarrow> (unit, 's) step" where
  "in_case b ps = in_turn (if b then ps else [])"

text \<open>A text is measured up to \<open>n\<close> characters and may have at most \<open>mx\<close>; some are not measured.\<close>

definition within :: "nat \<Rightarrow> nat \<Rightarrow> string \<Rightarrow> bool" where
  "within n mx t \<longleftrightarrow> strnlen_s (Some t) (n + 1) \<le> mx"

definition keep_text ::
  "(string \<Rightarrow> bool) \<Rightarrow> JSON_Object option \<Rightarrow> string \<Rightarrow> ((string option \<Rightarrow> string option) \<Rightarrow> 'v \<Rightarrow> 'v) \<Rightarrow> (unit, 'v \<times> 'w) step" where
  "keep_text good obj name upd =
     text_field obj name (\<lambda>t. reject (\<not> good t) AMVP_INVALID_ARG (andthen get_local (\<lambda>l. put_local (upd (\<lambda>_. Some t) l))))"

text \<open>The words for key generation methods and roles, which the two handlers share; an unknown role keeps the one before.\<close>

definition read_key_gen :: "string option \<Rightarrow> int" where
  "read_key_gen =
     read_literal 1
       [(AMVP_KAS_IFC_RSAKPG1_BASIC, ''rsakpg1-basic''), (AMVP_KAS_IFC_RSAKPG1_CRT, ''rsakpg1-crt''),
        (AMVP_KAS_IFC_RSAKPG1_PRIME_FACTOR, ''rsakpg1-prime-factor''), (AMVP_KAS_IFC_RSAKPG2_BASIC, ''rsakpg2-basic''),
        (AMVP_KAS_IFC_RSAKPG2_CRT, ''rsakpg2-crt''), (AMVP_KAS_IFC_RSAKPG2_PRIME_FACTOR, ''rsakpg2-prime-factor'')]"

definition read_role :: "int \<Rightarrow> string \<Rightarrow> int" where
  "read_role old t =
     (let r1 = (if strcmp ''initiator'' t = 0 then AMVP_KAS_IFC_INITIATOR else old)
      in if strcmp ''responder'' t = 0 then AMVP_KAS_IFC_RESPONDER else r1)"

section \<open>Key transport\<close>

record AMVP_KTS_IFC_TC =
  kt_cipher :: AMVP_CIPHER
  kt_test_type :: int
  kt_key_gen :: int
  kt_md :: int
  kt_role :: int
  kt_scheme :: int
  kt_p :: "bytes option"
  kt_q :: "bytes option"
  kt_d :: "bytes option"
  kt_n :: "bytes option"
  kt_e :: "bytes option"
  kt_dmp1 :: "bytes option"
  kt_dmq1 :: "bytes option"
  kt_iqmp :: "bytes option"
  kt_ct :: "bytes option"
  kt_pt :: "bytes option"
  kt_llen :: int
  kt_plen :: int
  kt_qlen :: int
  kt_nlen :: int
  kt_dlen :: int
  kt_elen :: int
  kt_dmp1_len :: int
  kt_dmq1_len :: int
  kt_iqmp_len :: int
  kt_ct_len :: int
  kt_pt_len :: int
  kt_modulo :: int

definition amvp_kts_ifc_output_tc :: "'w allocator \<Rightarrow> AMVP_KTS_IFC_TC \<Rightarrow> JSON_Object \<Rightarrow> (JSON_Object, 'w) step" where
  "amvp_kts_ifc_output_tc al stc tc_rsp =
     andthen (new_chars al (AMVP_KTS_IFC_STR_MAX + 1)) (\<lambda>_.
       hex_members AMVP_KTS_IFC_STR_MAX
         ((if kt_role stc = AMVP_KTS_IFC_INITIATOR then [(''iutC'', kt_ct stc, kt_ct_len stc)] else []) @
          [(''dkm'', kt_pt stc, kt_pt_len stc)]) tc_rsp)"

text \<open>The variables of the handler: the role and the texts of the last test.\<close>

record kts_locals =
  kl_role :: int
  kl_ct :: "string option"
  kl_p :: "string option"
  kl_q :: "string option"
  kl_d :: "string option"
  kl_n :: "string option"
  kl_e :: "string option"
  kl_dmp1 :: "string option"
  kl_dmq1 :: "string option"
  kl_iqmp :: "string option"

definition no_kts_locals :: kts_locals where
  "no_kts_locals = \<lparr>kl_role = 0, kl_ct = None, kl_p = None, kl_q = None, kl_d = None, kl_n = None, kl_e = None, kl_dmp1 = None, kl_dmq1 = None,
     kl_iqmp = None\<rparr>"

definition kts_crt :: "int \<Rightarrow> bool" where
  "kts_crt key_gen \<longleftrightarrow> key_gen = AMVP_KTS_IFC_RSAKPG1_CRT \<or> key_gen = AMVP_KTS_IFC_RSAKPG2_CRT"

definition amvp_kts_ifc_init_tc ::
  "'w allocator \<Rightarrow> int \<Rightarrow> int \<Rightarrow> kts_locals \<Rightarrow> int \<Rightarrow> int \<Rightarrow> int \<Rightarrow> (AMVP_KTS_IFC_TC, 'w) step" where
  "amvp_kts_ifc_init_tc al key_gen hash_alg l bits llen test_type =
     (let mx = AMVP_KTS_IFC_BYTE_MAX in
      strictly (fill_all
        [alloc_into al mx (store kt_ct_update), alloc_into al mx (store kt_pt_update),
         fill_when (kl_role l = AMVP_KTS_IFC_RESPONDER)
           [hex_into (kl_ct l) kt_ct (store_len kt_ct_update kt_ct_len_update) mx,
            alloc_into al mx (store kt_p_update), hex_into (kl_p l) kt_p (store_len kt_p_update kt_plen_update) mx,
            alloc_into al mx (store kt_q_update), hex_into (kl_q l) kt_q (store_len kt_q_update kt_qlen_update) mx,
            given_into al mx (kl_d l) kt_d kt_d_update kt_dlen_update,
            fill_when (kts_crt key_gen)
              [alloc_into al mx (store kt_dmp1_update), hex_into (kl_dmp1 l) kt_dmp1 (store_len kt_dmp1_update kt_dmp1_len_update) mx,
               alloc_into al mx (store kt_dmq1_update), hex_into (kl_dmq1 l) kt_dmq1 (store_len kt_dmq1_update kt_dmq1_len_update) mx,
               alloc_into al mx (store kt_iqmp_update), hex_into (kl_iqmp l) kt_iqmp (store_len kt_iqmp_update kt_iqmp_len_update) mx]],
         alloc_into al mx (store kt_n_update), hex_into (kl_n l) kt_n (store_len kt_n_update kt_nlen_update) mx,
         alloc_into al AMVP_RSA_EXP_LEN_MAX (store kt_e_update), hex_into (kl_e l) kt_e (store_len kt_e_update kt_elen_update) AMVP_RSA_EXP_LEN_MAX]
        \<lparr>kt_cipher = 0, kt_test_type = test_type, kt_key_gen = key_gen, kt_md = hash_alg, kt_role = kl_role l, kt_scheme = 0, kt_p = None,
          kt_q = None, kt_d = None, kt_n = None, kt_e = None, kt_dmp1 = None, kt_dmq1 = None, kt_iqmp = None, kt_ct = None, kt_pt = None,
          kt_llen = quot8 llen, kt_plen = 0, kt_qlen = 0, kt_nlen = 0, kt_dlen = 0, kt_elen = 0, kt_dmp1_len = 0, kt_dmq1_len = 0,
          kt_iqmp_len = 0, kt_ct_len = 0, kt_pt_len = 0, kt_modulo = bits\<rparr>))"

definition kts_read_test_type :: "string option \<Rightarrow> int" where
  "kts_read_test_type = read_literal 1 [(AMVP_KTS_IFC_TT_AFT, ''AFT''), (AMVP_KTS_IFC_TT_VAL, ''VAL'')]"

type_synonym 'w kts_module = "nat \<Rightarrow> AMVP_KTS_IFC_TC \<Rightarrow> 'w \<Rightarrow> AMVP_RESULT \<times> AMVP_KTS_IFC_TC \<times> 'w"

definition kts_texts :: "int \<Rightarrow> int \<Rightarrow> JSON_Object option \<Rightarrow> (unit, kts_locals \<times> 'w) step" where
  "kts_texts role key_gen testobj =
     (let keep = keep_text (within AMVP_KTS_IFC_STR_MAX AMVP_KTS_IFC_STR_MAX) testobj;
          keep_exp = keep_text (within AMVP_KTS_IFC_STR_MAX AMVP_RSA_EXP_LEN_MAX) testobj
      in in_turn
        [in_case (role = AMVP_KTS_IFC_RESPONDER)
           [keep ''serverC'' kl_ct_update, keep ''iutP'' kl_p_update, keep ''iutQ'' kl_q_update, keep ''iutN'' kl_n_update,
            keep_exp ''iutE'' kl_e_update,
            in_case (kts_crt key_gen)
              [keep_exp ''iutDmp1'' kl_dmp1_update, keep_exp ''iutDmq1'' kl_dmq1_update, keep_exp ''iutIqmp'' kl_iqmp_update],
            in_case (\<not> kts_crt key_gen) [keep ''iutD'' kl_d_update]],
         in_case (role \<noteq> AMVP_KTS_IFC_RESPONDER) [keep ''serverN'' kl_n_update, keep ''serverE'' kl_e_update]])"

definition kts_test ::
  "'w allocator \<Rightarrow> 'w kts_module \<Rightarrow> callback \<Rightarrow> int \<Rightarrow> int \<Rightarrow> int \<Rightarrow> int \<Rightarrow> int \<Rightarrow> JSON_Object option \<Rightarrow> (JSON_Value, kts_locals \<times> 'w) step" where
  "kts_test al crypto cb key_gen hash_alg bits llen test_type testobj =
     int_field testobj ''tcId'' (\<lambda>tc_id.
     andthen get_local (\<lambda>l0.
     andthen (kts_texts (kl_role l0) key_gen testobj) (\<lambda>_.
     andthen get_local (\<lambda>l.
       on_snd (run_case (amvp_kts_ifc_init_tc al key_gen hash_alg l bits llen test_type) (call_crypto crypto cb) (amvp_kts_ifc_output_tc al) tc_id)))))"

text \<open>Most words of a group must be present and are not used.\<close>

definition present :: "JSON_Object option \<Rightarrow> string list \<Rightarrow> ('a, 's) step \<Rightarrow> ('a, 's) step" where
  "present obj names k = reject (list_ex (\<lambda>name. json_object_get_string obj name = None) names) AMVP_MISSING_ARG k"

definition amvp_kts_ifc ::
  "'w allocator \<Rightarrow> 'w kts_module \<Rightarrow> AMVP_CAPS_LIST \<Rightarrow> JSON_Object option \<Rightarrow> (JSON_Value, kts_locals \<times> 'w) step" where
  "amvp_kts_ifc al crypto cap groupobj =
     with_tgId groupobj (\<lambda>tgId.
     word_field groupobj ''testType'' AMVP_INVALID_ARG kts_read_test_type (\<lambda>test_type.
     reject (test_type \<noteq> AMVP_KTS_IFC_TT_AFT) AMVP_INVALID_ARG
       (word_field groupobj ''keyGenerationMethod'' AMVP_INVALID_ARG read_key_gen (\<lambda>key_gen.
        present groupobj [''scheme'']
          (text_field groupobj ''kasRole'' (\<lambda>kts_role.
           andthen get_local (\<lambda>l.
           andthen (put_local (l\<lparr>kl_role := read_role (kl_role l) kts_role\<rparr>)) (\<lambda>_.
             present groupobj [''iutId'', ''serverId'']
               (uint_field groupobj ''modulo'' (\<lambda>bits. reject (bits = 0) AMVP_MISSING_ARG
                  (int_field groupobj ''l'' (\<lambda>llen. reject (llen = 0) AMVP_MISSING_ARG
                     (present groupobj [''keyConfirmationDirection'', ''keyConfirmationRole'']
                        (let ktsobj = json_value_get_object (json_object_get_value groupobj ''ktsConfiguration'')
                         in word_field ktsobj ''hashAlg'' AMVP_INVALID_ARG amvp_lookup_hash_alg (\<lambda>hash_alg.
                              present ktsobj [''associatedDataPattern'', ''encoding'']
                                (answer_group tgId groupobj
                                   (kts_test al crypto (cap_crypto_handler cap) key_gen hash_alg (wrap32 (int bits)) llen test_type)))))))))))))))))"

definition kts_ifc_kat_handler ::
  "'w allocator \<Rightarrow> 'w kts_module \<Rightarrow> JSON_Object option \<Rightarrow> 'w SESSION option \<Rightarrow> 'w SESSION option outcome" where
  "kts_ifc_kat_handler al crypto =
     late_frame (\<lambda>_ r. r) (\<lambda>_ _ ctx. located ctx AMVP_KTS_IFC 0) (\<lambda>_. no_kts_locals) (\<lambda>_. amvp_kts_ifc al crypto)"

section \<open>Key agreement\<close>

record AMVP_KAS_IFC_TC =
  ki_cipher :: AMVP_CIPHER
  ki_test_type :: int
  ki_key_gen :: int
  ki_md :: int
  ki_scheme :: int
  ki_role :: int
  ki_server_n :: "bytes option"
  ki_server_e :: "bytes option"
  ki_p :: "bytes option"
  ki_q :: "bytes option"
  ki_d :: "bytes option"
  ki_n :: "bytes option"
  ki_e :: "bytes option"
  ki_dmp1 :: "bytes option"
  ki_dmq1 :: "bytes option"
  ki_iqmp :: "bytes option"
  ki_iut_pt_z :: "bytes option"
  ki_iut_ct_z :: "bytes option"
  ki_provided_pt_z :: "bytes option"
  ki_provided_ct_z :: "bytes option"
  ki_server_pt_z :: "bytes option"
  ki_server_ct_z :: "bytes option"
  ki_provided_kas2_z :: "bytes option"
  ki_server_nlen :: int
  ki_server_elen :: int
  ki_plen :: int
  ki_qlen :: int
  ki_nlen :: int
  ki_dlen :: int
  ki_elen :: int
  ki_dmp1_len :: int
  ki_dmq1_len :: int
  ki_iqmp_len :: int
  ki_iut_pt_z_len :: int
  ki_iut_ct_z_len :: int
  ki_provided_pt_z_len :: int
  ki_provided_ct_z_len :: int
  ki_server_pt_z_len :: int
  ki_server_ct_z_len :: int
  ki_provided_kas2_z_len :: int
  ki_modulus :: nat

text \<open>
  Two secrets one after the other in a new buffer. The lengths come from the crypto module; a
  pointer past the buffer is undefined behaviour, and a buffer that cannot be had is reported
  to the caller.
\<close>

definition obtains_memory :: "'w allocator \<Rightarrow> (bool, 'w) step" where
  "obtains_memory al w = (case al w of (ok, w1) \<Rightarrow> Done ok w1)"

definition merged :: "'w allocator \<Rightarrow> bytes option \<Rightarrow> int \<Rightarrow> bytes option \<Rightarrow> int \<Rightarrow> (bytes option, 'w) step" where
  "merged al x xlen y ylen =
     (let z_len = wrap32 (xlen + ylen) in
      if z_len < 0 then pass None
      else andthen (obtains_memory al) (\<lambda>ok.
        if \<not> ok then pass None
        else if xlen < 0 \<or> xlen > z_len then undef Out_Of_Bounds
        else andthen (copy_bytes (Some (replicate (nat xlen) 0)) (nat z_len) x (nat xlen)) (\<lambda>a.
             andthen (copy_bytes (Some (replicate (nat ylen) 0)) (nat ylen) y (nat ylen)) (\<lambda>b. pass (Some (the a @ the b))))))"

definition merged_secret :: "'w allocator \<Rightarrow> AMVP_KAS_IFC_TC \<Rightarrow> (bytes option, 'w) step" where
  "merged_secret al stc =
     (if ki_role stc = AMVP_KAS_IFC_INITIATOR
      then merged al (ki_iut_pt_z stc) (ki_iut_pt_z_len stc) (ki_server_pt_z stc) (ki_server_pt_z_len stc)
      else merged al (ki_server_pt_z stc) (ki_server_pt_z_len stc) (ki_iut_pt_z stc) (ki_iut_pt_z_len stc))"

definition ifc_members :: "AMVP_KAS_IFC_TC \<Rightarrow> (string \<times> bytes option \<times> int) list" where
  "ifc_members stc =
     (let plain = ki_md stc = AMVP_NO_SHA;
          ct = (''iutC'', ki_iut_ct_z stc, ki_iut_ct_z_len stc);
          own = (if plain then ''iutZ'' else ''iutHashZ'', ki_iut_pt_z stc, ki_iut_pt_z_len stc);
          z = (if plain then ''z'' else ''hashZ'')
      in if ki_role stc = AMVP_KAS_IFC_INITIATOR then [ct, own, (z, ki_iut_pt_z stc, ki_iut_pt_z_len stc)]
         else if ki_scheme stc = AMVP_KAS_IFC_KAS2 then [ct, own]
         else [(z, ki_server_pt_z stc, ki_server_pt_z_len stc)])"

text \<open>When the buffer for the merged secret cannot be had, the code of the last conversion is returned, which is success.\<close>

definition amvp_kas_ifc_ssc_output_tc :: "'w allocator \<Rightarrow> AMVP_KAS_IFC_TC \<Rightarrow> JSON_Object \<Rightarrow> (JSON_Object, 'w) step" where
  "amvp_kas_ifc_ssc_output_tc al stc tc_rsp =
     andthen (new_chars al (AMVP_KAS_IFC_STR_MAX + 1)) (\<lambda>_.
     andthen (hex_members AMVP_KAS_IFC_STR_MAX (ifc_members stc) tc_rsp) (\<lambda>r.
       if ki_scheme stc \<noteq> AMVP_KAS_IFC_KAS2 then pass r
       else andthen (merged_secret al stc) (\<lambda>m.
              if m = None then pass r
              else hex_member AMVP_KAS_IFC_STR_MAX ''z'' m (wrap32 (ki_iut_pt_z_len stc + ki_server_pt_z_len stc)) r)))"

text \<open>
  The comparison of two buffers over the same length leaves \<open>diff\<close> as it was when there is
  nothing to compare. C fixes no more than the sign of what \<^verbatim>\<open>memcmp\<close> returns, so the
  value is an argument, \<open>cmp\<close>.
\<close>

type_synonym memcmp = "bytes \<Rightarrow> bytes \<Rightarrow> int"

definition compared :: "memcmp \<Rightarrow> bytes option \<Rightarrow> bytes option \<Rightarrow> int \<Rightarrow> int \<Rightarrow> (int, 's) step" where
  "compared cmp x y n diff =
     (case (y, x) of
        (Some b, Some a) \<Rightarrow>
          if n = 0 then pass diff
          else if n < 0 \<or> nat n > length a \<or> nat n > length b then undef Out_Of_Bounds
          else pass (cmp (take (nat n) a) (take (nat n) b))
      | _ \<Rightarrow> pass diff)"

text \<open>The differences are added up in 32 bits: the sum, with the value of \<open>diff\<close> after the comparison.\<close>

definition add_difference :: "memcmp \<Rightarrow> bytes option \<Rightarrow> int \<Rightarrow> bytes option \<Rightarrow> int \<Rightarrow> int \<times> int \<Rightarrow> (int \<times> int, 's) step" where
  "add_difference cmp x xlen y ylen st =
     (if xlen = ylen then andthen (compared cmp x y xlen (snd st)) (\<lambda>d. pass (wrap32 (fst st + d), d)) else pass (wrap32 (fst st + 1), snd st))"

definition amvp_kas_ifc_ssc_val_output_tc :: "'w allocator \<Rightarrow> memcmp \<Rightarrow> AMVP_KAS_IFC_TC \<Rightarrow> JSON_Object \<Rightarrow> (JSON_Object, 'w) step" where
  "amvp_kas_ifc_ssc_val_output_tc al cmp stc tc_rsp =
     andthen (if ki_role stc = AMVP_KAS_IFC_INITIATOR
              then add_difference cmp (ki_iut_ct_z stc) (ki_iut_ct_z_len stc) (ki_provided_ct_z stc) (ki_provided_ct_z_len stc) (0, 1)
              else if ki_scheme stc \<noteq> AMVP_KAS_IFC_KAS2
              then add_difference cmp (ki_server_pt_z stc) (ki_server_pt_z_len stc) (ki_provided_pt_z stc) (ki_provided_pt_z_len stc) (0, 1)
              else pass (0, 1)) (\<lambda>st.
     andthen (if ki_scheme stc \<noteq> AMVP_KAS_IFC_KAS2 then pass st
              else let len = wrap32 (ki_iut_pt_z_len stc + ki_server_pt_z_len stc)
                   in if len \<noteq> ki_provided_kas2_z_len stc then pass (wrap32 (fst st + 1), snd st)
                      else andthen (merged_secret al stc) (\<lambda>m.
                             reject (m = None) AMVP_MALLOC_FAIL (add_difference cmp m len (ki_provided_kas2_z stc) len st))) (\<lambda>st1.
       pass (json_object_set_boolean ''testPassed'' (if fst st1 = 0 then 1 else 0) tc_rsp)))"

record ifc_locals =
  il_role :: int
  il_scheme :: int
  il_p :: "string option"
  il_q :: "string option"
  il_d :: "string option"
  il_n :: "string option"
  il_e :: "string option"
  il_dmp1 :: "string option"
  il_dmq1 :: "string option"
  il_iqmp :: "string option"
  il_server_n :: "string option"
  il_server_e :: "string option"
  il_server_ct_z :: "string option"
  il_pt_z :: "string option"
  il_ct_z :: "string option"
  il_kas2_z :: "string option"

definition no_ifc_locals :: ifc_locals where
  "no_ifc_locals = \<lparr>il_role = 0, il_scheme = AMVP_KAS_IFC_KAS1, il_p = None, il_q = None, il_d = None, il_n = None, il_e = None, il_dmp1 = None,
     il_dmq1 = None, il_iqmp = None, il_server_n = None, il_server_e = None, il_server_ct_z = None, il_pt_z = None, il_ct_z = None, il_kas2_z = None\<rparr>"

definition cleared_ifc_tc :: AMVP_KAS_IFC_TC where
  "cleared_ifc_tc =
     \<lparr>ki_cipher = 0, ki_test_type = 0, ki_key_gen = 0, ki_md = 0, ki_scheme = 0, ki_role = 0, ki_server_n = None, ki_server_e = None, ki_p = None,
       ki_q = None, ki_d = None, ki_n = None, ki_e = None, ki_dmp1 = None, ki_dmq1 = None, ki_iqmp = None, ki_iut_pt_z = None, ki_iut_ct_z = None,
       ki_provided_pt_z = None, ki_provided_ct_z = None, ki_server_pt_z = None, ki_server_ct_z = None, ki_provided_kas2_z = None,
       ki_server_nlen = 0, ki_server_elen = 0, ki_plen = 0, ki_qlen = 0, ki_nlen = 0, ki_dlen = 0, ki_elen = 0, ki_dmp1_len = 0, ki_dmq1_len = 0,
       ki_iqmp_len = 0, ki_iut_pt_z_len = 0, ki_iut_ct_z_len = 0, ki_provided_pt_z_len = 0, ki_provided_ct_z_len = 0, ki_server_pt_z_len = 0,
       ki_server_ct_z_len = 0, ki_provided_kas2_z_len = 0, ki_modulus = 0\<rparr>"

definition amvp_kas_ifc_ssc_init_tc ::
  "'w allocator \<Rightarrow> int \<Rightarrow> int \<Rightarrow> ifc_locals \<Rightarrow> nat \<Rightarrow> int \<Rightarrow> (AMVP_KAS_IFC_TC, 'w) step" where
  "amvp_kas_ifc_ssc_init_tc al key_gen hash_alg l bits test_type =
     (let mx = AMVP_KAS_IFC_BYTE_MAX in
      strictly (fill_all
        [given_into al mx (il_p l) ki_p ki_p_update ki_plen_update, given_into al mx (il_q l) ki_q ki_q_update ki_qlen_update,
         given_into al mx (il_d l) ki_d ki_d_update ki_dlen_update, given_into al mx (il_n l) ki_n ki_n_update ki_nlen_update,
         given_into al AMVP_RSA_EXP_LEN_MAX (il_e l) ki_e ki_e_update ki_elen_update,
         given_into al mx (il_dmp1 l) ki_dmp1 ki_dmp1_update ki_dmp1_len_update, given_into al mx (il_dmq1 l) ki_dmq1 ki_dmq1_update ki_dmq1_len_update,
         given_into al mx (il_iqmp l) ki_iqmp ki_iqmp_update ki_iqmp_len_update,
         given_into al mx (il_server_ct_z l) ki_server_ct_z ki_server_ct_z_update ki_server_ct_z_len_update,
         given_into al mx (il_kas2_z l) ki_provided_kas2_z ki_provided_kas2_z_update ki_provided_kas2_z_len_update,
         given_into al mx (il_server_n l) ki_server_n ki_server_n_update ki_server_nlen_update,
         fill_when (il_server_e l \<noteq> None)
           [alloc_into al mx (store ki_server_e_update),
            hex_into (il_server_e l) ki_server_e (store_len ki_server_e_update ki_server_elen_update) AMVP_RSA_EXP_LEN_MAX],
         alloc_into al mx (store ki_iut_ct_z_update),
         fill_when (il_ct_z l \<noteq> None) [hex_into (il_ct_z l) ki_iut_ct_z (store_len ki_iut_ct_z_update ki_iut_ct_z_len_update) mx],
         alloc_into al mx (store ki_iut_pt_z_update),
         fill_when (il_pt_z l \<noteq> None) [hex_into (il_pt_z l) ki_iut_pt_z (store_len ki_iut_pt_z_update ki_iut_pt_z_len_update) mx],
         alloc_into al (mx + 1) (store ki_server_pt_z_update),
         fill_when (test_type = AMVP_KAS_IFC_TT_VAL \<and> il_role l = AMVP_KAS_IFC_INITIATOR)
           [alloc_into al mx (store ki_provided_ct_z_update),
            hex_into (il_ct_z l) ki_provided_ct_z (store_len ki_provided_ct_z_update ki_provided_ct_z_len_update) mx],
         fill_when (test_type = AMVP_KAS_IFC_TT_VAL \<and> il_role l \<noteq> AMVP_KAS_IFC_INITIATOR)
           [alloc_into al mx (store ki_provided_pt_z_update),
            hex_into (il_pt_z l) ki_provided_pt_z (store_len ki_provided_pt_z_update ki_provided_pt_z_len_update) mx]]
        (cleared_ifc_tc\<lparr>ki_test_type := test_type, ki_md := hash_alg, ki_scheme := il_scheme l, ki_role := il_role l, ki_key_gen := key_gen,
           ki_modulus := bits\<rparr>)))"

definition ifc_read_test_type :: "string option \<Rightarrow> int" where
  "ifc_read_test_type = read_literal 1 [(AMVP_KAS_IFC_TT_AFT, ''AFT''), (AMVP_KAS_IFC_TT_VAL, ''VAL'')]"

definition ifc_crt :: "int \<Rightarrow> bool" where
  "ifc_crt key_gen \<longleftrightarrow> key_gen = AMVP_KAS_IFC_RSAKPG1_CRT \<or> key_gen = AMVP_KAS_IFC_RSAKPG2_CRT"

text \<open>
  The texts of a test. The private exponent is measured before it is read, so the one that is
  measured is that of an earlier test.
\<close>

definition measure_d :: "(unit, ifc_locals \<times> 'w) step" where
  "measure_d = andthen get_local (\<lambda>l. reject (strnlen_s (il_d l) (AMVP_KAS_IFC_STR_MAX + 1) > AMVP_KAS_IFC_STR_MAX) AMVP_INVALID_ARG (pass ()))"

definition ifc_texts :: "bool \<Rightarrow> int \<Rightarrow> int \<Rightarrow> int \<Rightarrow> int \<Rightarrow> JSON_Object option \<Rightarrow> (unit, ifc_locals \<times> 'w) step" where
  "ifc_texts hashed role scheme key_gen test_type testobj =
     (let keep = keep_text (within AMVP_KAS_IFC_STR_MAX AMVP_KAS_IFC_STR_MAX) testobj;
          keep_exp = keep_text (within AMVP_KAS_IFC_STR_MAX AMVP_RSA_EXP_LEN_MAX) testobj;
          keep_any = keep_text (\<lambda>_. True) testobj;
          kas2 = (scheme = AMVP_KAS_IFC_KAS2);
          verify = (test_type = AMVP_KAS_IFC_TT_VAL)
      in in_turn
        [in_case (role = AMVP_KAS_IFC_RESPONDER \<or> kas2)
           [keep ''iutP'' il_p_update, keep ''iutQ'' il_q_update, measure_d, keep ''iutN'' il_n_update, keep_exp ''iutE'' il_e_update,
            in_case (ifc_crt key_gen) [keep ''iutDmp1'' il_dmp1_update, keep ''iutDmq1'' il_dmq1_update, keep ''iutIqmp'' il_iqmp_update],
            in_case (\<not> ifc_crt key_gen) [keep_any ''iutD'' il_d_update]],
         in_case (role = AMVP_KAS_IFC_INITIATOR \<or> kas2) [keep ''serverN'' il_server_n_update, keep ''serverE'' il_server_e_update],
         in_case (role = AMVP_KAS_IFC_RESPONDER \<or> kas2) [keep ''serverC'' il_server_ct_z_update],
         in_case kas2 [keep ''serverN'' il_server_n_update, keep_exp ''serverE'' il_server_e_update],
         in_case verify
           [keep_any (if scheme = AMVP_KAS_IFC_KAS1 \<and> role \<noteq> AMVP_KAS_IFC_INITIATOR then ''z'' else ''iutZ'') il_pt_z_update,
            in_case (role = AMVP_KAS_IFC_INITIATOR \<or> kas2) [keep ''iutC'' il_ct_z_update]],
         in_case (kas2 \<and> verify) [keep_any (if hashed then ''hashZ'' else ''z'') il_kas2_z_update]])"

type_synonym 'w ifc_module = "nat \<Rightarrow> AMVP_KAS_IFC_TC \<Rightarrow> 'w \<Rightarrow> AMVP_RESULT \<times> AMVP_KAS_IFC_TC \<times> 'w"

definition ifc_output :: "'w allocator \<Rightarrow> memcmp \<Rightarrow> AMVP_KAS_IFC_TC \<Rightarrow> JSON_Object \<Rightarrow> (JSON_Object, 'w) step" where
  "ifc_output al cmp stc =
     (if ki_test_type stc = AMVP_KAS_IFC_TT_VAL then amvp_kas_ifc_ssc_val_output_tc al cmp stc else amvp_kas_ifc_ssc_output_tc al stc)"

definition ifc_test ::
  "'w allocator \<Rightarrow> memcmp \<Rightarrow> 'w ifc_module \<Rightarrow> callback \<Rightarrow> bool \<Rightarrow> int \<Rightarrow> int \<Rightarrow> nat \<Rightarrow> int \<Rightarrow> JSON_Object option \<Rightarrow> (JSON_Value, ifc_locals \<times> 'w) step" where
  "ifc_test al cmp crypto cb hashed key_gen hash_alg bits test_type testobj =
     int_field testobj ''tcId'' (\<lambda>tc_id.
     andthen get_local (\<lambda>l0.
     andthen (ifc_texts hashed (il_role l0) (il_scheme l0) key_gen test_type testobj) (\<lambda>_.
     andthen get_local (\<lambda>l.
       on_snd (run_case (amvp_kas_ifc_ssc_init_tc al key_gen hash_alg l bits test_type) (call_crypto crypto cb) (ifc_output al cmp) tc_id)))))"

definition read_scheme :: "int \<Rightarrow> string \<Rightarrow> int" where
  "read_scheme old t =
     (let s1 = (if strcmp ''KAS1'' t = 0 then AMVP_KAS_IFC_KAS1 else old) in if strcmp ''KAS2'' t = 0 then AMVP_KAS_IFC_KAS2 else s1)"

definition amvp_kas_ifc_ssc ::
  "'w allocator \<Rightarrow> memcmp \<Rightarrow> 'w ifc_module \<Rightarrow> (AMVP_CAPS_LIST \<Rightarrow> int option) \<Rightarrow> AMVP_CAPS_LIST \<Rightarrow> JSON_Object option \<Rightarrow>
   (JSON_Value, ifc_locals \<times> 'w) step" where
  "amvp_kas_ifc_ssc al cmp crypto cap_hash cap groupobj =
     with_tgId groupobj (\<lambda>tgId.
     word_field groupobj ''testType'' AMVP_INVALID_ARG ifc_read_test_type (\<lambda>test_type.
     word_field groupobj ''keyGenerationMethod'' AMVP_INVALID_ARG read_key_gen (\<lambda>key_gen.
     text_field groupobj ''scheme'' (\<lambda>scheme_str.
     andthen get_local (\<lambda>l.
     andthen (put_local (l\<lparr>il_scheme := read_scheme (il_scheme l) scheme_str\<rparr>)) (\<lambda>_.
     ssc_hash (cap_hash cap) groupobj (\<lambda>hash_alg.
     text_field groupobj ''kasRole'' (\<lambda>kas_role.
     andthen get_local (\<lambda>l1.
     andthen (put_local (l1\<lparr>il_role := read_role (il_role l1) kas_role\<rparr>)) (\<lambda>_.
     present groupobj [''fixedPubExp'']
       (uint_field groupobj ''modulo'' (\<lambda>bits. reject (bits = 0) AMVP_MISSING_ARG
          (answer_group tgId groupobj
             (ifc_test al cmp crypto (cap_crypto_handler cap) (cap_hash cap \<noteq> None \<and> cap_hash cap \<noteq> Some AMVP_NO_SHA) key_gen hash_alg bits
                test_type))))))))))))))"

definition kas_ifc_ssc_kat_handler ::
  "'w allocator \<Rightarrow> memcmp \<Rightarrow> 'w ifc_module \<Rightarrow> (AMVP_CAPS_LIST \<Rightarrow> int option) \<Rightarrow>
   JSON_Object option \<Rightarrow> 'w SESSION option \<Rightarrow> 'w SESSION option outcome" where
  "kas_ifc_ssc_kat_handler al cmp crypto cap_hash =
     late_frame (\<lambda>_ r. r) (\<lambda>_ _ ctx. located ctx AMVP_KAS_IFC_SSC 0) (\<lambda>_. no_ifc_locals) (\<lambda>_. amvp_kas_ifc_ssc al cmp crypto cap_hash)"

section \<open>Answers\<close>

lemma honest_in_turn [yields_intros]: "list_all honest ps \<Longrightarrow> honest (in_turn ps)" "list_all honest ps \<Longrightarrow> honest (in_case b ps)"
proof -
  have *: "list_all honest qs \<Longrightarrow> honest (in_turn qs)" for qs :: "(unit, 'a) step list"
    by (induction qs) (auto intro!: yields_intros)
  show "list_all honest ps \<Longrightarrow> honest (in_turn ps)" "list_all honest ps \<Longrightarrow> honest (in_case b ps)"
    using * [of ps] * [of "[]"] by (auto simp: in_case_def)
qed

lemma honest_texts [yields_intros]:
  "honest (keep_text good obj name upd)" "honest measure_d" "honest (kts_texts role key_gen obj)" "honest (ifc_texts hashed role scheme key_gen test_type obj)"
proof -
  have keep: "honest (keep_text good obj name upd :: (unit, 'v \<times> 'w) step)" for good obj name and upd :: "_ \<Rightarrow> 'v \<Rightarrow> 'v"
    by (auto simp: keep_text_def intro!: yields_intros)
  have d: "honest (measure_d :: (unit, ifc_locals \<times> 'w) step)" by (auto simp: measure_d_def intro!: yields_intros)
  show "honest (keep_text good obj name upd)" "honest measure_d" "honest (kts_texts role key_gen obj)"
    "honest (ifc_texts hashed role scheme key_gen test_type obj)"
    by (auto simp: keep d kts_texts_def ifc_texts_def Let_def intro!: yields_intros)
qed

lemma yields_present [yields_intros]: "yields P k \<Longrightarrow> yields P (present obj names k)"
  by (auto simp: present_def intro!: yields_intros)

lemma honest_merged [yields_intros]: "honest (obtains_memory al)" "honest (merged al x xlen y ylen)" "honest (merged_secret al stc)"
proof -
  have *: "honest (obtains_memory al)" for al :: "'w allocator" by (simp add: obtains_memory_def yields_def split: prod.splits)
  then have **: "honest (merged al x xlen y ylen)" for al :: "'w allocator" and x xlen y ylen
    unfolding merged_def Let_def by (auto intro!: yields_intros)
  show "honest (obtains_memory al)" "honest (merged al x xlen y ylen)" "honest (merged_secret al stc)" by (auto simp: merged_secret_def * **)
qed

lemma honest_difference [yields_intros]: "honest (add_difference cmp x xlen y ylen st)"
  by (auto simp: add_difference_def compared_def intro!: yields_intros split: option.splits)

lemma ifc_names: "list_all (\<lambda>p. json_name (fst p) \<and> fst p \<noteq> ''tcId'') (ifc_members stc)" "json_name ''z''" "json_name ''testPassed''"
  by (auto simp: ifc_members_def Let_def json_name_def c_string_simps)

lemma ifc_outputs_label [label_intros]: "keeps_label (amvp_kts_ifc_output_tc al kts)" "keeps_label (amvp_kas_ifc_ssc_output_tc al stc)"
  "keeps_label (amvp_kas_ifc_ssc_val_output_tc al cmp stc)"
proof -
  show "keeps_label (amvp_kts_ifc_output_tc al kts)"
    unfolding amvp_kts_ifc_output_tc_def [abs_def] by (intro label_intros yields_intros) (simp add: json_name_def c_string_simps)
  show "keeps_label (amvp_kas_ifc_ssc_output_tc al stc)"
    unfolding amvp_kas_ifc_ssc_output_tc_def [abs_def] by (intro label_intros yields_intros; simp add: ifc_names)
  show "keeps_label (amvp_kas_ifc_ssc_val_output_tc al cmp stc)"
    unfolding amvp_kas_ifc_ssc_val_output_tc_def [abs_def] Let_def
    by (intro label_intros yields_intros) (simp_all add: ifc_names)
qed

lemma ifc_output_label [label_intros]: "keeps_label (ifc_output al cmp stc)"
  by (simp add: ifc_output_def label_intros)

lemma ifc_init_honest [yields_intros]: "honest (amvp_kts_ifc_init_tc al i1 i2 kl i3 i4 i5)" "honest (amvp_kas_ifc_ssc_init_tc al i1 i2 il n i3)"
  unfolding amvp_kts_ifc_init_tc_def amvp_kas_ifc_ssc_init_tc_def Let_def given_into_def
  by (intro yields_intros; simp add: yields_intros)+

lemma yields_kept_case:
  assumes "\<And>stc. keeps_label (output stc)" and "honest init" and "\<And>stc. honest (crypto stc)" and "test_number testobj = n"
  shows "yields (names_test testobj) (on_snd (run_case init crypto output n))"
  using yields_run_case [OF assms] by (force simp: yields_def on_snd_def split: kat.splits)

lemma ifc_tests:
  "answers_test (kts_test al kts cb key_gen hash_alg i1 i2 test_type)" "answers_test (ifc_test al cmp ifc cb hashed key_gen hash_alg n test_type)"
  unfolding kts_test_def [abs_def] ifc_test_def [abs_def] int_field_def [of _ "''tcId''"]
  by (intro answers_testI yields_as_int yields_andthen honest_local honest_texts yields_kept_case label_intros yields_intros; simp add: test_number_def)+

lemma ifc_groups: "answers_group (amvp_kts_ifc al kts cap)" "answers_group (amvp_kas_ifc_ssc al cmp ifc cap_hash cap)"
  unfolding amvp_kts_ifc_def [abs_def] amvp_kas_ifc_ssc_def [abs_def] Let_def
  by (intro answers_groupI yields_intros yields_answer_group ifc_tests; simp add: yields_intros)+

interpretation kts_ifc_kat: late_handler "\<lambda>_ r. r" "\<lambda>_ _ ctx. located ctx AMVP_KTS_IFC 0" "\<lambda>_. no_kts_locals" "\<lambda>_. amvp_kts_ifc al crypto" for al crypto
  by unfold_locales (auto simp: ifc_groups located_not_success)

interpretation kas_ifc_kat: late_handler "\<lambda>_ r. r" "\<lambda>_ _ ctx. located ctx AMVP_KAS_IFC_SSC 0" "\<lambda>_. no_ifc_locals"
    "\<lambda>_. amvp_kas_ifc_ssc al cmp crypto cap_hash" for al cmp crypto cap_hash
  by unfold_locales (auto simp: ifc_groups located_not_success)

section \<open>Verdicts\<close>

text \<open>
  C0: what decides a test of the two-party scheme that the initiator is to verify. The ciphertext and
  the merged secret are compared with the ones of the request, and the two differences are added
  up: the test is reported as passed when the sum is zero, which it is as well when the
  differences cancel each other. The value of a comparison is whatever the platform returns.
\<close>
theorem ifc_differences_cancel:
  assumes "ki_role stc = AMVP_KAS_IFC_INITIATOR" and "ki_scheme stc = AMVP_KAS_IFC_KAS2"
    and "ki_iut_ct_z stc = Some a" and "ki_provided_ct_z stc = Some b" and "ki_iut_ct_z_len stc = int n" and "ki_provided_ct_z_len stc = int n"
    and "0 < n" and "n \<le> length a" and "n \<le> length b"
    and "ki_iut_pt_z stc = Some x" and "ki_server_pt_z stc = Some y" and "ki_iut_pt_z_len stc = int k" and "ki_server_pt_z_len stc = int m"
    and "k \<le> length x" and "m \<le> length y"
    and "ki_provided_kas2_z stc = Some c" and "ki_provided_kas2_z_len stc = int (k + m)" and "0 < k + m" and "k + m \<le> length c" and "k + m < 2 ^ 31"
    and "fst (al w)"
  shows "amvp_kas_ifc_ssc_val_output_tc al cmp stc r w =
    Done (json_object_set_boolean ''testPassed''
      (if wrap32 (wrap32 (cmp (take n a) (take n b)) + cmp (take k x @ take m y) (take (k + m) c)) = 0 then 1 else 0) r) (snd (al w))"
proof -
  have len: "wrap32 (int k + int m) = int k + int m" using assms(20) wrap32_id [of "int k + int m"] by (simp add: is_int32_def)
  have "merged al (Some x) (int k) (Some y) (int m) w = Done (Some (take k x @ take m y)) (snd (al w))"
    using assms(21) copy_bytes_ok [of k "k + m" x "replicate k 0" "snd (al w)"] copy_bytes_ok [of m m y "replicate m 0" "snd (al w)"] assms(14,15)
    by (cases "al w") (simp add: merged_def obtains_memory_def len nat_add_distrib andthen_def Let_def)
  moreover have "nat (int k + int m) = k + m" and "int k + int m \<noteq> 0" and "\<not> int k + int m < 0" using assms(18) by linarith+
  ultimately show ?thesis
    using assms(1-19)
    by (auto simp: amvp_kas_ifc_ssc_val_output_tc_def merged_secret_def add_difference_def compared_def len andthen_def reject_def Let_def)
qed

text \<open>
  A test whose ciphertext and secret are both wrong, and a comparison that returns the difference
  of the first bytes that differ.
\<close>

fun byte_cmp :: memcmp where
  "byte_cmp (a # as) (b # bs) = (if a = b then byte_cmp as bs else uint a - uint b)"
| "byte_cmp _ _ = 0"

definition cancelling_test :: AMVP_KAS_IFC_TC where
  "cancelling_test = cleared_ifc_tc\<lparr>ki_role := AMVP_KAS_IFC_INITIATOR, ki_scheme := AMVP_KAS_IFC_KAS2,
     ki_iut_ct_z := Some [2], ki_iut_ct_z_len := 1, ki_provided_ct_z := Some [1], ki_provided_ct_z_len := 1,
     ki_iut_pt_z := Some [7], ki_iut_pt_z_len := 1, ki_server_pt_z := Some [1], ki_server_pt_z_len := 1,
     ki_provided_kas2_z := Some [7, 2], ki_provided_kas2_z_len := 2\<rparr>"

theorem ifc_differences_cancel_witness:
  "amvp_kas_ifc_ssc_val_output_tc always_memory byte_cmp cancelling_test [] () = Done [(''testPassed'', JSONBoolean True)] () \<and>
    ki_iut_ct_z cancelling_test \<noteq> ki_provided_ct_z cancelling_test"
proof -
  have "amvp_kas_ifc_ssc_val_output_tc always_memory byte_cmp cancelling_test [] () =
    Done (json_object_set_boolean ''testPassed'' (if wrap32 (wrap32 (byte_cmp (take 1 [2]) (take 1 [1])) + byte_cmp (take 1 [7] @ take 1 [1]) (take (1 + 1) [7, 2])) = 0 then 1 else 0) [])
      (snd (always_memory ()))"
    by (rule ifc_differences_cancel) (simp_all add: cancelling_test_def cleared_ifc_tc_def always_memory_def)
  then show ?thesis
    by (simp add: cancelling_test_def cleared_ifc_tc_def always_memory_def wrap32_def json_object_set_boolean_def json_build json_known json_name_def)
qed

end
