(* ===== verification/Kat_Order.thy ===== *)
theory Kat_Order
  imports Kat_Kdf_Props Kat_Ecdsa Kat_Rsa_Sig Kat_Ifc
begin

text \<open>
  One statement for all handlers that are instances of the contract of answering handlers: what a
  successful answer says about groups and tests.
\<close>

lemmas handlers_in_order =
  kdf_in_order ecdsa_kat.moded_in_order rsa_sig_kat.moded_in_order rsa_keygen_kat.moded_in_order sigprim_kat.moded_in_order
  kas_ecc_kat.late_in_order kas_ecc_ssc_kat.late_in_order kas_ffc_kat.late_in_order kas_ffc_ssc_kat.late_in_order
  kts_ifc_kat.late_in_order kas_ifc_kat.late_in_order

lemmas handler_defs =
  snmp_kat_handler_def srtp_kat_handler_def ssh_kat_handler_def x942_kat_handler_def x963_kat_handler_def ikev1_kat_handler_def
  ikev2_kat_handler_def kdf108_kat_handler_def pbkdf_kat_handler_def tls12_kat_handler_def tls13_kat_handler_def
  amvp_ecdsa_kat_handler_internal_def amvp_rsa_sig_kat_handler_internal_def rsa_keygen_kat_handler_def rsa_sigprim_kat_handler_def
  kas_ecc_kat_handler_def kas_ecc_ssc_kat_handler_def kas_ffc_kat_handler_def kas_ffc_ssc_kat_handler_def kts_ifc_kat_handler_def
  kas_ifc_ssc_kat_handler_def

text \<open>
  C8: a handler of key derivation, ECDSA, RSA, key agreement or key transport that returns success
  has answered the groups of the vector set and their tests one by one: the answer carries the
  numbers of all groups in the order of the request, and in each the numbers of all its tests in
  their order. This holds for every crypto module and allocator, and for whatever the request
  contains.
\<close>
theorem answers_in_order:
  assumes "Ret AMVP_SUCCESS (Some ctx') \<in>
    {snmp_kat_handler al snmp obj octx, srtp_kat_handler al srtp obj octx, ssh_kat_handler al ssh obj octx,
     x942_kat_handler al x942 obj octx, x963_kat_handler al x963 obj octx, ikev1_kat_handler al ikev1 obj octx,
     ikev2_kat_handler al ikev2 obj octx, kdf108_kat_handler al kdf108 obj octx, pbkdf_kat_handler al pbkdf obj octx,
     tls12_kat_handler al tls12 obj octx, tls13_kat_handler al tls13 obj octx,
     amvp_ecdsa_kat_handler_internal al ecdsa cipher obj octx, amvp_rsa_sig_kat_handler_internal al rsa cipher obj octx,
     rsa_keygen_kat_handler al keygen obj octx, rsa_sigprim_kat_handler al sigprim obj octx,
     kas_ecc_kat_handler al ecc obj octx, kas_ecc_ssc_kat_handler al ecc_ssc ecc_hash obj octx,
     kas_ffc_kat_handler al ffc obj octx, kas_ffc_ssc_kat_handler al ffc_ssc ffc_hashes obj octx,
     kts_ifc_kat_handler al kts obj octx, kas_ifc_ssc_kat_handler al cmp ifc ifc_hash obj octx}"
  shows "\<exists>r. kat_resp ctx' = Some (JSONArray [JSONObject r]) \<and> set_shape (Some r) = set_shape obj"
proof -
  have "answered_in_order obj ctx'"
    using assms unfolding handler_defs by (auto dest!: handlers_in_order [OF sym])
  then show ?thesis by (simp add: answered_in_order_def)
qed

theorem answers_in_order_witness:
  "\<exists>ctx r. x963_kat_handler always_memory zero_x963_module (Some (x963_request x963_example)) (Some x963_session) = Ret AMVP_SUCCESS (Some ctx) \<and>
    kat_resp ctx = Some (JSONArray [JSONObject r]) \<and> set_shape (Some r) = [(1, [7]), (2, [8])]"
proof -
  obtain ctx where run: "x963_kat_handler always_memory zero_x963_module (Some (x963_request x963_example)) (Some x963_session) = Ret AMVP_SUCCESS (Some ctx)"
    using x963_groups_eq [OF x963_example_ok(1) always_memory_ok x963_example_ok(3) x963_example_fits, of AMVP_KDF135_X963 "()"] x963_example_ok(2)
    by (auto simp: x963_kat_handler_def moded_frame_def with_cap_def plain_rules_def kat_answer_def x963_request_def amvp_setup_json_rsp_group_def
        x963_index json_read x963_known Let_def comp_def)
  then have "\<exists>r. kat_resp ctx = Some (JSONArray [JSONObject r]) \<and> set_shape (Some r) = set_shape (Some (x963_request x963_example))"
    by (intro answers_in_order [of ctx always_memory _ "Some (x963_request x963_example)" "Some x963_session" _ _ _ zero_x963_module]) simp
  moreover have "set_shape (Some (x963_request x963_example)) = [(1, [7]), (2, [8])]"
    by (simp add: set_shape_def group_shape_def test_number_def x963_request_def x963_example_def x963_group_request_def x963_test_request_def json_read x963_known)
  ultimately show ?thesis using run by auto
qed

end
