(* ===== verification/Kat_Safe_Primes.thy ===== *)
theory Kat_Safe_Primes
  imports Kat_Lenient
begin

text \<open>
  The handler of safe prime groups, \<^verbatim>\<open>src/amvp_safe_primes.c\<close>: generation and verification of keys.
\<close>

record AMVP_SAFE_PRIMES_TC =
  sf_tg_id :: int
  sf_tc_id :: int
  sf_x :: "bytes option"
  sf_y :: "bytes option"
  sf_xlen :: int
  sf_ylen :: int
  sf_result :: int
  sf_test_type :: int
  sf_cipher :: AMVP_CIPHER
  sf_dgm :: int

definition safe_primes_read_test_type :: "string option \<Rightarrow> int" where
  "safe_primes_read_test_type = read_literal 1 [(AMVP_SAFE_PRIMES_TT_AFT, ''AFT''), (AMVP_SAFE_PRIMES_TT_VAL, ''VAL'')]"

definition amvp_convert_dgm_string :: "string option \<Rightarrow> int" where
  "amvp_convert_dgm_string =
     read_literal 0
       [(AMVP_SAFE_PRIMES_MODP2048, ''MODP-2048''), (AMVP_SAFE_PRIMES_MODP3072, ''MODP-3072''), (AMVP_SAFE_PRIMES_MODP4096, ''MODP-4096''),
        (AMVP_SAFE_PRIMES_MODP6144, ''MODP-6144''), (AMVP_SAFE_PRIMES_MODP8192, ''MODP-8192''), (AMVP_SAFE_PRIMES_FFDHE2048, ''ffdhe2048''),
        (AMVP_SAFE_PRIMES_FFDHE3072, ''ffdhe3072''), (AMVP_SAFE_PRIMES_FFDHE4096, ''ffdhe4096''), (AMVP_SAFE_PRIMES_FFDHE6144, ''ffdhe6144''),
        (AMVP_SAFE_PRIMES_FFDHE8192, ''ffdhe8192'')]"

definition amvp_safe_primes_output_tc :: "'w allocator \<Rightarrow> AMVP_SAFE_PRIMES_TC \<Rightarrow> JSON_Object \<Rightarrow> (JSON_Object, 'w) step" where
  "amvp_safe_primes_output_tc al stc tc_rsp =
     (if sf_cipher stc = AMVP_SAFE_PRIMES_KEYVER
      then pass (json_object_set_boolean ''testPassed'' (if sf_result stc \<noteq> 0 then 1 else 0) tc_rsp)
      else andthen (new_chars al (AMVP_SAFE_PRIMES_STR_MAX + 1)) (\<lambda>_.
             hex_members AMVP_SAFE_PRIMES_STR_MAX [(''x'', sf_x stc, sf_xlen stc), (''y'', sf_y stc, sf_ylen stc)] tc_rsp))"

definition amvp_safe_primes_init_tc ::
  "'w allocator \<Rightarrow> int \<Rightarrow> int \<Rightarrow> AMVP_CIPHER \<Rightarrow> int \<Rightarrow> string option \<Rightarrow> string option \<Rightarrow> int \<Rightarrow> (AMVP_SAFE_PRIMES_TC, 'w) step" where
  "amvp_safe_primes_init_tc al tg_id tc_id alg_id dgm x y test_type =
     (let mx = AMVP_SAFE_PRIMES_BYTE_MAX in
      strictly (fill_all
        (if alg_id = AMVP_SAFE_PRIMES_KEYVER
         then [alloc_into al mx (store sf_y_update), hex_into y sf_y (store_len sf_y_update sf_ylen_update) mx,
               alloc_into al mx (store sf_x_update), hex_into x sf_x (store_len sf_x_update sf_xlen_update) mx]
         else [alloc_into al mx (store sf_x_update), alloc_into al mx (store sf_y_update)])
        \<lparr>sf_tg_id = tg_id, sf_tc_id = tc_id, sf_x = None, sf_y = None, sf_xlen = 0, sf_ylen = 0, sf_result = 0, sf_test_type = test_type,
          sf_cipher = alg_id, sf_dgm = dgm\<rparr>))"

text \<open>The type of the test is read from the group again for every test.\<close>

definition safe_primes_test ::
  "'w allocator \<Rightarrow> (nat \<Rightarrow> AMVP_SAFE_PRIMES_TC \<Rightarrow> 'w \<Rightarrow> AMVP_RESULT \<times> AMVP_SAFE_PRIMES_TC \<times> 'w) \<Rightarrow> callback \<Rightarrow> AMVP_CIPHER \<Rightarrow> bool \<Rightarrow>
   JSON_Object option \<Rightarrow> int \<Rightarrow> int \<Rightarrow> JSON_Object option \<Rightarrow> (JSON_Value, 'w) step" where
  "safe_primes_test al crypto cb alg_id verify groupobj tg_id dgm testobj =
     int_field testobj ''tcId'' (\<lambda>tc_id.
     reject (tc_id = 0) AMVP_MISSING_ARG
       (word_field groupobj ''testType'' AMVP_INVALID_ARG safe_primes_read_test_type (\<lambda>test_type.
        andthen (if verify then text_field testobj ''x'' (\<lambda>x. text_field testobj ''y'' (\<lambda>y. pass (Some x, Some y))) else pass (None, None)) (\<lambda>(x, y).
          run_case (amvp_safe_primes_init_tc al tg_id tc_id alg_id dgm x y test_type) (call_crypto crypto cb)
            (amvp_safe_primes_output_tc al) tc_id))))"

text \<open>The number of the group is stored under a name of its own. A cipher of another kind gets an answer without tests.\<close>

definition safe_primes_rsp :: "int \<Rightarrow> JSON_Array \<Rightarrow> JSON_Value" where
  "safe_primes_rsp tg_id tests =
     JSONObject (json_object_set_value ''tests'' (Some (JSONArray tests)) (json_object_set_number ''tg_id'' tg_id []))"

definition safe_primes_group ::
  "'w allocator \<Rightarrow> (nat \<Rightarrow> AMVP_SAFE_PRIMES_TC \<Rightarrow> 'w \<Rightarrow> AMVP_RESULT \<times> AMVP_SAFE_PRIMES_TC \<times> 'w) \<Rightarrow> AMVP_CIPHER \<Rightarrow> AMVP_CAPS_LIST \<Rightarrow>
   JSON_Object option \<Rightarrow> (JSON_Value, 'w) step" where
  "safe_primes_group al crypto alg_id cap groupobj =
     with_tgId_or AMVP_MISSING_ARG groupobj (\<lambda>tg_id.
     word_field groupobj ''safePrimeGroup'' AMVP_INVALID_ARG amvp_convert_dgm_string (\<lambda>dgm.
       let alg = amvp_get_kas_alg alg_id;
           run = (\<lambda>verify. each_test groupobj (safe_primes_test al crypto (cap_crypto_handler cap) alg_id verify groupobj tg_id dgm))
       in reject (alg = 0) AMVP_INVALID_ARG
            (andthen (if alg = AMVP_SUB_SAFE_PRIMES_KEYGEN then run False else if alg = AMVP_SUB_SAFE_PRIMES_KEYVER then run True else pass [])
               (\<lambda>tests. pass (safe_primes_rsp tg_id tests)))))"

definition safe_primes_rules :: kat_rules where
  "safe_primes_rules = (plain_rules 0)\<lparr>kr_accepts := (\<lambda>c. c \<noteq> 0), kr_extra := echo_mode\<rparr>"

definition safe_primes_kat_handler ::
  "'w allocator \<Rightarrow> (nat \<Rightarrow> AMVP_SAFE_PRIMES_TC \<Rightarrow> 'w \<Rightarrow> AMVP_RESULT \<times> AMVP_SAFE_PRIMES_TC \<times> 'w) \<Rightarrow>
   JSON_Object option \<Rightarrow> 'w SESSION option \<Rightarrow> 'w SESSION option outcome" where
  "safe_primes_kat_handler al crypto = moded_frame safe_primes_rules (\<lambda>w. w) (\<lambda>w. w) (safe_primes_group al crypto)"

section \<open>Answers\<close>

lemma safe_primes_output_label [label_intros]: "keeps_label (amvp_safe_primes_output_tc al stc)"
  unfolding amvp_safe_primes_output_tc_def [abs_def] by (intro label_intros yields_intros; simp add: json_name_def c_string_simps)

lemma safe_primes_init_honest [yields_intros]: "honest (amvp_safe_primes_init_tc al i1 i2 alg_id i3 t1 t2 i4)"
  unfolding amvp_safe_primes_init_tc_def Let_def by (intro yields_intros) (auto intro!: yields_intros)

lemma safe_primes_test_answers: "answers_test (safe_primes_test al crypto cb alg_id verify groupobj tg_id dgm)"
  unfolding safe_primes_test_def [abs_def] int_field_def [of _ "''tcId''"]
  by (intro answers_testI yields_as_int yields_intros yields_run_case label_intros) (auto simp: test_number_def)

lemma safe_primes_rsp_shape:
  "group_shape (json_value_get_object (Some (safe_primes_rsp tg_id tests))) = (0, map (\<lambda>v. test_number (json_value_get_object (Some v))) tests)"
  by (simp add: safe_primes_rsp_def group_shape_def json_read json_build json_known json_name_def)

lemma safe_primes_group_yields:
  "yields (\<lambda>v. fst (group_shape (json_value_get_object (Some v))) = 0 \<and> fst (group_shape groupobj) \<noteq> 0) (safe_primes_group al crypto alg_id cap groupobj)"
proof -
  let ?P = "\<lambda>v. fst (group_shape (json_value_get_object (Some v))) = 0 \<and> fst (group_shape groupobj) \<noteq> 0"
  have number: "yields ?P (with_tgId_or AMVP_MISSING_ARG groupobj k)"
    if "\<And>tg_id. fst (group_shape groupobj) \<noteq> 0 \<Longrightarrow> yields ?P (k tg_id)" for k
    unfolding with_tgId_or_def by (rule yields_as_int) (use that in \<open>auto simp: reject_def group_shape_def yields_basic\<close>)
  have "honest (safe_primes_test al crypto cb alg_id verify groupobj tg_id dgm testobj)" for cb verify tg_id dgm testobj
    using safe_primes_test_answers [of al crypto cb alg_id verify groupobj tg_id dgm]
    by (auto simp: answers_test_def yields_def split: kat.splits)
  then have "yields ?P (andthen (each_test groupobj (safe_primes_test al crypto cb alg_id verify groupobj tg_id dgm)) (\<lambda>tests. pass (safe_primes_rsp tg_id tests)))"
    if "fst (group_shape groupobj) \<noteq> 0" for cb verify tg_id dgm
    unfolding each_test_def using that by (intro yields_andthen honest_each yields_pass) (simp_all add: safe_primes_rsp_shape)
  then show ?thesis
    unfolding safe_primes_group_def Let_def
    by (intro number yields_fields(4)) (auto simp: reject_def safe_primes_rsp_shape yields_basic pass_eq)
qed

lemma list_all2_both: "list_all2 (\<lambda>x y. Q y \<and> P x) xs ys \<Longrightarrow> length ys = length xs \<and> (\<forall>x \<in> set xs. P x) \<and> (\<forall>y \<in> set ys. Q y)"
  by (induction rule: list_all2_induct) auto

text \<open>
  C29: an answer of the handler of safe prime groups carries no number of a group. Every group of the
  request has a number that is not zero, or the handler does not succeed; in the answer the
  number is stored as \<^verbatim>\<open>tg_id\<close>, so a reader of \<^verbatim>\<open>tgId\<close> finds none in any group.
\<close>
theorem safe_primes_numbers_lost:
  assumes "safe_primes_kat_handler al crypto obj octx = Ret AMVP_SUCCESS (Some ctx')"
  shows "\<exists>r. kat_resp ctx' = Some (JSONArray [JSONObject r]) \<and> map fst (set_shape (Some r)) = replicate (length (set_shape obj)) 0 \<and>
    0 \<notin> fst ` set (set_shape obj)"
proof -
  have rules: "AMVP_SUCCESS \<notin> {kr_no_obj safe_primes_rules, kr_no_alg safe_primes_rules, kr_no_mode safe_primes_rules}"
    "kr_no_groups safe_primes_rules \<noteq> Some AMVP_SUCCESS" "kr_extra safe_primes_rules = echo_mode"
    by (simp_all add: safe_primes_rules_def plain_rules_def)
  obtain alg_id cap alg_str mode_str ctx where run: "kat_answer (\<lambda>w. w) (\<lambda>w. w) (kr_extra safe_primes_rules mode_str) (kr_no_groups safe_primes_rules)
      (safe_primes_group al crypto alg_id cap) alg_str obj ctx = Ret AMVP_SUCCESS ctx'"
    using assms unfolding safe_primes_kat_handler_def by (rule moded_frame_done [OF _ rules(1)])
  have honest: "honest (safe_primes_group al crypto alg_id cap g)" for g
    using safe_primes_group_yields [of g al crypto alg_id cap] by (auto simp: yields_def split: kat.splits)
  obtain garr s r where done_groups: "each (safe_primes_group al crypto alg_id cap) (group_objects obj) (world ctx) = Done garr s"
    and resp: "kat_resp ctx' = Some (JSONArray [JSONObject r])" and shape: "set_shape (Some r) = map (\<lambda>v. group_shape (json_value_get_object (Some v))) garr"
    by (rule kat_answer_done [OF run honest rules(2)]) (simp_all add: rules(3) json_names_echo)
  let ?R = "\<lambda>g v. fst (group_shape (json_value_get_object (Some v))) = 0 \<and> fst (group_shape g) \<noteq> 0"
  have rel: "list_all2 ?R (group_objects obj) garr"
    by (rule yieldsD [OF yields_each_rel [where f = "safe_primes_group al crypto alg_id cap"] done_groups]) (rule safe_primes_group_yields)
  then have garr: "length garr = length (set_shape obj)" "\<forall>v \<in> set garr. fst (group_shape (json_value_get_object (Some v))) = 0"
    and obj: "\<forall>g \<in> set (group_objects obj). fst (group_shape g) \<noteq> 0"
    using list_all2_both [OF rel] by (auto simp: set_shape_def)
  have "map fst (set_shape (Some r)) = replicate (length (set_shape obj)) 0"
    using garr by (intro replicate_eqI) (auto simp: shape)
  moreover have shape_obj: "set_shape obj = map group_shape (group_objects obj)" by (simp add: set_shape_def)
  have "0 \<notin> fst ` set (map group_shape gs)" if "\<forall>g \<in> set gs. fst (group_shape g) \<noteq> 0" for gs using that by auto
  from this [OF obj] have "0 \<notin> fst ` set (set_shape obj)" unfolding shape_obj .
  ultimately show ?thesis using resp by blast
qed

text \<open>A vector set with one group of one test, answered by a module that leaves its test cases as they are.\<close>

definition safe_primes_cap :: AMVP_CAPS_LIST where
  "safe_primes_cap = \<lparr>cap_cipher = AMVP_SAFE_PRIMES_KEYGEN, cap_type = AMVP_SAFE_PRIMES_KEYGEN_TYPE, cap_has_prereq = 0, cap_prereq_vals = [],
     cap_data = Other_cap AMVP_SAFE_PRIMES_KEYGEN_TYPE, cap_crypto_handler = Some 0\<rparr>"

definition safe_primes_example :: JSON_Object where
  "safe_primes_example =
     [(''algorithm'', JSONString ''safePrimes''), (''mode'', JSONString ''keyGen''),
      (''testGroups'', JSONArray [JSONObject [(''tgId'', JSONNumber 3), (''testType'', JSONString ''AFT''), (''safePrimeGroup'', JSONString ''ffdhe2048''),
         (''tests'', JSONArray [JSONObject [(''tcId'', JSONNumber 1)]])]])]"

lemma safe_primes_index: "amvp_lookup_cipher_w_mode_index (Some ''safePrimes'') (Some ''keyGen'') = AMVP_SAFE_PRIMES_KEYGEN"
proof -
  have "List.member alg_tbl (alg_row AMVP_SAFE_PRIMES_KEYGEN amvp_safe_primes_kat_handler ''safePrimes'' (Some ''keyGen'') ''1.0'' AMVP_SUB_SAFE_PRIMES_KEYGEN)"
    by code_simp
  from w_mode_index_row [OF this [unfolded List.member_iff]] show ?thesis by (simp add: alg_row_def)
qed

definition safe_primes_session :: "unit SESSION" where
  "safe_primes_session = (init_session ())\<lparr>caps_list := [safe_primes_cap]\<rparr>"

definition idle_module :: "nat \<Rightarrow> AMVP_SAFE_PRIMES_TC \<Rightarrow> unit \<Rightarrow> AMVP_RESULT \<times> AMVP_SAFE_PRIMES_TC \<times> unit" where
  "idle_module c stc w = (AMVP_SUCCESS, stc, w)"

lemma safe_primes_example_names: "json_name ''safePrimeGroup''" "json_name ''mode''" "json_name ''x''" "json_name ''y''" "json_name ''tg_id''"
  by (simp_all add: json_name_def c_string_simps)

lemma safe_primes_example_words:
  "amvp_convert_dgm_string (Some ''ffdhe2048'') = AMVP_SAFE_PRIMES_FFDHE2048" "safe_primes_read_test_type (Some ''AFT'') = AMVP_SAFE_PRIMES_TT_AFT"
  "amvp_get_kas_alg AMVP_SAFE_PRIMES_KEYGEN = AMVP_SUB_SAFE_PRIMES_KEYGEN"
  by (simp add: amvp_convert_dgm_string_def read_literal_def strcmp_s_def RSIZE_MAX_STR_def)
    (simp add: safe_primes_read_test_type_def read_literal_def strcmp_s_def RSIZE_MAX_STR_def, code_simp)

lemma safe_primes_example_test:
  "safe_primes_test always_memory idle_module (Some 0) AMVP_SAFE_PRIMES_KEYGEN False (Some g) tg_id dgm (Some [(''tcId'', JSONNumber 1)]) () =
    Done (JSONObject [(''tcId'', JSONNumber 1), (''x'', JSONString []), (''y'', JSONString [])]) ()"
  if "json_object_get_string (Some g) ''testType'' = Some ''AFT''"
  using that
    by (simp add: hex_member_empty safe_primes_test_def int_field_def word_field_def text_field_def safe_primes_example_words run_case_def amvp_safe_primes_init_tc_def
        strictly_def alloc_into_def always_memory_def store_def call_crypto_def idle_module_def amvp_safe_primes_output_tc_def new_chars_def
        is_int32_def json_read json_build json_known safe_primes_example_names Let_def)

theorem safe_primes_numbers_lost_witness:
  "\<exists>ctx r. safe_primes_kat_handler always_memory idle_module (Some safe_primes_example) (Some safe_primes_session) = Ret AMVP_SUCCESS (Some ctx) \<and>
    kat_resp ctx = Some (JSONArray [JSONObject r]) \<and> map fst (set_shape (Some r)) = [0] \<and> map fst (set_shape (Some safe_primes_example)) = [3]"
proof -
  have shape: "map fst (set_shape (Some safe_primes_example)) = [3]"
    by (simp add: set_shape_def group_shape_def safe_primes_example_def json_read json_known safe_primes_example_names)
  obtain ctx where run: "safe_primes_kat_handler always_memory idle_module (Some safe_primes_example) (Some safe_primes_session) = Ret AMVP_SUCCESS (Some ctx)"
    by (simp add: safe_primes_kat_handler_def moded_frame_def with_cap_def safe_primes_rules_def plain_rules_def kat_answer_def
        amvp_setup_json_rsp_group_def safe_primes_example_def safe_primes_session_def safe_primes_cap_def safe_primes_index
        safe_primes_group_def with_tgId_or_def word_field_def text_field_def safe_primes_example_words each_test_def safe_primes_example_test
        amvp_locate_cap_entry_def is_int32_def json_read json_known safe_primes_example_names Let_def)
  from safe_primes_numbers_lost [OF run] show ?thesis using run shape by (auto simp: map_eq_Cons_conv)
qed

end
