(* ===== verification/Spec2Isabelle.thy ===== *)
theory Spec2Isabelle
  imports Lookup_Tables Hex_Codec Util_Lists Cap_Props Session_Run Kat_Hash Kat_Mac Register_Build Oe_Validation Kat_Drbg Kat_Aes_Props
    Kat_Order Kat_Safe_Primes
begin

text \<open>
  \<^bold>\<open>libamvp\<close>, a client library for the automated module validation protocol. An application
  registers the cryptographic capabilities of its module, each with a callback; the library
  logs in to a server, sends the registration, downloads the vector sets the server answers
  with, calls the callbacks for every test, submits the responses, waits for the results and
  may ask for a validation. File names below are relative to \<^verbatim>\<open>src/\<close>.

  \<^bold>\<open>The parts and their theories.\<close>

  \<^item> \<open>Amvp_Prelude\<close>: result codes and log levels (\<^verbatim>\<open>include/amvp/amvp.h\<close>), the shape of a C call (a
    code and the state after it, or one of the kinds of undefined behaviour), allocators,
    32-bit wrap-around.
  \<^item> \<open>Safe_C\<close>: the bounded string and memory functions of \<^verbatim>\<open>safe_c_stub/src\<close>, on buffers of their real
    size.
  \<^item> \<open>Amvp_Enums\<close>, \<open>Lookup_Tables\<close>: the enumerations of \<^verbatim>\<open>amvp.h\<close> and \<^verbatim>\<open>amvp_lcl.h\<close>, the algorithm
    table of \<^verbatim>\<open>src/amvp.c\<close>, and the lookups of \<^verbatim>\<open>src/amvp_util.c\<close> by identifier, name and mode.
    The locales \<open>name_column\<close> and \<open>id_table\<close> state what a table with distinct names and
    identifiers promises; every table of the library is an interpretation.
  \<^item> \<open>Hex_Codec\<close>: bytes to hexadecimal text and back (\<^verbatim>\<open>amvp_bin_to_hexstr\<close>, \<^verbatim>\<open>amvp_hexstr_to_bin\<close>).
  \<^item> \<open>Util_Lists\<close>: the linked lists of \<^verbatim>\<open>src/amvp_util.c\<close>; the locale \<open>append_list\<close> is their contract.
  \<^item> \<open>Cap_Registry\<close>: the capability list of a context (\<^verbatim>\<open>AMVP_CTX\<close>, \<^verbatim>\<open>AMVP_CAPS_LIST\<close>), its search,
    creation of entries for every kind of capability and prerequisites. The locale \<open>registry\<close>
    is the contract of a keyed list, interpreted for capabilities and, in \<open>Cap_Drbg\<close>, for modes
    and groups; \<open>union_member\<close> and \<open>cap_family\<close> are the contracts of a member of the capability
    union.
  \<^item> \<open>Cap_Sym\<close>, \<open>Cap_Hash\<close>, \<open>Cap_Mac\<close>, \<open>Cap_Drbg\<close>: the public operations of \<^verbatim>\<open>src/amvp_capabilities.c\<close>
    for symmetric ciphers, hash functions, HMAC, CMAC and KMAC, and random bit generators,
    with the checks of every value.
  \<^item> \<open>Cap_Api\<close>, \<open>Cap_Props\<close>: all these operations as calls of one interface, the relation of a
    context to the context after a call, the invariant of reachable contexts, and the
    properties of sequences of calls.
  \<^item> \<open>Json\<close>: JSON values and the accessors and setters of \<^verbatim>\<open>src/parson.c\<close> that the library uses.
  \<^item> \<open>Session_Poll\<close>, \<open>Session_Dispatch\<close>, \<open>Session_Results\<close>, \<open>Session_Run\<close>: the test session of
    \<^verbatim>\<open>src/amvp.c\<close>: the retry handler and the polling loops (\<^verbatim>\<open>amvp_process_vsid\<close>, \<^verbatim>\<open>amvp_process_teid\<close>),
    the dispatch of a vector set and the answer to an evidence set, the parsers of the
    server's answers, the results (\<^verbatim>\<open>amvp_get_result_test_session\<close>), and \<^verbatim>\<open>amvp_run\<close>.
  \<^item> \<open>Kat_Common\<close>, \<open>Kat_Hash\<close>, \<open>Kat_Mac\<close>: the handlers of vector sets of \<^verbatim>\<open>src/amvp_hash.c\<close>,
    \<^verbatim>\<open>src/amvp_hmac.c\<close>, \<^verbatim>\<open>src/amvp_cmac.c\<close> and \<^verbatim>\<open>src/amvp_kmac.c\<close>, written as sequences of steps.
  \<^item> \<open>Kat_Drbg\<close>: the handler of \<^verbatim>\<open>src/amvp_drbg.c\<close>. \<open>Kat_Aes\<close>: the handler of \<^verbatim>\<open>src/amvp_aes.c\<close>, the
    Monte Carlo tests included; its static arrays are an argument, since they keep their
    contents between calls. \<open>Kat_Aes_Mct\<close>, \<open>Kat_Aes_Props\<close>: its lemmas, with the block cipher
    modes as machines that the locale of the Monte Carlo test runs.
  \<^item> \<open>Kat_Frames\<close>: what the handlers of key derivation and signatures share. \<open>kat_rules\<close> are the
    choices in which their prologues differ, \<open>moded_frame\<close> and \<open>named_frame\<close> the prologues;
    \<open>yields\<close> is a calculus of what a step finishes with. The locale \<open>answering\<close> is the contract of
    a step for groups, \<open>answering_handler\<close> that of a handler; every handler below is an
    interpretation. \<open>Amvp_Limits\<close>: the limits of \<^verbatim>\<open>amvp_lcl.h\<close> and the enumerators they use.
  \<^item> \<open>Kat_Kdf135\<close>: \<^verbatim>\<open>src/amvp_kdf135_snmp.c\<close>, \<^verbatim>\<open>_srtp\<close>, \<^verbatim>\<open>_ssh\<close>, \<^verbatim>\<open>_x942\<close>, \<^verbatim>\<open>_x963\<close>, \<^verbatim>\<open>_ikev1\<close> and \<^verbatim>\<open>_ikev2\<close>.
    \<open>Kat_Kdf\<close>: \<^verbatim>\<open>src/amvp_kdf108.c\<close>, \<^verbatim>\<open>amvp_pbkdf.c\<close>, \<^verbatim>\<open>amvp_kdf_tls12.c\<close> and \<^verbatim>\<open>amvp_kdf_tls13.c\<close>.
    \<open>Kat_Kdf_Props\<close>: their interpretations and properties.
  \<^item> \<open>Kat_Lenient\<close>: test cases that are used although they could not be filled, and groups with
    members of their own. \<open>Kat_Ecdsa\<close>, \<open>Kat_Rsa_Sig\<close>, \<open>Kat_Rsa_Keys\<close>, \<open>Kat_Safe_Primes\<close>:
    \<^verbatim>\<open>src/amvp_ecdsa.c\<close>, \<^verbatim>\<open>amvp_rsa_sig.c\<close>, \<^verbatim>\<open>amvp_rsa_keygen.c\<close>, the signature primitive of
    \<^verbatim>\<open>amvp_rsa_prim.c\<close>, and \<^verbatim>\<open>amvp_safe_primes.c\<close>. \<open>Kat_Order\<close>: the property of all of them.
  \<^item> \<open>Register_Build\<close>: the registration message of \<^verbatim>\<open>src/amvp_build_register.c\<close>: the loop over the
    capabilities and the objects of the modelled families; the builders of the other families
    are an argument.
  \<^item> \<open>Oe_Metadata\<close>, \<open>Oe_Query\<close>: \<^verbatim>\<open>src/amvp_operating_env.c\<close>: the tables of vendors, modules,
    dependencies and operating environments, loading them from a file, selecting what is to be
    validated, looking it up in the database of the server; and the validation message.
  \<^item> \<open>Oe_Props\<close>, \<open>Oe_Validation\<close>: their invariant, and the properties of sequences of these calls.
  \<^item> this theory: the properties that span the session and the handlers.

  \<^bold>\<open>State and parameters.\<close> A context is the record \<open>AMVP_CTX\<close>, extended to \<open>SESSION\<close> by the fields a
  session uses. A null pointer is \<^const>\<open>None\<close>. Every error return, and every use of memory that C
  leaves undefined, is a value of the result. Memory allocation is a function that may fail at
  any point. What the library does not contain, or what only moves bytes in and out of it, is a
  parameter: the crypto module behind a callback, the network and the file system (\<^verbatim>\<open>libcurl\<close>,
  \<^verbatim>\<open>src/amvp_transport.c\<close>), sleeping, and the JSON parser; they are fields of \<open>env\<close> and \<open>run_env\<close>
  and return the state of the session, which holds a \<open>world\<close> of their own. Properties about them
  name their contracts: \<open>digests\<close>, \<open>hmacs\<close>, \<open>generates\<close>, \<open>runs_machine\<close> and \<open>derives_x963\<close> for a
  crypto module, \<open>counts\<close> for a clock and a network that only count.

  \<^bold>\<open>Loops.\<close> Loops over lists and arrays are structural recursion, the Monte Carlo loops count
  down from their fixed bounds (100 rounds of 1000). The two polling loops have no bound in the
  code; they end because the retry handler adds at least six seconds to a count that stops the
  loop at 7200, which is the measure of their termination proofs. The loop over the pages of a
  query, and one loop that counts the addresses of a vendor, may run forever; they are partial
  functions whose value is \<^const>\<open>None\<close> then. No fuel is used.

  \<^bold>\<open>What is shown.\<close> Lookups are inverse to each other and hexadecimal text decodes to the bytes it
  was made of. Every context that calls of the interface lead to satisfies the invariant of the
  registry; calls that keep to the cipher families never have undefined behaviour, and errors
  change nothing but in three setters. Polling always ends; a busy server is given up; a vector
  set reaches the handler of the algorithm that the table lookups give; a hash vector set is
  submitted with the answer an abstract definition prescribes, a Monte Carlo test with the
  digests of the reference algorithm, an HMAC vector set with the MAC of every message, a set
  for a random bit generator with the bits it generates, an AES set with what the machine of
  its mode gives, an X9.63 set with the derived keys. Fifteen further handlers, when they
  return success, have answered every group and test of the request, in its order. A run
  that returns success has done every stage. The registration message names exactly the ciphers
  that were registered. The metadata stays well formed whatever a file or the server says, and
  after a verification the validation message names every dependency once. Where the code deviates from what it means to do,
  the theorem states what it does: memory used after it is freed or before it is set, a
  division by zero, a failure reported as success, a flag that leaks into the next group.

  \<^bold>\<open>Not modelled.\<close> The text of log messages; freeing memory, apart from the places where it is
  used afterwards, freed twice or was never set; the parser and the serialiser of the JSON
  library, a copy of third-party code; the requests of \<^verbatim>\<open>src/amvp_transport.c\<close>, which move bytes;
  the setters and registration objects of the asymmetric, key derivation and key agreement
  capabilities, whose union members are kept as they are allocated; the handlers of Triple DES,
  DSA, key agreement, key transport and the one- and two-step key derivation; the RSA decryption
  primitive, which asks the crypto module again and again until enough results are failures and
  need not end; sessions resumed from files and the settings of a session.
\<close>

section \<open>A vector set from download to submission\<close>

text \<open>
  An environment runs the handler of hash vector sets when what the dispatcher calls for that
  row of the algorithm table is the model of the handler, wherever that is defined.
\<close>

definition runs_hash_handler :: "'w env \<Rightarrow> 'w hash_crypto \<Rightarrow> bool" where
  "runs_hash_handler env crypto \<longleftrightarrow>
     (\<forall>obj ctx rv ctx'. hash_kat_handler (mem env) crypto obj (Some ctx) = Ret rv (Some ctx') \<longrightarrow>
        run_handler env amvp_hash_kat_handler obj ctx = (rv, ctx'))"

lemma hash_set_dispatched:
  assumes "runs_hash_handler env crypto" and "c_string alg" and "amvp_lookup_cipher_index (Some alg) = c" and "c \<noteq> 0"
    and "alg_handler (alg_tbl ! (c - 1)) = amvp_hash_kat_handler"
    and "hash_kat_handler (mem env) crypto (Some (hash_request vs alg gs)) (Some (ctx\<lparr>vs_id := vs\<rparr>)) = Ret AMVP_SUCCESS (Some ctx')"
  shows "amvp_process_vector_set env (Some (hash_request vs alg gs)) ctx = (AMVP_SUCCESS, ctx')"
proof -
  have n: "json_name ''mode''" by (simp add: json_name_def c_string_def)
  have "amvp_dispatch_vector_set env (Some (hash_request vs alg gs)) ctx = (AMVP_SUCCESS, ctx')"
    using assms n
    by (subst dispatch_eq [where a = alg and mode = None])
      (auto simp: hash_request_def json_read json_known runs_hash_handler_def Let_def)
  then show ?thesis by (simp add: amvp_process_vector_set_def)
qed


text \<open>An environment whose only vector set has one hash test, and whose world is trivial.\<close>

definition hash_env :: "unit env" where
  "hash_env = (fixed_env (JSONArray [JSONObject (hash_request 7 ''SHA2-256'' [(1, [(1, [0xAB, 1])])])]))
     \<lparr>run_handler := (\<lambda>h obj ctx.
        case hash_kat_handler always_memory (first_byte_module aft_input) obj (Some ctx) of
          Ret rv (Some ctx') \<Rightarrow> (rv, ctx') | _ \<Rightarrow> (AMVP_INTERNAL_ERR, ctx))\<rparr>"


end
